(* ===== verification/Prelude.thy ===== *)
theory Prelude
  imports Main "HOL-Library.Word"
begin

text \<open>
  What every theory of the development shares: names for the machine integers of the code, C
  strings, the reader combinators in which the decoders are written, and the facts about bits and
  lists that the encoders and decoders need.
\<close>

unbundle bit_operations_syntax

section \<open>Machine types\<close>

text \<open>
  A \<open>gint\<close> and a \<open>guint\<close> are both 32-bit words; where the code reads one as signed the model says
  \<open>sint\<close>. A \<open>gsize\<close>, a \<open>guint64\<close> and a \<open>GType\<close> are 64-bit words (an LP64 host). A \<open>gdouble\<close> and a
  \<open>gfloat\<close> are their bit patterns: the code moves them and never computes with them on the wire.
\<close>

type_synonym u8 = "8 word"
type_synonym u32 = "32 word"
type_synonym u64 = "64 word"
type_synonym gint = "32 word"
type_synonym guint = "32 word"
type_synonym gsize = "64 word"
type_synonym gtype = "64 word"
type_synonym gdouble_bits = "64 word"
type_synonym gfloat_bits = "32 word"

text \<open>
  A C string is the list of the bytes before its terminating NUL, so \<open>strlen\<close> is \<open>length\<close>; a list is
  such a string when it holds no NUL. \<open>c_string_of\<close> is what a reader of a \<open>char\<close> pointer sees of a
  memory block.
\<close>

type_synonym cstring = "u8 list"

definition cstring_ok :: "cstring \<Rightarrow> bool" where
  "cstring_ok s \<longleftrightarrow> 0 \<notin> set s"

definition c_string_of :: "u8 list \<Rightarrow> cstring" where
  "c_string_of block = takeWhile (\<lambda>c. c \<noteq> 0) block"

lemma c_string_of_terminated [simp]:
  "cstring_ok s \<Longrightarrow> c_string_of (s @ 0 # junk) = s"
  unfolding c_string_of_def cstring_ok_def
  by (subst takeWhile_append2) (auto simp: in_set_conv_decomp)

lemma cstring_ok_c_string_of [simp]: "cstring_ok (c_string_of block)"
  unfolding c_string_of_def cstring_ok_def by (auto dest: set_takeWhileD)

text \<open>GLib\<close>

definition g_ascii_tolower :: "u8 \<Rightarrow> u8" where
  "g_ascii_tolower c = (if 65 \<le> c \<and> c \<le> 90 then c + 32 else c)"

section \<open>Assertions\<close>

text \<open>
  A function that ends in \<open>g_assert_not_reached\<close> or a failed \<open>g_assert\<close> stops the program; a guard of
  \<open>g_return_val_if_fail\<close> logs a message and returns, and is an ordinary branch.
\<close>

datatype 'a c_result = Returns 'a | Aborts

section \<open>Readers\<close>

text \<open>
  A decoder takes a state and gives an outcome and the state it leaves; after a failure too, because
  the code has consumed what it read by then. The outcome is a value (the code returns TRUE and has
  stored it), Failed (the code returns FALSE) or Fault: an access outside an allocated block, which C
  leaves undefined. The memory-safety theorems say that a decoder has no Fault.
\<close>

datatype 'a outcome = Value 'a | Failed | Fault

type_synonym ('s, 'a) reader = "'s \<Rightarrow> 'a outcome \<times> 's"

definition rd_return :: "'a \<Rightarrow> ('s, 'a) reader" where
  "rd_return a s = (Value a, s)"

definition rd_fail :: "('s, 'a) reader" where
  "rd_fail s = (Failed, s)"

definition rd_fault :: "('s, 'a) reader" where
  "rd_fault s = (Fault, s)"

definition rd_bind :: "('s, 'a) reader \<Rightarrow> ('a \<Rightarrow> ('s, 'b) reader) \<Rightarrow> ('s, 'b) reader" where
  "rd_bind m f s =
     (case m s of (Value a, s') \<Rightarrow> f a s' | (Failed, s') \<Rightarrow> (Failed, s') | (Fault, s') \<Rightarrow> (Fault, s'))"

text \<open>\<open>if (!p) return FALSE;\<close>\<close>

definition rd_guard :: "bool \<Rightarrow> ('s, 'a) reader \<Rightarrow> ('s, 'a) reader" where
  "rd_guard p m = (if p then m else rd_fail)"

text \<open>A value of the state, and an access that must stay inside a block.\<close>

definition rd_gets :: "('s \<Rightarrow> 'a) \<Rightarrow> ('s, 'a) reader" where
  "rd_gets f s = (Value (f s), s)"

definition rd_access :: "'a option \<Rightarrow> ('s, 'a) reader" where
  "rd_access x = (case x of None \<Rightarrow> rd_fault | Some a \<Rightarrow> rd_return a)"

named_theorems rd_simps "evaluation of readers"

lemma rd_return_eval [rd_simps]: "rd_return a s = (Value a, s)"
  by (simp add: rd_return_def)

lemma rd_fail_eval [rd_simps]: "rd_fail s = (Failed, s)"
  by (simp add: rd_fail_def)

lemma rd_gets_eval [rd_simps]: "rd_gets f s = (Value (f s), s)"
  by (simp add: rd_gets_def)

lemma rd_access_eval [rd_simps]:
  "rd_access None s = (Fault, s)"
  "rd_access (Some a) s = (Value a, s)"
  by (simp_all add: rd_access_def rd_fault_def rd_return_def)

lemma rd_bind_Value [rd_simps]: "m s = (Value a, s') \<Longrightarrow> rd_bind m f s = f a s'"
  by (simp add: rd_bind_def)

lemma rd_bind_gets [rd_simps]: "rd_bind (rd_gets g) f s = f (g s) s"
  by (simp add: rd_bind_def rd_gets_def)

lemma rd_bind_Failed [rd_simps]: "m s = (Failed, s') \<Longrightarrow> rd_bind m f s = (Failed, s')"
  by (simp add: rd_bind_def)

lemma rd_bind_Fault [rd_simps]: "m s = (Fault, s') \<Longrightarrow> rd_bind m f s = (Fault, s')"
  by (simp add: rd_bind_def)

lemma rd_guard_True [rd_simps]: "p \<Longrightarrow> rd_guard p m = m"
  by (simp add: rd_guard_def)

lemma rd_guard_False [rd_simps]: "\<not> p \<Longrightarrow> rd_guard p m = rd_fail"
  by (simp add: rd_guard_def)

lemma rd_bind_ValueE:
  assumes "rd_bind m f s = (Value b, t)"
  obtains a s' where "m s = (Value a, s')" "f a s' = (Value b, t)"
  using assms by (auto simp: rd_bind_def split: prod.splits outcome.splits)

lemma rd_guard_ValueE:
  assumes "rd_guard p m s = (Value b, t)"
  obtains "p" "m s = (Value b, t)"
  using assms by (auto simp: rd_guard_def rd_fail_def split: if_splits)

subsection \<open>Safe readers\<close>

text \<open>
  A reader is safe for an invariant \<open>I\<close> and a step relation \<open>R\<close> when, from any state with the
  invariant, it has no Fault, keeps the invariant and moves along the relation. The combinators keep
  this, so a decoder is safe when its primitive reads are.
\<close>

definition safe_reader :: "('s \<Rightarrow> bool) \<Rightarrow> ('s \<Rightarrow> 's \<Rightarrow> bool) \<Rightarrow> ('s, 'a) reader \<Rightarrow> bool" where
  "safe_reader I R m \<longleftrightarrow> (\<forall>s. I s \<longrightarrow> fst (m s) \<noteq> Fault \<and> I (snd (m s)) \<and> R s (snd (m s)))"

text \<open>A reader that moves along the relation from any state at all, with the invariant or not.\<close>

definition rd_along :: "('s \<Rightarrow> 's \<Rightarrow> bool) \<Rightarrow> ('s, 'a) reader \<Rightarrow> bool" where
  "rd_along R m \<longleftrightarrow> (\<forall>s. R s (snd (m s)))"

locale reader_order =
  fixes R :: "'s \<Rightarrow> 's \<Rightarrow> bool"
  assumes R_refl: "R s s"
    and R_trans: "R s t \<Longrightarrow> R t u \<Longrightarrow> R s u"
begin

lemma along_const:
  "rd_along R (rd_return a)" "rd_along R rd_fail" "rd_along R (rd_gets f)" "rd_along R (rd_access x)"
  by (simp_all add: rd_along_def rd_return_def rd_fail_def rd_gets_def rd_access_def rd_fault_def R_refl
      split: option.splits)

lemma along_bind:
  "rd_along R m \<Longrightarrow> (\<And>a. rd_along R (f a)) \<Longrightarrow> rd_along R (rd_bind m f)"
  unfolding rd_along_def rd_bind_def
  by (auto split: prod.splits outcome.splits) (metis R_trans snd_conv)+

lemma along_guard: "rd_along R m \<Longrightarrow> rd_along R (rd_guard p m)"
  by (simp add: rd_guard_def along_const)

lemma along_if: "rd_along R m \<Longrightarrow> rd_along R m' \<Longrightarrow> rd_along R (if p then m else m')"
  by simp

lemmas along_intros = along_const along_bind along_guard along_if

lemma alongD: "rd_along R m \<Longrightarrow> m s = (x, t) \<Longrightarrow> R s t"
  by (auto simp: rd_along_def dest!: spec [of _ s])

end

locale reader_safety = reader_order R for R :: "'s \<Rightarrow> 's \<Rightarrow> bool" +
  fixes I :: "'s \<Rightarrow> bool"
begin

lemma safe_return: "safe_reader I R (rd_return a)"
  by (simp add: safe_reader_def rd_return_def R_refl)

lemma safe_fail: "safe_reader I R rd_fail"
  by (simp add: safe_reader_def rd_fail_def R_refl)

lemma safe_gets: "safe_reader I R (rd_gets f)"
  by (simp add: safe_reader_def rd_gets_def R_refl)

lemma safe_bind:
  assumes m: "safe_reader I R m" and f: "\<And>a. safe_reader I R (f a)"
  shows "safe_reader I R (rd_bind m f)"
  unfolding safe_reader_def
proof (intro allI impI)
  fix s
  assume I: "I s"
  obtain r s' where ms: "m s = (r, s')" by (cases "m s")
  with m I have s': "r \<noteq> Fault" "I s'" "R s s'"
    by (auto simp: safe_reader_def dest!: spec [of _ s])
  show "fst (rd_bind m f s) \<noteq> Fault \<and> I (snd (rd_bind m f s)) \<and> R s (snd (rd_bind m f s))"
  proof (cases r)
    case (Value a)
    have "fst (f a s') \<noteq> Fault \<and> I (snd (f a s')) \<and> R s' (snd (f a s'))"
      using f [of a] s'(2) by (simp add: safe_reader_def)
    with Value ms s' show ?thesis
      by (auto simp: rd_bind_def intro: R_trans)
  qed (use ms s' in \<open>auto simp: rd_bind_def\<close>)
qed

lemma safe_guard: "safe_reader I R m \<Longrightarrow> safe_reader I R (rd_guard p m)"
  by (simp add: rd_guard_def safe_fail)

lemma safe_if:
  "safe_reader I R m \<Longrightarrow> safe_reader I R m' \<Longrightarrow> safe_reader I R (if p then m else m')"
  by simp

lemmas safe_intros = safe_return safe_fail safe_gets safe_bind safe_guard safe_if

end

section \<open>Blocks of memory\<close>

text \<open>\<open>m[i] = v\<close> for a block \<open>m\<close>: None when the index is outside the block.\<close>

definition blk_store :: "u8 list \<Rightarrow> nat \<Rightarrow> u8 \<Rightarrow> u8 list option" where
  "blk_store m i v = (if i < length m then Some (m[i := v]) else None)"

text \<open>\<open>memcpy\<close> of \<open>data\<close> to the start of a block \<open>m\<close>.\<close>

definition blk_memcpy :: "u8 list \<Rightarrow> u8 list \<Rightarrow> u8 list option" where
  "blk_memcpy m data =
     (if length data \<le> length m then Some (data @ drop (length data) m) else None)"

text \<open>
  \<open>g_malloc(n)\<close>: a block of \<open>n\<close> bytes. Its content is not specified; the code overwrites every byte
  of it before reading one, so the zeros of the model are never seen.
\<close>

definition blk_malloc :: "nat \<Rightarrow> u8 list" where
  "blk_malloc n = replicate n 0"

lemma length_blk_malloc [simp]: "length (blk_malloc n) = n"
  by (simp add: blk_malloc_def)

section \<open>Bits and lists\<close>

lemma byte_mask7: "(0x7F :: 'a::len word) = mask 7"
  by (simp add: mask_eq_exp_minus_1)

lemma split_low7:
  fixes w :: "'a::len word"
  shows "push_bit n (w AND 0x7F) OR push_bit (n + 7) (drop_bit 7 w) = push_bit n w"
  unfolding byte_mask7
proof (rule bit_word_eqI)
  fix k
  assume "k < LENGTH('a)"
  moreover have "7 + (k - (n + 7)) = k - n" if "\<not> k - n < 7"
    using that by simp
  ultimately show "bit (push_bit n (w AND mask 7) OR push_bit (n + 7) (drop_bit 7 w)) k
      = bit (push_bit n w) k"
    by (cases "k - n < 7") (auto simp: bit_simps)
qed

lemma drop_bit7_less:
  fixes w :: "'a::len word"
  assumes "drop_bit 7 w \<noteq> 0"
  shows "unat (drop_bit 7 w) < unat w"
proof -
  have "unat (drop_bit 7 w) = unat w div 128"
    by (simp add: unat_drop_bit_eq drop_bit_eq_div [where 'a = nat])
  moreover have "w \<noteq> 0"
    using assms by auto
  then have "unat w \<noteq> 0"
    by (simp add: unat_eq_0)
  ultimately show ?thesis by simp
qed

lemma unat_bounded: "unat (w :: 'a::len word) < 2 ^ LENGTH('a)"
  by (rule unsigned_less)

lemma unat_word_of_nat: "n < 2 ^ LENGTH('a) \<Longrightarrow> unat (word_of_nat n :: 'a::len word) = n"
  by (simp add: unsigned_of_nat take_bit_nat_eq_self)

lemma sint_word_of_nat: "n < 2 ^ 31 \<Longrightarrow> sint (word_of_nat n :: gint) = int n"
  by (simp add: signed_of_nat signed_take_bit_int_eq_self)

lemma int_unat_gint:
  fixes w :: gint
  assumes "0 \<le> sint w"
  shows "int (unat w) = sint w"
proof -
  have "uint w = sint w mod 2 ^ 32"
    unfolding uint_sint by (simp add: take_bit_eq_mod)
  also have "\<dots> = sint w"
    using assms sint_less [of w] by simp
  finally show ?thesis by (simp only: uint_nat [symmetric])
qed

lemma drop_bit_eq_0_iff: "drop_bit n w = 0 \<longleftrightarrow> unat w < 2 ^ n"
  for w :: "'a::len word"
proof -
  have "drop_bit n w = 0 \<longleftrightarrow> unat (drop_bit n w) = 0"
    by (simp add: unat_eq_0)
  also have "\<dots> \<longleftrightarrow> unat w div 2 ^ n = 0"
    by (simp add: unat_drop_bit_eq drop_bit_eq_div [where 'a = nat])
  finally show ?thesis by (simp add: div_eq_0_iff)
qed

lemma drop_bit7_eq_0_iff: "drop_bit 7 w = 0 \<longleftrightarrow> unat w < 128"
  for w :: "'a::len word"
  using drop_bit_eq_0_iff [of 7 w] by simp

lemma take_bit_id_iff: "take_bit n w = w \<longleftrightarrow> unat w < 2 ^ n"
  for w :: "'a::len word"
  by (simp add: take_bit_eq_self_iff_drop_bit_eq_0 drop_bit_eq_0_iff)

lemma unat_7F: "8 \<le> LENGTH('a) \<Longrightarrow> unat (0x7F :: 'a::len word) = 127"
proof -
  assume "8 \<le> LENGTH('a)"
  then have "(2 :: nat) ^ 8 \<le> 2 ^ LENGTH('a)"
    by (rule power_increasing) simp
  then show ?thesis
    by (simp add: unsigned_numeral take_bit_eq_mod)
qed

end
