(* ===== verification/Egg_Time.thy ===== *)
theory Egg_Time
  imports Prelude
begin

text \<open>
  The \<open>struct timespec\<close> helpers of cut-n-paste/egg-time.h. The fields are a signed \<open>time_t\<close> and a
  signed \<open>long\<close>, modelled in \<open>int\<close> (their overflow is undefined in C); the conversions to and from
  \<open>guint64\<close> microseconds are on 64-bit words, with the wrap-around of the C conversions.
\<close>

unbundle bit_operations_syntax

section \<open>Operations\<close>

record timespec =
  tv_sec :: int
  tv_nsec :: int

definition G_NSEC_PER_SEC :: int where
  "G_NSEC_PER_SEC = 1000000000"

definition G_USEC_PER_SEC :: u64 where
  "G_USEC_PER_SEC = 1000000"

definition timespec_compare :: "timespec \<Rightarrow> timespec \<Rightarrow> int" where
  "timespec_compare ts1 ts2 =
     (if tv_sec ts1 = tv_sec ts2 \<and> tv_nsec ts1 = tv_nsec ts2 then 0
      else if tv_sec ts1 > tv_sec ts2 \<or> (tv_sec ts1 = tv_sec ts2 \<and> tv_nsec ts1 > tv_nsec ts2)
      then 1
      else - 1)"

definition timespec_subtract :: "timespec \<Rightarrow> timespec \<Rightarrow> timespec" where
  "timespec_subtract x y =
     (let sec = tv_sec x - tv_sec y; nsec = tv_nsec x - tv_nsec y
      in if nsec < 0 then \<lparr>tv_sec = sec - 1, tv_nsec = nsec + G_NSEC_PER_SEC\<rparr>
         else \<lparr>tv_sec = sec, tv_nsec = nsec\<rparr>)"

definition timespec_add :: "timespec \<Rightarrow> timespec \<Rightarrow> timespec" where
  "timespec_add x y =
     (let sec = tv_sec x + tv_sec y; nsec = tv_nsec x + tv_nsec y
      in if nsec > G_NSEC_PER_SEC then \<lparr>tv_sec = sec + 1, tv_nsec = nsec - G_NSEC_PER_SEC\<rparr>
         else \<lparr>tv_sec = sec, tv_nsec = nsec\<rparr>)"

definition timespec_to_usec :: "timespec \<Rightarrow> u64" where
  "timespec_to_usec t = word_of_int (tv_sec t) * G_USEC_PER_SEC + word_of_int (tv_nsec t) div 1000"

definition timespec_from_usec :: "u64 \<Rightarrow> timespec" where
  "timespec_from_usec u =
     \<lparr>tv_sec = uint (u div G_USEC_PER_SEC), tv_nsec = uint ((u mod G_USEC_PER_SEC) * 1000)\<rparr>"

section \<open>What they compute\<close>

text \<open>
  The instant a \<open>timespec\<close> stands for, in nanoseconds, and the normal form in which \<open>clock_gettime\<close>
  delivers one.
\<close>

definition ts_nanos :: "timespec \<Rightarrow> int" where
  "ts_nanos t = tv_sec t * 1000000000 + tv_nsec t"

definition ts_normal :: "timespec \<Rightarrow> bool" where
  "ts_normal t \<longleftrightarrow> 0 \<le> tv_nsec t \<and> tv_nsec t < 1000000000"

lemmas ts_defs = ts_nanos_def ts_normal_def G_NSEC_PER_SEC_def G_USEC_PER_SEC_def

lemma ts_nanos_mono_sec:
  "ts_normal a \<Longrightarrow> ts_normal b \<Longrightarrow> tv_sec a < tv_sec b \<Longrightarrow> ts_nanos a < ts_nanos b"
  unfolding ts_defs by linarith

lemma ts_nanos_less_iff:
  assumes "ts_normal a" "ts_normal b"
  shows "ts_nanos a < ts_nanos b \<longleftrightarrow>
    tv_sec a < tv_sec b \<or> tv_sec a = tv_sec b \<and> tv_nsec a < tv_nsec b"
proof (cases "tv_sec a" "tv_sec b" rule: linorder_cases)
  case less
  then show ?thesis using ts_nanos_mono_sec [OF assms] by simp
next
  case equal
  then show ?thesis by (simp add: ts_nanos_def)
next
  case greater
  then show ?thesis using ts_nanos_mono_sec [OF assms(2) assms(1)] by simp
qed

lemma ts_nanos_inject:
  assumes "ts_normal a" "ts_normal b"
  shows "ts_nanos a = ts_nanos b \<longleftrightarrow> a = b"
  using ts_nanos_less_iff [OF assms] ts_nanos_less_iff [OF assms(2) assms(1)]
  by (auto intro: timespec.equality)

lemma timespec_compare_sgn:
  assumes "ts_normal a" "ts_normal b"
  shows "timespec_compare a b = sgn (ts_nanos a - ts_nanos b)"
proof (cases "ts_nanos a" "ts_nanos b" rule: linorder_cases)
  case less
  then show ?thesis
    using ts_nanos_less_iff [OF assms] unfolding timespec_compare_def by auto
next
  case equal
  then show ?thesis
    using ts_nanos_inject [OF assms] unfolding timespec_compare_def by simp
next
  case greater
  then show ?thesis
    using ts_nanos_less_iff [OF assms(2) assms(1)] unfolding timespec_compare_def by auto
qed

lemma ts_nanos_subtract [simp]: "ts_nanos (timespec_subtract x y) = ts_nanos x - ts_nanos y"
  unfolding timespec_subtract_def ts_defs by (simp add: Let_def)

lemma ts_nanos_add [simp]: "ts_nanos (timespec_add x y) = ts_nanos x + ts_nanos y"
  unfolding timespec_add_def ts_defs by (simp add: Let_def)

lemma timespec_subtract_normal:
  "ts_normal x \<Longrightarrow> ts_normal y \<Longrightarrow> ts_normal (timespec_subtract x y)"
  unfolding timespec_subtract_def ts_defs by (simp add: Let_def)

text \<open>
  \<open>timespec_add\<close> carries only when the nanoseconds exceed a second, so a sum of exactly one second is
  left with \<open>tv_nsec\<close> at 1000000000. Its result is normal in every other case.
\<close>

lemma timespec_add_normal_iff:
  "ts_normal x \<Longrightarrow> ts_normal y \<Longrightarrow>
     ts_normal (timespec_add x y) \<longleftrightarrow> tv_nsec x + tv_nsec y \<noteq> 1000000000"
  unfolding timespec_add_def ts_defs by (auto simp: Let_def)

lemma timespec_add_subtract_iff:
  assumes "ts_normal x" "ts_normal y"
  shows "timespec_add (timespec_subtract x y) y = x \<longleftrightarrow> \<not> (tv_nsec x = 0 \<and> tv_nsec y \<noteq> 0)"
  using assms unfolding timespec_add_def timespec_subtract_def ts_defs
  by (cases x; cases y) (auto simp: Let_def)

section \<open>Microseconds\<close>

lemma uint_usec_rest: "uint ((u mod 1000000 :: u64) * 1000) = (uint u mod 1000000) * 1000"
proof -
  have "0 \<le> uint u mod 1000000" "uint u mod 1000000 < 1000000"
    by simp_all
  then show ?thesis
    by (simp add: uint_word_ariths uint_mod)
qed

lemma timespec_from_usec_normal: "ts_normal (timespec_from_usec u)"
proof -
  have "0 \<le> uint u mod 1000000" "uint u mod 1000000 < 1000000"
    by simp_all
  then show ?thesis
    unfolding timespec_from_usec_def ts_defs by (simp add: uint_usec_rest)
qed

lemma ts_nanos_from_usec: "ts_nanos (timespec_from_usec u) = uint u * 1000"
proof -
  have "ts_nanos (timespec_from_usec u)
      = uint u div 1000000 * 1000000000 + uint u mod 1000000 * 1000"
    unfolding timespec_from_usec_def ts_defs by (simp add: uint_usec_rest uint_div)
  also have "\<dots> = uint u * 1000"
    using div_mult_mod_eq [of "uint u" 1000000] by linarith
  finally show ?thesis .
qed

lemma uint_timespec_to_usec:
  assumes n: "ts_normal t"
  shows "uint (timespec_to_usec t) = ts_nanos t div 1000 mod 2 ^ 64"
proof -
  have nn: "0 \<le> tv_nsec t" "tv_nsec t < 1000000000"
    using n unfolding ts_defs by auto
  have "uint (word_of_int (tv_nsec t) :: u64) = tv_nsec t"
    using nn by (simp add: uint_word_of_int)
  then have "(word_of_int (tv_nsec t) div 1000 :: u64) = word_of_int (tv_nsec t div 1000)"
    by (simp add: word_div_def)
  then have "timespec_to_usec t = word_of_int (tv_sec t * 1000000 + tv_nsec t div 1000)"
    unfolding timespec_to_usec_def G_USEC_PER_SEC_def by simp
  moreover have "tv_sec t * 1000000 + tv_nsec t div 1000 = ts_nanos t div 1000"
    using div_mult_self3 [of 1000 "tv_sec t * 1000000" "tv_nsec t"]
    by (simp add: ts_nanos_def algebra_simps)
  ultimately show ?thesis
    by (simp add: uint_word_of_int)
qed

section \<open>Properties\<close>

text \<open>
  \<open>timespec_compare\<close> orders normal times as the instants they stand for.
\<close>

theorem timespec_compare_is_order:
  assumes "ts_normal a" "ts_normal b"
  shows "timespec_compare a b = sgn (ts_nanos a - ts_nanos b)"
  by (rule timespec_compare_sgn [OF assms])

theorem timespec_compare_is_order_witness:
  "timespec_compare \<lparr>tv_sec = 2, tv_nsec = 5\<rparr> \<lparr>tv_sec = 1, tv_nsec = 999999999\<rparr> = 1"
  using timespec_compare_is_order [of "\<lparr>tv_sec = 2, tv_nsec = 5\<rparr>" "\<lparr>tv_sec = 1, tv_nsec = 999999999\<rparr>"]
  by (simp add: ts_normal_def ts_nanos_def)

text \<open>
  Adding back what was subtracted gives the time again, except when its nanoseconds are 0 and the
  subtrahend's are not: then the sum is exactly a second, which \<open>timespec_add\<close> does not carry.
\<close>

theorem timespec_add_undoes_subtract:
  assumes "ts_normal x" "ts_normal y"
  shows "timespec_add (timespec_subtract x y) y = x \<longleftrightarrow> tv_nsec x \<noteq> 0 \<or> tv_nsec y = 0"
  using timespec_add_subtract_iff [OF assms] by blast

theorem timespec_add_undoes_subtract_witness:
  "timespec_add (timespec_subtract \<lparr>tv_sec = 7, tv_nsec = 0\<rparr> \<lparr>tv_sec = 3, tv_nsec = 1\<rparr>)
     \<lparr>tv_sec = 3, tv_nsec = 1\<rparr> \<noteq> \<lparr>tv_sec = 7, tv_nsec = 0\<rparr>"
  using timespec_add_undoes_subtract [of "\<lparr>tv_sec = 7, tv_nsec = 0\<rparr>" "\<lparr>tv_sec = 3, tv_nsec = 1\<rparr>"]
  by (simp add: ts_normal_def)

end
