(* ===== verification/Wire_Types.thy ===== *)
theory Wire_Types
  imports Egg_Time
begin

text \<open>
  The types that the agent and the client share on the wire: the \<open>GType\<close> numbers of the fundamental
  types, the values of a sample's fields, and the resolutions of its relative timestamps
  (perfkit-agent/pka-manifest.h and perfkit/pk-manifest.h declare the same enumerators).
\<close>

unbundle bit_operations_syntax

section \<open>GType numbers\<close>

text \<open>
  The names are GLib's. The numbers behind them are GLib's too, so they are a parameter
  \<open>gt :: gtypes\<close> of the definitions that compare or send them. What the code relies on is \<open>gtypes_ok\<close>:
  different types have different numbers, \<open>G_TYPE_INVALID\<close> is 0, and a fundamental type's number fits
  in 32 bits. The numbers GLib documents are the instance in the examples.
\<close>

datatype g_fundamental =
    G_TYPE_INVALID | G_TYPE_CHAR | G_TYPE_BOOLEAN | G_TYPE_INT | G_TYPE_UINT | G_TYPE_LONG
  | G_TYPE_ULONG | G_TYPE_INT64 | G_TYPE_UINT64 | G_TYPE_FLOAT | G_TYPE_DOUBLE | G_TYPE_STRING

type_synonym gtypes = "g_fundamental \<Rightarrow> gtype"

definition gtypes_ok :: "gtypes \<Rightarrow> bool" where
  "gtypes_ok gt \<longleftrightarrow> inj gt \<and> gt G_TYPE_INVALID = 0 \<and> (\<forall>f. unat (gt f) < 2 ^ 32)"

fun glib_gtypes :: gtypes where
  "glib_gtypes G_TYPE_INVALID = 0"
| "glib_gtypes G_TYPE_CHAR = push_bit 2 3"
| "glib_gtypes G_TYPE_BOOLEAN = push_bit 2 5"
| "glib_gtypes G_TYPE_INT = push_bit 2 6"
| "glib_gtypes G_TYPE_UINT = push_bit 2 7"
| "glib_gtypes G_TYPE_LONG = push_bit 2 8"
| "glib_gtypes G_TYPE_ULONG = push_bit 2 9"
| "glib_gtypes G_TYPE_INT64 = push_bit 2 10"
| "glib_gtypes G_TYPE_UINT64 = push_bit 2 11"
| "glib_gtypes G_TYPE_FLOAT = push_bit 2 14"
| "glib_gtypes G_TYPE_DOUBLE = push_bit 2 15"
| "glib_gtypes G_TYPE_STRING = push_bit 2 16"

lemma gtypes_ok_glib: "gtypes_ok glib_gtypes"
proof -
  have "inj glib_gtypes"
  proof (rule injI)
    fix f g
    show "glib_gtypes f = glib_gtypes g \<Longrightarrow> f = g"
      by (cases f; cases g) simp_all
  qed
  moreover have "unat (glib_gtypes f) < 2 ^ 32" for f
    by (cases f) simp_all
  ultimately show ?thesis by (simp add: gtypes_ok_def)
qed

lemma ucast_ucast_32: "(ucast (ucast w :: guint) :: gtype) = take_bit 32 w"
  by (rule bit_word_eqI) (auto simp: bit_simps)

lemma gtypes_ok_simps:
  assumes "gtypes_ok gt"
  shows "gt f = gt g \<longleftrightarrow> f = g" "gt f = 0 \<longleftrightarrow> f = G_TYPE_INVALID"
    "(ucast (ucast (gt f) :: guint) :: gtype) = gt f"
proof -
  show eq: "gt f = gt g \<longleftrightarrow> f = g" for f g
    using assms by (auto simp: gtypes_ok_def inj_eq)
  show "gt f = 0 \<longleftrightarrow> f = G_TYPE_INVALID"
    using assms eq [of f G_TYPE_INVALID] by (simp add: gtypes_ok_def)
  have "unat (gt f) < 2 ^ 32"
    using assms by (simp add: gtypes_ok_def)
  then have "take_bit 32 (gt f) = gt f"
    by (simp add: take_bit_id_iff)
  then show "(ucast (ucast (gt f) :: guint) :: gtype) = gt f"
    by (simp add: ucast_ucast_32)
qed

section \<open>Values\<close>

text \<open>A \<open>GValue\<close> of one of the types that a sample can carry to the client.\<close>

datatype g_value =
    V_INT gint | V_UINT guint | V_INT64 u64 | V_UINT64 u64
  | V_DOUBLE gdouble_bits | V_FLOAT gfloat_bits | V_STRING cstring

fun value_type :: "g_value \<Rightarrow> g_fundamental" where
  "value_type (V_INT _) = G_TYPE_INT"
| "value_type (V_UINT _) = G_TYPE_UINT"
| "value_type (V_INT64 _) = G_TYPE_INT64"
| "value_type (V_UINT64 _) = G_TYPE_UINT64"
| "value_type (V_DOUBLE _) = G_TYPE_DOUBLE"
| "value_type (V_FLOAT _) = G_TYPE_FLOAT"
| "value_type (V_STRING _) = G_TYPE_STRING"

fun value_ok :: "g_value \<Rightarrow> bool" where
  "value_ok (V_STRING s) = cstring_ok s"
| "value_ok _ = True"

section \<open>Resolutions\<close>

datatype resolution =
    RESOLUTION_USEC | RESOLUTION_MSEC | RESOLUTION_SECOND | RESOLUTION_MINUTE | RESOLUTION_HOUR

text \<open>The numbers of the enumerators, and the resolution of a number that has one.\<close>

fun resolution_number :: "resolution \<Rightarrow> guint" where
  "resolution_number RESOLUTION_USEC = 0"
| "resolution_number RESOLUTION_MSEC = 1"
| "resolution_number RESOLUTION_SECOND = 2"
| "resolution_number RESOLUTION_MINUTE = 3"
| "resolution_number RESOLUTION_HOUR = 4"

definition resolution_of :: "guint \<Rightarrow> resolution" where
  "resolution_of n =
     (if n = 0 then RESOLUTION_USEC
      else if n = 1 then RESOLUTION_MSEC
      else if n = 2 then RESOLUTION_SECOND
      else if n = 3 then RESOLUTION_MINUTE
      else RESOLUTION_HOUR)"

lemma resolution_of_number [simp]: "resolution_of (resolution_number r) = r"
  by (cases r) (simp_all add: resolution_of_def)

lemma resolution_number_inject [simp]: "resolution_number r = resolution_number r' \<longleftrightarrow> r = r'"
  by (metis resolution_of_number)

text \<open>Resolutions are ordered from fine to coarse, as their numbers are.\<close>

instantiation resolution :: linorder
begin

definition less_eq_resolution :: "resolution \<Rightarrow> resolution \<Rightarrow> bool" where
  "r \<le> r' \<longleftrightarrow> resolution_number r \<le> resolution_number r'"

definition less_resolution :: "resolution \<Rightarrow> resolution \<Rightarrow> bool" where
  "r < r' \<longleftrightarrow> resolution_number r < resolution_number r'"

instance
proof
  fix x y z :: resolution
  show "(x < y) = (x \<le> y \<and> \<not> y \<le> x)"
    by (simp add: less_eq_resolution_def less_resolution_def less_le_not_le)
  show "x \<le> x"
    by (simp add: less_eq_resolution_def)
  show "x \<le> y \<Longrightarrow> y \<le> z \<Longrightarrow> x \<le> z"
    unfolding less_eq_resolution_def by (rule order.trans)
  show "x \<le> y \<Longrightarrow> y \<le> x \<Longrightarrow> x = y"
    by (simp add: less_eq_resolution_def order.antisym)
  show "x \<le> y \<or> y \<le> x"
    unfolding less_eq_resolution_def by (rule linear)
qed

end

lemma resolution_le_hour: "r \<le> RESOLUTION_HOUR"
  by (cases r) (simp_all add: less_eq_resolution_def)

text \<open>The unit of a resolution in microseconds.\<close>

fun resolution_unit :: "resolution \<Rightarrow> int" where
  "resolution_unit RESOLUTION_USEC = 1"
| "resolution_unit RESOLUTION_MSEC = 1000"
| "resolution_unit RESOLUTION_SECOND = 1000000"
| "resolution_unit RESOLUTION_MINUTE = 60000000"
| "resolution_unit RESOLUTION_HOUR = 3600000000"

lemma resolution_unit_pos [simp]: "0 < resolution_unit r"
  by (cases r) simp_all

lemma resolution_unit_mono: "r \<le> r' \<Longrightarrow> resolution_unit r \<le> resolution_unit r'"
  by (cases r; cases r') (simp_all add: less_eq_resolution_def word_le_nat_alt)

end
