(* ===== verification/Boxed.thy ===== *)
theory Boxed
  imports Prelude
begin

text \<open>
  The reference counts of the boxed types: \<open>EggBuffer\<close>, \<open>PkaManifest\<close>, \<open>PkaSample\<close>, \<open>PkManifest\<close> and
  \<open>PkSample\<close> each have a \<open>ref_count\<close> of type \<open>gint\<close>, a \<open>_ref\<close> and an \<open>_unref\<close> of the same shape. The
  locale states that shape as a contract; the theory of each type interprets it on its own pair.
\<close>

text \<open>What is left of the object after \<open>_unref\<close>: the object, or nothing when it was freed.\<close>

datatype 'a unref_result = Kept 'a | Freed

text \<open>
  The two counting steps. \<open>g_return_val_if_fail(x->ref_count > 0, NULL)\<close> makes \<open>_ref\<close> of a dead object
  give NULL, and \<open>_unref\<close> of one do nothing.
\<close>

definition count_up :: "gint \<Rightarrow> gint option" where
  "count_up c = (if 0 <s c then Some (c + 1) else None)"

definition count_down :: "gint \<Rightarrow> gint" where
  "count_down c = (if 0 <s c then c - 1 else c)"

definition count_dead :: "gint \<Rightarrow> bool" where
  "count_dead c \<longleftrightarrow> 0 <s c \<and> c - 1 = 0"

lemma word_pos_sint: "0 <s (c :: gint) \<longleftrightarrow> 0 < sint c"
  by (simp add: word_sless_alt)

lemma sint_plus_1: "sint c < 2 ^ 31 - 1 \<Longrightarrow> sint (c + 1 :: gint) = sint c + 1"
  using sint_greater_eq [of c] by (simp add: sint_word_ariths signed_take_bit_int_eq_self)

lemma sint_minus_1: "- (2 ^ 31) < sint c \<Longrightarrow> sint (c - 1 :: gint) = sint c - 1"
  using sint_less [of c] by (simp add: sint_word_ariths signed_take_bit_int_eq_self)

lemma sint_inject: "sint c = sint d \<Longrightarrow> c = d" for c d :: gint
  by (rule signed_word_eqI)

lemma count_up_positive: "0 <s (1 :: gint)"
  by (simp add: word_pos_sint)

locale refcounted =
  fixes count :: "'a \<Rightarrow> gint"
    and set_count :: "gint \<Rightarrow> 'a \<Rightarrow> 'a"
    and ref :: "'a \<Rightarrow> 'a option"
    and unref :: "'a \<Rightarrow> 'a unref_result"
  assumes count_set [simp]: "count (set_count c x) = c"
    and set_set [simp]: "set_count c (set_count d x) = set_count c x"
    and set_same [simp]: "set_count (count x) x = x"
    and ref_eq: "ref x = map_option (\<lambda>c. set_count c x) (count_up (count x))"
    and unref_eq: "unref x =
      (if count_dead (count x) then Freed else Kept (set_count (count_down (count x)) x))"
begin

fun refs :: "nat \<Rightarrow> 'a \<Rightarrow> 'a option" where
  "refs 0 x = Some x"
| "refs (Suc n) x = Option.bind (ref x) (refs n)"

fun unrefs :: "nat \<Rightarrow> 'a \<Rightarrow> 'a unref_result" where
  "unrefs 0 x = Kept x"
| "unrefs (Suc n) x = (case unref x of Kept y \<Rightarrow> unrefs n y | Freed \<Rightarrow> Freed)"

lemma refs_count:
  "0 < sint (count x) \<Longrightarrow> sint (count x) + int n < 2 ^ 31 \<Longrightarrow>
     \<exists>c. refs n x = Some (set_count c x) \<and> sint c = sint (count x) + int n"
proof (induction n arbitrary: x)
  case 0
  then show ?case by (intro exI [of _ "count x"]) simp
next
  case (Suc n)
  let ?y = "set_count (count x + 1) x"
  have y: "ref x = Some ?y" and c: "sint (count x + 1) = sint (count x) + 1"
    using Suc.prems sint_plus_1 [of "count x"] by (auto simp: ref_eq count_up_def word_pos_sint)
  then obtain d where "refs n ?y = Some (set_count d ?y)" "sint d = sint (count ?y) + int n"
    using Suc.IH [of ?y] Suc.prems by auto
  with y c show ?case by (auto intro!: exI [of _ d])
qed

lemma unrefs_count:
  "int n < sint (count x) \<Longrightarrow>
     \<exists>c. unrefs n x = Kept (set_count c x) \<and> sint c = sint (count x) - int n"
proof (induction n arbitrary: x)
  case 0
  then show ?case by (intro exI [of _ "count x"]) simp
next
  case (Suc n)
  let ?y = "set_count (count x - 1) x"
  have c: "sint (count x - 1) = sint (count x) - 1"
    using Suc.prems sint_minus_1 [of "count x"] by simp
  have "sint (count x - 1) \<noteq> sint (0 :: gint)"
    unfolding c using Suc.prems by simp
  then have "count x - 1 \<noteq> 0"
    by metis
  then have y: "unref x = Kept ?y"
    using Suc.prems by (simp add: unref_eq count_dead_def count_down_def word_pos_sint)
  obtain d where "unrefs n ?y = Kept (set_count d ?y)" "sint d = sint (count ?y) - int n"
    using Suc.IH [of ?y] Suc.prems c by auto
  with y c show ?case by (auto intro!: exI [of _ d])
qed

text \<open>
  An object with \<open>c\<close> references survives any smaller number of \<open>_unref\<close> calls with its content
  untouched, and is freed by exactly the \<open>c\<close>-th.
\<close>

lemma freed_at_count:
  assumes "0 < sint (count x)"
  shows "unrefs (nat (sint (count x))) x = Freed"
    and "n < nat (sint (count x)) \<Longrightarrow> \<exists>c. unrefs n x = Kept (set_count c x)"
proof -
  have split: "unrefs (Suc n) x = (case unrefs n x of Kept y \<Rightarrow> unref y | Freed \<Rightarrow> Freed)" for n x
  proof (induction n arbitrary: x)
    case 0
    show ?case by (cases "unref x") simp_all
  next
    case (Suc n)
    show ?case
    proof (cases "unref x")
      case (Kept y)
      then show ?thesis using Suc.IH [of y] by simp
    qed simp
  qed
  obtain m where m: "nat (sint (count x)) = Suc m"
    using assms by (cases "nat (sint (count x))") auto
  have "sint (count x) = int (Suc m)"
    unfolding m [symmetric] using assms by simp
  then have "int m < sint (count x)"
    by simp
  then obtain c where c: "unrefs m x = Kept (set_count c x)" "sint c = sint (count x) - int m"
    using unrefs_count [of m x] by blast
  then have "sint c = 1" using \<open>sint (count x) = int (Suc m)\<close> by simp
  then have "c = 1" by (intro sint_inject) simp
  then show "unrefs (nat (sint (count x))) x = Freed"
    using c(1) by (simp only: m split) (simp add: unref_eq count_dead_def word_pos_sint)
  show "n < nat (sint (count x)) \<Longrightarrow> \<exists>c. unrefs n x = Kept (set_count c x)"
    unfolding zless_nat_eq_int_zless using unrefs_count [of n x] by blast
qed

text \<open>References taken and given back leave the object as it was.\<close>

lemma refs_unrefs:
  assumes "0 < sint (count x)" "sint (count x) + int n < 2 ^ 31"
  shows "\<exists>y. refs n x = Some y \<and> unrefs n y = Kept x"
proof -
  obtain c where c: "refs n x = Some (set_count c x)" "sint c = sint (count x) + int n"
    using refs_count [OF assms] by auto
  then obtain d where d: "unrefs n (set_count c x) = Kept (set_count d x)" "sint d = sint (count x)"
    using unrefs_count [of n "set_count c x"] assms by auto
  then have "d = count x" by (intro sint_inject) simp
  with c d show ?thesis by simp
qed

end

end
