(* ===== verification/Pka_Manifest.thy ===== *)
theory Pka_Manifest
  imports Wire_Types Boxed
begin

text \<open>
  perfkit-agent/pka-manifest.c: the description of the fields a source samples. The \<open>GArray\<close> of rows
  is a list; its length is a \<open>guint\<close>, and a program has far fewer than \<open>2 ^ 31\<close> rows, which the lemmas
  that need it say. What \<open>clock_gettime\<close> stores is an argument.
\<close>

section \<open>State and operations\<close>

record pka_manifest_row =
  row_id :: gint
  row_type :: gtype
  row_name :: cstring

record pka_manifest =
  pm_ref :: gint
  pm_rows :: "pka_manifest_row list"
  pm_source_id :: gint
  pm_ts :: timespec
  pm_resolution :: resolution

definition pka_manifest_sized_new :: "timespec \<Rightarrow> int \<Rightarrow> pka_manifest option" where
  "pka_manifest_sized_new now n =
     (if n \<ge> 0
      then Some \<lparr>pm_ref = 1, pm_rows = [], pm_source_id = 0, pm_ts = now,
                 pm_resolution = RESOLUTION_USEC\<rparr>
      else None)"

definition pka_manifest_new :: "timespec \<Rightarrow> pka_manifest option" where
  "pka_manifest_new now = pka_manifest_sized_new now 4"

definition pka_manifest_ref :: "pka_manifest \<Rightarrow> pka_manifest option" where
  "pka_manifest_ref m =
     (if 0 <s pm_ref m then Some (m\<lparr>pm_ref := pm_ref m + 1\<rparr>) else None)"

definition pka_manifest_unref :: "pka_manifest \<Rightarrow> pka_manifest unref_result" where
  "pka_manifest_unref m =
     (if 0 <s pm_ref m
      then (if pm_ref m - 1 = 0 then Freed else Kept (m\<lparr>pm_ref := pm_ref m - 1\<rparr>))
      else Kept m)"

interpretation pka_manifest_boxed:
  refcounted pm_ref "\<lambda>c m. m\<lparr>pm_ref := c\<rparr>" pka_manifest_ref pka_manifest_unref
  by unfold_locales
    (simp_all add: pka_manifest_ref_def pka_manifest_unref_def count_up_def count_down_def
      count_dead_def count_up_positive)

definition pka_manifest_get_timespec :: "pka_manifest \<Rightarrow> timespec" where
  "pka_manifest_get_timespec m = pm_ts m"

definition pka_manifest_set_timespec :: "pka_manifest \<Rightarrow> timespec \<Rightarrow> pka_manifest" where
  "pka_manifest_set_timespec m ts = m\<lparr>pm_ts := ts\<rparr>"

definition pka_manifest_set_resolution :: "pka_manifest \<Rightarrow> resolution \<Rightarrow> pka_manifest" where
  "pka_manifest_set_resolution m res = m\<lparr>pm_resolution := res\<rparr>"

definition pka_manifest_get_resolution :: "pka_manifest \<Rightarrow> resolution" where
  "pka_manifest_get_resolution m = pm_resolution m"

text \<open>The types of the \<open>switch\<close>; any other type reaches \<open>g_assert_not_reached\<close>.\<close>

definition manifest_type_supported :: "gtypes \<Rightarrow> gtype \<Rightarrow> bool" where
  "manifest_type_supported gt ty \<longleftrightarrow>
     ty \<in> gt ` {G_TYPE_INT, G_TYPE_UINT, G_TYPE_LONG, G_TYPE_ULONG, G_TYPE_STRING, G_TYPE_CHAR,
                G_TYPE_BOOLEAN, G_TYPE_DOUBLE, G_TYPE_FLOAT}"

definition pka_manifest_append ::
  "gtypes \<Rightarrow> pka_manifest \<Rightarrow> cstring \<Rightarrow> gtype \<Rightarrow> (pka_manifest \<times> guint) c_result" where
  "pka_manifest_append gt m name ty =
     (if ty = 0 then Returns (m, 0)
      else if \<not> manifest_type_supported gt ty then Aborts
      else let row = \<lparr>row_id = word_of_nat (length (pm_rows m)) + 1, row_type = ty, row_name = name\<rparr>
           in Returns (m\<lparr>pm_rows := pm_rows m @ [row]\<rparr>, row_id row))"

definition pka_manifest_get_n_rows :: "pka_manifest \<Rightarrow> guint" where
  "pka_manifest_get_n_rows m = word_of_nat (length (pm_rows m))"

text \<open>\<open>row <= manifest->rows->len\<close> compares a \<open>gint\<close> with a \<open>guint\<close>, so as unsigned numbers.\<close>

definition pka_manifest_get_row_type :: "gtypes \<Rightarrow> pka_manifest \<Rightarrow> gint \<Rightarrow> gtype" where
  "pka_manifest_get_row_type gt m row =
     (if row \<noteq> 0 \<and> row \<le> word_of_nat (length (pm_rows m))
      then row_type (pm_rows m ! unat (row - 1))
      else gt G_TYPE_INVALID)"

definition pka_manifest_get_row_name :: "pka_manifest \<Rightarrow> gint \<Rightarrow> cstring option" where
  "pka_manifest_get_row_name m row =
     (if 0 <s row \<and> row \<le> word_of_nat (length (pm_rows m))
      then Some (row_name (pm_rows m ! unat (row - 1)))
      else None)"

definition pka_manifest_get_source_id :: "pka_manifest \<Rightarrow> gint" where
  "pka_manifest_get_source_id m = pm_source_id m"

definition pka_manifest_set_source_id :: "pka_manifest \<Rightarrow> gint \<Rightarrow> pka_manifest" where
  "pka_manifest_set_source_id m source_id = m\<lparr>pm_source_id := source_id\<rparr>"

definition pka_manifest_compare :: "pka_manifest \<Rightarrow> pka_manifest \<Rightarrow> gint" where
  "pka_manifest_compare a b = pka_manifest_get_source_id a - pka_manifest_get_source_id b"

section \<open>The invariant\<close>

text \<open>
  Rows are numbered from 1 in the order in which they were added, every one has a type that
  \<open>pka_manifest_append\<close> accepts and a name without a NUL.
\<close>

definition manifest_inv :: "gtypes \<Rightarrow> pka_manifest \<Rightarrow> bool" where
  "manifest_inv gt m \<longleftrightarrow>
     length (pm_rows m) < 2 ^ 31 \<and>
     (\<forall>i < length (pm_rows m).
        row_id (pm_rows m ! i) = word_of_nat (Suc i) \<and>
        manifest_type_supported gt (row_type (pm_rows m ! i)) \<and>
        cstring_ok (row_name (pm_rows m ! i)))"

lemma manifest_inv_new:
  "pka_manifest_new now = Some m \<Longrightarrow> manifest_inv gt m"
  by (auto simp: pka_manifest_new_def pka_manifest_sized_new_def manifest_inv_def)

lemma manifest_inv_setters [simp]:
  "manifest_inv gt (pka_manifest_set_timespec m ts) = manifest_inv gt m"
  "manifest_inv gt (pka_manifest_set_resolution m res) = manifest_inv gt m"
  "manifest_inv gt (pka_manifest_set_source_id m i) = manifest_inv gt m"
  by (simp_all add: manifest_inv_def pka_manifest_set_timespec_def
      pka_manifest_set_resolution_def pka_manifest_set_source_id_def)

text \<open>Every branch of \<open>pka_manifest_append\<close>.\<close>

lemma append_cases:
  assumes "pka_manifest_append gt m name ty = Returns (m', i)"
  obtains "ty = 0" "m' = m" "i = 0"
  | "ty \<noteq> 0" "manifest_type_supported gt ty" "i = word_of_nat (length (pm_rows m)) + 1"
    "m' = m\<lparr>pm_rows := pm_rows m @ [\<lparr>row_id = i, row_type = ty, row_name = name\<rparr>]\<rparr>"
  using assms by (auto simp: pka_manifest_append_def Let_def split: if_splits)

lemma manifest_inv_append:
  assumes inv: "manifest_inv gt m" and room: "length (pm_rows m) < 2 ^ 31 - 1"
    and name: "cstring_ok name" and app: "pka_manifest_append gt m name ty = Returns (m', i)"
  shows "manifest_inv gt m'"
  using app
proof (cases rule: append_cases)
  case 1
  with inv show ?thesis by simp
next
  case 2
  then show ?thesis
    using inv room name unfolding manifest_inv_def
    by (auto simp: nth_append less_Suc_eq add.commute)
qed

text \<open>The row just added is found under the number that was returned; the others are as before.\<close>

lemma word_row:
  assumes "k < length rows" "length rows < 2 ^ 31"
  shows "(word_of_nat (Suc k) :: gint) \<noteq> 0" "0 <s (word_of_nat (Suc k) :: gint)"
    "(word_of_nat (Suc k) :: gint) \<le> word_of_nat (length rows)"
    "unat ((word_of_nat (Suc k) :: gint) - 1) = k"
proof -
  have u: "unat (word_of_nat (Suc k) :: gint) = Suc k"
    using assms by (intro unat_word_of_nat) simp
  have l: "unat (word_of_nat (length rows) :: gint) = length rows"
    using assms by (intro unat_word_of_nat) simp
  show ne: "(word_of_nat (Suc k) :: gint) \<noteq> 0"
    using u by (metis nat.distinct(1) unsigned_0)
  show "(word_of_nat (Suc k) :: gint) \<le> word_of_nat (length rows)"
    using u l assms by (simp add: word_le_nat_alt)
  show "unat ((word_of_nat (Suc k) :: gint) - 1) = k"
    using u by (simp add: unat_minus_one ne del: of_nat_Suc)
  have "sint (word_of_nat (Suc k) :: gint) = int (Suc k)"
    using assms by (simp add: signed_of_nat signed_take_bit_int_eq_self del: of_nat_Suc)
  then show "0 <s (word_of_nat (Suc k) :: gint)"
    by (simp add: word_pos_sint del: of_nat_Suc)
qed

lemma get_row_in_range:
  assumes "k < length (pm_rows m)" "length (pm_rows m) < 2 ^ 31"
  shows "pka_manifest_get_row_type gt m (word_of_nat (Suc k)) = row_type (pm_rows m ! k)"
    and "pka_manifest_get_row_name m (word_of_nat (Suc k)) = Some (row_name (pm_rows m ! k))"
  using word_row [OF assms]
  by (simp_all add: pka_manifest_get_row_type_def pka_manifest_get_row_name_def del: of_nat_Suc)

lemma append_then_get:
  assumes room: "length (pm_rows m) < 2 ^ 31 - 1"
    and ty: "manifest_type_supported gt ty" "ty \<noteq> 0"
  obtains m' i where "pka_manifest_append gt m name ty = Returns (m', i)"
    "pka_manifest_get_row_type gt m' i = ty" "pka_manifest_get_row_name m' i = Some name"
    "pka_manifest_get_n_rows m' = i"
proof -
  let ?i = "word_of_nat (Suc (length (pm_rows m))) :: gint"
  let ?m = "m\<lparr>pm_rows := pm_rows m @ [\<lparr>row_id = ?i, row_type = ty, row_name = name\<rparr>]\<rparr>"
  have "pka_manifest_append gt m name ty = Returns (?m, ?i)"
    using ty by (simp add: pka_manifest_append_def add.commute)
  moreover have "pka_manifest_get_row_type gt ?m ?i = ty" "pka_manifest_get_row_name ?m ?i = Some name"
    using get_row_in_range [where k = "length (pm_rows m)" and m = ?m] room by (simp_all del: of_nat_Suc)
  moreover have "pka_manifest_get_n_rows ?m = ?i"
    by (simp add: pka_manifest_get_n_rows_def)
  ultimately show thesis using that by blast
qed

end
