(* ===== verification/Egg_Buffer.thy ===== *)
theory Egg_Buffer
  imports Boxed
begin

text \<open>
  cut-n-paste/egg-buffer.c: the buffer into which the agent writes its messages and from which the
  client reads them, with the variable-width integers, zigzag integers, strings, blobs, tags and
  floating-point values of the wire format.

  The \<open>GByteArray\<close> is the list of its bytes. Its length is a \<open>guint\<close>, so a buffer of the program is
  shorter than \<open>2 ^ 32\<close>; then the sum \<open>buffer->pos + u\<close> of a \<open>gsize\<close> and a \<open>guint\<close> cannot wrap, and
  the position is a \<open>nat\<close>. Every access to \<open>ar->data\<close> in the code is behind a comparison with
  \<open>ar->len\<close>, which the model keeps. The \<open>NULL\<close> checks of the arguments have no counterpart.
\<close>

unbundle bit_operations_syntax

section \<open>The buffer\<close>

record egg_buffer =
  eb_ref :: gint
  eb_ar :: "u8 list"
  eb_pos :: nat

definition egg_buffer_new :: egg_buffer where
  "egg_buffer_new = \<lparr>eb_ref = 1, eb_ar = [], eb_pos = 0\<rparr>"

definition egg_buffer_new_from_data :: "u8 list \<Rightarrow> egg_buffer" where
  "egg_buffer_new_from_data data = \<lparr>eb_ref = 1, eb_ar = data, eb_pos = 0\<rparr>"

definition egg_buffer_get_buffer :: "egg_buffer \<Rightarrow> u8 list" where
  "egg_buffer_get_buffer b = eb_ar b"

definition egg_buffer_get_pos :: "egg_buffer \<Rightarrow> nat" where
  "egg_buffer_get_pos b = eb_pos b"

definition egg_buffer_get_length :: "egg_buffer \<Rightarrow> nat" where
  "egg_buffer_get_length b = length (eb_ar b)"

definition egg_buffer_ref :: "egg_buffer \<Rightarrow> egg_buffer option" where
  "egg_buffer_ref b =
     (if 0 <s eb_ref b then Some (b\<lparr>eb_ref := eb_ref b + 1\<rparr>) else None)"

definition egg_buffer_unref :: "egg_buffer \<Rightarrow> egg_buffer unref_result" where
  "egg_buffer_unref b =
     (if 0 <s eb_ref b
      then (if eb_ref b - 1 = 0 then Freed else Kept (b\<lparr>eb_ref := eb_ref b - 1\<rparr>))
      else Kept b)"

interpretation egg_buffer_boxed: refcounted eb_ref "\<lambda>c b. b\<lparr>eb_ref := c\<rparr>" egg_buffer_ref egg_buffer_unref
  by unfold_locales
    (simp_all add: egg_buffer_ref_def egg_buffer_unref_def count_up_def count_down_def count_dead_def
      count_up_positive)

text \<open>\<open>g_byte_array_append\<close>.\<close>

definition eb_append :: "egg_buffer \<Rightarrow> u8 list \<Rightarrow> egg_buffer" where
  "eb_append b data = b\<lparr>eb_ar := eb_ar b @ data\<rparr>"

section \<open>Writing\<close>

text \<open>
  The loop of \<open>egg_buffer_write_uint\<close> and \<open>egg_buffer_write_uint64\<close>, which differ in the width of
  \<open>i\<close> only.
\<close>

definition varint_byte :: "'a::len word \<Rightarrow> u8" where
  "varint_byte i = push_bit 7 (if i > 0x7F then 1 else 0) OR ucast (i AND 0x7F)"

function write_varint :: "egg_buffer \<Rightarrow> 'a::len word \<Rightarrow> egg_buffer" where
  "write_varint b i =
     (let b' = eb_append b [varint_byte i]; i' = drop_bit 7 i
      in if i' > 0 then write_varint b' i' else b')"
  by pat_completeness auto
termination
  by (relation "measure (\<lambda>(b, i). unat i)") (auto simp: word_gt_0 intro: drop_bit7_less)

declare write_varint.simps [simp del]

definition egg_buffer_write_uint :: "egg_buffer \<Rightarrow> guint \<Rightarrow> egg_buffer" where
  "egg_buffer_write_uint b i = write_varint b i"

definition egg_buffer_write_uint64 :: "egg_buffer \<Rightarrow> u64 \<Rightarrow> egg_buffer" where
  "egg_buffer_write_uint64 b i = write_varint b i"

definition egg_buffer_write_int :: "egg_buffer \<Rightarrow> gint \<Rightarrow> egg_buffer" where
  "egg_buffer_write_int b i = egg_buffer_write_uint b (push_bit 1 i XOR signed_drop_bit 31 i)"

definition egg_buffer_write_int64 :: "egg_buffer \<Rightarrow> u64 \<Rightarrow> egg_buffer" where
  "egg_buffer_write_int64 b i = egg_buffer_write_uint64 b (push_bit 1 i XOR signed_drop_bit 63 i)"

text \<open>A \<open>NULL\<close> string is written as the empty one.\<close>

definition egg_buffer_write_string :: "egg_buffer \<Rightarrow> cstring option \<Rightarrow> egg_buffer" where
  "egg_buffer_write_string b s =
     (let l = (case s of None \<Rightarrow> 0 | Some t \<Rightarrow> length t);
          b' = egg_buffer_write_uint b (word_of_nat l)
      in case s of None \<Rightarrow> b' | Some t \<Rightarrow> eb_append b' t)"

definition egg_buffer_write_boolean :: "egg_buffer \<Rightarrow> gint \<Rightarrow> egg_buffer" where
  "egg_buffer_write_boolean b v = eb_append b [if v \<noteq> 0 then 1 else 0]"

definition egg_buffer_write_data :: "egg_buffer \<Rightarrow> u8 list \<Rightarrow> egg_buffer" where
  "egg_buffer_write_data b data =
     (if length data < 2 ^ 32
      then eb_append (egg_buffer_write_uint b (word_of_nat (length data))) data
      else b)"

text \<open>
  The constants of \<open>EggBufferTag\<close>: the wire types of the fields. Several C enumerators share a value,
  so the tag is the number.
\<close>

definition EGG_BUFFER_INT :: guint where "EGG_BUFFER_INT = 0"

definition EGG_BUFFER_UINT :: guint where "EGG_BUFFER_UINT = 0"

definition EGG_BUFFER_INT64 :: guint where "EGG_BUFFER_INT64 = 0"

definition EGG_BUFFER_UINT64 :: guint where "EGG_BUFFER_UINT64 = 0"

definition EGG_BUFFER_ENUM :: guint where "EGG_BUFFER_ENUM = 0"

definition EGG_BUFFER_BOOLEAN :: guint where "EGG_BUFFER_BOOLEAN = 0"

definition EGG_BUFFER_DOUBLE :: guint where "EGG_BUFFER_DOUBLE = 1"

definition EGG_BUFFER_STRING :: guint where "EGG_BUFFER_STRING = 2"

definition EGG_BUFFER_DATA :: guint where "EGG_BUFFER_DATA = 2"

definition EGG_BUFFER_REPEATED :: guint where "EGG_BUFFER_REPEATED = 2"

definition EGG_BUFFER_MESSAGE :: guint where "EGG_BUFFER_MESSAGE = 2"

definition EGG_BUFFER_FLOAT :: guint where "EGG_BUFFER_FLOAT = 5"

lemmas egg_buffer_tags =
  EGG_BUFFER_INT_def EGG_BUFFER_UINT_def EGG_BUFFER_INT64_def EGG_BUFFER_UINT64_def
  EGG_BUFFER_ENUM_def EGG_BUFFER_BOOLEAN_def EGG_BUFFER_DOUBLE_def EGG_BUFFER_STRING_def
  EGG_BUFFER_DATA_def EGG_BUFFER_REPEATED_def EGG_BUFFER_MESSAGE_def EGG_BUFFER_FLOAT_def

definition egg_buffer_write_tag :: "egg_buffer \<Rightarrow> guint \<Rightarrow> guint \<Rightarrow> egg_buffer" where
  "egg_buffer_write_tag b field tag =
     (if tag = 0 \<or> tag = 1 \<or> tag = 2 \<or> tag = 5
      then egg_buffer_write_uint b (push_bit 3 field OR tag)
      else b)"

text \<open>
  The bytes of a value in the memory of the host, in the two byte orders for which the code is
  compiled, and the values they stand for.
\<close>

datatype byte_order = G_LITTLE_ENDIAN | G_BIG_ENDIAN

definition le_bytes :: "nat \<Rightarrow> 'a::len word \<Rightarrow> u8 list" where
  "le_bytes n w = map (\<lambda>k. ucast (drop_bit (8 * k) w)) [0..<n]"

definition host_bytes :: "byte_order \<Rightarrow> nat \<Rightarrow> 'a::len word \<Rightarrow> u8 list" where
  "host_bytes ord n w =
     (case ord of G_LITTLE_ENDIAN \<Rightarrow> le_bytes n w | G_BIG_ENDIAN \<Rightarrow> rev (le_bytes n w))"

fun le_value :: "u8 list \<Rightarrow> 'a::len word" where
  "le_value [] = 0"
| "le_value (c # cs) = ucast c OR push_bit 8 (le_value cs)"

definition host_value :: "byte_order \<Rightarrow> u8 list \<Rightarrow> 'a::len word" where
  "host_value ord cs =
     (case ord of G_LITTLE_ENDIAN \<Rightarrow> le_value cs | G_BIG_ENDIAN \<Rightarrow> le_value (rev cs))"

definition egg_buffer_write_double :: "byte_order \<Rightarrow> egg_buffer \<Rightarrow> gdouble_bits \<Rightarrow> egg_buffer" where
  "egg_buffer_write_double ord b d =
     (let pd = host_bytes ord 8 d
      in if ord = G_BIG_ENDIAN
         then eb_append b [pd ! 7, pd ! 6, pd ! 5, pd ! 4, pd ! 3, pd ! 2, pd ! 1, pd ! 0]
         else eb_append b pd)"

definition egg_buffer_write_float :: "byte_order \<Rightarrow> egg_buffer \<Rightarrow> gfloat_bits \<Rightarrow> egg_buffer" where
  "egg_buffer_write_float ord b f =
     (let pf = host_bytes ord 4 f
      in if ord = G_BIG_ENDIAN
         then eb_append b [pf ! 3, pf ! 2, pf ! 1, pf ! 0]
         else eb_append b pf)"

section \<open>Reading\<close>

text \<open>\<open>buffer->ar->data[buffer->pos++]\<close> and \<open>memcpy(m, &buffer->ar->data[buffer->pos], n)\<close>.\<close>

definition eb_next :: "(egg_buffer, u8) reader" where
  "eb_next b =
     (if eb_pos b < length (eb_ar b) then (Value (eb_ar b ! eb_pos b), b\<lparr>eb_pos := eb_pos b + 1\<rparr>)
      else (Fault, b))"

definition eb_peek :: "nat \<Rightarrow> (egg_buffer, u8 list) reader" where
  "eb_peek n b =
     (if eb_pos b + n \<le> length (eb_ar b) then (Value (take n (drop (eb_pos b) (eb_ar b))), b)
      else (Fault, b))"

definition eb_advance :: "nat \<Rightarrow> egg_buffer \<Rightarrow> egg_buffer" where
  "eb_advance n b = b\<lparr>eb_pos := eb_pos b + n\<rparr>"

definition eb_skip :: "nat \<Rightarrow> (egg_buffer, unit) reader" where
  "eb_skip n b = (Value (), eb_advance n b)"

text \<open>
  The loop of \<open>egg_buffer_read_uint\<close> and \<open>egg_buffer_read_uint64\<close>. It gives up when the data is used
  up and when the shift is beyond \<open>lim\<close> (28 and 63).
\<close>

function read_varint :: "nat \<Rightarrow> 'a::len word \<Rightarrow> nat \<Rightarrow> (egg_buffer, 'a word) reader" where
  "read_varint lim u sh b =
     (if eb_pos b \<ge> length (eb_ar b) \<or> sh > lim then (Failed, b)
      else case eb_next b of
          (Value c, b') \<Rightarrow>
            (let u' = u OR push_bit sh (ucast (c AND 0x7F))
             in if c AND 0x80 \<noteq> 0 then read_varint lim u' (sh + 7) b' else (Value u', b'))
        | (Failed, b') \<Rightarrow> (Failed, b')
        | (Fault, b') \<Rightarrow> (Fault, b'))"
  by pat_completeness auto
termination
  by (relation "measure (\<lambda>(lim, u, sh, b). lim + 7 - sh)") auto

declare read_varint.simps [simp del]

definition egg_buffer_read_uint :: "(egg_buffer, guint) reader" where
  "egg_buffer_read_uint = read_varint 28 0 0"

definition egg_buffer_read_uint64 :: "(egg_buffer, u64) reader" where
  "egg_buffer_read_uint64 = read_varint 63 0 0"

definition egg_buffer_read_boolean :: "(egg_buffer, gint) reader" where
  "egg_buffer_read_boolean = egg_buffer_read_uint"

text \<open>
  The length goes through \<open>g_malloc(u + 1)\<close>, whose argument is a \<open>guint\<close> sum, and the result is read
  as a C string by everyone who gets it.
\<close>

definition egg_buffer_read_string :: "(egg_buffer, cstring) reader" where
  "egg_buffer_read_string =
     rd_bind egg_buffer_read_uint (\<lambda>u.
     rd_bind (rd_gets (\<lambda>b. eb_pos b + unat u \<le> length (eb_ar b))) (\<lambda>enough.
     rd_guard enough (
     rd_bind (eb_peek (unat u)) (\<lambda>data.
     rd_bind (rd_access (blk_memcpy (blk_malloc (unat (u + 1))) data)) (\<lambda>m.
     rd_bind (rd_access (blk_store m (unat u) 0)) (\<lambda>m.
     rd_bind (eb_skip (unat u)) (\<lambda>_.
     rd_return (c_string_of m))))))))"

definition egg_buffer_read_int :: "(egg_buffer, gint) reader" where
  "egg_buffer_read_int =
     rd_bind egg_buffer_read_uint (\<lambda>u. rd_return (drop_bit 1 u XOR - (u AND 1)))"

definition egg_buffer_read_int64 :: "(egg_buffer, u64) reader" where
  "egg_buffer_read_int64 =
     rd_bind egg_buffer_read_uint64 (\<lambda>u. rd_return (drop_bit 1 u XOR - (u AND 1)))"

definition egg_buffer_read_tag :: "(egg_buffer, guint \<times> guint) reader" where
  "egg_buffer_read_tag =
     rd_bind egg_buffer_read_uint (\<lambda>u. rd_return (drop_bit 3 (u AND NOT 7), u AND 7))"

text \<open>Here the block has \<open>u\<close> bytes and the terminator is stored at index \<open>u\<close>.\<close>

definition egg_buffer_read_data :: "(egg_buffer, u8 list) reader" where
  "egg_buffer_read_data =
     rd_bind egg_buffer_read_uint (\<lambda>u.
     rd_bind (rd_gets (\<lambda>b. eb_pos b + unat u \<le> length (eb_ar b))) (\<lambda>enough.
     rd_guard enough (
     rd_bind (eb_peek (unat u)) (\<lambda>data.
     rd_bind (rd_access (blk_memcpy (blk_malloc (unat u)) data)) (\<lambda>m.
     rd_bind (rd_access (blk_store m (unat u) 0)) (\<lambda>m.
     rd_bind (eb_skip (unat u)) (\<lambda>_.
     rd_return (take (unat u) m))))))))"

definition egg_buffer_read_double :: "byte_order \<Rightarrow> (egg_buffer, gdouble_bits) reader" where
  "egg_buffer_read_double ord =
     rd_bind (rd_gets (\<lambda>b. eb_pos b + 8 \<le> length (eb_ar b))) (\<lambda>enough.
     rd_guard enough (
     if ord = G_BIG_ENDIAN then
       rd_bind eb_next (\<lambda>b7. rd_bind eb_next (\<lambda>b6. rd_bind eb_next (\<lambda>b5. rd_bind eb_next (\<lambda>b4.
       rd_bind eb_next (\<lambda>b3. rd_bind eb_next (\<lambda>b2. rd_bind eb_next (\<lambda>b1. rd_bind eb_next (\<lambda>b0.
       rd_return (host_value ord [b0, b1, b2, b3, b4, b5, b6, b7])))))))))
     else
       rd_bind (eb_peek 8) (\<lambda>cs. rd_bind (eb_skip 8) (\<lambda>_. rd_return (host_value ord cs)))))"

definition egg_buffer_read_float :: "byte_order \<Rightarrow> (egg_buffer, gfloat_bits) reader" where
  "egg_buffer_read_float ord =
     rd_bind (rd_gets (\<lambda>b. eb_pos b + 4 \<le> length (eb_ar b))) (\<lambda>enough.
     rd_guard enough (
     if ord = G_BIG_ENDIAN then
       rd_bind eb_next (\<lambda>b3. rd_bind eb_next (\<lambda>b2. rd_bind eb_next (\<lambda>b1. rd_bind eb_next (\<lambda>b0.
       rd_return (host_value ord [b0, b1, b2, b3])))))
     else
       rd_bind (eb_peek 4) (\<lambda>cs. rd_bind (eb_skip 4) (\<lambda>_. rd_return (host_value ord cs)))))"

section \<open>What the writers append\<close>

function varint_bytes :: "'a::len word \<Rightarrow> u8 list" where
  "varint_bytes i =
     varint_byte i # (if drop_bit 7 i > 0 then varint_bytes (drop_bit 7 i) else [])"
  by pat_completeness auto
termination
  by (relation "measure unat") (auto simp: word_gt_0 intro: drop_bit7_less)

declare varint_bytes.simps [simp del]

lemma eb_append_simps [simp]:
  "eb_ar (eb_append b data) = eb_ar b @ data"
  "eb_pos (eb_append b data) = eb_pos b"
  "eb_ref (eb_append b data) = eb_ref b"
  "eb_append (eb_append b data) data' = eb_append b (data @ data')"
  by (simp_all add: eb_append_def)

lemma write_varint_append: "write_varint b i = eb_append b (varint_bytes i)"
proof (induction b i rule: write_varint.induct)
  case (1 b i)
  then show ?case
    by (subst write_varint.simps, subst varint_bytes.simps) (simp add: Let_def)
qed

definition string_bytes :: "cstring \<Rightarrow> u8 list" where
  "string_bytes s = varint_bytes (word_of_nat (length s) :: guint) @ s"

definition zigzag :: "nat \<Rightarrow> 'a::len word \<Rightarrow> 'a word" where
  "zigzag n i = push_bit 1 i XOR signed_drop_bit n i"

definition tag_word :: "guint \<Rightarrow> guint \<Rightarrow> guint" where
  "tag_word field tag = push_bit 3 field OR tag"

definition wire_tag_ok :: "guint \<Rightarrow> bool" where
  "wire_tag_ok tag \<longleftrightarrow> tag = 0 \<or> tag = 1 \<or> tag = 2 \<or> tag = 5"

named_theorems eb_writes "every writer as an append"

lemma write_uint_append [eb_writes]:
  "egg_buffer_write_uint b i = eb_append b (varint_bytes i)"
  by (simp add: egg_buffer_write_uint_def write_varint_append)

lemma write_uint64_append [eb_writes]:
  "egg_buffer_write_uint64 b j = eb_append b (varint_bytes j)"
  by (simp add: egg_buffer_write_uint64_def write_varint_append)

lemma write_int_append [eb_writes]:
  "egg_buffer_write_int b i = eb_append b (varint_bytes (zigzag 31 i))"
  by (simp add: egg_buffer_write_int_def zigzag_def eb_writes)

lemma write_int64_append [eb_writes]:
  "egg_buffer_write_int64 b i = eb_append b (varint_bytes (zigzag 63 i))"
  by (simp add: egg_buffer_write_int64_def zigzag_def eb_writes)

lemma write_string_append [eb_writes]:
  "egg_buffer_write_string b (Some s) = eb_append b (string_bytes s)"
  "egg_buffer_write_string b None = eb_append b (string_bytes [])"
  by (simp_all add: egg_buffer_write_string_def string_bytes_def eb_writes)

lemma write_data_append [eb_writes]:
  "length data < 2 ^ 32 \<Longrightarrow> egg_buffer_write_data b data = eb_append b (string_bytes data)"
  by (simp add: egg_buffer_write_data_def string_bytes_def eb_writes)

lemma write_boolean_append [eb_writes]:
  "egg_buffer_write_boolean b v = eb_append b [if v \<noteq> 0 then 1 else 0]"
  by (simp add: egg_buffer_write_boolean_def)

lemma write_tag_append [eb_writes]:
  "wire_tag_ok tag \<Longrightarrow> egg_buffer_write_tag b field tag = eb_append b (varint_bytes (tag_word field tag))"
  by (auto simp: egg_buffer_write_tag_def wire_tag_ok_def tag_word_def eb_writes)

lemma length_le_bytes [simp]: "length (le_bytes n w) = n"
  by (simp add: le_bytes_def)

lemma length_host_bytes [simp]: "length (host_bytes ord n w) = n"
  by (cases ord) (simp_all add: host_bytes_def)

lemma le_bytes_8:
  "le_bytes 8 w = [ucast w, ucast (drop_bit 8 w), ucast (drop_bit 16 w), ucast (drop_bit 24 w),
     ucast (drop_bit 32 w), ucast (drop_bit 40 w), ucast (drop_bit 48 w), ucast (drop_bit 56 w)]"
  by (simp add: le_bytes_def upt_rec)

lemma le_bytes_4:
  "le_bytes 4 w = [ucast w, ucast (drop_bit 8 w), ucast (drop_bit 16 w), ucast (drop_bit 24 w)]"
  by (simp add: le_bytes_def upt_rec)

lemma write_double_append [eb_writes]:
  "egg_buffer_write_double ord b d = eb_append b (le_bytes 8 d)"
  by (cases ord) (simp_all add: egg_buffer_write_double_def host_bytes_def le_bytes_8)

lemma write_float_append [eb_writes]:
  "egg_buffer_write_float ord b f = eb_append b (le_bytes 4 f)"
  by (cases ord) (simp_all add: egg_buffer_write_float_def host_bytes_def le_bytes_4)

end
