(* ===== verification/Egg_Codec.thy ===== *)
theory Egg_Codec
  imports Egg_Buffer
begin

text \<open>
  The interface between the writers and the readers of \<open>Egg_Buffer\<close>: a codec is a writer's bytes, the
  matching reader and the values for which reading gives back what was written. Everything the
  message formats need of it is proved once in the locale; every pair of the buffer's operations is
  an interpretation of it.
\<close>

unbundle bit_operations_syntax

section \<open>The unread part of a buffer\<close>

definition unread :: "egg_buffer \<Rightarrow> u8 list" where
  "unread b = drop (eb_pos b) (eb_ar b)"

definition eb_wf :: "egg_buffer \<Rightarrow> bool" where
  "eb_wf b \<longleftrightarrow> eb_pos b \<le> length (eb_ar b) \<and> length (eb_ar b) < 2 ^ 32"

definition eb_forward :: "egg_buffer \<Rightarrow> egg_buffer \<Rightarrow> bool" where
  "eb_forward b b' \<longleftrightarrow> eb_ar b' = eb_ar b \<and> eb_pos b \<le> eb_pos b'"

lemma eb_advance_simps [simp]:
  "eb_ar (eb_advance n b) = eb_ar b"
  "eb_pos (eb_advance n b) = eb_pos b + n"
  "eb_advance m (eb_advance n b) = eb_advance (n + m) b"
  "eb_advance 0 b = b"
  by (simp_all add: eb_advance_def)

lemma unread_advance [simp]: "unread (eb_advance n b) = drop n (unread b)"
  by (simp add: unread_def add.commute)

lemma unread_new_from_data [simp]: "unread (egg_buffer_new_from_data d) = d"
  by (simp add: unread_def egg_buffer_new_from_data_def)

lemma length_unread: "length (unread b) = length (eb_ar b) - eb_pos b"
  by (simp add: unread_def)

lemma eb_next_unread [rd_simps]:
  assumes "unread b = c # r"
  shows "eb_next b = (Value c, eb_advance 1 b)"
proof -
  have "eb_pos b < length (eb_ar b)"
    using assms length_unread [of b] by simp
  moreover have "eb_ar b ! eb_pos b = c"
    using assms calculation by (simp add: unread_def hd_drop_conv_nth [symmetric])
  ultimately show ?thesis by (simp add: eb_next_def eb_advance_def)
qed

lemma eb_peek_unread [rd_simps]:
  assumes "unread b = d @ r" "length d = n" "eb_wf b"
  shows "eb_peek n b = (Value d, b)"
proof -
  have "eb_pos b + n \<le> length (eb_ar b)"
    using assms length_unread [of b] by (auto simp: eb_wf_def)
  moreover have "take n (drop (eb_pos b) (eb_ar b)) = d"
    using assms by (simp add: unread_def)
  ultimately show ?thesis by (simp add: eb_peek_def)
qed

lemma eb_skip_eval [rd_simps]: "eb_skip n b = (Value (), eb_advance n b)"
  by (simp add: eb_skip_def)

lemma enough_unread:
  "unread b = d @ r \<Longrightarrow> length d = n \<Longrightarrow> eb_wf b \<Longrightarrow> eb_pos b + n \<le> length (eb_ar b)"
  using length_unread [of b] by (auto simp: eb_wf_def)

section \<open>Reading given bytes\<close>

text \<open>
  \<open>reads m bs v\<close>: wherever the bytes \<open>bs\<close> are next in a buffer, \<open>m\<close> consumes exactly them and gives \<open>v\<close>.
\<close>

definition reads :: "(egg_buffer, 'a) reader \<Rightarrow> u8 list \<Rightarrow> 'a \<Rightarrow> bool" where
  "reads m bs v \<longleftrightarrow> (\<forall>b r. unread b = bs @ r \<longrightarrow> eb_wf b \<longrightarrow> m b = (Value v, eb_advance (length bs) b))"

lemma eb_wf_advance [simp]:
  "unread b = d @ r \<Longrightarrow> eb_wf b \<Longrightarrow> eb_wf (eb_advance (length d) b)"
  using length_unread [of b] by (auto simp: eb_wf_def)

lemma readsI:
  "(\<And>b r. unread b = bs @ r \<Longrightarrow> eb_wf b \<Longrightarrow> m b = (Value v, eb_advance (length bs) b)) \<Longrightarrow> reads m bs v"
  by (simp add: reads_def)

lemma readsD:
  "reads m bs v \<Longrightarrow> unread b = bs @ r \<Longrightarrow> eb_wf b \<Longrightarrow> m b = (Value v, eb_advance (length bs) b)"
  by (simp add: reads_def)

lemma reads_return: "reads (rd_return v) [] v"
  by (simp add: reads_def rd_return_def)

lemma reads_bind:
  assumes m: "reads m bs v" and f: "reads (f v) bs' w"
  shows "reads (rd_bind m f) (bs @ bs') w"
proof (rule readsI)
  fix b r
  assume b: "unread b = (bs @ bs') @ r" "eb_wf b"
  then have "m b = (Value v, eb_advance (length bs) b)"
    by (intro readsD [OF m]) auto
  moreover have "f v (eb_advance (length bs) b) = (Value w, eb_advance (length bs') (eb_advance (length bs) b))"
    using b by (intro readsD [OF f, of _ r]) auto
  ultimately show "rd_bind m f b = (Value w, eb_advance (length (bs @ bs')) b)"
    by (simp add: rd_bind_Value)
qed

lemma reads_bind_last: "reads m bs v \<Longrightarrow> reads (f v) [] w \<Longrightarrow> reads (rd_bind m f) bs w"
  using reads_bind [of m bs v f "[]" w] by simp

lemma reads_guard: "p \<Longrightarrow> reads m bs v \<Longrightarrow> reads (rd_guard p m) bs v"
  by (simp add: rd_guard_True)

section \<open>Codecs\<close>

locale wire_codec =
  fixes put :: "'a \<Rightarrow> u8 list" and get :: "(egg_buffer, 'a) reader" and ok :: "'a \<Rightarrow> bool"
  assumes get_put: "ok a \<Longrightarrow> unread b = put a @ r \<Longrightarrow> eb_wf b \<Longrightarrow>
    get b = (Value a, eb_advance (length (put a)) b)"
begin

lemma reads_put: "ok a \<Longrightarrow> reads get (put a) a"
  by (simp add: reads_def get_put)

text \<open>The bytes of a value determine it and where it ends, whatever follows them.\<close>

lemma put_prefix_free:
  assumes "ok a" "ok a'" "put a @ r = put a' @ r'" "length (put a @ r) < 2 ^ 32"
  shows "a = a' \<and> r = r'"
proof -
  let ?b = "egg_buffer_new_from_data (put a @ r)"
  have wf: "eb_wf ?b"
    using assms(4) by (simp add: eb_wf_def egg_buffer_new_from_data_def)
  have "get ?b = (Value a, eb_advance (length (put a)) ?b)"
    using assms(1) wf by (intro get_put) auto
  moreover have "get ?b = (Value a', eb_advance (length (put a')) ?b)"
    using assms wf by (intro get_put) auto
  ultimately show ?thesis using assms(3) by simp
qed

lemma bind_get_put:
  "ok a \<Longrightarrow> unread b = put a @ r \<Longrightarrow> eb_wf b \<Longrightarrow>
     rd_bind get f b = f a (eb_advance (length (put a)) b)"
  by (simp add: rd_bind_Value get_put)

text \<open>Values written one after the other are read back one after the other.\<close>

lemma get_put_twice:
  assumes "ok a" "ok a'" "unread b = put a @ put a' @ r" "eb_wf b"
  shows "rd_bind get (\<lambda>x. rd_bind get (\<lambda>y. rd_return (x, y))) b
    = (Value (a, a'), eb_advance (length (put a) + length (put a')) b)"
proof -
  have "length (put a) \<le> length (unread b)"
    using assms(3) by simp
  then have "eb_wf (eb_advance (length (put a)) b)"
    using assms(4) by (auto simp: eb_wf_def length_unread)
  moreover have "unread (eb_advance (length (put a)) b) = put a' @ r"
    using assms(3) by simp
  ultimately show ?thesis
    using assms by (simp add: bind_get_put rd_return_def)
qed

end

section \<open>Variable-width integers\<close>

lemma bit_varint_byte:
  fixes w :: "'a::len word"
  assumes "8 \<le> LENGTH('a)"
  shows "bit (varint_byte w) k \<longleftrightarrow> (k = 7 \<and> w > 0x7F) \<or> (k < 7 \<and> bit w k)"
  using assms unfolding varint_byte_def byte_mask7 by (auto simp: bit_simps)

lemma gt_7F_iff:
  fixes w :: "'a::len word"
  assumes "8 \<le> LENGTH('a)"
  shows "0x7F < w \<longleftrightarrow> drop_bit 7 w \<noteq> 0"
  unfolding word_less_nat_alt unat_7F [OF assms] drop_bit7_eq_0_iff by auto

lemma varint_byte_low:
  fixes w :: "'a::len word"
  assumes "8 \<le> LENGTH('a)"
  shows "(ucast (varint_byte w AND 0x7F) :: 'a word) = w AND 0x7F"
  using assms unfolding byte_mask7
  by (intro bit_word_eqI) (auto simp: bit_simps bit_varint_byte)

lemma byte_bit7_iff: "(c AND 0x80 :: u8) \<noteq> 0 \<longleftrightarrow> bit c 7"
  using and_exp_eq_0_iff_not_bit [of c 7] by simp

lemma varint_byte_more:
  fixes w :: "'a::len word"
  assumes "8 \<le> LENGTH('a)"
  shows "varint_byte w AND 0x80 \<noteq> 0 \<longleftrightarrow> drop_bit 7 w \<noteq> 0"
  using assms by (simp add: byte_bit7_iff bit_varint_byte gt_7F_iff)

text \<open>
  Every shift the writer needs for a word of the width is within the reader's limit: the hypothesis
  \<open>lim\<close> holds for 28 with 32 bits and for 63 with 64 bits.
\<close>

lemma read_varint_bytes:
  fixes w :: "'a::len word"
  assumes len: "8 \<le> LENGTH('a)" and lim: "\<And>k. 7 * k < LENGTH('a) \<Longrightarrow> 7 * k \<le> lim"
  shows "unat w < 2 ^ (LENGTH('a) - 7 * k) \<Longrightarrow> 7 * k < LENGTH('a) \<Longrightarrow> unread b = varint_bytes w @ r \<Longrightarrow>
    read_varint lim u (7 * k) b
      = (Value (u OR push_bit (7 * k) w), eb_advance (length (varint_bytes w)) b)"
proof (induction w arbitrary: u k b rule: varint_bytes.induct)
  case (1 w)
  let ?c = "varint_byte w" and ?w' = "drop_bit 7 w" and ?b' = "eb_advance 1 b"
  let ?u' = "u OR push_bit (7 * k) (w AND 0x7F)"
  obtain r' where bytes: "unread b = ?c # r'"
    using 1(4) by (subst (asm) varint_bytes.simps) simp
  have inside: "\<not> eb_pos b \<ge> length (eb_ar b)"
    using bytes length_unread [of b] by auto
  have step: "read_varint lim u (7 * k) b =
      (if ?w' \<noteq> 0 then read_varint lim ?u' (7 * k + 7) ?b' else (Value ?u', ?b'))"
    using inside lim [OF 1(3)]
    by (subst read_varint.simps)
      (simp add: eb_next_unread [OF bytes] varint_byte_more [OF len] varint_byte_low [OF len])
  show ?case
  proof (cases "?w' = 0")
    case True
    then have "w AND 0x7F = w"
      unfolding byte_mask7 by (simp add: take_bit_eq_mask [symmetric] take_bit_eq_self_iff_drop_bit_eq_0)
    moreover have "length (varint_bytes w) = 1"
      using True by (subst varint_bytes.simps) simp
    ultimately show ?thesis using step True by simp
  next
    case False
    have bytes_w: "varint_bytes w = ?c # varint_bytes ?w'"
      using False by (subst varint_bytes.simps) (simp add: word_gt_0)
    have "128 \<le> unat w"
      using False by (simp add: drop_bit7_eq_0_iff)
    with 1(2) have "(2::nat) ^ 7 < 2 ^ (LENGTH('a) - 7 * k)"
      by simp
    then have "7 < LENGTH('a) - 7 * k"
      by (rule power_less_imp_less_exp [rotated]) simp
    then have more: "7 * Suc k < LENGTH('a)"
      by simp
    then have "LENGTH('a) - 7 * k = (LENGTH('a) - 7 * Suc k) + 7"
      by simp
    then have "unat w < 2 ^ (LENGTH('a) - 7 * Suc k) * 128"
      using 1(2) by (simp only: power_add) simp
    then have "unat ?w' < 2 ^ (LENGTH('a) - 7 * Suc k)"
      by (simp add: unat_drop_bit_eq drop_bit_eq_div [where 'a = nat] div_less_iff_less_mult)
    moreover have "unread ?b' = varint_bytes ?w' @ r"
      using 1(4) bytes_w by simp
    ultimately have "read_varint lim ?u' (7 * Suc k) ?b'
        = (Value (?u' OR push_bit (7 * Suc k) ?w'), eb_advance (length (varint_bytes ?w')) ?b')"
      using False more by (intro 1(1)) (auto simp: word_gt_0)
    moreover have "?u' OR push_bit (7 * Suc k) ?w' = u OR push_bit (7 * k) w"
      using split_low7 [of "7 * k" w] by (simp add: or.assoc add.commute)
    ultimately show ?thesis
      using step False bytes_w by (simp add: add.commute)
  qed
qed

lemma read_uint_varint:
  "unread b = varint_bytes (w :: guint) @ r \<Longrightarrow>
     egg_buffer_read_uint b = (Value w, eb_advance (length (varint_bytes w)) b)"
  using read_varint_bytes [where k = 0 and lim = 28 and w = w and u = 0 and b = b] unat_bounded [of w]
  unfolding egg_buffer_read_uint_def by simp

lemma read_uint64_varint:
  "unread b = varint_bytes (w :: u64) @ r \<Longrightarrow>
     egg_buffer_read_uint64 b = (Value w, eb_advance (length (varint_bytes w)) b)"
  using read_varint_bytes [where k = 0 and lim = 63 and w = w and u = 0 and b = b] unat_bounded [of w]
  unfolding egg_buffer_read_uint64_def by simp

text \<open>One byte at least, and no more than seven bits of the word in each.\<close>

lemma varint_bytes_nonempty [simp]: "varint_bytes w \<noteq> []" "0 < length (varint_bytes w)"
  by (subst varint_bytes.simps, simp)+

lemma length_varint_bytes:
  "unat w < 2 ^ (7 * Suc n) \<Longrightarrow> length (varint_bytes w) \<le> Suc n"
proof (induction n arbitrary: w)
  case 0
  then have "drop_bit 7 w = 0"
    by (simp add: drop_bit7_eq_0_iff)
  then show ?case by (subst varint_bytes.simps) simp
next
  case (Suc n)
  have "unat w < 2 ^ (7 * Suc n) * 128"
    using Suc.prems by (simp add: power_add)
  then have "unat (drop_bit 7 w) < 2 ^ (7 * Suc n)"
    by (simp add: unat_drop_bit_eq drop_bit_eq_div [where 'a = nat] div_less_iff_less_mult)
  then have "length (varint_bytes (drop_bit 7 w)) \<le> Suc n"
    by (rule Suc.IH)
  then show ?case by (subst varint_bytes.simps) simp
qed

lemma length_varint_uint: "length (varint_bytes (w :: guint)) \<le> 5"
  using length_varint_bytes [of w 4] unat_bounded [of w] by simp

lemma length_varint_uint64: "length (varint_bytes (w :: u64)) \<le> 10"
  using length_varint_bytes [of w 9] unat_bounded [of w] by simp

section \<open>Zigzag integers, tags and fixed-width values\<close>

definition unzigzag :: "'a::len word \<Rightarrow> 'a word" where
  "unzigzag u = drop_bit 1 u XOR - (u AND 1)"

lemma minus_and_1: "- (u AND 1 :: 'a::len word) = (if bit u 0 then - 1 else 0)"
  by (simp add: and_one_eq mod_2_eq_odd bit_0)

lemma bit_zigzag:
  fixes i :: "'a::len word"
  assumes "n = LENGTH('a) - 1" "k < LENGTH('a)"
  shows "bit (zigzag n i) k \<longleftrightarrow> (k \<noteq> 0 \<and> bit i (k - 1)) \<noteq> bit i n"
proof -
  have "bit (signed_drop_bit n i) k = bit i n"
    using assms by (cases "k = 0") (simp_all add: bit_signed_drop_bit_iff)
  moreover have "bit (push_bit 1 i) k \<longleftrightarrow> k \<noteq> 0 \<and> bit i (k - 1)"
    using assms(2) by (simp only: bit_push_bit_iff) auto
  ultimately show ?thesis
    by (simp only: zigzag_def bit_xor_iff)
qed

lemma unzigzag_zigzag:
  fixes i :: "'a::len word"
  assumes n: "n = LENGTH('a) - 1"
  shows "unzigzag (zigzag n i) = i"
proof (rule bit_word_eqI)
  fix k
  assume k: "k < LENGTH('a)"
  let ?u = "zigzag n i"
  have low: "bit ?u 0 = bit i n"
    using n by (simp add: bit_zigzag)
  then have "bit (- (?u AND 1)) k = bit i n"
    using k by (simp add: minus_and_1)
  moreover have "bit (drop_bit 1 ?u) k \<longleftrightarrow> k \<noteq> n \<and> bit i k \<noteq> bit i n"
  proof (cases "k = n")
    case True
    then have "\<not> bit ?u (1 + k)"
      using n by (auto dest: bit_imp_le_length)
    with True show ?thesis
      by (simp only: bit_drop_bit_eq comp_def) simp
  next
    case False
    then have "1 + k < LENGTH('a)" using n k by simp
    then show ?thesis using False n
      by (simp only: bit_drop_bit_eq comp_def) (simp add: bit_zigzag)
  qed
  ultimately show "bit (unzigzag ?u) k = bit i k"
    unfolding unzigzag_def bit_xor_iff by auto
qed

definition tag_ok :: "guint \<times> guint \<Rightarrow> bool" where
  "tag_ok ft \<longleftrightarrow> unat (fst ft) < 2 ^ 29 \<and> unat (snd ft) < 8"

lemma tag_word_split:
  assumes "tag_ok (field, tag)"
  shows "drop_bit 3 (tag_word field tag AND NOT 7) = field" and "tag_word field tag AND 7 = tag"
proof -
  have t: "take_bit 3 tag = tag"
    using assms by (simp add: tag_ok_def take_bit_id_iff)
  have f: "take_bit 29 field = field"
    using assms by (simp add: tag_ok_def take_bit_id_iff)
  have tb: "k < 3" if "bit tag k" for k
    using that t by (metis bit_take_bit_iff)
  have fb: "k < 29" if "bit field k" for k
    using that f by (metis bit_take_bit_iff)
  have seven: "(7 :: guint) = mask 3"
    by (simp add: mask_eq_exp_minus_1)
  show "drop_bit 3 (tag_word field tag AND NOT 7) = field"
    unfolding tag_word_def seven
    by (rule bit_word_eqI) (auto simp: bit_simps dest: tb fb)
  show "tag_word field tag AND 7 = tag"
    unfolding tag_word_def seven
    by (rule bit_word_eqI) (auto simp: bit_simps dest: tb fb)
qed

lemma le_bytes_Suc: "le_bytes (Suc n) w = ucast w # le_bytes n (drop_bit 8 w)"
  by (simp add: le_bytes_def upt_conv_Cons map_Suc_upt [symmetric] drop_bit_drop_bit add.commute
      del: upt_Suc map_Suc_upt)

lemma le_value_le_bytes: "le_value (le_bytes n w) = take_bit (8 * n) (w :: 'a::len word)"
proof (induction n arbitrary: w)
  case 0
  show ?case by (simp add: le_bytes_def)
next
  case (Suc n)
  show ?case
    unfolding le_bytes_Suc le_value.simps Suc.IH
    by (rule bit_word_eqI) (auto simp: bit_simps not_less)
qed

section \<open>The codecs of the buffer\<close>

interpretation uint_codec: wire_codec "varint_bytes :: guint \<Rightarrow> u8 list" egg_buffer_read_uint "\<lambda>_. True"
  by unfold_locales (simp add: read_uint_varint)

interpretation uint64_codec: wire_codec "varint_bytes :: u64 \<Rightarrow> u8 list" egg_buffer_read_uint64 "\<lambda>_. True"
  by unfold_locales (simp add: read_uint64_varint)

interpretation int_codec: wire_codec "\<lambda>i :: gint. varint_bytes (zigzag 31 i)" egg_buffer_read_int "\<lambda>_. True"
proof unfold_locales
  fix i :: gint and b r
  assume "unread b = varint_bytes (zigzag 31 i) @ r"
  note read = read_uint_varint [OF this]
  show "egg_buffer_read_int b = (Value i, eb_advance (length (varint_bytes (zigzag 31 i))) b)"
    using unzigzag_zigzag [of 31 i]
    by (simp add: egg_buffer_read_int_def rd_bind_Value read rd_return_eval unzigzag_def)
qed

interpretation int64_codec: wire_codec "\<lambda>i :: u64. varint_bytes (zigzag 63 i)" egg_buffer_read_int64 "\<lambda>_. True"
proof unfold_locales
  fix i :: u64 and b r
  assume "unread b = varint_bytes (zigzag 63 i) @ r"
  note read = read_uint64_varint [OF this]
  show "egg_buffer_read_int64 b = (Value i, eb_advance (length (varint_bytes (zigzag 63 i))) b)"
    using unzigzag_zigzag [of 63 i]
    by (simp add: egg_buffer_read_int64_def rd_bind_Value read rd_return_eval unzigzag_def)
qed

interpretation tag_codec: wire_codec "\<lambda>(field, tag). varint_bytes (tag_word field tag)" egg_buffer_read_tag tag_ok
proof unfold_locales
  fix a :: "guint \<times> guint" and b r
  obtain field tag where a: "a = (field, tag)" by (cases a)
  assume ok: "tag_ok a" and "unread b = (case a of (field, tag) \<Rightarrow> varint_bytes (tag_word field tag)) @ r"
  then have "unread b = varint_bytes (tag_word field tag) @ r"
    by (simp add: a)
  note read = read_uint_varint [OF this]
  show "egg_buffer_read_tag b
      = (Value a, eb_advance (length (case a of (field, tag) \<Rightarrow> varint_bytes (tag_word field tag))) b)"
    using tag_word_split [OF ok [unfolded a]]
    by (simp add: egg_buffer_read_tag_def rd_bind_Value read rd_return_eval a)
qed

interpretation boolean_codec: wire_codec "\<lambda>v :: gint. [if v \<noteq> 0 then 1 else 0]" egg_buffer_read_boolean
  "\<lambda>v. v = 0 \<or> v = 1"
proof unfold_locales
  fix v :: gint and b r
  assume v: "v = 0 \<or> v = 1" and u: "unread b = [if v \<noteq> 0 then 1 else 0] @ r"
  have "varint_bytes v = [if v \<noteq> 0 then 1 else 0]"
    using v by (subst varint_bytes.simps) (auto simp: varint_byte_def drop_bit7_eq_0_iff)
  then show "egg_buffer_read_boolean b = (Value v, eb_advance (length [if v \<noteq> 0 then 1 else (0 :: u8)]) b)"
    using read_uint_varint [of b v r] u unfolding egg_buffer_read_boolean_def by simp
qed

text \<open>
  A string and a blob have the same bytes; the reader of strings gives back one without a NUL.
\<close>

lemma read_string_string_bytes:
  assumes ok: "cstring_ok t" and u: "unread b = string_bytes t @ r" and wf: "eb_wf b"
  shows "egg_buffer_read_string b = (Value t, eb_advance (length (string_bytes t)) b)"
proof -
  let ?l = "word_of_nat (length t) :: guint" and ?h = "varint_bytes (word_of_nat (length t) :: guint)"
  let ?b' = "eb_advance (length ?h) b"
  have bytes: "unread b = ?h @ t @ r"
    using u by (simp add: string_bytes_def)
  have "length ?h + length t < 2 ^ 32"
    using bytes wf length_unread [of b] by (auto simp: eb_wf_def)
  moreover have "1 \<le> length ?h"
    by (simp add: Suc_le_eq)
  ultimately have l: "length t + 1 < 2 ^ 32" by simp
  have ul: "unat ?l = length t"
    using l by (simp add: unat_word_of_nat)
  have ul1: "unat (?l + 1) = length t + 1"
    using l ul by (simp add: unat_word_ariths)
  have wf': "eb_wf ?b'" and u': "unread ?b' = t @ r"
    using bytes wf by simp_all
  have read: "egg_buffer_read_uint b = (Value ?l, ?b')"
    using bytes by (rule read_uint_varint)
  have peek: "eb_peek (length t) ?b' = (Value t, ?b')"
    using u' wf' by (intro eb_peek_unread) auto
  have enough: "eb_pos ?b' + length t \<le> length (eb_ar ?b')"
    using enough_unread [OF u' _ wf'] by simp
  have copy: "blk_memcpy (blk_malloc (Suc (length t))) t = Some (t @ [0])"
    by (simp add: blk_memcpy_def blk_malloc_def del: replicate_Suc) simp
  have store: "blk_store (t @ [0]) (length t) 0 = Some (t @ [0])"
    by (simp add: blk_store_def)
  show ?thesis
    unfolding egg_buffer_read_string_def
    by (simp add: rd_bind_Value read rd_gets_eval ul ul1 enough [simplified] rd_guard_True peek copy store
        rd_access_eval eb_skip_eval rd_return_eval ok string_bytes_def)
qed

interpretation string_codec: wire_codec string_bytes egg_buffer_read_string cstring_ok
  by unfold_locales (rule read_string_string_bytes)

interpretation double_codec: wire_codec "le_bytes 8 :: gdouble_bits \<Rightarrow> u8 list"
  "egg_buffer_read_double ord" "\<lambda>_. True"
proof unfold_locales
  fix d :: gdouble_bits and b r
  assume u: "unread b = le_bytes 8 d @ r" and wf: "eb_wf b"
  have enough: "eb_pos b + 8 \<le> length (eb_ar b)"
    using enough_unread [OF u _ wf] by simp
  have val: "le_value (le_bytes 8 d) = d"
    by (simp add: le_value_le_bytes take_bit_id_iff unat_bounded [of d, simplified])
  show "egg_buffer_read_double ord b = (Value d, eb_advance (length (le_bytes 8 d)) b)"
  proof (cases ord)
    case G_LITTLE_ENDIAN
    then show ?thesis
      unfolding egg_buffer_read_double_def
      by (simp add: rd_bind_Value rd_gets_eval enough rd_guard_True eb_peek_unread [OF u _ wf]
          eb_skip_eval rd_return_eval host_value_def val)
  next
    case G_BIG_ENDIAN
    then show ?thesis
      using u unfolding egg_buffer_read_double_def le_bytes_8
      by (simp add: rd_bind_Value rd_gets_eval enough rd_guard_True eb_next_unread
          rd_return_eval host_value_def val [unfolded le_bytes_8] del: le_value.simps)
  qed
qed

interpretation float_codec: wire_codec "le_bytes 4 :: gfloat_bits \<Rightarrow> u8 list"
  "egg_buffer_read_float ord" "\<lambda>_. True"
proof unfold_locales
  fix f :: gfloat_bits and b r
  assume u: "unread b = le_bytes 4 f @ r" and wf: "eb_wf b"
  have enough: "eb_pos b + 4 \<le> length (eb_ar b)"
    using enough_unread [OF u _ wf] by simp
  have val: "le_value (le_bytes 4 f) = f"
    by (simp add: le_value_le_bytes take_bit_id_iff unat_bounded [of f, simplified])
  show "egg_buffer_read_float ord b = (Value f, eb_advance (length (le_bytes 4 f)) b)"
  proof (cases ord)
    case G_LITTLE_ENDIAN
    then show ?thesis
      unfolding egg_buffer_read_float_def
      by (simp add: rd_bind_Value rd_gets_eval enough rd_guard_True eb_peek_unread [OF u _ wf]
          eb_skip_eval rd_return_eval host_value_def val)
  next
    case G_BIG_ENDIAN
    then show ?thesis
      using u unfolding egg_buffer_read_float_def le_bytes_4
      by (simp add: rd_bind_Value rd_gets_eval enough rd_guard_True eb_next_unread
          rd_return_eval host_value_def val [unfolded le_bytes_4] del: le_value.simps)
  qed
qed

section \<open>Memory safety of the reads\<close>

text \<open>
  From a well-formed buffer every read but \<open>egg_buffer_read_data\<close> stays inside the data, and moves the
  position forward only, whatever the bytes are.
\<close>

interpretation eb_safety: reader_safety eb_forward eb_wf
  by unfold_locales (auto simp: eb_forward_def)

abbreviation eb_safe :: "(egg_buffer, 'a) reader \<Rightarrow> bool" where
  "eb_safe \<equiv> safe_reader eb_wf eb_forward"

abbreviation eb_along :: "(egg_buffer, 'a) reader \<Rightarrow> bool" where
  "eb_along \<equiv> rd_along eb_forward"

text \<open>A read that succeeds consumes at least one byte.\<close>

definition eb_consumes :: "(egg_buffer, 'a) reader \<Rightarrow> bool" where
  "eb_consumes m \<longleftrightarrow> (\<forall>b v b'. m b = (Value v, b') \<longrightarrow>
     eb_forward b b' \<and> eb_pos b < eb_pos b' \<and> eb_pos b < length (eb_ar b))"

lemma eb_consumesD:
  assumes "eb_consumes m" "m b = (Value v, b')"
  shows "eb_ar b' = eb_ar b" "eb_pos b < eb_pos b'" "eb_pos b < length (eb_ar b)"
  using assms unfolding eb_consumes_def eb_forward_def by blast+

lemma eb_consumes_bind:
  assumes "eb_consumes m" "\<And>a. eb_along (f a)"
  shows "eb_consumes (rd_bind m f)"
  unfolding eb_consumes_def
proof (intro allI impI)
  fix b v b'
  assume "rd_bind m f b = (Value v, b')"
  then obtain a c where c: "m b = (Value a, c)" and b': "f a c = (Value v, b')"
    by (rule rd_bind_ValueE)
  have "eb_forward c b'"
    using eb_safety.alongD [OF assms(2) b'] .
  with eb_consumesD [OF assms(1) c]
  show "eb_forward b b' \<and> eb_pos b < eb_pos b' \<and> eb_pos b < length (eb_ar b)"
    by (auto simp: eb_forward_def)
qed

lemma read_varint_result:
  "read_varint lim u sh b = (x, b') \<Longrightarrow>
     x \<noteq> Fault \<and> (eb_wf b \<longrightarrow> eb_wf b') \<and> eb_forward b b' \<and>
     (\<forall>v. x = Value v \<longrightarrow> eb_pos b < eb_pos b' \<and> eb_pos b < length (eb_ar b))"
proof (induction lim u sh b rule: read_varint.induct)
  case (1 lim u sh b)
  show ?case
  proof (cases "eb_pos b \<ge> length (eb_ar b) \<or> sh > lim")
    case True
    then show ?thesis
      using 1(2) by (subst (asm) read_varint.simps) (auto simp: eb_forward_def)
  next
    case False
    let ?c = "eb_ar b ! eb_pos b" and ?b1 = "eb_advance 1 b"
    have next1: "eb_next b = (Value ?c, ?b1)"
      using False by (simp add: eb_next_def eb_advance_def)
    have fw: "eb_wf b \<longrightarrow> eb_wf ?b1" "eb_forward b ?b1" "eb_pos b < eb_pos ?b1"
      using False by (auto simp: eb_wf_def eb_forward_def)
    show ?thesis
    proof (cases "?c AND 0x80 \<noteq> 0")
      case True
      have "read_varint lim (u OR push_bit sh (ucast (?c AND 0x7F))) (sh + 7) ?b1 = (x, b')"
        using 1(2) False next1 True by (subst (asm) read_varint.simps) (simp add: Let_def)
      from 1(1) [OF False next1 [symmetric] refl refl True this]
      show ?thesis using fw False by (auto simp: eb_forward_def)
    next
      case ends: False
      have "x = Value (u OR push_bit sh (ucast (?c AND 0x7F)))" "b' = ?b1"
        using 1(2) False next1 ends by (subst (asm) read_varint.simps, simp add: Let_def)+
      then show ?thesis using fw False by simp
    qed
  qed
qed

lemma read_uint_result:
  assumes "eb_wf b" "egg_buffer_read_uint b = (x, b')"
  shows "x \<noteq> Fault" "eb_wf b'" "eb_forward b b'" "x = Value v \<Longrightarrow> eb_pos b < eb_pos b'"
  using read_varint_result [of 28 0 0 b x b'] assms unfolding egg_buffer_read_uint_def by auto

lemma consumes_read_uint [intro]: "eb_consumes egg_buffer_read_uint"
  unfolding eb_consumes_def egg_buffer_read_uint_def using read_varint_result by blast

lemma consumes_read_uint64 [intro]: "eb_consumes egg_buffer_read_uint64"
  unfolding eb_consumes_def egg_buffer_read_uint64_def using read_varint_result by blast

lemma along_read_uint [intro]: "eb_along egg_buffer_read_uint"
  unfolding rd_along_def egg_buffer_read_uint_def using read_varint_result by (metis prod.collapse)

lemma along_read_uint64 [intro]: "eb_along egg_buffer_read_uint64"
  unfolding rd_along_def egg_buffer_read_uint64_def using read_varint_result by (metis prod.collapse)

lemma along_primitives [intro]: "eb_along eb_next" "eb_along (eb_peek n)" "eb_along (eb_skip n)"
  by (auto simp: rd_along_def eb_next_def eb_peek_def eb_skip_def eb_forward_def)

lemma along_reads [intro]:
  "eb_along egg_buffer_read_boolean" "eb_along egg_buffer_read_int" "eb_along egg_buffer_read_int64"
  "eb_along egg_buffer_read_tag" "eb_along egg_buffer_read_string"
  "eb_along (egg_buffer_read_double ord)" "eb_along (egg_buffer_read_float ord)"
  unfolding egg_buffer_read_boolean_def egg_buffer_read_int_def egg_buffer_read_int64_def
    egg_buffer_read_tag_def egg_buffer_read_string_def egg_buffer_read_double_def
    egg_buffer_read_float_def
  by (intro eb_safety.along_intros along_read_uint along_read_uint64 along_primitives)+

lemma consumes_read_tag [intro]: "eb_consumes egg_buffer_read_tag"
  unfolding egg_buffer_read_tag_def
  by (intro eb_consumes_bind consumes_read_uint eb_safety.along_intros)

lemma safe_read_uint [intro]: "eb_safe egg_buffer_read_uint"
  unfolding safe_reader_def using read_uint_result by (metis prod.collapse)

lemma safe_read_uint64 [intro]: "eb_safe egg_buffer_read_uint64"
  unfolding safe_reader_def egg_buffer_read_uint64_def using read_varint_result
  by (metis prod.collapse)

lemma safe_read_boolean [intro]: "eb_safe egg_buffer_read_boolean"
  unfolding egg_buffer_read_boolean_def by (rule safe_read_uint)

lemma safe_read_int [intro]: "eb_safe egg_buffer_read_int"
  unfolding egg_buffer_read_int_def by (intro eb_safety.safe_intros safe_read_uint)

lemma safe_read_int64 [intro]: "eb_safe egg_buffer_read_int64"
  unfolding egg_buffer_read_int64_def by (intro eb_safety.safe_intros safe_read_uint64)

lemma safe_read_tag [intro]: "eb_safe egg_buffer_read_tag"
  unfolding egg_buffer_read_tag_def by (intro eb_safety.safe_intros safe_read_uint)

lemma safe_read_string [intro]: "eb_safe egg_buffer_read_string"
  unfolding safe_reader_def
proof (intro allI impI)
  fix b
  assume wf: "eb_wf b"
  obtain x b' where read: "egg_buffer_read_uint b = (x, b')"
    by (cases "egg_buffer_read_uint b")
  note r = read_uint_result [OF wf read]
  let ?m = "egg_buffer_read_string b"
  show "fst ?m \<noteq> Fault \<and> eb_wf (snd ?m) \<and> eb_forward b (snd ?m)"
  proof (cases x)
    case (Value u)
    show ?thesis
    proof (cases "eb_pos b' + unat u \<le> length (eb_ar b')")
      case True
      have "unat u + 1 < 2 ^ 32"
        using True r(2) r(4) [OF Value] by (simp add: eb_wf_def)
      then have u1: "unat (u + 1) = unat u + 1"
        by (simp add: unat_word_ariths)
      show ?thesis
        using True r Value u1 unfolding egg_buffer_read_string_def
        by (auto simp: rd_bind_def read rd_gets_def rd_guard_def eb_peek_def rd_access_def rd_return_def
            blk_memcpy_def blk_store_def eb_skip_def eb_wf_def eb_forward_def)
    next
      case False
      then show ?thesis
        using r Value unfolding egg_buffer_read_string_def
        by (simp add: rd_bind_def read rd_gets_def rd_guard_def rd_fail_def)
    qed
  qed (use r read in \<open>simp_all add: egg_buffer_read_string_def rd_bind_def\<close>)
qed

lemma eb_next_inside: "eb_pos b < length (eb_ar b) \<Longrightarrow> eb_next b = (Value (eb_ar b ! eb_pos b), eb_advance 1 b)"
  by (simp add: eb_next_def eb_advance_def)

lemma safe_read_double [intro]: "eb_safe (egg_buffer_read_double ord)"
  unfolding safe_reader_def egg_buffer_read_double_def
  by (auto simp: rd_bind_def rd_gets_def rd_guard_def rd_fail_def eb_next_inside eb_peek_def rd_return_def
      eb_skip_def eb_wf_def eb_forward_def)

lemma safe_read_float [intro]: "eb_safe (egg_buffer_read_float ord)"
  unfolding safe_reader_def egg_buffer_read_float_def
  by (auto simp: rd_bind_def rd_gets_def rd_guard_def rd_fail_def eb_next_inside eb_peek_def rd_return_def
      eb_skip_def eb_wf_def eb_forward_def)

text \<open>
  \<open>egg_buffer_read_data\<close> stores its terminator one byte after the block: it faults exactly when the
  blob it is asked for is there.
\<close>

lemma read_data_fault_iff:
  assumes wf: "eb_wf b" and read: "egg_buffer_read_uint b = (Value u, b')"
  shows "fst (egg_buffer_read_data b) = (if eb_pos b' + unat u \<le> length (eb_ar b') then Fault else Failed)"
  unfolding egg_buffer_read_data_def
  by (auto simp: rd_bind_def read rd_gets_def rd_guard_def eb_peek_def rd_access_def rd_return_def
      rd_fail_def rd_fault_def blk_memcpy_def blk_store_def)

section \<open>Writing, then reading\<close>

text \<open>
  \<open>at_end b n\<close>: the buffer has been read to its end, as a new one has, and has room for \<open>n\<close> more bytes.
  \<open>reads_back m b v\<close>: reading the buffer gives \<open>v\<close> and leaves the position at the end again.
\<close>

definition at_end :: "egg_buffer \<Rightarrow> nat \<Rightarrow> bool" where
  "at_end b n \<longleftrightarrow> eb_pos b = length (eb_ar b) \<and> length (eb_ar b) + n < 2 ^ 32"

definition reads_back :: "(egg_buffer, 'a) reader \<Rightarrow> egg_buffer \<Rightarrow> 'a \<Rightarrow> bool" where
  "reads_back m b v \<longleftrightarrow> m b = (Value v, b\<lparr>eb_pos := length (eb_ar b)\<rparr>)"

lemma at_end_new: "n < 2 ^ 32 \<Longrightarrow> at_end egg_buffer_new n"
  by (simp add: at_end_def egg_buffer_new_def)

lemma reads_back_append:
  assumes "reads m bs v" "at_end b n" "length bs \<le> n"
  shows "reads_back m (eb_append b bs) v"
proof -
  have "unread (eb_append b bs) = bs" "eb_wf (eb_append b bs)"
    using assms(2,3) by (simp_all add: at_end_def unread_def eb_wf_def)
  then have "m (eb_append b bs) = (Value v, eb_advance (length bs) (eb_append b bs))"
    using assms(1) by (intro readsD [where r = "[]"]) simp_all
  then show ?thesis
    using assms(2) by (simp add: reads_back_def at_end_def eb_advance_def)
qed

lemma length_string_bytes: "length (string_bytes s) \<le> length s + 5"
  using length_varint_uint [of "word_of_nat (length s)"] by (simp add: string_bytes_def)

text \<open>
  C6: the variable-width integers round-trip. Every 32-bit and 64-bit integer, signed (zigzag) or
  not, is read back as the value that was written, from the bytes the writer appended and no others.
\<close>

theorem integers_roundtrip:
  assumes "at_end b 10"
  shows "reads_back egg_buffer_read_uint (egg_buffer_write_uint b u) u \<and>
    reads_back egg_buffer_read_uint64 (egg_buffer_write_uint64 b w) w \<and>
    reads_back egg_buffer_read_int (egg_buffer_write_int b i) i \<and>
    reads_back egg_buffer_read_int64 (egg_buffer_write_int64 b j) j"
  unfolding eb_writes
  using reads_back_append [OF uint_codec.reads_put assms, of u]
    reads_back_append [OF uint64_codec.reads_put assms, of w]
    reads_back_append [OF int_codec.reads_put assms, of i]
    reads_back_append [OF int64_codec.reads_put assms, of j]
    length_varint_uint [of u] length_varint_uint64 [of w]
    length_varint_uint [of "zigzag 31 i"] length_varint_uint64 [of "zigzag 63 j"]
  by simp

theorem integers_roundtrip_witness:
  "reads_back egg_buffer_read_int (egg_buffer_write_int egg_buffer_new (- 300)) (- 300) \<and>
   reads_back egg_buffer_read_uint64 (egg_buffer_write_uint64 egg_buffer_new (2 ^ 63)) (2 ^ 63)"
  using integers_roundtrip [OF at_end_new, of 0 "2 ^ 63" "- 300" 0] by simp

text \<open>
  Strings, doubles, floats and tags round-trip, on hosts of either byte order. A string must be a C
  string (no NUL inside) and a field number must leave the three bits of the wire type free.
\<close>

theorem strings_floats_tags_roundtrip:
  assumes "at_end b (length s + 10)" "cstring_ok s" "unat field < 2 ^ 29" "wire_tag_ok tag"
  shows "reads_back egg_buffer_read_string (egg_buffer_write_string b (Some s)) s \<and>
    reads_back (egg_buffer_read_double ord) (egg_buffer_write_double ord b d) d \<and>
    reads_back (egg_buffer_read_float ord) (egg_buffer_write_float ord b f) f \<and>
    reads_back egg_buffer_read_tag (egg_buffer_write_tag b field tag) (field, tag)"
proof -
  have tag: "tag_ok (field, tag)"
    using assms(3,4) by (auto simp: tag_ok_def wire_tag_ok_def)
  show ?thesis
    unfolding eb_writes write_tag_append [OF assms(4)]
    using reads_back_append [OF string_codec.reads_put [OF assms(2)] assms(1)]
      reads_back_append [OF double_codec.reads_put assms(1), of d ord]
      reads_back_append [OF float_codec.reads_put assms(1), of f ord]
      reads_back_append [OF tag_codec.reads_put [OF tag] assms(1)]
      length_string_bytes [of s] length_varint_uint [of "tag_word field tag"]
    by simp
qed

theorem strings_floats_tags_roundtrip_witness:
  "reads_back egg_buffer_read_string (egg_buffer_write_string egg_buffer_new (Some [112, 107])) [112, 107] \<and>
   reads_back (egg_buffer_read_double G_BIG_ENDIAN) (egg_buffer_write_double G_BIG_ENDIAN egg_buffer_new 5) 5 \<and>
   reads_back egg_buffer_read_tag (egg_buffer_write_tag egg_buffer_new 7 2) (7, 2)"
  using strings_floats_tags_roundtrip
    [OF at_end_new, of "[112, 107]" 7 2 G_BIG_ENDIAN 5 0]
  by (simp add: cstring_ok_def wire_tag_ok_def)

text \<open>
  A 32-bit integer takes between one and five bytes on the wire and a 64-bit integer between one
  and ten, and a value below 128 takes one.
\<close>

theorem varint_width:
  "length (eb_ar (egg_buffer_write_uint b u)) - length (eb_ar b) \<in> {1..5} \<and>
   length (eb_ar (egg_buffer_write_uint64 b w)) - length (eb_ar b) \<in> {1..10} \<and>
   (length (eb_ar (egg_buffer_write_uint b u)) = length (eb_ar b) + 1 \<longleftrightarrow> u < 128)"
proof -
  have one: "length (varint_bytes u) = 1 \<longleftrightarrow> u < 128"
    unfolding word_less_nat_alt drop_bit7_eq_0_iff [of u, symmetric, simplified]
    by (subst varint_bytes.simps) (use drop_bit7_eq_0_iff [of u] in \<open>auto simp: word_gt_0\<close>)
  then show ?thesis
    using length_varint_uint [of u] length_varint_uint64 [of w]
      varint_bytes_nonempty(2) [of u] varint_bytes_nonempty(2) [of w]
    by (simp add: eb_writes Suc_le_eq)
qed

text \<open>
  C7: whatever bytes a buffer holds, no read but \<open>egg_buffer_read_data\<close> touches memory outside it, and
  each leaves the data alone and the position inside them, not before where it was.
\<close>

theorem reads_memory_safe:
  "eb_safe egg_buffer_read_uint \<and> eb_safe egg_buffer_read_uint64 \<and>
   eb_safe egg_buffer_read_int \<and> eb_safe egg_buffer_read_int64 \<and>
   eb_safe egg_buffer_read_boolean \<and> eb_safe egg_buffer_read_tag \<and>
   eb_safe egg_buffer_read_string \<and>
   eb_safe (egg_buffer_read_double ord) \<and> eb_safe (egg_buffer_read_float ord)"
  by (intro conjI safe_read_uint safe_read_uint64 safe_read_int safe_read_int64 safe_read_boolean
      safe_read_tag safe_read_string safe_read_double safe_read_float)

text \<open>
  The read \<open>egg_buffer_read_data\<close> allocates as many bytes as the blob has and stores a terminator after
  them, so it writes outside its block exactly when the whole blob is in the buffer.
\<close>

theorem read_data_overflows:
  assumes "eb_wf b" "egg_buffer_read_uint b = (Value u, b')"
  shows "fst (egg_buffer_read_data b) = Fault \<longleftrightarrow> eb_pos b' + unat u \<le> length (eb_ar b')"
  using read_data_fault_iff [OF assms] by simp

theorem read_data_overflows_witness:
  "fst (egg_buffer_read_data (egg_buffer_new_from_data [1, 65])) = Fault"
proof -
  have "egg_buffer_read_uint (egg_buffer_new_from_data [1, 65])
      = (Value 1, egg_buffer_new_from_data [1, 65] \<lparr>eb_pos := 1\<rparr>)"
    by (simp add: egg_buffer_read_uint_def read_varint.simps eb_next_def egg_buffer_new_from_data_def)
  then show ?thesis
    using read_data_overflows [of "egg_buffer_new_from_data [1, 65]"]
    by (simp add: eb_wf_def egg_buffer_new_from_data_def)
qed

end
