(* ===== verification/Pka_Sample.thy ===== *)
theory Pka_Sample
  imports Wire_Types Egg_Codec
begin

text \<open>
  perfkit-agent/pka-sample.c: a time-stamped list of fields, written into the sample's own buffer as
  they are added. A field number is a \<open>gint\<close> that becomes the \<open>guint\<close> of the tag.
\<close>

unbundle bit_operations_syntax

section \<open>State and operations\<close>

record pka_sample =
  ps_ref :: gint
  ps_ts :: timespec
  ps_source_id :: gint
  ps_buf :: egg_buffer

definition pka_sample_new :: "timespec \<Rightarrow> pka_sample" where
  "pka_sample_new now = \<lparr>ps_ref = 1, ps_ts = now, ps_source_id = - 1, ps_buf = egg_buffer_new\<rparr>"

definition pka_sample_ref :: "pka_sample \<Rightarrow> pka_sample option" where
  "pka_sample_ref s = (if 0 <s ps_ref s then Some (s\<lparr>ps_ref := ps_ref s + 1\<rparr>) else None)"

definition pka_sample_unref :: "pka_sample \<Rightarrow> pka_sample unref_result" where
  "pka_sample_unref s =
     (if 0 <s ps_ref s
      then (if ps_ref s - 1 = 0 then Freed else Kept (s\<lparr>ps_ref := ps_ref s - 1\<rparr>))
      else Kept s)"

interpretation pka_sample_boxed:
  refcounted ps_ref "\<lambda>c s. s\<lparr>ps_ref := c\<rparr>" pka_sample_ref pka_sample_unref
  by unfold_locales
    (simp_all add: pka_sample_ref_def pka_sample_unref_def count_up_def count_down_def
      count_dead_def count_up_positive)

definition pka_sample_get_data :: "pka_sample \<Rightarrow> u8 list" where
  "pka_sample_get_data s = egg_buffer_get_buffer (ps_buf s)"

definition pka_sample_get_source_id :: "pka_sample \<Rightarrow> gint" where
  "pka_sample_get_source_id s = ps_source_id s"

text \<open>The identifier can be set once: the guard wants it to be \<open>-1\<close> still.\<close>

definition pka_sample_set_source_id :: "pka_sample \<Rightarrow> gint \<Rightarrow> pka_sample" where
  "pka_sample_set_source_id s source_id =
     (if ps_source_id s = - 1 then s\<lparr>ps_source_id := source_id\<rparr> else s)"

definition pka_sample_get_timespec :: "pka_sample \<Rightarrow> timespec" where
  "pka_sample_get_timespec s = ps_ts s"

definition pka_sample_set_timespec :: "pka_sample \<Rightarrow> timespec \<Rightarrow> pka_sample" where
  "pka_sample_set_timespec s ts = s\<lparr>ps_ts := ts\<rparr>"

definition pka_sample_append_boolean :: "pka_sample \<Rightarrow> gint \<Rightarrow> gint \<Rightarrow> pka_sample" where
  "pka_sample_append_boolean s field b =
     s\<lparr>ps_buf := egg_buffer_write_boolean
        (egg_buffer_write_tag (ps_buf s) field EGG_BUFFER_BOOLEAN) b\<rparr>"

definition pka_sample_append_double ::
  "byte_order \<Rightarrow> pka_sample \<Rightarrow> gint \<Rightarrow> gdouble_bits \<Rightarrow> pka_sample" where
  "pka_sample_append_double ord s field d =
     s\<lparr>ps_buf := egg_buffer_write_double ord
        (egg_buffer_write_tag (ps_buf s) field EGG_BUFFER_DOUBLE) d\<rparr>"

definition pka_sample_append_float ::
  "byte_order \<Rightarrow> pka_sample \<Rightarrow> gint \<Rightarrow> gfloat_bits \<Rightarrow> pka_sample" where
  "pka_sample_append_float ord s field f =
     s\<lparr>ps_buf := egg_buffer_write_float ord
        (egg_buffer_write_tag (ps_buf s) field EGG_BUFFER_FLOAT) f\<rparr>"

definition pka_sample_append_int :: "pka_sample \<Rightarrow> gint \<Rightarrow> gint \<Rightarrow> pka_sample" where
  "pka_sample_append_int s field i =
     s\<lparr>ps_buf := egg_buffer_write_int (egg_buffer_write_tag (ps_buf s) field EGG_BUFFER_INT) i\<rparr>"

definition pka_sample_append_int64 :: "pka_sample \<Rightarrow> gint \<Rightarrow> u64 \<Rightarrow> pka_sample" where
  "pka_sample_append_int64 s field i =
     s\<lparr>ps_buf := egg_buffer_write_int64 (egg_buffer_write_tag (ps_buf s) field EGG_BUFFER_INT64) i\<rparr>"

definition pka_sample_append_string :: "pka_sample \<Rightarrow> gint \<Rightarrow> cstring option \<Rightarrow> pka_sample" where
  "pka_sample_append_string s field t =
     s\<lparr>ps_buf := egg_buffer_write_string (egg_buffer_write_tag (ps_buf s) field EGG_BUFFER_STRING) t\<rparr>"

definition pka_sample_append_uint :: "pka_sample \<Rightarrow> gint \<Rightarrow> guint \<Rightarrow> pka_sample" where
  "pka_sample_append_uint s field u =
     s\<lparr>ps_buf := egg_buffer_write_uint (egg_buffer_write_tag (ps_buf s) field EGG_BUFFER_UINT) u\<rparr>"

definition pka_sample_append_uint64 :: "pka_sample \<Rightarrow> gint \<Rightarrow> u64 \<Rightarrow> pka_sample" where
  "pka_sample_append_uint64 s field u =
     s\<lparr>ps_buf := egg_buffer_write_uint64 (egg_buffer_write_tag (ps_buf s) field EGG_BUFFER_UINT64) u\<rparr>"

text \<open>The two \<open>long\<close> fields of a \<open>GTimeVal\<close>; the sum is converted to \<open>guint64\<close>.\<close>

record g_time_val =
  tv_secs :: int
  tv_usecs :: int

definition pka_sample_append_timeval :: "pka_sample \<Rightarrow> gint \<Rightarrow> g_time_val \<Rightarrow> pka_sample" where
  "pka_sample_append_timeval s field tv =
     (let usec = word_of_int (tv_secs tv * 1000000 + tv_usecs tv) :: u64
      in s\<lparr>ps_buf := egg_buffer_write_uint64
             (egg_buffer_write_tag (ps_buf s) field EGG_BUFFER_UINT64) usec\<rparr>)"

section \<open>The bytes of a field\<close>

text \<open>The wire type of a value and its bytes after the tag.\<close>

fun value_tag :: "g_value \<Rightarrow> guint" where
  "value_tag (V_DOUBLE _) = 1"
| "value_tag (V_STRING _) = 2"
| "value_tag (V_FLOAT _) = 5"
| "value_tag _ = 0"

fun value_bytes :: "g_value \<Rightarrow> u8 list" where
  "value_bytes (V_INT i) = varint_bytes (zigzag 31 i)"
| "value_bytes (V_UINT u) = varint_bytes u"
| "value_bytes (V_INT64 i) = varint_bytes (zigzag 63 i)"
| "value_bytes (V_UINT64 u) = varint_bytes u"
| "value_bytes (V_DOUBLE d) = le_bytes 8 d"
| "value_bytes (V_FLOAT f) = le_bytes 4 f"
| "value_bytes (V_STRING s) = string_bytes s"

definition field_bytes :: "guint \<times> g_value \<Rightarrow> u8 list" where
  "field_bytes fv = varint_bytes (tag_word (fst fv) (value_tag (snd fv))) @ value_bytes (snd fv)"

text \<open>The operation with which the agent adds a value of each type.\<close>

fun append_value :: "byte_order \<Rightarrow> pka_sample \<Rightarrow> guint \<times> g_value \<Rightarrow> pka_sample" where
  "append_value ord s (field, V_INT i) = pka_sample_append_int s field i"
| "append_value ord s (field, V_UINT u) = pka_sample_append_uint s field u"
| "append_value ord s (field, V_INT64 i) = pka_sample_append_int64 s field i"
| "append_value ord s (field, V_UINT64 u) = pka_sample_append_uint64 s field u"
| "append_value ord s (field, V_DOUBLE d) = pka_sample_append_double ord s field d"
| "append_value ord s (field, V_FLOAT f) = pka_sample_append_float ord s field f"
| "append_value ord s (field, V_STRING t) = pka_sample_append_string s field (Some t)"

lemmas sample_appends =
  pka_sample_append_int_def pka_sample_append_uint_def pka_sample_append_int64_def
  pka_sample_append_uint64_def pka_sample_append_double_def pka_sample_append_float_def
  pka_sample_append_string_def pka_sample_append_boolean_def pka_sample_append_timeval_def

lemma append_value_bytes:
  "append_value ord s fv = s\<lparr>ps_buf := eb_append (ps_buf s) (field_bytes fv)\<rparr>"
  by (cases "(ord, s, fv)" rule: append_value.cases)
    (simp_all add: sample_appends field_bytes_def eb_writes egg_buffer_tags wire_tag_ok_def)

lemma foldl_append_value:
  "foldl (append_value ord) s fvs = s\<lparr>ps_buf := eb_append (ps_buf s) (concat (map field_bytes fvs))\<rparr>"
  by (induction fvs arbitrary: s) (simp_all add: append_value_bytes eb_append_def)

end
