(* ===== verification/Pka_Encoder.thy ===== *)
theory Pka_Encoder
  imports Pka_Manifest Pka_Sample
begin

text \<open>
  perfkit-agent/pka-encoder.c: the default encoder of manifests and samples, the dispatch to an
  encoder that a plugin provides, and the numbering of encoders. A plugin's encoder is not code of
  the repository, so its two methods are the fields of \<open>pka_encoder_iface\<close>.
\<close>

unbundle bit_operations_syntax

section \<open>Operations\<close>

definition pka_resolution_apply :: "resolution \<Rightarrow> timespec \<Rightarrow> u64" where
  "pka_resolution_apply res ts =
     (let usec = timespec_to_usec ts
      in case res of
          RESOLUTION_USEC \<Rightarrow> usec
        | RESOLUTION_MSEC \<Rightarrow> usec div 1000
        | RESOLUTION_SECOND \<Rightarrow> usec div G_USEC_PER_SEC
        | RESOLUTION_MINUTE \<Rightarrow> usec div (60 * G_USEC_PER_SEC)
        | RESOLUTION_HOUR \<Rightarrow> usec div (3600 * G_USEC_PER_SEC))"

text \<open>The body of the loop over the samples.\<close>

definition encode_sample :: "pka_manifest \<Rightarrow> egg_buffer \<Rightarrow> pka_sample \<Rightarrow> egg_buffer" where
  "encode_sample manifest buf sample =
     (let mts = pka_manifest_get_timespec manifest;
          res = pka_manifest_get_resolution manifest;
          buf = egg_buffer_write_tag buf 1 EGG_BUFFER_UINT;
          buf = egg_buffer_write_uint buf (pka_sample_get_source_id sample);
          sts = pka_sample_get_timespec sample;
          rel = timespec_subtract sts mts;
          rel_composed = pka_resolution_apply res rel;
          buf = egg_buffer_write_tag buf 2 EGG_BUFFER_UINT64;
          buf = egg_buffer_write_uint64 buf rel_composed;
          tbuf = pka_sample_get_data sample;
          buf = egg_buffer_write_tag buf 3 EGG_BUFFER_DATA
      in egg_buffer_write_data buf tbuf)"

definition pka_encoder_real_encode_samples :: "pka_manifest \<Rightarrow> pka_sample list \<Rightarrow> u8 list option" where
  "pka_encoder_real_encode_samples manifest samples =
     Some (egg_buffer_get_buffer (foldl (encode_sample manifest) egg_buffer_new samples))"

text \<open>The body of the loop over the rows, and the message around it.\<close>

definition encode_row :: "gtypes \<Rightarrow> pka_manifest \<Rightarrow> egg_buffer \<Rightarrow> nat \<Rightarrow> egg_buffer" where
  "encode_row gt manifest ebuf i =
     (let mbuf = egg_buffer_new;
          mbuf = egg_buffer_write_tag mbuf 1 EGG_BUFFER_UINT;
          mbuf = egg_buffer_write_uint mbuf (word_of_nat i);
          mbuf = egg_buffer_write_tag mbuf 2 EGG_BUFFER_ENUM;
          mbuf = egg_buffer_write_uint mbuf (ucast (pka_manifest_get_row_type gt manifest (word_of_nat i)));
          mbuf = egg_buffer_write_tag mbuf 3 EGG_BUFFER_STRING;
          mbuf = egg_buffer_write_string mbuf (pka_manifest_get_row_name manifest (word_of_nat i))
      in egg_buffer_write_data ebuf (egg_buffer_get_buffer mbuf))"

definition pka_encoder_real_encode_manifest :: "gtypes \<Rightarrow> pka_manifest \<Rightarrow> u8 list option" where
  "pka_encoder_real_encode_manifest gt manifest =
     (let buf = egg_buffer_new;
          t = timespec_to_usec (pka_manifest_get_timespec manifest);
          buf = egg_buffer_write_tag buf 1 EGG_BUFFER_UINT64;
          buf = egg_buffer_write_uint64 buf t;
          buf = egg_buffer_write_tag buf 2 EGG_BUFFER_ENUM;
          buf = egg_buffer_write_uint buf (resolution_number (pka_manifest_get_resolution manifest));
          buf = egg_buffer_write_tag buf 3 EGG_BUFFER_UINT;
          buf = egg_buffer_write_uint buf (pka_manifest_get_source_id manifest);
          rows = nat (sint (pka_manifest_get_n_rows manifest));
          ebuf = foldl (encode_row gt manifest) egg_buffer_new [1 ..< rows + 1];
          buf = egg_buffer_write_tag buf 4 EGG_BUFFER_REPEATED;
          buf = egg_buffer_write_data buf (egg_buffer_get_buffer ebuf)
      in Some (egg_buffer_get_buffer buf))"

record pka_encoder_iface =
  iface_encode_samples :: "pka_manifest \<Rightarrow> pka_sample list \<Rightarrow> u8 list option"
  iface_encode_manifest :: "pka_manifest \<Rightarrow> u8 list option"

definition pka_encoder_encode_samples ::
  "pka_encoder_iface option \<Rightarrow> pka_manifest \<Rightarrow> pka_sample list \<Rightarrow> u8 list option" where
  "pka_encoder_encode_samples encoder manifest samples =
     (case encoder of
        Some e \<Rightarrow> iface_encode_samples e manifest samples
      | None \<Rightarrow> pka_encoder_real_encode_samples manifest samples)"

definition pka_encoder_encode_manifest ::
  "gtypes \<Rightarrow> pka_encoder_iface option \<Rightarrow> pka_manifest \<Rightarrow> u8 list option" where
  "pka_encoder_encode_manifest gt encoder manifest =
     (case encoder of
        Some e \<Rightarrow> iface_encode_manifest e manifest
      | None \<Rightarrow> pka_encoder_real_encode_manifest gt manifest)"

text \<open>
  \<open>pka_encoder_get_id\<close>: the counter and the object data \<open>pka-encoder-id\<close>. The identifier is stored as
  a pointer, so an object with identifier 0 looks like one without.
\<close>

record 'e encoder_ids =
  encoder_seq :: gint
  encoder_data :: "'e \<Rightarrow> gint"

definition pka_encoder_get_id :: "'e encoder_ids \<Rightarrow> 'e \<Rightarrow> 'e encoder_ids \<times> gint" where
  "pka_encoder_get_id st e =
     (if encoder_data st e = 0
      then (st\<lparr>encoder_seq := encoder_seq st + 1,
               encoder_data := (encoder_data st)(e := encoder_seq st)\<rparr>, encoder_seq st)
      else (st, encoder_data st e))"

section \<open>The bytes of the messages\<close>

text \<open>An unsigned field, a 64-bit field and a field of bytes with its length.\<close>

definition uint_field :: "guint \<Rightarrow> guint \<Rightarrow> u8 list" where
  "uint_field k u = varint_bytes (tag_word k 0) @ varint_bytes u"

definition uint64_field :: "guint \<Rightarrow> u64 \<Rightarrow> u8 list" where
  "uint64_field k u = varint_bytes (tag_word k 0) @ varint_bytes u"

definition blob_field :: "guint \<Rightarrow> u8 list \<Rightarrow> u8 list" where
  "blob_field k d = varint_bytes (tag_word k 2) @ string_bytes d"

definition sample_bytes :: "resolution \<Rightarrow> timespec \<Rightarrow> pka_sample \<Rightarrow> u8 list" where
  "sample_bytes res mts s =
     uint_field 1 (ps_source_id s) @
     uint64_field 2 (pka_resolution_apply res (timespec_subtract (ps_ts s) mts)) @
     blob_field 3 (eb_ar (ps_buf s))"

definition row_bytes :: "pka_manifest_row \<Rightarrow> u8 list" where
  "row_bytes row =
     uint_field 1 (row_id row) @ uint_field 2 (ucast (row_type row)) @ blob_field 3 (row_name row)"

definition manifest_bytes :: "pka_manifest \<Rightarrow> u8 list" where
  "manifest_bytes m =
     uint64_field 1 (timespec_to_usec (pm_ts m)) @
     uint_field 2 (resolution_number (pm_resolution m)) @
     uint_field 3 (pm_source_id m) @
     blob_field 4 (concat (map (\<lambda>row. string_bytes (row_bytes row)) (pm_rows m)))"

lemmas message_fields = uint_field_def uint64_field_def blob_field_def

lemma eb_ar_new [simp]: "eb_ar egg_buffer_new = []" "eb_pos egg_buffer_new = 0"
  by (simp_all add: egg_buffer_new_def)

lemma encode_sample_append:
  assumes "length (eb_ar (ps_buf s)) < 2 ^ 32"
  shows "encode_sample m buf s = eb_append buf (sample_bytes (pm_resolution m) (pm_ts m) s)"
  using assms
  by (simp add: encode_sample_def sample_bytes_def message_fields eb_writes egg_buffer_tags
      wire_tag_ok_def pka_sample_get_data_def egg_buffer_get_buffer_def pka_sample_get_source_id_def
      pka_sample_get_timespec_def pka_manifest_get_timespec_def pka_manifest_get_resolution_def)

lemma foldl_eb_append:
  assumes "\<And>b x. x \<in> set xs \<Longrightarrow> f b x = eb_append b (g x)"
  shows "foldl f b xs = eb_append b (concat (map g xs))"
  using assms by (induction xs arbitrary: b) (simp_all add: eb_append_def)

lemma encode_samples_bytes:
  assumes "\<And>s. s \<in> set samples \<Longrightarrow> length (eb_ar (ps_buf s)) < 2 ^ 32"
  shows "pka_encoder_real_encode_samples m samples
    = Some (concat (map (sample_bytes (pm_resolution m) (pm_ts m)) samples))"
proof -
  have "foldl (encode_sample m) egg_buffer_new samples
      = eb_append egg_buffer_new (concat (map (sample_bytes (pm_resolution m) (pm_ts m)) samples))"
    by (rule foldl_eb_append) (use assms in \<open>simp add: encode_sample_append\<close>)
  then show ?thesis
    by (simp add: pka_encoder_real_encode_samples_def egg_buffer_get_buffer_def)
qed

text \<open>A row's bytes fit in a blob when its name does with room for the rest.\<close>

lemma length_uint_field: "length (uint_field k u) \<le> 10"
  using length_varint_uint [of "tag_word k 0"] length_varint_uint [of u]
  by (simp add: uint_field_def)

lemma length_row_bytes: "length (row_bytes row) \<le> length (row_name row) + 30"
  using length_uint_field [of 1 "row_id row"] length_uint_field [of 2 "ucast (row_type row)"]
    length_varint_uint [of "tag_word 3 2"] length_varint_uint [of "word_of_nat (length (row_name row))"]
  by (simp add: row_bytes_def blob_field_def string_bytes_def)

lemma encode_row_append:
  assumes inv: "manifest_inv gt m" and k: "k < length (pm_rows m)"
    and fit: "length (row_bytes (pm_rows m ! k)) < 2 ^ 32"
  shows "encode_row gt m ebuf (Suc k) = eb_append ebuf (string_bytes (row_bytes (pm_rows m ! k)))"
proof -
  let ?row = "pm_rows m ! k"
  have id: "row_id ?row = word_of_nat (Suc k)" and len: "length (pm_rows m) < 2 ^ 31"
    using inv k by (auto simp: manifest_inv_def)
  show ?thesis
    using fit by (simp add: encode_row_def get_row_in_range [OF k len] eb_writes egg_buffer_tags
        wire_tag_ok_def egg_buffer_get_buffer_def row_bytes_def message_fields id del: of_nat_Suc)
qed

lemma message_length:
  assumes "length (manifest_bytes m) < 2 ^ 32"
  shows "length (concat (map (\<lambda>row. string_bytes (row_bytes row)) (pm_rows m))) < 2 ^ 32"
    and "row \<in> set (pm_rows m) \<Longrightarrow> length (row_bytes row) < 2 ^ 32"
proof -
  let ?c = "concat (map (\<lambda>row. string_bytes (row_bytes row)) (pm_rows m))"
  show len: "length ?c < 2 ^ 32"
    using assms by (simp add: manifest_bytes_def blob_field_def string_bytes_def [of ?c] del: length_concat)
  show "length (row_bytes row) < 2 ^ 32" if row: "row \<in> set (pm_rows m)"
  proof -
    obtain as bs where "pm_rows m = as @ row # bs"
      using split_list [OF row] by blast
    then have "length (row_bytes row) \<le> length ?c"
      by (simp add: string_bytes_def [of "row_bytes row"])
    then show ?thesis using len by simp
  qed
qed

lemma encode_manifest_bytes:
  assumes inv: "manifest_inv gt m" and fit: "length (manifest_bytes m) < 2 ^ 32"
  shows "pka_encoder_real_encode_manifest gt m = Some (manifest_bytes m)"
proof -
  let ?n = "length (pm_rows m)" and ?g = "\<lambda>i. string_bytes (row_bytes (pm_rows m ! (i - 1)))"
  have n: "nat (sint (pka_manifest_get_n_rows m)) = ?n"
    using inv by (simp add: pka_manifest_get_n_rows_def manifest_inv_def signed_of_nat
        signed_take_bit_int_eq_self)
  have "foldl (encode_row gt m) egg_buffer_new [1 ..< ?n + 1]
      = eb_append egg_buffer_new (concat (map ?g [1 ..< ?n + 1]))"
  proof (rule foldl_eb_append)
    fix b i
    assume "i \<in> set [1 ..< ?n + 1]"
    then have "1 \<le> i" "i < ?n + 1"
      by (simp_all only: set_upt atLeastLessThan_iff)
    then obtain k where k: "i = Suc k" "k < ?n"
      by (cases i) simp_all
    then show "encode_row gt m b i = eb_append b (?g i)"
      using encode_row_append [OF inv k(2)] message_length(2) [OF fit] by simp
  qed
  also have "map ?g [1 ..< ?n + 1] = map (\<lambda>row. string_bytes (row_bytes row)) (pm_rows m)"
    by (rule nth_equalityI) (auto simp: nth_append simp del: upt_Suc)
  finally show ?thesis
    using message_length(1) [OF fit] n unfolding pka_encoder_real_encode_manifest_def
    by (simp add: Let_def eb_writes egg_buffer_tags wire_tag_ok_def
        egg_buffer_get_buffer_def manifest_bytes_def message_fields
        pka_manifest_get_timespec_def pka_manifest_get_resolution_def pka_manifest_get_source_id_def)
qed

section \<open>Relative times\<close>

lemma uint_resolution_apply:
  "uint (pka_resolution_apply res ts) = uint (timespec_to_usec ts) div resolution_unit res"
  by (cases res) (simp_all add: pka_resolution_apply_def G_USEC_PER_SEC_def uint_div)

section \<open>Encoder numbers\<close>

text \<open>Every number handed out is below the counter; an encoder whose number is not 0 keeps it.\<close>

lemma get_id_stable:
  assumes "pka_encoder_get_id st e = (st', i)" "i \<noteq> 0"
  shows "pka_encoder_get_id st' e = (st', i)"
  using assms by (auto simp: pka_encoder_get_id_def split: if_splits)

end
