(* ===== verification/Pk_Manifest.thy ===== *)
theory Pk_Manifest
  imports Wire_Types Egg_Codec "HOL-Library.Multiset"
begin

text \<open>
  perfkit/pk-manifest.c: the client's manifest, decoded from the bytes that the agent sends. The
  bytes come from outside the client, so the decoder is proved safe on all of them, and what it
  accepts is proved well formed. \<open>g_array_sort\<close> is a function of GLib: it is the argument \<open>gsort\<close>.
\<close>

unbundle bit_operations_syntax

section \<open>State and accessors\<close>

record pk_manifest_row =
  pkr_id :: gint
  pkr_type :: gtype
  pkr_name :: cstring

text \<open>\<open>n_rows\<close> is a \<open>gint\<close> that counts the rows decoded from at most \<open>2 ^ 32\<close> bytes, six or more each.\<close>

record pk_manifest =
  pk_ref :: gint
  pk_ts :: timespec
  pk_resolution :: resolution
  pk_source_id :: gint
  pk_n_rows :: nat
  pk_rows :: "pk_manifest_row list"

type_synonym g_array_sort =
  "(pk_manifest_row \<Rightarrow> pk_manifest_row \<Rightarrow> gint) \<Rightarrow> pk_manifest_row list \<Rightarrow> pk_manifest_row list"

definition pk_manifest_new :: pk_manifest where
  "pk_manifest_new =
     \<lparr>pk_ref = 1, pk_ts = \<lparr>tv_sec = 0, tv_nsec = 0\<rparr>, pk_resolution = RESOLUTION_USEC,
      pk_source_id = 0, pk_n_rows = 0, pk_rows = []\<rparr>"

definition pk_manifest_ref :: "pk_manifest \<Rightarrow> pk_manifest option" where
  "pk_manifest_ref m = (if 0 <s pk_ref m then Some (m\<lparr>pk_ref := pk_ref m + 1\<rparr>) else None)"

definition pk_manifest_unref :: "pk_manifest \<Rightarrow> pk_manifest unref_result" where
  "pk_manifest_unref m =
     (if 0 <s pk_ref m
      then (if pk_ref m - 1 = 0 then Freed else Kept (m\<lparr>pk_ref := pk_ref m - 1\<rparr>))
      else Kept m)"

interpretation pk_manifest_boxed:
  refcounted pk_ref "\<lambda>c m. m\<lparr>pk_ref := c\<rparr>" pk_manifest_ref pk_manifest_unref
  by unfold_locales
    (simp_all add: pk_manifest_ref_def pk_manifest_unref_def count_up_def count_down_def
      count_dead_def count_up_positive)

definition pk_manifest_get_source_id :: "pk_manifest \<Rightarrow> gint" where
  "pk_manifest_get_source_id m = pk_source_id m"

fun find_row_name :: "cstring \<Rightarrow> nat \<Rightarrow> pk_manifest_row list \<Rightarrow> gint" where
  "find_row_name name i [] = - 1"
| "find_row_name name i (row # rows) =
     (if name = pkr_name row then word_of_nat i + 1 else find_row_name name (i + 1) rows)"

definition pk_manifest_get_row_id :: "pk_manifest \<Rightarrow> cstring \<Rightarrow> gint" where
  "pk_manifest_get_row_id m name = find_row_name name 0 (pk_rows m)"

definition pk_manifest_get_resolution :: "pk_manifest \<Rightarrow> resolution" where
  "pk_manifest_get_resolution m = pk_resolution m"

definition pk_manifest_get_n_rows :: "pk_manifest \<Rightarrow> nat" where
  "pk_manifest_get_n_rows m = pk_n_rows m"

text \<open>The index is within the array when \<open>n_rows\<close> is its length: None is an access outside it.\<close>

definition pk_manifest_get_row_type :: "gtypes \<Rightarrow> pk_manifest \<Rightarrow> gint \<Rightarrow> gtype option" where
  "pk_manifest_get_row_type gt m row =
     (if sint row > 0 \<and> sint row \<le> int (pk_n_rows m)
      then (if unat row - 1 < length (pk_rows m) then Some (pkr_type (pk_rows m ! (unat row - 1))) else None)
      else Some (gt G_TYPE_INVALID))"

text \<open>Here a row out of range gives the NULL name (the inner None).\<close>

definition pk_manifest_get_row_name :: "pk_manifest \<Rightarrow> gint \<Rightarrow> cstring option option" where
  "pk_manifest_get_row_name m row =
     (if sint row > 0 \<and> sint row \<le> int (pk_n_rows m)
      then (if unat row - 1 < length (pk_rows m)
            then Some (Some (pkr_name (pk_rows m ! (unat row - 1)))) else None)
      else Some None)"

definition pk_manifest_get_timespec :: "pk_manifest \<Rightarrow> timespec" where
  "pk_manifest_get_timespec m = pk_ts m"

section \<open>Decoding\<close>

text \<open>The comparison function given to \<open>g_array_sort\<close>: a \<open>gint\<close> difference.\<close>

definition sort_func :: "pk_manifest_row \<Rightarrow> pk_manifest_row \<Rightarrow> gint" where
  "sort_func a b = (if pkr_id a = pkr_id b then 0 else pkr_id a - pkr_id b)"

text \<open>\<open>egg_buffer_read_tag\<close> followed by the test that the field is the one expected next.\<close>

definition expect_tag :: "guint \<Rightarrow> guint \<Rightarrow> (egg_buffer, unit) reader" where
  "expect_tag want_field want_tag =
     rd_bind egg_buffer_read_tag (\<lambda>(field, tag).
     rd_guard (field = want_field \<and> tag = want_tag) (rd_return ()))"

text \<open>
  One iteration of the loop over the rows. The type is read into the first four bytes of a \<open>GType\<close>
  that holds 0: its low half on a little-endian host, its high half on a big-endian one.
\<close>

definition store_low_word :: "byte_order \<Rightarrow> guint \<Rightarrow> gtype" where
  "store_low_word ord u =
     (case ord of G_LITTLE_ENDIAN \<Rightarrow> ucast u | G_BIG_ENDIAN \<Rightarrow> push_bit 32 (ucast u))"

definition decode_row :: "byte_order \<Rightarrow> (egg_buffer, pk_manifest_row) reader" where
  "decode_row ord =
     rd_bind egg_buffer_read_uint (\<lambda>_.
     rd_bind (expect_tag 1 EGG_BUFFER_UINT) (\<lambda>_.
     rd_bind egg_buffer_read_uint (\<lambda>row_id.
     rd_bind (expect_tag 2 EGG_BUFFER_ENUM) (\<lambda>_.
     rd_bind egg_buffer_read_uint (\<lambda>row_type.
     rd_bind (expect_tag 3 EGG_BUFFER_STRING) (\<lambda>_.
     rd_bind egg_buffer_read_string (\<lambda>name.
     rd_return \<lparr>pkr_id = row_id, pkr_type = store_low_word ord row_type, pkr_name = name\<rparr>)))))))"

definition add_row :: "g_array_sort \<Rightarrow> pk_manifest \<Rightarrow> pk_manifest_row \<Rightarrow> pk_manifest" where
  "add_row gsort m row =
     m\<lparr>pk_rows := gsort sort_func (pk_rows m @ [row]), pk_n_rows := pk_n_rows m + 1\<rparr>"

lemma along_expect_tag [intro]: "eb_along (expect_tag f t)"
  unfolding expect_tag_def
  by (intro eb_safety.along_bind along_reads) (auto intro!: eb_safety.along_intros split: prod.split)

lemma along_decode_row [intro]: "eb_along (decode_row ord)"
  unfolding decode_row_def
  by (intro eb_safety.along_intros along_read_uint along_expect_tag along_reads)

lemma consumes_decode_row: "eb_consumes (decode_row ord)"
  unfolding decode_row_def
  by (intro eb_consumes_bind consumes_read_uint eb_safety.along_intros along_read_uint
      along_expect_tag along_reads)

function decode_rows ::
  "g_array_sort \<Rightarrow> byte_order \<Rightarrow> nat \<Rightarrow> pk_manifest \<Rightarrow> (egg_buffer, pk_manifest) reader" where
  "decode_rows gsort ord end_pos m b =
     (if eb_pos b < end_pos
      then case decode_row ord b of
          (Value row, b') \<Rightarrow> decode_rows gsort ord end_pos (add_row gsort m row) b'
        | (Failed, b') \<Rightarrow> (Failed, b')
        | (Fault, b') \<Rightarrow> (Fault, b')
      else (Value m, b))"
  by pat_completeness auto
termination
proof (relation "measure (\<lambda>(gsort, ord, end_pos, m, b). length (eb_ar b) - eb_pos b)")
  fix gsort ord end_pos m b x b' row
  assume "(x, b') = decode_row ord b" "x = Value row"
  then have "decode_row ord b = (Value row, b')"
    by simp
  from eb_consumesD [OF consumes_decode_row this]
  show "((gsort, ord, end_pos, add_row gsort m row, b'), gsort, ord, end_pos, m, b)
      \<in> measure (\<lambda>(gsort, ord, end_pos, m, b). length (eb_ar b) - eb_pos b)"
    by simp
qed simp

declare decode_rows.simps [simp del]

text \<open>Every row was sent: \<open>row->id == i + 1\<close> for every index.\<close>

definition all_rows_sent :: "pk_manifest \<Rightarrow> bool option" where
  "all_rows_sent m =
     (if pk_n_rows m \<le> length (pk_rows m)
      then Some (\<forall>i < pk_n_rows m. pkr_id (pk_rows m ! i) = word_of_nat (i + 1))
      else None)"

definition decode :: "g_array_sort \<Rightarrow> byte_order \<Rightarrow> pk_manifest \<Rightarrow> (egg_buffer, pk_manifest) reader" where
  "decode gsort ord m =
     rd_bind (expect_tag 1 EGG_BUFFER_UINT64) (\<lambda>_.
     rd_bind egg_buffer_read_uint64 (\<lambda>ts.
     rd_bind (expect_tag 2 EGG_BUFFER_UINT) (\<lambda>_.
     rd_bind egg_buffer_read_uint (\<lambda>res.
     rd_guard (res \<le> resolution_number RESOLUTION_HOUR) (
     rd_bind (expect_tag 3 EGG_BUFFER_UINT) (\<lambda>_.
     rd_bind egg_buffer_read_uint (\<lambda>source_id.
     rd_bind (expect_tag 4 EGG_BUFFER_REPEATED) (\<lambda>_.
     rd_bind egg_buffer_read_uint (\<lambda>len.
     rd_bind (rd_gets (\<lambda>b. egg_buffer_get_pos b + unat len)) (\<lambda>end_pos.
     rd_bind (decode_rows gsort ord end_pos
       (m\<lparr>pk_ts := timespec_from_usec ts, pk_resolution := resolution_of res,
          pk_source_id := source_id\<rparr>)) (\<lambda>m.
     rd_bind (rd_access (all_rows_sent m)) (\<lambda>ok.
     rd_guard ok (rd_return m)))))))))))))"

definition pk_manifest_new_from_data ::
  "g_array_sort \<Rightarrow> byte_order \<Rightarrow> u8 list \<Rightarrow> pk_manifest outcome" where
  "pk_manifest_new_from_data gsort ord data =
     fst (decode gsort ord pk_manifest_new (egg_buffer_new_from_data data))"

section \<open>Safety and well-formedness\<close>

text \<open>
  What the decoder relies on of \<open>g_array_sort\<close>, whatever the comparison function: it permutes. When
  the function is a total order on the elements it sorts as well; \<open>sorts_by_id\<close> says so for rows
  whose numbers are positive, where the difference cannot overflow.
\<close>

definition permutes :: "g_array_sort \<Rightarrow> bool" where
  "permutes gsort \<longleftrightarrow> (\<forall>f rows. mset (gsort f rows) = mset rows)"

lemma permutes_length: "permutes gsort \<Longrightarrow> length (gsort f rows) = length rows"
  unfolding permutes_def by (metis size_mset)

definition sorts_by_id :: "g_array_sort \<Rightarrow> bool" where
  "sorts_by_id gsort \<longleftrightarrow>
     (\<forall>rows. (\<forall>r \<in> set rows. sint (pkr_id r) > 0) \<longrightarrow>
        sorted (map (sint \<circ> pkr_id) (gsort sort_func rows)))"

definition pk_manifest_wf :: "pk_manifest \<Rightarrow> bool" where
  "pk_manifest_wf m \<longleftrightarrow>
     pk_n_rows m = length (pk_rows m) \<and>
     (\<forall>i < length (pk_rows m). pkr_id (pk_rows m ! i) = word_of_nat (i + 1)) \<and>
     ts_normal (pk_ts m)"

lemma safe_expect_tag [intro]: "eb_safe (expect_tag f t)"
  unfolding expect_tag_def
  by (intro eb_safety.safe_bind safe_read_tag) (auto intro!: eb_safety.safe_intros split: prod.split)

lemma safe_decode_row [intro]: "eb_safe (decode_row ord)"
  unfolding decode_row_def
  by (intro eb_safety.safe_intros safe_read_uint safe_expect_tag safe_read_string)

lemma decode_rows_result:
  "permutes gsort \<Longrightarrow> pk_n_rows m = length (pk_rows m) \<Longrightarrow> decode_rows gsort ord end_pos m b = (x, b') \<Longrightarrow>
    (eb_wf b \<longrightarrow> x \<noteq> Fault \<and> eb_wf b') \<and> eb_forward b b' \<and>
    (\<forall>m'. x = Value m' \<longrightarrow> pk_n_rows m' = length (pk_rows m') \<and> pk_ts m' = pk_ts m)"
proof (induction gsort ord end_pos m b rule: decode_rows.induct)
  case (1 gsort ord end_pos m b)
  show ?case
  proof (cases "eb_pos b < end_pos")
    case False
    then show ?thesis
      using 1(2-4) by (subst (asm) decode_rows.simps) (auto simp: eb_forward_def)
  next
    case inside: True
    obtain y c where row: "decode_row ord b = (y, c)" by (cases "decode_row ord b")
    then have c: "eb_wf b \<longrightarrow> y \<noteq> Fault \<and> eb_wf c" "eb_forward b c"
      using safe_decode_row [of ord] eb_safety.alongD [OF along_decode_row row]
      by (auto simp: safe_reader_def dest!: spec [of _ b])
    show ?thesis
    proof (cases y)
      case (Value r)
      have step: "decode_rows gsort ord end_pos (add_row gsort m r) c = (x, b')"
        using 1(4) inside row Value by (subst (asm) decode_rows.simps) simp
      have n: "pk_n_rows (add_row gsort m r) = length (pk_rows (add_row gsort m r))"
        using 1(2,3) by (simp add: add_row_def permutes_length)
      have ts: "pk_ts (add_row gsort m r) = pk_ts m"
        by (simp add: add_row_def)
      from 1(1) [OF inside row [unfolded Value, symmetric] refl 1(2) n step] c
      show ?thesis
        unfolding ts by (auto simp: eb_forward_def)
    next
      case Failed
      then show ?thesis
        using 1(4) inside row c by (subst (asm) decode_rows.simps) auto
    next
      case Fault
      then show ?thesis
        using 1(4) inside row c by (subst (asm) decode_rows.simps) auto
    qed
  qed
qed

lemma safe_decode_tail:
  assumes "permutes gsort" "pk_n_rows m = length (pk_rows m)"
  shows "eb_safe (rd_bind (decode_rows gsort ord e m) (\<lambda>m.
    rd_bind (rd_access (all_rows_sent m)) (\<lambda>ok. rd_guard ok (rd_return m))))"
  unfolding safe_reader_def
proof (intro allI impI)
  fix b
  assume wf: "eb_wf b"
  obtain y d where rows: "decode_rows gsort ord e m b = (y, d)"
    by (cases "decode_rows gsort ord e m b")
  then have y: "y \<noteq> Fault" "eb_wf d" "eb_forward b d"
    "\<And>m'. y = Value m' \<Longrightarrow> pk_n_rows m' = length (pk_rows m')"
    using decode_rows_result [OF assms rows] wf by auto
  let ?t = "rd_bind (decode_rows gsort ord e m) (\<lambda>m.
    rd_bind (rd_access (all_rows_sent m)) (\<lambda>ok. rd_guard ok (rd_return m))) b"
  show "fst ?t \<noteq> Fault \<and> eb_wf (snd ?t) \<and> eb_forward b (snd ?t)"
    using y by (cases y) (auto simp: rd_bind_def rows rd_access_def all_rows_sent_def rd_return_def
        rd_guard_def rd_fail_def)
qed

lemma safe_decode:
  assumes "permutes gsort" "pk_n_rows m = length (pk_rows m)"
  shows "eb_safe (decode gsort ord m)"
  unfolding decode_def
  by (intro eb_safety.safe_intros safe_read_uint safe_read_uint64 safe_expect_tag safe_decode_tail)
    (simp_all add: assms)

lemma decode_accepts_wf:
  assumes perm: "permutes gsort" and m: "pk_n_rows m = length (pk_rows m)"
    and read: "decode gsort ord m b = (Value m', b')"
  shows "pk_manifest_wf m'"
proof -
  obtain ts res sid e c m2 d ok where
    rows: "decode_rows gsort ord e (m\<lparr>pk_ts := timespec_from_usec ts, pk_resolution := resolution_of res,
        pk_source_id := sid\<rparr>) c = (Value m2, d)"
    and fin: "rd_access (all_rows_sent m2) d = (Value ok, b')" "ok" "m' = m2"
    using read unfolding decode_def
    by (elim rd_bind_ValueE rd_guard_ValueE) (auto simp: rd_return_def rd_access_def rd_fault_def
        split: option.splits)
  have "pk_n_rows m2 = length (pk_rows m2)" "pk_ts m2 = timespec_from_usec ts"
    using decode_rows_result [OF perm _ rows] m by simp_all
  moreover have "all_rows_sent m2 = Some True"
    using fin by (auto simp: rd_access_def rd_return_def rd_fault_def split: option.splits)
  ultimately show ?thesis
    using fin(3) by (simp add: pk_manifest_wf_def all_rows_sent_def timespec_from_usec_normal)
qed

text \<open>Rows that are in order already stay where they are.\<close>

lemma gsort_in_order:
  assumes perm: "permutes gsort" and sorts: "sorts_by_id gsort"
    and pos: "\<forall>r \<in> set rows. sint (pkr_id r) > 0"
    and asc: "sorted (map (sint \<circ> pkr_id) rows)" "distinct (map (sint \<circ> pkr_id) rows)"
  shows "gsort sort_func rows = rows"
proof (rule map_sorted_distinct_set_unique)
  have m: "mset (gsort sort_func rows) = mset rows"
    using perm by (simp add: permutes_def)
  then show same: "set (gsort sort_func rows) = set rows"
    by (metis set_mset_mset)
  show "inj_on (sint \<circ> pkr_id) (set (gsort sort_func rows) \<union> set rows)"
    using asc(2) same by (simp add: distinct_map)
  show "sorted (map (sint \<circ> pkr_id) (gsort sort_func rows))"
    using sorts pos by (simp add: sorts_by_id_def)
  have "mset (map (sint \<circ> pkr_id) (gsort sort_func rows)) = mset (map (sint \<circ> pkr_id) rows)"
    using m by (simp add: mset_map)
  then show "distinct (map (sint \<circ> pkr_id) (gsort sort_func rows))"
    using asc(2) mset_eq_imp_distinct_iff by blast
qed (use asc in auto)

text \<open>
  An instance: insertion sort by the comparison function. It shows that the two assumptions about
  \<open>g_array_sort\<close> can hold together.
\<close>

fun insert_by ::
  "(pk_manifest_row \<Rightarrow> pk_manifest_row \<Rightarrow> gint) \<Rightarrow> pk_manifest_row \<Rightarrow> pk_manifest_row list \<Rightarrow> pk_manifest_row list"
where
  "insert_by f r [] = [r]"
| "insert_by f r (s # rows) = (if sint (f r s) \<le> 0 then r # s # rows else s # insert_by f r rows)"

definition insertion_sort :: g_array_sort where
  "insertion_sort f rows = foldr (insert_by f) rows []"

lemma mset_insert_by: "mset (insert_by f r rows) = add_mset r (mset rows)"
  by (induction rows) auto

lemma permutes_insertion_sort: "permutes insertion_sort"
proof -
  have "mset (foldr (insert_by f) rows []) = mset rows" for f rows
    by (induction rows) (simp_all add: mset_insert_by)
  then show ?thesis by (simp add: permutes_def insertion_sort_def)
qed

lemma sort_func_sign:
  assumes "sint (pkr_id a) > 0" "sint (pkr_id b) > 0"
  shows "sint (sort_func a b) \<le> 0 \<longleftrightarrow> sint (pkr_id a) \<le> sint (pkr_id b)"
proof (cases "pkr_id a = pkr_id b")
  case False
  have "sint (pkr_id a - pkr_id b) = sint (pkr_id a) - sint (pkr_id b)"
    using assms sint_less [of "pkr_id a"] sint_less [of "pkr_id b"]
    by (simp add: sint_word_diff signed_take_bit_int_eq_self)
  with False show ?thesis by (simp add: sort_func_def)
qed (simp add: sort_func_def)

lemma sorts_by_id_insertion_sort: "sorts_by_id insertion_sort"
proof -
  have set_insert_by: "set (insert_by f r rows) = insert r (set rows)" for f r rows
    by (induction rows) auto
  have ins: "sorted (map (sint \<circ> pkr_id) (insert_by sort_func r rows))"
    if "sorted (map (sint \<circ> pkr_id) rows)" "sint (pkr_id r) > 0" "\<forall>s \<in> set rows. sint (pkr_id s) > 0"
    for r rows
    using that by (induction rows) (auto simp: sort_func_sign set_insert_by)
  have "sorted (map (sint \<circ> pkr_id) (foldr (insert_by sort_func) rows [])) \<and>
      set (foldr (insert_by sort_func) rows []) = set rows"
    if "\<forall>r \<in> set rows. sint (pkr_id r) > 0" for rows
    using that by (induction rows) (auto simp: set_insert_by intro!: ins)
  then show ?thesis by (simp add: sorts_by_id_def insertion_sort_def)
qed

section \<open>Properties\<close>

lemma manifest_from_data_sound:
  assumes "permutes gsort" "length data < 2 ^ 32"
  shows "pk_manifest_new_from_data gsort ord data \<noteq> Fault \<and>
    (\<forall>m. pk_manifest_new_from_data gsort ord data = Value m \<longrightarrow> pk_manifest_wf m)"
proof -
  let ?b = "egg_buffer_new_from_data data"
  obtain x b' where read: "decode gsort ord pk_manifest_new ?b = (x, b')"
    by (cases "decode gsort ord pk_manifest_new ?b")
  have new: "pk_n_rows pk_manifest_new = length (pk_rows pk_manifest_new)"
    by (simp add: pk_manifest_new_def)
  have "eb_wf ?b"
    using assms(2) by (simp add: eb_wf_def egg_buffer_new_from_data_def)
  then have "fst (decode gsort ord pk_manifest_new ?b) \<noteq> Fault"
    using safe_decode [OF assms(1) new, of ord] by (simp add: safe_reader_def)
  then show ?thesis
    using decode_accepts_wf [OF assms(1) new, of ord ?b _ b'] read
    by (simp add: pk_manifest_new_from_data_def)
qed

text \<open>
  C4: no bytes make the client's manifest decoder read or write outside a block, and every manifest it
  accepts is well formed: as many rows as \<open>n_rows\<close> says, numbered 1, 2, and so on.
\<close>

theorem manifest_decoder_sound:
  assumes "permutes gsort" "length data < 2 ^ 32"
  shows "pk_manifest_new_from_data gsort ord data \<noteq> Fault \<and>
    (\<forall>m. pk_manifest_new_from_data gsort ord data = Value m \<longrightarrow> pk_manifest_wf m)"
  by (rule manifest_from_data_sound [OF assms])

theorem manifest_decoder_sound_witness:
  "pk_manifest_new_from_data insertion_sort G_LITTLE_ENDIAN [8, 0, 16, 9] \<noteq> Fault"
  using manifest_decoder_sound [OF permutes_insertion_sort, of "[8, 0, 16, 9]" G_LITTLE_ENDIAN] by simp

text \<open>
  Looking a row up by its name gives the number under which \<open>pk_manifest_get_row_name\<close> finds that
  name; a name that no row has gives \<open>-1\<close>.
\<close>

lemma find_row_name_found:
  "name \<in> pkr_name ` set rows \<Longrightarrow>
     \<exists>k < length rows. pkr_name (rows ! k) = name \<and> find_row_name name i rows = word_of_nat (Suc (i + k))"
proof (induction rows arbitrary: i)
  case (Cons row rows)
  show ?case
  proof (cases "name = pkr_name row")
    case False
    then obtain k where "k < length rows" "pkr_name (rows ! k) = name"
      "find_row_name name (i + 1) rows = word_of_nat (Suc (i + 1 + k))"
      using Cons.IH [of "i + 1"] Cons.prems by auto
    then show ?thesis using False by (intro exI [of _ "Suc k"]) simp
  qed (auto simp: add.commute)
qed simp

lemma find_row_name_missing: "name \<notin> pkr_name ` set rows \<Longrightarrow> find_row_name name i rows = - 1"
  by (induction rows arbitrary: i) auto

theorem row_id_inverts_row_name:
  assumes "pk_manifest_wf m" "length (pk_rows m) < 2 ^ 31 - 1"
  shows "(if name \<in> pkr_name ` set (pk_rows m)
     then pk_manifest_get_row_name m (pk_manifest_get_row_id m name) = Some (Some name)
     else pk_manifest_get_row_id m name = - 1)"
proof (cases "name \<in> pkr_name ` set (pk_rows m)")
  case True
  then obtain k where k: "k < length (pk_rows m)" "pkr_name (pk_rows m ! k) = name"
    "pk_manifest_get_row_id m name = word_of_nat (Suc k)"
    using find_row_name_found [of name "pk_rows m" 0] by (auto simp: pk_manifest_get_row_id_def)
  have small: "Suc k < 2 ^ 31"
    using k(1) assms(2) by simp
  have "sint (word_of_nat (Suc k) :: gint) = int (Suc k)" "unat (word_of_nat (Suc k) :: gint) = Suc k"
    using sint_word_of_nat [OF small] unat_word_of_nat [of "Suc k", where 'a = 32] small by simp_all
  then show ?thesis
    using True k assms(1)
    by (simp add: pk_manifest_get_row_name_def pk_manifest_wf_def del: of_nat_Suc)
next
  case False
  then show ?thesis
    by (simp add: pk_manifest_get_row_id_def find_row_name_missing)
qed

theorem row_id_inverts_row_name_witness:
  "pk_manifest_get_row_id (pk_manifest_new\<lparr>pk_n_rows := 1,
      pk_rows := [\<lparr>pkr_id = 1, pkr_type = 24, pkr_name = [105, 110]\<rparr>]\<rparr>) [111] = - 1"
  using row_id_inverts_row_name [of "pk_manifest_new\<lparr>pk_n_rows := 1,
      pk_rows := [\<lparr>pkr_id = 1, pkr_type = 24, pkr_name = [105, 110]\<rparr>]\<rparr>" "[111]"]
  by (simp add: pk_manifest_wf_def ts_normal_def pk_manifest_new_def)

end
