(* ===== verification/Pk_Sample.thy ===== *)
theory Pk_Sample
  imports Pk_Manifest "HOL-Library.Signed_Division"
begin

text \<open>
  perfkit/pk-sample.c: the client's decoder of samples. A sample names its source, the caller's
  resolver gives the manifest of that source, and the manifest gives the type of every field.
\<close>

unbundle bit_operations_syntax

section \<open>State and accessors\<close>

record pk_sample =
  pks_ref :: gint
  pks_source_id :: gint
  pks_ts :: timespec
  pks_ar :: "(guint \<times> g_value) list"

definition pk_sample_new :: pk_sample where
  "pk_sample_new =
     \<lparr>pks_ref = 1, pks_source_id = 0, pks_ts = \<lparr>tv_sec = 0, tv_nsec = 0\<rparr>, pks_ar = []\<rparr>"

definition pk_sample_ref :: "pk_sample \<Rightarrow> pk_sample option" where
  "pk_sample_ref s = (if 0 <s pks_ref s then Some (s\<lparr>pks_ref := pks_ref s + 1\<rparr>) else None)"

definition pk_sample_unref :: "pk_sample \<Rightarrow> pk_sample unref_result" where
  "pk_sample_unref s =
     (if 0 <s pks_ref s
      then (if pks_ref s - 1 = 0 then Freed else Kept (s\<lparr>pks_ref := pks_ref s - 1\<rparr>))
      else Kept s)"

interpretation pk_sample_boxed:
  refcounted pks_ref "\<lambda>c s. s\<lparr>pks_ref := c\<rparr>" pk_sample_ref pk_sample_unref
  by unfold_locales
    (simp_all add: pk_sample_ref_def pk_sample_unref_def count_up_def count_down_def
      count_dead_def count_up_positive)

fun find_field :: "guint \<Rightarrow> (guint \<times> g_value) list \<Rightarrow> g_value option" where
  "find_field row_id [] = None"
| "find_field row_id (f # fs) = (if fst f = row_id then Some (snd f) else find_field row_id fs)"

definition pk_sample_get_value :: "pk_sample \<Rightarrow> guint \<Rightarrow> g_value option" where
  "pk_sample_get_value s row_id = find_field row_id (pks_ar s)"

definition pk_sample_get_source_id :: "pk_sample \<Rightarrow> gint" where
  "pk_sample_get_source_id s = pks_source_id s"

definition pk_sample_get_timespec :: "pk_sample \<Rightarrow> timespec" where
  "pk_sample_get_timespec s = pks_ts s"

definition pk_sample_get_timeval :: "pk_sample \<Rightarrow> int \<times> int" where
  "pk_sample_get_timeval s = (tv_sec (pks_ts s), tv_nsec (pks_ts s) sdiv 1000)"

section \<open>Decoding\<close>

definition scale_relative :: "resolution \<Rightarrow> u64 \<Rightarrow> u64" where
  "scale_relative res u =
     (case res of
        RESOLUTION_USEC \<Rightarrow> u
      | RESOLUTION_MSEC \<Rightarrow> u * 1000
      | RESOLUTION_SECOND \<Rightarrow> u * G_USEC_PER_SEC
      | RESOLUTION_MINUTE \<Rightarrow> u * (G_USEC_PER_SEC * 60)
      | RESOLUTION_HOUR \<Rightarrow> u * (G_USEC_PER_SEC * 3600))"

definition pk_sample_decode_timespec :: "pk_manifest \<Rightarrow> (egg_buffer, timespec) reader" where
  "pk_sample_decode_timespec manifest =
     rd_bind (expect_tag 2 EGG_BUFFER_UINT64) (\<lambda>_.
     rd_bind egg_buffer_read_uint64 (\<lambda>u.
     rd_return (timespec_add
       (timespec_from_usec (scale_relative (pk_manifest_get_resolution manifest) u))
       (pk_manifest_get_timespec manifest))))"

text \<open>
  The numbers that \<open>g_value_init\<close> can look at. The numbers of fundamental types are at most
  \<open>G_TYPE_FUNDAMENTAL_MAX\<close>, and an index into a table; the number of any other type is the address of its description.
  What stands in a manifest is a number of the agent's, cut to 32 bits, which is no address of the client's.
\<close>

definition fundamental_types :: "g_fundamental list" where
  "fundamental_types =
     [G_TYPE_INVALID, G_TYPE_CHAR, G_TYPE_BOOLEAN, G_TYPE_INT, G_TYPE_UINT, G_TYPE_LONG, G_TYPE_ULONG, G_TYPE_INT64,
      G_TYPE_UINT64, G_TYPE_FLOAT, G_TYPE_DOUBLE, G_TYPE_STRING]"

definition type_known :: "gtypes \<Rightarrow> gtype \<Rightarrow> bool" where
  "type_known gt ty \<longleftrightarrow> ty \<le> 255 * 4 \<or> ty \<in> set (map gt fundamental_types)"

lemma type_known_fundamental [simp]: "type_known gt (gt f)"
  by (cases f) (simp_all add: type_known_def fundamental_types_def)

text \<open>
  The type of the field in the manifest; a field that has none ends the decoding. A fundamental type that has no values
  leaves the value without a type, which no wire type fits, as it fits none of the types that are not told apart.
\<close>

definition pk_sample_init_value :: "gtypes \<Rightarrow> pk_manifest \<Rightarrow> guint \<Rightarrow> (egg_buffer, gtype) reader" where
  "pk_sample_init_value gt manifest field =
     rd_bind (rd_access (pk_manifest_get_row_type gt manifest field)) (\<lambda>ty.
     rd_guard (ty \<noteq> gt G_TYPE_INVALID) (rd_access (if type_known gt ty then Some ty else None)))"

definition rd_map :: "('a \<Rightarrow> 'b) \<Rightarrow> ('s, 'a) reader \<Rightarrow> ('s, 'b) reader" where
  "rd_map f m = rd_bind m (\<lambda>a. rd_return (f a))"

definition decode_value :: "byte_order \<Rightarrow> gtypes \<Rightarrow> guint \<Rightarrow> gtype \<Rightarrow> (egg_buffer, g_value) reader" where
  "decode_value ord gt tag ty =
     (if tag = 0 then
        (if ty = gt G_TYPE_INT then rd_map V_INT egg_buffer_read_int
         else if ty = gt G_TYPE_UINT then rd_map V_UINT egg_buffer_read_uint
         else if ty = gt G_TYPE_INT64 then rd_map V_INT64 egg_buffer_read_int64
         else if ty = gt G_TYPE_UINT64 then rd_map V_UINT64 egg_buffer_read_uint64
         else rd_fail)
      else if tag = 1 then
        (if ty = gt G_TYPE_DOUBLE then rd_map V_DOUBLE (egg_buffer_read_double ord) else rd_fail)
      else if tag = 2 then
        (if ty = gt G_TYPE_STRING then rd_map V_STRING egg_buffer_read_string else rd_fail)
      else if tag = 5 then
        (if ty = gt G_TYPE_FLOAT then rd_map V_FLOAT (egg_buffer_read_float ord) else rd_fail)
      else rd_fail)"

text \<open>The body of the loop over the fields.\<close>

definition decode_field ::
  "byte_order \<Rightarrow> gtypes \<Rightarrow> pk_manifest \<Rightarrow> (egg_buffer, guint \<times> g_value) reader" where
  "decode_field ord gt manifest =
     rd_bind egg_buffer_read_tag (\<lambda>(field, tag).
     rd_bind (pk_sample_init_value gt manifest field) (\<lambda>ty.
     rd_bind (decode_value ord gt tag ty) (\<lambda>v.
     rd_return (field, v))))"

lemma along_map: "eb_along m \<Longrightarrow> eb_along (rd_map f m)"
  unfolding rd_map_def by (intro eb_safety.along_intros)

lemma along_decode_value [intro]: "eb_along (decode_value ord gt tag ty)"
  unfolding decode_value_def
  by (intro eb_safety.along_if eb_safety.along_const along_map along_reads along_read_uint along_read_uint64)

lemma along_init_value [intro]: "eb_along (pk_sample_init_value gt m f)"
  unfolding pk_sample_init_value_def by (intro eb_safety.along_intros)

lemma consumes_decode_field: "eb_consumes (decode_field ord gt manifest)"
  unfolding decode_field_def
proof (intro eb_consumes_bind consumes_read_tag)
  fix a :: "guint \<times> guint"
  show "eb_along (case a of (field, tag) \<Rightarrow>
      rd_bind (pk_sample_init_value gt manifest field) (\<lambda>ty.
      rd_bind (decode_value ord gt tag ty) (\<lambda>v. rd_return (field, v))))"
    by (cases a) (auto intro!: eb_safety.along_bind eb_safety.along_const)
qed

function decode_fields ::
  "byte_order \<Rightarrow> gtypes \<Rightarrow> pk_manifest \<Rightarrow> (guint \<times> g_value) list \<Rightarrow>
   (egg_buffer, (guint \<times> g_value) list) reader" where
  "decode_fields ord gt manifest ar b =
     (if egg_buffer_get_pos b < egg_buffer_get_length b
      then case decode_field ord gt manifest b of
          (Value item, b') \<Rightarrow> decode_fields ord gt manifest (ar @ [item]) b'
        | (Failed, b') \<Rightarrow> (Failed, b')
        | (Fault, b') \<Rightarrow> (Fault, b')
      else (Value ar, b))"
  by pat_completeness auto
termination
proof (relation "measure (\<lambda>(ord, gt, manifest, ar, b). length (eb_ar b) - eb_pos b)")
  fix ord gt manifest ar b x b' item
  assume "(x, b') = decode_field ord gt manifest b" "x = Value item"
  then have "decode_field ord gt manifest b = (Value item, b')"
    by simp
  from eb_consumesD [OF consumes_decode_field this]
  show "((ord, gt, manifest, ar @ [item], b'), ord, gt, manifest, ar, b)
      \<in> measure (\<lambda>(ord, gt, manifest, ar, b). length (eb_ar b) - eb_pos b)"
    by simp
qed simp

declare decode_fields.simps [simp del]

definition pk_sample_decode_data ::
  "byte_order \<Rightarrow> gtypes \<Rightarrow> pk_manifest \<Rightarrow> (guint \<times> g_value) list \<Rightarrow>
   (egg_buffer, (guint \<times> g_value) list) reader" where
  "pk_sample_decode_data ord gt manifest ar =
     rd_bind (expect_tag 3 EGG_BUFFER_DATA) (\<lambda>_.
     rd_bind egg_buffer_read_uint (\<lambda>data_len.
     rd_bind (rd_gets (\<lambda>b. egg_buffer_get_length b < egg_buffer_get_pos b + unat data_len)) (\<lambda>missing.
     rd_guard (\<not> missing) (decode_fields ord gt manifest ar))))"

definition pk_sample_decode ::
  "byte_order \<Rightarrow> gtypes \<Rightarrow> pk_sample \<Rightarrow> pk_manifest \<Rightarrow> (egg_buffer, pk_sample) reader" where
  "pk_sample_decode ord gt sample manifest =
     rd_bind (pk_sample_decode_timespec manifest) (\<lambda>ts.
     rd_bind (pk_sample_decode_data ord gt manifest (pks_ar sample)) (\<lambda>ar.
     rd_return (sample\<lparr>pks_ts := ts, pks_ar := ar\<rparr>)))"

text \<open>
  The result and what is stored in \<open>n_read\<close>: 0 when the source or its manifest cannot be had, the
  position reached otherwise.
\<close>

definition pk_sample_source :: "(gint \<Rightarrow> pk_manifest option) \<Rightarrow> (egg_buffer, gint \<times> pk_manifest) reader" where
  "pk_sample_source resolver =
     rd_bind (expect_tag 1 EGG_BUFFER_UINT) (\<lambda>_.
     rd_bind egg_buffer_read_uint (\<lambda>source_id.
     (case resolver source_id of None \<Rightarrow> rd_fail | Some manifest \<Rightarrow> rd_return (source_id, manifest))))"

definition pk_sample_new_from_data ::
  "byte_order \<Rightarrow> gtypes \<Rightarrow> (gint \<Rightarrow> pk_manifest option) \<Rightarrow> u8 list \<Rightarrow> pk_sample outcome \<times> nat" where
  "pk_sample_new_from_data ord gt resolver data =
     (case pk_sample_source resolver (egg_buffer_new_from_data data) of
        (Value (source_id, manifest), b) \<Rightarrow>
          (case pk_sample_decode ord gt (pk_sample_new\<lparr>pks_source_id := source_id\<rparr>) manifest b of
             (x, b') \<Rightarrow> (x, egg_buffer_get_pos b'))
      | (Failed, b) \<Rightarrow> (Failed, 0)
      | (Fault, b) \<Rightarrow> (Fault, 0))"

section \<open>Safety\<close>

lemma safe_map: "eb_safe m \<Longrightarrow> eb_safe (rd_map f m)"
  unfolding rd_map_def by (intro eb_safety.safe_intros)

lemma safe_decode_value [intro]: "eb_safe (decode_value ord gt tag ty)"
  unfolding decode_value_def
  by (intro eb_safety.safe_if eb_safety.safe_fail safe_map safe_read_int safe_read_uint safe_read_int64
      safe_read_uint64 safe_read_double safe_read_string safe_read_float)

text \<open>The row of a manifest with as many rows as it says is always inside the array.\<close>

lemma row_type_inside:
  assumes "pk_n_rows m = length (pk_rows m)"
  obtains ty where "pk_manifest_get_row_type gt m row = Some ty"
proof -
  have "unat row - 1 < length (pk_rows m)" if "sint row > 0" "sint row \<le> int (pk_n_rows m)"
  proof -
    have "int (unat row) = sint row"
      using that(1) by (intro int_unat_gint) simp
    then show ?thesis using that assms by linarith
  qed
  then have "\<exists>ty. pk_manifest_get_row_type gt m row = Some ty"
    by (simp add: pk_manifest_get_row_type_def)
  then show thesis using that by blast
qed

definition types_known :: "gtypes \<Rightarrow> pk_manifest \<Rightarrow> bool" where
  "types_known gt m \<longleftrightarrow> (\<forall>r \<in> set (pk_rows m). type_known gt (pkr_type r))"

lemma row_type_known:
  assumes "pk_manifest_get_row_type gt m row = Some ty" "types_known gt m"
  shows "type_known gt ty"
  using assms by (auto simp: pk_manifest_get_row_type_def types_known_def split: if_splits)

lemma safe_init_value:
  assumes "pk_n_rows m = length (pk_rows m)" "types_known gt m"
  shows "eb_safe (pk_sample_init_value gt m f)"
proof -
  obtain ty where ty: "pk_manifest_get_row_type gt m f = Some ty"
    using row_type_inside [OF assms(1)] .
  then have "pk_sample_init_value gt m f = rd_guard (ty \<noteq> gt G_TYPE_INVALID) (rd_return ty)"
    using row_type_known [OF ty assms(2)] by (simp add: pk_sample_init_value_def rd_access_def rd_bind_def rd_return_def fun_eq_iff)
  then show ?thesis by (simp add: eb_safety.safe_intros)
qed

lemma safe_decode_field:
  assumes "pk_n_rows m = length (pk_rows m)" "types_known gt m"
  shows "eb_safe (decode_field ord gt m)"
  unfolding decode_field_def
proof (intro eb_safety.safe_bind safe_read_tag)
  fix a :: "guint \<times> guint"
  show "eb_safe (case a of (field, tag) \<Rightarrow>
      rd_bind (pk_sample_init_value gt m field) (\<lambda>ty.
      rd_bind (decode_value ord gt tag ty) (\<lambda>v. rd_return (field, v))))"
    by (cases a) (auto intro!: eb_safety.safe_bind eb_safety.safe_return safe_init_value assms)
qed

lemma safe_decode_fields:
  assumes m: "pk_n_rows m = length (pk_rows m)" "types_known gt m"
  shows "eb_safe (decode_fields ord gt m ar)"
proof -
  have "eb_wf b \<Longrightarrow> fst (decode_fields ord gt m ar b) \<noteq> Fault \<and>
      eb_wf (snd (decode_fields ord gt m ar b)) \<and> eb_forward b (snd (decode_fields ord gt m ar b))"
    if "pk_n_rows m = length (pk_rows m)" "types_known gt m" for b
    using that
  proof (induction ord gt m ar b rule: decode_fields.induct)
    case (1 ord gt m ar b)
    obtain x c where field: "decode_field ord gt m b = (x, c)" by (cases "decode_field ord gt m b")
    then have c: "x \<noteq> Fault" "eb_wf c" "eb_forward b c"
      using safe_decode_field [OF 1(3,4), of ord] 1(2) by (auto simp: safe_reader_def dest!: spec [of _ b])
    show ?case
    proof (cases "egg_buffer_get_pos b < egg_buffer_get_length b")
      case False
      then show ?thesis
        using 1(2) by (simp add: decode_fields.simps [of ord gt m ar b] eb_forward_def)
    next
      case True
      show ?thesis
      proof (cases x)
        case (Value item)
        have step: "decode_fields ord gt m ar b = decode_fields ord gt m (ar @ [item]) c"
          using True field Value by (simp add: decode_fields.simps [of ord gt m ar b])
        from 1(1) [OF True field [unfolded Value, symmetric] refl c(2) 1(3,4)] c(3)
        show ?thesis unfolding step by (auto simp: eb_forward_def)
      qed (use True field c in \<open>simp_all add: decode_fields.simps [of ord gt m ar b]\<close>)
    qed
  qed
  then show ?thesis using m by (simp add: safe_reader_def)
qed

lemma safe_pk_sample_decode:
  assumes "pk_n_rows m = length (pk_rows m)" "types_known gt m"
  shows "eb_safe (pk_sample_decode ord gt s m)"
  unfolding pk_sample_decode_def pk_sample_decode_timespec_def pk_sample_decode_data_def
  by (intro eb_safety.safe_intros safe_read_uint safe_read_uint64 safe_expect_tag safe_decode_fields assms)

lemma safe_pk_sample_source: "eb_safe (pk_sample_source resolver)"
  unfolding pk_sample_source_def
  by (intro eb_safety.safe_bind safe_read_uint safe_expect_tag)
    (auto intro: eb_safety.safe_fail eb_safety.safe_return split: option.split)

section \<open>Properties\<close>

lemma decode_fields_to_end:
  "decode_fields ord gt m ar b = (Value v, b') \<Longrightarrow> eb_pos b' \<ge> length (eb_ar b') \<and> eb_ar b' = eb_ar b"
proof (induction ord gt m ar b rule: decode_fields.induct)
  case (1 ord gt m ar b)
  obtain x c where field: "decode_field ord gt m b = (x, c)" by (cases "decode_field ord gt m b")
  show ?case
  proof (cases "egg_buffer_get_pos b < egg_buffer_get_length b")
    case False
    then show ?thesis
      using 1(2) by (subst (asm) decode_fields.simps)
        (auto simp: egg_buffer_get_pos_def egg_buffer_get_length_def)
  next
    case True
    obtain item where item: "x = Value item" "decode_fields ord gt m (ar @ [item]) c = (Value v, b')"
      using 1(2) True field by (subst (asm) decode_fields.simps) (auto split: outcome.splits)
    then show ?thesis
      using 1(1) [OF True field [unfolded item(1), symmetric] refl item(2)]
        eb_consumesD(1) [OF consumes_decode_field field [unfolded item(1)]] by auto
  qed
qed

lemma decode_field_wf:
  assumes "decode_field ord gt m b = (Value item, c)" "eb_wf b"
  shows "eb_wf c"
proof -
  obtain field tag b1 where tag: "egg_buffer_read_tag b = (Value (field, tag), b1)"
    and rest: "rd_bind (pk_sample_init_value gt m field) (\<lambda>ty. rd_bind (decode_value ord gt tag ty) (\<lambda>v. rd_return (field, v))) b1 =
      (Value item, c)"
    using assms(1) unfolding decode_field_def by (elim rd_bind_ValueE) auto
  have "eb_wf b1" using safe_read_tag tag assms(2) by (fastforce simp: safe_reader_def)
  moreover obtain ty b2 v where init: "pk_sample_init_value gt m field b1 = (Value ty, b2)"
    and "decode_value ord gt tag ty b2 = (Value v, c)"
    using rest by (elim rd_bind_ValueE) (simp add: rd_return_def)
  moreover have "b2 = b1"
    using init unfolding pk_sample_init_value_def
    by (auto simp: rd_access_def rd_return_def rd_fault_def elim!: rd_bind_ValueE rd_guard_ValueE split: option.splits if_splits)
  ultimately show ?thesis using safe_decode_value [of ord gt tag ty] by (fastforce simp: safe_reader_def)
qed

lemma decode_fields_wf: "decode_fields ord gt m ar b = (Value v, b') \<Longrightarrow> eb_wf b \<Longrightarrow> eb_wf b'"
proof (induction ord gt m ar b rule: decode_fields.induct)
  case (1 ord gt m ar b)
  obtain x c where field: "decode_field ord gt m b = (x, c)" by (cases "decode_field ord gt m b")
  show ?case
  proof (cases "egg_buffer_get_pos b < egg_buffer_get_length b")
    case False
    then show ?thesis using 1(2,3) by (subst (asm) decode_fields.simps) simp
  next
    case True
    obtain item where item: "x = Value item" "decode_fields ord gt m (ar @ [item]) c = (Value v, b')"
      using 1(2) True field by (subst (asm) decode_fields.simps) (auto split: outcome.splits)
    then show ?thesis
      using 1(1) [OF True field [unfolded item(1), symmetric] refl item(2)]
        decode_field_wf [OF field [unfolded item(1)] 1(3)] by simp
  qed
qed

lemma pk_sample_decode_end:
  assumes "pk_sample_decode ord gt s m b = (Value v, d)" "eb_wf b"
  shows "eb_pos d = length (eb_ar b)"
proof -
  obtain ts b1 where ts: "pk_sample_decode_timespec m b = (Value ts, b1)"
    and "rd_bind (pk_sample_decode_data ord gt m (pks_ar s)) (\<lambda>ar. rd_return (s\<lparr>pks_ts := ts, pks_ar := ar\<rparr>)) b1 = (Value v, d)"
    using assms(1) unfolding pk_sample_decode_def by (erule rd_bind_ValueE)
  then obtain ar where data: "pk_sample_decode_data ord gt m (pks_ar s) b1 = (Value ar, d)"
    by (elim rd_bind_ValueE) (simp add: rd_return_def)
  have "eb_safe (pk_sample_decode_timespec m)"
    unfolding pk_sample_decode_timespec_def by (intro eb_safety.safe_intros safe_read_uint64 safe_expect_tag)
  then have b1: "eb_wf b1" "eb_ar b1 = eb_ar b" using ts assms(2) by (fastforce simp: safe_reader_def eb_forward_def)+
  let ?head = "rd_bind (expect_tag 3 EGG_BUFFER_DATA) (\<lambda>_. rd_bind egg_buffer_read_uint (\<lambda>data_len.
    rd_bind (rd_gets (\<lambda>b. egg_buffer_get_length b < egg_buffer_get_pos b + unat data_len)) (\<lambda>missing.
    rd_guard (\<not> missing) (rd_return ()))))"
  obtain b2 where head: "?head b1 = (Value (), b2)" and fields: "decode_fields ord gt m (pks_ar s) b2 = (Value ar, d)"
    using data unfolding pk_sample_decode_data_def
    by (elim rd_bind_ValueE rd_guard_ValueE) (auto simp: rd_bind_def rd_guard_def rd_return_def)
  have "eb_safe ?head" by (intro eb_safety.safe_intros safe_read_uint safe_expect_tag)
  then have b2: "eb_wf b2" "eb_ar b2 = eb_ar b1" using head b1(1) by (fastforce simp: safe_reader_def eb_forward_def)+
  have "eb_wf d" "eb_pos d \<ge> length (eb_ar d)" "eb_ar d = eb_ar b2"
    using decode_fields_wf [OF fields b2(1)] decode_fields_to_end [OF fields] by auto
  then show ?thesis using b1(2) b2(2) by (simp add: eb_wf_def)
qed

lemma data_buffer: "length data < 2 ^ 32 \<Longrightarrow> eb_wf (egg_buffer_new_from_data data)" "eb_ar (egg_buffer_new_from_data data) = data"
  by (simp_all add: eb_wf_def egg_buffer_new_from_data_def)

lemma sample_source_safe:
  assumes "length data < 2 ^ 32" "pk_sample_source resolver (egg_buffer_new_from_data data) = (x, c)"
  shows "x \<noteq> Fault" "eb_wf c" "eb_ar c = data" "x = Value (i, m) \<Longrightarrow> resolver i = Some m"
proof -
  show "x \<noteq> Fault" "eb_wf c" "eb_ar c = data"
    using safe_pk_sample_source [of resolver] assms(2) data_buffer [of data] assms(1)
    by (auto simp: safe_reader_def eb_forward_def dest!: spec [of _ "egg_buffer_new_from_data data"])
  show "x = Value (i, m) \<Longrightarrow> resolver i = Some m"
    using assms(2) unfolding pk_sample_source_def
    by (simp only:, elim rd_bind_ValueE) (auto simp: rd_fail_def rd_return_def split: option.splits)
qed

text \<open>An accepted sample has used all bytes, whatever the types are.\<close>

lemma accepted_uses_all:
  assumes "pk_sample_new_from_data ord gt resolver data = (Value s, n)" "length data < 2 ^ 32"
  shows "n = length data"
proof -
  obtain i m c d where src: "pk_sample_source resolver (egg_buffer_new_from_data data) = (Value (i, m), c)"
    and dec: "pk_sample_decode ord gt (pk_sample_new\<lparr>pks_source_id := i\<rparr>) m c = (Value s, d)" "n = eb_pos d"
    using assms(1) by (auto simp: pk_sample_new_from_data_def egg_buffer_get_pos_def split: prod.splits outcome.splits)
  note c = sample_source_safe [OF assms(2) src]
  show ?thesis using pk_sample_decode_end [OF dec(1) c(2)] c(3) dec(2) by simp
qed

lemma sample_from_data_sound:
  assumes "length data < 2 ^ 32" "\<forall>i m. resolver i = Some m \<longrightarrow> pk_manifest_wf m \<and> types_known gt m"
  shows "fst (pk_sample_new_from_data ord gt resolver data) \<noteq> Fault \<and>
    snd (pk_sample_new_from_data ord gt resolver data) \<le> length data"
proof -
  obtain x c where src: "pk_sample_source resolver (egg_buffer_new_from_data data) = (x, c)" by fastforce
  note c = sample_source_safe [OF assms(1) src]
  show ?thesis
  proof (cases x)
    case (Value sm)
    obtain i m where sm: "sm = (i, m)" by (cases sm)
    have m: "pk_n_rows m = length (pk_rows m)" "types_known gt m"
      using c(4) [of i m] Value sm assms(2) by (auto simp: pk_manifest_wf_def)
    let ?s = "pk_sample_new\<lparr>pks_source_id := i\<rparr>"
    obtain y d where dec: "pk_sample_decode ord gt ?s m c = (y, d)" by fastforce
    have "y \<noteq> Fault" "eb_wf d" "eb_ar d = data"
      using safe_pk_sample_decode [OF m, of ord ?s] c dec
      by (auto simp: safe_reader_def eb_forward_def dest!: spec [of _ c])
    then show ?thesis
      using Value sm src dec by (auto simp: pk_sample_new_from_data_def egg_buffer_get_pos_def eb_wf_def)
  qed (use c src in \<open>simp_all add: pk_sample_new_from_data_def\<close>)
qed

text \<open>A sample with a field for a row of an unknown type.\<close>

lemma unknown_type_faults:
  assumes "pk_manifest_wf m" "pk_rows m = r # rs" "\<not> type_known gt (pkr_type r)"
  shows "fst (pk_sample_new_from_data ord gt (\<lambda>_. Some m) [8, 1, 16, 0, 26, 1, 8]) = Fault"
proof -
  have ty: "pk_manifest_get_row_type gt m 1 = Some (pkr_type r)" "pkr_type r \<noteq> gt G_TYPE_INVALID"
    using assms by (auto simp: pk_manifest_get_row_type_def pk_manifest_wf_def)
  let ?at = "\<lambda>n. \<lparr>eb_ref = 1, eb_ar = [8, 1, 16, 0, 26, 1, 8], eb_pos = n\<rparr>"
  have tags: "egg_buffer_read_tag (?at 0) = (Value (1, 0), ?at 1)" "egg_buffer_read_tag (?at 2) = (Value (2, 0), ?at 3)"
    "egg_buffer_read_tag (?at 4) = (Value (3, 2), ?at 5)" "egg_buffer_read_tag (?at 6) = (Value (1, 0), ?at 7)"
    and ints: "egg_buffer_read_uint (?at 1) = (Value 1, ?at 2)" "egg_buffer_read_uint64 (?at 3) = (Value 0, ?at 4)"
    "egg_buffer_read_uint (?at 5) = (Value 1, ?at 6)"
    by code_simp+
  have "fst (decode_field ord gt m (?at 6)) = Fault"
    using ty assms(3) by (simp add: decode_field_def pk_sample_init_value_def rd_simps tags(4) rd_bind_def)
  then have "fst (decode_fields ord gt m ar (?at 6)) = Fault" for ar
    by (subst decode_fields.simps)
      (auto simp: egg_buffer_get_pos_def egg_buffer_get_length_def split: prod.split outcome.split)
  then have fields: "decode_fields ord gt m ar (?at 6) = (Fault, snd (decode_fields ord gt m ar (?at 6)))" for ar
    by (metis prod.collapse)
  have expect: "expect_tag f k (?at n) = (Value (), ?at n')" if "egg_buffer_read_tag (?at n) = (Value (f, k), ?at n')" for f k n n'
    using that by (simp add: expect_tag_def rd_bind_def rd_guard_def rd_return_def)
  have "pk_sample_source (\<lambda>_. Some m) (?at 0) = (Value (1, m), ?at 2)"
    by (simp add: pk_sample_source_def rd_bind_def rd_return_def egg_buffer_tags expect [OF tags(1)] ints(1) del: One_nat_def)
  moreover obtain ts where "pk_sample_decode_timespec m (?at 2) = (Value ts, ?at 4)"
    by (simp add: pk_sample_decode_timespec_def rd_bind_def rd_return_def egg_buffer_tags expect [OF tags(2)] ints(2) del: One_nat_def)
  moreover have "pk_sample_decode_data ord gt m ar (?at 4) = (Fault, snd (decode_fields ord gt m ar (?at 6)))" for ar
    using fields [of ar]
    by (simp add: pk_sample_decode_data_def rd_bind_def rd_guard_def rd_gets_def egg_buffer_tags expect [OF tags(3)] ints(3)
        egg_buffer_get_pos_def egg_buffer_get_length_def)
  ultimately show ?thesis
    by (simp add: pk_sample_new_from_data_def egg_buffer_new_from_data_def pk_sample_decode_def rd_bind_def)
qed

text \<open>
  C5: the client's sample decoder on arbitrary bytes, with manifests that \<open>pk_manifest_new_from_data\<close> accepted. Where
  all types of the manifests are known to the type system, no bytes make it leave its blocks; that condition is
  needed, since a sample with a field for a row of an unknown type makes it read through the number that the manifest
  brought. And a sample that is accepted has used up the whole buffer, so of a message with several samples the decoder
  never gives back the first alone.
\<close>

theorem sample_decoder_sound:
  assumes "length data < 2 ^ 32" "\<forall>i m. resolver i = Some m \<longrightarrow> pk_manifest_wf m"
  shows "((\<forall>i m. resolver i = Some m \<longrightarrow> types_known gt m) \<longrightarrow>
      fst (pk_sample_new_from_data ord gt resolver data) \<noteq> Fault \<and>
      snd (pk_sample_new_from_data ord gt resolver data) \<le> length data) \<and>
    (\<forall>i m r rs. resolver i = Some m \<and> pk_rows m = r # rs \<and> \<not> type_known gt (pkr_type r) \<longrightarrow>
      (\<exists>bytes. fst (pk_sample_new_from_data ord gt (\<lambda>_. Some m) bytes) = Fault)) \<and>
    (\<forall>s n. pk_sample_new_from_data ord gt resolver data = (Value s, n) \<longrightarrow> n = length data)"
  using sample_from_data_sound [OF assms(1), of resolver gt ord] assms(2) unknown_type_faults [where gt = gt and ord = ord]
    accepted_uses_all [OF _ assms(1), of ord gt resolver] by metis

theorem sample_decoder_sound_witness:
  "fst (pk_sample_new_from_data G_LITTLE_ENDIAN glib_gtypes (\<lambda>_. Some pk_manifest_new) [8, 1, 16, 0, 26, 200]) \<noteq> Fault"
  using sample_decoder_sound [of "[8, 1, 16, 0, 26, 200]" "\<lambda>_. Some pk_manifest_new" glib_gtypes G_LITTLE_ENDIAN]
  by (simp add: pk_manifest_wf_def pk_manifest_new_def ts_normal_def types_known_def)

section \<open>Types\<close>

text \<open>A field has a type in the manifest, and its value is of that type.\<close>

definition field_typed :: "gtypes \<Rightarrow> pk_manifest \<Rightarrow> guint \<times> g_value \<Rightarrow> bool" where
  "field_typed gt m f \<longleftrightarrow>
     pk_manifest_get_row_type gt m (fst f) = Some (gt (value_type (snd f))) \<and>
     gt (value_type (snd f)) \<noteq> gt G_TYPE_INVALID"

lemma decode_value_typed:
  "decode_value ord gt tag ty b = (Value v, b') \<Longrightarrow> ty = gt (value_type v)"
  by (auto simp: decode_value_def rd_map_def rd_return_def rd_fail_def elim!: rd_bind_ValueE split: if_splits)

lemma decode_field_typed: "decode_field ord gt m b = (Value f, b') \<Longrightarrow> field_typed gt m f"
  by (auto simp: decode_field_def pk_sample_init_value_def rd_access_def rd_return_def rd_fault_def field_typed_def
      elim!: rd_bind_ValueE rd_guard_ValueE dest!: decode_value_typed split: option.splits if_splits)

lemma decode_fields_typed:
  "decode_fields ord gt m ar b = (Value v, b') \<Longrightarrow> list_all (field_typed gt m) ar \<Longrightarrow> list_all (field_typed gt m) v"
proof (induction ord gt m ar b rule: decode_fields.induct)
  case (1 ord gt m ar b)
  show ?case
  proof (cases "egg_buffer_get_pos b < egg_buffer_get_length b")
    case False
    then show ?thesis using 1(2,3) by (subst (asm) decode_fields.simps) simp
  next
    case True
    obtain item c where item: "decode_field ord gt m b = (Value item, c)"
      "decode_fields ord gt m (ar @ [item]) c = (Value v, b')"
      using 1(2) True by (subst (asm) decode_fields.simps) (auto split: outcome.splits prod.splits)
    then show ?thesis
      using 1(1) [OF True item(1) [symmetric] refl item(2)] 1(3) decode_field_typed [OF item(1)] by simp
  qed
qed

lemma find_field_in: "find_field row ar = Some v \<Longrightarrow> (row, v) \<in> set ar"
  by (induction ar) (auto split: if_splits)

lemma sample_from_data_typed:
  assumes "pk_sample_new_from_data ord gt resolver data = (Value s, n)"
  obtains m where "resolver (pk_sample_get_source_id s) = Some m" "list_all (field_typed gt m) (pks_ar s)"
proof -
  obtain i m c where src: "pk_sample_source resolver (egg_buffer_new_from_data data) = (Value (i, m), c)"
    and dec: "fst (pk_sample_decode ord gt (pk_sample_new\<lparr>pks_source_id := i\<rparr>) m c) = Value s"
    using assms by (auto simp: pk_sample_new_from_data_def split: prod.splits outcome.splits)
  from src have res: "resolver i = Some m"
    unfolding pk_sample_source_def
    by (elim rd_bind_ValueE) (auto simp: rd_fail_def rd_return_def split: option.splits)
  obtain d where "pk_sample_decode ord gt (pk_sample_new\<lparr>pks_source_id := i\<rparr>) m c = (Value s, d)"
    using dec by (metis prod.collapse)
  then have "pks_source_id s = i \<and> list_all (field_typed gt m) (pks_ar s)"
    unfolding pk_sample_decode_def pk_sample_decode_data_def
    by (elim rd_bind_ValueE rd_guard_ValueE)
      (auto simp: rd_return_def pk_sample_new_def dest!: decode_fields_typed)
  with res show thesis
    by (intro that [of m]) (simp_all add: pk_sample_get_source_id_def)
qed

text \<open>
  C23: a sample that the client accepts is well typed: its source has a manifest, each of its fields has a type in
  that manifest, and the value that \<open>pk_sample_get_value\<close> gives for a row is of the type that
  \<open>pk_manifest_get_row_type\<close> gives for it. What the bytes say does not matter.
\<close>

theorem decoded_sample_typed:
  assumes "pk_sample_new_from_data ord gt resolver data = (Value s, n)"
  shows "\<exists>m. resolver (pk_sample_get_source_id s) = Some m \<and>
    (\<forall>row v. pk_sample_get_value s row = Some v \<longrightarrow>
       pk_manifest_get_row_type gt m row = Some (gt (value_type v)) \<and> gt (value_type v) \<noteq> gt G_TYPE_INVALID)"
proof -
  obtain m where m: "resolver (pk_sample_get_source_id s) = Some m" and f: "list_all (field_typed gt m) (pks_ar s)"
    using sample_from_data_typed [OF assms] .
  have "field_typed gt m (row, v)" if "pk_sample_get_value s row = Some v" for row v
    using find_field_in [of row "pks_ar s" v] that f by (auto simp: pk_sample_get_value_def list_all_iff)
  then show ?thesis using m by (auto simp: field_typed_def)
qed

text \<open>A sample with one field, for a manifest with one row of type \<open>gint\<close>.\<close>

definition tiny_manifest :: pk_manifest where
  "tiny_manifest = pk_manifest_new\<lparr>pk_n_rows := 1,
     pk_rows := [\<lparr>pkr_id = 1, pkr_type = glib_gtypes G_TYPE_INT, pkr_name = []\<rparr>]\<rparr>"

definition tiny_sample :: pk_sample where
  "tiny_sample = \<lparr>pks_ref = 1, pks_source_id = 1, pks_ts = \<lparr>tv_sec = 0, tv_nsec = 0\<rparr>, pks_ar = [(1, V_INT 5)]\<rparr>"

lemma tiny_decoded:
  "pk_sample_new_from_data G_LITTLE_ENDIAN glib_gtypes (\<lambda>_. Some tiny_manifest) [8, 1, 16, 0, 26, 2, 8, 10]
     = (Value tiny_sample, 8)"
  by code_simp

theorem decoded_sample_typed_witness:
  "pk_manifest_get_row_type glib_gtypes tiny_manifest 1 = Some (glib_gtypes G_TYPE_INT)"
  using decoded_sample_typed [OF tiny_decoded]
  by (auto simp: pk_sample_get_value_def tiny_sample_def)

text \<open>
  The types that \<open>pka_manifest_append\<close> admits and the client cannot decode: a field whose row has
  one of them makes the client reject the sample, whatever the wire type.
\<close>

theorem client_rejects_types:
  assumes "gtypes_ok gt" "ty \<in> {G_TYPE_CHAR, G_TYPE_BOOLEAN, G_TYPE_LONG, G_TYPE_ULONG}"
  shows "decode_value ord gt tag (gt ty) b = (Failed, b)"
  using assms(2) by (auto simp: decode_value_def gtypes_ok_simps [OF assms(1)] rd_fail_def)

theorem client_rejects_types_witness:
  "decode_value G_LITTLE_ENDIAN glib_gtypes 0 (glib_gtypes G_TYPE_BOOLEAN) (egg_buffer_new_from_data [1])
     = (Failed, egg_buffer_new_from_data [1])"
  by (rule client_rejects_types [OF gtypes_ok_glib]) simp

end
