(* ===== verification/Wire_Protocol.thy ===== *)
theory Wire_Protocol
  imports Pka_Encoder Pk_Sample
begin

text \<open>
  The agent's encoder against the client's decoders: what the client reads back of a manifest and of a
  sample that the agent wrote.
\<close>

unbundle bit_operations_syntax

section \<open>Tags and fields\<close>

lemma reads_tag: "tag_ok (f, t) \<Longrightarrow> reads egg_buffer_read_tag (varint_bytes (tag_word f t)) (f, t)"
  using tag_codec.reads_put [of "(f, t)"] by simp

lemma reads_expect_tag:
  "tag_ok (f, t) \<Longrightarrow> reads (expect_tag f t) (varint_bytes (tag_word f t)) ()"
  unfolding expect_tag_def
  by (rule reads_bind_last [OF reads_tag]) (auto intro: reads_guard reads_return)

lemma reads_bind_expect:
  assumes "tag_ok (f, t)" "reads m bs v"
  shows "reads (rd_bind (expect_tag f t) (\<lambda>_. m)) (varint_bytes (tag_word f t) @ bs) v"
  using assms by (intro reads_bind [OF reads_expect_tag]) auto

text \<open>A field and what follows it, for the three kinds of fields of the messages.\<close>

lemma reads_uint_field:
  assumes "unat f < 2 ^ 29" "reads (k u) bs v"
  shows "reads (rd_bind (expect_tag f 0) (\<lambda>_. rd_bind egg_buffer_read_uint k)) (uint_field f u @ bs) v"
  unfolding uint_field_def append_assoc using assms
  by (intro reads_bind_expect reads_bind [OF uint_codec.reads_put]) (auto simp: tag_ok_def)

lemma reads_uint64_field:
  assumes "unat f < 2 ^ 29" "reads (k u) bs v"
  shows "reads (rd_bind (expect_tag f 0) (\<lambda>_. rd_bind egg_buffer_read_uint64 k)) (uint64_field f u @ bs) v"
  unfolding uint64_field_def append_assoc using assms
  by (intro reads_bind_expect reads_bind [OF uint64_codec.reads_put]) (auto simp: tag_ok_def)

lemma reads_string_field:
  assumes "unat f < 2 ^ 29" "cstring_ok s" "reads (k s) bs v"
  shows "reads (rd_bind (expect_tag f 2) (\<lambda>_. rd_bind egg_buffer_read_string k)) (blob_field f s @ bs) v"
  unfolding blob_field_def append_assoc using assms
  by (intro reads_bind_expect reads_bind [OF string_codec.reads_put]) (auto simp: tag_ok_def)

lemma reads_string_field_last:
  assumes "unat f < 2 ^ 29" "cstring_ok s" "reads (k s) [] v"
  shows "reads (rd_bind (expect_tag f 2) (\<lambda>_. rd_bind egg_buffer_read_string k)) (blob_field f s) v"
  using reads_string_field [where bs = "[]" and k = k, OF assms] by simp

lemma reads_uint_field_last:
  assumes "unat f < 2 ^ 29" "reads (k u) [] v"
  shows "reads (rd_bind (expect_tag f 0) (\<lambda>_. rd_bind egg_buffer_read_uint k)) (uint_field f u) v"
  using reads_uint_field [where bs = "[]" and k = k, OF assms] by simp

lemma reads_uint64_field_last:
  assumes "unat f < 2 ^ 29" "reads (k u) [] v"
  shows "reads (rd_bind (expect_tag f 0) (\<lambda>_. rd_bind egg_buffer_read_uint64 k)) (uint64_field f u) v"
  using reads_uint64_field [where bs = "[]" and k = k, OF assms] by simp

section \<open>Manifests\<close>

definition client_row :: "pka_manifest_row \<Rightarrow> pk_manifest_row" where
  "client_row row = \<lparr>pkr_id = row_id row, pkr_type = row_type row, pkr_name = row_name row\<rparr>"

definition client_manifest :: "pka_manifest \<Rightarrow> pk_manifest" where
  "client_manifest m =
     \<lparr>pk_ref = 1, pk_ts = timespec_from_usec (timespec_to_usec (pm_ts m)),
      pk_resolution = pm_resolution m, pk_source_id = pm_source_id m,
      pk_n_rows = length (pm_rows m), pk_rows = map client_row (pm_rows m)\<rparr>"

lemma supported_type_low:
  assumes "gtypes_ok gt" "manifest_type_supported gt ty"
  shows "store_low_word G_LITTLE_ENDIAN (ucast ty) = ty"
  using assms by (auto simp: manifest_type_supported_def store_low_word_def gtypes_ok_simps)

lemma reads_row:
  assumes gt: "gtypes_ok gt" and ty: "manifest_type_supported gt (row_type row)"
    and name: "cstring_ok (row_name row)"
  shows "reads (decode_row G_LITTLE_ENDIAN) (string_bytes (row_bytes row)) (client_row row)"
proof -
  have "reads (rd_return \<lparr>pkr_id = row_id row,
      pkr_type = store_low_word G_LITTLE_ENDIAN (ucast (row_type row)), pkr_name = row_name row\<rparr>)
    [] (client_row row)"
    using supported_type_low [OF gt ty] by (simp add: client_row_def reads_return)
  then show ?thesis
    unfolding decode_row_def string_bytes_def row_bytes_def egg_buffer_tags append_assoc
    by (intro reads_bind [OF uint_codec.reads_put] reads_uint_field reads_string_field_last)
      (use name in auto)
qed

lemma rows_in_order:
  assumes "manifest_inv gt m" "k \<le> length (pm_rows m)"
  shows "\<forall>r \<in> set (take k (map client_row (pm_rows m))). sint (pkr_id r) > 0"
    and "sorted (map (sint \<circ> pkr_id) (take k (map client_row (pm_rows m))))"
    and "distinct (map (sint \<circ> pkr_id) (take k (map client_row (pm_rows m))))"
proof -
  let ?xs = "take k (map client_row (pm_rows m))"
  have id: "sint (pkr_id (?xs ! i)) = int i + 1" if "i < k" for i
  proof -
    have "pkr_id (?xs ! i) = word_of_nat (Suc i)" "Suc i < 2 ^ 31"
      using assms that by (auto simp: manifest_inv_def client_row_def)
    then show ?thesis
      by (simp add: signed_of_nat signed_take_bit_int_eq_self del: of_nat_Suc)
  qed
  have len: "length ?xs = k"
    using assms(2) by simp
  show "\<forall>r \<in> set ?xs. sint (pkr_id r) > 0"
    using id len by (metis add_nonneg_pos in_set_conv_nth of_nat_0_le_iff zero_less_one)
  have ids: "map (sint \<circ> pkr_id) ?xs = map (\<lambda>i. int i + 1) [0..<k]"
    by (rule nth_equalityI) (use id len in simp_all)
  show "sorted (map (sint \<circ> pkr_id) ?xs)"
    unfolding ids by (simp add: sorted_iff_nth_mono)
  show "distinct (map (sint \<circ> pkr_id) ?xs)"
    unfolding ids by (simp add: distinct_map inj_on_def)
qed

lemma reads_rows:
  assumes gt: "gtypes_ok gt" and inv: "manifest_inv gt m"
    and perm: "permutes gsort" and sorts: "sorts_by_id gsort"
  shows "rows = drop k (pm_rows m) \<Longrightarrow> k \<le> length (pm_rows m) \<Longrightarrow>
    pk_rows cm = take k (map client_row (pm_rows m)) \<Longrightarrow> pk_n_rows cm = k \<Longrightarrow>
    unread b = concat (map (\<lambda>row. string_bytes (row_bytes row)) rows) @ r \<Longrightarrow> eb_wf b \<Longrightarrow>
    decode_rows gsort G_LITTLE_ENDIAN (eb_pos b + length (concat (map (\<lambda>row. string_bytes (row_bytes row)) rows))) cm b
      = (Value (cm\<lparr>pk_rows := map client_row (pm_rows m), pk_n_rows := length (pm_rows m)\<rparr>),
         eb_advance (length (concat (map (\<lambda>row. string_bytes (row_bytes row)) rows))) b)"
proof (induction rows arbitrary: k cm b)
  case Nil
  then show ?case by (subst decode_rows.simps) simp
next
  case (Cons row rows)
  let ?bs = "string_bytes (row_bytes row)" and ?rest = "concat (map (\<lambda>row. string_bytes (row_bytes row)) rows)"
  have k: "k < length (pm_rows m)" "row = pm_rows m ! k" "rows = drop (Suc k) (pm_rows m)"
    using Cons.prems(1) by (metis drop_eq_Nil linorder_not_le list.distinct(1))
      (metis Cons.prems(1) nth_via_drop, metis Cons.prems(1) drop_Suc list.sel(3) tl_drop)
  have ty: "manifest_type_supported gt (row_type row)" "cstring_ok (row_name row)"
    using inv k by (auto simp: manifest_inv_def)
  have read: "decode_row G_LITTLE_ENDIAN b = (Value (client_row row), eb_advance (length ?bs) b)"
    using readsD [OF reads_row [OF gt ty]] Cons.prems(5,6) by simp
  have take: "take k (map client_row (pm_rows m)) @ [client_row row]
      = take (Suc k) (map client_row (pm_rows m))"
    using k by (simp add: take_Suc_conv_app_nth)
  have "gsort sort_func (take (Suc k) (map client_row (pm_rows m))) = take (Suc k) (map client_row (pm_rows m))"
    using rows_in_order [OF inv, of "Suc k"] k(1) by (intro gsort_in_order [OF perm sorts]) auto
  then have cm: "add_row gsort cm (client_row row)
      = cm\<lparr>pk_rows := take (Suc k) (map client_row (pm_rows m)), pk_n_rows := Suc k\<rparr>"
    using Cons.prems(3,4) take by (simp add: add_row_def)
  have b: "unread (eb_advance (length ?bs) b) = ?rest @ r" "eb_wf (eb_advance (length ?bs) b)"
    using Cons.prems(5,6) by auto
  have "?bs \<noteq> []"
    by (simp add: string_bytes_def)
  then have "eb_pos b < eb_pos b + length (concat (map (\<lambda>row. string_bytes (row_bytes row)) (row # rows)))"
    by simp
  then show ?case
    using Cons.IH [OF k(3) _ _ _ b, of "add_row gsort cm (client_row row)"] k(1) cm read
    by (subst decode_rows.simps) (simp add: add.assoc comp_def)
qed

text \<open>The round trip of a manifest; the only thing lost is the nanoseconds below a microsecond.\<close>

lemma decode_manifest_bytes:
  assumes gt: "gtypes_ok gt" and inv: "manifest_inv gt m"
    and perm: "permutes gsort" and sorts: "sorts_by_id gsort"
    and len: "length (manifest_bytes m) < 2 ^ 32"
  shows "pk_manifest_new_from_data gsort G_LITTLE_ENDIAN (manifest_bytes m) = Value (client_manifest m)"
proof -
  let ?rows = "concat (map (\<lambda>row. string_bytes (row_bytes row)) (pm_rows m))"
  let ?b = "egg_buffer_new_from_data (manifest_bytes m)"
  let ?cm = "pk_manifest_new\<lparr>pk_ts := timespec_from_usec (timespec_to_usec (pm_ts m)),
      pk_resolution := pm_resolution m, pk_source_id := pm_source_id m\<rparr>"
  have "length ?rows < 2 ^ 32"
    using len by (simp add: manifest_bytes_def blob_field_def string_bytes_def)
  then have ulen: "unat (word_of_nat (length ?rows) :: guint) = length ?rows"
    by (simp add: unat_word_of_nat)
  have sent: "all_rows_sent (client_manifest m) = Some True"
    using inv by (simp add: all_rows_sent_def client_manifest_def client_row_def manifest_inv_def)
  have cm: "?cm\<lparr>pk_rows := map client_row (pm_rows m), pk_n_rows := length (pm_rows m)\<rparr> = client_manifest m"
    by (simp add: client_manifest_def pk_manifest_new_def)
  have tail: "reads (rd_bind (rd_gets (\<lambda>b. egg_buffer_get_pos b + length ?rows)) (\<lambda>e.
      rd_bind (decode_rows gsort G_LITTLE_ENDIAN e ?cm) (\<lambda>m.
      rd_bind (rd_access (all_rows_sent m)) (\<lambda>ok. rd_guard ok (rd_return m))))) ?rows (client_manifest m)"
  proof (rule readsI)
    fix b r
    assume b: "unread b = ?rows @ r" "eb_wf b"
    have "decode_rows gsort G_LITTLE_ENDIAN (eb_pos b + length ?rows) ?cm b
        = (Value (client_manifest m), eb_advance (length ?rows) b)"
      unfolding cm [symmetric]
      by (rule reads_rows [OF gt inv perm sorts _ _ _ _ b, where k = 0]) (simp_all add: pk_manifest_new_def)
    then show "rd_bind (rd_gets (\<lambda>b. egg_buffer_get_pos b + length ?rows)) (\<lambda>e.
      rd_bind (decode_rows gsort G_LITTLE_ENDIAN e ?cm) (\<lambda>m.
      rd_bind (rd_access (all_rows_sent m)) (\<lambda>ok. rd_guard ok (rd_return m)))) b
        = (Value (client_manifest m), eb_advance (length ?rows) b)"
      by (simp add: rd_bind_Value rd_gets_eval egg_buffer_get_pos_def sent rd_access_eval rd_guard_True
          rd_return_eval)
  qed
  have "resolution_number (pm_resolution m) \<le> resolution_number RESOLUTION_HOUR"
    using resolution_le_hour [of "pm_resolution m"] by (simp only: less_eq_resolution_def)
  then have "reads (decode gsort G_LITTLE_ENDIAN pk_manifest_new) (manifest_bytes m) (client_manifest m)"
    unfolding decode_def manifest_bytes_def egg_buffer_tags blob_field_def [of 4] string_bytes_def [of ?rows]
    by (intro reads_uint64_field reads_uint_field reads_guard reads_bind_expect
        reads_bind [OF uint_codec.reads_put])
      (simp_all add: tag_ok_def tail ulen)
  moreover have "eb_wf ?b"
    using len by (simp add: eb_wf_def egg_buffer_new_from_data_def)
  ultimately show ?thesis
    by (simp add: pk_manifest_new_from_data_def readsD [where r = "[]"])
qed

section \<open>Samples\<close>

text \<open>The fields that an agent may put into a sample of the manifest for the client to understand.\<close>

definition field_ok :: "gtypes \<Rightarrow> pka_manifest \<Rightarrow> guint \<times> g_value \<Rightarrow> bool" where
  "field_ok gt m fv \<longleftrightarrow>
     0 < unat (fst fv) \<and> unat (fst fv) \<le> length (pm_rows m) \<and> unat (fst fv) < 2 ^ 29 \<and>
     row_type (pm_rows m ! (unat (fst fv) - 1)) = gt (value_type (snd fv)) \<and> value_ok (snd fv)"

lemma reads_map: "reads m bs a \<Longrightarrow> v = f a \<Longrightarrow> reads (rd_map f m) bs v"
  unfolding rd_map_def by (auto intro: reads_bind_last reads_return)

lemma reads_value:
  assumes "gtypes_ok gt" "value_ok v"
  shows "reads (decode_value ord gt (value_tag v) (gt (value_type v))) (value_bytes v) v"
  using assms(2)
  by (cases v)
    (auto simp: decode_value_def gtypes_ok_simps [OF assms(1)] intro!: reads_map
      intro: uint_codec.reads_put uint64_codec.reads_put int_codec.reads_put int64_codec.reads_put
        double_codec.reads_put float_codec.reads_put string_codec.reads_put)

lemma sint_small: "unat (f :: gint) < 2 ^ 31 \<Longrightarrow> sint f = int (unat f)"
  using sint_word_of_nat [of "unat f"] by (simp only: of_nat_unat ucast_id)

lemma client_row_type:
  assumes "field_ok gt m (f, v)"
  shows "pk_manifest_get_row_type gt (client_manifest m) f = Some (gt (value_type v))"
proof -
  have f: "0 < unat f" "unat f \<le> length (pm_rows m)" "unat f < 2 ^ 31"
    "row_type (pm_rows m ! (unat f - 1)) = gt (value_type v)"
    using assms by (auto simp: field_ok_def)
  have "sint f > 0" "sint f \<le> int (length (pm_rows m))" "unat f - 1 < length (pm_rows m)"
    unfolding sint_small [OF f(3)] using f(1,2) by linarith+
  then show ?thesis
    using f(4) by (simp add: pk_manifest_get_row_type_def client_manifest_def client_row_def)
qed

lemma reads_field:
  assumes gt: "gtypes_ok gt" and ok: "field_ok gt m fv"
  shows "reads (decode_field ord gt (client_manifest m)) (field_bytes fv) fv"
proof -
  obtain f v where fv: "fv = (f, v)" by (cases fv)
  have "value_type v \<noteq> G_TYPE_INVALID"
    by (cases v) simp_all
  then have "reads (pk_sample_init_value gt (client_manifest m) f) [] (gt (value_type v))"
    unfolding pk_sample_init_value_def client_row_type [OF ok [unfolded fv]] using gt
    by (auto simp: rd_access_def gtypes_ok_simps intro!: reads_bind_last reads_return reads_guard)
  moreover have "reads (rd_bind (decode_value ord gt (value_tag v) (gt (value_type v))) (\<lambda>v. rd_return (f, v)))
      (value_bytes v) (f, v)"
    using ok fv by (intro reads_bind_last [OF reads_value [OF gt]] reads_return) (simp add: field_ok_def)
  ultimately have "reads (rd_bind (pk_sample_init_value gt (client_manifest m) f) (\<lambda>ty.
      rd_bind (decode_value ord gt (value_tag v) ty) (\<lambda>v. rd_return (f, v)))) (value_bytes v) (f, v)"
    using reads_bind [where bs = "[]"] by fastforce
  moreover have "tag_ok (f, value_tag v)"
    using ok fv by (cases v) (simp_all add: tag_ok_def field_ok_def)
  ultimately show ?thesis
    unfolding decode_field_def field_bytes_def fv fst_conv snd_conv
    by (intro reads_bind [OF reads_tag]) auto
qed

lemma decode_fields_bytes:
  assumes gt: "gtypes_ok gt"
  shows "\<forall>fv \<in> set fvs. field_ok gt m fv \<Longrightarrow> unread b = concat (map field_bytes fvs) \<Longrightarrow> eb_wf b \<Longrightarrow>
    decode_fields ord gt (client_manifest m) ar b
      = (Value (ar @ fvs), eb_advance (length (concat (map field_bytes fvs))) b)"
proof (induction fvs arbitrary: ar b)
  case Nil
  then have "eb_pos b = length (eb_ar b)"
    using length_unread [of b] by (simp add: eb_wf_def)
  then show ?case
    by (subst decode_fields.simps) (simp add: egg_buffer_get_pos_def egg_buffer_get_length_def)
next
  case (Cons fv fvs)
  have "field_bytes fv \<noteq> []"
    by (simp add: field_bytes_def)
  then have "eb_pos b < length (eb_ar b)"
    using Cons.prems(2) length_unread [of b] by (cases "eb_pos b < length (eb_ar b)") auto
  moreover have "decode_field ord gt (client_manifest m) b = (Value fv, eb_advance (length (field_bytes fv)) b)"
    using Cons.prems by (intro readsD [OF reads_field [OF gt]]) auto
  moreover have "decode_fields ord gt (client_manifest m) (ar @ [fv]) (eb_advance (length (field_bytes fv)) b)
      = (Value ((ar @ [fv]) @ fvs), eb_advance (length (concat (map field_bytes fvs)))
          (eb_advance (length (field_bytes fv)) b))"
    using Cons.prems by (intro Cons.IH) auto
  ultimately show ?case
    by (subst decode_fields.simps) (simp add: egg_buffer_get_pos_def egg_buffer_get_length_def)
qed

section \<open>Time stamps\<close>

text \<open>
  The time that the client computes for a sample: the manifest's, cut to a microsecond, and the
  relative time, cut to the resolution's unit.
\<close>

definition client_time :: "pka_manifest \<Rightarrow> pka_sample \<Rightarrow> timespec" where
  "client_time m s =
     timespec_add
       (timespec_from_usec (scale_relative (pm_resolution m)
          (pka_resolution_apply (pm_resolution m) (timespec_subtract (ps_ts s) (pm_ts m)))))
       (timespec_from_usec (timespec_to_usec (pm_ts m)))"

lemma floor_mult_bounds:
  fixes x n :: int
  assumes "0 < n"
  shows "x div n * n \<le> x" "x < x div n * n + n"
  using assms pos_mod_bound [of n x] pos_mod_sign [of n x] div_mult_mod_eq [of x n] by linarith+

lemma cut_sum_upper:
  "x \<le> d \<Longrightarrow> d * 1000 \<le> s - m \<Longrightarrow> k * 1000 \<le> m \<Longrightarrow> (x + k) * 1000 \<le> (s :: int)"
  unfolding distrib_right by linarith

lemma cut_sum_lower:
  "d < x + n \<Longrightarrow> s - m < d * 1000 + 1000 \<Longrightarrow> m < k * 1000 + 1000 \<Longrightarrow>
     (s :: int) < (x + k) * 1000 + n * 1000 + 1000"
  unfolding distrib_right by linarith

lemma cut_wrapped:
  "n \<le> 3600000000 \<Longrightarrow> d + 2 ^ 64 < x + n \<Longrightarrow> 0 \<le> k \<Longrightarrow> - (2 ^ 62) \<le> d \<Longrightarrow> (2 :: int) ^ 63 \<le> x + k"
  by simp

lemma uint_scale_relative:
  "uint (scale_relative res u) = uint u * resolution_unit res mod 2 ^ 64"
  using uint_bounded [of u]
  by (cases res) (simp_all add: scale_relative_def G_USEC_PER_SEC_def uint_word_ariths)

text \<open>Scaling back what was divided cannot overflow: the result is at most the microseconds sent.\<close>

lemma uint_scale_apply:
  "uint (scale_relative res (pka_resolution_apply res ts))
     = uint (timespec_to_usec ts) div resolution_unit res * resolution_unit res"
proof -
  let ?u = "uint (timespec_to_usec ts)" and ?n = "resolution_unit res"
  have "?u div ?n * ?n \<le> ?u"
    by (rule floor_mult_bounds) simp
  moreover have "0 \<le> ?u div ?n * ?n"
    by (intro mult_nonneg_nonneg) (simp_all add: pos_imp_zdiv_nonneg_iff less_imp_le)
  moreover have "?u < 2 ^ 64"
    using uint_bounded [of "timespec_to_usec ts"] by simp
  ultimately show ?thesis
    by (simp add: uint_scale_relative uint_resolution_apply)
qed

lemma ts_nanos_client_time:
  "ts_nanos (client_time m s) =
     (uint (timespec_to_usec (timespec_subtract (ps_ts s) (pm_ts m))) div resolution_unit (pm_resolution m)
        * resolution_unit (pm_resolution m) + uint (timespec_to_usec (pm_ts m))) * 1000"
  by (simp add: client_time_def ts_nanos_from_usec uint_scale_apply algebra_simps)

text \<open>
  A sample not older than its manifest is dated less than a unit of the resolution and a microsecond
  too early, and never too late.
\<close>

lemma client_time_bounds:
  assumes norm: "ts_normal (ps_ts s)" "ts_normal (pm_ts m)"
    and past: "0 \<le> ts_nanos (pm_ts m)" and order: "ts_nanos (pm_ts m) \<le> ts_nanos (ps_ts s)"
    and range: "ts_nanos (ps_ts s) < 2 ^ 64 * 1000"
  shows "ts_nanos (client_time m s) \<le> ts_nanos (ps_ts s)"
    and "ts_nanos (ps_ts s) < ts_nanos (client_time m s) + resolution_unit (pm_resolution m) * 1000 + 1000"
proof -
  let ?s = "ts_nanos (ps_ts s)" and ?m = "ts_nanos (pm_ts m)" and ?n = "resolution_unit (pm_resolution m)"
  let ?d = "(?s - ?m) div 1000"
  have "0 \<le> ?m div 1000" "?m div 1000 < 2 ^ 64" "0 \<le> ?d" "?d < 2 ^ 64"
    using past order range by (auto simp: pos_imp_zdiv_nonneg_iff div_less_iff_less_mult)
  then have u: "uint (timespec_to_usec (pm_ts m)) = ?m div 1000"
      "uint (timespec_to_usec (timespec_subtract (ps_ts s) (pm_ts m))) = ?d"
    using uint_timespec_to_usec [OF norm(2)] uint_timespec_to_usec [OF timespec_subtract_normal [OF norm]]
    by simp_all
  have t: "ts_nanos (client_time m s) = (?d div ?n * ?n + ?m div 1000) * 1000"
    unfolding ts_nanos_client_time u ..
  note b = floor_mult_bounds [OF resolution_unit_pos, of ?d "pm_resolution m"]
    floor_mult_bounds [of 1000 ?m, simplified] floor_mult_bounds [of 1000 "?s - ?m", simplified]
  show "ts_nanos (client_time m s) \<le> ?s"
    unfolding t using b by (intro cut_sum_upper)
  show "?s < ts_nanos (client_time m s) + ?n * 1000 + 1000"
    unfolding t using b by (intro cut_sum_lower)
qed

text \<open>
  A sample older than its manifest has a negative relative time, which wraps: the client dates it
  centuries after the manifest.
\<close>

lemma client_time_old_sample:
  assumes norm: "ts_normal (ps_ts s)" "ts_normal (pm_ts m)"
    and past: "0 \<le> ts_nanos (pm_ts m)"
    and order: "ts_nanos (ps_ts s) < ts_nanos (pm_ts m)"
    and recent: "ts_nanos (pm_ts m) - ts_nanos (ps_ts s) \<le> 2 ^ 62 * 1000"
  shows "ts_nanos (client_time m s) \<ge> 2 ^ 63 * 1000"
proof -
  let ?s = "ts_nanos (ps_ts s)" and ?m = "ts_nanos (pm_ts m)" and ?n = "resolution_unit (pm_resolution m)"
  let ?d = "(?s - ?m) div 1000"
  have "?d < 0" "- (2 ^ 62) \<le> ?d"
    using order recent floor_mult_bounds [of 1000 "?s - ?m"] by auto
  then have "(?d + 2 ^ 64) mod 2 ^ 64 = ?d + 2 ^ 64"
    by (intro mod_pos_pos_trivial) simp_all
  then have "?d mod 2 ^ 64 = ?d + 2 ^ 64"
    by (simp only: mod_add_self2)
  then have u: "uint (timespec_to_usec (timespec_subtract (ps_ts s) (pm_ts m))) = ?d + 2 ^ 64"
    using uint_timespec_to_usec [OF timespec_subtract_normal [OF norm]] by simp
  have "?n \<le> 3600000000"
    using resolution_unit_mono [OF resolution_le_hour] by simp
  moreover have "?d + 2 ^ 64 < (?d + 2 ^ 64) div ?n * ?n + ?n"
    by (rule floor_mult_bounds) simp
  moreover have "0 \<le> uint (timespec_to_usec (pm_ts m))"
    by simp
  ultimately have "2 ^ 63 \<le> (?d + 2 ^ 64) div ?n * ?n + uint (timespec_to_usec (pm_ts m))"
    using \<open>- (2 ^ 62) \<le> ?d\<close> by (rule cut_wrapped)
  then show ?thesis
    unfolding ts_nanos_client_time u by (intro mult_right_mono) simp_all
qed

section \<open>A sample from the agent to the client\<close>

definition client_sample :: "pka_manifest \<Rightarrow> pka_sample \<Rightarrow> (guint \<times> g_value) list \<Rightarrow> pk_sample" where
  "client_sample m s fvs =
     \<lparr>pks_ref = 1, pks_source_id = ps_source_id s, pks_ts = client_time m s, pks_ar = fvs\<rparr>"

lemma decode_sample_bytes:
  assumes gt: "gtypes_ok gt" and ok: "\<forall>fv \<in> set fvs. field_ok gt m fv"
    and data: "eb_ar (ps_buf s) = concat (map field_bytes fvs)"
    and res: "resolver (ps_source_id s) = Some (client_manifest m)"
    and len: "length (sample_bytes (pm_resolution m) (pm_ts m) s) < 2 ^ 32"
  shows "pk_sample_new_from_data ord gt resolver (sample_bytes (pm_resolution m) (pm_ts m) s)
    = (Value (client_sample m s fvs), length (sample_bytes (pm_resolution m) (pm_ts m) s))"
proof -
  let ?src = "uint_field 1 (ps_source_id s)" and ?data = "concat (map field_bytes fvs)"
  let ?rel = "pka_resolution_apply (pm_resolution m) (timespec_subtract (ps_ts s) (pm_ts m))"
  let ?ts = "uint64_field 2 ?rel"
  let ?head = "varint_bytes (tag_word 3 2) @ varint_bytes (word_of_nat (length ?data) :: guint)"
  let ?bytes = "sample_bytes (pm_resolution m) (pm_ts m) s"
  have bytes: "?bytes = ?src @ ?ts @ ?head @ ?data"
    by (simp add: sample_bytes_def blob_field_def string_bytes_def data)
  define b0 where "b0 = egg_buffer_new_from_data ?bytes"
  define b1 where "b1 = eb_advance (length ?src) b0"
  define b2 where "b2 = eb_advance (length ?ts) b1"
  define b3 where "b3 = eb_advance (length ?head) b2"
  have u0: "unread b0 = ?src @ ?ts @ ?head @ ?data" and w0: "eb_wf b0"
    using len bytes by (simp_all add: b0_def eb_wf_def egg_buffer_new_from_data_def unread_def)
  have u1: "unread b1 = ?ts @ ?head @ ?data" and w1: "eb_wf b1"
    using u0 w0 by (auto simp: b1_def)
  have u2: "unread b2 = ?head @ ?data" and w2: "eb_wf b2"
    using u1 w1 by (auto simp: b2_def)
  have u3: "unread b3 = ?data" and w3: "eb_wf b3"
    using u2 w2 eb_wf_advance [of b2 ?head ?data] by (auto simp: b3_def)
  have "reads (pk_sample_source resolver) ?src (ps_source_id s, client_manifest m)"
    unfolding pk_sample_source_def egg_buffer_tags
    by (rule reads_uint_field_last) (simp_all add: res reads_return)
  then have src: "pk_sample_source resolver b0 = (Value (ps_source_id s, client_manifest m), b1)"
    unfolding b1_def by (rule readsD [OF _ u0 w0])
  have "reads (pk_sample_decode_timespec (client_manifest m)) ?ts (client_time m s)"
    unfolding pk_sample_decode_timespec_def egg_buffer_tags
    by (rule reads_uint64_field_last)
      (simp_all add: client_time_def client_manifest_def pk_manifest_get_resolution_def
        pk_manifest_get_timespec_def reads_return)
  then have ts: "pk_sample_decode_timespec (client_manifest m) b1 = (Value (client_time m s), b2)"
    unfolding b2_def by (rule readsD [OF _ u1 w1])
  have "length ?data < 2 ^ 32"
    using len bytes by simp
  then have ulen: "unat (word_of_nat (length ?data) :: guint) = length ?data"
    by (simp add: unat_word_of_nat)
  have fields: "decode_fields ord gt (client_manifest m) [] b3 = (Value fvs, eb_advance (length ?data) b3)"
    using decode_fields_bytes [OF gt ok u3 w3, of ord "[]"] by simp
  have "eb_pos b3 + length ?data \<le> length (eb_ar b3)"
    using length_unread [of b3] u3 w3 by (simp add: eb_wf_def)
  then have rest: "rd_bind (rd_gets (\<lambda>b. egg_buffer_get_length b < egg_buffer_get_pos b + length ?data))
      (\<lambda>missing. rd_guard (\<not> missing) (decode_fields ord gt (client_manifest m) [])) b3
      = (Value fvs, eb_advance (length ?data) b3)"
    by (simp add: rd_bind_gets egg_buffer_get_length_def egg_buffer_get_pos_def rd_guard_True fields)
  have "expect_tag 3 2 b2 = (Value (), eb_advance (length (varint_bytes (tag_word 3 2))) b2)"
    using u2 w2 by (intro readsD [OF reads_expect_tag]) (auto simp: tag_ok_def)
  moreover have "egg_buffer_read_uint (eb_advance (length (varint_bytes (tag_word 3 2))) b2)
      = (Value (word_of_nat (length ?data)), b3)"
    using readsD [OF uint_codec.reads_put, of _ "word_of_nat (length ?data)"] u2 w2
    by (simp add: b3_def add.commute)
  ultimately have "pk_sample_decode_data ord gt (client_manifest m) [] b2
      = (Value fvs, eb_advance (length ?data) b3)"
    unfolding pk_sample_decode_data_def egg_buffer_tags by (simp add: rd_bind_Value ulen rest)
  moreover have "eb_pos (eb_advance (length ?data) b3) = length ?bytes"
    by (simp add: b3_def b2_def b1_def b0_def bytes egg_buffer_new_from_data_def)
  ultimately show ?thesis
    unfolding pk_sample_new_from_data_def b0_def [symmetric] src
    by (simp add: pk_sample_decode_def rd_bind_Value ts rd_return_eval client_sample_def pk_sample_new_def
        egg_buffer_get_pos_def)
qed

section \<open>Properties\<close>

lemma manifest_over_the_wire:
  assumes "gtypes_ok gt" "manifest_inv gt m" "permutes gsort" "sorts_by_id gsort"
    and "length (manifest_bytes m) < 2 ^ 32"
  shows "\<exists>data. pka_encoder_encode_manifest gt None m = Some data \<and>
    pk_manifest_new_from_data gsort G_LITTLE_ENDIAN data = Value (client_manifest m)"
  using encode_manifest_bytes [OF assms(2,5)] decode_manifest_bytes [OF assms]
  by (simp add: pka_encoder_encode_manifest_def)

definition example_manifest :: pka_manifest where
  "example_manifest =
     \<lparr>pm_ref = 1,
      pm_rows = [\<lparr>row_id = 1, row_type = glib_gtypes G_TYPE_INT, row_name = [117, 115, 114]\<rparr>,
                 \<lparr>row_id = 2, row_type = glib_gtypes G_TYPE_STRING, row_name = []\<rparr>],
      pm_source_id = 3, pm_ts = \<lparr>tv_sec = 100, tv_nsec = 2500\<rparr>, pm_resolution = RESOLUTION_MSEC\<rparr>"

lemma example_manifest_inv: "manifest_inv glib_gtypes example_manifest"
  by (auto simp: manifest_inv_def example_manifest_def manifest_type_supported_def cstring_ok_def
      less_Suc_eq)

lemma length_uint64_field: "length (uint64_field k u) \<le> 15"
  using length_varint_uint [of "tag_word k 0"] length_varint_uint64 [of u]
  by (simp add: uint64_field_def)

lemma length_blob_field: "length (blob_field k d) \<le> length d + 10"
  using length_varint_uint [of "tag_word k 2"] length_string_bytes [of d]
  by (simp add: blob_field_def)

lemma length_example_manifest: "length (manifest_bytes example_manifest) < 2 ^ 32"
proof -
  let ?rows = "concat (map (\<lambda>row. string_bytes (row_bytes row)) (pm_rows example_manifest))"
  have "length ?rows \<le> 100"
    using length_string_bytes [of "row_bytes (pm_rows example_manifest ! 0)"]
      length_string_bytes [of "row_bytes (pm_rows example_manifest ! 1)"]
      length_row_bytes [of "pm_rows example_manifest ! 0"]
      length_row_bytes [of "pm_rows example_manifest ! 1"]
    by (simp add: example_manifest_def)
  then show ?thesis
    using length_uint64_field [of 1 "timespec_to_usec (pm_ts example_manifest)"]
      length_uint_field [of 2 "resolution_number (pm_resolution example_manifest)"]
      length_uint_field [of 3 "pm_source_id example_manifest"] length_blob_field [of 4 ?rows]
    by (simp add: manifest_bytes_def del: length_concat)
qed

text \<open>
  C2: a manifest that the agent encodes is decoded by the client into the same rows (number, type and
  name), resolution and source, and its time cut to a microsecond.
\<close>

theorem manifest_roundtrip:
  assumes "gtypes_ok gt" "manifest_inv gt m" "permutes gsort" "sorts_by_id gsort"
    and "length (manifest_bytes m) < 2 ^ 32"
  shows "\<exists>data. pka_encoder_encode_manifest gt None m = Some data \<and>
    pk_manifest_new_from_data gsort G_LITTLE_ENDIAN data = Value (client_manifest m)"
  by (rule manifest_over_the_wire [OF assms])

theorem manifest_roundtrip_witness:
  "\<exists>data. pka_encoder_encode_manifest glib_gtypes None example_manifest = Some data \<and>
    pk_manifest_new_from_data insertion_sort G_LITTLE_ENDIAN data = Value (client_manifest example_manifest)"
  by (rule manifest_roundtrip [OF gtypes_ok_glib example_manifest_inv permutes_insertion_sort
        sorts_by_id_insertion_sort length_example_manifest])

lemma sample_over_the_wire:
  assumes "gtypes_ok gt" "\<forall>fv \<in> set fvs. field_ok gt m fv"
    and "s = foldl (append_value ord) (pka_sample_set_source_id (pka_sample_new now) src) fvs"
    and "resolver (pka_sample_get_source_id s) = Some (client_manifest m)"
    and "length (sample_bytes (pm_resolution m) (pm_ts m) s) < 2 ^ 32"
  shows "\<exists>data. pka_encoder_encode_samples None m [s] = Some data \<and>
    pk_sample_new_from_data ord' gt resolver data = (Value (client_sample m s fvs), length data)"
proof -
  have data: "eb_ar (ps_buf s) = concat (map field_bytes fvs)"
    unfolding assms(3) foldl_append_value by (simp add: pka_sample_set_source_id_def pka_sample_new_def)
  then have "length (eb_ar (ps_buf s)) < 2 ^ 32"
    using assms(5) by (simp add: sample_bytes_def blob_field_def string_bytes_def)
  then have "pka_encoder_encode_samples None m [s] = Some (sample_bytes (pm_resolution m) (pm_ts m) s)"
    using encode_samples_bytes [of "[s]" m] by (simp add: pka_encoder_encode_samples_def)
  then show ?thesis
    using decode_sample_bytes [OF assms(1,2) data _ assms(5), of resolver ord'] assms(4)
    by (simp add: pka_sample_get_source_id_def)
qed

text \<open>
  C1: a sample to which the agent has added fields that agree with its manifest is decoded by the
  client into the same fields in the same order, the same source, and the time that \<open>client_time_bounds\<close> bounds; the decoder
  uses the whole message.
\<close>

theorem sample_roundtrip:
  assumes "gtypes_ok gt" "\<forall>fv \<in> set fvs. field_ok gt m fv"
    and "s = foldl (append_value ord) (pka_sample_set_source_id (pka_sample_new now) src) fvs"
    and "resolver (pka_sample_get_source_id s) = Some (client_manifest m)"
    and "length (sample_bytes (pm_resolution m) (pm_ts m) s) < 2 ^ 32"
  shows "\<exists>data. pka_encoder_encode_samples None m [s] = Some data \<and>
    pk_sample_new_from_data ord' gt resolver data = (Value (client_sample m s fvs), length data)"
  using assms by (rule sample_over_the_wire [where resolver = resolver])

definition example_sample :: pka_sample where
  "example_sample =
     foldl (append_value G_LITTLE_ENDIAN)
       (pka_sample_set_source_id (pka_sample_new \<lparr>tv_sec = 101, tv_nsec = 7\<rparr>) 3)
       [(1, V_INT (- 5)), (2, V_STRING [104, 105])]"

lemma example_fields: "\<forall>fv \<in> set [(1, V_INT (- 5)), (2, V_STRING [104, 105])]. field_ok glib_gtypes example_manifest fv"
  by (simp add: field_ok_def example_manifest_def cstring_ok_def)

lemma length_value_bytes: "length (value_bytes v) \<le> (case v of V_STRING s \<Rightarrow> length s + 5 | _ \<Rightarrow> 10)"
  by (cases v) (auto intro: order.trans [OF length_varint_uint] length_varint_uint64 length_string_bytes)

lemma length_field_bytes:
  "length (field_bytes fv) \<le> 15 + (case snd fv of V_STRING s \<Rightarrow> length s | _ \<Rightarrow> 0)"
  using length_varint_uint [of "tag_word (fst fv) (value_tag (snd fv))"] length_value_bytes [of "snd fv"]
  by (simp add: field_bytes_def split: g_value.splits)

lemma length_example_sample:
  "length (sample_bytes (pm_resolution example_manifest) (pm_ts example_manifest) example_sample) < 2 ^ 32"
proof -
  have "length (eb_ar (ps_buf example_sample)) \<le> 40"
    using length_field_bytes [of "(1, V_INT (- 5))"] length_field_bytes [of "(2, V_STRING [104, 105])"]
    unfolding example_sample_def foldl_append_value
    by (simp add: pka_sample_set_source_id_def pka_sample_new_def)
  then show ?thesis
    unfolding sample_bytes_def
    using length_uint_field [of 1 "ps_source_id example_sample"]
      length_uint64_field [of 2 "pka_resolution_apply (pm_resolution example_manifest)
         (timespec_subtract (ps_ts example_sample) (pm_ts example_manifest))"]
      length_blob_field [of 3 "eb_ar (ps_buf example_sample)"]
    by simp
qed

theorem sample_roundtrip_witness:
  "\<exists>data. pka_encoder_encode_samples None example_manifest [example_sample] = Some data \<and>
    pk_sample_new_from_data G_LITTLE_ENDIAN glib_gtypes (\<lambda>_. Some (client_manifest example_manifest)) data
      = (Value (client_sample example_manifest example_sample [(1, V_INT (- 5)), (2, V_STRING [104, 105])]),
         length data)"
  by (rule sample_roundtrip [OF gtypes_ok_glib example_fields example_sample_def refl length_example_sample])

text \<open>
  C3: the client dates a sample that is not older than its manifest no later than the agent did, and
  earlier by less than one unit of the manifest's resolution and one microsecond.
\<close>

theorem sample_time_fidelity:
  assumes "ts_normal (ps_ts s)" "ts_normal (pm_ts m)" "0 \<le> ts_nanos (pm_ts m)"
    and "ts_nanos (pm_ts m) \<le> ts_nanos (ps_ts s)" "ts_nanos (ps_ts s) < 2 ^ 64 * 1000"
  shows "ts_nanos (ps_ts s) - ts_nanos (pks_ts (client_sample m s fvs))
    \<in> {0 ..< resolution_unit (pka_manifest_get_resolution m) * 1000 + 1000}"
  using client_time_bounds [OF assms] by (simp add: client_sample_def pka_manifest_get_resolution_def)

theorem sample_time_fidelity_witness:
  "ts_nanos (ps_ts example_sample) - ts_nanos (pks_ts (client_sample example_manifest example_sample []))
     \<in> {0 ..< 1001000}"
proof -
  have "ps_ts example_sample = \<lparr>tv_sec = 101, tv_nsec = 7\<rparr>"
    unfolding example_sample_def foldl_append_value
    by (simp add: pka_sample_set_source_id_def pka_sample_new_def)
  then show ?thesis
    using sample_time_fidelity [of example_sample example_manifest "[]"]
    by (simp add: ts_normal_def ts_nanos_def example_manifest_def pka_manifest_get_resolution_def)
qed

text \<open>
  A sample older than its manifest is not dated early or refused: its relative time wraps and the
  client dates it more than 290,000 years after the epoch.
\<close>

theorem old_sample_in_far_future:
  assumes "ts_normal (ps_ts s)" "ts_normal (pm_ts m)" "0 \<le> ts_nanos (pm_ts m)"
    and "ts_nanos (ps_ts s) < ts_nanos (pm_ts m)"
    and "ts_nanos (pm_ts m) - ts_nanos (ps_ts s) \<le> 2 ^ 62 * 1000"
  shows "2 ^ 63 * 1000 \<le> ts_nanos (pks_ts (client_sample m s fvs))"
  using client_time_old_sample [OF assms] by (simp add: client_sample_def)

theorem old_sample_in_far_future_witness:
  "2 ^ 63 * 1000 \<le> ts_nanos (pks_ts (client_sample example_manifest
     (pka_sample_new \<lparr>tv_sec = 99, tv_nsec = 0\<rparr>) []))"
  by (rule old_sample_in_far_future)
    (simp_all add: ts_normal_def ts_nanos_def example_manifest_def pka_sample_new_def)

end
