(* ===== verification/Agent_World.thy ===== *)
theory Agent_World
  imports Pka_Encoder "HOL-Library.Multiset"
begin

text \<open>
  The state of the agent process: the objects behind pka-channel.c, pka-source.c, pka-subscription.c
  and pka-plugin.c in a store, with the arrays and counters that connect them, and what the agent has
  done to the outside (messages handed to subscribers, signals, processes killed).

  A reference is a number; an object exists from its creation on. The \<open>GObject\<close> types are kept alive by
  counts that the code is careful with and the model leaves out; a subscription is a counted structure
  of this code (\<open>pka_subscription_ref\<close>, \<open>pka_subscription_unref\<close>), so its count is in the model and
  \<open>su_freed\<close> says that it has been given back to the allocator. \<open>w_fault\<close> becomes true when the code
  uses a freed subscription or a variable that was never set.

  Every operation takes its locks for the whole of what one definition here does, unless the text of
  the definition says otherwise; the definitions are the atomic steps.
\<close>

section \<open>Contexts and errors\<close>

record pka_context =
  cx_ref :: gint
  cx_id :: guint

datatype pka_ioctl =
    IOCTL_INVALID | IOCTL_ADD_CHANNEL | IOCTL_ADD_ENCODER | IOCTL_ADD_SOURCE | IOCTL_ADD_SUBSCRIPTION
  | IOCTL_REMOVE_CHANNEL | IOCTL_REMOVE_ENCODER | IOCTL_REMOVE_SOURCE | IOCTL_REMOVE_SUBSCRIPTION
  | IOCTL_MODIFY_CHANNEL | IOCTL_MODIFY_SUBSCRIPTION

definition pka_context_default :: pka_context where
  "pka_context_default = \<lparr>cx_ref = 1, cx_id = 0\<rparr>"

definition pka_context_new :: "guint \<Rightarrow> pka_context \<times> guint" where
  "pka_context_new seq = (\<lparr>cx_ref = 1, cx_id = seq\<rparr>, seq + 1)"

definition pka_context_ref :: "pka_context \<Rightarrow> pka_context option" where
  "pka_context_ref c = (if 0 <s cx_ref c then Some (c\<lparr>cx_ref := cx_ref c + 1\<rparr>) else None)"

definition pka_context_unref :: "pka_context \<Rightarrow> pka_context unref_result" where
  "pka_context_unref c =
     (if 0 <s cx_ref c
      then (if cx_ref c - 1 = 0 then Freed else Kept (c\<lparr>cx_ref := cx_ref c - 1\<rparr>))
      else Kept c)"

interpretation pka_context_boxed:
  refcounted cx_ref "\<lambda>n c. c\<lparr>cx_ref := n\<rparr>" pka_context_ref pka_context_unref
  by unfold_locales
    (simp_all add: pka_context_ref_def pka_context_unref_def count_up_def count_down_def
      count_dead_def count_up_positive)

definition pka_context_get_id :: "pka_context \<Rightarrow> guint" where
  "pka_context_get_id c = cx_id c"

definition pka_context_is_authorized :: "pka_context \<Rightarrow> pka_ioctl \<Rightarrow> bool" where
  "pka_context_is_authorized c ioctl = True"

definition pka_context_is_authenticated :: "pka_context \<Rightarrow> bool" where
  "pka_context_is_authenticated c = True"

text \<open>
  The error domains and codes that the agent sets; \<open>SPAWN_ERROR\<close> is one of GLib's, \<open>PLUGIN_CODE_ERROR\<close>
  one that a plugin's function set. An operation that returns a \<open>gboolean\<close> and takes a
  \<open>GError\<close> gives Ok, or Err with the error it set, or Quiet when it returns FALSE without setting one.
\<close>

datatype pka_error =
    CHANNEL_ERROR_STATE | CONTEXT_ERROR_NOT_AUTHORIZED
  | PLUGIN_ERROR_INVALID_TYPE | PLUGIN_ERROR_INVALID_MODULE | SPAWN_ERROR | PLUGIN_CODE_ERROR

datatype 'a ans = Ok 'a | Err pka_error | Quiet

section \<open>The objects\<close>

type_synonym channel_ref = nat
type_synonym source_ref = nat
type_synonym sub_ref = nat
type_synonym plugin_ref = nat
type_synonym manifest_ref = nat
type_synonym g_pid = int

record pka_spawn_info =
  si_pid :: g_pid
  si_target :: "cstring option"
  si_args :: "cstring list option"
  si_env :: "cstring list option"
  si_working_dir :: "cstring option"
  si_standard_input :: gint
  si_standard_output :: gint
  si_standard_error :: gint

definition pka_spawn_info_copy :: "pka_spawn_info \<Rightarrow> pka_spawn_info" where
  "pka_spawn_info_copy i =
     \<lparr>si_pid = si_pid i, si_target = si_target i, si_args = si_args i, si_env = si_env i,
      si_working_dir = si_working_dir i, si_standard_input = si_standard_input i,
      si_standard_output = si_standard_output i, si_standard_error = si_standard_error i\<rparr>"

datatype pka_channel_state =
    CHANNEL_READY | CHANNEL_RUNNING | CHANNEL_MUTED | CHANNEL_STOPPED | CHANNEL_FAILED

text \<open>\<open>ch_handlers\<close> are the subscriptions connected to the channel's two signals.\<close>

record pka_channel =
  ch_id :: gint
  ch_state :: pka_channel_state
  ch_sources :: "source_ref list"
  ch_pid :: g_pid
  ch_pid_set :: bool
  ch_working_dir :: "cstring option"
  ch_target :: "cstring option"
  ch_env :: "cstring list option"
  ch_args :: "cstring list option"
  ch_kill_pid :: bool
  ch_exit_status :: gint
  ch_created_at :: g_time_val
  ch_handlers :: "sub_ref list"

text \<open>
  The method \<open>modify_spawn_info\<close> of a source's class belongs to the plugin: it is a field. The cached
  manifest is its address and its content, because the code compares addresses.
\<close>

record pka_source =
  so_id :: gint
  so_running :: bool
  so_plugin :: "plugin_ref option"
  so_manifest :: "(manifest_ref \<times> pka_manifest) option"
  so_subscriptions :: "sub_ref list"
  so_channel :: "channel_ref option"
  so_modify_spawn_info :: "(pka_spawn_info \<Rightarrow> bool \<times> pka_spawn_info) option"

datatype pka_subscription_state = SUBSCRIPTION_UNMUTED | SUBSCRIPTION_MUTED

text \<open>
  The \<open>GTree\<close>s map an identifier to the object; a tree is the list of its nodes by ascending key. A
  closure is the number of the handler behind it. The tree \<open>manifests\<close> is created and never used.
\<close>

record pka_subscription =
  su_ref_count :: gint
  su_id :: gint
  su_state :: pka_subscription_state
  su_created_at :: g_time_val
  su_buffer_timeout :: gint
  su_buffer_size :: gint
  su_channels :: "(gint \<times> channel_ref) list"
  su_sources :: "(gint \<times> source_ref) list"
  su_encoder :: "nat option"
  su_manifest_closure :: "nat option"
  su_sample_closure :: "nat option"
  su_freed :: bool

text \<open>What a source is told by the main loop, and what a subscriber is handed.\<close>

datatype source_signal = Started pka_spawn_info | Stopped | Muted | Unmuted | Reset

datatype delivery = Manifest_Data "u8 list" | Sample_Data "u8 list"

record world =
  w_channels :: "channel_ref \<Rightarrow> pka_channel"
  w_sources :: "source_ref \<Rightarrow> pka_source"
  w_subs :: "sub_ref \<Rightarrow> pka_subscription"
  w_queue :: "(source_ref \<times> source_signal) list"
  w_delivered :: "(nat \<times> sub_ref \<times> delivery) list"
  w_killed :: "g_pid list"
  w_spawned :: "g_pid list"
  w_watches :: "(g_pid \<times> channel_ref) list"
  w_fault :: bool

definition upd_channel :: "channel_ref \<Rightarrow> (pka_channel \<Rightarrow> pka_channel) \<Rightarrow> world \<Rightarrow> world" where
  "upd_channel c f w = w\<lparr>w_channels := (w_channels w)(c := f (w_channels w c))\<rparr>"

definition upd_source :: "source_ref \<Rightarrow> (pka_source \<Rightarrow> pka_source) \<Rightarrow> world \<Rightarrow> world" where
  "upd_source s f w = w\<lparr>w_sources := (w_sources w)(s := f (w_sources w s))\<rparr>"

definition upd_sub :: "sub_ref \<Rightarrow> (pka_subscription \<Rightarrow> pka_subscription) \<Rightarrow> world \<Rightarrow> world" where
  "upd_sub r f w = w\<lparr>w_subs := (w_subs w)(r := f (w_subs w r))\<rparr>"

text \<open>A dereference of a subscription pointer.\<close>

definition use_sub :: "sub_ref \<Rightarrow> world \<Rightarrow> world" where
  "use_sub r w = (if su_freed (w_subs w r) then w\<lparr>w_fault := True\<rparr> else w)"

named_theorems world_simps "reading a component of an updated world"

lemma upd_channel_simps [world_simps]:
  "w_channels (upd_channel c f w) = (w_channels w)(c := f (w_channels w c))"
  "w_sources (upd_channel c f w) = w_sources w"
  "w_subs (upd_channel c f w) = w_subs w"
  "w_queue (upd_channel c f w) = w_queue w"
  "w_delivered (upd_channel c f w) = w_delivered w"
  "w_killed (upd_channel c f w) = w_killed w"
  "w_spawned (upd_channel c f w) = w_spawned w"
  "w_watches (upd_channel c f w) = w_watches w"
  "w_fault (upd_channel c f w) = w_fault w"
  by (simp_all add: upd_channel_def)

lemma upd_source_simps [world_simps]:
  "w_channels (upd_source s g w) = w_channels w"
  "w_sources (upd_source s g w) = (w_sources w)(s := g (w_sources w s))"
  "w_subs (upd_source s g w) = w_subs w"
  "w_queue (upd_source s g w) = w_queue w"
  "w_delivered (upd_source s g w) = w_delivered w"
  "w_killed (upd_source s g w) = w_killed w"
  "w_spawned (upd_source s g w) = w_spawned w"
  "w_watches (upd_source s g w) = w_watches w"
  "w_fault (upd_source s g w) = w_fault w"
  by (simp_all add: upd_source_def)

lemma upd_sub_simps [world_simps]:
  "w_channels (upd_sub r h w) = w_channels w"
  "w_sources (upd_sub r h w) = w_sources w"
  "w_subs (upd_sub r h w) = (w_subs w)(r := h (w_subs w r))"
  "w_queue (upd_sub r h w) = w_queue w"
  "w_delivered (upd_sub r h w) = w_delivered w"
  "w_killed (upd_sub r h w) = w_killed w"
  "w_spawned (upd_sub r h w) = w_spawned w"
  "w_watches (upd_sub r h w) = w_watches w"
  "w_fault (upd_sub r h w) = w_fault w"
  by (simp_all add: upd_sub_def)

lemma use_sub_simps [world_simps]:
  "w_channels (use_sub r w) = w_channels w"
  "w_sources (use_sub r w) = w_sources w"
  "w_subs (use_sub r w) = w_subs w"
  "w_queue (use_sub r w) = w_queue w"
  "w_delivered (use_sub r w) = w_delivered w"
  "w_killed (use_sub r w) = w_killed w"
  "w_spawned (use_sub r w) = w_spawned w"
  "w_watches (use_sub r w) = w_watches w"
  "w_fault (use_sub r w) \<longleftrightarrow> w_fault w \<or> su_freed (w_subs w r)"
  by (simp_all add: use_sub_def)

section \<open>GLib's arrays and trees\<close>

text \<open>\<open>g_ptr_array_remove_fast\<close>: the last element takes the place of the one removed.\<close>

fun ptr_array_remove_fast :: "'a \<Rightarrow> 'a list \<Rightarrow> 'a list" where
  "ptr_array_remove_fast x [] = []"
| "ptr_array_remove_fast x (y # ys) =
     (if x = y then (if ys = [] then [] else last ys # butlast ys)
      else y # ptr_array_remove_fast x ys)"

lemma mset_remove_fast: "mset (ptr_array_remove_fast x xs) = mset xs - {#x#}"
proof (induction xs)
  case (Cons y ys)
  have "mset (last ys # butlast ys) = mset ys" if "ys \<noteq> []"
    using append_butlast_last_id [OF that] by (metis mset.simps(2) mset_append union_mset_add_mset_right mset.simps(1) add.right_neutral)
  with Cons show ?case by auto
qed simp

lemma count_remove_fast:
  "count_list (ptr_array_remove_fast x xs) y = count_list xs y - (if x = y then 1 else 0)"
  using mset_remove_fast [of x xs] by (simp add: count_mset [symmetric])

text \<open>\<open>g_tree_insert\<close> with \<open>g_int_compare\<close>: a key that is there has its value replaced.\<close>

fun tree_insert :: "gint \<Rightarrow> 'v \<Rightarrow> (gint \<times> 'v) list \<Rightarrow> (gint \<times> 'v) list" where
  "tree_insert k v [] = [(k, v)]"
| "tree_insert k v ((k', v') # t) =
     (if k - k' = 0 then (k, v) # t
      else if sint (k - k') < 0 then (k, v) # (k', v') # t
      else (k', v') # tree_insert k v t)"

definition tree_remove :: "gint \<Rightarrow> (gint \<times> 'v) list \<Rightarrow> (gint \<times> 'v) list" where
  "tree_remove k t = filter (\<lambda>p. fst p \<noteq> k) t"

lemma set_tree_insert: "(k, v) \<in> set (tree_insert k v t)"
  by (induction k v t rule: tree_insert.induct) auto

end
