(* ===== verification/Pka_Subscription.thy ===== *)
theory Pka_Subscription
  imports Agent_World
begin

text \<open>
  perfkit-agent/pka-subscription.c, the operations that concern the subscription alone: its life, its
  state, its handlers and buffer, and the delivery of messages to its handlers. What connects it to
  sources and channels is in \<open>Pka_Subscribe\<close>.
\<close>

section \<open>Life\<close>

text \<open>The new object goes to a reference that the allocator chooses; \<open>sid\<close> is the value of the counter.\<close>

definition pka_subscription_new :: "gint \<Rightarrow> g_time_val \<Rightarrow> pka_subscription" where
  "pka_subscription_new sid now =
     \<lparr>su_ref_count = 1, su_id = sid, su_state = SUBSCRIPTION_MUTED, su_created_at = now,
      su_buffer_timeout = 0, su_buffer_size = 0, su_channels = [], su_sources = [],
      su_encoder = None, su_manifest_closure = None, su_sample_closure = None, su_freed = False\<rparr>"

definition pka_subscription_ref :: "sub_ref \<Rightarrow> world \<Rightarrow> world" where
  "pka_subscription_ref r w =
     (let w = use_sub r w
      in if 0 <s su_ref_count (w_subs w r)
         then upd_sub r (\<lambda>s. s\<lparr>su_ref_count := su_ref_count s + 1\<rparr>) w
         else w)"

definition pka_subscription_destroy :: "sub_ref \<Rightarrow> world \<Rightarrow> world" where
  "pka_subscription_destroy r w =
     upd_sub r (\<lambda>s. s\<lparr>su_channels := [], su_sources := [], su_manifest_closure := None,
       su_sample_closure := None, su_encoder := None, su_freed := True\<rparr>) w"

definition pka_subscription_unref :: "sub_ref \<Rightarrow> world \<Rightarrow> world" where
  "pka_subscription_unref r w =
     (let w = use_sub r w
      in if 0 <s su_ref_count (w_subs w r)
         then let w = upd_sub r (\<lambda>s. s\<lparr>su_ref_count := su_ref_count s - 1\<rparr>) w
              in if su_ref_count (w_subs w r) = 0 then pka_subscription_destroy r w else w
         else w)"

section \<open>State, handlers, buffer\<close>

text \<open>FALSE is returned on success too: \<open>ret\<close> is never set.\<close>

definition pka_subscription_set_encoder ::
  "sub_ref \<Rightarrow> pka_context \<Rightarrow> nat option \<Rightarrow> world \<Rightarrow> unit ans \<times> world" where
  "pka_subscription_set_encoder r ctx encoder w =
     (let w = use_sub r w
      in (Quiet, upd_sub r (\<lambda>s. s\<lparr>su_encoder := encoder\<rparr>) w))"

text \<open>The macro \<open>IS_AUTHORIZED\<close> of this file is \<open>(TRUE)\<close>, so its branches are never taken.\<close>

definition pka_subscription_set_state ::
  "sub_ref \<Rightarrow> pka_context \<Rightarrow> pka_subscription_state \<Rightarrow> world \<Rightarrow> unit ans \<times> world" where
  "pka_subscription_set_state r ctx state w =
     (let w = use_sub r w
      in if su_state (w_subs w r) = state then (Ok (), w)
         else (Ok (), upd_sub r (\<lambda>s. s\<lparr>su_state := state\<rparr>) w))"

definition pka_subscription_mute ::
  "sub_ref \<Rightarrow> pka_context \<Rightarrow> bool \<Rightarrow> world \<Rightarrow> unit ans \<times> world" where
  "pka_subscription_mute r ctx drain w = pka_subscription_set_state r ctx SUBSCRIPTION_MUTED w"

definition pka_subscription_unmute :: "sub_ref \<Rightarrow> pka_context \<Rightarrow> world \<Rightarrow> unit ans \<times> world" where
  "pka_subscription_unmute r ctx w = pka_subscription_set_state r ctx SUBSCRIPTION_UNMUTED w"

definition pka_subscription_set_handlers ::
  "sub_ref \<Rightarrow> pka_context \<Rightarrow> nat \<Rightarrow> nat \<Rightarrow> world \<Rightarrow> world" where
  "pka_subscription_set_handlers r ctx manifest_func sample_func w =
     (let w = use_sub r w
      in upd_sub r (\<lambda>s. s\<lparr>su_manifest_closure := Some manifest_func,
                         su_sample_closure := Some sample_func\<rparr>) w)"

definition pka_subscription_get_created_at :: "sub_ref \<Rightarrow> world \<Rightarrow> g_time_val" where
  "pka_subscription_get_created_at r w = su_created_at (w_subs w r)"

text \<open>The list is built by prepending, so it has the sources by descending identifier.\<close>

definition pka_subscription_get_sources :: "sub_ref \<Rightarrow> world \<Rightarrow> source_ref list" where
  "pka_subscription_get_sources r w = foldl (\<lambda>list p. snd p # list) [] (su_sources (w_subs w r))"

definition pka_subscription_get_buffer :: "sub_ref \<Rightarrow> world \<Rightarrow> gint \<times> gint" where
  "pka_subscription_get_buffer r w =
     (su_buffer_timeout (w_subs w r), su_buffer_size (w_subs w r))"

definition pka_subscription_set_buffer ::
  "sub_ref \<Rightarrow> pka_context \<Rightarrow> gint \<Rightarrow> gint \<Rightarrow> world \<Rightarrow> unit ans \<times> world" where
  "pka_subscription_set_buffer r ctx buffer_timeout buffer_size w =
     (let w = use_sub r w
      in (Ok (), upd_sub r (\<lambda>s. s\<lparr>su_buffer_timeout := buffer_timeout,
                                 su_buffer_size := buffer_size\<rparr>) w))"

definition pka_subscription_get_id :: "sub_ref \<Rightarrow> world \<Rightarrow> gint" where
  "pka_subscription_get_id r w = su_id (w_subs w r)"

section \<open>Delivery\<close>

text \<open>
  Both deliveries encode with the default encoder (the argument is NULL, not the subscription's own)
  and hand the bytes to the closure when there is one. The state of the subscription is not looked at.
\<close>

definition pka_subscription_deliver_manifest ::
  "gtypes \<Rightarrow> sub_ref \<Rightarrow> source_ref \<Rightarrow> pka_manifest \<Rightarrow> world \<Rightarrow> world" where
  "pka_subscription_deliver_manifest gt r source manifest w =
     (let w = use_sub r w
      in case su_manifest_closure (w_subs w r) of
           None \<Rightarrow> w
         | Some h \<Rightarrow>
             (case pka_encoder_encode_manifest gt None manifest of
                None \<Rightarrow> w
              | Some buffer \<Rightarrow> w\<lparr>w_delivered := w_delivered w @ [(h, r, Manifest_Data buffer)]\<rparr>))"

text \<open>
  Without a manifest \<open>pka_manifest_get_timespec\<close> returns before it stores anything, and the encoder
  goes on with a \<open>struct timespec\<close> that was never set.
\<close>

definition pka_subscription_deliver_sample ::
  "sub_ref \<Rightarrow> source_ref \<Rightarrow> pka_manifest option \<Rightarrow> pka_sample \<Rightarrow> world \<Rightarrow> world" where
  "pka_subscription_deliver_sample r source manifest sample w =
     (let w = use_sub r w
      in case su_sample_closure (w_subs w r) of
           None \<Rightarrow> w
         | Some h \<Rightarrow>
             (case manifest of
                None \<Rightarrow> w\<lparr>w_fault := True\<rparr>
              | Some m \<Rightarrow>
                  (case pka_encoder_encode_samples None m [sample] of
                     None \<Rightarrow> w
                   | Some buffer \<Rightarrow>
                       w\<lparr>w_delivered := w_delivered w @ [(h, r, Sample_Data buffer)]\<rparr>)))"

lemmas subscription_ops =
  pka_subscription_ref_def pka_subscription_destroy_def pka_subscription_unref_def
  pka_subscription_set_encoder_def pka_subscription_set_state_def pka_subscription_mute_def
  pka_subscription_unmute_def pka_subscription_set_handlers_def pka_subscription_set_buffer_def

text \<open>A delivery changes nothing but what the subscribers have been handed, and the fault.\<close>

lemma deliver_manifest_frame [world_simps]:
  "w_channels (pka_subscription_deliver_manifest gt r s m w) = w_channels w"
  "w_sources (pka_subscription_deliver_manifest gt r s m w) = w_sources w"
  "w_subs (pka_subscription_deliver_manifest gt r s m w) = w_subs w"
  "w_queue (pka_subscription_deliver_manifest gt r s m w) = w_queue w"
  "w_killed (pka_subscription_deliver_manifest gt r s m w) = w_killed w"
  "w_spawned (pka_subscription_deliver_manifest gt r s m w) = w_spawned w"
  "w_watches (pka_subscription_deliver_manifest gt r s m w) = w_watches w"
  "w_fault (pka_subscription_deliver_manifest gt r s m w) \<longleftrightarrow> w_fault w \<or> su_freed (w_subs w r)"
  by (simp_all add: pka_subscription_deliver_manifest_def Let_def world_simps split: option.split)

lemma deliver_sample_frame [world_simps]:
  "w_channels (pka_subscription_deliver_sample r s mo p w) = w_channels w"
  "w_sources (pka_subscription_deliver_sample r s mo p w) = w_sources w"
  "w_subs (pka_subscription_deliver_sample r s mo p w) = w_subs w"
  "w_queue (pka_subscription_deliver_sample r s mo p w) = w_queue w"
  "w_killed (pka_subscription_deliver_sample r s mo p w) = w_killed w"
  "w_spawned (pka_subscription_deliver_sample r s mo p w) = w_spawned w"
  "w_watches (pka_subscription_deliver_sample r s mo p w) = w_watches w"
  "w_fault (pka_subscription_deliver_sample r s mo p w) \<longleftrightarrow>
     w_fault w \<or> su_freed (w_subs w r) \<or> su_sample_closure (w_subs w r) \<noteq> None \<and> mo = None"
  by (auto simp: pka_subscription_deliver_sample_def Let_def world_simps split: option.splits)

text \<open>What is handed over: the encoded manifest or sample, once.\<close>

definition manifest_message :: "gtypes \<Rightarrow> pka_manifest \<Rightarrow> u8 list" where
  "manifest_message gt m = the (pka_encoder_encode_manifest gt None m)"

definition sample_message :: "pka_manifest \<Rightarrow> pka_sample \<Rightarrow> u8 list" where
  "sample_message m p = the (pka_encoder_encode_samples None m [p])"

lemma default_encoder_total:
  "pka_encoder_encode_manifest gt None m = Some (manifest_message gt m)"
  "pka_encoder_encode_samples None m [p] = Some (sample_message m p)"
  by (simp_all add: manifest_message_def sample_message_def pka_encoder_encode_manifest_def
      pka_encoder_encode_samples_def pka_encoder_real_encode_manifest_def
      pka_encoder_real_encode_samples_def Let_def)

lemma deliver_manifest_delivered [world_simps]:
  "w_delivered (pka_subscription_deliver_manifest gt r s m w) = w_delivered w @
     (case su_manifest_closure (w_subs w r) of
        None \<Rightarrow> [] | Some h \<Rightarrow> [(h, r, Manifest_Data (manifest_message gt m))])"
  by (simp add: pka_subscription_deliver_manifest_def Let_def world_simps default_encoder_total
      split: option.split)

lemma deliver_sample_delivered [world_simps]:
  "w_delivered (pka_subscription_deliver_sample r s (Some m) p w) = w_delivered w @
     (case su_sample_closure (w_subs w r) of
        None \<Rightarrow> [] | Some h \<Rightarrow> [(h, r, Sample_Data (sample_message m p))])"
  by (simp add: pka_subscription_deliver_sample_def Let_def world_simps default_encoder_total
      split: option.split)

end
