(* ===== verification/Pka_Source.thy ===== *)
theory Pka_Source
  imports Pka_Subscription
begin

text \<open>
  perfkit-agent/pka-source.c: a data source, its subscribers, and the signals it is sent. A signal is
  queued with \<open>g_timeout_add (0, ...)\<close> and emitted by the main loop, in the order of queueing.
\<close>

section \<open>Queueing and emitting signals\<close>

definition enqueue :: "source_ref \<Rightarrow> source_signal \<Rightarrow> world \<Rightarrow> world" where
  "enqueue s sig w = w\<lparr>w_queue := w_queue w @ [(s, sig)]\<rparr>"

lemma enqueue_simps [world_simps]:
  "w_channels (enqueue s sig w) = w_channels w"
  "w_sources (enqueue s sig w) = w_sources w"
  "w_subs (enqueue s sig w) = w_subs w"
  "w_queue (enqueue s sig w) = w_queue w @ [(s, sig)]"
  "w_delivered (enqueue s sig w) = w_delivered w"
  "w_killed (enqueue s sig w) = w_killed w"
  "w_spawned (enqueue s sig w) = w_spawned w"
  "w_watches (enqueue s sig w) = w_watches w"
  "w_fault (enqueue s sig w) = w_fault w"
  by (simp_all add: enqueue_def)

definition pka_source_queue_started :: "source_ref \<Rightarrow> pka_spawn_info \<Rightarrow> world \<Rightarrow> world" where
  "pka_source_queue_started s info w = enqueue s (Started (pka_spawn_info_copy info)) w"

definition pka_source_queue_stopped :: "source_ref \<Rightarrow> world \<Rightarrow> world" where
  "pka_source_queue_stopped s w = enqueue s Stopped w"

definition pka_source_queue_muted :: "source_ref \<Rightarrow> world \<Rightarrow> world" where
  "pka_source_queue_muted s w = enqueue s Muted w"

definition pka_source_queue_unmuted :: "source_ref \<Rightarrow> world \<Rightarrow> world" where
  "pka_source_queue_unmuted s w = enqueue s Unmuted w"

definition pka_source_queue_reset :: "source_ref \<Rightarrow> world \<Rightarrow> world" where
  "pka_source_queue_reset s w = enqueue s Reset w"

text \<open>One turn of the main loop: the oldest signal is emitted and removed (each callback returns FALSE).\<close>

definition pka_source_emit :: "world \<Rightarrow> (source_ref \<times> source_signal) option \<times> world" where
  "pka_source_emit w =
     (case w_queue w of
        [] \<Rightarrow> (None, w)
      | e # q \<Rightarrow> (Some e, w\<lparr>w_queue := q\<rparr>))"

lemmas source_queues =
  pka_source_queue_started_def pka_source_queue_stopped_def pka_source_queue_muted_def
  pka_source_queue_unmuted_def pka_source_queue_reset_def

section \<open>Accessors\<close>

definition pka_source_init :: "gint \<Rightarrow> (pka_spawn_info \<Rightarrow> bool \<times> pka_spawn_info) option \<Rightarrow> pka_source" where
  "pka_source_init sid modify =
     \<lparr>so_id = sid, so_running = False, so_plugin = None, so_manifest = None, so_subscriptions = [],
      so_channel = None, so_modify_spawn_info = modify\<rparr>"

definition pka_source_get_id :: "source_ref \<Rightarrow> world \<Rightarrow> gint" where
  "pka_source_get_id s w = so_id (w_sources w s)"

definition pka_source_get_plugin :: "source_ref \<Rightarrow> world \<Rightarrow> plugin_ref option" where
  "pka_source_get_plugin s w = so_plugin (w_sources w s)"

definition pka_source_set_plugin :: "source_ref \<Rightarrow> plugin_ref \<Rightarrow> world \<Rightarrow> world" where
  "pka_source_set_plugin s p w =
     (if so_plugin (w_sources w s) = None then upd_source s (\<lambda>x. x\<lparr>so_plugin := Some p\<rparr>) w else w)"

definition pka_source_set_channel :: "source_ref \<Rightarrow> channel_ref \<Rightarrow> world \<Rightarrow> bool \<times> world" where
  "pka_source_set_channel s c w =
     (if so_channel (w_sources w s) \<noteq> None then (False, w)
      else (True, upd_source s (\<lambda>x. x\<lparr>so_channel := Some c\<rparr>) w))"

definition pka_source_get_manifest :: "source_ref \<Rightarrow> world \<Rightarrow> (manifest_ref \<times> pka_manifest) option" where
  "pka_source_get_manifest s w = so_manifest (w_sources w s)"

definition pka_source_modify_spawn_info ::
  "source_ref \<Rightarrow> pka_spawn_info \<Rightarrow> world \<Rightarrow> bool \<times> pka_spawn_info" where
  "pka_source_modify_spawn_info s info w =
     (case so_modify_spawn_info (w_sources w s) of None \<Rightarrow> (True, info) | Some f \<Rightarrow> f info)"

section \<open>Delivering to the subscribers\<close>

definition pka_source_deliver_sample :: "source_ref \<Rightarrow> pka_sample \<Rightarrow> world \<Rightarrow> world" where
  "pka_source_deliver_sample s sample w =
     (let sample = pka_sample_set_source_id sample (so_id (w_sources w s));
          manifest = map_option snd (so_manifest (w_sources w s))
      in foldl (\<lambda>w r. pka_subscription_deliver_sample r s manifest sample w) w
           (so_subscriptions (w_sources w s)))"

definition pka_source_deliver_manifest ::
  "gtypes \<Rightarrow> source_ref \<Rightarrow> manifest_ref \<times> pka_manifest \<Rightarrow> world \<Rightarrow> world" where
  "pka_source_deliver_manifest gt s am w =
     (let manifest = pka_manifest_set_source_id (snd am) (so_id (w_sources w s));
          w = upd_source s (\<lambda>x. x\<lparr>so_manifest := Some (fst am, manifest)\<rparr>) w
      in foldl (\<lambda>w r. pka_subscription_deliver_manifest gt r s manifest w) w
           (so_subscriptions (w_sources w s)))"

section \<open>Subscribing\<close>

text \<open>
  \<open>pka_source_add_subscription\<close> has two locked sections, and another thread can run between them: the
  first, which gives the manifest that was current then, and the second, which delivers it if it still
  is.
\<close>

definition add_subscription_locked ::
  "source_ref \<Rightarrow> sub_ref \<Rightarrow> world \<Rightarrow> (manifest_ref \<times> pka_manifest) option \<times> world" where
  "add_subscription_locked s r w =
     (let manifest = so_manifest (w_sources w s);
          w = pka_subscription_ref r w;
          w = upd_source s (\<lambda>x. x\<lparr>so_subscriptions := so_subscriptions x @ [r]\<rparr>) w;
          w = (if so_running (w_sources w s) \<and> length (so_subscriptions (w_sources w s)) = 1
               then pka_source_queue_unmuted s w else w)
      in (manifest, w))"

definition add_subscription_deliver ::
  "gtypes \<Rightarrow> source_ref \<Rightarrow> sub_ref \<Rightarrow> (manifest_ref \<times> pka_manifest) option \<Rightarrow> world \<Rightarrow> world" where
  "add_subscription_deliver gt s r manifest w =
     (case manifest of
        None \<Rightarrow> w
      | Some (a, m) \<Rightarrow>
          if map_option fst (so_manifest (w_sources w s)) = Some a
          then pka_subscription_deliver_manifest gt r s m w else w)"

definition pka_source_add_subscription :: "gtypes \<Rightarrow> source_ref \<Rightarrow> sub_ref \<Rightarrow> world \<Rightarrow> world" where
  "pka_source_add_subscription gt s r w =
     (case add_subscription_locked s r w of
        (manifest, w) \<Rightarrow> add_subscription_deliver gt s r manifest w)"

definition pka_source_remove_subscription :: "source_ref \<Rightarrow> sub_ref \<Rightarrow> world \<Rightarrow> world" where
  "pka_source_remove_subscription s r w =
     (let found = r \<in> set (so_subscriptions (w_sources w s));
          w = upd_source s (\<lambda>x. x\<lparr>so_subscriptions := ptr_array_remove_fast r (so_subscriptions x)\<rparr>) w;
          w = (if found then pka_subscription_unref r w else w)
      in if so_running (w_sources w s) \<and> so_subscriptions (w_sources w s) = []
         then pka_source_queue_muted s w else w)"

section \<open>What the channel tells the source\<close>

definition pka_source_notify_started :: "pka_spawn_info \<Rightarrow> source_ref \<Rightarrow> world \<Rightarrow> world" where
  "pka_source_notify_started info s w =
     (let w = upd_source s (\<lambda>x. x\<lparr>so_running := True\<rparr>) w;
          w = pka_source_queue_started s info w
      in if so_subscriptions (w_sources w s) = [] then pka_source_queue_muted s w else w)"

definition pka_source_notify_stopped :: "source_ref \<Rightarrow> world \<Rightarrow> world" where
  "pka_source_notify_stopped s w =
     (if so_running (w_sources w s)
      then pka_source_queue_stopped s (upd_source s (\<lambda>x. x\<lparr>so_running := False\<rparr>) w)
      else w)"

definition pka_source_notify_muted :: "source_ref \<Rightarrow> world \<Rightarrow> world" where
  "pka_source_notify_muted s w = pka_source_queue_muted s w"

definition pka_source_notify_unmuted :: "source_ref \<Rightarrow> world \<Rightarrow> world" where
  "pka_source_notify_unmuted s w = pka_source_queue_unmuted s w"

definition pka_source_notify_reset :: "source_ref \<Rightarrow> world \<Rightarrow> world" where
  "pka_source_notify_reset s w = pka_source_queue_reset s w"

lemmas source_notifies =
  pka_source_notify_started_def pka_source_notify_stopped_def pka_source_notify_muted_def
  pka_source_notify_unmuted_def pka_source_notify_reset_def

section \<open>The contract of a notice\<close>

text \<open>The signals that one source has been sent, in order.\<close>

definition sigs_of :: "source_ref \<Rightarrow> (source_ref \<times> source_signal) list \<Rightarrow> source_signal list" where
  "sigs_of s h = map snd (filter (\<lambda>e. fst e = s) h)"

lemma sigs_of_append [simp]: "sigs_of s (h @ h') = sigs_of s h @ sigs_of s h'"
  by (simp add: sigs_of_def)

lemma sigs_of_simps [simp]:
  "sigs_of s [] = []"
  "sigs_of s (e # h) = (if fst e = s then snd e # sigs_of s h else sigs_of s h)"
  by (simp_all add: sigs_of_def)

text \<open>
  Everything a channel tells its sources has the same shape: the notice changes one source by \<open>g\<close> and
  queues the signals \<open>q\<close> for it. What a round of notices does to the sources of a channel follows from
  that alone.
\<close>

locale source_notice =
  fixes f :: "source_ref \<Rightarrow> world \<Rightarrow> world"
    and g :: "pka_source \<Rightarrow> pka_source"
    and q :: "pka_source \<Rightarrow> source_signal list"
  assumes notice_source: "w_sources (f s w) = (w_sources w)(s := g (w_sources w s))"
    and notice_queue: "w_queue (f s w) = w_queue w @ map (Pair s) (q (w_sources w s))"
    and notice_frame: "w_channels (f s w) = w_channels w" "w_subs (f s w) = w_subs w"
      "w_delivered (f s w) = w_delivered w" "w_killed (f s w) = w_killed w"
      "w_spawned (f s w) = w_spawned w" "w_watches (f s w) = w_watches w"
      "w_fault (f s w) = w_fault w"
begin

lemma round_frame:
  "w_channels (foldl (\<lambda>w s. f s w) w ss) = w_channels w"
  "w_subs (foldl (\<lambda>w s. f s w) w ss) = w_subs w"
  "w_delivered (foldl (\<lambda>w s. f s w) w ss) = w_delivered w"
  "w_killed (foldl (\<lambda>w s. f s w) w ss) = w_killed w"
  "w_spawned (foldl (\<lambda>w s. f s w) w ss) = w_spawned w"
  "w_watches (foldl (\<lambda>w s. f s w) w ss) = w_watches w"
  "w_fault (foldl (\<lambda>w s. f s w) w ss) = w_fault w"
  by (induction ss arbitrary: w) (simp_all add: notice_frame)

lemma round_other:
  "s \<notin> set ss \<Longrightarrow> w_sources (foldl (\<lambda>w s. f s w) w ss) s = w_sources w s"
  by (induction ss arbitrary: w) (simp_all add: notice_source)

lemma round_source:
  "distinct ss \<Longrightarrow> w_sources (foldl (\<lambda>w s. f s w) w ss) s =
     (if s \<in> set ss then g (w_sources w s) else w_sources w s)"
  by (induction ss arbitrary: w) (auto simp: notice_source round_other)

lemma sigs_of_map_Pair: "sigs_of s (map (Pair s') xs) = (if s = s' then xs else [])"
  by (induction xs) auto

lemma round_queue:
  "distinct ss \<Longrightarrow> w_queue (foldl (\<lambda>w s. f s w) w ss) =
     w_queue w @ concat (map (\<lambda>s. map (Pair s) (q (w_sources w s))) ss)"
proof (induction ss arbitrary: w)
  case (Cons a ss)
  then have same: "map (\<lambda>s. map (Pair s) (q (w_sources (f a w) s))) ss =
      map (\<lambda>s. map (Pair s) (q (w_sources w s))) ss"
    by (auto simp: notice_source)
  with Cons show ?case
    by (simp add: notice_queue same)
qed simp

lemma sigs_of_round:
  assumes "distinct ss"
  shows "sigs_of s (w_queue (foldl (\<lambda>w s. f s w) w ss)) =
     sigs_of s (w_queue w) @ (if s \<in> set ss then q (w_sources w s) else [])"
proof -
  have "sigs_of s (concat (map (\<lambda>s. map (Pair s) (q (w_sources w s))) ss)) =
      (if s \<in> set ss then q (w_sources w s) else [])"
    using assms by (induction ss) (auto simp: sigs_of_map_Pair)
  then show ?thesis
    by (simp add: round_queue [OF assms])
qed

end

interpretation started: source_notice "pka_source_notify_started info"
    "\<lambda>x. x\<lparr>so_running := True\<rparr>"
    "\<lambda>x. Started (pka_spawn_info_copy info) # (if so_subscriptions x = [] then [Muted] else [])" for info
  by unfold_locales (simp_all add: source_notifies source_queues Let_def world_simps)

interpretation stopped: source_notice pka_source_notify_stopped "\<lambda>x. x\<lparr>so_running := False\<rparr>"
    "\<lambda>x. if so_running x then [Stopped] else []"
  by unfold_locales (auto simp: source_notifies source_queues world_simps fun_eq_iff)

interpretation muted: source_notice pka_source_notify_muted "\<lambda>x. x" "\<lambda>x. [Muted]"
  by unfold_locales (simp_all add: source_notifies source_queues world_simps)

interpretation unmuted: source_notice pka_source_notify_unmuted "\<lambda>x. x" "\<lambda>x. [Unmuted]"
  by unfold_locales (simp_all add: source_notifies source_queues world_simps)

interpretation reset: source_notice pka_source_notify_reset "\<lambda>x. x" "\<lambda>x. [Reset]"
  by unfold_locales (simp_all add: source_notifies source_queues world_simps)

end
