(* ===== verification/Pka_Subscribe.thy ===== *)
theory Pka_Subscribe
  imports Pka_Source
begin

text \<open>
  The rest of perfkit-agent/pka-subscription.c: attaching a subscription to sources and to channels,
  and the handlers of a channel's \<open>source-added\<close> and \<open>source-removed\<close> signals.
\<close>

definition pka_subscription_add_source ::
  "gtypes \<Rightarrow> sub_ref \<Rightarrow> pka_context \<Rightarrow> source_ref \<Rightarrow> world \<Rightarrow> unit ans \<times> world" where
  "pka_subscription_add_source gt r ctx s w =
     (let w = use_sub r w;
          key = pka_source_get_id s w;
          w = upd_sub r (\<lambda>x. x\<lparr>su_sources := tree_insert key s (su_sources x)\<rparr>) w
      in (Ok (), pka_source_add_subscription gt s r w))"

definition pka_subscription_remove_source ::
  "sub_ref \<Rightarrow> pka_context \<Rightarrow> source_ref \<Rightarrow> world \<Rightarrow> unit ans \<times> world" where
  "pka_subscription_remove_source r ctx s w =
     (let key = pka_source_get_id s w;
          w = pka_source_remove_subscription s r w;
          w = use_sub r w
      in (Ok (), upd_sub r (\<lambda>x. x\<lparr>su_sources := tree_remove key (su_sources x)\<rparr>) w))"

definition pka_subscription_channel_source_added ::
  "gtypes \<Rightarrow> source_ref \<Rightarrow> sub_ref \<Rightarrow> world \<Rightarrow> world" where
  "pka_subscription_channel_source_added gt s r w =
     snd (pka_subscription_add_source gt r pka_context_default s w)"

definition pka_subscription_channel_source_removed ::
  "source_ref \<Rightarrow> sub_ref \<Rightarrow> world \<Rightarrow> world" where
  "pka_subscription_channel_source_removed s r w =
     snd (pka_subscription_remove_source r pka_context_default s w)"

text \<open>\<open>pka_channel_get_sources\<close> builds its list by prepending.\<close>

definition pka_channel_get_id :: "channel_ref \<Rightarrow> world \<Rightarrow> gint" where
  "pka_channel_get_id c w = ch_id (w_channels w c)"

definition pka_channel_get_sources :: "channel_ref \<Rightarrow> world \<Rightarrow> source_ref list" where
  "pka_channel_get_sources c w = foldl (\<lambda>list s. s # list) [] (ch_sources (w_channels w c))"

definition pka_subscription_add_channel ::
  "gtypes \<Rightarrow> sub_ref \<Rightarrow> pka_context \<Rightarrow> channel_ref \<Rightarrow> world \<Rightarrow> unit ans \<times> world" where
  "pka_subscription_add_channel gt r ctx c w =
     (let w = use_sub r w;
          key = pka_channel_get_id c w;
          w = upd_sub r (\<lambda>x. x\<lparr>su_channels := tree_insert key c (su_channels x)\<rparr>) w;
          w = upd_channel c (\<lambda>x. x\<lparr>ch_handlers := ch_handlers x @ [r]\<rparr>) w;
          sources = pka_channel_get_sources c w
      in (Ok (), foldl (\<lambda>w s. snd (pka_subscription_add_source gt r ctx s w)) w sources))"

definition pka_subscription_remove_channel ::
  "sub_ref \<Rightarrow> pka_context \<Rightarrow> channel_ref \<Rightarrow> world \<Rightarrow> unit ans \<times> world" where
  "pka_subscription_remove_channel r ctx c w =
     (let w = use_sub r w;
          w = upd_channel c (\<lambda>x. x\<lparr>ch_handlers := filter (\<lambda>h. h \<noteq> r) (ch_handlers x)\<rparr>) w;
          sources = pka_channel_get_sources c w;
          w = foldl (\<lambda>w s. snd (pka_subscription_remove_source r ctx s w)) w sources;
          key = pka_channel_get_id c w;
          w = use_sub r w
      in (Ok (), upd_sub r (\<lambda>x. x\<lparr>su_channels := tree_remove key (su_channels x)\<rparr>) w))"

lemma get_sources_rev: "pka_channel_get_sources c w = rev (ch_sources (w_channels w c))"
proof -
  have "foldl (\<lambda>list s. s # list) acc xs = rev xs @ acc" for acc :: "source_ref list" and xs
    by (induction xs arbitrary: acc) simp_all
  then show ?thesis by (simp add: pka_channel_get_sources_def)
qed

end
