(* ===== verification/Pka_Channel.thy ===== *)
theory Pka_Channel
  imports Pka_Subscribe
begin

text \<open>
  perfkit-agent/pka-channel.c: the life of a measured process. \<open>g_spawn_async\<close> is the argument \<open>spawn\<close>
  (working directory, argv, environment; None is an error), \<open>g_get_tmp_dir\<close> is \<open>tmp\<close>.
\<close>

section \<open>Fields\<close>

definition pka_channel_init :: "gint \<Rightarrow> cstring \<Rightarrow> g_time_val \<Rightarrow> pka_channel" where
  "pka_channel_init seq tmp now =
     \<lparr>ch_id = seq, ch_state = CHANNEL_READY, ch_sources = [], ch_pid = 0, ch_pid_set = False,
      ch_working_dir = Some tmp, ch_target = None, ch_env = None, ch_args = None,
      ch_kill_pid = True, ch_exit_status = 0, ch_created_at = now, ch_handlers = []\<rparr>"

definition pka_channel_get_target :: "channel_ref \<Rightarrow> world \<Rightarrow> cstring option" where
  "pka_channel_get_target c w = ch_target (w_channels w c)"

definition pka_channel_get_working_dir :: "channel_ref \<Rightarrow> world \<Rightarrow> cstring option" where
  "pka_channel_get_working_dir c w = ch_working_dir (w_channels w c)"

definition pka_channel_get_args :: "channel_ref \<Rightarrow> world \<Rightarrow> cstring list option" where
  "pka_channel_get_args c w = ch_args (w_channels w c)"

definition pka_channel_get_env :: "channel_ref \<Rightarrow> world \<Rightarrow> cstring list option" where
  "pka_channel_get_env c w = ch_env (w_channels w c)"

definition pka_channel_get_pid :: "channel_ref \<Rightarrow> world \<Rightarrow> g_pid" where
  "pka_channel_get_pid c w = ch_pid (w_channels w c)"

definition pka_channel_get_pid_set :: "channel_ref \<Rightarrow> world \<Rightarrow> bool" where
  "pka_channel_get_pid_set c w = ch_pid_set (w_channels w c)"

definition pka_channel_get_kill_pid :: "channel_ref \<Rightarrow> world \<Rightarrow> bool" where
  "pka_channel_get_kill_pid c w = ch_kill_pid (w_channels w c)"

definition pka_channel_get_state :: "channel_ref \<Rightarrow> world \<Rightarrow> pka_channel_state" where
  "pka_channel_get_state c w = ch_state (w_channels w c)"

definition pka_channel_get_created_at :: "channel_ref \<Rightarrow> world \<Rightarrow> g_time_val" where
  "pka_channel_get_created_at c w = ch_created_at (w_channels w c)"

definition pka_channel_compare :: "channel_ref \<Rightarrow> channel_ref \<Rightarrow> world \<Rightarrow> gint" where
  "pka_channel_compare a b w = ch_id (w_channels w a) - ch_id (w_channels w b)"

text \<open>The macros \<open>AUTHORIZE_IOCTL\<close> and \<open>ENSURE_STATE\<close>, and \<open>SET_FIELD_COPY\<close> built from them.\<close>

definition authorize_ioctl :: "pka_context \<Rightarrow> pka_ioctl \<Rightarrow> (world \<Rightarrow> 'a ans \<times> world) \<Rightarrow> world \<Rightarrow> 'a ans \<times> world" where
  "authorize_ioctl ctx ioctl k w =
     (if \<not> pka_context_is_authorized ctx ioctl then (Err CONTEXT_ERROR_NOT_AUTHORIZED, w) else k w)"

definition ensure_ready :: "channel_ref \<Rightarrow> (world \<Rightarrow> 'a ans \<times> world) \<Rightarrow> world \<Rightarrow> 'a ans \<times> world" where
  "ensure_ready c k w =
     (if ch_state (w_channels w c) \<noteq> CHANNEL_READY then (Err CHANNEL_ERROR_STATE, w) else k w)"

definition set_field_copy ::
  "channel_ref \<Rightarrow> pka_context \<Rightarrow> (pka_channel \<Rightarrow> pka_channel) \<Rightarrow> world \<Rightarrow> unit ans \<times> world" where
  "set_field_copy c ctx f =
     authorize_ioctl ctx IOCTL_MODIFY_CHANNEL (ensure_ready c (\<lambda>w. (Ok (), upd_channel c f w)))"

definition pka_channel_set_target ::
  "channel_ref \<Rightarrow> pka_context \<Rightarrow> cstring option \<Rightarrow> world \<Rightarrow> unit ans \<times> world" where
  "pka_channel_set_target c ctx target = set_field_copy c ctx (\<lambda>x. x\<lparr>ch_target := target\<rparr>)"

definition pka_channel_set_working_dir ::
  "channel_ref \<Rightarrow> pka_context \<Rightarrow> cstring option \<Rightarrow> world \<Rightarrow> unit ans \<times> world" where
  "pka_channel_set_working_dir c ctx dir = set_field_copy c ctx (\<lambda>x. x\<lparr>ch_working_dir := dir\<rparr>)"

definition pka_channel_set_args ::
  "channel_ref \<Rightarrow> pka_context \<Rightarrow> cstring list option \<Rightarrow> world \<Rightarrow> unit ans \<times> world" where
  "pka_channel_set_args c ctx args = set_field_copy c ctx (\<lambda>x. x\<lparr>ch_args := args\<rparr>)"

definition pka_channel_set_env ::
  "channel_ref \<Rightarrow> pka_context \<Rightarrow> cstring list option \<Rightarrow> world \<Rightarrow> unit ans \<times> world" where
  "pka_channel_set_env c ctx env = set_field_copy c ctx (\<lambda>x. x\<lparr>ch_env := env\<rparr>)"

definition pka_channel_set_pid ::
  "channel_ref \<Rightarrow> pka_context \<Rightarrow> g_pid \<Rightarrow> world \<Rightarrow> unit ans \<times> world" where
  "pka_channel_set_pid c ctx pid =
     authorize_ioctl ctx IOCTL_MODIFY_CHANNEL (ensure_ready c (\<lambda>w.
       (Ok (), upd_channel c (\<lambda>x. x\<lparr>ch_pid := pid, ch_pid_set := True, ch_target := None\<rparr>) w)))"

text \<open>This one may be called in every state.\<close>

definition pka_channel_set_kill_pid ::
  "channel_ref \<Rightarrow> pka_context \<Rightarrow> bool \<Rightarrow> world \<Rightarrow> unit ans \<times> world" where
  "pka_channel_set_kill_pid c ctx kill_pid =
     authorize_ioctl ctx IOCTL_MODIFY_CHANNEL (\<lambda>w.
       (Ok (), upd_channel c (\<lambda>x. x\<lparr>ch_kill_pid := kill_pid\<rparr>) w))"

definition pka_channel_get_exit_status :: "channel_ref \<Rightarrow> world \<Rightarrow> gint ans" where
  "pka_channel_get_exit_status c w =
     (if ch_state (w_channels w c) \<noteq> CHANNEL_STOPPED then Err CHANNEL_ERROR_STATE
      else if ch_pid_set (w_channels w c) then Err CHANNEL_ERROR_STATE
      else Ok (ch_exit_status (w_channels w c)))"

section \<open>Sources\<close>

text \<open>The signal \<open>source-added\<close> is emitted after the lock is released.\<close>

definition emit_source_added :: "gtypes \<Rightarrow> channel_ref \<Rightarrow> source_ref \<Rightarrow> world \<Rightarrow> world" where
  "emit_source_added gt c s w =
     foldl (\<lambda>w r. pka_subscription_channel_source_added gt s r w) w (ch_handlers (w_channels w c))"

definition pka_channel_add_source ::
  "gtypes \<Rightarrow> channel_ref \<Rightarrow> pka_context \<Rightarrow> source_ref \<Rightarrow> world \<Rightarrow> unit ans \<times> world" where
  "pka_channel_add_source gt c ctx s =
     authorize_ioctl ctx IOCTL_MODIFY_CHANNEL (\<lambda>w.
       case pka_source_set_channel s c w of
         (False, w) \<Rightarrow> (Err CHANNEL_ERROR_STATE, w)
       | (True, w) \<Rightarrow>
           (let w = upd_channel c (\<lambda>x. x\<lparr>ch_sources := ch_sources x @ [s]\<rparr>) w
            in (Ok (), emit_source_added gt c s w)))"

section \<open>Starting\<close>

fun modify_spawn_info :: "source_ref list \<Rightarrow> pka_spawn_info \<Rightarrow> world \<Rightarrow> bool \<times> pka_spawn_info" where
  "modify_spawn_info [] info w = (True, info)"
| "modify_spawn_info (s # ss) info w =
     (case pka_source_modify_spawn_info s info w of
        (False, info) \<Rightarrow> (False, info)
      | (True, info) \<Rightarrow> modify_spawn_info ss info w)"

definition pka_channel_init_spawn_info_locked :: "channel_ref \<Rightarrow> world \<Rightarrow> bool \<times> pka_spawn_info" where
  "pka_channel_init_spawn_info_locked c w =
     (let ch = w_channels w c
      in modify_spawn_info (ch_sources ch)
           \<lparr>si_pid = ch_pid ch, si_target = ch_target ch, si_args = ch_args ch, si_env = ch_env ch,
            si_working_dir = ch_working_dir ch, si_standard_input = 0, si_standard_output = 0,
            si_standard_error = 0\<rparr> w)"

type_synonym g_spawn = "cstring \<Rightarrow> cstring list \<Rightarrow> cstring list option \<Rightarrow> g_pid option"

definition spawn_argv :: "pka_spawn_info \<Rightarrow> cstring list" where
  "spawn_argv info =
     the (si_target info) # (case si_args info of None \<Rightarrow> [] | Some args \<Rightarrow> args)"

definition spawn_directory :: "cstring \<Rightarrow> pka_spawn_info \<Rightarrow> cstring" where
  "spawn_directory tmp info =
     (case si_working_dir info of None \<Rightarrow> tmp | Some d \<Rightarrow> if length d = 0 then tmp else d)"

text \<open>
  The part between the lock and the unlock after the spawn information is ready: None when the process
  cannot be spawned.
\<close>

definition channel_spawn ::
  "g_spawn \<Rightarrow> cstring \<Rightarrow> channel_ref \<Rightarrow> pka_spawn_info \<Rightarrow> world \<Rightarrow> pka_spawn_info option \<times> world" where
  "channel_spawn spawn tmp c info w =
     (if si_pid info = 0 \<and> si_target info \<noteq> None
      then let dir = spawn_directory tmp info
           in case spawn dir (spawn_argv info) (si_env info) of
                None \<Rightarrow> (None, upd_channel c (\<lambda>x. x\<lparr>ch_state := CHANNEL_FAILED\<rparr>) w)
              | Some pid \<Rightarrow>
                  (let w = upd_channel c (\<lambda>x. x\<lparr>ch_pid := pid\<rparr>) w;
                       w = w\<lparr>w_spawned := w_spawned w @ [pid], w_watches := w_watches w @ [(pid, c)]\<rparr>
                   in (Some (info\<lparr>si_pid := pid, si_working_dir := Some dir\<rparr>), w))
      else (Some info, w))"

definition notify_sources :: "(source_ref \<Rightarrow> world \<Rightarrow> world) \<Rightarrow> channel_ref \<Rightarrow> world \<Rightarrow> world" where
  "notify_sources f c w = foldl (\<lambda>w s. f s w) w (ch_sources (w_channels w c))"

context source_notice
begin

lemma notify_frame:
  "w_channels (notify_sources f c w) = w_channels w"
  "w_subs (notify_sources f c w) = w_subs w"
  "w_delivered (notify_sources f c w) = w_delivered w"
  "w_killed (notify_sources f c w) = w_killed w"
  "w_spawned (notify_sources f c w) = w_spawned w"
  "w_watches (notify_sources f c w) = w_watches w"
  "w_fault (notify_sources f c w) = w_fault w"
  by (simp_all add: notify_sources_def round_frame)

end

lemmas notify_frames [world_simps] =
  started.notify_frame stopped.notify_frame muted.notify_frame unmuted.notify_frame reset.notify_frame

definition reset_if_stopped :: "channel_ref \<Rightarrow> world \<Rightarrow> world" where
  "reset_if_stopped c w =
     (if ch_state (w_channels w c) = CHANNEL_STOPPED
      then upd_channel c (\<lambda>x. x\<lparr>ch_state := CHANNEL_READY\<rparr>) (notify_sources pka_source_notify_reset c w)
      else w)"

text \<open>
  The lock is released before the sources are told, so another thread can run between the two parts of
  \<open>pka_channel_start\<close>.
\<close>

definition channel_start_locked ::
  "g_spawn \<Rightarrow> cstring \<Rightarrow> channel_ref \<Rightarrow> world \<Rightarrow> pka_spawn_info ans \<times> world" where
  "channel_start_locked spawn tmp c w =
     ensure_ready c (\<lambda>w.
       case pka_channel_init_spawn_info_locked c w of
         (False, info) \<Rightarrow> (Err PLUGIN_CODE_ERROR, w)
       | (True, info) \<Rightarrow>
           (case channel_spawn spawn tmp c info w of
              (None, w) \<Rightarrow> (Err SPAWN_ERROR, w)
            | (Some info, w) \<Rightarrow>
                (Ok info, upd_channel c (\<lambda>x. x\<lparr>ch_state := CHANNEL_RUNNING\<rparr>) w)))
       (reset_if_stopped c w)"

definition pka_channel_start ::
  "g_spawn \<Rightarrow> cstring \<Rightarrow> channel_ref \<Rightarrow> pka_context \<Rightarrow> world \<Rightarrow> unit ans \<times> world" where
  "pka_channel_start spawn tmp c ctx w =
     (case channel_start_locked spawn tmp c w of
        (Ok info, w) \<Rightarrow> (Ok (), notify_sources (pka_source_notify_started info) c w)
      | (Err e, w) \<Rightarrow> (Err e, w)
      | (Quiet, w) \<Rightarrow> (Quiet, w))"

section \<open>Stopping, muting\<close>

definition channel_kill :: "channel_ref \<Rightarrow> world \<Rightarrow> world" where
  "channel_kill c w =
     (if ch_kill_pid (w_channels w c) \<and> \<not> ch_pid_set (w_channels w c) \<and> ch_pid (w_channels w c) \<noteq> 0
      then w\<lparr>w_killed := w_killed w @ [ch_pid (w_channels w c)]\<rparr> else w)"

definition pka_channel_stop :: "channel_ref \<Rightarrow> pka_context \<Rightarrow> world \<Rightarrow> unit ans \<times> world" where
  "pka_channel_stop c ctx w =
     (case ch_state (w_channels w c) of
        CHANNEL_RUNNING \<Rightarrow>
          (Ok (), channel_kill c (notify_sources pka_source_notify_stopped c
             (upd_channel c (\<lambda>x. x\<lparr>ch_state := CHANNEL_STOPPED\<rparr>) w)))
      | CHANNEL_MUTED \<Rightarrow>
          (Ok (), channel_kill c (notify_sources pka_source_notify_stopped c
             (upd_channel c (\<lambda>x. x\<lparr>ch_state := CHANNEL_STOPPED\<rparr>) w)))
      | CHANNEL_READY \<Rightarrow> (Err CHANNEL_ERROR_STATE, w)
      | CHANNEL_STOPPED \<Rightarrow> (Ok (), w)
      | CHANNEL_FAILED \<Rightarrow> (Ok (), w))"

definition pka_channel_mute :: "channel_ref \<Rightarrow> pka_context \<Rightarrow> world \<Rightarrow> unit ans \<times> world" where
  "pka_channel_mute c ctx w =
     (case ch_state (w_channels w c) of
        CHANNEL_READY \<Rightarrow> (Err CHANNEL_ERROR_STATE, w)
      | CHANNEL_STOPPED \<Rightarrow> (Err CHANNEL_ERROR_STATE, w)
      | CHANNEL_FAILED \<Rightarrow> (Err CHANNEL_ERROR_STATE, w)
      | CHANNEL_MUTED \<Rightarrow> (Ok (), w)
      | CHANNEL_RUNNING \<Rightarrow>
          (Ok (), notify_sources pka_source_notify_muted c
             (upd_channel c (\<lambda>x. x\<lparr>ch_state := CHANNEL_MUTED\<rparr>) w)))"

definition pka_channel_unmute :: "channel_ref \<Rightarrow> pka_context \<Rightarrow> world \<Rightarrow> unit ans \<times> world" where
  "pka_channel_unmute c ctx w =
     (case ch_state (w_channels w c) of
        CHANNEL_MUTED \<Rightarrow>
          (Ok (), notify_sources pka_source_notify_unmuted c
             (upd_channel c (\<lambda>x. x\<lparr>ch_state := CHANNEL_RUNNING\<rparr>) w))
      | CHANNEL_READY \<Rightarrow> (Err CHANNEL_ERROR_STATE, w)
      | CHANNEL_RUNNING \<Rightarrow> (Err CHANNEL_ERROR_STATE, w)
      | CHANNEL_STOPPED \<Rightarrow> (Err CHANNEL_ERROR_STATE, w)
      | CHANNEL_FAILED \<Rightarrow> (Err CHANNEL_ERROR_STATE, w))"

text \<open>The callback of \<open>g_child_watch_add\<close>, which is called once for each watch.\<close>

definition pka_channel_inferior_exited :: "g_pid \<Rightarrow> gint \<Rightarrow> channel_ref \<Rightarrow> world \<Rightarrow> world" where
  "pka_channel_inferior_exited pid status c w =
     (let w = w\<lparr>w_watches := remove1 (pid, c) (w_watches w)\<rparr>;
          w = upd_channel c (\<lambda>x. x\<lparr>ch_exit_status := status\<rparr>) w
      in snd (pka_channel_stop c pka_context_default w))"

end
