(* ===== verification/Pka_Manager.thy ===== *)
theory Pka_Manager
  imports Pka_Channel
begin

text \<open>
  perfkit-agent/pka-plugin.c and pka-manager.c: the plugins and what they create, and the registry of
  everything the agent knows, by identifier, with what the registered listeners are told about it.
\<close>

section \<open>Plugins\<close>

datatype pka_plugin_type = PLUGIN_INVALID | PLUGIN_LISTENER | PLUGIN_SOURCE | PLUGIN_ENCODER

text \<open>
  What a plugin's \<open>factory\<close> gives is the plugin's business: an object of one of three kinds, or no
  object, with or without an error. It may answer differently each time; the number is that of the
  call.
\<close>

datatype g_object =
    Source_Object "(pka_spawn_info \<Rightarrow> bool \<times> pka_spawn_info) option"
  | Encoder_Object pka_encoder_iface
  | Listener_Object

record pka_plugin_info =
  pi_factory :: "(nat \<Rightarrow> g_object ans) option"
  pi_plugin_type :: pka_plugin_type
  pi_id :: cstring
  pi_name :: cstring
  pi_version :: cstring
  pi_description :: cstring
  pi_copyright :: cstring

record pka_plugin =
  pl_info :: "pka_plugin_info option"

definition pka_plugin_new :: pka_plugin where
  "pka_plugin_new = \<lparr>pl_info = None\<rparr>"

definition pka_plugin_get_description :: "pka_plugin \<Rightarrow> cstring" where
  "pka_plugin_get_description p = (case pl_info p of Some i \<Rightarrow> pi_description i | None \<Rightarrow> [])"

definition pka_plugin_get_copyright :: "pka_plugin \<Rightarrow> cstring" where
  "pka_plugin_get_copyright p = (case pl_info p of Some i \<Rightarrow> pi_copyright i | None \<Rightarrow> [])"

definition pka_plugin_get_name :: "pka_plugin \<Rightarrow> cstring" where
  "pka_plugin_get_name p = (case pl_info p of Some i \<Rightarrow> pi_name i | None \<Rightarrow> [])"

definition pka_plugin_get_version :: "pka_plugin \<Rightarrow> cstring" where
  "pka_plugin_get_version p = (case pl_info p of Some i \<Rightarrow> pi_version i | None \<Rightarrow> [])"

definition pka_plugin_get_plugin_type :: "pka_plugin \<Rightarrow> pka_plugin_type" where
  "pka_plugin_get_plugin_type p = (case pl_info p of Some i \<Rightarrow> pi_plugin_type i | None \<Rightarrow> PLUGIN_INVALID)"

definition pka_plugin_get_id :: "pka_plugin \<Rightarrow> cstring option" where
  "pka_plugin_get_id p = (case pl_info p of Some i \<Rightarrow> Some (pi_id i) | None \<Rightarrow> None)"

text \<open>
  \<open>g_module_open\<close> and \<open>g_module_symbol\<close> are the argument: None when the file is no module or has no
  \<open>pka_plugin_info\<close>.
\<close>

definition g_ascii_isalnum :: "u8 \<Rightarrow> bool" where
  "g_ascii_isalnum c \<longleftrightarrow>
     48 \<le> c \<and> c \<le> 57 \<or> 65 \<le> c \<and> c \<le> 90 \<or> 97 \<le> c \<and> c \<le> 122"

definition pka_plugin_load_from_file ::
  "(cstring \<Rightarrow> pka_plugin_info option) \<Rightarrow> pka_plugin \<Rightarrow> cstring \<Rightarrow> unit ans \<times> pka_plugin" where
  "pka_plugin_load_from_file module p filename =
     (case module filename of
        None \<Rightarrow> (Err PLUGIN_ERROR_INVALID_MODULE, p)
      | Some info \<Rightarrow>
          if list_all g_ascii_isalnum (pi_id info) then (Ok (), p\<lparr>pl_info := Some info\<rparr>)
          else (Err PLUGIN_ERROR_INVALID_MODULE, p))"

text \<open>
  \<open>pka_plugin_is_disabled\<close> asks the configuration, with TRUE as the default; the name of the group is
  cut to 31 bytes by \<open>g_snprintf\<close> and put in lower case.
\<close>

definition plugin_group :: "cstring \<Rightarrow> cstring \<Rightarrow> cstring" where
  "plugin_group kind pid = map g_ascii_tolower (take 31 (kind @ [46] @ pid))"

definition pka_plugin_is_disabled ::
  "(cstring \<Rightarrow> cstring \<Rightarrow> bool \<Rightarrow> bool) \<Rightarrow> pka_plugin \<Rightarrow> bool" where
  "pka_plugin_is_disabled get_boolean p =
     (let disabled = [100, 105, 115, 97, 98, 108, 101, 100];
          group = (\<lambda>kind. plugin_group kind (the (pka_plugin_get_id p)))
      in case pka_plugin_get_plugin_type p of
           PLUGIN_SOURCE \<Rightarrow> get_boolean (group [115, 111, 117, 114, 99, 101]) disabled True
         | PLUGIN_ENCODER \<Rightarrow> get_boolean (group [101, 110, 99, 111, 100, 101, 114]) disabled True
         | PLUGIN_LISTENER \<Rightarrow> get_boolean (group [108, 105, 115, 116, 101, 110, 101, 114]) disabled True
         | PLUGIN_INVALID \<Rightarrow> True)"

section \<open>The registry\<close>

datatype notice =
    channel_added gint | channel_removed gint | encoder_added gint | encoder_removed gint
  | source_added gint | source_removed gint | subscription_added gint | subscription_removed gint
  | plugin_added "cstring option"

text \<open>
  The arrays of \<open>PkaManager\<close>, the objects they refer to, the counters that the constructors draw their
  identifiers from, and what each listener has been told. \<open>ag_fresh\<close> is the next reference that the
  allocator gives, to an object of any kind.
\<close>

record agent =
  ag_world :: world
  ag_channels :: "channel_ref list"
  ag_encoders :: "nat list"
  ag_listeners :: "nat list"
  ag_plugins :: "plugin_ref list"
  ag_sources :: "source_ref list"
  ag_subscriptions :: "sub_ref list"
  ag_plugin_store :: "plugin_ref \<Rightarrow> pka_plugin"
  ag_encoder_store :: "nat \<Rightarrow> pka_encoder_iface"
  ag_encoder_ids :: "nat encoder_ids"
  ag_notices :: "(nat \<times> notice) list"
  ag_fresh :: nat
  ag_channel_seq :: gint
  ag_source_seq :: gint
  ag_subscription_seq :: gint

definition on_world :: "(world \<Rightarrow> world) \<Rightarrow> agent \<Rightarrow> agent" where
  "on_world f ag = ag\<lparr>ag_world := f (ag_world ag)\<rparr>"

definition in_world :: "(world \<Rightarrow> 'a ans \<times> world) \<Rightarrow> agent \<Rightarrow> 'a ans \<times> agent" where
  "in_world f ag = (case f (ag_world ag) of (r, w) \<Rightarrow> (r, ag\<lparr>ag_world := w\<rparr>))"

definition notify_listeners :: "notice \<Rightarrow> agent \<Rightarrow> agent" where
  "notify_listeners n ag = ag\<lparr>ag_notices := ag_notices ag @ map (\<lambda>l. (l, n)) (ag_listeners ag)\<rparr>"

definition manager_authorize ::
  "pka_context \<Rightarrow> pka_ioctl \<Rightarrow> (agent \<Rightarrow> 'a ans \<times> agent) \<Rightarrow> agent \<Rightarrow> 'a ans \<times> agent" where
  "manager_authorize ctx ioctl k ag =
     (if \<not> pka_context_is_authorized ctx ioctl then (Err CONTEXT_ERROR_NOT_AUTHORIZED, ag) else k ag)"

subsection \<open>Adding\<close>

definition channel_object_new :: "cstring \<Rightarrow> g_time_val \<Rightarrow> agent \<Rightarrow> channel_ref \<times> agent" where
  "channel_object_new tmp now ag =
     (let r = ag_fresh ag
      in (r, ag\<lparr>ag_world := upd_channel r (\<lambda>_. pka_channel_init (ag_channel_seq ag) tmp now) (ag_world ag),
                ag_fresh := r + 1, ag_channel_seq := ag_channel_seq ag + 1\<rparr>))"

definition pka_manager_add_channel ::
  "cstring \<Rightarrow> g_time_val \<Rightarrow> pka_context \<Rightarrow> agent \<Rightarrow> channel_ref ans \<times> agent" where
  "pka_manager_add_channel tmp now ctx =
     manager_authorize ctx IOCTL_ADD_CHANNEL (\<lambda>ag.
       let (channel, ag) = channel_object_new tmp now ag;
           channel_id = pka_channel_get_id channel (ag_world ag);
           ag = ag\<lparr>ag_channels := ag_channels ag @ [channel]\<rparr>
       in (Ok channel, notify_listeners (channel_added channel_id) ag))"

text \<open>
  \<open>pka_plugin_create\<close>. The object goes to a fresh reference. An object of another kind than the plugin
  says is cast all the same: that is a fault.
\<close>

definition source_object_new ::
  "(pka_spawn_info \<Rightarrow> bool \<times> pka_spawn_info) option \<Rightarrow> agent \<Rightarrow> source_ref \<times> agent" where
  "source_object_new modify ag =
     (let r = ag_fresh ag
      in (r, ag\<lparr>ag_world := upd_source r (\<lambda>_. pka_source_init (ag_source_seq ag) modify) (ag_world ag),
                ag_fresh := r + 1, ag_source_seq := ag_source_seq ag + 1\<rparr>))"

definition pka_plugin_create :: "plugin_ref \<Rightarrow> agent \<Rightarrow> nat ans \<times> agent" where
  "pka_plugin_create p ag =
     (case pl_info (ag_plugin_store ag p) of
        None \<Rightarrow> (Quiet, on_world (\<lambda>w. w\<lparr>w_fault := True\<rparr>) ag)
      | Some info \<Rightarrow>
          (case pi_factory info of
             None \<Rightarrow> (Quiet, ag)
           | Some factory \<Rightarrow>
               (case (factory (ag_fresh ag), pi_plugin_type info) of
                  (Ok (Source_Object modify), PLUGIN_SOURCE) \<Rightarrow>
                    (case source_object_new modify ag of
                       (r, ag) \<Rightarrow> (Ok r, on_world (pka_source_set_plugin r p) ag))
                | (Ok (Encoder_Object e), PLUGIN_ENCODER) \<Rightarrow>
                    (Ok (ag_fresh ag),
                     ag\<lparr>ag_encoder_store := (ag_encoder_store ag)(ag_fresh ag := e),
                        ag_fresh := ag_fresh ag + 1\<rparr>)
                | (Ok Listener_Object, PLUGIN_LISTENER) \<Rightarrow> (Ok (ag_fresh ag), ag\<lparr>ag_fresh := ag_fresh ag + 1\<rparr>)
                | (Ok _, _) \<Rightarrow> (Quiet, on_world (\<lambda>w. w\<lparr>w_fault := True\<rparr>) ag)
                | (Err e, _) \<Rightarrow> (Err e, ag)
                | (Quiet, _) \<Rightarrow> (Quiet, ag))))"

definition pka_manager_add_source :: "pka_context \<Rightarrow> plugin_ref \<Rightarrow> agent \<Rightarrow> source_ref ans \<times> agent" where
  "pka_manager_add_source ctx plugin =
     manager_authorize ctx IOCTL_ADD_SOURCE (\<lambda>ag.
       if pka_plugin_get_plugin_type (ag_plugin_store ag plugin) \<noteq> PLUGIN_SOURCE
       then (Err PLUGIN_ERROR_INVALID_TYPE, ag)
       else case pka_plugin_create plugin ag of
              (Ok source, ag) \<Rightarrow>
                (let source_id = pka_source_get_id source (ag_world ag);
                     ag = ag\<lparr>ag_sources := ag_sources ag @ [source]\<rparr>
                 in (Ok source, notify_listeners (source_added source_id) ag))
            | (Err e, ag) \<Rightarrow> (Err e, ag)
            | (Quiet, ag) \<Rightarrow> (Quiet, ag))"

definition agent_encoder_id :: "nat \<Rightarrow> agent \<Rightarrow> gint \<times> agent" where
  "agent_encoder_id e ag =
     (case pka_encoder_get_id (ag_encoder_ids ag) e of (ids, i) \<Rightarrow> (i, ag\<lparr>ag_encoder_ids := ids\<rparr>))"

definition pka_manager_add_encoder :: "pka_context \<Rightarrow> plugin_ref \<Rightarrow> agent \<Rightarrow> nat ans \<times> agent" where
  "pka_manager_add_encoder ctx plugin =
     manager_authorize ctx IOCTL_ADD_ENCODER (\<lambda>ag.
       if pka_plugin_get_plugin_type (ag_plugin_store ag plugin) \<noteq> PLUGIN_ENCODER
       then (Err PLUGIN_ERROR_INVALID_TYPE, ag)
       else case pka_plugin_create plugin ag of
              (Ok encoder, ag) \<Rightarrow>
                (let (encoder_id, ag) = agent_encoder_id encoder ag;
                     ag = ag\<lparr>ag_encoders := ag_encoders ag @ [encoder]\<rparr>
                 in (Ok encoder, notify_listeners (encoder_added encoder_id) ag))
            | (Err e, ag) \<Rightarrow> (Err e, ag)
            | (Quiet, ag) \<Rightarrow> (Quiet, ag))"

definition subscription_object_new :: "g_time_val \<Rightarrow> agent \<Rightarrow> sub_ref \<times> agent" where
  "subscription_object_new now ag =
     (let r = ag_fresh ag
      in (r, ag\<lparr>ag_world := upd_sub r (\<lambda>_. pka_subscription_new (ag_subscription_seq ag) now) (ag_world ag),
                ag_fresh := r + 1, ag_subscription_seq := ag_subscription_seq ag + 1\<rparr>))"

definition pka_manager_add_subscription ::
  "g_time_val \<Rightarrow> pka_context \<Rightarrow> agent \<Rightarrow> sub_ref ans \<times> agent" where
  "pka_manager_add_subscription now ctx =
     manager_authorize ctx IOCTL_ADD_SUBSCRIPTION (\<lambda>ag.
       let (subscription, ag) = subscription_object_new now ag;
           ag = on_world (pka_subscription_ref subscription) ag;
           ag = ag\<lparr>ag_subscriptions := ag_subscriptions ag @ [subscription]\<rparr>;
           n = subscription_added (pka_subscription_get_id subscription (ag_world ag))
       in (Ok subscription, notify_listeners n ag))"

subsection \<open>Finding\<close>

text \<open>The loop over the array stops at the first object with the identifier.\<close>

definition find_by_id :: "('r \<Rightarrow> gint) \<Rightarrow> gint \<Rightarrow> 'r list \<Rightarrow> 'r ans" where
  "find_by_id ident i rs =
     (case List.find (\<lambda>r. ident r = i) rs of None \<Rightarrow> Err CONTEXT_ERROR_NOT_AUTHORIZED | Some r \<Rightarrow> Ok r)"

definition pka_manager_find_channel :: "pka_context \<Rightarrow> gint \<Rightarrow> agent \<Rightarrow> channel_ref ans" where
  "pka_manager_find_channel ctx i ag =
     find_by_id (\<lambda>c. pka_channel_get_id c (ag_world ag)) i (ag_channels ag)"

definition pka_manager_find_source :: "pka_context \<Rightarrow> gint \<Rightarrow> agent \<Rightarrow> source_ref ans" where
  "pka_manager_find_source ctx i ag =
     find_by_id (\<lambda>s. pka_source_get_id s (ag_world ag)) i (ag_sources ag)"

definition pka_manager_find_plugin :: "pka_context \<Rightarrow> cstring option \<Rightarrow> agent \<Rightarrow> plugin_ref ans" where
  "pka_manager_find_plugin ctx plugin_id ag =
     (case plugin_id of
        None \<Rightarrow> Err PLUGIN_ERROR_INVALID_TYPE
      | Some _ \<Rightarrow>
          (case List.find (\<lambda>p. pka_plugin_get_id (ag_plugin_store ag p) = plugin_id) (ag_plugins ag) of
             None \<Rightarrow> Err PLUGIN_ERROR_INVALID_TYPE
           | Some p \<Rightarrow> Ok p))"

text \<open>The subscription that is found has one more reference, which the caller drops.\<close>

definition pka_manager_find_subscription ::
  "pka_context \<Rightarrow> gint \<Rightarrow> agent \<Rightarrow> sub_ref ans \<times> agent" where
  "pka_manager_find_subscription ctx i ag =
     (case find_by_id (\<lambda>r. pka_subscription_get_id r (ag_world ag)) i (ag_subscriptions ag) of
        Ok r \<Rightarrow> (Ok r, on_world (pka_subscription_ref r) ag)
      | e \<Rightarrow> (e, ag))"

text \<open>Asking an encoder for its number may give it one, so the search changes the numbering.\<close>

fun encoder_scan :: "gint \<Rightarrow> nat list \<Rightarrow> agent \<Rightarrow> nat ans \<times> agent" where
  "encoder_scan i [] ag = (Err CONTEXT_ERROR_NOT_AUTHORIZED, ag)"
| "encoder_scan i (e # es) ag =
     (case agent_encoder_id e ag of
        (k, ag) \<Rightarrow> if k = i then (Ok e, ag) else encoder_scan i es ag)"

definition pka_manager_find_encoder :: "pka_context \<Rightarrow> gint \<Rightarrow> agent \<Rightarrow> nat ans \<times> agent" where
  "pka_manager_find_encoder ctx i ag = encoder_scan i (ag_encoders ag) ag"

subsection \<open>Listing\<close>

text \<open>The lists are built by prepending, so they have the objects added last first.\<close>

definition prepend_all :: "'a list \<Rightarrow> 'a list" where
  "prepend_all xs = foldl (\<lambda>list x. x # list) [] xs"

lemma prepend_all_rev: "prepend_all xs = rev xs"
proof -
  have "foldl (\<lambda>list x. x # list) acc xs = rev xs @ acc" for acc
    by (induction xs arbitrary: acc) simp_all
  then show ?thesis by (simp add: prepend_all_def)
qed

definition pka_manager_get_channels :: "pka_context \<Rightarrow> agent \<Rightarrow> channel_ref list ans" where
  "pka_manager_get_channels ctx ag = Ok (prepend_all (ag_channels ag))"

definition pka_manager_get_encoders :: "pka_context \<Rightarrow> agent \<Rightarrow> nat list ans" where
  "pka_manager_get_encoders ctx ag = Ok (prepend_all (ag_encoders ag))"

definition pka_manager_get_plugins :: "pka_context \<Rightarrow> agent \<Rightarrow> plugin_ref list ans" where
  "pka_manager_get_plugins ctx ag = Ok (prepend_all (ag_plugins ag))"

definition pka_manager_get_sources :: "pka_context \<Rightarrow> agent \<Rightarrow> source_ref list ans" where
  "pka_manager_get_sources ctx ag = Ok (prepend_all (ag_sources ag))"

definition pka_manager_get_subscriptions :: "pka_context \<Rightarrow> agent \<Rightarrow> sub_ref list ans \<times> agent" where
  "pka_manager_get_subscriptions ctx ag =
     (Ok (prepend_all (ag_subscriptions ag)),
      on_world (\<lambda>w. foldl (\<lambda>w r. pka_subscription_ref r w) w (ag_subscriptions ag)) ag)"

subsection \<open>Removing\<close>

text \<open>The work on a channel and on an encoder is in a branch that is never taken (\<open>if (FALSE)\<close>).\<close>

definition pka_manager_remove_channel :: "pka_context \<Rightarrow> channel_ref \<Rightarrow> agent \<Rightarrow> unit ans \<times> agent" where
  "pka_manager_remove_channel ctx channel =
     manager_authorize ctx IOCTL_REMOVE_CHANNEL (\<lambda>ag.
       if False
       then (Ok (), notify_listeners (channel_removed (pka_channel_get_id channel (ag_world ag)))
               (ag\<lparr>ag_channels := remove1 channel (ag_channels ag)\<rparr>))
       else (Ok (), ag))"

definition pka_manager_remove_encoder :: "pka_context \<Rightarrow> nat \<Rightarrow> agent \<Rightarrow> unit ans \<times> agent" where
  "pka_manager_remove_encoder ctx encoder =
     manager_authorize ctx IOCTL_REMOVE_ENCODER (\<lambda>ag.
       if False
       then (case agent_encoder_id encoder ag of
               (k, ag) \<Rightarrow> (Ok (), notify_listeners (encoder_removed k)
                            (ag\<lparr>ag_encoders := remove1 encoder (ag_encoders ag)\<rparr>)))
       else (Ok (), ag))"

definition pka_manager_remove_source :: "pka_context \<Rightarrow> source_ref \<Rightarrow> agent \<Rightarrow> unit ans \<times> agent" where
  "pka_manager_remove_source ctx source =
     manager_authorize ctx IOCTL_REMOVE_SOURCE (\<lambda>ag.
       let ag = on_world (pka_source_notify_stopped source) ag;
           source_id = pka_source_get_id source (ag_world ag);
           found = source \<in> set (ag_sources ag);
           ag = ag\<lparr>ag_sources := remove1 source (ag_sources ag)\<rparr>
       in if found then (Ok (), notify_listeners (source_removed source_id) ag) else (Quiet, ag))"

definition pka_manager_remove_subscription ::
  "pka_context \<Rightarrow> sub_ref \<Rightarrow> agent \<Rightarrow> unit ans \<times> agent" where
  "pka_manager_remove_subscription ctx subscription =
     manager_authorize ctx IOCTL_REMOVE_SUBSCRIPTION (\<lambda>ag.
       let ag = on_world (use_sub subscription) ag;
           subscription_id = pka_subscription_get_id subscription (ag_world ag);
           ag = ag\<lparr>ag_subscriptions := remove1 subscription (ag_subscriptions ag)\<rparr>;
           ag = notify_listeners (subscription_removed subscription_id) ag
       in (Ok (), on_world (pka_subscription_unref subscription) ag))"

subsection \<open>Starting up and shutting down\<close>

text \<open>
  The loops over the files of the plugin directories; \<open>files\<close> are the names in them that have the suffix
  of a module. Every plugin object gets a fresh reference and those that do not load are dropped.
\<close>

definition load_plugin :: "(cstring \<Rightarrow> pka_plugin_info option) \<Rightarrow> agent \<Rightarrow> cstring \<Rightarrow> agent" where
  "load_plugin module ag path =
     (case pka_plugin_load_from_file module pka_plugin_new path of
        (Ok (), plugin) \<Rightarrow>
          ag\<lparr>ag_plugin_store := (ag_plugin_store ag)(ag_fresh ag := plugin),
             ag_plugins := ag_plugins ag @ [ag_fresh ag], ag_fresh := ag_fresh ag + 1\<rparr>
      | (_, plugin) \<Rightarrow> ag)"

definition pka_manager_load_plugins ::
  "(cstring \<Rightarrow> pka_plugin_info option) \<Rightarrow> cstring list \<Rightarrow> agent \<Rightarrow> agent" where
  "pka_manager_load_plugins module files ag = foldl (load_plugin module) ag files"

text \<open>
  The listener plugins that are not disabled are created; then each listener listens (\<open>listens\<close> says
  whether it could) and is told about the plugins that are not listeners.
\<close>

definition create_listener :: "(cstring \<Rightarrow> cstring \<Rightarrow> bool \<Rightarrow> bool) \<Rightarrow> agent \<Rightarrow> plugin_ref \<Rightarrow> agent" where
  "create_listener get_boolean ag p =
     (let plugin = ag_plugin_store ag p
      in if pka_plugin_get_plugin_type plugin = PLUGIN_LISTENER \<and>
            \<not> pka_plugin_is_disabled get_boolean plugin
         then (case pka_plugin_create p ag of
                 (Ok l, ag) \<Rightarrow> ag\<lparr>ag_listeners := ag_listeners ag @ [l]\<rparr>
               | (_, ag) \<Rightarrow> ag)
         else ag)"

definition announce_plugins :: "nat \<Rightarrow> agent \<Rightarrow> agent" where
  "announce_plugins l ag =
     ag\<lparr>ag_notices := ag_notices ag @
       map (\<lambda>p. (l, plugin_added (pka_plugin_get_id (ag_plugin_store ag p))))
         (filter (\<lambda>p. pka_plugin_get_plugin_type (ag_plugin_store ag p) \<noteq> PLUGIN_LISTENER)
           (ag_plugins ag))\<rparr>"

definition pka_manager_init_listeners ::
  "(cstring \<Rightarrow> cstring \<Rightarrow> bool \<Rightarrow> bool) \<Rightarrow> (nat \<Rightarrow> bool) \<Rightarrow> agent \<Rightarrow> agent" where
  "pka_manager_init_listeners get_boolean listens ag =
     (let ag = foldl (create_listener get_boolean) ag (ag_plugins ag)
      in foldl (\<lambda>ag l. if listens l then announce_plugins l ag else ag) ag (ag_listeners ag))"

definition pka_manager_init ::
  "(cstring \<Rightarrow> pka_plugin_info option) \<Rightarrow> cstring list \<Rightarrow> (cstring \<Rightarrow> cstring \<Rightarrow> bool \<Rightarrow> bool) \<Rightarrow>
     (nat \<Rightarrow> bool) \<Rightarrow> agent \<Rightarrow> agent" where
  "pka_manager_init module files get_boolean listens ag =
     (let ag = ag\<lparr>ag_channels := [], ag_encoders := [], ag_listeners := [], ag_plugins := [],
                  ag_sources := [], ag_subscriptions := []\<rparr>;
          ag = pka_manager_load_plugins module files ag
      in pka_manager_init_listeners get_boolean listens ag)"

text \<open>
  Both loops run from the last index to the first. The code passes FALSE, that is NULL, as the context of
  \<open>pka_channel_stop\<close>, which only asks for its number, for a message to the log; the model passes the
  default context, which \<open>pka_channel_stop\<close> does not look at.
\<close>

definition pka_manager_shutdown :: "agent \<Rightarrow> agent" where
  "pka_manager_shutdown ag =
     (let ag = on_world (\<lambda>w. foldl (\<lambda>w r. pka_subscription_unref r
                 (snd (pka_subscription_mute r pka_context_default False w))) w (rev (ag_subscriptions ag))) ag;
          ag = ag\<lparr>ag_subscriptions := []\<rparr>;
          ag = on_world (\<lambda>w. foldl (\<lambda>w c. snd (pka_channel_stop c pka_context_default w)) w
                 (rev (ag_channels ag))) ag
      in ag\<lparr>ag_channels := []\<rparr>)"

end
