(* ===== verification/Pka_Registry.thy ===== *)
theory Pka_Registry
  imports Pka_Manager
begin

text \<open>
  The registry as its users see it: an object that was added gets an identifier that no other object of
  its kind has, and it is found by it from then on. The contract is proved for channels, sources and
  subscriptions.
\<close>

section \<open>The contract\<close>

text \<open>
  \<open>numbered\<close>: the objects are distinct, older than the next reference, and their identifiers are
  different numbers below the number \<open>n\<close> of objects that were ever created; the counter holds \<open>n\<close>.
\<close>

definition numbered :: "nat list \<Rightarrow> (nat \<Rightarrow> gint) \<Rightarrow> gint \<Rightarrow> nat \<Rightarrow> nat \<Rightarrow> bool" where
  "numbered rs ident seq fresh n \<longleftrightarrow>
     seq = word_of_nat n \<and> distinct (map ident rs) \<and> (\<forall>r \<in> set rs. r < fresh \<and> unat (ident r) < n)"

locale registry =
  fixes items :: "'st \<Rightarrow> nat list"
    and ident :: "nat \<Rightarrow> 'st \<Rightarrow> gint"
    and counter :: "'st \<Rightarrow> gint"
    and fresh :: "'st \<Rightarrow> nat"
    and add :: "'st \<Rightarrow> nat ans \<times> 'st"
    and fetch :: "gint \<Rightarrow> 'st \<Rightarrow> nat ans"
  assumes fetch_scan: "fetch i st = find_by_id (\<lambda>r. ident r st) i (items st)"
    and add_new: "add st = (Ok r, st') \<Longrightarrow> r = fresh st \<and> items st' = items st @ [r] \<and>
      ident r st' = counter st \<and> counter st' = counter st + 1 \<and> fresh st < fresh st'"
    and add_old: "add st = (Ok r, st') \<Longrightarrow> r' \<noteq> r \<Longrightarrow> ident r' st' = ident r' st"
begin

lemma fetch_sound:
  "fetch i st = Ok r \<Longrightarrow> r \<in> set (items st) \<and> ident r st = i"
  by (auto simp: fetch_scan find_by_id_def find_Some_iff in_set_conv_nth split: option.splits)

lemma fetch_complete:
  assumes "numbered (items st) (\<lambda>r. ident r st) (counter st) (fresh st) n" "r \<in> set (items st)"
  shows "fetch (ident r st) st = Ok r"
proof -
  obtain r' where r': "List.find (\<lambda>x. ident x st = ident r st) (items st) = Some r'"
    using assms(2) by (cases "List.find (\<lambda>x. ident x st = ident r st) (items st)") (auto simp: find_None_iff)
  then have "r' \<in> set (items st)" "ident r' st = ident r st"
    by (auto simp: find_Some_iff in_set_conv_nth)
  with assms have "r' = r"
    by (auto simp: numbered_def distinct_map inj_on_def)
  with r' show ?thesis by (simp add: fetch_scan find_by_id_def)
qed

lemma fetch_unknown:
  assumes "i \<notin> (\<lambda>r. ident r st) ` set (items st)"
  shows "fetch i st = Err CONTEXT_ERROR_NOT_AUTHORIZED"
proof -
  from assms have "List.find (\<lambda>r. ident r st = i) (items st) = None"
    by (auto simp: find_None_iff)
  then show ?thesis by (simp add: fetch_scan find_by_id_def)
qed

lemma add_numbered:
  assumes inv: "numbered (items st) (\<lambda>r. ident r st) (counter st) (fresh st) n"
    and n: "n < 2 ^ 32" and add: "add st = (Ok r, st')"
  shows "numbered (items st') (\<lambda>r. ident r st') (counter st') (fresh st') (Suc n)"
proof -
  note new = add_new [OF add] and old = add_old [OF add]
  have fresh: "r \<notin> set (items st)"
    using inv new by (auto simp: numbered_def)
  have same: "map (\<lambda>r. ident r st') (items st) = map (\<lambda>r. ident r st) (items st)"
    using old fresh by (intro map_cong refl) (metis (mono_tags))
  have unat: "unat (counter st) = n"
    using inv n by (simp add: numbered_def unat_word_of_nat)
  have "ident r st' \<notin> set (map (\<lambda>r. ident r st) (items st))"
    using inv new unat by (auto simp: numbered_def)
  then have "distinct (map (\<lambda>r. ident r st') (items st'))"
    using inv new by (simp add: numbered_def same)
  moreover have "x < fresh st' \<and> unat (ident x st') < Suc n" if "x \<in> set (items st')" for x
    using that inv new old [of x] unat by (cases "x = r") (auto simp: numbered_def less_Suc_eq)
  ultimately show ?thesis
    using inv new by (simp add: numbered_def)
qed

lemma fetch_added:
  assumes "numbered (items st) (\<lambda>r. ident r st) (counter st) (fresh st) n"
    and "n < 2 ^ 32" "add st = (Ok r, st')"
  shows "fetch (counter st) st' = Ok r"
proof -
  have "r \<in> set (items st')" "ident r st' = counter st"
    using add_new [OF assms(3)] by auto
  then show ?thesis
    using fetch_complete [OF add_numbered [OF assms], of r] by simp
qed

lemma fetch_kept:
  assumes inv: "numbered (items st) (\<lambda>r. ident r st) (counter st) (fresh st) n"
    and n: "n < 2 ^ 32" and add: "add st = (Ok r, st')" and old: "fetch i st = Ok r'"
  shows "fetch i st' = Ok r'"
proof -
  have r': "r' \<in> set (items st)" "ident r' st = i"
    using fetch_sound [OF old] by simp_all
  then have "r' \<noteq> r"
    using inv add_new [OF add] by (auto simp: numbered_def)
  then have "ident r' st' = i"
    using add_old [OF add] r'(2) by simp
  moreover have "r' \<in> set (items st')"
    using r'(1) add_new [OF add] by simp
  ultimately show ?thesis
    using fetch_complete [OF add_numbered [OF inv n add], of r'] by simp
qed

end

section \<open>The contract is kept\<close>

lemmas manager_ops =
  manager_authorize_def pka_context_is_authorized_def notify_listeners_def on_world_def Let_def

interpretation channels: registry ag_channels "\<lambda>c ag. pka_channel_get_id c (ag_world ag)"
    ag_channel_seq ag_fresh "pka_manager_add_channel tmp now ctx" "pka_manager_find_channel ctx'"
  for tmp now ctx ctx'
  by unfold_locales
    (auto simp: pka_manager_find_channel_def pka_manager_add_channel_def channel_object_new_def manager_ops
      pka_channel_get_id_def pka_channel_init_def world_simps)

lemma create_source_effect:
  assumes "pka_plugin_create p ag = (Ok r, ag')"
    and "pka_plugin_get_plugin_type (ag_plugin_store ag p) = PLUGIN_SOURCE"
  obtains modify where "r = ag_fresh ag"
    "ag' = ag\<lparr>ag_fresh := r + 1, ag_source_seq := ag_source_seq ag + 1, ag_world :=
       upd_source r (\<lambda>_. (pka_source_init (ag_source_seq ag) modify)\<lparr>so_plugin := Some p\<rparr>) (ag_world ag)\<rparr>"
proof -
  have fuse: "pka_source_set_plugin r p (upd_source r (\<lambda>_. pka_source_init i modify) w) =
      upd_source r (\<lambda>_. (pka_source_init i modify)\<lparr>so_plugin := Some p\<rparr>) w" for i modify w
    by (simp add: pka_source_set_plugin_def upd_source_def pka_source_init_def)
  show ?thesis
    using assms that fuse
    by (auto simp: pka_plugin_create_def pka_plugin_get_plugin_type_def source_object_new_def manager_ops
        split: option.splits ans.splits g_object.splits pka_plugin_type.splits)
qed

lemma add_source_result:
  assumes "pka_manager_add_source ctx p ag = (Ok r, ag')"
  obtains modify where "r = ag_fresh ag" "ag_sources ag' = ag_sources ag @ [r]"
    "ag_world ag' = upd_source r (\<lambda>_. (pka_source_init (ag_source_seq ag) modify)\<lparr>so_plugin := Some p\<rparr>) (ag_world ag)"
    "ag_fresh ag' = r + 1" "ag_source_seq ag' = ag_source_seq ag + 1"
    "ag_channels ag' = ag_channels ag" "ag_subscriptions ag' = ag_subscriptions ag"
    "ag_channel_seq ag' = ag_channel_seq ag" "ag_subscription_seq ag' = ag_subscription_seq ag"
proof -
  obtain ag1 where ptype: "pka_plugin_get_plugin_type (ag_plugin_store ag p) = PLUGIN_SOURCE"
    and create: "pka_plugin_create p ag = (Ok r, ag1)"
    and ag': "ag' = notify_listeners (source_added (pka_source_get_id r (ag_world ag1)))
      (ag1\<lparr>ag_sources := ag_sources ag1 @ [r]\<rparr>)"
    using assms by (auto simp: pka_manager_add_source_def manager_authorize_def
        pka_context_is_authorized_def Let_def split: if_splits prod.splits ans.splits)
  from create_source_effect [OF create ptype] obtain modify where ag1: "r = ag_fresh ag"
    "ag1 = ag\<lparr>ag_fresh := r + 1, ag_source_seq := ag_source_seq ag + 1, ag_world :=
       upd_source r (\<lambda>_. (pka_source_init (ag_source_seq ag) modify)\<lparr>so_plugin := Some p\<rparr>) (ag_world ag)\<rparr>"
    by blast
  show ?thesis
    by (rule that [where modify = modify]) (simp_all add: ag' ag1 notify_listeners_def)
qed

interpretation sources: registry ag_sources "\<lambda>s ag. pka_source_get_id s (ag_world ag)"
    ag_source_seq ag_fresh "pka_manager_add_source ctx p" "pka_manager_find_source ctx'"
  for ctx p ctx'
proof unfold_locales
  fix r st st'
  assume "pka_manager_add_source ctx p st = (Ok r, st')"
  then show "r = ag_fresh st \<and> ag_sources st' = ag_sources st @ [r] \<and>
      pka_source_get_id r (ag_world st') = ag_source_seq st \<and> ag_source_seq st' = ag_source_seq st + 1 \<and>
      ag_fresh st < ag_fresh st'"
    by (rule add_source_result) (simp add: pka_source_get_id_def pka_source_init_def world_simps)
next
  fix r st st' r'
  assume "pka_manager_add_source ctx p st = (Ok r, st')" "r' \<noteq> r"
  then show "pka_source_get_id r' (ag_world st') = pka_source_get_id r' (ag_world st)"
    by (elim add_source_result) (simp add: pka_source_get_id_def world_simps)
qed (simp add: pka_manager_find_source_def)

lemma sub_ref_id [world_simps]:
  "su_id (w_subs (pka_subscription_ref r w) r') = su_id (w_subs w r')"
  by (simp add: pka_subscription_ref_def Let_def world_simps)

interpretation subscriptions: registry ag_subscriptions "\<lambda>r ag. pka_subscription_get_id r (ag_world ag)"
    ag_subscription_seq ag_fresh "pka_manager_add_subscription now ctx"
    "\<lambda>i ag. fst (pka_manager_find_subscription ctx' i ag)"
  for now ctx ctx'
  by unfold_locales
    (auto simp: pka_manager_find_subscription_def pka_manager_add_subscription_def
      subscription_object_new_def manager_ops pka_subscription_get_id_def pka_subscription_new_def
      world_simps split: ans.split)

end
