(* ===== verification/Pka_Listener.thy ===== *)
theory Pka_Listener
  imports Pka_Registry
begin

text \<open>
  perfkit-agent/pka-listener.c: the remote procedures. Each has two functions, as every asynchronous
  operation of GIO has: the one called \<open>async\<close> stores the arguments in a call structure
  (pka-listener-closures.h, created with all bytes zero) and completes at once; the one called
  \<open>finish\<close> takes the call structure from the result, looks up the objects by their identifiers and
  does the work. A call structure is the tuple of its fields; where the code stores a single integer as
  the result itself the model has the integer. A result is taken by the \<open>finish\<close> function of its
  own \<open>async\<close> function, which \<open>RESULT_IS_VALID\<close> checks.
\<close>

section \<open>Looking up the objects of a call\<close>

definition DEFAULT_CONTEXT :: pka_context where
  "DEFAULT_CONTEXT = pka_context_default"

definition with_channel ::
  "gint \<Rightarrow> (channel_ref \<Rightarrow> agent \<Rightarrow> 'a ans \<times> agent) \<Rightarrow> agent \<Rightarrow> 'a ans \<times> agent" where
  "with_channel i k ag =
     (case pka_manager_find_channel DEFAULT_CONTEXT i ag of
        Ok c \<Rightarrow> k c ag | Err e \<Rightarrow> (Err e, ag) | Quiet \<Rightarrow> (Quiet, ag))"

definition with_source ::
  "gint \<Rightarrow> (source_ref \<Rightarrow> agent \<Rightarrow> 'a ans \<times> agent) \<Rightarrow> agent \<Rightarrow> 'a ans \<times> agent" where
  "with_source i k ag =
     (case pka_manager_find_source DEFAULT_CONTEXT i ag of
        Ok s \<Rightarrow> k s ag | Err e \<Rightarrow> (Err e, ag) | Quiet \<Rightarrow> (Quiet, ag))"

definition with_plugin ::
  "cstring option \<Rightarrow> (plugin_ref \<Rightarrow> agent \<Rightarrow> 'a ans \<times> agent) \<Rightarrow> agent \<Rightarrow> 'a ans \<times> agent" where
  "with_plugin i k ag =
     (case pka_manager_find_plugin DEFAULT_CONTEXT i ag of
        Ok p \<Rightarrow> k p ag | Err e \<Rightarrow> (Err e, ag) | Quiet \<Rightarrow> (Quiet, ag))"

text \<open>The reference that finding a subscription gave is dropped on every way out.\<close>

definition with_subscription ::
  "gint \<Rightarrow> (sub_ref \<Rightarrow> agent \<Rightarrow> 'a ans \<times> agent) \<Rightarrow> agent \<Rightarrow> 'a ans \<times> agent" where
  "with_subscription i k ag =
     (case pka_manager_find_subscription DEFAULT_CONTEXT i ag of
        (Ok r, ag) \<Rightarrow> (case k r ag of (x, ag) \<Rightarrow> (x, on_world (pka_subscription_unref r) ag))
      | (Err e, ag) \<Rightarrow> (Err e, ag)
      | (Quiet, ag) \<Rightarrow> (Quiet, ag))"

definition answer :: "'a \<Rightarrow> agent \<Rightarrow> 'a ans \<times> agent" where
  "answer x ag = (Ok x, ag)"

lemmas lookups = with_channel_def with_source_def with_plugin_def with_subscription_def answer_def

section \<open>Channels\<close>

type_synonym ChannelAddSourceCall = "gint \<times> gint"

definition pka_listener_channel_add_source_async :: "gint \<Rightarrow> gint \<Rightarrow> ChannelAddSourceCall" where
  "pka_listener_channel_add_source_async channel source = (channel, source)"

definition pka_listener_channel_add_source_finish :: "gtypes \<Rightarrow> ChannelAddSourceCall \<Rightarrow> agent \<Rightarrow> unit ans \<times> agent" where
  "pka_listener_channel_add_source_finish gt call =
     (case call of (channel, source) \<Rightarrow>
        with_channel channel (\<lambda>c. with_source source (\<lambda>s.
          in_world (pka_channel_add_source gt c DEFAULT_CONTEXT s))))"

type_synonym ChannelMuteCall = "gint"

definition pka_listener_channel_mute_async :: "gint \<Rightarrow> ChannelMuteCall" where
  "pka_listener_channel_mute_async channel = channel"

definition pka_listener_channel_mute_finish :: "ChannelMuteCall \<Rightarrow> agent \<Rightarrow> unit ans \<times> agent" where
  "pka_listener_channel_mute_finish channel =
     with_channel channel (\<lambda>c. in_world (pka_channel_mute c DEFAULT_CONTEXT))"

definition pka_listener_channel_get_args_async :: "gint \<Rightarrow> gint" where
  "pka_listener_channel_get_args_async channel = channel"

definition pka_listener_channel_get_args_finish :: "gint \<Rightarrow> agent \<Rightarrow> cstring list option ans \<times> agent" where
  "pka_listener_channel_get_args_finish channel =
     with_channel channel (\<lambda>c ag. answer (pka_channel_get_args c (ag_world ag)) ag)"

type_synonym ChannelGetCreatedAtCall = "gint"

definition pka_listener_channel_get_created_at_async :: "gint \<Rightarrow> ChannelGetCreatedAtCall" where
  "pka_listener_channel_get_created_at_async channel = channel"

definition pka_listener_channel_get_created_at_finish :: "ChannelGetCreatedAtCall \<Rightarrow> agent \<Rightarrow> g_time_val ans \<times> agent" where
  "pka_listener_channel_get_created_at_finish channel =
     with_channel channel (\<lambda>c ag. answer (pka_channel_get_created_at c (ag_world ag)) ag)"

definition pka_listener_channel_get_env_async :: "gint \<Rightarrow> gint" where
  "pka_listener_channel_get_env_async channel = channel"

definition pka_listener_channel_get_env_finish :: "gint \<Rightarrow> agent \<Rightarrow> cstring list option ans \<times> agent" where
  "pka_listener_channel_get_env_finish channel =
     with_channel channel (\<lambda>c ag. answer (pka_channel_get_env c (ag_world ag)) ag)"

definition pka_listener_channel_get_exit_status_async :: "gint \<Rightarrow> gint" where
  "pka_listener_channel_get_exit_status_async channel = channel"

definition pka_listener_channel_get_exit_status_finish :: "gint \<Rightarrow> agent \<Rightarrow> gint ans \<times> agent" where
  "pka_listener_channel_get_exit_status_finish channel =
     with_channel channel (\<lambda>c ag. (pka_channel_get_exit_status c (ag_world ag), ag))"

definition pka_listener_channel_get_kill_pid_async :: "gint \<Rightarrow> gint" where
  "pka_listener_channel_get_kill_pid_async channel = channel"

definition pka_listener_channel_get_kill_pid_finish :: "gint \<Rightarrow> agent \<Rightarrow> bool ans \<times> agent" where
  "pka_listener_channel_get_kill_pid_finish channel =
     with_channel channel (\<lambda>c ag. answer (pka_channel_get_kill_pid c (ag_world ag)) ag)"

type_synonym ChannelGetPidCall = "gint"

definition pka_listener_channel_get_pid_async :: "gint \<Rightarrow> ChannelGetPidCall" where
  "pka_listener_channel_get_pid_async channel = channel"

definition pka_listener_channel_get_pid_finish :: "ChannelGetPidCall \<Rightarrow> agent \<Rightarrow> g_pid ans \<times> agent" where
  "pka_listener_channel_get_pid_finish channel =
     with_channel channel (\<lambda>c ag. answer (pka_channel_get_pid c (ag_world ag)) ag)"

type_synonym ChannelGetPidSetCall = "gint"

text \<open>The argument is never stored: the call keeps the zero it was created with.\<close>

definition pka_listener_channel_get_pid_set_async :: "gint \<Rightarrow> ChannelGetPidSetCall" where
  "pka_listener_channel_get_pid_set_async channel = 0"

definition pka_listener_channel_get_pid_set_finish :: "ChannelGetPidSetCall \<Rightarrow> agent \<Rightarrow> bool ans \<times> agent" where
  "pka_listener_channel_get_pid_set_finish channel =
     with_channel channel (\<lambda>c ag. answer (pka_channel_get_pid_set c (ag_world ag)) ag)"

type_synonym ChannelGetSourcesCall = "gint"

definition pka_listener_channel_get_sources_async :: "gint \<Rightarrow> ChannelGetSourcesCall" where
  "pka_listener_channel_get_sources_async channel = channel"

definition pka_listener_channel_get_sources_finish :: "ChannelGetSourcesCall \<Rightarrow> agent \<Rightarrow> gint list ans \<times> agent" where
  "pka_listener_channel_get_sources_finish channel =
     with_channel channel (\<lambda>c ag. answer (map (\<lambda>s. pka_source_get_id s (ag_world ag)) (pka_channel_get_sources c (ag_world ag))) ag)"

type_synonym ChannelGetStateCall = "gint"

definition pka_listener_channel_get_state_async :: "gint \<Rightarrow> ChannelGetStateCall" where
  "pka_listener_channel_get_state_async channel = channel"

definition pka_listener_channel_get_state_finish :: "ChannelGetStateCall \<Rightarrow> agent \<Rightarrow> pka_channel_state ans \<times> agent" where
  "pka_listener_channel_get_state_finish channel =
     with_channel channel (\<lambda>c ag. answer (pka_channel_get_state c (ag_world ag)) ag)"

type_synonym ChannelGetTargetCall = "gint"

definition pka_listener_channel_get_target_async :: "gint \<Rightarrow> ChannelGetTargetCall" where
  "pka_listener_channel_get_target_async channel = channel"

definition pka_listener_channel_get_target_finish :: "ChannelGetTargetCall \<Rightarrow> agent \<Rightarrow> cstring option ans \<times> agent" where
  "pka_listener_channel_get_target_finish channel =
     with_channel channel (\<lambda>c ag. answer (pka_channel_get_target c (ag_world ag)) ag)"

type_synonym ChannelGetWorkingDirCall = "gint"

definition pka_listener_channel_get_working_dir_async :: "gint \<Rightarrow> ChannelGetWorkingDirCall" where
  "pka_listener_channel_get_working_dir_async channel = channel"

definition pka_listener_channel_get_working_dir_finish :: "ChannelGetWorkingDirCall \<Rightarrow> agent \<Rightarrow> cstring option ans \<times> agent" where
  "pka_listener_channel_get_working_dir_finish channel =
     with_channel channel (\<lambda>c ag. answer (pka_channel_get_working_dir c (ag_world ag)) ag)"

type_synonym ChannelSetArgsCall = "gint \<times> cstring list option"

definition pka_listener_channel_set_args_async :: "gint \<Rightarrow> cstring list option \<Rightarrow> ChannelSetArgsCall" where
  "pka_listener_channel_set_args_async channel args = (channel, args)"

definition pka_listener_channel_set_args_finish :: "ChannelSetArgsCall \<Rightarrow> agent \<Rightarrow> unit ans \<times> agent" where
  "pka_listener_channel_set_args_finish call =
     (case call of (channel, args) \<Rightarrow>
        with_channel channel (\<lambda>c. in_world (pka_channel_set_args c DEFAULT_CONTEXT args)))"

type_synonym ChannelSetEnvCall = "gint \<times> cstring list option"

definition pka_listener_channel_set_env_async :: "gint \<Rightarrow> cstring list option \<Rightarrow> ChannelSetEnvCall" where
  "pka_listener_channel_set_env_async channel env = (channel, env)"

definition pka_listener_channel_set_env_finish :: "ChannelSetEnvCall \<Rightarrow> agent \<Rightarrow> unit ans \<times> agent" where
  "pka_listener_channel_set_env_finish call =
     (case call of (channel, env) \<Rightarrow>
        with_channel channel (\<lambda>c. in_world (pka_channel_set_env c DEFAULT_CONTEXT env)))"

type_synonym ChannelSetKillPidCall = "gint \<times> bool"

definition pka_listener_channel_set_kill_pid_async :: "gint \<Rightarrow> bool \<Rightarrow> ChannelSetKillPidCall" where
  "pka_listener_channel_set_kill_pid_async channel kill_pid = (channel, kill_pid)"

definition pka_listener_channel_set_kill_pid_finish :: "ChannelSetKillPidCall \<Rightarrow> agent \<Rightarrow> unit ans \<times> agent" where
  "pka_listener_channel_set_kill_pid_finish call =
     (case call of (channel, kill_pid) \<Rightarrow>
        with_channel channel (\<lambda>c. in_world (pka_channel_set_kill_pid c DEFAULT_CONTEXT kill_pid)))"

type_synonym ChannelSetPidCall = "gint \<times> gint"

definition pka_listener_channel_set_pid_async :: "gint \<Rightarrow> gint \<Rightarrow> ChannelSetPidCall" where
  "pka_listener_channel_set_pid_async channel pid = (channel, pid)"

definition pka_listener_channel_set_pid_finish :: "ChannelSetPidCall \<Rightarrow> agent \<Rightarrow> unit ans \<times> agent" where
  "pka_listener_channel_set_pid_finish call =
     (case call of (channel, pid) \<Rightarrow>
        with_channel channel (\<lambda>c. in_world (pka_channel_set_pid c DEFAULT_CONTEXT (sint pid))))"

type_synonym ChannelSetTargetCall = "gint \<times> cstring option"

definition pka_listener_channel_set_target_async :: "gint \<Rightarrow> cstring option \<Rightarrow> ChannelSetTargetCall" where
  "pka_listener_channel_set_target_async channel target = (channel, target)"

definition pka_listener_channel_set_target_finish :: "ChannelSetTargetCall \<Rightarrow> agent \<Rightarrow> unit ans \<times> agent" where
  "pka_listener_channel_set_target_finish call =
     (case call of (channel, target) \<Rightarrow>
        with_channel channel (\<lambda>c. in_world (pka_channel_set_target c DEFAULT_CONTEXT target)))"

type_synonym ChannelSetWorkingDirCall = "gint \<times> cstring option"

definition pka_listener_channel_set_working_dir_async :: "gint \<Rightarrow> cstring option \<Rightarrow> ChannelSetWorkingDirCall" where
  "pka_listener_channel_set_working_dir_async channel working_dir = (channel, working_dir)"

definition pka_listener_channel_set_working_dir_finish :: "ChannelSetWorkingDirCall \<Rightarrow> agent \<Rightarrow> unit ans \<times> agent" where
  "pka_listener_channel_set_working_dir_finish call =
     (case call of (channel, working_dir) \<Rightarrow>
        with_channel channel (\<lambda>c. in_world (pka_channel_set_working_dir c DEFAULT_CONTEXT working_dir)))"

type_synonym ChannelStartCall = "gint"

definition pka_listener_channel_start_async :: "gint \<Rightarrow> ChannelStartCall" where
  "pka_listener_channel_start_async channel = channel"

definition pka_listener_channel_start_finish :: "g_spawn \<Rightarrow> cstring \<Rightarrow> ChannelStartCall \<Rightarrow> agent \<Rightarrow> unit ans \<times> agent" where
  "pka_listener_channel_start_finish spawn tmp channel =
     with_channel channel (\<lambda>c. in_world (pka_channel_start spawn tmp c DEFAULT_CONTEXT))"

type_synonym ChannelStopCall = "gint"

definition pka_listener_channel_stop_async :: "gint \<Rightarrow> ChannelStopCall" where
  "pka_listener_channel_stop_async channel = channel"

definition pka_listener_channel_stop_finish :: "ChannelStopCall \<Rightarrow> agent \<Rightarrow> unit ans \<times> agent" where
  "pka_listener_channel_stop_finish channel =
     with_channel channel (\<lambda>c. in_world (pka_channel_stop c DEFAULT_CONTEXT))"

type_synonym ChannelUnmuteCall = "gint"

definition pka_listener_channel_unmute_async :: "gint \<Rightarrow> ChannelUnmuteCall" where
  "pka_listener_channel_unmute_async channel = channel"

definition pka_listener_channel_unmute_finish :: "ChannelUnmuteCall \<Rightarrow> agent \<Rightarrow> unit ans \<times> agent" where
  "pka_listener_channel_unmute_finish channel =
     with_channel channel (\<lambda>c. in_world (pka_channel_unmute c DEFAULT_CONTEXT))"

section \<open>Encoders\<close>

text \<open>TRUE is returned and nothing is stored in \<open>pluign\<close>: the rest is between \<open>#if 0\<close> and \<open>#endif\<close>.\<close>

definition pka_listener_encoder_get_plugin_finish :: "cstring option \<Rightarrow> agent \<Rightarrow> cstring option ans \<times> agent" where
  "pka_listener_encoder_get_plugin_finish pluign = answer pluign"

section \<open>The manager\<close>

definition pka_listener_manager_add_channel_finish :: "cstring \<Rightarrow> g_time_val \<Rightarrow> agent \<Rightarrow> gint ans \<times> agent" where
  "pka_listener_manager_add_channel_finish tmp now = (\<lambda>ag.
     case pka_manager_add_channel tmp now DEFAULT_CONTEXT ag of
       (Ok c, ag) \<Rightarrow> (Ok (pka_channel_get_id c (ag_world ag)), ag)
     | (Err e, ag) \<Rightarrow> (Err e, ag)
     | (Quiet, ag) \<Rightarrow> (Quiet, ag))"

type_synonym ManagerAddSourceCall = "cstring option"

definition pka_listener_manager_add_source_async :: "cstring option \<Rightarrow> ManagerAddSourceCall" where
  "pka_listener_manager_add_source_async plugin = plugin"

definition pka_listener_manager_add_source_finish :: "ManagerAddSourceCall \<Rightarrow> agent \<Rightarrow> gint ans \<times> agent" where
  "pka_listener_manager_add_source_finish plugin =
     with_plugin plugin (\<lambda>p ag.
       case pka_manager_add_source DEFAULT_CONTEXT p ag of
         (Ok s, ag) \<Rightarrow> (Ok (pka_source_get_id s (ag_world ag)), ag)
       | (Err e, ag) \<Rightarrow> (Err e, ag)
       | (Quiet, ag) \<Rightarrow> (Quiet, ag))"

type_synonym ManagerAddSubscriptionCall = "gsize \<times> gsize"

text \<open>The two arguments are stored in the call and not looked at again.\<close>

definition pka_listener_manager_add_subscription_async :: "gsize \<Rightarrow> gsize \<Rightarrow> ManagerAddSubscriptionCall" where
  "pka_listener_manager_add_subscription_async buffer_size timeout = (buffer_size, timeout)"

definition pka_listener_manager_add_subscription_finish :: "g_time_val \<Rightarrow> ManagerAddSubscriptionCall \<Rightarrow> agent \<Rightarrow> gint ans \<times> agent" where
  "pka_listener_manager_add_subscription_finish now call =
     (case call of (buffer_size, timeout) \<Rightarrow>
        (\<lambda>ag.
          case pka_manager_add_subscription now DEFAULT_CONTEXT ag of
            (Ok r, ag) \<Rightarrow>
              (Ok (pka_subscription_get_id r (ag_world ag)), on_world (pka_subscription_unref r) ag)
          | (Err e, ag) \<Rightarrow> (Err e, ag)
          | (Quiet, ag) \<Rightarrow> (Quiet, ag)))"

definition pka_listener_manager_get_channels_finish :: "agent \<Rightarrow> gint list ans \<times> agent" where
  "pka_listener_manager_get_channels_finish = (\<lambda>ag.
     case pka_manager_get_channels DEFAULT_CONTEXT ag of
       Ok cs \<Rightarrow> (Ok (map (\<lambda>c. pka_channel_get_id c (ag_world ag)) cs), ag)
     | Err e \<Rightarrow> (Err e, ag)
     | Quiet \<Rightarrow> (Quiet, ag))"

definition pka_listener_manager_get_hostname_finish :: "cstring \<Rightarrow> agent \<Rightarrow> cstring ans \<times> agent" where
  "pka_listener_manager_get_hostname_finish hostname = answer hostname"

definition pka_listener_manager_get_plugins_finish :: "agent \<Rightarrow> cstring option list ans \<times> agent" where
  "pka_listener_manager_get_plugins_finish = (\<lambda>ag.
     case pka_manager_get_plugins DEFAULT_CONTEXT ag of
       Ok ps \<Rightarrow> (Ok (map (\<lambda>p. pka_plugin_get_id (ag_plugin_store ag p))
         (filter (\<lambda>p. pka_plugin_get_plugin_type (ag_plugin_store ag p) \<noteq> PLUGIN_LISTENER) ps)), ag)
     | Err e \<Rightarrow> (Err e, ag)
     | Quiet \<Rightarrow> (Quiet, ag))"

definition pka_listener_manager_get_sources_finish :: "agent \<Rightarrow> gint list ans \<times> agent" where
  "pka_listener_manager_get_sources_finish = (\<lambda>ag.
     case pka_manager_get_sources DEFAULT_CONTEXT ag of
       Ok ss \<Rightarrow> (Ok (map (\<lambda>s. pka_source_get_id s (ag_world ag)) ss), ag)
     | Err e \<Rightarrow> (Err e, ag)
     | Quiet \<Rightarrow> (Quiet, ag))"

definition pka_listener_manager_get_subscriptions_finish :: "agent \<Rightarrow> gint list ans \<times> agent" where
  "pka_listener_manager_get_subscriptions_finish = (\<lambda>ag.
     case pka_manager_get_subscriptions DEFAULT_CONTEXT ag of
       (Ok rs, ag) \<Rightarrow> (Ok (map (\<lambda>r. pka_subscription_get_id r (ag_world ag)) rs),
         on_world (\<lambda>w. foldl (\<lambda>w r. pka_subscription_unref r w) w rs) ag)
     | (Err e, ag) \<Rightarrow> (Err e, ag)
     | (Quiet, ag) \<Rightarrow> (Quiet, ag))"

definition pka_listener_manager_get_version_finish :: "cstring \<Rightarrow> agent \<Rightarrow> cstring ans \<times> agent" where
  "pka_listener_manager_get_version_finish PKA_VERSION_S = answer PKA_VERSION_S"

definition pka_listener_manager_ping_finish :: "g_time_val \<Rightarrow> agent \<Rightarrow> g_time_val ans \<times> agent" where
  "pka_listener_manager_ping_finish now = answer now"

type_synonym ManagerRemoveChannelCall = "gint"

text \<open>What is stored in \<open>removed\<close> is the value of the answer; here it is TRUE, always.\<close>

definition pka_listener_manager_remove_channel_async :: "gint \<Rightarrow> ManagerRemoveChannelCall" where
  "pka_listener_manager_remove_channel_async channel = channel"

definition pka_listener_manager_remove_channel_finish :: "ManagerRemoveChannelCall \<Rightarrow> agent \<Rightarrow> bool ans \<times> agent" where
  "pka_listener_manager_remove_channel_finish channel =
     with_channel channel (\<lambda>c ag.
       case pka_manager_remove_channel DEFAULT_CONTEXT c ag of
         (Ok _, ag) \<Rightarrow> (Ok True, ag)
       | (Err e, ag) \<Rightarrow> (Err e, ag)
       | (Quiet, ag) \<Rightarrow> (Quiet, ag))"

type_synonym ManagerRemoveSourceCall = "gint"

definition pka_listener_manager_remove_source_async :: "gint \<Rightarrow> ManagerRemoveSourceCall" where
  "pka_listener_manager_remove_source_async source = source"

definition pka_listener_manager_remove_source_finish :: "ManagerRemoveSourceCall \<Rightarrow> agent \<Rightarrow> unit ans \<times> agent" where
  "pka_listener_manager_remove_source_finish source =
     with_source source (pka_manager_remove_source DEFAULT_CONTEXT)"

type_synonym ManagerRemoveSubscriptionCall = "gint"

definition pka_listener_manager_remove_subscription_async :: "gint \<Rightarrow> ManagerRemoveSubscriptionCall" where
  "pka_listener_manager_remove_subscription_async subscription = subscription"

definition pka_listener_manager_remove_subscription_finish :: "ManagerRemoveSubscriptionCall \<Rightarrow> agent \<Rightarrow> bool ans \<times> agent" where
  "pka_listener_manager_remove_subscription_finish subscription =
     with_subscription subscription (\<lambda>r ag.
       case pka_manager_remove_subscription DEFAULT_CONTEXT r ag of
         (Ok _, ag) \<Rightarrow> (Ok True, ag)
       | (Err e, ag) \<Rightarrow> (Err e, ag)
       | (Quiet, ag) \<Rightarrow> (Quiet, ag))"

section \<open>Plugins\<close>

type_synonym PluginGetCopyrightCall = "cstring option"

definition pka_listener_plugin_get_copyright_async :: "cstring option \<Rightarrow> PluginGetCopyrightCall" where
  "pka_listener_plugin_get_copyright_async plugin = plugin"

definition pka_listener_plugin_get_copyright_finish :: "PluginGetCopyrightCall \<Rightarrow> agent \<Rightarrow> cstring ans \<times> agent" where
  "pka_listener_plugin_get_copyright_finish plugin =
     with_plugin plugin (\<lambda>p ag. answer (pka_plugin_get_copyright (ag_plugin_store ag p)) ag)"

type_synonym PluginGetDescriptionCall = "cstring option"

definition pka_listener_plugin_get_description_async :: "cstring option \<Rightarrow> PluginGetDescriptionCall" where
  "pka_listener_plugin_get_description_async plugin = plugin"

definition pka_listener_plugin_get_description_finish :: "PluginGetDescriptionCall \<Rightarrow> agent \<Rightarrow> cstring ans \<times> agent" where
  "pka_listener_plugin_get_description_finish plugin =
     with_plugin plugin (\<lambda>p ag. answer (pka_plugin_get_description (ag_plugin_store ag p)) ag)"

type_synonym PluginGetNameCall = "cstring option"

definition pka_listener_plugin_get_name_async :: "cstring option \<Rightarrow> PluginGetNameCall" where
  "pka_listener_plugin_get_name_async plugin = plugin"

definition pka_listener_plugin_get_name_finish :: "PluginGetNameCall \<Rightarrow> agent \<Rightarrow> cstring ans \<times> agent" where
  "pka_listener_plugin_get_name_finish plugin =
     with_plugin plugin (\<lambda>p ag. answer (pka_plugin_get_name (ag_plugin_store ag p)) ag)"

type_synonym PluginGetPluginTypeCall = "cstring option"

definition pka_listener_plugin_get_plugin_type_async :: "cstring option \<Rightarrow> PluginGetPluginTypeCall" where
  "pka_listener_plugin_get_plugin_type_async plugin = plugin"

definition pka_listener_plugin_get_plugin_type_finish :: "PluginGetPluginTypeCall \<Rightarrow> agent \<Rightarrow> pka_plugin_type ans \<times> agent" where
  "pka_listener_plugin_get_plugin_type_finish plugin =
     with_plugin plugin (\<lambda>p ag. answer (pka_plugin_get_plugin_type (ag_plugin_store ag p)) ag)"

type_synonym PluginGetVersionCall = "cstring option"

definition pka_listener_plugin_get_version_async :: "cstring option \<Rightarrow> PluginGetVersionCall" where
  "pka_listener_plugin_get_version_async plugin = plugin"

definition pka_listener_plugin_get_version_finish :: "PluginGetVersionCall \<Rightarrow> agent \<Rightarrow> cstring ans \<times> agent" where
  "pka_listener_plugin_get_version_finish plugin =
     with_plugin plugin (\<lambda>p ag. answer (pka_plugin_get_version (ag_plugin_store ag p)) ag)"

section \<open>Sources\<close>

type_synonym SourceGetPluginCall = "gint"

definition pka_listener_source_get_plugin_async :: "gint \<Rightarrow> SourceGetPluginCall" where
  "pka_listener_source_get_plugin_async source = source"

definition pka_listener_source_get_plugin_finish :: "SourceGetPluginCall \<Rightarrow> agent \<Rightarrow> cstring option ans \<times> agent" where
  "pka_listener_source_get_plugin_finish source =
     with_source source (\<lambda>s ag.
       answer (case pka_source_get_plugin s (ag_world ag) of
                 None \<Rightarrow> None | Some p \<Rightarrow> pka_plugin_get_id (ag_plugin_store ag p)) ag)"

section \<open>Subscriptions\<close>

type_synonym SubscriptionAddChannelCall = "gint \<times> gint \<times> bool"

text \<open>The field \<open>monitor\<close> is stored and not looked at.\<close>

definition pka_listener_subscription_add_channel_async :: "gint \<Rightarrow> gint \<Rightarrow> bool \<Rightarrow> SubscriptionAddChannelCall" where
  "pka_listener_subscription_add_channel_async subscription channel monitor = (subscription, channel, monitor)"

definition pka_listener_subscription_add_channel_finish :: "gtypes \<Rightarrow> SubscriptionAddChannelCall \<Rightarrow> agent \<Rightarrow> unit ans \<times> agent" where
  "pka_listener_subscription_add_channel_finish gt call =
     (case call of (subscription, channel, monitor) \<Rightarrow>
        with_subscription subscription (\<lambda>r. with_channel channel (\<lambda>c.
          in_world (pka_subscription_add_channel gt r DEFAULT_CONTEXT c))))"

type_synonym SubscriptionAddSourceCall = "gint \<times> gint"

definition pka_listener_subscription_add_source_async :: "gint \<Rightarrow> gint \<Rightarrow> SubscriptionAddSourceCall" where
  "pka_listener_subscription_add_source_async subscription source = (subscription, source)"

definition pka_listener_subscription_add_source_finish :: "gtypes \<Rightarrow> SubscriptionAddSourceCall \<Rightarrow> agent \<Rightarrow> unit ans \<times> agent" where
  "pka_listener_subscription_add_source_finish gt call =
     (case call of (subscription, source) \<Rightarrow>
        with_subscription subscription (\<lambda>r. with_source source (\<lambda>s.
          in_world (pka_subscription_add_source gt r DEFAULT_CONTEXT s))))"

type_synonym SubscriptionGetBufferCall = "gint"

definition pka_listener_subscription_get_buffer_async :: "gint \<Rightarrow> SubscriptionGetBufferCall" where
  "pka_listener_subscription_get_buffer_async subscription = subscription"

definition pka_listener_subscription_get_buffer_finish :: "SubscriptionGetBufferCall \<Rightarrow> agent \<Rightarrow> (gint \<times> gint) ans \<times> agent" where
  "pka_listener_subscription_get_buffer_finish subscription =
     with_subscription subscription (\<lambda>r ag. answer (pka_subscription_get_buffer r (ag_world ag)) ag)"

type_synonym SubscriptionGetCreatedAtCall = "gint"

definition pka_listener_subscription_get_created_at_async :: "gint \<Rightarrow> SubscriptionGetCreatedAtCall" where
  "pka_listener_subscription_get_created_at_async subscription = subscription"

definition pka_listener_subscription_get_created_at_finish :: "SubscriptionGetCreatedAtCall \<Rightarrow> agent \<Rightarrow> g_time_val ans \<times> agent" where
  "pka_listener_subscription_get_created_at_finish subscription =
     with_subscription subscription (\<lambda>r ag. answer (pka_subscription_get_created_at r (ag_world ag)) ag)"

type_synonym SubscriptionGetSourcesCall = "gint"

definition pka_listener_subscription_get_sources_async :: "gint \<Rightarrow> SubscriptionGetSourcesCall" where
  "pka_listener_subscription_get_sources_async subscription = subscription"

definition pka_listener_subscription_get_sources_finish :: "SubscriptionGetSourcesCall \<Rightarrow> agent \<Rightarrow> gint list ans \<times> agent" where
  "pka_listener_subscription_get_sources_finish subscription =
     with_subscription subscription (\<lambda>r ag. answer (map (\<lambda>s. pka_source_get_id s (ag_world ag))
       (pka_subscription_get_sources r (ag_world ag))) ag)"

type_synonym SubscriptionMuteCall = "gint \<times> bool"

definition pka_listener_subscription_mute_async :: "gint \<Rightarrow> bool \<Rightarrow> SubscriptionMuteCall" where
  "pka_listener_subscription_mute_async subscription drain = (subscription, drain)"

definition pka_listener_subscription_mute_finish :: "SubscriptionMuteCall \<Rightarrow> agent \<Rightarrow> unit ans \<times> agent" where
  "pka_listener_subscription_mute_finish call =
     (case call of (subscription, drain) \<Rightarrow>
        with_subscription subscription (\<lambda>r. in_world (pka_subscription_mute r DEFAULT_CONTEXT drain)))"

type_synonym SubscriptionRemoveChannelCall = "gint \<times> gint"

definition pka_listener_subscription_remove_channel_async :: "gint \<Rightarrow> gint \<Rightarrow> SubscriptionRemoveChannelCall" where
  "pka_listener_subscription_remove_channel_async subscription channel = (subscription, channel)"

definition pka_listener_subscription_remove_channel_finish :: "SubscriptionRemoveChannelCall \<Rightarrow> agent \<Rightarrow> unit ans \<times> agent" where
  "pka_listener_subscription_remove_channel_finish call =
     (case call of (subscription, channel) \<Rightarrow>
        with_subscription subscription (\<lambda>r. with_channel channel (\<lambda>c.
          in_world (pka_subscription_remove_channel r DEFAULT_CONTEXT c))))"

type_synonym SubscriptionRemoveSourceCall = "gint \<times> gint"

definition pka_listener_subscription_remove_source_async :: "gint \<Rightarrow> gint \<Rightarrow> SubscriptionRemoveSourceCall" where
  "pka_listener_subscription_remove_source_async subscription source = (subscription, source)"

definition pka_listener_subscription_remove_source_finish :: "SubscriptionRemoveSourceCall \<Rightarrow> agent \<Rightarrow> unit ans \<times> agent" where
  "pka_listener_subscription_remove_source_finish call =
     (case call of (subscription, source) \<Rightarrow>
        with_subscription subscription (\<lambda>r. with_source source (\<lambda>s.
          in_world (pka_subscription_remove_source r DEFAULT_CONTEXT s))))"

type_synonym SubscriptionSetBufferCall = "gint \<times> gint \<times> gint"

definition pka_listener_subscription_set_buffer_async :: "gint \<Rightarrow> gint \<Rightarrow> gint \<Rightarrow> SubscriptionSetBufferCall" where
  "pka_listener_subscription_set_buffer_async subscription timeout size_arg = (subscription, timeout, size_arg)"

definition pka_listener_subscription_set_buffer_finish :: "SubscriptionSetBufferCall \<Rightarrow> agent \<Rightarrow> unit ans \<times> agent" where
  "pka_listener_subscription_set_buffer_finish call =
     (case call of (subscription, timeout, size_arg) \<Rightarrow>
        with_subscription subscription (\<lambda>r.
          in_world (pka_subscription_set_buffer r DEFAULT_CONTEXT timeout size_arg)))"

type_synonym SubscriptionUnmuteCall = "gint"

definition pka_listener_subscription_unmute_async :: "gint \<Rightarrow> SubscriptionUnmuteCall" where
  "pka_listener_subscription_unmute_async subscription = subscription"

definition pka_listener_subscription_unmute_finish :: "SubscriptionUnmuteCall \<Rightarrow> agent \<Rightarrow> unit ans \<times> agent" where
  "pka_listener_subscription_unmute_finish subscription =
     with_subscription subscription (\<lambda>r. in_world (pka_subscription_unmute r DEFAULT_CONTEXT))"

lemmas listener_async =
  pka_listener_channel_add_source_async_def pka_listener_channel_mute_async_def
  pka_listener_channel_get_args_async_def pka_listener_channel_get_created_at_async_def
  pka_listener_channel_get_env_async_def pka_listener_channel_get_exit_status_async_def
  pka_listener_channel_get_kill_pid_async_def pka_listener_channel_get_pid_async_def
  pka_listener_channel_get_pid_set_async_def pka_listener_channel_get_sources_async_def
  pka_listener_channel_get_state_async_def pka_listener_channel_get_target_async_def
  pka_listener_channel_get_working_dir_async_def pka_listener_channel_set_args_async_def
  pka_listener_channel_set_env_async_def pka_listener_channel_set_kill_pid_async_def
  pka_listener_channel_set_pid_async_def pka_listener_channel_set_target_async_def
  pka_listener_channel_set_working_dir_async_def pka_listener_channel_start_async_def
  pka_listener_channel_stop_async_def pka_listener_channel_unmute_async_def
  pka_listener_manager_add_source_async_def pka_listener_manager_add_subscription_async_def
  pka_listener_manager_remove_channel_async_def pka_listener_manager_remove_source_async_def
  pka_listener_manager_remove_subscription_async_def pka_listener_plugin_get_copyright_async_def
  pka_listener_plugin_get_description_async_def pka_listener_plugin_get_name_async_def
  pka_listener_plugin_get_plugin_type_async_def pka_listener_plugin_get_version_async_def
  pka_listener_source_get_plugin_async_def pka_listener_subscription_add_channel_async_def
  pka_listener_subscription_add_source_async_def pka_listener_subscription_get_buffer_async_def
  pka_listener_subscription_get_created_at_async_def pka_listener_subscription_get_sources_async_def
  pka_listener_subscription_mute_async_def pka_listener_subscription_remove_channel_async_def
  pka_listener_subscription_remove_source_async_def pka_listener_subscription_set_buffer_async_def
  pka_listener_subscription_unmute_async_def

lemmas listener_finish =
  pka_listener_channel_add_source_finish_def pka_listener_channel_mute_finish_def
  pka_listener_channel_get_args_finish_def pka_listener_channel_get_created_at_finish_def
  pka_listener_channel_get_env_finish_def pka_listener_channel_get_exit_status_finish_def
  pka_listener_channel_get_kill_pid_finish_def pka_listener_channel_get_pid_finish_def
  pka_listener_channel_get_pid_set_finish_def pka_listener_channel_get_sources_finish_def
  pka_listener_channel_get_state_finish_def pka_listener_channel_get_target_finish_def
  pka_listener_channel_get_working_dir_finish_def pka_listener_channel_set_args_finish_def
  pka_listener_channel_set_env_finish_def pka_listener_channel_set_kill_pid_finish_def
  pka_listener_channel_set_pid_finish_def pka_listener_channel_set_target_finish_def
  pka_listener_channel_set_working_dir_finish_def pka_listener_channel_start_finish_def
  pka_listener_channel_stop_finish_def pka_listener_channel_unmute_finish_def
  pka_listener_manager_add_channel_finish_def pka_listener_manager_add_source_finish_def
  pka_listener_manager_add_subscription_finish_def pka_listener_manager_get_channels_finish_def
  pka_listener_manager_get_hostname_finish_def pka_listener_manager_get_plugins_finish_def
  pka_listener_manager_get_sources_finish_def pka_listener_manager_get_subscriptions_finish_def
  pka_listener_manager_get_version_finish_def pka_listener_manager_ping_finish_def
  pka_listener_manager_remove_channel_finish_def pka_listener_manager_remove_source_finish_def
  pka_listener_manager_remove_subscription_finish_def pka_listener_plugin_get_copyright_finish_def
  pka_listener_plugin_get_description_finish_def pka_listener_plugin_get_name_finish_def
  pka_listener_plugin_get_plugin_type_finish_def pka_listener_plugin_get_version_finish_def
  pka_listener_source_get_plugin_finish_def pka_listener_subscription_add_channel_finish_def
  pka_listener_subscription_add_source_finish_def pka_listener_subscription_get_buffer_finish_def
  pka_listener_subscription_get_created_at_finish_def pka_listener_subscription_get_sources_finish_def
  pka_listener_subscription_mute_finish_def pka_listener_subscription_remove_channel_finish_def
  pka_listener_subscription_remove_source_finish_def pka_listener_subscription_set_buffer_finish_def
  pka_listener_subscription_unmute_finish_def
  pka_listener_encoder_get_plugin_finish_def

end
