(* ===== verification/Agent_Protocol.thy ===== *)
theory Agent_Protocol
  imports Pka_Channel
begin

text \<open>
  The runs of an agent: the operations of channels, sources and subscriptions in any order and with
  any arguments, and the main loop emitting the queued signals in between. The invariants relate the
  state of a channel to its sources and to the signals that a source has been sent.
\<close>

section \<open>Steps\<close>

text \<open>The second component is what the main loop has emitted so far, oldest first.\<close>

type_synonym run_state = "world \<times> (source_ref \<times> source_signal) list"

inductive agent_step :: "gtypes \<Rightarrow> run_state \<Rightarrow> run_state \<Rightarrow> bool" for gt where
  step_start: "agent_step gt (w, em) (snd (pka_channel_start spawn tmp c ctx w), em)"
| step_stop: "agent_step gt (w, em) (snd (pka_channel_stop c ctx w), em)"
| step_mute: "agent_step gt (w, em) (snd (pka_channel_mute c ctx w), em)"
| step_unmute: "agent_step gt (w, em) (snd (pka_channel_unmute c ctx w), em)"
| step_exited: "agent_step gt (w, em) (pka_channel_inferior_exited pid status c w, em)"
| step_channel_add_source: "agent_step gt (w, em) (snd (pka_channel_add_source gt c ctx s w), em)"
| step_set_target: "agent_step gt (w, em) (snd (pka_channel_set_target c ctx target w), em)"
| step_set_working_dir: "agent_step gt (w, em) (snd (pka_channel_set_working_dir c ctx dir w), em)"
| step_set_args: "agent_step gt (w, em) (snd (pka_channel_set_args c ctx args w), em)"
| step_set_env: "agent_step gt (w, em) (snd (pka_channel_set_env c ctx env w), em)"
| step_set_pid: "agent_step gt (w, em) (snd (pka_channel_set_pid c ctx pid w), em)"
| step_set_kill_pid: "agent_step gt (w, em) (snd (pka_channel_set_kill_pid c ctx b w), em)"
| step_sub_add_source: "agent_step gt (w, em) (snd (pka_subscription_add_source gt r ctx s w), em)"
| step_sub_remove_source: "agent_step gt (w, em) (snd (pka_subscription_remove_source r ctx s w), em)"
| step_sub_add_channel: "agent_step gt (w, em) (snd (pka_subscription_add_channel gt r ctx c w), em)"
| step_sub_remove_channel:
    "agent_step gt (w, em) (snd (pka_subscription_remove_channel r ctx c w), em)"
| step_deliver_manifest: "agent_step gt (w, em) (pka_source_deliver_manifest gt s am w, em)"
| step_deliver_sample: "agent_step gt (w, em) (pka_source_deliver_sample s p w, em)"
| step_source_stopped: "agent_step gt (w, em) (pka_source_notify_stopped s w, em)"
| step_emit: "pka_source_emit w = (Some e, w') \<Longrightarrow> agent_step gt (w, em) (w', em @ [e])"

inductive agent_run :: "gtypes \<Rightarrow> run_state \<Rightarrow> run_state \<Rightarrow> bool" for gt where
  run_refl: "agent_run gt x x"
| run_step: "agent_run gt x y \<Longrightarrow> agent_step gt y z \<Longrightarrow> agent_run gt x z"

text \<open>An invariant that every step keeps holds after every run.\<close>

lemma run_invariant:
  assumes "\<And>y z. I y \<Longrightarrow> agent_step gt y z \<Longrightarrow> I z"
  shows "agent_run gt x y \<Longrightarrow> I x \<Longrightarrow> I y"
  by (induction rule: agent_run.induct) (auto intro: assms)

section \<open>The life of a source\<close>

text \<open>
  A source is started when it is not running and stopped when it is: the automaton that a sequence of
  signals must follow. The other signals do not move it.
\<close>

fun life_step :: "bool option \<Rightarrow> source_signal \<Rightarrow> bool option" where
  "life_step (Some False) (Started _) = Some True"
| "life_step (Some True) (Started _) = None"
| "life_step (Some True) Stopped = Some False"
| "life_step (Some False) Stopped = None"
| "life_step None _ = None"
| "life_step st _ = st"

definition life :: "source_signal list \<Rightarrow> bool option" where
  "life sigs = foldl life_step (Some False) sigs"

lemma life_append_one: "life (sigs @ [x]) = life_step (life sigs) x"
  by (simp add: life_def)

definition idle_signal :: "source_signal \<Rightarrow> bool" where
  "idle_signal x \<longleftrightarrow> x = Muted \<or> x = Unmuted \<or> x = Reset"

lemma life_step_idle: "idle_signal x \<Longrightarrow> life_step st x = st"
  by (cases "(st, x)" rule: life_step.cases) (auto simp: idle_signal_def)

lemma life_idle:
  "\<forall>x \<in> set xs. idle_signal x \<Longrightarrow> life (sigs @ xs) = life sigs"
  by (induction xs rule: rev_induct) (simp_all add: life_append_one life_step_idle flip: append_assoc)

section \<open>The invariant\<close>

definition live_state :: "pka_channel_state \<Rightarrow> bool" where
  "live_state st \<longleftrightarrow> st = CHANNEL_RUNNING \<or> st = CHANNEL_MUTED"

definition agent_inv :: "run_state \<Rightarrow> bool" where
  "agent_inv x \<longleftrightarrow> (case x of (w, em) \<Rightarrow>
     (\<forall>c s. s \<in> set (ch_sources (w_channels w c)) \<longrightarrow> so_channel (w_sources w s) = Some c) \<and>
     (\<forall>c. distinct (ch_sources (w_channels w c))) \<and>
     (\<forall>s. so_running (w_sources w s) \<longrightarrow>
        (\<exists>c. s \<in> set (ch_sources (w_channels w c)) \<and> live_state (ch_state (w_channels w c)))) \<and>
     (\<forall>s. life (sigs_of s (em @ w_queue w)) = Some (so_running (w_sources w s))))"

text \<open>
  The start: objects just created, no signal queued.
\<close>

definition initial_world :: "world \<Rightarrow> bool" where
  "initial_world w \<longleftrightarrow>
     (\<forall>c. ch_state (w_channels w c) = CHANNEL_READY \<and> ch_sources (w_channels w c) = [] \<and>
        ch_handlers (w_channels w c) = [] \<and> ch_pid (w_channels w c) = 0) \<and>
     (\<forall>s. \<not> so_running (w_sources w s) \<and> so_channel (w_sources w s) = None \<and>
        so_subscriptions (w_sources w s) = [] \<and> so_manifest (w_sources w s) = None) \<and>
     w_queue w = [] \<and> w_delivered w = [] \<and> w_killed w = [] \<and> w_spawned w = [] \<and>
     w_watches w = [] \<and> \<not> w_fault w"

lemma agent_inv_initial: "initial_world w \<Longrightarrow> agent_inv (w, [])"
  by (simp add: initial_world_def agent_inv_def life_def)

section \<open>Changes that do not concern the lives of sources\<close>

definition quiet :: "world \<Rightarrow> world \<Rightarrow> bool" where
  "quiet w w' \<longleftrightarrow>
     (\<forall>s. so_running (w_sources w' s) = so_running (w_sources w s) \<and>
          so_channel (w_sources w' s) = so_channel (w_sources w s)) \<and>
     (\<forall>c. ch_sources (w_channels w' c) = ch_sources (w_channels w c) \<and>
          ch_state (w_channels w' c) = ch_state (w_channels w c)) \<and>
     (\<exists>q. w_queue w' = w_queue w @ q \<and> (\<forall>e \<in> set q. idle_signal (snd e)))"

lemma quiet_refl: "quiet w w"
  by (simp add: quiet_def)

lemma quiet_trans: "quiet w w' \<Longrightarrow> quiet w' w'' \<Longrightarrow> quiet w w''"
  unfolding quiet_def by (auto simp: ball_Un)

lemma quietI:
  assumes "\<And>s. so_running (w_sources w' s) = so_running (w_sources w s)"
    and "\<And>s. so_channel (w_sources w' s) = so_channel (w_sources w s)"
    and "\<And>c. ch_sources (w_channels w' c) = ch_sources (w_channels w c)"
    and "\<And>c. ch_state (w_channels w' c) = ch_state (w_channels w c)"
    and "w_queue w' = w_queue w @ q" "\<forall>e \<in> set q. idle_signal (snd e)"
  shows "quiet w w'"
  using assms by (auto simp: quiet_def)

lemma idle_simps [simp]: "idle_signal Muted" "idle_signal Unmuted" "idle_signal Reset"
  by (simp_all add: idle_signal_def)

lemma agent_inv_quiet:
  assumes inv: "agent_inv (w, em)" and q: "quiet w w'"
  shows "agent_inv (w', em)"
proof -
  obtain q where queue: "w_queue w' = w_queue w @ q" "\<forall>e \<in> set q. idle_signal (snd e)"
    using q by (auto simp: quiet_def)
  have "life (sigs_of s (em @ w_queue w')) = life (sigs_of s (em @ w_queue w))" for s
    using life_idle [of "sigs_of s q" "sigs_of s (em @ w_queue w)"] queue by (auto simp: sigs_of_def)
  then show ?thesis
    using inv q by (simp add: agent_inv_def quiet_def)
qed

text \<open>
  What the operations that only concern subscribers do is made of a few primitive changes. Any relation
  between worlds that is a preorder and holds of the primitive changes holds of the operations.
\<close>

locale subscriber_frame =
  fixes R :: "world \<Rightarrow> world \<Rightarrow> bool"
  assumes refl: "R w w"
    and trans: "R w w' \<Longrightarrow> R w' w'' \<Longrightarrow> R w w''"
    and on_use: "R w (use_sub r w)"
    and on_sub: "(\<And>x. su_freed x \<Longrightarrow> su_freed (h x)) \<Longrightarrow> R w (upd_sub r h w)"
    and on_handlers: "R w (upd_channel c (\<lambda>x. x\<lparr>ch_handlers := hs x\<rparr>) w)"
    and on_source: "(\<And>x. so_running (f x) = so_running x) \<Longrightarrow> (\<And>x. so_channel (f x) = so_channel x) \<Longrightarrow>
      R w (upd_source s f w)"
    and on_queue: "idle_signal x \<Longrightarrow> R w (enqueue s x w)"
    and on_manifest: "R w (pka_subscription_deliver_manifest gt r s m w)"
    and on_sample: "R w (pka_subscription_deliver_sample r s mo p w)"
begin

lemma fold: "(\<And>w x. x \<in> set xs \<Longrightarrow> R w (f w x)) \<Longrightarrow> R w (foldl f w xs)"
proof (induction xs arbitrary: w)
  case (Cons x xs)
  have "R w (f w x)"
    using Cons.prems by simp
  moreover have "R (f w x) (foldl f (f w x) xs)"
    using Cons.prems by (intro Cons.IH) simp
  ultimately show ?case
    by (simp add: trans [of w "f w x"])
qed (simp add: refl)

lemma branch: "R w a \<Longrightarrow> R w b \<Longrightarrow> R w (if p then a else b)"
  by simp

lemma sub_ref: "R w (pka_subscription_ref r w)"
  unfolding pka_subscription_ref_def Let_def
  by (intro branch on_use) (rule trans [OF on_use on_sub], simp)

lemma sub_unref: "R w (pka_subscription_unref r w)"
proof -
  have 1: "R w (upd_sub r (\<lambda>x. x\<lparr>su_ref_count := n x\<rparr>) (use_sub r w))" for n
    by (rule trans [OF on_use on_sub]) simp
  show ?thesis
    unfolding pka_subscription_unref_def pka_subscription_destroy_def Let_def
    by (intro branch on_use 1) (rule trans [OF 1 on_sub], simp)
qed

lemma deliver_sample: "R w (pka_source_deliver_sample s p w)"
  unfolding pka_source_deliver_sample_def Let_def by (rule fold, rule on_sample)

lemma deliver_manifest: "R w (pka_source_deliver_manifest gt s am w)"
proof -
  have 1: "R w (upd_source s (\<lambda>x. x\<lparr>so_manifest := m\<rparr>) w)" for m
    by (rule on_source) simp_all
  show ?thesis
    unfolding pka_source_deliver_manifest_def Let_def
    by (rule trans [OF 1]) (rule fold, rule on_manifest)
qed

lemma add_subscription_late: "R w (add_subscription_deliver gt s r m w)"
  by (simp add: add_subscription_deliver_def refl on_manifest split: option.split)

lemma add_subscription_early: "R w (snd (add_subscription_locked s r w))"
proof -
  have 1: "R v (upd_source s (\<lambda>x. x\<lparr>so_subscriptions := so_subscriptions x @ [r]\<rparr>) v)" for v
    by (rule on_source) simp_all
  have 2: "R w (upd_source s (\<lambda>x. x\<lparr>so_subscriptions := so_subscriptions x @ [r]\<rparr>)
      (pka_subscription_ref r w))"
    by (rule trans [OF sub_ref 1])
  show ?thesis
    unfolding add_subscription_locked_def Let_def snd_conv source_queues
    by (intro branch 2 trans [OF 2 on_queue]) simp
qed

lemma source_add_subscription: "R w (pka_source_add_subscription gt s r w)"
  unfolding pka_source_add_subscription_def case_prod_beta
  by (rule trans [OF add_subscription_early add_subscription_late])

lemma source_remove_subscription: "R w (pka_source_remove_subscription s r w)"
proof -
  let ?f = "upd_source s (\<lambda>x. x\<lparr>so_subscriptions := ptr_array_remove_fast r (so_subscriptions x)\<rparr>)"
  have 1: "R w (?f w)"
    by (rule on_source) simp_all
  let ?u = "if r \<in> set (so_subscriptions (w_sources w s))
    then pka_subscription_unref r (?f w) else ?f w"
  have 2: "R w ?u"
    by (intro branch 1 trans [OF 1 sub_unref])
  show ?thesis
    unfolding pka_source_remove_subscription_def Let_def source_queues
    by (intro branch 2 trans [OF 2 on_queue]) simp
qed

lemma sub_add_source: "R w (snd (pka_subscription_add_source gt r ctx s w))"
proof -
  have "R w (upd_sub r (\<lambda>x. x\<lparr>su_sources := f x\<rparr>) (use_sub r w))" for f
    by (rule trans [OF on_use on_sub]) simp
  then show ?thesis
    unfolding pka_subscription_add_source_def Let_def snd_conv
    by (rule trans) (rule source_add_subscription)
qed

lemma sub_remove_source: "R w (snd (pka_subscription_remove_source r ctx s w))"
proof -
  have "R w (use_sub r (pka_source_remove_subscription s r w))"
    by (rule trans [OF source_remove_subscription on_use])
  then show ?thesis
    unfolding pka_subscription_remove_source_def Let_def snd_conv
    by (rule trans) (rule on_sub, simp)
qed

lemma sub_add_channel: "R w (snd (pka_subscription_add_channel gt r ctx c w))"
proof -
  have "R w (upd_sub r (\<lambda>x. x\<lparr>su_channels := f x\<rparr>) (use_sub r w))" for f
    by (rule trans [OF on_use on_sub]) simp
  then have "R w (upd_channel c (\<lambda>x. x\<lparr>ch_handlers := g x\<rparr>)
      (upd_sub r (\<lambda>x. x\<lparr>su_channels := f x\<rparr>) (use_sub r w)))" for f g
    by (rule trans) (rule on_handlers)
  then show ?thesis
    unfolding pka_subscription_add_channel_def Let_def snd_conv
    by (rule trans) (rule fold, rule sub_add_source)
qed

lemma sub_remove_channel: "R w (snd (pka_subscription_remove_channel r ctx c w))"
proof -
  have 1: "R w (upd_channel c (\<lambda>x. x\<lparr>ch_handlers := g x\<rparr>) (use_sub r w))" for g
    by (rule trans [OF on_use on_handlers])
  have 2: "R v (foldl (\<lambda>w s. snd (pka_subscription_remove_source r ctx s w)) v xs)" for v xs
    by (rule fold, rule sub_remove_source)
  have 3: "R v (upd_sub r (\<lambda>x. x\<lparr>su_channels := f x\<rparr>) (use_sub r v))" for v f
    by (rule trans [OF on_use on_sub]) simp
  show ?thesis
    unfolding pka_subscription_remove_channel_def Let_def snd_conv
    by (rule trans [OF trans [OF 1 2] 3])
qed

lemma source_added_handlers: "R w (emit_source_added gt c s w)"
  unfolding emit_source_added_def pka_subscription_channel_source_added_def
  by (rule fold, rule sub_add_source)

lemmas subscriber_ops =
  sub_add_source sub_remove_source sub_add_channel sub_remove_channel deliver_manifest deliver_sample

end

lemma enqueue_quiet: "idle_signal x \<Longrightarrow> quiet w (enqueue s x w)"
  by (rule quietI [where q = "[(s, x)]"]) (simp_all add: world_simps)

lemma upd_channel_quiet:
  assumes "\<And>x. ch_state (f x) = ch_state x" "\<And>x. ch_sources (f x) = ch_sources x"
  shows "quiet w (upd_channel c f w)"
  by (rule quietI [where q = "[]"]) (simp_all add: world_simps assms)

interpretation quiet: subscriber_frame quiet
proof unfold_locales
  fix w w' w''
  assume "quiet w w'" "quiet w' w''"
  then show "quiet w w''" by (rule quiet_trans)
qed (rule quiet_refl | (rule enqueue_quiet; assumption) | (rule upd_channel_quiet; simp)
    | (rule quietI [where q = "[]"]; simp add: world_simps))+

text \<open>Changes that leave alone what the agent does to processes, and of a channel all but its handlers.\<close>

definition subscribing :: "world \<Rightarrow> world \<Rightarrow> bool" where
  "subscribing w w' \<longleftrightarrow>
     (\<forall>c. \<exists>hs. w_channels w' c = (w_channels w c)\<lparr>ch_handlers := hs\<rparr>) \<and>
     w_killed w' = w_killed w \<and> w_spawned w' = w_spawned w \<and> w_watches w' = w_watches w"

lemma subscribing_trans: "subscribing w w' \<Longrightarrow> subscribing w' w'' \<Longrightarrow> subscribing w w''"
proof -
  assume 1: "subscribing w w'" and 2: "subscribing w' w''"
  have "\<exists>hs. w_channels w'' c = (w_channels w c)\<lparr>ch_handlers := hs\<rparr>" for c
  proof -
    obtain hs where a: "w_channels w' c = (w_channels w c)\<lparr>ch_handlers := hs\<rparr>"
      using 1 by (auto simp: subscribing_def)
    obtain hs' where "w_channels w'' c = (w_channels w' c)\<lparr>ch_handlers := hs'\<rparr>"
      using 2 by (auto simp: subscribing_def)
    with a have "w_channels w'' c = (w_channels w c)\<lparr>ch_handlers := hs'\<rparr>" by simp
    then show ?thesis ..
  qed
  with 1 2 show ?thesis by (simp add: subscribing_def)
qed

lemma channel_handlers_same: "\<exists>hs. x = x\<lparr>ch_handlers := hs\<rparr>" for x :: pka_channel
  by (intro exI [of _ "ch_handlers x"]) simp

lemma subscribing_same:
  "w_channels w' = w_channels w \<Longrightarrow> w_killed w' = w_killed w \<Longrightarrow> w_spawned w' = w_spawned w \<Longrightarrow>
     w_watches w' = w_watches w \<Longrightarrow> subscribing w w'"
  by (simp add: subscribing_def channel_handlers_same)

lemma subscribing_handlers: "subscribing w (upd_channel c (\<lambda>x. x\<lparr>ch_handlers := hs x\<rparr>) w)"
proof -
  have "\<exists>hs'. w_channels (upd_channel c (\<lambda>x. x\<lparr>ch_handlers := hs x\<rparr>) w) d =
      (w_channels w d)\<lparr>ch_handlers := hs'\<rparr>" for d
    by (intro exI [of _ "if d = c then hs (w_channels w d) else ch_handlers (w_channels w d)"])
      (simp add: world_simps)
  then show ?thesis
    by (simp add: subscribing_def world_simps)
qed

interpretation subscribing: subscriber_frame subscribing
proof unfold_locales
  fix w w' w''
  assume "subscribing w w'" "subscribing w' w''"
  then show "subscribing w w''" by (rule subscribing_trans)
next
  fix w c hs
  show "subscribing w (upd_channel c (\<lambda>x. x\<lparr>ch_handlers := hs x\<rparr>) w)"
    by (rule subscribing_handlers)
qed (rule subscribing_same; simp add: world_simps)+

lemma subscribing_channel:
  assumes "subscribing w w'"
  shows "ch_state (w_channels w' c) = ch_state (w_channels w c)"
    "ch_pid (w_channels w' c) = ch_pid (w_channels w c)"
    "ch_pid_set (w_channels w' c) = ch_pid_set (w_channels w c)"
    "ch_target (w_channels w' c) = ch_target (w_channels w c)"
    "ch_args (w_channels w' c) = ch_args (w_channels w c)"
    "ch_env (w_channels w' c) = ch_env (w_channels w c)"
    "ch_working_dir (w_channels w' c) = ch_working_dir (w_channels w c)"
proof -
  obtain hs where "w_channels w' c = (w_channels w c)\<lparr>ch_handlers := hs\<rparr>"
    using assms by (auto simp: subscribing_def)
  then show "ch_state (w_channels w' c) = ch_state (w_channels w c)"
    "ch_pid (w_channels w' c) = ch_pid (w_channels w c)"
    "ch_pid_set (w_channels w' c) = ch_pid_set (w_channels w c)"
    "ch_target (w_channels w' c) = ch_target (w_channels w c)"
    "ch_args (w_channels w' c) = ch_args (w_channels w c)"
    "ch_env (w_channels w' c) = ch_env (w_channels w c)"
    "ch_working_dir (w_channels w' c) = ch_working_dir (w_channels w c)"
    by simp_all
qed

text \<open>A fault is never taken back, and memory that is freed stays freed.\<close>

definition worse :: "world \<Rightarrow> world \<Rightarrow> bool" where
  "worse w w' \<longleftrightarrow> (w_fault w \<longrightarrow> w_fault w') \<and>
     (\<forall>r. su_freed (w_subs w r) \<longrightarrow> su_freed (w_subs w' r))"

interpretation worse: subscriber_frame worse
  by unfold_locales (auto simp: worse_def world_simps)

section \<open>Rounds of notices keep the invariant\<close>

lemma agent_inv_member:
  "agent_inv (w, em) \<Longrightarrow> s \<in> set (ch_sources (w_channels w c)) \<Longrightarrow> so_channel (w_sources w s) = Some c"
  by (auto simp: agent_inv_def)

lemma agent_inv_running:
  assumes inv: "agent_inv (w, em)"
    and "s \<in> set (ch_sources (w_channels w c))" "so_running (w_sources w s)"
  shows "live_state (ch_state (w_channels w c))"
proof -
  obtain d where d: "s \<in> set (ch_sources (w_channels w d))" "live_state (ch_state (w_channels w d))"
    using inv assms(3) by (auto simp: agent_inv_def)
  with agent_inv_member [OF inv d(1)] agent_inv_member [OF inv assms(2)] show ?thesis by simp
qed

lemma agent_inv_distinct: "agent_inv (w, em) \<Longrightarrow> distinct (ch_sources (w_channels w c))"
  by (simp add: agent_inv_def)

lemma agent_inv_life:
  "agent_inv (w, em) \<Longrightarrow> life (sigs_of s em @ sigs_of s (w_queue w)) = Some (so_running (w_sources w s))"
  by (simp add: agent_inv_def)

lemma life_append: "life (xs @ ys) = foldl life_step (life xs) ys"
  by (simp add: life_def)

lemma agent_inv_round:
  assumes inv: "agent_inv (w, em)"
    and chs: "\<And>d. ch_sources (w_channels w' d) = ch_sources (w_channels w d)"
    and sts: "\<And>d. d \<noteq> c \<Longrightarrow> ch_state (w_channels w' d) = ch_state (w_channels w d)"
    and src: "\<And>s. w_sources w' s =
      (if s \<in> set (ch_sources (w_channels w c)) then g (w_sources w s) else w_sources w s)"
    and que: "\<And>s. sigs_of s (w_queue w') = sigs_of s (w_queue w) @
      (if s \<in> set (ch_sources (w_channels w c)) then q (w_sources w s) else [])"
    and keep: "\<And>x. so_channel (g x) = so_channel x"
    and live: "\<And>s. s \<in> set (ch_sources (w_channels w c)) \<Longrightarrow> so_running (g (w_sources w s)) \<Longrightarrow>
      live_state (ch_state (w_channels w' c))"
    and moves: "\<And>s. s \<in> set (ch_sources (w_channels w c)) \<Longrightarrow>
      foldl life_step (Some (so_running (w_sources w s))) (q (w_sources w s)) =
        Some (so_running (g (w_sources w s)))"
  shows "agent_inv (w', em)"
proof -
  have running: "\<exists>d. s \<in> set (ch_sources (w_channels w' d)) \<and> live_state (ch_state (w_channels w' d))"
    if r: "so_running (w_sources w' s)" for s
  proof (cases "s \<in> set (ch_sources (w_channels w c))")
    case True
    then show ?thesis using r live [OF True] by (auto simp: src chs)
  next
    case False
    then obtain d where "s \<in> set (ch_sources (w_channels w d))" "live_state (ch_state (w_channels w d))"
      using r inv by (auto simp: src agent_inv_def)
    moreover from this False have "d \<noteq> c" by auto
    ultimately show ?thesis using sts [of d] by (intro exI [of _ d]) (simp add: chs)
  qed
  have "life (sigs_of s (em @ w_queue w')) = Some (so_running (w_sources w' s))" for s
  proof (cases "s \<in> set (ch_sources (w_channels w c))")
    case True
    then have "sigs_of s (em @ w_queue w') = (sigs_of s em @ sigs_of s (w_queue w)) @ q (w_sources w s)"
      by (simp add: que)
    then have "life (sigs_of s (em @ w_queue w')) =
        foldl life_step (Some (so_running (w_sources w s))) (q (w_sources w s))"
      by (simp only: life_append agent_inv_life [OF inv, unfolded life_append])
    then show ?thesis
      using True moves [OF True] by (simp add: src)
  qed (simp add: que src agent_inv_life [OF inv])
  then show ?thesis
    using inv running by (auto simp: agent_inv_def chs src keep)
qed

context source_notice
begin

lemma agent_inv_notify:
  assumes inv: "agent_inv (w, em)"
    and keep: "\<And>x. so_channel (g x) = so_channel x"
    and live: "\<And>s. s \<in> set (ch_sources (w_channels w c)) \<Longrightarrow> so_running (g (w_sources w s)) \<Longrightarrow> live_state st"
    and moves: "\<And>s. s \<in> set (ch_sources (w_channels w c)) \<Longrightarrow>
      foldl life_step (Some (so_running (w_sources w s))) (q (w_sources w s)) =
        Some (so_running (g (w_sources w s)))"
  shows "agent_inv (notify_sources f c (upd_channel c (\<lambda>x. x\<lparr>ch_state := st\<rparr>) w), em)"
proof (rule agent_inv_round [OF inv, where c = c and g = g and q = q])
  show "so_channel (g x) = so_channel x" for x by (rule keep)
qed (use agent_inv_distinct [OF inv] live moves in
    \<open>simp_all add: notify_sources_def round_frame round_source sigs_of_round world_simps\<close>)

lemma agent_inv_notify_then:
  assumes inv: "agent_inv (w, em)"
    and keep: "\<And>x. so_channel (g x) = so_channel x"
    and live: "\<And>s. s \<in> set (ch_sources (w_channels w c)) \<Longrightarrow> so_running (g (w_sources w s)) \<Longrightarrow> live_state st"
    and moves: "\<And>s. s \<in> set (ch_sources (w_channels w c)) \<Longrightarrow>
      foldl life_step (Some (so_running (w_sources w s))) (q (w_sources w s)) =
        Some (so_running (g (w_sources w s)))"
  shows "agent_inv (upd_channel c (\<lambda>x. x\<lparr>ch_state := st\<rparr>) (notify_sources f c w), em)"
proof (rule agent_inv_round [OF inv, where c = c and g = g and q = q])
  show "so_channel (g x) = so_channel x" for x by (rule keep)
qed (use agent_inv_distinct [OF inv] live moves in
    \<open>simp_all add: notify_sources_def round_frame round_source sigs_of_round world_simps\<close>)

end

lemma agent_inv_set_state:
  assumes inv: "agent_inv (w, em)"
    and "\<And>s. s \<in> set (ch_sources (w_channels w c)) \<Longrightarrow> so_running (w_sources w s) \<Longrightarrow> live_state st"
  shows "agent_inv (upd_channel c (\<lambda>x. x\<lparr>ch_state := st\<rparr>) w, em)"
  by (rule agent_inv_round [OF inv, where c = c and g = "\<lambda>x. x" and q = "\<lambda>x. []"])
    (use assms(2) in \<open>simp_all add: world_simps\<close>)

section \<open>Every step keeps the invariant\<close>

lemma agent_inv_reset:
  assumes inv: "agent_inv (w, em)"
  shows "agent_inv (reset_if_stopped c w, em)"
proof (cases "ch_state (w_channels w c) = CHANNEL_STOPPED")
  case True
  then have "\<not> so_running (w_sources w s)" if "s \<in> set (ch_sources (w_channels w c))" for s
    using agent_inv_running [OF inv that] by (auto simp: live_state_def)
  then have "agent_inv (upd_channel c (\<lambda>x. x\<lparr>ch_state := CHANNEL_READY\<rparr>)
      (notify_sources pka_source_notify_reset c w), em)"
    by (intro reset.agent_inv_notify_then [OF inv]) auto
  with True show ?thesis by (simp add: reset_if_stopped_def)
qed (simp add: reset_if_stopped_def inv)

lemma log_quiet:
  "quiet w (w\<lparr>w_spawned := p, w_watches := v\<rparr>)" "quiet w (w\<lparr>w_watches := v\<rparr>)"
  "quiet w (w\<lparr>w_killed := p\<rparr>)"
  by (rule quietI [where q = "[]"]; simp)+

lemma channel_spawn_quiet:
  assumes "channel_spawn spawn tmp c info w = (Some info', w')"
  shows "quiet w w'"
proof -
  have "quiet w (upd_channel c (\<lambda>x. x\<lparr>ch_pid := p\<rparr>) w)" for p
    by (rule upd_channel_quiet) simp_all
  then have "quiet w ((upd_channel c (\<lambda>x. x\<lparr>ch_pid := p\<rparr>) w)\<lparr>w_spawned := a, w_watches := b\<rparr>)" for p a b
    by (rule quiet_trans) (rule log_quiet)
  then show ?thesis
    using assms by (auto simp: channel_spawn_def Let_def quiet_refl split: if_splits option.splits)
qed

lemma channel_spawn_failed:
  "channel_spawn spawn tmp c info w = (None, w') \<Longrightarrow>
     w' = upd_channel c (\<lambda>x. x\<lparr>ch_state := CHANNEL_FAILED\<rparr>) w"
  by (auto simp: channel_spawn_def Let_def split: if_splits option.splits)

text \<open>What the locked part of \<open>pka_channel_start\<close> can do.\<close>

lemma start_locked_cases:
  assumes "channel_start_locked spawn tmp c w = (r, w')"
  obtains
    (state) "ch_state (w_channels (reset_if_stopped c w) c) \<noteq> CHANNEL_READY" "r = Err CHANNEL_ERROR_STATE"
      "w' = reset_if_stopped c w"
  | (plugin) info where "ch_state (w_channels (reset_if_stopped c w) c) = CHANNEL_READY"
      "pka_channel_init_spawn_info_locked c (reset_if_stopped c w) = (False, info)"
      "r = Err PLUGIN_CODE_ERROR" "w' = reset_if_stopped c w"
  | (failed) info where "ch_state (w_channels (reset_if_stopped c w) c) = CHANNEL_READY"
      "pka_channel_init_spawn_info_locked c (reset_if_stopped c w) = (True, info)"
      "channel_spawn spawn tmp c info (reset_if_stopped c w) = (None, w')" "r = Err SPAWN_ERROR"
  | (started) info info' w1 where "ch_state (w_channels (reset_if_stopped c w) c) = CHANNEL_READY"
      "pka_channel_init_spawn_info_locked c (reset_if_stopped c w) = (True, info)"
      "channel_spawn spawn tmp c info (reset_if_stopped c w) = (Some info', w1)" "r = Ok info'"
      "w' = upd_channel c (\<lambda>x. x\<lparr>ch_state := CHANNEL_RUNNING\<rparr>) w1"
  using assms that
  by (auto simp: channel_start_locked_def ensure_ready_def split: if_splits prod.splits bool.splits option.splits)

lemma agent_inv_start:
  assumes inv: "agent_inv (w, em)"
  shows "agent_inv (snd (pka_channel_start spawn tmp c ctx w), em)"
proof -
  obtain r w' where locked: "channel_start_locked spawn tmp c w = (r, w')"
    by (cases "channel_start_locked spawn tmp c w")
  let ?w = "reset_if_stopped c w"
  have inv1: "agent_inv (?w, em)"
    by (rule agent_inv_reset [OF inv])
  show ?thesis
    using locked
  proof (cases rule: start_locked_cases)
    case (failed info)
    have "\<not> so_running (w_sources ?w s)" if "s \<in> set (ch_sources (w_channels ?w c))" for s
      using agent_inv_running [OF inv1 that] failed(1) by (auto simp: live_state_def)
    then have "agent_inv (w', em)"
      unfolding channel_spawn_failed [OF failed(3)]
      by (intro agent_inv_set_state [OF inv1]) auto
    with failed locked show ?thesis by (simp add: pka_channel_start_def)
  next
    case (started info info' w1)
    have q: "quiet ?w w1"
      by (rule channel_spawn_quiet [OF started(3)])
    have inv2: "agent_inv (w1, em)"
      by (rule agent_inv_quiet [OF inv1 q])
    have "ch_state (w_channels w1 c) = CHANNEL_READY"
      using q started(1) by (simp add: quiet_def)
    then have "\<not> so_running (w_sources w1 s)" if "s \<in> set (ch_sources (w_channels w1 c))" for s
      using agent_inv_running [OF inv2 that] by (auto simp: live_state_def)
    then have "agent_inv (notify_sources (pka_source_notify_started info') c
        (upd_channel c (\<lambda>x. x\<lparr>ch_state := CHANNEL_RUNNING\<rparr>) w1), em)"
      by (intro started.agent_inv_notify [OF inv2]) (auto simp: live_state_def)
    with started locked show ?thesis by (simp add: pka_channel_start_def)
  qed (use locked inv1 in \<open>simp_all add: pka_channel_start_def\<close>)
qed

lemma channel_kill_quiet: "quiet w (channel_kill c w)"
  unfolding channel_kill_def by (intro quiet.branch log_quiet quiet_refl)

lemma agent_inv_stop:
  assumes inv: "agent_inv (w, em)"
  shows "agent_inv (snd (pka_channel_stop c ctx w), em)"
proof -
  have "agent_inv (notify_sources pka_source_notify_stopped c
      (upd_channel c (\<lambda>x. x\<lparr>ch_state := CHANNEL_STOPPED\<rparr>) w), em)"
    by (rule stopped.agent_inv_notify [OF inv]) simp_all
  then have "agent_inv (channel_kill c (notify_sources pka_source_notify_stopped c
      (upd_channel c (\<lambda>x. x\<lparr>ch_state := CHANNEL_STOPPED\<rparr>) w)), em)"
    by (rule agent_inv_quiet) (rule channel_kill_quiet)
  then show ?thesis
    using inv by (simp add: pka_channel_stop_def split: pka_channel_state.split)
qed

lemma agent_inv_mute:
  assumes inv: "agent_inv (w, em)"
  shows "agent_inv (snd (pka_channel_mute c ctx w), em)"
proof -
  have "agent_inv (notify_sources pka_source_notify_muted c
      (upd_channel c (\<lambda>x. x\<lparr>ch_state := CHANNEL_MUTED\<rparr>) w), em)"
    by (rule muted.agent_inv_notify [OF inv]) (auto simp: live_state_def)
  then show ?thesis
    using inv by (simp add: pka_channel_mute_def split: pka_channel_state.split)
qed

lemma agent_inv_unmute:
  assumes inv: "agent_inv (w, em)"
  shows "agent_inv (snd (pka_channel_unmute c ctx w), em)"
proof -
  have "agent_inv (notify_sources pka_source_notify_unmuted c
      (upd_channel c (\<lambda>x. x\<lparr>ch_state := CHANNEL_RUNNING\<rparr>) w), em)"
    by (rule unmuted.agent_inv_notify [OF inv]) (auto simp: live_state_def)
  then show ?thesis
    using inv by (simp add: pka_channel_unmute_def split: pka_channel_state.split)
qed

lemma agent_inv_exited:
  assumes inv: "agent_inv (w, em)"
  shows "agent_inv (pka_channel_inferior_exited pid status c w, em)"
proof -
  have 1: "quiet (w\<lparr>w_watches := ws\<rparr>)
      (upd_channel c (\<lambda>x. x\<lparr>ch_exit_status := status\<rparr>) (w\<lparr>w_watches := ws\<rparr>))" for ws
    by (rule upd_channel_quiet) simp_all
  have "agent_inv (upd_channel c (\<lambda>x. x\<lparr>ch_exit_status := status\<rparr>)
      (w\<lparr>w_watches := remove1 (pid, c) (w_watches w)\<rparr>), em)"
    by (rule agent_inv_quiet [OF inv quiet_trans [OF log_quiet(2) 1]])
  then show ?thesis
    unfolding pka_channel_inferior_exited_def Let_def by (rule agent_inv_stop)
qed

lemma agent_inv_source_stopped:
  assumes inv: "agent_inv (w, em)"
  shows "agent_inv (pka_source_notify_stopped s w, em)"
proof (cases "so_running (w_sources w s)")
  case True
  let ?w = "pka_source_notify_stopped s w"
  have chans: "w_channels ?w = w_channels w"
    by (rule stopped.notice_frame)
  have src: "w_sources ?w = (w_sources w)(s := (w_sources w s)\<lparr>so_running := False\<rparr>)"
    by (rule stopped.notice_source)
  have "sigs_of s' (em @ w_queue ?w) = sigs_of s' (em @ w_queue w) @ (if s' = s then [Stopped] else [])" for s'
    using True by (simp add: stopped.notice_queue)
  then have "life (sigs_of s' (em @ w_queue ?w)) = Some (so_running (w_sources ?w s'))" for s'
    using agent_inv_life [OF inv, of s'] True by (auto simp: life_append src)
  with inv show ?thesis
    by (auto simp: agent_inv_def chans src split: if_splits)
qed (use inv in \<open>simp add: pka_source_notify_stopped_def\<close>)

lemma agent_inv_add_source:
  assumes inv: "agent_inv (w, em)"
  shows "agent_inv (snd (pka_channel_add_source gt c ctx s w), em)"
proof (cases "so_channel (w_sources w s)")
  case None
  let ?w = "upd_channel c (\<lambda>x. x\<lparr>ch_sources := ch_sources x @ [s]\<rparr>)
    (upd_source s (\<lambda>x. x\<lparr>so_channel := Some c\<rparr>) w)"
  have fresh: "s \<notin> set (ch_sources (w_channels w d))" for d
    using None agent_inv_member [OF inv, of s d] by auto
  then have idle: "\<not> so_running (w_sources w s)"
    using inv by (auto simp: agent_inv_def)
  have "\<exists>d. s' \<in> set (ch_sources (w_channels ?w d)) \<and> live_state (ch_state (w_channels ?w d))"
    if run: "so_running (w_sources ?w s')" for s'
  proof -
    have "so_running (w_sources w s')"
      using run idle by (auto simp: world_simps split: if_splits)
    then obtain d where "s' \<in> set (ch_sources (w_channels w d))" "live_state (ch_state (w_channels w d))"
      using inv by (auto simp: agent_inv_def)
    then show ?thesis by (intro exI [of _ d]) (auto simp: world_simps)
  qed
  then have "agent_inv (?w, em)"
    using inv fresh by (auto simp: agent_inv_def world_simps)
  then have "agent_inv (emit_source_added gt c s ?w, em)"
    by (rule agent_inv_quiet) (rule quiet.source_added_handlers)
  with None show ?thesis
    by (simp add: pka_channel_add_source_def authorize_ioctl_def pka_context_is_authorized_def
        pka_source_set_channel_def)
qed (use inv in \<open>simp add: pka_channel_add_source_def authorize_ioctl_def
    pka_context_is_authorized_def pka_source_set_channel_def\<close>)

lemmas channel_setters =
  pka_channel_set_target_def pka_channel_set_working_dir_def pka_channel_set_args_def
  pka_channel_set_env_def pka_channel_set_pid_def pka_channel_set_kill_pid_def set_field_copy_def
  authorize_ioctl_def pka_context_is_authorized_def ensure_ready_def

lemma setters_quiet:
  "quiet w (snd (pka_channel_set_target c ctx target w))"
  "quiet w (snd (pka_channel_set_working_dir c ctx dir w))"
  "quiet w (snd (pka_channel_set_args c ctx args w))"
  "quiet w (snd (pka_channel_set_env c ctx env w))"
  "quiet w (snd (pka_channel_set_pid c ctx pid w))"
  "quiet w (snd (pka_channel_set_kill_pid c ctx b w))"
  by (auto simp: channel_setters quiet_refl intro!: upd_channel_quiet)

lemma agent_inv_emit:
  assumes inv: "agent_inv (w, em)" and emit: "pka_source_emit w = (Some e, w')"
  shows "agent_inv (w', em @ [e])"
proof -
  obtain q where q: "w_queue w = e # q" "w' = w\<lparr>w_queue := q\<rparr>"
    using emit by (auto simp: pka_source_emit_def split: list.splits)
  then have "sigs_of s ((em @ [e]) @ w_queue w') = sigs_of s (em @ w_queue w)" for s
    by simp
  with inv q(2) show ?thesis
    by (simp add: agent_inv_def del: sigs_of_append append_assoc)
qed

lemmas agent_inv_quiet_ops =
  setters_quiet [THEN agent_inv_quiet [rotated]]
  quiet.subscriber_ops [THEN agent_inv_quiet [rotated]]

lemma agent_inv_step:
  assumes "agent_step gt y z" "agent_inv y"
  shows "agent_inv z"
  using assms
proof (cases rule: agent_step.cases)
  case (step_emit w e w' em)
  then show ?thesis using assms by (auto intro: agent_inv_emit)
qed (use assms in \<open>auto intro: agent_inv_start agent_inv_stop agent_inv_mute agent_inv_unmute
      agent_inv_exited agent_inv_add_source agent_inv_source_stopped
      agent_inv_quiet_ops\<close>)

lemma agent_inv_run: "agent_run gt x y \<Longrightarrow> agent_inv x \<Longrightarrow> agent_inv y"
  by (rule run_invariant [where I = agent_inv]) (auto intro: agent_inv_step)

end
