(* ===== verification/Agent_Properties.thy ===== *)
theory Agent_Properties
  imports Agent_Protocol
begin

text \<open>
  What holds in every run of the agent: which changes of state a channel can make, what of a channel is
  fixed while it runs, which processes are killed, how the lives of sources follow those of channels,
  and what subscribers are handed.
\<close>

section \<open>What each operation does to the channels\<close>

lemma stop_channels:
  "w_channels (snd (pka_channel_stop c ctx w)) =
     (if live_state (ch_state (w_channels w c))
      then (w_channels w)(c := (w_channels w c)\<lparr>ch_state := CHANNEL_STOPPED\<rparr>) else w_channels w)"
  by (simp add: pka_channel_stop_def live_state_def channel_kill_def world_simps
      split: pka_channel_state.split)

lemma mute_channels:
  "w_channels (snd (pka_channel_mute c ctx w)) =
     (if ch_state (w_channels w c) = CHANNEL_RUNNING
      then (w_channels w)(c := (w_channels w c)\<lparr>ch_state := CHANNEL_MUTED\<rparr>) else w_channels w)"
  by (simp add: pka_channel_mute_def world_simps split: pka_channel_state.split)

lemma unmute_channels:
  "w_channels (snd (pka_channel_unmute c ctx w)) =
     (if ch_state (w_channels w c) = CHANNEL_MUTED
      then (w_channels w)(c := (w_channels w c)\<lparr>ch_state := CHANNEL_RUNNING\<rparr>) else w_channels w)"
  by (simp add: pka_channel_unmute_def world_simps split: pka_channel_state.split)

lemma exited_channels:
  "w_channels (pka_channel_inferior_exited pid status c w) =
     (w_channels w)(c := (w_channels w c)\<lparr>ch_exit_status := status,
        ch_state := if live_state (ch_state (w_channels w c)) then CHANNEL_STOPPED
                    else ch_state (w_channels w c)\<rparr>)"
  by (simp add: pka_channel_inferior_exited_def stop_channels world_simps)

lemma channel_kill_simps [world_simps]:
  "w_channels (channel_kill c w) = w_channels w"
  "w_sources (channel_kill c w) = w_sources w"
  "w_subs (channel_kill c w) = w_subs w"
  "w_queue (channel_kill c w) = w_queue w"
  "w_delivered (channel_kill c w) = w_delivered w"
  "w_fault (channel_kill c w) = w_fault w"
  "w_spawned (channel_kill c w) = w_spawned w"
  "w_killed (channel_kill c w) = w_killed w @
     (if ch_kill_pid (w_channels w c) \<and> \<not> ch_pid_set (w_channels w c) \<and> ch_pid (w_channels w c) \<noteq> 0
      then [ch_pid (w_channels w c)] else [])"
  by (simp_all add: channel_kill_def)

lemma reset_channels:
  "w_channels (reset_if_stopped c w) =
     (if ch_state (w_channels w c) = CHANNEL_STOPPED
      then (w_channels w)(c := (w_channels w c)\<lparr>ch_state := CHANNEL_READY\<rparr>) else w_channels w)"
  by (simp add: reset_if_stopped_def world_simps)

lemma reset_frame [world_simps]:
  "w_killed (reset_if_stopped c w) = w_killed w"
  "w_spawned (reset_if_stopped c w) = w_spawned w"
  "w_watches (reset_if_stopped c w) = w_watches w"
  by (simp_all add: reset_if_stopped_def world_simps)

text \<open>
  The states that a channel can go to, and when. An operation that does not apply leaves the state.
\<close>

fun channel_edge :: "pka_channel_state \<Rightarrow> pka_channel_state \<Rightarrow> bool" where
  "channel_edge CHANNEL_READY st \<longleftrightarrow> st = CHANNEL_RUNNING \<or> st = CHANNEL_FAILED"
| "channel_edge CHANNEL_RUNNING st \<longleftrightarrow> st = CHANNEL_MUTED \<or> st = CHANNEL_STOPPED"
| "channel_edge CHANNEL_MUTED st \<longleftrightarrow> st = CHANNEL_RUNNING \<or> st = CHANNEL_STOPPED"
| "channel_edge CHANNEL_STOPPED st \<longleftrightarrow> st = CHANNEL_READY \<or> st = CHANNEL_RUNNING \<or> st = CHANNEL_FAILED"
| "channel_edge CHANNEL_FAILED st \<longleftrightarrow> False"

lemma channel_spawn_cases:
  assumes "channel_spawn spawn tmp c info w = (r, w')"
  obtains
    (none) "r = Some info" "w' = w"
  | (failed) "r = None" "w' = upd_channel c (\<lambda>x. x\<lparr>ch_state := CHANNEL_FAILED\<rparr>) w"
  | (spawned) pid dir where "r = Some (info\<lparr>si_pid := pid, si_working_dir := Some dir\<rparr>)"
      "w' = (upd_channel c (\<lambda>x. x\<lparr>ch_pid := pid\<rparr>) w)
        \<lparr>w_spawned := w_spawned w @ [pid], w_watches := w_watches w @ [(pid, c)]\<rparr>"
  using assms that by (auto simp: channel_spawn_def Let_def world_simps split: if_splits option.splits)

text \<open>What \<open>pka_channel_start\<close> does to its channel, and to the list of spawned processes.\<close>

lemma start_effect:
  obtains st pid new where
    "w_channels (snd (pka_channel_start spawn tmp c ctx w)) =
       (w_channels w)(c := (w_channels w c)\<lparr>ch_state := st, ch_pid := pid\<rparr>)"
    "st = ch_state (w_channels w c) \<or> channel_edge (ch_state (w_channels w c)) st"
    "w_spawned (snd (pka_channel_start spawn tmp c ctx w)) = w_spawned w @ new"
    "w_killed (snd (pka_channel_start spawn tmp c ctx w)) = w_killed w"
    "pid = ch_pid (w_channels w c) \<or> new = [pid]"
proof -
  obtain r w' where locked: "channel_start_locked spawn tmp c w = (r, w')"
    by (cases "channel_start_locked spawn tmp c w")
  let ?w = "reset_if_stopped c w"
  have ready: "ch_state (w_channels w c) = CHANNEL_READY \<or> ch_state (w_channels w c) = CHANNEL_STOPPED"
    if "ch_state (w_channels ?w c) = CHANNEL_READY"
    using that by (auto simp: reset_channels split: if_splits)
  show ?thesis
    using locked
  proof (cases rule: start_locked_cases)
    case state
    with locked show ?thesis
      by (intro that [where st = "ch_state (w_channels w c)" and pid = "ch_pid (w_channels w c)" and new = "[]"])
        (auto simp: pka_channel_start_def reset_channels world_simps split: if_splits)
  next
    case (plugin info)
    with locked ready show ?thesis
      by (intro that [where st = CHANNEL_READY and pid = "ch_pid (w_channels w c)" and new = "[]"])
        (auto simp: pka_channel_start_def reset_channels world_simps)
  next
    case (failed info)
    with locked ready show ?thesis
      by (intro that [where st = CHANNEL_FAILED and pid = "ch_pid (w_channels w c)" and new = "[]"])
        (auto simp: pka_channel_start_def reset_channels channel_spawn_failed [OF failed(3)] world_simps)
  next
    case (started info info' w1)
    have w': "snd (pka_channel_start spawn tmp c ctx w) = notify_sources (pka_source_notify_started info') c w'"
      using locked started(4) by (simp add: pka_channel_start_def)
    show ?thesis
      using started(3)
    proof (cases rule: channel_spawn_cases)
      case none
      with started(5) ready [OF started(1)] show ?thesis
        by (intro that [where st = CHANNEL_RUNNING and pid = "ch_pid (w_channels w c)" and new = "[]"])
          (auto simp: w' reset_channels world_simps)
    next
      case (spawned pid dir)
      with started(5) ready [OF started(1)] show ?thesis
        by (intro that [where st = CHANNEL_RUNNING and pid = pid and new = "[pid]"])
          (auto simp: w' reset_channels world_simps)
    qed simp
  qed
qed

lemma start_others:
  assumes "d \<noteq> c"
  shows "w_channels (snd (pka_channel_start spawn tmp c ctx w)) d = w_channels w d"
  using assms by (rule_tac start_effect [of spawn tmp c ctx w]) simp

lemma setters_channels:
  "w_channels (snd (pka_channel_set_target c ctx target w)) =
     (if ch_state (w_channels w c) = CHANNEL_READY
      then (w_channels w)(c := (w_channels w c)\<lparr>ch_target := target\<rparr>) else w_channels w)"
  "w_channels (snd (pka_channel_set_working_dir c ctx dir w)) =
     (if ch_state (w_channels w c) = CHANNEL_READY
      then (w_channels w)(c := (w_channels w c)\<lparr>ch_working_dir := dir\<rparr>) else w_channels w)"
  "w_channels (snd (pka_channel_set_args c ctx args w)) =
     (if ch_state (w_channels w c) = CHANNEL_READY
      then (w_channels w)(c := (w_channels w c)\<lparr>ch_args := args\<rparr>) else w_channels w)"
  "w_channels (snd (pka_channel_set_env c ctx env w)) =
     (if ch_state (w_channels w c) = CHANNEL_READY
      then (w_channels w)(c := (w_channels w c)\<lparr>ch_env := env\<rparr>) else w_channels w)"
  "w_channels (snd (pka_channel_set_pid c ctx pid w)) =
     (if ch_state (w_channels w c) = CHANNEL_READY
      then (w_channels w)(c := (w_channels w c)\<lparr>ch_pid := pid, ch_pid_set := True, ch_target := None\<rparr>)
      else w_channels w)"
  "w_channels (snd (pka_channel_set_kill_pid c ctx b w)) =
     (w_channels w)(c := (w_channels w c)\<lparr>ch_kill_pid := b\<rparr>)"
  by (simp_all add: channel_setters world_simps)

lemma subscribing_channel_shape:
  assumes "subscribing w w'"
  shows "\<exists>hs. w_channels w' d = (w_channels w d)\<lparr>ch_handlers := hs\<rparr>"
  using assms by (simp add: subscribing_def)

lemma add_source_effect:
  obtains ss hs where "w_channels (snd (pka_channel_add_source gt c ctx s w)) d =
      (w_channels w d)\<lparr>ch_sources := ss, ch_handlers := hs\<rparr>"
    "w_killed (snd (pka_channel_add_source gt c ctx s w)) = w_killed w"
    "w_spawned (snd (pka_channel_add_source gt c ctx s w)) = w_spawned w"
proof (cases "so_channel (w_sources w s)")
  case None
  let ?w = "upd_channel c (\<lambda>x. x\<lparr>ch_sources := ch_sources x @ [s]\<rparr>)
    (upd_source s (\<lambda>x. x\<lparr>so_channel := Some c\<rparr>) w)"
  have sub: "subscribing ?w (snd (pka_channel_add_source gt c ctx s w))"
    using None subscribing.source_added_handlers
    by (simp add: pka_channel_add_source_def authorize_ioctl_def pka_context_is_authorized_def
        pka_source_set_channel_def)
  obtain hs where "w_channels (snd (pka_channel_add_source gt c ctx s w)) d =
      (w_channels ?w d)\<lparr>ch_handlers := hs\<rparr>"
    using subscribing_channel_shape [OF sub] by blast
  with sub show ?thesis
    by (intro that [where ss = "ch_sources (w_channels ?w d)" and hs = hs])
      (auto simp: subscribing_def world_simps)
next
  case (Some e)
  then show ?thesis
    by (intro that [where ss = "ch_sources (w_channels w d)" and hs = "ch_handlers (w_channels w d)"])
      (simp_all add: pka_channel_add_source_def authorize_ioctl_def pka_context_is_authorized_def
        pka_source_set_channel_def)
qed

lemma source_stopped_channels: "w_channels (pka_source_notify_stopped s w) = w_channels w"
  by (rule stopped.notice_frame)

lemma emit_channels: "pka_source_emit w = (Some e, w') \<Longrightarrow> w_channels w' = w_channels w"
  by (auto simp: pka_source_emit_def split: list.splits)

text \<open>
  What of a channel a step can change: the state along an edge, the description of the process only in
  the state READY, the sources and handlers at any time.
\<close>

definition channel_described :: "pka_channel \<Rightarrow> pka_channel \<Rightarrow> bool" where
  "channel_described x y \<longleftrightarrow>
     ch_target x = ch_target y \<and> ch_args x = ch_args y \<and> ch_env x = ch_env y \<and>
     ch_working_dir x = ch_working_dir y \<and> ch_pid_set x = ch_pid_set y"

definition channel_moved :: "pka_channel \<Rightarrow> pka_channel \<Rightarrow> bool" where
  "channel_moved x y \<longleftrightarrow>
     (ch_state y = ch_state x \<or> channel_edge (ch_state x) (ch_state y)) \<and>
     (ch_state x = CHANNEL_READY \<or> channel_described x y)"

lemma channel_moved_refl: "channel_moved x x"
  by (simp add: channel_moved_def channel_described_def)

lemma subscribing_moved:
  "subscribing w w' \<Longrightarrow> channel_moved (w_channels w d) (w_channels w' d)"
  by (simp add: channel_moved_def channel_described_def subscribing_channel)

lemma start_moved:
  "channel_moved (w_channels w d) (w_channels (snd (pka_channel_start spawn tmp c ctx w)) d)"
  by (rule start_effect [of spawn tmp c ctx w]) (auto simp: channel_moved_def channel_described_def)

lemma add_source_moved:
  "channel_moved (w_channels w d) (w_channels (snd (pka_channel_add_source gt c ctx s w)) d)"
  by (rule add_source_effect [of gt c ctx s w d]) (simp add: channel_moved_def channel_described_def)

lemma state_ops_moved:
  "channel_moved (w_channels w d) (w_channels (snd (pka_channel_stop c ctx w)) d)"
  "channel_moved (w_channels w d) (w_channels (snd (pka_channel_mute c ctx w)) d)"
  "channel_moved (w_channels w d) (w_channels (snd (pka_channel_unmute c ctx w)) d)"
  "channel_moved (w_channels w d) (w_channels (pka_channel_inferior_exited pid status c w) d)"
  by (auto simp: stop_channels mute_channels unmute_channels exited_channels live_state_def
      channel_moved_def channel_described_def)

lemma setters_moved:
  "channel_moved (w_channels w d) (w_channels (snd (pka_channel_set_target c ctx target w)) d)"
  "channel_moved (w_channels w d) (w_channels (snd (pka_channel_set_working_dir c ctx dir w)) d)"
  "channel_moved (w_channels w d) (w_channels (snd (pka_channel_set_args c ctx args w)) d)"
  "channel_moved (w_channels w d) (w_channels (snd (pka_channel_set_env c ctx env w)) d)"
  "channel_moved (w_channels w d) (w_channels (snd (pka_channel_set_pid c ctx pid w)) d)"
  "channel_moved (w_channels w d) (w_channels (snd (pka_channel_set_kill_pid c ctx b w)) d)"
  by (auto simp: setters_channels channel_moved_def channel_described_def)

lemmas moved_ops =
  start_moved add_source_moved state_ops_moved setters_moved
  subscribing.subscriber_ops [THEN subscribing_moved]

lemma agent_step_moved:
  assumes "agent_step gt y z"
  shows "channel_moved (w_channels (fst y) d) (w_channels (fst z) d)"
  using assms
  by cases (simp_all add: moved_ops source_stopped_channels emit_channels channel_moved_refl)

text \<open>A failed channel stays failed, and keeps the description of its process.\<close>

lemma agent_run_failed:
  assumes "agent_run gt x y" "ch_state (w_channels (fst x) d) = CHANNEL_FAILED"
  shows "ch_state (w_channels (fst y) d) = CHANNEL_FAILED \<and>
    channel_described (w_channels (fst x) d) (w_channels (fst y) d)"
  using assms
proof (induction rule: agent_run.induct)
  case (run_step x y z)
  with agent_step_moved [of gt y z d] show ?case
    by (auto simp: channel_moved_def channel_described_def)
qed (simp add: channel_described_def)

section \<open>The processes that are killed\<close>

definition pids_inv :: "run_state \<Rightarrow> bool" where
  "pids_inv x \<longleftrightarrow> (case x of (w, em) \<Rightarrow>
     (\<forall>c. ch_pid (w_channels w c) = 0 \<or> ch_pid_set (w_channels w c) \<or>
        ch_pid (w_channels w c) \<in> set (w_spawned w)) \<and>
     set (w_killed w) \<subseteq> set (w_spawned w))"

lemma pids_inv_initial: "initial_world w \<Longrightarrow> pids_inv (w, [])"
  by (simp add: initial_world_def pids_inv_def)

lemma pids_inv_start:
  "pids_inv (w, em) \<Longrightarrow> pids_inv (snd (pka_channel_start spawn tmp c ctx w), em)"
  by (rule start_effect [of spawn tmp c ctx w]) (auto simp: pids_inv_def)

lemma pids_inv_stop: "pids_inv (w, em) \<Longrightarrow> pids_inv (snd (pka_channel_stop c ctx w), em)"
  by (auto simp: pids_inv_def pka_channel_stop_def world_simps split: pka_channel_state.split)

lemma pids_inv_mute:
  "pids_inv (w, em) \<Longrightarrow> pids_inv (snd (pka_channel_mute c ctx w), em)"
  "pids_inv (w, em) \<Longrightarrow> pids_inv (snd (pka_channel_unmute c ctx w), em)"
  by (simp_all add: pids_inv_def pka_channel_mute_def pka_channel_unmute_def world_simps
      split: pka_channel_state.split)

lemma pids_inv_exited: "pids_inv (w, em) \<Longrightarrow> pids_inv (pka_channel_inferior_exited pid status c w, em)"
  unfolding pka_channel_inferior_exited_def Let_def
  by (rule pids_inv_stop) (simp add: pids_inv_def world_simps)

lemma pids_inv_setters:
  "pids_inv (w, em) \<Longrightarrow> pids_inv (snd (pka_channel_set_target c ctx target w), em)"
  "pids_inv (w, em) \<Longrightarrow> pids_inv (snd (pka_channel_set_working_dir c ctx dir w), em)"
  "pids_inv (w, em) \<Longrightarrow> pids_inv (snd (pka_channel_set_args c ctx args w), em)"
  "pids_inv (w, em) \<Longrightarrow> pids_inv (snd (pka_channel_set_env c ctx env w), em)"
  "pids_inv (w, em) \<Longrightarrow> pids_inv (snd (pka_channel_set_pid c ctx pid w), em)"
  "pids_inv (w, em) \<Longrightarrow> pids_inv (snd (pka_channel_set_kill_pid c ctx b w), em)"
  by (simp_all add: pids_inv_def channel_setters world_simps)

lemma pids_inv_subscribing: "subscribing w w' \<Longrightarrow> pids_inv (w, em) \<Longrightarrow> pids_inv (w', em)"
  by (simp add: pids_inv_def subscribing_channel) (simp add: subscribing_def)

lemma pids_inv_add_source:
  assumes "pids_inv (w, em)"
  shows "pids_inv (snd (pka_channel_add_source gt c ctx s w), em)"
proof -
  let ?w = "snd (pka_channel_add_source gt c ctx s w)"
  have "ch_pid (w_channels ?w d) = ch_pid (w_channels w d) \<and>
      ch_pid_set (w_channels ?w d) = ch_pid_set (w_channels w d)" for d
    by (rule add_source_effect [of gt c ctx s w d]) simp
  moreover have "w_killed ?w = w_killed w \<and> w_spawned ?w = w_spawned w"
    by (rule add_source_effect [of gt c ctx s w c]) simp
  ultimately show ?thesis
    using assms by (simp add: pids_inv_def)
qed

lemma pids_inv_source_stopped: "pids_inv (w, em) \<Longrightarrow> pids_inv (pka_source_notify_stopped s w, em)"
  by (simp add: pids_inv_def stopped.notice_frame)

lemma pids_inv_emit:
  "pids_inv (w, em) \<Longrightarrow> pka_source_emit w = (Some e, w') \<Longrightarrow> pids_inv (w', em @ [e])"
  by (auto simp: pids_inv_def pka_source_emit_def split: list.splits)

lemma pids_inv_step: "agent_step gt y z \<Longrightarrow> pids_inv y \<Longrightarrow> pids_inv z"
  by (erule agent_step.cases)
    (auto intro: pids_inv_start pids_inv_stop pids_inv_mute pids_inv_exited pids_inv_setters
      pids_inv_add_source pids_inv_source_stopped pids_inv_emit
      subscribing.subscriber_ops [THEN pids_inv_subscribing])

lemma pids_inv_run: "agent_run gt x y \<Longrightarrow> pids_inv x \<Longrightarrow> pids_inv y"
  by (rule run_invariant [where I = pids_inv]) (auto intro: pids_inv_step)

section \<open>An agent to try things on\<close>

text \<open>
  Object \<open>n\<close> of each kind has the identifier \<open>n\<close>; every attempt to spawn a process gives the process
  77.
\<close>

definition demo_world :: world where
  "demo_world =
     \<lparr>w_channels = (\<lambda>c. pka_channel_init (word_of_nat c) [47] \<lparr>tv_secs = 0, tv_usecs = 0\<rparr>),
      w_sources = (\<lambda>s. pka_source_init (word_of_nat s) None),
      w_subs = (\<lambda>r. pka_subscription_new (word_of_nat r) \<lparr>tv_secs = 0, tv_usecs = 0\<rparr>),
      w_queue = [], w_delivered = [], w_killed = [], w_spawned = [], w_watches = [], w_fault = False\<rparr>"

definition demo_spawn :: g_spawn where
  "demo_spawn dir argv env = Some 77"

definition demo_ready :: world where
  "demo_ready = snd (pka_channel_set_target 0 pka_context_default (Some [108, 115])
     (snd (pka_channel_add_source glib_gtypes 0 pka_context_default 0 demo_world)))"

definition demo_running :: world where
  "demo_running = snd (pka_channel_start demo_spawn [47] 0 pka_context_default demo_ready)"

definition demo_stopped :: world where
  "demo_stopped = snd (pka_channel_stop 0 pka_context_default demo_running)"

lemma demo_initial: "initial_world demo_world"
  by (simp add: initial_world_def demo_world_def pka_channel_init_def pka_source_init_def)

lemma demo_run:
  "agent_run glib_gtypes (demo_world, []) (demo_ready, [])"
  "agent_run glib_gtypes (demo_world, []) (demo_running, [])"
  "agent_run glib_gtypes (demo_world, []) (demo_stopped, [])"
proof -
  show 1: "agent_run glib_gtypes (demo_world, []) (demo_ready, [])"
    unfolding demo_ready_def
    by (rule run_step [OF run_step [OF run_refl step_channel_add_source] step_set_target])
  then show 2: "agent_run glib_gtypes (demo_world, []) (demo_running, [])"
    unfolding demo_running_def by (rule run_step) (rule step_start)
  then show "agent_run glib_gtypes (demo_world, []) (demo_stopped, [])"
    unfolding demo_stopped_def by (rule run_step) (rule step_stop)
qed

definition demo_info :: pka_spawn_info where
  "demo_info = \<lparr>si_pid = 0, si_target = Some [108, 115], si_args = None, si_env = None,
     si_working_dir = Some [47], si_standard_input = 0, si_standard_output = 0, si_standard_error = 0\<rparr>"

lemma demo_ready_channel:
  "w_channels demo_ready 0 = (pka_channel_init 0 [47] \<lparr>tv_secs = 0, tv_usecs = 0\<rparr>)
     \<lparr>ch_sources := [0], ch_target := Some [108, 115]\<rparr>"
  "w_sources demo_ready 0 = (pka_source_init 0 None)\<lparr>so_channel := Some 0\<rparr>"
  "w_queue demo_ready = []" "w_spawned demo_ready = []" "w_killed demo_ready = []"
  "w_watches demo_ready = []"
  by (simp_all add: demo_ready_def demo_world_def pka_channel_add_source_def authorize_ioctl_def
      pka_context_is_authorized_def pka_source_set_channel_def pka_source_init_def pka_channel_init_def
      emit_source_added_def channel_setters world_simps)

lemma demo_running_channel:
  "w_channels demo_running 0 = (w_channels demo_ready 0)\<lparr>ch_pid := 77, ch_state := CHANNEL_RUNNING\<rparr>"
  "w_sources demo_running 0 = (w_sources demo_ready 0)\<lparr>so_running := True\<rparr>"
  "w_queue demo_running = [(0, Started (demo_info\<lparr>si_pid := 77\<rparr>)), (0, Muted)]"
  "w_spawned demo_running = [77]" "w_killed demo_running = []" "w_watches demo_running = [(77, 0)]"
  by (simp_all add: demo_running_def pka_channel_start_def channel_start_locked_def ensure_ready_def
      reset_if_stopped_def demo_ready_channel pka_channel_init_def pka_channel_init_spawn_info_locked_def
      pka_source_modify_spawn_info_def pka_source_init_def channel_spawn_def demo_spawn_def world_simps
      notify_sources_def source_notifies source_queues spawn_directory_def spawn_argv_def Let_def
      pka_spawn_info_copy_def demo_info_def)

lemma demo_stopped_channel:
  "w_channels demo_stopped 0 = (w_channels demo_running 0)\<lparr>ch_state := CHANNEL_STOPPED\<rparr>"
  "w_sources demo_stopped 0 = (w_sources demo_running 0)\<lparr>so_running := False\<rparr>"
  "w_killed demo_stopped = [77]" "w_spawned demo_stopped = [77]"
  by (simp_all add: demo_stopped_def pka_channel_stop_def demo_running_channel demo_ready_channel
      pka_channel_init_def pka_source_init_def world_simps notify_sources_def source_notifies source_queues)

section \<open>Runs\<close>

lemma life_prefix:
  assumes "life (xs @ ys) \<noteq> None"
  shows "life xs \<noteq> None"
proof
  assume "life xs = None"
  moreover have "foldl life_step None zs = None" for zs
    by (induction zs) simp_all
  ultimately show False
    using assms by (simp add: life_append)
qed

text \<open>
  C8: in every run from new objects, a source is told that it has started and that it has stopped in
  alternation, the first of the two being that it has started; what it was told last (with what is
  still queued) is what its \<open>running\<close> flag says; and a source that is running belongs to one channel,
  which is running or muted.
\<close>

theorem source_lifecycle:
  assumes "initial_world w0" "agent_run gt (w0, []) (w, em)"
  shows "life (sigs_of s em) \<noteq> None
    \<and> life (sigs_of s (em @ w_queue w)) = Some (so_running (w_sources w s))
    \<and> (so_running (w_sources w s) \<longrightarrow>
        (\<exists>!c. s \<in> set (ch_sources (w_channels w c))) \<and>
        (\<exists>c. s \<in> set (ch_sources (w_channels w c)) \<and> live_state (pka_channel_get_state c w)))"
proof -
  have inv: "agent_inv (w, em)"
    using agent_inv_run [OF assms(2)] agent_inv_initial [OF assms(1)] by simp
  have "life (sigs_of s em) \<noteq> None"
    using agent_inv_life [OF inv, of s] life_prefix [of "sigs_of s em"] by auto
  moreover have "(\<exists>!c. s \<in> set (ch_sources (w_channels w c))) \<and>
      (\<exists>c. s \<in> set (ch_sources (w_channels w c)) \<and> live_state (ch_state (w_channels w c)))"
    if run: "so_running (w_sources w s)"
  proof -
    obtain c where c: "s \<in> set (ch_sources (w_channels w c))" "live_state (ch_state (w_channels w c))"
      using inv run by (auto simp: agent_inv_def)
    moreover have "d = c" if "s \<in> set (ch_sources (w_channels w d))" for d
      using agent_inv_member [OF inv c(1)] agent_inv_member [OF inv that] by simp
    ultimately show ?thesis by blast
  qed
  ultimately show ?thesis
    using agent_inv_life [OF inv, of s] by (simp add: pka_channel_get_state_def)
qed

theorem source_lifecycle_witness:
  "life (sigs_of 0 (w_queue demo_running)) = Some True
    \<and> (\<exists>c. 0 \<in> set (ch_sources (w_channels demo_running c)) \<and>
         live_state (pka_channel_get_state c demo_running))"
  using source_lifecycle [OF demo_initial demo_run(2), of 0] by (simp add: demo_running_channel)

text \<open>
  C9: whatever the agent does, a channel goes from one state to another only along the edges of
  \<open>channel_edge\<close> (ready to running or failed, running to muted or stopped, muted to running or
  stopped, stopped to ready, running or failed, failed to nothing), and the description of its process
  (target, arguments, environment, directory, whether the client gave a pid) changes only while it is
  ready.
\<close>

theorem channel_life_cycle:
  assumes "agent_step gt (w, em) (w', em')"
  shows "(ch_state (w_channels w' c) = ch_state (w_channels w c) \<or>
      channel_edge (ch_state (w_channels w c)) (ch_state (w_channels w' c)))
    \<and> (ch_state (w_channels w c) = CHANNEL_READY \<or> channel_described (w_channels w c) (w_channels w' c))"
  using agent_step_moved [OF assms, of c] by (simp add: channel_moved_def)

theorem channel_life_cycle_witness:
  "ch_state (w_channels demo_stopped 0) = ch_state (w_channels demo_running 0) \<or>
     channel_edge (ch_state (w_channels demo_running 0)) (ch_state (w_channels demo_stopped 0))"
  using channel_life_cycle [OF step_stop [of glib_gtypes demo_running "[]" 0 pka_context_default]]
  unfolding demo_stopped_def by blast

text \<open>
  A channel whose process could not be spawned stays failed for the rest of the run, and what
  describes its process stays as it was.
\<close>

theorem failed_is_final:
  assumes "agent_run gt (w, em) (w', em')" "ch_state (w_channels w c) = CHANNEL_FAILED"
  shows "ch_state (w_channels w' c) = CHANNEL_FAILED \<and>
    channel_described (w_channels w c) (w_channels w' c)"
  using agent_run_failed [of gt "(w, em)" "(w', em')"] assms by simp

definition demo_failed :: world where
  "demo_failed = snd (pka_channel_start (\<lambda>_ _ _. None) [47] 0 pka_context_default demo_ready)"

lemma demo_failed_state: "ch_state (w_channels demo_failed 0) = CHANNEL_FAILED"
  by (simp add: demo_failed_def pka_channel_start_def channel_start_locked_def ensure_ready_def
      reset_if_stopped_def demo_ready_channel pka_channel_init_def pka_channel_init_spawn_info_locked_def
      pka_source_modify_spawn_info_def pka_source_init_def channel_spawn_def world_simps)

theorem failed_is_final_witness:
  "ch_state (w_channels (snd (pka_channel_start demo_spawn [47] 0 pka_context_default demo_failed)) 0)
     = CHANNEL_FAILED"
  using failed_is_final [of glib_gtypes demo_failed "[]" _ "[]" 0]
    run_step [OF run_refl step_start, of glib_gtypes demo_failed "[]" demo_spawn "[47]" 0 pka_context_default]
    demo_failed_state by blast

text \<open>
  C10: whatever number the agent passes to \<open>kill\<close> is one that a process had that it has spawned itself, and stopping a
  channel whose pid a client has set passes none. The process may have ended by then, so that the number may have
  become another's (\<open>exit_kills_reaped_pid\<close>).
\<close>

theorem only_spawned_killed:
  assumes "initial_world w0" "agent_run gt (w0, []) (w, em)"
  shows "set (w_killed w) \<subseteq> set (w_spawned w)
    \<and> (ch_pid_set (w_channels w c) \<longrightarrow> w_killed (snd (pka_channel_stop c ctx w)) = w_killed w)"
proof -
  have "pids_inv (w, em)"
    by (rule pids_inv_run [OF assms(2) pids_inv_initial [OF assms(1)]])
  then show ?thesis
    by (auto simp: pids_inv_def pka_channel_stop_def world_simps split: pka_channel_state.split)
qed

theorem only_spawned_killed_witness:
  "set (w_killed demo_stopped) \<subseteq> set (w_spawned demo_stopped) \<and> w_killed demo_stopped = [77]"
  using only_spawned_killed [OF demo_initial demo_run(3)] demo_stopped_channel by blast

text \<open>
  When a process that the agent spawned exits by itself, the handler of its exit stores the status
  and stops the channel, and stopping the channel sends a kill to the pid, which by then has been
  reaped and may belong to another process.
\<close>

theorem exit_kills_reaped_pid:
  assumes "live_state (ch_state (w_channels w c))" "ch_kill_pid (w_channels w c)"
    and "\<not> ch_pid_set (w_channels w c)" "ch_pid (w_channels w c) = pid" "pid \<noteq> 0"
  shows "w_killed (pka_channel_inferior_exited pid status c w) = w_killed w @ [pid]
    \<and> pka_channel_get_exit_status c (pka_channel_inferior_exited pid status c w) = Ok status"
  using assms
  by (auto simp: pka_channel_inferior_exited_def pka_channel_stop_def live_state_def Let_def world_simps
      pka_channel_get_exit_status_def)

theorem exit_kills_reaped_pid_witness:
  "w_killed (pka_channel_inferior_exited 77 0 0 demo_running) = [77]"
  using exit_kills_reaped_pid [of demo_running 0 77 0]
  by (simp add: demo_running_channel demo_ready_channel pka_channel_init_def live_state_def)

section \<open>Starting, again and in a race\<close>

text \<open>Plugins whose \<open>modify_spawn_info\<close> neither fails nor changes the pid.\<close>

definition keeps_pid :: "source_ref list \<Rightarrow> world \<Rightarrow> bool" where
  "keeps_pid ss w \<longleftrightarrow> (\<forall>s \<in> set ss. \<forall>i. fst (pka_source_modify_spawn_info s i w) \<and>
     si_pid (snd (pka_source_modify_spawn_info s i w)) = si_pid i)"

lemma modify_keeps_pid:
  "keeps_pid ss w \<Longrightarrow> \<exists>info'. modify_spawn_info ss info w = (True, info') \<and> si_pid info' = si_pid info"
proof (induction ss arbitrary: info)
  case (Cons s ss)
  obtain ok info1 where s: "pka_source_modify_spawn_info s info w = (ok, info1)"
    by (cases "pka_source_modify_spawn_info s info w")
  with Cons.prems have "ok" "si_pid info1 = si_pid info"
    by (auto simp: keeps_pid_def dest!: bspec [of _ _ s] spec [of _ info])
  moreover have "keeps_pid ss w"
    using Cons.prems by (simp add: keeps_pid_def)
  ultimately show ?case
    using Cons.IH [of info1] s by simp
qed simp

lemma modify_info_frame:
  assumes "\<And>s. so_modify_spawn_info (w_sources w' s) = so_modify_spawn_info (w_sources w s)"
  shows "pka_source_modify_spawn_info s i w' = pka_source_modify_spawn_info s i w"
    and "keeps_pid ss w' = keeps_pid ss w"
  by (simp_all add: keeps_pid_def pka_source_modify_spawn_info_def assms)

text \<open>
  Starting a stopped channel again does not spawn its process again, because the pid of the first
  process was never forgotten: the channel is running, its sources are told that the process has
  started, with the pid of the one that was stopped, and \<open>g_spawn_async\<close> is not called.
\<close>

theorem restart_does_not_respawn:
  assumes "ch_state (w_channels w c) = CHANNEL_STOPPED" "ch_pid (w_channels w c) \<noteq> 0"
    and "distinct (ch_sources (w_channels w c))" "keeps_pid (ch_sources (w_channels w c)) w"
    and "s \<in> set (ch_sources (w_channels w c))"
  shows "\<exists>w' info. pka_channel_start spawn tmp c ctx w = (Ok (), w')
    \<and> pka_channel_get_state c w' = CHANNEL_RUNNING
    \<and> w_spawned w' = w_spawned w
    \<and> Started info \<in> set (sigs_of s (w_queue w')) \<and> si_pid info = ch_pid (w_channels w c)"
proof -
  let ?w = "reset_if_stopped c w"
  let ?ch = "(w_channels w c)\<lparr>ch_state := CHANNEL_READY\<rparr>"
  have ch: "w_channels ?w c = ?ch"
    using assms(1) by (simp add: reset_channels)
  have src: "w_sources ?w t = w_sources w t" for t
    using assms(1,3) by (simp add: reset_if_stopped_def world_simps notify_sources_def reset.round_source)
  obtain info where info: "pka_channel_init_spawn_info_locked c ?w = (True, info)"
      "si_pid info = ch_pid (w_channels w c)"
    using modify_keeps_pid [of "ch_sources (w_channels w c)" ?w] assms(4) modify_info_frame(2) [of ?w w]
    by (fastforce simp: pka_channel_init_spawn_info_locked_def ch src Let_def)
  have spawn: "channel_spawn spawn tmp c info ?w = (Some info, ?w)"
    using info assms(2) by (simp add: channel_spawn_def)
  let ?w1 = "upd_channel c (\<lambda>x. x\<lparr>ch_state := CHANNEL_RUNNING\<rparr>) ?w"
  let ?w' = "notify_sources (pka_source_notify_started info) c ?w1"
  have start: "pka_channel_start spawn tmp c ctx w = (Ok (), ?w')"
    by (simp add: pka_channel_start_def channel_start_locked_def ensure_ready_def ch info spawn)
  have "Started (pka_spawn_info_copy info) \<in> set (sigs_of s (w_queue ?w'))"
    using assms(3,5) by (simp add: notify_sources_def started.sigs_of_round world_simps ch)
  moreover have "w_spawned ?w' = w_spawned w" "pka_channel_get_state c ?w' = CHANNEL_RUNNING"
    by (simp_all add: world_simps pka_channel_get_state_def)
  moreover have "si_pid (pka_spawn_info_copy info) = ch_pid (w_channels w c)"
    using info(2) by (simp add: pka_spawn_info_copy_def)
  ultimately show ?thesis
    using start by blast
qed

theorem restart_does_not_respawn_witness:
  "\<exists>w' info. pka_channel_start demo_spawn [47] 0 pka_context_default demo_stopped = (Ok (), w')
    \<and> pka_channel_get_state 0 w' = CHANNEL_RUNNING \<and> w_spawned w' = [77]
    \<and> Started info \<in> set (sigs_of 0 (w_queue w')) \<and> si_pid info = 77"
  using restart_does_not_respawn [of demo_stopped 0 0 demo_spawn "[47]" pka_context_default]
  by (simp add: demo_stopped_channel demo_running_channel demo_ready_channel pka_channel_init_def
      pka_source_init_def keeps_pid_def pka_source_modify_spawn_info_def)

text \<open>
  The sources of a channel are told that it has started after the lock of the channel is released,
  so a stop by another thread can come first: the channel is then stopped, while its sources are left
  running, with the start as the last thing they are told.
\<close>

theorem start_stop_race:
  assumes "channel_start_locked spawn tmp c w = (Ok info, w1)"
    and "pka_channel_stop c ctx w1 = (Ok (), w2)"
    and "distinct (ch_sources (w_channels w2 c))" "s \<in> set (ch_sources (w_channels w2 c))"
    and "so_subscriptions (w_sources w2 s) \<noteq> []"
  defines "w3 \<equiv> notify_sources (pka_source_notify_started info) c w2"
  shows "pka_channel_get_state c w3 = CHANNEL_STOPPED \<and> so_running (w_sources w3 s)
    \<and> last (sigs_of s (w_queue w3)) = Started (pka_spawn_info_copy info)"
proof -
  have "ch_state (w_channels w1 c) = CHANNEL_RUNNING"
    using assms(1) by (cases rule: start_locked_cases) (simp_all add: world_simps)
  then have "ch_state (w_channels w2 c) = CHANNEL_STOPPED"
    using assms(2) by (auto simp: pka_channel_stop_def world_simps)
  then show ?thesis
    using assms(3,4,5) by (simp add: w3_def pka_channel_get_state_def world_simps
        notify_sources_def started.round_source started.round_frame started.sigs_of_round)
qed

definition demo_watched :: world where
  "demo_watched = upd_source 0 (\<lambda>x. x\<lparr>so_subscriptions := [0]\<rparr>) demo_ready"

lemma demo_watched_source: "so_subscriptions (w_sources demo_watched 0) = [0]"
  by (simp add: demo_watched_def world_simps)

theorem start_stop_race_witness:
  "let w1 = snd (channel_start_locked demo_spawn [47] 0 demo_watched);
       w2 = snd (pka_channel_stop 0 pka_context_default w1);
       w3 = notify_sources (pka_source_notify_started (demo_info\<lparr>si_pid := 77\<rparr>)) 0 w2
   in pka_channel_get_state 0 w3 = CHANNEL_STOPPED \<and> so_running (w_sources w3 0)"
proof -
  let ?l = "channel_start_locked demo_spawn [47] 0 demo_watched"
  let ?s = "pka_channel_stop 0 pka_context_default (snd ?l)"
  have l: "?l = (Ok (demo_info\<lparr>si_pid := 77\<rparr>), snd ?l)"
    and ch: "w_channels (snd ?l) 0 = (w_channels demo_ready 0)\<lparr>ch_pid := 77, ch_state := CHANNEL_RUNNING\<rparr>"
    and src: "w_sources (snd ?l) = w_sources demo_watched"
    by (simp_all add: channel_start_locked_def ensure_ready_def reset_if_stopped_def demo_watched_def
        demo_ready_channel pka_channel_init_def pka_channel_init_spawn_info_locked_def Let_def
        pka_source_modify_spawn_info_def pka_source_init_def channel_spawn_def demo_spawn_def demo_info_def
        spawn_directory_def world_simps)
  have "?s = (Ok (), snd ?s)"
    by (simp add: pka_channel_stop_def ch)
  moreover have "w_channels (snd ?s) 0 = (w_channels demo_ready 0)\<lparr>ch_pid := 77, ch_state := CHANNEL_STOPPED\<rparr>"
    by (simp add: stop_channels ch live_state_def)
  moreover have "so_subscriptions (w_sources (snd ?s) 0) = [0]"
    by (simp add: pka_channel_stop_def ch world_simps notify_sources_def stopped.round_source
        stopped.notice_source demo_ready_channel pka_channel_init_def src demo_watched_source)
  ultimately show ?thesis
    using start_stop_race [OF l, of pka_context_default "snd ?s" 0]
    by (simp add: demo_ready_channel pka_channel_init_def Let_def)
qed

end
