(* ===== verification/Subscriber_Properties.thy ===== *)
theory Subscriber_Properties
  imports Agent_Properties
begin

text \<open>
  What subscribers are handed, and how long the memory of a subscription lives: the deliveries of a
  source, the manifest that a late subscriber gets, the count of references that sources hold, and the
  two ways in which the code loses track of a subscription.
\<close>

section \<open>Deliveries\<close>

definition handed :: "(pka_subscription \<Rightarrow> nat option) \<Rightarrow> world \<Rightarrow> delivery \<Rightarrow> sub_ref \<Rightarrow> (nat \<times> sub_ref \<times> delivery) list" where
  "handed closure w d r = (case closure (w_subs w r) of None \<Rightarrow> [] | Some h \<Rightarrow> [(h, r, d)])"

lemma handed_simps [world_simps]:
  "handed f (pka_subscription_deliver_sample r s mo p w) d = handed f w d"
  "handed f (pka_subscription_deliver_manifest gt r s m w) d = handed f w d"
  "handed f (upd_source s g w) d = handed f w d"
  by (simp_all add: handed_def fun_eq_iff world_simps)

lemma handed_apply:
  "handed f w d r = (case f (w_subs w r) of None \<Rightarrow> [] | Some h \<Rightarrow> [(h, r, d)])"
  by (simp add: handed_def)

lemma deliver_sample_fold:
  "w_delivered (foldl (\<lambda>w r. pka_subscription_deliver_sample r s (Some m) p w) w rs) =
     w_delivered w @ concat (map (handed su_sample_closure w (Sample_Data (sample_message m p))) rs)"
  by (induction rs arbitrary: w) (simp_all add: world_simps handed_apply)

lemma deliver_sample_fold_fault:
  "w_fault (foldl (\<lambda>w r. pka_subscription_deliver_sample r s mo p w) w rs) \<longleftrightarrow> w_fault w \<or>
     (\<exists>r \<in> set rs. su_freed (w_subs w r) \<or> su_sample_closure (w_subs w r) \<noteq> None \<and> mo = None)"
  by (induction rs arbitrary: w) (auto simp: world_simps)

lemma deliver_manifest_fold:
  "w_delivered (foldl (\<lambda>w r. pka_subscription_deliver_manifest gt r s m w) w rs) =
     w_delivered w @ concat (map (handed su_manifest_closure w (Manifest_Data (manifest_message gt m))) rs)"
  by (induction rs arbitrary: w) (simp_all add: world_simps handed_apply)

lemma deliver_manifest_fold_frame:
  "w_sources (foldl (\<lambda>w r. pka_subscription_deliver_manifest gt r s m w) w rs) = w_sources w"
  "w_subs (foldl (\<lambda>w r. pka_subscription_deliver_manifest gt r s m w) w rs) = w_subs w"
  by (induction rs arbitrary: w) (simp_all add: world_simps)

text \<open>
  C11: a sample that a source delivers reaches every entry of its list of subscribers once, in the
  order of the list, whether the subscription is muted or not, stamped with the identifier of the
  source and encoded against the manifest that the source delivered last; and the delivery touches
  memory it may not touch exactly when an entry of the list was freed, or when the source has
  delivered no manifest yet and someone listens.
\<close>

theorem deliver_sample_exact:
  "(so_manifest (w_sources w s) = Some (a, m) \<longrightarrow>
     w_delivered (pka_source_deliver_sample s p w) = w_delivered w @
       concat (map (handed su_sample_closure w
         (Sample_Data (sample_message m (pka_sample_set_source_id p (pka_source_get_id s w)))))
         (so_subscriptions (w_sources w s))))
   \<and> (w_fault (pka_source_deliver_sample s p w) \<longleftrightarrow> w_fault w \<or>
       (\<exists>r \<in> set (so_subscriptions (w_sources w s)). su_freed (w_subs w r) \<or>
          su_sample_closure (w_subs w r) \<noteq> None \<and> so_manifest (w_sources w s) = None))"
  by (simp add: pka_source_deliver_sample_def Let_def deliver_sample_fold deliver_sample_fold_fault
      pka_source_get_id_def)

definition demo_listening :: world where
  "demo_listening = upd_sub 3 (\<lambda>x. x\<lparr>su_sample_closure := Some 9, su_manifest_closure := Some 8\<rparr>)
     (upd_source 0 (\<lambda>x. x\<lparr>so_subscriptions := [3]\<rparr>) demo_world)"

lemma demo_listening_simps:
  "w_sources demo_listening 0 = (pka_source_init 0 None)\<lparr>so_subscriptions := [3]\<rparr>"
  "w_subs demo_listening 3 = (pka_subscription_new 3 \<lparr>tv_secs = 0, tv_usecs = 0\<rparr>)
     \<lparr>su_sample_closure := Some 9, su_manifest_closure := Some 8\<rparr>"
  "w_fault demo_listening = False" "w_delivered demo_listening = []"
  by (simp_all add: demo_listening_def demo_world_def world_simps)

theorem deliver_sample_exact_witness:
  "w_fault (pka_source_deliver_sample 0 (pka_sample_new \<lparr>tv_sec = 0, tv_nsec = 0\<rparr>) demo_listening)"
  using deliver_sample_exact [where w = demo_listening and s = 0
      and p = "pka_sample_new \<lparr>tv_sec = 0, tv_nsec = 0\<rparr>"]
  by (simp add: demo_listening_simps pka_source_init_def)

lemma deliver_manifest_effect:
  "w_delivered (pka_source_deliver_manifest gt s (a, m) w) = w_delivered w @
     concat (map (handed su_manifest_closure w
       (Manifest_Data (manifest_message gt (pka_manifest_set_source_id m (so_id (w_sources w s))))))
       (so_subscriptions (w_sources w s)))"
  "w_sources (pka_source_deliver_manifest gt s (a, m) w) = (w_sources w)
     (s := (w_sources w s)\<lparr>so_manifest := Some (a, pka_manifest_set_source_id m (so_id (w_sources w s)))\<rparr>)"
  "w_subs (pka_source_deliver_manifest gt s (a, m) w) = w_subs w"
  by (simp_all add: pka_source_deliver_manifest_def Let_def deliver_manifest_fold
      deliver_manifest_fold_frame world_simps)

text \<open>
  C12: when a source delivers a manifest and a sample right after it, each of its subscribers that has both of its
  handlers by then is handed the manifest before the sample, the sample is encoded against that manifest, and both
  carry the identifier of the source. Nothing is said of a subscriber that gets its handlers
  after the manifest: to that one no manifest is sent.
\<close>

theorem manifest_then_sample:
  fixes gt :: gtypes and a :: manifest_ref and m :: pka_manifest and p :: pka_sample
  assumes "r \<in> set (so_subscriptions (w_sources w s))"
    and "su_manifest_closure (w_subs w r) = Some hm" "su_sample_closure (w_subs w r) = Some hs"
  defines "sid \<equiv> pka_source_get_id s w"
  defines "w' \<equiv> pka_source_deliver_sample s p (pka_source_deliver_manifest gt s (a, m) w)"
  shows "\<exists>before between rest. w_delivered w' = before @
     (hm, r, Manifest_Data (manifest_message gt (pka_manifest_set_source_id m sid))) # between @
     (hs, r, Sample_Data (sample_message (pka_manifest_set_source_id m sid)
        (pka_sample_set_source_id p sid))) # rest"
proof -
  have sid: "so_id (w_sources w s) = sid"
    by (simp add: sid_def pka_source_get_id_def)
  let ?m = "pka_manifest_set_source_id m sid"
  obtain as bs where rs: "so_subscriptions (w_sources w s) = as @ r # bs"
    using assms(1) by (auto simp: in_set_conv_decomp)
  have "handed su_sample_closure (pka_source_deliver_manifest gt s (a, m) w) d = handed su_sample_closure w d" for d
    by (simp add: handed_def fun_eq_iff deliver_manifest_effect)
  then have "w_delivered w' = w_delivered w @
      concat (map (handed su_manifest_closure w (Manifest_Data (manifest_message gt ?m)))
        (so_subscriptions (w_sources w s))) @
      concat (map (handed su_sample_closure w (Sample_Data (sample_message ?m (pka_sample_set_source_id p sid))))
        (so_subscriptions (w_sources w s)))"
    by (simp add: w'_def pka_source_deliver_sample_def Let_def deliver_sample_fold deliver_manifest_effect sid)
  moreover have "handed su_manifest_closure w d r = [(hm, r, d)]" "handed su_sample_closure w d r = [(hs, r, d)]" for d
    by (simp_all add: handed_def assms)
  ultimately have "w_delivered w' =
      (w_delivered w @ concat (map (handed su_manifest_closure w (Manifest_Data (manifest_message gt ?m))) as)) @
      (hm, r, Manifest_Data (manifest_message gt ?m)) #
      (concat (map (handed su_manifest_closure w (Manifest_Data (manifest_message gt ?m))) bs) @
       concat (map (handed su_sample_closure w (Sample_Data (sample_message ?m (pka_sample_set_source_id p sid)))) as)) @
      (hs, r, Sample_Data (sample_message ?m (pka_sample_set_source_id p sid))) #
      concat (map (handed su_sample_closure w (Sample_Data (sample_message ?m (pka_sample_set_source_id p sid)))) bs)"
    by (simp add: rs)
  then show ?thesis by blast
qed

definition demo_manifest :: pka_manifest where
  "demo_manifest = \<lparr>pm_ref = 1, pm_rows = [], pm_source_id = 0, pm_ts = \<lparr>tv_sec = 0, tv_nsec = 0\<rparr>,
     pm_resolution = RESOLUTION_USEC\<rparr>"

theorem manifest_then_sample_witness:
  "\<exists>before between rest. w_delivered (pka_source_deliver_sample 0 (pka_sample_new \<lparr>tv_sec = 0, tv_nsec = 0\<rparr>)
      (pka_source_deliver_manifest glib_gtypes 0 (5, demo_manifest) demo_listening)) = before @
     (8, 3, Manifest_Data (manifest_message glib_gtypes (pka_manifest_set_source_id demo_manifest 0))) #
     between @
     (9, 3, Sample_Data (sample_message (pka_manifest_set_source_id demo_manifest 0)
        (pka_sample_set_source_id (pka_sample_new \<lparr>tv_sec = 0, tv_nsec = 0\<rparr>) 0))) # rest"
  using manifest_then_sample [of 3 demo_listening 0 8 9 "pka_sample_new \<lparr>tv_sec = 0, tv_nsec = 0\<rparr>"
      glib_gtypes 5 demo_manifest]
  by (simp add: demo_listening_simps pka_source_init_def pka_source_get_id_def)

section \<open>The manifest of a late subscriber\<close>

lemma sub_ref_closures [world_simps]:
  "su_manifest_closure (w_subs (pka_subscription_ref r w) r') = su_manifest_closure (w_subs w r')"
  "su_sample_closure (w_subs (pka_subscription_ref r w) r') = su_sample_closure (w_subs w r')"
  "su_freed (w_subs (pka_subscription_ref r w) r') = su_freed (w_subs w r')"
  "w_sources (pka_subscription_ref r w) = w_sources w"
  "w_delivered (pka_subscription_ref r w) = w_delivered w"
  "w_channels (pka_subscription_ref r w) = w_channels w"
  by (simp_all add: pka_subscription_ref_def Let_def world_simps)

lemma add_locked_effect:
  "fst (add_subscription_locked s r w) = so_manifest (w_sources w s)"
  "w_sources (snd (add_subscription_locked s r w)) = (w_sources w)
     (s := (w_sources w s)\<lparr>so_subscriptions := so_subscriptions (w_sources w s) @ [r]\<rparr>)"
  "w_delivered (snd (add_subscription_locked s r w)) = w_delivered w"
  "su_manifest_closure (w_subs (snd (add_subscription_locked s r w)) r') = su_manifest_closure (w_subs w r')"
  by (simp_all add: add_subscription_locked_def Let_def source_queues world_simps)

text \<open>
  A subscription that joins a source late is handed the manifest that the source delivered last, at
  once; and when a newer manifest is delivered by another thread between the two locked parts of the
  joining, it is handed the newer one and never the older one after it.
\<close>

theorem late_subscriber_manifest:
  assumes "so_manifest (w_sources w s) = Some (a, m)" "su_manifest_closure (w_subs w r) = Some h"
    and "a' \<noteq> a"
  shows "w_delivered (pka_source_add_subscription gt s r w) =
       w_delivered w @ [(h, r, Manifest_Data (manifest_message gt m))]
    \<and> (case add_subscription_locked s r w of (joined, w1) \<Rightarrow>
         let w2 = pka_source_deliver_manifest gt s (a', m') w1;
             w3 = add_subscription_deliver gt s r joined w2
         in w3 = w2 \<and> last (w_delivered w3) =
              (h, r, Manifest_Data (manifest_message gt (pka_manifest_set_source_id m' (pka_source_get_id s w)))))"
proof -
  obtain w1 where split: "add_subscription_locked s r w = (Some (a, m), w1)"
    using add_locked_effect(1) [of s r w] assms(1) by (cases "add_subscription_locked s r w") simp
  note effect = add_locked_effect [of s r w, unfolded split snd_conv]
  have "w_delivered (add_subscription_deliver gt s r (Some (a, m)) w1) =
      w_delivered w @ [(h, r, Manifest_Data (manifest_message gt m))]"
    using assms by (simp add: add_subscription_deliver_def effect world_simps)
  moreover have "add_subscription_deliver gt s r (Some (a, m)) (pka_source_deliver_manifest gt s (a', m') w1) =
      pka_source_deliver_manifest gt s (a', m') w1"
    using assms(3) by (simp add: add_subscription_deliver_def deliver_manifest_effect)
  moreover have "last (w_delivered (pka_source_deliver_manifest gt s (a', m') w1)) =
      (h, r, Manifest_Data (manifest_message gt (pka_manifest_set_source_id m' (pka_source_get_id s w))))"
    using assms(2) by (simp add: deliver_manifest_effect effect handed_def pka_source_get_id_def)
  ultimately show ?thesis
    by (simp add: pka_source_add_subscription_def split)
qed

definition demo_described :: world where
  "demo_described = upd_source 0 (\<lambda>x. x\<lparr>so_manifest := Some (5, demo_manifest)\<rparr>) demo_listening"

theorem late_subscriber_manifest_witness:
  "w_delivered (pka_source_add_subscription glib_gtypes 0 3 demo_described) =
     [(8, 3, Manifest_Data (manifest_message glib_gtypes demo_manifest))]"
  using late_subscriber_manifest [of demo_described 0 5 demo_manifest 3 8 6 glib_gtypes demo_manifest]
  by (simp add: demo_described_def world_simps demo_listening_simps)

section \<open>Losing track of a subscription\<close>

lemma worse_fault: "worse w w' \<Longrightarrow> w_fault w \<Longrightarrow> w_fault w'"
  by (simp add: worse_def)

lemma add_source_uses: "su_freed (w_subs w r) \<Longrightarrow> w_fault (snd (pka_subscription_add_source gt r ctx s w))"
proof -
  assume "su_freed (w_subs w r)"
  then have "w_fault (upd_sub r f (use_sub r w))" for f
    by (simp add: world_simps)
  then show ?thesis
    unfolding pka_subscription_add_source_def Let_def snd_conv
    by (rule worse_fault [OF worse.source_add_subscription])
qed

lemma handlers_use:
  assumes "r \<in> set hs" "su_freed (w_subs w r)"
  shows "w_fault (foldl (\<lambda>w r. pka_subscription_channel_source_added gt s r w) w hs)"
  using assms
proof (induction hs arbitrary: w)
  case (Cons a hs)
  let ?w = "pka_subscription_channel_source_added gt s a w"
  show ?case
  proof (cases "a = r")
    case True
    then have "w_fault ?w"
      using Cons.prems add_source_uses by (simp add: pka_subscription_channel_source_added_def)
    moreover have "worse ?w (foldl (\<lambda>w r. pka_subscription_channel_source_added gt s r w) ?w hs)"
      unfolding pka_subscription_channel_source_added_def by (rule worse.fold, rule worse.sub_add_source)
    ultimately show ?thesis
      using worse_fault by simp
  next
    case False
    then have "r \<in> set hs"
      using Cons.prems(1) by simp
    moreover have "su_freed (w_subs ?w r)"
      using Cons.prems(2) worse.sub_add_source
      by (auto simp: pka_subscription_channel_source_added_def worse_def)
    ultimately show ?thesis
      using Cons.IH [of ?w] by simp
  qed
qed simp

text \<open>
  The handlers of a channel hold a pointer to a subscription that they do not count. When the last
  counted reference is dropped while the subscription is still connected to a channel, the next source
  added to that channel makes the handler use freed memory.
\<close>

theorem dangling_channel_handler:
  assumes "r \<in> set (ch_handlers (w_channels w c))" "su_ref_count (w_subs w r) = 1"
    and "so_channel (w_sources w s) = None"
  shows "su_freed (w_subs (pka_subscription_unref r w) r)
    \<and> w_fault (snd (pka_channel_add_source gt c ctx s (pka_subscription_unref r w)))"
proof -
  let ?w = "pka_subscription_unref r w"
  have freed: "su_freed (w_subs ?w r)"
    using assms(2) by (simp add: subscription_ops Let_def word_sless_alt world_simps)
  have same: "w_channels ?w = w_channels w" "w_sources ?w = w_sources w"
    by (simp_all add: subscription_ops Let_def world_simps)
  have "w_fault (snd (pka_channel_add_source gt c ctx s ?w))"
    using assms(1,3) freed
    by (simp add: pka_channel_add_source_def authorize_ioctl_def pka_context_is_authorized_def same
        pka_source_set_channel_def emit_source_added_def handlers_use world_simps)
  with freed show ?thesis ..
qed

definition demo_connected :: world where
  "demo_connected = snd (pka_subscription_add_channel glib_gtypes 3 pka_context_default 0 demo_listening)"

theorem dangling_channel_handler_witness:
  "w_fault (snd (pka_channel_add_source glib_gtypes 0 pka_context_default 1
     (pka_subscription_unref 3 demo_connected)))"
proof -
  have "3 \<in> set (ch_handlers (w_channels demo_connected 0))" "su_ref_count (w_subs demo_connected 3) = 1"
    "so_channel (w_sources demo_connected 1) = None"
    by (simp_all add: demo_connected_def pka_subscription_add_channel_def Let_def get_sources_rev
        demo_listening_def demo_world_def pka_channel_init_def pka_subscription_new_def
        pka_source_init_def world_simps)
  then show ?thesis
    using dangling_channel_handler [of 3 demo_connected 0 1] by blast
qed

section \<open>Counting the entries that sources hold\<close>

definition subscribed :: "world \<Rightarrow> source_ref set" where
  "subscribed w = {s. so_subscriptions (w_sources w s) \<noteq> []}"

definition held :: "sub_ref \<Rightarrow> world \<Rightarrow> nat" where
  "held r w = (\<Sum>s \<in> subscribed w. count_list (so_subscriptions (w_sources w s)) r)"

lemma held_positive:
  assumes "finite (subscribed w)" "r \<in> set (so_subscriptions (w_sources w s))"
  shows "0 < held r w"
proof -
  have "s \<in> subscribed w" using assms(2) by (auto simp: subscribed_def)
  moreover have "count_list (so_subscriptions (w_sources w s)) r \<noteq> 0"
    using assms(2) by (simp add: count_list_0_iff)
  ultimately show ?thesis
    using assms(1) by (auto simp: held_def sum_eq_0_iff intro: gr0I)
qed

lemma held_over:
  assumes "finite A" "subscribed w \<subseteq> A"
  shows "held r w = (\<Sum>s \<in> A. count_list (so_subscriptions (w_sources w s)) r)"
  unfolding held_def
  by (rule sum.mono_neutral_left) (use assms in \<open>auto simp: subscribed_def\<close>)

lemma held_update:
  assumes fin: "finite (subscribed w)"
    and upd: "w_sources w' = (w_sources w)(s := x)"
  shows "finite (subscribed w')"
    "held r w' + count_list (so_subscriptions (w_sources w s)) r = held r w + count_list (so_subscriptions x) r"
proof -
  let ?A = "insert s (subscribed w)"
  have sub: "subscribed w' \<subseteq> ?A"
    by (auto simp: subscribed_def upd)
  with fin show "finite (subscribed w')"
    by (auto dest: finite_subset)
  have A: "finite ?A" "s \<in> ?A" "subscribed w \<subseteq> ?A"
    using fin by auto
  have "(\<Sum>t \<in> ?A - {s}. count_list (so_subscriptions (w_sources w' t)) r) =
      (\<Sum>t \<in> ?A - {s}. count_list (so_subscriptions (w_sources w t)) r)"
    by (rule sum.cong) (simp_all add: upd)
  then show "held r w' + count_list (so_subscriptions (w_sources w s)) r =
      held r w + count_list (so_subscriptions x) r"
    unfolding held_over [OF A(1) sub] held_over [OF A(1,3)] sum.remove [OF A(1,2)]
    by (simp add: upd)
qed

text \<open>
  The subscription is alive, and its count is one for the reference of its owner and one for every entry
  of a source's list.
\<close>

definition counted :: "sub_ref \<Rightarrow> world \<Rightarrow> bool" where
  "counted r w \<longleftrightarrow> finite (subscribed w) \<and> \<not> su_freed (w_subs w r) \<and>
     su_ref_count (w_subs w r) = word_of_nat (Suc (held r w))"

lemma count_positive: "Suc n < 2 ^ 31 \<Longrightarrow> 0 <s (word_of_nat (Suc n) :: gint)"
  using sint_word_of_nat [of "Suc n"] by (simp add: word_sless_alt del: of_nat_Suc)

lemma attach_effect:
  assumes "0 <s su_ref_count (w_subs w r)" "\<not> su_freed (w_subs w r)"
  shows "w_sources (snd (pka_subscription_add_source gt r ctx s w)) = (w_sources w)
      (s := (w_sources w s)\<lparr>so_subscriptions := so_subscriptions (w_sources w s) @ [r]\<rparr>)"
    "su_ref_count (w_subs (snd (pka_subscription_add_source gt r ctx s w)) r) = su_ref_count (w_subs w r) + 1"
    "su_freed (w_subs (snd (pka_subscription_add_source gt r ctx s w)) r) = False"
    "w_fault (snd (pka_subscription_add_source gt r ctx s w)) = w_fault w"
proof -
  let ?w1 = "upd_sub r (\<lambda>x. x\<lparr>su_sources := tree_insert (pka_source_get_id s (use_sub r w)) s (su_sources x)\<rparr>)
    (use_sub r w)"
  let ?w2 = "snd (add_subscription_locked s r ?w1)"
  have frame: "w_sources (add_subscription_deliver gt s r mo w') = w_sources w'"
    "w_subs (add_subscription_deliver gt s r mo w') = w_subs w'"
    "w_fault (add_subscription_deliver gt s r mo w') \<longleftrightarrow> w_fault w' \<or>
       su_freed (w_subs w' r) \<and> (\<exists>a m. mo = Some (a, m) \<and> map_option fst (so_manifest (w_sources w' s)) = Some a)"
    for mo w'
    by (auto simp: add_subscription_deliver_def world_simps split: option.split)
  have w2: "w_sources ?w2 = (w_sources w)
      (s := (w_sources w s)\<lparr>so_subscriptions := so_subscriptions (w_sources w s) @ [r]\<rparr>)"
    "su_ref_count (w_subs ?w2 r) = su_ref_count (w_subs w r) + 1"
    "su_freed (w_subs ?w2 r) = False" "w_fault ?w2 = w_fault w"
    using assms by (simp_all add: add_subscription_locked_def pka_subscription_ref_def Let_def source_queues
        world_simps)
  have eq: "snd (pka_subscription_add_source gt r ctx s w) =
      add_subscription_deliver gt s r (fst (add_subscription_locked s r ?w1)) ?w2"
    by (simp add: pka_subscription_add_source_def pka_source_add_subscription_def Let_def case_prod_beta)
  show "w_sources (snd (pka_subscription_add_source gt r ctx s w)) = (w_sources w)
      (s := (w_sources w s)\<lparr>so_subscriptions := so_subscriptions (w_sources w s) @ [r]\<rparr>)"
    "su_ref_count (w_subs (snd (pka_subscription_add_source gt r ctx s w)) r) = su_ref_count (w_subs w r) + 1"
    "su_freed (w_subs (snd (pka_subscription_add_source gt r ctx s w)) r) = False"
    "w_fault (snd (pka_subscription_add_source gt r ctx s w)) = w_fault w"
    unfolding eq frame using w2 by simp_all
qed

lemma attach_counted:
  fixes gt :: gtypes and ctx :: pka_context and s :: source_ref
  assumes "counted r w" "Suc (held r w) < 2 ^ 31"
  defines "w' \<equiv> snd (pka_subscription_add_source gt r ctx s w)"
  shows "counted r w' \<and> held r w' = Suc (held r w) \<and> w_fault w' = w_fault w"
proof -
  have pos: "0 <s su_ref_count (w_subs w r)" and alive: "\<not> su_freed (w_subs w r)"
    using assms(1,2) count_positive by (auto simp: counted_def)
  note effect = attach_effect [OF pos alive, of gt ctx s, folded w'_def]
  have fin: "finite (subscribed w)"
    using assms(1) by (simp add: counted_def)
  have "finite (subscribed w')" "held r w' = Suc (held r w)"
    using held_update [OF fin effect(1)] by simp_all
  then show ?thesis
    using assms(1) effect(2-4) by (simp add: counted_def)
qed

lemma detach_effect:
  fixes ctx :: pka_context and s :: source_ref
  assumes "r \<in> set (so_subscriptions (w_sources w s)) \<longrightarrow> su_ref_count (w_subs w r) \<noteq> 1"
    and "0 <s su_ref_count (w_subs w r)" "\<not> su_freed (w_subs w r)"
  defines "w' \<equiv> snd (pka_subscription_remove_source r ctx s w)"
  shows "w_sources w' = (w_sources w)
      (s := (w_sources w s)\<lparr>so_subscriptions := ptr_array_remove_fast r (so_subscriptions (w_sources w s))\<rparr>)"
    "su_ref_count (w_subs w' r) = su_ref_count (w_subs w r) -
       (if r \<in> set (so_subscriptions (w_sources w s)) then 1 else 0)"
    "su_freed (w_subs w' r) = False" "w_fault w' = w_fault w"
  using assms(1-3) by (simp_all add: w'_def pka_subscription_remove_source_def
      pka_source_remove_subscription_def pka_subscription_unref_def Let_def source_queues world_simps)

lemma detach_counted:
  fixes ctx :: pka_context and s :: source_ref
  assumes "counted r w" "Suc (held r w) < 2 ^ 31"
  defines "w' \<equiv> snd (pka_subscription_remove_source r ctx s w)"
  shows "counted r w' \<and> held r w' \<le> held r w \<and> w_fault w' = w_fault w"
proof -
  have pos: "0 <s su_ref_count (w_subs w r)" and alive: "\<not> su_freed (w_subs w r)"
    and fin: "finite (subscribed w)" and cnt: "su_ref_count (w_subs w r) = word_of_nat (Suc (held r w))"
    using assms(1,2) count_positive by (auto simp: counted_def)
  have some: "0 < held r w" if "r \<in> set (so_subscriptions (w_sources w s))"
    by (rule held_positive [OF fin that])
  have "su_ref_count (w_subs w r) \<noteq> 1" if "r \<in> set (so_subscriptions (w_sources w s))"
  proof
    assume "su_ref_count (w_subs w r) = 1"
    then have "int (Suc (held r w)) = 1"
      using cnt sint_word_of_nat [of "Suc (held r w)"] assms(2) by (simp del: of_nat_Suc)
    with some [OF that] show False by simp
  qed
  then have effect': "w_sources w' = (w_sources w)
      (s := (w_sources w s)\<lparr>so_subscriptions := ptr_array_remove_fast r (so_subscriptions (w_sources w s))\<rparr>)"
    "su_ref_count (w_subs w' r) = su_ref_count (w_subs w r) -
       (if r \<in> set (so_subscriptions (w_sources w s)) then 1 else 0)"
    "su_freed (w_subs w' r) = False" "w_fault w' = w_fault w"
    using detach_effect [of r w s, OF _ pos alive, where ctx = ctx, folded w'_def] by blast+
  have fin': "finite (subscribed w')"
    and sum: "held r w' + count_list (so_subscriptions (w_sources w s)) r =
      held r w + (count_list (so_subscriptions (w_sources w s)) r - 1)"
    using held_update(1) [OF fin effect'(1)] held_update(2) [OF fin effect'(1), of r]
    by (simp_all add: count_remove_fast)
  show ?thesis
  proof (cases "r \<in> set (so_subscriptions (w_sources w s))")
    case True
    then have "0 < count_list (so_subscriptions (w_sources w s)) r"
      by (metis count_list_0_iff gr0I)
    with sum have "held r w = Suc (held r w')" by linarith
    with True fin' effect'(2-4) cnt show ?thesis
      by (simp add: counted_def)
  next
    case False
    then have "count_list (so_subscriptions (w_sources w s)) r = 0"
      by (simp add: count_list_0_iff)
    with False sum fin' effect'(2-4) cnt show ?thesis
      by (simp add: counted_def)
  qed
qed

datatype attach_op = Attach source_ref | Detach source_ref

fun attach_op_run :: "gtypes \<Rightarrow> sub_ref \<Rightarrow> pka_context \<Rightarrow> world \<Rightarrow> attach_op \<Rightarrow> world" where
  "attach_op_run gt r ctx w (Attach s) = snd (pka_subscription_add_source gt r ctx s w)"
| "attach_op_run gt r ctx w (Detach s) = snd (pka_subscription_remove_source r ctx s w)"

lemma attach_op_counted:
  assumes "counted r w" "Suc (held r w) < 2 ^ 31"
  shows "counted r (attach_op_run gt r ctx w oper)
    \<and> held r (attach_op_run gt r ctx w oper) \<le> Suc (held r w)
    \<and> w_fault (attach_op_run gt r ctx w oper) = w_fault w"
  using attach_counted [OF assms] detach_counted [OF assms] by (cases oper) (auto intro: le_SucI)

text \<open>
  Attaching a subscription to sources and detaching it, in any order and however often, keeps its
  reference count equal to one (its owner's) plus the number of entries for it in the lists of the
  sources; it is not freed while an entry is left, and no freed memory is used.
\<close>

theorem entries_are_counted:
  assumes "counted r w" "held r w + length ops < 2 ^ 31 - 1"
  shows "counted r (foldl (attach_op_run gt r ctx) w ops)
    \<and> w_fault (foldl (attach_op_run gt r ctx) w ops) = w_fault w"
  using assms
proof (induction ops arbitrary: w)
  case (Cons oper ops)
  let ?w = "attach_op_run gt r ctx w oper"
  have "counted r ?w" "held r ?w \<le> Suc (held r w)" "w_fault ?w = w_fault w"
    using attach_op_counted [of r w gt ctx oper] Cons.prems by auto
  with Cons.IH [of ?w] Cons.prems(2) show ?case by simp
qed simp

definition demo_counting :: world where
  "demo_counting = snd (pka_subscription_add_source glib_gtypes 3 pka_context_default 0 demo_world)"

lemma demo_fresh: "counted 3 demo_world" "held 3 demo_world = 0"
  by (simp_all add: counted_def subscribed_def held_def demo_world_def pka_source_init_def
      pka_subscription_new_def)

lemma demo_counted: "counted 3 demo_counting" "held 3 demo_counting = 1"
  using attach_counted [OF demo_fresh(1), of glib_gtypes pka_context_default 0]
  by (simp_all add: demo_counting_def demo_fresh)

theorem entries_are_counted_witness:
  "counted 3 (foldl (attach_op_run glib_gtypes 3 pka_context_default) demo_counting
     [Attach 1, Attach 1, Detach 0, Detach 1, Attach 2])"
  using entries_are_counted [of 3 demo_counting "[Attach 1, Attach 1, Detach 0, Detach 1, Attach 2]"
      glib_gtypes pka_context_default] demo_counted by simp

end
