(* ===== verification/Agent_Calls.thy ===== *)
theory Agent_Calls
  imports Pka_Listener Subscriber_Properties
begin

text \<open>
  What holds of the agent as its clients see it, through the remote procedures: the references to
  subscriptions are counted exactly and no freed memory is used, as long as no subscription is connected
  to a channel; what goes wrong when one is; and what single procedures answer.
\<close>

section \<open>Counting all references\<close>

text \<open>
  The references to a subscription: that of the registry, those of the lists of sources, and \<open>extra\<close>
  ones of the running call.
\<close>

definition claims :: "sub_ref list \<Rightarrow> (sub_ref \<Rightarrow> nat) \<Rightarrow> world \<Rightarrow> sub_ref \<Rightarrow> nat" where
  "claims subs extra w r = (if r \<in> set subs then 1 else 0) + held r w + extra r"

definition refs_ok :: "nat \<Rightarrow> sub_ref list \<Rightarrow> (sub_ref \<Rightarrow> nat) \<Rightarrow> nat \<Rightarrow> world \<Rightarrow> bool" where
  "refs_ok k subs extra fresh w \<longleftrightarrow>
     finite (subscribed w) \<and> (\<forall>s \<in> subscribed w. s < fresh) \<and> \<not> w_fault w \<and> distinct subs \<and> (\<forall>c. ch_handlers (w_channels w c) = []) \<and>
     (\<forall>r. held r w \<le> k) \<and>
     (\<forall>r. 0 < claims subs extra w r \<longrightarrow> r < fresh \<and> \<not> su_freed (w_subs w r) \<and>
        su_ref_count (w_subs w r) = word_of_nat (claims subs extra w r))"

lemma refs_ok_mono: "refs_ok k subs extra fresh w \<Longrightarrow> k \<le> k' \<Longrightarrow> refs_ok k' subs extra fresh w"
  unfolding refs_ok_def by (meson order_trans)

lemma refs_okD:
  assumes "refs_ok k subs extra fresh w" "0 < claims subs extra w r"
  shows "r < fresh" "\<not> su_freed (w_subs w r)"
    "su_ref_count (w_subs w r) = word_of_nat (claims subs extra w r)"
  using assms by (auto simp: refs_ok_def)

lemma refs_ok_held: "refs_ok k subs extra fresh w \<Longrightarrow> held r w \<le> k"
  by (simp add: refs_ok_def)

lemma claims_bound: "refs_ok k subs extra fresh w \<Longrightarrow> claims subs extra w r \<le> Suc (k + extra r)"
  using refs_ok_held [of k subs extra fresh w r] by (simp add: claims_def)

text \<open>Changes that touch neither the subscriptions nor the lists that hold them.\<close>

definition refs_same :: "world \<Rightarrow> world \<Rightarrow> bool" where
  "refs_same w w' \<longleftrightarrow>
     (\<forall>s. so_subscriptions (w_sources w' s) = so_subscriptions (w_sources w s)) \<and>
     (\<forall>r. su_freed (w_subs w' r) = su_freed (w_subs w r) \<and>
          su_ref_count (w_subs w' r) = su_ref_count (w_subs w r)) \<and>
     (\<forall>c. ch_handlers (w_channels w' c) = ch_handlers (w_channels w c)) \<and>
     w_fault w' = w_fault w"

lemma refs_same_refl: "refs_same w w"
  by (simp add: refs_same_def)

lemma refs_same_trans: "refs_same w w' \<Longrightarrow> refs_same w' w'' \<Longrightarrow> refs_same w w''"
  by (simp add: refs_same_def)

lemma refs_same_held:
  assumes "refs_same w w'"
  shows "subscribed w' = subscribed w" "held r w' = held r w" "claims subs extra w' r = claims subs extra w r"
  using assms by (simp_all add: refs_same_def subscribed_def held_def claims_def)

lemma refs_ok_same: "refs_same w w' \<Longrightarrow> refs_ok k subs extra fresh w \<Longrightarrow> refs_ok k subs extra fresh w'"
  by (simp add: refs_ok_def refs_same_held) (simp add: refs_same_def)

lemma refs_same_channel:
  "(\<And>x. ch_handlers (f x) = ch_handlers x) \<Longrightarrow> refs_same w (upd_channel c f w)"
  by (simp add: refs_same_def world_simps)

lemma refs_same_source:
  "(\<And>x. so_subscriptions (f x) = so_subscriptions x) \<Longrightarrow> refs_same w (upd_source s f w)"
  by (simp add: refs_same_def world_simps)

lemma refs_same_sub:
  "(\<And>x. su_freed (f x) = su_freed x) \<Longrightarrow> (\<And>x. su_ref_count (f x) = su_ref_count x) \<Longrightarrow>
     refs_same w (upd_sub r f w)"
  by (simp add: refs_same_def world_simps)

lemma refs_same_use: "\<not> su_freed (w_subs w r) \<Longrightarrow> refs_same w (use_sub r w)"
  by (simp add: refs_same_def world_simps)

lemma refs_same_logs:
  "refs_same w (w\<lparr>w_spawned := a, w_watches := b\<rparr>)" "refs_same w (w\<lparr>w_watches := b\<rparr>)"
  "refs_same w (channel_kill c w)" "refs_same w (enqueue s x w)"
  by (simp_all add: refs_same_def channel_kill_def world_simps)

context source_notice
begin

lemma refs_same_round:
  assumes "\<And>x. so_subscriptions (g x) = so_subscriptions x"
  shows "refs_same w (notify_sources f c w)"
proof -
  have "so_subscriptions (w_sources (foldl (\<lambda>w s. f s w) w ss) s) = so_subscriptions (w_sources w s)" for ss s
    by (induction ss arbitrary: w) (simp_all add: notice_source assms)
  then show ?thesis
    by (simp add: refs_same_def notify_sources_def round_frame)
qed

end



lemma refs_same_rounds:
  "refs_same w (notify_sources (pka_source_notify_started info) c w)"
  "refs_same w (notify_sources pka_source_notify_stopped c w)"
  "refs_same w (notify_sources pka_source_notify_muted c w)"
  "refs_same w (notify_sources pka_source_notify_unmuted c w)"
  "refs_same w (notify_sources pka_source_notify_reset c w)"
  by (simp_all add: started.refs_same_round stopped.refs_same_round muted.refs_same_round
      unmuted.refs_same_round reset.refs_same_round)

lemma refs_same_set_state: "refs_same w (upd_channel c (\<lambda>x. x\<lparr>ch_state := st\<rparr>) w)"
  by (rule refs_same_channel) simp

lemma refs_same_state_ops:
  "refs_same w (snd (pka_channel_stop c ctx w))"
  "refs_same w (snd (pka_channel_mute c ctx w))"
  "refs_same w (snd (pka_channel_unmute c ctx w))"
proof -
  note moved = refs_same_trans [OF refs_same_set_state]
  show "refs_same w (snd (pka_channel_stop c ctx w))"
    using refs_same_trans [OF moved [OF refs_same_rounds(2)] refs_same_logs(3)]
    by (simp add: pka_channel_stop_def refs_same_refl split: pka_channel_state.split)
  show "refs_same w (snd (pka_channel_mute c ctx w))"
    using moved [OF refs_same_rounds(3)]
    by (simp add: pka_channel_mute_def refs_same_refl split: pka_channel_state.split)
  show "refs_same w (snd (pka_channel_unmute c ctx w))"
    using moved [OF refs_same_rounds(4)]
    by (simp add: pka_channel_unmute_def refs_same_refl split: pka_channel_state.split)
qed

lemma refs_same_start: "refs_same w (snd (pka_channel_start spawn tmp c ctx w))"
proof -
  obtain r w' where locked: "channel_start_locked spawn tmp c w = (r, w')"
    by (cases "channel_start_locked spawn tmp c w")
  have reset: "refs_same w (reset_if_stopped c w)"
    unfolding reset_if_stopped_def
    using refs_same_trans [OF refs_same_rounds(5) refs_same_set_state] refs_same_refl by simp
  show ?thesis
    using locked
  proof (cases rule: start_locked_cases)
    case (failed info)
    have "refs_same w w'"
      using refs_same_trans [OF reset refs_same_set_state] channel_spawn_failed [OF failed(3)] by simp
    with failed locked show ?thesis by (simp add: pka_channel_start_def)
  next
    case (started info info' w1)
    have "refs_same (reset_if_stopped c w) w1"
      using started(3)
    proof (cases rule: channel_spawn_cases)
      case (spawned pid dir)
      have "refs_same v (upd_channel c (\<lambda>x. x\<lparr>ch_pid := pid\<rparr>) v)" for v
        by (rule refs_same_channel) simp
      with spawned show ?thesis
        using refs_same_trans [OF _ refs_same_logs(1)] by blast
    qed (simp_all add: refs_same_refl)
    then have "refs_same w (notify_sources (pka_source_notify_started info') c w')"
      unfolding started(5)
      by (intro refs_same_trans [OF reset refs_same_trans [OF _ refs_same_trans [OF refs_same_set_state refs_same_rounds(1)]]])
    with started locked show ?thesis by (simp add: pka_channel_start_def)
  qed (use locked reset in \<open>simp_all add: pka_channel_start_def\<close>)
qed

lemma refs_same_exited: "refs_same w (pka_channel_inferior_exited pid status c w)"
proof -
  have "refs_same v (upd_channel c (\<lambda>x. x\<lparr>ch_exit_status := status\<rparr>) v)" for v
    by (rule refs_same_channel) simp
  then show ?thesis
    unfolding pka_channel_inferior_exited_def Let_def
    by (rule refs_same_trans [OF refs_same_trans [OF refs_same_logs(2)] refs_same_state_ops(1)])
qed

lemma refs_same_setters:
  "refs_same w (snd (pka_channel_set_target c ctx target w))"
  "refs_same w (snd (pka_channel_set_working_dir c ctx dir w))"
  "refs_same w (snd (pka_channel_set_args c ctx args w))"
  "refs_same w (snd (pka_channel_set_env c ctx env w))"
  "refs_same w (snd (pka_channel_set_pid c ctx pid w))"
  "refs_same w (snd (pka_channel_set_kill_pid c ctx b w))"
  by (auto simp: channel_setters refs_same_refl intro!: refs_same_channel)

lemma refs_same_stopped: "refs_same w (pka_source_notify_stopped s w)"
  using refs_same_trans [OF refs_same_source refs_same_logs(4)]
  by (simp add: pka_source_notify_stopped_def source_queues refs_same_refl)

lemma refs_same_add_source:
  assumes "\<forall>c. ch_handlers (w_channels w c) = []"
  shows "refs_same w (snd (pka_channel_add_source gt c ctx s w))"
  using assms by (simp add: pka_channel_add_source_def authorize_ioctl_def pka_context_is_authorized_def
      pka_source_set_channel_def refs_same_def emit_source_added_def world_simps)

section \<open>Taking and dropping references\<close>

lemma small_word:
  assumes "n < 2 ^ 31" "0 < n"
  shows "0 <s (word_of_nat n :: gint)" "(word_of_nat n :: gint) = 1 \<longleftrightarrow> n = 1"
    "(word_of_nat n :: gint) - 1 = word_of_nat (n - 1)"
proof -
  have s: "sint (word_of_nat n :: gint) = int n"
    using assms(1) by (rule sint_word_of_nat)
  then show "0 <s (word_of_nat n :: gint)"
    using assms(2) by (simp add: word_sless_alt)
  show "(word_of_nat n :: gint) = 1 \<longleftrightarrow> n = 1"
  proof
    assume "(word_of_nat n :: gint) = 1"
    then show "n = 1" using s by simp
  qed simp
  show "(word_of_nat n :: gint) - 1 = word_of_nat (n - 1)"
    using assms(2) by (simp add: of_nat_diff)
qed

lemma refs_ok_use:
  "refs_ok k subs extra fresh w \<Longrightarrow> 0 < claims subs extra w r \<Longrightarrow> refs_ok k subs extra fresh (use_sub r w)"
  by (rule refs_ok_same [OF refs_same_use]) (simp_all add: refs_okD)

lemma refs_ok_at:
  assumes ok: "refs_ok k subs extra fresh w"
    and same: "\<And>s. so_subscriptions (w_sources w' s) = so_subscriptions (w_sources w s)"
      "\<And>c. ch_handlers (w_channels w' c) = ch_handlers (w_channels w c)" "w_fault w' = w_fault w"
      "\<And>r'. r' \<noteq> r \<Longrightarrow> w_subs w' r' = w_subs w r'" "\<And>r'. r' \<noteq> r \<Longrightarrow> extra' r' = extra r'"
    and at: "0 < claims subs extra' w r \<Longrightarrow> r < fresh \<and> \<not> su_freed (w_subs w' r) \<and>
      su_ref_count (w_subs w' r) = word_of_nat (claims subs extra' w r)"
  shows "refs_ok k subs extra' fresh w'"
proof -
  have held: "held r' w' = held r' w" "subscribed w' = subscribed w" for r'
    by (simp_all add: held_def subscribed_def same)
  have "r' < fresh \<and> \<not> su_freed (w_subs w' r') \<and>
      su_ref_count (w_subs w' r') = word_of_nat (claims subs extra' w' r')"
    if "0 < claims subs extra' w' r'" for r'
  proof (cases "r' = r")
    case True
    with that at show ?thesis by (simp add: claims_def held)
  next
    case False
    with that refs_okD [OF ok, of r'] show ?thesis by (simp add: claims_def held same)
  qed
  with ok show ?thesis
    by (simp add: refs_ok_def held same)
qed

lemma refs_ok_ref:
  assumes ok: "refs_ok k subs extra fresh w" and r: "0 < claims subs extra w r" "claims subs extra w r < 2 ^ 31"
  shows "refs_ok k subs (extra(r := Suc (extra r))) fresh (pka_subscription_ref r w)"
proof -
  note d = refs_okD [OF ok r(1)]
  have "pka_subscription_ref r w = upd_sub r (\<lambda>s. s\<lparr>su_ref_count := su_ref_count s + 1\<rparr>) w"
    using d small_word(1) [OF r(2,1)] by (simp add: pka_subscription_ref_def Let_def use_sub_def)
  then show ?thesis
    using d by (intro refs_ok_at [OF ok, where r = r]) (simp_all add: world_simps claims_def)
qed

lemma refs_ok_unref:
  assumes ok: "refs_ok k subs extra fresh w" and r: "extra r = Suc e" "claims subs extra w r < 2 ^ 31"
  shows "refs_ok k subs (extra(r := e)) fresh (pka_subscription_unref r w)"
proof -
  let ?c = "claims subs (extra(r := e)) w r"
  have c: "claims subs extra w r = Suc ?c"
    using r(1) by (simp add: claims_def)
  then have pos: "0 < claims subs extra w r" by simp
  note d = refs_okD [OF ok pos]
  have "su_ref_count (w_subs w r) = 1 \<longleftrightarrow> ?c = 0"
    using d(3) small_word(2) [OF r(2) pos] c by simp
  then have eq: "pka_subscription_unref r w = (let w' = upd_sub r (\<lambda>s. s\<lparr>su_ref_count := su_ref_count s - 1\<rparr>) w
      in if ?c = 0 then pka_subscription_destroy r w' else w')"
    using d(2,3) small_word(1) [OF r(2) pos]
    by (simp add: pka_subscription_unref_def Let_def use_sub_def world_simps)
  have "su_ref_count (w_subs w r) - 1 = word_of_nat ?c"
    using d(3) small_word(3) [OF r(2) pos] c by simp
  with d show ?thesis
    by (intro refs_ok_at [OF ok, where r = r])
      (simp_all add: eq Let_def world_simps pka_subscription_destroy_def)
qed

section \<open>Attaching and detaching\<close>

lemma refs_ok_entries:
  assumes ok: "refs_ok k subs extra fresh w" and src: "w_sources w' = (w_sources w)(s := x)"
    and s: "so_subscriptions x \<noteq> [] \<Longrightarrow> s < fresh"
    and same: "w_channels w' = w_channels w" "w_fault w' = w_fault w"
      "\<And>r'. r' \<noteq> r \<Longrightarrow> w_subs w' r' = w_subs w r'"
      "\<And>r'. r' \<noteq> r \<Longrightarrow> count_list (so_subscriptions x) r' = count_list (so_subscriptions (w_sources w s)) r'"
    and k: "held r w' \<le> k'" "k \<le> k'"
    and at: "0 < claims subs extra w' r \<Longrightarrow> r < fresh \<and> \<not> su_freed (w_subs w' r) \<and>
      su_ref_count (w_subs w' r) = word_of_nat (claims subs extra w' r)"
  shows "refs_ok k' subs extra fresh w'"
proof -
  have fin: "finite (subscribed w)"
    using ok by (simp add: refs_ok_def)
  have held: "held r' w' = held r' w" if "r' \<noteq> r" for r'
    using held_update(2) [OF fin src, of r'] same(4) [OF that] by simp
  have "held r' w' \<le> k'" for r'
    using k held [of r'] ok by (cases "r' = r") (auto simp: refs_ok_def intro: order_trans)
  moreover have "r' < fresh \<and> \<not> su_freed (w_subs w' r') \<and>
      su_ref_count (w_subs w' r') = word_of_nat (claims subs extra w' r')"
    if "0 < claims subs extra w' r'" for r'
  proof (cases "r' = r")
    case True
    with that at show ?thesis by simp
  next
    case False
    with that refs_okD [OF ok, of r'] show ?thesis by (simp add: claims_def held same)
  qed
  moreover have "t < fresh" if "t \<in> subscribed w'" for t
    using that ok s by (cases "t = s") (auto simp: subscribed_def src refs_ok_def)
  ultimately show ?thesis
    using ok held_update(1) [OF fin src] by (simp add: refs_ok_def same)
qed

lemma attach_frame:
  "w_channels (snd (pka_subscription_add_source gt r ctx s w)) = w_channels w"
  "r' \<noteq> r \<Longrightarrow> w_subs (snd (pka_subscription_add_source gt r ctx s w)) r' = w_subs w r'"
  by (simp_all add: pka_subscription_add_source_def pka_source_add_subscription_def
      add_subscription_locked_def add_subscription_deliver_def pka_subscription_ref_def Let_def
      source_queues world_simps split: option.split)

lemma detach_frame:
  "w_channels (snd (pka_subscription_remove_source r ctx s w)) = w_channels w"
  "r' \<noteq> r \<Longrightarrow> w_subs (snd (pka_subscription_remove_source r ctx s w)) r' = w_subs w r'"
  by (simp_all add: pka_subscription_remove_source_def pka_source_remove_subscription_def
      pka_subscription_unref_def pka_subscription_destroy_def Let_def source_queues world_simps)

lemma refs_ok_attach:
  fixes gt :: gtypes and ctx :: pka_context and s :: source_ref
  assumes ok: "refs_ok k subs extra fresh w" and r: "0 < claims subs extra w r" "claims subs extra w r < 2 ^ 31"
    and s: "s < fresh"
  shows "refs_ok (Suc k) subs extra fresh (snd (pka_subscription_add_source gt r ctx s w))"
proof -
  let ?w = "snd (pka_subscription_add_source gt r ctx s w)"
  note d = refs_okD [OF ok r(1)]
  have pos: "0 <s su_ref_count (w_subs w r)"
    using d(3) small_word(1) [OF r(2,1)] by simp
  note effect = attach_effect [OF pos d(2), of gt ctx s]
  have fin: "finite (subscribed w)"
    using ok by (simp add: refs_ok_def)
  have held: "held r ?w = Suc (held r w)"
    using held_update(2) [OF fin effect(1), of r] by simp
  show ?thesis
  proof (rule refs_ok_entries [OF ok effect(1) s attach_frame(1) effect(4) attach_frame(2)])
    show "held r ?w \<le> Suc k"
      using held ok by (simp add: refs_ok_def)
    show "r < fresh \<and> \<not> su_freed (w_subs ?w r) \<and> su_ref_count (w_subs ?w r) = word_of_nat (claims subs extra ?w r)"
      using d effect(2,3) by (simp add: claims_def held add.commute)
  qed simp_all
qed

lemma refs_ok_detach:
  fixes ctx :: pka_context and s :: source_ref
  assumes ok: "refs_ok k subs extra fresh w" and r: "0 < extra r" "claims subs extra w r < 2 ^ 31"
  shows "refs_ok k subs extra fresh (snd (pka_subscription_remove_source r ctx s w))"
proof -
  let ?w = "snd (pka_subscription_remove_source r ctx s w)"
  let ?l = "so_subscriptions (w_sources w s)"
  have fin: "finite (subscribed w)"
    using ok by (simp add: refs_ok_def)
  have pos: "0 < claims subs extra w r"
    using r(1) by (simp add: claims_def)
  note d = refs_okD [OF ok pos]
  have some: "count_list ?l r \<le> held r w"
  proof (cases "s \<in> subscribed w")
    case True
    then show ?thesis
      unfolding held_def by (intro member_le_sum) (use fin in simp_all)
  qed (simp add: subscribed_def)
  have in_list: "r \<in> set ?l \<longleftrightarrow> 0 < count_list ?l r"
    by (metis count_list_0_iff gr0I less_numeral_extra(3))
  have not_last: "r \<in> set ?l \<longrightarrow> su_ref_count (w_subs w r) \<noteq> 1"
    using d(3) small_word(2) [OF r(2) pos] some r(1) in_list by (simp add: claims_def)
  have sless: "0 <s su_ref_count (w_subs w r)"
    using d(3) small_word(1) [OF r(2) pos] by simp
  note effect = detach_effect [OF not_last sless d(2), of ctx]
  have sum: "held r ?w + count_list ?l r = held r w + (count_list ?l r - 1)"
    using held_update(2) [OF fin effect(1), of r] by (simp add: count_remove_fast)
  show ?thesis
  proof (rule refs_ok_entries [OF ok effect(1) _ detach_frame(1) effect(4) detach_frame(2)])
    have "mset (ptr_array_remove_fast r ?l) \<noteq> {#} \<Longrightarrow> ?l \<noteq> []"
      by auto
    then have "ptr_array_remove_fast r ?l \<noteq> [] \<Longrightarrow> s \<in> subscribed w"
      by (simp add: subscribed_def)
    then show "so_subscriptions ((w_sources w s)\<lparr>so_subscriptions := ptr_array_remove_fast r ?l\<rparr>) \<noteq> [] \<Longrightarrow> s < fresh"
      using ok by (simp add: refs_ok_def)
    show "held r ?w \<le> k"
      using sum refs_ok_held [OF ok, of r] by linarith
    show "r < fresh \<and> \<not> su_freed (w_subs ?w r) \<and> su_ref_count (w_subs ?w r) = word_of_nat (claims subs extra ?w r)"
    proof (cases "r \<in> set ?l")
      case True
      then have "held r w = Suc (held r ?w)"
        using sum in_list by simp
      then have "claims subs extra w r = Suc (claims subs extra ?w r)"
        by (simp add: claims_def)
      with d effect(2,3) True show ?thesis by simp
    next
      case False
      then have "held r ?w = held r w"
        using sum in_list by simp
      then have "claims subs extra ?w r = claims subs extra w r"
        by (simp add: claims_def)
      with d effect(2,3) False show ?thesis by simp
    qed
  qed (simp_all add: count_remove_fast)
qed

lemma refs_ok_detach_all:
  fixes ctx :: pka_context
  assumes "refs_ok k subs extra fresh w" "0 < extra r" "Suc (k + extra r) < 2 ^ 31"
  shows "refs_ok k subs extra fresh
    (foldl (\<lambda>w s. snd (pka_subscription_remove_source r ctx s w)) w ss)"
  using assms(1)
proof (induction ss arbitrary: w)
  case (Cons s ss)
  have "claims subs extra w r < 2 ^ 31"
    using claims_bound [OF Cons.prems, of r] assms(3) by simp
  then show ?case
    using Cons.IH refs_ok_detach [OF Cons.prems assms(2)] by simp
qed simp

lemma refs_ok_remove_channel:
  assumes ok: "refs_ok k subs extra fresh w" and r: "0 < extra r" "Suc (k + extra r) < 2 ^ 31"
  shows "refs_ok k subs extra fresh (snd (pka_subscription_remove_channel r ctx c w))"
proof -
  have pos: "0 < claims subs extra v r" for v
    using r(1) by (simp add: claims_def)
  let ?w1 = "upd_channel c (\<lambda>x. x\<lparr>ch_handlers := filter (\<lambda>h. h \<noteq> r) (ch_handlers x)\<rparr>) (use_sub r w)"
  have "refs_same (use_sub r w) ?w1"
    using ok by (auto simp: refs_same_def refs_ok_def world_simps)
  then have "refs_ok k subs extra fresh ?w1"
    using refs_ok_same refs_ok_use [OF ok pos] by blast
  then have 1: "refs_ok k subs extra fresh (use_sub r
      (foldl (\<lambda>w s. snd (pka_subscription_remove_source r ctx s w)) ?w1 (pka_channel_get_sources c ?w1)))"
    by (intro refs_ok_use refs_ok_detach_all r pos)
  show ?thesis
    unfolding pka_subscription_remove_channel_def Let_def snd_conv
    by (rule refs_ok_same [OF refs_same_sub 1]) simp_all
qed

section \<open>The calls\<close>

text \<open>
  Every procedure but \<open>subscription_add_channel\<close>, with any arguments; what the surroundings contribute
  (the time, the host, what spawning gives) is arbitrary too.
\<close>

inductive plain_call :: "agent \<Rightarrow> agent \<Rightarrow> bool" where
  call_channel_add_source: "plain_call ag
    (snd (pka_listener_channel_add_source_finish gt (pka_listener_channel_add_source_async channel source) ag))"
| call_channel_mute: "plain_call ag
    (snd (pka_listener_channel_mute_finish (pka_listener_channel_mute_async channel) ag))"
| call_channel_get_args: "plain_call ag
    (snd (pka_listener_channel_get_args_finish (pka_listener_channel_get_args_async channel) ag))"
| call_channel_get_created_at: "plain_call ag
    (snd (pka_listener_channel_get_created_at_finish (pka_listener_channel_get_created_at_async channel) ag))"
| call_channel_get_env: "plain_call ag
    (snd (pka_listener_channel_get_env_finish (pka_listener_channel_get_env_async channel) ag))"
| call_channel_get_exit_status: "plain_call ag
    (snd (pka_listener_channel_get_exit_status_finish (pka_listener_channel_get_exit_status_async channel) ag))"
| call_channel_get_kill_pid: "plain_call ag
    (snd (pka_listener_channel_get_kill_pid_finish (pka_listener_channel_get_kill_pid_async channel) ag))"
| call_channel_get_pid: "plain_call ag
    (snd (pka_listener_channel_get_pid_finish (pka_listener_channel_get_pid_async channel) ag))"
| call_channel_get_pid_set: "plain_call ag
    (snd (pka_listener_channel_get_pid_set_finish (pka_listener_channel_get_pid_set_async channel) ag))"
| call_channel_get_sources: "plain_call ag
    (snd (pka_listener_channel_get_sources_finish (pka_listener_channel_get_sources_async channel) ag))"
| call_channel_get_state: "plain_call ag
    (snd (pka_listener_channel_get_state_finish (pka_listener_channel_get_state_async channel) ag))"
| call_channel_get_target: "plain_call ag
    (snd (pka_listener_channel_get_target_finish (pka_listener_channel_get_target_async channel) ag))"
| call_channel_get_working_dir: "plain_call ag
    (snd (pka_listener_channel_get_working_dir_finish (pka_listener_channel_get_working_dir_async channel) ag))"
| call_channel_set_args: "plain_call ag
    (snd (pka_listener_channel_set_args_finish (pka_listener_channel_set_args_async channel args) ag))"
| call_channel_set_env: "plain_call ag
    (snd (pka_listener_channel_set_env_finish (pka_listener_channel_set_env_async channel env) ag))"
| call_channel_set_kill_pid: "plain_call ag
    (snd (pka_listener_channel_set_kill_pid_finish (pka_listener_channel_set_kill_pid_async channel kill_pid) ag))"
| call_channel_set_pid: "plain_call ag
    (snd (pka_listener_channel_set_pid_finish (pka_listener_channel_set_pid_async channel pid) ag))"
| call_channel_set_target: "plain_call ag
    (snd (pka_listener_channel_set_target_finish (pka_listener_channel_set_target_async channel target) ag))"
| call_channel_set_working_dir: "plain_call ag
    (snd (pka_listener_channel_set_working_dir_finish (pka_listener_channel_set_working_dir_async channel working_dir) ag))"
| call_channel_start: "plain_call ag
    (snd (pka_listener_channel_start_finish spawn tmp (pka_listener_channel_start_async channel) ag))"
| call_channel_stop: "plain_call ag
    (snd (pka_listener_channel_stop_finish (pka_listener_channel_stop_async channel) ag))"
| call_channel_unmute: "plain_call ag
    (snd (pka_listener_channel_unmute_finish (pka_listener_channel_unmute_async channel) ag))"
| call_manager_add_channel: "plain_call ag
    (snd (pka_listener_manager_add_channel_finish tmp now ag))"
| call_manager_add_source: "plain_call ag
    (snd (pka_listener_manager_add_source_finish (pka_listener_manager_add_source_async plugin) ag))"
| call_manager_add_subscription: "plain_call ag
    (snd (pka_listener_manager_add_subscription_finish now (pka_listener_manager_add_subscription_async buffer_size timeout) ag))"
| call_manager_get_channels: "plain_call ag
    (snd (pka_listener_manager_get_channels_finish ag))"
| call_manager_get_hostname: "plain_call ag
    (snd (pka_listener_manager_get_hostname_finish hostname ag))"
| call_manager_get_plugins: "plain_call ag
    (snd (pka_listener_manager_get_plugins_finish ag))"
| call_manager_get_sources: "plain_call ag
    (snd (pka_listener_manager_get_sources_finish ag))"
| call_manager_get_subscriptions: "plain_call ag
    (snd (pka_listener_manager_get_subscriptions_finish ag))"
| call_manager_get_version: "plain_call ag
    (snd (pka_listener_manager_get_version_finish version ag))"
| call_manager_ping: "plain_call ag
    (snd (pka_listener_manager_ping_finish now ag))"
| call_manager_remove_channel: "plain_call ag
    (snd (pka_listener_manager_remove_channel_finish (pka_listener_manager_remove_channel_async channel) ag))"
| call_manager_remove_source: "plain_call ag
    (snd (pka_listener_manager_remove_source_finish (pka_listener_manager_remove_source_async source) ag))"
| call_manager_remove_subscription: "plain_call ag
    (snd (pka_listener_manager_remove_subscription_finish (pka_listener_manager_remove_subscription_async subscription) ag))"
| call_plugin_get_copyright: "plain_call ag
    (snd (pka_listener_plugin_get_copyright_finish (pka_listener_plugin_get_copyright_async plugin) ag))"
| call_plugin_get_description: "plain_call ag
    (snd (pka_listener_plugin_get_description_finish (pka_listener_plugin_get_description_async plugin) ag))"
| call_plugin_get_name: "plain_call ag
    (snd (pka_listener_plugin_get_name_finish (pka_listener_plugin_get_name_async plugin) ag))"
| call_plugin_get_plugin_type: "plain_call ag
    (snd (pka_listener_plugin_get_plugin_type_finish (pka_listener_plugin_get_plugin_type_async plugin) ag))"
| call_plugin_get_version: "plain_call ag
    (snd (pka_listener_plugin_get_version_finish (pka_listener_plugin_get_version_async plugin) ag))"
| call_source_get_plugin: "plain_call ag
    (snd (pka_listener_source_get_plugin_finish (pka_listener_source_get_plugin_async source) ag))"
| call_subscription_add_source: "plain_call ag
    (snd (pka_listener_subscription_add_source_finish gt (pka_listener_subscription_add_source_async subscription source) ag))"
| call_subscription_get_buffer: "plain_call ag
    (snd (pka_listener_subscription_get_buffer_finish (pka_listener_subscription_get_buffer_async subscription) ag))"
| call_subscription_get_created_at: "plain_call ag
    (snd (pka_listener_subscription_get_created_at_finish (pka_listener_subscription_get_created_at_async subscription) ag))"
| call_subscription_get_sources: "plain_call ag
    (snd (pka_listener_subscription_get_sources_finish (pka_listener_subscription_get_sources_async subscription) ag))"
| call_subscription_mute: "plain_call ag
    (snd (pka_listener_subscription_mute_finish (pka_listener_subscription_mute_async subscription drain) ag))"
| call_subscription_remove_channel: "plain_call ag
    (snd (pka_listener_subscription_remove_channel_finish (pka_listener_subscription_remove_channel_async subscription channel) ag))"
| call_subscription_remove_source: "plain_call ag
    (snd (pka_listener_subscription_remove_source_finish (pka_listener_subscription_remove_source_async subscription source) ag))"
| call_subscription_set_buffer: "plain_call ag
    (snd (pka_listener_subscription_set_buffer_finish (pka_listener_subscription_set_buffer_async subscription timeout size_arg) ag))"
| call_subscription_unmute: "plain_call ag
    (snd (pka_listener_subscription_unmute_finish (pka_listener_subscription_unmute_async subscription) ag))"
| call_encoder_get_plugin: "plain_call ag
    (snd (pka_listener_encoder_get_plugin_finish p ag))"

text \<open>The plugins make what they say they make.\<close>

definition plugins_honest :: "agent \<Rightarrow> bool" where
  "plugins_honest ag \<longleftrightarrow> (\<forall>p info factory n x. pl_info (ag_plugin_store ag p) = Some info \<longrightarrow>
     pi_factory info = Some factory \<longrightarrow> factory n = Ok x \<longrightarrow>
     (case x of Source_Object _ \<Rightarrow> pi_plugin_type info = PLUGIN_SOURCE
      | Encoder_Object _ \<Rightarrow> pi_plugin_type info = PLUGIN_ENCODER
      | Listener_Object \<Rightarrow> pi_plugin_type info = PLUGIN_LISTENER))"

definition agent_refs :: "nat \<Rightarrow> (sub_ref \<Rightarrow> nat) \<Rightarrow> agent \<Rightarrow> bool" where
  "agent_refs k extra ag \<longleftrightarrow>
     refs_ok k (ag_subscriptions ag) extra (ag_fresh ag) (ag_world ag) \<and>
     (\<forall>s \<in> set (ag_sources ag). s < ag_fresh ag) \<and> plugins_honest ag"

lemma agent_refs_mono: "agent_refs k extra ag \<Longrightarrow> k \<le> k' \<Longrightarrow> agent_refs k' extra ag"
  by (auto simp: agent_refs_def intro: refs_ok_mono)

lemma agent_refs_world:
  assumes "agent_refs k extra ag"
    and "refs_ok k (ag_subscriptions ag) extra (ag_fresh ag) (ag_world ag) \<Longrightarrow>
      refs_ok k' (ag_subscriptions ag) extra' (ag_fresh ag) w'"
  shows "agent_refs k' extra' (ag\<lparr>ag_world := w'\<rparr>)"
  using assms by (simp add: agent_refs_def plugins_honest_def)

lemma in_world_refs:
  assumes "agent_refs k extra ag"
    and "\<And>subs fresh w. refs_ok k subs extra fresh w \<Longrightarrow> refs_ok k' subs extra fresh (snd (f w))"
  shows "agent_refs k' extra (snd (in_world f ag))"
  unfolding in_world_def case_prod_beta snd_conv by (rule agent_refs_world [OF assms])

lemma on_world_refs:
  assumes "agent_refs k extra ag"
    and "refs_ok k (ag_subscriptions ag) extra (ag_fresh ag) (ag_world ag) \<Longrightarrow>
      refs_ok k' (ag_subscriptions ag) extra' (ag_fresh ag) (f (ag_world ag))"
  shows "agent_refs k' extra' (on_world f ag)"
  unfolding on_world_def by (rule agent_refs_world [OF assms])

lemma with_channel_refs:
  assumes "agent_refs k extra ag" "\<And>c. agent_refs k extra (snd (f c ag))"
  shows "agent_refs k extra (snd (with_channel i f ag))"
  using assms by (simp add: with_channel_def split: ans.split)

lemma with_source_refs:
  assumes "agent_refs k extra ag" "k \<le> k'"
    and "\<And>s. s < ag_fresh ag \<Longrightarrow> agent_refs k' extra (snd (f s ag))"
  shows "agent_refs k' extra (snd (with_source i f ag))"
proof (cases "pka_manager_find_source DEFAULT_CONTEXT i ag")
  case (Ok s)
  then have "s \<in> set (ag_sources ag)"
    using sources.fetch_sound by blast
  then have "s < ag_fresh ag"
    using assms(1) by (simp add: agent_refs_def)
  with Ok assms(3) show ?thesis by (simp add: with_source_def)
qed (use assms agent_refs_mono in \<open>simp_all add: with_source_def\<close>)

lemma with_plugin_refs:
  assumes "agent_refs k extra ag" "\<And>p. agent_refs k extra (snd (f p ag))"
  shows "agent_refs k extra (snd (with_plugin i f ag))"
  using assms by (simp add: with_plugin_def split: ans.split)

abbreviation no_extra :: "sub_ref \<Rightarrow> nat" where
  "no_extra \<equiv> (\<lambda>_. 0)"

lemma with_subscription_refs:
  assumes ok: "agent_refs k no_extra ag" and k: "k \<le> k'" "k' + 2 < 2 ^ 31"
    and step: "\<And>r ag. agent_refs k (no_extra(r := 1)) ag \<Longrightarrow> agent_refs k' (no_extra(r := 1)) (snd (f r ag))"
  shows "agent_refs k' no_extra (snd (with_subscription i f ag))"
proof (cases "fst (pka_manager_find_subscription DEFAULT_CONTEXT i ag)")
  case (Ok r)
  then have r: "r \<in> set (ag_subscriptions ag)"
    using subscriptions.fetch_sound by blast
  have find: "pka_manager_find_subscription DEFAULT_CONTEXT i ag = (Ok r, on_world (pka_subscription_ref r) ag)"
    using Ok by (simp add: pka_manager_find_subscription_def split: ans.splits)
  have "agent_refs k (no_extra(r := 1)) (on_world (pka_subscription_ref r) ag)"
  proof (rule on_world_refs [OF ok])
    assume refs: "refs_ok k (ag_subscriptions ag) no_extra (ag_fresh ag) (ag_world ag)"
    have "0 < claims (ag_subscriptions ag) no_extra (ag_world ag) r"
      using r by (simp add: claims_def)
    moreover have "claims (ag_subscriptions ag) no_extra (ag_world ag) r < 2 ^ 31"
      using claims_bound [OF refs, of r] k by simp
    ultimately show "refs_ok k (ag_subscriptions ag) (no_extra(r := 1)) (ag_fresh ag)
        (pka_subscription_ref r (ag_world ag))"
      using refs_ok_ref [OF refs] by simp
  qed
  then have "agent_refs k' (no_extra(r := 1)) (snd (f r (on_world (pka_subscription_ref r) ag)))"
    by (rule step)
  then have "agent_refs k' no_extra
      (on_world (pka_subscription_unref r) (snd (f r (on_world (pka_subscription_ref r) ag))))"
  proof (rule on_world_refs)
    let ?ag = "snd (f r (on_world (pka_subscription_ref r) ag))"
    assume refs: "refs_ok k' (ag_subscriptions ?ag) (no_extra(r := 1)) (ag_fresh ?ag) (ag_world ?ag)"
    have "claims (ag_subscriptions ?ag) (no_extra(r := 1)) (ag_world ?ag) r < 2 ^ 31"
      using claims_bound [OF refs, of r] k by simp
    then show "refs_ok k' (ag_subscriptions ?ag) no_extra (ag_fresh ?ag) (pka_subscription_unref r (ag_world ?ag))"
      using refs_ok_unref [OF refs, of r 0] by (simp add: fun_upd_idem)
  qed
  then show ?thesis
    by (simp add: with_subscription_def find case_prod_beta)
next
  case (Err e)
  then show ?thesis
    using agent_refs_mono [OF ok k(1)]
    by (auto simp: with_subscription_def pka_manager_find_subscription_def split: ans.splits prod.splits)
next
  case Quiet
  then show ?thesis
    using agent_refs_mono [OF ok k(1)]
    by (auto simp: with_subscription_def pka_manager_find_subscription_def split: ans.splits prod.splits)
qed

end
