(* ===== verification/Agent_Safety.thy ===== *)
theory Agent_Safety
  imports Agent_Calls
begin

text \<open>
  Every remote procedure but \<open>subscription_add_channel\<close> keeps the count of references right and uses
  no freed memory; the sequence of calls that does; and what the registry promises to clients.
\<close>

section \<open>Creating and removing\<close>

lemma refs_ok_fresh:
  "refs_ok k subs extra fresh w \<Longrightarrow> fresh \<le> fresh' \<Longrightarrow> refs_ok k subs extra fresh' w"
  unfolding refs_ok_def by (meson less_le_trans)

lemma refs_ok_own:
  assumes ok: "refs_ok k subs extra fresh w" and r: "r \<notin> set subs" "extra r = Suc e"
  shows "refs_ok k (subs @ [r]) (extra(r := e)) fresh w"
proof -
  have "claims (subs @ [r]) (extra(r := e)) w r' = claims subs extra w r'" for r'
    using r by (auto simp: claims_def)
  with ok r(1) show ?thesis by (simp add: refs_ok_def)
qed

lemma refs_ok_disown:
  assumes ok: "refs_ok k subs extra fresh w" and r: "r \<in> set subs"
  shows "refs_ok k (remove1 r subs) (extra(r := Suc (extra r))) fresh w"
proof -
  have "distinct subs"
    using ok by (simp add: refs_ok_def)
  then have "claims (remove1 r subs) (extra(r := Suc (extra r))) w r' = claims subs extra w r'" for r'
    using r by (auto simp: claims_def)
  with ok show ?thesis by (simp add: refs_ok_def)
qed

lemma refs_ok_no_claims:
  "refs_ok k subs extra fresh w \<Longrightarrow> fresh \<le> r \<Longrightarrow> claims subs extra w r = 0"
  using refs_okD(1) [of k subs extra fresh w r] by (cases "claims subs extra w r = 0") auto

lemma refs_ok_new_subscription:
  assumes ok: "refs_ok k subs no_extra fresh w"
  shows "refs_ok k subs (no_extra(fresh := 1)) (Suc fresh)
    (upd_sub fresh (\<lambda>_. pka_subscription_new sid now) w)"
proof -
  let ?w = "upd_sub fresh (\<lambda>_. pka_subscription_new sid now) w"
  have none: "claims subs no_extra w fresh = 0"
    by (rule refs_ok_no_claims [OF ok order_refl])
  have "claims subs (no_extra(fresh := 1)) w fresh = 1"
    using none by (simp add: claims_def)
  then show ?thesis
    by (intro refs_ok_at [OF refs_ok_fresh [OF ok], where r = fresh])
      (simp_all add: world_simps pka_subscription_new_def)
qed

lemma agent_refs_add_subscription:
  assumes ok: "agent_refs k no_extra ag" and k: "k + 3 < 2 ^ 31"
  shows "agent_refs k no_extra
    (snd (pka_listener_manager_add_subscription_finish now
      (pka_listener_manager_add_subscription_async buffer_size timeout) ag))"
proof -
  let ?r = "ag_fresh ag" and ?subs = "ag_subscriptions ag"
  let ?w1 = "upd_sub ?r (\<lambda>_. pka_subscription_new (ag_subscription_seq ag) now) (ag_world ag)"
  let ?w2 = "pka_subscription_ref ?r ?w1"
  have refs: "refs_ok k ?subs no_extra ?r (ag_world ag)"
    using ok by (simp add: agent_refs_def)
  have 1: "refs_ok k ?subs (no_extra(?r := 1)) (Suc ?r) ?w1"
    by (rule refs_ok_new_subscription [OF refs])
  have notin: "?r \<notin> set ?subs"
    using refs_ok_no_claims [OF refs order_refl] by (auto simp: claims_def)
  have "refs_ok k ?subs (no_extra(?r := 2)) (Suc ?r) ?w2"
    using refs_ok_ref [OF 1, of ?r] claims_bound [OF 1, of ?r] k by (simp add: claims_def numeral_2_eq_2)
  then have 3: "refs_ok k (?subs @ [?r]) (no_extra(?r := 1)) (Suc ?r) ?w2"
    using refs_ok_own [OF _ notin, of k "no_extra(?r := 2)" _ ?w2 1] by simp
  have "claims (?subs @ [?r]) (no_extra(?r := 1)) ?w2 ?r < 2 ^ 31"
    using claims_bound [OF 3, of ?r] k by simp
  then have "refs_ok k (?subs @ [?r]) no_extra (Suc ?r) (pka_subscription_unref ?r ?w2)"
    using refs_ok_unref [OF 3, of ?r 0] by (simp add: fun_upd_idem)
  then show ?thesis
    using ok by (auto simp: pka_listener_manager_add_subscription_finish_def
        pka_listener_manager_add_subscription_async_def pka_manager_add_subscription_def manager_ops
        subscription_object_new_def agent_refs_def plugins_honest_def)
qed

lemma agent_refs_remove_subscription:
  assumes ok: "agent_refs k no_extra ag" and k: "k + 3 < 2 ^ 31"
  shows "agent_refs k no_extra
    (snd (pka_listener_manager_remove_subscription_finish
      (pka_listener_manager_remove_subscription_async subscription) ag))"
proof (cases "fst (pka_manager_find_subscription DEFAULT_CONTEXT subscription ag)")
  case (Ok r)
  let ?subs = "ag_subscriptions ag" and ?w1 = "pka_subscription_ref r (ag_world ag)"
  have refs: "refs_ok k ?subs no_extra (ag_fresh ag) (ag_world ag)"
    using ok by (simp add: agent_refs_def)
  have r: "r \<in> set ?subs"
    using Ok subscriptions.fetch_sound by blast
  have find: "pka_manager_find_subscription DEFAULT_CONTEXT subscription ag = (Ok r, on_world (pka_subscription_ref r) ag)"
    using Ok by (simp add: pka_manager_find_subscription_def split: ans.splits)
  have "0 < claims ?subs no_extra (ag_world ag) r" "claims ?subs no_extra (ag_world ag) r < 2 ^ 31"
    using r claims_bound [OF refs, of r] k by (simp_all add: claims_def)
  then have 1: "refs_ok k ?subs (no_extra(r := 1)) (ag_fresh ag) ?w1"
    using refs_ok_ref [OF refs, of r] by simp
  then have "refs_ok k ?subs (no_extra(r := 1)) (ag_fresh ag) (use_sub r ?w1)"
    by (rule refs_ok_use) (simp add: claims_def)
  then have 2: "refs_ok k (remove1 r ?subs) (no_extra(r := 2)) (ag_fresh ag) (use_sub r ?w1)"
    using refs_ok_disown [OF _ r, of k "no_extra(r := 1)"] by (simp add: numeral_2_eq_2)
  have "claims (remove1 r ?subs) (no_extra(r := 2)) (use_sub r ?w1) r < 2 ^ 31"
    using claims_bound [OF 2, of r] k by simp
  then have 3: "refs_ok k (remove1 r ?subs) (no_extra(r := 1)) (ag_fresh ag)
      (pka_subscription_unref r (use_sub r ?w1))"
    using refs_ok_unref [OF 2, of r 1] by simp
  have "claims (remove1 r ?subs) (no_extra(r := 1)) (pka_subscription_unref r (use_sub r ?w1)) r < 2 ^ 31"
    using claims_bound [OF 3, of r] k by simp
  then have "refs_ok k (remove1 r ?subs) no_extra (ag_fresh ag)
      (pka_subscription_unref r (pka_subscription_unref r (use_sub r ?w1)))"
    using refs_ok_unref [OF 3, of r 0] by (simp add: fun_upd_idem)
  then show ?thesis
    using ok by (simp add: pka_listener_manager_remove_subscription_finish_def
        pka_listener_manager_remove_subscription_async_def with_subscription_def find
        pka_manager_remove_subscription_def manager_ops agent_refs_def plugins_honest_def)
qed (use ok in \<open>auto simp: pka_listener_manager_remove_subscription_finish_def
    pka_listener_manager_remove_subscription_async_def with_subscription_def
    pka_manager_find_subscription_def split: ans.splits prod.splits\<close>)

lemma agent_refs_add_channel:
  assumes ok: "agent_refs k no_extra ag"
  shows "agent_refs k no_extra (snd (pka_listener_manager_add_channel_finish tmp now ag))"
proof -
  let ?w = "upd_channel (ag_fresh ag) (\<lambda>_. pka_channel_init (ag_channel_seq ag) tmp now) (ag_world ag)"
  have refs: "refs_ok k (ag_subscriptions ag) no_extra (ag_fresh ag) (ag_world ag)"
    using ok by (simp add: agent_refs_def)
  then have "refs_same (ag_world ag) ?w"
    by (simp add: refs_same_def refs_ok_def world_simps pka_channel_init_def)
  then have "refs_ok k (ag_subscriptions ag) no_extra (Suc (ag_fresh ag)) ?w"
    using refs_ok_fresh [OF refs_ok_same [OF _ refs]] by simp
  then show ?thesis
    using ok by (auto simp: pka_listener_manager_add_channel_finish_def pka_manager_add_channel_def
        manager_ops channel_object_new_def agent_refs_def plugins_honest_def)
qed

lemma honest_source:
  assumes "plugins_honest ag" "pl_info (ag_plugin_store ag p) = Some info" "pi_factory info = Some factory"
    and "factory n = Ok x" "pi_plugin_type info = PLUGIN_SOURCE"
  shows "\<exists>modify. x = Source_Object modify"
  using assms unfolding plugins_honest_def
  by (cases x) fastforce+

lemma manager_add_source_refs:
  assumes ok: "agent_refs k no_extra ag"
  shows "agent_refs k no_extra (snd (pka_manager_add_source ctx p ag))"
proof (cases "pka_plugin_get_plugin_type (ag_plugin_store ag p) = PLUGIN_SOURCE")
  case True
  have refs: "refs_ok k (ag_subscriptions ag) no_extra (ag_fresh ag) (ag_world ag)"
    using ok by (simp add: agent_refs_def)
  show ?thesis
  proof (cases "pka_plugin_create p ag")
    case (Pair x ag1)
    show ?thesis
    proof (cases x)
      case (Ok r)
      obtain modify where ag1: "r = ag_fresh ag" "ag1 = ag\<lparr>ag_fresh := r + 1,
          ag_source_seq := ag_source_seq ag + 1, ag_world :=
          upd_source r (\<lambda>_. (pka_source_init (ag_source_seq ag) modify)\<lparr>so_plugin := Some p\<rparr>) (ag_world ag)\<rparr>"
        using create_source_effect [OF _ True] Pair Ok by metis
      have empty: "so_subscriptions (w_sources (ag_world ag) (ag_fresh ag)) = []"
        using refs by (auto simp: refs_ok_def subscribed_def)
      have "refs_same (ag_world ag) (ag_world ag1)"
        using empty by (simp add: ag1 refs_same_def world_simps pka_source_init_def)
      then have "refs_ok k (ag_subscriptions ag) no_extra (Suc (ag_fresh ag)) (ag_world ag1)"
        using refs_ok_fresh [OF refs_ok_same [OF _ refs]] by simp
      then show ?thesis
        using ok True Pair Ok by (auto simp: pka_manager_add_source_def manager_ops ag1 agent_refs_def
            plugins_honest_def)
    next
      case (Err e)
      then have "ag1 = ag"
        using Pair True by (auto simp: Let_def pka_plugin_create_def pka_plugin_get_plugin_type_def source_object_new_def
            split: option.splits ans.splits g_object.splits pka_plugin_type.splits)
      with ok Pair Err True show ?thesis
        by (simp add: pka_manager_add_source_def manager_ops)
    next
      case Quiet
      have "ag1 = ag"
        using Pair True ok unfolding Quiet agent_refs_def
        by (auto simp: Let_def pka_plugin_create_def pka_plugin_get_plugin_type_def source_object_new_def
            dest: honest_source
            split: option.splits ans.splits g_object.splits pka_plugin_type.splits)
      with ok Pair Quiet True show ?thesis
        by (simp add: pka_manager_add_source_def manager_ops)
    qed
  qed
qed (use ok in \<open>simp add: pka_manager_add_source_def manager_ops\<close>)

lemma agent_refs_add_source:
  assumes ok: "agent_refs k no_extra ag"
  shows "agent_refs k no_extra (snd (pka_listener_manager_add_source_finish
    (pka_listener_manager_add_source_async plugin) ag))"
proof -
  have "agent_refs k no_extra (snd (case pka_manager_add_source DEFAULT_CONTEXT p ag of
         (Ok s, ag) \<Rightarrow> (Ok (pka_source_get_id s (ag_world ag)), ag)
       | (Err e, ag) \<Rightarrow> (Err e, ag)
       | (Quiet, ag) \<Rightarrow> (Quiet, ag)))" for p
    using manager_add_source_refs [OF ok, of DEFAULT_CONTEXT p]
    by (auto split: prod.splits ans.splits)
  then show ?thesis
    unfolding pka_listener_manager_add_source_finish_def pka_listener_manager_add_source_async_def
    by (intro with_plugin_refs [OF ok])
qed

lemma agent_refs_remove_source:
  assumes ok: "agent_refs k no_extra ag"
  shows "agent_refs k no_extra (snd (pka_listener_manager_remove_source_finish
    (pka_listener_manager_remove_source_async source) ag))"
proof -
  have "agent_refs k no_extra (snd (pka_manager_remove_source DEFAULT_CONTEXT s ag))" for s
  proof -
    have "refs_ok k (ag_subscriptions ag) no_extra (ag_fresh ag) (pka_source_notify_stopped s (ag_world ag))"
      using ok refs_ok_same [OF refs_same_stopped] by (simp add: agent_refs_def)
    with ok show ?thesis
      by (auto simp: pka_manager_remove_source_def manager_ops agent_refs_def plugins_honest_def
          dest: notin_set_remove1 in_set_remove1 [THEN iffD1] set_remove1_subset [THEN subsetD])
  qed
  then show ?thesis
    unfolding pka_listener_manager_remove_source_finish_def pka_listener_manager_remove_source_async_def
    by (intro with_source_refs [OF ok order_refl])
qed

definition one_each :: "sub_ref set \<Rightarrow> sub_ref \<Rightarrow> nat" where
  "one_each A r = (if r \<in> A then 1 else 0)"

lemma one_each_empty: "one_each {} = no_extra"
  by (simp add: one_each_def fun_eq_iff)

lemma refs_ok_ref_all:
  assumes "refs_ok k subs (one_each A) fresh w" "k + 3 < 2 ^ 31"
    and "set rs \<subseteq> set subs" "distinct rs" "A \<inter> set rs = {}"
  shows "refs_ok k subs (one_each (A \<union> set rs)) fresh (foldl (\<lambda>w r. pka_subscription_ref r w) w rs)"
  using assms
proof (induction rs arbitrary: A w)
  case (Cons r rs)
  have "0 < claims subs (one_each A) w r" "claims subs (one_each A) w r < 2 ^ 31"
    using Cons.prems claims_bound [OF Cons.prems(1), of r] by (auto simp: claims_def one_each_def)
  then have "refs_ok k subs ((one_each A)(r := Suc (one_each A r))) fresh (pka_subscription_ref r w)"
    using refs_ok_ref [OF Cons.prems(1)] by blast
  moreover have "(one_each A)(r := Suc (one_each A r)) = one_each (insert r A)"
    using Cons.prems(5) by (auto simp: one_each_def fun_eq_iff)
  ultimately have "refs_ok k subs (one_each (insert r A)) fresh (pka_subscription_ref r w)"
    by simp
  then have "refs_ok k subs (one_each (insert r A \<union> set rs)) fresh
      (foldl (\<lambda>w r. pka_subscription_ref r w) (pka_subscription_ref r w) rs)"
    using Cons.prems by (intro Cons.IH) auto
  then show ?case by simp
qed simp

lemma refs_ok_unref_all:
  assumes "refs_ok k subs (one_each A) fresh w" "k + 3 < 2 ^ 31" "distinct rs" "set rs \<subseteq> A"
  shows "refs_ok k subs (one_each (A - set rs)) fresh (foldl (\<lambda>w r. pka_subscription_unref r w) w rs)"
  using assms
proof (induction rs arbitrary: A w)
  case (Cons r rs)
  have r: "one_each A r = Suc 0"
    using Cons.prems(4) by (simp add: one_each_def)
  have "claims subs (one_each A) w r < 2 ^ 31"
    using claims_bound [OF Cons.prems(1), of r] Cons.prems(2) r by simp
  then have "refs_ok k subs ((one_each A)(r := 0)) fresh (pka_subscription_unref r w)"
    using refs_ok_unref [OF Cons.prems(1) r] by blast
  moreover have "(one_each A)(r := 0) = one_each (A - {r})"
    by (auto simp: one_each_def fun_eq_iff)
  ultimately have "refs_ok k subs (one_each (A - {r})) fresh (pka_subscription_unref r w)"
    by simp
  then have "refs_ok k subs (one_each (A - {r} - set rs)) fresh
      (foldl (\<lambda>w r. pka_subscription_unref r w) (pka_subscription_unref r w) rs)"
    using Cons.prems by (intro Cons.IH) auto
  moreover have "A - {r} - set rs = A - set (r # rs)"
    by auto
  ultimately show ?case by (simp only: foldl_Cons)
qed simp

lemma agent_refs_get_subscriptions:
  assumes ok: "agent_refs k no_extra ag" and k: "k + 3 < 2 ^ 31"
  shows "agent_refs k no_extra (snd (pka_listener_manager_get_subscriptions_finish ag))"
proof -
  let ?subs = "ag_subscriptions ag"
  have refs: "refs_ok k ?subs (one_each {}) (ag_fresh ag) (ag_world ag)" and dist: "distinct ?subs"
    using ok by (simp_all add: agent_refs_def one_each_empty refs_ok_def)
  have "refs_ok k ?subs (one_each (set ?subs)) (ag_fresh ag)
      (foldl (\<lambda>w r. pka_subscription_ref r w) (ag_world ag) ?subs)"
    using refs_ok_ref_all [OF refs k _ dist] by simp
  then have "refs_ok k ?subs (one_each (set ?subs - set (rev ?subs))) (ag_fresh ag)
      (foldl (\<lambda>w r. pka_subscription_unref r w)
        (foldl (\<lambda>w r. pka_subscription_ref r w) (ag_world ag) ?subs) (rev ?subs))"
    by (rule refs_ok_unref_all) (use k dist in simp_all)
  then have "agent_refs k no_extra (ag\<lparr>ag_world := foldl (\<lambda>w r. pka_subscription_unref r w)
        (foldl (\<lambda>w r. pka_subscription_ref r w) (ag_world ag) ?subs) (rev ?subs)\<rparr>)"
    by (intro agent_refs_world [OF ok]) (simp add: one_each_empty)
  then show ?thesis
    by (simp add: pka_listener_manager_get_subscriptions_finish_def
        pka_manager_get_subscriptions_def on_world_def prepend_all_rev)
qed

section \<open>Every call\<close>

lemma in_world_same:
  assumes "agent_refs k extra ag" "\<And>w. refs_same w (snd (f w))"
  shows "agent_refs k extra (snd (in_world f ag))"
  by (rule in_world_refs [OF assms(1)]) (rule refs_ok_same [OF assms(2)])

lemma agent_refs_answer: "agent_refs k extra ag \<Longrightarrow> agent_refs k extra (snd (answer x ag))"
  by (simp add: answer_def)

lemma refs_same_buffer:
  assumes "\<not> su_freed (w_subs w r)"
  shows "refs_same w (snd (pka_subscription_set_buffer r ctx t n w))"
    "refs_same w (snd (pka_subscription_mute r ctx drain w))"
    "refs_same w (snd (pka_subscription_unmute r ctx w))"
  using assms by (simp_all add: subscription_ops Let_def refs_same_def world_simps)

lemma extra_alive: "refs_ok k subs extra fresh w \<Longrightarrow> 0 < extra r \<Longrightarrow> \<not> su_freed (w_subs w r)"
  using refs_okD(2) [of k subs extra fresh w r] by (simp add: claims_def)

lemma agent_refs_channel_add_source:
  assumes ok: "agent_refs k no_extra ag"
  shows "agent_refs k no_extra (snd (in_world (pka_channel_add_source gt c ctx s) ag))"
  by (rule in_world_refs [OF ok]) (rule refs_ok_same [OF refs_same_add_source], simp_all add: refs_ok_def)

lemma agent_refs_attach:
  assumes ok: "agent_refs k (no_extra(r := 1)) ag" and k: "Suc k + 2 < 2 ^ 31" and s: "s < ag_fresh ag"
  shows "agent_refs (Suc k) (no_extra(r := 1)) (snd (in_world (pka_subscription_add_source gt r ctx s) ag))"
proof -
  let ?w = "ag_world ag" and ?subs = "ag_subscriptions ag"
  have refs: "refs_ok k ?subs (no_extra(r := 1)) (ag_fresh ag) ?w"
    using ok by (simp add: agent_refs_def)
  have "0 < claims ?subs (no_extra(r := 1)) ?w r" "claims ?subs (no_extra(r := 1)) ?w r < 2 ^ 31"
    using claims_bound [OF refs, of r] k by (simp_all add: claims_def)
  then show ?thesis
    unfolding in_world_def case_prod_beta snd_conv
    by (intro agent_refs_world [OF ok] refs_ok_attach s)
qed

lemma agent_refs_detach:
  assumes ok: "agent_refs k (no_extra(r := 1)) ag" and k: "k + 3 < 2 ^ 31"
  shows "agent_refs k (no_extra(r := 1)) (snd (in_world (pka_subscription_remove_source r ctx s) ag))"
    "agent_refs k (no_extra(r := 1)) (snd (in_world (pka_subscription_remove_channel r ctx c) ag))"
proof -
  have "claims subs (no_extra(r := 1)) w r < 2 ^ 31" if "refs_ok k subs (no_extra(r := 1)) fresh w" for subs fresh w
    using claims_bound [OF that, of r] k by simp
  then show "agent_refs k (no_extra(r := 1)) (snd (in_world (pka_subscription_remove_source r ctx s) ag))"
    by (intro in_world_refs [OF ok] refs_ok_detach) simp_all
  show "agent_refs k (no_extra(r := 1)) (snd (in_world (pka_subscription_remove_channel r ctx c) ag))"
    by (intro in_world_refs [OF ok] refs_ok_remove_channel) (use k in simp_all)
qed

lemma agent_refs_sub_ops:
  assumes ok: "agent_refs k (no_extra(r := 1)) ag"
  shows "agent_refs k (no_extra(r := 1)) (snd (in_world (pka_subscription_set_buffer r ctx t n) ag))"
    "agent_refs k (no_extra(r := 1)) (snd (in_world (pka_subscription_mute r ctx drain) ag))"
    "agent_refs k (no_extra(r := 1)) (snd (in_world (pka_subscription_unmute r ctx) ag))"
  by (rule in_world_refs [OF ok], rule refs_ok_same, rule refs_same_buffer, rule extra_alive, assumption, simp, assumption)+

text \<open>The procedures that only read, and the one that only says it removed something.\<close>

lemma reads_keep_agent:
  "snd (pka_listener_channel_get_args_finish call ag) = ag"
  "snd (pka_listener_channel_get_created_at_finish call ag) = ag"
  "snd (pka_listener_channel_get_env_finish call ag) = ag"
  "snd (pka_listener_channel_get_exit_status_finish call ag) = ag"
  "snd (pka_listener_channel_get_kill_pid_finish call ag) = ag"
  "snd (pka_listener_channel_get_pid_finish call ag) = ag"
  "snd (pka_listener_channel_get_pid_set_finish call ag) = ag"
  "snd (pka_listener_channel_get_sources_finish call ag) = ag"
  "snd (pka_listener_channel_get_state_finish call ag) = ag"
  "snd (pka_listener_channel_get_target_finish call ag) = ag"
  "snd (pka_listener_channel_get_working_dir_finish call ag) = ag"
  "snd (pka_listener_manager_get_channels_finish ag) = ag"
  "snd (pka_listener_manager_get_hostname_finish x ag) = ag"
  "snd (pka_listener_manager_get_plugins_finish ag) = ag"
  "snd (pka_listener_manager_get_sources_finish ag) = ag"
  "snd (pka_listener_manager_get_version_finish x ag) = ag"
  "snd (pka_listener_manager_ping_finish now ag) = ag"
  "snd (pka_listener_manager_remove_channel_finish call ag) = ag"
  "snd (pka_listener_plugin_get_copyright_finish pid ag) = ag"
  "snd (pka_listener_plugin_get_description_finish pid ag) = ag"
  "snd (pka_listener_plugin_get_name_finish pid ag) = ag"
  "snd (pka_listener_plugin_get_plugin_type_finish pid ag) = ag"
  "snd (pka_listener_plugin_get_version_finish pid ag) = ag"
  "snd (pka_listener_source_get_plugin_finish call ag) = ag"
  "snd (pka_listener_encoder_get_plugin_finish p ag) = ag"
  by (simp_all add: listener_finish lookups manager_ops pka_manager_remove_channel_def
      pka_manager_get_channels_def pka_manager_get_plugins_def pka_manager_get_sources_def
      split: ans.split)

lemma channel_calls_refs:
  assumes ok: "agent_refs k no_extra ag"
  shows "agent_refs k no_extra (snd (pka_listener_channel_mute_finish call ag))"
    "agent_refs k no_extra (snd (pka_listener_channel_unmute_finish call ag))"
    "agent_refs k no_extra (snd (pka_listener_channel_stop_finish call ag))"
    "agent_refs k no_extra (snd (pka_listener_channel_start_finish spawn tmp call ag))"
  unfolding listener_finish
  by (rule with_channel_refs [OF ok], rule in_world_same [OF ok], rule refs_same_state_ops refs_same_start)+

lemmas setter_async =
  pka_listener_channel_set_args_async_def pka_listener_channel_set_env_async_def
  pka_listener_channel_set_kill_pid_async_def pka_listener_channel_set_pid_async_def
  pka_listener_channel_set_target_async_def pka_listener_channel_set_working_dir_async_def
  pka_listener_subscription_mute_async_def pka_listener_subscription_set_buffer_async_def

lemma channel_setters_refs:
  assumes ok: "agent_refs k no_extra ag"
  shows "agent_refs k no_extra (snd (pka_listener_channel_set_args_finish (channel, args) ag))"
    "agent_refs k no_extra (snd (pka_listener_channel_set_env_finish (channel, env) ag))"
    "agent_refs k no_extra (snd (pka_listener_channel_set_kill_pid_finish (channel, kill_pid) ag))"
    "agent_refs k no_extra (snd (pka_listener_channel_set_pid_finish (channel, pid) ag))"
    "agent_refs k no_extra (snd (pka_listener_channel_set_target_finish (channel, target) ag))"
    "agent_refs k no_extra (snd (pka_listener_channel_set_working_dir_finish (channel, dir) ag))"
  unfolding listener_finish case_prod_conv
  by (rule with_channel_refs [OF ok], rule in_world_same [OF ok], rule refs_same_setters)+

lemma subscription_calls_refs:
  assumes ok: "agent_refs k no_extra ag" and k: "k + 3 < 2 ^ 31"
  shows "agent_refs k no_extra (snd (pka_listener_subscription_get_buffer_finish subscription ag))"
    "agent_refs k no_extra (snd (pka_listener_subscription_get_created_at_finish subscription ag))"
    "agent_refs k no_extra (snd (pka_listener_subscription_get_sources_finish subscription ag))"
    "agent_refs k no_extra (snd (pka_listener_subscription_mute_finish (subscription, drain) ag))"
    "agent_refs k no_extra (snd (pka_listener_subscription_unmute_finish subscription ag))"
    "agent_refs k no_extra (snd (pka_listener_subscription_set_buffer_finish (subscription, timeout, n) ag))"
proof -
  have k': "k + 2 < 2 ^ 31"
    using k by simp
  note sub = with_subscription_refs [OF ok order_refl k']
  show "agent_refs k no_extra (snd (pka_listener_subscription_get_buffer_finish subscription ag))"
    "agent_refs k no_extra (snd (pka_listener_subscription_get_created_at_finish subscription ag))"
    "agent_refs k no_extra (snd (pka_listener_subscription_get_sources_finish subscription ag))"
    unfolding listener_finish by (rule sub, erule agent_refs_answer)+
  show "agent_refs k no_extra (snd (pka_listener_subscription_mute_finish (subscription, drain) ag))"
    "agent_refs k no_extra (snd (pka_listener_subscription_unmute_finish subscription ag))"
    "agent_refs k no_extra (snd (pka_listener_subscription_set_buffer_finish (subscription, timeout, n) ag))"
    unfolding listener_finish case_prod_conv by (rule sub, erule agent_refs_sub_ops)+
qed

lemmas call_refs =
  reads_keep_agent channel_calls_refs channel_setters_refs subscription_calls_refs
  agent_refs_add_subscription agent_refs_remove_subscription agent_refs_add_channel
  agent_refs_add_source agent_refs_remove_source agent_refs_get_subscriptions

lemma plain_call_refs:
  assumes call: "plain_call ag ag'" and ok: "agent_refs k no_extra ag" and k: "Suc k + 3 < 2 ^ 31"
  shows "agent_refs (Suc k) no_extra ag'"
proof -
  have up: "agent_refs k no_extra x \<Longrightarrow> agent_refs (Suc k) no_extra x" for x
    by (erule agent_refs_mono) simp
  note sub = with_subscription_refs [OF ok, of "Suc k"]
  have k': "k + 3 < 2 ^ 31" "Suc k + 2 < 2 ^ 31" "k \<le> Suc k"
    using k by simp_all
  show ?thesis
    using call
  proof cases
    case (call_channel_add_source gt channel source)
    show ?thesis
      unfolding call_channel_add_source listener_async listener_finish case_prod_conv
      by (intro up with_channel_refs [OF ok] with_source_refs [OF ok order_refl] agent_refs_channel_add_source ok)
  next
    case (call_subscription_add_source gt subscription source)
    have "agent_refs (Suc k) (no_extra(r := 1)) (snd (with_source source
        (\<lambda>s. in_world (pka_subscription_add_source gt r DEFAULT_CONTEXT s)) ag1))"
      if "agent_refs k (no_extra(r := 1)) ag1" for r ag1
      by (rule with_source_refs [OF that k'(3)]) (rule agent_refs_attach [OF that k'(2)])
    then show ?thesis
      unfolding call_subscription_add_source listener_async listener_finish case_prod_conv
      by (intro sub k') blast
  next
    case (call_subscription_remove_source subscription source)
    have "agent_refs k (no_extra(r := 1)) (snd (with_source source
        (\<lambda>s. in_world (pka_subscription_remove_source r DEFAULT_CONTEXT s)) ag1))"
      if "agent_refs k (no_extra(r := 1)) ag1" for r ag1
      by (rule with_source_refs [OF that order_refl]) (rule agent_refs_detach [OF that k'(1)])
    then show ?thesis
      unfolding call_subscription_remove_source listener_async listener_finish case_prod_conv
      by (intro up with_subscription_refs [OF ok order_refl]) (use k in simp_all)
  next
    case (call_subscription_remove_channel subscription channel)
    have "agent_refs k (no_extra(r := 1)) (snd (with_channel channel
        (\<lambda>c. in_world (pka_subscription_remove_channel r DEFAULT_CONTEXT c)) ag1))"
      if "agent_refs k (no_extra(r := 1)) ag1" for r ag1
      by (rule with_channel_refs [OF that]) (rule agent_refs_detach [OF that k'(1)])
    then show ?thesis
      unfolding call_subscription_remove_channel listener_async listener_finish case_prod_conv
      by (intro up with_subscription_refs [OF ok order_refl]) (use k in simp_all)
  qed (use ok k' in \<open>auto simp: reads_keep_agent setter_async intro!: up call_refs\<close>)
qed

end
