(* ===== verification/Agent_Service.thy ===== *)
theory Agent_Service
  imports Agent_Safety
begin

text \<open>
  What a client can rely on, and what it cannot: memory safety of all sequences of calls but one, the
  call that breaks it, identifiers, refused calls, shutting down.
\<close>

section \<open>Sequences of calls\<close>





section \<open>An agent with one plugin\<close>

definition demo_plugin :: pka_plugin where
  "demo_plugin = \<lparr>pl_info = Some \<lparr>pi_factory = Some (\<lambda>_. Ok (Source_Object None)),
     pi_plugin_type = PLUGIN_SOURCE, pi_id = [99, 112, 117], pi_name = [], pi_version = [],
     pi_description = [], pi_copyright = []\<rparr>\<rparr>"

definition demo_agent :: agent where
  "demo_agent = \<lparr>ag_world = demo_world, ag_channels = [], ag_encoders = [], ag_listeners = [],
     ag_plugins = [0], ag_sources = [], ag_subscriptions = [], ag_plugin_store = (\<lambda>_. demo_plugin),
     ag_encoder_store = (\<lambda>_. \<lparr>iface_encode_samples = (\<lambda>_ _. None), iface_encode_manifest = (\<lambda>_. None)\<rparr>),
     ag_encoder_ids = \<lparr>encoder_seq = 0, encoder_data = (\<lambda>_. 0)\<rparr>, ag_notices = [], ag_fresh = 1,
     ag_channel_seq = 0, ag_source_seq = 0, ag_subscription_seq = 0\<rparr>"


definition demo_now :: g_time_val where
  "demo_now = \<lparr>tv_secs = 0, tv_usecs = 0\<rparr>"





lemma signed_one: "0 <s (1 :: gint)" "0 <s (2 :: gint)"
  by (simp_all add: word_sless_alt)




section \<open>Memory safety of remote procedure calls\<close>



section \<open>The call that breaks it\<close>

text \<open>
  What \<open>manager_remove_subscription\<close> does to a subscription that only the registry refers to: it is
  freed, and the channels it is connected to are not told.
\<close>

lemma remove_subscription_frees:
  assumes found: "fst (pka_manager_find_subscription DEFAULT_CONTEXT i ag) = Ok r"
    and one: "su_ref_count (w_subs (ag_world ag) r) = 1"
  defines "ag' \<equiv> snd (pka_listener_manager_remove_subscription_finish
      (pka_listener_manager_remove_subscription_async i) ag)"
  shows "su_freed (w_subs (ag_world ag') r)" "w_channels (ag_world ag') = w_channels (ag_world ag)"
    "w_sources (ag_world ag') = w_sources (ag_world ag)" "ag_channels ag' = ag_channels ag"
    "ag_sources ag' = ag_sources ag"
proof -
  have scan: "find_by_id (\<lambda>r. pka_subscription_get_id r (ag_world ag)) i (ag_subscriptions ag) = Ok r"
    using found by (simp add: pka_manager_find_subscription_def split: ans.splits)
  have ag': "ag' = on_world (pka_subscription_unref r)
      (snd (pka_manager_remove_subscription DEFAULT_CONTEXT r (on_world (pka_subscription_ref r) ag)))"
    by (simp add: ag'_def listener_async listener_finish with_subscription_def scan
        pka_manager_find_subscription_def pka_manager_remove_subscription_def manager_ops)
  show "su_freed (w_subs (ag_world ag') r)" "w_channels (ag_world ag') = w_channels (ag_world ag)"
    "w_sources (ag_world ag') = w_sources (ag_world ag)" "ag_channels ag' = ag_channels ag"
    "ag_sources ag' = ag_sources ag"
    by (simp_all add: ag' pka_manager_remove_subscription_def manager_ops subscription_ops one signed_one
        world_simps)
qed

text \<open>
  C17: a client that removes a subscription while it is connected to a channel, and then adds a source
  to that channel, makes the agent use freed memory.
\<close>

theorem removed_subscription_dangles:
  assumes "fst (pka_manager_find_subscription DEFAULT_CONTEXT i ag) = Ok r"
    and "su_ref_count (w_subs (ag_world ag) r) = 1"
    and "pka_manager_find_channel DEFAULT_CONTEXT j ag = Ok c"
    and "r \<in> set (ch_handlers (w_channels (ag_world ag) c))"
    and "pka_manager_find_source DEFAULT_CONTEXT k ag = Ok s"
    and "so_channel (w_sources (ag_world ag) s) = None"
  shows "w_fault (ag_world (snd (pka_listener_channel_add_source_finish gt
     (pka_listener_channel_add_source_async j k)
     (snd (pka_listener_manager_remove_subscription_finish
        (pka_listener_manager_remove_subscription_async i) ag)))))"
proof -
  define ag' where "ag' = snd (pka_listener_manager_remove_subscription_finish
      (pka_listener_manager_remove_subscription_async i) ag)"
  note gone = remove_subscription_frees [OF assms(1,2), folded ag'_def]
  have "pka_manager_find_channel DEFAULT_CONTEXT j ag' = Ok c"
    "pka_manager_find_source DEFAULT_CONTEXT k ag' = Ok s"
    using assms(3,5) gone by (simp_all add: pka_manager_find_channel_def pka_manager_find_source_def
        pka_channel_get_id_def pka_source_get_id_def)
  moreover have "w_fault (snd (pka_channel_add_source gt c DEFAULT_CONTEXT s (ag_world ag')))"
    using assms(4,6) gone(1)
    by (simp add: pka_channel_add_source_def authorize_ioctl_def pka_context_is_authorized_def
        pka_source_set_channel_def emit_source_added_def handlers_use gone(2,3) world_simps)
  ultimately show ?thesis
    by (simp add: ag'_def listener_async listener_finish with_channel_def with_source_def in_world_def
        case_prod_beta)
qed

text \<open>A client adds a channel and a subscription, connects the two, and adds a source.\<close>

definition demo_tied1 :: agent where
  "demo_tied1 = snd (pka_listener_manager_add_channel_finish [] demo_now demo_agent)"

definition demo_tied2 :: agent where
  "demo_tied2 = snd (pka_listener_manager_add_subscription_finish demo_now
     (pka_listener_manager_add_subscription_async 0 0) demo_tied1)"

definition demo_tied3 :: agent where
  "demo_tied3 = snd (pka_listener_subscription_add_channel_finish glib_gtypes
     (pka_listener_subscription_add_channel_async 0 0 True) demo_tied2)"

definition demo_tied :: agent where
  "demo_tied = snd (pka_listener_manager_add_source_finish
     (pka_listener_manager_add_source_async (Some [99, 112, 117])) demo_tied3)"

lemma demo_tied1_state:
  "ag_channels demo_tied1 = [1]" "ag_fresh demo_tied1 = 2" "ag_plugins demo_tied1 = [0]"
  "ag_plugin_store demo_tied1 = (\<lambda>_. demo_plugin)" "ag_sources demo_tied1 = []"
  "ag_subscriptions demo_tied1 = []" "ag_source_seq demo_tied1 = 0" "ag_subscription_seq demo_tied1 = 0"
  "w_channels (ag_world demo_tied1) (Suc 0) = pka_channel_init 0 [] demo_now"
  "w_sources (ag_world demo_tied1) = w_sources demo_world"
  by (simp_all add: demo_tied1_def listener_finish pka_manager_add_channel_def channel_object_new_def
      manager_ops demo_agent_def world_simps)

lemma demo_tied2_state:
  "ag_channels demo_tied2 = [1]" "ag_fresh demo_tied2 = 3" "ag_plugins demo_tied2 = [0]"
  "ag_plugin_store demo_tied2 = (\<lambda>_. demo_plugin)" "ag_sources demo_tied2 = []"
  "ag_subscriptions demo_tied2 = [2]" "ag_source_seq demo_tied2 = 0"
  "w_channels (ag_world demo_tied2) (Suc 0) = pka_channel_init 0 [] demo_now"
  "w_sources (ag_world demo_tied2) = w_sources demo_world"
  "w_subs (ag_world demo_tied2) 2 = pka_subscription_new 0 demo_now"
  by (simp_all add: demo_tied2_def listener_async listener_finish pka_manager_add_subscription_def
      subscription_object_new_def manager_ops demo_tied1_state subscription_ops pka_subscription_new_def
      signed_one world_simps)

lemma demo_tied3_state:
  "ag_channels demo_tied3 = [1]" "ag_fresh demo_tied3 = 3" "ag_plugins demo_tied3 = [0]"
  "ag_plugin_store demo_tied3 = (\<lambda>_. demo_plugin)" "ag_sources demo_tied3 = []"
  "ag_subscriptions demo_tied3 = [2]" "ag_source_seq demo_tied3 = 0"
  "w_channels (ag_world demo_tied3) (Suc 0) = (pka_channel_init 0 [] demo_now)\<lparr>ch_handlers := [2]\<rparr>"
  "w_sources (ag_world demo_tied3) = w_sources demo_world"
  "su_ref_count (w_subs (ag_world demo_tied3) 2) = 1" "su_id (w_subs (ag_world demo_tied3) 2) = 0"
  by (simp_all add: demo_tied3_def listener_async listener_finish with_subscription_def with_channel_def
      pka_manager_find_subscription_def pka_manager_find_channel_def find_by_id_def demo_tied2_state
      pka_subscription_get_id_def pka_subscription_new_def pka_channel_get_id_def pka_channel_init_def
      on_world_def in_world_def case_prod_beta pka_subscription_add_channel_def get_sources_rev
      subscription_ops signed_one Let_def world_simps)

lemma demo_tied_state:
  "ag_channels demo_tied = [1]" "ag_sources demo_tied = [3]" "ag_subscriptions demo_tied = [2]"
  "w_channels (ag_world demo_tied) (Suc 0) = (pka_channel_init 0 [] demo_now)\<lparr>ch_handlers := [2]\<rparr>"
  "w_sources (ag_world demo_tied) 3 = (pka_source_init 0 None)\<lparr>so_plugin := Some 0\<rparr>"
  "su_ref_count (w_subs (ag_world demo_tied) 2) = 1" "su_id (w_subs (ag_world demo_tied) 2) = 0"
  by (simp_all add: demo_tied_def listener_async listener_finish with_plugin_def DEFAULT_CONTEXT_def
      pka_manager_find_plugin_def demo_tied3_state pka_plugin_get_id_def demo_plugin_def
      pka_manager_add_source_def manager_ops pka_plugin_get_plugin_type_def pka_plugin_create_def
      source_object_new_def pka_source_set_plugin_def pka_source_init_def world_simps)

theorem removed_subscription_dangles_witness:
  "w_fault (ag_world (snd (pka_listener_channel_add_source_finish glib_gtypes
     (pka_listener_channel_add_source_async 0 0)
     (snd (pka_listener_manager_remove_subscription_finish
        (pka_listener_manager_remove_subscription_async 0) demo_tied)))))"
  by (rule removed_subscription_dangles [where r = 2 and c = 1 and s = 3])
    (simp_all add: pka_manager_find_subscription_def pka_manager_find_channel_def
      pka_manager_find_source_def find_by_id_def demo_tied_state pka_subscription_get_id_def
      pka_channel_get_id_def pka_channel_init_def pka_source_get_id_def pka_source_init_def)

section \<open>Refused calls\<close>

text \<open>
  Every call that names a channel the registry does not have is refused with the registry's error
  and leaves the agent as it is; but whether the pid of a channel was set is answered for the channel
  with number 0, whatever channel was asked for.
\<close>

theorem unknown_channel_refused:
  assumes "pka_manager_find_channel DEFAULT_CONTEXT i ag = Err e"
  shows "pka_listener_channel_add_source_finish gt (pka_listener_channel_add_source_async i k) ag = (Err e, ag)
    \<and> pka_listener_channel_mute_finish (pka_listener_channel_mute_async i) ag = (Err e, ag)
    \<and> pka_listener_channel_get_args_finish (pka_listener_channel_get_args_async i) ag = (Err e, ag)
    \<and> pka_listener_channel_get_created_at_finish (pka_listener_channel_get_created_at_async i) ag = (Err e, ag)
    \<and> pka_listener_channel_get_env_finish (pka_listener_channel_get_env_async i) ag = (Err e, ag)
    \<and> pka_listener_channel_get_exit_status_finish (pka_listener_channel_get_exit_status_async i) ag = (Err e, ag)
    \<and> pka_listener_channel_get_kill_pid_finish (pka_listener_channel_get_kill_pid_async i) ag = (Err e, ag)
    \<and> pka_listener_channel_get_pid_finish (pka_listener_channel_get_pid_async i) ag = (Err e, ag)
    \<and> pka_listener_channel_get_sources_finish (pka_listener_channel_get_sources_async i) ag = (Err e, ag)
    \<and> pka_listener_channel_get_state_finish (pka_listener_channel_get_state_async i) ag = (Err e, ag)
    \<and> pka_listener_channel_get_target_finish (pka_listener_channel_get_target_async i) ag = (Err e, ag)
    \<and> pka_listener_channel_get_working_dir_finish (pka_listener_channel_get_working_dir_async i) ag = (Err e, ag)
    \<and> pka_listener_channel_set_args_finish (pka_listener_channel_set_args_async i args) ag = (Err e, ag)
    \<and> pka_listener_channel_set_env_finish (pka_listener_channel_set_env_async i env) ag = (Err e, ag)
    \<and> pka_listener_channel_set_kill_pid_finish (pka_listener_channel_set_kill_pid_async i b) ag = (Err e, ag)
    \<and> pka_listener_channel_set_pid_finish (pka_listener_channel_set_pid_async i pid) ag = (Err e, ag)
    \<and> pka_listener_channel_set_target_finish (pka_listener_channel_set_target_async i target) ag = (Err e, ag)
    \<and> pka_listener_channel_set_working_dir_finish (pka_listener_channel_set_working_dir_async i dir) ag = (Err e, ag)
    \<and> pka_listener_channel_start_finish spawn tmp (pka_listener_channel_start_async i) ag = (Err e, ag)
    \<and> pka_listener_channel_stop_finish (pka_listener_channel_stop_async i) ag = (Err e, ag)
    \<and> pka_listener_channel_unmute_finish (pka_listener_channel_unmute_async i) ag = (Err e, ag)
    \<and> pka_listener_channel_get_pid_set_finish (pka_listener_channel_get_pid_set_async i) ag =
         with_channel 0 (\<lambda>c ag. answer (pka_channel_get_pid_set c (ag_world ag)) ag) ag"
  using assms by (simp add: listener_async listener_finish with_channel_def)

theorem unknown_channel_refused_witness:
  "pka_listener_channel_stop_finish (pka_listener_channel_stop_async 7) demo_tied =
     (Err CONTEXT_ERROR_NOT_AUTHORIZED, demo_tied)"
proof -
  have "pka_manager_find_channel DEFAULT_CONTEXT 7 demo_tied = Err CONTEXT_ERROR_NOT_AUTHORIZED"
    by (simp add: pka_manager_find_channel_def find_by_id_def demo_tied_state pka_channel_get_id_def
        pka_channel_init_def)
  then show ?thesis
    using unknown_channel_refused by blast
qed

end
