(* ===== verification/Agent_Registry.thy ===== *)
theory Agent_Registry
  imports Agent_Service
begin

text \<open>
  The registry as a client sees it: three finite maps from identifiers to objects. Adding extends a map
  at an identifier that it did not have, removing a source or a subscription deletes one, and removing
  a channel does nothing.
\<close>

section \<open>The map behind a registry\<close>

definition directory :: "(gint \<Rightarrow> nat ans) \<Rightarrow> gint \<rightharpoonup> nat" where
  "directory fetch i = (case fetch i of Ok r \<Rightarrow> Some r | _ \<Rightarrow> None)"

lemma directory_Some: "directory fetch i = Some r \<longleftrightarrow> fetch i = Ok r"
  by (simp add: directory_def split: ans.split)

lemma numbered_same:
  assumes "numbered rs ident seq fresh n" "fresh \<le> fresh'" "\<forall>r < fresh. ident' r = ident r"
  shows "numbered rs ident' seq fresh' n"
  using assms by (auto simp: numbered_def distinct_map inj_on_def)

lemma scan_same:
  assumes "\<forall>r \<in> set rs. ident' r = ident r"
  shows "find_by_id ident' i rs = find_by_id ident i rs"
proof -
  have "List.find (\<lambda>r. ident' r = i) rs = List.find (\<lambda>r. ident r = i) rs"
    using assms by (induction rs) auto
  then show ?thesis by (simp add: find_by_id_def)
qed

context registry
begin

lemma directory_is:
  assumes "numbered (items st) (\<lambda>r. ident r st) (counter st) (fresh st) n"
  shows "directory (\<lambda>i. fetch i st) i = Some r \<longleftrightarrow> r \<in> set (items st) \<and> ident r st = i"
  using fetch_sound [of i st r] fetch_complete [OF assms, of r] by (auto simp: directory_Some)

lemma add_directory:
  assumes inv: "numbered (items st) (\<lambda>r. ident r st) (counter st) (fresh st) n"
    and n: "n < 2 ^ 32" and add: "add st = (Ok r, st')"
  shows "directory (\<lambda>i. fetch i st) (counter st) = None"
    and "directory (\<lambda>i. fetch i st') = (directory (\<lambda>i. fetch i st))(counter st \<mapsto> r)"
proof -
  have unat: "unat (counter st) = n"
    using inv n by (simp add: numbered_def unat_word_of_nat)
  show none: "directory (\<lambda>i. fetch i st) (counter st) = None"
  proof -
    have "counter st \<notin> (\<lambda>r. ident r st) ` set (items st)"
    proof
      assume "counter st \<in> (\<lambda>r. ident r st) ` set (items st)"
      then obtain x where "x \<in> set (items st)" "ident x st = counter st" by auto
      with inv unat show False by (auto simp: numbered_def)
    qed
    then show ?thesis by (simp add: directory_def fetch_unknown)
  qed
  note new = add_new [OF add] and old = add_old [OF add]
  have fresh: "r \<notin> set (items st)"
    using inv new by (auto simp: numbered_def)
  have "directory (\<lambda>i. fetch i st') i = Some x \<longleftrightarrow>
      ((directory (\<lambda>i. fetch i st))(counter st \<mapsto> r)) i = Some x" for i x
  proof (cases "i = counter st")
    case True
    then show ?thesis
      using fetch_added [OF inv n add] by (auto simp: directory_Some)
  next
    case False
    then show ?thesis
      using directory_is [OF inv, of i x] directory_is [OF add_numbered [OF inv n add], of i x] new
        old [of x] fresh by (cases "x = r") auto
  qed
  then show "directory (\<lambda>i. fetch i st') = (directory (\<lambda>i. fetch i st))(counter st \<mapsto> r)"
    by (intro ext) (metis option.exhaust)
qed

text \<open>What leaves the objects of the registry and their identifiers alone leaves the map alone.\<close>

lemma frame_directory:
  assumes inv: "numbered (items st) (\<lambda>r. ident r st) (counter st) (fresh st) n"
    and same: "items st' = items st" "counter st' = counter st" "fresh st \<le> fresh st'"
      "\<forall>r < fresh st. ident r st' = ident r st"
  shows "directory (\<lambda>i. fetch i st') = directory (\<lambda>i. fetch i st)"
    and "numbered (items st') (\<lambda>r. ident r st') (counter st') (fresh st') n"
proof -
  show "numbered (items st') (\<lambda>r. ident r st') (counter st') (fresh st') n"
    using numbered_same [OF inv same(3,4)] by (simp add: same)
  have "\<forall>r \<in> set (items st). ident r st' = ident r st"
    using inv same(4) by (auto simp: numbered_def)
  from scan_same [OF this] show "directory (\<lambda>i. fetch i st') = directory (\<lambda>i. fetch i st)"
    by (simp add: fetch_scan same(1))
qed

end

text \<open>A registry from which objects can be removed.\<close>

locale removable_registry = registry +
  fixes remove :: "nat \<Rightarrow> 'a \<Rightarrow> 'a"
  assumes remove_items: "items (remove r st) = remove1 r (items st)"
    and remove_ident: "ident r' (remove r st) = ident r' st"
    and remove_counters: "counter (remove r st) = counter st" "fresh (remove r st) = fresh st"
begin

lemma remove_numbered:
  assumes "numbered (items st) (\<lambda>r. ident r st) (counter st) (fresh st) n"
  shows "numbered (items (remove r st)) (\<lambda>x. ident x (remove r st)) (counter (remove r st))
    (fresh (remove r st)) n"
  using assms by (auto simp: numbered_def remove_items remove_ident remove_counters distinct_map
      distinct_remove1 inj_on_def dest: notin_set_remove1)

lemma remove_directory:
  assumes inv: "numbered (items st) (\<lambda>r. ident r st) (counter st) (fresh st) n"
    and r: "r \<in> set (items st)"
  shows "directory (\<lambda>i. fetch i (remove r st)) = (directory (\<lambda>i. fetch i st))(ident r st := None)"
proof -
  have set: "set (items (remove r st)) = set (items st) - {r}"
    using inv by (simp add: remove_items numbered_def distinct_map)
  have inj: "x = r" if "x \<in> set (items st)" "ident x st = ident r st" for x
    using inv r that by (auto simp: numbered_def distinct_map inj_on_def)
  have "directory (\<lambda>i. fetch i (remove r st)) i = Some x \<longleftrightarrow>
      ((directory (\<lambda>i. fetch i st))(ident r st := None)) i = Some x" for i x
    using directory_is [OF inv, of i x] directory_is [OF remove_numbered [OF inv, of r], of i x] set inj [of x]
    by (auto simp: remove_ident)
  then show ?thesis
    by (intro ext) (metis option.exhaust)
qed

end

section \<open>The three registries\<close>

lemma sub_unref_id [world_simps]:
  "su_id (w_subs (pka_subscription_unref r w) r') = su_id (w_subs w r')"
  by (simp add: subscription_ops Let_def world_simps)

interpretation removable_sources: removable_registry ag_sources "\<lambda>s ag. pka_source_get_id s (ag_world ag)"
    ag_source_seq ag_fresh "pka_manager_add_source ctx p" "pka_manager_find_source ctx'"
    "\<lambda>s ag. snd (pka_manager_remove_source ctx'' s ag)"
  for ctx p ctx' ctx''
  by unfold_locales
    (simp_all add: pka_manager_remove_source_def manager_ops pka_source_get_id_def
      pka_source_notify_stopped_def source_queues world_simps)

interpretation removable_subscriptions: removable_registry ag_subscriptions
    "\<lambda>r ag. pka_subscription_get_id r (ag_world ag)" ag_subscription_seq ag_fresh
    "pka_manager_add_subscription now ctx" "\<lambda>i ag. fst (pka_manager_find_subscription ctx' i ag)"
    "\<lambda>r ag. snd (pka_manager_remove_subscription ctx'' r ag)"
  for now ctx ctx' ctx''
  by unfold_locales
    (simp_all add: pka_manager_remove_subscription_def manager_ops pka_subscription_get_id_def world_simps)

definition channel_directory :: "agent \<Rightarrow> gint \<rightharpoonup> channel_ref" where
  "channel_directory ag = directory (\<lambda>i. pka_manager_find_channel DEFAULT_CONTEXT i ag)"

definition source_directory :: "agent \<Rightarrow> gint \<rightharpoonup> source_ref" where
  "source_directory ag = directory (\<lambda>i. pka_manager_find_source DEFAULT_CONTEXT i ag)"

definition subscription_directory :: "agent \<Rightarrow> gint \<rightharpoonup> sub_ref" where
  "subscription_directory ag = directory (\<lambda>i. fst (pka_manager_find_subscription DEFAULT_CONTEXT i ag))"

text \<open>At most \<open>n\<close> objects of each kind were ever created.\<close>

abbreviation channels_numbered :: "nat \<Rightarrow> agent \<Rightarrow> bool" where
  "channels_numbered n ag \<equiv>
     numbered (ag_channels ag) (\<lambda>c. pka_channel_get_id c (ag_world ag)) (ag_channel_seq ag) (ag_fresh ag) n"

abbreviation sources_numbered :: "nat \<Rightarrow> agent \<Rightarrow> bool" where
  "sources_numbered n ag \<equiv>
     numbered (ag_sources ag) (\<lambda>s. pka_source_get_id s (ag_world ag)) (ag_source_seq ag) (ag_fresh ag) n"

abbreviation subscriptions_numbered :: "nat \<Rightarrow> agent \<Rightarrow> bool" where
  "subscriptions_numbered n ag \<equiv>
     numbered (ag_subscriptions ag) (\<lambda>r. pka_subscription_get_id r (ag_world ag))
       (ag_subscription_seq ag) (ag_fresh ag) n"

definition well_numbered :: "nat \<Rightarrow> agent \<Rightarrow> bool" where
  "well_numbered n ag \<longleftrightarrow> (\<exists>nc \<le> n. channels_numbered nc ag) \<and> (\<exists>ns \<le> n. sources_numbered ns ag) \<and>
     (\<exists>nr \<le> n. subscriptions_numbered nr ag)"

text \<open>What one registry is made of, and when an operation leaves it alone.\<close>

definition same_channels :: "agent \<Rightarrow> agent \<Rightarrow> bool" where
  "same_channels ag ag' \<longleftrightarrow> ag_channels ag' = ag_channels ag \<and> ag_channel_seq ag' = ag_channel_seq ag \<and>
     (\<forall>c < ag_fresh ag. ch_id (w_channels (ag_world ag') c) = ch_id (w_channels (ag_world ag) c))"

definition same_sources :: "agent \<Rightarrow> agent \<Rightarrow> bool" where
  "same_sources ag ag' \<longleftrightarrow> ag_sources ag' = ag_sources ag \<and> ag_source_seq ag' = ag_source_seq ag \<and>
     (\<forall>s < ag_fresh ag. so_id (w_sources (ag_world ag') s) = so_id (w_sources (ag_world ag) s))"

definition same_subscriptions :: "agent \<Rightarrow> agent \<Rightarrow> bool" where
  "same_subscriptions ag ag' \<longleftrightarrow> ag_subscriptions ag' = ag_subscriptions ag \<and>
     ag_subscription_seq ag' = ag_subscription_seq ag \<and>
     (\<forall>r < ag_fresh ag. su_id (w_subs (ag_world ag') r) = su_id (w_subs (ag_world ag) r))"

lemmas same_defs = same_channels_def same_sources_def same_subscriptions_def

lemma same_channels_effect:
  assumes "channels_numbered n ag" "same_channels ag ag'" "ag_fresh ag \<le> ag_fresh ag'"
  shows "channel_directory ag' = channel_directory ag" "channels_numbered n ag'"
  using channels.frame_directory(1) [OF assms(1), of ag' DEFAULT_CONTEXT]
    channels.frame_directory(2) [OF assms(1), of ag'] assms(2,3)
  by (simp_all add: same_channels_def channel_directory_def pka_channel_get_id_def)

lemma same_sources_effect:
  assumes "sources_numbered n ag" "same_sources ag ag'" "ag_fresh ag \<le> ag_fresh ag'"
  shows "source_directory ag' = source_directory ag" "sources_numbered n ag'"
  using sources.frame_directory(1) [OF assms(1), of ag' DEFAULT_CONTEXT]
    sources.frame_directory(2) [OF assms(1), of ag'] assms(2,3)
  by (simp_all add: same_sources_def source_directory_def pka_source_get_id_def)

lemma same_subscriptions_effect:
  assumes "subscriptions_numbered n ag" "same_subscriptions ag ag'" "ag_fresh ag \<le> ag_fresh ag'"
  shows "subscription_directory ag' = subscription_directory ag" "subscriptions_numbered n ag'"
  using subscriptions.frame_directory(1) [OF assms(1), of ag' DEFAULT_CONTEXT]
    subscriptions.frame_directory(2) [OF assms(1), of ag'] assms(2,3)
  by (simp_all add: same_subscriptions_def subscription_directory_def pka_subscription_get_id_def)

section \<open>The calls that change a registry\<close>

text \<open>\<open>extends m i m'\<close>: \<open>m'\<close> has one more identifier than \<open>m\<close>, which is \<open>i\<close>.\<close>

definition extends :: "(gint \<rightharpoonup> nat) \<Rightarrow> gint \<Rightarrow> (gint \<rightharpoonup> nat) \<Rightarrow> bool" where
  "extends m i m' \<longleftrightarrow> m i = None \<and> (\<exists>r. m' = m(i \<mapsto> r))"

text \<open>What an operation on one registry does, when it leaves the other two alone.\<close>

lemma channels_change:
  assumes wn: "well_numbered n ag" and n: "n \<le> n'"
    and frame: "same_sources ag ag'" "same_subscriptions ag ag'" "ag_fresh ag \<le> ag_fresh ag'"
    and num: "\<And>k. k \<le> n \<Longrightarrow> channels_numbered k ag \<Longrightarrow> \<exists>k' \<le> n'. channels_numbered k' ag'"
  shows "source_directory ag' = source_directory ag \<and> subscription_directory ag' = subscription_directory ag \<and>
    well_numbered n' ag'"
proof -
  obtain ns nr where "ns \<le> n" "nr \<le> n" and so: "sources_numbered ns ag" and su: "subscriptions_numbered nr ag"
    using wn by (auto simp: well_numbered_def)
  with wn n num show ?thesis
    using same_sources_effect [OF so frame(1,3)] same_subscriptions_effect [OF su frame(2,3)]
    by (auto simp: well_numbered_def intro: order_trans)
qed

lemma sources_change:
  assumes wn: "well_numbered n ag" and n: "n \<le> n'"
    and frame: "same_channels ag ag'" "same_subscriptions ag ag'" "ag_fresh ag \<le> ag_fresh ag'"
    and num: "\<And>k. k \<le> n \<Longrightarrow> sources_numbered k ag \<Longrightarrow> \<exists>k' \<le> n'. sources_numbered k' ag'"
  shows "channel_directory ag' = channel_directory ag \<and> subscription_directory ag' = subscription_directory ag \<and>
    well_numbered n' ag'"
proof -
  obtain nc nr where "nc \<le> n" "nr \<le> n" and ch: "channels_numbered nc ag" and su: "subscriptions_numbered nr ag"
    using wn by (auto simp: well_numbered_def)
  with wn n num show ?thesis
    using same_channels_effect [OF ch frame(1,3)] same_subscriptions_effect [OF su frame(2,3)]
    by (auto simp: well_numbered_def intro: order_trans)
qed

lemma subscriptions_change:
  assumes wn: "well_numbered n ag" and n: "n \<le> n'"
    and frame: "same_channels ag ag'" "same_sources ag ag'" "ag_fresh ag \<le> ag_fresh ag'"
    and num: "\<And>k. k \<le> n \<Longrightarrow> subscriptions_numbered k ag \<Longrightarrow> \<exists>k' \<le> n'. subscriptions_numbered k' ag'"
  shows "channel_directory ag' = channel_directory ag \<and> source_directory ag' = source_directory ag \<and>
    well_numbered n' ag'"
proof -
  obtain nc ns where "nc \<le> n" "ns \<le> n" and ch: "channels_numbered nc ag" and so: "sources_numbered ns ag"
    using wn by (auto simp: well_numbered_def)
  with wn n num show ?thesis
    using same_channels_effect [OF ch frame(1,3)] same_sources_effect [OF so frame(2,3)]
    by (auto simp: well_numbered_def intro: order_trans)
qed

lemma add_channel_call:
  assumes wn: "well_numbered n ag" and n: "n < 2 ^ 32"
  obtains i ag' where "pka_listener_manager_add_channel_finish tmp now ag = (Ok i, ag')"
    "extends (channel_directory ag) i (channel_directory ag')"
    "source_directory ag' = source_directory ag" "subscription_directory ag' = subscription_directory ag"
    "well_numbered (Suc n) ag'"
proof -
  obtain c ag' where add: "pka_manager_add_channel tmp now DEFAULT_CONTEXT ag = (Ok c, ag')"
    by (simp add: pka_manager_add_channel_def manager_ops channel_object_new_def)
  have frame: "same_sources ag ag'" "same_subscriptions ag ag'" "ag_fresh ag \<le> ag_fresh ag'"
    using add by (auto simp: pka_manager_add_channel_def manager_ops channel_object_new_def same_defs world_simps)
  have call: "pka_listener_manager_add_channel_finish tmp now ag = (Ok (ag_channel_seq ag), ag')"
    using channels.add_new [OF add] by (auto simp: listener_finish add)
  obtain k where k: "k \<le> n" "channels_numbered k ag"
    using wn by (auto simp: well_numbered_def)
  have "extends (channel_directory ag) (ag_channel_seq ag) (channel_directory ag')"
    using channels.add_directory [OF k(2) _ add, of DEFAULT_CONTEXT] k(1) n
    by (auto simp: extends_def channel_directory_def)
  moreover have "\<exists>k' \<le> Suc n. channels_numbered k' ag'" if "k \<le> n" "channels_numbered k ag" for k
    using channels.add_numbered [OF that(2) _ add] that(1) n by (intro exI [of _ "Suc k"]) simp
  ultimately show ?thesis
    using channels_change [OF wn _ frame, of "Suc n"] by (intro that [OF call]) simp_all
qed

lemma add_subscription_call:
  assumes wn: "well_numbered n ag" and n: "n < 2 ^ 32"
  obtains i ag' where "pka_listener_manager_add_subscription_finish now
      (pka_listener_manager_add_subscription_async buffer_size timeout) ag = (Ok i, ag')"
    "extends (subscription_directory ag) i (subscription_directory ag')"
    "channel_directory ag' = channel_directory ag" "source_directory ag' = source_directory ag"
    "well_numbered (Suc n) ag'"
proof -
  obtain r ag1 where add: "pka_manager_add_subscription now DEFAULT_CONTEXT ag = (Ok r, ag1)"
    by (simp add: pka_manager_add_subscription_def manager_ops subscription_object_new_def)
  define ag' where "ag' = on_world (pka_subscription_unref r) ag1"
  have frame: "same_channels ag ag'" "same_sources ag ag'" "ag_fresh ag \<le> ag_fresh ag'"
    using add by (auto simp: ag'_def pka_manager_add_subscription_def manager_ops
        subscription_object_new_def same_defs subscription_ops world_simps)
  have call: "pka_listener_manager_add_subscription_finish now
      (pka_listener_manager_add_subscription_async buffer_size timeout) ag = (Ok (ag_subscription_seq ag), ag')"
    using subscriptions.add_new [OF add]
    by (auto simp: listener_async listener_finish add ag'_def pka_subscription_get_id_def)
  have same: "same_subscriptions ag1 ag'" "ag_fresh ag1 \<le> ag_fresh ag'"
    by (simp_all add: ag'_def same_defs on_world_def world_simps)
  obtain k where k: "k \<le> n" "subscriptions_numbered k ag"
    using wn by (auto simp: well_numbered_def)
  have num: "subscriptions_numbered (Suc k) ag'" if "k \<le> n" "subscriptions_numbered k ag" for k
    using same_subscriptions_effect(2) [OF subscriptions.add_numbered [OF that(2) _ add] same] that(1) n
    by simp
  have "subscription_directory ag' = subscription_directory ag1"
    using same_subscriptions_effect(1) [OF subscriptions.add_numbered [OF k(2) _ add] same] k(1) n by simp
  then have "extends (subscription_directory ag) (ag_subscription_seq ag) (subscription_directory ag')"
    using subscriptions.add_directory [OF k(2) _ add, of DEFAULT_CONTEXT] k(1) n
    by (auto simp: extends_def subscription_directory_def)
  moreover have "\<exists>k' \<le> Suc n. subscriptions_numbered k' ag'" if "k \<le> n" "subscriptions_numbered k ag" for k
    using num [OF that] that(1) by (intro exI [of _ "Suc k"]) simp
  ultimately show ?thesis
    using subscriptions_change [OF wn _ frame, of "Suc n"] by (intro that [OF call]) simp_all
qed

lemma create_failed_frame:
  assumes "pka_plugin_create p ag = (x, ag')" "\<And>r. x \<noteq> Ok r"
  shows "same_channels ag ag'" "same_sources ag ag'" "same_subscriptions ag ag'" "ag_fresh ag' = ag_fresh ag"
  using assms by (auto simp: pka_plugin_create_def same_defs on_world_def
      split: option.splits ans.splits g_object.splits pka_plugin_type.splits prod.splits)

lemma add_source_failed_frame:
  assumes "pka_manager_add_source ctx p ag = (x, ag')" "\<And>r. x \<noteq> Ok r"
  shows "same_channels ag ag'" "same_sources ag ag'" "same_subscriptions ag ag'" "ag_fresh ag' = ag_fresh ag"
proof -
  consider "ag' = ag" | y where "pka_plugin_create p ag = (y, ag')" "\<And>r. y \<noteq> Ok r"
    using assms by (auto simp: pka_manager_add_source_def manager_authorize_def pka_context_is_authorized_def
        Let_def split: if_splits prod.splits ans.splits)
  then show "same_channels ag ag'" "same_sources ag ag'" "same_subscriptions ag ag'" "ag_fresh ag' = ag_fresh ag"
    by (cases; (simp add: same_defs; fail)?; blast dest: create_failed_frame)+
qed

text \<open>Adding a source can fail: the plugin may be unknown, of another type, or refuse.\<close>

lemma add_source_call:
  assumes wn: "well_numbered n ag" and n: "n < 2 ^ 32"
    and call: "pka_listener_manager_add_source_finish (pka_listener_manager_add_source_async plugin) ag = (x, ag')"
  shows "channel_directory ag' = channel_directory ag" "subscription_directory ag' = subscription_directory ag"
    "well_numbered (Suc n) ag'"
    "case x of Ok i \<Rightarrow> extends (source_directory ag) i (source_directory ag')
       | _ \<Rightarrow> source_directory ag' = source_directory ag"
proof -
  obtain k where k: "k \<le> n" "sources_numbered k ag"
    using wn by (auto simp: well_numbered_def)
  consider "ag' = ag" "\<And>i. x \<noteq> Ok i" | p y where "pka_manager_add_source DEFAULT_CONTEXT p ag = (y, ag')" "\<And>r. y \<noteq> Ok r"
      "\<And>i. x \<noteq> Ok i"
    | p s where "pka_manager_add_source DEFAULT_CONTEXT p ag = (Ok s, ag')" "x = Ok (pka_source_get_id s (ag_world ag'))"
    using call by (auto simp: listener_async listener_finish with_plugin_def split: ans.splits prod.splits)
  then have "channel_directory ag' = channel_directory ag \<and> subscription_directory ag' = subscription_directory ag \<and>
      well_numbered (Suc n) ag' \<and> (case x of Ok i \<Rightarrow> extends (source_directory ag) i (source_directory ag')
       | _ \<Rightarrow> source_directory ag' = source_directory ag)"
  proof cases
    case 1
    then show ?thesis
      using wn by (auto simp: well_numbered_def intro: le_SucI split: ans.split)
  next
    case (2 p y)
    note frame = add_source_failed_frame [OF 2(1,2)]
    have "\<exists>k' \<le> Suc n. sources_numbered k' ag'" if "k \<le> n" "sources_numbered k ag" for k
      using same_sources_effect(2) [OF that(2) frame(2)] frame(4) that(1) by (intro exI [of _ k]) simp
    then show ?thesis
      using sources_change [OF wn _ frame(1,3), of "Suc n"] same_sources_effect(1) [OF k(2) frame(2)] frame(4) 2(3)
      by (auto split: ans.split)
  next
    case (3 p s)
    have frame: "same_channels ag ag'" "same_subscriptions ag ag'" "ag_fresh ag \<le> ag_fresh ag'"
      using 3(1) by (auto elim!: add_source_result simp: same_defs world_simps)
    have "\<exists>k' \<le> Suc n. sources_numbered k' ag'" if "k \<le> n" "sources_numbered k ag" for k
      using sources.add_numbered [OF that(2) _ 3(1)] that(1) n by (intro exI [of _ "Suc k"]) simp
    moreover have "extends (source_directory ag) (pka_source_get_id s (ag_world ag')) (source_directory ag')"
      using sources.add_directory [OF k(2) _ 3(1), of DEFAULT_CONTEXT] sources.add_new [OF 3(1)] k(1) n
      by (auto simp: extends_def source_directory_def)
    ultimately show ?thesis
      using sources_change [OF wn _ frame, of "Suc n"] 3(2) by simp
  qed
  then show "channel_directory ag' = channel_directory ag" "subscription_directory ag' = subscription_directory ag"
    "well_numbered (Suc n) ag'"
    "case x of Ok i \<Rightarrow> extends (source_directory ag) i (source_directory ag')
       | _ \<Rightarrow> source_directory ag' = source_directory ag"
    by simp_all
qed

lemma remove_source_call:
  assumes wn: "well_numbered n ag"
    and call: "pka_listener_manager_remove_source_finish (pka_listener_manager_remove_source_async i) ag = (x, ag')"
  shows "channel_directory ag' = channel_directory ag" "subscription_directory ag' = subscription_directory ag"
    "well_numbered n ag'" "source_directory ag' = (source_directory ag)(i := None)"
    "x = Ok () \<longleftrightarrow> source_directory ag i \<noteq> None"
proof -
  obtain k where k: "k \<le> n" "sources_numbered k ag"
    using wn by (auto simp: well_numbered_def)
  have "channel_directory ag' = channel_directory ag \<and> subscription_directory ag' = subscription_directory ag \<and>
      well_numbered n ag' \<and> source_directory ag' = (source_directory ag)(i := None) \<and>
      (x = Ok () \<longleftrightarrow> source_directory ag i \<noteq> None)"
  proof (cases "pka_manager_find_source DEFAULT_CONTEXT i ag")
    case (Ok s)
    then have s: "s \<in> set (ag_sources ag)" "pka_source_get_id s (ag_world ag) = i"
      using sources.fetch_sound by blast+
    have ag': "ag' = snd (pka_manager_remove_source DEFAULT_CONTEXT s ag)" and x: "x = Ok ()"
      using call Ok s(1) by (auto simp: listener_async listener_finish with_source_def
          pka_manager_remove_source_def manager_ops split: if_splits)
    have frame: "same_channels ag ag'" "same_subscriptions ag ag'" "ag_fresh ag \<le> ag_fresh ag'"
      by (simp_all add: ag' pka_manager_remove_source_def manager_ops same_defs
          pka_source_notify_stopped_def source_queues world_simps)
    have "\<exists>k' \<le> n. sources_numbered k' ag'" if "k \<le> n" "sources_numbered k ag" for k
      using removable_sources.remove_numbered [OF that(2), of DEFAULT_CONTEXT s] that(1) by (auto simp: ag')
    then show ?thesis
      using sources_change [OF wn _ frame, of n] Ok x
        removable_sources.remove_directory [OF k(2) s(1), of DEFAULT_CONTEXT DEFAULT_CONTEXT] s(2)
      by (simp add: ag' source_directory_def directory_def)
  next
    case (Err e)
    with call wn show ?thesis
      by (auto simp: listener_async listener_finish with_source_def source_directory_def directory_def
          fun_eq_iff split: ans.split)
  next
    case Quiet
    with call wn show ?thesis
      by (auto simp: listener_async listener_finish with_source_def source_directory_def directory_def
          fun_eq_iff split: ans.split)
  qed
  then show "channel_directory ag' = channel_directory ag" "subscription_directory ag' = subscription_directory ag"
    "well_numbered n ag'" "source_directory ag' = (source_directory ag)(i := None)"
    "x = Ok () \<longleftrightarrow> source_directory ag i \<noteq> None"
    by simp_all
qed

lemma same_subscriptions_world:
  assumes "\<And>r. su_id (w_subs (f (ag_world ag)) r) = su_id (w_subs (ag_world ag) r)"
  shows "same_subscriptions ag (on_world f ag)" "ag_fresh (on_world f ag) = ag_fresh ag"
  using assms by (simp_all add: same_defs on_world_def)

lemma remove_subscription_call:
  assumes wn: "well_numbered n ag"
    and call: "pka_listener_manager_remove_subscription_finish
      (pka_listener_manager_remove_subscription_async i) ag = (x, ag')"
  shows "channel_directory ag' = channel_directory ag" "source_directory ag' = source_directory ag"
    "well_numbered n ag'" "subscription_directory ag' = (subscription_directory ag)(i := None)"
    "x = Ok True \<longleftrightarrow> subscription_directory ag i \<noteq> None"
proof -
  obtain k where k: "k \<le> n" "subscriptions_numbered k ag"
    using wn by (auto simp: well_numbered_def)
  have "channel_directory ag' = channel_directory ag \<and> source_directory ag' = source_directory ag \<and>
      well_numbered n ag' \<and> subscription_directory ag' = (subscription_directory ag)(i := None) \<and>
      (x = Ok True \<longleftrightarrow> subscription_directory ag i \<noteq> None)"
  proof (cases "fst (pka_manager_find_subscription DEFAULT_CONTEXT i ag)")
    case (Ok r)
    define ag1 where "ag1 = on_world (pka_subscription_ref r) ag"
    define ag2 where "ag2 = snd (pka_manager_remove_subscription DEFAULT_CONTEXT r ag1)"
    have r: "r \<in> set (ag_subscriptions ag)" "pka_subscription_get_id r (ag_world ag) = i"
      using subscriptions.fetch_sound [OF Ok] by blast+
    have found: "pka_manager_find_subscription DEFAULT_CONTEXT i ag = (Ok r, ag1)"
      using Ok by (auto simp: pka_manager_find_subscription_def ag1_def split: ans.splits)
    have ag': "ag' = on_world (pka_subscription_unref r) ag2" and x: "x = Ok True"
      using call by (auto simp: listener_async listener_finish with_subscription_def found ag2_def
          pka_manager_remove_subscription_def manager_ops)
    have same: "same_subscriptions ag ag1" "ag_fresh ag1 = ag_fresh ag"
      "same_subscriptions ag2 ag'" "ag_fresh ag' = ag_fresh ag2"
      unfolding ag' ag1_def by (rule same_subscriptions_world; simp add: world_simps)+
    have frame: "same_channels ag ag'" "same_sources ag ag'" "ag_fresh ag \<le> ag_fresh ag'"
      by (simp_all add: ag' ag2_def ag1_def pka_manager_remove_subscription_def manager_ops same_defs
          subscription_ops world_simps)
    have num1: "subscriptions_numbered k ag1" if "subscriptions_numbered k ag" for k
      using same_subscriptions_effect(2) [OF that same(1)] same(2) by simp
    have num2: "subscriptions_numbered k ag2" if "subscriptions_numbered k ag" for k
      using removable_subscriptions.remove_numbered [OF num1 [OF that], of DEFAULT_CONTEXT r]
      by (simp add: ag2_def)
    have num: "subscriptions_numbered k ag'" if "subscriptions_numbered k ag" for k
      using same_subscriptions_effect(2) [OF num2 [OF that] same(3)] same(4) by simp
    have r1: "r \<in> set (ag_subscriptions ag1)" "pka_subscription_get_id r (ag_world ag1) = i"
      using r by (simp_all add: ag1_def on_world_def pka_subscription_get_id_def world_simps)
    have "subscription_directory ag' = subscription_directory ag2"
      using same_subscriptions_effect(1) [OF num2 [OF k(2)] same(3)] same(4) by simp
    also have "\<dots> = (subscription_directory ag1)(i := None)"
      using removable_subscriptions.remove_directory [OF num1 [OF k(2)] r1(1), of DEFAULT_CONTEXT DEFAULT_CONTEXT]
        r1(2) by (simp add: ag2_def subscription_directory_def)
    also have "subscription_directory ag1 = subscription_directory ag"
      using same_subscriptions_effect(1) [OF k(2) same(1)] same(2) by simp
    finally have dir: "subscription_directory ag' = (subscription_directory ag)(i := None)" .
    have "\<exists>k' \<le> n. subscriptions_numbered k' ag'" if "k \<le> n" "subscriptions_numbered k ag" for k
      using num [OF that(2)] that(1) by blast
    then show ?thesis
      using subscriptions_change [OF wn _ frame, of n] dir x Ok
      by (simp add: subscription_directory_def directory_def)
  next
    case (Err e)
    then have "pka_manager_find_subscription DEFAULT_CONTEXT i ag = (Err e, ag)"
      by (auto simp: pka_manager_find_subscription_def split: ans.splits)
    with call wn Err show ?thesis
      by (auto simp: listener_async listener_finish with_subscription_def subscription_directory_def
          directory_def fun_eq_iff split: ans.split)
  next
    case Quiet
    then show ?thesis
      by (auto simp: pka_manager_find_subscription_def find_by_id_def split: ans.splits option.splits)
  qed
  then show "channel_directory ag' = channel_directory ag" "source_directory ag' = source_directory ag"
    "well_numbered n ag'" "subscription_directory ag' = (subscription_directory ag)(i := None)"
    "x = Ok True \<longleftrightarrow> subscription_directory ag i \<noteq> None"
    by simp_all
qed

section \<open>The registry refines three finite maps\<close>

text \<open>
  C14: seen through the identifiers, the agent's arrays are three finite maps. Adding a channel or a
  subscription always answers a new identifier and extends its map there; adding a source does so or
  fails and changes nothing; removing a source or a subscription deletes the identifier and succeeds
  exactly when it was there; removing a channel answers TRUE and changes nothing at all. No call touches
  another map, as long as fewer than \<open>2 ^ 32\<close> objects of a kind have been created.
\<close>

theorem registry_refines_maps:
  assumes "well_numbered n ag" and "n < 2 ^ 32"
  shows "(\<exists>i ag'. pka_listener_manager_add_channel_finish tmp now ag = (Ok i, ag') \<and>
        extends (channel_directory ag) i (channel_directory ag') \<and> source_directory ag' = source_directory ag \<and>
        subscription_directory ag' = subscription_directory ag \<and> well_numbered (Suc n) ag')
    \<and> (\<exists>i ag'. pka_listener_manager_add_subscription_finish now
          (pka_listener_manager_add_subscription_async buffer_size timeout) ag = (Ok i, ag') \<and>
        extends (subscription_directory ag) i (subscription_directory ag') \<and>
        channel_directory ag' = channel_directory ag \<and> source_directory ag' = source_directory ag \<and>
        well_numbered (Suc n) ag')
    \<and> (case pka_listener_manager_add_source_finish (pka_listener_manager_add_source_async plugin) ag of (x, ag') \<Rightarrow>
        (case x of Ok i \<Rightarrow> extends (source_directory ag) i (source_directory ag')
         | _ \<Rightarrow> source_directory ag' = source_directory ag) \<and>
        channel_directory ag' = channel_directory ag \<and>
        subscription_directory ag' = subscription_directory ag \<and> well_numbered (Suc n) ag')
    \<and> (case pka_listener_manager_remove_source_finish (pka_listener_manager_remove_source_async j) ag of (x, ag') \<Rightarrow>
        source_directory ag' = (source_directory ag)(j := None) \<and>
        (x = Ok () \<longleftrightarrow> source_directory ag j \<noteq> None) \<and> channel_directory ag' = channel_directory ag \<and>
        subscription_directory ag' = subscription_directory ag \<and> well_numbered n ag')
    \<and> (case pka_listener_manager_remove_subscription_finish
          (pka_listener_manager_remove_subscription_async j) ag of (x, ag') \<Rightarrow>
        subscription_directory ag' = (subscription_directory ag)(j := None) \<and>
        (x = Ok True \<longleftrightarrow> subscription_directory ag j \<noteq> None) \<and> channel_directory ag' = channel_directory ag \<and>
        source_directory ag' = source_directory ag \<and> well_numbered n ag')
    \<and> (channel_directory ag j \<noteq> None \<longrightarrow>
        pka_listener_manager_remove_channel_finish (pka_listener_manager_remove_channel_async j) ag = (Ok True, ag))"
proof (intro conjI)
  show "\<exists>i ag'. pka_listener_manager_add_channel_finish tmp now ag = (Ok i, ag') \<and>
        extends (channel_directory ag) i (channel_directory ag') \<and> source_directory ag' = source_directory ag \<and>
        subscription_directory ag' = subscription_directory ag \<and> well_numbered (Suc n) ag'"
    by (rule add_channel_call [OF assms]) blast
  show "\<exists>i ag'. pka_listener_manager_add_subscription_finish now
          (pka_listener_manager_add_subscription_async buffer_size timeout) ag = (Ok i, ag') \<and>
        extends (subscription_directory ag) i (subscription_directory ag') \<and>
        channel_directory ag' = channel_directory ag \<and> source_directory ag' = source_directory ag \<and>
        well_numbered (Suc n) ag'"
    by (rule add_subscription_call [OF assms]) blast
  show "channel_directory ag j \<noteq> None \<longrightarrow>
      pka_listener_manager_remove_channel_finish (pka_listener_manager_remove_channel_async j) ag = (Ok True, ag)"
    by (auto simp: listener_async listener_finish with_channel_def channel_directory_def directory_def
        pka_manager_remove_channel_def manager_ops split: ans.splits)
qed (use add_source_call [OF assms] remove_source_call [OF assms(1)] remove_subscription_call [OF assms(1)]
  in \<open>simp_all split: prod.split\<close>)

lemma demo_well_numbered: "well_numbered 0 demo_agent"
  by (simp add: well_numbered_def numbered_def demo_agent_def)

theorem registry_refines_maps_witness:
  "\<exists>i ag'. pka_listener_manager_add_channel_finish [] demo_now demo_agent = (Ok i, ag') \<and>
     extends (channel_directory demo_agent) i (channel_directory ag') \<and> well_numbered 1 ag'"
proof -
  have "(0 :: nat) < 2 ^ 32" by simp
  from registry_refines_maps [OF demo_well_numbered this, where tmp = "[]" and now = demo_now]
  show ?thesis by (metis One_nat_def)
qed

end
