(* ===== verification/Pka_Source_Simple.thy ===== *)
theory Pka_Source_Simple
  imports Pka_Source Egg_Time
begin

text \<open>
  perfkit-agent/pka-source-simple.c: sources that are sampled at a frequency, by one thread that they share or by
  a thread of their own. The notices of \<open>Pka_Source\<close> come in as the methods of the class (started, stopped, muted,
  unmuted, reset), on the thread of the main loop.
\<close>

section \<open>State\<close>

text \<open>
  \<open>sm_locked\<close>: the mutex of the source is held by the main loop, which does not give it back.
  \<open>sm_sample\<close> and \<open>sm_spawn\<close>: the closure is set.
\<close>

record simple_source =
  sm_freq :: timespec
  sm_timeout :: timespec
  sm_dedicated :: bool
  sm_running :: bool
  sm_thread :: bool
  sm_sample :: bool
  sm_spawn :: bool
  sm_locked :: bool

datatype sampler_event = Sampled source_ref timespec | Spawn_Called source_ref pka_spawn_info | Cleanup source_ref

text \<open>The main loop: running, waiting for a mutex for ever, or ended by a failed \<open>g_assert\<close>.\<close>

datatype main_thread = Main_Runs | Main_Blocked | Main_Aborted

text \<open>
  The sources by address; the array \<open>sources\<close> and the flag \<open>running\<close> of the file; whether the shared thread
  exists; how often the monotonic clock was read; what happened, in order.
\<close>

record sampler =
  sp_simple :: "source_ref \<Rightarrow> simple_source"
  sp_sources :: "source_ref list"
  sp_running :: bool
  sp_worker :: bool
  sp_reads :: nat
  sp_main :: main_thread
  sp_events :: "sampler_event list"

definition upd_simple :: "source_ref \<Rightarrow> (simple_source \<Rightarrow> simple_source) \<Rightarrow> sampler \<Rightarrow> sampler" where
  "upd_simple s f p = p\<lparr>sp_simple := (sp_simple p)(s := f (sp_simple p s))\<rparr>"

definition happens :: "sampler_event \<Rightarrow> sampler \<Rightarrow> sampler" where
  "happens e p = p\<lparr>sp_events := sp_events p @ [e]\<rparr>"

lemma upd_simple_simps [simp]:
  "sp_simple (upd_simple s f p) = (sp_simple p)(s := f (sp_simple p s))"
  "sp_sources (upd_simple s f p) = sp_sources p"
  "sp_running (upd_simple s f p) = sp_running p"
  "sp_worker (upd_simple s f p) = sp_worker p"
  "sp_reads (upd_simple s f p) = sp_reads p"
  "sp_main (upd_simple s f p) = sp_main p"
  "sp_events (upd_simple s f p) = sp_events p"
  by (simp_all add: upd_simple_def)

lemma happens_simps [simp]:
  "sp_simple (happens e p) = sp_simple p"
  "sp_sources (happens e p) = sp_sources p"
  "sp_running (happens e p) = sp_running p"
  "sp_worker (happens e p) = sp_worker p"
  "sp_reads (happens e p) = sp_reads p"
  "sp_main (happens e p) = sp_main p"
  "sp_events (happens e p) = sp_events p @ [e]"
  by (simp_all add: happens_def)

text \<open>The readings of \<open>CLOCK_MONOTONIC\<close>, one after the other.\<close>

type_synonym clock = "nat \<Rightarrow> timespec"

definition clock_gettime :: "clock \<Rightarrow> sampler \<Rightarrow> timespec \<times> sampler" where
  "clock_gettime clock p = (clock (sp_reads p), p\<lparr>sp_reads := sp_reads p + 1\<rparr>)"

section \<open>Setting up\<close>

definition pka_source_simple_init :: simple_source where
  "pka_source_simple_init =
     \<lparr>sm_freq = \<lparr>tv_sec = 1, tv_nsec = 0\<rparr>, sm_timeout = \<lparr>tv_sec = 0, tv_nsec = 0\<rparr>, sm_dedicated = False,
      sm_running = False, sm_thread = False, sm_sample = False, sm_spawn = False, sm_locked = False\<rparr>"

text \<open>The class is set up once; \<open>created\<close>: the shared thread could be created.\<close>

definition pka_source_simple_class_init :: "bool \<Rightarrow> sampler" where
  "pka_source_simple_class_init created =
     \<lparr>sp_simple = (\<lambda>_. pka_source_simple_init), sp_sources = [], sp_running = True, sp_worker = created,
      sp_reads = 0, sp_main = Main_Runs, sp_events = []\<rparr>"

definition pka_source_simple_set_sample_closure :: "simple_source \<Rightarrow> simple_source" where
  "pka_source_simple_set_sample_closure source = (if sm_sample source then source else source\<lparr>sm_sample := True\<rparr>)"

text \<open>A callback is a closure or NULL.\<close>

definition pka_source_simple_set_sample_callback :: "bool \<Rightarrow> simple_source \<Rightarrow> simple_source" where
  "pka_source_simple_set_sample_callback callback source =
     (if \<not> callback \<or> sm_sample source then source else pka_source_simple_set_sample_closure source)"

definition pka_source_simple_set_spawn_closure :: "simple_source \<Rightarrow> simple_source" where
  "pka_source_simple_set_spawn_closure source = (if sm_spawn source then source else source\<lparr>sm_spawn := True\<rparr>)"

definition pka_source_simple_set_spawn_callback :: "bool \<Rightarrow> simple_source \<Rightarrow> simple_source" where
  "pka_source_simple_set_spawn_callback spawn source =
     (if \<not> spawn \<or> sm_spawn source then source else pka_source_simple_set_spawn_closure source)"

definition pka_source_simple_new :: simple_source where
  "pka_source_simple_new = pka_source_simple_init"

definition pka_source_simple_new_full :: "bool \<Rightarrow> bool \<Rightarrow> simple_source" where
  "pka_source_simple_new_full callback spawn_callback =
     pka_source_simple_set_spawn_callback spawn_callback
       (pka_source_simple_set_sample_callback callback pka_source_simple_init)"

definition pka_source_simple_set_use_thread :: "bool \<Rightarrow> simple_source \<Rightarrow> simple_source" where
  "pka_source_simple_set_use_thread use_thread source =
     (if sm_thread source \<or> sm_running source then source else source\<lparr>sm_dedicated := use_thread\<rparr>)"

definition pka_source_simple_get_use_thread :: "simple_source \<Rightarrow> bool" where
  "pka_source_simple_get_use_thread source = sm_dedicated source"

definition pka_source_simple_set_frequency :: "g_time_val \<Rightarrow> simple_source \<Rightarrow> simple_source" where
  "pka_source_simple_set_frequency frequency source =
     source\<lparr>sm_freq := \<lparr>tv_sec = tv_secs frequency, tv_nsec = tv_usecs frequency * 1000\<rparr>\<rparr>"

section \<open>Sampling\<close>

definition pka_source_simple_update :: "clock \<Rightarrow> source_ref \<Rightarrow> sampler \<Rightarrow> timespec \<times> sampler" where
  "pka_source_simple_update clock s p =
     (case clock_gettime clock p of
        (ts, p) \<Rightarrow> (ts, upd_simple s (\<lambda>x. x\<lparr>sm_timeout := timespec_add ts (sm_freq x)\<rparr>) p))"

text \<open>The closure delivers a sample, for which the event stands; without a closure nothing is called.\<close>

definition pka_source_simple_invoke :: "clock \<Rightarrow> source_ref \<Rightarrow> sampler \<Rightarrow> sampler" where
  "pka_source_simple_invoke clock s p =
     (case pka_source_simple_update clock s p of
        (ts, p) \<Rightarrow> if sm_sample (sp_simple p s) then happens (Sampled s ts) p else p)"

definition pka_source_simple_compare_func :: "sampler \<Rightarrow> source_ref \<Rightarrow> source_ref \<Rightarrow> int" where
  "pka_source_simple_compare_func p a b = timespec_compare (sm_timeout (sp_simple p a)) (sm_timeout (sp_simple p b))"

definition pka_source_simple_is_ready :: "clock \<Rightarrow> source_ref \<Rightarrow> sampler \<Rightarrow> bool \<times> sampler" where
  "pka_source_simple_is_ready clock s p =
     (case clock_gettime clock p of (ts, p) \<Rightarrow> (0 \<le> timespec_compare ts (sm_timeout (sp_simple p s)), p))"

text \<open>
  The loop of the shared thread over the array, from some index on; the array does not change in it, as the mutex
  is held. The result is \<open>dirty\<close>.
\<close>

fun scan_sources :: "clock \<Rightarrow> source_ref list \<Rightarrow> bool \<Rightarrow> sampler \<Rightarrow> bool \<times> sampler" where
  "scan_sources clock [] dirty p = (dirty, p)"
| "scan_sources clock (s # ss) dirty p =
     (case pka_source_simple_is_ready clock s p of
        (ready, p) \<Rightarrow>
          if ready then scan_sources clock ss True (pka_source_simple_invoke clock s p) else (dirty, p))"

text \<open>\<open>g_ptr_array_sort\<close>, with the comparison.\<close>

type_synonym ptr_array_sort = "(source_ref \<Rightarrow> source_ref \<Rightarrow> int) \<Rightarrow> source_ref list \<Rightarrow> source_ref list"

text \<open>
  What the shared thread does after one return of \<open>pka_source_simple_wait\<close> and before the next wait. It may wake at
  any time: when the timeout of the first source is over, when it is signalled, or for no reason. With no source it
  waits again.
\<close>

definition pka_source_simple_shared_worker :: "clock \<Rightarrow> ptr_array_sort \<Rightarrow> sampler \<Rightarrow> sampler" where
  "pka_source_simple_shared_worker clock sort_by p =
     (if \<not> sp_worker p \<or> sp_sources p = [] then p
      else if \<not> sp_running p then p\<lparr>sp_worker := False\<rparr>
      else (case scan_sources clock (sp_sources p) False p of
              (dirty, p) \<Rightarrow>
                if dirty then p\<lparr>sp_sources := sort_by (pka_source_simple_compare_func p) (sp_sources p)\<rparr> else p))"

text \<open>
  What the thread of a dedicated source does when it is given a turn: first it locks the mutex of the source, then it
  samples as long as the source runs. None: the mutex is held and the thread waits for it.
\<close>

definition pka_source_simple_worker :: "clock \<Rightarrow> source_ref \<Rightarrow> sampler \<Rightarrow> sampler option" where
  "pka_source_simple_worker clock s p =
     (if sm_locked (sp_simple p s) then None
      else Some (if sm_running (sp_simple p s) then pka_source_simple_invoke clock s p else p))"

section \<open>Notices\<close>

text \<open>\<open>g_ptr_array_remove\<close> removes the first occurrence.\<close>

definition pka_source_simple_remove_from_shared :: "source_ref \<Rightarrow> sampler \<Rightarrow> sampler" where
  "pka_source_simple_remove_from_shared s p =
     happens (Cleanup s) (upd_simple s (\<lambda>x. x\<lparr>sm_running := False\<rparr>) (p\<lparr>sp_sources := remove1 s (sp_sources p)\<rparr>))"

definition pka_source_simple_add_to_shared :: "ptr_array_sort \<Rightarrow> source_ref \<Rightarrow> sampler \<Rightarrow> sampler" where
  "pka_source_simple_add_to_shared sort_by s p =
     p\<lparr>sp_sources := sort_by (pka_source_simple_compare_func p) (sp_sources p @ [s])\<rparr>"

text \<open>A function that begins by locking the mutex of the source.\<close>

definition with_mutex :: "source_ref \<Rightarrow> (sampler \<Rightarrow> sampler) \<Rightarrow> sampler \<Rightarrow> sampler" where
  "with_mutex s f p = (if sm_locked (sp_simple p s) then p\<lparr>sp_main := Main_Blocked\<rparr> else f p)"

text \<open>
  \<open>created\<close>: the thread could be created. The function returns with the mutex locked in that case: \<open>EXIT\<close> is a return.
\<close>

definition pka_source_simple_started ::
  "ptr_array_sort \<Rightarrow> bool \<Rightarrow> pka_spawn_info \<Rightarrow> source_ref \<Rightarrow> sampler \<Rightarrow> sampler" where
  "pka_source_simple_started sort_by created info s =
     with_mutex s (\<lambda>p.
       let p = (if sm_spawn (sp_simple p s) then happens (Spawn_Called s info) p else p) in
       if sm_dedicated (sp_simple p s) then
         if sm_thread (sp_simple p s) \<or> sm_running (sp_simple p s) then p\<lparr>sp_main := Main_Aborted\<rparr>
         else if created then
           upd_simple s (\<lambda>x. x\<lparr>sm_running := True, sm_thread := True, sm_locked := True\<rparr>) p
         else pka_source_simple_add_to_shared sort_by s
           (upd_simple s (\<lambda>x. x\<lparr>sm_running := True, sm_dedicated := False\<rparr>) p)
       else pka_source_simple_add_to_shared sort_by s p)"

definition pka_source_simple_stopped :: "source_ref \<Rightarrow> sampler \<Rightarrow> sampler" where
  "pka_source_simple_stopped s p =
     (if sm_dedicated (sp_simple p s) then
        with_mutex s (\<lambda>p. happens (Cleanup s) (upd_simple s (\<lambda>x. x\<lparr>sm_running := False\<rparr>) p)) p
      else pka_source_simple_remove_from_shared s p)"

definition pka_source_simple_muted :: "source_ref \<Rightarrow> sampler \<Rightarrow> sampler" where
  "pka_source_simple_muted s =
     with_mutex s (\<lambda>p. if \<not> sm_dedicated (sp_simple p s) then pka_source_simple_remove_from_shared s p else p)"

definition pka_source_simple_unmuted :: "ptr_array_sort \<Rightarrow> source_ref \<Rightarrow> sampler \<Rightarrow> sampler" where
  "pka_source_simple_unmuted sort_by s =
     with_mutex s (\<lambda>p. if \<not> sm_dedicated (sp_simple p s) then pka_source_simple_add_to_shared sort_by s p else p)"

definition pka_source_simple_reset :: "source_ref \<Rightarrow> sampler \<Rightarrow> sampler" where
  "pka_source_simple_reset s p = p"

text \<open>The class's methods, by the signal that the main loop emits; a main loop that is stuck emits none.\<close>

definition simple_notice :: "ptr_array_sort \<Rightarrow> bool \<Rightarrow> source_ref \<times> source_signal \<Rightarrow> sampler \<Rightarrow> sampler" where
  "simple_notice sort_by created notice p =
     (if sp_main p \<noteq> Main_Runs then p
      else (case notice of (s, sig) \<Rightarrow> case sig of
              Started info \<Rightarrow> pka_source_simple_started sort_by created info s p
            | Stopped \<Rightarrow> pka_source_simple_stopped s p
            | Muted \<Rightarrow> pka_source_simple_muted s p
            | Unmuted \<Rightarrow> pka_source_simple_unmuted sort_by s p
            | Reset \<Rightarrow> pka_source_simple_reset s p))"

end
