(* ===== verification/Sampler_Properties.thy ===== *)
theory Sampler_Properties
  imports Pka_Source_Simple Agent_Properties
begin

text \<open>
  What one turn of the thread that the sources share does.
\<close>

section \<open>The order of times\<close>

lemma timespec_compare_le:
  "timespec_compare a b \<le> 0 \<longleftrightarrow> tv_sec a < tv_sec b \<or> tv_sec a = tv_sec b \<and> tv_nsec a \<le> tv_nsec b"
  by (auto simp: timespec_compare_def)

lemma timespec_compare_le_trans:
  "timespec_compare a b \<le> 0 \<Longrightarrow> timespec_compare b c \<le> 0 \<Longrightarrow> timespec_compare a c \<le> 0"
  by (auto simp: timespec_compare_le)

text \<open>
  A timeout is a normal time, or has one second in its nanoseconds (\<open>timespec_add\<close> does not carry then). The
  comparison with a reading of the clock is right for both.
\<close>

definition ts_timeout :: "timespec \<Rightarrow> bool" where
  "ts_timeout t \<longleftrightarrow> 0 \<le> tv_nsec t \<and> tv_nsec t \<le> 1000000000"

lemma ready_iff:
  assumes "ts_normal now" "ts_timeout t"
  shows "0 \<le> timespec_compare now t \<longleftrightarrow> ts_nanos t \<le> ts_nanos now"
proof (cases "tv_sec now" "tv_sec t" rule: linorder_cases)
  case less
  then have "tv_sec now + 1 \<le> tv_sec t" by simp
  with assms less show ?thesis
    unfolding timespec_compare_def ts_timeout_def ts_normal_def ts_nanos_def by auto
next
  case equal
  then show ?thesis by (auto simp: timespec_compare_def ts_nanos_def)
next
  case greater
  then have "tv_sec t + 1 \<le> tv_sec now" by simp
  with assms greater show ?thesis
    unfolding timespec_compare_def ts_timeout_def ts_normal_def ts_nanos_def by auto
qed

lemma timespec_add_timeout: "ts_normal a \<Longrightarrow> ts_normal b \<Longrightarrow> ts_timeout (timespec_add a b)"
  by (auto simp: timespec_add_def ts_timeout_def ts_defs Let_def)

text \<open>The clock of the machine, and a frequency.\<close>

definition clock_ok :: "clock \<Rightarrow> bool" where
  "clock_ok clock \<longleftrightarrow> (\<forall>n. ts_normal (clock n)) \<and> (\<forall>m n. m \<le> n \<longrightarrow> ts_nanos (clock m) \<le> ts_nanos (clock n))"

definition freq_ok :: "simple_source \<Rightarrow> bool" where
  "freq_ok x \<longleftrightarrow> ts_normal (sm_freq x) \<and> 0 \<le> ts_nanos (sm_freq x)"

text \<open>What is known of \<open>g_ptr_array_sort\<close>: it sorts, by keys that a total preorder compares.\<close>

definition sorts_times :: "ptr_array_sort \<Rightarrow> bool" where
  "sorts_times sort_by \<longleftrightarrow>
     (\<forall>key xs. mset (sort_by (\<lambda>a b. timespec_compare (key a) (key b)) xs) = mset xs \<and>
        sorted_wrt (\<lambda>a b. timespec_compare (key a) (key b) \<le> 0)
          (sort_by (\<lambda>a b. timespec_compare (key a) (key b)) xs))"

definition by_timeout :: "sampler \<Rightarrow> source_ref list \<Rightarrow> bool" where
  "by_timeout p ss \<longleftrightarrow> sorted_wrt (\<lambda>a b. pka_source_simple_compare_func p a b \<le> 0) ss"

lemma sorts_compare:
  assumes "sorts_times sort_by"
  shows "mset (sort_by (pka_source_simple_compare_func p) xs) = mset xs"
    and "by_timeout p (sort_by (pka_source_simple_compare_func p) xs)"
  using assms by (auto simp: sorts_times_def by_timeout_def pka_source_simple_compare_func_def [abs_def])

lemma sorts_compare_set: "sorts_times sort_by \<Longrightarrow> set (sort_by (pka_source_simple_compare_func p) xs) = set xs"
  using sorts_compare(1) by (metis set_mset_mset)

lemma sorts_compare_distinct:
  "sorts_times sort_by \<Longrightarrow> distinct (sort_by (pka_source_simple_compare_func p) xs) = distinct xs"
  using sorts_compare(1) by (metis distinct_count_atmost_1 set_mset_mset)

lemma by_timeout_cong:
  "(\<And>s. s \<in> set ss \<Longrightarrow> sm_timeout (sp_simple p' s) = sm_timeout (sp_simple p s)) \<Longrightarrow> by_timeout p' ss = by_timeout p ss"
  unfolding by_timeout_def pka_source_simple_compare_func_def by (induction ss) auto

lemma by_timeout_remove1: "by_timeout p ss \<Longrightarrow> by_timeout p (remove1 s ss)"
  unfolding by_timeout_def
proof (induction ss)
  case (Cons a ss)
  then show ?case using set_remove1_subset [of s ss] by auto
qed simp

lemma ready_flip: "0 \<le> timespec_compare a b \<longleftrightarrow> timespec_compare b a \<le> 0"
  by (auto simp: timespec_compare_def)

section \<open>A turn of the shared thread\<close>

definition samples_of :: "sampler_event list \<Rightarrow> (source_ref \<times> timespec) list" where
  "samples_of es = List.map_filter (\<lambda>e. case e of Sampled s t \<Rightarrow> Some (s, t) | _ \<Rightarrow> None) es"

lemma samples_of_simps [simp]:
  "samples_of [] = []"
  "samples_of (Sampled s t # es) = (s, t) # samples_of es"
  "samples_of (Spawn_Called s info # es) = samples_of es"
  "samples_of (Cleanup s # es) = samples_of es"
  "samples_of (es @ fs) = samples_of es @ samples_of fs"
  by (simp_all add: samples_of_def map_filter_simps map_filter_def)

lemma is_ready_eq:
  "pka_source_simple_is_ready clock s p =
     (0 \<le> timespec_compare (clock (sp_reads p)) (sm_timeout (sp_simple p s)), p\<lparr>sp_reads := sp_reads p + 1\<rparr>)"
  by (simp add: pka_source_simple_is_ready_def clock_gettime_def)

lemma invoke_simps [simp]:
  "sp_sources (pka_source_simple_invoke clock s p) = sp_sources p"
  "sp_running (pka_source_simple_invoke clock s p) = sp_running p"
  "sp_worker (pka_source_simple_invoke clock s p) = sp_worker p"
  "sp_main (pka_source_simple_invoke clock s p) = sp_main p"
  "sp_reads (pka_source_simple_invoke clock s p) = sp_reads p + 1"
  "sp_simple (pka_source_simple_invoke clock s p) =
     (sp_simple p)(s := sp_simple p s\<lparr>sm_timeout := timespec_add (clock (sp_reads p)) (sm_freq (sp_simple p s))\<rparr>)"
  "samples_of (sp_events (pka_source_simple_invoke clock s p)) =
     samples_of (sp_events p) @ (if sm_sample (sp_simple p s) then [(s, clock (sp_reads p))] else [])"
  by (simp_all add: pka_source_simple_invoke_def pka_source_simple_update_def clock_gettime_def)

lemma scan_sources_frame [simp]:
  "sp_sources (snd (scan_sources clock ss d p)) = sp_sources p"
  "sp_running (snd (scan_sources clock ss d p)) = sp_running p"
  "sp_worker (snd (scan_sources clock ss d p)) = sp_worker p"
  "sp_main (snd (scan_sources clock ss d p)) = sp_main p"
  by (induction ss arbitrary: d p) (simp_all add: is_ready_eq)

lemma scan_dirty: "d \<Longrightarrow> fst (scan_sources clock ss d p)"
  by (induction ss arbitrary: p) (simp_all add: is_ready_eq)

lemma scan_clean:
  "\<not> fst (scan_sources clock ss False p) \<Longrightarrow> \<exists>n. snd (scan_sources clock ss False p) = p\<lparr>sp_reads := n\<rparr>"
  by (cases ss) (auto simp: is_ready_eq scan_dirty intro: exI [of _ "sp_reads p"] split: if_splits)

text \<open>The sources that are due are a prefix of the array, and it is that prefix that is sampled.\<close>

definition sampleable :: "simple_source \<Rightarrow> bool" where
  "sampleable x \<longleftrightarrow> sm_sample x \<and> ts_timeout (sm_timeout x) \<and> freq_ok x"

lemma not_due:
  assumes "clock_ok clock" "\<not> 0 \<le> timespec_compare (clock n) (sm_timeout (sp_simple p a))"
    and "pka_source_simple_compare_func p a b \<le> 0" "ts_timeout (sm_timeout (sp_simple p b))"
  shows "ts_nanos (clock n) < ts_nanos (sm_timeout (sp_simple p b))"
proof -
  have "\<not> 0 \<le> timespec_compare (clock n) (sm_timeout (sp_simple p b))"
    using assms(2,3) timespec_compare_le_trans unfolding ready_flip pka_source_simple_compare_func_def by blast
  then show ?thesis
    using ready_iff [of "clock n"] assms(1,4) by (simp add: clock_ok_def)
qed

lemma scan_sources_prefix:
  assumes "clock_ok clock" "distinct ss" "by_timeout p ss" "\<forall>s \<in> set ss. sampleable (sp_simple p s)"
  shows "\<exists>k \<le> length ss.
    samples_of (sp_events (snd (scan_sources clock ss d p))) =
      samples_of (sp_events p) @ map (\<lambda>i. (ss ! i, clock (sp_reads p + 2 * i + 1))) [0..<k] \<and>
    (\<forall>i < k. ts_nanos (sm_timeout (sp_simple p (ss ! i))) \<le> ts_nanos (clock (sp_reads p + 2 * i))) \<and>
    (\<forall>s \<in> set (drop k ss). ts_nanos (clock (sp_reads p + 2 * k)) < ts_nanos (sm_timeout (sp_simple p s))) \<and>
    (fst (scan_sources clock ss d p) \<longleftrightarrow> d \<or> 0 < k)"
  using assms
proof (induction ss arbitrary: d p)
  case Nil
  then show ?case by simp
next
  case (Cons s ss)
  show ?case
  proof (cases "0 \<le> timespec_compare (clock (sp_reads p)) (sm_timeout (sp_simple p s))")
    case False
    have "pka_source_simple_compare_func p s b \<le> 0" if "b \<in> set (s # ss)" for b
      using Cons.prems(3) that
      by (auto simp: by_timeout_def pka_source_simple_compare_func_def timespec_compare_def)
    then have "ts_nanos (clock (sp_reads p)) < ts_nanos (sm_timeout (sp_simple p b))" if "b \<in> set (s # ss)" for b
      using not_due [OF Cons.prems(1) False] Cons.prems(4) that by (auto simp: sampleable_def)
    with False show ?thesis by (intro exI [of _ 0]) (simp add: is_ready_eq)
  next
    case True
    define q where "q = pka_source_simple_invoke clock s (p\<lparr>sp_reads := sp_reads p + 1\<rparr>)"
    have scan: "scan_sources clock (s # ss) d p = scan_sources clock ss True q"
      using True by (simp add: is_ready_eq q_def)
    have same: "sp_simple q a = sp_simple p a" if "a \<in> set ss" for a
      using that Cons.prems(2) by (auto simp: q_def)
    have "by_timeout q ss"
      using Cons.prems(3) same by (subst by_timeout_cong [of ss q p]) (simp_all add: by_timeout_def)
    moreover have "\<forall>a \<in> set ss. sampleable (sp_simple q a)"
      using Cons.prems(4) same by simp
    ultimately obtain k where k: "k \<le> length ss"
      "samples_of (sp_events (snd (scan_sources clock ss True q))) =
        samples_of (sp_events q) @ map (\<lambda>i. (ss ! i, clock (sp_reads q + 2 * i + 1))) [0..<k]"
      "\<forall>i < k. ts_nanos (sm_timeout (sp_simple q (ss ! i))) \<le> ts_nanos (clock (sp_reads q + 2 * i))"
      "\<forall>a \<in> set (drop k ss). ts_nanos (clock (sp_reads q + 2 * k)) < ts_nanos (sm_timeout (sp_simple q a))"
      "fst (scan_sources clock ss True q)"
      using Cons.IH [of q True] Cons.prems(1,2) by auto
    have reads: "sp_reads q = sp_reads p + 2" by (simp add: q_def)
    have first: "samples_of (sp_events q) = samples_of (sp_events p) @ [(s, clock (sp_reads p + 1))]"
      using Cons.prems(4) by (simp add: q_def sampleable_def)
    have due: "ts_nanos (sm_timeout (sp_simple p s)) \<le> ts_nanos (clock (sp_reads p))"
      using True Cons.prems(1,4) ready_iff by (simp add: clock_ok_def sampleable_def)
    show ?thesis
    proof (intro exI [of _ "Suc k"] conjI)
      show "samples_of (sp_events (snd (scan_sources clock (s # ss) d p))) =
        samples_of (sp_events p) @ map (\<lambda>i. ((s # ss) ! i, clock (sp_reads p + 2 * i + 1))) [0..<Suc k]"
        unfolding scan k(2) first map_upt_Suc reads by simp
      show "\<forall>i < Suc k. ts_nanos (sm_timeout (sp_simple p ((s # ss) ! i))) \<le> ts_nanos (clock (sp_reads p + 2 * i))"
        using k(1,3) due same reads by (auto simp: less_Suc_eq_0_disj)
      show "\<forall>a \<in> set (drop (Suc k) (s # ss)). ts_nanos (clock (sp_reads p + 2 * Suc k)) < ts_nanos (sm_timeout (sp_simple p a))"
        using k(4) reads by (auto simp: same [OF in_set_dropD])
    qed (use k(1,5) scan in simp_all)
  qed
qed

text \<open>
  C29: with no source in the array twice, and the array in the order of the timeouts, the shared thread samples in one
  turn exactly the sources whose time has come: those are the first of the array, each is sampled once, in the order of their timeouts, and none of the others was due when the thread looked. After
  the turn the array holds the same sources, again in the order of their timeouts, so that the thread waits for the
  one that is due next.
\<close>

theorem sampling_turn:
  assumes "clock_ok clock" "sorts_times sort_by" "sp_worker p" "sp_running p"
    and "distinct (sp_sources p)" "by_timeout p (sp_sources p)" "\<forall>s \<in> set (sp_sources p). sampleable (sp_simple p s)"
  shows "\<exists>k \<le> length (sp_sources p).
    samples_of (sp_events (pka_source_simple_shared_worker clock sort_by p)) =
      samples_of (sp_events p) @ map (\<lambda>i. (sp_sources p ! i, clock (sp_reads p + 2 * i + 1))) [0..<k] \<and>
    (\<forall>i < k. ts_nanos (sm_timeout (sp_simple p (sp_sources p ! i))) \<le> ts_nanos (clock (sp_reads p + 2 * i))) \<and>
    (\<forall>s \<in> set (drop k (sp_sources p)).
       ts_nanos (clock (sp_reads p + 2 * k)) < ts_nanos (sm_timeout (sp_simple p s))) \<and>
    mset (sp_sources (pka_source_simple_shared_worker clock sort_by p)) = mset (sp_sources p) \<and>
    by_timeout (pka_source_simple_shared_worker clock sort_by p)
      (sp_sources (pka_source_simple_shared_worker clock sort_by p))"
proof -
  define r where "r = scan_sources clock (sp_sources p) False p"
  define q where "q = pka_source_simple_shared_worker clock sort_by p"
  obtain k where k: "k \<le> length (sp_sources p)"
    "samples_of (sp_events (snd r)) =
      samples_of (sp_events p) @ map (\<lambda>i. (sp_sources p ! i, clock (sp_reads p + 2 * i + 1))) [0..<k]"
    "\<forall>i < k. ts_nanos (sm_timeout (sp_simple p (sp_sources p ! i))) \<le> ts_nanos (clock (sp_reads p + 2 * i))"
    "\<forall>s \<in> set (drop k (sp_sources p)). ts_nanos (clock (sp_reads p + 2 * k)) < ts_nanos (sm_timeout (sp_simple p s))"
    "fst r \<longleftrightarrow> 0 < k"
    using scan_sources_prefix [OF assms(1,5,6,7), of False] unfolding r_def by auto
  have q: "q = (if fst r then snd r\<lparr>sp_sources := sort_by (pka_source_simple_compare_func (snd r)) (sp_sources p)\<rparr> else snd r)"
    if "sp_sources p \<noteq> []"
    using assms(3,4) that by (simp add: q_def r_def pka_source_simple_shared_worker_def split_def)
  show ?thesis
  proof (cases "sp_sources p = []")
    case True
    then have "q = p" by (simp add: q_def pka_source_simple_shared_worker_def)
    with True show ?thesis by (simp add: q_def [symmetric] by_timeout_def)
  next
    case False
    have m: "mset (sp_sources q) = mset (sp_sources p)" and e: "samples_of (sp_events q) = samples_of (sp_events (snd r))"
      using q [OF False] sorts_compare(1) [OF assms(2)] by (simp_all add: r_def)
    have b: "by_timeout q (sp_sources q)"
    proof (cases "fst r")
      case True
      then have "by_timeout (snd r) (sp_sources q)"
        using q [OF False] sorts_compare(2) [OF assms(2), of "snd r"] by simp
      then show ?thesis
        using q [OF False] True by (subst by_timeout_cong [of _ q "snd r"]) simp_all
    next
      case notdirty: False
      then obtain n where "q = p\<lparr>sp_reads := n\<rparr>" using q [OF False] scan_clean unfolding r_def by fastforce
      then have "by_timeout q (sp_sources p) = by_timeout p (sp_sources p)" "sp_sources q = sp_sources p"
        by (auto intro!: by_timeout_cong)
      then show ?thesis using assms(6) by simp
    qed
    show ?thesis
      unfolding q_def [symmetric] by (rule exI [of _ k]) (intro conjI k(1) k(2) [folded e] k(3) k(4) m b)
  qed
qed

text \<open>A sort for the applications: insertion, by the comparison.\<close>

fun insert_due :: "(source_ref \<Rightarrow> source_ref \<Rightarrow> int) \<Rightarrow> source_ref \<Rightarrow> source_ref list \<Rightarrow> source_ref list" where
  "insert_due cmp x [] = [x]"
| "insert_due cmp x (y # ys) = (if cmp x y \<le> 0 then x # y # ys else y # insert_due cmp x ys)"

definition due_sort :: ptr_array_sort where
  "due_sort cmp xs = foldr (insert_due cmp) xs []"

lemma mset_insert_due [simp]: "mset (insert_due cmp x ys) = add_mset x (mset ys)"
  by (induction ys) auto

lemma insert_due_sorted:
  assumes "\<And>a b. \<not> cmp a b \<le> 0 \<Longrightarrow> cmp b a \<le> 0" "\<And>a b c. cmp a b \<le> 0 \<Longrightarrow> cmp b c \<le> 0 \<Longrightarrow> cmp a c \<le> 0"
  shows "sorted_wrt (\<lambda>a b. cmp a b \<le> 0) ys \<Longrightarrow> sorted_wrt (\<lambda>a b. cmp a b \<le> 0) (insert_due cmp x ys)"
proof (induction ys)
  case (Cons y ys)
  have set: "set (insert_due cmp x ys) = insert x (set ys)"
    using mset_insert_due [of cmp x ys] by (metis set_mset_add_mset_insert set_mset_mset)
  show ?case
  proof (cases "cmp x y \<le> 0")
    case True
    then show ?thesis using Cons.prems assms(2) [OF True] by auto
  next
    case False
    then show ?thesis using Cons assms(1) [OF False] by (simp add: set)
  qed
qed simp

lemma due_sort_sorts: "sorts_times due_sort"
proof -
  have "mset (due_sort cmp xs) = mset xs" for cmp xs
    by (induction xs) (simp_all add: due_sort_def)
  moreover have "sorted_wrt (\<lambda>a b. timespec_compare (key a) (key b) \<le> 0)
      (due_sort (\<lambda>a b. timespec_compare (key a) (key b)) xs)" for key :: "source_ref \<Rightarrow> timespec" and xs
  proof (induction xs)
    case (Cons a xs)
    then show ?case
      unfolding due_sort_def foldr_Cons o_apply
      by (intro insert_due_sorted)
        (auto simp: timespec_compare_def split: if_splits)
  qed (simp add: due_sort_def)
  ultimately show ?thesis by (simp add: sorts_times_def)
qed

text \<open>A clock that goes on by a half second at each reading, and two sources of one second.\<close>

definition demo_clock :: clock where
  "demo_clock n = \<lparr>tv_sec = int (n div 2), tv_nsec = int (n mod 2) * 500000000\<rparr>"

lemma demo_clock_ok: "clock_ok demo_clock"
proof -
  have half: "ts_nanos (demo_clock n) = int n * 500000000" for n
  proof -
    have "int n = int (n div 2) * 2 + int (n mod 2)"
      by (metis div_mult_mod_eq of_nat_add of_nat_mult of_nat_numeral)
    then show ?thesis by (simp add: demo_clock_def ts_nanos_def)
  qed
  have "ts_normal (demo_clock n)" for n
    by (cases "n mod 2 = 0") (simp_all add: demo_clock_def ts_normal_def)
  with half show ?thesis by (simp add: clock_ok_def)
qed

definition demo_sampler :: sampler where
  "demo_sampler = (pka_source_simple_class_init True)\<lparr>sp_simple := (\<lambda>_. pka_source_simple_new_full True False)\<rparr>"

lemmas demo_sampler_defs = demo_sampler_def pka_source_simple_class_init_def pka_source_simple_new_full_def
  pka_source_simple_set_spawn_callback_def pka_source_simple_set_sample_callback_def
  pka_source_simple_set_sample_closure_def pka_source_simple_init_def

theorem sampling_turn_witness:
  "samples_of (sp_events (pka_source_simple_shared_worker demo_clock due_sort (demo_sampler\<lparr>sp_sources := [4, 2]\<rparr>))) =
     [(4, demo_clock 1), (2, demo_clock 3)]"
proof -
  let ?p = "demo_sampler\<lparr>sp_sources := [4, 2]\<rparr>"
  have ok: "by_timeout ?p (sp_sources ?p)" "\<forall>s \<in> set (sp_sources ?p). sampleable (sp_simple ?p s)"
    by (simp_all add: demo_sampler_defs sampleable_def ts_timeout_def freq_ok_def ts_normal_def ts_nanos_def
        by_timeout_def pka_source_simple_compare_func_def timespec_compare_def)
  have p: "sp_sources ?p = [4, 2]" "sp_reads ?p = 0" "samples_of (sp_events ?p) = []"
      "ts_nanos (sm_timeout (sp_simple ?p s)) = 0" "sp_worker ?p" "sp_running ?p" "distinct (sp_sources ?p)" for s
    by (simp_all add: demo_sampler_defs ts_nanos_def)
  obtain k where k: "k \<le> length [4, 2 :: source_ref]"
      "samples_of (sp_events (pka_source_simple_shared_worker demo_clock due_sort ?p)) =
        map (\<lambda>i. ([4, 2] ! i, demo_clock (0 + 2 * i + 1))) [0..<k]"
      "\<forall>s \<in> set (drop k [4, 2 :: source_ref]). ts_nanos (demo_clock (0 + 2 * k)) < 0"
    using sampling_turn [OF demo_clock_ok due_sort_sorts p(5,6,7) ok, unfolded p append_Nil] by blast
  have "k \<noteq> 0" "k \<noteq> 1"
    using k(3) by (auto simp: demo_clock_def ts_nanos_def)
  with k(1) have "k = 2" by simp
  then show ?thesis using k(2) by (simp add: upt_rec numeral_eq_Suc)
qed

end
