(* ===== verification/Agent_Progress.thy ===== *)
theory Agent_Progress
  imports Agent_Service
begin

text \<open>
  What happens in the end: a queued signal is emitted when the main loop has had as many turns as there
  were signals before it, whatever else happens meanwhile; shutting the agent down stops everything.
\<close>

section \<open>The queue only grows at its end\<close>

definition appending :: "world \<Rightarrow> world \<Rightarrow> bool" where
  "appending w w' \<longleftrightarrow> (\<exists>q. w_queue w' = w_queue w @ q)"

lemma appending_refl: "appending w w"
  by (simp add: appending_def)

lemma appending_trans: "appending w w' \<Longrightarrow> appending w' w'' \<Longrightarrow> appending w w''"
  by (auto simp: appending_def)

lemma appending_same: "w_queue w' = w_queue w \<Longrightarrow> appending w w'"
  by (simp add: appending_def)

lemma appending_from: "appending v x \<Longrightarrow> w_queue v = w_queue w \<Longrightarrow> appending w x"
  by (simp add: appending_def)

interpretation appending: subscriber_frame appending
proof unfold_locales
  fix w w' w''
  assume "appending w w'" "appending w' w''"
  then show "appending w w''" by (rule appending_trans)
qed (simp_all add: appending_def world_simps)

context source_notice
begin

lemma notify_appending: "appending w (notify_sources f c w)"
  unfolding notify_sources_def by (rule appending.fold) (simp add: appending_def notice_queue)

end

lemma quiet_appending: "quiet w w' \<Longrightarrow> appending w w'"
  by (auto simp: quiet_def appending_def)

lemma reset_appending: "appending w (reset_if_stopped c w)"
  using reset.notify_appending [of w c] by (simp add: reset_if_stopped_def appending_def world_simps)

lemma start_appending: "appending w (snd (pka_channel_start spawn tmp c ctx w))"
proof -
  obtain r w' where locked: "channel_start_locked spawn tmp c w = (r, w')"
    by (cases "channel_start_locked spawn tmp c w")
  have "appending (reset_if_stopped c w) w'"
    using locked
  proof (cases rule: start_locked_cases)
    case (failed info)
    then show ?thesis
      by (simp add: channel_spawn_failed [OF failed(3)] appending_same world_simps)
  next
    case (started info info' w1)
    have "appending (reset_if_stopped c w) w1"
      by (rule quiet_appending [OF channel_spawn_quiet [OF started(3)]])
    with started(5) show ?thesis by (simp add: appending_def world_simps)
  qed (simp_all add: appending_refl)
  with reset_appending [of w c] have w': "appending w w'"
    by (rule appending_trans)
  show ?thesis
  proof (cases r)
    case (Ok info)
    have "appending w (notify_sources (pka_source_notify_started info) c w')"
      by (rule appending_trans [OF w' started.notify_appending])
    with Ok locked show ?thesis by (simp add: pka_channel_start_def)
  qed (use w' locked in \<open>simp_all add: pka_channel_start_def\<close>)
qed

lemma stop_appending: "appending w (snd (pka_channel_stop c ctx w))"
proof -
  have "appending w (channel_kill c (notify_sources pka_source_notify_stopped c (upd_channel c f w)))" for f
    using stopped.notify_appending [of "upd_channel c f w" c] by (simp add: appending_def world_simps)
  then show ?thesis
    by (simp add: pka_channel_stop_def appending_refl split: pka_channel_state.split)
qed

lemma mute_appending:
  "appending w (snd (pka_channel_mute c ctx w))" "appending w (snd (pka_channel_unmute c ctx w))"
  by (auto simp: pka_channel_mute_def pka_channel_unmute_def appending_refl world_simps
      split: pka_channel_state.split intro: appending_from [OF muted.notify_appending]
      appending_from [OF unmuted.notify_appending])

lemma exited_appending: "appending w (pka_channel_inferior_exited pid status c w)"
  unfolding pka_channel_inferior_exited_def Let_def
  by (rule appending_from [OF stop_appending]) (simp add: world_simps)

lemma add_source_appending: "appending w (snd (pka_channel_add_source gt c ctx s w))"
  by (auto simp: pka_channel_add_source_def authorize_ioctl_def pka_context_is_authorized_def
      pka_source_set_channel_def appending_refl world_simps
      intro: appending_from [OF appending.source_added_handlers])

lemma source_stopped_appending: "appending w (pka_source_notify_stopped s w)"
  by (simp add: appending_def stopped.notice_queue)

lemmas appending_ops =
  start_appending stop_appending mute_appending exited_appending add_source_appending
  source_stopped_appending setters_quiet [THEN quiet_appending] appending.subscriber_ops

text \<open>
  What has been emitted and what waits, in one sequence: a step appends to it. Only a turn of the main
  loop moves a signal from the one part to the other.
\<close>

lemma step_fifo:
  assumes "agent_step gt y z"
  shows "\<exists>q. snd z @ w_queue (fst z) = (snd y @ w_queue (fst y)) @ q"
  using assms
proof (cases rule: agent_step.cases)
  case (step_emit w e w' em)
  then show ?thesis by (auto simp: pka_source_emit_def split: list.splits)
qed (use appending_ops in \<open>auto simp: appending_def\<close>)

lemma run_fifo:
  assumes "agent_run gt y z"
  shows "\<exists>q. snd z @ w_queue (fst z) = (snd y @ w_queue (fst y)) @ q"
  using assms
proof (induction rule: agent_run.induct)
  case (run_step x y z)
  then show ?case using step_fifo [OF run_step.hyps(2)] by force
qed simp

section \<open>A start reaches the sources\<close>

context source_notice
begin

lemma round_tells:
  assumes "\<And>x. y \<in> set (q x)"
  shows "s \<in> set ss \<Longrightarrow> (s, y) \<in> set (w_queue (foldl (\<lambda>w s. f s w) w ss))"
proof (induction ss arbitrary: w)
  case (Cons a ss)
  show ?case
  proof (cases "s = a")
    case True
    have "(s, y) \<in> set (w_queue (f a w))"
      using assms True by (auto simp: notice_queue)
    moreover have "appending (f a w) (foldl (\<lambda>w s. f s w) (f a w) ss)"
      by (rule appending.fold) (simp add: appending_def notice_queue)
    ultimately show ?thesis by (auto simp: appending_def)
  next
    case False
    with Cons show ?thesis by simp
  qed
qed simp

end

lemma start_tells:
  assumes start: "pka_channel_start spawn tmp c ctx w = (Ok (), w1)"
    and s: "s \<in> set (ch_sources (w_channels w c))"
  shows "\<exists>info. (s, Started info) \<in> set (w_queue w1)"
proof -
  obtain r w' where locked: "channel_start_locked spawn tmp c w = (r, w')"
    by (cases "channel_start_locked spawn tmp c w")
  from start locked obtain info where r: "r = Ok info"
    and w1: "w1 = notify_sources (pka_source_notify_started info) c w'"
    by (auto simp: pka_channel_start_def split: ans.splits)
  from locked r obtain i v where
    spawned: "channel_spawn spawn tmp c i (reset_if_stopped c w) = (Some info, v)"
    and w': "w' = upd_channel c (\<lambda>x. x\<lparr>ch_state := CHANNEL_RUNNING\<rparr>) v"
    by (cases rule: start_locked_cases) auto
  have "ch_sources (w_channels v c) = ch_sources (w_channels (reset_if_stopped c w) c)"
    using channel_spawn_quiet [OF spawned] by (simp add: quiet_def)
  then have "s \<in> set (ch_sources (w_channels w' c))"
    using s by (simp add: w' reset_channels world_simps)
  then have "(s, Started (pka_spawn_info_copy info)) \<in> set (w_queue w1)"
    unfolding w1 notify_sources_def by (rule started.round_tells [rotated]) simp
  then show ?thesis ..
qed

lemma run_before: "agent_step gt x y \<Longrightarrow> agent_run gt y z \<Longrightarrow> agent_run gt x z"
  by (rotate_tac, induction rule: agent_run.induct) (auto intro: agent_run.intros)

lemma drain_run: "agent_run gt (w, em) (w\<lparr>w_queue := []\<rparr>, em @ w_queue w)"
proof (induction "w_queue w" arbitrary: w em)
  case Nil
  then have w: "w\<lparr>w_queue := []\<rparr> = w" by (cases w) simp
  show ?case by (subst w) (simp add: run_refl flip: Nil.hyps)
next
  case (Cons e q)
  have "agent_step gt (w, em) (w\<lparr>w_queue := q\<rparr>, em @ [e])"
    by (rule step_emit) (simp add: pka_source_emit_def flip: Cons.hyps(2))
  moreover have "agent_run gt (w\<lparr>w_queue := q\<rparr>, em @ [e]) (w\<lparr>w_queue := []\<rparr>, em @ w_queue w)"
    using Cons.hyps(1) [of "w\<lparr>w_queue := q\<rparr>" "em @ [e]"] by (simp flip: Cons.hyps(2))
  ultimately show ?case by (rule run_before)
qed

text \<open>
  C15: when a channel has been started, the main loop alone can empty the queue, and in every run, once
  the main loop has had as many turns as there were signals in the queue, each source of the channel has
  been told that it started, whatever clients did meanwhile.
\<close>

theorem start_reaches_sources:
  assumes "pka_channel_start spawn tmp c ctx w = (Ok (), w1)"
    and "s \<in> set (ch_sources (w_channels w c))"
  shows "agent_run gt (w1, em) (w1\<lparr>w_queue := []\<rparr>, em @ w_queue w1)
    \<and> (\<forall>w2 em2. agent_run gt (w1, em) (w2, em2) \<and> length em + length (w_queue w1) \<le> length em2 \<longrightarrow>
         (\<exists>info. (s, Started info) \<in> set (drop (length em) em2)))"
proof (intro conjI allI impI drain_run)
  fix w2 em2
  assume run: "agent_run gt (w1, em) (w2, em2) \<and> length em + length (w_queue w1) \<le> length em2"
  then obtain q where "em2 @ w_queue w2 = (em @ w_queue w1) @ q"
    using run_fifo by force
  then have "take (length em + length (w_queue w1)) (em2 @ w_queue w2) = em @ w_queue w1"
    by simp
  with run have "take (length em + length (w_queue w1)) em2 = em @ w_queue w1"
    by simp
  then have "em2 = (em @ w_queue w1) @ drop (length em + length (w_queue w1)) em2"
    by (metis append_take_drop_id)
  then have "set (w_queue w1) \<subseteq> set (drop (length em) em2)"
    by (metis append_assoc append_eq_conv_conj set_append Un_upper1)
  with start_tells [OF assms] show "\<exists>info. (s, Started info) \<in> set (drop (length em) em2)"
    by blast
qed

lemma demo_start: "pka_channel_start demo_spawn [47] 0 pka_context_default demo_ready = (Ok (), demo_running)"
proof -
  have "fst (pka_channel_start demo_spawn [47] 0 pka_context_default demo_ready) = Ok ()"
    by (simp add: pka_channel_start_def channel_start_locked_def ensure_ready_def
        reset_if_stopped_def demo_ready_channel pka_channel_init_def pka_channel_init_spawn_info_locked_def
        pka_source_modify_spawn_info_def pka_source_init_def channel_spawn_def demo_spawn_def world_simps
        Let_def)
  then show ?thesis by (simp add: demo_running_def prod_eq_iff)
qed

theorem start_reaches_sources_witness:
  "\<exists>info. (0, Started info) \<in> set (w_queue demo_running)"
proof -
  have "0 \<in> set (ch_sources (w_channels demo_ready 0))"
    by (simp add: demo_ready_channel)
  note reach = start_reaches_sources [OF demo_start this, where gt = glib_gtypes and em = "[]"]
  show ?thesis
    using conjunct2 [OF reach] conjunct1 [OF reach] by force
qed

section \<open>Shutting down\<close>

lemma release_frame:
  "w_channels (foldl (\<lambda>w r. pka_subscription_unref r (snd (pka_subscription_mute r ctx b w))) w rs) = w_channels w"
  "w_sources (foldl (\<lambda>w r. pka_subscription_unref r (snd (pka_subscription_mute r ctx b w))) w rs) = w_sources w"
  "w_queue (foldl (\<lambda>w r. pka_subscription_unref r (snd (pka_subscription_mute r ctx b w))) w rs) = w_queue w"
  "w_killed (foldl (\<lambda>w r. pka_subscription_unref r (snd (pka_subscription_mute r ctx b w))) w rs) = w_killed w"
  by (induction rs arbitrary: w) (simp_all add: subscription_ops Let_def world_simps)

lemma stops_inv:
  "agent_inv (w, em) \<Longrightarrow> agent_inv (foldl (\<lambda>w c. snd (pka_channel_stop c ctx w)) w cs, em)"
  by (induction cs arbitrary: w) (simp_all add: agent_inv_stop)

lemma stops_channels:
  "w_channels (foldl (\<lambda>w c. snd (pka_channel_stop c ctx w)) w cs) d =
     (if d \<in> set cs \<and> live_state (ch_state (w_channels w d))
      then (w_channels w d)\<lparr>ch_state := CHANNEL_STOPPED\<rparr> else w_channels w d)"
  by (induction cs arbitrary: w) (auto simp: stop_channels live_state_def)

definition owns_process :: "pka_channel \<Rightarrow> bool" where
  "owns_process x \<longleftrightarrow> live_state (ch_state x) \<and> ch_kill_pid x \<and> \<not> ch_pid_set x \<and> ch_pid x \<noteq> 0"

lemma stop_kills:
  "w_killed (snd (pka_channel_stop c ctx w)) = w_killed w @
     (if owns_process (w_channels w c) then [ch_pid (w_channels w c)] else [])"
  by (simp add: pka_channel_stop_def owns_process_def live_state_def world_simps split: pka_channel_state.split)

lemma stops_killed:
  "set (w_killed (foldl (\<lambda>w c. snd (pka_channel_stop c ctx w)) w cs)) =
     set (w_killed w) \<union> {ch_pid (w_channels w c) | c. c \<in> set cs \<and> owns_process (w_channels w c)}"
proof (induction cs arbitrary: w)
  case (Cons a cs)
  have "owns_process (w_channels (snd (pka_channel_stop a ctx w)) c) \<longleftrightarrow> owns_process (w_channels w c) \<and> c \<noteq> a"
    and "ch_pid (w_channels (snd (pka_channel_stop a ctx w)) c) = ch_pid (w_channels w c)" for c
    by (auto simp: stop_channels owns_process_def live_state_def)
  then show ?case
    using Cons.IH [of "snd (pka_channel_stop a ctx w)"] by (auto simp: stop_kills)
qed simp

text \<open>
  C16: when every channel that runs is registered, shutting the agent down leaves no channel running or
  muted and no source running, every source that was told to start has been told (or will be, by the
  main loop) to stop, exactly the processes are killed that the agent spawned for the running channels
  and that clients did not ask to spare, and both registries are empty.
\<close>

theorem shutdown_stops_everything:
  assumes "agent_inv (ag_world ag, em)"
    and "\<And>c. live_state (ch_state (w_channels (ag_world ag) c)) \<Longrightarrow> c \<in> set (ag_channels ag)"
  shows "ag_channels (pka_manager_shutdown ag) = [] \<and> ag_subscriptions (pka_manager_shutdown ag) = []
    \<and> (\<forall>c. \<not> live_state (ch_state (w_channels (ag_world (pka_manager_shutdown ag)) c)))
    \<and> (\<forall>s. \<not> so_running (w_sources (ag_world (pka_manager_shutdown ag)) s)
         \<and> life (sigs_of s (em @ w_queue (ag_world (pka_manager_shutdown ag)))) = Some False)
    \<and> set (w_killed (ag_world (pka_manager_shutdown ag))) = set (w_killed (ag_world ag)) \<union>
         {ch_pid (w_channels (ag_world ag) c) | c. owns_process (w_channels (ag_world ag) c)}"
proof -
  define w where "w = foldl (\<lambda>w r. pka_subscription_unref r
      (snd (pka_subscription_mute r pka_context_default False w))) (ag_world ag) (rev (ag_subscriptions ag))"
  define w' where "w' = foldl (\<lambda>w c. snd (pka_channel_stop c pka_context_default w)) w (rev (ag_channels ag))"
  have down: "ag_world (pka_manager_shutdown ag) = w'" "ag_channels (pka_manager_shutdown ag) = []"
    "ag_subscriptions (pka_manager_shutdown ag) = []"
    by (simp_all add: pka_manager_shutdown_def on_world_def w'_def w_def)
  have same: "w_channels w = w_channels (ag_world ag)" "w_sources w = w_sources (ag_world ag)"
    "w_queue w = w_queue (ag_world ag)" "w_killed w = w_killed (ag_world ag)"
    by (simp_all add: w_def release_frame)
  have inv: "agent_inv (w', em)"
    unfolding w'_def by (rule stops_inv) (use assms(1) in \<open>simp add: agent_inv_def same\<close>)
  have after: "w_channels w' c =
      (if c \<in> set (ag_channels ag) \<and> live_state (ch_state (w_channels (ag_world ag) c))
       then (w_channels (ag_world ag) c)\<lparr>ch_state := CHANNEL_STOPPED\<rparr> else w_channels (ag_world ag) c)" for c
    unfolding w'_def stops_channels same by simp
  have idle: "\<not> live_state (ch_state (w_channels w' c))" for c
  proof (cases "live_state (ch_state (w_channels (ag_world ag) c))")
    case True
    then have "ch_state (w_channels w' c) = CHANNEL_STOPPED"
      using assms(2) by (simp add: after)
    then show ?thesis by (simp add: live_state_def)
  next
    case False
    then show ?thesis by (simp add: after)
  qed
  have still: "\<not> so_running (w_sources w' s)" for s
    using inv idle by (auto simp: agent_inv_def)
  have "set (w_killed w') = set (w_killed (ag_world ag)) \<union>
      {ch_pid (w_channels (ag_world ag) c) | c. owns_process (w_channels (ag_world ag) c)}"
    using assms(2) by (auto simp: w'_def stops_killed same owns_process_def)
  moreover have "life (sigs_of s (em @ w_queue w')) = Some False" for s
    using agent_inv_life [OF inv, of s] still by simp
  ultimately show ?thesis
    using down idle still by simp
qed

theorem shutdown_stops_everything_witness:
  "77 \<in> set (w_killed (ag_world (pka_manager_shutdown
     (demo_agent\<lparr>ag_world := demo_running, ag_channels := [0]\<rparr>))))"
proof -
  let ?ag = "demo_agent\<lparr>ag_world := demo_running, ag_channels := [0]\<rparr>"
  have inv: "agent_inv (ag_world ?ag, [])"
    using agent_inv_run [OF demo_run(2)] agent_inv_initial [OF demo_initial] by simp
  have ready: "ch_state (w_channels demo_ready c) = CHANNEL_READY" for c
    by (simp add: demo_ready_def demo_world_def pka_channel_add_source_def authorize_ioctl_def
        pka_context_is_authorized_def pka_source_set_channel_def pka_source_init_def pka_channel_init_def
        emit_source_added_def channel_setters world_simps)
  have "w_channels demo_running c = w_channels demo_ready c" if "c \<noteq> 0" for c
    using start_others [OF that] by (simp add: demo_running_def)
  then have "c \<in> set (ag_channels ?ag)" if "live_state (ch_state (w_channels (ag_world ?ag) c))" for c
    using that ready by (cases "c = 0") (auto simp: live_state_def)
  note stopped = shutdown_stops_everything [OF inv this]
  have "owns_process (w_channels demo_running 0)" "ch_pid (w_channels demo_running 0) = 77"
    by (simp_all add: demo_running_channel demo_ready_channel pka_channel_init_def owns_process_def live_state_def)
  then have "77 \<in> {ch_pid (w_channels (ag_world ?ag) c) | c. owns_process (w_channels (ag_world ?ag) c)}"
    by (intro CollectI exI [of _ 0]) simp
  moreover have "set (w_killed (ag_world (pka_manager_shutdown ?ag))) = set (w_killed (ag_world ?ag)) \<union>
      {ch_pid (w_channels (ag_world ?ag) c) | c. owns_process (w_channels (ag_world ?ag) c)}"
    using stopped by blast
  ultimately show ?thesis by blast
qed

end
