(* ===== verification/Sampler_Runs.thy ===== *)
theory Sampler_Runs
  imports Sampler_Properties Agent_Progress
begin

text \<open>
  Sources that are sampled, under any notices: how often a source is sampled, and what the mutex that is not given
  back and the array of sources do to sources with a thread of their own and to sources that are muted for two
  reasons.
\<close>

section \<open>Runs\<close>

text \<open>What may happen to a sampler: a notice, a change of a frequency, a turn of a thread.\<close>

datatype sampler_input =
    Notice "source_ref \<times> source_signal" bool
  | Set_Frequency source_ref g_time_val
  | Shared_Turn
  | Own_Turn source_ref

definition sampler_step :: "clock \<Rightarrow> ptr_array_sort \<Rightarrow> sampler_input \<Rightarrow> sampler \<Rightarrow> sampler" where
  "sampler_step clock sort_by input p =
     (case input of
        Notice notice created \<Rightarrow> simple_notice sort_by created notice p
      | Set_Frequency s frequency \<Rightarrow> upd_simple s (pka_source_simple_set_frequency frequency) p
      | Shared_Turn \<Rightarrow> pka_source_simple_shared_worker clock sort_by p
      | Own_Turn s \<Rightarrow>
          if sm_thread (sp_simple p s) then
            (case pka_source_simple_worker clock s p of None \<Rightarrow> p | Some p \<Rightarrow> p)
          else p)"

definition sampler_run :: "clock \<Rightarrow> ptr_array_sort \<Rightarrow> sampler_input list \<Rightarrow> sampler \<Rightarrow> sampler" where
  "sampler_run clock sort_by = fold (sampler_step clock sort_by)"

text \<open>Before the first notice: sources that were made and set up.\<close>

definition sampler_start :: "sampler \<Rightarrow> bool" where
  "sampler_start p \<longleftrightarrow> sp_sources p = [] \<and> sp_main p = Main_Runs \<and> sp_events p = [] \<and>
     (\<forall>s. sm_timeout (sp_simple p s) = \<lparr>tv_sec = 0, tv_nsec = 0\<rparr> \<and> freq_ok (sp_simple p s) \<and>
        \<not> sm_thread (sp_simple p s) \<and> \<not> sm_locked (sp_simple p s))"

text \<open>
  Samples of a source are at least its period apart, the next one included, and a source with a thread has its
  mutex locked.
\<close>

definition apart :: "(source_ref \<Rightarrow> timespec) \<Rightarrow> (source_ref \<times> timespec) list \<Rightarrow> bool" where
  "apart freq = sorted_wrt (\<lambda>a b. fst a = fst b \<longrightarrow> ts_nanos (snd a) + ts_nanos (freq (fst a)) \<le> ts_nanos (snd b))"

definition sampler_inv :: "(source_ref \<Rightarrow> timespec) \<Rightarrow> sampler \<Rightarrow> bool" where
  "sampler_inv freq p \<longleftrightarrow>
     (\<forall>s. ts_timeout (sm_timeout (sp_simple p s)) \<and> sm_freq (sp_simple p s) = freq s \<and>
        ts_normal (freq s) \<and> 0 \<le> ts_nanos (freq s) \<and> (sm_thread (sp_simple p s) \<longrightarrow> sm_locked (sp_simple p s))) \<and>
     (\<forall>s t. (s, t) \<in> set (samples_of (sp_events p)) \<longrightarrow>
        ts_nanos t + ts_nanos (freq s) \<le> ts_nanos (sm_timeout (sp_simple p s))) \<and>
     apart freq (samples_of (sp_events p))"

lemma sampler_inv_same:
  assumes "sampler_inv freq p"
    and "\<And>s. sm_timeout (sp_simple q s) = sm_timeout (sp_simple p s) \<and> sm_freq (sp_simple q s) = sm_freq (sp_simple p s) \<and>
      (sm_thread (sp_simple q s) \<longrightarrow> sm_thread (sp_simple p s) \<and> (sm_locked (sp_simple p s) \<longrightarrow> sm_locked (sp_simple q s)) \<or>
         sm_locked (sp_simple q s))"
    and "samples_of (sp_events q) = samples_of (sp_events p)"
  shows "sampler_inv freq q"
  using assms unfolding sampler_inv_def by simp blast

lemma sampler_inv_invoke:
  assumes "sampler_inv freq p" "clock_ok clock" "ts_nanos (sm_timeout (sp_simple p s)) \<le> ts_nanos (clock n)" "n \<le> sp_reads p"
  shows "sampler_inv freq (pka_source_simple_invoke clock s p)"
proof -
  let ?t = "clock (sp_reads p)" and ?es = "samples_of (sp_events p)"
  have "ts_nanos (clock n) \<le> ts_nanos ?t" "ts_normal ?t"
    using assms(2,4) by (simp_all add: clock_ok_def)
  then have due: "ts_nanos (sm_timeout (sp_simple p s)) \<le> ts_nanos ?t" using assms(3) by simp
  have freq: "sm_freq (sp_simple p s) = freq s" "0 \<le> ts_nanos (freq s)" "ts_timeout (timespec_add ?t (freq s))"
    using assms(1) \<open>ts_normal ?t\<close> by (simp_all add: sampler_inv_def timespec_add_timeout)
  have before: "ts_nanos u + ts_nanos (freq s) \<le> ts_nanos ?t" if "(s, u) \<in> set ?es" for u
    using assms(1) that due by (force simp: sampler_inv_def)
  have "apart freq (?es @ (if sm_sample (sp_simple p s) then [(s, ?t)] else []))"
    using assms(1) before by (auto simp: sampler_inv_def apart_def sorted_wrt_append)
  moreover have "ts_nanos u + ts_nanos (freq a) \<le> ts_nanos (sm_timeout (sp_simple (pka_source_simple_invoke clock s p) a))"
    if "(a, u) \<in> set (samples_of (sp_events (pka_source_simple_invoke clock s p)))" for a u
  proof (cases "a = s")
    case True
    with that before have "ts_nanos u \<le> ts_nanos ?t"
      using freq(2) by (fastforce split: if_splits)
    with True freq(1) show ?thesis by simp
  next
    case False
    with that assms(1) show ?thesis by (auto simp: sampler_inv_def split: if_splits)
  qed
  ultimately show ?thesis
    using assms(1) freq by (simp add: sampler_inv_def)
qed

lemma sampler_inv_scan:
  assumes "sampler_inv freq p" "clock_ok clock"
  shows "sampler_inv freq (snd (scan_sources clock ss d p))"
  using assms(1)
proof (induction ss arbitrary: d p)
  case (Cons s ss)
  let ?q = "p\<lparr>sp_reads := sp_reads p + 1\<rparr>"
  have q: "sampler_inv freq ?q" using Cons.prems by (simp add: sampler_inv_def)
  show ?case
  proof (cases "0 \<le> timespec_compare (clock (sp_reads p)) (sm_timeout (sp_simple p s))")
    case True
    then have "ts_nanos (sm_timeout (sp_simple ?q s)) \<le> ts_nanos (clock (sp_reads p))"
      using ready_iff Cons.prems assms(2) by (simp add: sampler_inv_def clock_ok_def)
    from Cons.IH [OF sampler_inv_invoke [OF q assms(2) this]] True show ?thesis
      by (simp add: is_ready_eq)
  qed (use q in \<open>simp add: is_ready_eq\<close>)
qed simp

lemma add_to_shared_simps [simp]:
  "sp_simple (pka_source_simple_add_to_shared sort_by s p) = sp_simple p"
  "sp_events (pka_source_simple_add_to_shared sort_by s p) = sp_events p"
  "sp_main (pka_source_simple_add_to_shared sort_by s p) = sp_main p"
  by (simp_all add: pka_source_simple_add_to_shared_def)

lemma remove_from_shared_simps [simp]:
  "sp_simple (pka_source_simple_remove_from_shared s p) = (sp_simple p)(s := sp_simple p s\<lparr>sm_running := False\<rparr>)"
  "sp_sources (pka_source_simple_remove_from_shared s p) = remove1 s (sp_sources p)"
  "sp_events (pka_source_simple_remove_from_shared s p) = sp_events p @ [Cleanup s]"
  "sp_main (pka_source_simple_remove_from_shared s p) = sp_main p"
  by (simp_all add: pka_source_simple_remove_from_shared_def)

lemmas notice_defs = simple_notice_def with_mutex_def pka_source_simple_started_def pka_source_simple_stopped_def
  pka_source_simple_muted_def pka_source_simple_unmuted_def pka_source_simple_reset_def Let_def

lemma sampler_inv_notice:
  assumes "sampler_inv freq p"
  shows "sampler_inv freq (simple_notice sort_by created notice p)"
  by (rule sampler_inv_same [OF assms])
    (auto simp: notice_defs split: prod.splits source_signal.splits)

lemma by_timeout_notice:
  assumes "sorts_times sort_by" "by_timeout p (sp_sources p)"
  shows "by_timeout (simple_notice sort_by created notice p) (sp_sources (simple_notice sort_by created notice p))"
proof -
  let ?q = "simple_notice sort_by created notice p"
  have same: "by_timeout ?q ss = by_timeout p ss" for ss
    by (rule by_timeout_cong) (auto simp: notice_defs split: prod.splits source_signal.splits)
  have added: "by_timeout p (sp_sources (pka_source_simple_add_to_shared sort_by s q))"
    if "\<And>a. sm_timeout (sp_simple q a) = sm_timeout (sp_simple p a)" for s q
    using sorts_compare(2) [OF assms(1), of q] that
    by (simp add: pka_source_simple_add_to_shared_def by_timeout_cong [of _ q p])
  have "by_timeout p (sp_sources ?q)"
    using assms(2) by (auto simp: notice_defs by_timeout_remove1 intro!: added split: prod.splits source_signal.splits)
  then show ?thesis by (simp add: same)
qed

lemma by_timeout_worker:
  assumes "sorts_times sort_by" "by_timeout p (sp_sources p)"
  shows "by_timeout (pka_source_simple_shared_worker clock sort_by p)
    (sp_sources (pka_source_simple_shared_worker clock sort_by p))"
proof -
  obtain d q where r: "scan_sources clock (sp_sources p) False p = (d, q)" by fastforce
  have q: "sp_sources q = sp_sources p" using scan_sources_frame(1) [of clock "sp_sources p" False p] r by simp
  have clean: "by_timeout q (sp_sources p)" if "\<not> d"
    using that scan_clean [of clock "sp_sources p" p] r assms(2) by_timeout_cong [of "sp_sources p" q p] by auto
  have dirty: "by_timeout (q\<lparr>sp_sources := ss\<rparr>) ss" if "by_timeout q ss" for ss
    using that by_timeout_cong [of ss "q\<lparr>sp_sources := ss\<rparr>" q] by simp
  have stop: "by_timeout (p\<lparr>sp_worker := False\<rparr>) (sp_sources p)"
    using assms(2) by_timeout_cong [of "sp_sources p" "p\<lparr>sp_worker := False\<rparr>" p] by simp
  show ?thesis
    using r q clean assms(2) stop dirty [OF sorts_compare(2) [OF assms(1)]]
    by (simp add: pka_source_simple_shared_worker_def)
qed

lemma sampler_inv_worker:
  assumes "sampler_inv freq p" "clock_ok clock"
  shows "sampler_inv freq (pka_source_simple_shared_worker clock sort_by p)"
proof -
  obtain d q where r: "scan_sources clock (sp_sources p) False p = (d, q)" by fastforce
  have q: "sampler_inv freq q"
    using sampler_inv_scan [OF assms, of "sp_sources p" False] r by simp
  have "sampler_inv freq (p\<lparr>sp_worker := False\<rparr>)" "sampler_inv freq (q\<lparr>sp_sources := ss\<rparr>)" for ss
    using assms(1) q by (auto intro: sampler_inv_same)
  then show ?thesis
    using r q assms(1) by (simp add: pka_source_simple_shared_worker_def)
qed

text \<open>A source with a thread never gets a turn: the thread waits for the mutex.\<close>

lemma own_turn_nothing: "sampler_inv freq p \<Longrightarrow> sampler_step clock sort_by (Own_Turn s) p = p"
  by (simp add: sampler_step_def sampler_inv_def pka_source_simple_worker_def)

definition keeps_frequency :: "sampler_input \<Rightarrow> bool" where
  "keeps_frequency i \<longleftrightarrow> (case i of Set_Frequency s f \<Rightarrow> False | _ \<Rightarrow> True)"

lemma sampler_inv_step:
  assumes "sampler_inv freq p" "clock_ok clock" "keeps_frequency i"
  shows "sampler_inv freq (sampler_step clock sort_by i p)"
  using assms own_turn_nothing [OF assms(1)]
  by (cases i) (simp_all add: sampler_step_def [of _ _ "Notice n c" for n c] sampler_step_def [of _ _ Shared_Turn]
      keeps_frequency_def sampler_inv_notice sampler_inv_worker)

lemma by_timeout_step:
  assumes "sorts_times sort_by" "by_timeout p (sp_sources p)" "sampler_inv freq p"
  shows "by_timeout (sampler_step clock sort_by i p) (sp_sources (sampler_step clock sort_by i p))"
proof (cases i)
  case (Set_Frequency s f)
  then show ?thesis
    using assms(2) by_timeout_cong [of "sp_sources p" "sampler_step clock sort_by i p" p]
    by (simp add: sampler_step_def pka_source_simple_set_frequency_def)
qed (use assms own_turn_nothing [OF assms(3)] in
    \<open>simp_all add: sampler_step_def [of _ _ "Notice n c" for n c] sampler_step_def [of _ _ Shared_Turn]
      by_timeout_notice by_timeout_worker\<close>)

lemma sampler_inv_run:
  assumes "clock_ok clock" "sorts_times sort_by" "list_all keeps_frequency inputs"
  shows "sampler_inv freq p \<Longrightarrow> by_timeout p (sp_sources p) \<Longrightarrow>
    sampler_inv freq (sampler_run clock sort_by inputs p) \<and>
    by_timeout (sampler_run clock sort_by inputs p) (sp_sources (sampler_run clock sort_by inputs p))"
  using assms(3)
proof (induction inputs arbitrary: p)
  case (Cons i inputs)
  then show ?case
    using sampler_inv_step [OF Cons.prems(1) assms(1)] by_timeout_step [OF assms(2) Cons.prems(2,1)]
    by (simp add: sampler_run_def)
qed (simp add: sampler_run_def)

lemma sampler_inv_start: "sampler_start p \<Longrightarrow> sampler_inv (\<lambda>s. sm_freq (sp_simple p s)) p"
  by (simp add: sampler_start_def sampler_inv_def freq_ok_def ts_timeout_def apart_def)

text \<open>
  C30: a source is never sampled too often. Whatever the main loop tells the sources, in whatever order and however
  often the shared thread wakes, two samples of a source are at least its frequency's period apart, and the array
  stays in the order of the timeouts. (As long as nobody changes a frequency, with a clock that does not go back.)
\<close>

theorem sampling_rate:
  assumes "clock_ok clock" "sorts_times sort_by" "sampler_start p" "list_all keeps_frequency inputs"
  shows "apart (\<lambda>s. sm_freq (sp_simple p s)) (samples_of (sp_events (sampler_run clock sort_by inputs p))) \<and>
    by_timeout (sampler_run clock sort_by inputs p) (sp_sources (sampler_run clock sort_by inputs p))"
proof -
  have "by_timeout p (sp_sources p)" using assms(3) by (simp add: sampler_start_def by_timeout_def)
  from sampler_inv_run [OF assms(1,2,4) sampler_inv_start [OF assms(3)] this]
  show ?thesis by (auto simp: sampler_inv_def)
qed

lemma demo_sampler_start: "sampler_start demo_sampler"
  by (simp add: demo_sampler_defs sampler_start_def freq_ok_def ts_normal_def ts_nanos_def)

definition demo_inputs :: "sampler_input list" where
  "demo_inputs =
     [Notice (2, Started (pka_spawn_info_copy demo_info)) True, Shared_Turn, Shared_Turn, Shared_Turn, Shared_Turn]"

theorem sampling_rate_witness:
  "apart (\<lambda>s. sm_freq (sp_simple demo_sampler s))
     (samples_of (sp_events (sampler_run demo_clock due_sort demo_inputs demo_sampler))) \<and>
   samples_of (sp_events (sampler_run demo_clock due_sort demo_inputs demo_sampler)) =
     [(2, \<lparr>tv_sec = 0, tv_nsec = 500000000\<rparr>), (2, \<lparr>tv_sec = 2, tv_nsec = 0\<rparr>)]"
proof -
  have "list_all keeps_frequency demo_inputs" by (simp add: demo_inputs_def keeps_frequency_def)
  from sampling_rate [OF demo_clock_ok due_sort_sorts demo_sampler_start this]
  have "apart (\<lambda>s. sm_freq (sp_simple demo_sampler s))
     (samples_of (sp_events (sampler_run demo_clock due_sort demo_inputs demo_sampler)))" by simp
  moreover have "samples_of (sp_events (sampler_run demo_clock due_sort demo_inputs demo_sampler)) =
     [(2, \<lparr>tv_sec = 0, tv_nsec = 500000000\<rparr>), (2, \<lparr>tv_sec = 2, tv_nsec = 0\<rparr>)]"
    by (simp add: sampler_run_def demo_inputs_def sampler_step_def notice_defs pka_source_simple_add_to_shared_def
        pka_source_simple_shared_worker_def is_ready_eq due_sort_def demo_clock_def timespec_compare_def
        demo_sampler_defs timespec_add_def G_NSEC_PER_SEC_def)
  ultimately show ?thesis by simp
qed

section \<open>A thread of its own\<close>

text \<open>What happened to a source.\<close>

definition event_source :: "sampler_event \<Rightarrow> source_ref" where
  "event_source e = (case e of Sampled s t \<Rightarrow> s | Spawn_Called s info \<Rightarrow> s | Cleanup s \<Rightarrow> s)"

definition events_of :: "source_ref \<Rightarrow> sampler \<Rightarrow> sampler_event list" where
  "events_of s p = filter (\<lambda>e. event_source e = s) (sp_events p)"

text \<open>A source whose mutex was not given back.\<close>

definition stuck :: "source_ref \<Rightarrow> sampler \<Rightarrow> bool" where
  "stuck s p \<longleftrightarrow> sm_locked (sp_simple p s) \<and> sm_dedicated (sp_simple p s) \<and> s \<notin> set (sp_sources p)"

lemma stuck_scan:
  "s \<notin> set ss \<Longrightarrow> sp_simple (snd (scan_sources clock ss d p)) s = sp_simple p s \<and>
     events_of s (snd (scan_sources clock ss d p)) = events_of s p"
  by (induction ss arbitrary: d p)
    (auto simp: is_ready_eq events_of_def event_source_def pka_source_simple_invoke_def
      pka_source_simple_update_def clock_gettime_def)

lemma stuck_worker:
  fixes clock :: clock
  assumes "stuck s p" "sorts_times sort_by"
  defines "q \<equiv> pka_source_simple_shared_worker clock sort_by p"
  shows "stuck s q \<and> events_of s q = events_of s p \<and> sp_main q = sp_main p"
proof -
  obtain d r where r: "scan_sources clock (sp_sources p) False p = (d, r)" by fastforce
  have "sp_simple r s = sp_simple p s" "events_of s r = events_of s p" "sp_sources r = sp_sources p" "sp_main r = sp_main p"
    using stuck_scan [of s "sp_sources p" clock False p] scan_sources_frame [of clock "sp_sources p" False p] r assms(1)
    by (simp_all add: stuck_def)
  with r assms(1) sorts_compare_set [OF assms(2)] show ?thesis
    by (simp add: q_def pka_source_simple_shared_worker_def stuck_def events_of_def)
qed

lemma stuck_notice:
  fixes n :: "source_ref \<times> source_signal" and created :: bool
  assumes "stuck s p" "sorts_times sort_by"
  defines "q \<equiv> simple_notice sort_by created n p"
  shows "stuck s q \<and> events_of s q = events_of s p \<and>
    (sp_main q = Main_Runs \<longrightarrow> sp_main p = Main_Runs \<and> (fst n = s \<longrightarrow> snd n = Reset))"
proof (cases "sp_main p = Main_Runs")
  case True
  obtain a sig where n: "n = (a, sig)" by fastforce
  show ?thesis
  proof (cases "a = s")
    case same: True
    with True n assms(1) show ?thesis
      by (cases sig) (simp_all add: q_def notice_defs stuck_def events_of_def)
  next
    case False
    with True n assms(1) sorts_compare_set [OF assms(2)] show ?thesis
      by (cases sig) (auto simp: q_def notice_defs stuck_def events_of_def event_source_def
          pka_source_simple_add_to_shared_def dest: notin_set_remove1)
  qed
qed (use assms(1) in \<open>simp add: q_def simple_notice_def\<close>)

lemma stuck_step:
  fixes clock :: clock and i :: sampler_input
  assumes "stuck s p" "sorts_times sort_by"
  defines "q \<equiv> sampler_step clock sort_by i p"
  shows "stuck s q \<and> events_of s q = events_of s p \<and> (sp_main q = Main_Runs \<longrightarrow> sp_main p = Main_Runs)"
proof (cases i)
  case (Notice n created)
  then show ?thesis using stuck_notice [OF assms(1,2)] by (simp add: q_def sampler_step_def)
next
  case (Set_Frequency a f)
  then show ?thesis
    using assms(1) by (auto simp: q_def sampler_step_def stuck_def events_of_def
        pka_source_simple_set_frequency_def)
next
  case Shared_Turn
  then show ?thesis using stuck_worker [OF assms(1,2)] by (simp add: q_def sampler_step_def)
next
  case (Own_Turn a)
  show ?thesis
  proof (cases "a = s")
    case False
    with Own_Turn assms(1) show ?thesis
      by (auto simp: q_def sampler_step_def pka_source_simple_worker_def stuck_def events_of_def event_source_def
          pka_source_simple_invoke_def pka_source_simple_update_def clock_gettime_def)
  qed (use Own_Turn assms(1) in \<open>simp add: q_def sampler_step_def pka_source_simple_worker_def stuck_def\<close>)
qed

lemma stuck_run:
  assumes "sorts_times sort_by"
  shows "stuck s p \<Longrightarrow> stuck s (sampler_run clock sort_by inputs p) \<and>
    events_of s (sampler_run clock sort_by inputs p) = events_of s p"
proof (induction inputs arbitrary: p)
  case (Cons i inputs)
  then show ?case using stuck_step [OF Cons.prems assms] by (simp add: sampler_run_def)
qed (simp add: sampler_run_def)

text \<open>
  A source with a thread of its own is never sampled. \<open>pka_source_simple_started\<close> returns with the mutex of the
  source locked, for which the new thread waits: nothing that can happen afterwards gives a sample of the source or its
  cleanup, and the notice that it is stopped (or muted, or started again) stops the main loop itself for ever, and
  with it the agent.
\<close>

theorem dedicated_source_stuck:
  fixes clock :: clock and inputs later :: "sampler_input list" and created :: bool and info :: pka_spawn_info
  assumes "sorts_times sort_by" "sp_main p = Main_Runs" "s \<notin> set (sp_sources p)"
    and "sm_dedicated (sp_simple p s)" "\<not> sm_running (sp_simple p s)" "\<not> sm_thread (sp_simple p s)"
    and "\<not> sm_locked (sp_simple p s)" "sig \<noteq> Reset"
  defines "q \<equiv> sampler_run clock sort_by (Notice (s, Started info) True # inputs) p"
  defines "e \<equiv> sampler_run clock sort_by (Notice (s, sig) created # later) q"
  shows "events_of s q = events_of s p @ (if sm_spawn (sp_simple p s) then [Spawn_Called s info] else []) \<and>
    events_of s e = events_of s q \<and> sp_main e \<noteq> Main_Runs"
proof -
  define started where "started = simple_notice sort_by True (s, Started info) p"
  have s1: "stuck s started" "events_of s started =
      events_of s p @ (if sm_spawn (sp_simple p s) then [Spawn_Called s info] else [])"
    using assms(2-7) by (simp_all add: started_def notice_defs stuck_def events_of_def event_source_def)
  have q: "q = sampler_run clock sort_by inputs started"
    by (simp add: q_def sampler_run_def sampler_step_def started_def)
  have s2: "stuck s q" "events_of s q = events_of s started"
    using stuck_run [OF assms(1) s1(1)] by (simp_all add: q)
  define n where "n = simple_notice sort_by created (s, sig) q"
  have s3: "stuck s n" "events_of s n = events_of s q" "sp_main n \<noteq> Main_Runs"
    using stuck_notice [OF s2(1) assms(1), of created "(s, sig)"] assms(8) by (auto simp: n_def)
  have e: "e = sampler_run clock sort_by later n"
    by (simp add: e_def sampler_run_def sampler_step_def n_def)
  have "sp_main (sampler_run clock sort_by later n) \<noteq> Main_Runs"
    using s3(1,3)
  proof (induction later arbitrary: n)
    case (Cons i later)
    then show ?case using stuck_step [OF Cons.prems(1) assms(1)] by (auto simp: sampler_run_def)
  qed (simp add: sampler_run_def)
  with s1 s2 s3 stuck_run [OF assms(1) s3(1)] show ?thesis by (simp add: e)
qed

definition demo_dedicated :: sampler where
  "demo_dedicated = upd_simple 2 (pka_source_simple_set_use_thread True) demo_sampler"

theorem dedicated_source_stuck_witness:
  "let q = sampler_run demo_clock due_sort demo_inputs demo_dedicated;
       e = sampler_run demo_clock due_sort [Notice (2, Stopped) True, Own_Turn 2] q
   in events_of 2 q = [] \<and> events_of 2 e = [] \<and> sp_main e \<noteq> Main_Runs"
  using dedicated_source_stuck [OF due_sort_sorts, of demo_dedicated 2 Stopped demo_clock
      "pka_spawn_info_copy demo_info" "tl demo_inputs" True "[Own_Turn 2]"]
  by (simp add: demo_dedicated_def demo_sampler_defs pka_source_simple_set_use_thread_def demo_inputs_def
      events_of_def)

section \<open>Muted for two reasons\<close>

lemma sort_one: "sorts_times sort_by \<Longrightarrow> sort_by (pka_source_simple_compare_func p) [s] = [s]"
  using sorts_compare(1) [of sort_by p "[s]"] by simp

lemma sort_two:
  assumes "sorts_times sort_by"
  shows "sort_by (pka_source_simple_compare_func p) [s, s] = [s, s]"
proof -
  let ?xs = "sort_by (pka_source_simple_compare_func p) [s, s]"
  have "mset ?xs = mset [s, s]" by (rule sorts_compare(1) [OF assms])
  then have "length ?xs = 2" "set ?xs = {s}"
    using mset_eq_length [of ?xs "[s, s]"] mset_eq_setD [of ?xs "[s, s]"] by simp_all
  then show ?thesis by (auto simp: length_Suc_conv numeral_2_eq_2)
qed

text \<open>The notices of a channel with one source: each round is one notice.\<close>

lemma started_round:
  assumes "pka_channel_start spawn tmp c ctx w = (Ok (), w1)"
    and "ch_state (w_channels w c) = CHANNEL_READY" "ch_sources (w_channels w c) = [s]"
    and "so_subscriptions (w_sources w s) = []"
  obtains info where "w_queue w1 = w_queue w @ [(s, Started info), (s, Muted)]"
    "ch_state (w_channels w1 c) = CHANNEL_RUNNING" "ch_sources (w_channels w1 c) = [s]"
    "so_running (w_sources w1 s)" "so_subscriptions (w_sources w1 s) = []"
proof -
  obtain a w' where locked: "channel_start_locked spawn tmp c w = (a, w')" by fastforce
  from assms(1) locked obtain info where a: "a = Ok info"
    and w1: "w1 = notify_sources (pka_source_notify_started info) c w'"
    by (auto simp: pka_channel_start_def split: ans.splits)
  have reset: "reset_if_stopped c w = w" using assms(2) by (simp add: reset_if_stopped_def)
  from locked a obtain i v where spawned: "channel_spawn spawn tmp c i w = (Some info, v)"
    and w': "w' = upd_channel c (\<lambda>x. x\<lparr>ch_state := CHANNEL_RUNNING\<rparr>) v"
    by (cases rule: start_locked_cases) (auto simp: reset)
  have v: "w_queue v = w_queue w" "w_sources v = w_sources w" "ch_sources (w_channels v c) = [s]"
    using spawned assms(3) by (cases rule: channel_spawn_cases; auto simp: world_simps)+
  show ?thesis
    by (rule that [of "pka_spawn_info_copy info"])
      (simp_all add: w1 w' v assms(4) world_simps notify_sources_def started.notice_queue started.notice_source
        started.notice_frame)
qed

lemma mute_round:
  assumes "ch_state (w_channels w c) = CHANNEL_RUNNING" "ch_sources (w_channels w c) = [s]"
    and v: "v = snd (pka_channel_mute c ctx w)"
  shows "w_queue v = w_queue w @ [(s, Muted)]" "w_sources v = w_sources w"
    "ch_state (w_channels v c) = CHANNEL_MUTED" "ch_sources (w_channels v c) = [s]"
  using assms(1,2) by (simp_all add: v pka_channel_mute_def world_simps notify_sources_def muted.notice_queue
      muted.notice_source muted.notice_frame)

lemma subscribed_round:
  assumes "so_running (w_sources w s)" "so_subscriptions (w_sources w s) = []"
    and v: "v = pka_source_add_subscription gt s r w"
  shows "w_queue v = w_queue w @ [(s, Unmuted)]" "w_channels v = w_channels w" "so_running (w_sources v s)"
  using assms(1,2) by (simp_all add: v pka_source_add_subscription_def add_subscription_locked_def
      add_subscription_deliver_def pka_subscription_ref_def source_queues Let_def world_simps split: option.split)

lemma unmute_round:
  assumes "ch_state (w_channels w c) = CHANNEL_MUTED" "ch_sources (w_channels w c) = [s]"
    and v: "v = snd (pka_channel_unmute c ctx w)"
  shows "w_queue v = w_queue w @ [(s, Unmuted)]" "w_sources v = w_sources w"
    "ch_state (w_channels v c) = CHANNEL_RUNNING" "ch_sources (w_channels v c) = [s]"
  using assms(1,2) by (simp_all add: v pka_channel_unmute_def world_simps notify_sources_def unmuted.notice_queue
      unmuted.notice_source unmuted.notice_frame)

lemma stop_round:
  assumes "ch_state (w_channels w c) = CHANNEL_RUNNING" "ch_sources (w_channels w c) = [s]" "so_running (w_sources w s)"
    and v: "v = snd (pka_channel_stop c ctx w)"
  shows "w_queue v = w_queue w @ [(s, Stopped)]" "ch_state (w_channels v c) = CHANNEL_STOPPED"
  using assms(1-3) by (simp_all add: v pka_channel_stop_def world_simps notify_sources_def stopped.notice_queue
      stopped.notice_source stopped.notice_frame)

text \<open>What the notices do to a source without a thread of its own.\<close>

definition plain_same :: "source_ref \<Rightarrow> sampler \<Rightarrow> sampler \<Rightarrow> bool" where
  "plain_same s p q \<longleftrightarrow> sp_main q = Main_Runs \<and> \<not> sm_dedicated (sp_simple q s) \<and> \<not> sm_locked (sp_simple q s) \<and>
     sp_worker q = sp_worker p \<and> sp_running q = sp_running p \<and> sp_reads q = sp_reads p \<and>
     sm_timeout (sp_simple q s) = sm_timeout (sp_simple p s) \<and> sm_sample (sp_simple q s) = sm_sample (sp_simple p s)"

lemma plain_added:
  assumes "plain_same s p q" "sig = Started info \<or> sig = Unmuted"
  shows "plain_same s p (simple_notice sort_by created (s, sig) q)"
    and "\<exists>r. sp_sources (simple_notice sort_by created (s, sig) q) =
      sort_by (pka_source_simple_compare_func r) (sp_sources q @ [s])"
  using assms(2) assms(1) unfolding plain_same_def
  by (elim disjE; simp add: notice_defs pka_source_simple_add_to_shared_def; blast?)+

lemma plain_removed:
  assumes "plain_same s p q" "sig = Muted \<or> sig = Stopped"
  shows "plain_same s p (simple_notice sort_by created (s, sig) q)"
    and "sp_sources (simple_notice sort_by created (s, sig) q) = remove1 s (sp_sources q)"
    and "sp_events (simple_notice sort_by created (s, sig) q) = sp_events q @ [Cleanup s]"
  using assms(2) assms(1) unfolding plain_same_def
  by (elim disjE; simp add: notice_defs pka_source_simple_remove_from_shared_def)+

text \<open>
  C31: the two reasons for which a source is muted, that its channel is and that it has no subscriber, are not told
  apart. A channel with one source and no subscriber is started and muted, a client subscribes to the source and then
  unmutes the channel. When the main loop has emitted the notices up to the subscription, the source is back in the
  array and due to be sampled although its channel is muted; after the other, it is in the array twice. When the
  channel is stopped, one of the two entries is removed, so that the source is sampled after its cleanup, with the
  channel stopped.
\<close>

theorem muted_twice_sampled_on:
  assumes "pka_channel_start spawn tmp c ctx w = (Ok (), w1)"
    and "ch_state (w_channels w c) = CHANNEL_READY" "ch_sources (w_channels w c) = [s]"
    and "so_subscriptions (w_sources w s) = []" "w_queue w = []"
    and "sorts_times sort_by" "clock_ok clock" "sp_sources p = []" "sp_main p = Main_Runs" "sp_worker p" "sp_running p"
    and "sampleable (sp_simple p s)" "\<not> sm_dedicated (sp_simple p s)" "\<not> sm_locked (sp_simple p s)"
    and "ts_nanos (sm_timeout (sp_simple p s)) \<le> ts_nanos (clock (sp_reads p))"
    and w3: "w3 = pka_source_add_subscription gt s r (snd (pka_channel_mute c ctx w1))"
    and w5: "w5 = snd (pka_channel_stop c ctx (snd (pka_channel_unmute c ctx w3)))"
    and p3: "p3 = fold (simple_notice sort_by created) (w_queue w3) p"
    and p5: "p5 = fold (simple_notice sort_by created) (w_queue w5) p"
  shows "pka_channel_get_state c w3 = CHANNEL_MUTED \<and> sp_sources p3 = [s] \<and>
    pka_channel_get_state c w5 = CHANNEL_STOPPED \<and> sp_sources p5 = [s] \<and> last (sp_events p5) = Cleanup s \<and>
    sp_events (pka_source_simple_shared_worker clock sort_by p5) = sp_events p5 @ [Sampled s (clock (sp_reads p + 1))]"
proof -
  obtain info where r1: "w_queue w1 = [(s, Started info), (s, Muted)]" "ch_state (w_channels w1 c) = CHANNEL_RUNNING"
      "ch_sources (w_channels w1 c) = [s]" "so_running (w_sources w1 s)" "so_subscriptions (w_sources w1 s) = []"
    using started_round [OF assms(1-4)] assms(5) by auto
  note r2 = mute_round [OF r1(2,3) refl, of ctx]
  have w3: "w_queue w3 = [(s, Started info), (s, Muted), (s, Muted), (s, Unmuted)]"
      "ch_state (w_channels w3 c) = CHANNEL_MUTED" "ch_sources (w_channels w3 c) = [s]" "so_running (w_sources w3 s)"
    using subscribed_round [OF _ _ w3] r1 r2 by simp_all
  note r4 = unmute_round [OF w3(2,3) refl, of ctx]
  have w5: "w_queue w5 = [(s, Started info), (s, Muted), (s, Muted), (s, Unmuted), (s, Unmuted), (s, Stopped)]"
      "ch_state (w_channels w5 c) = CHANNEL_STOPPED"
    using stop_round [OF r4(3,4) _ w5] r4(1,2) w3 by simp_all
  have due: "0 \<le> timespec_compare (clock (sp_reads p)) (sm_timeout (sp_simple p s))"
    using assms(7,12,15) ready_iff by (simp add: clock_ok_def sampleable_def)
  define n where "n sig = simple_notice sort_by created (s, sig)" for sig
  have p0: "plain_same s p p" using assms(9,13,14) by (simp add: plain_same_def)
  define ps where "ps = n (Started info) p"
  have ps: "plain_same s p ps" "sp_sources ps = [s]"
    using plain_added [OF p0, of "Started info" info sort_by created] sort_one [OF assms(6)] assms(8)
    by (auto simp: ps_def n_def)
  define p1 where "p1 = n Muted ps"
  have p1: "plain_same s p p1" "sp_sources p1 = []"
    using plain_removed [OF ps(1), of Muted] ps(2) by (simp_all add: p1_def n_def)
  define p2 where "p2 = n Muted p1"
  have p2: "plain_same s p p2" "sp_sources p2 = []"
    using plain_removed [OF p1(1), of Muted] p1(2) by (simp_all add: p2_def n_def)
  have p3': "p3 = n Unmuted p2" by (simp add: p3 w3 n_def p1_def p2_def ps_def)
  have p3: "plain_same s p p3" "sp_sources p3 = [s]"
    using plain_added [OF p2(1), of Unmuted info sort_by created] p2(2) sort_one [OF assms(6)]
    by (auto simp: p3' n_def)
  define p4 where "p4 = n Unmuted p3"
  have p4: "plain_same s p p4" "sp_sources p4 = [s, s]"
    using plain_added [OF p3(1), of Unmuted info sort_by created] p3(2) sort_two [OF assms(6)]
    by (auto simp: p4_def n_def)
  have p5': "p5 = n Stopped p4" by (simp add: p5 w5 n_def p4_def p3' p2_def p1_def ps_def)
  have p5: "plain_same s p p5" "sp_sources p5 = [s]" "last (sp_events p5) = Cleanup s"
    using plain_removed [OF p4(1), of Stopped] p4(2) by (simp_all add: p5' n_def)
  have "sp_events (pka_source_simple_shared_worker clock sort_by p5) =
      sp_events p5 @ [Sampled s (clock (sp_reads p + 1))]"
    using p5 due assms(10-12)
    by (simp add: plain_same_def pka_source_simple_shared_worker_def is_ready_eq pka_source_simple_invoke_def
        pka_source_simple_update_def clock_gettime_def sampleable_def)
  with p5 p3 w3(2) w5(2) show ?thesis by (simp add: pka_channel_get_state_def)
qed

theorem muted_twice_sampled_on_witness:
  "let w3 = pka_source_add_subscription glib_gtypes 0 0 (snd (pka_channel_mute 0 pka_context_default demo_running));
       w5 = snd (pka_channel_stop 0 pka_context_default (snd (pka_channel_unmute 0 pka_context_default w3)));
       p5 = fold (simple_notice due_sort True) (w_queue w5) demo_sampler
   in pka_channel_get_state 0 w5 = CHANNEL_STOPPED \<and> last (sp_events p5) = Cleanup 0 \<and>
     sp_events (pka_source_simple_shared_worker demo_clock due_sort p5) =
       sp_events p5 @ [Sampled 0 \<lparr>tv_sec = 0, tv_nsec = 500000000\<rparr>]"
proof -
  have w: "ch_state (w_channels demo_ready 0) = CHANNEL_READY" "ch_sources (w_channels demo_ready 0) = [0]"
      "so_subscriptions (w_sources demo_ready 0) = []" "w_queue demo_ready = []"
    by (simp_all add: demo_ready_channel pka_channel_init_def pka_source_init_def)
  have p: "sp_sources demo_sampler = []" "sp_main demo_sampler = Main_Runs" "sp_worker demo_sampler"
      "sp_running demo_sampler" "sampleable (sp_simple demo_sampler 0)" "\<not> sm_dedicated (sp_simple demo_sampler 0)"
      "\<not> sm_locked (sp_simple demo_sampler 0)"
      "ts_nanos (sm_timeout (sp_simple demo_sampler 0)) \<le> ts_nanos (demo_clock (sp_reads demo_sampler))"
    by (simp_all add: demo_sampler_defs sampleable_def ts_timeout_def freq_ok_def ts_normal_def ts_nanos_def demo_clock_def)
  have t: "demo_clock (sp_reads demo_sampler + 1) = \<lparr>tv_sec = 0, tv_nsec = 500000000\<rparr>"
    by (simp add: demo_sampler_defs demo_clock_def)
  note on = muted_twice_sampled_on [OF demo_start w due_sort_sorts demo_clock_ok p refl refl refl refl,
      where gt = glib_gtypes and r = 0 and created = True, unfolded t]
  show ?thesis
    unfolding Let_def using on by (elim conjE) (intro conjI; assumption)
qed

end
