(* ===== verification/DBus_Wire.thy ===== *)
theory DBus_Wire
  imports Pka_Listener
begin

text \<open>
  What the two ends of the D-Bus connection share: typed arguments, messages, the object paths that
  identifiers are printed into with \<open>g_strdup_printf\<close> and parsed from with \<open>sscanf\<close>. The bus library's own
  checks of strings (UTF-8, the syntax of object paths) and running out of memory are left out.
\<close>

section \<open>Messages\<close>

datatype dbus_arg =
    Dbus_Int32 gint | Dbus_Boolean bool | Dbus_String cstring | Dbus_Object_Path cstring
  | Dbus_Strings "cstring list" | Dbus_Object_Paths "cstring list" | Dbus_Bytes "u8 list"

record dbus_message =
  dm_sender :: cstring
  dm_path :: cstring
  dm_interface :: string
  dm_member :: string
  dm_args :: "dbus_arg list"

text \<open>
  An answer to a method call. The text of an error is reduced to what it is about;
  \<open>Unknown_Method\<close> is the bus library's own answer to a message that no handler took, and \<open>No_Reply\<close> the one it
  gives when no answer comes.
\<close>

datatype dbus_failure =
    Agent_Error pka_error | Delivery_Path_Error | No_Delivery_Path | Handler_Error | Unknown_Method
  | No_Reply

datatype dbus_reply = Method_Return "dbus_arg list" | Error_Reply dbus_failure

text \<open>
  What a message handler does: the value it returns to the bus library, and the replies it sent.
  \<open>Crashed\<close> is a process that died (of \<open>error->message\<close> when no error was set, or of a call to a function that does
  not exist).
\<close>

datatype handler_result = Handled "dbus_reply list" | Not_Handled "dbus_reply list" | Crashed

text \<open>The answer that the caller gets: the first one.\<close>

fun answer_of :: "handler_result \<Rightarrow> dbus_reply option" where
  "answer_of (Handled []) = None"
| "answer_of (Handled (r # rs)) = Some r"
| "answer_of (Not_Handled []) = Some (Error_Reply Unknown_Method)"
| "answer_of (Not_Handled (r # rs)) = Some r"
| "answer_of Crashed = None"

section \<open>Tables of handlers\<close>

text \<open>
  A \<open>GHashTable\<close> whose keys point into the values (\<open>&handler->subscription\<close>) and that frees a value it
  replaces, but not its key. An entry is the object that the key lies in and the object that is the
  value; looking at a key in a freed object is a fault.
\<close>

record 'h handler_table =
  ht_entries :: "gint \<rightharpoonup> nat \<times> nat"
  ht_store :: "nat \<Rightarrow> 'h"
  ht_freed :: "nat \<Rightarrow> bool"
  ht_next :: nat
  ht_fault :: bool

definition handler_table_new :: "'h \<Rightarrow> 'h handler_table" where
  "handler_table_new unused =
     \<lparr>ht_entries = Map.empty, ht_store = (\<lambda>_. unused), ht_freed = (\<lambda>_. False), ht_next = 0, ht_fault = False\<rparr>"

definition handler_lookup :: "gint \<Rightarrow> 'h handler_table \<Rightarrow> 'h option \<times> 'h handler_table" where
  "handler_lookup i t =
     (case ht_entries t i of
        None \<Rightarrow> (None, t)
      | Some (key, v) \<Rightarrow> (Some (ht_store t v), t\<lparr>ht_fault := ht_fault t \<or> ht_freed t key\<rparr>))"

definition handler_insert :: "gint \<Rightarrow> 'h \<Rightarrow> 'h handler_table \<Rightarrow> 'h handler_table" where
  "handler_insert i h t =
     (let r = ht_next t;
          t = t\<lparr>ht_next := r + 1, ht_store := (ht_store t)(r := h)\<rparr>
      in case ht_entries t i of
           None \<Rightarrow> t\<lparr>ht_entries := (ht_entries t)(i \<mapsto> (r, r))\<rparr>
         | Some (key, v) \<Rightarrow>
             t\<lparr>ht_entries := (ht_entries t)(i \<mapsto> (key, r)), ht_freed := (ht_freed t)(v := True),
               ht_fault := ht_fault t \<or> ht_freed t key\<rparr>)"

text \<open>A change of the value itself, through a pointer that a lookup gave.\<close>

definition handler_update :: "gint \<Rightarrow> ('h \<Rightarrow> 'h) \<Rightarrow> 'h handler_table \<Rightarrow> 'h handler_table" where
  "handler_update i f t =
     (case ht_entries t i of
        None \<Rightarrow> t
      | Some (key, v) \<Rightarrow> t\<lparr>ht_store := (ht_store t)(v := f (ht_store t v))\<rparr>)"

text \<open>
  What an iterator visits (in an order of its own, on which nothing here depends): the objects that are the
  value of the entry for their key.
\<close>

definition handler_values :: "('h \<Rightarrow> gint) \<Rightarrow> 'h handler_table \<Rightarrow> 'h list" where
  "handler_values key_of t =
     map (ht_store t)
       (filter (\<lambda>v. map_option snd (ht_entries t (key_of (ht_store t v))) = Some v) [0..<ht_next t])"

section \<open>Printing and scanning\<close>

definition ascii :: "string \<Rightarrow> cstring" where
  "ascii s = map of_char s"

text \<open>The conversion \<open>%d\<close> of \<open>printf\<close>.\<close>

fun digits :: "nat \<Rightarrow> cstring" where
  "digits n = (if n < 10 then [48 + word_of_nat n] else digits (n div 10) @ [48 + word_of_nat (n mod 10)])"

declare digits.simps [simp del]

definition fmt_int :: "gint \<Rightarrow> cstring" where
  "fmt_int i = (if sint i < 0 then 45 # digits (nat (- sint i)) else digits (nat (sint i)))"

text \<open>
  The conversion \<open>%d\<close> of \<open>scanf\<close> in glibc: white space is skipped, then a sign, then at least one digit; the number is
  cut to the range of \<open>long\<close> and then taken modulo the width of \<open>int\<close>.
\<close>

definition is_digit :: "u8 \<Rightarrow> bool" where
  "is_digit c \<longleftrightarrow> 48 \<le> c \<and> c \<le> 57"

definition is_space :: "u8 \<Rightarrow> bool" where
  "is_space c \<longleftrightarrow> c = 32 \<or> 9 \<le> c \<and> c \<le> 13"

definition digits_value :: "cstring \<Rightarrow> nat" where
  "digits_value ds = foldl (\<lambda>n c. n * 10 + (unat c - 48)) 0 ds"

definition long_range :: "int \<Rightarrow> int" where
  "long_range x = max (- (2 ^ 63)) (min (2 ^ 63 - 1) x)"

definition scan_int :: "cstring \<Rightarrow> gint option" where
  "scan_int s =
     (let s = dropWhile is_space s;
          (negative, s) = (case s of
             [] \<Rightarrow> (False, [])
           | c # t \<Rightarrow> if c = 45 then (True, t) else if c = 43 then (False, t) else (False, s));
          ds = takeWhile is_digit s;
          n = int (digits_value ds)
      in if ds = [] then None else Some (word_of_int (long_range (if negative then - n else n))))"

text \<open>The text of a format before its conversion must be there literally (it has no white space).\<close>

fun strip_prefix :: "cstring \<Rightarrow> cstring \<Rightarrow> cstring option" where
  "strip_prefix [] s = Some s"
| "strip_prefix (p # ps) [] = None"
| "strip_prefix (p # ps) (c # s) = (if p = c then strip_prefix ps s else None)"

definition sscanf_int :: "cstring \<Rightarrow> cstring \<Rightarrow> gint option" where
  "sscanf_int prefix s = (case strip_prefix prefix s of None \<Rightarrow> None | Some r \<Rightarrow> scan_int r)"

text \<open>The conversion \<open>%as\<close>: the next word, which must not be empty, in a new string.\<close>

definition sscanf_word :: "cstring \<Rightarrow> cstring \<Rightarrow> cstring option" where
  "sscanf_word prefix s =
     (case strip_prefix prefix s of
        None \<Rightarrow> None
      | Some r \<Rightarrow>
          (let w = takeWhile (\<lambda>c. \<not> is_space c) (dropWhile is_space r)
           in if w = [] then None else Some w))"

definition channel_prefix :: cstring where
  "channel_prefix = ascii ''/org/perfkit/Agent/Channel/''"

definition encoder_prefix :: cstring where
  "encoder_prefix = ascii ''/org/perfkit/Agent/Encoder/''"

definition plugin_prefix :: cstring where
  "plugin_prefix = ascii ''/org/perfkit/Agent/Plugin/''"

definition source_prefix :: cstring where
  "source_prefix = ascii ''/org/perfkit/Agent/Source/''"

definition subscription_prefix :: cstring where
  "subscription_prefix = ascii ''/org/perfkit/Agent/Subscription/''"

definition handler_prefix :: cstring where
  "handler_prefix = ascii ''/Handler/''"

definition manager_path :: cstring where
  "manager_path = ascii ''/org/perfkit/Agent/Manager''"

section \<open>What is printed is scanned\<close>

lemma strip_prefix_append [simp]: "strip_prefix p (p @ s) = Some s"
  by (induction p) simp_all

lemma digit_byte: "d < 10 \<Longrightarrow> is_digit (48 + word_of_nat d) \<and> unat (48 + word_of_nat d :: u8) = 48 + d"
  by (simp add: is_digit_def word_le_nat_alt unat_word_ariths unat_of_nat)

lemma digits_are_digits: "\<forall>c \<in> set (digits n). is_digit c"
  by (induction n rule: digits.induct) (subst digits.simps, auto simp: digit_byte)

lemma digits_not_empty: "digits n \<noteq> []"
  by (subst digits.simps) simp

lemma digits_value_append: "digits_value (ds @ [c]) = digits_value ds * 10 + (unat c - 48)"
  by (simp add: digits_value_def)

lemma digits_value_digits: "digits_value (digits n) = n"
proof (induction n rule: digits.induct)
  case (1 n)
  show ?case
  proof (cases "n < 10")
    case True
    then show ?thesis
      by (subst digits.simps) (simp add: digits_value_def digit_byte [THEN conjunct2])
  next
    case False
    then have "digits n = digits (n div 10) @ [48 + word_of_nat (n mod 10)]"
      by (subst digits.simps) simp
    with False 1 show ?thesis
      by (simp add: digits_value_append digit_byte [THEN conjunct2])
  qed
qed

lemma digit_not_space: "is_digit c \<Longrightarrow> \<not> is_space c \<and> c \<noteq> 45 \<and> c \<noteq> 43"
  by (auto simp: is_digit_def is_space_def word_le_nat_alt)

lemma takeWhile_digits: "takeWhile is_digit (digits n) = digits n"
  using digits_are_digits by (simp add: takeWhile_eq_all_conv)

lemma scan_digits: "scan_int (digits n) = Some (word_of_int (long_range (int n)))"
proof -
  obtain c t where ds: "digits n = c # t" using digits_not_empty by (cases "digits n") auto
  then have "is_digit c" using digits_are_digits [of n] by simp
  then have "\<not> is_space c" "c \<noteq> 45" "c \<noteq> 43" using digit_not_space by auto
  then have "dropWhile is_space (digits n) = digits n" by (simp add: ds)
  with \<open>c \<noteq> 45\<close> \<open>c \<noteq> 43\<close> ds takeWhile_digits [of n] digits_value_digits [of n] show ?thesis
    by (simp add: scan_int_def Let_def)
qed

lemma scan_negative: "scan_int (45 # digits n) = Some (word_of_int (long_range (- int n)))"
  by (simp add: scan_int_def Let_def is_space_def word_le_nat_alt takeWhile_digits digits_value_digits
      digits_not_empty)

lemma long_range_sint: "long_range (sint i) = sint i" for i :: gint
  using sint_range_size [of i] by (simp add: long_range_def word_size)

lemma scan_fmt: "scan_int (fmt_int i) = Some i"
proof (cases "sint i < 0")
  case True
  then show ?thesis
    by (simp add: fmt_int_def scan_negative long_range_sint)
next
  case False
  then show ?thesis
    by (simp add: fmt_int_def scan_digits long_range_sint)
qed

lemma sscanf_printed [simp]: "sscanf_int p (p @ fmt_int i) = Some i"
  by (simp add: sscanf_int_def scan_fmt)

definition one_word :: "cstring \<Rightarrow> bool" where
  "one_word s \<longleftrightarrow> s \<noteq> [] \<and> (\<forall>c \<in> set s. \<not> is_space c)"

lemma sscanf_word_printed [simp]: "one_word s \<Longrightarrow> sscanf_word p (p @ s) = Some s"
  by (cases s) (auto simp: sscanf_word_def one_word_def Let_def takeWhile_eq_all_conv)

text \<open>The identifier of a plugin that was loaded is such a word, unless it is empty.\<close>

lemma alnum_not_space: "g_ascii_isalnum c \<Longrightarrow> \<not> is_space c"
  by (auto simp: g_ascii_isalnum_def is_space_def word_le_nat_alt)

lemma loaded_plugin_word:
  assumes "pka_plugin_load_from_file module p filename = (Ok (), q)"
  shows "\<exists>info. pl_info q = Some info \<and> (pi_id info = [] \<or> one_word (pi_id info))"
  using assms alnum_not_space
  by (auto simp: pka_plugin_load_from_file_def one_word_def list_all_iff split: option.splits if_splits)

end
