(* ===== verification/Pka_Listener_DBus.thy ===== *)
theory Pka_Listener_DBus
  imports DBus_Wire
begin

text \<open>
  perfkit-agent/listeners/pka-listener-dbus.c: the agent's end of the bus. A message handler takes the
  arguments of a method call from the message, starts the remote procedure, and the procedure's callback,
  which runs before the \<open>async\<close> function returns, finishes it and sends the answer.
\<close>

section \<open>State\<close>

datatype vtable =
    Plugin_VTable | Encoder_VTable | Source_VTable | Manager_VTable | Channel_VTable | Subscription_VTable

text \<open>A peer is the address of the client's private connection; a handler is where to deliver to.\<close>

record dbus_handler =
  hd_subscription :: gint
  hd_client :: cstring
  hd_path :: cstring

text \<open>
  \<open>ld_paths\<close> are the object paths registered on the bus; \<open>ld_signals\<close> is what has been broadcast, \<open>ld_sent\<close>
  what has been sent on private connections.
\<close>

record dbus_listener =
  ld_bus :: bool
  ld_paths :: "cstring \<rightharpoonup> vtable"
  ld_peers :: "cstring \<rightharpoonup> cstring"
  ld_handlers :: "dbus_handler handler_table"
  ld_signals :: "(string \<times> cstring) list"
  ld_sent :: "(cstring \<times> dbus_message) list"

definition pka_listener_dbus_init :: dbus_listener where
  "pka_listener_dbus_init =
     \<lparr>ld_bus = False, ld_paths = Map.empty, ld_peers = Map.empty,
      ld_handlers = handler_table_new \<lparr>hd_subscription = 0, hd_client = [], hd_path = []\<rparr>,
      ld_signals = [], ld_sent = []\<rparr>"

text \<open>
  What the agent takes from its surroundings; the time is printed by \<open>g_time_val_to_iso8601\<close>, and
  \<open>env_open\<close> says whether \<open>dbus_connection_open\<close> can reach an address.
\<close>

record agent_env =
  env_gtypes :: gtypes
  env_spawn :: g_spawn
  env_tmp :: cstring
  env_now :: g_time_val
  env_hostname :: cstring
  env_version :: cstring
  env_iso8601 :: "g_time_val \<Rightarrow> cstring"
  env_open :: "cstring \<Rightarrow> bool"

definition register_object_path :: "cstring \<Rightarrow> vtable \<Rightarrow> dbus_listener \<Rightarrow> dbus_listener" where
  "register_object_path path v ld = ld\<lparr>ld_paths := (ld_paths ld)(path \<mapsto> v)\<rparr>"

definition unregister_object_path :: "cstring \<Rightarrow> dbus_listener \<Rightarrow> dbus_listener" where
  "unregister_object_path path ld = ld\<lparr>ld_paths := (ld_paths ld)(path := None)\<rparr>"

definition send_signal :: "string \<Rightarrow> cstring \<Rightarrow> dbus_listener \<Rightarrow> dbus_listener" where
  "send_signal name path ld = ld\<lparr>ld_signals := ld_signals ld @ [(name, path)]\<rparr>"

section \<open>Callbacks\<close>

text \<open>
  All callbacks have one shape. When the procedure fails, the text of its error is sent; a procedure that
  fails without setting an error leaves NULL, which is dereferenced.
\<close>

definition call_back :: "('a \<Rightarrow> dbus_arg list) \<Rightarrow> 'a ans \<times> agent \<Rightarrow> handler_result \<times> agent" where
  "call_back marshal res =
     (case res of
        (Ok x, ag) \<Rightarrow> (Handled [Method_Return (marshal x)], ag)
      | (Err e, ag) \<Rightarrow> (Handled [Error_Reply (Agent_Error e)], ag)
      | (Quiet, ag) \<Rightarrow> (Crashed, ag))"

definition string_or_empty :: "cstring option \<Rightarrow> cstring" where
  "string_or_empty s = (case s of None \<Rightarrow> [] | Some s \<Rightarrow> s)"

text \<open>The conversion \<open>%s\<close> of GLib's \<open>printf\<close>, which is that of the C library: NULL is printed as \<open>(null)\<close>.\<close>

definition fmt_string :: "cstring option \<Rightarrow> cstring" where
  "fmt_string s = (case s of None \<Rightarrow> ascii ''(null)'' | Some s \<Rightarrow> s)"

fun plugin_type_code :: "pka_plugin_type \<Rightarrow> gint" where
  "plugin_type_code PLUGIN_INVALID = 0"
| "plugin_type_code PLUGIN_LISTENER = 1"
| "plugin_type_code PLUGIN_SOURCE = 2"
| "plugin_type_code PLUGIN_ENCODER = 3"

fun channel_state_code :: "pka_channel_state \<Rightarrow> gint" where
  "channel_state_code CHANNEL_READY = 1"
| "channel_state_code CHANNEL_RUNNING = 2"
| "channel_state_code CHANNEL_MUTED = 3"
| "channel_state_code CHANNEL_STOPPED = 4"
| "channel_state_code CHANNEL_FAILED = 5"

definition pka_listener_dbus_plugin_get_copyright_cb ::
  "cstring ans \<times> agent \<Rightarrow> handler_result \<times> agent" where
  "pka_listener_dbus_plugin_get_copyright_cb =
     call_back (\<lambda>copyright. [Dbus_String copyright])"

definition pka_listener_dbus_plugin_get_description_cb ::
  "cstring ans \<times> agent \<Rightarrow> handler_result \<times> agent" where
  "pka_listener_dbus_plugin_get_description_cb =
     call_back (\<lambda>description. [Dbus_String description])"

definition pka_listener_dbus_plugin_get_name_cb ::
  "cstring ans \<times> agent \<Rightarrow> handler_result \<times> agent" where
  "pka_listener_dbus_plugin_get_name_cb = call_back (\<lambda>name. [Dbus_String name])"

definition pka_listener_dbus_plugin_get_plugin_type_cb ::
  "pka_plugin_type ans \<times> agent \<Rightarrow> handler_result \<times> agent" where
  "pka_listener_dbus_plugin_get_plugin_type_cb =
     call_back (\<lambda>t. [Dbus_Int32 (plugin_type_code t)])"

definition pka_listener_dbus_plugin_get_version_cb ::
  "cstring ans \<times> agent \<Rightarrow> handler_result \<times> agent" where
  "pka_listener_dbus_plugin_get_version_cb = call_back (\<lambda>version. [Dbus_String version])"

definition pka_listener_dbus_encoder_get_plugin_cb ::
  "cstring option ans \<times> agent \<Rightarrow> handler_result \<times> agent" where
  "pka_listener_dbus_encoder_get_plugin_cb =
     call_back (\<lambda>plugin. [Dbus_Object_Path (plugin_prefix @ fmt_string plugin)])"

definition pka_listener_dbus_source_get_plugin_cb ::
  "cstring option ans \<times> agent \<Rightarrow> handler_result \<times> agent" where
  "pka_listener_dbus_source_get_plugin_cb =
     call_back (\<lambda>plugin. [Dbus_Object_Path (plugin_prefix @ fmt_string plugin)])"

definition pka_listener_dbus_manager_add_channel_cb ::
  "gint ans \<times> agent \<Rightarrow> handler_result \<times> agent" where
  "pka_listener_dbus_manager_add_channel_cb =
     call_back (\<lambda>channel. [Dbus_Object_Path (channel_prefix @ fmt_int channel)])"

definition pka_listener_dbus_manager_add_source_cb ::
  "gint ans \<times> agent \<Rightarrow> handler_result \<times> agent" where
  "pka_listener_dbus_manager_add_source_cb =
     call_back (\<lambda>source. [Dbus_Object_Path (source_prefix @ fmt_int source)])"

definition pka_listener_dbus_manager_add_subscription_cb ::
  "gint ans \<times> agent \<Rightarrow> handler_result \<times> agent" where
  "pka_listener_dbus_manager_add_subscription_cb =
     call_back (\<lambda>subscription. [Dbus_Object_Path (subscription_prefix @ fmt_int subscription)])"

definition pka_listener_dbus_manager_get_channels_cb ::
  "gint list ans \<times> agent \<Rightarrow> handler_result \<times> agent" where
  "pka_listener_dbus_manager_get_channels_cb =
     call_back (\<lambda>channels. [Dbus_Object_Paths (map (\<lambda>i. channel_prefix @ fmt_int i) channels)])"

definition pka_listener_dbus_manager_get_hostname_cb ::
  "cstring ans \<times> agent \<Rightarrow> handler_result \<times> agent" where
  "pka_listener_dbus_manager_get_hostname_cb =
     call_back (\<lambda>hostname. [Dbus_String hostname])"

definition pka_listener_dbus_manager_get_plugins_cb ::
  "cstring option list ans \<times> agent \<Rightarrow> handler_result \<times> agent" where
  "pka_listener_dbus_manager_get_plugins_cb =
     call_back (\<lambda>plugins. [Dbus_Object_Paths (map (\<lambda>p. plugin_prefix @ fmt_string p)
       (takeWhile (\<lambda>p. p \<noteq> None) plugins))])"

definition pka_listener_dbus_manager_get_sources_cb ::
  "gint list ans \<times> agent \<Rightarrow> handler_result \<times> agent" where
  "pka_listener_dbus_manager_get_sources_cb =
     call_back (\<lambda>sources. [Dbus_Object_Paths (map (\<lambda>i. source_prefix @ fmt_int i) sources)])"

definition pka_listener_dbus_manager_get_subscriptions_cb ::
  "gint list ans \<times> agent \<Rightarrow> handler_result \<times> agent" where
  "pka_listener_dbus_manager_get_subscriptions_cb =
     call_back (\<lambda>subscriptions. [Dbus_Object_Paths (map (\<lambda>i. subscription_prefix @ fmt_int i) subscriptions)])"

definition pka_listener_dbus_manager_get_version_cb ::
  "cstring ans \<times> agent \<Rightarrow> handler_result \<times> agent" where
  "pka_listener_dbus_manager_get_version_cb = call_back (\<lambda>version. [Dbus_String version])"

definition pka_listener_dbus_manager_ping_cb ::
  "agent_env \<Rightarrow> g_time_val ans \<times> agent \<Rightarrow> handler_result \<times> agent" where
  "pka_listener_dbus_manager_ping_cb env =
     call_back (\<lambda>tv. [Dbus_String (env_iso8601 env tv)])"

definition pka_listener_dbus_manager_remove_channel_cb ::
  "bool ans \<times> agent \<Rightarrow> handler_result \<times> agent" where
  "pka_listener_dbus_manager_remove_channel_cb =
     call_back (\<lambda>removed. [Dbus_Boolean removed])"

definition pka_listener_dbus_manager_remove_source_cb ::
  "unit ans \<times> agent \<Rightarrow> handler_result \<times> agent" where
  "pka_listener_dbus_manager_remove_source_cb = call_back (\<lambda>_. [])"

definition pka_listener_dbus_manager_remove_subscription_cb ::
  "bool ans \<times> agent \<Rightarrow> handler_result \<times> agent" where
  "pka_listener_dbus_manager_remove_subscription_cb =
     call_back (\<lambda>removed. [Dbus_Boolean removed])"

definition pka_listener_dbus_channel_add_source_cb ::
  "unit ans \<times> agent \<Rightarrow> handler_result \<times> agent" where
  "pka_listener_dbus_channel_add_source_cb = call_back (\<lambda>_. [])"

definition pka_listener_dbus_channel_get_args_cb ::
  "cstring list option ans \<times> agent \<Rightarrow> handler_result \<times> agent" where
  "pka_listener_dbus_channel_get_args_cb =
     call_back (\<lambda>args. [Dbus_Strings (case args of None \<Rightarrow> [] | Some a \<Rightarrow> a)])"

definition pka_listener_dbus_channel_get_created_at_cb ::
  "agent_env \<Rightarrow> g_time_val ans \<times> agent \<Rightarrow> handler_result \<times> agent" where
  "pka_listener_dbus_channel_get_created_at_cb env =
     call_back (\<lambda>tv. [Dbus_String (env_iso8601 env tv)])"

definition pka_listener_dbus_channel_get_env_cb ::
  "cstring list option ans \<times> agent \<Rightarrow> handler_result \<times> agent" where
  "pka_listener_dbus_channel_get_env_cb =
     call_back (\<lambda>env_vars. [Dbus_Strings (case env_vars of None \<Rightarrow> [] | Some a \<Rightarrow> a)])"

definition pka_listener_dbus_channel_get_exit_status_cb ::
  "gint ans \<times> agent \<Rightarrow> handler_result \<times> agent" where
  "pka_listener_dbus_channel_get_exit_status_cb =
     call_back (\<lambda>exit_status. [Dbus_Int32 exit_status])"

definition pka_listener_dbus_channel_get_kill_pid_cb ::
  "bool ans \<times> agent \<Rightarrow> handler_result \<times> agent" where
  "pka_listener_dbus_channel_get_kill_pid_cb =
     call_back (\<lambda>kill_pid. [Dbus_Boolean kill_pid])"

definition pka_listener_dbus_channel_get_pid_cb ::
  "g_pid ans \<times> agent \<Rightarrow> handler_result \<times> agent" where
  "pka_listener_dbus_channel_get_pid_cb = call_back (\<lambda>pid. [Dbus_Int32 (word_of_int pid)])"

definition pka_listener_dbus_channel_get_pid_set_cb ::
  "bool ans \<times> agent \<Rightarrow> handler_result \<times> agent" where
  "pka_listener_dbus_channel_get_pid_set_cb = call_back (\<lambda>pid_set. [Dbus_Boolean pid_set])"

definition pka_listener_dbus_channel_get_sources_cb ::
  "gint list ans \<times> agent \<Rightarrow> handler_result \<times> agent" where
  "pka_listener_dbus_channel_get_sources_cb =
     call_back (\<lambda>sources. [Dbus_Object_Paths (map (\<lambda>i. source_prefix @ fmt_int i) sources)])"

definition pka_listener_dbus_channel_get_state_cb ::
  "pka_channel_state ans \<times> agent \<Rightarrow> handler_result \<times> agent" where
  "pka_listener_dbus_channel_get_state_cb =
     call_back (\<lambda>state. [Dbus_Int32 (channel_state_code state)])"

definition pka_listener_dbus_channel_get_target_cb ::
  "cstring option ans \<times> agent \<Rightarrow> handler_result \<times> agent" where
  "pka_listener_dbus_channel_get_target_cb =
     call_back (\<lambda>target. [Dbus_String (string_or_empty target)])"

definition pka_listener_dbus_channel_get_working_dir_cb ::
  "cstring option ans \<times> agent \<Rightarrow> handler_result \<times> agent" where
  "pka_listener_dbus_channel_get_working_dir_cb =
     call_back (\<lambda>working_dir. [Dbus_String (string_or_empty working_dir)])"

definition pka_listener_dbus_channel_mute_cb ::
  "unit ans \<times> agent \<Rightarrow> handler_result \<times> agent" where
  "pka_listener_dbus_channel_mute_cb = call_back (\<lambda>_. [])"

definition pka_listener_dbus_channel_set_args_cb ::
  "unit ans \<times> agent \<Rightarrow> handler_result \<times> agent" where
  "pka_listener_dbus_channel_set_args_cb = call_back (\<lambda>_. [])"

definition pka_listener_dbus_channel_set_env_cb ::
  "unit ans \<times> agent \<Rightarrow> handler_result \<times> agent" where
  "pka_listener_dbus_channel_set_env_cb = call_back (\<lambda>_. [])"

definition pka_listener_dbus_channel_set_kill_pid_cb ::
  "unit ans \<times> agent \<Rightarrow> handler_result \<times> agent" where
  "pka_listener_dbus_channel_set_kill_pid_cb = call_back (\<lambda>_. [])"

definition pka_listener_dbus_channel_set_pid_cb ::
  "unit ans \<times> agent \<Rightarrow> handler_result \<times> agent" where
  "pka_listener_dbus_channel_set_pid_cb = call_back (\<lambda>_. [])"

definition pka_listener_dbus_channel_set_target_cb ::
  "unit ans \<times> agent \<Rightarrow> handler_result \<times> agent" where
  "pka_listener_dbus_channel_set_target_cb = call_back (\<lambda>_. [])"

definition pka_listener_dbus_channel_set_working_dir_cb ::
  "unit ans \<times> agent \<Rightarrow> handler_result \<times> agent" where
  "pka_listener_dbus_channel_set_working_dir_cb = call_back (\<lambda>_. [])"

definition pka_listener_dbus_channel_start_cb ::
  "unit ans \<times> agent \<Rightarrow> handler_result \<times> agent" where
  "pka_listener_dbus_channel_start_cb = call_back (\<lambda>_. [])"

definition pka_listener_dbus_channel_stop_cb ::
  "unit ans \<times> agent \<Rightarrow> handler_result \<times> agent" where
  "pka_listener_dbus_channel_stop_cb = call_back (\<lambda>_. [])"

definition pka_listener_dbus_channel_unmute_cb ::
  "unit ans \<times> agent \<Rightarrow> handler_result \<times> agent" where
  "pka_listener_dbus_channel_unmute_cb = call_back (\<lambda>_. [])"

definition pka_listener_dbus_subscription_add_channel_cb ::
  "unit ans \<times> agent \<Rightarrow> handler_result \<times> agent" where
  "pka_listener_dbus_subscription_add_channel_cb = call_back (\<lambda>_. [])"

definition pka_listener_dbus_subscription_add_source_cb ::
  "unit ans \<times> agent \<Rightarrow> handler_result \<times> agent" where
  "pka_listener_dbus_subscription_add_source_cb = call_back (\<lambda>_. [])"

definition pka_listener_dbus_subscription_get_buffer_cb ::
  "(gint \<times> gint) ans \<times> agent \<Rightarrow> handler_result \<times> agent" where
  "pka_listener_dbus_subscription_get_buffer_cb =
     call_back (\<lambda>(timeout, size_arg). [Dbus_Int32 timeout, Dbus_Int32 size_arg])"

definition pka_listener_dbus_subscription_get_created_at_cb ::
  "agent_env \<Rightarrow> g_time_val ans \<times> agent \<Rightarrow> handler_result \<times> agent" where
  "pka_listener_dbus_subscription_get_created_at_cb env =
     call_back (\<lambda>tv. [Dbus_String (env_iso8601 env tv)])"

definition pka_listener_dbus_subscription_get_sources_cb ::
  "gint list ans \<times> agent \<Rightarrow> handler_result \<times> agent" where
  "pka_listener_dbus_subscription_get_sources_cb =
     call_back (\<lambda>sources. [Dbus_Object_Paths (map (\<lambda>i. source_prefix @ fmt_int i) sources)])"

definition pka_listener_dbus_subscription_mute_cb ::
  "unit ans \<times> agent \<Rightarrow> handler_result \<times> agent" where
  "pka_listener_dbus_subscription_mute_cb = call_back (\<lambda>_. [])"

definition pka_listener_dbus_subscription_remove_channel_cb ::
  "unit ans \<times> agent \<Rightarrow> handler_result \<times> agent" where
  "pka_listener_dbus_subscription_remove_channel_cb = call_back (\<lambda>_. [])"

definition pka_listener_dbus_subscription_remove_source_cb ::
  "unit ans \<times> agent \<Rightarrow> handler_result \<times> agent" where
  "pka_listener_dbus_subscription_remove_source_cb = call_back (\<lambda>_. [])"

definition pka_listener_dbus_subscription_set_buffer_cb ::
  "unit ans \<times> agent \<Rightarrow> handler_result \<times> agent" where
  "pka_listener_dbus_subscription_set_buffer_cb = call_back (\<lambda>_. [])"

definition pka_listener_dbus_subscription_unmute_cb ::
  "unit ans \<times> agent \<Rightarrow> handler_result \<times> agent" where
  "pka_listener_dbus_subscription_unmute_cb = call_back (\<lambda>_. [])"

section \<open>Message handlers\<close>

definition is_introspect :: "dbus_message \<Rightarrow> bool" where
  "is_introspect m \<longleftrightarrow>
     dm_interface m = ''org.freedesktop.DBus.Introspectable'' \<and> dm_member m = ''Introspect''"

definition not_handled :: "agent \<Rightarrow> handler_result \<times> agent" where
  "not_handled ag = (Not_Handled [], ag)"

text \<open>The identifier in the path of the message.\<close>

definition on_int_path ::
  "cstring \<Rightarrow> dbus_message \<Rightarrow> (gint \<Rightarrow> agent \<Rightarrow> handler_result \<times> agent) \<Rightarrow> agent \<Rightarrow> handler_result \<times> agent" where
  "on_int_path prefix m k ag =
     (case sscanf_int prefix (dm_path m) of None \<Rightarrow> not_handled ag | Some i \<Rightarrow> k i ag)"

definition on_word_path ::
  "cstring \<Rightarrow> dbus_message \<Rightarrow> (cstring \<Rightarrow> agent \<Rightarrow> handler_result \<times> agent) \<Rightarrow> agent \<Rightarrow> handler_result \<times> agent" where
  "on_word_path prefix m k ag =
     (case sscanf_word prefix (dm_path m) of None \<Rightarrow> not_handled ag | Some s \<Rightarrow> k s ag)"

definition pka_listener_dbus_handle_plugin_message ::
  "cstring \<Rightarrow> dbus_message \<Rightarrow> agent \<Rightarrow> handler_result \<times> agent" where
  "pka_listener_dbus_handle_plugin_message introspection m ag =
    (if is_introspect m then (Handled [Method_Return [Dbus_String introspection]], ag)
     else if dm_interface m \<noteq> ''org.perfkit.Agent.Plugin'' then not_handled ag
     else if dm_member m = ''GetCopyright'' then
       on_word_path plugin_prefix m (\<lambda>plugin ag.
         pka_listener_dbus_plugin_get_copyright_cb
           (pka_listener_plugin_get_copyright_finish
             (pka_listener_plugin_get_copyright_async (Some plugin)) ag)) ag
     else if dm_member m = ''GetDescription'' then
       on_word_path plugin_prefix m (\<lambda>plugin ag.
         pka_listener_dbus_plugin_get_description_cb
           (pka_listener_plugin_get_description_finish
             (pka_listener_plugin_get_description_async (Some plugin)) ag)) ag
     else if dm_member m = ''GetName'' then
       on_word_path plugin_prefix m (\<lambda>plugin ag.
         pka_listener_dbus_plugin_get_name_cb
           (pka_listener_plugin_get_name_finish
             (pka_listener_plugin_get_name_async (Some plugin)) ag)) ag
     else if dm_member m = ''GetType'' then
       on_word_path plugin_prefix m (\<lambda>plugin ag.
         pka_listener_dbus_plugin_get_plugin_type_cb
           (pka_listener_plugin_get_plugin_type_finish
             (pka_listener_plugin_get_plugin_type_async (Some plugin)) ag)) ag
     else if dm_member m = ''GetVersion'' then
       on_word_path plugin_prefix m (\<lambda>plugin ag.
         pka_listener_dbus_plugin_get_version_cb
           (pka_listener_plugin_get_version_finish
             (pka_listener_plugin_get_version_async (Some plugin)) ag)) ag
     else not_handled ag)"

definition pka_listener_dbus_handle_encoder_message ::
  "cstring \<Rightarrow> dbus_message \<Rightarrow> agent \<Rightarrow> handler_result \<times> agent" where
  "pka_listener_dbus_handle_encoder_message introspection m ag =
    (if is_introspect m then (Handled [Method_Return [Dbus_String introspection]], ag)
     else if dm_interface m \<noteq> ''org.perfkit.Agent.Encoder'' then not_handled ag
     else if dm_member m = ''GetPlugin'' then
       on_int_path encoder_prefix m (\<lambda>encoder ag.
         pka_listener_dbus_encoder_get_plugin_cb (pka_listener_encoder_get_plugin_finish None ag)) ag
     else not_handled ag)"

definition pka_listener_dbus_handle_source_message ::
  "cstring \<Rightarrow> dbus_message \<Rightarrow> agent \<Rightarrow> handler_result \<times> agent" where
  "pka_listener_dbus_handle_source_message introspection m ag =
    (if is_introspect m then (Handled [Method_Return [Dbus_String introspection]], ag)
     else if dm_interface m \<noteq> ''org.perfkit.Agent.Source'' then not_handled ag
     else if dm_member m = ''GetPlugin'' then
       on_int_path source_prefix m (\<lambda>source ag.
         pka_listener_dbus_source_get_plugin_cb
           (pka_listener_source_get_plugin_finish (pka_listener_source_get_plugin_async source) ag)) ag
     else not_handled ag)"

definition pka_listener_dbus_handle_channel_message ::
  "agent_env \<Rightarrow> cstring \<Rightarrow> dbus_message \<Rightarrow> agent \<Rightarrow> handler_result \<times> agent" where
  "pka_listener_dbus_handle_channel_message env introspection m ag =
    (if is_introspect m then (Handled [Method_Return [Dbus_String introspection]], ag)
     else if dm_interface m \<noteq> ''org.perfkit.Agent.Channel'' then not_handled ag
     else if dm_member m = ''AddSource'' then
       on_int_path channel_prefix m (\<lambda>channel ag.
         (case dm_args m of
           Dbus_Int32 source # _ \<Rightarrow>
             pka_listener_dbus_channel_add_source_cb
               (pka_listener_channel_add_source_finish (env_gtypes env)
                 (pka_listener_channel_add_source_async channel source) ag)
         | _ \<Rightarrow> not_handled ag)) ag
     else if dm_member m = ''GetArgs'' then
       on_int_path channel_prefix m (\<lambda>channel ag.
         pka_listener_dbus_channel_get_args_cb
           (pka_listener_channel_get_args_finish (pka_listener_channel_get_args_async channel) ag)) ag
     else if dm_member m = ''GetCreatedAt'' then
       on_int_path channel_prefix m (\<lambda>channel ag.
         pka_listener_dbus_channel_get_created_at_cb env
           (pka_listener_channel_get_created_at_finish
             (pka_listener_channel_get_created_at_async channel) ag)) ag
     else if dm_member m = ''GetEnv'' then
       on_int_path channel_prefix m (\<lambda>channel ag.
         pka_listener_dbus_channel_get_env_cb
           (pka_listener_channel_get_env_finish (pka_listener_channel_get_env_async channel) ag)) ag
     else if dm_member m = ''GetExitStatus'' then
       on_int_path channel_prefix m (\<lambda>channel ag.
         pka_listener_dbus_channel_get_exit_status_cb
           (pka_listener_channel_get_exit_status_finish
             (pka_listener_channel_get_exit_status_async channel) ag)) ag
     else if dm_member m = ''GetKillPid'' then
       on_int_path channel_prefix m (\<lambda>channel ag.
         pka_listener_dbus_channel_get_kill_pid_cb
           (pka_listener_channel_get_kill_pid_finish
             (pka_listener_channel_get_kill_pid_async channel) ag)) ag
     else if dm_member m = ''GetPid'' then
       on_int_path channel_prefix m (\<lambda>channel ag.
         pka_listener_dbus_channel_get_pid_cb
           (pka_listener_channel_get_pid_finish (pka_listener_channel_get_pid_async channel) ag)) ag
     else if dm_member m = ''GetPidSet'' then
       on_int_path channel_prefix m (\<lambda>channel ag.
         pka_listener_dbus_channel_get_pid_set_cb
           (pka_listener_channel_get_pid_set_finish
             (pka_listener_channel_get_pid_set_async channel) ag)) ag
     else if dm_member m = ''GetSources'' then
       on_int_path channel_prefix m (\<lambda>channel ag.
         pka_listener_dbus_channel_get_sources_cb
           (pka_listener_channel_get_sources_finish
             (pka_listener_channel_get_sources_async channel) ag)) ag
     else if dm_member m = ''GetState'' then
       on_int_path channel_prefix m (\<lambda>channel ag.
         pka_listener_dbus_channel_get_state_cb
           (pka_listener_channel_get_state_finish (pka_listener_channel_get_state_async channel) ag)) ag
     else if dm_member m = ''GetTarget'' then
       on_int_path channel_prefix m (\<lambda>channel ag.
         pka_listener_dbus_channel_get_target_cb
           (pka_listener_channel_get_target_finish
             (pka_listener_channel_get_target_async channel) ag)) ag
     else if dm_member m = ''GetWorkingDir'' then
       on_int_path channel_prefix m (\<lambda>channel ag.
         pka_listener_dbus_channel_get_working_dir_cb
           (pka_listener_channel_get_working_dir_finish
             (pka_listener_channel_get_working_dir_async channel) ag)) ag
     else if dm_member m = ''Mute'' then
       on_int_path channel_prefix m (\<lambda>channel ag.
         pka_listener_dbus_channel_mute_cb
           (pka_listener_channel_mute_finish (pka_listener_channel_mute_async channel) ag)) ag
     else if dm_member m = ''SetArgs'' then
       on_int_path channel_prefix m (\<lambda>channel ag.
         (case dm_args m of
           Dbus_Strings args # _ \<Rightarrow>
             pka_listener_dbus_channel_set_args_cb
               (pka_listener_channel_set_args_finish
                 (pka_listener_channel_set_args_async channel (Some args)) ag)
         | _ \<Rightarrow> not_handled ag)) ag
     else if dm_member m = ''SetEnv'' then
       on_int_path channel_prefix m (\<lambda>channel ag.
         (case dm_args m of
           Dbus_Strings env_vars # _ \<Rightarrow>
             pka_listener_dbus_channel_set_env_cb
               (pka_listener_channel_set_env_finish
                 (pka_listener_channel_set_env_async channel (Some env_vars)) ag)
         | _ \<Rightarrow> not_handled ag)) ag
     else if dm_member m = ''SetKillPid'' then
       on_int_path channel_prefix m (\<lambda>channel ag.
         (case dm_args m of
           Dbus_Boolean kill_pid # _ \<Rightarrow>
             pka_listener_dbus_channel_set_kill_pid_cb
               (pka_listener_channel_set_kill_pid_finish
                 (pka_listener_channel_set_kill_pid_async channel kill_pid) ag)
         | _ \<Rightarrow> not_handled ag)) ag
     else if dm_member m = ''SetPid'' then
       on_int_path channel_prefix m (\<lambda>channel ag.
         (case dm_args m of
           Dbus_Int32 pid # _ \<Rightarrow>
             pka_listener_dbus_channel_set_pid_cb
               (pka_listener_channel_set_pid_finish (pka_listener_channel_set_pid_async channel pid) ag)
         | _ \<Rightarrow> not_handled ag)) ag
     else if dm_member m = ''SetTarget'' then
       on_int_path channel_prefix m (\<lambda>channel ag.
         (case dm_args m of
           Dbus_String target # _ \<Rightarrow>
             pka_listener_dbus_channel_set_target_cb
               (pka_listener_channel_set_target_finish
                 (pka_listener_channel_set_target_async channel (Some target)) ag)
         | _ \<Rightarrow> not_handled ag)) ag
     else if dm_member m = ''SetWorkingDir'' then
       on_int_path channel_prefix m (\<lambda>channel ag.
         (case dm_args m of
           Dbus_String working_dir # _ \<Rightarrow>
             pka_listener_dbus_channel_set_working_dir_cb
               (pka_listener_channel_set_working_dir_finish
                 (pka_listener_channel_set_working_dir_async channel (Some working_dir)) ag)
         | _ \<Rightarrow> not_handled ag)) ag
     else if dm_member m = ''Start'' then
       on_int_path channel_prefix m (\<lambda>channel ag.
         pka_listener_dbus_channel_start_cb
           (pka_listener_channel_start_finish (env_spawn env) (env_tmp env)
             (pka_listener_channel_start_async channel) ag)) ag
     else if dm_member m = ''Stop'' then
       on_int_path channel_prefix m (\<lambda>channel ag.
         pka_listener_dbus_channel_stop_cb
           (pka_listener_channel_stop_finish (pka_listener_channel_stop_async channel) ag)) ag
     else if dm_member m = ''Unmute'' then
       on_int_path channel_prefix m (\<lambda>channel ag.
         pka_listener_dbus_channel_unmute_cb
           (pka_listener_channel_unmute_finish (pka_listener_channel_unmute_async channel) ag)) ag
     else not_handled ag)"

text \<open>
  The manager's and the subscriptions' calls that only concern the agent. \<open>AddSubscription\<close> does not read
  its arguments, \<open>RemoveChannel\<close> neither: the variables keep the zero they start with.
\<close>

definition handle_manager_calls ::
  "agent_env \<Rightarrow> dbus_message \<Rightarrow> agent \<Rightarrow> handler_result \<times> agent" where
  "handle_manager_calls env m ag =
    (if dm_member m = ''AddChannel'' then
       pka_listener_dbus_manager_add_channel_cb
         (pka_listener_manager_add_channel_finish (env_tmp env) (env_now env) ag)
     else if dm_member m = ''AddSource'' then
       (case dm_args m of
           Dbus_Object_Path plugin_path # _ \<Rightarrow>
             (case sscanf_word plugin_prefix plugin_path of
                None \<Rightarrow> not_handled ag
              | Some plugin \<Rightarrow> pka_listener_dbus_manager_add_source_cb
                (pka_listener_manager_add_source_finish
                  (pka_listener_manager_add_source_async (Some plugin)) ag))
         | _ \<Rightarrow> not_handled ag)
     else if dm_member m = ''AddSubscription'' then
       pka_listener_dbus_manager_add_subscription_cb
         (pka_listener_manager_add_subscription_finish (env_now env)
           (pka_listener_manager_add_subscription_async 0 0) ag)
     else if dm_member m = ''GetChannels'' then
       pka_listener_dbus_manager_get_channels_cb (pka_listener_manager_get_channels_finish ag)
     else if dm_member m = ''GetHostname'' then
       pka_listener_dbus_manager_get_hostname_cb
         (pka_listener_manager_get_hostname_finish (env_hostname env) ag)
     else if dm_member m = ''GetPlugins'' then
       pka_listener_dbus_manager_get_plugins_cb (pka_listener_manager_get_plugins_finish ag)
     else if dm_member m = ''GetSources'' then
       pka_listener_dbus_manager_get_sources_cb (pka_listener_manager_get_sources_finish ag)
     else if dm_member m = ''GetSubscriptions'' then
       pka_listener_dbus_manager_get_subscriptions_cb (pka_listener_manager_get_subscriptions_finish ag)
     else if dm_member m = ''GetVersion'' then
       pka_listener_dbus_manager_get_version_cb
         (pka_listener_manager_get_version_finish (env_version env) ag)
     else if dm_member m = ''Ping'' then
       pka_listener_dbus_manager_ping_cb env (pka_listener_manager_ping_finish (env_now env) ag)
     else if dm_member m = ''RemoveChannel'' then
       pka_listener_dbus_manager_remove_channel_cb
         (pka_listener_manager_remove_channel_finish (pka_listener_manager_remove_channel_async 0) ag)
     else if dm_member m = ''RemoveSource'' then
       (case dm_args m of
           Dbus_Object_Path path # _ \<Rightarrow>
             (case sscanf_int source_prefix path of
                None \<Rightarrow> not_handled ag
              | Some source \<Rightarrow> pka_listener_dbus_manager_remove_source_cb
                (pka_listener_manager_remove_source_finish
                  (pka_listener_manager_remove_source_async source) ag))
         | _ \<Rightarrow> not_handled ag)
     else if dm_member m = ''RemoveSubscription'' then
       (case dm_args m of
           Dbus_Object_Path path # _ \<Rightarrow>
             (case sscanf_int subscription_prefix path of
                None \<Rightarrow> not_handled ag
              | Some subscription \<Rightarrow> pka_listener_dbus_manager_remove_subscription_cb
                (pka_listener_manager_remove_subscription_finish
                  (pka_listener_manager_remove_subscription_async subscription) ag))
         | _ \<Rightarrow> not_handled ag)
     else not_handled ag)"

text \<open>\<open>pka_listener_subscription_set_encoder_async\<close> is declared and not defined anywhere.\<close>

definition handle_subscription_calls ::
  "agent_env \<Rightarrow> dbus_message \<Rightarrow> agent \<Rightarrow> handler_result \<times> agent" where
  "handle_subscription_calls env m ag =
    (if dm_member m = ''AddChannel'' then
       on_int_path subscription_prefix m (\<lambda>subscription ag.
         (case dm_args m of
           Dbus_Int32 channel # Dbus_Boolean monitor # _ \<Rightarrow>
             pka_listener_dbus_subscription_add_channel_cb
               (pka_listener_subscription_add_channel_finish (env_gtypes env)
                 (pka_listener_subscription_add_channel_async subscription channel monitor) ag)
         | _ \<Rightarrow> not_handled ag)) ag
     else if dm_member m = ''AddSource'' then
       on_int_path subscription_prefix m (\<lambda>subscription ag.
         (case dm_args m of
           Dbus_Int32 source # _ \<Rightarrow>
             pka_listener_dbus_subscription_add_source_cb
               (pka_listener_subscription_add_source_finish (env_gtypes env)
                 (pka_listener_subscription_add_source_async subscription source) ag)
         | _ \<Rightarrow> not_handled ag)) ag
     else if dm_member m = ''GetBuffer'' then
       on_int_path subscription_prefix m (\<lambda>subscription ag.
         pka_listener_dbus_subscription_get_buffer_cb
           (pka_listener_subscription_get_buffer_finish
             (pka_listener_subscription_get_buffer_async subscription) ag)) ag
     else if dm_member m = ''GetCreatedAt'' then
       on_int_path subscription_prefix m (\<lambda>subscription ag.
         pka_listener_dbus_subscription_get_created_at_cb env
           (pka_listener_subscription_get_created_at_finish
             (pka_listener_subscription_get_created_at_async subscription) ag)) ag
     else if dm_member m = ''GetSources'' then
       on_int_path subscription_prefix m (\<lambda>subscription ag.
         pka_listener_dbus_subscription_get_sources_cb
           (pka_listener_subscription_get_sources_finish
             (pka_listener_subscription_get_sources_async subscription) ag)) ag
     else if dm_member m = ''Mute'' then
       on_int_path subscription_prefix m (\<lambda>subscription ag.
         (case dm_args m of
           Dbus_Boolean drain # _ \<Rightarrow>
             pka_listener_dbus_subscription_mute_cb
               (pka_listener_subscription_mute_finish
                 (pka_listener_subscription_mute_async subscription drain) ag)
         | _ \<Rightarrow> not_handled ag)) ag
     else if dm_member m = ''RemoveChannel'' then
       on_int_path subscription_prefix m (\<lambda>subscription ag.
         (case dm_args m of
           Dbus_Int32 channel # _ \<Rightarrow>
             pka_listener_dbus_subscription_remove_channel_cb
               (pka_listener_subscription_remove_channel_finish
                 (pka_listener_subscription_remove_channel_async subscription channel) ag)
         | _ \<Rightarrow> not_handled ag)) ag
     else if dm_member m = ''RemoveSource'' then
       on_int_path subscription_prefix m (\<lambda>subscription ag.
         (case dm_args m of
           Dbus_Int32 source # _ \<Rightarrow>
             pka_listener_dbus_subscription_remove_source_cb
               (pka_listener_subscription_remove_source_finish
                 (pka_listener_subscription_remove_source_async subscription source) ag)
         | _ \<Rightarrow> not_handled ag)) ag
     else if dm_member m = ''SetBuffer'' then
       on_int_path subscription_prefix m (\<lambda>subscription ag.
         (case dm_args m of
           Dbus_Int32 timeout # Dbus_Int32 size_arg # _ \<Rightarrow>
             pka_listener_dbus_subscription_set_buffer_cb
               (pka_listener_subscription_set_buffer_finish
                 (pka_listener_subscription_set_buffer_async subscription timeout size_arg) ag)
         | _ \<Rightarrow> not_handled ag)) ag
     else if dm_member m = ''SetEncoder'' then
       on_int_path subscription_prefix m (\<lambda>subscription ag.
         (case dm_args m of
            Dbus_Int32 encoder # _ \<Rightarrow> (Crashed, ag)
          | _ \<Rightarrow> not_handled ag)) ag
     else if dm_member m = ''Unmute'' then
       on_int_path subscription_prefix m (\<lambda>subscription ag.
         pka_listener_dbus_subscription_unmute_cb
           (pka_listener_subscription_unmute_finish
             (pka_listener_subscription_unmute_async subscription) ag)) ag
     else not_handled ag)"

text \<open>
  A failure sends the error and returns NOT_YET_HANDLED all the same.
\<close>

definition pka_listener_dbus_set_delivery_path ::
  "agent_env \<Rightarrow> cstring \<Rightarrow> cstring \<Rightarrow> dbus_listener \<Rightarrow> bool \<times> dbus_listener" where
  "pka_listener_dbus_set_delivery_path env sender path ld =
     (if env_open env path then (True, ld\<lparr>ld_peers := (ld_peers ld)(sender \<mapsto> path)\<rparr>) else (False, ld))"

definition pka_listener_dbus_handle_manager_message ::
  "agent_env \<Rightarrow> cstring \<Rightarrow> dbus_message \<Rightarrow> agent \<times> dbus_listener \<Rightarrow>
     handler_result \<times> agent \<times> dbus_listener" where
  "pka_listener_dbus_handle_manager_message env introspection m st =
     (case st of (ag, ld) \<Rightarrow>
        if is_introspect m then (Handled [Method_Return [Dbus_String introspection]], ag, ld)
        else if dm_interface m \<noteq> ''org.perfkit.Agent.Manager'' then (Not_Handled [], ag, ld)
        else if dm_member m = ''SetDeliveryPath'' then
          (case dm_args m of
             Dbus_String path # _ \<Rightarrow>
               (case pka_listener_dbus_set_delivery_path env (dm_sender m) path ld of
                  (True, ld) \<Rightarrow> (Handled [Method_Return []], ag, ld)
                | (False, ld) \<Rightarrow> (Not_Handled [Error_Reply Delivery_Path_Error], ag, ld))
           | _ \<Rightarrow> (Not_Handled [], ag, ld))
        else (case handle_manager_calls env m ag of (res, ag) \<Rightarrow> (res, ag, ld)))"

text \<open>
  \<open>SetHandler\<close>: the reference that finding the subscription gave is not dropped when the client has no
  delivery path. \<open>self\<close> is the listener, which the closures get.
\<close>

definition set_handler ::
  "nat \<Rightarrow> gint \<Rightarrow> cstring \<Rightarrow> cstring \<Rightarrow> agent \<times> dbus_listener \<Rightarrow> handler_result \<times> agent \<times> dbus_listener" where
  "set_handler self subscription sender handler_path st =
     (case st of (ag, ld) \<Rightarrow>
        (case pka_manager_find_subscription pka_context_default subscription ag of
           (Err e, ag) \<Rightarrow> (Not_Handled [Error_Reply (Agent_Error e)], ag, ld)
         | (Quiet, ag) \<Rightarrow> (Crashed, ag, ld)
         | (Ok sub, ag) \<Rightarrow>
             (case ld_peers ld sender of
                None \<Rightarrow> (Not_Handled [Error_Reply No_Delivery_Path], ag, ld)
              | Some client \<Rightarrow>
                  (let handler = \<lparr>hd_subscription = subscription, hd_client = client, hd_path = handler_path\<rparr>;
                       ld = ld\<lparr>ld_handlers := handler_insert subscription handler (ld_handlers ld)\<rparr>;
                       ag = on_world (pka_subscription_set_handlers sub pka_context_default self self) ag;
                       ag = on_world (pka_subscription_unref sub) ag
                   in (Handled [Method_Return []], ag, ld)))))"

definition pka_listener_dbus_handle_subscription_message ::
  "agent_env \<Rightarrow> cstring \<Rightarrow> nat \<Rightarrow> dbus_message \<Rightarrow> agent \<times> dbus_listener \<Rightarrow>
     handler_result \<times> agent \<times> dbus_listener" where
  "pka_listener_dbus_handle_subscription_message env introspection self m st =
     (case st of (ag, ld) \<Rightarrow>
        if is_introspect m then (Handled [Method_Return [Dbus_String introspection]], ag, ld)
        else if dm_interface m \<noteq> ''org.perfkit.Agent.Subscription'' then (Not_Handled [], ag, ld)
        else if dm_member m = ''SetHandler'' then
          (case (sscanf_int subscription_prefix (dm_path m), dm_args m) of
             (Some subscription, Dbus_Object_Path handler_path # _) \<Rightarrow>
               set_handler self subscription (dm_sender m) handler_path (ag, ld)
           | _ \<Rightarrow> (Not_Handled [], ag, ld))
        else (case handle_subscription_calls env m ag of (res, ag) \<Rightarrow> (res, ag, ld)))"

section \<open>Notices\<close>

text \<open>
  What the registry tells the listener: the object path appears on the bus or goes, and the clients are
  told.
\<close>

definition pka_listener_dbus_plugin_added :: "cstring option \<Rightarrow> dbus_listener \<Rightarrow> dbus_listener" where
  "pka_listener_dbus_plugin_added plugin ld =
     (let path = plugin_prefix @ fmt_string plugin
      in send_signal ''PluginAdded'' path (register_object_path path Plugin_VTable ld))"

definition pka_listener_dbus_plugin_removed :: "cstring option \<Rightarrow> dbus_listener \<Rightarrow> dbus_listener" where
  "pka_listener_dbus_plugin_removed plugin ld =
     (let path = plugin_prefix @ fmt_string plugin
      in send_signal ''PluginRemoved'' path (unregister_object_path path ld))"

definition pka_listener_dbus_encoder_added :: "gint \<Rightarrow> dbus_listener \<Rightarrow> dbus_listener" where
  "pka_listener_dbus_encoder_added encoder ld =
     (let path = encoder_prefix @ fmt_int encoder
      in send_signal ''EncoderAdded'' path (register_object_path path Encoder_VTable ld))"

definition pka_listener_dbus_encoder_removed :: "gint \<Rightarrow> dbus_listener \<Rightarrow> dbus_listener" where
  "pka_listener_dbus_encoder_removed encoder ld =
     (let path = encoder_prefix @ fmt_int encoder
      in send_signal ''EncoderRemoved'' path (unregister_object_path path ld))"

definition pka_listener_dbus_source_added :: "gint \<Rightarrow> dbus_listener \<Rightarrow> dbus_listener" where
  "pka_listener_dbus_source_added source ld =
     (let path = source_prefix @ fmt_int source
      in send_signal ''SourceAdded'' path (register_object_path path Source_VTable ld))"

definition pka_listener_dbus_source_removed :: "gint \<Rightarrow> dbus_listener \<Rightarrow> dbus_listener" where
  "pka_listener_dbus_source_removed source ld =
     (let path = source_prefix @ fmt_int source
      in send_signal ''SourceRemoved'' path (unregister_object_path path ld))"

definition pka_listener_dbus_channel_added :: "gint \<Rightarrow> dbus_listener \<Rightarrow> dbus_listener" where
  "pka_listener_dbus_channel_added channel ld =
     (let path = channel_prefix @ fmt_int channel
      in send_signal ''ChannelAdded'' path (register_object_path path Channel_VTable ld))"

definition pka_listener_dbus_channel_removed :: "gint \<Rightarrow> dbus_listener \<Rightarrow> dbus_listener" where
  "pka_listener_dbus_channel_removed channel ld =
     (let path = channel_prefix @ fmt_int channel
      in send_signal ''ChannelRemoved'' path (unregister_object_path path ld))"

definition pka_listener_dbus_subscription_added :: "gint \<Rightarrow> dbus_listener \<Rightarrow> dbus_listener" where
  "pka_listener_dbus_subscription_added subscription ld =
     (let path = subscription_prefix @ fmt_int subscription
      in send_signal ''SubscriptionAdded'' path (register_object_path path Subscription_VTable ld))"

definition pka_listener_dbus_subscription_removed :: "gint \<Rightarrow> dbus_listener \<Rightarrow> dbus_listener" where
  "pka_listener_dbus_subscription_removed subscription ld =
     (let path = subscription_prefix @ fmt_int subscription
      in send_signal ''SubscriptionRemoved'' path (unregister_object_path path ld))"

definition pka_listener_dbus_notice :: "notice \<Rightarrow> dbus_listener \<Rightarrow> dbus_listener" where
  "pka_listener_dbus_notice n =
     (case n of
        plugin_added plugin \<Rightarrow> pka_listener_dbus_plugin_added plugin
      | encoder_added encoder \<Rightarrow> pka_listener_dbus_encoder_added encoder
      | encoder_removed encoder \<Rightarrow> pka_listener_dbus_encoder_removed encoder
      | source_added source \<Rightarrow> pka_listener_dbus_source_added source
      | source_removed source \<Rightarrow> pka_listener_dbus_source_removed source
      | channel_added channel \<Rightarrow> pka_listener_dbus_channel_added channel
      | channel_removed channel \<Rightarrow> pka_listener_dbus_channel_removed channel
      | subscription_added subscription \<Rightarrow> pka_listener_dbus_subscription_added subscription
      | subscription_removed subscription \<Rightarrow> pka_listener_dbus_subscription_removed subscription)"

section \<open>Delivery\<close>

text \<open>
  The closures of a subscription: the encoded manifest or sample goes to the client's private connection,
  to the object path that the client gave.
\<close>

definition dispatch_to_handler :: "string \<Rightarrow> gint \<Rightarrow> u8 list \<Rightarrow> dbus_listener \<Rightarrow> dbus_listener" where
  "dispatch_to_handler member subscription data ld =
     (if data = [] then ld
      else case handler_lookup subscription (ld_handlers ld) of
             (None, t) \<Rightarrow> ld\<lparr>ld_handlers := t\<rparr>
           | (Some h, t) \<Rightarrow>
               ld\<lparr>ld_handlers := t, ld_sent := ld_sent ld @
                 [(hd_client h, \<lparr>dm_sender = [], dm_path = hd_path h,
                    dm_interface = ''org.perfkit.Agent.Handler'', dm_member = member,
                    dm_args = [Dbus_Bytes data]\<rparr>)]\<rparr>)"

definition pka_listener_dbus_dispatch_manifest :: "gint \<Rightarrow> u8 list \<Rightarrow> dbus_listener \<Rightarrow> dbus_listener" where
  "pka_listener_dbus_dispatch_manifest = dispatch_to_handler ''SendManifest''"

definition pka_listener_dbus_dispatch_sample :: "gint \<Rightarrow> u8 list \<Rightarrow> dbus_listener \<Rightarrow> dbus_listener" where
  "pka_listener_dbus_dispatch_sample = dispatch_to_handler ''SendSample''"

section \<open>Listening\<close>

text \<open>
  \<open>available\<close>: the session bus can be reached; \<open>taken\<close>: another process has the agent's name, which leaves
  the connection open all the same. FALSE is False here; the errors are only logged.
\<close>

definition pka_listener_dbus_register_singletons :: "dbus_listener \<Rightarrow> dbus_listener" where
  "pka_listener_dbus_register_singletons = register_object_path manager_path Manager_VTable"

definition pka_listener_dbus_listen :: "bool \<Rightarrow> bool \<Rightarrow> dbus_listener \<Rightarrow> bool \<times> dbus_listener" where
  "pka_listener_dbus_listen available taken ld =
     (if ld_bus ld then (False, ld)
      else if \<not> available then (False, ld)
      else (\<not> taken, pka_listener_dbus_register_singletons (ld\<lparr>ld_bus := True\<rparr>)))"

definition pka_listener_dbus_close :: "dbus_listener \<Rightarrow> dbus_listener" where
  "pka_listener_dbus_close ld = ld\<lparr>ld_bus := False\<rparr>"

section \<open>The process\<close>

text \<open>The bus library hands a method call to the handler that is registered for its object path.\<close>

definition dispatch_message ::
  "agent_env \<Rightarrow> (vtable \<Rightarrow> cstring) \<Rightarrow> nat \<Rightarrow> dbus_message \<Rightarrow> agent \<times> dbus_listener \<Rightarrow>
     handler_result \<times> agent \<times> dbus_listener" where
  "dispatch_message env introspection self m st =
     (case st of (ag, ld) \<Rightarrow>
        let plain = (\<lambda>handle. case handle m ag of (res, ag) \<Rightarrow> (res, ag, ld))
        in case ld_paths ld (dm_path m) of
             None \<Rightarrow> (Not_Handled [], ag, ld)
           | Some Plugin_VTable \<Rightarrow> plain (pka_listener_dbus_handle_plugin_message (introspection Plugin_VTable))
           | Some Encoder_VTable \<Rightarrow> plain (pka_listener_dbus_handle_encoder_message (introspection Encoder_VTable))
           | Some Source_VTable \<Rightarrow> plain (pka_listener_dbus_handle_source_message (introspection Source_VTable))
           | Some Channel_VTable \<Rightarrow>
               plain (pka_listener_dbus_handle_channel_message env (introspection Channel_VTable))
           | Some Manager_VTable \<Rightarrow>
               pka_listener_dbus_handle_manager_message env (introspection Manager_VTable) m (ag, ld)
           | Some Subscription_VTable \<Rightarrow>
               pka_listener_dbus_handle_subscription_message env (introspection Subscription_VTable) self m (ag, ld))"

text \<open>
  While a procedure runs, the registry tells its listeners what changed; \<open>self\<close> gets its part before the
  answer is sent.
\<close>

definition take_notices :: "nat \<Rightarrow> (nat \<times> notice) list \<Rightarrow> dbus_listener \<Rightarrow> dbus_listener" where
  "take_notices self ns ld =
     foldl (\<lambda>ld n. pka_listener_dbus_notice n ld) ld (map snd (filter (\<lambda>n. fst n = self) ns))"

definition serve ::
  "agent_env \<Rightarrow> (vtable \<Rightarrow> cstring) \<Rightarrow> nat \<Rightarrow> dbus_message \<Rightarrow> agent \<times> dbus_listener \<Rightarrow>
     handler_result \<times> agent \<times> dbus_listener" where
  "serve env introspection self m st =
     (case dispatch_message env introspection self m st of
        (res, ag, ld) \<Rightarrow>
          (res, ag, take_notices self (drop (length (ag_notices (fst st))) (ag_notices ag)) ld))"

end
