(* ===== verification/Pk_Connection_DBus.thy ===== *)
theory Pk_Connection_DBus
  imports Pka_Listener_DBus Pk_Sample
begin

text \<open>
  perfkit/connections/pk-connection-dbus.c: the client's end of the bus. A remote procedure is a message
  (\<open>async\<close>) and the decoding of its answer (\<open>finish\<close>); manifests and samples arrive as calls on a private
  connection that the agent opens; signals of the agent become signals of the connection.
\<close>

section \<open>State\<close>

datatype dbus_state = STATE_INITIAL | STATE_CONNECTED | STATE_DISCONNECTED

datatype pk_connection_state = PK_CONNECTION_DISCONNECTED | PK_CONNECTION_CONNECTED | PK_CONNECTION_FAILED

text \<open>The closures of a handler are the client program's; \<open>ph_id\<close> stands for them.\<close>

record pk_handler =
  ph_id :: gint
  ph_subscription :: gint
  ph_manifests :: "gint \<rightharpoonup> pk_manifest"

datatype connection_event =
    State_Changed pk_connection_state
  | Channel_Added gint | Channel_Removed gint | Source_Added gint | Source_Removed gint
  | Plugin_Added cstring | Plugin_Removed cstring | Encoder_Added gint | Encoder_Removed gint
  | Subscription_Added gint | Subscription_Removed gint

datatype handler_call = Manifest_Call gint pk_manifest | Sample_Call gint "pk_manifest option" pk_sample

text \<open>
  \<open>pc_state\<close> is the state of PkConnection, \<open>pc_dbus_state\<close> that of PkConnectionDBus. \<open>pc_paths\<close> are the
  object paths on the private connection \<open>client\<close>. The last three fields record what went out: messages that
  expect no answer, signals of the connection, and calls of the handlers' closures.
\<close>

record pk_connection =
  pc_state :: pk_connection_state
  pc_dbus_state :: dbus_state
  pc_dbus :: bool
  pc_server :: "cstring option"
  pc_client :: bool
  pc_paths :: "cstring set"
  pc_handlers :: "pk_handler handler_table"
  pc_filter :: bool
  pc_outbox :: "dbus_message list"
  pc_events :: "connection_event list"
  pc_calls :: "handler_call list"

definition pk_connection_dbus_init :: pk_connection where
  "pk_connection_dbus_init =
     \<lparr>pc_state = PK_CONNECTION_DISCONNECTED, pc_dbus_state = STATE_INITIAL, pc_dbus = False, pc_server = None,
      pc_client = False, pc_paths = {},
      pc_handlers = handler_table_new \<lparr>ph_id = 0, ph_subscription = 0, ph_manifests = Map.empty\<rparr>,
      pc_filter = False, pc_outbox = [], pc_events = [], pc_calls = []\<rparr>"

definition pk_connection_is_connected :: "pk_connection \<Rightarrow> bool" where
  "pk_connection_is_connected c \<longleftrightarrow> pc_state c = PK_CONNECTION_CONNECTED"

definition emit :: "connection_event \<Rightarrow> pk_connection \<Rightarrow> pk_connection" where
  "emit e c = c\<lparr>pc_events := pc_events c @ [e]\<rparr>"

definition pk_connection_emit_state_changed :: "pk_connection_state \<Rightarrow> pk_connection \<Rightarrow> pk_connection" where
  "pk_connection_emit_state_changed state c = emit (State_Changed state) (c\<lparr>pc_state := state\<rparr>)"

definition method_call :: "cstring \<Rightarrow> string \<Rightarrow> string \<Rightarrow> dbus_arg list \<Rightarrow> dbus_message" where
  "method_call path interface member args =
     \<lparr>dm_sender = [], dm_path = path, dm_interface = interface, dm_member = member, dm_args = args\<rparr>"

text \<open>The two counters of the process; both calls return the value before the increment.\<close>

definition pk_connection_dbus_next_id :: "gint \<Rightarrow> gint \<times> gint" where
  "pk_connection_dbus_next_id id_seq = (id_seq, id_seq + 1)"

definition pk_connection_dbus_next_handler_id :: "gint \<Rightarrow> gint \<times> gint" where
  "pk_connection_dbus_next_handler_id id_seq = (id_seq, id_seq + 1)"

section \<open>Calls in flight\<close>

text \<open>
  \<open>pn_result\<close>: the pending call has been stored in the asynchronous result, which happens when the answer
  comes; \<open>pn_reply\<close> is the answer that was not taken yet, \<open>pn_completions\<close> counts the runs of the
  caller's callback that were scheduled.
\<close>

record pending_call =
  pn_result :: bool
  pn_reply :: "dbus_reply option"
  pn_completions :: nat

definition pending_call_new :: pending_call where
  "pending_call_new = \<lparr>pn_result = False, pn_reply = None, pn_completions = 0\<rparr>"

definition pk_connection_dbus_notify :: "dbus_reply \<Rightarrow> pending_call \<Rightarrow> pending_call" where
  "pk_connection_dbus_notify reply p =
     p\<lparr>pn_result := True, pn_reply := Some reply, pn_completions := pn_completions p + 1\<rparr>"

text \<open>None is a failed \<open>g_assert\<close>.\<close>

definition pk_connection_dbus_cancel :: "pending_call \<Rightarrow> pending_call option" where
  "pk_connection_dbus_cancel p = (if pn_result p then Some p else None)"

datatype rpc_failure = Rpc_No_Result | Rpc_Cancelled | Rpc_Error dbus_failure | Rpc_Bad_Reply

definition finish_with :: "(dbus_arg list \<Rightarrow> 'a option) \<Rightarrow> pending_call \<Rightarrow> rpc_failure + 'a" where
  "finish_with unmarshal p =
     (if \<not> pn_result p then Inl Rpc_No_Result
      else case pn_reply p of
             None \<Rightarrow> Inl Rpc_Cancelled
           | Some (Error_Reply e) \<Rightarrow> Inl (Rpc_Error e)
           | Some (Method_Return args) \<Rightarrow>
               (case unmarshal args of None \<Rightarrow> Inl Rpc_Bad_Reply | Some x \<Rightarrow> Inr x))"

text \<open>
  What \<open>dbus_message_get_args\<close> takes from an answer. A path that does not scan leaves the result as
  it was cleared: 0, or NULL.
\<close>

definition arg_none :: "dbus_arg list \<Rightarrow> unit option" where
  "arg_none args = Some ()"

definition arg_int32 :: "dbus_arg list \<Rightarrow> gint option" where
  "arg_int32 args = (case args of Dbus_Int32 i # _ \<Rightarrow> Some i | _ \<Rightarrow> None)"

definition arg_two_int32 :: "dbus_arg list \<Rightarrow> (gint \<times> gint) option" where
  "arg_two_int32 args = (case args of Dbus_Int32 i # Dbus_Int32 j # _ \<Rightarrow> Some (i, j) | _ \<Rightarrow> None)"

definition arg_boolean :: "dbus_arg list \<Rightarrow> bool option" where
  "arg_boolean args = (case args of Dbus_Boolean b # _ \<Rightarrow> Some b | _ \<Rightarrow> None)"

definition arg_string :: "dbus_arg list \<Rightarrow> cstring option" where
  "arg_string args = (case args of Dbus_String s # _ \<Rightarrow> Some s | _ \<Rightarrow> None)"

definition arg_strings :: "dbus_arg list \<Rightarrow> cstring list option" where
  "arg_strings args = (case args of Dbus_Strings ss # _ \<Rightarrow> Some ss | _ \<Rightarrow> None)"

text \<open>\<open>parse\<close> is \<open>g_time_val_from_iso8601\<close>, whose failure leaves the time that was cleared.\<close>

definition arg_time :: "(cstring \<Rightarrow> g_time_val option) \<Rightarrow> dbus_arg list \<Rightarrow> g_time_val option" where
  "arg_time parse args =
     (case args of
        Dbus_String s # _ \<Rightarrow> Some (case parse s of None \<Rightarrow> \<lparr>tv_secs = 0, tv_usecs = 0\<rparr> | Some tv \<Rightarrow> tv)
      | _ \<Rightarrow> None)"

definition scan_path :: "cstring \<Rightarrow> cstring \<Rightarrow> gint" where
  "scan_path prefix path = (case sscanf_int prefix path of None \<Rightarrow> 0 | Some i \<Rightarrow> i)"

definition arg_int_path :: "cstring \<Rightarrow> dbus_arg list \<Rightarrow> gint option" where
  "arg_int_path prefix args = (case args of Dbus_Object_Path p # _ \<Rightarrow> Some (scan_path prefix p) | _ \<Rightarrow> None)"

definition arg_int_paths :: "cstring \<Rightarrow> dbus_arg list \<Rightarrow> gint list option" where
  "arg_int_paths prefix args =
     (case args of Dbus_Object_Paths ps # _ \<Rightarrow> Some (map (scan_path prefix) ps) | _ \<Rightarrow> None)"

definition arg_word_path :: "cstring \<Rightarrow> dbus_arg list \<Rightarrow> cstring option option" where
  "arg_word_path prefix args =
     (case args of Dbus_Object_Path p # _ \<Rightarrow> Some (sscanf_word prefix p) | _ \<Rightarrow> None)"

definition arg_word_paths :: "cstring \<Rightarrow> dbus_arg list \<Rightarrow> cstring option list option" where
  "arg_word_paths prefix args =
     (case args of Dbus_Object_Paths ps # _ \<Rightarrow> Some (map (sscanf_word prefix) ps) | _ \<Rightarrow> None)"

text \<open>The 32 bits at the address of a 64-bit integer.\<close>

definition int32_at :: "byte_order \<Rightarrow> gsize \<Rightarrow> gint" where
  "int32_at ord x = (case ord of G_LITTLE_ENDIAN \<Rightarrow> ucast x | G_BIG_ENDIAN \<Rightarrow> ucast (drop_bit 32 x))"

section \<open>Remote procedures\<close>

text \<open>A NULL vector of strings is dereferenced when it is appended: the message is None then.\<close>

subsection \<open>Channels\<close>

definition pk_connection_dbus_channel_add_source_async ::
  "gint \<Rightarrow> gint \<Rightarrow> dbus_message" where
  "pk_connection_dbus_channel_add_source_async channel source =
     method_call (channel_prefix @ fmt_int channel)
       ''org.perfkit.Agent.Channel'' ''AddSource'' [Dbus_Int32 source]"

definition pk_connection_dbus_channel_add_source_finish ::
  "pending_call \<Rightarrow> rpc_failure + unit" where
  "pk_connection_dbus_channel_add_source_finish = finish_with arg_none"

definition pk_connection_dbus_channel_get_args_async :: "gint \<Rightarrow> dbus_message" where
  "pk_connection_dbus_channel_get_args_async channel =
     method_call (channel_prefix @ fmt_int channel)
       ''org.perfkit.Agent.Channel'' ''GetArgs'' []"

definition pk_connection_dbus_channel_get_args_finish ::
  "pending_call \<Rightarrow> rpc_failure + cstring list" where
  "pk_connection_dbus_channel_get_args_finish = finish_with arg_strings"

definition pk_connection_dbus_channel_get_created_at_async :: "gint \<Rightarrow> dbus_message" where
  "pk_connection_dbus_channel_get_created_at_async channel =
     method_call (channel_prefix @ fmt_int channel)
       ''org.perfkit.Agent.Channel'' ''GetCreatedAt'' []"

definition pk_connection_dbus_channel_get_created_at_finish ::
  "(cstring \<Rightarrow> g_time_val option) \<Rightarrow> pending_call \<Rightarrow> rpc_failure + g_time_val" where
  "pk_connection_dbus_channel_get_created_at_finish parse = finish_with (arg_time parse)"

definition pk_connection_dbus_channel_get_env_async :: "gint \<Rightarrow> dbus_message" where
  "pk_connection_dbus_channel_get_env_async channel =
     method_call (channel_prefix @ fmt_int channel)
       ''org.perfkit.Agent.Channel'' ''GetEnv'' []"

definition pk_connection_dbus_channel_get_env_finish ::
  "pending_call \<Rightarrow> rpc_failure + cstring list" where
  "pk_connection_dbus_channel_get_env_finish = finish_with arg_strings"

definition pk_connection_dbus_channel_get_exit_status_async :: "gint \<Rightarrow> dbus_message" where
  "pk_connection_dbus_channel_get_exit_status_async channel =
     method_call (channel_prefix @ fmt_int channel)
       ''org.perfkit.Agent.Channel'' ''GetExitStatus'' []"

definition pk_connection_dbus_channel_get_exit_status_finish ::
  "pending_call \<Rightarrow> rpc_failure + gint" where
  "pk_connection_dbus_channel_get_exit_status_finish = finish_with arg_int32"

definition pk_connection_dbus_channel_get_kill_pid_async :: "gint \<Rightarrow> dbus_message" where
  "pk_connection_dbus_channel_get_kill_pid_async channel =
     method_call (channel_prefix @ fmt_int channel)
       ''org.perfkit.Agent.Channel'' ''GetKillPid'' []"

definition pk_connection_dbus_channel_get_kill_pid_finish ::
  "pending_call \<Rightarrow> rpc_failure + bool" where
  "pk_connection_dbus_channel_get_kill_pid_finish = finish_with arg_boolean"

definition pk_connection_dbus_channel_get_pid_async :: "gint \<Rightarrow> dbus_message" where
  "pk_connection_dbus_channel_get_pid_async channel =
     method_call (channel_prefix @ fmt_int channel)
       ''org.perfkit.Agent.Channel'' ''GetPid'' []"

definition pk_connection_dbus_channel_get_pid_finish ::
  "pending_call \<Rightarrow> rpc_failure + gint" where
  "pk_connection_dbus_channel_get_pid_finish = finish_with arg_int32"

definition pk_connection_dbus_channel_get_pid_set_async :: "gint \<Rightarrow> dbus_message" where
  "pk_connection_dbus_channel_get_pid_set_async channel =
     method_call (channel_prefix @ fmt_int channel)
       ''org.perfkit.Agent.Channel'' ''GetPidSet'' []"

definition pk_connection_dbus_channel_get_pid_set_finish ::
  "pending_call \<Rightarrow> rpc_failure + bool" where
  "pk_connection_dbus_channel_get_pid_set_finish = finish_with arg_boolean"

definition pk_connection_dbus_channel_get_sources_async :: "gint \<Rightarrow> dbus_message" where
  "pk_connection_dbus_channel_get_sources_async channel =
     method_call (channel_prefix @ fmt_int channel)
       ''org.perfkit.Agent.Channel'' ''GetSources'' []"

definition pk_connection_dbus_channel_get_sources_finish ::
  "pending_call \<Rightarrow> rpc_failure + gint list" where
  "pk_connection_dbus_channel_get_sources_finish = finish_with (arg_int_paths source_prefix)"

definition pk_connection_dbus_channel_get_state_async :: "gint \<Rightarrow> dbus_message" where
  "pk_connection_dbus_channel_get_state_async channel =
     method_call (channel_prefix @ fmt_int channel)
       ''org.perfkit.Agent.Channel'' ''GetState'' []"

definition pk_connection_dbus_channel_get_state_finish ::
  "pending_call \<Rightarrow> rpc_failure + gint" where
  "pk_connection_dbus_channel_get_state_finish = finish_with arg_int32"

definition pk_connection_dbus_channel_get_target_async :: "gint \<Rightarrow> dbus_message" where
  "pk_connection_dbus_channel_get_target_async channel =
     method_call (channel_prefix @ fmt_int channel)
       ''org.perfkit.Agent.Channel'' ''GetTarget'' []"

definition pk_connection_dbus_channel_get_target_finish ::
  "pending_call \<Rightarrow> rpc_failure + cstring" where
  "pk_connection_dbus_channel_get_target_finish = finish_with arg_string"

definition pk_connection_dbus_channel_get_working_dir_async :: "gint \<Rightarrow> dbus_message" where
  "pk_connection_dbus_channel_get_working_dir_async channel =
     method_call (channel_prefix @ fmt_int channel)
       ''org.perfkit.Agent.Channel'' ''GetWorkingDir'' []"

definition pk_connection_dbus_channel_get_working_dir_finish ::
  "pending_call \<Rightarrow> rpc_failure + cstring" where
  "pk_connection_dbus_channel_get_working_dir_finish = finish_with arg_string"

definition pk_connection_dbus_channel_mute_async :: "gint \<Rightarrow> dbus_message" where
  "pk_connection_dbus_channel_mute_async channel =
     method_call (channel_prefix @ fmt_int channel)
       ''org.perfkit.Agent.Channel'' ''Mute'' []"

definition pk_connection_dbus_channel_mute_finish ::
  "pending_call \<Rightarrow> rpc_failure + unit" where
  "pk_connection_dbus_channel_mute_finish = finish_with arg_none"

definition pk_connection_dbus_channel_set_args_async ::
  "gint \<Rightarrow> cstring list option \<Rightarrow> dbus_message option" where
  "pk_connection_dbus_channel_set_args_async channel args =
     map_option (\<lambda>args. method_call (channel_prefix @ fmt_int channel)
       ''org.perfkit.Agent.Channel'' ''SetArgs'' [Dbus_Strings args]) args"

definition pk_connection_dbus_channel_set_args_finish ::
  "pending_call \<Rightarrow> rpc_failure + unit" where
  "pk_connection_dbus_channel_set_args_finish = finish_with arg_none"

definition pk_connection_dbus_channel_set_env_async ::
  "gint \<Rightarrow> cstring list option \<Rightarrow> dbus_message option" where
  "pk_connection_dbus_channel_set_env_async channel env_vars =
     map_option (\<lambda>env_vars. method_call (channel_prefix @ fmt_int channel)
       ''org.perfkit.Agent.Channel'' ''SetEnv'' [Dbus_Strings env_vars]) env_vars"

definition pk_connection_dbus_channel_set_env_finish ::
  "pending_call \<Rightarrow> rpc_failure + unit" where
  "pk_connection_dbus_channel_set_env_finish = finish_with arg_none"

definition pk_connection_dbus_channel_set_kill_pid_async ::
  "gint \<Rightarrow> bool \<Rightarrow> dbus_message" where
  "pk_connection_dbus_channel_set_kill_pid_async channel kill_pid =
     method_call (channel_prefix @ fmt_int channel)
       ''org.perfkit.Agent.Channel'' ''SetKillPid'' [Dbus_Boolean kill_pid]"

definition pk_connection_dbus_channel_set_kill_pid_finish ::
  "pending_call \<Rightarrow> rpc_failure + unit" where
  "pk_connection_dbus_channel_set_kill_pid_finish = finish_with arg_none"

definition pk_connection_dbus_channel_set_pid_async ::
  "gint \<Rightarrow> gint \<Rightarrow> dbus_message" where
  "pk_connection_dbus_channel_set_pid_async channel pid =
     method_call (channel_prefix @ fmt_int channel)
       ''org.perfkit.Agent.Channel'' ''SetPid'' [Dbus_Int32 pid]"

definition pk_connection_dbus_channel_set_pid_finish ::
  "pending_call \<Rightarrow> rpc_failure + unit" where
  "pk_connection_dbus_channel_set_pid_finish = finish_with arg_none"

definition pk_connection_dbus_channel_set_target_async ::
  "gint \<Rightarrow> cstring option \<Rightarrow> dbus_message" where
  "pk_connection_dbus_channel_set_target_async channel target =
     method_call (channel_prefix @ fmt_int channel)
       ''org.perfkit.Agent.Channel'' ''SetTarget'' [Dbus_String (string_or_empty target)]"

definition pk_connection_dbus_channel_set_target_finish ::
  "pending_call \<Rightarrow> rpc_failure + unit" where
  "pk_connection_dbus_channel_set_target_finish = finish_with arg_none"

definition pk_connection_dbus_channel_set_working_dir_async ::
  "gint \<Rightarrow> cstring option \<Rightarrow> dbus_message" where
  "pk_connection_dbus_channel_set_working_dir_async channel working_dir =
     method_call (channel_prefix @ fmt_int channel)
       ''org.perfkit.Agent.Channel'' ''SetWorkingDir'' [Dbus_String (string_or_empty working_dir)]"

definition pk_connection_dbus_channel_set_working_dir_finish ::
  "pending_call \<Rightarrow> rpc_failure + unit" where
  "pk_connection_dbus_channel_set_working_dir_finish = finish_with arg_none"

definition pk_connection_dbus_channel_start_async :: "gint \<Rightarrow> dbus_message" where
  "pk_connection_dbus_channel_start_async channel =
     method_call (channel_prefix @ fmt_int channel)
       ''org.perfkit.Agent.Channel'' ''Start'' []"

definition pk_connection_dbus_channel_start_finish ::
  "pending_call \<Rightarrow> rpc_failure + unit" where
  "pk_connection_dbus_channel_start_finish = finish_with arg_none"

definition pk_connection_dbus_channel_stop_async :: "gint \<Rightarrow> dbus_message" where
  "pk_connection_dbus_channel_stop_async channel =
     method_call (channel_prefix @ fmt_int channel)
       ''org.perfkit.Agent.Channel'' ''Stop'' []"

definition pk_connection_dbus_channel_stop_finish ::
  "pending_call \<Rightarrow> rpc_failure + unit" where
  "pk_connection_dbus_channel_stop_finish = finish_with arg_none"

definition pk_connection_dbus_channel_unmute_async :: "gint \<Rightarrow> dbus_message" where
  "pk_connection_dbus_channel_unmute_async channel =
     method_call (channel_prefix @ fmt_int channel)
       ''org.perfkit.Agent.Channel'' ''Unmute'' []"

definition pk_connection_dbus_channel_unmute_finish ::
  "pending_call \<Rightarrow> rpc_failure + unit" where
  "pk_connection_dbus_channel_unmute_finish = finish_with arg_none"

subsection \<open>Encoders\<close>

definition pk_connection_dbus_encoder_get_plugin_async :: "gint \<Rightarrow> dbus_message" where
  "pk_connection_dbus_encoder_get_plugin_async encoder =
     method_call (encoder_prefix @ fmt_int encoder)
       ''org.perfkit.Agent.Encoder'' ''GetPlugin'' []"

definition pk_connection_dbus_encoder_get_plugin_finish ::
  "pending_call \<Rightarrow> rpc_failure + cstring option" where
  "pk_connection_dbus_encoder_get_plugin_finish = finish_with (arg_word_path plugin_prefix)"

subsection \<open>The manager\<close>

definition pk_connection_dbus_manager_add_channel_async :: "dbus_message" where
  "pk_connection_dbus_manager_add_channel_async =
     method_call manager_path
       ''org.perfkit.Agent.Manager'' ''AddChannel'' []"

definition pk_connection_dbus_manager_add_channel_finish ::
  "pending_call \<Rightarrow> rpc_failure + gint" where
  "pk_connection_dbus_manager_add_channel_finish = finish_with (arg_int_path channel_prefix)"

definition pk_connection_dbus_manager_add_source_async :: "cstring option \<Rightarrow> dbus_message" where
  "pk_connection_dbus_manager_add_source_async plugin =
     method_call manager_path
       ''org.perfkit.Agent.Manager'' ''AddSource'' [Dbus_Object_Path (plugin_prefix @ fmt_string plugin)]"

definition pk_connection_dbus_manager_add_source_finish ::
  "pending_call \<Rightarrow> rpc_failure + gint" where
  "pk_connection_dbus_manager_add_source_finish = finish_with (arg_int_path source_prefix)"

definition pk_connection_dbus_manager_add_subscription_async ::
  "byte_order \<Rightarrow> gsize \<Rightarrow> gsize \<Rightarrow> dbus_message" where
  "pk_connection_dbus_manager_add_subscription_async ord buffer_size timeout =
     method_call manager_path
       ''org.perfkit.Agent.Manager'' ''AddSubscription'' [Dbus_Int32 (int32_at ord buffer_size), Dbus_Int32 (int32_at ord timeout)]"

definition pk_connection_dbus_manager_add_subscription_finish ::
  "pending_call \<Rightarrow> rpc_failure + gint" where
  "pk_connection_dbus_manager_add_subscription_finish = finish_with (arg_int_path subscription_prefix)"

definition pk_connection_dbus_manager_get_channels_async :: "dbus_message" where
  "pk_connection_dbus_manager_get_channels_async =
     method_call manager_path
       ''org.perfkit.Agent.Manager'' ''GetChannels'' []"

definition pk_connection_dbus_manager_get_channels_finish ::
  "pending_call \<Rightarrow> rpc_failure + gint list" where
  "pk_connection_dbus_manager_get_channels_finish = finish_with (arg_int_paths channel_prefix)"

definition pk_connection_dbus_manager_get_hostname_async :: "dbus_message" where
  "pk_connection_dbus_manager_get_hostname_async =
     method_call manager_path
       ''org.perfkit.Agent.Manager'' ''GetHostname'' []"

definition pk_connection_dbus_manager_get_hostname_finish ::
  "pending_call \<Rightarrow> rpc_failure + cstring" where
  "pk_connection_dbus_manager_get_hostname_finish = finish_with arg_string"

definition pk_connection_dbus_manager_get_plugins_async :: "dbus_message" where
  "pk_connection_dbus_manager_get_plugins_async =
     method_call manager_path
       ''org.perfkit.Agent.Manager'' ''GetPlugins'' []"

definition pk_connection_dbus_manager_get_plugins_finish ::
  "pending_call \<Rightarrow> rpc_failure + cstring option list" where
  "pk_connection_dbus_manager_get_plugins_finish = finish_with (arg_word_paths plugin_prefix)"

definition pk_connection_dbus_manager_get_sources_async :: "dbus_message" where
  "pk_connection_dbus_manager_get_sources_async =
     method_call manager_path
       ''org.perfkit.Agent.Manager'' ''GetSources'' []"

definition pk_connection_dbus_manager_get_sources_finish ::
  "pending_call \<Rightarrow> rpc_failure + gint list" where
  "pk_connection_dbus_manager_get_sources_finish = finish_with (arg_int_paths source_prefix)"

definition pk_connection_dbus_manager_get_subscriptions_async :: "dbus_message" where
  "pk_connection_dbus_manager_get_subscriptions_async =
     method_call manager_path
       ''org.perfkit.Agent.Manager'' ''GetSubscriptions'' []"

definition pk_connection_dbus_manager_get_subscriptions_finish ::
  "pending_call \<Rightarrow> rpc_failure + gint list" where
  "pk_connection_dbus_manager_get_subscriptions_finish = finish_with (arg_int_paths subscription_prefix)"

definition pk_connection_dbus_manager_get_version_async :: "dbus_message" where
  "pk_connection_dbus_manager_get_version_async =
     method_call manager_path
       ''org.perfkit.Agent.Manager'' ''GetVersion'' []"

definition pk_connection_dbus_manager_get_version_finish ::
  "pending_call \<Rightarrow> rpc_failure + cstring" where
  "pk_connection_dbus_manager_get_version_finish = finish_with arg_string"

definition pk_connection_dbus_manager_ping_async :: "dbus_message" where
  "pk_connection_dbus_manager_ping_async =
     method_call manager_path
       ''org.perfkit.Agent.Manager'' ''Ping'' []"

definition pk_connection_dbus_manager_ping_finish ::
  "(cstring \<Rightarrow> g_time_val option) \<Rightarrow> pending_call \<Rightarrow> rpc_failure + g_time_val" where
  "pk_connection_dbus_manager_ping_finish parse = finish_with (arg_time parse)"

definition pk_connection_dbus_manager_remove_channel_async :: "gint \<Rightarrow> dbus_message" where
  "pk_connection_dbus_manager_remove_channel_async channel =
     method_call manager_path
       ''org.perfkit.Agent.Manager'' ''RemoveChannel'' [Dbus_Int32 channel]"

definition pk_connection_dbus_manager_remove_channel_finish ::
  "pending_call \<Rightarrow> rpc_failure + bool" where
  "pk_connection_dbus_manager_remove_channel_finish = finish_with arg_boolean"

definition pk_connection_dbus_manager_remove_source_async :: "gint \<Rightarrow> dbus_message" where
  "pk_connection_dbus_manager_remove_source_async source =
     method_call manager_path
       ''org.perfkit.Agent.Manager'' ''RemoveSource'' [Dbus_Object_Path (source_prefix @ fmt_int source)]"

definition pk_connection_dbus_manager_remove_source_finish ::
  "pending_call \<Rightarrow> rpc_failure + unit" where
  "pk_connection_dbus_manager_remove_source_finish = finish_with arg_none"

definition pk_connection_dbus_manager_remove_subscription_async :: "gint \<Rightarrow> dbus_message" where
  "pk_connection_dbus_manager_remove_subscription_async subscription =
     method_call manager_path
       ''org.perfkit.Agent.Manager'' ''RemoveSubscription'' [Dbus_Object_Path (subscription_prefix @ fmt_int subscription)]"

definition pk_connection_dbus_manager_remove_subscription_finish ::
  "pending_call \<Rightarrow> rpc_failure + bool" where
  "pk_connection_dbus_manager_remove_subscription_finish = finish_with arg_boolean"

subsection \<open>Plugins\<close>

definition pk_connection_dbus_plugin_get_copyright_async :: "cstring option \<Rightarrow> dbus_message" where
  "pk_connection_dbus_plugin_get_copyright_async plugin =
     method_call (plugin_prefix @ fmt_string plugin)
       ''org.perfkit.Agent.Plugin'' ''GetCopyright'' []"

definition pk_connection_dbus_plugin_get_copyright_finish ::
  "pending_call \<Rightarrow> rpc_failure + cstring" where
  "pk_connection_dbus_plugin_get_copyright_finish = finish_with arg_string"

definition pk_connection_dbus_plugin_get_description_async ::
  "cstring option \<Rightarrow> dbus_message" where
  "pk_connection_dbus_plugin_get_description_async plugin =
     method_call (plugin_prefix @ fmt_string plugin)
       ''org.perfkit.Agent.Plugin'' ''GetDescription'' []"

definition pk_connection_dbus_plugin_get_description_finish ::
  "pending_call \<Rightarrow> rpc_failure + cstring" where
  "pk_connection_dbus_plugin_get_description_finish = finish_with arg_string"

definition pk_connection_dbus_plugin_get_name_async :: "cstring option \<Rightarrow> dbus_message" where
  "pk_connection_dbus_plugin_get_name_async plugin =
     method_call (plugin_prefix @ fmt_string plugin)
       ''org.perfkit.Agent.Plugin'' ''GetName'' []"

definition pk_connection_dbus_plugin_get_name_finish ::
  "pending_call \<Rightarrow> rpc_failure + cstring" where
  "pk_connection_dbus_plugin_get_name_finish = finish_with arg_string"

definition pk_connection_dbus_plugin_get_plugin_type_async ::
  "cstring option \<Rightarrow> dbus_message" where
  "pk_connection_dbus_plugin_get_plugin_type_async plugin =
     method_call (plugin_prefix @ fmt_string plugin)
       ''org.perfkit.Agent.Plugin'' ''GetType'' []"

definition pk_connection_dbus_plugin_get_plugin_type_finish ::
  "pending_call \<Rightarrow> rpc_failure + gint" where
  "pk_connection_dbus_plugin_get_plugin_type_finish = finish_with arg_int32"

definition pk_connection_dbus_plugin_get_version_async :: "cstring option \<Rightarrow> dbus_message" where
  "pk_connection_dbus_plugin_get_version_async plugin =
     method_call (plugin_prefix @ fmt_string plugin)
       ''org.perfkit.Agent.Plugin'' ''GetVersion'' []"

definition pk_connection_dbus_plugin_get_version_finish ::
  "pending_call \<Rightarrow> rpc_failure + cstring" where
  "pk_connection_dbus_plugin_get_version_finish = finish_with arg_string"

subsection \<open>Sources\<close>

definition pk_connection_dbus_source_get_plugin_async :: "gint \<Rightarrow> dbus_message" where
  "pk_connection_dbus_source_get_plugin_async source =
     method_call (source_prefix @ fmt_int source)
       ''org.perfkit.Agent.Source'' ''GetPlugin'' []"

definition pk_connection_dbus_source_get_plugin_finish ::
  "pending_call \<Rightarrow> rpc_failure + cstring option" where
  "pk_connection_dbus_source_get_plugin_finish = finish_with (arg_word_path plugin_prefix)"

subsection \<open>Subscriptions\<close>

definition pk_connection_dbus_subscription_add_channel_async ::
  "gint \<Rightarrow> gint \<Rightarrow> bool \<Rightarrow> dbus_message" where
  "pk_connection_dbus_subscription_add_channel_async subscription channel monitor =
     method_call (subscription_prefix @ fmt_int subscription)
       ''org.perfkit.Agent.Subscription'' ''AddChannel'' [Dbus_Int32 channel, Dbus_Boolean monitor]"

definition pk_connection_dbus_subscription_add_channel_finish ::
  "pending_call \<Rightarrow> rpc_failure + unit" where
  "pk_connection_dbus_subscription_add_channel_finish = finish_with arg_none"

definition pk_connection_dbus_subscription_add_source_async ::
  "gint \<Rightarrow> gint \<Rightarrow> dbus_message" where
  "pk_connection_dbus_subscription_add_source_async subscription source =
     method_call (subscription_prefix @ fmt_int subscription)
       ''org.perfkit.Agent.Subscription'' ''AddSource'' [Dbus_Int32 source]"

definition pk_connection_dbus_subscription_add_source_finish ::
  "pending_call \<Rightarrow> rpc_failure + unit" where
  "pk_connection_dbus_subscription_add_source_finish = finish_with arg_none"

definition pk_connection_dbus_subscription_get_buffer_async :: "gint \<Rightarrow> dbus_message" where
  "pk_connection_dbus_subscription_get_buffer_async subscription =
     method_call (subscription_prefix @ fmt_int subscription)
       ''org.perfkit.Agent.Subscription'' ''GetBuffer'' []"

definition pk_connection_dbus_subscription_get_buffer_finish ::
  "pending_call \<Rightarrow> rpc_failure + (gint \<times> gint)" where
  "pk_connection_dbus_subscription_get_buffer_finish = finish_with arg_two_int32"

definition pk_connection_dbus_subscription_get_created_at_async :: "gint \<Rightarrow> dbus_message" where
  "pk_connection_dbus_subscription_get_created_at_async subscription =
     method_call (subscription_prefix @ fmt_int subscription)
       ''org.perfkit.Agent.Subscription'' ''GetCreatedAt'' []"

definition pk_connection_dbus_subscription_get_created_at_finish ::
  "(cstring \<Rightarrow> g_time_val option) \<Rightarrow> pending_call \<Rightarrow> rpc_failure + g_time_val" where
  "pk_connection_dbus_subscription_get_created_at_finish parse = finish_with (arg_time parse)"

definition pk_connection_dbus_subscription_get_sources_async :: "gint \<Rightarrow> dbus_message" where
  "pk_connection_dbus_subscription_get_sources_async subscription =
     method_call (subscription_prefix @ fmt_int subscription)
       ''org.perfkit.Agent.Subscription'' ''GetSources'' []"

definition pk_connection_dbus_subscription_get_sources_finish ::
  "pending_call \<Rightarrow> rpc_failure + gint list" where
  "pk_connection_dbus_subscription_get_sources_finish = finish_with (arg_int_paths source_prefix)"

definition pk_connection_dbus_subscription_mute_async ::
  "gint \<Rightarrow> bool \<Rightarrow> dbus_message" where
  "pk_connection_dbus_subscription_mute_async subscription drain =
     method_call (subscription_prefix @ fmt_int subscription)
       ''org.perfkit.Agent.Subscription'' ''Mute'' [Dbus_Boolean drain]"

definition pk_connection_dbus_subscription_mute_finish ::
  "pending_call \<Rightarrow> rpc_failure + unit" where
  "pk_connection_dbus_subscription_mute_finish = finish_with arg_none"

definition pk_connection_dbus_subscription_remove_channel_async ::
  "gint \<Rightarrow> gint \<Rightarrow> dbus_message" where
  "pk_connection_dbus_subscription_remove_channel_async subscription channel =
     method_call (subscription_prefix @ fmt_int subscription)
       ''org.perfkit.Agent.Subscription'' ''RemoveChannel'' [Dbus_Int32 channel]"

definition pk_connection_dbus_subscription_remove_channel_finish ::
  "pending_call \<Rightarrow> rpc_failure + unit" where
  "pk_connection_dbus_subscription_remove_channel_finish = finish_with arg_none"

definition pk_connection_dbus_subscription_remove_source_async ::
  "gint \<Rightarrow> gint \<Rightarrow> dbus_message" where
  "pk_connection_dbus_subscription_remove_source_async subscription source =
     method_call (subscription_prefix @ fmt_int subscription)
       ''org.perfkit.Agent.Subscription'' ''RemoveSource'' [Dbus_Int32 source]"

definition pk_connection_dbus_subscription_remove_source_finish ::
  "pending_call \<Rightarrow> rpc_failure + unit" where
  "pk_connection_dbus_subscription_remove_source_finish = finish_with arg_none"

definition pk_connection_dbus_subscription_set_buffer_async ::
  "gint \<Rightarrow> gint \<Rightarrow> gint \<Rightarrow> dbus_message" where
  "pk_connection_dbus_subscription_set_buffer_async subscription timeout size_arg =
     method_call (subscription_prefix @ fmt_int subscription)
       ''org.perfkit.Agent.Subscription'' ''SetBuffer'' [Dbus_Int32 timeout, Dbus_Int32 size_arg]"

definition pk_connection_dbus_subscription_set_buffer_finish ::
  "pending_call \<Rightarrow> rpc_failure + unit" where
  "pk_connection_dbus_subscription_set_buffer_finish = finish_with arg_none"

definition pk_connection_dbus_subscription_set_encoder_async ::
  "gint \<Rightarrow> gint \<Rightarrow> dbus_message" where
  "pk_connection_dbus_subscription_set_encoder_async subscription encoder =
     method_call (subscription_prefix @ fmt_int subscription)
       ''org.perfkit.Agent.Subscription'' ''SetEncoder'' [Dbus_Int32 encoder]"

definition pk_connection_dbus_subscription_set_encoder_finish ::
  "pending_call \<Rightarrow> rpc_failure + unit" where
  "pk_connection_dbus_subscription_set_encoder_finish = finish_with arg_none"

definition pk_connection_dbus_subscription_unmute_async :: "gint \<Rightarrow> dbus_message" where
  "pk_connection_dbus_subscription_unmute_async subscription =
     method_call (subscription_prefix @ fmt_int subscription)
       ''org.perfkit.Agent.Subscription'' ''Unmute'' []"

definition pk_connection_dbus_subscription_unmute_finish ::
  "pending_call \<Rightarrow> rpc_failure + unit" where
  "pk_connection_dbus_subscription_unmute_finish = finish_with arg_none"

section \<open>Connecting\<close>

text \<open>
  What connecting meets: the session bus, the answer to a blocking \<open>Ping\<close> (None: it could not be sent or nobody
  answered), a directory for the socket, the server on it, and the filter.
\<close>

record connect_env =
  ce_bus :: bool
  ce_ping :: "dbus_reply option"
  ce_directory :: bool
  ce_server :: bool
  ce_filter :: bool
  ce_tmp_dir :: cstring
  ce_user_name :: cstring
  ce_pid :: guint

datatype connect_error = Connect_State dbus_state | Connect_No_Bus | Connect_No_Agent | Connect_No_Server

text \<open>\<open>Connect_Quiet\<close> is FALSE with no error set.\<close>

datatype connect_result = Connect_True | Connect_Error connect_error | Connect_Quiet

definition socket_path :: "connect_env \<Rightarrow> gint \<Rightarrow> cstring" where
  "socket_path env n =
     ascii ''unix:path='' @ ce_tmp_dir env @ ascii ''/perfkit-'' @ ce_user_name env @ ascii ''/dbus-'' @
       digits (unat (ce_pid env)) @ ascii ''-'' @ fmt_int n @ ascii ''.socket''"

definition connect_locked :: "connect_env \<Rightarrow> gint \<Rightarrow> pk_connection \<Rightarrow> connect_result \<times> gint \<times> pk_connection" where
  "connect_locked env id_seq c =
     (if pc_dbus_state c \<noteq> STATE_INITIAL then (Connect_Error (Connect_State (pc_dbus_state c)), id_seq, c)
      else if \<not> ce_bus env then (Connect_Error Connect_No_Bus, id_seq, c\<lparr>pc_dbus := False\<rparr>)
      else (let c = c\<lparr>pc_dbus := True\<rparr> in
        case ce_ping env of
          Some (Method_Return _) \<Rightarrow>
            (let c = c\<lparr>pc_dbus_state := STATE_CONNECTED\<rparr> in
             if \<not> ce_directory env then (Connect_Quiet, id_seq, c)
             else case pk_connection_dbus_next_id id_seq of (n, id_seq) \<Rightarrow>
               let path = socket_path env n in
               if \<not> ce_server env then (Connect_Error Connect_No_Server, id_seq, c)
               else (let c = c\<lparr>pc_server := Some path, pc_outbox := pc_outbox c @
                       [method_call manager_path ''org.perfkit.Agent.Manager'' ''SetDeliveryPath'' [Dbus_String path]]\<rparr>
                     in if \<not> ce_filter env then (Connect_Quiet, id_seq, c)
                        else (Connect_True, id_seq, c\<lparr>pc_filter := True\<rparr>)))
        | _ \<Rightarrow> (Connect_Error Connect_No_Agent, id_seq, c)))"

definition pk_connection_dbus_connect_finish ::
  "connect_env \<Rightarrow> gint \<Rightarrow> pk_connection \<Rightarrow> connect_result \<times> gint \<times> pk_connection" where
  "pk_connection_dbus_connect_finish env id_seq c =
     (case connect_locked env id_seq c of
        (res, id_seq, c) \<Rightarrow>
          (res, id_seq, pk_connection_emit_state_changed
             (if res = Connect_True then PK_CONNECTION_CONNECTED else PK_CONNECTION_FAILED) c))"

definition pk_connection_dbus_disconnect_finish :: "pk_connection \<Rightarrow> pk_connection" where
  "pk_connection_dbus_disconnect_finish c =
     pk_connection_emit_state_changed PK_CONNECTION_DISCONNECTED (c\<lparr>pc_dbus := False\<rparr>)"

section \<open>Handlers\<close>

definition handler_path :: "gint \<Rightarrow> cstring" where
  "handler_path subscription = handler_prefix @ fmt_int subscription"

text \<open>The agent connected to the socket: the handlers that exist by now get their object paths.\<close>

definition pk_connection_dbus_handle_connection :: "pk_connection \<Rightarrow> pk_connection" where
  "pk_connection_dbus_handle_connection c =
     (if pc_client c then c
      else c\<lparr>pc_client := True,
             pc_paths := pc_paths c \<union>
               set (map (handler_path \<circ> ph_subscription) (handler_values ph_subscription (pc_handlers c)))\<rparr>)"

text \<open>
  \<open>SetHandler\<close> is sent when the agent has connected to the socket; a handler that is set before is not
  announced to the agent, then or later. The callback runs before the function returns.
\<close>

definition pk_connection_dbus_subscription_set_handlers_async ::
  "gint \<Rightarrow> gint \<Rightarrow> pk_connection \<Rightarrow> gint \<times> pk_connection" where
  "pk_connection_dbus_subscription_set_handlers_async id_seq subscription c =
     (if sint subscription < 0 then (id_seq, c)
      else case pk_connection_dbus_next_handler_id id_seq of (n, id_seq) \<Rightarrow>
        let handler = \<lparr>ph_id = n, ph_subscription = subscription, ph_manifests = Map.empty\<rparr>;
            c = c\<lparr>pc_handlers := handler_insert subscription handler (pc_handlers c)\<rparr>
        in if \<not> pc_client c then (id_seq, c)
           else (id_seq,
             c\<lparr>pc_paths := insert (handler_path subscription) (pc_paths c),
               pc_outbox := pc_outbox c @
                 [method_call (subscription_prefix @ fmt_int subscription) ''org.perfkit.Agent.Subscription''
                    ''SetHandler'' [Dbus_Object_Path (handler_path subscription)]]\<rparr>))"

definition pk_connection_dbus_subscription_set_handlers_finish :: bool where
  "pk_connection_dbus_subscription_set_handlers_finish = True"

section \<open>Delivery\<close>

text \<open>
  The length of the byte array is stored as 32 bits at the address of a \<open>gsize\<close> that is 0; on a big-endian host
  the data is overrun.
\<close>

definition array_length :: "byte_order \<Rightarrow> u8 list \<Rightarrow> nat" where
  "array_length ord data =
     (case ord of G_LITTLE_ENDIAN \<Rightarrow> length data | G_BIG_ENDIAN \<Rightarrow> length data * 2 ^ 32)"

definition arg_bytes :: "dbus_arg list \<Rightarrow> u8 list option" where
  "arg_bytes args = (case args of Dbus_Bytes data # _ \<Rightarrow> Some data | _ \<Rightarrow> None)"

definition pk_connection_dbus_dispatch_manifest ::
  "g_array_sort \<Rightarrow> byte_order \<Rightarrow> gint \<Rightarrow> dbus_message \<Rightarrow> pk_connection \<Rightarrow> unit outcome \<times> pk_connection" where
  "pk_connection_dbus_dispatch_manifest gsort ord subscription m c =
     (case handler_lookup subscription (pc_handlers c) of
        (None, t) \<Rightarrow> (Failed, c\<lparr>pc_handlers := t\<rparr>)
      | (Some handler, t) \<Rightarrow>
          (let c = c\<lparr>pc_handlers := t\<rparr> in
           case arg_bytes (dm_args m) of
             None \<Rightarrow> (Failed, c)
           | Some data \<Rightarrow>
               if array_length ord data \<noteq> length data then (Fault, c)
               else (case pk_manifest_new_from_data gsort ord data of
                       Failed \<Rightarrow> (Failed, c)
                     | Fault \<Rightarrow> (Fault, c)
                     | Value manifest \<Rightarrow>
                         (Value (),
                          c\<lparr>pc_handlers := handler_update subscription
                              (\<lambda>h. h\<lparr>ph_manifests := (ph_manifests h)(pk_manifest_get_source_id manifest \<mapsto> manifest)\<rparr>)
                              (pc_handlers c),
                            pc_calls := pc_calls c @ [Manifest_Call (ph_id handler) manifest]\<rparr>))))"

definition handler_manifest_lookup :: "pk_handler \<Rightarrow> gint \<Rightarrow> pk_manifest option" where
  "handler_manifest_lookup handler source_id = ph_manifests handler source_id"

text \<open>
  The loop over the samples of a message: how it ended, and the calls of the closure. None is a loop that does
  not end; taking more than there is left makes the rest huge.
\<close>

partial_function (option) dispatch_samples ::
  "byte_order \<Rightarrow> gtypes \<Rightarrow> pk_handler \<Rightarrow> u8 list \<Rightarrow> (unit outcome \<times> handler_call list) option" where
  "dispatch_samples ord gt handler data =
     (if data = [] then Some (Value (), [])
      else case pk_sample_new_from_data ord gt (handler_manifest_lookup handler) data of
             (Failed, n_read) \<Rightarrow> Some (Failed, [])
           | (Fault, n_read) \<Rightarrow> Some (Fault, [])
           | (Value sample, n_read) \<Rightarrow>
               if length data < n_read then Some (Fault, [])
               else Option.bind (dispatch_samples ord gt handler (drop n_read data))
                 (\<lambda>(res, calls).
                    Some (res, Sample_Call (ph_id handler)
                      (handler_manifest_lookup handler (pk_sample_get_source_id sample)) sample # calls)))"

definition pk_connection_dbus_dispatch_sample ::
  "byte_order \<Rightarrow> gtypes \<Rightarrow> gint \<Rightarrow> dbus_message \<Rightarrow> pk_connection \<Rightarrow> (unit outcome \<times> pk_connection) option" where
  "pk_connection_dbus_dispatch_sample ord gt subscription m c =
     (case handler_lookup subscription (pc_handlers c) of
        (None, t) \<Rightarrow> Some (Failed, c\<lparr>pc_handlers := t\<rparr>)
      | (Some handler, t) \<Rightarrow>
          (let c = c\<lparr>pc_handlers := t\<rparr> in
           case arg_bytes (dm_args m) of
             None \<Rightarrow> Some (Failed, c)
           | Some data \<Rightarrow>
               if array_length ord data \<noteq> length data then Some (Fault, c)
               else map_option (\<lambda>(res, calls). (res, c\<lparr>pc_calls := pc_calls c @ calls\<rparr>))
                      (dispatch_samples ord gt handler data)))"

text \<open>A failed dispatch is answered with an error, and returned as not handled.\<close>

definition dispatch_result :: "unit outcome \<Rightarrow> handler_result" where
  "dispatch_result res =
     (case res of
        Value _ \<Rightarrow> Handled [] | Failed \<Rightarrow> Not_Handled [Error_Reply Handler_Error] | Fault \<Rightarrow> Crashed)"

definition pk_connection_dbus_handle_handler_message ::
  "g_array_sort \<Rightarrow> byte_order \<Rightarrow> gtypes \<Rightarrow> dbus_message \<Rightarrow> pk_connection \<Rightarrow>
     (handler_result \<times> pk_connection) option" where
  "pk_connection_dbus_handle_handler_message gsort ord gt m c =
     (if dm_interface m \<noteq> ''org.perfkit.Agent.Handler'' then Some (Not_Handled [], c)
      else case sscanf_int handler_prefix (dm_path m) of
             None \<Rightarrow> Some (Not_Handled [], c)
           | Some subscription \<Rightarrow>
               if dm_member m = ''SendManifest'' then
                 (case pk_connection_dbus_dispatch_manifest gsort ord subscription m c of
                    (res, c) \<Rightarrow> Some (dispatch_result res, c))
               else if dm_member m = ''SendSample'' then
                 map_option (\<lambda>(res, c). (dispatch_result res, c))
                   (pk_connection_dbus_dispatch_sample ord gt subscription m c)
               else Some (Not_Handled [], c))"

text \<open>A message on the private connection.\<close>

definition deliver ::
  "g_array_sort \<Rightarrow> byte_order \<Rightarrow> gtypes \<Rightarrow> dbus_message \<Rightarrow> pk_connection \<Rightarrow>
     (handler_result \<times> pk_connection) option" where
  "deliver gsort ord gt m c =
     (if dm_path m \<in> pc_paths c then pk_connection_dbus_handle_handler_message gsort ord gt m c
      else Some (Not_Handled [], c))"

section \<open>Signals\<close>

definition signal_int :: "cstring \<Rightarrow> (gint \<Rightarrow> connection_event) \<Rightarrow> cstring \<Rightarrow> pk_connection \<Rightarrow> pk_connection" where
  "signal_int prefix event path c = (case sscanf_int prefix path of None \<Rightarrow> c | Some i \<Rightarrow> emit (event i) c)"

definition signal_word :: "cstring \<Rightarrow> (cstring \<Rightarrow> connection_event) \<Rightarrow> cstring \<Rightarrow> pk_connection \<Rightarrow> pk_connection" where
  "signal_word prefix event path c = (case sscanf_word prefix path of None \<Rightarrow> c | Some i \<Rightarrow> emit (event i) c)"

text \<open>A signal of the agent's manager: its name and the object path that it carries.\<close>

definition pk_connection_dbus_message_filter :: "string \<times> cstring \<Rightarrow> pk_connection \<Rightarrow> pk_connection" where
  "pk_connection_dbus_message_filter sig c =
     (case sig of (name, path) \<Rightarrow>
        if name = ''ChannelAdded'' then signal_int channel_prefix Channel_Added path c
        else if name = ''ChannelRemoved'' then signal_int channel_prefix Channel_Removed path c
        else if name = ''SourceAdded'' then signal_int source_prefix Source_Added path c
        else if name = ''SourceRemoved'' then signal_int source_prefix Source_Removed path c
        else if name = ''PluginAdded'' then signal_word plugin_prefix Plugin_Added path c
        else if name = ''PluginRemoved'' then signal_word plugin_prefix Plugin_Removed path c
        else if name = ''EncoderAdded'' then signal_int encoder_prefix Encoder_Added path c
        else if name = ''EncoderRemoved'' then signal_int encoder_prefix Encoder_Removed path c
        else if name = ''SubscriptionAdded'' then signal_int subscription_prefix Subscription_Added path c
        else if name = ''SubscriptionRemoved'' then signal_int subscription_prefix Subscription_Removed path c
        else c)"

end
