(* ===== verification/Client_Delivery.thy ===== *)
theory Client_Delivery
  imports Pk_Connection_DBus Agent_Service
begin

text \<open>
  Delivery at the client: whatever the agent sends, the client's loop over the samples ends, nothing freed is
  used, and the closures get samples that fit their manifests; and what goes wrong when the handlers of one
  subscription are set twice.
\<close>

section \<open>Tables of handlers\<close>

text \<open>A table in which no entry was ever replaced: every key lies in the value of its entry.\<close>

definition table_ok :: "('h \<Rightarrow> gint) \<Rightarrow> 'h handler_table \<Rightarrow> bool" where
  "table_ok key_of t \<longleftrightarrow>
     \<not> ht_fault t \<and> (\<forall>r. \<not> ht_freed t r) \<and>
     (\<forall>i k v. ht_entries t i = Some (k, v) \<longrightarrow> k = v \<and> v < ht_next t \<and> key_of (ht_store t v) = i)"

lemma table_ok_new: "table_ok key_of (handler_table_new h)"
  by (simp add: table_ok_def handler_table_new_def)

lemma table_ok_lookup:
  assumes "table_ok key_of t"
  shows "handler_lookup i t = (map_option (\<lambda>(k, v). ht_store t v) (ht_entries t i), t)"
  using assms by (auto simp: handler_lookup_def table_ok_def split: option.split)

lemma table_ok_insert:
  assumes "table_ok key_of t" "ht_entries t i = None" "key_of h = i"
  shows "table_ok key_of (handler_insert i h t)"
  using assms by (fastforce simp: table_ok_def handler_insert_def Let_def)

lemma table_ok_update:
  assumes "table_ok key_of t" "\<And>h. key_of (f h) = key_of h"
  shows "table_ok key_of (handler_update i f t)"
  using assms by (auto simp: table_ok_def handler_update_def split: option.split)

text \<open>Replacing an entry leaves its key in a freed object, which every later look at the entry reads.\<close>

lemma table_second_insert:
  assumes "table_ok key_of t" "ht_entries t i \<noteq> None"
  shows "ht_fault (snd (handler_lookup i (handler_insert i h t)))"
    and "fst (handler_lookup i (handler_insert i h t)) = Some h"
  using assms by (auto simp: handler_lookup_def handler_insert_def Let_def table_ok_def split: option.splits)

section \<open>What the client keeps\<close>

text \<open>The manifests of a handler are whole, and each is stored under its own source.\<close>

definition manifests_ok :: "(gint \<rightharpoonup> pk_manifest) \<Rightarrow> bool" where
  "manifests_ok ms \<longleftrightarrow>
     (\<forall>i m. ms i = Some m \<longrightarrow> pk_manifest_wf m \<and> pk_manifest_get_source_id m = i)"

definition connection_ok :: "pk_connection \<Rightarrow> bool" where
  "connection_ok c \<longleftrightarrow>
     table_ok ph_subscription (pc_handlers c) \<and> (\<forall>v. manifests_ok (ph_manifests (ht_store (pc_handlers c) v)))"

lemma connection_ok_init: "connection_ok pk_connection_dbus_init"
  by (simp add: connection_ok_def pk_connection_dbus_init_def table_ok_new)
    (simp add: handler_table_new_def manifests_ok_def)

text \<open>
  A sample goes to the closure together with a manifest of the same source, in which all its fields have
  their types.
\<close>

definition call_ok :: "gtypes \<Rightarrow> handler_call \<Rightarrow> bool" where
  "call_ok gt k =
     (case k of
        Manifest_Call _ m \<Rightarrow> pk_manifest_wf m
      | Sample_Call _ None s \<Rightarrow> False
      | Sample_Call _ (Some m) s \<Rightarrow>
          pk_manifest_wf m \<and> pk_manifest_get_source_id m = pk_sample_get_source_id s \<and>
          list_all (field_typed gt m) (pks_ar s))"

text \<open>
  The loop: the first sample that is accepted has used all the bytes, so there is no second round. It can leave its
  blocks only when a manifest has brought a type that the client does not know.
\<close>

definition brought_unknown_type :: "gtypes \<Rightarrow> (gint \<rightharpoonup> pk_manifest) \<Rightarrow> bool" where
  "brought_unknown_type gt ms \<longleftrightarrow> (\<exists>i m. ms i = Some m \<and> \<not> types_known gt m)"

lemma dispatch_samples_ends:
  assumes ms: "manifests_ok (ph_manifests h)" and len: "length data < 2 ^ 32"
  obtains res calls where "dispatch_samples ord gt h data = Some (res, calls)"
    "res = Fault \<longrightarrow> brought_unknown_type gt (ph_manifests h)" "length calls \<le> 1" "list_all (call_ok gt) calls"
proof (cases "data = []")
  case True
  show thesis
    by (rule that [of "Value ()" "[]"]) (simp_all add: dispatch_samples.simps [of ord gt h "[]"] True)
next
  case False
  obtain x n where x: "pk_sample_new_from_data ord gt (handler_manifest_lookup h) data = (x, n)"
    by fastforce
  have sound: "brought_unknown_type gt (ph_manifests h)" if "x = Fault"
  proof (rule ccontr)
    assume "\<not> brought_unknown_type gt (ph_manifests h)"
    then have "\<forall>i m. handler_manifest_lookup h i = Some m \<longrightarrow> pk_manifest_wf m \<and> types_known gt m"
      using ms by (auto simp: manifests_ok_def handler_manifest_lookup_def brought_unknown_type_def)
    from sample_from_data_sound [OF len this, of ord] show False using x that by simp
  qed
  show thesis
  proof (cases x)
    case (Value s)
    with x have n: "n = length data" using accepted_uses_all [OF _ len] by blast
    obtain m where m: "handler_manifest_lookup h (pk_sample_get_source_id s) = Some m"
        "list_all (field_typed gt m) (pks_ar s)"
      using sample_from_data_typed [OF x [unfolded Value]] .
    have "dispatch_samples ord gt h data = Some (Value (), [Sample_Call (ph_id h) (Some m) s])"
      using x Value False m(1) n
      by (simp add: dispatch_samples.simps [of ord gt h data] dispatch_samples.simps [of ord gt h "[]"])
    then show thesis
    proof (rule that)
      have "pk_manifest_wf m \<and> pk_manifest_get_source_id m = pk_sample_get_source_id s"
        using ms m(1) by (simp add: manifests_ok_def handler_manifest_lookup_def)
      with m(2) show "list_all (call_ok gt) [Sample_Call (ph_id h) (Some m) s]"
        by (simp add: call_ok_def)
    qed simp_all
  next
    case Failed
    show thesis
      by (rule that [of Failed "[]"])
        (use x Failed False in \<open>simp_all add: dispatch_samples.simps [of ord gt h data]\<close>)
  next
    case Fault
    show thesis
      by (rule that [of Fault "[]"])
        (use x Fault False sound in \<open>simp_all add: dispatch_samples.simps [of ord gt h data]\<close>)
  qed
qed

text \<open>The manifests that the client has kept for the samples of some subscription.\<close>

definition unknown_type_kept :: "gtypes \<Rightarrow> pk_connection \<Rightarrow> bool" where
  "unknown_type_kept gt c \<longleftrightarrow>
     (\<exists>i k v. ht_entries (pc_handlers c) i = Some (k, v) \<and> brought_unknown_type gt (ph_manifests (ht_store (pc_handlers c) v)))"

text \<open>The bytes of a message.\<close>

definition message_short :: "dbus_message \<Rightarrow> bool" where
  "message_short m \<longleftrightarrow> (\<forall>data. arg_bytes (dm_args m) = Some data \<longrightarrow> length data < 2 ^ 32)"

lemma dispatch_manifest_ok:
  assumes ok: "connection_ok c" and gsort: "permutes gsort" and m: "message_short m"
    and run: "pk_connection_dbus_dispatch_manifest gsort G_LITTLE_ENDIAN i m c = (res, c')"
  shows "res \<noteq> Fault" "connection_ok c'"
    "\<exists>calls. pc_calls c' = pc_calls c @ calls \<and> length calls \<le> 1 \<and> list_all (call_ok gt) calls"
proof -
  have t: "table_ok ph_subscription (pc_handlers c)"
    and ms: "manifests_ok (ph_manifests (ht_store (pc_handlers c) v))" for v
    using ok by (auto simp: connection_ok_def)
  note look = table_ok_lookup [OF t, of i]
  have "res \<noteq> Fault \<and> connection_ok c' \<and>
    (\<exists>calls. pc_calls c' = pc_calls c @ calls \<and> length calls \<le> 1 \<and> list_all (call_ok gt) calls)"
  proof (cases "ht_entries (pc_handlers c) i = None \<or> arg_bytes (dm_args m) = None")
    case True
    then show ?thesis
      using run ok by (auto simp: pk_connection_dbus_dispatch_manifest_def look split: option.splits)
  next
    case False
    then obtain k v data where e: "ht_entries (pc_handlers c) i = Some (k, v)"
      and data: "arg_bytes (dm_args m) = Some data"
      by auto
    have len: "length data < 2 ^ 32" using m data by (simp add: message_short_def)
    note sound = manifest_from_data_sound [OF gsort len, of G_LITTLE_ENDIAN]
    show ?thesis
    proof (cases "pk_manifest_new_from_data gsort G_LITTLE_ENDIAN data")
      case (Value manifest)
      with sound have wf: "pk_manifest_wf manifest" by simp
      let ?f = "\<lambda>h. h\<lparr>ph_manifests := (ph_manifests h)(pk_manifest_get_source_id manifest \<mapsto> manifest)\<rparr>"
      have run': "res = Value ()"
        "c' = c\<lparr>pc_handlers := handler_update i ?f (pc_handlers c),
                pc_calls := pc_calls c @ [Manifest_Call (ph_id (ht_store (pc_handlers c) v)) manifest]\<rparr>"
        using run e data Value
        by (simp_all add: pk_connection_dbus_dispatch_manifest_def look array_length_def)
      have "table_ok ph_subscription (handler_update i ?f (pc_handlers c))"
        by (rule table_ok_update [OF t]) simp
      moreover have "manifests_ok (ph_manifests (ht_store (handler_update i ?f (pc_handlers c)) w))" for w
        using ms [of w] wf e by (auto simp: manifests_ok_def handler_update_def)
      ultimately show ?thesis
        using wf by (simp add: run' connection_ok_def call_ok_def)
    next
      case Failed
      then show ?thesis
        using run ok e data by (auto simp: pk_connection_dbus_dispatch_manifest_def look array_length_def)
    next
      case Fault
      with sound show ?thesis by simp
    qed
  qed
  then show "res \<noteq> Fault" "connection_ok c'"
    "\<exists>calls. pc_calls c' = pc_calls c @ calls \<and> length calls \<le> 1 \<and> list_all (call_ok gt) calls"
    by simp_all
qed

lemma dispatch_sample_ok:
  assumes ok: "connection_ok c" and m: "message_short m"
  obtains res c' calls where "pk_connection_dbus_dispatch_sample G_LITTLE_ENDIAN gt i m c = Some (res, c')"
    "res = Fault \<longrightarrow> unknown_type_kept gt c" "connection_ok c'" "pc_calls c' = pc_calls c @ calls" "length calls \<le> 1"
    "list_all (call_ok gt) calls"
proof -
  have t: "table_ok ph_subscription (pc_handlers c)"
    and ms: "manifests_ok (ph_manifests (ht_store (pc_handlers c) v))" for v
    using ok by (auto simp: connection_ok_def)
  note look = table_ok_lookup [OF t, of i]
  show thesis
  proof (cases "ht_entries (pc_handlers c) i = None \<or> arg_bytes (dm_args m) = None")
    case True
    show thesis
      by (rule that [of Failed c "[]"])
        (use True ok in \<open>auto simp: pk_connection_dbus_dispatch_sample_def look split: option.splits\<close>)
  next
    case False
    then obtain k v data where e: "ht_entries (pc_handlers c) i = Some (k, v)"
      and data: "arg_bytes (dm_args m) = Some data"
      by auto
    have len: "length data < 2 ^ 32" using m data by (simp add: message_short_def)
    obtain res calls where
      "dispatch_samples G_LITTLE_ENDIAN gt (ht_store (pc_handlers c) v) data = Some (res, calls)"
      and calls: "res = Fault \<longrightarrow> brought_unknown_type gt (ph_manifests (ht_store (pc_handlers c) v))" "length calls \<le> 1"
        "list_all (call_ok gt) calls"
      using dispatch_samples_ends [OF ms len] .
    moreover have "res = Fault \<longrightarrow> unknown_type_kept gt c" using calls(1) e by (auto simp: unknown_type_kept_def)
    ultimately show thesis
      using e data ok
      by (intro that [of res "c\<lparr>pc_calls := pc_calls c @ calls\<rparr>" calls])
        (simp_all add: pk_connection_dbus_dispatch_sample_def look array_length_def connection_ok_def)
  qed
qed

section \<open>Runs of a client\<close>

text \<open>
  The connections that a program gets by connecting, setting the handlers of each subscription at most once, and
  receiving any messages and signals at all.
\<close>

inductive client_run :: "g_array_sort \<Rightarrow> gtypes \<Rightarrow> pk_connection \<Rightarrow> bool" for gsort gt where
  run_init: "client_run gsort gt pk_connection_dbus_init"
| run_connect: "client_run gsort gt c \<Longrightarrow> client_run gsort gt (snd (snd (pk_connection_dbus_connect_finish env n c)))"
| run_disconnect: "client_run gsort gt c \<Longrightarrow> client_run gsort gt (pk_connection_dbus_disconnect_finish c)"
| run_agent_connects: "client_run gsort gt c \<Longrightarrow> client_run gsort gt (pk_connection_dbus_handle_connection c)"
| run_set_handlers: "client_run gsort gt c \<Longrightarrow> ht_entries (pc_handlers c) i = None \<Longrightarrow>
    client_run gsort gt (snd (pk_connection_dbus_subscription_set_handlers_async n i c))"
| run_signal: "client_run gsort gt c \<Longrightarrow> client_run gsort gt (pk_connection_dbus_message_filter sig c)"
| run_deliver: "client_run gsort gt c \<Longrightarrow> message_short m \<Longrightarrow>
    deliver gsort G_LITTLE_ENDIAN gt m c = Some (res, c') \<Longrightarrow> client_run gsort gt c'"

lemma connection_ok_handlers: "pc_handlers c' = pc_handlers c \<Longrightarrow> connection_ok c \<Longrightarrow> connection_ok c'"
  by (simp add: connection_ok_def)

lemma deliver_ok:
  assumes ok: "connection_ok c" and gsort: "permutes gsort" and m: "message_short m"
  obtains res c' calls where "deliver gsort G_LITTLE_ENDIAN gt m c = Some (res, c')" "res = Crashed \<longrightarrow> unknown_type_kept gt c"
    "connection_ok c'" "pc_calls c' = pc_calls c @ calls" "length calls \<le> 1" "list_all (call_ok gt) calls"
proof -
  let ?hit = "dm_path m \<in> pc_paths c \<and> dm_interface m = ''org.perfkit.Agent.Handler'' \<and>
      sscanf_int handler_prefix (dm_path m) \<noteq> None"
  have "?hit \<and> dm_member m = ''SendManifest'' \<or> ?hit \<and> dm_member m = ''SendSample'' \<or>
      deliver gsort G_LITTLE_ENDIAN gt m c = Some (Not_Handled [], c)"
    by (auto simp: deliver_def pk_connection_dbus_handle_handler_message_def split: option.split)
  then consider (manifest) i where "dm_path m \<in> pc_paths c" "dm_interface m = ''org.perfkit.Agent.Handler''"
      "sscanf_int handler_prefix (dm_path m) = Some i" "dm_member m = ''SendManifest''"
    | (sample) i where "dm_path m \<in> pc_paths c" "dm_interface m = ''org.perfkit.Agent.Handler''"
      "sscanf_int handler_prefix (dm_path m) = Some i" "dm_member m = ''SendSample''"
    | (other) "deliver gsort G_LITTLE_ENDIAN gt m c = Some (Not_Handled [], c)"
    by blast
  then show thesis
  proof cases
    case (manifest i)
    obtain r c' where run: "pk_connection_dbus_dispatch_manifest gsort G_LITTLE_ENDIAN i m c = (r, c')"
      by fastforce
    note d = dispatch_manifest_ok [OF ok gsort m run]
    obtain calls where "pc_calls c' = pc_calls c @ calls" "length calls \<le> 1" "list_all (call_ok gt) calls"
      using d(3) by blast
    then show thesis
      using manifest run d(1,2)
      by (intro that [of "dispatch_result r" c' calls])
        (simp_all add: deliver_def pk_connection_dbus_handle_handler_message_def dispatch_result_def
          split: outcome.split)
  next
    case (sample i)
    obtain r c' calls where "pk_connection_dbus_dispatch_sample G_LITTLE_ENDIAN gt i m c = Some (r, c')"
      "r = Fault \<longrightarrow> unknown_type_kept gt c" "connection_ok c'" "pc_calls c' = pc_calls c @ calls" "length calls \<le> 1"
      "list_all (call_ok gt) calls"
      using dispatch_sample_ok [OF ok m] .
    then show thesis
      using sample
      by (intro that [of "dispatch_result r" c' calls])
        (simp_all add: deliver_def pk_connection_dbus_handle_handler_message_def dispatch_result_def
          split: outcome.split)
  next
    case other
    then show thesis
      using ok by (intro that [of "Not_Handled []" c "[]"]) simp_all
  qed
qed

lemma client_run_ok:
  assumes "client_run gsort gt c" and gsort: "permutes gsort"
  shows "connection_ok c"
  using assms(1)
proof induction
  case (run_connect c env n)
  show ?case
    by (rule connection_ok_handlers [OF _ run_connect.IH])
      (simp add: pk_connection_dbus_connect_finish_def connect_locked_def pk_connection_emit_state_changed_def
        emit_def Let_def split: prod.split option.split dbus_reply.split)
next
  case (run_disconnect c)
  show ?case
    by (rule connection_ok_handlers [OF _ run_disconnect.IH])
      (simp add: pk_connection_dbus_disconnect_finish_def pk_connection_emit_state_changed_def emit_def)
next
  case (run_agent_connects c)
  show ?case
    by (rule connection_ok_handlers [OF _ run_agent_connects.IH]) (simp add: pk_connection_dbus_handle_connection_def)
next
  case (run_set_handlers c i n)
  let ?h = "\<lparr>ph_id = n, ph_subscription = i, ph_manifests = Map.empty\<rparr>"
  have "table_ok ph_subscription (handler_insert i ?h (pc_handlers c))"
    using run_set_handlers by (intro table_ok_insert) (simp_all add: connection_ok_def)
  moreover have "manifests_ok (ph_manifests (ht_store (handler_insert i ?h (pc_handlers c)) v))" for v
    using run_set_handlers by (simp add: connection_ok_def handler_insert_def manifests_ok_def Let_def)
  ultimately show ?case
    using run_set_handlers.IH
    by (simp add: connection_ok_def pk_connection_dbus_subscription_set_handlers_async_def
        pk_connection_dbus_next_handler_id_def Let_def)
next
  case (run_signal c sig)
  show ?case
    by (rule connection_ok_handlers [OF _ run_signal.IH])
      (simp add: pk_connection_dbus_message_filter_def signal_int_def signal_word_def emit_def
        split: prod.split option.split)
next
  case (run_deliver c m res c')
  obtain res' d calls where "deliver gsort G_LITTLE_ENDIAN gt m c = Some (res', d)" "connection_ok d"
    using deliver_ok [OF run_deliver.IH gsort run_deliver.hyps(2), of gt] .
  then show ?case
    using run_deliver.hyps(3) by simp
qed (rule connection_ok_init)

text \<open>
  C24: in every run of a client that sets the handlers of each subscription at most once, whatever message comes in on
  the private connection (below 4 GiB), its handler returns: the loop over the samples of a message ends, after at most
  one sample. It uses nothing that was freed, and crashes only when a manifest that the client has kept has brought the
  number of a type that the client does not know. Each call of a closure is in order: a manifest is whole, and a
  sample comes with the manifest of its own source, in which each of its fields has the type of its value.
\<close>

theorem delivery_terminates:
  assumes "permutes gsort" "client_run gsort gt c" "message_short m"
  shows "\<exists>res c' calls. deliver gsort G_LITTLE_ENDIAN gt m c = Some (res, c') \<and>
    (res = Crashed \<longrightarrow> unknown_type_kept gt c) \<and>
    \<not> ht_fault (pc_handlers c') \<and> pc_calls c' = pc_calls c @ calls \<and> length calls \<le> 1 \<and>
    list_all (call_ok gt) calls"
  using deliver_ok [OF client_run_ok [OF assms(2,1)] assms(1,3), of gt]
  by (metis connection_ok_def table_ok_def)

definition demo_connection :: pk_connection where
  "demo_connection = snd (pk_connection_dbus_subscription_set_handlers_async 0 0
     (pk_connection_dbus_handle_connection pk_connection_dbus_init))"

lemma demo_connection_run: "client_run gsort gt demo_connection"
  unfolding demo_connection_def
  by (intro run_set_handlers run_agent_connects run_init)
    (simp add: pk_connection_dbus_handle_connection_def pk_connection_dbus_init_def handler_table_new_def)

definition demo_message :: dbus_message where
  "demo_message = method_call (handler_path 0) ''org.perfkit.Agent.Handler'' ''SendSample'' [Dbus_Bytes [8, 1, 16]]"

theorem delivery_terminates_witness:
  "deliver insertion_sort G_LITTLE_ENDIAN glib_gtypes demo_message demo_connection \<noteq> None"
  using delivery_terminates [OF permutes_insertion_sort demo_connection_run, of demo_message glib_gtypes]
  by (auto simp: message_short_def demo_message_def method_call_def arg_bytes_def)

section \<open>Handlers that are set twice\<close>

text \<open>
  C25: setting the handlers of a subscription a second time makes both ends use freed memory at the next message:
  the tables keep the key of the handler that they freed.
\<close>

theorem handlers_set_twice:
  assumes "table_ok ph_subscription (pc_handlers c)" "ht_entries (pc_handlers c) i \<noteq> None" "pc_client c"
    and "0 \<le> sint i"
    and "table_ok hd_subscription (ld_handlers ld)" "ht_entries (ld_handlers ld) i \<noteq> None"
    and "fst (pka_manager_find_subscription pka_context_default i ag) = Ok r" "ld_peers ld sender = Some client"
    and "data \<noteq> []"
  shows "(\<exists>res c'. deliver gsort ord gt
        (method_call (handler_path i) ''org.perfkit.Agent.Handler'' ''SendManifest'' [Dbus_Bytes data])
        (snd (pk_connection_dbus_subscription_set_handlers_async n i c)) = Some (res, c') \<and>
      ht_fault (pc_handlers c'))
    \<and> ht_fault (ld_handlers (pka_listener_dbus_dispatch_manifest i data
        (snd (snd (set_handler self i sender path (ag, ld))))))"
proof
  let ?h = "\<lparr>ph_id = n, ph_subscription = i, ph_manifests = Map.empty\<rparr>"
  obtain t where t: "handler_lookup i (handler_insert i ?h (pc_handlers c)) = (Some ?h, t)" "ht_fault t"
    using table_second_insert [OF assms(1,2), of ?h] by (metis prod.collapse)
  have fault: "ht_fault (handler_update i f t)" for f
    using t(2) by (simp add: handler_update_def split: option.split)
  show "\<exists>res c'. deliver gsort ord gt
        (method_call (handler_path i) ''org.perfkit.Agent.Handler'' ''SendManifest'' [Dbus_Bytes data])
        (snd (pk_connection_dbus_subscription_set_handlers_async n i c)) = Some (res, c') \<and>
      ht_fault (pc_handlers c')"
    using assms(3,4) t fault
    by (simp add: deliver_def pk_connection_dbus_subscription_set_handlers_async_def method_call_def handler_path_def
        pk_connection_dbus_next_handler_id_def pk_connection_dbus_handle_handler_message_def
        pk_connection_dbus_dispatch_manifest_def Let_def arg_bytes_def split: outcome.split prod.split)
next
  let ?h = "\<lparr>hd_subscription = i, hd_client = client, hd_path = path\<rparr>"
  obtain t where t: "handler_lookup i (handler_insert i ?h (ld_handlers ld)) = (Some ?h, t)" "ht_fault t"
    using table_second_insert [OF assms(5,6), of ?h] by (metis prod.collapse)
  obtain ag' where "pka_manager_find_subscription pka_context_default i ag = (Ok r, ag')"
    using assms(7) by (metis prod.collapse)
  then show "ht_fault (ld_handlers (pka_listener_dbus_dispatch_manifest i data
        (snd (snd (set_handler self i sender path (ag, ld))))))"
    using assms(8,9) t
    by (simp add: set_handler_def pka_listener_dbus_dispatch_manifest_def dispatch_to_handler_def Let_def)
qed

definition demo_listener :: dbus_listener where
  "demo_listener = pka_listener_dbus_init\<lparr>ld_peers := [[58] \<mapsto> [117]],
     ld_handlers := handler_insert 0 \<lparr>hd_subscription = 0, hd_client = [117], hd_path = [47]\<rparr>
       (ld_handlers pka_listener_dbus_init)\<rparr>"

lemma demo_listener_table:
  "table_ok hd_subscription (ld_handlers demo_listener)" "ht_entries (ld_handlers demo_listener) 0 \<noteq> None"
  by (simp_all add: demo_listener_def pka_listener_dbus_init_def handler_insert_def handler_table_new_def Let_def
      table_ok_def)

theorem handlers_set_twice_witness:
  "ht_fault (ld_handlers (pka_listener_dbus_dispatch_manifest 0 [8]
     (snd (snd (set_handler 0 0 [58] [47] (demo_tied, demo_listener))))))"
proof -
  have "table_ok ph_subscription (pc_handlers demo_connection)"
    using client_run_ok [OF demo_connection_run permutes_insertion_sort] by (simp add: connection_ok_def)
  moreover have "ht_entries (pc_handlers demo_connection) 0 \<noteq> None" "pc_client demo_connection"
    by (simp_all add: demo_connection_def pk_connection_dbus_subscription_set_handlers_async_def Let_def
        pk_connection_dbus_next_handler_id_def handler_insert_def pk_connection_dbus_handle_connection_def
        pk_connection_dbus_init_def handler_table_new_def)
  moreover have "fst (pka_manager_find_subscription pka_context_default 0 demo_tied) = Ok 2"
    by (simp add: pka_manager_find_subscription_def find_by_id_def demo_tied_state pka_subscription_get_id_def)
  ultimately show ?thesis
    using handlers_set_twice [OF _ _ _ _ demo_listener_table, of demo_connection demo_tied 2 "[58]" "[117]" "[8]"]
    by (simp add: demo_listener_def)
qed

end
