(* ===== verification/End_To_End.thy ===== *)
theory End_To_End
  imports Client_Delivery Wire_Protocol
begin

text \<open>
  From a source's manifest and sample at the agent to the closures of a client: the encoder, the listener's handler
  table, the bus, the client's handler table and the decoders together.
\<close>

section \<open>Setting up\<close>

text \<open>
  What the client does first: it sets the handlers of a subscription, and the message that this sends goes to
  the agent's listener.
\<close>

definition announced :: "gint \<Rightarrow> gint \<Rightarrow> pk_connection \<Rightarrow> pk_connection" where
  "announced n i c = snd (pk_connection_dbus_subscription_set_handlers_async n i c)"

definition set_handler_message :: "cstring \<Rightarrow> pk_connection \<Rightarrow> dbus_message" where
  "set_handler_message sender c = (last (pc_outbox c))\<lparr>dm_sender := sender\<rparr>"

lemma announced_state:
  assumes "pc_client c" "0 \<le> sint i" "ht_entries (pc_handlers c) i = None"
  shows "pc_paths (announced n i c) = insert (handler_path i) (pc_paths c)"
    and "pc_calls (announced n i c) = pc_calls c"
    and "pc_handlers (announced n i c) =
      handler_insert i \<lparr>ph_id = n, ph_subscription = i, ph_manifests = Map.empty\<rparr> (pc_handlers c)"
    and "set_handler_message sender (announced n i c) =
      \<lparr>dm_sender = sender, dm_path = subscription_prefix @ fmt_int i,
       dm_interface = ''org.perfkit.Agent.Subscription'', dm_member = ''SetHandler'',
       dm_args = [Dbus_Object_Path (handler_path i)]\<rparr>"
  using assms
  by (simp_all add: announced_def pk_connection_dbus_subscription_set_handlers_async_def Let_def
      pk_connection_dbus_next_handler_id_def set_handler_message_def method_call_def)

text \<open>The agent takes the message: from now on the subscription is delivered to the client's path.\<close>

lemma set_handler_served:
  assumes "ld_paths ld (subscription_prefix @ fmt_int i) = Some Subscription_VTable"
    and "fst (pka_manager_find_subscription pka_context_default i ag) = Ok r"
    and "ld_peers ld sender = Some client"
    and "dispatch_message env intro self
      \<lparr>dm_sender = sender, dm_path = subscription_prefix @ fmt_int i,
       dm_interface = ''org.perfkit.Agent.Subscription'', dm_member = ''SetHandler'',
       dm_args = [Dbus_Object_Path path]\<rparr> (ag, ld) = (res, ag', ld')"
  shows "res = Handled [Method_Return []]"
    and "ld' = ld\<lparr>ld_handlers := handler_insert i \<lparr>hd_subscription = i, hd_client = client, hd_path = path\<rparr> (ld_handlers ld)\<rparr>"
proof -
  obtain ag1 where "pka_manager_find_subscription pka_context_default i ag = (Ok r, ag1)"
    using assms(2) by (metis prod.collapse)
  then show "res = Handled [Method_Return []]"
    "ld' = ld\<lparr>ld_handlers := handler_insert i \<lparr>hd_subscription = i, hd_client = client, hd_path = path\<rparr> (ld_handlers ld)\<rparr>"
    using assms(1,3,4)
    by (simp_all add: dispatch_message_def pka_listener_dbus_handle_subscription_message_def is_introspect_def
        set_handler_def Let_def)
qed

section \<open>Delivering\<close>

text \<open>The message in which the agent delivers to a path.\<close>

definition delivery :: "string \<Rightarrow> cstring \<Rightarrow> u8 list \<Rightarrow> dbus_message" where
  "delivery member path data = method_call path ''org.perfkit.Agent.Handler'' member [Dbus_Bytes data]"

lemma dispatch_delivers:
  assumes "table_ok hd_subscription (ld_handlers ld)" "ht_entries (ld_handlers ld) i = Some (v, v)"
    and "ht_store (ld_handlers ld) v = \<lparr>hd_subscription = i, hd_client = client, hd_path = path\<rparr>" "data \<noteq> []"
  shows "dispatch_to_handler member i data ld = ld\<lparr>ld_sent := ld_sent ld @ [(client, delivery member path data)]\<rparr>"
  using assms table_ok_lookup [OF assms(1), of i]
  by (simp add: dispatch_to_handler_def delivery_def method_call_def)

lemma manifest_delivered:
  assumes ok: "table_ok ph_subscription (pc_handlers c)" and e: "ht_entries (pc_handlers c) i = Some (v, v)"
    and path: "handler_path i \<in> pc_paths c"
    and data: "pk_manifest_new_from_data gsort G_LITTLE_ENDIAN data = Value m"
  obtains c' where "deliver gsort G_LITTLE_ENDIAN gt (delivery ''SendManifest'' (handler_path i) data) c = Some (Handled [], c')"
    "pc_calls c' = pc_calls c @ [Manifest_Call (ph_id (ht_store (pc_handlers c) v)) m]" "pc_paths c' = pc_paths c"
    "pc_handlers c' = handler_update i (\<lambda>h. h\<lparr>ph_manifests := (ph_manifests h)(pk_manifest_get_source_id m \<mapsto> m)\<rparr>)
       (pc_handlers c)"
proof -
  have "sscanf_int handler_prefix (handler_path i) = Some i"
    by (simp add: handler_path_def)
  then show thesis
    using e path data table_ok_lookup [OF ok, of i]
    by (intro that [of "c\<lparr>pc_handlers := handler_update i
          (\<lambda>h. h\<lparr>ph_manifests := (ph_manifests h)(pk_manifest_get_source_id m \<mapsto> m)\<rparr>) (pc_handlers c),
          pc_calls := pc_calls c @ [Manifest_Call (ph_id (ht_store (pc_handlers c) v)) m]\<rparr>"])
      (simp_all add: deliver_def delivery_def method_call_def arg_bytes_def array_length_def Let_def
        pk_connection_dbus_handle_handler_message_def pk_connection_dbus_dispatch_manifest_def dispatch_result_def)
qed

lemma sample_delivered:
  assumes ok: "table_ok ph_subscription (pc_handlers c)" and e: "ht_entries (pc_handlers c) i = Some (v, v)"
    and path: "handler_path i \<in> pc_paths c" and h: "h = ht_store (pc_handlers c) v"
    and data: "pk_sample_new_from_data G_LITTLE_ENDIAN gt (handler_manifest_lookup h) data = (Value s, length data)"
    and "data \<noteq> []"
  obtains c' where "deliver gsort G_LITTLE_ENDIAN gt (delivery ''SendSample'' (handler_path i) data) c = Some (Handled [], c')"
    "pc_calls c' = pc_calls c @ [Sample_Call (ph_id h) (handler_manifest_lookup h (pk_sample_get_source_id s)) s]"
proof -
  have "sscanf_int handler_prefix (handler_path i) = Some i"
    by (simp add: handler_path_def)
  moreover have "dispatch_samples G_LITTLE_ENDIAN gt h data =
      Some (Value (), [Sample_Call (ph_id h) (handler_manifest_lookup h (pk_sample_get_source_id s)) s])"
    using data \<open>data \<noteq> []\<close>
    by (simp add: dispatch_samples.simps [of _ _ _ data] dispatch_samples.simps [of _ _ _ "[]"])
  ultimately show thesis
    using e path h table_ok_lookup [OF ok, of i]
    by (intro that [of "c\<lparr>pc_calls := pc_calls c @
          [Sample_Call (ph_id h) (handler_manifest_lookup h (pk_sample_get_source_id s)) s]\<rparr>"])
      (simp_all add: deliver_def delivery_def method_call_def arg_bytes_def array_length_def Let_def
        pk_connection_dbus_handle_handler_message_def pk_connection_dbus_dispatch_sample_def dispatch_result_def)
qed

text \<open>Nothing at all is neither a manifest nor a sample.\<close>

lemma nothing_decoded:
  "pk_manifest_new_from_data gsort ord [] \<noteq> Value m" "pk_sample_new_from_data ord gt resolver [] \<noteq> (Value s, n)"
proof -
  have "fst (egg_buffer_read_tag (egg_buffer_new_from_data [])) = Failed"
    by code_simp
  then have tag: "expect_tag f t (egg_buffer_new_from_data []) \<noteq> (Value u, b)" for f t u b
    unfolding expect_tag_def by (auto elim!: rd_bind_ValueE)
  show "pk_manifest_new_from_data gsort ord [] \<noteq> Value m"
    using tag unfolding pk_manifest_new_from_data_def decode_def by (auto simp: rd_bind_def split: prod.splits outcome.splits)
  show "pk_sample_new_from_data ord gt resolver [] \<noteq> (Value s, n)"
    using tag unfolding pk_sample_new_from_data_def pk_sample_source_def
    by (auto simp: rd_bind_def split: prod.splits outcome.splits)
qed

section \<open>End to end\<close>

text \<open>
  C26: a client that is connected sets the handlers of a subscription; the agent takes its message, and delivers a
  manifest and then a sample of the manifest's source, both as its encoder encodes them. They go to that client
  alone, its handler takes both, and its closures are called with the manifest that the agent had and with the
  sample that the agent had, next to that manifest.
\<close>

theorem delivered_end_to_end:
  assumes client: "connection_ok c" "pc_client c" "0 \<le> sint i" "ht_entries (pc_handlers c) i = None"
    and agent: "table_ok hd_subscription (ld_handlers ld)" "ht_entries (ld_handlers ld) i = None"
      "ld_paths ld (subscription_prefix @ fmt_int i) = Some Subscription_VTable" "ld_peers ld sender = Some peer"
      "fst (pka_manager_find_subscription pka_context_default i ag) = Ok r"
    and manifest: "gtypes_ok gt" "manifest_inv gt m" "permutes gsort" "sorts_by_id gsort"
      "length (manifest_bytes m) < 2 ^ 32" "pka_encoder_encode_manifest gt None m = Some mdata"
    and sample: "\<forall>fv \<in> set fvs. field_ok gt m fv"
      "s = foldl (append_value ord) (pka_sample_set_source_id (pka_sample_new now) (pm_source_id m)) fvs"
      "pka_sample_get_source_id s = pm_source_id m"
      "length (sample_bytes (pm_resolution m) (pm_ts m) s) < 2 ^ 32"
      "pka_encoder_encode_samples None m [s] = Some sdata"
    and served: "dispatch_message env intro self (set_handler_message sender (announced n i c)) (ag, ld) = (res, ag', ld1)"
  shows "res = Handled [Method_Return []] \<and>
    (\<exists>m1 m2 c1 c2.
      ld_sent (pka_listener_dbus_dispatch_sample i sdata (pka_listener_dbus_dispatch_manifest i mdata ld1))
        = ld_sent ld @ [(peer, m1), (peer, m2)] \<and>
      deliver gsort G_LITTLE_ENDIAN gt m1 (announced n i c) = Some (Handled [], c1) \<and>
      deliver gsort G_LITTLE_ENDIAN gt m2 c1 = Some (Handled [], c2) \<and>
      pc_calls c2 = pc_calls c @
        [Manifest_Call n (client_manifest m), Sample_Call n (Some (client_manifest m)) (client_sample m s fvs)])"
proof -
  let ?path = "handler_path i" and ?cm = "client_manifest m" and ?cs = "client_sample m s fvs"
  let ?h = "\<lparr>hd_subscription = i, hd_client = peer, hd_path = ?path\<rparr>"
  let ?k = "\<lparr>ph_id = n, ph_subscription = i, ph_manifests = Map.empty\<rparr>"
  let ?v = "ht_next (pc_handlers c)"
  note start = announced_state [OF client(2-4), where n = n]
  note set = set_handler_served [OF agent(3,5,4) served [unfolded start(4)]]
  have mdata: "pk_manifest_new_from_data gsort G_LITTLE_ENDIAN mdata = Value ?cm"
    using manifest_over_the_wire [OF manifest(1-5)] manifest(6) by auto
  have sdata: "pk_sample_new_from_data G_LITTLE_ENDIAN gt resolver sdata = (Value ?cs, length sdata)"
    if "resolver (pm_source_id m) = Some ?cm" for resolver
    using sample_over_the_wire [where resolver = resolver, OF manifest(1) sample(1,2) _ sample(4)] sample(3,5) that
    by auto
  have ids: "pk_manifest_get_source_id ?cm = pm_source_id m" "pk_sample_get_source_id ?cs = pm_source_id m"
    using sample(3) by (simp_all add: client_manifest_def pk_manifest_get_source_id_def client_sample_def
        pk_sample_get_source_id_def pka_sample_get_source_id_def)
  have "mdata \<noteq> []" "sdata \<noteq> []"
    using mdata sdata [of "\<lambda>_. Some ?cm"] nothing_decoded by auto
  moreover have "table_ok hd_subscription (handler_insert i ?h (ld_handlers ld))"
    by (rule table_ok_insert [OF agent(1,2)]) simp
  ultimately have sent: "ld_sent (pka_listener_dbus_dispatch_sample i sdata (pka_listener_dbus_dispatch_manifest i mdata ld1))
      = ld_sent ld @ [(peer, delivery ''SendManifest'' ?path mdata), (peer, delivery ''SendSample'' ?path sdata)]"
    using agent(2) unfolding pka_listener_dbus_dispatch_sample_def pka_listener_dbus_dispatch_manifest_def set(2)
    by (simp add: dispatch_delivers [where v = "ht_next (ld_handlers ld)" and client = peer and path = ?path]
        handler_insert_def Let_def)
  have t0: "table_ok ph_subscription (pc_handlers (announced n i c))"
    unfolding start(3) using client(1,4) by (intro table_ok_insert) (simp_all add: connection_ok_def)
  have e0: "ht_entries (pc_handlers (announced n i c)) i = Some (?v, ?v)"
    "ht_store (pc_handlers (announced n i c)) ?v = ?k" "?path \<in> pc_paths (announced n i c)"
    unfolding start using client(4) by (simp_all add: handler_insert_def Let_def)
  obtain c1 where c1: "deliver gsort G_LITTLE_ENDIAN gt (delivery ''SendManifest'' ?path mdata) (announced n i c)
        = Some (Handled [], c1)"
      "pc_calls c1 = pc_calls (announced n i c) @
        [Manifest_Call (ph_id (ht_store (pc_handlers (announced n i c)) ?v)) ?cm]"
      "pc_paths c1 = pc_paths (announced n i c)"
      "pc_handlers c1 = handler_update i (\<lambda>h. h\<lparr>ph_manifests := (ph_manifests h)(pk_manifest_get_source_id ?cm \<mapsto> ?cm)\<rparr>)
         (pc_handlers (announced n i c))"
    using manifest_delivered [OF t0 e0(1,3) mdata, of gt] .
  have path: "?path \<in> pc_paths c1" and calls: "pc_calls c1 = pc_calls c @ [Manifest_Call n ?cm]"
    by (simp_all add: c1(2,3) e0(2,3) start(2))
  have t1: "table_ok ph_subscription (pc_handlers c1)"
    unfolding c1(4) by (rule table_ok_update [OF t0]) simp
  have e1: "ht_entries (pc_handlers c1) i = Some (?v, ?v)"
    "ht_store (pc_handlers c1) ?v = ?k\<lparr>ph_manifests := [pm_source_id m \<mapsto> ?cm]\<rparr>"
    unfolding c1(4) using e0 ids(1) by (simp_all add: handler_update_def)
  define h where "h = ht_store (pc_handlers c1) ?v"
  have look: "handler_manifest_lookup h (pm_source_id m) = Some ?cm" "ph_id h = n"
    unfolding h_def e1(2) by (simp_all add: handler_manifest_lookup_def)
  obtain c2 where c2: "deliver gsort G_LITTLE_ENDIAN gt (delivery ''SendSample'' ?path sdata) c1 = Some (Handled [], c2)"
      "pc_calls c2 = pc_calls c1 @ [Sample_Call (ph_id h) (handler_manifest_lookup h (pk_sample_get_source_id ?cs)) ?cs]"
    using sample_delivered [OF t1 e1(1) path h_def sdata [where resolver = "handler_manifest_lookup h", OF look(1)] \<open>sdata \<noteq> []\<close>] .
  have "pc_calls c2 = pc_calls c @ [Manifest_Call n ?cm, Sample_Call n (Some ?cm) ?cs]"
    unfolding c2(2) calls ids look by simp
  with set(1) sent c1(1) c2(1) show ?thesis by blast
qed

definition demo_bus :: dbus_listener where
  "demo_bus = pka_listener_dbus_subscription_added 0 (pka_listener_dbus_init\<lparr>ld_peers := [[58] \<mapsto> [117]]\<rparr>)"

definition demo_client_end :: pk_connection where
  "demo_client_end = pk_connection_dbus_handle_connection pk_connection_dbus_init"

theorem delivered_end_to_end_witness:
  "\<forall>env intro self. \<exists>m1 m2 c1 c2.
      deliver insertion_sort G_LITTLE_ENDIAN glib_gtypes m1 (announced 0 0 demo_client_end) = Some (Handled [], c1) \<and>
      deliver insertion_sort G_LITTLE_ENDIAN glib_gtypes m2 c1 = Some (Handled [], c2) \<and>
      pc_calls c2 = [Manifest_Call 0 (client_manifest example_manifest),
        Sample_Call 0 (Some (client_manifest example_manifest))
          (client_sample example_manifest example_sample [(1, V_INT (- 5)), (2, V_STRING [104, 105])])]"
proof (intro allI)
  fix env intro self
  obtain mdata where mdata: "pka_encoder_encode_manifest glib_gtypes None example_manifest = Some mdata"
    using manifest_over_the_wire [OF gtypes_ok_glib example_manifest_inv permutes_insertion_sort
        sorts_by_id_insertion_sort length_example_manifest] by auto
  obtain sdata where sdata: "pka_encoder_encode_samples None example_manifest [example_sample] = Some sdata"
    using sample_over_the_wire [where resolver = "\<lambda>_. Some (client_manifest example_manifest)",
        OF gtypes_ok_glib example_fields example_sample_def refl length_example_sample] by auto
  have src: "example_sample = foldl (append_value G_LITTLE_ENDIAN)
      (pka_sample_set_source_id (pka_sample_new \<lparr>tv_sec = 101, tv_nsec = 7\<rparr>) (pm_source_id example_manifest))
      [(1, V_INT (- 5)), (2, V_STRING [104, 105])]"
    by (simp add: example_sample_def example_manifest_def)
  have id: "pka_sample_get_source_id example_sample = pm_source_id example_manifest"
    unfolding src foldl_append_value
    by (simp add: pka_sample_get_source_id_def pka_sample_set_source_id_def pka_sample_new_def example_manifest_def)
  have client: "connection_ok demo_client_end" "pc_client demo_client_end" "ht_entries (pc_handlers demo_client_end) 0 = None"
      "pc_calls demo_client_end = []"
    using connection_ok_init
    by (simp_all add: demo_client_end_def pk_connection_dbus_handle_connection_def connection_ok_def
        pk_connection_dbus_init_def handler_table_new_def)
  have agent: "table_ok hd_subscription (ld_handlers demo_bus)" "ht_entries (ld_handlers demo_bus) 0 = None"
      "ld_paths demo_bus (subscription_prefix @ fmt_int 0) = Some Subscription_VTable" "ld_peers demo_bus [58] = Some [117]"
    by (simp_all add: demo_bus_def pka_listener_dbus_subscription_added_def Let_def send_signal_def
        register_object_path_def pka_listener_dbus_init_def handler_table_new_def table_ok_def)
  have sub: "fst (pka_manager_find_subscription pka_context_default 0 demo_tied) = Ok 2"
    by (simp add: pka_manager_find_subscription_def find_by_id_def demo_tied_state pka_subscription_get_id_def)
  have zero: "0 \<le> sint (0 :: gint)" by simp
  obtain res ag' ld1 where "dispatch_message env intro self
      (set_handler_message [58] (announced 0 0 demo_client_end)) (demo_tied, demo_bus) = (res, ag', ld1)"
    by (cases "dispatch_message env intro self
      (set_handler_message [58] (announced 0 0 demo_client_end)) (demo_tied, demo_bus)")
  from delivered_end_to_end [OF client(1,2) zero client(3) agent sub gtypes_ok_glib example_manifest_inv
      permutes_insertion_sort sorts_by_id_insertion_sort length_example_manifest mdata example_fields src id
      length_example_sample sdata this] client(4)
  show "\<exists>m1 m2 c1 c2.
      deliver insertion_sort G_LITTLE_ENDIAN glib_gtypes m1 (announced 0 0 demo_client_end) = Some (Handled [], c1) \<and>
      deliver insertion_sort G_LITTLE_ENDIAN glib_gtypes m2 c1 = Some (Handled [], c2) \<and>
      pc_calls c2 = [Manifest_Call 0 (client_manifest example_manifest),
        Sample_Call 0 (Some (client_manifest example_manifest))
          (client_sample example_manifest example_sample [(1, V_INT (- 5)), (2, V_STRING [104, 105])])]"
    by auto
qed

end
