(* ===== verification/DBus_RPC.thy ===== *)
theory DBus_RPC
  imports Pk_Connection_DBus Agent_Service
begin

text \<open>
  The two ends of the bus together: a remote procedure that a client calls gives the client what the
  procedure gave the agent, and does to the agent what the procedure does.
\<close>

section \<open>A call over the bus\<close>

text \<open>
  The surroundings of a call: the agent's, its introspection texts, the listener, the name that the bus gives to
  the client, \<open>g_time_val_from_iso8601\<close>, and whether the bus library takes the message.
\<close>

record dbus_link =
  lk_env :: agent_env
  lk_introspection :: "vtable \<Rightarrow> cstring"
  lk_self :: nat
  lk_sender :: cstring
  lk_parse :: "cstring \<Rightarrow> g_time_val option"
  lk_sends :: bool

text \<open>
  The bus stamps the message with its sender and takes it to the agent; the answer completes the pending call,
  which the client finishes. When there is no answer (the agent died, or does not answer within the bus library's
  timeout) the bus library makes one up.
\<close>

definition reply_of :: "handler_result \<Rightarrow> dbus_reply" where
  "reply_of res = (case answer_of res of None \<Rightarrow> Error_Reply No_Reply | Some reply \<Rightarrow> reply)"

definition call ::
  "dbus_link \<Rightarrow> dbus_message \<Rightarrow> (pending_call \<Rightarrow> 'a) \<Rightarrow> agent \<times> dbus_listener \<Rightarrow> 'a \<times> agent \<times> dbus_listener" where
  "call l m finish st =
     (case serve (lk_env l) (lk_introspection l) (lk_self l) (m\<lparr>dm_sender := lk_sender l\<rparr>) st of
        (res, st) \<Rightarrow> (finish (pk_connection_dbus_notify (reply_of res) pending_call_new), st))"

lemma call_then: "call l m (\<lambda>p. f (finish p)) st = (case call l m finish st of (x, st) \<Rightarrow> (f x, st))"
  by (simp add: call_def split: prod.split)

text \<open>
  The specification: the procedure is run on the agent, its value is seen through \<open>view\<close>, its error comes back as
  an error, and a failure without an error brings the agent down: there is no answer. The listener is told of what
  the procedure announced.
\<close>

definition outcome_of :: "('a \<Rightarrow> 'b) \<Rightarrow> 'a ans \<Rightarrow> rpc_failure + 'b" where
  "outcome_of view r =
     (case r of
        Ok x \<Rightarrow> Inr (view x) | Err e \<Rightarrow> Inl (Rpc_Error (Agent_Error e)) | Quiet \<Rightarrow> Inl (Rpc_Error No_Reply))"

definition direct ::
  "dbus_link \<Rightarrow> ('a \<Rightarrow> 'b) \<Rightarrow> (agent \<Rightarrow> 'a ans \<times> agent) \<Rightarrow> agent \<times> dbus_listener \<Rightarrow>
     (rpc_failure + 'b) \<times> agent \<times> dbus_listener" where
  "direct l view procedure st =
     (case st of (ag, ld) \<Rightarrow> case procedure ag of (res, ag') \<Rightarrow>
        (outcome_of view res, ag',
         take_notices (lk_self l) (drop (length (ag_notices ag)) (ag_notices ag')) ld))"

text \<open>A time as it is after having been printed and parsed, and an identifier likewise.\<close>

definition reprint :: "dbus_link \<Rightarrow> g_time_val \<Rightarrow> g_time_val" where
  "reprint l tv =
     (case lk_parse l (env_iso8601 (lk_env l) tv) of None \<Rightarrow> \<lparr>tv_secs = 0, tv_usecs = 0\<rparr> | Some t \<Rightarrow> t)"

definition printed_word :: "cstring option \<Rightarrow> cstring option" where
  "printed_word s = sscanf_word plugin_prefix (plugin_prefix @ fmt_string s)"

lemma fmt_string_Some [simp]: "fmt_string (Some s) = s"
  by (simp add: fmt_string_def)

lemma printed_word [simp]: "one_word s \<Longrightarrow> printed_word (Some s) = Some s"
  by (simp add: printed_word_def)

section \<open>One call\<close>

text \<open>What the callback marshals is what the client unmarshals.\<close>

lemma unmarshal_simps [simp]:
  "arg_none args = Some ()"
  "arg_int32 (Dbus_Int32 i # args) = Some i"
  "arg_two_int32 (Dbus_Int32 i # Dbus_Int32 j # args) = Some (i, j)"
  "arg_boolean (Dbus_Boolean b # args) = Some b"
  "arg_string (Dbus_String s # args) = Some s"
  "arg_strings (Dbus_Strings ss # args) = Some ss"
  "arg_int_path p (Dbus_Object_Path (p @ fmt_int i) # args) = Some i"
  "arg_int_paths p (Dbus_Object_Paths (map (\<lambda>i. p @ fmt_int i) is) # args) = Some is"
  "arg_word_path plugin_prefix (Dbus_Object_Path (plugin_prefix @ fmt_string w) # args) = Some (printed_word w)"
  "arg_word_paths plugin_prefix (Dbus_Object_Paths (map (\<lambda>w. plugin_prefix @ fmt_string w) ws) # args)
     = Some (map printed_word ws)"
  "arg_time (lk_parse l) (Dbus_String (env_iso8601 (lk_env l) tv) # args) = Some (reprint l tv)"
  by (simp_all add: arg_none_def arg_int32_def arg_two_int32_def arg_boolean_def arg_string_def arg_strings_def
      arg_time_def arg_int_path_def arg_int_paths_def arg_word_path_def arg_word_paths_def scan_path_def
      reprint_def printed_word_def comp_def)

lemma call_served:
  assumes "dispatch_message (lk_env l) (lk_introspection l) (lk_self l) (m\<lparr>dm_sender := lk_sender l\<rparr>) (ag, ld) =
      (case call_back marshal (procedure ag) of (res, ag) \<Rightarrow> (res, ag, ld))"
    and "\<And>x. unmarshal (marshal x) = Some (view x)"
  shows "call l m (finish_with unmarshal) (ag, ld) = direct l view procedure (ag, ld)"
proof -
  obtain r ag' where "procedure ag = (r, ag')" by fastforce
  then show ?thesis
    using assms
    by (cases r) (simp_all add: call_def reply_of_def direct_def serve_def call_back_def outcome_of_def finish_with_def
        pk_connection_dbus_notify_def)
qed

lemma channel_call:
  assumes "ld_paths ld (dm_path m) = Some Channel_VTable"
    and "pka_listener_dbus_handle_channel_message (lk_env l) (lk_introspection l Channel_VTable)
      (m\<lparr>dm_sender := lk_sender l\<rparr>) ag = call_back marshal (procedure ag)"
    and "\<And>x. unmarshal (marshal x) = Some (view x)"
  shows "call l m (finish_with unmarshal) (ag, ld) = direct l view procedure (ag, ld)"
  using assms by (intro call_served) (simp_all add: dispatch_message_def)

lemmas channel_stubs = method_call_def
  pk_connection_dbus_channel_add_source_async_def pk_connection_dbus_channel_add_source_finish_def
  pka_listener_dbus_channel_add_source_cb_def pk_connection_dbus_channel_get_args_async_def
  pk_connection_dbus_channel_get_args_finish_def pka_listener_dbus_channel_get_args_cb_def
  pk_connection_dbus_channel_get_created_at_async_def pk_connection_dbus_channel_get_created_at_finish_def
  pka_listener_dbus_channel_get_created_at_cb_def pk_connection_dbus_channel_get_env_async_def
  pk_connection_dbus_channel_get_env_finish_def pka_listener_dbus_channel_get_env_cb_def
  pk_connection_dbus_channel_get_exit_status_async_def pk_connection_dbus_channel_get_exit_status_finish_def
  pka_listener_dbus_channel_get_exit_status_cb_def pk_connection_dbus_channel_get_kill_pid_async_def
  pk_connection_dbus_channel_get_kill_pid_finish_def pka_listener_dbus_channel_get_kill_pid_cb_def
  pk_connection_dbus_channel_get_pid_async_def pk_connection_dbus_channel_get_pid_finish_def
  pka_listener_dbus_channel_get_pid_cb_def pk_connection_dbus_channel_get_pid_set_async_def
  pk_connection_dbus_channel_get_pid_set_finish_def pka_listener_dbus_channel_get_pid_set_cb_def
  pk_connection_dbus_channel_get_sources_async_def pk_connection_dbus_channel_get_sources_finish_def
  pka_listener_dbus_channel_get_sources_cb_def pk_connection_dbus_channel_get_state_async_def
  pk_connection_dbus_channel_get_state_finish_def pka_listener_dbus_channel_get_state_cb_def
  pk_connection_dbus_channel_get_target_async_def pk_connection_dbus_channel_get_target_finish_def
  pka_listener_dbus_channel_get_target_cb_def pk_connection_dbus_channel_get_working_dir_async_def
  pk_connection_dbus_channel_get_working_dir_finish_def pka_listener_dbus_channel_get_working_dir_cb_def
  pk_connection_dbus_channel_mute_async_def pk_connection_dbus_channel_mute_finish_def
  pka_listener_dbus_channel_mute_cb_def pk_connection_dbus_channel_set_args_async_def
  pk_connection_dbus_channel_set_args_finish_def pka_listener_dbus_channel_set_args_cb_def
  pk_connection_dbus_channel_set_env_async_def pk_connection_dbus_channel_set_env_finish_def
  pka_listener_dbus_channel_set_env_cb_def pk_connection_dbus_channel_set_kill_pid_async_def
  pk_connection_dbus_channel_set_kill_pid_finish_def pka_listener_dbus_channel_set_kill_pid_cb_def
  pk_connection_dbus_channel_set_pid_async_def pk_connection_dbus_channel_set_pid_finish_def
  pka_listener_dbus_channel_set_pid_cb_def pk_connection_dbus_channel_set_target_async_def
  pk_connection_dbus_channel_set_target_finish_def pka_listener_dbus_channel_set_target_cb_def
  pk_connection_dbus_channel_set_working_dir_async_def pk_connection_dbus_channel_set_working_dir_finish_def
  pka_listener_dbus_channel_set_working_dir_cb_def pk_connection_dbus_channel_start_async_def
  pk_connection_dbus_channel_start_finish_def pka_listener_dbus_channel_start_cb_def
  pk_connection_dbus_channel_stop_async_def pk_connection_dbus_channel_stop_finish_def
  pka_listener_dbus_channel_stop_cb_def pk_connection_dbus_channel_unmute_async_def
  pk_connection_dbus_channel_unmute_finish_def pka_listener_dbus_channel_unmute_cb_def

text \<open>
  Every channel procedure that a client calls over the bus, on a channel whose object path is registered,
  does what the procedure of the agent does: the same value (a NULL string as the empty string, a NULL vector as
  an empty one), the same error, the same new state of the agent.
\<close>

lemma channel_calls_over_bus:
  assumes "ld_paths ld (channel_prefix @ fmt_int channel) = Some Channel_VTable"
  shows
    "call l (pk_connection_dbus_channel_add_source_async channel source)
      pk_connection_dbus_channel_add_source_finish (ag, ld)
      = direct l id
          (pka_listener_channel_add_source_finish (env_gtypes (lk_env l)) (pka_listener_channel_add_source_async channel source))
          (ag, ld) \<and>
    call l (pk_connection_dbus_channel_get_args_async channel)
      pk_connection_dbus_channel_get_args_finish (ag, ld)
      = direct l (\<lambda>a. case a of None \<Rightarrow> [] | Some a \<Rightarrow> a)
          (pka_listener_channel_get_args_finish (pka_listener_channel_get_args_async channel)) (ag, ld) \<and>
    call l (pk_connection_dbus_channel_get_created_at_async channel)
      (pk_connection_dbus_channel_get_created_at_finish (lk_parse l)) (ag, ld)
      = direct l (reprint l)
          (pka_listener_channel_get_created_at_finish (pka_listener_channel_get_created_at_async channel))
          (ag, ld) \<and>
    call l (pk_connection_dbus_channel_get_env_async channel) pk_connection_dbus_channel_get_env_finish
      (ag, ld)
      = direct l (\<lambda>a. case a of None \<Rightarrow> [] | Some a \<Rightarrow> a)
          (pka_listener_channel_get_env_finish (pka_listener_channel_get_env_async channel)) (ag, ld) \<and>
    call l (pk_connection_dbus_channel_get_exit_status_async channel)
      pk_connection_dbus_channel_get_exit_status_finish (ag, ld)
      = direct l id
          (pka_listener_channel_get_exit_status_finish (pka_listener_channel_get_exit_status_async channel))
          (ag, ld) \<and>
    call l (pk_connection_dbus_channel_get_kill_pid_async channel)
      pk_connection_dbus_channel_get_kill_pid_finish (ag, ld)
      = direct l id
          (pka_listener_channel_get_kill_pid_finish (pka_listener_channel_get_kill_pid_async channel))
          (ag, ld) \<and>
    call l (pk_connection_dbus_channel_get_pid_async channel) pk_connection_dbus_channel_get_pid_finish
      (ag, ld)
      = direct l word_of_int
          (pka_listener_channel_get_pid_finish (pka_listener_channel_get_pid_async channel)) (ag, ld) \<and>
    call l (pk_connection_dbus_channel_get_pid_set_async channel)
      pk_connection_dbus_channel_get_pid_set_finish (ag, ld)
      = direct l id
          (pka_listener_channel_get_pid_set_finish (pka_listener_channel_get_pid_set_async channel))
          (ag, ld) \<and>
    call l (pk_connection_dbus_channel_get_sources_async channel)
      pk_connection_dbus_channel_get_sources_finish (ag, ld)
      = direct l id
          (pka_listener_channel_get_sources_finish (pka_listener_channel_get_sources_async channel))
          (ag, ld) \<and>
    call l (pk_connection_dbus_channel_get_state_async channel)
      pk_connection_dbus_channel_get_state_finish (ag, ld)
      = direct l channel_state_code
          (pka_listener_channel_get_state_finish (pka_listener_channel_get_state_async channel))
          (ag, ld) \<and>
    call l (pk_connection_dbus_channel_get_target_async channel)
      pk_connection_dbus_channel_get_target_finish (ag, ld)
      = direct l string_or_empty
          (pka_listener_channel_get_target_finish (pka_listener_channel_get_target_async channel))
          (ag, ld) \<and>
    call l (pk_connection_dbus_channel_get_working_dir_async channel)
      pk_connection_dbus_channel_get_working_dir_finish (ag, ld)
      = direct l string_or_empty
          (pka_listener_channel_get_working_dir_finish (pka_listener_channel_get_working_dir_async channel))
          (ag, ld) \<and>
    call l (pk_connection_dbus_channel_mute_async channel) pk_connection_dbus_channel_mute_finish
      (ag, ld)
      = direct l id (pka_listener_channel_mute_finish (pka_listener_channel_mute_async channel))
          (ag, ld) \<and>
    call l (the (pk_connection_dbus_channel_set_args_async channel (Some args)))
      pk_connection_dbus_channel_set_args_finish (ag, ld)
      = direct l id
          (pka_listener_channel_set_args_finish (pka_listener_channel_set_args_async channel (Some args)))
          (ag, ld) \<and>
    call l (the (pk_connection_dbus_channel_set_env_async channel (Some env_vars)))
      pk_connection_dbus_channel_set_env_finish (ag, ld)
      = direct l id
          (pka_listener_channel_set_env_finish (pka_listener_channel_set_env_async channel (Some env_vars)))
          (ag, ld) \<and>
    call l (pk_connection_dbus_channel_set_kill_pid_async channel kill_pid)
      pk_connection_dbus_channel_set_kill_pid_finish (ag, ld)
      = direct l id
          (pka_listener_channel_set_kill_pid_finish (pka_listener_channel_set_kill_pid_async channel kill_pid))
          (ag, ld) \<and>
    call l (pk_connection_dbus_channel_set_pid_async channel pid)
      pk_connection_dbus_channel_set_pid_finish (ag, ld)
      = direct l id
          (pka_listener_channel_set_pid_finish (pka_listener_channel_set_pid_async channel pid))
          (ag, ld) \<and>
    call l (pk_connection_dbus_channel_set_target_async channel target)
      pk_connection_dbus_channel_set_target_finish (ag, ld)
      = direct l id
          (pka_listener_channel_set_target_finish (pka_listener_channel_set_target_async channel (Some (string_or_empty target))))
          (ag, ld) \<and>
    call l (pk_connection_dbus_channel_set_working_dir_async channel working_dir)
      pk_connection_dbus_channel_set_working_dir_finish (ag, ld)
      = direct l id
          (pka_listener_channel_set_working_dir_finish (pka_listener_channel_set_working_dir_async channel (Some (string_or_empty working_dir))))
          (ag, ld) \<and>
    call l (pk_connection_dbus_channel_start_async channel) pk_connection_dbus_channel_start_finish
      (ag, ld)
      = direct l id
          (pka_listener_channel_start_finish (env_spawn (lk_env l)) (env_tmp (lk_env l)) (pka_listener_channel_start_async channel))
          (ag, ld) \<and>
    call l (pk_connection_dbus_channel_stop_async channel) pk_connection_dbus_channel_stop_finish
      (ag, ld)
      = direct l id (pka_listener_channel_stop_finish (pka_listener_channel_stop_async channel))
          (ag, ld) \<and>
    call l (pk_connection_dbus_channel_unmute_async channel) pk_connection_dbus_channel_unmute_finish
      (ag, ld)
      = direct l id (pka_listener_channel_unmute_finish (pka_listener_channel_unmute_async channel))
          (ag, ld)"
  using assms
  by (intro conjI; unfold channel_stubs option.map option.sel; intro channel_call)
    (simp_all add: pka_listener_dbus_handle_channel_message_def on_int_path_def channel_stubs is_introspect_def,
      simp_all)

text \<open>A bus on which an agent has announced its first channel and its first subscription.\<close>

definition demo_objects :: dbus_listener where
  "demo_objects = pka_listener_dbus_channel_added 0 (pka_listener_dbus_subscription_added 0
     (pka_listener_dbus_register_singletons pka_listener_dbus_init))"

lemma demo_objects_paths:
  "ld_paths demo_objects (channel_prefix @ fmt_int 0) = Some Channel_VTable"
  "ld_paths demo_objects (subscription_prefix @ fmt_int 0) = Some Subscription_VTable"
  "ld_paths demo_objects manager_path = Some Manager_VTable"
  by (simp_all add: demo_objects_def pka_listener_dbus_channel_added_def pka_listener_dbus_subscription_added_def
      pka_listener_dbus_register_singletons_def register_object_path_def send_signal_def Let_def
      channel_prefix_def subscription_prefix_def manager_path_def ascii_def)


section \<open>Subscriptions\<close>

lemma subscription_call:
  assumes "ld_paths ld (dm_path m) = Some Subscription_VTable"
    and "dm_interface m = ''org.perfkit.Agent.Subscription''" "dm_member m \<noteq> ''SetHandler''"
    and "handle_subscription_calls (lk_env l) (m\<lparr>dm_sender := lk_sender l\<rparr>) ag = call_back marshal (procedure ag)"
    and "\<And>x. unmarshal (marshal x) = Some (view x)"
  shows "call l m (finish_with unmarshal) (ag, ld) = direct l view procedure (ag, ld)"
  using assms
  by (intro call_served)
    (simp_all add: dispatch_message_def pka_listener_dbus_handle_subscription_message_def is_introspect_def)

lemmas subscription_stubs = method_call_def
  pk_connection_dbus_subscription_add_channel_async_def
  pk_connection_dbus_subscription_add_channel_finish_def pka_listener_dbus_subscription_add_channel_cb_def
  pk_connection_dbus_subscription_add_source_async_def pk_connection_dbus_subscription_add_source_finish_def
  pka_listener_dbus_subscription_add_source_cb_def pk_connection_dbus_subscription_get_buffer_async_def
  pk_connection_dbus_subscription_get_buffer_finish_def pka_listener_dbus_subscription_get_buffer_cb_def
  pk_connection_dbus_subscription_get_created_at_async_def
  pk_connection_dbus_subscription_get_created_at_finish_def
  pka_listener_dbus_subscription_get_created_at_cb_def pk_connection_dbus_subscription_get_sources_async_def
  pk_connection_dbus_subscription_get_sources_finish_def pka_listener_dbus_subscription_get_sources_cb_def
  pk_connection_dbus_subscription_mute_async_def pk_connection_dbus_subscription_mute_finish_def
  pka_listener_dbus_subscription_mute_cb_def pk_connection_dbus_subscription_remove_channel_async_def
  pk_connection_dbus_subscription_remove_channel_finish_def
  pka_listener_dbus_subscription_remove_channel_cb_def
  pk_connection_dbus_subscription_remove_source_async_def
  pk_connection_dbus_subscription_remove_source_finish_def
  pka_listener_dbus_subscription_remove_source_cb_def pk_connection_dbus_subscription_set_buffer_async_def
  pk_connection_dbus_subscription_set_buffer_finish_def pka_listener_dbus_subscription_set_buffer_cb_def
  pk_connection_dbus_subscription_unmute_async_def pk_connection_dbus_subscription_unmute_finish_def
  pka_listener_dbus_subscription_unmute_cb_def

text \<open>
  The same for the procedures of a subscription; \<open>SetEncoder\<close> alone does not come back: the agent dies of it.
\<close>

lemma subscription_calls_over_bus:
  assumes "ld_paths ld (subscription_prefix @ fmt_int subscription) = Some Subscription_VTable"
  shows
    "call l (pk_connection_dbus_subscription_add_channel_async subscription channel monitor)
      pk_connection_dbus_subscription_add_channel_finish (ag, ld)
      = direct l id
          (pka_listener_subscription_add_channel_finish (env_gtypes (lk_env l)) (pka_listener_subscription_add_channel_async subscription channel monitor))
          (ag, ld) \<and>
    call l (pk_connection_dbus_subscription_add_source_async subscription source)
      pk_connection_dbus_subscription_add_source_finish (ag, ld)
      = direct l id
          (pka_listener_subscription_add_source_finish (env_gtypes (lk_env l)) (pka_listener_subscription_add_source_async subscription source))
          (ag, ld) \<and>
    call l (pk_connection_dbus_subscription_get_buffer_async subscription)
      pk_connection_dbus_subscription_get_buffer_finish (ag, ld)
      = direct l id
          (pka_listener_subscription_get_buffer_finish (pka_listener_subscription_get_buffer_async subscription))
          (ag, ld) \<and>
    call l (pk_connection_dbus_subscription_get_created_at_async subscription)
      (pk_connection_dbus_subscription_get_created_at_finish (lk_parse l)) (ag, ld)
      = direct l (reprint l)
          (pka_listener_subscription_get_created_at_finish (pka_listener_subscription_get_created_at_async subscription))
          (ag, ld) \<and>
    call l (pk_connection_dbus_subscription_get_sources_async subscription)
      pk_connection_dbus_subscription_get_sources_finish (ag, ld)
      = direct l id
          (pka_listener_subscription_get_sources_finish (pka_listener_subscription_get_sources_async subscription))
          (ag, ld) \<and>
    call l (pk_connection_dbus_subscription_mute_async subscription drain)
      pk_connection_dbus_subscription_mute_finish (ag, ld)
      = direct l id
          (pka_listener_subscription_mute_finish (pka_listener_subscription_mute_async subscription drain))
          (ag, ld) \<and>
    call l (pk_connection_dbus_subscription_remove_channel_async subscription channel)
      pk_connection_dbus_subscription_remove_channel_finish (ag, ld)
      = direct l id
          (pka_listener_subscription_remove_channel_finish (pka_listener_subscription_remove_channel_async subscription channel))
          (ag, ld) \<and>
    call l (pk_connection_dbus_subscription_remove_source_async subscription source)
      pk_connection_dbus_subscription_remove_source_finish (ag, ld)
      = direct l id
          (pka_listener_subscription_remove_source_finish (pka_listener_subscription_remove_source_async subscription source))
          (ag, ld) \<and>
    call l (pk_connection_dbus_subscription_set_buffer_async subscription timeout size_arg)
      pk_connection_dbus_subscription_set_buffer_finish (ag, ld)
      = direct l id
          (pka_listener_subscription_set_buffer_finish (pka_listener_subscription_set_buffer_async subscription timeout size_arg))
          (ag, ld) \<and>
    call l (pk_connection_dbus_subscription_unmute_async subscription)
      pk_connection_dbus_subscription_unmute_finish (ag, ld)
      = direct l id
          (pka_listener_subscription_unmute_finish (pka_listener_subscription_unmute_async subscription))
          (ag, ld) \<and>
    fst (call l (pk_connection_dbus_subscription_set_encoder_async subscription encoder)
      pk_connection_dbus_subscription_set_encoder_finish (ag, ld)) = Inl (Rpc_Error No_Reply)"
  using assms
  by (intro conjI; (unfold subscription_stubs option.map option.sel)?; (intro subscription_call)?)
    (simp_all add: handle_subscription_calls_def on_int_path_def subscription_stubs is_introspect_def,
      simp_all add: split_def call_def reply_of_def finish_with_def pk_connection_dbus_notify_def serve_def dispatch_message_def on_int_path_def is_introspect_def
        pka_listener_dbus_handle_subscription_message_def handle_subscription_calls_def method_call_def
        pk_connection_dbus_subscription_set_encoder_async_def pk_connection_dbus_subscription_set_encoder_finish_def)


section \<open>The registry\<close>

lemma manager_call:
  assumes "ld_paths ld manager_path = Some Manager_VTable"
    and "dm_path m = manager_path" "dm_interface m = ''org.perfkit.Agent.Manager''" "dm_member m \<noteq> ''SetDeliveryPath''"
    and "handle_manager_calls (lk_env l) (m\<lparr>dm_sender := lk_sender l\<rparr>) ag = call_back marshal (procedure ag)"
    and "\<And>x. unmarshal (marshal x) = Some (view x)"
  shows "call l m (finish_with unmarshal) (ag, ld) = direct l view procedure (ag, ld)"
  using assms
  by (intro call_served)
    (simp_all add: dispatch_message_def pka_listener_dbus_handle_manager_message_def is_introspect_def)

lemma plugin_call:
  assumes "ld_paths ld (dm_path m) = Some Plugin_VTable"
    and "pka_listener_dbus_handle_plugin_message (lk_introspection l Plugin_VTable)
      (m\<lparr>dm_sender := lk_sender l\<rparr>) ag = call_back marshal (procedure ag)"
    and "\<And>x. unmarshal (marshal x) = Some (view x)"
  shows "call l m (finish_with unmarshal) (ag, ld) = direct l view procedure (ag, ld)"
  using assms by (intro call_served) (simp_all add: dispatch_message_def)

lemma source_call:
  assumes "ld_paths ld (dm_path m) = Some Source_VTable"
    and "pka_listener_dbus_handle_source_message (lk_introspection l Source_VTable)
      (m\<lparr>dm_sender := lk_sender l\<rparr>) ag = call_back marshal (procedure ag)"
    and "\<And>x. unmarshal (marshal x) = Some (view x)"
  shows "call l m (finish_with unmarshal) (ag, ld) = direct l view procedure (ag, ld)"
  using assms by (intro call_served) (simp_all add: dispatch_message_def)

lemma encoder_call:
  assumes "ld_paths ld (dm_path m) = Some Encoder_VTable"
    and "pka_listener_dbus_handle_encoder_message (lk_introspection l Encoder_VTable)
      (m\<lparr>dm_sender := lk_sender l\<rparr>) ag = call_back marshal (procedure ag)"
    and "\<And>x. unmarshal (marshal x) = Some (view x)"
  shows "call l m (finish_with unmarshal) (ag, ld) = direct l view procedure (ag, ld)"
  using assms by (intro call_served) (simp_all add: dispatch_message_def)

lemmas manager_stubs = method_call_def
  pk_connection_dbus_manager_add_channel_async_def pk_connection_dbus_manager_add_channel_finish_def
  pka_listener_dbus_manager_add_channel_cb_def pk_connection_dbus_manager_add_source_async_def
  pk_connection_dbus_manager_add_source_finish_def pka_listener_dbus_manager_add_source_cb_def
  pk_connection_dbus_manager_add_subscription_async_def
  pk_connection_dbus_manager_add_subscription_finish_def pka_listener_dbus_manager_add_subscription_cb_def
  pk_connection_dbus_manager_get_channels_async_def pk_connection_dbus_manager_get_channels_finish_def
  pka_listener_dbus_manager_get_channels_cb_def pk_connection_dbus_manager_get_hostname_async_def
  pk_connection_dbus_manager_get_hostname_finish_def pka_listener_dbus_manager_get_hostname_cb_def
  pk_connection_dbus_manager_get_plugins_async_def pk_connection_dbus_manager_get_plugins_finish_def
  pka_listener_dbus_manager_get_plugins_cb_def pk_connection_dbus_manager_get_sources_async_def
  pk_connection_dbus_manager_get_sources_finish_def pka_listener_dbus_manager_get_sources_cb_def
  pk_connection_dbus_manager_get_subscriptions_async_def
  pk_connection_dbus_manager_get_subscriptions_finish_def pka_listener_dbus_manager_get_subscriptions_cb_def
  pk_connection_dbus_manager_get_version_async_def pk_connection_dbus_manager_get_version_finish_def
  pka_listener_dbus_manager_get_version_cb_def pk_connection_dbus_manager_ping_async_def
  pk_connection_dbus_manager_ping_finish_def pka_listener_dbus_manager_ping_cb_def
  pk_connection_dbus_manager_remove_channel_async_def pk_connection_dbus_manager_remove_channel_finish_def
  pka_listener_dbus_manager_remove_channel_cb_def pk_connection_dbus_manager_remove_source_async_def
  pk_connection_dbus_manager_remove_source_finish_def pka_listener_dbus_manager_remove_source_cb_def
  pk_connection_dbus_manager_remove_subscription_async_def
  pk_connection_dbus_manager_remove_subscription_finish_def
  pka_listener_dbus_manager_remove_subscription_cb_def

lemmas object_stubs = method_call_def
  pk_connection_dbus_plugin_get_copyright_async_def pk_connection_dbus_plugin_get_copyright_finish_def
  pka_listener_dbus_plugin_get_copyright_cb_def pk_connection_dbus_plugin_get_description_async_def
  pk_connection_dbus_plugin_get_description_finish_def pka_listener_dbus_plugin_get_description_cb_def
  pk_connection_dbus_plugin_get_name_async_def pk_connection_dbus_plugin_get_name_finish_def
  pka_listener_dbus_plugin_get_name_cb_def pk_connection_dbus_plugin_get_plugin_type_async_def
  pk_connection_dbus_plugin_get_plugin_type_finish_def pka_listener_dbus_plugin_get_plugin_type_cb_def
  pk_connection_dbus_plugin_get_version_async_def pk_connection_dbus_plugin_get_version_finish_def
  pka_listener_dbus_plugin_get_version_cb_def
  pk_connection_dbus_source_get_plugin_async_def pk_connection_dbus_source_get_plugin_finish_def
  pka_listener_dbus_source_get_plugin_cb_def
  pk_connection_dbus_encoder_get_plugin_async_def pk_connection_dbus_encoder_get_plugin_finish_def
  pka_listener_dbus_encoder_get_plugin_cb_def

text \<open>
  The same for the procedures of the manager. Two of them do not send what they were given: \<open>RemoveChannel\<close>
  removes channel 0 whichever is asked for, and \<open>AddSubscription\<close> has a buffer of size and timeout 0.
\<close>

lemma manager_calls_over_bus:
  assumes "ld_paths ld manager_path = Some Manager_VTable" "one_word plugin"
  shows
    "call l pk_connection_dbus_manager_add_channel_async pk_connection_dbus_manager_add_channel_finish
      (ag, ld)
      = direct l id (pka_listener_manager_add_channel_finish (env_tmp (lk_env l)) (env_now (lk_env l)))
          (ag, ld) \<and>
    call l (pk_connection_dbus_manager_add_source_async (Some plugin))
      pk_connection_dbus_manager_add_source_finish (ag, ld)
      = direct l id
          (pka_listener_manager_add_source_finish (pka_listener_manager_add_source_async (Some plugin)))
          (ag, ld) \<and>
    call l (pk_connection_dbus_manager_add_subscription_async ord buffer_size timeout)
      pk_connection_dbus_manager_add_subscription_finish (ag, ld)
      = direct l id
          (pka_listener_manager_add_subscription_finish (env_now (lk_env l)) (pka_listener_manager_add_subscription_async 0 0))
          (ag, ld) \<and>
    call l pk_connection_dbus_manager_get_channels_async pk_connection_dbus_manager_get_channels_finish
      (ag, ld)
      = direct l id pka_listener_manager_get_channels_finish (ag, ld) \<and>
    call l pk_connection_dbus_manager_get_hostname_async pk_connection_dbus_manager_get_hostname_finish
      (ag, ld)
      = direct l id (pka_listener_manager_get_hostname_finish (env_hostname (lk_env l))) (ag, ld) \<and>
    call l pk_connection_dbus_manager_get_plugins_async pk_connection_dbus_manager_get_plugins_finish
      (ag, ld)
      = direct l (map printed_word \<circ> takeWhile (\<lambda>p. p \<noteq> None))
          pka_listener_manager_get_plugins_finish (ag, ld) \<and>
    call l pk_connection_dbus_manager_get_sources_async pk_connection_dbus_manager_get_sources_finish
      (ag, ld)
      = direct l id pka_listener_manager_get_sources_finish (ag, ld) \<and>
    call l pk_connection_dbus_manager_get_subscriptions_async
      pk_connection_dbus_manager_get_subscriptions_finish (ag, ld)
      = direct l id pka_listener_manager_get_subscriptions_finish (ag, ld) \<and>
    call l pk_connection_dbus_manager_get_version_async pk_connection_dbus_manager_get_version_finish
      (ag, ld)
      = direct l id (pka_listener_manager_get_version_finish (env_version (lk_env l))) (ag, ld) \<and>
    call l pk_connection_dbus_manager_ping_async (pk_connection_dbus_manager_ping_finish (lk_parse l))
      (ag, ld)
      = direct l (reprint l) (pka_listener_manager_ping_finish (env_now (lk_env l))) (ag, ld) \<and>
    call l (pk_connection_dbus_manager_remove_channel_async channel)
      pk_connection_dbus_manager_remove_channel_finish (ag, ld)
      = direct l id
          (pka_listener_manager_remove_channel_finish (pka_listener_manager_remove_channel_async 0))
          (ag, ld) \<and>
    call l (pk_connection_dbus_manager_remove_source_async source)
      pk_connection_dbus_manager_remove_source_finish (ag, ld)
      = direct l id
          (pka_listener_manager_remove_source_finish (pka_listener_manager_remove_source_async source))
          (ag, ld) \<and>
    call l (pk_connection_dbus_manager_remove_subscription_async subscription)
      pk_connection_dbus_manager_remove_subscription_finish (ag, ld)
      = direct l id
          (pka_listener_manager_remove_subscription_finish (pka_listener_manager_remove_subscription_async subscription))
          (ag, ld)"
  using assms
  by (intro conjI; (unfold manager_stubs)?; intro manager_call)
    (simp_all add: handle_manager_calls_def manager_stubs, simp_all)


lemma plugin_calls_over_bus:
  assumes "ld_paths ld (plugin_prefix @ plugin) = Some Plugin_VTable" "one_word plugin"
  shows
    "call l (pk_connection_dbus_plugin_get_copyright_async (Some plugin))
      pk_connection_dbus_plugin_get_copyright_finish (ag, ld)
      = direct l id
          (pka_listener_plugin_get_copyright_finish (pka_listener_plugin_get_copyright_async (Some plugin)))
          (ag, ld) \<and>
    call l (pk_connection_dbus_plugin_get_description_async (Some plugin))
      pk_connection_dbus_plugin_get_description_finish (ag, ld)
      = direct l id
          (pka_listener_plugin_get_description_finish (pka_listener_plugin_get_description_async (Some plugin)))
          (ag, ld) \<and>
    call l (pk_connection_dbus_plugin_get_name_async (Some plugin))
      pk_connection_dbus_plugin_get_name_finish (ag, ld)
      = direct l id
          (pka_listener_plugin_get_name_finish (pka_listener_plugin_get_name_async (Some plugin)))
          (ag, ld) \<and>
    call l (pk_connection_dbus_plugin_get_plugin_type_async (Some plugin))
      pk_connection_dbus_plugin_get_plugin_type_finish (ag, ld)
      = direct l plugin_type_code
          (pka_listener_plugin_get_plugin_type_finish (pka_listener_plugin_get_plugin_type_async (Some plugin)))
          (ag, ld) \<and>
    call l (pk_connection_dbus_plugin_get_version_async (Some plugin))
      pk_connection_dbus_plugin_get_version_finish (ag, ld)
      = direct l id
          (pka_listener_plugin_get_version_finish (pka_listener_plugin_get_version_async (Some plugin)))
          (ag, ld)"
  using assms
  by (intro conjI; (unfold object_stubs)?; intro plugin_call)
    (simp_all add: pka_listener_dbus_handle_plugin_message_def on_word_path_def object_stubs is_introspect_def, simp_all)

lemma source_calls_over_bus:
  assumes "ld_paths ld (source_prefix @ fmt_int source) = Some Source_VTable"
  shows
    "call l (pk_connection_dbus_source_get_plugin_async source)
      pk_connection_dbus_source_get_plugin_finish (ag, ld)
      = direct l printed_word
          (pka_listener_source_get_plugin_finish (pka_listener_source_get_plugin_async source)) (ag, ld)"
  using assms
  by (unfold object_stubs, intro source_call)
    (simp_all add: pka_listener_dbus_handle_source_message_def on_int_path_def object_stubs is_introspect_def, simp_all)

lemma encoder_calls_over_bus:
  assumes "ld_paths ld (encoder_prefix @ fmt_int encoder) = Some Encoder_VTable"
  shows
    "call l (pk_connection_dbus_encoder_get_plugin_async encoder)
      pk_connection_dbus_encoder_get_plugin_finish (ag, ld)
      = direct l printed_word (pka_listener_encoder_get_plugin_finish None) (ag, ld)"
  using assms
  by (unfold object_stubs, intro encoder_call)
    (simp_all add: pka_listener_dbus_handle_encoder_message_def on_int_path_def object_stubs is_introspect_def, simp_all)

end
