(* ===== verification/Pk_Connection_Sync.thy ===== *)
theory Pk_Connection_Sync
  imports Pk_Connection_DBus
begin

text \<open>
  perfkit/pk-connection.c, the blocking calls: \<open>pk_connection_sync_init\<close>, \<open>_wait\<close>, \<open>_signal\<close> and \<open>_destroy\<close>, as
  the interleaved steps of the calling thread and of the thread that runs the main loop.
\<close>

section \<open>What a call gives\<close>

datatype connection_error = Not_Implemented | Rpc rpc_failure | Connect connect_error

text \<open>A \<open>_finish\<close> function: TRUE, FALSE with the error set, or FALSE with no error (a failed guard).\<close>

datatype 'a finished = Finish_True 'a | Finish_Error connection_error | Finish_Quiet

section \<open>State\<close>

text \<open>
  When the callback of a request is run: by the main loop, at some time after the request; by the request itself,
  before it returns; never.
\<close>

datatype completion = Deferred | Immediate | Absent

datatype thread = Caller | Main_Loop

text \<open>
  Where the calling thread is: before the call; about to send the request; in the callback that the request
  itself runs, about to signal; about to wait; in \<open>g_cond_wait\<close>; out of it and about to have the mutex again;
  before and after an iteration of the main context; about to destroy the structure; back.
\<close>

datatype 'a caller =
    Before | Requesting | In_Callback | At_Wait | Waiting | Woken | Iterating | Iterated | Destroying
  | Back "'a finished"

text \<open>
  Where the callback is: not scheduled, scheduled, about to lock the mutex, about to signal, about to unlock, over.
\<close>

datatype callback = Unscheduled | Scheduled | Locking | Signalling | Unlocking | Over

text \<open>
  PkConnectionSync, on the caller's stack. \<open>sy_mutex\<close> is the thread that holds the mutex; \<open>sy_result\<close> stands for
  \<open>result\<close>, the error and what \<open>params\<close> point to.
\<close>

record 'a pk_connection_sync =
  sy_mutex :: "thread option"
  sy_completed :: bool
  sy_result :: "'a finished"

text \<open>None: the structure does not exist (any more).\<close>

record 'a sync_run =
  rn_sync :: "'a pk_connection_sync option"
  rn_caller :: "'a caller"
  rn_callback :: callback

definition sync_run_new :: "'a sync_run" where
  "sync_run_new = \<lparr>rn_sync = None, rn_caller = Before, rn_callback = Unscheduled\<rparr>"

definition pk_connection_sync_init :: "'a pk_connection_sync" where
  "pk_connection_sync_init = \<lparr>sy_mutex = Some Caller, sy_completed = False, sy_result = Finish_Quiet\<rparr>"

text \<open>The mutex is free before and after.\<close>

definition pk_connection_sync_signal :: "'a pk_connection_sync \<Rightarrow> 'a pk_connection_sync" where
  "pk_connection_sync_signal async = async\<lparr>sy_completed := True\<rparr>"

section \<open>Steps\<close>

text \<open>
  The surroundings of a call: whether another thread owns the main context (then \<open>g_main_context_acquire\<close> fails),
  when the callback is run, what the \<open>_finish\<close> function in it gives, and whether \<open>g_cond_wait\<close> returns without
  having been signalled, which POSIX permits.
\<close>

record 'a sync_env =
  sn_foreign_loop :: bool
  sn_completion :: completion
  sn_value :: "'a finished"
  sn_spurious :: bool

inductive sync_step :: "'a sync_env \<Rightarrow> 'a sync_run \<Rightarrow> 'a sync_run \<Rightarrow> bool" for e where
  init: "rn_caller r = Before \<Longrightarrow>
    sync_step e r (r\<lparr>rn_sync := Some pk_connection_sync_init, rn_caller := Requesting\<rparr>)"
| request_deferred: "\<lbrakk>rn_caller r = Requesting; sn_completion e = Deferred\<rbrakk> \<Longrightarrow>
    sync_step e r (r\<lparr>rn_caller := At_Wait, rn_callback := Scheduled\<rparr>)"
| request_absent: "\<lbrakk>rn_caller r = Requesting; sn_completion e = Absent\<rbrakk> \<Longrightarrow>
    sync_step e r (r\<lparr>rn_caller := At_Wait\<rparr>)"
| request_immediate: "\<lbrakk>rn_caller r = Requesting; sn_completion e = Immediate; rn_sync r = Some s\<rbrakk> \<Longrightarrow>
    sync_step e r (r\<lparr>rn_sync := Some (s\<lparr>sy_result := sn_value e\<rparr>), rn_caller := In_Callback\<rparr>)"
| signal_immediate: "\<lbrakk>rn_caller r = In_Callback; rn_sync r = Some s; sy_mutex s = None\<rbrakk> \<Longrightarrow>
    sync_step e r (r\<lparr>rn_sync := Some (s\<lparr>sy_completed := True\<rparr>), rn_caller := At_Wait, rn_callback := Over\<rparr>)"
| acquire_context: "\<lbrakk>rn_caller r = At_Wait; \<not> sn_foreign_loop e; rn_sync r = Some s\<rbrakk> \<Longrightarrow>
    sync_step e r (r\<lparr>rn_sync := Some (s\<lparr>sy_mutex := None\<rparr>), rn_caller := Iterating\<rparr>)"
| iterate_callback: "\<lbrakk>rn_caller r = Iterating; rn_callback r = Scheduled; rn_sync r = Some s; sy_mutex s = None\<rbrakk> \<Longrightarrow>
    sync_step e r (r\<lparr>rn_sync := Some (s\<lparr>sy_result := sn_value e, sy_completed := True\<rparr>),
      rn_caller := Iterated, rn_callback := Over\<rparr>)"
| iterate_other: "rn_caller r = Iterating \<Longrightarrow>
    sync_step e r (r\<lparr>rn_caller := Iterated\<rparr>)"
| iterate_again: "\<lbrakk>rn_caller r = Iterated; rn_sync r = Some s; \<not> sy_completed s\<rbrakk> \<Longrightarrow>
    sync_step e r (r\<lparr>rn_caller := Iterating\<rparr>)"
| release_context: "\<lbrakk>rn_caller r = Iterated; rn_sync r = Some s; sy_completed s; sy_mutex s = None\<rbrakk> \<Longrightarrow>
    sync_step e r (r\<lparr>rn_sync := Some (s\<lparr>sy_mutex := Some Caller\<rparr>), rn_caller := Destroying\<rparr>)"
| cond_wait: "\<lbrakk>rn_caller r = At_Wait; sn_foreign_loop e; rn_sync r = Some s\<rbrakk> \<Longrightarrow>
    sync_step e r (r\<lparr>rn_sync := Some (s\<lparr>sy_mutex := None\<rparr>), rn_caller := Waiting\<rparr>)"
| spurious: "\<lbrakk>rn_caller r = Waiting; sn_spurious e\<rbrakk> \<Longrightarrow>
    sync_step e r (r\<lparr>rn_caller := Woken\<rparr>)"
| wake: "\<lbrakk>rn_caller r = Woken; rn_sync r = Some s; sy_mutex s = None\<rbrakk> \<Longrightarrow>
    sync_step e r (r\<lparr>rn_sync := Some (s\<lparr>sy_mutex := Some Caller\<rparr>), rn_caller := Destroying\<rparr>)"
| destroy: "\<lbrakk>rn_caller r = Destroying; rn_sync r = Some s\<rbrakk> \<Longrightarrow>
    sync_step e r (r\<lparr>rn_sync := None, rn_caller := Back (sy_result s)\<rparr>)"
| callback: "\<lbrakk>rn_callback r = Scheduled; sn_foreign_loop e; rn_sync r = Some s\<rbrakk> \<Longrightarrow>
    sync_step e r (r\<lparr>rn_sync := Some (s\<lparr>sy_result := sn_value e\<rparr>), rn_callback := Locking\<rparr>)"
| signal_lock: "\<lbrakk>rn_callback r = Locking; rn_sync r = Some s; sy_mutex s = None\<rbrakk> \<Longrightarrow>
    sync_step e r (r\<lparr>rn_sync := Some (s\<lparr>sy_mutex := Some Main_Loop\<rparr>), rn_callback := Signalling\<rparr>)"
| signal: "\<lbrakk>rn_callback r = Signalling; rn_sync r = Some s\<rbrakk> \<Longrightarrow>
    sync_step e r (r\<lparr>rn_sync := Some (s\<lparr>sy_completed := True\<rparr>),
      rn_caller := (if rn_caller r = Waiting then Woken else rn_caller r), rn_callback := Unlocking\<rparr>)"
| signal_unlock: "\<lbrakk>rn_callback r = Unlocking; rn_sync r = Some s\<rbrakk> \<Longrightarrow>
    sync_step e r (r\<lparr>rn_sync := Some (s\<lparr>sy_mutex := None\<rparr>), rn_callback := Over\<rparr>)"

inductive_cases sync_stepE: "sync_step e r r'"

definition sync_reach :: "'a sync_env \<Rightarrow> 'a sync_run \<Rightarrow> bool" where
  "sync_reach e = (sync_step e)\<^sup>*\<^sup>* sync_run_new"

text \<open>The callback uses the structure after it has ceased to exist.\<close>

definition sync_dangling :: "'a sync_run \<Rightarrow> bool" where
  "sync_dangling r \<longleftrightarrow> rn_sync r = None \<and> rn_callback r \<in> {Scheduled, Locking, Signalling, Unlocking}"

lemma sync_induct [consumes 1, case_names new step]:
  assumes "sync_reach e r" "P sync_run_new" "\<And>r r'. \<lbrakk>P r; sync_step e r r'\<rbrakk> \<Longrightarrow> P r'"
  shows "P r"
  using assms unfolding sync_reach_def by (metis rtranclp_induct)

section \<open>A callback that the main loop runs\<close>

text \<open>The mutex is held where the code holds it, and a caller that has been woken has its result.\<close>

definition sync_inv :: "'a sync_env \<Rightarrow> 'a sync_run \<Rightarrow> bool" where
  "sync_inv e r \<longleftrightarrow>
     (case rn_sync r of
        None \<Rightarrow> rn_caller r = Before \<and> rn_callback r = Unscheduled
          \<or> rn_caller r = Back (sn_value e) \<and> rn_callback r = Over
      | Some s \<Rightarrow>
          (sy_mutex s = Some Caller \<longleftrightarrow> rn_caller r \<in> {Requesting, At_Wait, Destroying}) \<and>
          (sy_mutex s = Some Main_Loop \<longleftrightarrow> rn_callback r \<in> {Signalling, Unlocking}) \<and>
          (sy_completed s \<longleftrightarrow> rn_callback r \<in> {Unlocking, Over}) \<and>
          (rn_callback r \<in> {Locking, Signalling, Unlocking, Over} \<longrightarrow> sy_result s = sn_value e) \<and>
          (rn_callback r = Unscheduled \<longleftrightarrow> rn_caller r = Requesting) \<and>
          (rn_caller r \<in> {Waiting, Woken} \<longrightarrow> sn_foreign_loop e) \<and>
          (rn_caller r \<in> {Iterating, Iterated} \<longrightarrow> \<not> sn_foreign_loop e) \<and>
          (\<not> sn_foreign_loop e \<longrightarrow> rn_callback r \<in> {Unscheduled, Scheduled, Over}) \<and>
          (rn_caller r = At_Wait \<longrightarrow> rn_callback r \<in> {Scheduled, Locking}) \<and>
          (rn_caller r = Waiting \<longrightarrow> rn_callback r \<in> {Scheduled, Locking, Signalling}) \<and>
          (rn_caller r = Woken \<longrightarrow> rn_callback r \<in> {Unlocking, Over}) \<and>
          (rn_caller r = Destroying \<longrightarrow> rn_callback r = Over) \<and>
          rn_caller r \<in> {Requesting, At_Wait, Waiting, Woken, Iterating, Iterated, Destroying})"

lemma sync_inv_step:
  assumes "sync_inv e r" "sync_step e r r'" "sn_completion e = Deferred" "\<not> sn_spurious e"
  shows "sync_inv e r'"
  using assms(2,1,3,4)
  by cases (auto simp: sync_inv_def pk_connection_sync_init_def split: option.splits)

lemma sync_inv_reach:
  assumes "sync_reach e r" "sn_completion e = Deferred" "\<not> sn_spurious e"
  shows "sync_inv e r"
  using assms(1)
proof (induction rule: sync_induct)
  case new
  then show ?case by (simp add: sync_inv_def sync_run_new_def)
next
  case (step r r')
  then show ?case using sync_inv_step assms(2,3) by blast
qed

text \<open>How far the call is from its end, when the main loop gets to the callback.\<close>

definition caller_distance :: "'a sync_run \<Rightarrow> nat" where
  "caller_distance r =
     (case rn_caller r of
        Before \<Rightarrow> 9 | Requesting \<Rightarrow> 8 | In_Callback \<Rightarrow> 8 | At_Wait \<Rightarrow> 7 | Waiting \<Rightarrow> 5 | Woken \<Rightarrow> 4 | Iterating \<Rightarrow> 5
      | Iterated \<Rightarrow> (if rn_callback r = Over then 4 else 6) | Destroying \<Rightarrow> 2 | Back _ \<Rightarrow> 0)"

definition callback_distance :: "'a sync_run \<Rightarrow> nat" where
  "callback_distance r =
     (case rn_callback r of
        Unscheduled \<Rightarrow> 5 | Scheduled \<Rightarrow> 4 | Locking \<Rightarrow> 3 | Signalling \<Rightarrow> 2 | Unlocking \<Rightarrow> 1 | Over \<Rightarrow> 0)"

definition sync_distance :: "'a sync_run \<Rightarrow> nat" where
  "sync_distance r = caller_distance r + callback_distance r"

lemmas sync_distance_defs = sync_distance_def caller_distance_def callback_distance_def

lemma closer:
  "\<lbrakk>sync_step e r r'; sync_distance r' < sync_distance r\<rbrakk>
    \<Longrightarrow> \<exists>r'. sync_step e r r' \<and> sync_distance r' < sync_distance r"
  by blast

lemma sync_inv_caller:
  "sync_inv e r \<Longrightarrow> rn_sync r = Some s \<Longrightarrow>
    rn_caller r \<in> {Requesting, At_Wait, Waiting, Woken, Iterating, Iterated, Destroying}"
  by (simp add: sync_inv_def)

lemma sync_inv_none:
  "sync_inv e r \<Longrightarrow> rn_sync r = None \<Longrightarrow>
    rn_caller r = Before \<and> rn_callback r = Unscheduled \<or> rn_caller r = Back (sn_value e) \<and> rn_callback r = Over"
  by (simp add: sync_inv_def)

lemma sync_inv_back:
  assumes "sync_inv e r" "rn_caller r = Back v"
  shows "v = sn_value e \<and> rn_callback r = Over"
proof (cases "rn_sync r")
  case None
  then show ?thesis using sync_inv_none [OF assms(1)] assms(2) by simp
next
  case (Some s)
  then show ?thesis using sync_inv_caller [OF assms(1)] assms(2) by simp
qed

lemma sync_inv_mutex:
  assumes "sync_inv e r" "rn_sync r = Some s"
    and "rn_caller r \<notin> {Requesting, At_Wait, Destroying}" "rn_callback r \<notin> {Signalling, Unlocking}"
  shows "sy_mutex s = None"
proof (cases "sy_mutex s")
  case (Some t)
  then show ?thesis using assms by (cases t) (simp_all add: sync_inv_def)
qed simp

lemma waiting_progress:
  assumes inv: "sync_inv e r" and Some: "rn_sync r = Some s" and "rn_caller r \<in> {Waiting, Woken}"
  shows "\<exists>r'. sync_step e r r' \<and> sync_distance r' < sync_distance r"
proof -
  have foreign: "sn_foreign_loop e" using assms by (auto simp: sync_inv_def)
  note mutex = sync_inv_mutex [OF inv Some]
  consider "rn_caller r = Waiting" "rn_callback r = Scheduled" | "rn_caller r = Waiting" "rn_callback r = Locking"
    | "rn_caller r = Waiting" "rn_callback r = Signalling"
    | "rn_caller r = Woken" "rn_callback r = Unlocking" | "rn_caller r = Woken" "rn_callback r = Over"
    using assms(3) inv Some by (elim insertE emptyE) (simp add: sync_inv_def, blast)+
  then show ?thesis
  proof cases
    case 1
    with foreign show ?thesis
      by (intro closer [OF sync_step.callback [OF _ _ Some]]) (simp_all add: sync_distance_defs)
  next
    case 2
    with mutex show ?thesis
      by (intro closer [OF sync_step.signal_lock [OF _ Some]]) (simp_all add: sync_distance_defs)
  next
    case 3
    then show ?thesis by (intro closer [OF sync_step.signal [OF _ Some]]) (simp_all add: sync_distance_defs)
  next
    case 4
    then show ?thesis by (intro closer [OF sync_step.signal_unlock [OF _ Some]]) (simp_all add: sync_distance_defs)
  next
    case 5
    with mutex show ?thesis by (intro closer [OF sync_step.wake [OF _ Some]]) (simp_all add: sync_distance_defs)
  qed
qed

lemma iterating_progress:
  assumes inv: "sync_inv e r" and Some: "rn_sync r = Some s" and "rn_caller r \<in> {Iterating, Iterated}"
  shows "\<exists>r'. sync_step e r r' \<and> sync_distance r' < sync_distance r"
proof -
  note mutex = sync_inv_mutex [OF inv Some]
  consider "rn_caller r = Iterating" "rn_callback r = Scheduled" | "rn_caller r = Iterating" "rn_callback r = Over"
    | "rn_caller r = Iterated" "rn_callback r = Scheduled" "\<not> sy_completed s"
    | "rn_caller r = Iterated" "rn_callback r = Over" "sy_completed s"
    using assms(3) inv Some by (elim insertE emptyE) (simp add: sync_inv_def, blast)+
  then show ?thesis
  proof cases
    case 1
    with mutex show ?thesis
      by (intro closer [OF sync_step.iterate_callback [OF _ _ Some]]) (simp_all add: sync_distance_defs)
  next
    case 2
    then show ?thesis by (intro closer [OF sync_step.iterate_other]) (simp_all add: sync_distance_defs)
  next
    case 3
    then show ?thesis by (intro closer [OF sync_step.iterate_again [OF _ Some]]) (simp_all add: sync_distance_defs)
  next
    case 4
    with mutex show ?thesis
      by (intro closer [OF sync_step.release_context [OF _ Some]]) (simp_all add: sync_distance_defs)
  qed
qed

lemma sync_progress:
  assumes inv: "sync_inv e r" and deferred: "sn_completion e = Deferred" and "\<And>v. rn_caller r \<noteq> Back v"
  shows "\<exists>r'. sync_step e r r' \<and> sync_distance r' < sync_distance r"
proof (cases "rn_sync r")
  case None
  then have "rn_caller r = Before" using sync_inv_none [OF inv] assms(3) by blast
  then show ?thesis by (intro closer [OF sync_step.init]) (simp_all add: sync_distance_defs)
next
  case (Some s)
  consider "rn_caller r = Requesting" | "rn_caller r = At_Wait" | "rn_caller r \<in> {Waiting, Woken}"
    | "rn_caller r \<in> {Iterating, Iterated}" | "rn_caller r = Destroying"
    using sync_inv_caller [OF inv Some] by blast
  then show ?thesis
  proof cases
    case 1
    then have "rn_callback r = Unscheduled" using inv Some by (simp add: sync_inv_def)
    with 1 deferred show ?thesis
      by (intro closer [OF sync_step.request_deferred]) (simp_all add: sync_distance_defs)
  next
    case 2
    then show ?thesis
      by (cases "sn_foreign_loop e"; intro closer [OF sync_step.cond_wait [OF _ _ Some]]
        closer [OF sync_step.acquire_context [OF _ _ Some]]) (simp_all add: sync_distance_defs)
  next
    case 5
    then show ?thesis by (intro closer [OF sync_step.destroy [OF _ Some]]) (simp_all add: sync_distance_defs)
  qed (blast intro: waiting_progress [OF inv Some] iterating_progress [OF inv Some])+
qed

lemma sync_returns:
  assumes "sync_inv e r" "sn_completion e = Deferred" "\<not> sn_spurious e"
  shows "\<exists>r'. (sync_step e)\<^sup>*\<^sup>* r r' \<and> rn_caller r' = Back (sn_value e)"
  using assms(1)
proof (induction "sync_distance r" arbitrary: r rule: less_induct)
  case less
  show ?case
  proof (cases "\<exists>v. rn_caller r = Back v")
    case True
    with less.prems have "rn_caller r = Back (sn_value e)"
      using sync_inv_back by blast
    then show ?thesis by blast
  next
    case False
    then obtain r' where r': "sync_step e r r'" "sync_distance r' < sync_distance r"
      using sync_progress [OF less.prems assms(2)] by blast
    from less.hyps [OF r'(2) sync_inv_step [OF less.prems r'(1) assms(2,3)]] r'(1) show ?thesis
      by (meson converse_rtranclp_into_rtranclp)
  qed
qed

text \<open>
  C20: a blocking call whose callback is left to the main loop never loses its wake-up: from every state that it can
  be in there is a way for it to return; it returns what the callback was given, with the mutex and the structure no
  longer in use, whether the caller runs the main loop itself or another thread does.
\<close>

theorem blocking_call_returns:
  assumes "sync_reach e r" "sn_completion e = Deferred" "\<not> sn_spurious e"
  shows "(\<exists>r'. (sync_step e)\<^sup>*\<^sup>* r r' \<and> rn_caller r' = Back (sn_value e)) \<and>
    (\<forall>v. rn_caller r = Back v \<longrightarrow> v = sn_value e \<and> rn_callback r = Over) \<and> \<not> sync_dangling r"
proof -
  have inv: "sync_inv e r" by (rule sync_inv_reach [OF assms])
  show ?thesis
  proof (intro conjI)
    show "\<exists>r'. (sync_step e)\<^sup>*\<^sup>* r r' \<and> rn_caller r' = Back (sn_value e)"
      by (rule sync_returns [OF inv assms(2,3)])
    show "\<forall>v. rn_caller r = Back v \<longrightarrow> v = sn_value e \<and> rn_callback r = Over"
      using sync_inv_back [OF inv] by blast
    show "\<not> sync_dangling r"
      using sync_inv_none [OF inv] by (auto simp: sync_dangling_def)
  qed
qed

definition demo_sync :: "completion \<Rightarrow> bool \<Rightarrow> gint sync_env" where
  "demo_sync how spurious =
     \<lparr>sn_foreign_loop = True, sn_completion = how, sn_value = Finish_True 7, sn_spurious = spurious\<rparr>"

theorem blocking_call_returns_witness:
  "\<exists>r. (sync_step (demo_sync Deferred False))\<^sup>*\<^sup>* sync_run_new r \<and> rn_caller r = Back (Finish_True 7)"
  using blocking_call_returns [of "demo_sync Deferred False" sync_run_new]
  by (simp add: sync_reach_def demo_sync_def)

section \<open>A callback that the main loop does not run\<close>

lemma immediate_stuck:
  assumes "sync_reach e r" "sn_completion e = Immediate"
  shows "rn_caller r \<in> {Before, Requesting, In_Callback} \<and> rn_callback r = Unscheduled \<and>
    (\<forall>s. rn_caller r \<noteq> Before \<and> rn_sync r = Some s \<longrightarrow> sy_mutex s = Some Caller)"
  using assms(1)
proof (induction rule: sync_induct)
  case new
  then show ?case by (simp add: sync_run_new_def)
next
  case (step r r')
  from step(2,1) assms(2) show ?case
    by cases (auto simp: pk_connection_sync_init_def)
qed

lemma absent_stuck:
  assumes "sync_reach e r" "sn_completion e = Absent" "\<not> sn_spurious e"
  shows "rn_caller r \<in> {Before, Requesting, At_Wait, Waiting, Iterating, Iterated} \<and> rn_callback r = Unscheduled \<and>
    (\<forall>s. rn_caller r \<noteq> Before \<and> rn_sync r = Some s \<longrightarrow> \<not> sy_completed s)"
  using assms(1)
proof (induction rule: sync_induct)
  case new
  then show ?case by (simp add: sync_run_new_def)
next
  case (step r r')
  from step(2,1) assms(2,3) show ?case
    by cases (auto simp: pk_connection_sync_init_def)
qed

lemma spurious_return:
  assumes "sn_foreign_loop e" "sn_completion e = Deferred" "sn_spurious e"
  shows "\<exists>r. sync_reach e r \<and> rn_caller r = Back Finish_Quiet \<and> sync_dangling r"
proof -
  let ?s = "pk_connection_sync_init :: 'a pk_connection_sync"
  let ?r = "\<lambda>s c. \<lparr>rn_sync = s, rn_caller = c, rn_callback = Scheduled\<rparr> :: 'a sync_run"
  have "(sync_step e)\<^sup>*\<^sup>* sync_run_new (\<lparr>rn_sync = Some ?s, rn_caller = Requesting, rn_callback = Unscheduled\<rparr>)"
    using sync_step.init [of sync_run_new e] by (simp add: sync_run_new_def r_into_rtranclp)
  also have "sync_step e \<dots> (?r (Some ?s) At_Wait)"
    using sync_step.request_deferred [of "\<lparr>rn_sync = Some ?s, rn_caller = Requesting, rn_callback = Unscheduled\<rparr>" e] assms
    by simp
  also have "sync_step e \<dots> (?r (Some (?s\<lparr>sy_mutex := None\<rparr>)) Waiting)"
    using sync_step.cond_wait [of "?r (Some ?s) At_Wait" e ?s] assms by simp
  also have "sync_step e \<dots> (?r (Some (?s\<lparr>sy_mutex := None\<rparr>)) Woken)"
    using sync_step.spurious [of "?r (Some (?s\<lparr>sy_mutex := None\<rparr>)) Waiting" e] assms by simp
  also have "sync_step e \<dots> (?r (Some ?s) Destroying)"
    using sync_step.wake [of "?r (Some (?s\<lparr>sy_mutex := None\<rparr>)) Woken" "?s\<lparr>sy_mutex := None\<rparr>" e]
    by (simp add: pk_connection_sync_init_def)
  also have "sync_step e \<dots> (?r None (Back Finish_Quiet))"
    using sync_step.destroy [of "?r (Some ?s) Destroying" ?s e] by (simp add: pk_connection_sync_init_def)
  finally show ?thesis
    by (intro exI [of _ "?r None (Back Finish_Quiet)"]) (simp add: sync_reach_def sync_dangling_def)
qed

section \<open>What a blocking call comes to\<close>

text \<open>\<open>Client_Crash\<close> is a client that dies while it sends the request.\<close>

datatype 'a returned = Returned "'a finished" | Never_Returns | Client_Crash

definition sync_outcome :: "completion \<Rightarrow> 'a finished \<Rightarrow> 'a returned" where
  "sync_outcome how v = (if how = Deferred then Returned v else Never_Returns)"

text \<open>The steps implement it, as long as \<open>g_cond_wait\<close> does not return early.\<close>

lemma sync_outcome_steps:
  assumes "\<not> sn_spurious e"
  shows "sync_outcome (sn_completion e) (sn_value e) = Returned v \<longleftrightarrow>
    (\<exists>r. sync_reach e r \<and> rn_caller r = Back v)"
proof (cases "sn_completion e = Deferred")
  case True
  have "sync_inv e sync_run_new" by (simp add: sync_inv_def sync_run_new_def)
  then show ?thesis
    using True sync_returns [OF _ True assms] sync_inv_back [OF sync_inv_reach [OF _ True assms]]
    by (auto simp: sync_outcome_def sync_reach_def)
next
  case False
  then have "sn_completion e = Immediate \<or> sn_completion e = Absent"
    by (cases "sn_completion e") simp_all
  then have "rn_caller r \<noteq> Back v" if "sync_reach e r" for r
    using immediate_stuck [OF that] absent_stuck [OF that _ assms] by auto
  with False show ?thesis by (auto simp: sync_outcome_def)
qed

end
