(* ===== verification/Pk_Connection.thy ===== *)
theory Pk_Connection
  imports DBus_RPC Pk_Connection_Sync
begin

text \<open>
  perfkit/pk-connection.c: the functions of the client library. Each remote procedure has four: \<open>_async\<close> calls
  the method of the connection's class, \<open>_finish\<close> takes the answer apart, \<open>_cb\<close> does so in the blocking call, which
  is the fourth. The class is that of \<open>PkConnectionDBus\<close>, the only one there is.
\<close>

section \<open>Classes of connections\<close>

text \<open>The methods of a class that are set, by the names of the remote procedures.\<close>

record connection_class =
  cc_async :: "string list"
  cc_finish :: "string list"

definition pk_connection_class_init :: connection_class where
  "pk_connection_class_init = \<lparr>cc_async = [], cc_finish = []\<rparr>"

definition overridden :: "string list" where
  "overridden =
     [''channel_add_source'', ''channel_get_args'', ''channel_get_created_at'', ''channel_get_env'',
      ''channel_get_exit_status'', ''channel_get_kill_pid'', ''channel_get_pid'', ''channel_get_pid_set'',
      ''channel_get_sources'', ''channel_get_state'', ''channel_get_target'', ''channel_get_working_dir'',
      ''channel_mute'', ''channel_set_args'', ''channel_set_env'', ''channel_set_kill_pid'',
      ''channel_set_pid'', ''channel_set_target'', ''channel_set_working_dir'', ''channel_start'',
      ''channel_stop'', ''channel_unmute'', ''connect'', ''disconnect'', ''encoder_get_plugin'',
      ''manager_add_channel'', ''manager_add_source'', ''manager_add_subscription'',
      ''manager_get_channels'', ''manager_get_hostname'', ''manager_get_plugins'', ''manager_get_sources'',
      ''manager_get_subscriptions'', ''manager_get_version'', ''manager_ping'', ''manager_remove_channel'',
      ''manager_remove_source'', ''manager_remove_subscription'', ''plugin_get_copyright'',
      ''plugin_get_description'', ''plugin_get_name'', ''plugin_get_plugin_type'', ''plugin_get_version'',
      ''source_get_plugin'', ''subscription_add_channel'', ''subscription_add_source'',
      ''subscription_get_buffer'', ''subscription_get_created_at'', ''subscription_get_sources'',
      ''subscription_mute'', ''subscription_remove_channel'', ''subscription_remove_source'',
      ''subscription_set_buffer'', ''subscription_set_encoder'', ''subscription_set_handlers'',
      ''subscription_unmute'']"

definition pk_connection_dbus_class_init :: "connection_class \<Rightarrow> connection_class" where
  "pk_connection_dbus_class_init klass =
     \<lparr>cc_async = overridden @ cc_async klass, cc_finish = overridden @ cc_finish klass\<rparr>"

definition dbus_class :: connection_class where
  "dbus_class = pk_connection_dbus_class_init pk_connection_class_init"

text \<open>\<open>CHECK_FOR_RPC\<close>\<close>

definition implements :: "string \<Rightarrow> connection_class \<Rightarrow> bool" where
  "implements n klass \<longleftrightarrow> n \<in> set (cc_async klass) \<and> n \<in> set (cc_finish klass)"

text \<open>
  A connection is known by its class; None is NULL, which fails the guards. A request is sent, does not get that
  far, or crashes on its way (on a NULL vector of strings).
\<close>

datatype request = Requested dbus_message | Request_Crashed | Not_Requested

definition RPC_ASYNC :: "string \<Rightarrow> connection_class option \<Rightarrow> dbus_message option \<Rightarrow> request" where
  "RPC_ASYNC n connection m =
     (case connection of
        None \<Rightarrow> Not_Requested
      | Some klass \<Rightarrow>
          if n \<notin> set (cc_async klass) then Not_Requested
          else (case m of None \<Rightarrow> Request_Crashed | Some m \<Rightarrow> Requested m))"

definition RPC_FINISH ::
  "string \<Rightarrow> connection_class option \<Rightarrow> (pending_call \<Rightarrow> rpc_failure + 'a) \<Rightarrow> pending_call \<Rightarrow> 'a finished" where
  "RPC_FINISH n connection finish result =
     (case connection of
        None \<Rightarrow> Finish_Quiet
      | Some klass \<Rightarrow>
          if n \<notin> set (cc_finish klass) then Finish_Error Not_Implemented
          else (case finish result of Inl e \<Rightarrow> Finish_Error (Rpc e) | Inr x \<Rightarrow> Finish_True x))"

text \<open>
  A blocking call: the guard, the check, the request, and the wait for the callback, whose outcome is that of the
  step relation of \<open>Pk_Connection_Sync\<close>. The callback finds the structure as the request left it, with the mutex
  released by the wait. \<open>lk_sends\<close>: the bus library took the message; if it did not, nobody runs the callback.
\<close>

definition blocking ::
  "string \<Rightarrow> connection_class option \<Rightarrow> dbus_link \<Rightarrow> request \<Rightarrow>
     (pending_call \<Rightarrow> 'a pk_connection_sync \<Rightarrow> 'a pk_connection_sync) \<Rightarrow> agent \<times> dbus_listener \<Rightarrow>
     'a returned \<times> agent \<times> dbus_listener" where
  "blocking n connection l request callback st =
     (case connection of
        None \<Rightarrow> (Returned Finish_Quiet, st)
      | Some klass \<Rightarrow>
          if \<not> implements n klass then (Returned (Finish_Error Not_Implemented), st)
          else (case request of
                  Request_Crashed \<Rightarrow> (Client_Crash, st)
                | Not_Requested \<Rightarrow> (sync_outcome Absent Finish_Quiet, st)
                | Requested m \<Rightarrow>
                    if \<not> lk_sends l then (sync_outcome Absent Finish_Quiet, st)
                    else (case call l m (\<lambda>p. callback p (pk_connection_sync_init\<lparr>sy_mutex := None\<rparr>)) st of
                            (async, st) \<Rightarrow> (sync_outcome Deferred (sy_result async), st))))"

section \<open>Remote procedures\<close>

subsection \<open>Channels\<close>

definition pk_connection_channel_add_source_async ::
  "connection_class option \<Rightarrow> gint \<Rightarrow> gint \<Rightarrow> request" where
  "pk_connection_channel_add_source_async connection channel source =
     RPC_ASYNC ''channel_add_source'' connection (Some (pk_connection_dbus_channel_add_source_async channel source))"

definition pk_connection_channel_add_source_finish ::
  "connection_class option \<Rightarrow> pending_call \<Rightarrow> unit finished" where
  "pk_connection_channel_add_source_finish connection result =
     RPC_FINISH ''channel_add_source'' connection pk_connection_dbus_channel_add_source_finish result"

definition pk_connection_channel_add_source_cb ::
  "connection_class option \<Rightarrow> pending_call \<Rightarrow> unit pk_connection_sync \<Rightarrow> unit pk_connection_sync" where
  "pk_connection_channel_add_source_cb source result async =
     pk_connection_sync_signal (async\<lparr>sy_result := pk_connection_channel_add_source_finish source result\<rparr>)"

definition pk_connection_channel_add_source ::
  "connection_class option \<Rightarrow> dbus_link \<Rightarrow> gint \<Rightarrow> gint \<Rightarrow> agent \<times> dbus_listener \<Rightarrow> unit returned \<times> agent \<times> dbus_listener" where
  "pk_connection_channel_add_source connection l channel source =
     blocking ''channel_add_source'' connection l (pk_connection_channel_add_source_async connection channel source)
       (pk_connection_channel_add_source_cb connection)"

definition pk_connection_channel_get_args_async :: "connection_class option \<Rightarrow> gint \<Rightarrow> request" where
  "pk_connection_channel_get_args_async connection channel =
     RPC_ASYNC ''channel_get_args'' connection (Some (pk_connection_dbus_channel_get_args_async channel))"

definition pk_connection_channel_get_args_finish ::
  "connection_class option \<Rightarrow> pending_call \<Rightarrow> (cstring list) finished" where
  "pk_connection_channel_get_args_finish connection result =
     RPC_FINISH ''channel_get_args'' connection pk_connection_dbus_channel_get_args_finish result"

definition pk_connection_channel_get_args_cb ::
  "connection_class option \<Rightarrow> pending_call \<Rightarrow> (cstring list) pk_connection_sync \<Rightarrow> (cstring list) pk_connection_sync" where
  "pk_connection_channel_get_args_cb source result async =
     pk_connection_sync_signal (async\<lparr>sy_result := pk_connection_channel_get_args_finish source result\<rparr>)"

definition pk_connection_channel_get_args ::
  "connection_class option \<Rightarrow> dbus_link \<Rightarrow> gint \<Rightarrow> agent \<times> dbus_listener \<Rightarrow> (cstring list) returned \<times> agent \<times> dbus_listener" where
  "pk_connection_channel_get_args connection l channel =
     blocking ''channel_get_args'' connection l (pk_connection_channel_get_args_async connection channel)
       (pk_connection_channel_get_args_cb connection)"

definition pk_connection_channel_get_created_at_async :: "connection_class option \<Rightarrow> gint \<Rightarrow> request" where
  "pk_connection_channel_get_created_at_async connection channel =
     RPC_ASYNC ''channel_get_created_at'' connection (Some (pk_connection_dbus_channel_get_created_at_async channel))"

definition pk_connection_channel_get_created_at_finish ::
  "(cstring \<Rightarrow> g_time_val option) \<Rightarrow> connection_class option \<Rightarrow> pending_call \<Rightarrow> g_time_val finished" where
  "pk_connection_channel_get_created_at_finish parse connection result =
     RPC_FINISH ''channel_get_created_at'' connection (pk_connection_dbus_channel_get_created_at_finish parse) result"

definition pk_connection_channel_get_created_at_cb ::
  "(cstring \<Rightarrow> g_time_val option) \<Rightarrow> connection_class option \<Rightarrow> pending_call \<Rightarrow> g_time_val pk_connection_sync \<Rightarrow> g_time_val pk_connection_sync" where
  "pk_connection_channel_get_created_at_cb parse source result async =
     pk_connection_sync_signal (async\<lparr>sy_result := pk_connection_channel_get_created_at_finish parse source result\<rparr>)"

definition pk_connection_channel_get_created_at ::
  "connection_class option \<Rightarrow> dbus_link \<Rightarrow> gint \<Rightarrow> agent \<times> dbus_listener \<Rightarrow> g_time_val returned \<times> agent \<times> dbus_listener" where
  "pk_connection_channel_get_created_at connection l channel =
     blocking ''channel_get_created_at'' connection l (pk_connection_channel_get_created_at_async connection channel)
       (pk_connection_channel_get_created_at_cb (lk_parse l) connection)"

definition pk_connection_channel_get_env_async :: "connection_class option \<Rightarrow> gint \<Rightarrow> request" where
  "pk_connection_channel_get_env_async connection channel =
     RPC_ASYNC ''channel_get_env'' connection (Some (pk_connection_dbus_channel_get_env_async channel))"

definition pk_connection_channel_get_env_finish ::
  "connection_class option \<Rightarrow> pending_call \<Rightarrow> (cstring list) finished" where
  "pk_connection_channel_get_env_finish connection result =
     RPC_FINISH ''channel_get_env'' connection pk_connection_dbus_channel_get_env_finish result"

definition pk_connection_channel_get_env_cb ::
  "connection_class option \<Rightarrow> pending_call \<Rightarrow> (cstring list) pk_connection_sync \<Rightarrow> (cstring list) pk_connection_sync" where
  "pk_connection_channel_get_env_cb source result async =
     pk_connection_sync_signal (async\<lparr>sy_result := pk_connection_channel_get_env_finish source result\<rparr>)"

definition pk_connection_channel_get_env ::
  "connection_class option \<Rightarrow> dbus_link \<Rightarrow> gint \<Rightarrow> agent \<times> dbus_listener \<Rightarrow> (cstring list) returned \<times> agent \<times> dbus_listener" where
  "pk_connection_channel_get_env connection l channel =
     blocking ''channel_get_env'' connection l (pk_connection_channel_get_env_async connection channel)
       (pk_connection_channel_get_env_cb connection)"

definition pk_connection_channel_get_exit_status_async :: "connection_class option \<Rightarrow> gint \<Rightarrow> request" where
  "pk_connection_channel_get_exit_status_async connection channel =
     RPC_ASYNC ''channel_get_exit_status'' connection (Some (pk_connection_dbus_channel_get_exit_status_async channel))"

definition pk_connection_channel_get_exit_status_finish ::
  "connection_class option \<Rightarrow> pending_call \<Rightarrow> gint finished" where
  "pk_connection_channel_get_exit_status_finish connection result =
     RPC_FINISH ''channel_get_exit_status'' connection pk_connection_dbus_channel_get_exit_status_finish result"

definition pk_connection_channel_get_exit_status_cb ::
  "connection_class option \<Rightarrow> pending_call \<Rightarrow> gint pk_connection_sync \<Rightarrow> gint pk_connection_sync" where
  "pk_connection_channel_get_exit_status_cb source result async =
     pk_connection_sync_signal (async\<lparr>sy_result := pk_connection_channel_get_exit_status_finish source result\<rparr>)"

definition pk_connection_channel_get_exit_status ::
  "connection_class option \<Rightarrow> dbus_link \<Rightarrow> gint \<Rightarrow> agent \<times> dbus_listener \<Rightarrow> gint returned \<times> agent \<times> dbus_listener" where
  "pk_connection_channel_get_exit_status connection l channel =
     blocking ''channel_get_exit_status'' connection l (pk_connection_channel_get_exit_status_async connection channel)
       (pk_connection_channel_get_exit_status_cb connection)"

definition pk_connection_channel_get_kill_pid_async :: "connection_class option \<Rightarrow> gint \<Rightarrow> request" where
  "pk_connection_channel_get_kill_pid_async connection channel =
     RPC_ASYNC ''channel_get_kill_pid'' connection (Some (pk_connection_dbus_channel_get_kill_pid_async channel))"

definition pk_connection_channel_get_kill_pid_finish ::
  "connection_class option \<Rightarrow> pending_call \<Rightarrow> bool finished" where
  "pk_connection_channel_get_kill_pid_finish connection result =
     RPC_FINISH ''channel_get_kill_pid'' connection pk_connection_dbus_channel_get_kill_pid_finish result"

definition pk_connection_channel_get_kill_pid_cb ::
  "connection_class option \<Rightarrow> pending_call \<Rightarrow> bool pk_connection_sync \<Rightarrow> bool pk_connection_sync" where
  "pk_connection_channel_get_kill_pid_cb source result async =
     pk_connection_sync_signal (async\<lparr>sy_result := pk_connection_channel_get_kill_pid_finish source result\<rparr>)"

definition pk_connection_channel_get_kill_pid ::
  "connection_class option \<Rightarrow> dbus_link \<Rightarrow> gint \<Rightarrow> agent \<times> dbus_listener \<Rightarrow> bool returned \<times> agent \<times> dbus_listener" where
  "pk_connection_channel_get_kill_pid connection l channel =
     blocking ''channel_get_kill_pid'' connection l (pk_connection_channel_get_kill_pid_async connection channel)
       (pk_connection_channel_get_kill_pid_cb connection)"

definition pk_connection_channel_get_pid_async :: "connection_class option \<Rightarrow> gint \<Rightarrow> request" where
  "pk_connection_channel_get_pid_async connection channel =
     RPC_ASYNC ''channel_get_pid'' connection (Some (pk_connection_dbus_channel_get_pid_async channel))"

definition pk_connection_channel_get_pid_finish ::
  "connection_class option \<Rightarrow> pending_call \<Rightarrow> gint finished" where
  "pk_connection_channel_get_pid_finish connection result =
     RPC_FINISH ''channel_get_pid'' connection pk_connection_dbus_channel_get_pid_finish result"

definition pk_connection_channel_get_pid_cb ::
  "connection_class option \<Rightarrow> pending_call \<Rightarrow> gint pk_connection_sync \<Rightarrow> gint pk_connection_sync" where
  "pk_connection_channel_get_pid_cb source result async =
     pk_connection_sync_signal (async\<lparr>sy_result := pk_connection_channel_get_pid_finish source result\<rparr>)"

definition pk_connection_channel_get_pid ::
  "connection_class option \<Rightarrow> dbus_link \<Rightarrow> gint \<Rightarrow> agent \<times> dbus_listener \<Rightarrow> gint returned \<times> agent \<times> dbus_listener" where
  "pk_connection_channel_get_pid connection l channel =
     blocking ''channel_get_pid'' connection l (pk_connection_channel_get_pid_async connection channel)
       (pk_connection_channel_get_pid_cb connection)"

definition pk_connection_channel_get_pid_set_async :: "connection_class option \<Rightarrow> gint \<Rightarrow> request" where
  "pk_connection_channel_get_pid_set_async connection channel =
     RPC_ASYNC ''channel_get_pid_set'' connection (Some (pk_connection_dbus_channel_get_pid_set_async channel))"

definition pk_connection_channel_get_pid_set_finish ::
  "connection_class option \<Rightarrow> pending_call \<Rightarrow> bool finished" where
  "pk_connection_channel_get_pid_set_finish connection result =
     RPC_FINISH ''channel_get_pid_set'' connection pk_connection_dbus_channel_get_pid_set_finish result"

definition pk_connection_channel_get_pid_set_cb ::
  "connection_class option \<Rightarrow> pending_call \<Rightarrow> bool pk_connection_sync \<Rightarrow> bool pk_connection_sync" where
  "pk_connection_channel_get_pid_set_cb source result async =
     pk_connection_sync_signal (async\<lparr>sy_result := pk_connection_channel_get_pid_set_finish source result\<rparr>)"

definition pk_connection_channel_get_pid_set ::
  "connection_class option \<Rightarrow> dbus_link \<Rightarrow> gint \<Rightarrow> agent \<times> dbus_listener \<Rightarrow> bool returned \<times> agent \<times> dbus_listener" where
  "pk_connection_channel_get_pid_set connection l channel =
     blocking ''channel_get_pid_set'' connection l (pk_connection_channel_get_pid_set_async connection channel)
       (pk_connection_channel_get_pid_set_cb connection)"

definition pk_connection_channel_get_sources_async :: "connection_class option \<Rightarrow> gint \<Rightarrow> request" where
  "pk_connection_channel_get_sources_async connection channel =
     RPC_ASYNC ''channel_get_sources'' connection (Some (pk_connection_dbus_channel_get_sources_async channel))"

definition pk_connection_channel_get_sources_finish ::
  "connection_class option \<Rightarrow> pending_call \<Rightarrow> (gint list) finished" where
  "pk_connection_channel_get_sources_finish connection result =
     RPC_FINISH ''channel_get_sources'' connection pk_connection_dbus_channel_get_sources_finish result"

definition pk_connection_channel_get_sources_cb ::
  "connection_class option \<Rightarrow> pending_call \<Rightarrow> (gint list) pk_connection_sync \<Rightarrow> (gint list) pk_connection_sync" where
  "pk_connection_channel_get_sources_cb source result async =
     pk_connection_sync_signal (async\<lparr>sy_result := pk_connection_channel_get_sources_finish source result\<rparr>)"

definition pk_connection_channel_get_sources ::
  "connection_class option \<Rightarrow> dbus_link \<Rightarrow> gint \<Rightarrow> agent \<times> dbus_listener \<Rightarrow> (gint list) returned \<times> agent \<times> dbus_listener" where
  "pk_connection_channel_get_sources connection l channel =
     blocking ''channel_get_sources'' connection l (pk_connection_channel_get_sources_async connection channel)
       (pk_connection_channel_get_sources_cb connection)"

definition pk_connection_channel_get_state_async :: "connection_class option \<Rightarrow> gint \<Rightarrow> request" where
  "pk_connection_channel_get_state_async connection channel =
     RPC_ASYNC ''channel_get_state'' connection (Some (pk_connection_dbus_channel_get_state_async channel))"

definition pk_connection_channel_get_state_finish ::
  "connection_class option \<Rightarrow> pending_call \<Rightarrow> gint finished" where
  "pk_connection_channel_get_state_finish connection result =
     RPC_FINISH ''channel_get_state'' connection pk_connection_dbus_channel_get_state_finish result"

definition pk_connection_channel_get_state_cb ::
  "connection_class option \<Rightarrow> pending_call \<Rightarrow> gint pk_connection_sync \<Rightarrow> gint pk_connection_sync" where
  "pk_connection_channel_get_state_cb source result async =
     pk_connection_sync_signal (async\<lparr>sy_result := pk_connection_channel_get_state_finish source result\<rparr>)"

definition pk_connection_channel_get_state ::
  "connection_class option \<Rightarrow> dbus_link \<Rightarrow> gint \<Rightarrow> agent \<times> dbus_listener \<Rightarrow> gint returned \<times> agent \<times> dbus_listener" where
  "pk_connection_channel_get_state connection l channel =
     blocking ''channel_get_state'' connection l (pk_connection_channel_get_state_async connection channel)
       (pk_connection_channel_get_state_cb connection)"

definition pk_connection_channel_get_target_async :: "connection_class option \<Rightarrow> gint \<Rightarrow> request" where
  "pk_connection_channel_get_target_async connection channel =
     RPC_ASYNC ''channel_get_target'' connection (Some (pk_connection_dbus_channel_get_target_async channel))"

definition pk_connection_channel_get_target_finish ::
  "connection_class option \<Rightarrow> pending_call \<Rightarrow> cstring finished" where
  "pk_connection_channel_get_target_finish connection result =
     RPC_FINISH ''channel_get_target'' connection pk_connection_dbus_channel_get_target_finish result"

definition pk_connection_channel_get_target_cb ::
  "connection_class option \<Rightarrow> pending_call \<Rightarrow> cstring pk_connection_sync \<Rightarrow> cstring pk_connection_sync" where
  "pk_connection_channel_get_target_cb source result async =
     pk_connection_sync_signal (async\<lparr>sy_result := pk_connection_channel_get_target_finish source result\<rparr>)"

definition pk_connection_channel_get_target ::
  "connection_class option \<Rightarrow> dbus_link \<Rightarrow> gint \<Rightarrow> agent \<times> dbus_listener \<Rightarrow> cstring returned \<times> agent \<times> dbus_listener" where
  "pk_connection_channel_get_target connection l channel =
     blocking ''channel_get_target'' connection l (pk_connection_channel_get_target_async connection channel)
       (pk_connection_channel_get_target_cb connection)"

definition pk_connection_channel_get_working_dir_async :: "connection_class option \<Rightarrow> gint \<Rightarrow> request" where
  "pk_connection_channel_get_working_dir_async connection channel =
     RPC_ASYNC ''channel_get_working_dir'' connection (Some (pk_connection_dbus_channel_get_working_dir_async channel))"

definition pk_connection_channel_get_working_dir_finish ::
  "connection_class option \<Rightarrow> pending_call \<Rightarrow> cstring finished" where
  "pk_connection_channel_get_working_dir_finish connection result =
     RPC_FINISH ''channel_get_working_dir'' connection pk_connection_dbus_channel_get_working_dir_finish result"

definition pk_connection_channel_get_working_dir_cb ::
  "connection_class option \<Rightarrow> pending_call \<Rightarrow> cstring pk_connection_sync \<Rightarrow> cstring pk_connection_sync" where
  "pk_connection_channel_get_working_dir_cb source result async =
     pk_connection_sync_signal (async\<lparr>sy_result := pk_connection_channel_get_working_dir_finish source result\<rparr>)"

definition pk_connection_channel_get_working_dir ::
  "connection_class option \<Rightarrow> dbus_link \<Rightarrow> gint \<Rightarrow> agent \<times> dbus_listener \<Rightarrow> cstring returned \<times> agent \<times> dbus_listener" where
  "pk_connection_channel_get_working_dir connection l channel =
     blocking ''channel_get_working_dir'' connection l (pk_connection_channel_get_working_dir_async connection channel)
       (pk_connection_channel_get_working_dir_cb connection)"

definition pk_connection_channel_mute_async :: "connection_class option \<Rightarrow> gint \<Rightarrow> request" where
  "pk_connection_channel_mute_async connection channel =
     RPC_ASYNC ''channel_mute'' connection (Some (pk_connection_dbus_channel_mute_async channel))"

definition pk_connection_channel_mute_finish ::
  "connection_class option \<Rightarrow> pending_call \<Rightarrow> unit finished" where
  "pk_connection_channel_mute_finish connection result =
     RPC_FINISH ''channel_mute'' connection pk_connection_dbus_channel_mute_finish result"

definition pk_connection_channel_mute_cb ::
  "connection_class option \<Rightarrow> pending_call \<Rightarrow> unit pk_connection_sync \<Rightarrow> unit pk_connection_sync" where
  "pk_connection_channel_mute_cb source result async =
     pk_connection_sync_signal (async\<lparr>sy_result := pk_connection_channel_mute_finish source result\<rparr>)"

definition pk_connection_channel_mute ::
  "connection_class option \<Rightarrow> dbus_link \<Rightarrow> gint \<Rightarrow> agent \<times> dbus_listener \<Rightarrow> unit returned \<times> agent \<times> dbus_listener" where
  "pk_connection_channel_mute connection l channel =
     blocking ''channel_mute'' connection l (pk_connection_channel_mute_async connection channel)
       (pk_connection_channel_mute_cb connection)"

definition pk_connection_channel_set_args_async ::
  "connection_class option \<Rightarrow> gint \<Rightarrow> cstring list option \<Rightarrow> request" where
  "pk_connection_channel_set_args_async connection channel args =
     RPC_ASYNC ''channel_set_args'' connection (pk_connection_dbus_channel_set_args_async channel args)"

definition pk_connection_channel_set_args_finish ::
  "connection_class option \<Rightarrow> pending_call \<Rightarrow> unit finished" where
  "pk_connection_channel_set_args_finish connection result =
     RPC_FINISH ''channel_set_args'' connection pk_connection_dbus_channel_set_args_finish result"

definition pk_connection_channel_set_args_cb ::
  "connection_class option \<Rightarrow> pending_call \<Rightarrow> unit pk_connection_sync \<Rightarrow> unit pk_connection_sync" where
  "pk_connection_channel_set_args_cb source result async =
     pk_connection_sync_signal (async\<lparr>sy_result := pk_connection_channel_set_args_finish source result\<rparr>)"

definition pk_connection_channel_set_args ::
  "connection_class option \<Rightarrow> dbus_link \<Rightarrow> gint \<Rightarrow> cstring list option \<Rightarrow> agent \<times> dbus_listener \<Rightarrow> unit returned \<times> agent \<times> dbus_listener" where
  "pk_connection_channel_set_args connection l channel args =
     blocking ''channel_set_args'' connection l (pk_connection_channel_set_args_async connection channel args)
       (pk_connection_channel_set_args_cb connection)"

definition pk_connection_channel_set_env_async ::
  "connection_class option \<Rightarrow> gint \<Rightarrow> cstring list option \<Rightarrow> request" where
  "pk_connection_channel_set_env_async connection channel env_vars =
     RPC_ASYNC ''channel_set_env'' connection (pk_connection_dbus_channel_set_env_async channel env_vars)"

definition pk_connection_channel_set_env_finish ::
  "connection_class option \<Rightarrow> pending_call \<Rightarrow> unit finished" where
  "pk_connection_channel_set_env_finish connection result =
     RPC_FINISH ''channel_set_env'' connection pk_connection_dbus_channel_set_env_finish result"

definition pk_connection_channel_set_env_cb ::
  "connection_class option \<Rightarrow> pending_call \<Rightarrow> unit pk_connection_sync \<Rightarrow> unit pk_connection_sync" where
  "pk_connection_channel_set_env_cb source result async =
     pk_connection_sync_signal (async\<lparr>sy_result := pk_connection_channel_set_env_finish source result\<rparr>)"

definition pk_connection_channel_set_env ::
  "connection_class option \<Rightarrow> dbus_link \<Rightarrow> gint \<Rightarrow> cstring list option \<Rightarrow> agent \<times> dbus_listener \<Rightarrow> unit returned \<times> agent \<times> dbus_listener" where
  "pk_connection_channel_set_env connection l channel env_vars =
     blocking ''channel_set_env'' connection l (pk_connection_channel_set_env_async connection channel env_vars)
       (pk_connection_channel_set_env_cb connection)"

definition pk_connection_channel_set_kill_pid_async ::
  "connection_class option \<Rightarrow> gint \<Rightarrow> bool \<Rightarrow> request" where
  "pk_connection_channel_set_kill_pid_async connection channel kill_pid =
     RPC_ASYNC ''channel_set_kill_pid'' connection (Some (pk_connection_dbus_channel_set_kill_pid_async channel kill_pid))"

definition pk_connection_channel_set_kill_pid_finish ::
  "connection_class option \<Rightarrow> pending_call \<Rightarrow> unit finished" where
  "pk_connection_channel_set_kill_pid_finish connection result =
     RPC_FINISH ''channel_set_kill_pid'' connection pk_connection_dbus_channel_set_kill_pid_finish result"

definition pk_connection_channel_set_kill_pid_cb ::
  "connection_class option \<Rightarrow> pending_call \<Rightarrow> unit pk_connection_sync \<Rightarrow> unit pk_connection_sync" where
  "pk_connection_channel_set_kill_pid_cb source result async =
     pk_connection_sync_signal (async\<lparr>sy_result := pk_connection_channel_set_kill_pid_finish source result\<rparr>)"

definition pk_connection_channel_set_kill_pid ::
  "connection_class option \<Rightarrow> dbus_link \<Rightarrow> gint \<Rightarrow> bool \<Rightarrow> agent \<times> dbus_listener \<Rightarrow> unit returned \<times> agent \<times> dbus_listener" where
  "pk_connection_channel_set_kill_pid connection l channel kill_pid =
     blocking ''channel_set_kill_pid'' connection l (pk_connection_channel_set_kill_pid_async connection channel kill_pid)
       (pk_connection_channel_set_kill_pid_cb connection)"

definition pk_connection_channel_set_pid_async :: "connection_class option \<Rightarrow> gint \<Rightarrow> gint \<Rightarrow> request" where
  "pk_connection_channel_set_pid_async connection channel pid =
     RPC_ASYNC ''channel_set_pid'' connection (Some (pk_connection_dbus_channel_set_pid_async channel pid))"

definition pk_connection_channel_set_pid_finish ::
  "connection_class option \<Rightarrow> pending_call \<Rightarrow> unit finished" where
  "pk_connection_channel_set_pid_finish connection result =
     RPC_FINISH ''channel_set_pid'' connection pk_connection_dbus_channel_set_pid_finish result"

definition pk_connection_channel_set_pid_cb ::
  "connection_class option \<Rightarrow> pending_call \<Rightarrow> unit pk_connection_sync \<Rightarrow> unit pk_connection_sync" where
  "pk_connection_channel_set_pid_cb source result async =
     pk_connection_sync_signal (async\<lparr>sy_result := pk_connection_channel_set_pid_finish source result\<rparr>)"

definition pk_connection_channel_set_pid ::
  "connection_class option \<Rightarrow> dbus_link \<Rightarrow> gint \<Rightarrow> gint \<Rightarrow> agent \<times> dbus_listener \<Rightarrow> unit returned \<times> agent \<times> dbus_listener" where
  "pk_connection_channel_set_pid connection l channel pid =
     blocking ''channel_set_pid'' connection l (pk_connection_channel_set_pid_async connection channel pid)
       (pk_connection_channel_set_pid_cb connection)"

definition pk_connection_channel_set_target_async ::
  "connection_class option \<Rightarrow> gint \<Rightarrow> cstring option \<Rightarrow> request" where
  "pk_connection_channel_set_target_async connection channel target =
     RPC_ASYNC ''channel_set_target'' connection (Some (pk_connection_dbus_channel_set_target_async channel target))"

definition pk_connection_channel_set_target_finish ::
  "connection_class option \<Rightarrow> pending_call \<Rightarrow> unit finished" where
  "pk_connection_channel_set_target_finish connection result =
     RPC_FINISH ''channel_set_target'' connection pk_connection_dbus_channel_set_target_finish result"

definition pk_connection_channel_set_target_cb ::
  "connection_class option \<Rightarrow> pending_call \<Rightarrow> unit pk_connection_sync \<Rightarrow> unit pk_connection_sync" where
  "pk_connection_channel_set_target_cb source result async =
     pk_connection_sync_signal (async\<lparr>sy_result := pk_connection_channel_set_target_finish source result\<rparr>)"

definition pk_connection_channel_set_target ::
  "connection_class option \<Rightarrow> dbus_link \<Rightarrow> gint \<Rightarrow> cstring option \<Rightarrow> agent \<times> dbus_listener \<Rightarrow> unit returned \<times> agent \<times> dbus_listener" where
  "pk_connection_channel_set_target connection l channel target =
     blocking ''channel_set_target'' connection l (pk_connection_channel_set_target_async connection channel target)
       (pk_connection_channel_set_target_cb connection)"

definition pk_connection_channel_set_working_dir_async ::
  "connection_class option \<Rightarrow> gint \<Rightarrow> cstring option \<Rightarrow> request" where
  "pk_connection_channel_set_working_dir_async connection channel working_dir =
     RPC_ASYNC ''channel_set_working_dir'' connection (Some (pk_connection_dbus_channel_set_working_dir_async channel working_dir))"

definition pk_connection_channel_set_working_dir_finish ::
  "connection_class option \<Rightarrow> pending_call \<Rightarrow> unit finished" where
  "pk_connection_channel_set_working_dir_finish connection result =
     RPC_FINISH ''channel_set_working_dir'' connection pk_connection_dbus_channel_set_working_dir_finish result"

definition pk_connection_channel_set_working_dir_cb ::
  "connection_class option \<Rightarrow> pending_call \<Rightarrow> unit pk_connection_sync \<Rightarrow> unit pk_connection_sync" where
  "pk_connection_channel_set_working_dir_cb source result async =
     pk_connection_sync_signal (async\<lparr>sy_result := pk_connection_channel_set_working_dir_finish source result\<rparr>)"

definition pk_connection_channel_set_working_dir ::
  "connection_class option \<Rightarrow> dbus_link \<Rightarrow> gint \<Rightarrow> cstring option \<Rightarrow> agent \<times> dbus_listener \<Rightarrow> unit returned \<times> agent \<times> dbus_listener" where
  "pk_connection_channel_set_working_dir connection l channel working_dir =
     blocking ''channel_set_working_dir'' connection l (pk_connection_channel_set_working_dir_async connection channel working_dir)
       (pk_connection_channel_set_working_dir_cb connection)"

definition pk_connection_channel_start_async :: "connection_class option \<Rightarrow> gint \<Rightarrow> request" where
  "pk_connection_channel_start_async connection channel =
     RPC_ASYNC ''channel_start'' connection (Some (pk_connection_dbus_channel_start_async channel))"

definition pk_connection_channel_start_finish ::
  "connection_class option \<Rightarrow> pending_call \<Rightarrow> unit finished" where
  "pk_connection_channel_start_finish connection result =
     RPC_FINISH ''channel_start'' connection pk_connection_dbus_channel_start_finish result"

definition pk_connection_channel_start_cb ::
  "connection_class option \<Rightarrow> pending_call \<Rightarrow> unit pk_connection_sync \<Rightarrow> unit pk_connection_sync" where
  "pk_connection_channel_start_cb source result async =
     pk_connection_sync_signal (async\<lparr>sy_result := pk_connection_channel_start_finish source result\<rparr>)"

definition pk_connection_channel_start ::
  "connection_class option \<Rightarrow> dbus_link \<Rightarrow> gint \<Rightarrow> agent \<times> dbus_listener \<Rightarrow> unit returned \<times> agent \<times> dbus_listener" where
  "pk_connection_channel_start connection l channel =
     blocking ''channel_start'' connection l (pk_connection_channel_start_async connection channel)
       (pk_connection_channel_start_cb connection)"

definition pk_connection_channel_stop_async :: "connection_class option \<Rightarrow> gint \<Rightarrow> request" where
  "pk_connection_channel_stop_async connection channel =
     RPC_ASYNC ''channel_stop'' connection (Some (pk_connection_dbus_channel_stop_async channel))"

definition pk_connection_channel_stop_finish ::
  "connection_class option \<Rightarrow> pending_call \<Rightarrow> unit finished" where
  "pk_connection_channel_stop_finish connection result =
     RPC_FINISH ''channel_stop'' connection pk_connection_dbus_channel_stop_finish result"

definition pk_connection_channel_stop_cb ::
  "connection_class option \<Rightarrow> pending_call \<Rightarrow> unit pk_connection_sync \<Rightarrow> unit pk_connection_sync" where
  "pk_connection_channel_stop_cb source result async =
     pk_connection_sync_signal (async\<lparr>sy_result := pk_connection_channel_stop_finish source result\<rparr>)"

definition pk_connection_channel_stop ::
  "connection_class option \<Rightarrow> dbus_link \<Rightarrow> gint \<Rightarrow> agent \<times> dbus_listener \<Rightarrow> unit returned \<times> agent \<times> dbus_listener" where
  "pk_connection_channel_stop connection l channel =
     blocking ''channel_stop'' connection l (pk_connection_channel_stop_async connection channel)
       (pk_connection_channel_stop_cb connection)"

definition pk_connection_channel_unmute_async :: "connection_class option \<Rightarrow> gint \<Rightarrow> request" where
  "pk_connection_channel_unmute_async connection channel =
     RPC_ASYNC ''channel_unmute'' connection (Some (pk_connection_dbus_channel_unmute_async channel))"

definition pk_connection_channel_unmute_finish ::
  "connection_class option \<Rightarrow> pending_call \<Rightarrow> unit finished" where
  "pk_connection_channel_unmute_finish connection result =
     RPC_FINISH ''channel_unmute'' connection pk_connection_dbus_channel_unmute_finish result"

definition pk_connection_channel_unmute_cb ::
  "connection_class option \<Rightarrow> pending_call \<Rightarrow> unit pk_connection_sync \<Rightarrow> unit pk_connection_sync" where
  "pk_connection_channel_unmute_cb source result async =
     pk_connection_sync_signal (async\<lparr>sy_result := pk_connection_channel_unmute_finish source result\<rparr>)"

definition pk_connection_channel_unmute ::
  "connection_class option \<Rightarrow> dbus_link \<Rightarrow> gint \<Rightarrow> agent \<times> dbus_listener \<Rightarrow> unit returned \<times> agent \<times> dbus_listener" where
  "pk_connection_channel_unmute connection l channel =
     blocking ''channel_unmute'' connection l (pk_connection_channel_unmute_async connection channel)
       (pk_connection_channel_unmute_cb connection)"

subsection \<open>Encoders\<close>

definition pk_connection_encoder_get_plugin_async :: "connection_class option \<Rightarrow> gint \<Rightarrow> request" where
  "pk_connection_encoder_get_plugin_async connection encoder =
     RPC_ASYNC ''encoder_get_plugin'' connection (Some (pk_connection_dbus_encoder_get_plugin_async encoder))"

definition pk_connection_encoder_get_plugin_finish ::
  "connection_class option \<Rightarrow> pending_call \<Rightarrow> (cstring option) finished" where
  "pk_connection_encoder_get_plugin_finish connection result =
     RPC_FINISH ''encoder_get_plugin'' connection pk_connection_dbus_encoder_get_plugin_finish result"

definition pk_connection_encoder_get_plugin_cb ::
  "connection_class option \<Rightarrow> pending_call \<Rightarrow> (cstring option) pk_connection_sync \<Rightarrow> (cstring option) pk_connection_sync" where
  "pk_connection_encoder_get_plugin_cb source result async =
     pk_connection_sync_signal (async\<lparr>sy_result := pk_connection_encoder_get_plugin_finish source result\<rparr>)"

definition pk_connection_encoder_get_plugin ::
  "connection_class option \<Rightarrow> dbus_link \<Rightarrow> gint \<Rightarrow> agent \<times> dbus_listener \<Rightarrow> (cstring option) returned \<times> agent \<times> dbus_listener" where
  "pk_connection_encoder_get_plugin connection l encoder =
     blocking ''encoder_get_plugin'' connection l (pk_connection_encoder_get_plugin_async connection encoder)
       (pk_connection_encoder_get_plugin_cb connection)"

subsection \<open>The manager\<close>

definition pk_connection_manager_add_channel_async :: "connection_class option \<Rightarrow> request" where
  "pk_connection_manager_add_channel_async connection =
     RPC_ASYNC ''manager_add_channel'' connection (Some pk_connection_dbus_manager_add_channel_async)"

definition pk_connection_manager_add_channel_finish ::
  "connection_class option \<Rightarrow> pending_call \<Rightarrow> gint finished" where
  "pk_connection_manager_add_channel_finish connection result =
     RPC_FINISH ''manager_add_channel'' connection pk_connection_dbus_manager_add_channel_finish result"

definition pk_connection_manager_add_channel_cb ::
  "connection_class option \<Rightarrow> pending_call \<Rightarrow> gint pk_connection_sync \<Rightarrow> gint pk_connection_sync" where
  "pk_connection_manager_add_channel_cb source result async =
     pk_connection_sync_signal (async\<lparr>sy_result := pk_connection_manager_add_channel_finish source result\<rparr>)"

definition pk_connection_manager_add_channel ::
  "connection_class option \<Rightarrow> dbus_link \<Rightarrow> agent \<times> dbus_listener \<Rightarrow> gint returned \<times> agent \<times> dbus_listener" where
  "pk_connection_manager_add_channel connection l =
     blocking ''manager_add_channel'' connection l (pk_connection_manager_add_channel_async connection)
       (pk_connection_manager_add_channel_cb connection)"

definition pk_connection_manager_add_source_async ::
  "connection_class option \<Rightarrow> cstring option \<Rightarrow> request" where
  "pk_connection_manager_add_source_async connection plugin =
     RPC_ASYNC ''manager_add_source'' connection (Some (pk_connection_dbus_manager_add_source_async plugin))"

definition pk_connection_manager_add_source_finish ::
  "connection_class option \<Rightarrow> pending_call \<Rightarrow> gint finished" where
  "pk_connection_manager_add_source_finish connection result =
     RPC_FINISH ''manager_add_source'' connection pk_connection_dbus_manager_add_source_finish result"

definition pk_connection_manager_add_source_cb ::
  "connection_class option \<Rightarrow> pending_call \<Rightarrow> gint pk_connection_sync \<Rightarrow> gint pk_connection_sync" where
  "pk_connection_manager_add_source_cb source result async =
     pk_connection_sync_signal (async\<lparr>sy_result := pk_connection_manager_add_source_finish source result\<rparr>)"

definition pk_connection_manager_add_source ::
  "connection_class option \<Rightarrow> dbus_link \<Rightarrow> cstring option \<Rightarrow> agent \<times> dbus_listener \<Rightarrow> gint returned \<times> agent \<times> dbus_listener" where
  "pk_connection_manager_add_source connection l plugin =
     blocking ''manager_add_source'' connection l (pk_connection_manager_add_source_async connection plugin)
       (pk_connection_manager_add_source_cb connection)"

definition pk_connection_manager_add_subscription_async ::
  "connection_class option \<Rightarrow> byte_order \<Rightarrow> gsize \<Rightarrow> gsize \<Rightarrow> request" where
  "pk_connection_manager_add_subscription_async connection ord buffer_size timeout =
     RPC_ASYNC ''manager_add_subscription'' connection (Some (pk_connection_dbus_manager_add_subscription_async ord buffer_size timeout))"

definition pk_connection_manager_add_subscription_finish ::
  "connection_class option \<Rightarrow> pending_call \<Rightarrow> gint finished" where
  "pk_connection_manager_add_subscription_finish connection result =
     RPC_FINISH ''manager_add_subscription'' connection pk_connection_dbus_manager_add_subscription_finish result"

definition pk_connection_manager_add_subscription_cb ::
  "connection_class option \<Rightarrow> pending_call \<Rightarrow> gint pk_connection_sync \<Rightarrow> gint pk_connection_sync" where
  "pk_connection_manager_add_subscription_cb source result async =
     pk_connection_sync_signal (async\<lparr>sy_result := pk_connection_manager_add_subscription_finish source result\<rparr>)"

definition pk_connection_manager_add_subscription ::
  "connection_class option \<Rightarrow> dbus_link \<Rightarrow> byte_order \<Rightarrow> gsize \<Rightarrow> gsize \<Rightarrow> agent \<times> dbus_listener \<Rightarrow> gint returned \<times> agent \<times> dbus_listener" where
  "pk_connection_manager_add_subscription connection l ord buffer_size timeout =
     blocking ''manager_add_subscription'' connection l (pk_connection_manager_add_subscription_async connection ord buffer_size timeout)
       (pk_connection_manager_add_subscription_cb connection)"

definition pk_connection_manager_get_channels_async :: "connection_class option \<Rightarrow> request" where
  "pk_connection_manager_get_channels_async connection =
     RPC_ASYNC ''manager_get_channels'' connection (Some pk_connection_dbus_manager_get_channels_async)"

definition pk_connection_manager_get_channels_finish ::
  "connection_class option \<Rightarrow> pending_call \<Rightarrow> (gint list) finished" where
  "pk_connection_manager_get_channels_finish connection result =
     RPC_FINISH ''manager_get_channels'' connection pk_connection_dbus_manager_get_channels_finish result"

definition pk_connection_manager_get_channels_cb ::
  "connection_class option \<Rightarrow> pending_call \<Rightarrow> (gint list) pk_connection_sync \<Rightarrow> (gint list) pk_connection_sync" where
  "pk_connection_manager_get_channels_cb source result async =
     pk_connection_sync_signal (async\<lparr>sy_result := pk_connection_manager_get_channels_finish source result\<rparr>)"

definition pk_connection_manager_get_channels ::
  "connection_class option \<Rightarrow> dbus_link \<Rightarrow> agent \<times> dbus_listener \<Rightarrow> (gint list) returned \<times> agent \<times> dbus_listener" where
  "pk_connection_manager_get_channels connection l =
     blocking ''manager_get_channels'' connection l (pk_connection_manager_get_channels_async connection)
       (pk_connection_manager_get_channels_cb connection)"

definition pk_connection_manager_get_hostname_async :: "connection_class option \<Rightarrow> request" where
  "pk_connection_manager_get_hostname_async connection =
     RPC_ASYNC ''manager_get_hostname'' connection (Some pk_connection_dbus_manager_get_hostname_async)"

definition pk_connection_manager_get_hostname_finish ::
  "connection_class option \<Rightarrow> pending_call \<Rightarrow> cstring finished" where
  "pk_connection_manager_get_hostname_finish connection result =
     RPC_FINISH ''manager_get_hostname'' connection pk_connection_dbus_manager_get_hostname_finish result"

definition pk_connection_manager_get_hostname_cb ::
  "connection_class option \<Rightarrow> pending_call \<Rightarrow> cstring pk_connection_sync \<Rightarrow> cstring pk_connection_sync" where
  "pk_connection_manager_get_hostname_cb source result async =
     pk_connection_sync_signal (async\<lparr>sy_result := pk_connection_manager_get_hostname_finish source result\<rparr>)"

definition pk_connection_manager_get_hostname ::
  "connection_class option \<Rightarrow> dbus_link \<Rightarrow> agent \<times> dbus_listener \<Rightarrow> cstring returned \<times> agent \<times> dbus_listener" where
  "pk_connection_manager_get_hostname connection l =
     blocking ''manager_get_hostname'' connection l (pk_connection_manager_get_hostname_async connection)
       (pk_connection_manager_get_hostname_cb connection)"

definition pk_connection_manager_get_plugins_async :: "connection_class option \<Rightarrow> request" where
  "pk_connection_manager_get_plugins_async connection =
     RPC_ASYNC ''manager_get_plugins'' connection (Some pk_connection_dbus_manager_get_plugins_async)"

definition pk_connection_manager_get_plugins_finish ::
  "connection_class option \<Rightarrow> pending_call \<Rightarrow> (cstring option list) finished" where
  "pk_connection_manager_get_plugins_finish connection result =
     RPC_FINISH ''manager_get_plugins'' connection pk_connection_dbus_manager_get_plugins_finish result"

definition pk_connection_manager_get_plugins_cb ::
  "connection_class option \<Rightarrow> pending_call \<Rightarrow> (cstring option list) pk_connection_sync \<Rightarrow> (cstring option list) pk_connection_sync" where
  "pk_connection_manager_get_plugins_cb source result async =
     pk_connection_sync_signal (async\<lparr>sy_result := pk_connection_manager_get_plugins_finish source result\<rparr>)"

definition pk_connection_manager_get_plugins ::
  "connection_class option \<Rightarrow> dbus_link \<Rightarrow> agent \<times> dbus_listener \<Rightarrow> (cstring option list) returned \<times> agent \<times> dbus_listener" where
  "pk_connection_manager_get_plugins connection l =
     blocking ''manager_get_plugins'' connection l (pk_connection_manager_get_plugins_async connection)
       (pk_connection_manager_get_plugins_cb connection)"

definition pk_connection_manager_get_sources_async :: "connection_class option \<Rightarrow> request" where
  "pk_connection_manager_get_sources_async connection =
     RPC_ASYNC ''manager_get_sources'' connection (Some pk_connection_dbus_manager_get_sources_async)"

definition pk_connection_manager_get_sources_finish ::
  "connection_class option \<Rightarrow> pending_call \<Rightarrow> (gint list) finished" where
  "pk_connection_manager_get_sources_finish connection result =
     RPC_FINISH ''manager_get_sources'' connection pk_connection_dbus_manager_get_sources_finish result"

definition pk_connection_manager_get_sources_cb ::
  "connection_class option \<Rightarrow> pending_call \<Rightarrow> (gint list) pk_connection_sync \<Rightarrow> (gint list) pk_connection_sync" where
  "pk_connection_manager_get_sources_cb source result async =
     pk_connection_sync_signal (async\<lparr>sy_result := pk_connection_manager_get_sources_finish source result\<rparr>)"

definition pk_connection_manager_get_sources ::
  "connection_class option \<Rightarrow> dbus_link \<Rightarrow> agent \<times> dbus_listener \<Rightarrow> (gint list) returned \<times> agent \<times> dbus_listener" where
  "pk_connection_manager_get_sources connection l =
     blocking ''manager_get_sources'' connection l (pk_connection_manager_get_sources_async connection)
       (pk_connection_manager_get_sources_cb connection)"

definition pk_connection_manager_get_subscriptions_async :: "connection_class option \<Rightarrow> request" where
  "pk_connection_manager_get_subscriptions_async connection =
     RPC_ASYNC ''manager_get_subscriptions'' connection (Some pk_connection_dbus_manager_get_subscriptions_async)"

definition pk_connection_manager_get_subscriptions_finish ::
  "connection_class option \<Rightarrow> pending_call \<Rightarrow> (gint list) finished" where
  "pk_connection_manager_get_subscriptions_finish connection result =
     RPC_FINISH ''manager_get_subscriptions'' connection pk_connection_dbus_manager_get_subscriptions_finish result"

definition pk_connection_manager_get_subscriptions_cb ::
  "connection_class option \<Rightarrow> pending_call \<Rightarrow> (gint list) pk_connection_sync \<Rightarrow> (gint list) pk_connection_sync" where
  "pk_connection_manager_get_subscriptions_cb source result async =
     pk_connection_sync_signal (async\<lparr>sy_result := pk_connection_manager_get_subscriptions_finish source result\<rparr>)"

definition pk_connection_manager_get_subscriptions ::
  "connection_class option \<Rightarrow> dbus_link \<Rightarrow> agent \<times> dbus_listener \<Rightarrow> (gint list) returned \<times> agent \<times> dbus_listener" where
  "pk_connection_manager_get_subscriptions connection l =
     blocking ''manager_get_subscriptions'' connection l (pk_connection_manager_get_subscriptions_async connection)
       (pk_connection_manager_get_subscriptions_cb connection)"

definition pk_connection_manager_get_version_async :: "connection_class option \<Rightarrow> request" where
  "pk_connection_manager_get_version_async connection =
     RPC_ASYNC ''manager_get_version'' connection (Some pk_connection_dbus_manager_get_version_async)"

definition pk_connection_manager_get_version_finish ::
  "connection_class option \<Rightarrow> pending_call \<Rightarrow> cstring finished" where
  "pk_connection_manager_get_version_finish connection result =
     RPC_FINISH ''manager_get_version'' connection pk_connection_dbus_manager_get_version_finish result"

definition pk_connection_manager_get_version_cb ::
  "connection_class option \<Rightarrow> pending_call \<Rightarrow> cstring pk_connection_sync \<Rightarrow> cstring pk_connection_sync" where
  "pk_connection_manager_get_version_cb source result async =
     pk_connection_sync_signal (async\<lparr>sy_result := pk_connection_manager_get_version_finish source result\<rparr>)"

definition pk_connection_manager_get_version ::
  "connection_class option \<Rightarrow> dbus_link \<Rightarrow> agent \<times> dbus_listener \<Rightarrow> cstring returned \<times> agent \<times> dbus_listener" where
  "pk_connection_manager_get_version connection l =
     blocking ''manager_get_version'' connection l (pk_connection_manager_get_version_async connection)
       (pk_connection_manager_get_version_cb connection)"

definition pk_connection_manager_ping_async :: "connection_class option \<Rightarrow> request" where
  "pk_connection_manager_ping_async connection =
     RPC_ASYNC ''manager_ping'' connection (Some pk_connection_dbus_manager_ping_async)"

definition pk_connection_manager_ping_finish ::
  "(cstring \<Rightarrow> g_time_val option) \<Rightarrow> connection_class option \<Rightarrow> pending_call \<Rightarrow> g_time_val finished" where
  "pk_connection_manager_ping_finish parse connection result =
     RPC_FINISH ''manager_ping'' connection (pk_connection_dbus_manager_ping_finish parse) result"

definition pk_connection_manager_ping_cb ::
  "(cstring \<Rightarrow> g_time_val option) \<Rightarrow> connection_class option \<Rightarrow> pending_call \<Rightarrow> g_time_val pk_connection_sync \<Rightarrow> g_time_val pk_connection_sync" where
  "pk_connection_manager_ping_cb parse source result async =
     pk_connection_sync_signal (async\<lparr>sy_result := pk_connection_manager_ping_finish parse source result\<rparr>)"

definition pk_connection_manager_ping ::
  "connection_class option \<Rightarrow> dbus_link \<Rightarrow> agent \<times> dbus_listener \<Rightarrow> g_time_val returned \<times> agent \<times> dbus_listener" where
  "pk_connection_manager_ping connection l =
     blocking ''manager_ping'' connection l (pk_connection_manager_ping_async connection)
       (pk_connection_manager_ping_cb (lk_parse l) connection)"

definition pk_connection_manager_remove_channel_async :: "connection_class option \<Rightarrow> gint \<Rightarrow> request" where
  "pk_connection_manager_remove_channel_async connection channel =
     RPC_ASYNC ''manager_remove_channel'' connection (Some (pk_connection_dbus_manager_remove_channel_async channel))"

definition pk_connection_manager_remove_channel_finish ::
  "connection_class option \<Rightarrow> pending_call \<Rightarrow> bool finished" where
  "pk_connection_manager_remove_channel_finish connection result =
     RPC_FINISH ''manager_remove_channel'' connection pk_connection_dbus_manager_remove_channel_finish result"

definition pk_connection_manager_remove_channel_cb ::
  "connection_class option \<Rightarrow> pending_call \<Rightarrow> bool pk_connection_sync \<Rightarrow> bool pk_connection_sync" where
  "pk_connection_manager_remove_channel_cb source result async =
     pk_connection_sync_signal (async\<lparr>sy_result := pk_connection_manager_remove_channel_finish source result\<rparr>)"

definition pk_connection_manager_remove_channel ::
  "connection_class option \<Rightarrow> dbus_link \<Rightarrow> gint \<Rightarrow> agent \<times> dbus_listener \<Rightarrow> bool returned \<times> agent \<times> dbus_listener" where
  "pk_connection_manager_remove_channel connection l channel =
     blocking ''manager_remove_channel'' connection l (pk_connection_manager_remove_channel_async connection channel)
       (pk_connection_manager_remove_channel_cb connection)"

definition pk_connection_manager_remove_source_async :: "connection_class option \<Rightarrow> gint \<Rightarrow> request" where
  "pk_connection_manager_remove_source_async connection source =
     RPC_ASYNC ''manager_remove_source'' connection (Some (pk_connection_dbus_manager_remove_source_async source))"

definition pk_connection_manager_remove_source_finish ::
  "connection_class option \<Rightarrow> pending_call \<Rightarrow> unit finished" where
  "pk_connection_manager_remove_source_finish connection result =
     RPC_FINISH ''manager_remove_source'' connection pk_connection_dbus_manager_remove_source_finish result"

definition pk_connection_manager_remove_source_cb ::
  "connection_class option \<Rightarrow> pending_call \<Rightarrow> unit pk_connection_sync \<Rightarrow> unit pk_connection_sync" where
  "pk_connection_manager_remove_source_cb source result async =
     pk_connection_sync_signal (async\<lparr>sy_result := pk_connection_manager_remove_source_finish source result\<rparr>)"

definition pk_connection_manager_remove_source ::
  "connection_class option \<Rightarrow> dbus_link \<Rightarrow> gint \<Rightarrow> agent \<times> dbus_listener \<Rightarrow> unit returned \<times> agent \<times> dbus_listener" where
  "pk_connection_manager_remove_source connection l source =
     blocking ''manager_remove_source'' connection l (pk_connection_manager_remove_source_async connection source)
       (pk_connection_manager_remove_source_cb connection)"

definition pk_connection_manager_remove_subscription_async ::
  "connection_class option \<Rightarrow> gint \<Rightarrow> request" where
  "pk_connection_manager_remove_subscription_async connection subscription =
     RPC_ASYNC ''manager_remove_subscription'' connection (Some (pk_connection_dbus_manager_remove_subscription_async subscription))"

definition pk_connection_manager_remove_subscription_finish ::
  "connection_class option \<Rightarrow> pending_call \<Rightarrow> bool finished" where
  "pk_connection_manager_remove_subscription_finish connection result =
     RPC_FINISH ''manager_remove_subscription'' connection pk_connection_dbus_manager_remove_subscription_finish result"

definition pk_connection_manager_remove_subscription_cb ::
  "connection_class option \<Rightarrow> pending_call \<Rightarrow> bool pk_connection_sync \<Rightarrow> bool pk_connection_sync" where
  "pk_connection_manager_remove_subscription_cb source result async =
     pk_connection_sync_signal (async\<lparr>sy_result := pk_connection_manager_remove_subscription_finish source result\<rparr>)"

definition pk_connection_manager_remove_subscription ::
  "connection_class option \<Rightarrow> dbus_link \<Rightarrow> gint \<Rightarrow> agent \<times> dbus_listener \<Rightarrow> bool returned \<times> agent \<times> dbus_listener" where
  "pk_connection_manager_remove_subscription connection l subscription =
     blocking ''manager_remove_subscription'' connection l (pk_connection_manager_remove_subscription_async connection subscription)
       (pk_connection_manager_remove_subscription_cb connection)"

subsection \<open>Plugins\<close>

definition pk_connection_plugin_get_copyright_async ::
  "connection_class option \<Rightarrow> cstring option \<Rightarrow> request" where
  "pk_connection_plugin_get_copyright_async connection plugin =
     RPC_ASYNC ''plugin_get_copyright'' connection (Some (pk_connection_dbus_plugin_get_copyright_async plugin))"

definition pk_connection_plugin_get_copyright_finish ::
  "connection_class option \<Rightarrow> pending_call \<Rightarrow> cstring finished" where
  "pk_connection_plugin_get_copyright_finish connection result =
     RPC_FINISH ''plugin_get_copyright'' connection pk_connection_dbus_plugin_get_copyright_finish result"

definition pk_connection_plugin_get_copyright_cb ::
  "connection_class option \<Rightarrow> pending_call \<Rightarrow> cstring pk_connection_sync \<Rightarrow> cstring pk_connection_sync" where
  "pk_connection_plugin_get_copyright_cb source result async =
     pk_connection_sync_signal (async\<lparr>sy_result := pk_connection_plugin_get_copyright_finish source result\<rparr>)"

definition pk_connection_plugin_get_copyright ::
  "connection_class option \<Rightarrow> dbus_link \<Rightarrow> cstring option \<Rightarrow> agent \<times> dbus_listener \<Rightarrow> cstring returned \<times> agent \<times> dbus_listener" where
  "pk_connection_plugin_get_copyright connection l plugin =
     blocking ''plugin_get_copyright'' connection l (pk_connection_plugin_get_copyright_async connection plugin)
       (pk_connection_plugin_get_copyright_cb connection)"

definition pk_connection_plugin_get_description_async ::
  "connection_class option \<Rightarrow> cstring option \<Rightarrow> request" where
  "pk_connection_plugin_get_description_async connection plugin =
     RPC_ASYNC ''plugin_get_description'' connection (Some (pk_connection_dbus_plugin_get_description_async plugin))"

definition pk_connection_plugin_get_description_finish ::
  "connection_class option \<Rightarrow> pending_call \<Rightarrow> cstring finished" where
  "pk_connection_plugin_get_description_finish connection result =
     RPC_FINISH ''plugin_get_description'' connection pk_connection_dbus_plugin_get_description_finish result"

definition pk_connection_plugin_get_description_cb ::
  "connection_class option \<Rightarrow> pending_call \<Rightarrow> cstring pk_connection_sync \<Rightarrow> cstring pk_connection_sync" where
  "pk_connection_plugin_get_description_cb source result async =
     pk_connection_sync_signal (async\<lparr>sy_result := pk_connection_plugin_get_description_finish source result\<rparr>)"

definition pk_connection_plugin_get_description ::
  "connection_class option \<Rightarrow> dbus_link \<Rightarrow> cstring option \<Rightarrow> agent \<times> dbus_listener \<Rightarrow> cstring returned \<times> agent \<times> dbus_listener" where
  "pk_connection_plugin_get_description connection l plugin =
     blocking ''plugin_get_description'' connection l (pk_connection_plugin_get_description_async connection plugin)
       (pk_connection_plugin_get_description_cb connection)"

definition pk_connection_plugin_get_name_async ::
  "connection_class option \<Rightarrow> cstring option \<Rightarrow> request" where
  "pk_connection_plugin_get_name_async connection plugin =
     RPC_ASYNC ''plugin_get_name'' connection (Some (pk_connection_dbus_plugin_get_name_async plugin))"

definition pk_connection_plugin_get_name_finish ::
  "connection_class option \<Rightarrow> pending_call \<Rightarrow> cstring finished" where
  "pk_connection_plugin_get_name_finish connection result =
     RPC_FINISH ''plugin_get_name'' connection pk_connection_dbus_plugin_get_name_finish result"

definition pk_connection_plugin_get_name_cb ::
  "connection_class option \<Rightarrow> pending_call \<Rightarrow> cstring pk_connection_sync \<Rightarrow> cstring pk_connection_sync" where
  "pk_connection_plugin_get_name_cb source result async =
     pk_connection_sync_signal (async\<lparr>sy_result := pk_connection_plugin_get_name_finish source result\<rparr>)"

definition pk_connection_plugin_get_name ::
  "connection_class option \<Rightarrow> dbus_link \<Rightarrow> cstring option \<Rightarrow> agent \<times> dbus_listener \<Rightarrow> cstring returned \<times> agent \<times> dbus_listener" where
  "pk_connection_plugin_get_name connection l plugin =
     blocking ''plugin_get_name'' connection l (pk_connection_plugin_get_name_async connection plugin)
       (pk_connection_plugin_get_name_cb connection)"

definition pk_connection_plugin_get_plugin_type_async ::
  "connection_class option \<Rightarrow> cstring option \<Rightarrow> request" where
  "pk_connection_plugin_get_plugin_type_async connection plugin =
     RPC_ASYNC ''plugin_get_plugin_type'' connection (Some (pk_connection_dbus_plugin_get_plugin_type_async plugin))"

definition pk_connection_plugin_get_plugin_type_finish ::
  "connection_class option \<Rightarrow> pending_call \<Rightarrow> gint finished" where
  "pk_connection_plugin_get_plugin_type_finish connection result =
     RPC_FINISH ''plugin_get_plugin_type'' connection pk_connection_dbus_plugin_get_plugin_type_finish result"

definition pk_connection_plugin_get_plugin_type_cb ::
  "connection_class option \<Rightarrow> pending_call \<Rightarrow> gint pk_connection_sync \<Rightarrow> gint pk_connection_sync" where
  "pk_connection_plugin_get_plugin_type_cb source result async =
     pk_connection_sync_signal (async\<lparr>sy_result := pk_connection_plugin_get_plugin_type_finish source result\<rparr>)"

definition pk_connection_plugin_get_plugin_type ::
  "connection_class option \<Rightarrow> dbus_link \<Rightarrow> cstring option \<Rightarrow> agent \<times> dbus_listener \<Rightarrow> gint returned \<times> agent \<times> dbus_listener" where
  "pk_connection_plugin_get_plugin_type connection l plugin =
     blocking ''plugin_get_plugin_type'' connection l (pk_connection_plugin_get_plugin_type_async connection plugin)
       (pk_connection_plugin_get_plugin_type_cb connection)"

definition pk_connection_plugin_get_version_async ::
  "connection_class option \<Rightarrow> cstring option \<Rightarrow> request" where
  "pk_connection_plugin_get_version_async connection plugin =
     RPC_ASYNC ''plugin_get_version'' connection (Some (pk_connection_dbus_plugin_get_version_async plugin))"

definition pk_connection_plugin_get_version_finish ::
  "connection_class option \<Rightarrow> pending_call \<Rightarrow> cstring finished" where
  "pk_connection_plugin_get_version_finish connection result =
     RPC_FINISH ''plugin_get_version'' connection pk_connection_dbus_plugin_get_version_finish result"

definition pk_connection_plugin_get_version_cb ::
  "connection_class option \<Rightarrow> pending_call \<Rightarrow> cstring pk_connection_sync \<Rightarrow> cstring pk_connection_sync" where
  "pk_connection_plugin_get_version_cb source result async =
     pk_connection_sync_signal (async\<lparr>sy_result := pk_connection_plugin_get_version_finish source result\<rparr>)"

definition pk_connection_plugin_get_version ::
  "connection_class option \<Rightarrow> dbus_link \<Rightarrow> cstring option \<Rightarrow> agent \<times> dbus_listener \<Rightarrow> cstring returned \<times> agent \<times> dbus_listener" where
  "pk_connection_plugin_get_version connection l plugin =
     blocking ''plugin_get_version'' connection l (pk_connection_plugin_get_version_async connection plugin)
       (pk_connection_plugin_get_version_cb connection)"

subsection \<open>Sources\<close>

definition pk_connection_source_get_plugin_async :: "connection_class option \<Rightarrow> gint \<Rightarrow> request" where
  "pk_connection_source_get_plugin_async connection source =
     RPC_ASYNC ''source_get_plugin'' connection (Some (pk_connection_dbus_source_get_plugin_async source))"

definition pk_connection_source_get_plugin_finish ::
  "connection_class option \<Rightarrow> pending_call \<Rightarrow> (cstring option) finished" where
  "pk_connection_source_get_plugin_finish connection result =
     RPC_FINISH ''source_get_plugin'' connection pk_connection_dbus_source_get_plugin_finish result"

definition pk_connection_source_get_plugin_cb ::
  "connection_class option \<Rightarrow> pending_call \<Rightarrow> (cstring option) pk_connection_sync \<Rightarrow> (cstring option) pk_connection_sync" where
  "pk_connection_source_get_plugin_cb source result async =
     pk_connection_sync_signal (async\<lparr>sy_result := pk_connection_source_get_plugin_finish source result\<rparr>)"

definition pk_connection_source_get_plugin ::
  "connection_class option \<Rightarrow> dbus_link \<Rightarrow> gint \<Rightarrow> agent \<times> dbus_listener \<Rightarrow> (cstring option) returned \<times> agent \<times> dbus_listener" where
  "pk_connection_source_get_plugin connection l source =
     blocking ''source_get_plugin'' connection l (pk_connection_source_get_plugin_async connection source)
       (pk_connection_source_get_plugin_cb connection)"

subsection \<open>Subscriptions\<close>

definition pk_connection_subscription_add_channel_async ::
  "connection_class option \<Rightarrow> gint \<Rightarrow> gint \<Rightarrow> bool \<Rightarrow> request" where
  "pk_connection_subscription_add_channel_async connection subscription channel monitor =
     RPC_ASYNC ''subscription_add_channel'' connection (Some (pk_connection_dbus_subscription_add_channel_async subscription channel monitor))"

definition pk_connection_subscription_add_channel_finish ::
  "connection_class option \<Rightarrow> pending_call \<Rightarrow> unit finished" where
  "pk_connection_subscription_add_channel_finish connection result =
     RPC_FINISH ''subscription_add_channel'' connection pk_connection_dbus_subscription_add_channel_finish result"

definition pk_connection_subscription_add_channel_cb ::
  "connection_class option \<Rightarrow> pending_call \<Rightarrow> unit pk_connection_sync \<Rightarrow> unit pk_connection_sync" where
  "pk_connection_subscription_add_channel_cb source result async =
     pk_connection_sync_signal (async\<lparr>sy_result := pk_connection_subscription_add_channel_finish source result\<rparr>)"

definition pk_connection_subscription_add_channel ::
  "connection_class option \<Rightarrow> dbus_link \<Rightarrow> gint \<Rightarrow> gint \<Rightarrow> bool \<Rightarrow> agent \<times> dbus_listener \<Rightarrow> unit returned \<times> agent \<times> dbus_listener" where
  "pk_connection_subscription_add_channel connection l subscription channel monitor =
     blocking ''subscription_add_channel'' connection l (pk_connection_subscription_add_channel_async connection subscription channel monitor)
       (pk_connection_subscription_add_channel_cb connection)"

definition pk_connection_subscription_add_source_async ::
  "connection_class option \<Rightarrow> gint \<Rightarrow> gint \<Rightarrow> request" where
  "pk_connection_subscription_add_source_async connection subscription source =
     RPC_ASYNC ''subscription_add_source'' connection (Some (pk_connection_dbus_subscription_add_source_async subscription source))"

definition pk_connection_subscription_add_source_finish ::
  "connection_class option \<Rightarrow> pending_call \<Rightarrow> unit finished" where
  "pk_connection_subscription_add_source_finish connection result =
     RPC_FINISH ''subscription_add_source'' connection pk_connection_dbus_subscription_add_source_finish result"

definition pk_connection_subscription_add_source_cb ::
  "connection_class option \<Rightarrow> pending_call \<Rightarrow> unit pk_connection_sync \<Rightarrow> unit pk_connection_sync" where
  "pk_connection_subscription_add_source_cb source result async =
     pk_connection_sync_signal (async\<lparr>sy_result := pk_connection_subscription_add_source_finish source result\<rparr>)"

definition pk_connection_subscription_add_source ::
  "connection_class option \<Rightarrow> dbus_link \<Rightarrow> gint \<Rightarrow> gint \<Rightarrow> agent \<times> dbus_listener \<Rightarrow> unit returned \<times> agent \<times> dbus_listener" where
  "pk_connection_subscription_add_source connection l subscription source =
     blocking ''subscription_add_source'' connection l (pk_connection_subscription_add_source_async connection subscription source)
       (pk_connection_subscription_add_source_cb connection)"

definition pk_connection_subscription_get_buffer_async :: "connection_class option \<Rightarrow> gint \<Rightarrow> request" where
  "pk_connection_subscription_get_buffer_async connection subscription =
     RPC_ASYNC ''subscription_get_buffer'' connection (Some (pk_connection_dbus_subscription_get_buffer_async subscription))"

definition pk_connection_subscription_get_buffer_finish ::
  "connection_class option \<Rightarrow> pending_call \<Rightarrow> (gint \<times> gint) finished" where
  "pk_connection_subscription_get_buffer_finish connection result =
     RPC_FINISH ''subscription_get_buffer'' connection pk_connection_dbus_subscription_get_buffer_finish result"

definition pk_connection_subscription_get_buffer_cb ::
  "connection_class option \<Rightarrow> pending_call \<Rightarrow> (gint \<times> gint) pk_connection_sync \<Rightarrow> (gint \<times> gint) pk_connection_sync" where
  "pk_connection_subscription_get_buffer_cb source result async =
     pk_connection_sync_signal (async\<lparr>sy_result := pk_connection_subscription_get_buffer_finish source result\<rparr>)"

definition pk_connection_subscription_get_buffer ::
  "connection_class option \<Rightarrow> dbus_link \<Rightarrow> gint \<Rightarrow> agent \<times> dbus_listener \<Rightarrow> (gint \<times> gint) returned \<times> agent \<times> dbus_listener" where
  "pk_connection_subscription_get_buffer connection l subscription =
     blocking ''subscription_get_buffer'' connection l (pk_connection_subscription_get_buffer_async connection subscription)
       (pk_connection_subscription_get_buffer_cb connection)"

definition pk_connection_subscription_get_created_at_async ::
  "connection_class option \<Rightarrow> gint \<Rightarrow> request" where
  "pk_connection_subscription_get_created_at_async connection subscription =
     RPC_ASYNC ''subscription_get_created_at'' connection (Some (pk_connection_dbus_subscription_get_created_at_async subscription))"

definition pk_connection_subscription_get_created_at_finish ::
  "(cstring \<Rightarrow> g_time_val option) \<Rightarrow> connection_class option \<Rightarrow> pending_call \<Rightarrow> g_time_val finished" where
  "pk_connection_subscription_get_created_at_finish parse connection result =
     RPC_FINISH ''subscription_get_created_at'' connection (pk_connection_dbus_subscription_get_created_at_finish parse) result"

definition pk_connection_subscription_get_created_at_cb ::
  "(cstring \<Rightarrow> g_time_val option) \<Rightarrow> connection_class option \<Rightarrow> pending_call \<Rightarrow> g_time_val pk_connection_sync \<Rightarrow> g_time_val pk_connection_sync" where
  "pk_connection_subscription_get_created_at_cb parse source result async =
     pk_connection_sync_signal (async\<lparr>sy_result := pk_connection_subscription_get_created_at_finish parse source result\<rparr>)"

definition pk_connection_subscription_get_created_at ::
  "connection_class option \<Rightarrow> dbus_link \<Rightarrow> gint \<Rightarrow> agent \<times> dbus_listener \<Rightarrow> g_time_val returned \<times> agent \<times> dbus_listener" where
  "pk_connection_subscription_get_created_at connection l subscription =
     blocking ''subscription_get_created_at'' connection l (pk_connection_subscription_get_created_at_async connection subscription)
       (pk_connection_subscription_get_created_at_cb (lk_parse l) connection)"

definition pk_connection_subscription_get_sources_async ::
  "connection_class option \<Rightarrow> gint \<Rightarrow> request" where
  "pk_connection_subscription_get_sources_async connection subscription =
     RPC_ASYNC ''subscription_get_sources'' connection (Some (pk_connection_dbus_subscription_get_sources_async subscription))"

definition pk_connection_subscription_get_sources_finish ::
  "connection_class option \<Rightarrow> pending_call \<Rightarrow> (gint list) finished" where
  "pk_connection_subscription_get_sources_finish connection result =
     RPC_FINISH ''subscription_get_sources'' connection pk_connection_dbus_subscription_get_sources_finish result"

definition pk_connection_subscription_get_sources_cb ::
  "connection_class option \<Rightarrow> pending_call \<Rightarrow> (gint list) pk_connection_sync \<Rightarrow> (gint list) pk_connection_sync" where
  "pk_connection_subscription_get_sources_cb source result async =
     pk_connection_sync_signal (async\<lparr>sy_result := pk_connection_subscription_get_sources_finish source result\<rparr>)"

definition pk_connection_subscription_get_sources ::
  "connection_class option \<Rightarrow> dbus_link \<Rightarrow> gint \<Rightarrow> agent \<times> dbus_listener \<Rightarrow> (gint list) returned \<times> agent \<times> dbus_listener" where
  "pk_connection_subscription_get_sources connection l subscription =
     blocking ''subscription_get_sources'' connection l (pk_connection_subscription_get_sources_async connection subscription)
       (pk_connection_subscription_get_sources_cb connection)"

definition pk_connection_subscription_mute_async ::
  "connection_class option \<Rightarrow> gint \<Rightarrow> bool \<Rightarrow> request" where
  "pk_connection_subscription_mute_async connection subscription drain =
     RPC_ASYNC ''subscription_mute'' connection (Some (pk_connection_dbus_subscription_mute_async subscription drain))"

definition pk_connection_subscription_mute_finish ::
  "connection_class option \<Rightarrow> pending_call \<Rightarrow> unit finished" where
  "pk_connection_subscription_mute_finish connection result =
     RPC_FINISH ''subscription_mute'' connection pk_connection_dbus_subscription_mute_finish result"

definition pk_connection_subscription_mute_cb ::
  "connection_class option \<Rightarrow> pending_call \<Rightarrow> unit pk_connection_sync \<Rightarrow> unit pk_connection_sync" where
  "pk_connection_subscription_mute_cb source result async =
     pk_connection_sync_signal (async\<lparr>sy_result := pk_connection_subscription_mute_finish source result\<rparr>)"

definition pk_connection_subscription_mute ::
  "connection_class option \<Rightarrow> dbus_link \<Rightarrow> gint \<Rightarrow> bool \<Rightarrow> agent \<times> dbus_listener \<Rightarrow> unit returned \<times> agent \<times> dbus_listener" where
  "pk_connection_subscription_mute connection l subscription drain =
     blocking ''subscription_mute'' connection l (pk_connection_subscription_mute_async connection subscription drain)
       (pk_connection_subscription_mute_cb connection)"

definition pk_connection_subscription_remove_channel_async ::
  "connection_class option \<Rightarrow> gint \<Rightarrow> gint \<Rightarrow> request" where
  "pk_connection_subscription_remove_channel_async connection subscription channel =
     RPC_ASYNC ''subscription_remove_channel'' connection (Some (pk_connection_dbus_subscription_remove_channel_async subscription channel))"

definition pk_connection_subscription_remove_channel_finish ::
  "connection_class option \<Rightarrow> pending_call \<Rightarrow> unit finished" where
  "pk_connection_subscription_remove_channel_finish connection result =
     RPC_FINISH ''subscription_remove_channel'' connection pk_connection_dbus_subscription_remove_channel_finish result"

definition pk_connection_subscription_remove_channel_cb ::
  "connection_class option \<Rightarrow> pending_call \<Rightarrow> unit pk_connection_sync \<Rightarrow> unit pk_connection_sync" where
  "pk_connection_subscription_remove_channel_cb source result async =
     pk_connection_sync_signal (async\<lparr>sy_result := pk_connection_subscription_remove_channel_finish source result\<rparr>)"

definition pk_connection_subscription_remove_channel ::
  "connection_class option \<Rightarrow> dbus_link \<Rightarrow> gint \<Rightarrow> gint \<Rightarrow> agent \<times> dbus_listener \<Rightarrow> unit returned \<times> agent \<times> dbus_listener" where
  "pk_connection_subscription_remove_channel connection l subscription channel =
     blocking ''subscription_remove_channel'' connection l (pk_connection_subscription_remove_channel_async connection subscription channel)
       (pk_connection_subscription_remove_channel_cb connection)"

definition pk_connection_subscription_remove_source_async ::
  "connection_class option \<Rightarrow> gint \<Rightarrow> gint \<Rightarrow> request" where
  "pk_connection_subscription_remove_source_async connection subscription source =
     RPC_ASYNC ''subscription_remove_source'' connection (Some (pk_connection_dbus_subscription_remove_source_async subscription source))"

definition pk_connection_subscription_remove_source_finish ::
  "connection_class option \<Rightarrow> pending_call \<Rightarrow> unit finished" where
  "pk_connection_subscription_remove_source_finish connection result =
     RPC_FINISH ''subscription_remove_source'' connection pk_connection_dbus_subscription_remove_source_finish result"

definition pk_connection_subscription_remove_source_cb ::
  "connection_class option \<Rightarrow> pending_call \<Rightarrow> unit pk_connection_sync \<Rightarrow> unit pk_connection_sync" where
  "pk_connection_subscription_remove_source_cb source result async =
     pk_connection_sync_signal (async\<lparr>sy_result := pk_connection_subscription_remove_source_finish source result\<rparr>)"

definition pk_connection_subscription_remove_source ::
  "connection_class option \<Rightarrow> dbus_link \<Rightarrow> gint \<Rightarrow> gint \<Rightarrow> agent \<times> dbus_listener \<Rightarrow> unit returned \<times> agent \<times> dbus_listener" where
  "pk_connection_subscription_remove_source connection l subscription source =
     blocking ''subscription_remove_source'' connection l (pk_connection_subscription_remove_source_async connection subscription source)
       (pk_connection_subscription_remove_source_cb connection)"

definition pk_connection_subscription_set_buffer_async ::
  "connection_class option \<Rightarrow> gint \<Rightarrow> gint \<Rightarrow> gint \<Rightarrow> request" where
  "pk_connection_subscription_set_buffer_async connection subscription timeout size_arg =
     RPC_ASYNC ''subscription_set_buffer'' connection (Some (pk_connection_dbus_subscription_set_buffer_async subscription timeout size_arg))"

definition pk_connection_subscription_set_buffer_finish ::
  "connection_class option \<Rightarrow> pending_call \<Rightarrow> unit finished" where
  "pk_connection_subscription_set_buffer_finish connection result =
     RPC_FINISH ''subscription_set_buffer'' connection pk_connection_dbus_subscription_set_buffer_finish result"

definition pk_connection_subscription_set_buffer_cb ::
  "connection_class option \<Rightarrow> pending_call \<Rightarrow> unit pk_connection_sync \<Rightarrow> unit pk_connection_sync" where
  "pk_connection_subscription_set_buffer_cb source result async =
     pk_connection_sync_signal (async\<lparr>sy_result := pk_connection_subscription_set_buffer_finish source result\<rparr>)"

definition pk_connection_subscription_set_buffer ::
  "connection_class option \<Rightarrow> dbus_link \<Rightarrow> gint \<Rightarrow> gint \<Rightarrow> gint \<Rightarrow> agent \<times> dbus_listener \<Rightarrow> unit returned \<times> agent \<times> dbus_listener" where
  "pk_connection_subscription_set_buffer connection l subscription timeout size_arg =
     blocking ''subscription_set_buffer'' connection l (pk_connection_subscription_set_buffer_async connection subscription timeout size_arg)
       (pk_connection_subscription_set_buffer_cb connection)"

definition pk_connection_subscription_set_encoder_async ::
  "connection_class option \<Rightarrow> gint \<Rightarrow> gint \<Rightarrow> request" where
  "pk_connection_subscription_set_encoder_async connection subscription encoder =
     RPC_ASYNC ''subscription_set_encoder'' connection (Some (pk_connection_dbus_subscription_set_encoder_async subscription encoder))"

definition pk_connection_subscription_set_encoder_finish ::
  "connection_class option \<Rightarrow> pending_call \<Rightarrow> unit finished" where
  "pk_connection_subscription_set_encoder_finish connection result =
     RPC_FINISH ''subscription_set_encoder'' connection pk_connection_dbus_subscription_set_encoder_finish result"

definition pk_connection_subscription_set_encoder_cb ::
  "connection_class option \<Rightarrow> pending_call \<Rightarrow> unit pk_connection_sync \<Rightarrow> unit pk_connection_sync" where
  "pk_connection_subscription_set_encoder_cb source result async =
     pk_connection_sync_signal (async\<lparr>sy_result := pk_connection_subscription_set_encoder_finish source result\<rparr>)"

definition pk_connection_subscription_set_encoder ::
  "connection_class option \<Rightarrow> dbus_link \<Rightarrow> gint \<Rightarrow> gint \<Rightarrow> agent \<times> dbus_listener \<Rightarrow> unit returned \<times> agent \<times> dbus_listener" where
  "pk_connection_subscription_set_encoder connection l subscription encoder =
     blocking ''subscription_set_encoder'' connection l (pk_connection_subscription_set_encoder_async connection subscription encoder)
       (pk_connection_subscription_set_encoder_cb connection)"

definition pk_connection_subscription_unmute_async :: "connection_class option \<Rightarrow> gint \<Rightarrow> request" where
  "pk_connection_subscription_unmute_async connection subscription =
     RPC_ASYNC ''subscription_unmute'' connection (Some (pk_connection_dbus_subscription_unmute_async subscription))"

definition pk_connection_subscription_unmute_finish ::
  "connection_class option \<Rightarrow> pending_call \<Rightarrow> unit finished" where
  "pk_connection_subscription_unmute_finish connection result =
     RPC_FINISH ''subscription_unmute'' connection pk_connection_dbus_subscription_unmute_finish result"

definition pk_connection_subscription_unmute_cb ::
  "connection_class option \<Rightarrow> pending_call \<Rightarrow> unit pk_connection_sync \<Rightarrow> unit pk_connection_sync" where
  "pk_connection_subscription_unmute_cb source result async =
     pk_connection_sync_signal (async\<lparr>sy_result := pk_connection_subscription_unmute_finish source result\<rparr>)"

definition pk_connection_subscription_unmute ::
  "connection_class option \<Rightarrow> dbus_link \<Rightarrow> gint \<Rightarrow> agent \<times> dbus_listener \<Rightarrow> unit returned \<times> agent \<times> dbus_listener" where
  "pk_connection_subscription_unmute connection l subscription =
     blocking ''subscription_unmute'' connection l (pk_connection_subscription_unmute_async connection subscription)
       (pk_connection_subscription_unmute_cb connection)"

section \<open>Handlers\<close>

text \<open>
  The callback of \<open>subscription_set_handlers\<close> is run by the request, before it returns; for a negative subscription
  it is not run at all.
\<close>

definition pk_connection_subscription_set_handlers_async ::
  "connection_class option \<Rightarrow> gint \<Rightarrow> gint \<Rightarrow> pk_connection \<Rightarrow> completion \<times> gint \<times> pk_connection" where
  "pk_connection_subscription_set_handlers_async connection id_seq subscription c =
     (case connection of
        None \<Rightarrow> (Absent, id_seq, c)
      | Some klass \<Rightarrow>
          if ''subscription_set_handlers'' \<notin> set (cc_async klass) then (Absent, id_seq, c)
          else (if sint subscription < 0 then Absent else Immediate,
                pk_connection_dbus_subscription_set_handlers_async id_seq subscription c))"

definition pk_connection_subscription_set_handlers_finish :: "connection_class option \<Rightarrow> unit finished" where
  "pk_connection_subscription_set_handlers_finish connection =
     (case connection of
        None \<Rightarrow> Finish_Quiet
      | Some klass \<Rightarrow>
          if ''subscription_set_handlers'' \<notin> set (cc_finish klass) then Finish_Error Not_Implemented
          else if pk_connection_dbus_subscription_set_handlers_finish then Finish_True () else Finish_Quiet)"

definition pk_connection_subscription_set_handlers_cb ::
  "connection_class option \<Rightarrow> unit pk_connection_sync \<Rightarrow> unit pk_connection_sync" where
  "pk_connection_subscription_set_handlers_cb source async =
     pk_connection_sync_signal (async\<lparr>sy_result := pk_connection_subscription_set_handlers_finish source\<rparr>)"

definition pk_connection_subscription_set_handlers ::
  "connection_class option \<Rightarrow> gint \<Rightarrow> gint \<Rightarrow> pk_connection \<Rightarrow> unit returned \<times> gint \<times> pk_connection" where
  "pk_connection_subscription_set_handlers connection id_seq subscription c =
     (case connection of
        None \<Rightarrow> (Returned Finish_Quiet, id_seq, c)
      | Some klass \<Rightarrow>
          if \<not> implements ''subscription_set_handlers'' klass then
            (Returned (Finish_Error Not_Implemented), id_seq, c)
          else (case pk_connection_subscription_set_handlers_async connection id_seq subscription c of
                  (completion, st) \<Rightarrow>
                    (sync_outcome completion
                       (sy_result (pk_connection_subscription_set_handlers_cb connection pk_connection_sync_init)), st)))"

section \<open>Connecting\<close>

text \<open>
  These two have no \<open>CHECK_FOR_RPC\<close>; their requests only schedule the callback, in which \<open>_finish\<close> does the work.
\<close>

definition pk_connection_connect_async :: "connection_class option \<Rightarrow> completion" where
  "pk_connection_connect_async connection =
     (case connection of
        None \<Rightarrow> Absent
      | Some klass \<Rightarrow> if ''connect'' \<notin> set (cc_async klass) then Absent else Deferred)"

definition connect_finished :: "connect_result \<Rightarrow> unit finished" where
  "connect_finished res =
     (case res of
        Connect_True \<Rightarrow> Finish_True () | Connect_Error e \<Rightarrow> Finish_Error (Connect e) | Connect_Quiet \<Rightarrow> Finish_Quiet)"

definition pk_connection_connect_finish ::
  "connection_class option \<Rightarrow> connect_env \<Rightarrow> gint \<Rightarrow> pk_connection \<Rightarrow> unit finished \<times> gint \<times> pk_connection" where
  "pk_connection_connect_finish connection env id_seq c =
     (case connection of
        None \<Rightarrow> (Finish_Quiet, id_seq, c)
      | Some klass \<Rightarrow>
          if ''connect'' \<notin> set (cc_finish klass) then (Finish_Error Not_Implemented, id_seq, c)
          else (case pk_connection_dbus_connect_finish env id_seq c of (res, st) \<Rightarrow> (connect_finished res, st)))"

definition pk_connection_connect_cb ::
  "connection_class option \<Rightarrow> connect_env \<Rightarrow> unit pk_connection_sync \<Rightarrow> gint \<Rightarrow> pk_connection \<Rightarrow>
     unit pk_connection_sync \<times> gint \<times> pk_connection" where
  "pk_connection_connect_cb source env async id_seq c =
     (case pk_connection_connect_finish source env id_seq c of
        (res, st) \<Rightarrow> (pk_connection_sync_signal (async\<lparr>sy_result := res\<rparr>), st))"

definition pk_connection_connect ::
  "connection_class option \<Rightarrow> connect_env \<Rightarrow> gint \<Rightarrow> pk_connection \<Rightarrow> unit returned \<times> gint \<times> pk_connection" where
  "pk_connection_connect connection env id_seq c =
     (if connection = None then (Returned Finish_Quiet, id_seq, c)
      else if pk_connection_connect_async connection = Absent then (sync_outcome Absent Finish_Quiet, id_seq, c)
      else (case pk_connection_connect_cb connection env (pk_connection_sync_init\<lparr>sy_mutex := None\<rparr>) id_seq c of
              (async, st) \<Rightarrow> (sync_outcome Deferred (sy_result async), st)))"

definition pk_connection_disconnect_async :: "connection_class option \<Rightarrow> completion" where
  "pk_connection_disconnect_async connection =
     (case connection of
        None \<Rightarrow> Absent
      | Some klass \<Rightarrow> if ''disconnect'' \<notin> set (cc_async klass) then Absent else Deferred)"

definition pk_connection_disconnect_finish ::
  "connection_class option \<Rightarrow> pk_connection \<Rightarrow> unit finished \<times> pk_connection" where
  "pk_connection_disconnect_finish connection c =
     (case connection of
        None \<Rightarrow> (Finish_Quiet, c)
      | Some klass \<Rightarrow>
          if ''disconnect'' \<notin> set (cc_finish klass) then (Finish_Error Not_Implemented, c)
          else (Finish_True (), pk_connection_dbus_disconnect_finish c))"

definition pk_connection_disconnect_cb ::
  "connection_class option \<Rightarrow> unit pk_connection_sync \<Rightarrow> pk_connection \<Rightarrow> unit pk_connection_sync \<times> pk_connection" where
  "pk_connection_disconnect_cb source async c =
     (case pk_connection_disconnect_finish source c of
        (res, c) \<Rightarrow> (pk_connection_sync_signal (async\<lparr>sy_result := res\<rparr>), c))"

definition pk_connection_disconnect ::
  "connection_class option \<Rightarrow> pk_connection \<Rightarrow> unit returned \<times> pk_connection" where
  "pk_connection_disconnect connection c =
     (if connection = None then (Returned Finish_Quiet, c)
      else if pk_connection_disconnect_async connection = Absent then (sync_outcome Absent Finish_Quiet, c)
      else (case pk_connection_disconnect_cb connection (pk_connection_sync_init\<lparr>sy_mutex := None\<rparr>) c of
              (async, c) \<Rightarrow> (sync_outcome Deferred (sy_result async), c)))"

section \<open>Connections from addresses\<close>

text \<open>
  The registered types of connections. A \<open>GType\<close> has 64 bits; the table of protocols keeps it as a pointer. What
  lies outside: the directory of the plugins, the loader, and the types that the plugins register.
\<close>

type_synonym gtype_id = "64 word"

definition G_TYPE_INVALID :: gtype_id where
  "G_TYPE_INVALID = 0"

record protocol_env =
  pe_connections_dir :: "cstring option"
  pe_package_lib_dir :: cstring
  pe_module_path :: "cstring \<Rightarrow> cstring \<Rightarrow> cstring"
  pe_executable :: "cstring \<Rightarrow> bool"
  pe_module :: "cstring \<Rightarrow> gtype_id option option"

text \<open>
  \<open>pe_module\<close>: the module at a path, if it loads; in it the type that \<open>pk_connection_register\<close> returns, if it has
  that function.
\<close>

definition pk_connection_get_protocol_plugin_path :: "protocol_env \<Rightarrow> cstring \<Rightarrow> cstring" where
  "pk_connection_get_protocol_plugin_path env protocol =
     (let plugin_dir =
        (case pe_connections_dir env of
           Some dir \<Rightarrow> dir
         | None \<Rightarrow> pe_package_lib_dir env @ ascii ''/perfkit/connections'')
      in pe_module_path env plugin_dir protocol)"

text \<open>\<open>GPOINTER_TO_INT\<close>: the low 32 bits of a pointer, as a \<open>gint\<close> that becomes a \<open>GType\<close> again.\<close>

definition gtype_of_pointer :: "64 word \<Rightarrow> gtype_id" where
  "gtype_of_pointer p = scast (ucast p :: 32 word)"

definition protocol_valid :: "cstring \<Rightarrow> bool" where
  "protocol_valid protocol \<longleftrightarrow> list_all (\<lambda>c. 65 \<le> sint c \<and> sint c \<le> 122) protocol"

definition pk_connection_get_protocol_type ::
  "protocol_env \<Rightarrow> cstring option \<Rightarrow> (cstring \<rightharpoonup> 64 word) \<Rightarrow> gtype_id \<times> (cstring \<rightharpoonup> 64 word)" where
  "pk_connection_get_protocol_type env protocol types =
     (case protocol of
        None \<Rightarrow> (G_TYPE_INVALID, types)
      | Some protocol \<Rightarrow>
          if \<not> protocol_valid protocol then (G_TYPE_INVALID, types)
          else (let protocol_type =
                  (case types protocol of None \<Rightarrow> 0 | Some p \<Rightarrow> gtype_of_pointer p)
                in if protocol_type \<noteq> 0 then (protocol_type, types)
                   else (let path = pk_connection_get_protocol_plugin_path env protocol in
                         if \<not> pe_executable env path then (0, types)
                         else (case pe_module env path of
                                 None \<Rightarrow> (0, types)
                               | Some None \<Rightarrow> (0, types)
                               | Some (Some protocol_type) \<Rightarrow>
                                   (protocol_type, types(protocol \<mapsto> protocol_type))))))"

text \<open>Up to 31 characters before the colon.\<close>

definition uri_protocol :: "cstring \<Rightarrow> cstring" where
  "uri_protocol uri = takeWhile (\<lambda>c. c \<noteq> 58) (take 31 uri)"

text \<open>The type that the new connection is an instance of; None: NULL is returned.\<close>

definition pk_connection_new_from_uri ::
  "protocol_env \<Rightarrow> cstring \<Rightarrow> (cstring \<rightharpoonup> 64 word) \<Rightarrow> gtype_id option \<times> (cstring \<rightharpoonup> 64 word)" where
  "pk_connection_new_from_uri env uri types =
     (case pk_connection_get_protocol_type env (Some (uri_protocol uri)) types of
        (protocol_type, types) \<Rightarrow>
          (if protocol_type = G_TYPE_INVALID then None else Some protocol_type, types))"

section \<open>Lemmas\<close>

lemma overrides [simp]:
    "implements ''channel_add_source'' dbus_class"
    "implements ''channel_get_args'' dbus_class"
    "implements ''channel_get_created_at'' dbus_class"
    "implements ''channel_get_env'' dbus_class"
    "implements ''channel_get_exit_status'' dbus_class"
    "implements ''channel_get_kill_pid'' dbus_class"
    "implements ''channel_get_pid'' dbus_class"
    "implements ''channel_get_pid_set'' dbus_class"
    "implements ''channel_get_sources'' dbus_class"
    "implements ''channel_get_state'' dbus_class"
    "implements ''channel_get_target'' dbus_class"
    "implements ''channel_get_working_dir'' dbus_class"
    "implements ''channel_mute'' dbus_class"
    "implements ''channel_set_args'' dbus_class"
    "implements ''channel_set_env'' dbus_class"
    "implements ''channel_set_kill_pid'' dbus_class"
    "implements ''channel_set_pid'' dbus_class"
    "implements ''channel_set_target'' dbus_class"
    "implements ''channel_set_working_dir'' dbus_class"
    "implements ''channel_start'' dbus_class"
    "implements ''channel_stop'' dbus_class"
    "implements ''channel_unmute'' dbus_class"
    "implements ''connect'' dbus_class"
    "implements ''disconnect'' dbus_class"
    "implements ''encoder_get_plugin'' dbus_class"
    "implements ''manager_add_channel'' dbus_class"
    "implements ''manager_add_source'' dbus_class"
    "implements ''manager_add_subscription'' dbus_class"
    "implements ''manager_get_channels'' dbus_class"
    "implements ''manager_get_hostname'' dbus_class"
    "implements ''manager_get_plugins'' dbus_class"
    "implements ''manager_get_sources'' dbus_class"
    "implements ''manager_get_subscriptions'' dbus_class"
    "implements ''manager_get_version'' dbus_class"
    "implements ''manager_ping'' dbus_class"
    "implements ''manager_remove_channel'' dbus_class"
    "implements ''manager_remove_source'' dbus_class"
    "implements ''manager_remove_subscription'' dbus_class"
    "implements ''plugin_get_copyright'' dbus_class"
    "implements ''plugin_get_description'' dbus_class"
    "implements ''plugin_get_name'' dbus_class"
    "implements ''plugin_get_plugin_type'' dbus_class"
    "implements ''plugin_get_version'' dbus_class"
    "implements ''source_get_plugin'' dbus_class"
    "implements ''subscription_add_channel'' dbus_class"
    "implements ''subscription_add_source'' dbus_class"
    "implements ''subscription_get_buffer'' dbus_class"
    "implements ''subscription_get_created_at'' dbus_class"
    "implements ''subscription_get_sources'' dbus_class"
    "implements ''subscription_mute'' dbus_class"
    "implements ''subscription_remove_channel'' dbus_class"
    "implements ''subscription_remove_source'' dbus_class"
    "implements ''subscription_set_buffer'' dbus_class"
    "implements ''subscription_set_encoder'' dbus_class"
    "implements ''subscription_set_handlers'' dbus_class"
    "implements ''subscription_unmute'' dbus_class"
  by (simp_all add: implements_def dbus_class_def pk_connection_dbus_class_init_def overridden_def)

lemma implements_async [simp]: "implements n klass \<Longrightarrow> RPC_ASYNC n (Some klass) (Some m) = Requested m"
  by (simp add: implements_def RPC_ASYNC_def)

text \<open>What a blocking call gives for what came back over the bus.\<close>

definition answered :: "(rpc_failure + 'a) \<times> 's \<Rightarrow> 'a returned \<times> 's" where
  "answered r =
     (case r of
        (Inl e, st) \<Rightarrow> (Returned (Finish_Error (Rpc e)), st)
      | (Inr x, st) \<Rightarrow> (Returned (Finish_True x), st))"

lemma blocking_is_call:
  assumes "implements n klass" "lk_sends l"
    and "\<And>p async. sy_result (callback p async) = RPC_FINISH n (Some klass) finish p"
    and "call l m finish st = r"
  shows "blocking n (Some klass) l (RPC_ASYNC n (Some klass) (Some m)) callback st = answered r"
proof -
  have "call l m (\<lambda>p. callback p s) st =
      (case serve (lk_env l) (lk_introspection l) (lk_self l) (m\<lparr>dm_sender := lk_sender l\<rparr>) st of
         (res, st) \<Rightarrow> (callback (pk_connection_dbus_notify (reply_of res) pending_call_new) s, st))" for s
    by (simp add: call_def)
  moreover have "r =
      (case serve (lk_env l) (lk_introspection l) (lk_self l) (m\<lparr>dm_sender := lk_sender l\<rparr>) st of
         (res, st) \<Rightarrow> (finish (pk_connection_dbus_notify (reply_of res) pending_call_new), st))"
    using assms(4) by (simp add: call_def)
  ultimately show ?thesis
    using assms(1-3)
    by (auto simp: blocking_def answered_def RPC_FINISH_def sync_outcome_def implements_def split: prod.splits sum.splits)
qed

lemma blocking_null [simp]: "blocking n None l request callback st = (Returned Finish_Quiet, st)"
  by (simp add: blocking_def)

lemma RPC_ASYNC_null [simp]: "RPC_ASYNC n None m = Not_Requested"
  by (simp add: RPC_ASYNC_def)

lemma RPC_FINISH_null [simp]: "RPC_FINISH n None finish result = Finish_Quiet"
  by (simp add: RPC_FINISH_def)

lemma sync_signal_result [simp]: "sy_result (pk_connection_sync_signal async) = sy_result async"
  by (simp add: pk_connection_sync_signal_def)

text \<open>
  A second connection to the same protocol has the type of the first only when the type survives being cut to 32
  bits.
\<close>

lemma second_connection_type:
  assumes "pk_connection_new_from_uri env uri types = (Some t, types')" "types (uri_protocol uri) = None"
  shows "fst (pk_connection_new_from_uri env uri types') = Some (if gtype_of_pointer t = 0 then t else gtype_of_pointer t)"
  using assms
  by (auto simp: pk_connection_new_from_uri_def pk_connection_get_protocol_type_def G_TYPE_INVALID_def Let_def
      split: if_splits option.splits)

section \<open>Calls that do not return\<close>

lemma set_handlers_completion:
  "fst (pk_connection_subscription_set_handlers_async (Some dbus_class) id_seq subscription c) \<noteq> Deferred"
proof -
  have "''subscription_set_handlers'' \<in> set (cc_async dbus_class)"
    using overrides by (simp add: implements_def)
  then show ?thesis by (simp add: pk_connection_subscription_set_handlers_async_def)
qed

lemma set_handlers_never_returns:
  "fst (pk_connection_subscription_set_handlers (Some dbus_class) id_seq subscription c) = Never_Returns"
  using set_handlers_completion [of id_seq subscription c]
  by (auto simp: pk_connection_subscription_set_handlers_def sync_outcome_def split: prod.splits)

text \<open>
  C21: a blocking call whose request runs the callback itself waits for a mutex that it holds; one whose callback is
  never run waits for ever. \<open>pk_connection_subscription_set_handlers\<close> is always such a call. And \<open>g_cond_wait\<close> is
  called once, with no look at \<open>completed\<close>: when it returns early, so does the call, with FALSE and no error, and the
  callback then writes to the stack frame that is gone.
\<close>

theorem blocking_call_fails:
  shows "(sn_completion e = Immediate \<or> sn_completion e = Absent \<and> \<not> sn_spurious e \<longrightarrow>
      (\<forall>r v. sync_reach e r \<longrightarrow> rn_caller r \<noteq> Back v)) \<and>
    (sn_completion e = Deferred \<and> sn_foreign_loop e \<and> sn_spurious e \<longrightarrow>
      (\<exists>r. sync_reach e r \<and> rn_caller r = Back Finish_Quiet \<and> sync_dangling r)) \<and>
    fst (pk_connection_subscription_set_handlers_async (Some dbus_class) id_seq subscription c) \<noteq> Deferred \<and>
    fst (pk_connection_subscription_set_handlers (Some dbus_class) id_seq subscription c) = Never_Returns"
proof (intro conjI impI allI)
  fix r v
  assume "sn_completion e = Immediate \<or> sn_completion e = Absent \<and> \<not> sn_spurious e" "sync_reach e r"
  then have "rn_caller r \<in> {Before, Requesting, In_Callback, At_Wait, Waiting, Iterating, Iterated}"
    using immediate_stuck [of e r] absent_stuck [of e r] by blast
  then show "rn_caller r \<noteq> Back v" by auto
qed (use spurious_return [of e] set_handlers_completion set_handlers_never_returns in blast)+

theorem blocking_call_fails_witness:
  "(\<nexists>r v. sync_reach (demo_sync Immediate False) r \<and> rn_caller r = Back v) \<and>
   (\<exists>r. sync_reach (demo_sync Deferred True) r \<and> rn_caller r = Back Finish_Quiet \<and> sync_dangling r)"
  using blocking_call_fails [of "demo_sync Immediate False"] blocking_call_fails [of "demo_sync Deferred True"]
  by (auto simp: demo_sync_def)

end
