(* ===== verification/Egg_Line.thy ===== *)
theory Egg_Line
  imports Prelude
begin

text \<open>
  cut-n-paste/egg-line.c: the command line of the shell. Commands are found in tables by the words of a line; words
  that begin with a dollar sign stand for variables, which commands set for the next line.
\<close>

section \<open>Data\<close>

text \<open>What a process prints: text, text on the error stream, the message of an error.\<close>

datatype 'e printed = Out cstring | Err cstring | Err_Message 'e

text \<open>The line object; what it has printed stands at the end. The table of commands does not change and is an argument.\<close>

record 'e egg_line =
  el_prompt :: cstring
  el_quit :: bool
  el_keys :: "cstring \<Rightarrow> cstring option"
  el_out :: "'e printed list"

datatype egg_line_status = EGG_LINE_STATUS_OK | EGG_LINE_STATUS_BAD_ARGS | EGG_LINE_STATUS_FAILURE

text \<open>
  A callback returns its status and the error it set, or does not return because it waits for ever or because the
  process dies. \<open>Too_Deep\<close>: the stack is used up (a file may load itself).
\<close>

datatype 'e callback_end = Status egg_line_status "'e option" | Callback_Hangs | Callback_Dies | Callback_Too_Deep

datatype line_end = Goes_On | Hangs | Dies | Too_Deep

text \<open>The line object as callbacks use it: they execute files, and ask for the usage and the help of a command.\<close>

record 's line_object =
  lo_execute_file :: "cstring \<Rightarrow> 's \<Rightarrow> line_end \<times> 's"
  lo_resolve :: "cstring \<Rightarrow> 's \<Rightarrow> (cstring option \<times> cstring) option \<times> 's"

type_synonym ('e, 's) egg_line_callback = "'s line_object \<Rightarrow> cstring list \<Rightarrow> 's \<Rightarrow> 'e callback_end \<times> 's"

text \<open>
  A command: its name, its generator (all of them return one table, whatever they are given), its callback, its help
  and its usage. The table that ends in an entry without a name is a list.
\<close>

datatype ('e, 's) egg_line_command =
  Command (cmd_name: cstring) (cmd_generator: "('e, 's) egg_line_command list option")
    (cmd_callback: "('e, 's) egg_line_callback option") (cmd_help: cstring) (cmd_usage: "cstring option")

text \<open>GLib: \<open>g_shell_parse_argv\<close>, and the lines of a file, or the error.\<close>

record 'e line_env =
  le_parse_argv :: "cstring \<Rightarrow> 'e + cstring list"
  le_read_lines :: "cstring \<Rightarrow> 'e + cstring list"

text \<open>What is set up once: the table of commands, and the handler of the signal \<open>missing\<close>.\<close>

record ('e, 's) line_setup =
  ls_commands :: "('e, 's) egg_line_command list"
  ls_missing :: "cstring \<Rightarrow> 's \<Rightarrow> 's"

definition g_print :: "cstring \<Rightarrow> ('e, 'a) egg_line_scheme \<Rightarrow> ('e, 'a) egg_line_scheme" where
  "g_print s line = line\<lparr>el_out := el_out line @ [Out s]\<rparr>"

definition g_printerr :: "'e printed \<Rightarrow> ('e, 'a) egg_line_scheme \<Rightarrow> ('e, 'a) egg_line_scheme" where
  "g_printerr e line = line\<lparr>el_out := el_out line @ [e]\<rparr>"

section \<open>Variables\<close>

definition egg_line_set_variable ::
  "cstring \<Rightarrow> cstring option \<Rightarrow> ('e, 'a) egg_line_scheme \<Rightarrow> ('e, 'a) egg_line_scheme" where
  "egg_line_set_variable key value line = line\<lparr>el_keys := (el_keys line)(key := value)\<rparr>"

definition egg_line_get_variable :: "cstring \<Rightarrow> ('e, 'a) egg_line_scheme \<Rightarrow> cstring option" where
  "egg_line_get_variable key line = el_keys line key"

definition egg_line_expand :: "('e, 'a) egg_line_scheme \<Rightarrow> cstring \<Rightarrow> cstring" where
  "egg_line_expand line arg =
     (case arg of
        [] \<Rightarrow> arg
      | c # key \<Rightarrow>
          if c \<noteq> 36 then arg else (case el_keys line key of None \<Rightarrow> arg | Some found \<Rightarrow> found))"

definition g_ascii_isspace :: "u8 \<Rightarrow> bool" where
  "g_ascii_isspace c \<longleftrightarrow> c = 32 \<or> c = 9 \<or> c = 10 \<or> c = 12 \<or> c = 13"

text \<open>An equals sign, and no white space.\<close>

definition egg_line_is_assignment :: "cstring \<Rightarrow> bool" where
  "egg_line_is_assignment text \<longleftrightarrow> 61 \<in> set text \<and> (\<forall>c \<in> set text. \<not> g_ascii_isspace c)"

section \<open>Finding a command\<close>

text \<open>
  The words are taken one after the other as long as they name commands; \<open>tmp\<close> is the table that the last generator
  gave. A command without a generator leaves it, so that the next word is looked up beside that command, not below it.
\<close>

fun resolve_words ::
  "('e, 's) egg_line_command list \<Rightarrow> ('e, 's) egg_line_command list option \<Rightarrow> ('e, 's) egg_line_command option \<Rightarrow>
     cstring list \<Rightarrow> ('e, 's) egg_line_command option \<times> cstring list" where
  "resolve_words command tmp result [] = (result, [])"
| "resolve_words command tmp result (w # ws) =
     (case find (\<lambda>c. cmd_name c = w) command of
        None \<Rightarrow> (result, w # ws)
      | Some c \<Rightarrow>
          (let tmp = (case cmd_generator c of None \<Rightarrow> tmp | Some table \<Rightarrow> Some table)
           in resolve_words (case tmp of None \<Rightarrow> [] | Some table \<Rightarrow> table) tmp (Some c) ws))"

text \<open>The command and the words that are left, which are its arguments.\<close>

definition egg_line_resolve ::
  "'e line_env \<Rightarrow> ('e, 's) egg_line_command list \<Rightarrow> cstring \<Rightarrow> ('e, 'a) egg_line_scheme \<Rightarrow>
     (('e, 's) egg_line_command option \<times> cstring list) \<times> ('e, 'a) egg_line_scheme" where
  "egg_line_resolve env commands text line =
     (if text = [] \<or> egg_line_is_assignment text then ((None, []), line)
      else
        (case le_parse_argv env text of
           Inl error \<Rightarrow> ((None, []), g_printerr (Err_Message error) line)
         | Inr largv \<Rightarrow> (resolve_words commands None None (map (egg_line_expand line) largv), line)))"

section \<open>Executing a line\<close>

definition usage_text :: cstring where
  "usage_text = map of_char ''usage: ''"

definition egg_line_show_usage ::
  "('e, 's) egg_line_command \<Rightarrow> ('e, 'a) egg_line_scheme \<Rightarrow> ('e, 'a) egg_line_scheme" where
  "egg_line_show_usage command line =
     g_print (usage_text @ (case cmd_usage command of None \<Rightarrow> [] | Some usage \<Rightarrow> usage) @ [10]) line"

definition unknown_error_text :: cstring where
  "unknown_error_text = map of_char ''There was an unknown error running the command: ''"

text \<open>What the callback returned.\<close>

definition callback_result ::
  "('e, ('e, 'a) egg_line_scheme) egg_line_command \<Rightarrow> cstring \<Rightarrow> 'e callback_end \<Rightarrow> ('e, 'a) egg_line_scheme \<Rightarrow>
     line_end \<times> ('e, 'a) egg_line_scheme" where
  "callback_result command text result line =
     (case result of
        Status EGG_LINE_STATUS_OK error \<Rightarrow> (Goes_On, line)
      | Status EGG_LINE_STATUS_BAD_ARGS error \<Rightarrow> (Goes_On, egg_line_show_usage command line)
      | Status EGG_LINE_STATUS_FAILURE (Some error) \<Rightarrow> (Goes_On, g_printerr (Err_Message error) line)
      | Status EGG_LINE_STATUS_FAILURE None \<Rightarrow>
          (Goes_On, g_printerr (Err (unknown_error_text @ text @ [10])) line)
      | Callback_Hangs \<Rightarrow> (Hangs, line)
      | Callback_Dies \<Rightarrow> (Dies, line)
      | Callback_Too_Deep \<Rightarrow> (Too_Deep, line))"

text \<open>An assignment: the value is what follows the first equals sign, or the variable that it names.\<close>

definition assign :: "cstring \<Rightarrow> ('e, 'a) egg_line_scheme \<Rightarrow> ('e, 'a) egg_line_scheme" where
  "assign text line =
     (let key = takeWhile (\<lambda>c. c \<noteq> 61) text;
          value = drop (length key + 1) text
      in egg_line_set_variable key
           (case value of
              [] \<Rightarrow> Some value
            | c # name \<Rightarrow> if c = 36 then el_keys line name else Some value) line)"

text \<open>The line object that a callback is given, by what it does when it executes a file.\<close>

definition line_object ::
  "'e line_env \<Rightarrow> ('e, ('e, 'a) egg_line_scheme) line_setup \<Rightarrow>
     (cstring \<Rightarrow> ('e, 'a) egg_line_scheme \<Rightarrow> line_end \<times> ('e, 'a) egg_line_scheme) \<Rightarrow>
     ('e, 'a) egg_line_scheme line_object" where
  "line_object env setup execute_file =
     \<lparr>lo_execute_file = execute_file,
      lo_resolve = (\<lambda>text line. case egg_line_resolve env (ls_commands setup) text line of
        ((command, argv), line) \<Rightarrow> (map_option (\<lambda>c. (cmd_usage c, cmd_help c)) command, line))\<rparr>"

definition execute_with ::
  "'e line_env \<Rightarrow> ('e, ('e, 'a) egg_line_scheme) line_setup \<Rightarrow>
     (cstring \<Rightarrow> ('e, 'a) egg_line_scheme \<Rightarrow> line_end \<times> ('e, 'a) egg_line_scheme) \<Rightarrow>
     cstring \<Rightarrow> ('e, 'a) egg_line_scheme \<Rightarrow> line_end \<times> ('e, 'a) egg_line_scheme" where
  "execute_with env setup execute_file text line =
     (if take 1 text = [35] then (Goes_On, line)
      else if egg_line_is_assignment text then (Goes_On, assign text line)
      else
        (case egg_line_resolve env (ls_commands setup) text line of
           ((Some command, argv), line) \<Rightarrow>
             (case cmd_callback command of
                Some callback \<Rightarrow>
                  (case callback (line_object env setup execute_file) argv line of
                     (result, line) \<Rightarrow> callback_result command text result line)
              | None \<Rightarrow>
                  (Goes_On, if cmd_usage command \<noteq> None then egg_line_show_usage command line
                            else ls_missing setup text line))
         | ((None, argv), line) \<Rightarrow> (Goes_On, ls_missing setup text line)))"

text \<open>\<open>g_strstrip\<close>\<close>

definition g_strstrip :: "cstring \<Rightarrow> cstring" where
  "g_strstrip s = rev (dropWhile g_ascii_isspace (rev (dropWhile g_ascii_isspace s)))"

text \<open>The lines of a file, one after the other; comments and empty lines are skipped.\<close>

fun execute_lines ::
  "(cstring \<Rightarrow> ('e, 'a) egg_line_scheme \<Rightarrow> line_end \<times> ('e, 'a) egg_line_scheme) \<Rightarrow> cstring list \<Rightarrow>
     ('e, 'a) egg_line_scheme \<Rightarrow> line_end \<times> ('e, 'a) egg_line_scheme" where
  "execute_lines execute [] line = (Goes_On, line)"
| "execute_lines execute (l # ls) line =
     (let text = g_strstrip l in
        if take 1 text = [35] \<or> text = [] then execute_lines execute ls line
        else
          (case execute text (g_print (el_prompt line @ text @ [10]) line) of
             (Goes_On, line) \<Rightarrow> execute_lines execute ls line
           | stop \<Rightarrow> stop))"

text \<open>A file may load files. The first argument is how many of them can be open inside each other.\<close>

primrec egg_line_execute_file ::
  "nat \<Rightarrow> 'e line_env \<Rightarrow> ('e, ('e, 'a) egg_line_scheme) line_setup \<Rightarrow> cstring \<Rightarrow> ('e, 'a) egg_line_scheme \<Rightarrow>
     line_end \<times> ('e, 'a) egg_line_scheme" where
  "egg_line_execute_file 0 env setup filename line = (Too_Deep, line)"
| "egg_line_execute_file (Suc depth) env setup filename line =
     (case le_read_lines env filename of
        Inl error \<Rightarrow> (Goes_On, g_printerr (Err_Message error) line)
      | Inr ls \<Rightarrow> execute_lines (execute_with env setup (egg_line_execute_file depth env setup)) ls line)"

definition egg_line_execute ::
  "nat \<Rightarrow> 'e line_env \<Rightarrow> ('e, ('e, 'a) egg_line_scheme) line_setup \<Rightarrow> cstring \<Rightarrow> ('e, 'a) egg_line_scheme \<Rightarrow>
     line_end \<times> ('e, 'a) egg_line_scheme" where
  "egg_line_execute depth env setup = execute_with env setup (egg_line_execute_file depth env setup)"

section \<open>Reading lines\<close>

definition egg_line_init :: "'e egg_line" where
  "egg_line_init =
     \<lparr>el_prompt = [62, 32], el_quit = False, el_keys = (\<lambda>key. if key = [48] then Some [48] else None), el_out = []\<rparr>"

definition egg_line_set_prompt :: "cstring \<Rightarrow> ('e, 'a) egg_line_scheme \<Rightarrow> ('e, 'a) egg_line_scheme" where
  "egg_line_set_prompt prompt line = line\<lparr>el_prompt := prompt\<rparr>"

definition egg_line_set_commands ::
  "('e, 's) egg_line_command list \<Rightarrow> ('e, 's) line_setup \<Rightarrow> ('e, 's) line_setup" where
  "egg_line_set_commands entries setup = setup\<lparr>ls_commands := entries\<rparr>"

definition egg_line_quit :: "('e, 'a) egg_line_scheme \<Rightarrow> ('e, 'a) egg_line_scheme" where
  "egg_line_quit line = line\<lparr>el_quit := True\<rparr>"

text \<open>The loop over what \<open>readline\<close> gives, up to the end of the input or the command that quits.\<close>

fun read_loop ::
  "(cstring \<Rightarrow> ('e, 'a) egg_line_scheme \<Rightarrow> line_end \<times> ('e, 'a) egg_line_scheme) \<Rightarrow> cstring list \<Rightarrow>
     ('e, 'a) egg_line_scheme \<Rightarrow> line_end \<times> ('e, 'a) egg_line_scheme" where
  "read_loop execute [] line = (Goes_On, g_print [10] line)"
| "read_loop execute (text # texts) line =
     (if el_quit line then (Goes_On, g_print [10] line)
      else if text = [] then read_loop execute texts line
      else
        (case execute text line of
           (Goes_On, line) \<Rightarrow> read_loop execute texts line
         | stop \<Rightarrow> stop))"

definition egg_line_run ::
  "nat \<Rightarrow> 'e line_env \<Rightarrow> ('e, ('e, 'a) egg_line_scheme) line_setup \<Rightarrow> cstring list \<Rightarrow> ('e, 'a) egg_line_scheme \<Rightarrow>
     line_end \<times> ('e, 'a) egg_line_scheme" where
  "egg_line_run depth env setup texts line =
     read_loop (egg_line_execute depth env setup) texts (line\<lparr>el_quit := False\<rparr>)"

section \<open>Completion\<close>

text \<open>The next name in the table, from an index on, that the word begins; and the index after it.\<close>

fun next_name :: "cstring \<Rightarrow> ('e, 's) egg_line_command list \<Rightarrow> nat \<Rightarrow> cstring option \<times> nat" where
  "next_name tmp [] i = (None, i)"
| "next_name tmp (c # cs) i =
     (if map g_ascii_tolower (take (length tmp) (cmd_name c)) = map g_ascii_tolower tmp
      then (Some (cmd_name c), i + 1) else next_name tmp cs (i + 1))"

text \<open>One call by readline, with the whole line; \<open>list_index\<close> is static and is set back when \<open>state\<close> is 0.\<close>

definition egg_line_generator ::
  "'e line_env \<Rightarrow> ('e, 's) egg_line_command list \<Rightarrow> cstring \<Rightarrow> bool \<Rightarrow> nat \<Rightarrow> ('e, 'a) egg_line_scheme \<Rightarrow>
     cstring option \<times> nat \<times> ('e, 'a) egg_line_scheme" where
  "egg_line_generator env commands line_buffer first list_index line =
     (case egg_line_resolve env commands line_buffer line of
        ((command, argv), line) \<Rightarrow>
          (let table = (case command of
                 None \<Rightarrow> commands
               | Some c \<Rightarrow> (case cmd_generator c of None \<Rightarrow> [] | Some t \<Rightarrow> t));
               tmp = (case argv of [] \<Rightarrow> [] | a # _ \<Rightarrow> a);
               i = (if first then 0 else list_index)
           in case next_name tmp (drop i table) i of (name, i) \<Rightarrow> (name, i, line)))"

end
