(* ===== verification/Perfkit_Shell.thy ===== *)
theory Perfkit_Shell
  imports Pk_Connection Egg_Line
begin

text \<open>
  tools/perfkit-shell.c: the shell, whose commands call the client library and print what comes back. A thread
      reads
  and executes lines, while the main loop runs in another one.
\<close>

section \<open>Tasks\<close>

text \<open>
  The state of a call on the stack of the command: who holds the mutex, and in \<open>at_result\<close> the
      result, the error and
  what \<open>params\<close> point to.
\<close>

record 'a async_task =
  at_mutex :: "thread option"
  at_result :: "'a finished"

definition async_task_init :: "'a async_task" where
  "async_task_init = \<lparr>at_mutex = Some Caller, at_result = Finish_Quiet\<rparr>"

text \<open>The mutex is free before and after.\<close>

definition async_task_signal :: "'a async_task \<Rightarrow> 'a async_task" where
  "async_task_signal task = task"

text \<open>
  \<open>g_cond_wait\<close> on the thread of the commands: what the callback, which takes the mutex before it
      signals, has left;
  the interleaving is that of a blocking call of the library whose main loop another thread runs.
\<close>

definition async_task_wait :: "completion \<Rightarrow> 'a async_task \<Rightarrow> 'a returned" where
  "async_task_wait how task = sync_outcome how (at_result task)"

lemma async_task_wait_steps:
  "async_task_wait how task = Returned v \<longleftrightarrow>
    (\<exists>r. sync_reach \<lparr>sn_foreign_loop = True, sn_completion = how, sn_value = at_result task,
        sn_spurious = False\<rparr> r \<and>
       rn_caller r = Back v)"
  using sync_outcome_steps [of
      "\<lparr>sn_foreign_loop = True, sn_completion = how, sn_value = at_result task, sn_spurious =
          False\<rparr>" v]
  by (simp add: async_task_wait_def)

section \<open>The shell\<close>

datatype shell_error =
    From_Connection connection_error
  | Directory_Not_Found cstring
  | Could_Not_Change_Directories
  | Glib_Error cstring

datatype log_level = LEVEL_ERROR | LEVEL_CRITICAL | LEVEL_WARNING | LEVEL_MESSAGE | LEVEL_INFO | LEVEL_DEBUG |
    LEVEL_TRACE

text \<open>What the shell does to its own process.\<close>

datatype shell_act = Chdir cstring | Ran "cstring list" | Main_Loop_Quit

text \<open>
  The line object; the agent at the other end of the bus; the connection object, with the counter that numbers its
  handlers; the threshold of the log; and what was done.
\<close>

type_synonym shell_client = "gint \<times> pk_connection"

record shell = "shell_error egg_line" +
  sh_agent :: "agent \<times> dbus_listener"
  sh_client :: shell_client
  sh_log :: log_level
  sh_acts :: "shell_act list"

text \<open>
  The surroundings: the connection, the bus, the byte order of the host; of GLib
      \<open>g_shell_parse_argv\<close>, the lines of
  files, \<open>g_utf8_strdown\<close>, \<open>g_time_val_to_iso8601\<close>, the format \<open>%f\<close>, the
      home directory, and which directories exist
  and can be gone to.
\<close>

record shell_env =
  se_conn :: "connection_class option"
  se_link :: dbus_link
  se_order :: byte_order
  se_line :: "shell_error line_env"
  se_strdown :: "cstring \<Rightarrow> cstring"
  se_iso8601 :: "g_time_val \<Rightarrow> cstring"
  se_double :: "gdouble_bits \<Rightarrow> cstring"
  se_float :: "gfloat_bits \<Rightarrow> cstring"
  se_home :: cstring
  se_is_dir :: "cstring \<Rightarrow> bool"
  se_chdir :: "cstring \<Rightarrow> bool"

type_synonym shell_command = "shell_env \<Rightarrow> cstring list \<Rightarrow> shell \<Rightarrow> shell_error
    callback_end \<times> shell"

section \<open>Reading arguments\<close>

text \<open>
  \<open>strtol\<close> in base 0: white space, a sign, a prefix that gives the base, and as many digits as there
      are. The value is
  cut to the range of \<open>long\<close>. The result: the value, whether it was cut (\<open>ERANGE\<close>),
      whether there was a number.
\<close>

definition digit_of :: "u8 \<Rightarrow> nat" where
  "digit_of c =
     (if is_digit c then unat c - 48 else if 97 \<le> c \<and> c \<le> 122 then unat c - 87
      else if 65 \<le> c \<and> c \<le> 90 then unat c - 55 else 36)"

definition based_value :: "nat \<Rightarrow> cstring \<Rightarrow> nat" where
  "based_value base ds = foldl (\<lambda>n c. n * base + digit_of c) 0 ds"

definition number_base :: "cstring \<Rightarrow> nat \<times> cstring" where
  "number_base s =
     (if take 1 s \<noteq> [48] then (10, s)
      else if take 1 (drop 1 s) \<in> {[120], [88]} \<and> drop 2 s \<noteq> [] \<and> digit_of (s ! 2) < 16 then
          (16, drop 2 s)
      else (8, s))"

definition strtol :: "cstring \<Rightarrow> int \<times> bool \<times> bool" where
  "strtol s =
     (let s = dropWhile is_space s;
          (negative, s) = (case s of
             [] \<Rightarrow> (False, [])
           | c # t \<Rightarrow> if c = 45 then (True, t) else if c = 43 then (False, t) else (False, s));
          (base, s) = number_base s;
          ds = takeWhile (\<lambda>c. digit_of c < base) s;
          x = (if negative then - int (based_value base ds) else int (based_value base ds))
      in (long_range x, long_range x \<noteq> x, ds \<noteq> []))"

text \<open>The value of \<open>strtol\<close> is stored in an int, and it is the int that is compared with the
    limits of \<open>long\<close>.\<close>

definition pk_shell_parse_int :: "cstring \<Rightarrow> gint option" where
  "pk_shell_parse_int str =
     (case strtol str of
        (value, erange, converted) \<Rightarrow>
          (let v = word_of_int value :: gint in
             if erange \<and> (sint v = 2 ^ 63 - 1 \<or> sint v = - (2 ^ 63)) \<or> erange \<and> v = 0 then None
             else if \<not> converted then None
             else Some v))"

definition pk_shell_parse_boolean :: "(cstring \<Rightarrow> cstring) \<Rightarrow> cstring \<Rightarrow> bool
    option" where
  "pk_shell_parse_boolean strdown str =
     (let utf8 = strdown str in
        if utf8 = ascii ''yes'' then Some True
        else if utf8 = ascii ''no'' then Some False
        else if utf8 = ascii ''true'' then Some True
        else if utf8 = ascii ''false'' then Some False
        else if utf8 = ascii ''1'' then Some True
        else if utf8 = ascii ''0'' then Some False
        else None)"

definition pk_shell_state_to_str :: "gint \<Rightarrow> cstring" where
  "pk_shell_state_to_str state =
     (if state = 1 then ascii ''PK_CHANNEL_READY''
      else if state = 2 then ascii ''PK_CHANNEL_RUNNING''
      else if state = 3 then ascii ''PK_CHANNEL_MUTED''
      else if state = 4 then ascii ''PK_CHANNEL_STOPPED''
      else if state = 5 then ascii ''PK_CHANNEL_FAILED''
      else ascii ''UNKNOWN'')"

section \<open>The parts of a command\<close>

definition bad_args :: "shell \<Rightarrow> shell_error callback_end \<times> shell" where
  "bad_args sh = (Status EGG_LINE_STATUS_BAD_ARGS None, sh)"

definition parsing_int ::
  "cstring \<Rightarrow> (gint \<Rightarrow> shell \<Rightarrow> shell_error callback_end \<times> shell)
      \<Rightarrow> shell \<Rightarrow> shell_error callback_end \<times> shell" where
  "parsing_int arg k = (case pk_shell_parse_int arg of None \<Rightarrow> bad_args | Some i \<Rightarrow> k i)"

definition parsing_boolean ::
  "shell_env \<Rightarrow> cstring \<Rightarrow> (bool \<Rightarrow> shell \<Rightarrow> shell_error callback_end
      \<times> shell) \<Rightarrow> shell \<Rightarrow>
     shell_error callback_end \<times> shell" where
  "parsing_boolean e arg k = (case pk_shell_parse_boolean (se_strdown e) arg of None \<Rightarrow> bad_args |
      Some b \<Rightarrow> k b)"

text \<open>\<open>g_shell_parse_argv\<close> sets the error, which is not shown with this status.\<close>

definition parsing_argv ::
  "shell_env \<Rightarrow> cstring \<Rightarrow> (cstring list \<Rightarrow> shell \<Rightarrow> shell_error
      callback_end \<times> shell) \<Rightarrow> shell \<Rightarrow>
     shell_error callback_end \<times> shell" where
  "parsing_argv e arg k sh =
     (case le_parse_argv (se_line e) arg of
        Inl error \<Rightarrow> (Status EGG_LINE_STATUS_BAD_ARGS (Some error), sh)
      | Inr args \<Rightarrow> k args sh)"

text \<open>
  The request, and the wait for its callback, which finds the mutex released by the wait. The callback may use the
  connection object.
\<close>

definition shell_request ::
  "dbus_link \<Rightarrow> request \<Rightarrow> (pending_call \<Rightarrow> 'a async_task \<times> shell_client
      \<Rightarrow> 'a async_task \<times> shell_client) \<Rightarrow>
     shell_client \<Rightarrow> agent \<times> dbus_listener \<Rightarrow> ('a returned \<times> shell_client)
         \<times> agent \<times> dbus_listener" where
  "shell_request l request callback client st =
     (case request of
        Request_Crashed \<Rightarrow> ((Client_Crash, client), st)
      | Not_Requested \<Rightarrow> ((async_task_wait Absent async_task_init, client), st)
      | Requested m \<Rightarrow>
          if \<not> lk_sends l then ((async_task_wait Absent async_task_init, client), st)
          else (case call l m (\<lambda>p. callback p (async_task_init\<lparr>at_mutex := None\<rparr>, client))
              st of
                  ((task, client), st) \<Rightarrow> ((async_task_wait Deferred task, client), st)))"

text \<open>
  After the wait: a result is shown, an error is passed on (\<open>g_propagate_error\<close> of no error does
      nothing).
\<close>

definition asking_client ::
  "shell_env \<Rightarrow> request \<Rightarrow> (pending_call \<Rightarrow> 'a async_task \<times> shell_client
      \<Rightarrow> 'a async_task \<times> shell_client) \<Rightarrow>
     ('a \<Rightarrow> shell \<Rightarrow> shell) \<Rightarrow> shell \<Rightarrow> shell_error callback_end
         \<times> shell" where
  "asking_client e request callback k sh =
     (case shell_request (se_link e) request callback (sh_client sh) (sh_agent sh) of
        ((r, client), st) \<Rightarrow>
          (let sh = sh\<lparr>sh_agent := st, sh_client := client\<rparr> in
             case r of
               Never_Returns \<Rightarrow> (Callback_Hangs, sh)
             | Client_Crash \<Rightarrow> (Callback_Dies, sh)
             | Returned (Finish_True x) \<Rightarrow> (Status EGG_LINE_STATUS_OK None, k x sh)
             | Returned (Finish_Error error) \<Rightarrow> (Status EGG_LINE_STATUS_FAILURE (Some (From_Connection
                 error)), sh)
             | Returned Finish_Quiet \<Rightarrow> (Status EGG_LINE_STATUS_FAILURE None, sh)))"

text \<open>The same with a callback that only stores the result.\<close>

definition asking ::
  "shell_env \<Rightarrow> request \<Rightarrow> (pending_call \<Rightarrow> 'a async_task \<Rightarrow> 'a
      async_task) \<Rightarrow> ('a \<Rightarrow> shell \<Rightarrow> shell) \<Rightarrow> shell \<Rightarrow>
     shell_error callback_end \<times> shell" where
  "asking e request callback = asking_client e request (\<lambda>p (task, client). (callback p task, client))"

definition right_aligned :: "nat \<Rightarrow> cstring \<Rightarrow> cstring" where
  "right_aligned width s = replicate (width - length s) 32 @ s"

text \<open>The format \<open>%16s: %s\<close> and a newline.\<close>

definition show_field :: "string \<Rightarrow> cstring \<Rightarrow> cstring" where
  "show_field label value = right_aligned 16 (ascii label) @ [58, 32] @ value @ [10]"

fun g_strjoinv :: "cstring \<Rightarrow> cstring list \<Rightarrow> cstring" where
  "g_strjoinv separator [] = []"
| "g_strjoinv separator [s] = s"
| "g_strjoinv separator (s # t # ss) = s @ separator @ g_strjoinv separator (t # ss)"

definition show_nothing :: "shell \<Rightarrow> shell" where
  "show_nothing sh = sh"

definition show_int :: "string \<Rightarrow> string \<Rightarrow> gint \<Rightarrow> shell \<Rightarrow> shell"
    where
  "show_int label key i sh =
     egg_line_set_variable (ascii key) (Some (fmt_int i)) (g_print (show_field label (fmt_int i)) sh)"

definition show_boolean :: "string \<Rightarrow> bool \<Rightarrow> shell \<Rightarrow> shell" where
  "show_boolean label b sh =
     egg_line_set_variable [49] (Some (if b then [49] else [48]))
       (g_print (show_field label (if b then ascii ''TRUE'' else ascii ''FALSE'')) sh)"

text \<open>A NULL string is printed as printf does, and removes the variable.\<close>

definition show_string :: "string \<Rightarrow> cstring option \<Rightarrow> shell \<Rightarrow> shell" where
  "show_string label s sh = egg_line_set_variable [49] s (g_print (show_field label (fmt_string s)) sh)"

definition show_time :: "shell_env \<Rightarrow> string \<Rightarrow> g_time_val \<Rightarrow> shell
    \<Rightarrow> shell" where
  "show_time e label tv sh =
     egg_line_set_variable [49] (Some (se_iso8601 e tv)) (g_print (show_field label (se_iso8601 e tv)) sh)"

text \<open>A vector of strings ends at the first NULL.\<close>

definition strv :: "cstring option list \<Rightarrow> cstring list" where
  "strv ss = map the (takeWhile (\<lambda>s. s \<noteq> None) ss)"

definition show_strings :: "string \<Rightarrow> cstring list \<Rightarrow> shell \<Rightarrow> shell" where
  "show_strings label ss sh =
     egg_line_set_variable [49] (Some [])
       (g_print (show_field label
          (if ss = [] then ascii ''[]'' else [91, 39] @ g_strjoinv [39, 44, 32, 39] ss @ [39, 93])) sh)"

definition show_ints :: "string \<Rightarrow> string \<Rightarrow> gint list \<Rightarrow> shell \<Rightarrow>
    shell" where
  "show_ints label len_label is sh =
     (let sh = (if is = [] then sh
                else g_print (show_field label ([91] @ g_strjoinv [44, 32] (map fmt_int is) @ [93])) sh);
          sh = egg_line_set_variable [49] (Some []) sh;
          n = word_of_nat (length is) :: gint
      in egg_line_set_variable [50] (Some (fmt_int n)) (g_print (show_field len_label (fmt_int n)) sh))"

definition show_state :: "gint \<Rightarrow> shell \<Rightarrow> shell" where
  "show_state state sh =
     egg_line_set_variable [49] (Some (fmt_int state))
       (g_print (show_field ''state'' (fmt_int state @ [32, 40] @ pk_shell_state_to_str state @ [41])) sh)"

section \<open>Commands that ask the agent\<close>

subsection \<open>Channels\<close>

definition pk_shell_channel_add_source_cb ::
  "connection_class option \<Rightarrow> pending_call \<Rightarrow> unit async_task \<Rightarrow> unit
      async_task" where
  "pk_shell_channel_add_source_cb object result task =
     async_task_signal (task\<lparr>at_result := pk_connection_channel_add_source_finish object result\<rparr>)"

definition pk_shell_channel_add_source :: shell_command where
  "pk_shell_channel_add_source e argv =
     (if length argv \<noteq> 2 then bad_args else
       parsing_int (argv ! 0) (\<lambda>channel.
       parsing_int (argv ! 1) (\<lambda>source.
       asking e (pk_connection_channel_add_source_async (se_conn e) channel source)
         (pk_shell_channel_add_source_cb (se_conn e))
         (\<lambda>_. show_nothing))))"

definition pk_shell_channel_get_args_cb ::
  "connection_class option \<Rightarrow> pending_call \<Rightarrow> (cstring list) async_task \<Rightarrow>
      (cstring list) async_task" where
  "pk_shell_channel_get_args_cb object result task =
     async_task_signal (task\<lparr>at_result := pk_connection_channel_get_args_finish object result\<rparr>)"

definition pk_shell_channel_get_args :: shell_command where
  "pk_shell_channel_get_args e argv =
     (if length argv \<noteq> 1 then bad_args else
       parsing_int (argv ! 0) (\<lambda>channel.
       asking e (pk_connection_channel_get_args_async (se_conn e) channel)
         (pk_shell_channel_get_args_cb (se_conn e))
         (\<lambda>args. show_strings ''args'' args)))"

definition pk_shell_channel_get_created_at_cb ::
  "(cstring \<Rightarrow> g_time_val option) \<Rightarrow> connection_class option \<Rightarrow> pending_call
      \<Rightarrow> g_time_val async_task \<Rightarrow> g_time_val async_task" where
  "pk_shell_channel_get_created_at_cb parse object result task =
     async_task_signal (task\<lparr>at_result := pk_connection_channel_get_created_at_finish parse object
         result\<rparr>)"

definition pk_shell_channel_get_created_at :: shell_command where
  "pk_shell_channel_get_created_at e argv =
     (if length argv \<noteq> 1 then bad_args else
       parsing_int (argv ! 0) (\<lambda>channel.
       asking e (pk_connection_channel_get_created_at_async (se_conn e) channel)
         (pk_shell_channel_get_created_at_cb (lk_parse (se_link e)) (se_conn e))
         (\<lambda>tv. show_time e ''tv'' tv)))"

definition pk_shell_channel_get_env_cb ::
  "connection_class option \<Rightarrow> pending_call \<Rightarrow> (cstring list) async_task \<Rightarrow>
      (cstring list) async_task" where
  "pk_shell_channel_get_env_cb object result task =
     async_task_signal (task\<lparr>at_result := pk_connection_channel_get_env_finish object result\<rparr>)"

definition pk_shell_channel_get_env :: shell_command where
  "pk_shell_channel_get_env e argv =
     (if length argv \<noteq> 1 then bad_args else
       parsing_int (argv ! 0) (\<lambda>channel.
       asking e (pk_connection_channel_get_env_async (se_conn e) channel)
         (pk_shell_channel_get_env_cb (se_conn e))
         (\<lambda>env_vars. show_strings ''env'' env_vars)))"

definition pk_shell_channel_get_exit_status_cb ::
  "connection_class option \<Rightarrow> pending_call \<Rightarrow> gint async_task \<Rightarrow> gint
      async_task" where
  "pk_shell_channel_get_exit_status_cb object result task =
     async_task_signal (task\<lparr>at_result := pk_connection_channel_get_exit_status_finish object
         result\<rparr>)"

definition pk_shell_channel_get_exit_status :: shell_command where
  "pk_shell_channel_get_exit_status e argv =
     (if length argv \<noteq> 1 then bad_args else
       parsing_int (argv ! 0) (\<lambda>channel.
       asking e (pk_connection_channel_get_exit_status_async (se_conn e) channel)
         (pk_shell_channel_get_exit_status_cb (se_conn e))
         (\<lambda>exit_status. show_int ''exit_status'' ''1'' exit_status)))"

definition pk_shell_channel_get_kill_pid_cb ::
  "connection_class option \<Rightarrow> pending_call \<Rightarrow> bool async_task \<Rightarrow> bool
      async_task" where
  "pk_shell_channel_get_kill_pid_cb object result task =
     async_task_signal (task\<lparr>at_result := pk_connection_channel_get_kill_pid_finish object result\<rparr>)"

definition pk_shell_channel_get_kill_pid :: shell_command where
  "pk_shell_channel_get_kill_pid e argv =
     (if length argv \<noteq> 1 then bad_args else
       parsing_int (argv ! 0) (\<lambda>channel.
       asking e (pk_connection_channel_get_kill_pid_async (se_conn e) channel)
         (pk_shell_channel_get_kill_pid_cb (se_conn e))
         (\<lambda>kill_pid. show_boolean ''kill_pid'' kill_pid)))"

definition pk_shell_channel_get_pid_cb ::
  "connection_class option \<Rightarrow> pending_call \<Rightarrow> gint async_task \<Rightarrow> gint
      async_task" where
  "pk_shell_channel_get_pid_cb object result task =
     async_task_signal (task\<lparr>at_result := pk_connection_channel_get_pid_finish object result\<rparr>)"

definition pk_shell_channel_get_pid :: shell_command where
  "pk_shell_channel_get_pid e argv =
     (if length argv \<noteq> 1 then bad_args else
       parsing_int (argv ! 0) (\<lambda>channel.
       asking e (pk_connection_channel_get_pid_async (se_conn e) channel)
         (pk_shell_channel_get_pid_cb (se_conn e))
         (\<lambda>pid. show_int ''pid'' ''1'' pid)))"

definition pk_shell_channel_get_pid_set_cb ::
  "connection_class option \<Rightarrow> pending_call \<Rightarrow> bool async_task \<Rightarrow> bool
      async_task" where
  "pk_shell_channel_get_pid_set_cb object result task =
     async_task_signal (task\<lparr>at_result := pk_connection_channel_get_pid_set_finish object result\<rparr>)"

definition pk_shell_channel_get_pid_set :: shell_command where
  "pk_shell_channel_get_pid_set e argv =
     (if length argv \<noteq> 1 then bad_args else
       parsing_int (argv ! 0) (\<lambda>channel.
       asking e (pk_connection_channel_get_pid_set_async (se_conn e) channel)
         (pk_shell_channel_get_pid_set_cb (se_conn e))
         (\<lambda>pid_set. show_boolean ''pid_set'' pid_set)))"

definition pk_shell_channel_get_sources_cb ::
  "connection_class option \<Rightarrow> pending_call \<Rightarrow> (gint list) async_task \<Rightarrow> (gint
      list) async_task" where
  "pk_shell_channel_get_sources_cb object result task =
     async_task_signal (task\<lparr>at_result := pk_connection_channel_get_sources_finish object result\<rparr>)"

definition pk_shell_channel_get_sources :: shell_command where
  "pk_shell_channel_get_sources e argv =
     (if length argv \<noteq> 1 then bad_args else
       parsing_int (argv ! 0) (\<lambda>channel.
       asking e (pk_connection_channel_get_sources_async (se_conn e) channel)
         (pk_shell_channel_get_sources_cb (se_conn e))
         (\<lambda>sources. show_ints ''sources'' ''sources_len'' sources)))"

definition pk_shell_channel_get_state_cb ::
  "connection_class option \<Rightarrow> pending_call \<Rightarrow> gint async_task \<Rightarrow> gint
      async_task" where
  "pk_shell_channel_get_state_cb object result task =
     async_task_signal (task\<lparr>at_result := pk_connection_channel_get_state_finish object result\<rparr>)"

definition pk_shell_channel_get_state :: shell_command where
  "pk_shell_channel_get_state e argv =
     (if length argv \<noteq> 1 then bad_args else
       parsing_int (argv ! 0) (\<lambda>channel.
       asking e (pk_connection_channel_get_state_async (se_conn e) channel)
         (pk_shell_channel_get_state_cb (se_conn e))
         (\<lambda>state. show_state state)))"

definition pk_shell_channel_get_target_cb ::
  "connection_class option \<Rightarrow> pending_call \<Rightarrow> cstring async_task \<Rightarrow> cstring
      async_task" where
  "pk_shell_channel_get_target_cb object result task =
     async_task_signal (task\<lparr>at_result := pk_connection_channel_get_target_finish object result\<rparr>)"

definition pk_shell_channel_get_target :: shell_command where
  "pk_shell_channel_get_target e argv =
     (if length argv \<noteq> 1 then bad_args else
       parsing_int (argv ! 0) (\<lambda>channel.
       asking e (pk_connection_channel_get_target_async (se_conn e) channel)
         (pk_shell_channel_get_target_cb (se_conn e))
         (\<lambda>target. show_string ''target'' (Some target))))"

definition pk_shell_channel_get_working_dir_cb ::
  "connection_class option \<Rightarrow> pending_call \<Rightarrow> cstring async_task \<Rightarrow> cstring
      async_task" where
  "pk_shell_channel_get_working_dir_cb object result task =
     async_task_signal (task\<lparr>at_result := pk_connection_channel_get_working_dir_finish object
         result\<rparr>)"

definition pk_shell_channel_get_working_dir :: shell_command where
  "pk_shell_channel_get_working_dir e argv =
     (if length argv \<noteq> 1 then bad_args else
       parsing_int (argv ! 0) (\<lambda>channel.
       asking e (pk_connection_channel_get_working_dir_async (se_conn e) channel)
         (pk_shell_channel_get_working_dir_cb (se_conn e))
         (\<lambda>working_dir. show_string ''working_dir'' (Some working_dir))))"

definition pk_shell_channel_mute_cb ::
  "connection_class option \<Rightarrow> pending_call \<Rightarrow> unit async_task \<Rightarrow> unit
      async_task" where
  "pk_shell_channel_mute_cb object result task =
     async_task_signal (task\<lparr>at_result := pk_connection_channel_mute_finish object result\<rparr>)"

definition pk_shell_channel_mute :: shell_command where
  "pk_shell_channel_mute e argv =
     (if length argv \<noteq> 1 then bad_args else
       parsing_int (argv ! 0) (\<lambda>channel.
       asking e (pk_connection_channel_mute_async (se_conn e) channel)
         (pk_shell_channel_mute_cb (se_conn e))
         (\<lambda>_. show_nothing)))"

definition pk_shell_channel_set_args_cb ::
  "connection_class option \<Rightarrow> pending_call \<Rightarrow> unit async_task \<Rightarrow> unit
      async_task" where
  "pk_shell_channel_set_args_cb object result task =
     async_task_signal (task\<lparr>at_result := pk_connection_channel_set_args_finish object result\<rparr>)"

definition pk_shell_channel_set_args :: shell_command where
  "pk_shell_channel_set_args e argv =
     (if length argv \<noteq> 2 then bad_args else
       parsing_int (argv ! 0) (\<lambda>channel.
       parsing_argv e (argv ! 1) (\<lambda>args.
       asking e (pk_connection_channel_set_args_async (se_conn e) channel (Some args))
         (pk_shell_channel_set_args_cb (se_conn e))
         (\<lambda>_. show_nothing))))"

definition pk_shell_channel_set_env_cb ::
  "connection_class option \<Rightarrow> pending_call \<Rightarrow> unit async_task \<Rightarrow> unit
      async_task" where
  "pk_shell_channel_set_env_cb object result task =
     async_task_signal (task\<lparr>at_result := pk_connection_channel_set_env_finish object result\<rparr>)"

definition pk_shell_channel_set_env :: shell_command where
  "pk_shell_channel_set_env e argv =
     (if length argv \<noteq> 2 then bad_args else
       parsing_int (argv ! 0) (\<lambda>channel.
       parsing_argv e (argv ! 1) (\<lambda>env_vars.
       asking e (pk_connection_channel_set_env_async (se_conn e) channel (Some env_vars))
         (pk_shell_channel_set_env_cb (se_conn e))
         (\<lambda>_. show_nothing))))"

definition pk_shell_channel_set_kill_pid_cb ::
  "connection_class option \<Rightarrow> pending_call \<Rightarrow> unit async_task \<Rightarrow> unit
      async_task" where
  "pk_shell_channel_set_kill_pid_cb object result task =
     async_task_signal (task\<lparr>at_result := pk_connection_channel_set_kill_pid_finish object result\<rparr>)"

definition pk_shell_channel_set_kill_pid :: shell_command where
  "pk_shell_channel_set_kill_pid e argv =
     (if length argv \<noteq> 2 then bad_args else
       parsing_int (argv ! 0) (\<lambda>channel.
       parsing_boolean e (argv ! 1) (\<lambda>kill_pid.
       asking e (pk_connection_channel_set_kill_pid_async (se_conn e) channel kill_pid)
         (pk_shell_channel_set_kill_pid_cb (se_conn e))
         (\<lambda>_. show_nothing))))"

definition pk_shell_channel_set_pid_cb ::
  "connection_class option \<Rightarrow> pending_call \<Rightarrow> unit async_task \<Rightarrow> unit
      async_task" where
  "pk_shell_channel_set_pid_cb object result task =
     async_task_signal (task\<lparr>at_result := pk_connection_channel_set_pid_finish object result\<rparr>)"

definition pk_shell_channel_set_pid :: shell_command where
  "pk_shell_channel_set_pid e argv =
     (if length argv \<noteq> 2 then bad_args else
       parsing_int (argv ! 0) (\<lambda>channel.
       parsing_int (argv ! 1) (\<lambda>pid.
       asking e (pk_connection_channel_set_pid_async (se_conn e) channel pid)
         (pk_shell_channel_set_pid_cb (se_conn e))
         (\<lambda>_. show_nothing))))"

definition pk_shell_channel_set_target_cb ::
  "connection_class option \<Rightarrow> pending_call \<Rightarrow> unit async_task \<Rightarrow> unit
      async_task" where
  "pk_shell_channel_set_target_cb object result task =
     async_task_signal (task\<lparr>at_result := pk_connection_channel_set_target_finish object result\<rparr>)"

definition pk_shell_channel_set_target :: shell_command where
  "pk_shell_channel_set_target e argv =
     (if length argv \<noteq> 2 then bad_args else
       parsing_int (argv ! 0) (\<lambda>channel.
       (let target = Some (argv ! 1) in
       asking e (pk_connection_channel_set_target_async (se_conn e) channel target)
         (pk_shell_channel_set_target_cb (se_conn e))
         (\<lambda>_. show_nothing))))"

definition pk_shell_channel_set_working_dir_cb ::
  "connection_class option \<Rightarrow> pending_call \<Rightarrow> unit async_task \<Rightarrow> unit
      async_task" where
  "pk_shell_channel_set_working_dir_cb object result task =
     async_task_signal (task\<lparr>at_result := pk_connection_channel_set_working_dir_finish object
         result\<rparr>)"

definition pk_shell_channel_set_working_dir :: shell_command where
  "pk_shell_channel_set_working_dir e argv =
     (if length argv \<noteq> 2 then bad_args else
       parsing_int (argv ! 0) (\<lambda>channel.
       (let working_dir = Some (argv ! 1) in
       asking e (pk_connection_channel_set_working_dir_async (se_conn e) channel working_dir)
         (pk_shell_channel_set_working_dir_cb (se_conn e))
         (\<lambda>_. show_nothing))))"

definition pk_shell_channel_start_cb ::
  "connection_class option \<Rightarrow> pending_call \<Rightarrow> unit async_task \<Rightarrow> unit
      async_task" where
  "pk_shell_channel_start_cb object result task =
     async_task_signal (task\<lparr>at_result := pk_connection_channel_start_finish object result\<rparr>)"

definition pk_shell_channel_start :: shell_command where
  "pk_shell_channel_start e argv =
     (if length argv \<noteq> 1 then bad_args else
       parsing_int (argv ! 0) (\<lambda>channel.
       asking e (pk_connection_channel_start_async (se_conn e) channel)
         (pk_shell_channel_start_cb (se_conn e))
         (\<lambda>_. show_nothing)))"

definition pk_shell_channel_stop_cb ::
  "connection_class option \<Rightarrow> pending_call \<Rightarrow> unit async_task \<Rightarrow> unit
      async_task" where
  "pk_shell_channel_stop_cb object result task =
     async_task_signal (task\<lparr>at_result := pk_connection_channel_stop_finish object result\<rparr>)"

definition pk_shell_channel_stop :: shell_command where
  "pk_shell_channel_stop e argv =
     (if length argv \<noteq> 1 then bad_args else
       parsing_int (argv ! 0) (\<lambda>channel.
       asking e (pk_connection_channel_stop_async (se_conn e) channel)
         (pk_shell_channel_stop_cb (se_conn e))
         (\<lambda>_. show_nothing)))"

definition pk_shell_channel_unmute_cb ::
  "connection_class option \<Rightarrow> pending_call \<Rightarrow> unit async_task \<Rightarrow> unit
      async_task" where
  "pk_shell_channel_unmute_cb object result task =
     async_task_signal (task\<lparr>at_result := pk_connection_channel_unmute_finish object result\<rparr>)"

definition pk_shell_channel_unmute :: shell_command where
  "pk_shell_channel_unmute e argv =
     (if length argv \<noteq> 1 then bad_args else
       parsing_int (argv ! 0) (\<lambda>channel.
       asking e (pk_connection_channel_unmute_async (se_conn e) channel)
         (pk_shell_channel_unmute_cb (se_conn e))
         (\<lambda>_. show_nothing)))"

subsection \<open>Encoders\<close>

definition pk_shell_encoder_get_plugin_cb ::
  "connection_class option \<Rightarrow> pending_call \<Rightarrow> (cstring option) async_task \<Rightarrow>
      (cstring option) async_task" where
  "pk_shell_encoder_get_plugin_cb object result task =
     async_task_signal (task\<lparr>at_result := pk_connection_encoder_get_plugin_finish object result\<rparr>)"

definition pk_shell_encoder_get_plugin :: shell_command where
  "pk_shell_encoder_get_plugin e argv =
     (if length argv \<noteq> 1 then bad_args else
       parsing_int (argv ! 0) (\<lambda>encoder.
       asking e (pk_connection_encoder_get_plugin_async (se_conn e) encoder)
         (pk_shell_encoder_get_plugin_cb (se_conn e))
         (\<lambda>plugin. show_string ''plugin'' plugin)))"

subsection \<open>The manager\<close>

definition pk_shell_manager_add_channel_cb ::
  "connection_class option \<Rightarrow> pending_call \<Rightarrow> gint async_task \<Rightarrow> gint
      async_task" where
  "pk_shell_manager_add_channel_cb object result task =
     async_task_signal (task\<lparr>at_result := pk_connection_manager_add_channel_finish object result\<rparr>)"

definition pk_shell_manager_add_channel :: shell_command where
  "pk_shell_manager_add_channel e argv =
     (if length argv \<noteq> 0 then bad_args else
       asking e (pk_connection_manager_add_channel_async (se_conn e))
         (pk_shell_manager_add_channel_cb (se_conn e))
         (\<lambda>channel. show_int ''channel'' ''1'' channel))"

definition pk_shell_manager_add_source_cb ::
  "connection_class option \<Rightarrow> pending_call \<Rightarrow> gint async_task \<Rightarrow> gint
      async_task" where
  "pk_shell_manager_add_source_cb object result task =
     async_task_signal (task\<lparr>at_result := pk_connection_manager_add_source_finish object result\<rparr>)"

definition pk_shell_manager_add_source :: shell_command where
  "pk_shell_manager_add_source e argv =
     (if length argv \<noteq> 1 then bad_args else
       (let plugin = Some (argv ! 0) in
       asking e (pk_connection_manager_add_source_async (se_conn e) plugin)
         (pk_shell_manager_add_source_cb (se_conn e))
         (\<lambda>source. show_int ''source'' ''1'' source)))"

text \<open>A subscription that was made is given handlers at once; their own callback looks at nothing.\<close>

definition pk_shell_manager_add_subscription_cb ::
  "connection_class option \<Rightarrow> pending_call \<Rightarrow> gint async_task \<times> shell_client
      \<Rightarrow> gint async_task \<times> shell_client" where
  "pk_shell_manager_add_subscription_cb object result = (\<lambda>(task, client).
     let finished = pk_connection_manager_add_subscription_finish object result
     in (async_task_signal (task\<lparr>at_result := finished\<rparr>),
         case finished of
           Finish_True subscription \<Rightarrow>
             (case client of (id_seq, c) \<Rightarrow>
                snd (pk_connection_subscription_set_handlers_async object id_seq subscription c))
         | _ \<Rightarrow> client))"

definition pk_shell_manager_add_subscription :: shell_command where
  "pk_shell_manager_add_subscription e argv =
     (if length argv \<noteq> 2 then bad_args else
       parsing_int (argv ! 0) (\<lambda>buffer_size_int.
       parsing_int (argv ! 1) (\<lambda>timeout_int.
       asking_client e (pk_connection_manager_add_subscription_async (se_conn e) (se_order e) (scast
           buffer_size_int) (scast timeout_int))
         (pk_shell_manager_add_subscription_cb (se_conn e))
         (\<lambda>subscription. show_int ''subscription'' ''1'' subscription))))"

definition pk_shell_manager_get_channels_cb ::
  "connection_class option \<Rightarrow> pending_call \<Rightarrow> (gint list) async_task \<Rightarrow> (gint
      list) async_task" where
  "pk_shell_manager_get_channels_cb object result task =
     async_task_signal (task\<lparr>at_result := pk_connection_manager_get_channels_finish object result\<rparr>)"

definition pk_shell_manager_get_channels :: shell_command where
  "pk_shell_manager_get_channels e argv =
     (if length argv \<noteq> 0 then bad_args else
       asking e (pk_connection_manager_get_channels_async (se_conn e))
         (pk_shell_manager_get_channels_cb (se_conn e))
         (\<lambda>channels. show_ints ''channels'' ''channels_len'' channels))"

definition pk_shell_manager_get_hostname_cb ::
  "connection_class option \<Rightarrow> pending_call \<Rightarrow> cstring async_task \<Rightarrow> cstring
      async_task" where
  "pk_shell_manager_get_hostname_cb object result task =
     async_task_signal (task\<lparr>at_result := pk_connection_manager_get_hostname_finish object result\<rparr>)"

definition pk_shell_manager_get_hostname :: shell_command where
  "pk_shell_manager_get_hostname e argv =
     (if length argv \<noteq> 0 then bad_args else
       asking e (pk_connection_manager_get_hostname_async (se_conn e))
         (pk_shell_manager_get_hostname_cb (se_conn e))
         (\<lambda>hostname_arg. show_string ''hostname'' (Some hostname_arg)))"

definition pk_shell_manager_get_plugins_cb ::
  "connection_class option \<Rightarrow> pending_call \<Rightarrow> (cstring option list) async_task
      \<Rightarrow> (cstring option list) async_task" where
  "pk_shell_manager_get_plugins_cb object result task =
     async_task_signal (task\<lparr>at_result := pk_connection_manager_get_plugins_finish object result\<rparr>)"

definition pk_shell_manager_get_plugins :: shell_command where
  "pk_shell_manager_get_plugins e argv =
     (if length argv \<noteq> 0 then bad_args else
       asking e (pk_connection_manager_get_plugins_async (se_conn e))
         (pk_shell_manager_get_plugins_cb (se_conn e))
         (\<lambda>plugins. show_strings ''plugins'' (strv plugins)))"

definition pk_shell_manager_get_sources_cb ::
  "connection_class option \<Rightarrow> pending_call \<Rightarrow> (gint list) async_task \<Rightarrow> (gint
      list) async_task" where
  "pk_shell_manager_get_sources_cb object result task =
     async_task_signal (task\<lparr>at_result := pk_connection_manager_get_sources_finish object result\<rparr>)"

definition pk_shell_manager_get_sources :: shell_command where
  "pk_shell_manager_get_sources e argv =
     (if length argv \<noteq> 0 then bad_args else
       asking e (pk_connection_manager_get_sources_async (se_conn e))
         (pk_shell_manager_get_sources_cb (se_conn e))
         (\<lambda>sources. show_ints ''sources'' ''sources_len'' sources))"

definition pk_shell_manager_get_subscriptions_cb ::
  "connection_class option \<Rightarrow> pending_call \<Rightarrow> (gint list) async_task \<Rightarrow> (gint
      list) async_task" where
  "pk_shell_manager_get_subscriptions_cb object result task =
     async_task_signal (task\<lparr>at_result := pk_connection_manager_get_subscriptions_finish object
         result\<rparr>)"

definition pk_shell_manager_get_subscriptions :: shell_command where
  "pk_shell_manager_get_subscriptions e argv =
     (if length argv \<noteq> 0 then bad_args else
       asking e (pk_connection_manager_get_subscriptions_async (se_conn e))
         (pk_shell_manager_get_subscriptions_cb (se_conn e))
         (\<lambda>subscriptions. show_ints ''subscriptions'' ''subscriptions_len'' subscriptions))"

definition pk_shell_manager_get_version_cb ::
  "connection_class option \<Rightarrow> pending_call \<Rightarrow> cstring async_task \<Rightarrow> cstring
      async_task" where
  "pk_shell_manager_get_version_cb object result task =
     async_task_signal (task\<lparr>at_result := pk_connection_manager_get_version_finish object result\<rparr>)"

definition pk_shell_manager_get_version :: shell_command where
  "pk_shell_manager_get_version e argv =
     (if length argv \<noteq> 0 then bad_args else
       asking e (pk_connection_manager_get_version_async (se_conn e))
         (pk_shell_manager_get_version_cb (se_conn e))
         (\<lambda>version. show_string ''version'' (Some version)))"

definition pk_shell_manager_ping_cb ::
  "(cstring \<Rightarrow> g_time_val option) \<Rightarrow> connection_class option \<Rightarrow> pending_call
      \<Rightarrow> g_time_val async_task \<Rightarrow> g_time_val async_task" where
  "pk_shell_manager_ping_cb parse object result task =
     async_task_signal (task\<lparr>at_result := pk_connection_manager_ping_finish parse object result\<rparr>)"

definition pk_shell_manager_ping :: shell_command where
  "pk_shell_manager_ping e argv =
     (if length argv \<noteq> 0 then bad_args else
       asking e (pk_connection_manager_ping_async (se_conn e))
         (pk_shell_manager_ping_cb (lk_parse (se_link e)) (se_conn e))
         (\<lambda>tv. show_time e ''tv'' tv))"

definition pk_shell_manager_remove_channel_cb ::
  "connection_class option \<Rightarrow> pending_call \<Rightarrow> bool async_task \<Rightarrow> bool
      async_task" where
  "pk_shell_manager_remove_channel_cb object result task =
     async_task_signal (task\<lparr>at_result := pk_connection_manager_remove_channel_finish object
         result\<rparr>)"

definition pk_shell_manager_remove_channel :: shell_command where
  "pk_shell_manager_remove_channel e argv =
     (if length argv \<noteq> 1 then bad_args else
       parsing_int (argv ! 0) (\<lambda>channel.
       asking e (pk_connection_manager_remove_channel_async (se_conn e) channel)
         (pk_shell_manager_remove_channel_cb (se_conn e))
         (\<lambda>removed. show_boolean ''removed'' removed)))"

definition pk_shell_manager_remove_source_cb ::
  "connection_class option \<Rightarrow> pending_call \<Rightarrow> unit async_task \<Rightarrow> unit
      async_task" where
  "pk_shell_manager_remove_source_cb object result task =
     async_task_signal (task\<lparr>at_result := pk_connection_manager_remove_source_finish object
         result\<rparr>)"

definition pk_shell_manager_remove_source :: shell_command where
  "pk_shell_manager_remove_source e argv =
     (if length argv \<noteq> 1 then bad_args else
       parsing_int (argv ! 0) (\<lambda>source.
       asking e (pk_connection_manager_remove_source_async (se_conn e) source)
         (pk_shell_manager_remove_source_cb (se_conn e))
         (\<lambda>_. show_nothing)))"

definition pk_shell_manager_remove_subscription_cb ::
  "connection_class option \<Rightarrow> pending_call \<Rightarrow> bool async_task \<Rightarrow> bool
      async_task" where
  "pk_shell_manager_remove_subscription_cb object result task =
     async_task_signal (task\<lparr>at_result := pk_connection_manager_remove_subscription_finish object
         result\<rparr>)"

definition pk_shell_manager_remove_subscription :: shell_command where
  "pk_shell_manager_remove_subscription e argv =
     (if length argv \<noteq> 1 then bad_args else
       parsing_int (argv ! 0) (\<lambda>subscription.
       asking e (pk_connection_manager_remove_subscription_async (se_conn e) subscription)
         (pk_shell_manager_remove_subscription_cb (se_conn e))
         (\<lambda>removed. show_boolean ''removed'' removed)))"

subsection \<open>Plugins\<close>

definition pk_shell_plugin_get_copyright_cb ::
  "connection_class option \<Rightarrow> pending_call \<Rightarrow> cstring async_task \<Rightarrow> cstring
      async_task" where
  "pk_shell_plugin_get_copyright_cb object result task =
     async_task_signal (task\<lparr>at_result := pk_connection_plugin_get_copyright_finish object result\<rparr>)"

definition pk_shell_plugin_get_copyright :: shell_command where
  "pk_shell_plugin_get_copyright e argv =
     (if length argv \<noteq> 1 then bad_args else
       (let plugin = Some (argv ! 0) in
       asking e (pk_connection_plugin_get_copyright_async (se_conn e) plugin)
         (pk_shell_plugin_get_copyright_cb (se_conn e))
         (\<lambda>copyright. show_string ''copyright'' (Some copyright))))"

definition pk_shell_plugin_get_description_cb ::
  "connection_class option \<Rightarrow> pending_call \<Rightarrow> cstring async_task \<Rightarrow> cstring
      async_task" where
  "pk_shell_plugin_get_description_cb object result task =
     async_task_signal (task\<lparr>at_result := pk_connection_plugin_get_description_finish object
         result\<rparr>)"

definition pk_shell_plugin_get_description :: shell_command where
  "pk_shell_plugin_get_description e argv =
     (if length argv \<noteq> 1 then bad_args else
       (let plugin = Some (argv ! 0) in
       asking e (pk_connection_plugin_get_description_async (se_conn e) plugin)
         (pk_shell_plugin_get_description_cb (se_conn e))
         (\<lambda>description. show_string ''description'' (Some description))))"

definition pk_shell_plugin_get_name_cb ::
  "connection_class option \<Rightarrow> pending_call \<Rightarrow> cstring async_task \<Rightarrow> cstring
      async_task" where
  "pk_shell_plugin_get_name_cb object result task =
     async_task_signal (task\<lparr>at_result := pk_connection_plugin_get_name_finish object result\<rparr>)"

definition pk_shell_plugin_get_name :: shell_command where
  "pk_shell_plugin_get_name e argv =
     (if length argv \<noteq> 1 then bad_args else
       (let plugin = Some (argv ! 0) in
       asking e (pk_connection_plugin_get_name_async (se_conn e) plugin)
         (pk_shell_plugin_get_name_cb (se_conn e))
         (\<lambda>name_arg. show_string ''name'' (Some name_arg))))"

definition pk_shell_plugin_get_plugin_type_cb ::
  "connection_class option \<Rightarrow> pending_call \<Rightarrow> gint async_task \<Rightarrow> gint
      async_task" where
  "pk_shell_plugin_get_plugin_type_cb object result task =
     async_task_signal (task\<lparr>at_result := pk_connection_plugin_get_plugin_type_finish object
         result\<rparr>)"

definition pk_shell_plugin_get_plugin_type :: shell_command where
  "pk_shell_plugin_get_plugin_type e argv =
     (if length argv \<noteq> 1 then bad_args else
       (let plugin = Some (argv ! 0) in
       asking e (pk_connection_plugin_get_plugin_type_async (se_conn e) plugin)
         (pk_shell_plugin_get_plugin_type_cb (se_conn e))
         (\<lambda>type_arg. show_int ''type'' ''1'' type_arg)))"

definition pk_shell_plugin_get_version_cb ::
  "connection_class option \<Rightarrow> pending_call \<Rightarrow> cstring async_task \<Rightarrow> cstring
      async_task" where
  "pk_shell_plugin_get_version_cb object result task =
     async_task_signal (task\<lparr>at_result := pk_connection_plugin_get_version_finish object result\<rparr>)"

definition pk_shell_plugin_get_version :: shell_command where
  "pk_shell_plugin_get_version e argv =
     (if length argv \<noteq> 1 then bad_args else
       (let plugin = Some (argv ! 0) in
       asking e (pk_connection_plugin_get_version_async (se_conn e) plugin)
         (pk_shell_plugin_get_version_cb (se_conn e))
         (\<lambda>version. show_string ''version'' (Some version))))"

subsection \<open>Sources\<close>

definition pk_shell_source_get_plugin_cb ::
  "connection_class option \<Rightarrow> pending_call \<Rightarrow> (cstring option) async_task \<Rightarrow>
      (cstring option) async_task" where
  "pk_shell_source_get_plugin_cb object result task =
     async_task_signal (task\<lparr>at_result := pk_connection_source_get_plugin_finish object result\<rparr>)"

definition pk_shell_source_get_plugin :: shell_command where
  "pk_shell_source_get_plugin e argv =
     (if length argv \<noteq> 1 then bad_args else
       parsing_int (argv ! 0) (\<lambda>source.
       asking e (pk_connection_source_get_plugin_async (se_conn e) source)
         (pk_shell_source_get_plugin_cb (se_conn e))
         (\<lambda>plugin. show_string ''plugin'' plugin)))"

subsection \<open>Subscriptions\<close>

definition pk_shell_subscription_add_channel_cb ::
  "connection_class option \<Rightarrow> pending_call \<Rightarrow> unit async_task \<Rightarrow> unit
      async_task" where
  "pk_shell_subscription_add_channel_cb object result task =
     async_task_signal (task\<lparr>at_result := pk_connection_subscription_add_channel_finish object
         result\<rparr>)"

definition pk_shell_subscription_add_channel :: shell_command where
  "pk_shell_subscription_add_channel e argv =
     (if length argv \<noteq> 3 then bad_args else
       parsing_int (argv ! 0) (\<lambda>subscription.
       parsing_int (argv ! 1) (\<lambda>channel.
       parsing_boolean e (argv ! 2) (\<lambda>monitor.
       asking e (pk_connection_subscription_add_channel_async (se_conn e) subscription channel monitor)
         (pk_shell_subscription_add_channel_cb (se_conn e))
         (\<lambda>_. show_nothing)))))"

definition pk_shell_subscription_add_source_cb ::
  "connection_class option \<Rightarrow> pending_call \<Rightarrow> unit async_task \<Rightarrow> unit
      async_task" where
  "pk_shell_subscription_add_source_cb object result task =
     async_task_signal (task\<lparr>at_result := pk_connection_subscription_add_source_finish object
         result\<rparr>)"

definition pk_shell_subscription_add_source :: shell_command where
  "pk_shell_subscription_add_source e argv =
     (if length argv \<noteq> 2 then bad_args else
       parsing_int (argv ! 0) (\<lambda>subscription.
       parsing_int (argv ! 1) (\<lambda>source.
       asking e (pk_connection_subscription_add_source_async (se_conn e) subscription source)
         (pk_shell_subscription_add_source_cb (se_conn e))
         (\<lambda>_. show_nothing))))"

definition pk_shell_subscription_get_buffer_cb ::
  "connection_class option \<Rightarrow> pending_call \<Rightarrow> (gint \<times> gint) async_task \<Rightarrow>
      (gint \<times> gint) async_task" where
  "pk_shell_subscription_get_buffer_cb object result task =
     async_task_signal (task\<lparr>at_result := pk_connection_subscription_get_buffer_finish object
         result\<rparr>)"

definition pk_shell_subscription_get_buffer :: shell_command where
  "pk_shell_subscription_get_buffer e argv =
     (if length argv \<noteq> 1 then bad_args else
       parsing_int (argv ! 0) (\<lambda>subscription.
       asking e (pk_connection_subscription_get_buffer_async (se_conn e) subscription)
         (pk_shell_subscription_get_buffer_cb (se_conn e))
         (\<lambda>(timeout, size_arg) sh. show_int ''size'' ''2'' size_arg (show_int ''timeout'' ''1'' timeout
             sh))))"

definition pk_shell_subscription_get_created_at_cb ::
  "(cstring \<Rightarrow> g_time_val option) \<Rightarrow> connection_class option \<Rightarrow> pending_call
      \<Rightarrow> g_time_val async_task \<Rightarrow> g_time_val async_task" where
  "pk_shell_subscription_get_created_at_cb parse object result task =
     async_task_signal (task\<lparr>at_result := pk_connection_subscription_get_created_at_finish parse object
         result\<rparr>)"

definition pk_shell_subscription_get_created_at :: shell_command where
  "pk_shell_subscription_get_created_at e argv =
     (if length argv \<noteq> 1 then bad_args else
       parsing_int (argv ! 0) (\<lambda>subscription.
       asking e (pk_connection_subscription_get_created_at_async (se_conn e) subscription)
         (pk_shell_subscription_get_created_at_cb (lk_parse (se_link e)) (se_conn e))
         (\<lambda>tv. show_time e ''tv'' tv)))"

definition pk_shell_subscription_get_sources_cb ::
  "connection_class option \<Rightarrow> pending_call \<Rightarrow> (gint list) async_task \<Rightarrow> (gint
      list) async_task" where
  "pk_shell_subscription_get_sources_cb object result task =
     async_task_signal (task\<lparr>at_result := pk_connection_subscription_get_sources_finish object
         result\<rparr>)"

definition pk_shell_subscription_get_sources :: shell_command where
  "pk_shell_subscription_get_sources e argv =
     (if length argv \<noteq> 1 then bad_args else
       parsing_int (argv ! 0) (\<lambda>subscription.
       asking e (pk_connection_subscription_get_sources_async (se_conn e) subscription)
         (pk_shell_subscription_get_sources_cb (se_conn e))
         (\<lambda>sources. show_ints ''sources'' ''sources_len'' sources)))"

definition pk_shell_subscription_mute_cb ::
  "connection_class option \<Rightarrow> pending_call \<Rightarrow> unit async_task \<Rightarrow> unit
      async_task" where
  "pk_shell_subscription_mute_cb object result task =
     async_task_signal (task\<lparr>at_result := pk_connection_subscription_mute_finish object result\<rparr>)"

definition pk_shell_subscription_mute :: shell_command where
  "pk_shell_subscription_mute e argv =
     (if length argv \<noteq> 2 then bad_args else
       parsing_int (argv ! 0) (\<lambda>subscription.
       parsing_boolean e (argv ! 1) (\<lambda>drain.
       asking e (pk_connection_subscription_mute_async (se_conn e) subscription drain)
         (pk_shell_subscription_mute_cb (se_conn e))
         (\<lambda>_. show_nothing))))"

definition pk_shell_subscription_remove_channel_cb ::
  "connection_class option \<Rightarrow> pending_call \<Rightarrow> unit async_task \<Rightarrow> unit
      async_task" where
  "pk_shell_subscription_remove_channel_cb object result task =
     async_task_signal (task\<lparr>at_result := pk_connection_subscription_remove_channel_finish object
         result\<rparr>)"

definition pk_shell_subscription_remove_channel :: shell_command where
  "pk_shell_subscription_remove_channel e argv =
     (if length argv \<noteq> 2 then bad_args else
       parsing_int (argv ! 0) (\<lambda>subscription.
       parsing_int (argv ! 1) (\<lambda>channel.
       asking e (pk_connection_subscription_remove_channel_async (se_conn e) subscription channel)
         (pk_shell_subscription_remove_channel_cb (se_conn e))
         (\<lambda>_. show_nothing))))"

definition pk_shell_subscription_remove_source_cb ::
  "connection_class option \<Rightarrow> pending_call \<Rightarrow> unit async_task \<Rightarrow> unit
      async_task" where
  "pk_shell_subscription_remove_source_cb object result task =
     async_task_signal (task\<lparr>at_result := pk_connection_subscription_remove_source_finish object
         result\<rparr>)"

definition pk_shell_subscription_remove_source :: shell_command where
  "pk_shell_subscription_remove_source e argv =
     (if length argv \<noteq> 2 then bad_args else
       parsing_int (argv ! 0) (\<lambda>subscription.
       parsing_int (argv ! 1) (\<lambda>source.
       asking e (pk_connection_subscription_remove_source_async (se_conn e) subscription source)
         (pk_shell_subscription_remove_source_cb (se_conn e))
         (\<lambda>_. show_nothing))))"

definition pk_shell_subscription_set_buffer_cb ::
  "connection_class option \<Rightarrow> pending_call \<Rightarrow> unit async_task \<Rightarrow> unit
      async_task" where
  "pk_shell_subscription_set_buffer_cb object result task =
     async_task_signal (task\<lparr>at_result := pk_connection_subscription_set_buffer_finish object
         result\<rparr>)"

definition pk_shell_subscription_set_buffer :: shell_command where
  "pk_shell_subscription_set_buffer e argv =
     (if length argv \<noteq> 3 then bad_args else
       parsing_int (argv ! 0) (\<lambda>subscription.
       parsing_int (argv ! 1) (\<lambda>timeout.
       parsing_int (argv ! 2) (\<lambda>size_arg.
       asking e (pk_connection_subscription_set_buffer_async (se_conn e) subscription timeout size_arg)
         (pk_shell_subscription_set_buffer_cb (se_conn e))
         (\<lambda>_. show_nothing)))))"

definition pk_shell_subscription_set_encoder_cb ::
  "connection_class option \<Rightarrow> pending_call \<Rightarrow> unit async_task \<Rightarrow> unit
      async_task" where
  "pk_shell_subscription_set_encoder_cb object result task =
     async_task_signal (task\<lparr>at_result := pk_connection_subscription_set_encoder_finish object
         result\<rparr>)"

definition pk_shell_subscription_set_encoder :: shell_command where
  "pk_shell_subscription_set_encoder e argv =
     (if length argv \<noteq> 2 then bad_args else
       parsing_int (argv ! 0) (\<lambda>subscription.
       parsing_int (argv ! 1) (\<lambda>encoder.
       asking e (pk_connection_subscription_set_encoder_async (se_conn e) subscription encoder)
         (pk_shell_subscription_set_encoder_cb (se_conn e))
         (\<lambda>_. show_nothing))))"

definition pk_shell_subscription_unmute_cb ::
  "connection_class option \<Rightarrow> pending_call \<Rightarrow> unit async_task \<Rightarrow> unit
      async_task" where
  "pk_shell_subscription_unmute_cb object result task =
     async_task_signal (task\<lparr>at_result := pk_connection_subscription_unmute_finish object result\<rparr>)"

definition pk_shell_subscription_unmute :: shell_command where
  "pk_shell_subscription_unmute e argv =
     (if length argv \<noteq> 1 then bad_args else
       parsing_int (argv ! 0) (\<lambda>subscription.
       asking e (pk_connection_subscription_unmute_async (se_conn e) subscription)
         (pk_shell_subscription_unmute_cb (se_conn e))
         (\<lambda>_. show_nothing)))"

section \<open>Commands of the shell itself\<close>

definition pk_shell_shell_log :: shell_command where
  "pk_shell_shell_log e argv sh =
     (if argv = [] then bad_args sh
      else
        let level =
          (if argv ! 0 = ascii ''trace'' then Some LEVEL_TRACE
           else if argv ! 0 = ascii ''debug'' then Some LEVEL_DEBUG
           else if argv ! 0 = ascii ''error'' then Some LEVEL_ERROR
           else if argv ! 0 = ascii ''info'' then Some LEVEL_INFO
           else if argv ! 0 = ascii ''message'' then Some LEVEL_MESSAGE
           else if argv ! 0 = ascii ''warning'' then Some LEVEL_WARNING
           else if argv ! 0 = ascii ''critical'' then Some LEVEL_CRITICAL
           else None)
        in case level of
             None \<Rightarrow> bad_args sh
           | Some l \<Rightarrow> (Status EGG_LINE_STATUS_OK None, sh\<lparr>sh_log := l\<rparr>))"

definition acts :: "shell_act \<Rightarrow> shell \<Rightarrow> shell" where
  "acts a sh = sh\<lparr>sh_acts := sh_acts sh @ [a]\<rparr>"

definition pk_shell_cd :: shell_command where
  "pk_shell_cd e argv sh =
     (if argv = [] then
        (Status EGG_LINE_STATUS_OK None, if se_chdir e (se_home e) then acts (Chdir (se_home e)) sh else sh)
      else if length argv \<noteq> 1 then bad_args sh
      else if \<not> se_is_dir e (argv ! 0) then
        (Status EGG_LINE_STATUS_FAILURE (Some (Directory_Not_Found (argv ! 0))), sh)
      else if \<not> se_chdir e (argv ! 0) then
        (Status EGG_LINE_STATUS_FAILURE (Some Could_Not_Change_Directories), sh)
      else (Status EGG_LINE_STATUS_OK None, acts (Chdir (argv ! 0)) sh))"

definition pk_shell_ls :: shell_command where
  "pk_shell_ls e argv sh = (Status EGG_LINE_STATUS_OK None, acts (Ran (ascii ''ls'' # argv)) sh)"

fun load_files :: "(cstring \<Rightarrow> shell \<Rightarrow> line_end \<times> shell) \<Rightarrow> cstring list
    \<Rightarrow> shell \<Rightarrow> line_end \<times> shell" where
  "load_files execute_file [] sh = (Goes_On, sh)"
| "load_files execute_file (f # fs) sh =
     (case execute_file f sh of
        (Goes_On, sh) \<Rightarrow> load_files execute_file fs sh
      | stop \<Rightarrow> stop)"

definition pk_shell_load :: "(shell_error, shell) egg_line_callback" where
  "pk_shell_load line argv sh =
     (if argv = [] then bad_args sh
      else
        (case load_files (lo_execute_file line) argv sh of
           (Goes_On, sh) \<Rightarrow> (Status EGG_LINE_STATUS_OK None, sh)
         | (Hangs, sh) \<Rightarrow> (Callback_Hangs, sh)
         | (Dies, sh) \<Rightarrow> (Callback_Dies, sh)
         | (Too_Deep, sh) \<Rightarrow> (Callback_Too_Deep, sh)))"

definition pk_shell_echo :: shell_command where
  "pk_shell_echo e argv sh = (Status EGG_LINE_STATUS_OK None, g_print (g_strjoinv [32] argv @ [10]) sh)"

definition pk_shell_help :: "(shell_error, shell) egg_line_callback" where
  "pk_shell_help line argv sh =
     (case lo_resolve line (g_strjoinv [32] argv) sh of
        (None, sh) \<Rightarrow> (Status EGG_LINE_STATUS_OK None, sh)
      | (Some (usage, help), sh) \<Rightarrow>
          (Status EGG_LINE_STATUS_OK None, g_print (ascii ''usage: '' @ fmt_string usage @ [10, 10] @ help @
              [10]) sh))"

definition pk_shell_quit :: shell_command where
  "pk_shell_quit e argv sh = (Status EGG_LINE_STATUS_OK None, egg_line_quit (acts Main_Loop_Quit sh))"

section \<open>The tables of commands\<close>

text \<open>Lines of text, and the parts of each between tabs.\<close>

definition help_text :: "string list list \<Rightarrow> cstring" where
  "help_text ls = g_strjoinv [10] (map (\<lambda>l. g_strjoinv [9] (map ascii l)) ls)"

definition plugin_commands :: "shell_env \<Rightarrow> (shell_error, shell) egg_line_command list" where
  "plugin_commands e =
     [Command (ascii ''get-copyright'') None (Some (\<lambda>line. pk_shell_plugin_get_copyright e))
       (help_text
        [[''The plugin copyright.''], [''''], [''options:''], [''  PLUGIN:'', '''', ''A string.''], [''''],
         ['''']])
       (Some (ascii ''plugin get-copyright PLUGIN'')),
      Command (ascii ''get-description'') None (Some (\<lambda>line. pk_shell_plugin_get_description e))
       (help_text
        [[''The plugin description.''], [''''], [''options:''], [''  PLUGIN:'', '''', ''A string.''],
         [''''], ['''']])
       (Some (ascii ''plugin get-description PLUGIN'')),
      Command (ascii ''get-name'') None (Some (\<lambda>line. pk_shell_plugin_get_name e))
       (help_text
        [[''The plugin name.''], [''''], [''options:''], [''  PLUGIN:'', '''', ''A string.''], [''''],
         ['''']])
       (Some (ascii ''plugin get-name PLUGIN'')),
      Command (ascii ''get-plugin-type'') None (Some (\<lambda>line. pk_shell_plugin_get_plugin_type e))
       (help_text
        [[''The plugin type.''], [''''], [''options:''], [''  PLUGIN:'', '''', ''A string.''], [''''],
         ['''']])
       (Some (ascii ''plugin get-plugin-type PLUGIN'')),
      Command (ascii ''get-version'') None (Some (\<lambda>line. pk_shell_plugin_get_version e))
       (help_text
        [[''The plugin version.''], [''''], [''options:''], [''  PLUGIN:'', '''', ''A string.''], [''''],
         ['''']])
       (Some (ascii ''plugin get-version PLUGIN''))]"

definition encoder_commands :: "shell_env \<Rightarrow> (shell_error, shell) egg_line_command list" where
  "encoder_commands e =
     [Command (ascii ''get-plugin'') None (Some (\<lambda>line. pk_shell_encoder_get_plugin e))
       (help_text
        [[''Retrieves the plugin which created the encoder instance.''], [''''], [''options:''],
         [''  ENCODER:'', '''', ''An integer.''], [''''], ['''']])
       (Some (ascii ''encoder get-plugin ENCODER''))]"

definition source_commands :: "shell_env \<Rightarrow> (shell_error, shell) egg_line_command list" where
  "source_commands e =
     [Command (ascii ''get-plugin'') None (Some (\<lambda>line. pk_shell_source_get_plugin e))
       (help_text
        [[''Retrieves the plugin for which the source originates.''], [''''], [''options:''],
         [''  SOURCE:'', '''', ''An integer.''], [''''], ['''']])
       (Some (ascii ''source get-plugin SOURCE''))]"

definition manager_commands :: "shell_env \<Rightarrow> (shell_error, shell) egg_line_command list" where
  "manager_commands e =
     [Command (ascii ''add-channel'') None (Some (\<lambda>line. pk_shell_manager_add_channel e))
       (ascii ''Adds a channel to the agent.'')
       (Some (ascii ''manager add-channel '')),
      Command (ascii ''add-source'') None (Some (\<lambda>line. pk_shell_manager_add_source e))
       (ascii ''Create a new source from a plugin in the Agent.'')
       (Some (ascii ''manager add-source PLUGIN'')),
      Command (ascii ''add-subscription'') None (Some (\<lambda>line. pk_shell_manager_add_subscription e))
       (help_text
        [[''Adds a new subscription to the agent. @buffer_size is the size of the''],
         [''internal buffer in bytes to queue before flushing data to the subscriber.''],
         [''@timeout is the maximum number of milliseconds that should pass before''],
         [''flushing data to the subscriber.''], [''''],
         [''If @buffer_size and @timeout are 0, then no buffering will occur.''], [''''],
         [''@encoder is an optional encoder that can be used to encode the data''],
         [''into a particular format the subscriber is expecting.'']])
       (Some (ascii ''manager add-subscription BUFFER_SIZE TIMEOUT'')),
      Command (ascii ''get-channels'') None (Some (\<lambda>line. pk_shell_manager_get_channels e))
       (ascii ''Retrieves the list of channels located within the agent.'')
       (Some (ascii ''manager get-channels '')),
      Command (ascii ''get-hostname'') None (Some (\<lambda>line. pk_shell_manager_get_hostname e))
       (ascii ''Retrieves the hostname of the system on which perfkit runs.'')
       (Some (ascii ''manager get-hostname '')),
      Command (ascii ''get-plugins'') None (Some (\<lambda>line. pk_shell_manager_get_plugins e))
       (ascii ''Retrieves the list of available plugins within the agent.'')
       (Some (ascii ''manager get-plugins '')),
      Command (ascii ''get-sources'') None (Some (\<lambda>line. pk_shell_manager_get_sources e))
       (ascii ''Retrieves the list of sources located within the agent.'')
       (Some (ascii ''manager get-sources '')),
      Command (ascii ''get-subscriptions'') None (Some (\<lambda>line. pk_shell_manager_get_subscriptions e))
       (ascii ''Retrieve the list of subscriptions to the agent.'')
       (Some (ascii ''manager get-subscriptions '')),
      Command (ascii ''get-version'') None (Some (\<lambda>line. pk_shell_manager_get_version e))
       (ascii ''Retrieves the version of the agent.'')
       (Some (ascii ''manager get-version '')),
      Command (ascii ''ping'') None (Some (\<lambda>line. pk_shell_manager_ping e))
       (ascii ''Pings the agent over the RPC protocol to determine one-way latency.'')
       (Some (ascii ''manager ping '')),
      Command (ascii ''remove-channel'') None (Some (\<lambda>line. pk_shell_manager_remove_channel e))
       (ascii ''Removes a channel from the agent.'')
       (Some (ascii ''manager remove-channel CHANNEL'')),
      Command (ascii ''remove-source'') None (Some (\<lambda>line. pk_shell_manager_remove_source e))
       (ascii ''Remove a source from the Agent.'')
       (Some (ascii ''manager remove-source SOURCE'')),
      Command (ascii ''remove-subscription'') None (Some (\<lambda>line. pk_shell_manager_remove_subscription e))
       (ascii ''Removes a subscription from the agent.'')
       (Some (ascii ''manager remove-subscription SUBSCRIPTION''))]"

definition channel_commands :: "shell_env \<Rightarrow> (shell_error, shell) egg_line_command list" where
  "channel_commands e =
     [Command (ascii ''add-source'') None (Some (\<lambda>line. pk_shell_channel_add_source e))
       (help_text
        [[''Adds an existing source to the channel.  If the channel has already been''],
         [''started, the source will be started immediately.  The source must not have''],
         [''been previous added to another channel or this will fail.''], [''''], [''options:''],
         [''  CHANNEL:'', '''', ''An integer.''], [''  SOURCE:'', '''', ''An integer.''], [''''], ['''']])
       (Some (ascii ''channel add-source CHANNEL SOURCE'')),
      Command (ascii ''get-args'') None (Some (\<lambda>line. pk_shell_channel_get_args e))
       (help_text
        [[''Retrieves the arguments for target.''], [''''], [''options:''],
         [''  CHANNEL:'', '''', ''An integer.''], [''''], ['''']])
       (Some (ascii ''channel get-args CHANNEL'')),
      Command (ascii ''get-created-at'') None (Some (\<lambda>line. pk_shell_channel_get_created_at e))
       (help_text
        [[''Retrieves the time at which the channel was created.''], [''''], [''options:''],
         [''  CHANNEL:'', '''', ''An integer.''], [''''], ['''']])
       (Some (ascii ''channel get-created-at CHANNEL'')),
      Command (ascii ''get-env'') None (Some (\<lambda>line. pk_shell_channel_get_env e))
       (help_text
        [[''Retrieves the environment for spawning the target process.''], [''''], [''options:''],
         [''  CHANNEL:'', '''', ''An integer.''], [''''], ['''']])
       (Some (ascii ''channel get-env CHANNEL'')),
      Command (ascii ''get-exit-status'') None (Some (\<lambda>line. pk_shell_channel_get_exit_status e))
       (help_text
        [[''Retrieves the exit status of the process.  This is only set after the''],
         [''process has exited.''], [''''], [''options:''], [''  CHANNEL:'', '''', ''An integer.''], [''''],
         ['''']])
       (Some (ascii ''channel get-exit-status CHANNEL'')),
      Command (ascii ''get-kill-pid'') None (Some (\<lambda>line. pk_shell_channel_get_kill_pid e))
       (help_text
        [[''Retrieves if the process should be killed when the channel is stopped.''], [''''],
         [''options:''], [''  CHANNEL:'', '''', ''An integer.''], [''''], ['''']])
       (Some (ascii ''channel get-kill-pid CHANNEL'')),
      Command (ascii ''get-pid'') None (Some (\<lambda>line. pk_shell_channel_get_pid e))
       (help_text
        [[''Retrieves the process pid of the target process.''], [''''], [''options:''],
         [''  CHANNEL:'', '''', ''An integer.''], [''''], ['''']])
       (Some (ascii ''channel get-pid CHANNEL'')),
      Command (ascii ''get-pid-set'') None (Some (\<lambda>line. pk_shell_channel_get_pid_set e))
       (help_text
        [[''Retrieves if the \"pid\" property was set manually.''], [''''], [''options:''],
         [''  CHANNEL:'', '''', ''An integer.''], [''''], ['''']])
       (Some (ascii ''channel get-pid-set CHANNEL'')),
      Command (ascii ''get-sources'') None (Some (\<lambda>line. pk_shell_channel_get_sources e))
       (help_text
        [[''Retrieves the available sources.''], [''''], [''options:''],
         [''  CHANNEL:'', '''', ''An integer.''], [''''], ['''']])
       (Some (ascii ''channel get-sources CHANNEL'')),
      Command (ascii ''get-state'') None (Some (\<lambda>line. pk_shell_channel_get_state e))
       (help_text
        [[''Retrieves the current state of the channel.''], [''''], [''options:''],
         [''  CHANNEL:'', '''', ''An integer.''], [''''], ['''']])
       (Some (ascii ''channel get-state CHANNEL'')),
      Command (ascii ''get-target'') None (Some (\<lambda>line. pk_shell_channel_get_target e))
       (help_text
        [[''Retrieves the channels target.''], [''''], [''options:''],
         [''  CHANNEL:'', '''', ''An integer.''], [''''], ['''']])
       (Some (ascii ''channel get-target CHANNEL'')),
      Command (ascii ''get-working-dir'') None (Some (\<lambda>line. pk_shell_channel_get_working_dir e))
       (help_text
        [[''Retrieves the working directory of the target.''], [''''], [''options:''],
         [''  CHANNEL:'', '''', ''An integer.''], [''''], ['''']])
       (Some (ascii ''channel get-working-dir CHANNEL'')),
      Command (ascii ''mute'') None (Some (\<lambda>line. pk_shell_channel_mute e))
       (help_text
        [[''Notifies @channel to silently drop manifest and sample updates until''],
         [''unmute() is called.''], [''''], [''options:''], [''  CHANNEL:'', '''', ''An integer.''], [''''],
         ['''']])
       (Some (ascii ''channel mute CHANNEL'')),
      Command (ascii ''set-args'') None (Some (\<lambda>line. pk_shell_channel_set_args e))
       (help_text
        [[''Sets the targets arguments.  This may only be set before the channel''], [''has started.''],
         [''''], [''options:''], [''  CHANNEL:'', '''', ''An integer.''],
         [''  ARGS:'', '''', ''A string array.''], [''''], ['''']])
       (Some (ascii ''channel set-args CHANNEL ARGS'')),
      Command (ascii ''set-env'') None (Some (\<lambda>line. pk_shell_channel_set_env e))
       (help_text
        [[''Sets the environment of the target process.  This may only be set before''],
         [''the channel has started.''], [''''], [''options:''], [''  CHANNEL:'', '''', ''An integer.''],
         [''  ENV:'', '''', ''A string array.''], [''''], ['''']])
       (Some (ascii ''channel set-env CHANNEL ENV'')),
      Command (ascii ''set-kill-pid'') None (Some (\<lambda>line. pk_shell_channel_set_kill_pid e))
       (help_text
        [[''Sets if the process should be killed when the channel is stopped.''], [''''], [''options:''],
         [''  CHANNEL:'', '''', ''An integer.''],
         [''  KILL_PID:'', '''', ''A boolean [yes, no, true, false, 0, 1].''], [''''], ['''']])
       (Some (ascii ''channel set-kill-pid CHANNEL KILL_PID'')),
      Command (ascii ''set-pid'') None (Some (\<lambda>line. pk_shell_channel_set_pid e))
       (help_text
        [[''Sets the target pid to attach to rather than spawning a process.  This can''],
         [''only be set before the channel has started.''], [''''], [''options:''],
         [''  CHANNEL:'', '''', ''An integer.''], [''  PID:'', '''', ''An integer.''], [''''], ['''']])
       (Some (ascii ''channel set-pid CHANNEL PID'')),
      Command (ascii ''set-target'') None (Some (\<lambda>line. pk_shell_channel_set_target e))
       (help_text
        [[''Sets the channels target.  This may only be set before the channel has''], [''started.''],
         [''''], [''options:''], [''  CHANNEL:'', '''', ''An integer.''],
         [''  TARGET:'', '''', ''A string.''], [''''], ['''']])
       (Some (ascii ''channel set-target CHANNEL TARGET'')),
      Command (ascii ''set-working-dir'') None (Some (\<lambda>line. pk_shell_channel_set_working_dir e))
       (help_text
        [[''Sets the targets working directory.  This may only be set before the''],
         [''channel has started.''], [''''], [''options:''], [''  CHANNEL:'', '''', ''An integer.''],
         [''  WORKING_DIR:'', '''', ''A string.''], [''''], ['''']])
       (Some (ascii ''channel set-working-dir CHANNEL WORKING_DIR'')),
      Command (ascii ''start'') None (Some (\<lambda>line. pk_shell_channel_start e))
       (help_text
        [[''Start the channel. If required, the process will be spawned.''], [''''], [''options:''],
         [''  CHANNEL:'', '''', ''An integer.''], [''''], ['''']])
       (Some (ascii ''channel start CHANNEL'')),
      Command (ascii ''stop'') None (Some (\<lambda>line. pk_shell_channel_stop e))
       (help_text
        [[''Stop the channel. If @killpid, the inferior process is terminated.''], [''''], [''options:''],
         [''  CHANNEL:'', '''', ''An integer.''], [''''], ['''']])
       (Some (ascii ''channel stop CHANNEL'')),
      Command (ascii ''unmute'') None (Some (\<lambda>line. pk_shell_channel_unmute e))
       (help_text
        [[''Resumes delivery of manifest and samples for sources within the channel.''], [''''],
         [''options:''], [''  CHANNEL:'', '''', ''An integer.''], [''''], ['''']])
       (Some (ascii ''channel unmute CHANNEL''))]"

definition subscription_commands :: "shell_env \<Rightarrow> (shell_error, shell) egg_line_command list" where
  "subscription_commands e =
     [Command (ascii ''add-channel'') None (Some (\<lambda>line. pk_shell_subscription_add_channel e))
       (help_text
        [[''Adds all sources of @channel to the list of sources for which manifest''],
         [''and samples are delivered to the subscriber.''], [''''],
         [''If @monitor is TRUE, then sources added to @channel will automatically''],
         [''be added to the subscription.''], [''''], [''options:''],
         [''  SUBSCRIPTION:'', '''', ''An integer.''], [''  CHANNEL:'', '''', ''An integer.''],
         [''  MONITOR:'', '''', ''A boolean [yes, no, true, false, 0, 1].''], [''''], ['''']])
       (Some (ascii ''subscription add-channel SUBSCRIPTION CHANNEL MONITOR'')),
      Command (ascii ''add-source'') None (Some (\<lambda>line. pk_shell_subscription_add_source e))
       (help_text
        [[''Adds @source to the list of sources for which manifest and samples are''],
         [''delivered to the subscriber.''], [''''], [''options:''],
         [''  SUBSCRIPTION:'', '''', ''An integer.''], [''  SOURCE:'', '''', ''An integer.''], [''''],
         ['''']])
       (Some (ascii ''subscription add-source SUBSCRIPTION SOURCE'')),
      Command (ascii ''get-buffer'') None (Some (\<lambda>line. pk_shell_subscription_get_buffer e))
       (help_text
        [[''Retrieves the buffering timeout and maximum buffer size for the''],
         [''subscription.  If @timeout milliseconds pass or @size bytes are''],
         [''consumed buffering, the data will be delivered to the subscriber.''], [''''],
         [''If @timeout and @size are 0, then no buffering will occur.''], [''''], [''options:''],
         [''  SUBSCRIPTION:'', '''', ''An integer.''], [''''], ['''']])
       (Some (ascii ''subscription get-buffer SUBSCRIPTION'')),
      Command (ascii ''get-created-at'') None (Some (\<lambda>line. pk_shell_subscription_get_created_at e))
       (help_text
        [[''Retrieves the time at which the subscription was created.''], [''''], [''options:''],
         [''  SUBSCRIPTION:'', '''', ''An integer.''], [''''], ['''']])
       (Some (ascii ''subscription get-created-at SUBSCRIPTION'')),
      Command (ascii ''get-sources'') None (Some (\<lambda>line. pk_shell_subscription_get_sources e))
       (help_text
        [[''Retrieves the list of sources which are observed by the subscription.''], [''''],
         [''options:''], [''  SUBSCRIPTION:'', '''', ''An integer.''], [''''], ['''']])
       (Some (ascii ''subscription get-sources SUBSCRIPTION'')),
      Command (ascii ''mute'') None (Some (\<lambda>line. pk_shell_subscription_mute e))
       (help_text
        [[''Prevents the subscription from further manifest or sample delivery.  If''],
         [''@drain is set, the current buffer will be flushed.''], [''''], [''options:''],
         [''  SUBSCRIPTION:'', '''', ''An integer.''],
         [''  DRAIN:'', '''', ''A boolean [yes, no, true, false, 0, 1].''], [''''], ['''']])
       (Some (ascii ''subscription mute SUBSCRIPTION DRAIN'')),
      Command (ascii ''remove-channel'') None (Some (\<lambda>line. pk_shell_subscription_remove_channel e))
       (help_text
        [[''Removes @channel and all of its sources from the subscription.  This''],
         [''prevents further manifest and sample delivery to the subscriber.''], [''''], [''options:''],
         [''  SUBSCRIPTION:'', '''', ''An integer.''], [''  CHANNEL:'', '''', ''An integer.''], [''''],
         ['''']])
       (Some (ascii ''subscription remove-channel SUBSCRIPTION CHANNEL'')),
      Command (ascii ''remove-source'') None (Some (\<lambda>line. pk_shell_subscription_remove_source e))
       (help_text
        [[''Removes @source from the subscription.  This prevents further manifest''],
         [''and sample delivery to the subscriber.''], [''''], [''options:''],
         [''  SUBSCRIPTION:'', '''', ''An integer.''], [''  SOURCE:'', '''', ''An integer.''], [''''],
         ['''']])
       (Some (ascii ''subscription remove-source SUBSCRIPTION SOURCE'')),
      Command (ascii ''set-buffer'') None (Some (\<lambda>line. pk_shell_subscription_set_buffer e))
       (help_text
        [[''Sets the buffering timeout and maximum buffer size for the subscription.''],
         [''If @timeout milliseconds pass or @size bytes are consummed buffering,''],
         [''the data will be delivered to the subscriber.''], [''''],
         [''Set @timeout and @size to 0 to disable buffering.''], [''''], [''options:''],
         [''  SUBSCRIPTION:'', '''', ''An integer.''], [''  TIMEOUT:'', '''', ''An integer.''],
         [''  SIZE:'', '''', ''An integer.''], [''''], ['''']])
       (Some (ascii ''subscription set-buffer SUBSCRIPTION TIMEOUT SIZE'')),
      Command (ascii ''set-encoder'') None (Some (\<lambda>line. pk_shell_subscription_set_encoder e))
       (help_text
        [[''Sets the encoder to use on the output buffers.  Data will be encoded''],
         [''using this encoder before sending to the client.''], [''''], [''options:''],
         [''  SUBSCRIPTION:'', '''', ''An integer.''], [''  ENCODER:'', '''', ''An integer.''], [''''],
         ['''']])
       (Some (ascii ''subscription set-encoder SUBSCRIPTION ENCODER'')),
      Command (ascii ''unmute'') None (Some (\<lambda>line. pk_shell_subscription_unmute e))
       (help_text
        [[''Enables the subscription for manifest and sample delivery.''], [''''], [''options:''],
         [''  SUBSCRIPTION:'', '''', ''An integer.''], [''''], ['''']])
       (Some (ascii ''subscription unmute SUBSCRIPTION''))]"

definition shell_commands :: "shell_env \<Rightarrow> (shell_error, shell) egg_line_command list" where
  "shell_commands e =
     [Command (ascii ''log'') None (Some (\<lambda>line. pk_shell_shell_log e))
       (help_text
        [[''Set the shell's logging level.''], [''''], [''usage:''], [''  shell log [LEVEL]''], [''''],
         [''levels:''], [''  error    -- log error messages and higher''],
         [''  critical -- log critical messages and higher''],
         [''  warning  -- log warning messages and higher''],
         [''  message  -- log generic messages and higher''],
         [''  info     -- log informative messages and higher''],
         [''  debug    -- log debug messages and higher''],
         [''  trace    -- log function tracing and higher''], [''''], ['''']])
       (Some (ascii ''shell log [error | critical | warning | message | info | debug | trace]''))]"

definition pk_shell_plugin_generator :: "shell_env \<Rightarrow> (shell_error, shell) egg_line_command list" where
  "pk_shell_plugin_generator e = plugin_commands e"

definition pk_shell_encoder_generator :: "shell_env \<Rightarrow> (shell_error, shell) egg_line_command list"
    where
  "pk_shell_encoder_generator e = encoder_commands e"

definition pk_shell_source_generator :: "shell_env \<Rightarrow> (shell_error, shell) egg_line_command list" where
  "pk_shell_source_generator e = source_commands e"

definition pk_shell_manager_generator :: "shell_env \<Rightarrow> (shell_error, shell) egg_line_command list"
    where
  "pk_shell_manager_generator e = manager_commands e"

definition pk_shell_channel_generator :: "shell_env \<Rightarrow> (shell_error, shell) egg_line_command list"
    where
  "pk_shell_channel_generator e = channel_commands e"

definition pk_shell_subscription_generator :: "shell_env \<Rightarrow> (shell_error, shell) egg_line_command
    list" where
  "pk_shell_subscription_generator e = subscription_commands e"

definition pk_shell_shell_generator :: "shell_env \<Rightarrow> (shell_error, shell) egg_line_command list" where
  "pk_shell_shell_generator e = shell_commands e"

definition root_commands :: "shell_env \<Rightarrow> (shell_error, shell) egg_line_command list" where
  "root_commands e =
     [Command (ascii ''plugin'') (Some (pk_shell_plugin_generator e)) None
       (ascii ''Plugin commands.'')
       (Some (ascii ''plugin [get-copyright | get-description | get-name | get-plugin-type | get-version]'')),
      Command (ascii ''encoder'') (Some (pk_shell_encoder_generator e)) None
       (ascii ''Encoder commands.'')
       (Some (ascii ''encoder [get-plugin]'')),
      Command (ascii ''source'') (Some (pk_shell_source_generator e)) None
       (ascii ''Source commands.'')
       (Some (ascii ''source [get-plugin]'')),
      Command (ascii ''manager'') (Some (pk_shell_manager_generator e)) None
       (ascii ''Manager commands.'')
       (Some (ascii ''manager [add-channel | add-source | add-subscription | get-channels | get-hostname | get-plugins | get-sources | get-subscriptions | get-version | ping | remove-channel | remove-source | remove-subscription]'')),
      Command (ascii ''channel'') (Some (pk_shell_channel_generator e)) None
       (ascii ''Channel commands.'')
       (Some (ascii ''channel [add-source | get-args | get-created-at | get-env | get-exit-status | get-kill-pid | get-pid | get-pid-set | get-sources | get-state | get-target | get-working-dir | mute | set-args | set-env | set-kill-pid | set-pid | set-target | set-working-dir | start | stop | unmute]'')),
      Command (ascii ''subscription'') (Some (pk_shell_subscription_generator e)) None
       (ascii ''Subscription commands.'')
       (Some (ascii ''subscription [add-channel | add-source | get-buffer | get-created-at | get-sources | mute | remove-channel | remove-source | set-buffer | set-encoder | unmute]'')),
      Command (ascii ''shell'') (Some (pk_shell_shell_generator e)) None
       (ascii ''Manage the interactive shell.'')
       (Some (ascii ''shell [log]'')),
      Command (ascii ''cd'') None (Some (\<lambda>line. pk_shell_cd e))
       (ascii ''Change the working directory.'')
       (Some (ascii ''cd [DIRECTORY]'')),
      Command (ascii ''ls'') None (Some (\<lambda>line. pk_shell_ls e))
       (ascii ''List contents of the working directory.'')
       (Some (ascii ''ls [OPTIONS]'')),
      Command (ascii ''load'') None (Some pk_shell_load)
       (ascii ''Load an external script.'')
       (Some (ascii ''load [FILENAME]'')),
      Command (ascii ''echo'') None (Some (\<lambda>line. pk_shell_echo e))
       (ascii ''Echo text and variables to the console.'')
       (Some (ascii ''echo ...'')),
      Command (ascii ''help'') None (Some pk_shell_help)
       (ascii ''Show help usage for a command.'')
       (Some (ascii ''help [COMMAND..]'')),
      Command (ascii ''quit'') None (Some (\<lambda>line. pk_shell_quit e))
       (ascii ''Quit perfkit-shell'')
       (Some (ascii ''quit''))]"

section \<open>Samples\<close>

definition fmt_number :: "int \<Rightarrow> cstring" where
  "fmt_number x = (if x < 0 then 45 # digits (nat (- x)) else digits (nat x))"

definition value_text :: "shell_env \<Rightarrow> g_value \<Rightarrow> cstring" where
  "value_text e v =
     (case v of
        V_STRING s \<Rightarrow> s | V_INT64 x \<Rightarrow> fmt_number (sint x) | V_UINT64 x \<Rightarrow>
            fmt_number (uint x)
      | V_INT x \<Rightarrow> fmt_number (sint x) | V_UINT x \<Rightarrow> fmt_number (uint x)
      | V_FLOAT x \<Rightarrow> se_float e x | V_DOUBLE x \<Rightarrow> se_double e x)"

text \<open>What is printed for a row, if the sample has a value for it. None: the name is read outside the array
    of rows.\<close>

definition row_prints :: "shell_env \<Rightarrow> pk_manifest \<Rightarrow> pk_sample \<Rightarrow> gint
    \<Rightarrow> cstring list option" where
  "row_prints e manifest sample i =
     (case pk_sample_get_value sample (ucast i) of
        None \<Rightarrow> Some []
      | Some value \<Rightarrow>
          (case pk_manifest_get_row_name manifest i of
             None \<Rightarrow> None
           | Some name \<Rightarrow>
               Some [[32, 32] @ right_aligned 32 (fmt_string name) @ [32, 61, 32], value_text e value, [10]]))"

fun rows_print :: "shell_env \<Rightarrow> pk_manifest \<Rightarrow> pk_sample \<Rightarrow> gint list
    \<Rightarrow> cstring list option" where
  "rows_print e manifest sample [] = Some []"
| "rows_print e manifest sample (i # is) =
     (case row_prints e manifest sample i of
        None \<Rightarrow> None
      | Some ps \<Rightarrow> map_option (\<lambda>qs. ps @ qs) (rows_print e manifest sample is))"

text \<open>The closure for samples, which runs on the thread of the main loop.\<close>

definition sample_cb :: "shell_env \<Rightarrow> pk_manifest \<Rightarrow> pk_sample \<Rightarrow> shell
    \<Rightarrow> shell option" where
  "sample_cb e manifest sample sh =
     (let (sec, usec) = pk_sample_get_timeval sample;
          tv_str = se_iso8601 e \<lparr>tv_secs = sec, tv_usecs = usec\<rparr>;
          head = ascii ''  Source '' @ fmt_int (pk_sample_get_source_id sample) @ ascii '' @ '' @ tv_str @ [10];
          rows = map (\<lambda>i. word_of_nat (i + 1)) [0..<pk_manifest_get_n_rows manifest]
      in case rows_print e manifest sample rows of
           None \<Rightarrow> None
         | Some ps \<Rightarrow> Some (fold g_print ([head] @ ps @ [[10]]) sh))"

section \<open>Starting\<close>

definition pk_shell_missing_cb :: "cstring \<Rightarrow> shell \<Rightarrow> shell" where
  "pk_shell_missing_cb command sh = g_printerr (Err (ascii ''Command not found: '' @ command @ [10])) sh"

definition pk_shell_log_level_to_str :: "log_level \<Rightarrow> cstring" where
  "pk_shell_log_level_to_str level =
     (case level of
        LEVEL_ERROR \<Rightarrow> ascii ''ERROR'' | LEVEL_CRITICAL \<Rightarrow> ascii ''CRITICAL'' |
            LEVEL_WARNING \<Rightarrow> ascii ''WARNING''
      | LEVEL_MESSAGE \<Rightarrow> ascii ''MESSAGE'' | LEVEL_INFO \<Rightarrow> ascii ''INFO'' | LEVEL_DEBUG
          \<Rightarrow> ascii ''DEBUG''
      | LEVEL_TRACE \<Rightarrow> ascii ''TRACE'')"

text \<open>The line object and the state of the shell when its thread starts, connected to an agent.\<close>

definition shell_setup :: "shell_env \<Rightarrow> (shell_error, shell) line_setup" where
  "shell_setup e = \<lparr>ls_commands = root_commands e, ls_missing = pk_shell_missing_cb\<rparr>"

definition shell_new :: "shell_client \<Rightarrow> agent \<times> dbus_listener \<Rightarrow> shell" where
  "shell_new client st =
     egg_line_set_prompt (ascii ''perfkit> '')
       (egg_line.extend egg_line_init \<lparr>sh_agent = st, sh_client = client, sh_log = LEVEL_INFO, sh_acts =
           []\<rparr>)"

text \<open>The thread that reads the lines, at whose end the main loop is quit.\<close>

definition pk_shell_egg_line_thread ::
  "nat \<Rightarrow> shell_env \<Rightarrow> cstring list \<Rightarrow> shell \<Rightarrow> line_end \<times>
      shell" where
  "pk_shell_egg_line_thread depth e texts sh =
     (case egg_line_run depth (se_line e) (shell_setup e) texts sh of
        (Goes_On, sh) \<Rightarrow> (Goes_On, acts Main_Loop_Quit sh)
      | stop \<Rightarrow> stop)"

end
