(* ===== verification/Library_Calls.thy ===== *)
theory Library_Calls
  imports Pk_Connection
begin

text \<open>
  Blocking calls of the client library, over the bus, on the agent: what \<open>pk_connection_...\<close> returns, and what it does
  to the agent, is what the procedure of the agent does.
\<close>

section \<open>Blocking calls on a connection\<close>

lemma strings_requested:
  "pk_connection_dbus_channel_set_args_async channel (Some args)
     = Some (the (pk_connection_dbus_channel_set_args_async channel (Some args)))"
  "pk_connection_dbus_channel_set_env_async channel (Some env_vars)
     = Some (the (pk_connection_dbus_channel_set_env_async channel (Some env_vars)))"
  by (simp_all add: pk_connection_dbus_channel_set_args_async_def pk_connection_dbus_channel_set_env_async_def)

lemmas channel_fronts =
  pk_connection_channel_add_source_def pk_connection_channel_get_args_def
  pk_connection_channel_get_created_at_def pk_connection_channel_get_env_def
  pk_connection_channel_get_exit_status_def pk_connection_channel_get_kill_pid_def
  pk_connection_channel_get_pid_def pk_connection_channel_get_pid_set_def
  pk_connection_channel_get_sources_def pk_connection_channel_get_state_def
  pk_connection_channel_get_target_def pk_connection_channel_get_working_dir_def
  pk_connection_channel_mute_def pk_connection_channel_set_args_def pk_connection_channel_set_env_def
  pk_connection_channel_set_kill_pid_def pk_connection_channel_set_pid_def
  pk_connection_channel_set_target_def pk_connection_channel_set_working_dir_def
  pk_connection_channel_start_def pk_connection_channel_stop_def pk_connection_channel_unmute_def

lemmas channel_front_parts =
  pk_connection_channel_add_source_def pk_connection_channel_add_source_async_def
  pk_connection_channel_add_source_finish_def pk_connection_channel_add_source_cb_def
  pk_connection_channel_get_args_def pk_connection_channel_get_args_async_def
  pk_connection_channel_get_args_finish_def pk_connection_channel_get_args_cb_def
  pk_connection_channel_get_created_at_def pk_connection_channel_get_created_at_async_def
  pk_connection_channel_get_created_at_finish_def pk_connection_channel_get_created_at_cb_def
  pk_connection_channel_get_env_def pk_connection_channel_get_env_async_def
  pk_connection_channel_get_env_finish_def pk_connection_channel_get_env_cb_def
  pk_connection_channel_get_exit_status_def pk_connection_channel_get_exit_status_async_def
  pk_connection_channel_get_exit_status_finish_def pk_connection_channel_get_exit_status_cb_def
  pk_connection_channel_get_kill_pid_def pk_connection_channel_get_kill_pid_async_def
  pk_connection_channel_get_kill_pid_finish_def pk_connection_channel_get_kill_pid_cb_def
  pk_connection_channel_get_pid_def pk_connection_channel_get_pid_async_def
  pk_connection_channel_get_pid_finish_def pk_connection_channel_get_pid_cb_def
  pk_connection_channel_get_pid_set_def pk_connection_channel_get_pid_set_async_def
  pk_connection_channel_get_pid_set_finish_def pk_connection_channel_get_pid_set_cb_def
  pk_connection_channel_get_sources_def pk_connection_channel_get_sources_async_def
  pk_connection_channel_get_sources_finish_def pk_connection_channel_get_sources_cb_def
  pk_connection_channel_get_state_def pk_connection_channel_get_state_async_def
  pk_connection_channel_get_state_finish_def pk_connection_channel_get_state_cb_def
  pk_connection_channel_get_target_def pk_connection_channel_get_target_async_def
  pk_connection_channel_get_target_finish_def pk_connection_channel_get_target_cb_def
  pk_connection_channel_get_working_dir_def pk_connection_channel_get_working_dir_async_def
  pk_connection_channel_get_working_dir_finish_def pk_connection_channel_get_working_dir_cb_def
  pk_connection_channel_mute_def pk_connection_channel_mute_async_def pk_connection_channel_mute_finish_def
  pk_connection_channel_mute_cb_def pk_connection_channel_set_args_def
  pk_connection_channel_set_args_async_def pk_connection_channel_set_args_finish_def
  pk_connection_channel_set_args_cb_def pk_connection_channel_set_env_def
  pk_connection_channel_set_env_async_def pk_connection_channel_set_env_finish_def
  pk_connection_channel_set_env_cb_def pk_connection_channel_set_kill_pid_def
  pk_connection_channel_set_kill_pid_async_def pk_connection_channel_set_kill_pid_finish_def
  pk_connection_channel_set_kill_pid_cb_def pk_connection_channel_set_pid_def
  pk_connection_channel_set_pid_async_def pk_connection_channel_set_pid_finish_def
  pk_connection_channel_set_pid_cb_def pk_connection_channel_set_target_def
  pk_connection_channel_set_target_async_def pk_connection_channel_set_target_finish_def
  pk_connection_channel_set_target_cb_def pk_connection_channel_set_working_dir_def
  pk_connection_channel_set_working_dir_async_def pk_connection_channel_set_working_dir_finish_def
  pk_connection_channel_set_working_dir_cb_def pk_connection_channel_start_def
  pk_connection_channel_start_async_def pk_connection_channel_start_finish_def
  pk_connection_channel_start_cb_def pk_connection_channel_stop_def pk_connection_channel_stop_async_def
  pk_connection_channel_stop_finish_def pk_connection_channel_stop_cb_def pk_connection_channel_unmute_def
  pk_connection_channel_unmute_async_def pk_connection_channel_unmute_finish_def
  pk_connection_channel_unmute_cb_def

text \<open>
  C18: every channel procedure that a program calls through the client library, on a channel whose object path is
  registered, returns what the procedure of the agent returns: the same value (a NULL string as the empty string, a
  NULL vector as an empty one), or the same error. It leaves the same state of the agent, and the bus is told of the
  same announcements.
\<close>

theorem channel_library_calls:
  assumes "ld_paths ld (channel_prefix @ fmt_int channel) = Some Channel_VTable" "lk_sends l"
  shows
    "pk_connection_channel_add_source (Some dbus_class) l channel source (ag, ld)
      = answered (direct l id
          (pka_listener_channel_add_source_finish (env_gtypes (lk_env l)) (pka_listener_channel_add_source_async channel source))
          (ag, ld)) \<and>
    pk_connection_channel_get_args (Some dbus_class) l channel (ag, ld)
      = answered (direct l (\<lambda>a. case a of None \<Rightarrow> [] | Some a \<Rightarrow> a)
          (pka_listener_channel_get_args_finish (pka_listener_channel_get_args_async channel)) (ag, ld)) \<and>
    pk_connection_channel_get_created_at (Some dbus_class) l channel (ag, ld)
      = answered (direct l (reprint l)
          (pka_listener_channel_get_created_at_finish (pka_listener_channel_get_created_at_async channel))
          (ag, ld)) \<and>
    pk_connection_channel_get_env (Some dbus_class) l channel (ag, ld)
      = answered (direct l (\<lambda>a. case a of None \<Rightarrow> [] | Some a \<Rightarrow> a)
          (pka_listener_channel_get_env_finish (pka_listener_channel_get_env_async channel)) (ag, ld)) \<and>
    pk_connection_channel_get_exit_status (Some dbus_class) l channel (ag, ld)
      = answered (direct l id
          (pka_listener_channel_get_exit_status_finish (pka_listener_channel_get_exit_status_async channel))
          (ag, ld)) \<and>
    pk_connection_channel_get_kill_pid (Some dbus_class) l channel (ag, ld)
      = answered (direct l id
          (pka_listener_channel_get_kill_pid_finish (pka_listener_channel_get_kill_pid_async channel))
          (ag, ld)) \<and>
    pk_connection_channel_get_pid (Some dbus_class) l channel (ag, ld)
      = answered (direct l word_of_int
          (pka_listener_channel_get_pid_finish (pka_listener_channel_get_pid_async channel)) (ag, ld)) \<and>
    pk_connection_channel_get_pid_set (Some dbus_class) l channel (ag, ld)
      = answered (direct l id
          (pka_listener_channel_get_pid_set_finish (pka_listener_channel_get_pid_set_async channel))
          (ag, ld)) \<and>
    pk_connection_channel_get_sources (Some dbus_class) l channel (ag, ld)
      = answered (direct l id
          (pka_listener_channel_get_sources_finish (pka_listener_channel_get_sources_async channel))
          (ag, ld)) \<and>
    pk_connection_channel_get_state (Some dbus_class) l channel (ag, ld)
      = answered (direct l channel_state_code
          (pka_listener_channel_get_state_finish (pka_listener_channel_get_state_async channel))
          (ag, ld)) \<and>
    pk_connection_channel_get_target (Some dbus_class) l channel (ag, ld)
      = answered (direct l string_or_empty
          (pka_listener_channel_get_target_finish (pka_listener_channel_get_target_async channel))
          (ag, ld)) \<and>
    pk_connection_channel_get_working_dir (Some dbus_class) l channel (ag, ld)
      = answered (direct l string_or_empty
          (pka_listener_channel_get_working_dir_finish (pka_listener_channel_get_working_dir_async channel))
          (ag, ld)) \<and>
    pk_connection_channel_mute (Some dbus_class) l channel (ag, ld)
      = answered (direct l id (pka_listener_channel_mute_finish (pka_listener_channel_mute_async channel))
          (ag, ld)) \<and>
    pk_connection_channel_set_args (Some dbus_class) l channel (Some args) (ag, ld)
      = answered (direct l id
          (pka_listener_channel_set_args_finish (pka_listener_channel_set_args_async channel (Some args)))
          (ag, ld)) \<and>
    pk_connection_channel_set_env (Some dbus_class) l channel (Some env_vars) (ag, ld)
      = answered (direct l id
          (pka_listener_channel_set_env_finish (pka_listener_channel_set_env_async channel (Some env_vars)))
          (ag, ld)) \<and>
    pk_connection_channel_set_kill_pid (Some dbus_class) l channel kill_pid (ag, ld)
      = answered (direct l id
          (pka_listener_channel_set_kill_pid_finish (pka_listener_channel_set_kill_pid_async channel kill_pid))
          (ag, ld)) \<and>
    pk_connection_channel_set_pid (Some dbus_class) l channel pid (ag, ld)
      = answered (direct l id
          (pka_listener_channel_set_pid_finish (pka_listener_channel_set_pid_async channel pid))
          (ag, ld)) \<and>
    pk_connection_channel_set_target (Some dbus_class) l channel target (ag, ld)
      = answered (direct l id
          (pka_listener_channel_set_target_finish (pka_listener_channel_set_target_async channel (Some (string_or_empty target))))
          (ag, ld)) \<and>
    pk_connection_channel_set_working_dir (Some dbus_class) l channel working_dir (ag, ld)
      = answered (direct l id
          (pka_listener_channel_set_working_dir_finish (pka_listener_channel_set_working_dir_async channel (Some (string_or_empty working_dir))))
          (ag, ld)) \<and>
    pk_connection_channel_start (Some dbus_class) l channel (ag, ld)
      = answered (direct l id
          (pka_listener_channel_start_finish (env_spawn (lk_env l)) (env_tmp (lk_env l)) (pka_listener_channel_start_async channel))
          (ag, ld)) \<and>
    pk_connection_channel_stop (Some dbus_class) l channel (ag, ld)
      = answered (direct l id (pka_listener_channel_stop_finish (pka_listener_channel_stop_async channel))
          (ag, ld)) \<and>
    pk_connection_channel_unmute (Some dbus_class) l channel (ag, ld)
      = answered (direct l id (pka_listener_channel_unmute_finish (pka_listener_channel_unmute_async channel))
          (ag, ld))"
  using channel_calls_over_bus [OF assms(1), where l = l and ag = ag and source = source and args = args and
    env_vars = env_vars and kill_pid = kill_pid and pid = pid and target = target and working_dir = working_dir] assms(2)
  by - (elim conjE, intro conjI; unfold channel_front_parts; (subst strings_requested)?;
    rule blocking_is_call [rotated 3], assumption, simp_all)

theorem channel_library_calls_witness:
  "\<forall>l. pk_connection_channel_stop (Some dbus_class) (l\<lparr>lk_sends := True\<rparr>) 0 (demo_tied, demo_objects)
     = answered (direct (l\<lparr>lk_sends := True\<rparr>) id
         (pka_listener_channel_stop_finish (pka_listener_channel_stop_async 0)) (demo_tied, demo_objects))"
proof
  fix l :: dbus_link
  have "lk_sends (l\<lparr>lk_sends := True\<rparr>)" by simp
  from channel_library_calls [OF demo_objects_paths(1) this]
  show "pk_connection_channel_stop (Some dbus_class) (l\<lparr>lk_sends := True\<rparr>) 0 (demo_tied, demo_objects)
     = answered (direct (l\<lparr>lk_sends := True\<rparr>) id
         (pka_listener_channel_stop_finish (pka_listener_channel_stop_async 0)) (demo_tied, demo_objects))"
    by blast
qed

lemmas subscription_front_parts =
  pk_connection_subscription_add_channel_def pk_connection_subscription_add_channel_async_def
  pk_connection_subscription_add_channel_finish_def pk_connection_subscription_add_channel_cb_def
  pk_connection_subscription_add_source_def pk_connection_subscription_add_source_async_def
  pk_connection_subscription_add_source_finish_def pk_connection_subscription_add_source_cb_def
  pk_connection_subscription_get_buffer_def pk_connection_subscription_get_buffer_async_def
  pk_connection_subscription_get_buffer_finish_def pk_connection_subscription_get_buffer_cb_def
  pk_connection_subscription_get_created_at_def pk_connection_subscription_get_created_at_async_def
  pk_connection_subscription_get_created_at_finish_def pk_connection_subscription_get_created_at_cb_def
  pk_connection_subscription_get_sources_def pk_connection_subscription_get_sources_async_def
  pk_connection_subscription_get_sources_finish_def pk_connection_subscription_get_sources_cb_def
  pk_connection_subscription_mute_def pk_connection_subscription_mute_async_def
  pk_connection_subscription_mute_finish_def pk_connection_subscription_mute_cb_def
  pk_connection_subscription_remove_channel_def pk_connection_subscription_remove_channel_async_def
  pk_connection_subscription_remove_channel_finish_def pk_connection_subscription_remove_channel_cb_def
  pk_connection_subscription_remove_source_def pk_connection_subscription_remove_source_async_def
  pk_connection_subscription_remove_source_finish_def pk_connection_subscription_remove_source_cb_def
  pk_connection_subscription_set_buffer_def pk_connection_subscription_set_buffer_async_def
  pk_connection_subscription_set_buffer_finish_def pk_connection_subscription_set_buffer_cb_def
  pk_connection_subscription_unmute_def pk_connection_subscription_unmute_async_def
  pk_connection_subscription_unmute_finish_def pk_connection_subscription_unmute_cb_def
  pk_connection_subscription_set_encoder_def pk_connection_subscription_set_encoder_async_def
  pk_connection_subscription_set_encoder_finish_def pk_connection_subscription_set_encoder_cb_def

lemmas manager_front_parts =
  pk_connection_manager_add_channel_def pk_connection_manager_add_channel_async_def
  pk_connection_manager_add_channel_finish_def pk_connection_manager_add_channel_cb_def
  pk_connection_manager_add_source_def pk_connection_manager_add_source_async_def
  pk_connection_manager_add_source_finish_def pk_connection_manager_add_source_cb_def
  pk_connection_manager_add_subscription_def pk_connection_manager_add_subscription_async_def
  pk_connection_manager_add_subscription_finish_def pk_connection_manager_add_subscription_cb_def
  pk_connection_manager_get_channels_def pk_connection_manager_get_channels_async_def
  pk_connection_manager_get_channels_finish_def pk_connection_manager_get_channels_cb_def
  pk_connection_manager_get_hostname_def pk_connection_manager_get_hostname_async_def
  pk_connection_manager_get_hostname_finish_def pk_connection_manager_get_hostname_cb_def
  pk_connection_manager_get_plugins_def pk_connection_manager_get_plugins_async_def
  pk_connection_manager_get_plugins_finish_def pk_connection_manager_get_plugins_cb_def
  pk_connection_manager_get_sources_def pk_connection_manager_get_sources_async_def
  pk_connection_manager_get_sources_finish_def pk_connection_manager_get_sources_cb_def
  pk_connection_manager_get_subscriptions_def pk_connection_manager_get_subscriptions_async_def
  pk_connection_manager_get_subscriptions_finish_def pk_connection_manager_get_subscriptions_cb_def
  pk_connection_manager_get_version_def pk_connection_manager_get_version_async_def
  pk_connection_manager_get_version_finish_def pk_connection_manager_get_version_cb_def
  pk_connection_manager_ping_def pk_connection_manager_ping_async_def pk_connection_manager_ping_finish_def
  pk_connection_manager_ping_cb_def pk_connection_manager_remove_channel_def
  pk_connection_manager_remove_channel_async_def pk_connection_manager_remove_channel_finish_def
  pk_connection_manager_remove_channel_cb_def pk_connection_manager_remove_source_def
  pk_connection_manager_remove_source_async_def pk_connection_manager_remove_source_finish_def
  pk_connection_manager_remove_source_cb_def pk_connection_manager_remove_subscription_def
  pk_connection_manager_remove_subscription_async_def pk_connection_manager_remove_subscription_finish_def
  pk_connection_manager_remove_subscription_cb_def

lemmas object_front_parts =
  pk_connection_plugin_get_copyright_def pk_connection_plugin_get_copyright_async_def
  pk_connection_plugin_get_copyright_finish_def pk_connection_plugin_get_copyright_cb_def
  pk_connection_plugin_get_description_def pk_connection_plugin_get_description_async_def
  pk_connection_plugin_get_description_finish_def pk_connection_plugin_get_description_cb_def
  pk_connection_plugin_get_name_def pk_connection_plugin_get_name_async_def
  pk_connection_plugin_get_name_finish_def pk_connection_plugin_get_name_cb_def
  pk_connection_plugin_get_plugin_type_def pk_connection_plugin_get_plugin_type_async_def
  pk_connection_plugin_get_plugin_type_finish_def pk_connection_plugin_get_plugin_type_cb_def
  pk_connection_plugin_get_version_def pk_connection_plugin_get_version_async_def
  pk_connection_plugin_get_version_finish_def pk_connection_plugin_get_version_cb_def
  pk_connection_source_get_plugin_def pk_connection_source_get_plugin_async_def
  pk_connection_source_get_plugin_finish_def pk_connection_source_get_plugin_cb_def
  pk_connection_encoder_get_plugin_def pk_connection_encoder_get_plugin_async_def
  pk_connection_encoder_get_plugin_finish_def pk_connection_encoder_get_plugin_cb_def

lemma fst_answered: "fst r = Inl e \<Longrightarrow> fst (answered r) = Returned (Finish_Error (Rpc e))"
  by (cases r) (simp add: answered_def)

lemma set_encoder_library_call:
  assumes "ld_paths ld (subscription_prefix @ fmt_int subscription) = Some Subscription_VTable" "lk_sends l"
  shows "fst (pk_connection_subscription_set_encoder (Some dbus_class) l subscription encoder (ag, ld))
    = Returned (Finish_Error (Rpc (Rpc_Error No_Reply)))"
proof -
  have "pk_connection_subscription_set_encoder (Some dbus_class) l subscription encoder (ag, ld)
    = answered (call l (pk_connection_dbus_subscription_set_encoder_async subscription encoder)
        pk_connection_dbus_subscription_set_encoder_finish (ag, ld))"
    unfolding subscription_front_parts by (rule blocking_is_call [OF _ _ _ refl]) (simp_all add: assms(2))
  then show ?thesis
    using subscription_calls_over_bus [OF assms(1), where l = l and ag = ag and encoder = encoder]
    by (simp add: fst_answered)
qed

text \<open>
  The same for the procedures of a subscription, of which \<open>SetEncoder\<close> ends in the error of a call without an
  answer.
\<close>

theorem subscription_library_calls:
  assumes "ld_paths ld (subscription_prefix @ fmt_int subscription) = Some Subscription_VTable" "lk_sends l"
  shows
    "pk_connection_subscription_add_channel (Some dbus_class) l subscription channel monitor (ag, ld)
      = answered (direct l id
          (pka_listener_subscription_add_channel_finish (env_gtypes (lk_env l)) (pka_listener_subscription_add_channel_async subscription channel monitor))
          (ag, ld)) \<and>
    pk_connection_subscription_add_source (Some dbus_class) l subscription source (ag, ld)
      = answered (direct l id
          (pka_listener_subscription_add_source_finish (env_gtypes (lk_env l)) (pka_listener_subscription_add_source_async subscription source))
          (ag, ld)) \<and>
    pk_connection_subscription_get_buffer (Some dbus_class) l subscription (ag, ld)
      = answered (direct l id
          (pka_listener_subscription_get_buffer_finish (pka_listener_subscription_get_buffer_async subscription))
          (ag, ld)) \<and>
    pk_connection_subscription_get_created_at (Some dbus_class) l subscription (ag, ld)
      = answered (direct l (reprint l)
          (pka_listener_subscription_get_created_at_finish (pka_listener_subscription_get_created_at_async subscription))
          (ag, ld)) \<and>
    pk_connection_subscription_get_sources (Some dbus_class) l subscription (ag, ld)
      = answered (direct l id
          (pka_listener_subscription_get_sources_finish (pka_listener_subscription_get_sources_async subscription))
          (ag, ld)) \<and>
    pk_connection_subscription_mute (Some dbus_class) l subscription drain (ag, ld)
      = answered (direct l id
          (pka_listener_subscription_mute_finish (pka_listener_subscription_mute_async subscription drain))
          (ag, ld)) \<and>
    pk_connection_subscription_remove_channel (Some dbus_class) l subscription channel (ag, ld)
      = answered (direct l id
          (pka_listener_subscription_remove_channel_finish (pka_listener_subscription_remove_channel_async subscription channel))
          (ag, ld)) \<and>
    pk_connection_subscription_remove_source (Some dbus_class) l subscription source (ag, ld)
      = answered (direct l id
          (pka_listener_subscription_remove_source_finish (pka_listener_subscription_remove_source_async subscription source))
          (ag, ld)) \<and>
    pk_connection_subscription_set_buffer (Some dbus_class) l subscription timeout size_arg (ag, ld)
      = answered (direct l id
          (pka_listener_subscription_set_buffer_finish (pka_listener_subscription_set_buffer_async subscription timeout size_arg))
          (ag, ld)) \<and>
    pk_connection_subscription_unmute (Some dbus_class) l subscription (ag, ld)
      = answered (direct l id
          (pka_listener_subscription_unmute_finish (pka_listener_subscription_unmute_async subscription))
          (ag, ld)) \<and>
    fst (pk_connection_subscription_set_encoder (Some dbus_class) l subscription encoder (ag, ld))
      = Returned (Finish_Error (Rpc (Rpc_Error No_Reply)))"
  using set_encoder_library_call [OF assms, where ag = ag and encoder = encoder] subscription_calls_over_bus [OF assms(1), where l = l and ag = ag and source = source and channel = channel
    and monitor = monitor and drain = drain and timeout = timeout and size_arg = size_arg
    and encoder = 0] assms(2)
  by - (elim conjE, intro conjI;
      (assumption | (unfold subscription_front_parts, rule blocking_is_call [rotated 3], assumption, simp_all)))

theorem subscription_library_calls_witness:
  "\<forall>l. pk_connection_subscription_unmute (Some dbus_class) (l\<lparr>lk_sends := True\<rparr>) 0 (demo_tied, demo_objects)
     = answered (direct (l\<lparr>lk_sends := True\<rparr>) id
         (pka_listener_subscription_unmute_finish (pka_listener_subscription_unmute_async 0)) (demo_tied, demo_objects))"
proof
  fix l :: dbus_link
  have "lk_sends (l\<lparr>lk_sends := True\<rparr>)" by simp
  from subscription_library_calls [OF demo_objects_paths(2) this]
  show "pk_connection_subscription_unmute (Some dbus_class) (l\<lparr>lk_sends := True\<rparr>) 0 (demo_tied, demo_objects)
     = answered (direct (l\<lparr>lk_sends := True\<rparr>) id
         (pka_listener_subscription_unmute_finish (pka_listener_subscription_unmute_async 0)) (demo_tied, demo_objects))"
    by blast
qed

text \<open>
  C19: the same for the procedures of the manager. Two of them do not do what the program asks: \<open>RemoveChannel\<close>
  removes channel 0 whichever is asked for, and \<open>AddSubscription\<close> has a buffer of size and timeout 0.
\<close>

theorem manager_library_calls:
  assumes "ld_paths ld manager_path = Some Manager_VTable" "one_word plugin" "lk_sends l"
  shows
    "pk_connection_manager_add_channel (Some dbus_class) l (ag, ld)
      = answered (direct l id (pka_listener_manager_add_channel_finish (env_tmp (lk_env l)) (env_now (lk_env l)))
          (ag, ld)) \<and>
    pk_connection_manager_add_source (Some dbus_class) l (Some plugin) (ag, ld)
      = answered (direct l id
          (pka_listener_manager_add_source_finish (pka_listener_manager_add_source_async (Some plugin)))
          (ag, ld)) \<and>
    pk_connection_manager_add_subscription (Some dbus_class) l ord buffer_size timeout (ag, ld)
      = answered (direct l id
          (pka_listener_manager_add_subscription_finish (env_now (lk_env l)) (pka_listener_manager_add_subscription_async 0 0))
          (ag, ld)) \<and>
    pk_connection_manager_get_channels (Some dbus_class) l (ag, ld)
      = answered (direct l id pka_listener_manager_get_channels_finish (ag, ld)) \<and>
    pk_connection_manager_get_hostname (Some dbus_class) l (ag, ld)
      = answered (direct l id (pka_listener_manager_get_hostname_finish (env_hostname (lk_env l))) (ag, ld)) \<and>
    pk_connection_manager_get_plugins (Some dbus_class) l (ag, ld)
      = answered (direct l (map printed_word \<circ> takeWhile (\<lambda>p. p \<noteq> None))
          pka_listener_manager_get_plugins_finish (ag, ld)) \<and>
    pk_connection_manager_get_sources (Some dbus_class) l (ag, ld)
      = answered (direct l id pka_listener_manager_get_sources_finish (ag, ld)) \<and>
    pk_connection_manager_get_subscriptions (Some dbus_class) l (ag, ld)
      = answered (direct l id pka_listener_manager_get_subscriptions_finish (ag, ld)) \<and>
    pk_connection_manager_get_version (Some dbus_class) l (ag, ld)
      = answered (direct l id (pka_listener_manager_get_version_finish (env_version (lk_env l))) (ag, ld)) \<and>
    pk_connection_manager_ping (Some dbus_class) l (ag, ld)
      = answered (direct l (reprint l) (pka_listener_manager_ping_finish (env_now (lk_env l))) (ag, ld)) \<and>
    pk_connection_manager_remove_channel (Some dbus_class) l channel (ag, ld)
      = answered (direct l id
          (pka_listener_manager_remove_channel_finish (pka_listener_manager_remove_channel_async 0))
          (ag, ld)) \<and>
    pk_connection_manager_remove_source (Some dbus_class) l source (ag, ld)
      = answered (direct l id
          (pka_listener_manager_remove_source_finish (pka_listener_manager_remove_source_async source))
          (ag, ld)) \<and>
    pk_connection_manager_remove_subscription (Some dbus_class) l subscription (ag, ld)
      = answered (direct l id
          (pka_listener_manager_remove_subscription_finish (pka_listener_manager_remove_subscription_async subscription))
          (ag, ld))"
  using manager_calls_over_bus [OF assms(1,2), where l = l and ag = ag and ord = ord and buffer_size = buffer_size
    and timeout = timeout and channel = channel and source = source and subscription = subscription] assms(3)
  by - (elim conjE, intro conjI; unfold manager_front_parts; rule blocking_is_call [rotated 3], assumption, simp_all)

theorem manager_library_calls_witness:
  "\<forall>l. pk_connection_manager_get_channels (Some dbus_class) (l\<lparr>lk_sends := True\<rparr>) (demo_tied, demo_objects)
     = answered (direct (l\<lparr>lk_sends := True\<rparr>) id pka_listener_manager_get_channels_finish (demo_tied, demo_objects))"
proof
  fix l :: dbus_link
  have "one_word [99, 112, 117]" "lk_sends (l\<lparr>lk_sends := True\<rparr>)"
    by (simp_all add: one_word_def is_space_def word_le_nat_alt)
  from manager_library_calls [OF demo_objects_paths(3) this]
  show "pk_connection_manager_get_channels (Some dbus_class) (l\<lparr>lk_sends := True\<rparr>) (demo_tied, demo_objects)
     = answered (direct (l\<lparr>lk_sends := True\<rparr>) id pka_listener_manager_get_channels_finish (demo_tied, demo_objects))"
    by blast
qed

lemma plugin_library_calls:
  assumes "ld_paths ld (plugin_prefix @ plugin) = Some Plugin_VTable" "one_word plugin" "lk_sends l"
  shows
    "pk_connection_plugin_get_copyright (Some dbus_class) l (Some plugin) (ag, ld)
      = answered (direct l id
          (pka_listener_plugin_get_copyright_finish (pka_listener_plugin_get_copyright_async (Some plugin)))
          (ag, ld)) \<and>
    pk_connection_plugin_get_description (Some dbus_class) l (Some plugin) (ag, ld)
      = answered (direct l id
          (pka_listener_plugin_get_description_finish (pka_listener_plugin_get_description_async (Some plugin)))
          (ag, ld)) \<and>
    pk_connection_plugin_get_name (Some dbus_class) l (Some plugin) (ag, ld)
      = answered (direct l id
          (pka_listener_plugin_get_name_finish (pka_listener_plugin_get_name_async (Some plugin)))
          (ag, ld)) \<and>
    pk_connection_plugin_get_plugin_type (Some dbus_class) l (Some plugin) (ag, ld)
      = answered (direct l plugin_type_code
          (pka_listener_plugin_get_plugin_type_finish (pka_listener_plugin_get_plugin_type_async (Some plugin)))
          (ag, ld)) \<and>
    pk_connection_plugin_get_version (Some dbus_class) l (Some plugin) (ag, ld)
      = answered (direct l id
          (pka_listener_plugin_get_version_finish (pka_listener_plugin_get_version_async (Some plugin)))
          (ag, ld))"
  using plugin_calls_over_bus [OF assms(1,2), where l = l and ag = ag] assms(3)
  by - (elim conjE, intro conjI; unfold object_front_parts; rule blocking_is_call [rotated 3], assumption, simp_all)

lemma source_library_calls:
  assumes "ld_paths ld (source_prefix @ fmt_int source) = Some Source_VTable" "lk_sends l"
  shows
    "pk_connection_source_get_plugin (Some dbus_class) l source (ag, ld)
      = answered (direct l printed_word
          (pka_listener_source_get_plugin_finish (pka_listener_source_get_plugin_async source)) (ag, ld))"
  using source_calls_over_bus [OF assms(1), where l = l and ag = ag] assms(2)
  unfolding object_front_parts by - (rule blocking_is_call [rotated 3], assumption, simp_all)

lemma encoder_library_calls:
  assumes "ld_paths ld (encoder_prefix @ fmt_int encoder) = Some Encoder_VTable" "lk_sends l"
  shows
    "pk_connection_encoder_get_plugin (Some dbus_class) l encoder (ag, ld)
      = answered (direct l printed_word (pka_listener_encoder_get_plugin_finish None) (ag, ld))"
  using encoder_calls_over_bus [OF assms(1), where l = l and ag = ag] assms(2)
  unfolding object_front_parts by - (rule blocking_is_call [rotated 3], assumption, simp_all)

end
