(* ===== verification/Shell_Properties.thy ===== *)
theory Shell_Properties
  imports Perfkit_Shell Library_Calls
begin

text \<open>
  What a line that is typed into the shell does: how its words are read, which command they find, and what that
      does to
  the agent at the other end of the bus.
\<close>

section \<open>Numbers\<close>

lemma of_char_byte: "(of_char c :: u8) = of_char d \<longleftrightarrow> c = d"
proof
  have "unat (of_char x :: u8) = of_char x" for x :: char
  proof -
    have "(of_char x :: u8) = word_of_nat (of_char x)" by (rule of_nat_of_char [symmetric])
    moreover have "unat (word_of_nat (of_char x) :: u8) = of_char x"
      unfolding unat_of_nat using nat_of_char_less_256 [of x] by simp
    ultimately show ?thesis by (simp only:)
  qed
  then show "c = d" if "(of_char c :: u8) = of_char d" using that by (metis of_char_eq_iff)
qed simp

lemma ascii_eq [simp]: "ascii s = ascii t \<longleftrightarrow> s = t"
  by (simp add: ascii_def inj_map_eq_map inj_def of_char_byte)

lemma digit_of_digit: "is_digit c \<Longrightarrow> digit_of c = unat c - 48 \<and> digit_of c < 10"
  by (auto simp: digit_of_def is_digit_def word_le_nat_alt)

lemma based_value_digits: "\<forall>c \<in> set ds. is_digit c \<Longrightarrow> based_value 10 ds = digits_value
    ds"
proof (induction ds rule: rev_induct)
  case (snoc c ds)
  then show ?case by (simp add: based_value_def digits_value_def digit_of_digit)
qed (simp add: based_value_def digits_value_def)

lemma take_digits: "takeWhile (\<lambda>c. digit_of c < 10) (digits n) = digits n"
  using digits_are_digits [of n] digit_of_digit by (metis takeWhile_eq_all_conv)

text \<open>The decimal digits of a number begin with 0 only for 0, so that base 0 reads them in base 10.\<close>

lemma digits_head: "0 < n \<Longrightarrow> take (Suc 0) (digits n) \<noteq> [48]"
proof (induction n rule: digits.induct)
  case (1 n)
  show ?case
  proof (cases "n < 10")
    case True
    then have "unat (48 + word_of_nat n :: u8) = 48 + n" using digit_byte by blast
    then have "(48 + word_of_nat n :: u8) \<noteq> 48" using 1(2) by auto
    with True show ?thesis by (subst digits.simps) simp
  next
    case False
    then have "digits n = digits (n div 10) @ [48 + word_of_nat (n mod 10)]"
      by (subst digits.simps) simp
    moreover have "take (Suc 0) (digits (n div 10)) \<noteq> [48]" using 1(1) False by simp
    ultimately show ?thesis using digits_not_empty [of "n div 10"] by (cases "digits (n div 10)") simp_all
  qed
qed

lemma number_base_digits: "0 < n \<Longrightarrow> number_base (digits n) = (10, digits n)"
  by (simp add: number_base_def digits_head)

lemma digits_zero: "digits 0 = [48]"
  by (subst digits.simps) simp

lemma digits_begin:
  "dropWhile is_space (digits n) = digits n"
  "(case digits n of [] \<Rightarrow> (False, []) | c # t \<Rightarrow> if c = 45 then (True, t) else if c = 43
      then (False, t) else (False, digits n))
     = (False, digits n)"
proof -
  obtain c t where ds: "digits n = c # t" using digits_not_empty by (cases "digits n") auto
  then have "is_digit c" using digits_are_digits [of n] by simp
  from digit_not_space [OF this] ds
  show "dropWhile is_space (digits n) = digits n"
    "(case digits n of [] \<Rightarrow> (False, []) | c # t \<Rightarrow> if c = 45 then (True, t) else if c = 43
        then (False, t) else (False, digits n))
       = (False, digits n)" by simp_all
qed

lemma number_zero:
  "number_base [48] = (8, [48])" "digit_of 48 = 0" "based_value 8 [48] = 0"
  by (simp_all add: number_base_def digit_of_def is_digit_def based_value_def)

lemma strtol_digits: "strtol (digits n) = (long_range (int n), long_range (int n) \<noteq> int n, True)"
proof (cases "n = 0")
  case True
  then show ?thesis
    by (simp add: digits_zero strtol_def number_zero is_space_def)
next
  case False
  have "based_value 10 (digits n) = n"
    using based_value_digits [OF digits_are_digits] digits_value_digits by simp
  with False show ?thesis
    unfolding strtol_def digits_begin
    by (simp add: digits_begin number_base_digits take_digits digits_not_empty Let_def)
qed

lemma strtol_negative: "strtol (45 # digits n) = (long_range (- int n), long_range (- int n) \<noteq> - int n,
    True)"
proof (cases "n = 0")
  case True
  then show ?thesis
    by (simp add: digits_zero strtol_def number_zero is_space_def)
next
  case False
  have "based_value 10 (digits n) = n"
    using based_value_digits [OF digits_are_digits] digits_value_digits by simp
  with False show ?thesis
    by (simp add: strtol_def is_space_def number_base_digits take_digits digits_not_empty Let_def)
qed

lemma sint_bounds: "sint (v :: gint) \<noteq> 2 ^ 63 - 1" "sint v \<noteq> - (2 ^ 63)"
  using sint_range_size [of v] by (simp_all add: word_size)

lemma parse_int_eq:
  "pk_shell_parse_int str =
     (case strtol str of (value, erange, converted) \<Rightarrow>
        if erange \<and> (word_of_int value :: gint) = 0 \<or> \<not> converted then None else Some (word_of_int
            value))"
  using sint_bounds by (simp add: pk_shell_parse_int_def Let_def split: prod.split)

lemma parse_digits:
  "pk_shell_parse_int (digits n) = Some (if n < 2 ^ 63 then word_of_nat n else - 1)"
proof (cases "n < 2 ^ 63")
  case True
  then have "int n < 2 ^ 63" by (metis of_nat_less_iff of_nat_numeral of_nat_power)
  then have "long_range (int n) = int n" by (simp add: long_range_def)
  with True show ?thesis by (simp add: parse_int_eq strtol_digits)
next
  case False
  then have "2 ^ 63 \<le> int n" by (metis linorder_not_less of_nat_less_iff of_nat_numeral of_nat_power)
  then have "long_range (int n) = 2 ^ 63 - 1" by (simp add: long_range_def)
  with False show ?thesis by (simp add: parse_int_eq strtol_digits)
qed

lemma parse_negative:
  "pk_shell_parse_int (45 # digits n) = (if n \<le> 2 ^ 63 then Some (- word_of_nat n) else None)"
proof (cases "n \<le> 2 ^ 63")
  case True
  then have "int n \<le> 2 ^ 63" by (metis of_nat_le_iff of_nat_numeral of_nat_power)
  then have "long_range (- int n) = - int n" by (simp add: long_range_def)
  with True show ?thesis by (simp add: parse_int_eq strtol_negative)
next
  case False
  then have "2 ^ 63 < int n" by (metis linorder_not_less of_nat_le_iff of_nat_numeral of_nat_power)
  then have "long_range (- int n) = - (2 ^ 63)" "long_range (- int n) \<noteq> - int n" by (simp_all add:
      long_range_def)
  with False show ?thesis by (simp add: parse_int_eq strtol_negative)
qed

lemma parse_fmt_int [simp]: "pk_shell_parse_int (fmt_int i) = Some i"
proof (cases "sint i < 0")
  case True
  then have "nat (- sint i) \<le> 2 ^ 63" using sint_range_size [of i] by (simp add: word_size)
  with True show ?thesis by (simp add: fmt_int_def parse_negative)
next
  case False
  then have "nat (sint i) < 2 ^ 63" using sint_range_size [of i] by (simp add: word_size)
  with False show ?thesis by (simp add: fmt_int_def parse_digits)
qed

text \<open>
  What the shell prints for an integer, it reads back as the same integer, so that a variable that a command
      set
  can be the argument of the next. Any other decimal number is taken too: modulo 2^32 as long as it fits into 64
  bits (4294967296 is 0, the identifier of the first channel), and every larger one as -1; only one below -2^63 is
  refused.
\<close>

theorem shell_numbers:
  "pk_shell_parse_int (fmt_int i) = Some i \<and>
   pk_shell_parse_int (digits n) = Some (if n < 2 ^ 63 then word_of_nat n else - 1) \<and>
   pk_shell_parse_int (45 # digits n) = (if n \<le> 2 ^ 63 then Some (- word_of_nat n) else None) \<and>
   pk_shell_parse_int (digits (2 ^ 32)) = Some 0"
proof -
  have zero: "word_of_nat (2 ^ 32) = (0 :: gint)" by simp
  have fits: "(2 :: nat) ^ 32 < 2 ^ 63" by (rule power_strict_increasing) simp_all
  show ?thesis
    by (intro conjI parse_fmt_int parse_digits parse_negative parse_digits [THEN trans])
      (simp only: fits if_True zero)
qed

text \<open>A word that begins like the name of a command is not a number.\<close>

lemma parse_letter:
  assumes "97 \<le> c" "c \<le> 122"
  shows "pk_shell_parse_int (c # s) = None"
proof -
  have c: "\<not> is_space c" "c \<noteq> 45" "c \<noteq> 43" "c \<noteq> 48" "\<not> digit_of c < 10"
    using assms by (auto simp: is_space_def digit_of_def is_digit_def word_le_nat_alt)
  then have "strtol (c # s) = (long_range 0, long_range 0 \<noteq> 0, False)"
    by (simp add: strtol_def number_base_def based_value_def)
  then show ?thesis by (simp add: parse_int_eq)
qed

section \<open>Finding a command\<close>

text \<open>A line that is not a comment, not an assignment, and comes to these words when its variables are
    replaced.\<close>

definition typed :: "shell_env \<Rightarrow> cstring \<Rightarrow> shell \<Rightarrow> cstring list \<Rightarrow>
    bool" where
  "typed e text sh ws \<longleftrightarrow> text \<noteq> [] \<and> take 1 text \<noteq> [35] \<and> \<not>
      egg_line_is_assignment text \<and>
     (\<exists>words. le_parse_argv (se_line e) text = Inr words \<and> map (egg_line_expand sh) words = ws)"

text \<open>The line is executed.\<close>

definition entered :: "nat \<Rightarrow> shell_env \<Rightarrow> cstring \<Rightarrow> shell \<Rightarrow>
    line_end \<times> shell" where
  "entered depth e text = egg_line_execute depth (se_line e) (shell_setup e) text"

lemma entered_callback:
  assumes "typed e text sh ws"
    and "resolve_words (root_commands e) None None ws = (Some (Command nm g (Some (\<lambda>line. f)) h u), args)"
  shows "entered depth e text sh =
    (case f args sh of (r, sh') \<Rightarrow> callback_result (Command nm g (Some (\<lambda>line. f)) h u) text r
        sh')"
  using assms by (auto simp: typed_def entered_def egg_line_execute_def execute_with_def egg_line_resolve_def
      shell_setup_def)

lemma resolve_below:
  assumes "find (\<lambda>c. cmd_name c = w) table = Some (Command w (Some below) cb h u)"
    and "find (\<lambda>c. cmd_name c = v) below = Some (Command v None cb' h' u')"
    and "args = [] \<or> find (\<lambda>c. cmd_name c = hd args) below = None"
  shows "resolve_words table None None (w # v # args) = (Some (Command v None cb' h' u'), args)"
  using assms by (cases args) simp_all

lemma root_tables:
  "find (\<lambda>c. cmd_name c = ascii ''channel'') (root_commands e) =
     Some (Command (ascii ''channel'') (Some (channel_commands e)) None (ascii ''Channel commands.'')
       (cmd_usage (root_commands e ! 4)))"
  "find (\<lambda>c. cmd_name c = ascii ''manager'') (root_commands e) =
     Some (Command (ascii ''manager'') (Some (manager_commands e)) None (ascii ''Manager commands.'')
       (cmd_usage (root_commands e ! 3)))"
  "find (\<lambda>c. cmd_name c = ascii ''plugin'') (root_commands e) =
     Some (Command (ascii ''plugin'') (Some (plugin_commands e)) None (ascii ''Plugin commands.'')
       (cmd_usage (root_commands e ! 0)))"
  "find (\<lambda>c. cmd_name c = ascii ''subscription'') (root_commands e) =
     Some (Command (ascii ''subscription'') (Some (subscription_commands e)) None (ascii
         ''Subscription commands.'')
       (cmd_usage (root_commands e ! 5)))"
  by (simp_all add: root_commands_def pk_shell_channel_generator_def pk_shell_manager_generator_def
      pk_shell_plugin_generator_def pk_shell_subscription_generator_def)

text \<open>No number is the name of a command.\<close>

lemma number_no_command:
  assumes "pk_shell_parse_int a = Some i"
  shows "find (\<lambda>c. cmd_name c = a) (channel_commands e) = None"
    and "find (\<lambda>c. cmd_name c = a) (subscription_commands e) = None"
    and "find (\<lambda>c. cmd_name c = a) (manager_commands e) = None"
proof -
  have "a \<noteq> ascii (c # s)" if "97 \<le> (of_char c :: u8)" "(of_char c :: u8) \<le> 122" for c s
    using assms parse_letter [OF that] by (auto simp: ascii_def)
  then have no: "\<not> ascii (c # s) = a" if "97 \<le> (of_char c :: u8)" "(of_char c :: u8) \<le> 122" for c s
    using that by blast
  show "find (\<lambda>c. cmd_name c = a) (channel_commands e) = None"
    unfolding channel_commands_def by (simp add: no)
  show "find (\<lambda>c. cmd_name c = a) (subscription_commands e) = None"
    unfolding subscription_commands_def by (simp add: no)
  show "find (\<lambda>c. cmd_name c = a) (manager_commands e) = None"
    unfolding manager_commands_def by (simp add: no)
qed

definition numbers_first :: "cstring list \<Rightarrow> bool" where
  "numbers_first args \<longleftrightarrow> args = [] \<or> pk_shell_parse_int (hd args) \<noteq> None"

lemma entered_below:
  assumes "typed e text sh (w # v # args)"
    and "find (\<lambda>c. cmd_name c = w) (root_commands e) = Some (Command w (Some below) cb h u)"
    and "map cmd_name below = names" "i < length names" "names ! i = v" "v \<notin> set (take i names)"
    and "map cmd_generator below = map (\<lambda>n. None) names"
    and "map cmd_callback below = callbacks" "callbacks ! i = Some (\<lambda>line. f)"
    and "args = [] \<or> find (\<lambda>c. cmd_name c = hd args) below = None"
  shows "entered depth e text sh = (case f args sh of (r, sh') \<Rightarrow> callback_result (below ! i) text r
      sh')"
proof -
  have len: "i < length below" using assms(3,4) by (metis length_map)
  have name: "cmd_name (below ! i) = v" using assms(3,5) len by (metis nth_map)
  have gen: "cmd_generator (below ! i) = None"
    using assms(4,7) len by (metis nth_map)
  have cb: "cmd_callback (below ! i) = Some (\<lambda>line. f)" using assms(8,9) len by (metis nth_map)
  have c: "below ! i = Command v None (Some (\<lambda>line. f)) (cmd_help (below ! i)) (cmd_usage (below ! i))"
    using name gen cb by (cases "below ! i") simp
  have "cmd_name (below ! j) \<noteq> v" if "j < i" for j
    using assms(3,6) len that by (auto simp: in_set_conv_nth)
  then have "find (\<lambda>c. cmd_name c = v) below = Some (below ! i)"
    using len name by (auto simp: find_Some_iff)
  then show ?thesis
    by (subst c, intro entered_callback [OF assms(1)] resolve_below [OF assms(2) _ assms(10)]) (simp flip: c)
qed

lemma channel_table:
  "map cmd_name (channel_commands e) = [ascii ''add-source'', ascii ''get-args'', ascii ''get-created-at'', ascii
      ''get-env'',
     ascii ''get-exit-status'', ascii ''get-kill-pid'', ascii ''get-pid'', ascii ''get-pid-set'',
     ascii ''get-sources'', ascii ''get-state'', ascii ''get-target'', ascii ''get-working-dir'',
     ascii ''mute'', ascii ''set-args'', ascii ''set-env'', ascii ''set-kill-pid'', ascii ''set-pid'',
     ascii ''set-target'', ascii ''set-working-dir'', ascii ''start'', ascii ''stop'', ascii ''unmute'']"
  "map cmd_generator (channel_commands e) = map (\<lambda>n. None) [ascii ''add-source'', ascii ''get-args'',
      ascii ''get-created-at'', ascii ''get-env'',
     ascii ''get-exit-status'', ascii ''get-kill-pid'', ascii ''get-pid'', ascii ''get-pid-set'',
     ascii ''get-sources'', ascii ''get-state'', ascii ''get-target'', ascii ''get-working-dir'',
     ascii ''mute'', ascii ''set-args'', ascii ''set-env'', ascii ''set-kill-pid'', ascii ''set-pid'',
     ascii ''set-target'', ascii ''set-working-dir'', ascii ''start'', ascii ''stop'', ascii ''unmute'']"
  "map cmd_callback (channel_commands e) = [Some (\<lambda>line. pk_shell_channel_add_source e), Some
      (\<lambda>line. pk_shell_channel_get_args e),
     Some (\<lambda>line. pk_shell_channel_get_created_at e), Some (\<lambda>line. pk_shell_channel_get_env e),
     Some (\<lambda>line. pk_shell_channel_get_exit_status e),
     Some (\<lambda>line. pk_shell_channel_get_kill_pid e), Some (\<lambda>line. pk_shell_channel_get_pid e),
     Some (\<lambda>line. pk_shell_channel_get_pid_set e),
     Some (\<lambda>line. pk_shell_channel_get_sources e), Some (\<lambda>line. pk_shell_channel_get_state e),
     Some (\<lambda>line. pk_shell_channel_get_target e),
     Some (\<lambda>line. pk_shell_channel_get_working_dir e), Some (\<lambda>line. pk_shell_channel_mute e),
     Some (\<lambda>line. pk_shell_channel_set_args e), Some (\<lambda>line. pk_shell_channel_set_env e),
     Some (\<lambda>line. pk_shell_channel_set_kill_pid e), Some (\<lambda>line. pk_shell_channel_set_pid e),
     Some (\<lambda>line. pk_shell_channel_set_target e),
     Some (\<lambda>line. pk_shell_channel_set_working_dir e), Some (\<lambda>line. pk_shell_channel_start e),
     Some (\<lambda>line. pk_shell_channel_stop e), Some (\<lambda>line. pk_shell_channel_unmute e)]"
  unfolding channel_commands_def list.map egg_line_command.sel by (rule refl)+

lemma subscription_table:
  "map cmd_name (subscription_commands e) = [ascii ''add-channel'', ascii ''add-source'', ascii ''get-buffer'',
      ascii ''get-created-at'',
     ascii ''get-sources'', ascii ''mute'', ascii ''remove-channel'', ascii ''remove-source'',
     ascii ''set-buffer'', ascii ''set-encoder'', ascii ''unmute'']"
  "map cmd_generator (subscription_commands e) = map (\<lambda>n. None) [ascii ''add-channel'', ascii
      ''add-source'', ascii ''get-buffer'', ascii ''get-created-at'',
     ascii ''get-sources'', ascii ''mute'', ascii ''remove-channel'', ascii ''remove-source'',
     ascii ''set-buffer'', ascii ''set-encoder'', ascii ''unmute'']"
  "map cmd_callback (subscription_commands e) = [Some (\<lambda>line. pk_shell_subscription_add_channel e),
     Some (\<lambda>line. pk_shell_subscription_add_source e),
     Some (\<lambda>line. pk_shell_subscription_get_buffer e),
     Some (\<lambda>line. pk_shell_subscription_get_created_at e),
     Some (\<lambda>line. pk_shell_subscription_get_sources e),
     Some (\<lambda>line. pk_shell_subscription_mute e),
     Some (\<lambda>line. pk_shell_subscription_remove_channel e),
     Some (\<lambda>line. pk_shell_subscription_remove_source e),
     Some (\<lambda>line. pk_shell_subscription_set_buffer e),
     Some (\<lambda>line. pk_shell_subscription_set_encoder e),
     Some (\<lambda>line. pk_shell_subscription_unmute e)]"
  unfolding subscription_commands_def list.map egg_line_command.sel by (rule refl)+

lemma manager_table:
  "map cmd_name (manager_commands e) = [ascii ''add-channel'', ascii ''add-source'', ascii ''add-subscription'',
      ascii ''get-channels'',
     ascii ''get-hostname'', ascii ''get-plugins'', ascii ''get-sources'', ascii ''get-subscriptions'',
     ascii ''get-version'', ascii ''ping'', ascii ''remove-channel'', ascii ''remove-source'',
     ascii ''remove-subscription'']"
  "map cmd_generator (manager_commands e) = map (\<lambda>n. None) [ascii ''add-channel'', ascii ''add-source'',
      ascii ''add-subscription'', ascii ''get-channels'',
     ascii ''get-hostname'', ascii ''get-plugins'', ascii ''get-sources'', ascii ''get-subscriptions'',
     ascii ''get-version'', ascii ''ping'', ascii ''remove-channel'', ascii ''remove-source'',
     ascii ''remove-subscription'']"
  "map cmd_callback (manager_commands e) = [Some (\<lambda>line. pk_shell_manager_add_channel e),
     Some (\<lambda>line. pk_shell_manager_add_source e),
     Some (\<lambda>line. pk_shell_manager_add_subscription e),
     Some (\<lambda>line. pk_shell_manager_get_channels e),
     Some (\<lambda>line. pk_shell_manager_get_hostname e),
     Some (\<lambda>line. pk_shell_manager_get_plugins e),
     Some (\<lambda>line. pk_shell_manager_get_sources e),
     Some (\<lambda>line. pk_shell_manager_get_subscriptions e),
     Some (\<lambda>line. pk_shell_manager_get_version e), Some (\<lambda>line. pk_shell_manager_ping e),
     Some (\<lambda>line. pk_shell_manager_remove_channel e),
     Some (\<lambda>line. pk_shell_manager_remove_source e),
     Some (\<lambda>line. pk_shell_manager_remove_subscription e)]"
  unfolding manager_commands_def list.map egg_line_command.sel by (rule refl)+

lemma numbers_no_commands:
  assumes "numbers_first args"
  shows "args = [] \<or> find (\<lambda>c. cmd_name c = hd args) (channel_commands e) = None"
    and "args = [] \<or> find (\<lambda>c. cmd_name c = hd args) (subscription_commands e) = None"
    and "args = [] \<or> find (\<lambda>c. cmd_name c = hd args) (manager_commands e) = None"
  using assms number_no_command [of "hd args", where e = e] by (auto simp: numbers_first_def)

lemma channel_entered:
    "numbers_first args \<Longrightarrow> typed e text sh (ascii ''channel'' # ascii ''add-source'' # args)
        \<Longrightarrow> entered depth e text sh =
      (case pk_shell_channel_add_source e args sh of (r, sh') \<Rightarrow> callback_result (channel_commands e !
          0) text r sh')"
    "numbers_first args \<Longrightarrow> typed e text sh (ascii ''channel'' # ascii ''get-args'' # args)
        \<Longrightarrow> entered depth e text sh =
      (case pk_shell_channel_get_args e args sh of (r, sh') \<Rightarrow> callback_result (channel_commands e !
          1) text r sh')"
    "numbers_first args \<Longrightarrow> typed e text sh (ascii ''channel'' # ascii ''get-created-at'' # args)
        \<Longrightarrow> entered depth e text sh =
      (case pk_shell_channel_get_created_at e args sh of (r, sh') \<Rightarrow> callback_result (channel_commands
          e ! 2) text r sh')"
    "numbers_first args \<Longrightarrow> typed e text sh (ascii ''channel'' # ascii ''get-env'' # args)
        \<Longrightarrow> entered depth e text sh =
      (case pk_shell_channel_get_env e args sh of (r, sh') \<Rightarrow> callback_result (channel_commands e ! 3)
          text r sh')"
    "numbers_first args \<Longrightarrow> typed e text sh (ascii ''channel'' # ascii ''get-exit-status'' # args)
        \<Longrightarrow> entered depth e text sh =
      (case pk_shell_channel_get_exit_status e args sh of (r, sh') \<Rightarrow> callback_result
          (channel_commands e ! 4) text r sh')"
    "numbers_first args \<Longrightarrow> typed e text sh (ascii ''channel'' # ascii ''get-kill-pid'' # args)
        \<Longrightarrow> entered depth e text sh =
      (case pk_shell_channel_get_kill_pid e args sh of (r, sh') \<Rightarrow> callback_result (channel_commands e
          ! 5) text r sh')"
    "numbers_first args \<Longrightarrow> typed e text sh (ascii ''channel'' # ascii ''get-pid'' # args)
        \<Longrightarrow> entered depth e text sh =
      (case pk_shell_channel_get_pid e args sh of (r, sh') \<Rightarrow> callback_result (channel_commands e ! 6)
          text r sh')"
    "numbers_first args \<Longrightarrow> typed e text sh (ascii ''channel'' # ascii ''get-pid-set'' # args)
        \<Longrightarrow> entered depth e text sh =
      (case pk_shell_channel_get_pid_set e args sh of (r, sh') \<Rightarrow> callback_result (channel_commands e
          ! 7) text r sh')"
    "numbers_first args \<Longrightarrow> typed e text sh (ascii ''channel'' # ascii ''get-sources'' # args)
        \<Longrightarrow> entered depth e text sh =
      (case pk_shell_channel_get_sources e args sh of (r, sh') \<Rightarrow> callback_result (channel_commands e
          ! 8) text r sh')"
    "numbers_first args \<Longrightarrow> typed e text sh (ascii ''channel'' # ascii ''get-state'' # args)
        \<Longrightarrow> entered depth e text sh =
      (case pk_shell_channel_get_state e args sh of (r, sh') \<Rightarrow> callback_result (channel_commands e !
          9) text r sh')"
    "numbers_first args \<Longrightarrow> typed e text sh (ascii ''channel'' # ascii ''get-target'' # args)
        \<Longrightarrow> entered depth e text sh =
      (case pk_shell_channel_get_target e args sh of (r, sh') \<Rightarrow> callback_result (channel_commands e !
          10) text r sh')"
    "numbers_first args \<Longrightarrow> typed e text sh (ascii ''channel'' # ascii ''get-working-dir'' # args)
        \<Longrightarrow> entered depth e text sh =
      (case pk_shell_channel_get_working_dir e args sh of (r, sh') \<Rightarrow> callback_result
          (channel_commands e ! 11) text r sh')"
    "numbers_first args \<Longrightarrow> typed e text sh (ascii ''channel'' # ascii ''mute'' # args)
        \<Longrightarrow> entered depth e text sh =
      (case pk_shell_channel_mute e args sh of (r, sh') \<Rightarrow> callback_result (channel_commands e ! 12)
          text r sh')"
    "numbers_first args \<Longrightarrow> typed e text sh (ascii ''channel'' # ascii ''set-args'' # args)
        \<Longrightarrow> entered depth e text sh =
      (case pk_shell_channel_set_args e args sh of (r, sh') \<Rightarrow> callback_result (channel_commands e !
          13) text r sh')"
    "numbers_first args \<Longrightarrow> typed e text sh (ascii ''channel'' # ascii ''set-env'' # args)
        \<Longrightarrow> entered depth e text sh =
      (case pk_shell_channel_set_env e args sh of (r, sh') \<Rightarrow> callback_result (channel_commands e !
          14) text r sh')"
    "numbers_first args \<Longrightarrow> typed e text sh (ascii ''channel'' # ascii ''set-kill-pid'' # args)
        \<Longrightarrow> entered depth e text sh =
      (case pk_shell_channel_set_kill_pid e args sh of (r, sh') \<Rightarrow> callback_result (channel_commands e
          ! 15) text r sh')"
    "numbers_first args \<Longrightarrow> typed e text sh (ascii ''channel'' # ascii ''set-pid'' # args)
        \<Longrightarrow> entered depth e text sh =
      (case pk_shell_channel_set_pid e args sh of (r, sh') \<Rightarrow> callback_result (channel_commands e !
          16) text r sh')"
    "numbers_first args \<Longrightarrow> typed e text sh (ascii ''channel'' # ascii ''set-target'' # args)
        \<Longrightarrow> entered depth e text sh =
      (case pk_shell_channel_set_target e args sh of (r, sh') \<Rightarrow> callback_result (channel_commands e !
          17) text r sh')"
    "numbers_first args \<Longrightarrow> typed e text sh (ascii ''channel'' # ascii ''set-working-dir'' # args)
        \<Longrightarrow> entered depth e text sh =
      (case pk_shell_channel_set_working_dir e args sh of (r, sh') \<Rightarrow> callback_result
          (channel_commands e ! 18) text r sh')"
    "numbers_first args \<Longrightarrow> typed e text sh (ascii ''channel'' # ascii ''start'' # args)
        \<Longrightarrow> entered depth e text sh =
      (case pk_shell_channel_start e args sh of (r, sh') \<Rightarrow> callback_result (channel_commands e ! 19)
          text r sh')"
    "numbers_first args \<Longrightarrow> typed e text sh (ascii ''channel'' # ascii ''stop'' # args)
        \<Longrightarrow> entered depth e text sh =
      (case pk_shell_channel_stop e args sh of (r, sh') \<Rightarrow> callback_result (channel_commands e ! 20)
          text r sh')"
    "numbers_first args \<Longrightarrow> typed e text sh (ascii ''channel'' # ascii ''unmute'' # args)
        \<Longrightarrow> entered depth e text sh =
      (case pk_shell_channel_unmute e args sh of (r, sh') \<Rightarrow> callback_result (channel_commands e ! 21)
          text r sh')"
  by (rule entered_below [OF _ root_tables(1) channel_table(1) _ _ _ channel_table(2) channel_table(3)],
      assumption, simp, simp,
      simp, simp, erule numbers_no_commands)+

lemma subscription_entered:
    "numbers_first args \<Longrightarrow> typed e text sh (ascii ''subscription'' # ascii ''add-channel'' # args)
        \<Longrightarrow> entered depth e text sh =
      (case pk_shell_subscription_add_channel e args sh of (r, sh') \<Rightarrow> callback_result
          (subscription_commands e ! 0) text r sh')"
    "numbers_first args \<Longrightarrow> typed e text sh (ascii ''subscription'' # ascii ''add-source'' # args)
        \<Longrightarrow> entered depth e text sh =
      (case pk_shell_subscription_add_source e args sh of (r, sh') \<Rightarrow> callback_result
          (subscription_commands e ! 1) text r sh')"
    "numbers_first args \<Longrightarrow> typed e text sh (ascii ''subscription'' # ascii ''get-buffer'' # args)
        \<Longrightarrow> entered depth e text sh =
      (case pk_shell_subscription_get_buffer e args sh of (r, sh') \<Rightarrow> callback_result
          (subscription_commands e ! 2) text r sh')"
    "numbers_first args \<Longrightarrow> typed e text sh (ascii ''subscription'' # ascii ''get-created-at'' #
        args) \<Longrightarrow> entered depth e text sh =
      (case pk_shell_subscription_get_created_at e args sh of (r, sh') \<Rightarrow> callback_result
          (subscription_commands e ! 3) text r sh')"
    "numbers_first args \<Longrightarrow> typed e text sh (ascii ''subscription'' # ascii ''get-sources'' # args)
        \<Longrightarrow> entered depth e text sh =
      (case pk_shell_subscription_get_sources e args sh of (r, sh') \<Rightarrow> callback_result
          (subscription_commands e ! 4) text r sh')"
    "numbers_first args \<Longrightarrow> typed e text sh (ascii ''subscription'' # ascii ''mute'' # args)
        \<Longrightarrow> entered depth e text sh =
      (case pk_shell_subscription_mute e args sh of (r, sh') \<Rightarrow> callback_result (subscription_commands
          e ! 5) text r sh')"
    "numbers_first args \<Longrightarrow> typed e text sh (ascii ''subscription'' # ascii ''remove-channel'' #
        args) \<Longrightarrow> entered depth e text sh =
      (case pk_shell_subscription_remove_channel e args sh of (r, sh') \<Rightarrow> callback_result
          (subscription_commands e ! 6) text r sh')"
    "numbers_first args \<Longrightarrow> typed e text sh (ascii ''subscription'' # ascii ''remove-source'' #
        args) \<Longrightarrow> entered depth e text sh =
      (case pk_shell_subscription_remove_source e args sh of (r, sh') \<Rightarrow> callback_result
          (subscription_commands e ! 7) text r sh')"
    "numbers_first args \<Longrightarrow> typed e text sh (ascii ''subscription'' # ascii ''set-buffer'' # args)
        \<Longrightarrow> entered depth e text sh =
      (case pk_shell_subscription_set_buffer e args sh of (r, sh') \<Rightarrow> callback_result
          (subscription_commands e ! 8) text r sh')"
    "numbers_first args \<Longrightarrow> typed e text sh (ascii ''subscription'' # ascii ''set-encoder'' # args)
        \<Longrightarrow> entered depth e text sh =
      (case pk_shell_subscription_set_encoder e args sh of (r, sh') \<Rightarrow> callback_result
          (subscription_commands e ! 9) text r sh')"
    "numbers_first args \<Longrightarrow> typed e text sh (ascii ''subscription'' # ascii ''unmute'' # args)
        \<Longrightarrow> entered depth e text sh =
      (case pk_shell_subscription_unmute e args sh of (r, sh') \<Rightarrow> callback_result
          (subscription_commands e ! 10) text r sh')"
  by (rule entered_below [OF _ root_tables(4) subscription_table(1) _ _ _ subscription_table(2)
      subscription_table(3)], assumption, simp, simp,
      simp, simp, erule numbers_no_commands)+

lemma manager_entered:
    "args = [] \<or> find (\<lambda>c. cmd_name c = hd args) (manager_commands e) = None \<Longrightarrow> typed
        e text sh (ascii ''manager'' # ascii ''add-channel'' # args) \<Longrightarrow> entered depth e text sh =
      (case pk_shell_manager_add_channel e args sh of (r, sh') \<Rightarrow> callback_result (manager_commands e
          ! 0) text r sh')"
    "args = [] \<or> find (\<lambda>c. cmd_name c = hd args) (manager_commands e) = None \<Longrightarrow> typed
        e text sh (ascii ''manager'' # ascii ''add-source'' # args) \<Longrightarrow> entered depth e text sh =
      (case pk_shell_manager_add_source e args sh of (r, sh') \<Rightarrow> callback_result (manager_commands e !
          1) text r sh')"
    "args = [] \<or> find (\<lambda>c. cmd_name c = hd args) (manager_commands e) = None \<Longrightarrow> typed
        e text sh (ascii ''manager'' # ascii ''add-subscription'' # args) \<Longrightarrow> entered depth e text
        sh =
      (case pk_shell_manager_add_subscription e args sh of (r, sh') \<Rightarrow> callback_result
          (manager_commands e ! 2) text r sh')"
    "args = [] \<or> find (\<lambda>c. cmd_name c = hd args) (manager_commands e) = None \<Longrightarrow> typed
        e text sh (ascii ''manager'' # ascii ''get-channels'' # args) \<Longrightarrow> entered depth e text sh =
      (case pk_shell_manager_get_channels e args sh of (r, sh') \<Rightarrow> callback_result (manager_commands e
          ! 3) text r sh')"
    "args = [] \<or> find (\<lambda>c. cmd_name c = hd args) (manager_commands e) = None \<Longrightarrow> typed
        e text sh (ascii ''manager'' # ascii ''get-hostname'' # args) \<Longrightarrow> entered depth e text sh =
      (case pk_shell_manager_get_hostname e args sh of (r, sh') \<Rightarrow> callback_result (manager_commands e
          ! 4) text r sh')"
    "args = [] \<or> find (\<lambda>c. cmd_name c = hd args) (manager_commands e) = None \<Longrightarrow> typed
        e text sh (ascii ''manager'' # ascii ''get-plugins'' # args) \<Longrightarrow> entered depth e text sh =
      (case pk_shell_manager_get_plugins e args sh of (r, sh') \<Rightarrow> callback_result (manager_commands e
          ! 5) text r sh')"
    "args = [] \<or> find (\<lambda>c. cmd_name c = hd args) (manager_commands e) = None \<Longrightarrow> typed
        e text sh (ascii ''manager'' # ascii ''get-sources'' # args) \<Longrightarrow> entered depth e text sh =
      (case pk_shell_manager_get_sources e args sh of (r, sh') \<Rightarrow> callback_result (manager_commands e
          ! 6) text r sh')"
    "args = [] \<or> find (\<lambda>c. cmd_name c = hd args) (manager_commands e) = None \<Longrightarrow> typed
        e text sh (ascii ''manager'' # ascii ''get-subscriptions'' # args) \<Longrightarrow> entered depth e text
        sh =
      (case pk_shell_manager_get_subscriptions e args sh of (r, sh') \<Rightarrow> callback_result
          (manager_commands e ! 7) text r sh')"
    "args = [] \<or> find (\<lambda>c. cmd_name c = hd args) (manager_commands e) = None \<Longrightarrow> typed
        e text sh (ascii ''manager'' # ascii ''get-version'' # args) \<Longrightarrow> entered depth e text sh =
      (case pk_shell_manager_get_version e args sh of (r, sh') \<Rightarrow> callback_result (manager_commands e
          ! 8) text r sh')"
    "args = [] \<or> find (\<lambda>c. cmd_name c = hd args) (manager_commands e) = None \<Longrightarrow> typed
        e text sh (ascii ''manager'' # ascii ''ping'' # args) \<Longrightarrow> entered depth e text sh =
      (case pk_shell_manager_ping e args sh of (r, sh') \<Rightarrow> callback_result (manager_commands e ! 9)
          text r sh')"
    "args = [] \<or> find (\<lambda>c. cmd_name c = hd args) (manager_commands e) = None \<Longrightarrow> typed
        e text sh (ascii ''manager'' # ascii ''remove-channel'' # args) \<Longrightarrow> entered depth e text sh
        =
      (case pk_shell_manager_remove_channel e args sh of (r, sh') \<Rightarrow> callback_result (manager_commands
          e ! 10) text r sh')"
    "args = [] \<or> find (\<lambda>c. cmd_name c = hd args) (manager_commands e) = None \<Longrightarrow> typed
        e text sh (ascii ''manager'' # ascii ''remove-source'' # args) \<Longrightarrow> entered depth e text sh =
      (case pk_shell_manager_remove_source e args sh of (r, sh') \<Rightarrow> callback_result (manager_commands
          e ! 11) text r sh')"
    "args = [] \<or> find (\<lambda>c. cmd_name c = hd args) (manager_commands e) = None \<Longrightarrow> typed
        e text sh (ascii ''manager'' # ascii ''remove-subscription'' # args) \<Longrightarrow> entered depth e
        text sh =
      (case pk_shell_manager_remove_subscription e args sh of (r, sh') \<Rightarrow> callback_result
          (manager_commands e ! 12) text r sh')"
  by (rule entered_below [OF _ root_tables(2) manager_table(1) _ _ _ manager_table(2) manager_table(3)],
      assumption,
      simp, simp, simp, simp, assumption)+

section \<open>Asking the agent\<close>

text \<open>What the user sees of a procedure that was run on the agent: its value, or the message of the
    error.\<close>

definition shown ::
  "('a \<Rightarrow> shell \<Rightarrow> shell) \<Rightarrow> shell \<Rightarrow> (rpc_failure + 'a) \<times>
      agent \<times> dbus_listener \<Rightarrow> line_end \<times> shell" where
  "shown k sh r =
     (case r of
        (Inr x, st) \<Rightarrow> (Goes_On, k x (sh\<lparr>sh_agent := st\<rparr>))
      | (Inl error, st) \<Rightarrow>
          (Goes_On, g_printerr (Err_Message (From_Connection (Rpc error))) (sh\<lparr>sh_agent := st\<rparr>)))"

lemma asking_client_shown:
  assumes "implements n dbus_class" "lk_sends (se_link e)"
    and "\<And>p task client. at_result (fst (callback p (task, client))) = RPC_FINISH n (Some dbus_class) finish
        p"
    and "\<And>p task client. snd (callback p (task, client)) =
      (case RPC_FINISH n (Some dbus_class) finish p of Finish_True x \<Rightarrow> g x client | _ \<Rightarrow>
          client)"
    and "call (se_link e) m finish (sh_agent sh) = r"
  shows "(case asking_client e (RPC_ASYNC n (Some dbus_class) (Some m)) callback k sh of
      (r, sh') \<Rightarrow> callback_result command text r sh') =
    shown (\<lambda>x sh. k x (sh\<lparr>sh_client := g x (sh_client sh)\<rparr>)) sh r"
proof -
  have "call (se_link e) m (\<lambda>p. callback p s) st =
      (case serve (lk_env (se_link e)) (lk_introspection (se_link e)) (lk_self (se_link e))
          (m\<lparr>dm_sender := lk_sender (se_link e)\<rparr>) st of
         (res, st) \<Rightarrow> (callback (pk_connection_dbus_notify (reply_of res) pending_call_new) s, st))"
             for s st
    by (simp add: call_def)
  moreover have "r =
      (case serve (lk_env (se_link e)) (lk_introspection (se_link e)) (lk_self (se_link e))
          (m\<lparr>dm_sender := lk_sender (se_link e)\<rparr>) (sh_agent sh) of
         (res, st) \<Rightarrow> (finish (pk_connection_dbus_notify (reply_of res) pending_call_new), st))"
    using assms(5) by (simp add: call_def)
  moreover have "callback p (task, client) = (fst (callback p (task, client)), snd (callback p (task, client)))"
    for p task client
    by simp
  ultimately show ?thesis
    using assms(1,2,3,4)
    by (auto simp: asking_client_def shell_request_def async_task_wait_def sync_outcome_def RPC_FINISH_def
        implements_def
        shown_def callback_result_def case_prod_beta Let_def split: sum.splits)
qed

lemma asking_shown:
  assumes "implements n dbus_class" "lk_sends (se_link e)"
    and "\<And>p task. at_result (callback p task) = RPC_FINISH n (Some dbus_class) finish p"
    and "call (se_link e) m finish (sh_agent sh) = r"
  shows "(case asking e (RPC_ASYNC n (Some dbus_class) (Some m)) callback k sh of
      (r, sh') \<Rightarrow> callback_result command text r sh') = shown k sh r"
proof -
  have "(case asking e (RPC_ASYNC n (Some dbus_class) (Some m)) callback k sh of
      (r, sh') \<Rightarrow> callback_result command text r sh') =
    shown (\<lambda>x sh. k x (sh\<lparr>sh_client := (\<lambda>x client. client) x (sh_client sh)\<rparr>)) sh r"
    unfolding asking_def
    by (rule asking_client_shown [OF assms(1,2) _ _ assms(4)]) (simp_all add: assms(3) split: finished.split)
  then show ?thesis by simp
qed

text \<open>The connection object after the handlers of a subscription were set.\<close>

definition client_listens :: "gint \<Rightarrow> shell_client \<Rightarrow> shell_client" where
  "client_listens subscription client =
     snd (pk_connection_subscription_set_handlers_async (Some dbus_class) (fst client) subscription (snd client))"

lemma add_subscription_callback:
  "at_result (fst (pk_shell_manager_add_subscription_cb (Some dbus_class) p (task, client))) =
     RPC_FINISH ''manager_add_subscription'' (Some dbus_class) pk_connection_dbus_manager_add_subscription_finish
         p"
  "snd (pk_shell_manager_add_subscription_cb (Some dbus_class) p (task, client)) =
     (case RPC_FINISH ''manager_add_subscription'' (Some dbus_class)
         pk_connection_dbus_manager_add_subscription_finish p of
        Finish_True x \<Rightarrow> client_listens x client | _ \<Rightarrow> client)"
  by (simp_all add: pk_shell_manager_add_subscription_cb_def pk_connection_manager_add_subscription_finish_def
      client_listens_def async_task_signal_def Let_def split: finished.split prod.split)

lemma task_signal_result [simp]: "at_result (async_task_signal task) = at_result task"
  by (simp add: async_task_signal_def)

lemma numbers_first_simps [simp]:
  "numbers_first []" "numbers_first (a # args) \<longleftrightarrow> pk_shell_parse_int a \<noteq> None"
  by (simp_all add: numbers_first_def)

lemmas channel_shell_parts = parsing_int_def parsing_boolean_def parsing_argv_def
  pk_shell_channel_add_source_def pk_shell_channel_get_args_def pk_shell_channel_get_created_at_def
  pk_shell_channel_get_env_def pk_shell_channel_get_exit_status_def pk_shell_channel_get_kill_pid_def
  pk_shell_channel_get_pid_def pk_shell_channel_get_pid_set_def pk_shell_channel_get_sources_def
  pk_shell_channel_get_state_def pk_shell_channel_get_target_def pk_shell_channel_get_working_dir_def
  pk_shell_channel_mute_def pk_shell_channel_set_args_def pk_shell_channel_set_env_def
  pk_shell_channel_set_kill_pid_def pk_shell_channel_set_pid_def pk_shell_channel_set_target_def
  pk_shell_channel_set_working_dir_def pk_shell_channel_start_def pk_shell_channel_stop_def
  pk_shell_channel_unmute_def pk_shell_channel_add_source_cb_def pk_shell_channel_get_args_cb_def
  pk_shell_channel_get_created_at_cb_def pk_shell_channel_get_env_cb_def
  pk_shell_channel_get_exit_status_cb_def pk_shell_channel_get_kill_pid_cb_def pk_shell_channel_get_pid_cb_def
  pk_shell_channel_get_pid_set_cb_def pk_shell_channel_get_sources_cb_def pk_shell_channel_get_state_cb_def
  pk_shell_channel_get_target_cb_def pk_shell_channel_get_working_dir_cb_def pk_shell_channel_mute_cb_def
  pk_shell_channel_set_args_cb_def pk_shell_channel_set_env_cb_def pk_shell_channel_set_kill_pid_cb_def
  pk_shell_channel_set_pid_cb_def pk_shell_channel_set_target_cb_def pk_shell_channel_set_working_dir_cb_def
  pk_shell_channel_start_cb_def pk_shell_channel_stop_cb_def pk_shell_channel_unmute_cb_def
  pk_connection_channel_add_source_async_def pk_connection_channel_get_args_async_def
  pk_connection_channel_get_created_at_async_def pk_connection_channel_get_env_async_def
  pk_connection_channel_get_exit_status_async_def pk_connection_channel_get_kill_pid_async_def
  pk_connection_channel_get_pid_async_def pk_connection_channel_get_pid_set_async_def
  pk_connection_channel_get_sources_async_def pk_connection_channel_get_state_async_def
  pk_connection_channel_get_target_async_def pk_connection_channel_get_working_dir_async_def
  pk_connection_channel_mute_async_def pk_connection_channel_set_args_async_def
  pk_connection_channel_set_env_async_def pk_connection_channel_set_kill_pid_async_def
  pk_connection_channel_set_pid_async_def pk_connection_channel_set_target_async_def
  pk_connection_channel_set_working_dir_async_def pk_connection_channel_start_async_def
  pk_connection_channel_stop_async_def pk_connection_channel_unmute_async_def
  pk_connection_channel_add_source_finish_def pk_connection_channel_get_args_finish_def
  pk_connection_channel_get_created_at_finish_def pk_connection_channel_get_env_finish_def
  pk_connection_channel_get_exit_status_finish_def pk_connection_channel_get_kill_pid_finish_def
  pk_connection_channel_get_pid_finish_def pk_connection_channel_get_pid_set_finish_def
  pk_connection_channel_get_sources_finish_def pk_connection_channel_get_state_finish_def
  pk_connection_channel_get_target_finish_def pk_connection_channel_get_working_dir_finish_def
  pk_connection_channel_mute_finish_def pk_connection_channel_set_args_finish_def
  pk_connection_channel_set_env_finish_def pk_connection_channel_set_kill_pid_finish_def
  pk_connection_channel_set_pid_finish_def pk_connection_channel_set_target_finish_def
  pk_connection_channel_set_working_dir_finish_def pk_connection_channel_start_finish_def
  pk_connection_channel_stop_finish_def pk_connection_channel_unmute_finish_def

lemma channel_asking:
  assumes "se_conn e = Some dbus_class"
  shows
    "pk_shell_parse_int a = Some channel \<Longrightarrow> pk_shell_parse_int b = Some source \<Longrightarrow>
        pk_shell_channel_add_source e [a, b] sh =
      asking e (RPC_ASYNC ''channel_add_source'' (Some dbus_class) (Some
          (pk_connection_dbus_channel_add_source_async channel source))) (pk_shell_channel_add_source_cb (Some
          dbus_class)) (\<lambda>_. show_nothing) sh"
    "pk_shell_parse_int a = Some channel \<Longrightarrow> pk_shell_channel_get_args e [a] sh =
      asking e (RPC_ASYNC ''channel_get_args'' (Some dbus_class) (Some (pk_connection_dbus_channel_get_args_async
          channel))) (pk_shell_channel_get_args_cb (Some dbus_class)) (show_strings ''args'') sh"
    "pk_shell_parse_int a = Some channel \<Longrightarrow> pk_shell_channel_get_created_at e [a] sh =
      asking e (RPC_ASYNC ''channel_get_created_at'' (Some dbus_class) (Some
          (pk_connection_dbus_channel_get_created_at_async channel))) (pk_shell_channel_get_created_at_cb
          (lk_parse (se_link e)) (Some dbus_class)) (show_time e ''tv'') sh"
    "pk_shell_parse_int a = Some channel \<Longrightarrow> pk_shell_channel_get_env e [a] sh =
      asking e (RPC_ASYNC ''channel_get_env'' (Some dbus_class) (Some (pk_connection_dbus_channel_get_env_async
          channel))) (pk_shell_channel_get_env_cb (Some dbus_class)) (show_strings ''env'') sh"
    "pk_shell_parse_int a = Some channel \<Longrightarrow> pk_shell_channel_get_exit_status e [a] sh =
      asking e (RPC_ASYNC ''channel_get_exit_status'' (Some dbus_class) (Some
          (pk_connection_dbus_channel_get_exit_status_async channel))) (pk_shell_channel_get_exit_status_cb (Some
          dbus_class)) (show_int ''exit_status'' ''1'') sh"
    "pk_shell_parse_int a = Some channel \<Longrightarrow> pk_shell_channel_get_kill_pid e [a] sh =
      asking e (RPC_ASYNC ''channel_get_kill_pid'' (Some dbus_class) (Some
          (pk_connection_dbus_channel_get_kill_pid_async channel))) (pk_shell_channel_get_kill_pid_cb (Some
          dbus_class)) (show_boolean ''kill_pid'') sh"
    "pk_shell_parse_int a = Some channel \<Longrightarrow> pk_shell_channel_get_pid e [a] sh =
      asking e (RPC_ASYNC ''channel_get_pid'' (Some dbus_class) (Some (pk_connection_dbus_channel_get_pid_async
          channel))) (pk_shell_channel_get_pid_cb (Some dbus_class)) (show_int ''pid'' ''1'') sh"
    "pk_shell_parse_int a = Some channel \<Longrightarrow> pk_shell_channel_get_pid_set e [a] sh =
      asking e (RPC_ASYNC ''channel_get_pid_set'' (Some dbus_class) (Some
          (pk_connection_dbus_channel_get_pid_set_async channel))) (pk_shell_channel_get_pid_set_cb (Some
          dbus_class)) (show_boolean ''pid_set'') sh"
    "pk_shell_parse_int a = Some channel \<Longrightarrow> pk_shell_channel_get_sources e [a] sh =
      asking e (RPC_ASYNC ''channel_get_sources'' (Some dbus_class) (Some
          (pk_connection_dbus_channel_get_sources_async channel))) (pk_shell_channel_get_sources_cb (Some
          dbus_class)) (show_ints ''sources'' ''sources_len'') sh"
    "pk_shell_parse_int a = Some channel \<Longrightarrow> pk_shell_channel_get_state e [a] sh =
      asking e (RPC_ASYNC ''channel_get_state'' (Some dbus_class) (Some
          (pk_connection_dbus_channel_get_state_async channel))) (pk_shell_channel_get_state_cb (Some
          dbus_class)) show_state sh"
    "pk_shell_parse_int a = Some channel \<Longrightarrow> pk_shell_channel_get_target e [a] sh =
      asking e (RPC_ASYNC ''channel_get_target'' (Some dbus_class) (Some
          (pk_connection_dbus_channel_get_target_async channel))) (pk_shell_channel_get_target_cb (Some
          dbus_class)) (\<lambda>target. show_string ''target'' (Some target)) sh"
    "pk_shell_parse_int a = Some channel \<Longrightarrow> pk_shell_channel_get_working_dir e [a] sh =
      asking e (RPC_ASYNC ''channel_get_working_dir'' (Some dbus_class) (Some
          (pk_connection_dbus_channel_get_working_dir_async channel))) (pk_shell_channel_get_working_dir_cb (Some
          dbus_class)) (\<lambda>working_dir. show_string ''working_dir'' (Some working_dir)) sh"
    "pk_shell_parse_int a = Some channel \<Longrightarrow> pk_shell_channel_mute e [a] sh =
      asking e (RPC_ASYNC ''channel_mute'' (Some dbus_class) (Some (pk_connection_dbus_channel_mute_async
          channel))) (pk_shell_channel_mute_cb (Some dbus_class)) (\<lambda>_. show_nothing) sh"
    "pk_shell_parse_int a = Some channel \<Longrightarrow> le_parse_argv (se_line e) b = Inr args
        \<Longrightarrow> pk_shell_channel_set_args e [a, b] sh =
      asking e (RPC_ASYNC ''channel_set_args'' (Some dbus_class) (Some (the
          (pk_connection_dbus_channel_set_args_async channel (Some args))))) (pk_shell_channel_set_args_cb (Some
          dbus_class)) (\<lambda>_. show_nothing) sh"
    "pk_shell_parse_int a = Some channel \<Longrightarrow> le_parse_argv (se_line e) b = Inr env_vars
        \<Longrightarrow> pk_shell_channel_set_env e [a, b] sh =
      asking e (RPC_ASYNC ''channel_set_env'' (Some dbus_class) (Some (the
          (pk_connection_dbus_channel_set_env_async channel (Some env_vars))))) (pk_shell_channel_set_env_cb
          (Some dbus_class)) (\<lambda>_. show_nothing) sh"
    "pk_shell_parse_int a = Some channel \<Longrightarrow> pk_shell_parse_boolean (se_strdown e) b = Some
        kill_pid \<Longrightarrow> pk_shell_channel_set_kill_pid e [a, b] sh =
      asking e (RPC_ASYNC ''channel_set_kill_pid'' (Some dbus_class) (Some
          (pk_connection_dbus_channel_set_kill_pid_async channel kill_pid))) (pk_shell_channel_set_kill_pid_cb
          (Some dbus_class)) (\<lambda>_. show_nothing) sh"
    "pk_shell_parse_int a = Some channel \<Longrightarrow> pk_shell_parse_int b = Some pid \<Longrightarrow>
        pk_shell_channel_set_pid e [a, b] sh =
      asking e (RPC_ASYNC ''channel_set_pid'' (Some dbus_class) (Some (pk_connection_dbus_channel_set_pid_async
          channel pid))) (pk_shell_channel_set_pid_cb (Some dbus_class)) (\<lambda>_. show_nothing) sh"
    "pk_shell_parse_int a = Some channel \<Longrightarrow> pk_shell_channel_set_target e [a, b] sh =
      asking e (RPC_ASYNC ''channel_set_target'' (Some dbus_class) (Some
          (pk_connection_dbus_channel_set_target_async channel (Some b)))) (pk_shell_channel_set_target_cb (Some
          dbus_class)) (\<lambda>_. show_nothing) sh"
    "pk_shell_parse_int a = Some channel \<Longrightarrow> pk_shell_channel_set_working_dir e [a, b] sh =
      asking e (RPC_ASYNC ''channel_set_working_dir'' (Some dbus_class) (Some
          (pk_connection_dbus_channel_set_working_dir_async channel (Some b))))
          (pk_shell_channel_set_working_dir_cb (Some dbus_class)) (\<lambda>_. show_nothing) sh"
    "pk_shell_parse_int a = Some channel \<Longrightarrow> pk_shell_channel_start e [a] sh =
      asking e (RPC_ASYNC ''channel_start'' (Some dbus_class) (Some (pk_connection_dbus_channel_start_async
          channel))) (pk_shell_channel_start_cb (Some dbus_class)) (\<lambda>_. show_nothing) sh"
    "pk_shell_parse_int a = Some channel \<Longrightarrow> pk_shell_channel_stop e [a] sh =
      asking e (RPC_ASYNC ''channel_stop'' (Some dbus_class) (Some (pk_connection_dbus_channel_stop_async
          channel))) (pk_shell_channel_stop_cb (Some dbus_class)) (\<lambda>_. show_nothing) sh"
    "pk_shell_parse_int a = Some channel \<Longrightarrow> pk_shell_channel_unmute e [a] sh =
      asking e (RPC_ASYNC ''channel_unmute'' (Some dbus_class) (Some (pk_connection_dbus_channel_unmute_async
          channel))) (pk_shell_channel_unmute_cb (Some dbus_class)) (\<lambda>_. show_nothing) sh"
  by (simp_all add: channel_shell_parts assms pk_connection_dbus_channel_set_args_async_def
      pk_connection_dbus_channel_set_env_async_def del: implements_async)

lemma channel_results:
    "at_result (pk_shell_channel_add_source_cb (Some dbus_class) p task0) =
      RPC_FINISH ''channel_add_source'' (Some dbus_class) pk_connection_dbus_channel_add_source_finish p"
    "at_result (pk_shell_channel_get_args_cb (Some dbus_class) p task1) =
      RPC_FINISH ''channel_get_args'' (Some dbus_class) pk_connection_dbus_channel_get_args_finish p"
    "at_result (pk_shell_channel_get_created_at_cb parse (Some dbus_class) p task2) =
      RPC_FINISH ''channel_get_created_at'' (Some dbus_class) (pk_connection_dbus_channel_get_created_at_finish
          parse) p"
    "at_result (pk_shell_channel_get_env_cb (Some dbus_class) p task3) =
      RPC_FINISH ''channel_get_env'' (Some dbus_class) pk_connection_dbus_channel_get_env_finish p"
    "at_result (pk_shell_channel_get_exit_status_cb (Some dbus_class) p task4) =
      RPC_FINISH ''channel_get_exit_status'' (Some dbus_class) pk_connection_dbus_channel_get_exit_status_finish
          p"
    "at_result (pk_shell_channel_get_kill_pid_cb (Some dbus_class) p task5) =
      RPC_FINISH ''channel_get_kill_pid'' (Some dbus_class) pk_connection_dbus_channel_get_kill_pid_finish p"
    "at_result (pk_shell_channel_get_pid_cb (Some dbus_class) p task6) =
      RPC_FINISH ''channel_get_pid'' (Some dbus_class) pk_connection_dbus_channel_get_pid_finish p"
    "at_result (pk_shell_channel_get_pid_set_cb (Some dbus_class) p task7) =
      RPC_FINISH ''channel_get_pid_set'' (Some dbus_class) pk_connection_dbus_channel_get_pid_set_finish p"
    "at_result (pk_shell_channel_get_sources_cb (Some dbus_class) p task8) =
      RPC_FINISH ''channel_get_sources'' (Some dbus_class) pk_connection_dbus_channel_get_sources_finish p"
    "at_result (pk_shell_channel_get_state_cb (Some dbus_class) p task9) =
      RPC_FINISH ''channel_get_state'' (Some dbus_class) pk_connection_dbus_channel_get_state_finish p"
    "at_result (pk_shell_channel_get_target_cb (Some dbus_class) p task10) =
      RPC_FINISH ''channel_get_target'' (Some dbus_class) pk_connection_dbus_channel_get_target_finish p"
    "at_result (pk_shell_channel_get_working_dir_cb (Some dbus_class) p task11) =
      RPC_FINISH ''channel_get_working_dir'' (Some dbus_class) pk_connection_dbus_channel_get_working_dir_finish
          p"
    "at_result (pk_shell_channel_mute_cb (Some dbus_class) p task12) =
      RPC_FINISH ''channel_mute'' (Some dbus_class) pk_connection_dbus_channel_mute_finish p"
    "at_result (pk_shell_channel_set_args_cb (Some dbus_class) p task13) =
      RPC_FINISH ''channel_set_args'' (Some dbus_class) pk_connection_dbus_channel_set_args_finish p"
    "at_result (pk_shell_channel_set_env_cb (Some dbus_class) p task14) =
      RPC_FINISH ''channel_set_env'' (Some dbus_class) pk_connection_dbus_channel_set_env_finish p"
    "at_result (pk_shell_channel_set_kill_pid_cb (Some dbus_class) p task15) =
      RPC_FINISH ''channel_set_kill_pid'' (Some dbus_class) pk_connection_dbus_channel_set_kill_pid_finish p"
    "at_result (pk_shell_channel_set_pid_cb (Some dbus_class) p task16) =
      RPC_FINISH ''channel_set_pid'' (Some dbus_class) pk_connection_dbus_channel_set_pid_finish p"
    "at_result (pk_shell_channel_set_target_cb (Some dbus_class) p task17) =
      RPC_FINISH ''channel_set_target'' (Some dbus_class) pk_connection_dbus_channel_set_target_finish p"
    "at_result (pk_shell_channel_set_working_dir_cb (Some dbus_class) p task18) =
      RPC_FINISH ''channel_set_working_dir'' (Some dbus_class) pk_connection_dbus_channel_set_working_dir_finish
          p"
    "at_result (pk_shell_channel_start_cb (Some dbus_class) p task19) =
      RPC_FINISH ''channel_start'' (Some dbus_class) pk_connection_dbus_channel_start_finish p"
    "at_result (pk_shell_channel_stop_cb (Some dbus_class) p task20) =
      RPC_FINISH ''channel_stop'' (Some dbus_class) pk_connection_dbus_channel_stop_finish p"
    "at_result (pk_shell_channel_unmute_cb (Some dbus_class) p task21) =
      RPC_FINISH ''channel_unmute'' (Some dbus_class) pk_connection_dbus_channel_unmute_finish p"
  by (simp_all add: channel_shell_parts)

lemmas subscription_shell_parts = parsing_int_def parsing_boolean_def parsing_argv_def
  pk_shell_subscription_add_channel_def pk_shell_subscription_add_source_def
  pk_shell_subscription_get_buffer_def pk_shell_subscription_get_created_at_def
  pk_shell_subscription_get_sources_def pk_shell_subscription_mute_def pk_shell_subscription_remove_channel_def
  pk_shell_subscription_remove_source_def pk_shell_subscription_set_buffer_def
  pk_shell_subscription_set_encoder_def pk_shell_subscription_unmute_def
  pk_shell_subscription_add_channel_cb_def pk_shell_subscription_add_source_cb_def
  pk_shell_subscription_get_buffer_cb_def pk_shell_subscription_get_created_at_cb_def
  pk_shell_subscription_get_sources_cb_def pk_shell_subscription_mute_cb_def
  pk_shell_subscription_remove_channel_cb_def pk_shell_subscription_remove_source_cb_def
  pk_shell_subscription_set_buffer_cb_def pk_shell_subscription_set_encoder_cb_def
  pk_shell_subscription_unmute_cb_def pk_connection_subscription_add_channel_async_def
  pk_connection_subscription_add_source_async_def pk_connection_subscription_get_buffer_async_def
  pk_connection_subscription_get_created_at_async_def pk_connection_subscription_get_sources_async_def
  pk_connection_subscription_mute_async_def pk_connection_subscription_remove_channel_async_def
  pk_connection_subscription_remove_source_async_def pk_connection_subscription_set_buffer_async_def
  pk_connection_subscription_set_encoder_async_def pk_connection_subscription_unmute_async_def
  pk_connection_subscription_add_channel_finish_def pk_connection_subscription_add_source_finish_def
  pk_connection_subscription_get_buffer_finish_def pk_connection_subscription_get_created_at_finish_def
  pk_connection_subscription_get_sources_finish_def pk_connection_subscription_mute_finish_def
  pk_connection_subscription_remove_channel_finish_def pk_connection_subscription_remove_source_finish_def
  pk_connection_subscription_set_buffer_finish_def pk_connection_subscription_set_encoder_finish_def
  pk_connection_subscription_unmute_finish_def

lemma subscription_asking:
  assumes "se_conn e = Some dbus_class"
  shows
    "pk_shell_parse_int a = Some subscription \<Longrightarrow> pk_shell_parse_int b = Some channel
        \<Longrightarrow> pk_shell_parse_boolean (se_strdown e) c = Some monitor \<Longrightarrow>
        pk_shell_subscription_add_channel e [a, b, c] sh =
      asking e (RPC_ASYNC ''subscription_add_channel'' (Some dbus_class) (Some
          (pk_connection_dbus_subscription_add_channel_async subscription channel monitor)))
          (pk_shell_subscription_add_channel_cb (Some dbus_class)) (\<lambda>_. show_nothing) sh"
    "pk_shell_parse_int a = Some subscription \<Longrightarrow> pk_shell_parse_int b = Some source
        \<Longrightarrow> pk_shell_subscription_add_source e [a, b] sh =
      asking e (RPC_ASYNC ''subscription_add_source'' (Some dbus_class) (Some
          (pk_connection_dbus_subscription_add_source_async subscription source)))
          (pk_shell_subscription_add_source_cb (Some dbus_class)) (\<lambda>_. show_nothing) sh"
    "pk_shell_parse_int a = Some subscription \<Longrightarrow> pk_shell_subscription_get_buffer e [a] sh =
      asking e (RPC_ASYNC ''subscription_get_buffer'' (Some dbus_class) (Some
          (pk_connection_dbus_subscription_get_buffer_async subscription))) (pk_shell_subscription_get_buffer_cb
          (Some dbus_class)) (\<lambda>(timeout, size_arg) sh. show_int ''size'' ''2'' size_arg (show_int
          ''timeout'' ''1'' timeout sh)) sh"
    "pk_shell_parse_int a = Some subscription \<Longrightarrow> pk_shell_subscription_get_created_at e [a] sh =
      asking e (RPC_ASYNC ''subscription_get_created_at'' (Some dbus_class) (Some
          (pk_connection_dbus_subscription_get_created_at_async subscription)))
          (pk_shell_subscription_get_created_at_cb (lk_parse (se_link e)) (Some dbus_class)) (show_time e ''tv'')
          sh"
    "pk_shell_parse_int a = Some subscription \<Longrightarrow> pk_shell_subscription_get_sources e [a] sh =
      asking e (RPC_ASYNC ''subscription_get_sources'' (Some dbus_class) (Some
          (pk_connection_dbus_subscription_get_sources_async subscription)))
          (pk_shell_subscription_get_sources_cb (Some dbus_class)) (show_ints ''sources'' ''sources_len'') sh"
    "pk_shell_parse_int a = Some subscription \<Longrightarrow> pk_shell_parse_boolean (se_strdown e) b = Some
        drain \<Longrightarrow> pk_shell_subscription_mute e [a, b] sh =
      asking e (RPC_ASYNC ''subscription_mute'' (Some dbus_class) (Some
          (pk_connection_dbus_subscription_mute_async subscription drain))) (pk_shell_subscription_mute_cb (Some
          dbus_class)) (\<lambda>_. show_nothing) sh"
    "pk_shell_parse_int a = Some subscription \<Longrightarrow> pk_shell_parse_int b = Some channel
        \<Longrightarrow> pk_shell_subscription_remove_channel e [a, b] sh =
      asking e (RPC_ASYNC ''subscription_remove_channel'' (Some dbus_class) (Some
          (pk_connection_dbus_subscription_remove_channel_async subscription channel)))
          (pk_shell_subscription_remove_channel_cb (Some dbus_class)) (\<lambda>_. show_nothing) sh"
    "pk_shell_parse_int a = Some subscription \<Longrightarrow> pk_shell_parse_int b = Some source
        \<Longrightarrow> pk_shell_subscription_remove_source e [a, b] sh =
      asking e (RPC_ASYNC ''subscription_remove_source'' (Some dbus_class) (Some
          (pk_connection_dbus_subscription_remove_source_async subscription source)))
          (pk_shell_subscription_remove_source_cb (Some dbus_class)) (\<lambda>_. show_nothing) sh"
    "pk_shell_parse_int a = Some subscription \<Longrightarrow> pk_shell_parse_int b = Some timeout
        \<Longrightarrow> pk_shell_parse_int c = Some size_arg \<Longrightarrow> pk_shell_subscription_set_buffer
        e [a, b, c] sh =
      asking e (RPC_ASYNC ''subscription_set_buffer'' (Some dbus_class) (Some
          (pk_connection_dbus_subscription_set_buffer_async subscription timeout size_arg)))
          (pk_shell_subscription_set_buffer_cb (Some dbus_class)) (\<lambda>_. show_nothing) sh"
    "pk_shell_parse_int a = Some subscription \<Longrightarrow> pk_shell_parse_int b = Some encoder
        \<Longrightarrow> pk_shell_subscription_set_encoder e [a, b] sh =
      asking e (RPC_ASYNC ''subscription_set_encoder'' (Some dbus_class) (Some
          (pk_connection_dbus_subscription_set_encoder_async subscription encoder)))
          (pk_shell_subscription_set_encoder_cb (Some dbus_class)) (\<lambda>_. show_nothing) sh"
    "pk_shell_parse_int a = Some subscription \<Longrightarrow> pk_shell_subscription_unmute e [a] sh =
      asking e (RPC_ASYNC ''subscription_unmute'' (Some dbus_class) (Some
          (pk_connection_dbus_subscription_unmute_async subscription))) (pk_shell_subscription_unmute_cb (Some
          dbus_class)) (\<lambda>_. show_nothing) sh"
  by (simp_all add: subscription_shell_parts assms del: implements_async)

lemma subscription_results:
    "at_result (pk_shell_subscription_add_channel_cb (Some dbus_class) p task0) =
      RPC_FINISH ''subscription_add_channel'' (Some dbus_class)
          pk_connection_dbus_subscription_add_channel_finish p"
    "at_result (pk_shell_subscription_add_source_cb (Some dbus_class) p task1) =
      RPC_FINISH ''subscription_add_source'' (Some dbus_class) pk_connection_dbus_subscription_add_source_finish
          p"
    "at_result (pk_shell_subscription_get_buffer_cb (Some dbus_class) p task2) =
      RPC_FINISH ''subscription_get_buffer'' (Some dbus_class) pk_connection_dbus_subscription_get_buffer_finish
          p"
    "at_result (pk_shell_subscription_get_created_at_cb parse (Some dbus_class) p task3) =
      RPC_FINISH ''subscription_get_created_at'' (Some dbus_class)
          (pk_connection_dbus_subscription_get_created_at_finish parse) p"
    "at_result (pk_shell_subscription_get_sources_cb (Some dbus_class) p task4) =
      RPC_FINISH ''subscription_get_sources'' (Some dbus_class)
          pk_connection_dbus_subscription_get_sources_finish p"
    "at_result (pk_shell_subscription_mute_cb (Some dbus_class) p task5) =
      RPC_FINISH ''subscription_mute'' (Some dbus_class) pk_connection_dbus_subscription_mute_finish p"
    "at_result (pk_shell_subscription_remove_channel_cb (Some dbus_class) p task6) =
      RPC_FINISH ''subscription_remove_channel'' (Some dbus_class)
          pk_connection_dbus_subscription_remove_channel_finish p"
    "at_result (pk_shell_subscription_remove_source_cb (Some dbus_class) p task7) =
      RPC_FINISH ''subscription_remove_source'' (Some dbus_class)
          pk_connection_dbus_subscription_remove_source_finish p"
    "at_result (pk_shell_subscription_set_buffer_cb (Some dbus_class) p task8) =
      RPC_FINISH ''subscription_set_buffer'' (Some dbus_class) pk_connection_dbus_subscription_set_buffer_finish
          p"
    "at_result (pk_shell_subscription_set_encoder_cb (Some dbus_class) p task9) =
      RPC_FINISH ''subscription_set_encoder'' (Some dbus_class)
          pk_connection_dbus_subscription_set_encoder_finish p"
    "at_result (pk_shell_subscription_unmute_cb (Some dbus_class) p task10) =
      RPC_FINISH ''subscription_unmute'' (Some dbus_class) pk_connection_dbus_subscription_unmute_finish p"
  by (simp_all add: subscription_shell_parts)

lemmas manager_shell_parts = parsing_int_def parsing_boolean_def parsing_argv_def
  pk_shell_manager_add_channel_def pk_shell_manager_add_source_def pk_shell_manager_add_subscription_def
  pk_shell_manager_get_channels_def pk_shell_manager_get_hostname_def pk_shell_manager_get_plugins_def
  pk_shell_manager_get_sources_def pk_shell_manager_get_subscriptions_def pk_shell_manager_get_version_def
  pk_shell_manager_ping_def pk_shell_manager_remove_channel_def pk_shell_manager_remove_source_def
  pk_shell_manager_remove_subscription_def pk_shell_manager_add_channel_cb_def
  pk_shell_manager_add_source_cb_def pk_shell_manager_add_subscription_cb_def
  pk_shell_manager_get_channels_cb_def pk_shell_manager_get_hostname_cb_def pk_shell_manager_get_plugins_cb_def
  pk_shell_manager_get_sources_cb_def pk_shell_manager_get_subscriptions_cb_def
  pk_shell_manager_get_version_cb_def pk_shell_manager_ping_cb_def pk_shell_manager_remove_channel_cb_def
  pk_shell_manager_remove_source_cb_def pk_shell_manager_remove_subscription_cb_def
  pk_connection_manager_add_channel_async_def pk_connection_manager_add_source_async_def
  pk_connection_manager_add_subscription_async_def pk_connection_manager_get_channels_async_def
  pk_connection_manager_get_hostname_async_def pk_connection_manager_get_plugins_async_def
  pk_connection_manager_get_sources_async_def pk_connection_manager_get_subscriptions_async_def
  pk_connection_manager_get_version_async_def pk_connection_manager_ping_async_def
  pk_connection_manager_remove_channel_async_def pk_connection_manager_remove_source_async_def
  pk_connection_manager_remove_subscription_async_def pk_connection_manager_add_channel_finish_def
  pk_connection_manager_add_source_finish_def pk_connection_manager_add_subscription_finish_def
  pk_connection_manager_get_channels_finish_def pk_connection_manager_get_hostname_finish_def
  pk_connection_manager_get_plugins_finish_def pk_connection_manager_get_sources_finish_def
  pk_connection_manager_get_subscriptions_finish_def pk_connection_manager_get_version_finish_def
  pk_connection_manager_ping_finish_def pk_connection_manager_remove_channel_finish_def
  pk_connection_manager_remove_source_finish_def pk_connection_manager_remove_subscription_finish_def

lemma manager_asking:
  assumes "se_conn e = Some dbus_class"
  shows
    "pk_shell_manager_add_channel e [] sh =
      asking e (RPC_ASYNC ''manager_add_channel'' (Some dbus_class) (Some
          pk_connection_dbus_manager_add_channel_async)) (pk_shell_manager_add_channel_cb (Some dbus_class))
          (show_int ''channel'' ''1'') sh"
    "pk_shell_manager_add_source e [a] sh =
      asking e (RPC_ASYNC ''manager_add_source'' (Some dbus_class) (Some
          (pk_connection_dbus_manager_add_source_async (Some a)))) (pk_shell_manager_add_source_cb (Some
          dbus_class)) (show_int ''source'' ''1'') sh"
    "pk_shell_parse_int a = Some buffer_size_int \<Longrightarrow> pk_shell_parse_int b = Some timeout_int
        \<Longrightarrow> pk_shell_manager_add_subscription e [a, b] sh =
      asking_client e (RPC_ASYNC ''manager_add_subscription'' (Some dbus_class) (Some
          (pk_connection_dbus_manager_add_subscription_async (se_order e) (scast buffer_size_int) (scast
          timeout_int)))) (pk_shell_manager_add_subscription_cb (Some dbus_class)) (show_int ''subscription''
          ''1'') sh"
    "pk_shell_manager_get_channels e [] sh =
      asking e (RPC_ASYNC ''manager_get_channels'' (Some dbus_class) (Some
          pk_connection_dbus_manager_get_channels_async)) (pk_shell_manager_get_channels_cb (Some dbus_class))
          (show_ints ''channels'' ''channels_len'') sh"
    "pk_shell_manager_get_hostname e [] sh =
      asking e (RPC_ASYNC ''manager_get_hostname'' (Some dbus_class) (Some
          pk_connection_dbus_manager_get_hostname_async)) (pk_shell_manager_get_hostname_cb (Some dbus_class))
          (\<lambda>hostname_arg. show_string ''hostname'' (Some hostname_arg)) sh"
    "pk_shell_manager_get_plugins e [] sh =
      asking e (RPC_ASYNC ''manager_get_plugins'' (Some dbus_class) (Some
          pk_connection_dbus_manager_get_plugins_async)) (pk_shell_manager_get_plugins_cb (Some dbus_class))
          (\<lambda>plugins. show_strings ''plugins'' (strv plugins)) sh"
    "pk_shell_manager_get_sources e [] sh =
      asking e (RPC_ASYNC ''manager_get_sources'' (Some dbus_class) (Some
          pk_connection_dbus_manager_get_sources_async)) (pk_shell_manager_get_sources_cb (Some dbus_class))
          (show_ints ''sources'' ''sources_len'') sh"
    "pk_shell_manager_get_subscriptions e [] sh =
      asking e (RPC_ASYNC ''manager_get_subscriptions'' (Some dbus_class) (Some
          pk_connection_dbus_manager_get_subscriptions_async)) (pk_shell_manager_get_subscriptions_cb (Some
          dbus_class)) (show_ints ''subscriptions'' ''subscriptions_len'') sh"
    "pk_shell_manager_get_version e [] sh =
      asking e (RPC_ASYNC ''manager_get_version'' (Some dbus_class) (Some
          pk_connection_dbus_manager_get_version_async)) (pk_shell_manager_get_version_cb (Some dbus_class))
          (\<lambda>version. show_string ''version'' (Some version)) sh"
    "pk_shell_manager_ping e [] sh =
      asking e (RPC_ASYNC ''manager_ping'' (Some dbus_class) (Some pk_connection_dbus_manager_ping_async))
          (pk_shell_manager_ping_cb (lk_parse (se_link e)) (Some dbus_class)) (show_time e ''tv'') sh"
    "pk_shell_parse_int a = Some channel \<Longrightarrow> pk_shell_manager_remove_channel e [a] sh =
      asking e (RPC_ASYNC ''manager_remove_channel'' (Some dbus_class) (Some
          (pk_connection_dbus_manager_remove_channel_async channel))) (pk_shell_manager_remove_channel_cb (Some
          dbus_class)) (show_boolean ''removed'') sh"
    "pk_shell_parse_int a = Some source \<Longrightarrow> pk_shell_manager_remove_source e [a] sh =
      asking e (RPC_ASYNC ''manager_remove_source'' (Some dbus_class) (Some
          (pk_connection_dbus_manager_remove_source_async source))) (pk_shell_manager_remove_source_cb (Some
          dbus_class)) (\<lambda>_. show_nothing) sh"
    "pk_shell_parse_int a = Some subscription \<Longrightarrow> pk_shell_manager_remove_subscription e [a] sh =
      asking e (RPC_ASYNC ''manager_remove_subscription'' (Some dbus_class) (Some
          (pk_connection_dbus_manager_remove_subscription_async subscription)))
          (pk_shell_manager_remove_subscription_cb (Some dbus_class)) (show_boolean ''removed'') sh"
  by (simp_all add: manager_shell_parts assms del: implements_async)

lemma manager_results:
    "at_result (pk_shell_manager_add_channel_cb (Some dbus_class) p task0) =
      RPC_FINISH ''manager_add_channel'' (Some dbus_class) pk_connection_dbus_manager_add_channel_finish p"
    "at_result (pk_shell_manager_add_source_cb (Some dbus_class) p task1) =
      RPC_FINISH ''manager_add_source'' (Some dbus_class) pk_connection_dbus_manager_add_source_finish p"
    "at_result (pk_shell_manager_get_channels_cb (Some dbus_class) p task3) =
      RPC_FINISH ''manager_get_channels'' (Some dbus_class) pk_connection_dbus_manager_get_channels_finish p"
    "at_result (pk_shell_manager_get_hostname_cb (Some dbus_class) p task4) =
      RPC_FINISH ''manager_get_hostname'' (Some dbus_class) pk_connection_dbus_manager_get_hostname_finish p"
    "at_result (pk_shell_manager_get_plugins_cb (Some dbus_class) p task5) =
      RPC_FINISH ''manager_get_plugins'' (Some dbus_class) pk_connection_dbus_manager_get_plugins_finish p"
    "at_result (pk_shell_manager_get_sources_cb (Some dbus_class) p task6) =
      RPC_FINISH ''manager_get_sources'' (Some dbus_class) pk_connection_dbus_manager_get_sources_finish p"
    "at_result (pk_shell_manager_get_subscriptions_cb (Some dbus_class) p task7) =
      RPC_FINISH ''manager_get_subscriptions'' (Some dbus_class)
          pk_connection_dbus_manager_get_subscriptions_finish p"
    "at_result (pk_shell_manager_get_version_cb (Some dbus_class) p task8) =
      RPC_FINISH ''manager_get_version'' (Some dbus_class) pk_connection_dbus_manager_get_version_finish p"
    "at_result (pk_shell_manager_ping_cb parse (Some dbus_class) p task9) =
      RPC_FINISH ''manager_ping'' (Some dbus_class) (pk_connection_dbus_manager_ping_finish parse) p"
    "at_result (pk_shell_manager_remove_channel_cb (Some dbus_class) p task10) =
      RPC_FINISH ''manager_remove_channel'' (Some dbus_class) pk_connection_dbus_manager_remove_channel_finish p"
    "at_result (pk_shell_manager_remove_source_cb (Some dbus_class) p task11) =
      RPC_FINISH ''manager_remove_source'' (Some dbus_class) pk_connection_dbus_manager_remove_source_finish p"
    "at_result (pk_shell_manager_remove_subscription_cb (Some dbus_class) p task12) =
      RPC_FINISH ''manager_remove_subscription'' (Some dbus_class)
          pk_connection_dbus_manager_remove_subscription_finish p"
  by (simp_all add: manager_shell_parts)

lemma string_or_empty_Some: "string_or_empty (Some s) = s"
  by (simp add: string_or_empty_def)

text \<open>
  C32: every channel command that is typed into the shell does what the procedure of the agent does, and what the
      user
  sees is what the procedure gave: its value, printed and stored in the variable 1 for the next line, or its
      error. This
  is the whole way, from the words of the line over the table of commands, the parsed arguments, the client
      library,
  the bus and the listener to the agent, and back.
\<close>

theorem shell_channel_commands:
  assumes "se_conn e = Some dbus_class" "lk_sends (se_link e)" "pk_shell_parse_int a = Some channel"
    and "ld_paths (snd (sh_agent sh)) (channel_prefix @ fmt_int channel) = Some Channel_VTable"
  shows
    "(typed e text sh [ascii ''channel'', ascii ''add-source'', a, b] \<and> pk_shell_parse_int b = Some source
        \<longrightarrow>
      entered depth e text sh = shown (\<lambda>_. show_nothing) sh
        (direct (se_link e) id (pka_listener_channel_add_source_finish (env_gtypes (lk_env (se_link e)))
            (pka_listener_channel_add_source_async channel source)) (sh_agent sh))) \<and>
    (typed e text sh [ascii ''channel'', ascii ''get-args'', a] \<longrightarrow>
      entered depth e text sh = shown (show_strings ''args'') sh
        (direct (se_link e) (\<lambda>a. case a of None \<Rightarrow> [] | Some a \<Rightarrow> a)
            (pka_listener_channel_get_args_finish (pka_listener_channel_get_args_async channel)) (sh_agent sh)))
            \<and>
    (typed e text sh [ascii ''channel'', ascii ''get-created-at'', a] \<longrightarrow>
      entered depth e text sh = shown (show_time e ''tv'') sh
        (direct (se_link e) (reprint (se_link e)) (pka_listener_channel_get_created_at_finish
            (pka_listener_channel_get_created_at_async channel)) (sh_agent sh))) \<and>
    (typed e text sh [ascii ''channel'', ascii ''get-env'', a] \<longrightarrow>
      entered depth e text sh = shown (show_strings ''env'') sh
        (direct (se_link e) (\<lambda>a. case a of None \<Rightarrow> [] | Some a \<Rightarrow> a)
            (pka_listener_channel_get_env_finish (pka_listener_channel_get_env_async channel)) (sh_agent sh)))
            \<and>
    (typed e text sh [ascii ''channel'', ascii ''get-exit-status'', a] \<longrightarrow>
      entered depth e text sh = shown (show_int ''exit_status'' ''1'') sh
        (direct (se_link e) id (pka_listener_channel_get_exit_status_finish
            (pka_listener_channel_get_exit_status_async channel)) (sh_agent sh))) \<and>
    (typed e text sh [ascii ''channel'', ascii ''get-kill-pid'', a] \<longrightarrow>
      entered depth e text sh = shown (show_boolean ''kill_pid'') sh
        (direct (se_link e) id (pka_listener_channel_get_kill_pid_finish (pka_listener_channel_get_kill_pid_async
            channel)) (sh_agent sh))) \<and>
    (typed e text sh [ascii ''channel'', ascii ''get-pid'', a] \<longrightarrow>
      entered depth e text sh = shown (show_int ''pid'' ''1'') sh
        (direct (se_link e) word_of_int (pka_listener_channel_get_pid_finish (pka_listener_channel_get_pid_async
            channel)) (sh_agent sh))) \<and>
    (typed e text sh [ascii ''channel'', ascii ''get-pid-set'', a] \<longrightarrow>
      entered depth e text sh = shown (show_boolean ''pid_set'') sh
        (direct (se_link e) id (pka_listener_channel_get_pid_set_finish (pka_listener_channel_get_pid_set_async
            channel)) (sh_agent sh))) \<and>
    (typed e text sh [ascii ''channel'', ascii ''get-sources'', a] \<longrightarrow>
      entered depth e text sh = shown (show_ints ''sources'' ''sources_len'') sh
        (direct (se_link e) id (pka_listener_channel_get_sources_finish (pka_listener_channel_get_sources_async
            channel)) (sh_agent sh))) \<and>
    (typed e text sh [ascii ''channel'', ascii ''get-state'', a] \<longrightarrow>
      entered depth e text sh = shown (show_state) sh
        (direct (se_link e) channel_state_code (pka_listener_channel_get_state_finish
            (pka_listener_channel_get_state_async channel)) (sh_agent sh))) \<and>
    (typed e text sh [ascii ''channel'', ascii ''get-target'', a] \<longrightarrow>
      entered depth e text sh = shown (\<lambda>target. show_string ''target'' (Some target)) sh
        (direct (se_link e) string_or_empty (pka_listener_channel_get_target_finish
            (pka_listener_channel_get_target_async channel)) (sh_agent sh))) \<and>
    (typed e text sh [ascii ''channel'', ascii ''get-working-dir'', a] \<longrightarrow>
      entered depth e text sh = shown (\<lambda>working_dir. show_string ''working_dir'' (Some working_dir)) sh
        (direct (se_link e) string_or_empty (pka_listener_channel_get_working_dir_finish
            (pka_listener_channel_get_working_dir_async channel)) (sh_agent sh))) \<and>
    (typed e text sh [ascii ''channel'', ascii ''mute'', a] \<longrightarrow>
      entered depth e text sh = shown (\<lambda>_. show_nothing) sh
        (direct (se_link e) id (pka_listener_channel_mute_finish (pka_listener_channel_mute_async channel))
            (sh_agent sh))) \<and>
    (typed e text sh [ascii ''channel'', ascii ''set-args'', a, b] \<and> le_parse_argv (se_line e) b = Inr args
        \<longrightarrow>
      entered depth e text sh = shown (\<lambda>_. show_nothing) sh
        (direct (se_link e) id (pka_listener_channel_set_args_finish (pka_listener_channel_set_args_async channel
            (Some args))) (sh_agent sh))) \<and>
    (typed e text sh [ascii ''channel'', ascii ''set-env'', a, b] \<and> le_parse_argv (se_line e) b = Inr
        env_vars \<longrightarrow>
      entered depth e text sh = shown (\<lambda>_. show_nothing) sh
        (direct (se_link e) id (pka_listener_channel_set_env_finish (pka_listener_channel_set_env_async channel
            (Some env_vars))) (sh_agent sh))) \<and>
    (typed e text sh [ascii ''channel'', ascii ''set-kill-pid'', a, b] \<and> pk_shell_parse_boolean (se_strdown
        e) b = Some kill_pid \<longrightarrow>
      entered depth e text sh = shown (\<lambda>_. show_nothing) sh
        (direct (se_link e) id (pka_listener_channel_set_kill_pid_finish (pka_listener_channel_set_kill_pid_async
            channel kill_pid)) (sh_agent sh))) \<and>
    (typed e text sh [ascii ''channel'', ascii ''set-pid'', a, b] \<and> pk_shell_parse_int b = Some pid
        \<longrightarrow>
      entered depth e text sh = shown (\<lambda>_. show_nothing) sh
        (direct (se_link e) id (pka_listener_channel_set_pid_finish (pka_listener_channel_set_pid_async channel
            pid)) (sh_agent sh))) \<and>
    (typed e text sh [ascii ''channel'', ascii ''set-target'', a, b] \<longrightarrow>
      entered depth e text sh = shown (\<lambda>_. show_nothing) sh
        (direct (se_link e) id (pka_listener_channel_set_target_finish (pka_listener_channel_set_target_async
            channel (Some b))) (sh_agent sh))) \<and>
    (typed e text sh [ascii ''channel'', ascii ''set-working-dir'', a, b] \<longrightarrow>
      entered depth e text sh = shown (\<lambda>_. show_nothing) sh
        (direct (se_link e) id (pka_listener_channel_set_working_dir_finish
            (pka_listener_channel_set_working_dir_async channel (Some b))) (sh_agent sh))) \<and>
    (typed e text sh [ascii ''channel'', ascii ''start'', a] \<longrightarrow>
      entered depth e text sh = shown (\<lambda>_. show_nothing) sh
        (direct (se_link e) id (pka_listener_channel_start_finish (env_spawn (lk_env (se_link e))) (env_tmp
            (lk_env (se_link e))) (pka_listener_channel_start_async channel)) (sh_agent sh))) \<and>
    (typed e text sh [ascii ''channel'', ascii ''stop'', a] \<longrightarrow>
      entered depth e text sh = shown (\<lambda>_. show_nothing) sh
        (direct (se_link e) id (pka_listener_channel_stop_finish (pka_listener_channel_stop_async channel))
            (sh_agent sh))) \<and>
    (typed e text sh [ascii ''channel'', ascii ''unmute'', a] \<longrightarrow>
      entered depth e text sh = shown (\<lambda>_. show_nothing) sh
        (direct (se_link e) id (pka_listener_channel_unmute_finish (pka_listener_channel_unmute_async channel))
            (sh_agent sh)))"
proof -
  have num: "numbers_first (a # rest)" for rest using assms(3) by simp
  show ?thesis
    using channel_calls_over_bus [OF assms(4), where l = "se_link e" and ag = "fst (sh_agent sh)" and source =
        source
      and args = args and env_vars = env_vars and kill_pid = kill_pid and pid = pid and target = "Some b"
      and working_dir = "Some b", unfolded prod.collapse string_or_empty_Some] assms(1-3)
    by - (elim conjE, intro conjI impI; (elim conjE)?; subst channel_entered [OF num], assumption,
      subst channel_asking, assumption+, rule asking_shown [OF _ assms(2)], simp, rule channel_results,
          assumption)
qed

text \<open>
  The same for the commands of the manager, of which \<open>remove-channel\<close> always asks for channel 0
      and
  \<open>add-subscription\<close> always for a buffer of 0; it has handlers set for the subscription at once. (A
      plugin must not be called like one of these commands.)
\<close>

theorem shell_manager_commands:
  assumes "se_conn e = Some dbus_class" "lk_sends (se_link e)"
    and "ld_paths (snd (sh_agent sh)) manager_path = Some Manager_VTable"
    and "one_word p" "find (\<lambda>c. cmd_name c = p) (manager_commands e) = None"
  shows
    "(typed e text sh [ascii ''manager'', ascii ''add-channel''] \<longrightarrow>
      entered depth e text sh = shown (show_int ''channel'' ''1'') sh
        (direct (se_link e) id (pka_listener_manager_add_channel_finish (env_tmp (lk_env (se_link e))) (env_now
            (lk_env (se_link e)))) (sh_agent sh))) \<and>
    (typed e text sh [ascii ''manager'', ascii ''add-source'', p] \<longrightarrow>
      entered depth e text sh = shown (show_int ''source'' ''1'') sh
        (direct (se_link e) id (pka_listener_manager_add_source_finish (pka_listener_manager_add_source_async
            (Some p))) (sh_agent sh))) \<and>
    (typed e text sh [ascii ''manager'', ascii ''add-subscription'', a, b] \<and> pk_shell_parse_int a = Some
        buffer_size_int \<and> pk_shell_parse_int b = Some timeout_int \<longrightarrow>
      entered depth e text sh = shown (\<lambda>i sh. show_int ''subscription'' ''1'' i (sh\<lparr>sh_client :=
          client_listens i (sh_client sh)\<rparr>)) sh
        (direct (se_link e) id (pka_listener_manager_add_subscription_finish (env_now (lk_env (se_link e)))
            (pka_listener_manager_add_subscription_async 0 0)) (sh_agent sh))) \<and>
    (typed e text sh [ascii ''manager'', ascii ''get-channels''] \<longrightarrow>
      entered depth e text sh = shown (show_ints ''channels'' ''channels_len'') sh
        (direct (se_link e) id pka_listener_manager_get_channels_finish (sh_agent sh))) \<and>
    (typed e text sh [ascii ''manager'', ascii ''get-hostname''] \<longrightarrow>
      entered depth e text sh = shown (\<lambda>hostname_arg. show_string ''hostname'' (Some hostname_arg)) sh
        (direct (se_link e) id (pka_listener_manager_get_hostname_finish (env_hostname (lk_env (se_link e))))
            (sh_agent sh))) \<and>
    (typed e text sh [ascii ''manager'', ascii ''get-plugins''] \<longrightarrow>
      entered depth e text sh = shown (\<lambda>plugins. show_strings ''plugins'' (strv plugins)) sh
        (direct (se_link e) (map printed_word \<circ> takeWhile (\<lambda>p. p \<noteq> None))
            pka_listener_manager_get_plugins_finish (sh_agent sh))) \<and>
    (typed e text sh [ascii ''manager'', ascii ''get-sources''] \<longrightarrow>
      entered depth e text sh = shown (show_ints ''sources'' ''sources_len'') sh
        (direct (se_link e) id pka_listener_manager_get_sources_finish (sh_agent sh))) \<and>
    (typed e text sh [ascii ''manager'', ascii ''get-subscriptions''] \<longrightarrow>
      entered depth e text sh = shown (show_ints ''subscriptions'' ''subscriptions_len'') sh
        (direct (se_link e) id pka_listener_manager_get_subscriptions_finish (sh_agent sh))) \<and>
    (typed e text sh [ascii ''manager'', ascii ''get-version''] \<longrightarrow>
      entered depth e text sh = shown (\<lambda>version. show_string ''version'' (Some version)) sh
        (direct (se_link e) id (pka_listener_manager_get_version_finish (env_version (lk_env (se_link e))))
            (sh_agent sh))) \<and>
    (typed e text sh [ascii ''manager'', ascii ''ping''] \<longrightarrow>
      entered depth e text sh = shown (show_time e ''tv'') sh
        (direct (se_link e) (reprint (se_link e)) (pka_listener_manager_ping_finish (env_now (lk_env (se_link
            e)))) (sh_agent sh))) \<and>
    (typed e text sh [ascii ''manager'', ascii ''remove-channel'', a] \<and> pk_shell_parse_int a = Some channel
        \<longrightarrow>
      entered depth e text sh = shown (show_boolean ''removed'') sh
        (direct (se_link e) id (pka_listener_manager_remove_channel_finish
            (pka_listener_manager_remove_channel_async 0)) (sh_agent sh))) \<and>
    (typed e text sh [ascii ''manager'', ascii ''remove-source'', a] \<and> pk_shell_parse_int a = Some source
        \<longrightarrow>
      entered depth e text sh = shown (\<lambda>_. show_nothing) sh
        (direct (se_link e) id (pka_listener_manager_remove_source_finish
            (pka_listener_manager_remove_source_async source)) (sh_agent sh))) \<and>
    (typed e text sh [ascii ''manager'', ascii ''remove-subscription'', a] \<and> pk_shell_parse_int a = Some
        subscription \<longrightarrow>
      entered depth e text sh = shown (show_boolean ''removed'') sh
        (direct (se_link e) id (pka_listener_manager_remove_subscription_finish
            (pka_listener_manager_remove_subscription_async subscription)) (sh_agent sh)))"
proof -
  have num: "[p] = [] \<or> find (\<lambda>c. cmd_name c = hd [p]) (manager_commands e) = None"
    "([] :: cstring list) = [] \<or> find (\<lambda>c. cmd_name c = hd []) (manager_commands e) = None"
    "pk_shell_parse_int a = Some i \<Longrightarrow>
      a # rest = [] \<or> find (\<lambda>c. cmd_name c = hd (a # rest)) (manager_commands e) = None" for i rest
    using assms(5) number_no_command(3) by simp_all
  show ?thesis
    using manager_calls_over_bus [OF assms(3,4), where l = "se_link e" and ag = "fst (sh_agent sh)" and source =
        source
      and ord = "se_order e" and buffer_size = "scast buffer_size_int" and timeout = "scast timeout_int"
      and channel = channel and subscription = subscription, unfolded prod.collapse]
    by - (elim conjE, intro conjI impI; (elim conjE)?;
      (subst manager_entered [OF num(2)], assumption | subst manager_entered [OF num(3)], assumption, assumption |
        subst manager_entered [OF num(1)], assumption);
      subst manager_asking [OF assms(1)], (assumption+)?,
      (rule asking_shown [OF _ assms(2)], simp, rule manager_results, assumption |
        rule asking_client_shown [OF _ assms(2) add_subscription_callback], simp, assumption))
qed

definition split_words :: "cstring \<Rightarrow> cstring list" where
  "split_words text = foldr (\<lambda>c ws. if c = 32 then [] # ws else (case ws of [] \<Rightarrow> [[c]] | w #
      ws \<Rightarrow> (c # w) # ws))
     text [[]]"

text \<open>A shell for the applications, whose lines are split at the blanks, at the other end of the bus from
    an agent.\<close>

definition demo_shell_env :: "dbus_link \<Rightarrow> shell_env" where
  "demo_shell_env l =
     \<lparr>se_conn = Some dbus_class, se_link = l, se_order = G_LITTLE_ENDIAN,
      se_line = \<lparr>le_parse_argv = Inr \<circ> split_words, le_read_lines = Inl \<circ> Glib_Error\<rparr>,
      se_strdown = map g_ascii_tolower, se_iso8601 = env_iso8601 (lk_env l), se_double = (\<lambda>x. []),
          se_float = (\<lambda>x. []),
      se_home = [47], se_is_dir = (\<lambda>d. False),
      se_chdir = (\<lambda>d. False)\<rparr>"

definition demo_shell_client :: shell_client where
  "demo_shell_client = (0, pk_connection_dbus_handle_connection pk_connection_dbus_init)"

lemma demo_shell_simps [simp]:
  "se_conn (demo_shell_env l) = Some dbus_class" "se_link (demo_shell_env l) = l"
  "le_parse_argv (se_line (demo_shell_env l)) text = Inr (split_words text)"
  by (simp_all add: demo_shell_env_def)

lemma demo_shell_new: "sh_agent (shell_new client st) = st"
  by (simp add: shell_new_def egg_line_set_prompt_def egg_line.defs)

theorem shell_channel_commands_witness:
  "\<forall>l. entered 9 (demo_shell_env (l\<lparr>lk_sends := True\<rparr>)) (ascii ''channel stop 0'')
      (shell_new demo_shell_client (demo_tied, demo_objects)) =
     shown (\<lambda>_. show_nothing) (shell_new demo_shell_client (demo_tied, demo_objects))
       (direct (l\<lparr>lk_sends := True\<rparr>) id (pka_listener_channel_stop_finish
           (pka_listener_channel_stop_async 0))
         (demo_tied, demo_objects))"
proof
  fix l :: dbus_link
  let ?l = "l\<lparr>lk_sends := True\<rparr>" and ?text = "ascii ''channel stop 0''"
  let ?e = "demo_shell_env ?l" and ?sh = "shell_new demo_shell_client (demo_tied, demo_objects)"
  have "split_words ?text = [ascii ''channel'', ascii ''stop'', [48]]"
    by (simp add: split_words_def ascii_def)
  moreover have "egg_line_expand ?sh (ascii ''channel'') = ascii ''channel''"
      "egg_line_expand ?sh (ascii ''stop'') = ascii ''stop''" "egg_line_expand ?sh [48] = [48]"
    by (simp_all add: egg_line_expand_def ascii_def)
  ultimately have "typed ?e ?text ?sh [ascii ''channel'', ascii ''stop'', [48]]"
    by (simp add: typed_def) (simp add: egg_line_is_assignment_def ascii_def)
  moreover have "pk_shell_parse_int [48] = Some 0" using parse_digits [of 0] by (simp add: digits_zero)
  moreover have "ld_paths (snd (sh_agent ?sh)) (channel_prefix @ fmt_int 0) = Some Channel_VTable"
    using demo_objects_paths(1) by (simp add: demo_shell_new)
  ultimately show "entered 9 ?e ?text ?sh =
     shown (\<lambda>_. show_nothing) ?sh
       (direct ?l id (pka_listener_channel_stop_finish (pka_listener_channel_stop_async 0)) (demo_tied,
           demo_objects))"
    using shell_channel_commands [of ?e "[48]" 0 ?sh ?text, where depth = 9] by (simp only: demo_shell_new
        demo_shell_simps) simp
qed

section \<open>Two lines\<close>

lemma take_channel_notice:
  assumes "self \<in> set listeners"
  shows "ld_paths (take_notices self (map (\<lambda>l. (l, channel_added channel)) listeners) ld) (channel_prefix
      @ fmt_int channel) =
    Some Channel_VTable"
proof -
  have on: "ld_paths (foldl (\<lambda>ld n. pka_listener_dbus_notice n ld) ld (map snd (map (\<lambda>l. (l,
      channel_added channel)) ls)))
      (channel_prefix @ fmt_int channel) = Some Channel_VTable"
    if "ld_paths ld (channel_prefix @ fmt_int channel) = Some Channel_VTable" for ls :: "nat list" and ld
    using that by (induction ls arbitrary: ld)
      (simp_all add: pka_listener_dbus_notice_def pka_listener_dbus_channel_added_def send_signal_def
        register_object_path_def Let_def)
  have "filter (\<lambda>n. fst n = self) (map (\<lambda>l. (l, channel_added channel)) listeners) =
      map (\<lambda>l. (l, channel_added channel)) (filter (\<lambda>l. l = self) listeners)"
    by (simp add: filter_map comp_def)
  moreover obtain l ls where "filter (\<lambda>l. l = self) listeners = l # ls"
    using assms by (cases "filter (\<lambda>l. l = self) listeners") (auto simp: filter_empty_conv)
  ultimately show ?thesis
    by (simp add: take_notices_def) (rule on [unfolded map_map], simp add: pka_listener_dbus_notice_def
        pka_listener_dbus_channel_added_def send_signal_def register_object_path_def Let_def)
qed

text \<open>
  The variable that a command sets is the argument of the next. After \<open>manager add-channel\<close>,
      whose answer is
  printed and kept in the variable 1, the line \<open>channel start $1\<close> runs the agent's start procedure
      on the channel that
  the first line made, whose object the listener has registered in the meantime.
\<close>

theorem shell_script:
  assumes "se_conn e = Some dbus_class" "lk_sends (se_link e)" "sh_agent sh = (ag, ld)"
    and "ld_paths ld manager_path = Some Manager_VTable" "lk_self (se_link e) \<in> set (ag_listeners ag)"
    and "pka_listener_manager_add_channel_finish (env_tmp (lk_env (se_link e))) (env_now (lk_env (se_link e))) ag
        =
      (Ok channel, ag1)"
    and "typed e text sh [ascii ''manager'', ascii ''add-channel'']"
    and "le_parse_argv (se_line e) next_text = Inr [ascii ''channel'', ascii ''start'', [36, 49]]"
    and "next_text \<noteq> []" "take 1 next_text \<noteq> [35]" "\<not> egg_line_is_assignment next_text"
  shows "\<exists>sh1. entered depth e text sh = (Goes_On, sh1) \<and> fst (sh_agent sh1) = ag1 \<and>
    el_out sh1 = el_out sh @ [Out (show_field ''channel'' (fmt_int channel))] \<and>
    egg_line_get_variable [49] sh1 = Some (fmt_int channel) \<and>
    entered depth e next_text sh1 = shown (\<lambda>_. show_nothing) sh1
      (direct (se_link e) id
         (pka_listener_channel_start_finish (env_spawn (lk_env (se_link e))) (env_tmp (lk_env (se_link e)))
            (pka_listener_channel_start_async channel))
         (sh_agent sh1))"
proof -
  let ?l = "se_link e"
  define ld1 where "ld1 = take_notices (lk_self ?l) (drop (length (ag_notices ag)) (ag_notices ag1)) ld"
  define sh1 where "sh1 = show_int ''channel'' ''1'' channel (sh\<lparr>sh_agent := (ag1, ld1)\<rparr>)"
  have new: "ag_notices ag1 = ag_notices ag @ map (\<lambda>l. (l, channel_added channel)) (ag_listeners ag)"
    using assms(6) by (auto simp: pka_listener_manager_add_channel_finish_def pka_manager_add_channel_def
        manager_authorize_def notify_listeners_def channel_object_new_def Let_def split: if_splits prod.splits
            ans.splits)
  have path: "ld_paths ld1 (channel_prefix @ fmt_int channel) = Some Channel_VTable"
    using take_channel_notice [OF assms(5)] by (simp add: ld1_def new)
  have "call ?l pk_connection_dbus_manager_add_channel_async pk_connection_dbus_manager_add_channel_finish (ag,
      ld) =
      direct ?l id (pka_listener_manager_add_channel_finish (env_tmp (lk_env ?l)) (env_now (lk_env ?l))) (ag, ld)"
    using manager_calls_over_bus [OF assms(4), of "[65]"] by (simp add: one_word_def is_space_def)
  also have "\<dots> = (Inr channel, ag1, ld1)"
    by (simp add: direct_def assms(6) outcome_of_def ld1_def)
  finally have c: "call ?l pk_connection_dbus_manager_add_channel_async
      pk_connection_dbus_manager_add_channel_finish
      (ag, ld) = (Inr channel, ag1, ld1)" .
  have "entered depth e text sh = shown (show_int ''channel'' ''1'') sh (Inr channel, ag1, ld1)"
    by (subst manager_entered(1) [OF _ assms(7)], simp, subst manager_asking(1) [OF assms(1)],
        rule asking_shown [OF _ assms(2) manager_results(1)]) (simp_all add: assms(3) c)
  then have first: "entered depth e text sh = (Goes_On, sh1)"
    by (simp add: shown_def sh1_def)
  have sh1: "sh_agent sh1 = (ag1, ld1)" "el_keys sh1 [49] = Some (fmt_int channel)"
      "el_out sh1 = el_out sh @ [Out (show_field ''channel'' (fmt_int channel))]"
    by (simp_all add: sh1_def show_int_def egg_line_set_variable_def g_print_def ascii_def)
  have t: "typed e next_text sh1 [ascii ''channel'', ascii ''start'', fmt_int channel]"
    using assms(8-11) sh1(2) by (simp add: typed_def egg_line_expand_def ascii_def)
  have c2: "call ?l (pk_connection_dbus_channel_start_async channel) pk_connection_dbus_channel_start_finish
      (ag1, ld1) =
      direct ?l id (pka_listener_channel_start_finish (env_spawn (lk_env ?l)) (env_tmp (lk_env ?l))
         (pka_listener_channel_start_async channel)) (ag1, ld1)"
    using channel_calls_over_bus [OF path, where l = ?l and ag = ag1] by blast
  have "entered depth e next_text sh1 = shown (\<lambda>_. show_nothing) sh1
      (direct ?l id (pka_listener_channel_start_finish (env_spawn (lk_env ?l)) (env_tmp (lk_env ?l))
         (pka_listener_channel_start_async channel)) (sh_agent sh1))"
    by (subst channel_entered(20) [OF _ t], simp, subst channel_asking(20) [OF assms(1)], simp,
        rule asking_shown [OF _ assms(2) channel_results(20)]) (simp_all add: sh1(1) c2)
  with first sh1 show ?thesis by (intro exI [of _ sh1]) (simp add: egg_line_get_variable_def)
qed

theorem shell_script_witness:
  "\<forall>l. \<exists>channel ag1 sh1.
     pka_listener_manager_add_channel_finish (env_tmp (lk_env l)) (env_now (lk_env l))
       (demo_tied\<lparr>ag_listeners := [lk_self l]\<rparr>) = (Ok channel, ag1) \<and>
     entered 9 (demo_shell_env (l\<lparr>lk_sends := True\<rparr>)) (ascii ''manager add-channel'')
       (shell_new demo_shell_client (demo_tied\<lparr>ag_listeners := [lk_self l]\<rparr>, demo_objects)) =
           (Goes_On, sh1) \<and>
     entered 9 (demo_shell_env (l\<lparr>lk_sends := True\<rparr>)) (ascii ''channel start $1'') sh1 =
       shown (\<lambda>_. show_nothing) sh1
         (direct (l\<lparr>lk_sends := True\<rparr>) id
            (pka_listener_channel_start_finish (env_spawn (lk_env l)) (env_tmp (lk_env l))
               (pka_listener_channel_start_async channel)) (sh_agent sh1))"
proof
  fix l :: dbus_link
  let ?e = "demo_shell_env (l\<lparr>lk_sends := True\<rparr>)" and ?ag = "demo_tied\<lparr>ag_listeners :=
      [lk_self l]\<rparr>"
  let ?sh = "shell_new demo_shell_client (?ag, demo_objects)"
  obtain channel ag1 where add: "pka_listener_manager_add_channel_finish (env_tmp (lk_env l)) (env_now (lk_env
      l)) ?ag =
      (Ok channel, ag1)"
    by (simp add: listener_finish pka_manager_add_channel_def channel_object_new_def manager_ops Let_def)
  have "split_words (ascii ''manager add-channel'') = [ascii ''manager'', ascii ''add-channel'']"
    by (simp add: split_words_def ascii_def)
  moreover have "egg_line_expand ?sh (ascii ''manager'') = ascii ''manager''"
      "egg_line_expand ?sh (ascii ''add-channel'') = ascii ''add-channel''"
    by (simp_all add: egg_line_expand_def ascii_def)
  ultimately have t: "typed ?e (ascii ''manager add-channel'') ?sh [ascii ''manager'', ascii ''add-channel'']"
    by (simp add: typed_def) (simp add: egg_line_is_assignment_def ascii_def)
  have w: "le_parse_argv (se_line ?e) (ascii ''channel start $1'') =
      Inr [ascii ''channel'', ascii ''start'', [36, 49]]"
      "ascii ''channel start $1'' \<noteq> []" "take 1 (ascii ''channel start $1'') \<noteq> [35]"
      "\<not> egg_line_is_assignment (ascii ''channel start $1'')"
    by (simp_all add: split_words_def ascii_def egg_line_is_assignment_def)
  have "\<exists>sh1. entered 9 ?e (ascii ''manager add-channel'') ?sh = (Goes_On, sh1) \<and> fst (sh_agent sh1)
      = ag1 \<and>
    el_out sh1 = el_out ?sh @ [Out (show_field ''channel'' (fmt_int channel))] \<and>
    egg_line_get_variable [49] sh1 = Some (fmt_int channel) \<and>
    entered 9 ?e (ascii ''channel start $1'') sh1 = shown (\<lambda>_. show_nothing) sh1
      (direct (se_link ?e) id
         (pka_listener_channel_start_finish (env_spawn (lk_env (se_link ?e))) (env_tmp (lk_env (se_link ?e)))
            (pka_listener_channel_start_async channel)) (sh_agent sh1))"
    using shell_script [OF _ _ _ _ _ _ t w, of ?ag demo_objects channel ag1] demo_objects_paths(3) add
    by (simp add: demo_shell_new)
  then show "\<exists>channel ag1 sh1.
     pka_listener_manager_add_channel_finish (env_tmp (lk_env l)) (env_now (lk_env l)) ?ag = (Ok channel, ag1)
         \<and>
     entered 9 ?e (ascii ''manager add-channel'') ?sh = (Goes_On, sh1) \<and>
     entered 9 ?e (ascii ''channel start $1'') sh1 =
       shown (\<lambda>_. show_nothing) sh1
         (direct (l\<lparr>lk_sends := True\<rparr>) id
            (pka_listener_channel_start_finish (env_spawn (lk_env l)) (env_tmp (lk_env l))
               (pka_listener_channel_start_async channel)) (sh_agent sh1))"
    using add by auto
qed

section \<open>Words between\<close>

text \<open>Where no command has a generator, the word after a command is looked up in the table of the command
    itself.\<close>

lemma resolve_beside:
  assumes "set vs \<subseteq> set (map cmd_name table)" "\<forall>c \<in> set table. cmd_generator c = None"
    and "find (\<lambda>c. cmd_name c = v) table = Some c" "args = [] \<or> find (\<lambda>c. cmd_name c = hd
        args) table = None"
  shows "resolve_words table (Some table) result (vs @ v # args) = (Some c, args)"
  using assms(1)
proof (induction vs arbitrary: result)
  case Nil
  have "cmd_generator c = None" using assms(2,3) by (auto simp: find_Some_iff)
  then show ?case using assms(3,4) by (cases args) simp_all
next
  case (Cons w vs)
  then obtain c' where "find (\<lambda>c. cmd_name c = w) table = Some c'"
    by (cases "find (\<lambda>c. cmd_name c = w) table") (auto simp: find_None_iff)
  moreover then have "cmd_generator c' = None" using assms(2) by (auto simp: find_Some_iff)
  ultimately show ?case using Cons by simp
qed

text \<open>
  Words too many are skipped, not refused. Any number of names of commands may stand between
      \<open>channel\<close> and the
  command that is run: \<open>channel stop unmute start 0\<close> starts the channel, though it is no command,
      and neither \<open>stop\<close>
  nor \<open>unmute\<close> is run or complained about.
\<close>

theorem shell_skips_words:
  assumes "typed e text sh (ascii ''channel'' # vs @ [ascii ''start'', a])"
    and "set vs \<subseteq> set (map cmd_name (channel_commands e))" "pk_shell_parse_int a = Some channel"
    and "se_conn e = Some dbus_class" "lk_sends (se_link e)"
    and "ld_paths (snd (sh_agent sh)) (channel_prefix @ fmt_int channel) = Some Channel_VTable"
  shows "entered depth e text sh = shown (\<lambda>_. show_nothing) sh
    (direct (se_link e) id
       (pka_listener_channel_start_finish (env_spawn (lk_env (se_link e))) (env_tmp (lk_env (se_link e)))
          (pka_listener_channel_start_async channel)) (sh_agent sh))"
proof -
  let ?l = "se_link e"
  have start: "find (\<lambda>c. cmd_name c = ascii ''start'') (channel_commands e) = Some (channel_commands e !
      19)"
    by (simp add: channel_commands_def)
  have leafs: "\<forall>c \<in> set (channel_commands e). cmd_generator c = None"
    using channel_table(2) [of e] by (simp add: channel_commands_def)
  have "resolve_words (root_commands e) None None (ascii ''channel'' # vs @ [ascii ''start'', a]) =
      (Some (channel_commands e ! 19), [a])"
    using resolve_beside [OF assms(2) leafs start, of "[a]"] root_tables(1) [of e] number_no_command(1) [OF
        assms(3)]
    by simp
  then have "entered depth e text sh =
      (case pk_shell_channel_start e [a] sh of (r, sh') \<Rightarrow> callback_result (channel_commands e ! 19)
          text r sh')"
    using assms(1)
    by (auto simp: typed_def entered_def egg_line_execute_def execute_with_def egg_line_resolve_def
        shell_setup_def
        channel_commands_def)
  moreover have "call ?l (pk_connection_dbus_channel_start_async channel) pk_connection_dbus_channel_start_finish
      (sh_agent sh) =
      direct ?l id (pka_listener_channel_start_finish (env_spawn (lk_env ?l)) (env_tmp (lk_env ?l))
         (pka_listener_channel_start_async channel)) (sh_agent sh)"
    using channel_calls_over_bus [OF assms(6), where l = ?l and ag = "fst (sh_agent sh)", unfolded prod.collapse]
        by blast
  ultimately show ?thesis
    by (simp only: , subst channel_asking(20) [OF assms(4,3)])
      (rule asking_shown [OF _ assms(5) channel_results(20)]; simp)
qed

theorem shell_skips_words_witness:
  "\<forall>l. entered 9 (demo_shell_env (l\<lparr>lk_sends := True\<rparr>)) (ascii
      ''channel stop unmute start 0'')
      (shell_new demo_shell_client (demo_tied, demo_objects)) =
     shown (\<lambda>_. show_nothing) (shell_new demo_shell_client (demo_tied, demo_objects))
       (direct (l\<lparr>lk_sends := True\<rparr>) id
          (pka_listener_channel_start_finish (env_spawn (lk_env l)) (env_tmp (lk_env l))
             (pka_listener_channel_start_async 0)) (demo_tied, demo_objects))"
proof
  fix l :: dbus_link
  let ?l = "l\<lparr>lk_sends := True\<rparr>" and ?text = "ascii ''channel stop unmute start 0''"
  let ?e = "demo_shell_env ?l" and ?sh = "shell_new demo_shell_client (demo_tied, demo_objects)"
  have "split_words ?text = [ascii ''channel'', ascii ''stop'', ascii ''unmute'', ascii ''start'', [48]]"
    by (simp add: split_words_def ascii_def)
  moreover have "egg_line_expand ?sh (ascii ''channel'') = ascii ''channel''"
      "egg_line_expand ?sh (ascii ''stop'') = ascii ''stop''" "egg_line_expand ?sh [48] = [48]"
      "egg_line_expand ?sh (ascii ''unmute'') = ascii ''unmute''" "egg_line_expand ?sh (ascii ''start'') = ascii
          ''start''"
    by (simp_all add: egg_line_expand_def ascii_def)
  ultimately have "typed ?e ?text ?sh (ascii ''channel'' # [ascii ''stop'', ascii ''unmute''] @ [ascii ''start'',
      [48]])"
    by (simp add: typed_def) (simp add: egg_line_is_assignment_def ascii_def)
  moreover have "set [ascii ''stop'', ascii ''unmute''] \<subseteq> set (map cmd_name (channel_commands ?e))"
    unfolding channel_table(1) by simp
  moreover have "pk_shell_parse_int [48] = Some 0" using parse_digits [of 0] by (simp add: digits_zero)
  moreover have "ld_paths (snd (sh_agent ?sh)) (channel_prefix @ fmt_int 0) = Some Channel_VTable"
    using demo_objects_paths(1) by (simp add: demo_shell_new)
  ultimately show "entered 9 ?e ?text ?sh = shown (\<lambda>_. show_nothing) ?sh
       (direct ?l id (pka_listener_channel_start_finish (env_spawn (lk_env l)) (env_tmp (lk_env l))
             (pka_listener_channel_start_async 0)) (demo_tied, demo_objects))"
    using shell_skips_words [of ?e ?text ?sh "[ascii ''stop'', ascii ''unmute'']" "[48]" 0 9]
    by (simp only: demo_shell_new demo_shell_simps) simp
qed

theorem shell_manager_commands_witness:
  "\<forall>l. entered 9 (demo_shell_env (l\<lparr>lk_sends := True\<rparr>)) (ascii ''manager get-channels'')
      (shell_new demo_shell_client (demo_tied, demo_objects)) =
     shown (show_ints ''channels'' ''channels_len'') (shell_new demo_shell_client (demo_tied, demo_objects))
       (direct (l\<lparr>lk_sends := True\<rparr>) id pka_listener_manager_get_channels_finish (demo_tied,
           demo_objects))"
proof
  fix l :: dbus_link
  let ?l = "l\<lparr>lk_sends := True\<rparr>" and ?text = "ascii ''manager get-channels''"
  let ?e = "demo_shell_env ?l" and ?sh = "shell_new demo_shell_client (demo_tied, demo_objects)"
  have "split_words ?text = [ascii ''manager'', ascii ''get-channels'']"
    by (simp add: split_words_def ascii_def)
  moreover have "egg_line_expand ?sh (ascii ''manager'') = ascii ''manager''"
      "egg_line_expand ?sh (ascii ''get-channels'') = ascii ''get-channels''"
    by (simp_all add: egg_line_expand_def ascii_def)
  ultimately have "typed ?e ?text ?sh [ascii ''manager'', ascii ''get-channels'']"
    by (simp add: typed_def) (simp add: egg_line_is_assignment_def ascii_def)
  moreover have "ld_paths (snd (sh_agent ?sh)) manager_path = Some Manager_VTable"
    using demo_objects_paths(3) by (simp add: demo_shell_new)
  moreover have "one_word [48]" by (simp add: one_word_def is_space_def)
  moreover have "find (\<lambda>c. cmd_name c = [48]) (manager_commands ?e) = None"
    by (rule number_no_command [of _ 0]) (use parse_digits [of 0] in \<open>simp add: digits_zero\<close>)
  ultimately show "entered 9 ?e ?text ?sh = shown (show_ints ''channels'' ''channels_len'') ?sh
       (direct ?l id pka_listener_manager_get_channels_finish (demo_tied, demo_objects))"
    using shell_manager_commands [of ?e ?sh "[48]" ?text, where depth = 9]
    by (simp only: demo_shell_new demo_shell_simps) simp
qed

end
