(* ===== verification/Shell_Delivery.thy ===== *)
theory Shell_Delivery
  imports End_To_End Shell_Properties
begin

text \<open>
  What the shell prints of the samples that reach it: the names are those that the source gave its rows at the agent,
  the values those that it appended.
\<close>

lemma rows_print_all:
  assumes "\<forall>i \<in> set is. row_prints e m s i = Some (f i)"
  shows "rows_print e m s is = Some (concat (map f is))"
  using assms by (induction "is") simp_all

lemma fold_g_print:
  "fold g_print ps sh = sh\<lparr>el_out := el_out sh @ map Out ps\<rparr>"
  by (induction ps arbitrary: sh) (simp_all add: g_print_def)

text \<open>The lines for the row with an index, by the manifest of the agent and the fields that the source appended.\<close>

definition printed_row :: "shell_env \<Rightarrow> pka_manifest \<Rightarrow> (guint \<times> g_value) list \<Rightarrow> nat \<Rightarrow> cstring list" where
  "printed_row e m fvs k =
     (case find_field (word_of_nat (Suc k)) fvs of
        None \<Rightarrow> []
      | Some v \<Rightarrow>
          [[32, 32] @ right_aligned 32 (row_name (pm_rows m ! k)) @ [32, 61, 32], value_text e v, [10]])"

lemma row_prints_agent:
  assumes "manifest_inv gt m" "k < length (pm_rows m)"
  shows "row_prints e (client_manifest m) (client_sample m s fvs) (word_of_nat (Suc k)) = Some (printed_row e m fvs k)"
proof -
  have k: "k + 1 < 2 ^ 31" using assms by (simp add: manifest_inv_def)
  then have u: "unat (word_of_nat (Suc k) :: gint) = Suc k"
    by (simp add: unat_of_nat take_bit_eq_mod del: of_nat_Suc)
  moreover from k have "sint (word_of_nat (Suc k) :: gint) = int (Suc k)"
    by (intro sint_word_of_nat) simp
  ultimately show ?thesis
    using assms(2)
    by (simp add: row_prints_def printed_row_def pk_sample_get_value_def client_sample_def pk_manifest_get_row_name_def
        client_manifest_def client_row_def fmt_string_def del: of_nat_Suc split: option.split)
qed

text \<open>
  C33: a sample that reaches the shell is printed in full. After a line with the source and the time there is a line for
  every row of the manifest that the sample has a value for, in the order of the manifest, with the name that the agent's
  manifest gives the row and the value that the source appended (the first, if it appended two); then an empty line.
  No name is read outside the manifest.
\<close>

theorem shell_prints_samples:
  assumes "manifest_inv gt m"
  shows "sample_cb e (client_manifest m) (client_sample m s fvs) sh = Some (sh\<lparr>el_out := el_out sh @ map Out
    ([ascii ''  Source '' @ fmt_int (ps_source_id s) @ ascii '' @ '' @
        se_iso8601 e \<lparr>tv_secs = tv_sec (client_time m s), tv_usecs = tv_nsec (client_time m s) sdiv 1000\<rparr> @ [10]] @
     concat (map (printed_row e m fvs) [0..<length (pm_rows m)]) @ [[10]])\<rparr>)"
proof -
  have "rows_print e (client_manifest m) (client_sample m s fvs) (map (\<lambda>i. word_of_nat (i + 1)) [0..<length (pm_rows m)]) =
      Some (concat (map (\<lambda>i. the (row_prints e (client_manifest m) (client_sample m s fvs) i))
        (map (\<lambda>i. word_of_nat (i + 1)) [0..<length (pm_rows m)])))"
    by (rule rows_print_all) (auto simp: row_prints_agent [OF assms] simp del: of_nat_Suc)
  also have "concat (map (\<lambda>i. the (row_prints e (client_manifest m) (client_sample m s fvs) i))
      (map (\<lambda>i. word_of_nat (i + 1)) [0..<length (pm_rows m)])) =
      concat (map (printed_row e m fvs) [0..<length (pm_rows m)])"
    by (auto intro!: arg_cong [where f = concat] simp: row_prints_agent [OF assms] simp del: of_nat_Suc)
  finally show ?thesis
    by (simp add: sample_cb_def pk_manifest_get_n_rows_def pk_sample_get_timeval_def pk_sample_get_source_id_def
        fold_g_print g_print_def client_manifest_def client_sample_def Let_def del: of_nat_Suc)
qed

theorem shell_prints_samples_witness:
  "\<forall>e sh. \<exists>head sh'. sample_cb e (client_manifest example_manifest)
      (client_sample example_manifest example_sample [(1, V_INT (- 5)), (2, V_STRING [104, 105])]) sh = Some sh' \<and>
    el_out sh' = el_out sh @ map Out
      [head, [32, 32] @ replicate 29 32 @ [117, 115, 114] @ [32, 61, 32], [45, 53], [10],
       [32, 32] @ replicate 32 32 @ [32, 61, 32], [104, 105], [10], [10]]"
proof (intro allI)
  fix e :: shell_env and sh :: shell
  have "fmt_number (- 5) = [45, 53]" by (simp add: fmt_number_def digits.simps)
  moreover have "sint (- 5 :: gint) = - 5" by simp
  ultimately have "concat (map (printed_row e example_manifest [(1, V_INT (- 5)), (2, V_STRING [104, 105])])
      [0..<length (pm_rows example_manifest)]) =
      [[32, 32] @ replicate 29 32 @ [117, 115, 114] @ [32, 61, 32], [45, 53], [10],
       [32, 32] @ replicate 32 32 @ [32, 61, 32], [104, 105], [10]]"
    by (simp add: example_manifest_def printed_row_def right_aligned_def value_text_def upt_rec)
  then show "\<exists>head sh'. sample_cb e (client_manifest example_manifest)
      (client_sample example_manifest example_sample [(1, V_INT (- 5)), (2, V_STRING [104, 105])]) sh = Some sh' \<and>
    el_out sh' = el_out sh @ map Out
      [head, [32, 32] @ replicate 29 32 @ [117, 115, 114] @ [32, 61, 32], [45, 53], [10],
       [32, 32] @ replicate 32 32 @ [32, 61, 32], [104, 105], [10], [10]]"
    unfolding shell_prints_samples [OF example_manifest_inv] by auto
qed

end
