(* ===== verification/Pk_Objects.thy ===== *)
theory Pk_Objects
  imports Library_Calls
begin

text \<open>
  The object model of the client library (perfkit/pk-channel.c, pk-source.c, pk-encoder.c, pk-plugin.c,
  pk-subscription.c, pk-manager.c): an object stands for one of the agent's, and its methods are the remote
  procedures on its connection and identifier.
\<close>

section \<open>Objects\<close>

record 'i client_object =
  ob_connection :: "connection_class option"
  ob_id :: 'i

text \<open>
  The two properties of an object, both given when it is constructed. \<open>g_object_new\<close> sets the properties of the
  class that it is not given to their defaults. A property that \<open>set_property\<close> does not know is only warned of.
\<close>

datatype 'i object_property = PROP_ID 'i | PROP_CONNECTION "connection_class option"

fun same_property :: "'i object_property \<Rightarrow> 'i object_property \<Rightarrow> bool" where
  "same_property (PROP_ID _) (PROP_ID _) = True"
| "same_property (PROP_CONNECTION _) (PROP_CONNECTION _) = True"
| "same_property _ _ = False"

definition g_object_new ::
  "'i object_property list \<Rightarrow> ('i object_property \<Rightarrow> 'o \<Rightarrow> 'o) \<Rightarrow> 'o \<Rightarrow> 'i object_property list \<Rightarrow> 'o" where
  "g_object_new defaults set_property object properties =
     fold set_property
       (filter (\<lambda>d. \<not> list_ex (same_property d) properties) defaults @ properties) object"

definition G_MININT :: gint where
  "G_MININT = word_of_int (- (2 ^ 31))"

text \<open>What a method makes of the value of the procedure.\<close>

fun map_finished :: "('a \<Rightarrow> 'b) \<Rightarrow> 'a finished \<Rightarrow> 'b finished" where
  "map_finished f (Finish_True x) = Finish_True (f x)"
| "map_finished f (Finish_Error e) = Finish_Error e"
| "map_finished f Finish_Quiet = Finish_Quiet"

fun map_returned :: "('a \<Rightarrow> 'b) \<Rightarrow> 'a returned \<Rightarrow> 'b returned" where
  "map_returned f (Returned v) = Returned (map_finished f v)"
| "map_returned f Never_Returns = Never_Returns"
| "map_returned f Client_Crash = Client_Crash"

text \<open>
  Each method is there thrice: blocking; asynchronous, whose callback keeps the answer of the connection as the
  \<open>real_result\<close> of the object's; and finishing, which takes it from there.
\<close>

section \<open>Plugins: pk-plugin.c\<close>

type_synonym pk_plugin = "(cstring option) client_object"

definition pk_plugin_init :: pk_plugin where
  "pk_plugin_init = \<lparr>ob_connection = None, ob_id = None\<rparr>"

definition pk_plugin_set_property :: "(cstring option) object_property \<Rightarrow> pk_plugin \<Rightarrow> pk_plugin" where
  "pk_plugin_set_property property object =
     (case property of PROP_ID i \<Rightarrow> object\<lparr>ob_id := i\<rparr> | PROP_CONNECTION c \<Rightarrow> object)"

definition pk_plugin_class_init :: "(cstring option) object_property list" where
  "pk_plugin_class_init = [PROP_ID None, PROP_CONNECTION None]"

definition pk_plugin_new :: "(cstring option) object_property list \<Rightarrow> pk_plugin" where
  "pk_plugin_new = g_object_new pk_plugin_class_init pk_plugin_set_property pk_plugin_init"

definition pk_plugin_get_id :: "pk_plugin \<Rightarrow> cstring option" where
  "pk_plugin_get_id plugin = ob_id plugin"

definition pk_plugin_get_connection :: "pk_plugin \<Rightarrow> connection_class option" where
  "pk_plugin_get_connection plugin = ob_connection plugin"

definition pk_plugin_get_property :: "pk_plugin \<Rightarrow> cstring option" where
  "pk_plugin_get_property object = pk_plugin_get_id object"

definition pk_plugin_get_copyright ::
  "pk_plugin \<Rightarrow> dbus_link \<Rightarrow> agent \<times> dbus_listener \<Rightarrow> cstring returned \<times> agent \<times> dbus_listener" where
  "pk_plugin_get_copyright plugin l st =
     pk_connection_plugin_get_copyright (ob_connection plugin) l (ob_id plugin) st"

definition pk_plugin_get_copyright_async :: "pk_plugin \<Rightarrow> request" where
  "pk_plugin_get_copyright_async plugin =
     pk_connection_plugin_get_copyright_async (ob_connection plugin) (ob_id plugin)"

definition pk_plugin_get_copyright_finish :: "pk_plugin \<Rightarrow> pending_call \<Rightarrow> cstring finished" where
  "pk_plugin_get_copyright_finish plugin real_result =
     pk_connection_plugin_get_copyright_finish (ob_connection plugin) real_result"

definition pk_plugin_get_description ::
  "pk_plugin \<Rightarrow> dbus_link \<Rightarrow> agent \<times> dbus_listener \<Rightarrow> cstring returned \<times> agent \<times> dbus_listener" where
  "pk_plugin_get_description plugin l st =
     pk_connection_plugin_get_description (ob_connection plugin) l (ob_id plugin) st"

definition pk_plugin_get_description_async :: "pk_plugin \<Rightarrow> request" where
  "pk_plugin_get_description_async plugin =
     pk_connection_plugin_get_description_async (ob_connection plugin) (ob_id plugin)"

definition pk_plugin_get_description_finish :: "pk_plugin \<Rightarrow> pending_call \<Rightarrow> cstring finished" where
  "pk_plugin_get_description_finish plugin real_result =
     pk_connection_plugin_get_description_finish (ob_connection plugin) real_result"

definition pk_plugin_get_name ::
  "pk_plugin \<Rightarrow> dbus_link \<Rightarrow> agent \<times> dbus_listener \<Rightarrow> cstring returned \<times> agent \<times> dbus_listener" where
  "pk_plugin_get_name plugin l st =
     pk_connection_plugin_get_name (ob_connection plugin) l (ob_id plugin) st"

definition pk_plugin_get_name_async :: "pk_plugin \<Rightarrow> request" where
  "pk_plugin_get_name_async plugin =
     pk_connection_plugin_get_name_async (ob_connection plugin) (ob_id plugin)"

definition pk_plugin_get_name_finish :: "pk_plugin \<Rightarrow> pending_call \<Rightarrow> cstring finished" where
  "pk_plugin_get_name_finish plugin real_result =
     pk_connection_plugin_get_name_finish (ob_connection plugin) real_result"

definition pk_plugin_get_plugin_type ::
  "pk_plugin \<Rightarrow> dbus_link \<Rightarrow> agent \<times> dbus_listener \<Rightarrow> gint returned \<times> agent \<times> dbus_listener" where
  "pk_plugin_get_plugin_type plugin l st =
     pk_connection_plugin_get_plugin_type (ob_connection plugin) l (ob_id plugin) st"

definition pk_plugin_get_plugin_type_async :: "pk_plugin \<Rightarrow> request" where
  "pk_plugin_get_plugin_type_async plugin =
     pk_connection_plugin_get_plugin_type_async (ob_connection plugin) (ob_id plugin)"

definition pk_plugin_get_plugin_type_finish :: "pk_plugin \<Rightarrow> pending_call \<Rightarrow> gint finished" where
  "pk_plugin_get_plugin_type_finish plugin real_result =
     pk_connection_plugin_get_plugin_type_finish (ob_connection plugin) real_result"

definition pk_plugin_get_version ::
  "pk_plugin \<Rightarrow> dbus_link \<Rightarrow> agent \<times> dbus_listener \<Rightarrow> cstring returned \<times> agent \<times> dbus_listener" where
  "pk_plugin_get_version plugin l st =
     pk_connection_plugin_get_version (ob_connection plugin) l (ob_id plugin) st"

definition pk_plugin_get_version_async :: "pk_plugin \<Rightarrow> request" where
  "pk_plugin_get_version_async plugin =
     pk_connection_plugin_get_version_async (ob_connection plugin) (ob_id plugin)"

definition pk_plugin_get_version_finish :: "pk_plugin \<Rightarrow> pending_call \<Rightarrow> cstring finished" where
  "pk_plugin_get_version_finish plugin real_result =
     pk_connection_plugin_get_version_finish (ob_connection plugin) real_result"

text \<open>The object for a plugin that an answer names.\<close>

definition plugin_of :: "connection_class option \<Rightarrow> cstring option \<Rightarrow> pk_plugin" where
  "plugin_of connection plugin_id = pk_plugin_new [PROP_CONNECTION connection, PROP_ID plugin_id]"

section \<open>Sources: pk-source.c\<close>

type_synonym pk_source = "gint client_object"

definition pk_source_init :: pk_source where
  "pk_source_init = \<lparr>ob_connection = None, ob_id = 0\<rparr>"

definition pk_source_set_property :: "gint object_property \<Rightarrow> pk_source \<Rightarrow> pk_source" where
  "pk_source_set_property property object =
     (case property of PROP_ID i \<Rightarrow> object\<lparr>ob_id := i\<rparr> | PROP_CONNECTION c \<Rightarrow> object)"

definition pk_source_class_init :: "gint object_property list" where
  "pk_source_class_init = [PROP_ID G_MININT, PROP_CONNECTION None]"

definition pk_source_new :: "gint object_property list \<Rightarrow> pk_source" where
  "pk_source_new = g_object_new pk_source_class_init pk_source_set_property pk_source_init"

definition pk_source_get_id :: "pk_source \<Rightarrow> gint" where
  "pk_source_get_id source = ob_id source"

definition pk_source_get_connection :: "pk_source \<Rightarrow> connection_class option" where
  "pk_source_get_connection source = ob_connection source"

definition pk_source_get_property :: "pk_source \<Rightarrow> gint" where
  "pk_source_get_property object = pk_source_get_id object"

definition pk_source_get_plugin ::
  "pk_source \<Rightarrow> dbus_link \<Rightarrow> agent \<times> dbus_listener \<Rightarrow> pk_plugin returned \<times> agent \<times> dbus_listener" where
  "pk_source_get_plugin source l st =
     map_prod (map_returned (plugin_of (ob_connection source))) id
       (pk_connection_source_get_plugin (ob_connection source) l (ob_id source) st)"

definition pk_source_get_plugin_async :: "pk_source \<Rightarrow> request" where
  "pk_source_get_plugin_async source =
     pk_connection_source_get_plugin_async (ob_connection source) (ob_id source)"

definition pk_source_get_plugin_finish :: "pk_source \<Rightarrow> pending_call \<Rightarrow> pk_plugin finished" where
  "pk_source_get_plugin_finish source real_result =
     map_finished (plugin_of (ob_connection source)) (pk_connection_source_get_plugin_finish (ob_connection source) real_result)"

text \<open>The objects for the sources of an answer, each put before the ones that came before.\<close>

definition sources_of :: "connection_class option \<Rightarrow> gint list \<Rightarrow> pk_source list" where
  "sources_of connection ids = rev (map (\<lambda>i. pk_source_new [PROP_CONNECTION connection, PROP_ID i]) ids)"

section \<open>Channels: pk-channel.c\<close>

type_synonym pk_channel = "gint client_object"

definition pk_channel_init :: pk_channel where
  "pk_channel_init = \<lparr>ob_connection = None, ob_id = 0\<rparr>"

definition pk_channel_set_property :: "gint object_property \<Rightarrow> pk_channel \<Rightarrow> pk_channel" where
  "pk_channel_set_property property object =
     (case property of PROP_ID i \<Rightarrow> object\<lparr>ob_id := i\<rparr> | PROP_CONNECTION c \<Rightarrow> object)"

definition pk_channel_class_init :: "gint object_property list" where
  "pk_channel_class_init = [PROP_ID G_MININT, PROP_CONNECTION None]"

definition pk_channel_new :: "gint object_property list \<Rightarrow> pk_channel" where
  "pk_channel_new = g_object_new pk_channel_class_init pk_channel_set_property pk_channel_init"

definition pk_channel_get_id :: "pk_channel \<Rightarrow> gint" where
  "pk_channel_get_id channel = ob_id channel"

definition pk_channel_get_connection :: "pk_channel \<Rightarrow> connection_class option" where
  "pk_channel_get_connection channel = ob_connection channel"

definition pk_channel_get_property :: "pk_channel \<Rightarrow> gint" where
  "pk_channel_get_property object = pk_channel_get_id object"

definition pk_channel_add_source ::
  "pk_channel \<Rightarrow> dbus_link \<Rightarrow> pk_source \<Rightarrow> agent \<times> dbus_listener \<Rightarrow> unit returned \<times> agent \<times> dbus_listener" where
  "pk_channel_add_source channel l source st =
     pk_connection_channel_add_source (ob_connection channel) l (ob_id channel) (pk_source_get_id source) st"

definition pk_channel_add_source_async :: "pk_channel \<Rightarrow> pk_source \<Rightarrow> request" where
  "pk_channel_add_source_async channel source =
     pk_connection_channel_add_source_async (ob_connection channel) (ob_id channel) (pk_source_get_id source)"

definition pk_channel_add_source_finish :: "pk_channel \<Rightarrow> pending_call \<Rightarrow> unit finished" where
  "pk_channel_add_source_finish channel real_result =
     pk_connection_channel_add_source_finish (ob_connection channel) real_result"

definition pk_channel_get_args ::
  "pk_channel \<Rightarrow> dbus_link \<Rightarrow> agent \<times> dbus_listener \<Rightarrow> (cstring list) returned \<times> agent \<times> dbus_listener" where
  "pk_channel_get_args channel l st =
     pk_connection_channel_get_args (ob_connection channel) l (ob_id channel) st"

definition pk_channel_get_args_async :: "pk_channel \<Rightarrow> request" where
  "pk_channel_get_args_async channel =
     pk_connection_channel_get_args_async (ob_connection channel) (ob_id channel)"

definition pk_channel_get_args_finish :: "pk_channel \<Rightarrow> pending_call \<Rightarrow> (cstring list) finished" where
  "pk_channel_get_args_finish channel real_result =
     pk_connection_channel_get_args_finish (ob_connection channel) real_result"

definition pk_channel_get_env ::
  "pk_channel \<Rightarrow> dbus_link \<Rightarrow> agent \<times> dbus_listener \<Rightarrow> (cstring list) returned \<times> agent \<times> dbus_listener" where
  "pk_channel_get_env channel l st =
     pk_connection_channel_get_env (ob_connection channel) l (ob_id channel) st"

definition pk_channel_get_env_async :: "pk_channel \<Rightarrow> request" where
  "pk_channel_get_env_async channel =
     pk_connection_channel_get_env_async (ob_connection channel) (ob_id channel)"

definition pk_channel_get_env_finish :: "pk_channel \<Rightarrow> pending_call \<Rightarrow> (cstring list) finished" where
  "pk_channel_get_env_finish channel real_result =
     pk_connection_channel_get_env_finish (ob_connection channel) real_result"

definition pk_channel_get_exit_status ::
  "pk_channel \<Rightarrow> dbus_link \<Rightarrow> agent \<times> dbus_listener \<Rightarrow> gint returned \<times> agent \<times> dbus_listener" where
  "pk_channel_get_exit_status channel l st =
     pk_connection_channel_get_exit_status (ob_connection channel) l (ob_id channel) st"

definition pk_channel_get_exit_status_async :: "pk_channel \<Rightarrow> request" where
  "pk_channel_get_exit_status_async channel =
     pk_connection_channel_get_exit_status_async (ob_connection channel) (ob_id channel)"

definition pk_channel_get_exit_status_finish :: "pk_channel \<Rightarrow> pending_call \<Rightarrow> gint finished" where
  "pk_channel_get_exit_status_finish channel real_result =
     pk_connection_channel_get_exit_status_finish (ob_connection channel) real_result"

definition pk_channel_get_kill_pid ::
  "pk_channel \<Rightarrow> dbus_link \<Rightarrow> agent \<times> dbus_listener \<Rightarrow> bool returned \<times> agent \<times> dbus_listener" where
  "pk_channel_get_kill_pid channel l st =
     pk_connection_channel_get_kill_pid (ob_connection channel) l (ob_id channel) st"

definition pk_channel_get_kill_pid_async :: "pk_channel \<Rightarrow> request" where
  "pk_channel_get_kill_pid_async channel =
     pk_connection_channel_get_kill_pid_async (ob_connection channel) (ob_id channel)"

definition pk_channel_get_kill_pid_finish :: "pk_channel \<Rightarrow> pending_call \<Rightarrow> bool finished" where
  "pk_channel_get_kill_pid_finish channel real_result =
     pk_connection_channel_get_kill_pid_finish (ob_connection channel) real_result"

definition pk_channel_get_pid ::
  "pk_channel \<Rightarrow> dbus_link \<Rightarrow> agent \<times> dbus_listener \<Rightarrow> gint returned \<times> agent \<times> dbus_listener" where
  "pk_channel_get_pid channel l st =
     pk_connection_channel_get_pid (ob_connection channel) l (ob_id channel) st"

definition pk_channel_get_pid_async :: "pk_channel \<Rightarrow> request" where
  "pk_channel_get_pid_async channel =
     pk_connection_channel_get_pid_async (ob_connection channel) (ob_id channel)"

definition pk_channel_get_pid_finish :: "pk_channel \<Rightarrow> pending_call \<Rightarrow> gint finished" where
  "pk_channel_get_pid_finish channel real_result =
     pk_connection_channel_get_pid_finish (ob_connection channel) real_result"

definition pk_channel_get_pid_set ::
  "pk_channel \<Rightarrow> dbus_link \<Rightarrow> agent \<times> dbus_listener \<Rightarrow> bool returned \<times> agent \<times> dbus_listener" where
  "pk_channel_get_pid_set channel l st =
     pk_connection_channel_get_pid_set (ob_connection channel) l (ob_id channel) st"

definition pk_channel_get_pid_set_async :: "pk_channel \<Rightarrow> request" where
  "pk_channel_get_pid_set_async channel =
     pk_connection_channel_get_pid_set_async (ob_connection channel) (ob_id channel)"

definition pk_channel_get_pid_set_finish :: "pk_channel \<Rightarrow> pending_call \<Rightarrow> bool finished" where
  "pk_channel_get_pid_set_finish channel real_result =
     pk_connection_channel_get_pid_set_finish (ob_connection channel) real_result"

definition pk_channel_get_sources ::
  "pk_channel \<Rightarrow> dbus_link \<Rightarrow> agent \<times> dbus_listener \<Rightarrow> (pk_source list) returned \<times> agent \<times> dbus_listener" where
  "pk_channel_get_sources channel l st =
     map_prod (map_returned (sources_of (ob_connection channel))) id
       (pk_connection_channel_get_sources (ob_connection channel) l (ob_id channel) st)"

definition pk_channel_get_sources_async :: "pk_channel \<Rightarrow> request" where
  "pk_channel_get_sources_async channel =
     pk_connection_channel_get_sources_async (ob_connection channel) (ob_id channel)"

definition pk_channel_get_sources_finish :: "pk_channel \<Rightarrow> pending_call \<Rightarrow> (pk_source list) finished" where
  "pk_channel_get_sources_finish channel real_result =
     map_finished (sources_of (ob_connection channel)) (pk_connection_channel_get_sources_finish (ob_connection channel) real_result)"

definition pk_channel_get_state ::
  "pk_channel \<Rightarrow> dbus_link \<Rightarrow> agent \<times> dbus_listener \<Rightarrow> gint returned \<times> agent \<times> dbus_listener" where
  "pk_channel_get_state channel l st =
     pk_connection_channel_get_state (ob_connection channel) l (ob_id channel) st"

definition pk_channel_get_state_async :: "pk_channel \<Rightarrow> request" where
  "pk_channel_get_state_async channel =
     pk_connection_channel_get_state_async (ob_connection channel) (ob_id channel)"

definition pk_channel_get_state_finish :: "pk_channel \<Rightarrow> pending_call \<Rightarrow> gint finished" where
  "pk_channel_get_state_finish channel real_result =
     pk_connection_channel_get_state_finish (ob_connection channel) real_result"

definition pk_channel_get_target ::
  "pk_channel \<Rightarrow> dbus_link \<Rightarrow> agent \<times> dbus_listener \<Rightarrow> cstring returned \<times> agent \<times> dbus_listener" where
  "pk_channel_get_target channel l st =
     pk_connection_channel_get_target (ob_connection channel) l (ob_id channel) st"

definition pk_channel_get_target_async :: "pk_channel \<Rightarrow> request" where
  "pk_channel_get_target_async channel =
     pk_connection_channel_get_target_async (ob_connection channel) (ob_id channel)"

definition pk_channel_get_target_finish :: "pk_channel \<Rightarrow> pending_call \<Rightarrow> cstring finished" where
  "pk_channel_get_target_finish channel real_result =
     pk_connection_channel_get_target_finish (ob_connection channel) real_result"

definition pk_channel_get_working_dir ::
  "pk_channel \<Rightarrow> dbus_link \<Rightarrow> agent \<times> dbus_listener \<Rightarrow> cstring returned \<times> agent \<times> dbus_listener" where
  "pk_channel_get_working_dir channel l st =
     pk_connection_channel_get_working_dir (ob_connection channel) l (ob_id channel) st"

definition pk_channel_get_working_dir_async :: "pk_channel \<Rightarrow> request" where
  "pk_channel_get_working_dir_async channel =
     pk_connection_channel_get_working_dir_async (ob_connection channel) (ob_id channel)"

definition pk_channel_get_working_dir_finish :: "pk_channel \<Rightarrow> pending_call \<Rightarrow> cstring finished" where
  "pk_channel_get_working_dir_finish channel real_result =
     pk_connection_channel_get_working_dir_finish (ob_connection channel) real_result"

definition pk_channel_mute ::
  "pk_channel \<Rightarrow> dbus_link \<Rightarrow> agent \<times> dbus_listener \<Rightarrow> unit returned \<times> agent \<times> dbus_listener" where
  "pk_channel_mute channel l st =
     pk_connection_channel_mute (ob_connection channel) l (ob_id channel) st"

definition pk_channel_mute_async :: "pk_channel \<Rightarrow> request" where
  "pk_channel_mute_async channel =
     pk_connection_channel_mute_async (ob_connection channel) (ob_id channel)"

definition pk_channel_mute_finish :: "pk_channel \<Rightarrow> pending_call \<Rightarrow> unit finished" where
  "pk_channel_mute_finish channel real_result =
     pk_connection_channel_mute_finish (ob_connection channel) real_result"

definition pk_channel_set_args ::
  "pk_channel \<Rightarrow> dbus_link \<Rightarrow> cstring list option \<Rightarrow> agent \<times> dbus_listener \<Rightarrow> unit returned \<times> agent \<times> dbus_listener" where
  "pk_channel_set_args channel l args st =
     pk_connection_channel_set_args (ob_connection channel) l (ob_id channel) args st"

definition pk_channel_set_args_async :: "pk_channel \<Rightarrow> cstring list option \<Rightarrow> request" where
  "pk_channel_set_args_async channel args =
     pk_connection_channel_set_args_async (ob_connection channel) (ob_id channel) args"

definition pk_channel_set_args_finish :: "pk_channel \<Rightarrow> pending_call \<Rightarrow> unit finished" where
  "pk_channel_set_args_finish channel real_result =
     pk_connection_channel_set_args_finish (ob_connection channel) real_result"

definition pk_channel_set_env ::
  "pk_channel \<Rightarrow> dbus_link \<Rightarrow> cstring list option \<Rightarrow> agent \<times> dbus_listener \<Rightarrow> unit returned \<times> agent \<times> dbus_listener" where
  "pk_channel_set_env channel l env_vars st =
     pk_connection_channel_set_env (ob_connection channel) l (ob_id channel) env_vars st"

definition pk_channel_set_env_async :: "pk_channel \<Rightarrow> cstring list option \<Rightarrow> request" where
  "pk_channel_set_env_async channel env_vars =
     pk_connection_channel_set_env_async (ob_connection channel) (ob_id channel) env_vars"

definition pk_channel_set_env_finish :: "pk_channel \<Rightarrow> pending_call \<Rightarrow> unit finished" where
  "pk_channel_set_env_finish channel real_result =
     pk_connection_channel_set_env_finish (ob_connection channel) real_result"

definition pk_channel_set_kill_pid ::
  "pk_channel \<Rightarrow> dbus_link \<Rightarrow> bool \<Rightarrow> agent \<times> dbus_listener \<Rightarrow> unit returned \<times> agent \<times> dbus_listener" where
  "pk_channel_set_kill_pid channel l kill_pid st =
     pk_connection_channel_set_kill_pid (ob_connection channel) l (ob_id channel) kill_pid st"

definition pk_channel_set_kill_pid_async :: "pk_channel \<Rightarrow> bool \<Rightarrow> request" where
  "pk_channel_set_kill_pid_async channel kill_pid =
     pk_connection_channel_set_kill_pid_async (ob_connection channel) (ob_id channel) kill_pid"

definition pk_channel_set_kill_pid_finish :: "pk_channel \<Rightarrow> pending_call \<Rightarrow> unit finished" where
  "pk_channel_set_kill_pid_finish channel real_result =
     pk_connection_channel_set_kill_pid_finish (ob_connection channel) real_result"

definition pk_channel_set_pid ::
  "pk_channel \<Rightarrow> dbus_link \<Rightarrow> gint \<Rightarrow> agent \<times> dbus_listener \<Rightarrow> unit returned \<times> agent \<times> dbus_listener" where
  "pk_channel_set_pid channel l pid st =
     pk_connection_channel_set_pid (ob_connection channel) l (ob_id channel) pid st"

definition pk_channel_set_pid_async :: "pk_channel \<Rightarrow> gint \<Rightarrow> request" where
  "pk_channel_set_pid_async channel pid =
     pk_connection_channel_set_pid_async (ob_connection channel) (ob_id channel) pid"

definition pk_channel_set_pid_finish :: "pk_channel \<Rightarrow> pending_call \<Rightarrow> unit finished" where
  "pk_channel_set_pid_finish channel real_result =
     pk_connection_channel_set_pid_finish (ob_connection channel) real_result"

definition pk_channel_set_target ::
  "pk_channel \<Rightarrow> dbus_link \<Rightarrow> cstring option \<Rightarrow> agent \<times> dbus_listener \<Rightarrow> unit returned \<times> agent \<times> dbus_listener" where
  "pk_channel_set_target channel l target st =
     pk_connection_channel_set_target (ob_connection channel) l (ob_id channel) target st"

definition pk_channel_set_target_async :: "pk_channel \<Rightarrow> cstring option \<Rightarrow> request" where
  "pk_channel_set_target_async channel target =
     pk_connection_channel_set_target_async (ob_connection channel) (ob_id channel) target"

definition pk_channel_set_target_finish :: "pk_channel \<Rightarrow> pending_call \<Rightarrow> unit finished" where
  "pk_channel_set_target_finish channel real_result =
     pk_connection_channel_set_target_finish (ob_connection channel) real_result"

definition pk_channel_set_working_dir ::
  "pk_channel \<Rightarrow> dbus_link \<Rightarrow> cstring option \<Rightarrow> agent \<times> dbus_listener \<Rightarrow> unit returned \<times> agent \<times> dbus_listener" where
  "pk_channel_set_working_dir channel l working_dir st =
     pk_connection_channel_set_working_dir (ob_connection channel) l (ob_id channel) working_dir st"

definition pk_channel_set_working_dir_async :: "pk_channel \<Rightarrow> cstring option \<Rightarrow> request" where
  "pk_channel_set_working_dir_async channel working_dir =
     pk_connection_channel_set_working_dir_async (ob_connection channel) (ob_id channel) working_dir"

definition pk_channel_set_working_dir_finish :: "pk_channel \<Rightarrow> pending_call \<Rightarrow> unit finished" where
  "pk_channel_set_working_dir_finish channel real_result =
     pk_connection_channel_set_working_dir_finish (ob_connection channel) real_result"

definition pk_channel_start ::
  "pk_channel \<Rightarrow> dbus_link \<Rightarrow> agent \<times> dbus_listener \<Rightarrow> unit returned \<times> agent \<times> dbus_listener" where
  "pk_channel_start channel l st =
     pk_connection_channel_start (ob_connection channel) l (ob_id channel) st"

definition pk_channel_start_async :: "pk_channel \<Rightarrow> request" where
  "pk_channel_start_async channel =
     pk_connection_channel_start_async (ob_connection channel) (ob_id channel)"

definition pk_channel_start_finish :: "pk_channel \<Rightarrow> pending_call \<Rightarrow> unit finished" where
  "pk_channel_start_finish channel real_result =
     pk_connection_channel_start_finish (ob_connection channel) real_result"

definition pk_channel_stop ::
  "pk_channel \<Rightarrow> dbus_link \<Rightarrow> agent \<times> dbus_listener \<Rightarrow> unit returned \<times> agent \<times> dbus_listener" where
  "pk_channel_stop channel l st =
     pk_connection_channel_stop (ob_connection channel) l (ob_id channel) st"

definition pk_channel_stop_async :: "pk_channel \<Rightarrow> request" where
  "pk_channel_stop_async channel =
     pk_connection_channel_stop_async (ob_connection channel) (ob_id channel)"

definition pk_channel_stop_finish :: "pk_channel \<Rightarrow> pending_call \<Rightarrow> unit finished" where
  "pk_channel_stop_finish channel real_result =
     pk_connection_channel_stop_finish (ob_connection channel) real_result"

definition pk_channel_unmute ::
  "pk_channel \<Rightarrow> dbus_link \<Rightarrow> agent \<times> dbus_listener \<Rightarrow> unit returned \<times> agent \<times> dbus_listener" where
  "pk_channel_unmute channel l st =
     pk_connection_channel_unmute (ob_connection channel) l (ob_id channel) st"

definition pk_channel_unmute_async :: "pk_channel \<Rightarrow> request" where
  "pk_channel_unmute_async channel =
     pk_connection_channel_unmute_async (ob_connection channel) (ob_id channel)"

definition pk_channel_unmute_finish :: "pk_channel \<Rightarrow> pending_call \<Rightarrow> unit finished" where
  "pk_channel_unmute_finish channel real_result =
     pk_connection_channel_unmute_finish (ob_connection channel) real_result"

section \<open>Encoders: pk-encoder.c\<close>

type_synonym pk_encoder = "gint client_object"

definition pk_encoder_init :: pk_encoder where
  "pk_encoder_init = \<lparr>ob_connection = None, ob_id = 0\<rparr>"

definition pk_encoder_set_property :: "gint object_property \<Rightarrow> pk_encoder \<Rightarrow> pk_encoder" where
  "pk_encoder_set_property property object =
     (case property of PROP_ID i \<Rightarrow> object\<lparr>ob_id := i\<rparr> | PROP_CONNECTION c \<Rightarrow> object)"

definition pk_encoder_class_init :: "gint object_property list" where
  "pk_encoder_class_init = [PROP_ID G_MININT, PROP_CONNECTION None]"

definition pk_encoder_new :: "gint object_property list \<Rightarrow> pk_encoder" where
  "pk_encoder_new = g_object_new pk_encoder_class_init pk_encoder_set_property pk_encoder_init"

definition pk_encoder_get_id :: "pk_encoder \<Rightarrow> gint" where
  "pk_encoder_get_id encoder = ob_id encoder"

definition pk_encoder_get_connection :: "pk_encoder \<Rightarrow> connection_class option" where
  "pk_encoder_get_connection encoder = ob_connection encoder"

definition pk_encoder_get_property :: "pk_encoder \<Rightarrow> gint" where
  "pk_encoder_get_property object = pk_encoder_get_id object"

definition pk_encoder_get_plugin ::
  "pk_encoder \<Rightarrow> dbus_link \<Rightarrow> agent \<times> dbus_listener \<Rightarrow> pk_plugin returned \<times> agent \<times> dbus_listener" where
  "pk_encoder_get_plugin encoder l st =
     map_prod (map_returned (plugin_of (ob_connection encoder))) id
       (pk_connection_encoder_get_plugin (ob_connection encoder) l (ob_id encoder) st)"

definition pk_encoder_get_plugin_async :: "pk_encoder \<Rightarrow> request" where
  "pk_encoder_get_plugin_async encoder =
     pk_connection_encoder_get_plugin_async (ob_connection encoder) (ob_id encoder)"

definition pk_encoder_get_plugin_finish :: "pk_encoder \<Rightarrow> pending_call \<Rightarrow> pk_plugin finished" where
  "pk_encoder_get_plugin_finish encoder real_result =
     map_finished (plugin_of (ob_connection encoder)) (pk_connection_encoder_get_plugin_finish (ob_connection encoder) real_result)"

section \<open>Subscriptions: pk-subscription.c\<close>

type_synonym pk_subscription = "gint client_object"

definition pk_subscription_init :: pk_subscription where
  "pk_subscription_init = \<lparr>ob_connection = None, ob_id = 0\<rparr>"

definition pk_subscription_set_property ::
  "gint object_property \<Rightarrow> pk_subscription \<Rightarrow> pk_subscription" where
  "pk_subscription_set_property property object =
     (case property of PROP_ID i \<Rightarrow> object\<lparr>ob_id := i\<rparr> | PROP_CONNECTION c \<Rightarrow> object)"

definition pk_subscription_class_init :: "gint object_property list" where
  "pk_subscription_class_init = [PROP_ID G_MININT, PROP_CONNECTION None]"

definition pk_subscription_new :: "gint object_property list \<Rightarrow> pk_subscription" where
  "pk_subscription_new = g_object_new pk_subscription_class_init pk_subscription_set_property pk_subscription_init"

definition pk_subscription_get_id :: "pk_subscription \<Rightarrow> gint" where
  "pk_subscription_get_id subscription = ob_id subscription"

definition pk_subscription_get_connection :: "pk_subscription \<Rightarrow> connection_class option" where
  "pk_subscription_get_connection subscription = ob_connection subscription"

definition pk_subscription_get_property :: "pk_subscription \<Rightarrow> gint" where
  "pk_subscription_get_property object = pk_subscription_get_id object"

definition pk_subscription_add_channel ::
  "pk_subscription \<Rightarrow> dbus_link \<Rightarrow> pk_channel \<Rightarrow> bool \<Rightarrow> agent \<times> dbus_listener \<Rightarrow> unit returned \<times> agent \<times> dbus_listener" where
  "pk_subscription_add_channel subscription l channel monitor st =
     pk_connection_subscription_add_channel (ob_connection subscription) l (ob_id subscription) (pk_channel_get_id channel) monitor st"

definition pk_subscription_add_channel_async :: "pk_subscription \<Rightarrow> pk_channel \<Rightarrow> bool \<Rightarrow> request" where
  "pk_subscription_add_channel_async subscription channel monitor =
     pk_connection_subscription_add_channel_async (ob_connection subscription) (ob_id subscription) (pk_channel_get_id channel) monitor"

definition pk_subscription_add_channel_finish :: "pk_subscription \<Rightarrow> pending_call \<Rightarrow> unit finished" where
  "pk_subscription_add_channel_finish subscription real_result =
     pk_connection_subscription_add_channel_finish (ob_connection subscription) real_result"

definition pk_subscription_add_source ::
  "pk_subscription \<Rightarrow> dbus_link \<Rightarrow> pk_source \<Rightarrow> agent \<times> dbus_listener \<Rightarrow> unit returned \<times> agent \<times> dbus_listener" where
  "pk_subscription_add_source subscription l source st =
     pk_connection_subscription_add_source (ob_connection subscription) l (ob_id subscription) (pk_source_get_id source) st"

definition pk_subscription_add_source_async :: "pk_subscription \<Rightarrow> pk_source \<Rightarrow> request" where
  "pk_subscription_add_source_async subscription source =
     pk_connection_subscription_add_source_async (ob_connection subscription) (ob_id subscription) (pk_source_get_id source)"

definition pk_subscription_add_source_finish :: "pk_subscription \<Rightarrow> pending_call \<Rightarrow> unit finished" where
  "pk_subscription_add_source_finish subscription real_result =
     pk_connection_subscription_add_source_finish (ob_connection subscription) real_result"

definition pk_subscription_mute ::
  "pk_subscription \<Rightarrow> dbus_link \<Rightarrow> bool \<Rightarrow> agent \<times> dbus_listener \<Rightarrow> unit returned \<times> agent \<times> dbus_listener" where
  "pk_subscription_mute subscription l drain st =
     pk_connection_subscription_mute (ob_connection subscription) l (ob_id subscription) drain st"

definition pk_subscription_mute_async :: "pk_subscription \<Rightarrow> bool \<Rightarrow> request" where
  "pk_subscription_mute_async subscription drain =
     pk_connection_subscription_mute_async (ob_connection subscription) (ob_id subscription) drain"

definition pk_subscription_mute_finish :: "pk_subscription \<Rightarrow> pending_call \<Rightarrow> unit finished" where
  "pk_subscription_mute_finish subscription real_result =
     pk_connection_subscription_mute_finish (ob_connection subscription) real_result"

definition pk_subscription_remove_channel ::
  "pk_subscription \<Rightarrow> dbus_link \<Rightarrow> pk_channel \<Rightarrow> agent \<times> dbus_listener \<Rightarrow> unit returned \<times> agent \<times> dbus_listener" where
  "pk_subscription_remove_channel subscription l channel st =
     pk_connection_subscription_remove_channel (ob_connection subscription) l (ob_id subscription) (pk_channel_get_id channel) st"

definition pk_subscription_remove_channel_async :: "pk_subscription \<Rightarrow> pk_channel \<Rightarrow> request" where
  "pk_subscription_remove_channel_async subscription channel =
     pk_connection_subscription_remove_channel_async (ob_connection subscription) (ob_id subscription) (pk_channel_get_id channel)"

definition pk_subscription_remove_channel_finish :: "pk_subscription \<Rightarrow> pending_call \<Rightarrow> unit finished" where
  "pk_subscription_remove_channel_finish subscription real_result =
     pk_connection_subscription_remove_channel_finish (ob_connection subscription) real_result"

definition pk_subscription_remove_source ::
  "pk_subscription \<Rightarrow> dbus_link \<Rightarrow> pk_source \<Rightarrow> agent \<times> dbus_listener \<Rightarrow> unit returned \<times> agent \<times> dbus_listener" where
  "pk_subscription_remove_source subscription l source st =
     pk_connection_subscription_remove_source (ob_connection subscription) l (ob_id subscription) (pk_source_get_id source) st"

definition pk_subscription_remove_source_async :: "pk_subscription \<Rightarrow> pk_source \<Rightarrow> request" where
  "pk_subscription_remove_source_async subscription source =
     pk_connection_subscription_remove_source_async (ob_connection subscription) (ob_id subscription) (pk_source_get_id source)"

definition pk_subscription_remove_source_finish :: "pk_subscription \<Rightarrow> pending_call \<Rightarrow> unit finished" where
  "pk_subscription_remove_source_finish subscription real_result =
     pk_connection_subscription_remove_source_finish (ob_connection subscription) real_result"

definition pk_subscription_set_buffer ::
  "pk_subscription \<Rightarrow> dbus_link \<Rightarrow> gint \<Rightarrow> gint \<Rightarrow> agent \<times> dbus_listener \<Rightarrow> unit returned \<times> agent \<times> dbus_listener" where
  "pk_subscription_set_buffer subscription l timeout size_arg st =
     pk_connection_subscription_set_buffer (ob_connection subscription) l (ob_id subscription) timeout size_arg st"

definition pk_subscription_set_buffer_async :: "pk_subscription \<Rightarrow> gint \<Rightarrow> gint \<Rightarrow> request" where
  "pk_subscription_set_buffer_async subscription timeout size_arg =
     pk_connection_subscription_set_buffer_async (ob_connection subscription) (ob_id subscription) timeout size_arg"

definition pk_subscription_set_buffer_finish :: "pk_subscription \<Rightarrow> pending_call \<Rightarrow> unit finished" where
  "pk_subscription_set_buffer_finish subscription real_result =
     pk_connection_subscription_set_buffer_finish (ob_connection subscription) real_result"

definition pk_subscription_unmute ::
  "pk_subscription \<Rightarrow> dbus_link \<Rightarrow> agent \<times> dbus_listener \<Rightarrow> unit returned \<times> agent \<times> dbus_listener" where
  "pk_subscription_unmute subscription l st =
     pk_connection_subscription_unmute (ob_connection subscription) l (ob_id subscription) st"

definition pk_subscription_unmute_async :: "pk_subscription \<Rightarrow> request" where
  "pk_subscription_unmute_async subscription =
     pk_connection_subscription_unmute_async (ob_connection subscription) (ob_id subscription)"

definition pk_subscription_unmute_finish :: "pk_subscription \<Rightarrow> pending_call \<Rightarrow> unit finished" where
  "pk_subscription_unmute_finish subscription real_result =
     pk_connection_subscription_unmute_finish (ob_connection subscription) real_result"

section \<open>The manager: pk-manager.c\<close>

text \<open>
  \<open>PkManager\<close> has no property at all: the \<open>connection\<close> that \<open>pk_connection_get_manager\<close> gives it is unknown to the
  class, and nothing sets \<open>conn\<close>.
\<close>

record pk_manager =
  mg_conn :: "connection_class option"

definition pk_manager_init :: pk_manager where
  "pk_manager_init = \<lparr>mg_conn = None\<rparr>"

text \<open>The manager of a connection is made once and kept.\<close>

definition pk_connection_get_manager :: "pk_manager option \<Rightarrow> pk_manager \<times> pk_manager option" where
  "pk_connection_get_manager priv_manager =
     (case priv_manager of None \<Rightarrow> (pk_manager_init, Some pk_manager_init) | Some m \<Rightarrow> (m, Some m))"

definition pk_manager_get_plugins ::
  "pk_manager \<Rightarrow> dbus_link \<Rightarrow> agent \<times> dbus_listener \<Rightarrow> pk_plugin list option \<times> agent \<times> dbus_listener" where
  "pk_manager_get_plugins manager l st =
     (case pk_connection_manager_get_plugins (mg_conn manager) l st of
        (Returned (Finish_True plugins), st) \<Rightarrow>
          (Some (rev (map (\<lambda>i. pk_plugin_new [PROP_ID i, PROP_CONNECTION (mg_conn manager)]) plugins)), st)
      | (Returned _, st) \<Rightarrow> (Some [], st)
      | (_, st) \<Rightarrow> (None, st))"

section \<open>No object has a connection\<close>

lemma new_object_unconnected:
  assumes "\<And>p object. ob_connection (set_property p object) = ob_connection object"
  shows "ob_connection (g_object_new defaults set_property object properties) = ob_connection object"
proof -
  have "ob_connection (fold set_property ps object) = ob_connection object" for ps object
    using assms by (induction ps arbitrary: object) simp_all
  then show ?thesis by (simp add: g_object_new_def)
qed

lemma new_objects_unconnected [simp]:
  "ob_connection (pk_channel_new props) = None"
  "ob_connection (pk_subscription_new props) = None"
  "ob_connection (pk_source_new props) = None"
  "ob_connection (pk_encoder_new props) = None"
  "ob_connection (pk_plugin_new plugin_props) = None"
  by (simp_all add: pk_channel_new_def pk_subscription_new_def pk_source_new_def pk_encoder_new_def pk_plugin_new_def
      new_object_unconnected pk_channel_set_property_def pk_subscription_set_property_def pk_source_set_property_def
      pk_encoder_set_property_def pk_plugin_set_property_def pk_channel_init_def pk_subscription_init_def
      pk_source_init_def pk_encoder_init_def pk_plugin_init_def split: object_property.splits)

lemmas object_methods =
  pk_channel_add_source_def pk_channel_add_source_async_def pk_channel_get_args_def
  pk_channel_get_args_async_def pk_channel_get_env_def pk_channel_get_env_async_def
  pk_channel_get_exit_status_def pk_channel_get_exit_status_async_def pk_channel_get_kill_pid_def
  pk_channel_get_kill_pid_async_def pk_channel_get_pid_def pk_channel_get_pid_async_def
  pk_channel_get_pid_set_def pk_channel_get_pid_set_async_def pk_channel_get_sources_def
  pk_channel_get_sources_async_def pk_channel_get_state_def pk_channel_get_state_async_def
  pk_channel_get_target_def pk_channel_get_target_async_def pk_channel_get_working_dir_def
  pk_channel_get_working_dir_async_def pk_channel_mute_def pk_channel_mute_async_def pk_channel_set_args_def
  pk_channel_set_args_async_def pk_channel_set_env_def pk_channel_set_env_async_def
  pk_channel_set_kill_pid_def pk_channel_set_kill_pid_async_def pk_channel_set_pid_def
  pk_channel_set_pid_async_def pk_channel_set_target_def pk_channel_set_target_async_def
  pk_channel_set_working_dir_def pk_channel_set_working_dir_async_def pk_channel_start_def
  pk_channel_start_async_def pk_channel_stop_def pk_channel_stop_async_def pk_channel_unmute_def
  pk_channel_unmute_async_def pk_subscription_add_channel_def pk_subscription_add_channel_async_def
  pk_subscription_add_source_def pk_subscription_add_source_async_def pk_subscription_mute_def
  pk_subscription_mute_async_def pk_subscription_remove_channel_def pk_subscription_remove_channel_async_def
  pk_subscription_remove_source_def pk_subscription_remove_source_async_def pk_subscription_set_buffer_def
  pk_subscription_set_buffer_async_def pk_subscription_unmute_def pk_subscription_unmute_async_def
  pk_source_get_plugin_def pk_source_get_plugin_async_def pk_encoder_get_plugin_def
  pk_encoder_get_plugin_async_def pk_plugin_get_copyright_def pk_plugin_get_copyright_async_def
  pk_plugin_get_description_def pk_plugin_get_description_async_def pk_plugin_get_name_def
  pk_plugin_get_name_async_def pk_plugin_get_plugin_type_def pk_plugin_get_plugin_type_async_def
  pk_plugin_get_version_def pk_plugin_get_version_async_def

lemmas connection_methods =
  pk_connection_plugin_get_copyright_def pk_connection_plugin_get_copyright_async_def
  pk_connection_plugin_get_description_def pk_connection_plugin_get_description_async_def
  pk_connection_plugin_get_name_def pk_connection_plugin_get_name_async_def
  pk_connection_plugin_get_plugin_type_def pk_connection_plugin_get_plugin_type_async_def
  pk_connection_plugin_get_version_def pk_connection_plugin_get_version_async_def
  pk_connection_source_get_plugin_def pk_connection_source_get_plugin_async_def
  pk_connection_channel_add_source_def pk_connection_channel_add_source_async_def
  pk_connection_channel_get_args_def pk_connection_channel_get_args_async_def
  pk_connection_channel_get_env_def pk_connection_channel_get_env_async_def
  pk_connection_channel_get_exit_status_def pk_connection_channel_get_exit_status_async_def
  pk_connection_channel_get_kill_pid_def pk_connection_channel_get_kill_pid_async_def
  pk_connection_channel_get_pid_def pk_connection_channel_get_pid_async_def
  pk_connection_channel_get_pid_set_def pk_connection_channel_get_pid_set_async_def
  pk_connection_channel_get_sources_def pk_connection_channel_get_sources_async_def
  pk_connection_channel_get_state_def pk_connection_channel_get_state_async_def
  pk_connection_channel_get_target_def pk_connection_channel_get_target_async_def
  pk_connection_channel_get_working_dir_def pk_connection_channel_get_working_dir_async_def
  pk_connection_channel_mute_def pk_connection_channel_mute_async_def pk_connection_channel_set_args_def
  pk_connection_channel_set_args_async_def pk_connection_channel_set_env_def
  pk_connection_channel_set_env_async_def pk_connection_channel_set_kill_pid_def
  pk_connection_channel_set_kill_pid_async_def pk_connection_channel_set_pid_def
  pk_connection_channel_set_pid_async_def pk_connection_channel_set_target_def
  pk_connection_channel_set_target_async_def pk_connection_channel_set_working_dir_def
  pk_connection_channel_set_working_dir_async_def pk_connection_channel_start_def
  pk_connection_channel_start_async_def pk_connection_channel_stop_def pk_connection_channel_stop_async_def
  pk_connection_channel_unmute_def pk_connection_channel_unmute_async_def
  pk_connection_encoder_get_plugin_def pk_connection_encoder_get_plugin_async_def
  pk_connection_subscription_add_channel_def pk_connection_subscription_add_channel_async_def
  pk_connection_subscription_add_source_def pk_connection_subscription_add_source_async_def
  pk_connection_subscription_mute_def pk_connection_subscription_mute_async_def
  pk_connection_subscription_remove_channel_def pk_connection_subscription_remove_channel_async_def
  pk_connection_subscription_remove_source_def pk_connection_subscription_remove_source_async_def
  pk_connection_subscription_set_buffer_def pk_connection_subscription_set_buffer_async_def
  pk_connection_subscription_unmute_def pk_connection_subscription_unmute_async_def

text \<open>
  C22: the object model does not work: with whatever properties an object is constructed, its connection is NULL.
  Every blocking method fails at once, with no error set and nothing asked of the agent, and no asynchronous one
  sends a request, so that its callback is never called. A manager lists no plugins.
\<close>

theorem object_api_dead:
  shows
    "pk_channel_add_source (pk_channel_new props) l source st = (Returned Finish_Quiet, st) \<and>
    pk_channel_get_args (pk_channel_new props) l st = (Returned Finish_Quiet, st) \<and>
    pk_channel_get_env (pk_channel_new props) l st = (Returned Finish_Quiet, st) \<and>
    pk_channel_get_exit_status (pk_channel_new props) l st = (Returned Finish_Quiet, st) \<and>
    pk_channel_get_kill_pid (pk_channel_new props) l st = (Returned Finish_Quiet, st) \<and>
    pk_channel_get_pid (pk_channel_new props) l st = (Returned Finish_Quiet, st) \<and>
    pk_channel_get_pid_set (pk_channel_new props) l st = (Returned Finish_Quiet, st) \<and>
    pk_channel_get_sources (pk_channel_new props) l st = (Returned Finish_Quiet, st) \<and>
    pk_channel_get_state (pk_channel_new props) l st = (Returned Finish_Quiet, st) \<and>
    pk_channel_get_target (pk_channel_new props) l st = (Returned Finish_Quiet, st) \<and>
    pk_channel_get_working_dir (pk_channel_new props) l st = (Returned Finish_Quiet, st) \<and>
    pk_channel_mute (pk_channel_new props) l st = (Returned Finish_Quiet, st) \<and>
    pk_channel_set_args (pk_channel_new props) l args st = (Returned Finish_Quiet, st) \<and>
    pk_channel_set_env (pk_channel_new props) l env_vars st = (Returned Finish_Quiet, st) \<and>
    pk_channel_set_kill_pid (pk_channel_new props) l kill_pid st = (Returned Finish_Quiet, st) \<and>
    pk_channel_set_pid (pk_channel_new props) l pid st = (Returned Finish_Quiet, st) \<and>
    pk_channel_set_target (pk_channel_new props) l target st = (Returned Finish_Quiet, st) \<and>
    pk_channel_set_working_dir (pk_channel_new props) l working_dir st = (Returned Finish_Quiet, st) \<and>
    pk_channel_start (pk_channel_new props) l st = (Returned Finish_Quiet, st) \<and>
    pk_channel_stop (pk_channel_new props) l st = (Returned Finish_Quiet, st) \<and>
    pk_channel_unmute (pk_channel_new props) l st = (Returned Finish_Quiet, st) \<and>
    pk_subscription_add_channel (pk_subscription_new props) l channel monitor st = (Returned Finish_Quiet, st) \<and>
    pk_subscription_add_source (pk_subscription_new props) l source st = (Returned Finish_Quiet, st) \<and>
    pk_subscription_mute (pk_subscription_new props) l drain st = (Returned Finish_Quiet, st) \<and>
    pk_subscription_remove_channel (pk_subscription_new props) l channel st = (Returned Finish_Quiet, st) \<and>
    pk_subscription_remove_source (pk_subscription_new props) l source st = (Returned Finish_Quiet, st) \<and>
    pk_subscription_set_buffer (pk_subscription_new props) l timeout size_arg st = (Returned Finish_Quiet, st) \<and>
    pk_subscription_unmute (pk_subscription_new props) l st = (Returned Finish_Quiet, st) \<and>
    pk_source_get_plugin (pk_source_new props) l st = (Returned Finish_Quiet, st) \<and>
    pk_encoder_get_plugin (pk_encoder_new props) l st = (Returned Finish_Quiet, st) \<and>
    pk_plugin_get_copyright (pk_plugin_new plugin_props) l st = (Returned Finish_Quiet, st) \<and>
    pk_plugin_get_description (pk_plugin_new plugin_props) l st = (Returned Finish_Quiet, st) \<and>
    pk_plugin_get_name (pk_plugin_new plugin_props) l st = (Returned Finish_Quiet, st) \<and>
    pk_plugin_get_plugin_type (pk_plugin_new plugin_props) l st = (Returned Finish_Quiet, st) \<and>
    pk_plugin_get_version (pk_plugin_new plugin_props) l st = (Returned Finish_Quiet, st) \<and>
    list_all (\<lambda>request. request = Not_Requested)
     [pk_channel_add_source_async (pk_channel_new props) source,
      pk_channel_get_args_async (pk_channel_new props),
      pk_channel_get_env_async (pk_channel_new props),
      pk_channel_get_exit_status_async (pk_channel_new props),
      pk_channel_get_kill_pid_async (pk_channel_new props),
      pk_channel_get_pid_async (pk_channel_new props),
      pk_channel_get_pid_set_async (pk_channel_new props),
      pk_channel_get_sources_async (pk_channel_new props),
      pk_channel_get_state_async (pk_channel_new props),
      pk_channel_get_target_async (pk_channel_new props),
      pk_channel_get_working_dir_async (pk_channel_new props),
      pk_channel_mute_async (pk_channel_new props),
      pk_channel_set_args_async (pk_channel_new props) args,
      pk_channel_set_env_async (pk_channel_new props) env_vars,
      pk_channel_set_kill_pid_async (pk_channel_new props) kill_pid,
      pk_channel_set_pid_async (pk_channel_new props) pid,
      pk_channel_set_target_async (pk_channel_new props) target,
      pk_channel_set_working_dir_async (pk_channel_new props) working_dir,
      pk_channel_start_async (pk_channel_new props),
      pk_channel_stop_async (pk_channel_new props),
      pk_channel_unmute_async (pk_channel_new props),
      pk_subscription_add_channel_async (pk_subscription_new props) channel monitor,
      pk_subscription_add_source_async (pk_subscription_new props) source,
      pk_subscription_mute_async (pk_subscription_new props) drain,
      pk_subscription_remove_channel_async (pk_subscription_new props) channel,
      pk_subscription_remove_source_async (pk_subscription_new props) source,
      pk_subscription_set_buffer_async (pk_subscription_new props) timeout size_arg,
      pk_subscription_unmute_async (pk_subscription_new props),
      pk_source_get_plugin_async (pk_source_new props),
      pk_encoder_get_plugin_async (pk_encoder_new props),
      pk_plugin_get_copyright_async (pk_plugin_new plugin_props),
      pk_plugin_get_description_async (pk_plugin_new plugin_props),
      pk_plugin_get_name_async (pk_plugin_new plugin_props),
      pk_plugin_get_plugin_type_async (pk_plugin_new plugin_props),
      pk_plugin_get_version_async (pk_plugin_new plugin_props)] \<and>
    pk_manager_get_plugins (fst (pk_connection_get_manager None)) l st = (Some [], st)"
  unfolding object_methods
  by (intro conjI)
    (simp_all add: connection_methods pk_manager_get_plugins_def pk_connection_get_manager_def pk_manager_init_def
      pk_connection_manager_get_plugins_def)

end
