(* ===== verification/Data_Sources.thy ===== *)
theory Data_Sources
  imports DBus_Wire Pka_Manager Pka_Source_Simple
begin

text \<open>
  perfkit-agent/sources: the plugins that measure. Each is a simple source whose callback reads a file of \<open>/proc\<close>, makes
  a manifest the first time, and delivers samples.
\<close>

section \<open>Reading\<close>

text \<open>
  The files: by path and a number of bytes, what \<open>open\<close> and one \<open>read\<close> give (None: one of them failed). A block of memory
  is a list of bytes, a pointer into it an index.
\<close>

type_synonym file_reads = "cstring \<Rightarrow> nat \<Rightarrow> u8 list option"

text \<open>What a function sees that is given a pointer to a string; None: there is no NUL in the rest of the block.\<close>

definition cstr_at :: "nat \<Rightarrow> u8 list \<Rightarrow> cstring option" where
  "cstr_at p buf = (if 0 \<in> set (drop p buf) then Some (c_string_of (drop p buf)) else None)"

text \<open>With a buffer; its contents stay as they are when the file cannot be read.\<close>

definition src_utils_read_file :: "file_reads \<Rightarrow> cstring \<Rightarrow> u8 list \<Rightarrow> nat \<Rightarrow> nat option \<times> u8 list" where
  "src_utils_read_file rd path buffer bsize =
     (case rd path (bsize - 1) of
        None \<Rightarrow> (None, buffer)
      | Some bytes \<Rightarrow> (Some 0, bytes @ 0 # drop (length bytes + 1) buffer))"

text \<open>The pointer behind the delimiter, which becomes a NUL, or NULL at the end. None: the loop leaves the block.\<close>

definition src_utils_str_tok :: "u8 \<Rightarrow> nat \<Rightarrow> u8 list \<Rightarrow> (nat option \<times> u8 list) option" where
  "src_utils_str_tok delim p buf =
     (let q = p + length (takeWhile (\<lambda>c. c \<noteq> 0 \<and> c \<noteq> delim) (drop p buf)) in
        if length buf \<le> q then None
        else if buf ! q = 0 then Some (None, buf)
        else Some (Some (q + 1), buf[q := 0]))"

lemma str_tok_next:
  assumes "src_utils_str_tok delim p buf = Some (next, buf')"
  shows "length buf' = length buf" and "p < length buf" and "next = Some q \<Longrightarrow> p < q \<and> q \<le> length buf"
  using assms by (auto simp: src_utils_str_tok_def Let_def split: if_splits)

lemma str_tok_shorter:
  assumes "src_utils_str_tok delim p buf = Some (Some q, buf')"
  shows "length buf' - q < length buf - p"
  using str_tok_next [OF assms] by auto

text \<open>The conversion \<open>%d\<close> of \<open>sscanf\<close>, with what is left of the string; and several of them, up to the first that fails.\<close>

definition scan_int_rest :: "cstring \<Rightarrow> (gint \<times> cstring) option" where
  "scan_int_rest s =
     (let s = dropWhile is_space s;
          (negative, s) = (case s of
             [] \<Rightarrow> (False, [])
           | c # t \<Rightarrow> if c = 45 then (True, t) else if c = 43 then (False, t) else (False, s));
          ds = takeWhile is_digit s;
          n = int (digits_value ds)
      in if ds = [] then None
         else Some (word_of_int (long_range (if negative then - n else n)), dropWhile is_digit s))"

lemma scan_int_rest: "scan_int s = map_option fst (scan_int_rest s)"
  by (simp add: scan_int_def scan_int_rest_def Let_def split: prod.split)

fun scan_ints :: "nat \<Rightarrow> cstring \<Rightarrow> gint list" where
  "scan_ints 0 s = []"
| "scan_ints (Suc n) s =
     (case scan_int_rest s of None \<Rightarrow> [] | Some (v, r) \<Rightarrow> v # scan_ints n r)"

section \<open>Delivering\<close>

datatype delivery = Deliver_Manifest pka_manifest | Deliver_Sample pka_sample

text \<open>What a callback hands to its source, whose subscribers get it; the address of the manifest is an argument.\<close>

fun deliver_to_source :: "gtypes \<Rightarrow> manifest_ref \<Rightarrow> source_ref \<Rightarrow> delivery \<Rightarrow> world \<Rightarrow> world" where
  "deliver_to_source gt a s (Deliver_Manifest m) w = pka_source_deliver_manifest gt s (a, m) w"
| "deliver_to_source gt a s (Deliver_Sample x) w = pka_source_deliver_sample s x w"

text \<open>The rows of a manifest, one call after the other.\<close>

fun append_rows :: "gtypes \<Rightarrow> (cstring \<times> g_fundamental) list \<Rightarrow> pka_manifest \<Rightarrow> pka_manifest c_result" where
  "append_rows gt [] m = Returns m"
| "append_rows gt ((name, f) # rows) m =
     (case pka_manifest_append gt m name (gt f) of
        Returns (m, row) \<Rightarrow> append_rows gt rows m
      | Aborts \<Rightarrow> Aborts)"

definition manifest_of_rows ::
  "gtypes \<Rightarrow> timespec \<Rightarrow> int \<Rightarrow> (cstring \<times> g_fundamental) list \<Rightarrow> pka_manifest c_result" where
  "manifest_of_rows gt now n rows =
     (case pka_manifest_sized_new now n of None \<Rightarrow> Aborts | Some m \<Rightarrow> append_rows gt rows m)"

text \<open>
  The manifest that the source keeps, and what is delivered of it: it is made and delivered once. \<open>Failed\<close>: the process
  aborts; \<open>Fault\<close>: an access outside a block.
\<close>

definition kept_manifest ::
  "pka_manifest option \<Rightarrow> pka_manifest c_result \<Rightarrow> (pka_manifest \<times> delivery list) outcome" where
  "kept_manifest kept new =
     (case kept of
        Some m \<Rightarrow> Value (m, [])
      | None \<Rightarrow> (case new of Returns m \<Rightarrow> Value (m, [Deliver_Manifest m]) | Aborts \<Rightarrow> Failed))"

section \<open>Cpu\<close>

record cpu_data =
  cd_manifest :: "pka_manifest option"

definition parse_cpu_stat_line :: "cstring \<Rightarrow> gint list option" where
  "parse_cpu_stat_line str =
     (if take 4 str = ascii ''cpu '' then None
      else
        (case strip_prefix (ascii ''cpu'') str of
           None \<Rightarrow> None
         | Some r \<Rightarrow> (let vs = scan_ints 10 r in if length vs = 10 then Some vs else None)))"

definition cpu_rows :: "(cstring \<times> g_fundamental) list" where
  "cpu_rows = map (\<lambda>name. (ascii name, G_TYPE_INT))
     [''CPU Number'', ''User'', ''Nice'', ''System'', ''Idle'', ''I/O Wait'', ''IRQ'', ''Soft IRQ'', ''VM Stolen'',
      ''VM Guest'']"

text \<open>The loop over the lines: the numbers of those that parse.\<close>

function cpu_lines :: "u8 list \<Rightarrow> nat \<Rightarrow> gint list list outcome" where
  "cpu_lines buf p =
     (case src_utils_str_tok 10 p buf of
        None \<Rightarrow> Fault
      | Some (next, buf) \<Rightarrow>
          (case cstr_at p buf of
             None \<Rightarrow> Fault
           | Some line \<Rightarrow>
               (let here = (case parse_cpu_stat_line line of None \<Rightarrow> [] | Some vs \<Rightarrow> [vs]) in
                  case next of
                    None \<Rightarrow> Value here
                  | Some q \<Rightarrow>
                      (case cpu_lines buf q of
                         Value rest \<Rightarrow> Value (here @ rest) | Failed \<Rightarrow> Failed | Fault \<Rightarrow> Fault))))"
  by pat_completeness auto
termination
  by (relation "measure (\<lambda>(buf, p). length buf - p)") (auto intro!: str_tok_shorter)

declare cpu_lines.simps [simp del]

definition cpu_fields :: "gint list \<Rightarrow> pka_sample \<Rightarrow> pka_sample" where
  "cpu_fields cpuData s = fold (\<lambda>i s. pka_sample_append_int s (word_of_nat (i + 1)) (cpuData ! i)) [0..<10] s"

text \<open>\<open>now\<close>: the times at which objects are made, one after the other; \<open>fileBuf\<close>: what is on the stack.\<close>

definition cpu_sample ::
  "gtypes \<Rightarrow> file_reads \<Rightarrow> (nat \<Rightarrow> timespec) \<Rightarrow> u8 list \<Rightarrow> cpu_data \<Rightarrow> (cpu_data \<times> delivery list) outcome" where
  "cpu_sample gt rd now fileBuf cpud =
     (case kept_manifest (cd_manifest cpud) (manifest_of_rows gt (now 0) 17 cpu_rows) of
        Value (m, ds) \<Rightarrow>
          (case cpu_lines (snd (src_utils_read_file rd (ascii ''/proc/stat'') fileBuf 1024)) 0 of
             Value vss \<Rightarrow>
               Value (cpud\<lparr>cd_manifest := Some m\<rparr>,
                 ds @ map (\<lambda>(k, vs). Deliver_Sample (cpu_fields vs (pka_sample_new (now k)))) (enumerate 1 vss))
           | Failed \<Rightarrow> Failed
           | Fault \<Rightarrow> Fault)
      | Failed \<Rightarrow> Failed
      | Fault \<Rightarrow> Fault)"

definition cpu_spawn :: "pka_spawn_info \<Rightarrow> cpu_data \<Rightarrow> cpu_data" where
  "cpu_spawn spawn_info cpud = cpud"

definition cpu_new :: "cpu_data \<times> simple_source" where
  "cpu_new = (\<lparr>cd_manifest = None\<rparr>, pka_source_simple_new_full True True)"

section \<open>Memory\<close>

record memory =
  me_manifest :: "pka_manifest option"
  me_pid :: gint
  me_size :: gint
  me_resident :: gint
  me_share :: gint
  me_text :: gint
  me_lib :: gint
  me_data :: gint
  me_dt :: gint

definition memory_path :: "gint \<Rightarrow> cstring" where
  "memory_path pid = take 63 (ascii ''/proc/'' @ fmt_int pid @ ascii ''/statm'')"

text \<open>
  Of the numbers that \<open>sscanf\<close> does not find the variables keep their values. \<open>buffer\<close> is on the stack and is not
  terminated after the bytes that were read.
\<close>

definition memory_read :: "file_reads \<Rightarrow> u8 list \<Rightarrow> memory \<Rightarrow> (bool \<times> memory) outcome" where
  "memory_read rd buffer state =
     (case rd (memory_path (me_pid state)) 64 of
        None \<Rightarrow> Value (False, state)
      | Some bytes \<Rightarrow>
          if bytes = [] then Value (False, state)
          else
            (case cstr_at 0 (bytes @ drop (length bytes) buffer) of
               None \<Rightarrow> Fault
             | Some s \<Rightarrow>
                 (let vs = scan_ints 7 s;
                      set = (\<lambda>k old. if k < length vs then vs ! k else old)
                  in Value (True, state\<lparr>me_size := set 0 (me_size state), me_resident := set 1 (me_resident state),
                       me_share := set 2 (me_share state), me_text := set 3 (me_text state),
                       me_lib := set 4 (me_lib state), me_data := set 5 (me_data state), me_dt := set 6 (me_dt state)\<rparr>))))"

definition memory_rows :: "(cstring \<times> g_fundamental) list" where
  "memory_rows = map (\<lambda>name. (ascii name, G_TYPE_UINT)) [''size'', ''resident'', ''share'', ''text'', ''data'']"

definition memory_fields :: "memory \<Rightarrow> pka_sample \<Rightarrow> pka_sample" where
  "memory_fields state s =
     pka_sample_append_uint (pka_sample_append_uint (pka_sample_append_uint (pka_sample_append_uint
       (pka_sample_append_uint s 1 (me_size state)) 2 (me_resident state)) 3 (me_share state)) 4 (me_text state)) 5
       (me_data state)"

definition memory_sample ::
  "gtypes \<Rightarrow> file_reads \<Rightarrow> (nat \<Rightarrow> timespec) \<Rightarrow> u8 list \<Rightarrow> memory \<Rightarrow> (memory \<times> delivery list) outcome" where
  "memory_sample gt rd now buffer state =
     (case kept_manifest (me_manifest state) (manifest_of_rows gt (now 0) 5 memory_rows) of
        Value (m, ds) \<Rightarrow>
          (case memory_read rd buffer (state\<lparr>me_manifest := Some m\<rparr>) of
             Value (True, state) \<Rightarrow> Value (state, ds @ [Deliver_Sample (memory_fields state (pka_sample_new (now 1)))])
           | Value (False, state) \<Rightarrow> Value (state, ds)
           | Failed \<Rightarrow> Failed
           | Fault \<Rightarrow> Fault)
      | Failed \<Rightarrow> Failed
      | Fault \<Rightarrow> Fault)"

text \<open>A process identifier is an int.\<close>

definition memory_spawn :: "pka_spawn_info \<Rightarrow> memory \<Rightarrow> memory" where
  "memory_spawn spawn_info state = state\<lparr>me_pid := word_of_int (si_pid spawn_info)\<rparr>"

definition memory_new :: "memory \<times> simple_source" where
  "memory_new =
     (\<lparr>me_manifest = None, me_pid = 0, me_size = 0, me_resident = 0, me_share = 0, me_text = 0, me_lib = 0, me_data = 0,
       me_dt = 0\<rparr>, pka_source_simple_new_full True True)"

section \<open>Network devices\<close>

record netdev_data =
  nd_manifest :: "pka_manifest option"

text \<open>A pointer that moves on to the next byte of a kind; None: it leaves the block.\<close>

definition find_byte :: "(u8 \<Rightarrow> bool) \<Rightarrow> nat \<Rightarrow> u8 list \<Rightarrow> nat option" where
  "find_byte P p buf =
     (let q = p + length (takeWhile (\<lambda>c. \<not> P c) (drop p buf)) in if length buf \<le> q then None else Some q)"

text \<open>
  A line, at \<open>content\<close>. In the first line the place of the separator is found; a line that has a colon at that place is
  one of a device: its name, and up to 16 numbers. The result: the block, the place, the number of devices, and what is
  sampled. (The conversion \<open>%s\<close> writes to 64 bytes.)
\<close>

definition netdev_line ::
  "u8 list \<Rightarrow> nat option \<Rightarrow> nat \<Rightarrow> (u8 list \<times> nat option \<times> nat \<times> (cstring \<times> gint list) list) outcome" where
  "netdev_line buf delim_index content =
     (case delim_index of
        None \<Rightarrow>
          (case src_utils_str_tok 124 content buf of
             None \<Rightarrow> Fault
           | Some (_, buf) \<Rightarrow>
               (case cstr_at content buf of None \<Rightarrow> Fault | Some s \<Rightarrow> Value (buf, Some (length s), 0, [])))
      | Some d \<Rightarrow>
          if length buf \<le> content + d then Fault
          else if buf ! (content + d) \<noteq> 58 then Value (buf, Some d, 0, [])
          else
            (let buf = buf[content + d := 0] in
               case find_byte g_ascii_isalnum content buf of
                 None \<Rightarrow> Fault
               | Some q \<Rightarrow>
                   (case cstr_at q buf of
                      None \<Rightarrow> Fault
                    | Some s \<Rightarrow>
                        (let iface_name = takeWhile (\<lambda>c. \<not> is_space c) s in
                           if 64 \<le> length iface_name then Fault
                           else
                             (case find_byte is_digit (content + d + 1) buf of
                                None \<Rightarrow> Fault
                              | Some r \<Rightarrow>
                                  (case cstr_at r buf of
                                     None \<Rightarrow> Fault
                                   | Some t \<Rightarrow>
                                       (let val = scan_ints 16 t in
                                          Value (buf, Some d, 1,
                                            if 1 + length val = 17 then [(iface_name, val)] else []))))))))"

lemma netdev_line_length:
  assumes "netdev_line buf d p = Value (buf', r)"
  shows "length buf' = length buf"
  using assms str_tok_next(1)
  by (auto simp: netdev_line_def Let_def split: option.splits if_splits prod.splits)

function netdev_lines :: "u8 list \<Rightarrow> nat option \<Rightarrow> nat \<Rightarrow> (nat \<times> (cstring \<times> gint list) list) outcome" where
  "netdev_lines buf delim_index content =
     (case src_utils_str_tok 10 content buf of
        None \<Rightarrow> Fault
      | Some (next_line, buf) \<Rightarrow>
          (case netdev_line buf delim_index content of
             Value (buf, delim_index, n, here) \<Rightarrow>
               (case next_line of
                  None \<Rightarrow> Value (n, here)
                | Some q \<Rightarrow>
                    (case netdev_lines buf delim_index q of
                       Value (n', rest) \<Rightarrow> Value (n + n', here @ rest) | Failed \<Rightarrow> Failed | Fault \<Rightarrow> Fault))
           | Failed \<Rightarrow> Failed
           | Fault \<Rightarrow> Fault))"
  by pat_completeness auto
termination
proof (relation "measure (\<lambda>(buf, d, p). length buf - p)", goal_cases)
  case (2 buf d p x next_line buf1 y buf2 z d' w n here q)
  then have "src_utils_str_tok 10 p buf = Some (Some q, buf1)" "length buf2 = length buf1"
    by (auto simp: netdev_line_length)
  with str_tok_shorter [OF this(1)] show ?case by simp
qed simp

declare netdev_lines.simps [simp del]

definition netdev_rows :: "(cstring \<times> g_fundamental) list" where
  "netdev_rows = (ascii ''InterfaceName'', G_TYPE_STRING) # map (\<lambda>name. (ascii name, G_TYPE_UINT))
     [''rxBytes'', ''rxPackets'', ''rxErrors'', ''rxDropped'', ''rxFifo'', ''rxFrame'', ''rxCompressed'',
      ''rxMulticast'', ''txBytes'', ''txPackets'', ''txErrors'', ''txDropped'', ''txFifo'', ''txCollisions'',
      ''txCarrier'', ''txCompressed'']"

definition netdev_fields :: "cstring \<Rightarrow> gint list \<Rightarrow> pka_sample \<Rightarrow> pka_sample" where
  "netdev_fields iface_name val s =
     fold (\<lambda>i s. pka_sample_append_int s (word_of_nat (i + 2)) (val ! i)) [0..<16]
       (pka_sample_append_string s 1 (Some iface_name))"

text \<open>The number of devices, and the samples that are delivered.\<close>

definition netdev_read :: "file_reads \<Rightarrow> (nat \<Rightarrow> timespec) \<Rightarrow> u8 list \<Rightarrow> (nat \<times> delivery list) outcome" where
  "netdev_read rd now filebuf =
     (case src_utils_read_file rd (ascii ''/proc/net/dev'') filebuf 1024 of
        (None, filebuf) \<Rightarrow> Value (0, [])
      | (Some content, filebuf) \<Rightarrow>
          (case netdev_lines filebuf None content of
             Value (devicesRead, found) \<Rightarrow>
               Value (devicesRead,
                 map (\<lambda>(k, name, val). Deliver_Sample (netdev_fields name val (pka_sample_new (now k)))) (enumerate 1 found))
           | Failed \<Rightarrow> Failed
           | Fault \<Rightarrow> Fault))"

definition netdev_sample ::
  "gtypes \<Rightarrow> file_reads \<Rightarrow> (nat \<Rightarrow> timespec) \<Rightarrow> u8 list \<Rightarrow> netdev_data \<Rightarrow> (netdev_data \<times> delivery list) outcome" where
  "netdev_sample gt rd now filebuf ndd =
     (case kept_manifest (nd_manifest ndd) (manifest_of_rows gt (now 0) 17 netdev_rows) of
        Value (m, ds) \<Rightarrow>
          (case netdev_read rd now filebuf of
             Value (devicesRead, samples) \<Rightarrow> Value (ndd\<lparr>nd_manifest := Some m\<rparr>, ds @ samples)
           | Failed \<Rightarrow> Failed
           | Fault \<Rightarrow> Fault)
      | Failed \<Rightarrow> Failed
      | Fault \<Rightarrow> Fault)"

definition netdev_spawn :: "pka_spawn_info \<Rightarrow> netdev_data \<Rightarrow> netdev_data" where
  "netdev_spawn spawn_info ndd = ndd"

definition netdev_new :: "netdev_data \<times> simple_source" where
  "netdev_new = (\<lparr>nd_manifest = None\<rparr>, pka_source_simple_new_full True True)"

section \<open>Scheduler\<close>

datatype sched_value = SCHED_UNKNOWN | SCHED_INT gint | SCHED_DOUBLE gdouble_bits

type_synonym sched_entry = "cstring \<times> sched_value"

record sched =
  sc_manifest :: "pka_manifest option"
  sc_filename :: "cstring option"
  sc_pid :: gint

text \<open>
  GLib: the pairs of names and values that the regular expression finds in a text, \<open>g_file_get_contents\<close>, and
  \<open>g_strtod\<close>.
\<close>

record sched_env =
  ce_match :: "cstring \<Rightarrow> (cstring \<times> cstring) list"
  ce_contents :: "cstring \<Rightarrow> cstring option"
  ce_strtod :: "cstring \<Rightarrow> gdouble_bits"

text \<open>The name of the file is made once.\<close>

definition sched_read :: "sched_env \<Rightarrow> sched \<Rightarrow> cstring option \<times> sched" where
  "sched_read e sched =
     (let filename = (case sc_filename sched of
          None \<Rightarrow> ascii ''/proc/'' @ fmt_int (sc_pid sched) @ ascii ''/sched''
        | Some f \<Rightarrow> f)
      in (ce_contents e filename, sched\<lparr>sc_filename := Some filename\<rparr>))"

definition has_decimal :: "cstring \<Rightarrow> bool" where
  "has_decimal str \<longleftrightarrow> 46 \<in> set str"

text \<open>\<open>atoi\<close>: 0 where there is no number.\<close>

definition atoi :: "cstring \<Rightarrow> gint" where
  "atoi s = (case scan_int s of None \<Rightarrow> 0 | Some v \<Rightarrow> v)"

text \<open>None: the file cannot be read, or nothing in it matches.\<close>

definition sched_parse :: "sched_env \<Rightarrow> sched \<Rightarrow> sched_entry list option \<times> sched" where
  "sched_parse e sched =
     (case sched_read e sched of
        (None, sched) \<Rightarrow> (None, sched)
      | (Some contents, sched) \<Rightarrow>
          if ce_match e contents = [] then (None, sched)
          else
            (Some (map (\<lambda>(name, val).
                 (name, if has_decimal val then SCHED_DOUBLE (ce_strtod e val) else SCHED_INT (atoi val)))
               (ce_match e contents)), sched))"

fun populate_manifest :: "gtypes \<Rightarrow> pka_manifest \<Rightarrow> sched_entry list \<Rightarrow> pka_manifest c_result" where
  "populate_manifest gt m [] = Returns m"
| "populate_manifest gt m ((name, SCHED_INT i) # entries) =
     (case pka_manifest_append gt m name (gt G_TYPE_INT) of
        Returns (m, row) \<Rightarrow> populate_manifest gt m entries | Aborts \<Rightarrow> Aborts)"
| "populate_manifest gt m ((name, SCHED_DOUBLE d) # entries) =
     (case pka_manifest_append gt m name (gt G_TYPE_DOUBLE) of
        Returns (m, row) \<Rightarrow> populate_manifest gt m entries | Aborts \<Rightarrow> Aborts)"
| "populate_manifest gt m ((name, SCHED_UNKNOWN) # entries) = populate_manifest gt m entries"

text \<open>The entries from an index on.\<close>

fun populate_sample :: "byte_order \<Rightarrow> nat \<Rightarrow> sched_entry list \<Rightarrow> pka_sample \<Rightarrow> pka_sample" where
  "populate_sample ord i [] s = s"
| "populate_sample ord i ((name, SCHED_INT v) # entries) s =
     populate_sample ord (i + 1) entries (pka_sample_append_uint s (word_of_nat (i + 1)) v)"
| "populate_sample ord i ((name, SCHED_DOUBLE d) # entries) s =
     populate_sample ord (i + 1) entries (pka_sample_append_double ord s (word_of_nat (i + 1)) d)"
| "populate_sample ord i ((name, SCHED_UNKNOWN) # entries) s = populate_sample ord (i + 1) entries s"

definition sched_sample ::
  "byte_order \<Rightarrow> gtypes \<Rightarrow> sched_env \<Rightarrow> (nat \<Rightarrow> timespec) \<Rightarrow> sched \<Rightarrow> (sched \<times> delivery list) outcome" where
  "sched_sample ord gt e now sched =
     (case sched_parse e sched of
        (None, sched) \<Rightarrow> Value (sched, [])
      | (Some entries, sched) \<Rightarrow>
          (case kept_manifest (sc_manifest sched)
              (case pka_manifest_new (now 0) of None \<Rightarrow> Aborts | Some m \<Rightarrow> populate_manifest gt m entries) of
             Value (m, ds) \<Rightarrow>
               Value (sched\<lparr>sc_manifest := Some m\<rparr>,
                 ds @ [Deliver_Sample (populate_sample ord 0 entries (pka_sample_new (now 1)))])
           | Failed \<Rightarrow> Failed
           | Fault \<Rightarrow> Fault))"

definition sched_spawn :: "pka_spawn_info \<Rightarrow> sched \<Rightarrow> sched" where
  "sched_spawn spawn_info sched = sched\<lparr>sc_pid := word_of_int (si_pid spawn_info)\<rparr>"

definition sched_new :: "sched \<times> simple_source" where
  "sched_new = (\<lparr>sc_manifest = None, sc_filename = None, sc_pid = 0\<rparr>, pka_source_simple_new_full True True)"

section \<open>Plugins\<close>

text \<open>Every factory makes a source object whose class does not touch the spawn information.\<close>

definition plugin_of :: "string \<Rightarrow> string \<Rightarrow> string \<Rightarrow> string \<Rightarrow> string \<Rightarrow> pka_plugin_info" where
  "plugin_of ident name description version copyright =
     \<lparr>pi_factory = Some (\<lambda>_. Ok (Source_Object None)), pi_plugin_type = PLUGIN_SOURCE, pi_id = ascii ident,
      pi_name = ascii name, pi_version = ascii version, pi_description = ascii description,
      pi_copyright = ascii copyright\<rparr>"

definition cpu_plugin_info :: pka_plugin_info where
  "cpu_plugin_info = plugin_of ''Cpu'' ''CPU usage''
     ''This source provides general CPU usage information about the running machine'' ''0.1.1'' ''Andrew Stiegmann''"

definition memory_plugin_info :: pka_plugin_info where
  "memory_plugin_info = plugin_of ''Memory'' ''Memory usage'' ''System and process memory usage.'' ''0.1.1''
     ''Copyright 2010 Christian Hergert''"

definition netdev_plugin_info :: pka_plugin_info where
  "netdev_plugin_info = plugin_of ''NetDev'' ''Network usage''
     ''This source provides network usage of a given network interface.'' ''0.1.1'' ''2010 Andrew Stiegmann''"

end
