(* ===== verification/Source_Properties.thy ===== *)
theory Source_Properties
  imports Data_Sources Wire_Protocol
begin

text \<open>
  What the measuring plugins deliver, from the text of the files to the fields that a client decodes.
\<close>

section \<open>Numbers in a text\<close>

definition not_digit_first :: "cstring \<Rightarrow> bool" where
  "not_digit_first s \<longleftrightarrow> (case s of [] \<Rightarrow> True | c # _ \<Rightarrow> \<not> is_digit c)"

lemma take_drop_digits:
  assumes "not_digit_first r"
  shows "takeWhile is_digit (digits n @ r) = digits n" "dropWhile is_digit (digits n @ r) = r"
proof -
  have "takeWhile is_digit r = []" "dropWhile is_digit r = r"
    using assms by (cases r; simp add: not_digit_first_def)+
  then show "takeWhile is_digit (digits n @ r) = digits n" "dropWhile is_digit (digits n @ r) = r"
    using digits_are_digits [of n] by (auto simp: takeWhile_append dropWhile_append)
qed

lemma length_digits_le: "n < 10 ^ Suc k \<Longrightarrow> length (digits n) \<le> Suc k"
proof (induction k arbitrary: n)
  case (Suc k)
  then have "n div 10 < 10 ^ Suc k" by (simp add: less_mult_imp_div_less)
  then show ?case using Suc.IH [of "n div 10"] by (subst digits.simps) simp
qed (simp add: digits.simps)

lemma is_space_blank: "is_space 32" by (simp add: is_space_def)

lemma scan_number:
  assumes "not_digit_first r" "n < 2 ^ 63"
  shows "scan_int_rest (replicate k 32 @ digits n @ r) = Some (word_of_nat n, r)"
proof -
  obtain c t where ds: "digits n = c # t" using digits_not_empty by (cases "digits n") auto
  then have "is_digit c" using digits_are_digits [of n] by simp
  then have c: "\<not> is_space c" "c \<noteq> 45" "c \<noteq> 43" using digit_not_space by auto
  have "dropWhile is_space (replicate k 32 @ digits n @ r) = digits n @ r"
    using c(1) ds is_space_blank by (induction k) simp_all
  moreover have "long_range (int n) = int n" using assms(2) by (simp add: long_range_def)
  ultimately show ?thesis
    using take_drop_digits [OF assms(1), of n] digits_value_digits [of n] c ds
    by (simp add: scan_int_rest_def Let_def)
qed

text \<open>Numbers, each after one blank and more.\<close>

definition columns :: "(nat \<times> nat) list \<Rightarrow> cstring" where
  "columns cs = concat (map (\<lambda>(k, n). 32 # replicate k 32 @ digits n) cs)"

abbreviation spaced :: "nat list \<Rightarrow> cstring" where
  "spaced ns \<equiv> columns (map (Pair 0) ns)"

lemma columns_simps [simp]:
  "columns [] = []" "columns ((k, n) # cs) = 32 # replicate k 32 @ digits n @ columns cs"
  "columns (cs @ cs') = columns cs @ columns cs'"
  by (simp_all add: columns_def)

lemma columns_not_digit: "not_digit_first r \<Longrightarrow> not_digit_first (columns cs @ r)"
  by (cases cs) (auto simp: not_digit_first_def is_digit_def)

lemma scan_columns:
  assumes "not_digit_first r" "\<forall>n \<in> set (map snd cs). n < 2 ^ 63"
  shows "scan_ints (length cs + j) (columns cs @ r) = map (word_of_nat \<circ> snd) cs @ scan_ints j r"
  using assms(2)
proof (induction cs)
  case (Cons c cs)
  obtain k n where c: "c = (k, n)" by (cases c)
  with Cons have "scan_int_rest (columns (c # cs) @ r) = Some (word_of_nat n, columns cs @ r)"
    using scan_number [OF columns_not_digit [OF assms(1)], where n = n and k = "Suc k"] by simp
  with Cons c show ?case by simp
qed simp

text \<open>The first number may stand at the beginning.\<close>

lemma scan_numbers:
  assumes "not_digit_first r" "n < 2 ^ 63" "\<forall>n \<in> set (map snd cs). n < 2 ^ 63" "j = Suc (length cs)"
  shows "scan_ints j (digits n @ columns cs @ r) = word_of_nat n # map (word_of_nat \<circ> snd) cs"
  using scan_number [OF columns_not_digit [OF assms(1)] assms(2), of 0] scan_columns [OF assms(1,3), of 0]
  by (simp add: assms(4))

section \<open>Lines in a block\<close>

text \<open>The text of a file: lines without NUL, each with a newline.\<close>

definition line_ok :: "cstring \<Rightarrow> bool" where
  "line_ok l \<longleftrightarrow> 0 \<notin> set l \<and> 10 \<notin> set l"

definition text_of :: "cstring list \<Rightarrow> cstring" where
  "text_of ls = concat (map (\<lambda>l. l @ [10]) ls)"

lemma text_of_simps [simp]: "text_of [] = []" "text_of (l # ls) = l @ 10 # text_of ls"
  by (simp_all add: text_of_def)

lemma str_tok_line:
  assumes "line_ok l"
  shows "src_utils_str_tok 10 (length pre) (pre @ l @ 10 # post) =
    Some (Some (length pre + length l + 1), pre @ l @ 0 # post)"
proof -
  have "takeWhile (\<lambda>c. c \<noteq> 0 \<and> c \<noteq> 10) (l @ 10 # post) = l"
    using assms by (auto simp: line_ok_def takeWhile_append)
  then show ?thesis
    by (simp add: src_utils_str_tok_def Let_def nth_append list_update_append)
qed

lemma str_tok_end: "src_utils_str_tok d (length pre) (pre @ 0 # post) = Some (None, pre @ 0 # post)"
  by (simp add: src_utils_str_tok_def)

lemma cstr_at_line: "0 \<notin> set l \<Longrightarrow> cstr_at (length pre) (pre @ l @ 0 # post) = Some l"
  by (auto simp: cstr_at_def c_string_of_def takeWhile_append)

lemma parse_empty: "parse_cpu_stat_line [] = None"
  by (simp add: parse_cpu_stat_line_def ascii_def)

lemma cpu_lines_text:
  assumes "\<forall>l \<in> set ls. line_ok l"
  shows "cpu_lines (pre @ text_of ls @ 0 # junk) (length pre) = Value (List.map_filter parse_cpu_stat_line ls)"
  using assms
proof (induction ls arbitrary: pre)
  case Nil
  then show ?case
    using str_tok_end [of 10 pre junk] cstr_at_line [of "[]" pre junk]
    by (subst cpu_lines.simps) (simp add: parse_empty)
next
  case (Cons l ls)
  then have l: "line_ok l" by simp
  have rest: "cpu_lines ((pre @ l @ [0]) @ text_of ls @ 0 # junk) (length (pre @ l @ [0])) =
      Value (List.map_filter parse_cpu_stat_line ls)"
    by (rule Cons.IH) (use Cons.prems in simp)
  have "cstr_at (length pre) (pre @ l @ 0 # text_of ls @ 0 # junk) = Some l"
    using l by (intro cstr_at_line) (simp add: line_ok_def)
  then show ?case
    using rest str_tok_line [OF l, of pre "text_of ls @ 0 # junk"]
    by (subst cpu_lines.simps) (simp split: option.split)
qed

section \<open>Manifests and fields\<close>

lemma append_rows_all:
  assumes "gtypes_ok gt" "\<forall>(name, f) \<in> set rows. f \<in> {G_TYPE_INT, G_TYPE_UINT, G_TYPE_STRING, G_TYPE_DOUBLE}"
  shows "append_rows gt rows m = Returns (m\<lparr>pm_rows := pm_rows m @
    map (\<lambda>(k, name, f). \<lparr>row_id = word_of_nat k + 1, row_type = gt f, row_name = name\<rparr>)
      (enumerate (length (pm_rows m)) rows)\<rparr>)"
  using assms(2)
proof (induction rows arbitrary: m)
  case (Cons r rows)
  obtain name f where r: "r = (name, f)" by (cases r)
  let ?row = "\<lparr>row_id = word_of_nat (length (pm_rows m)) + 1, row_type = gt f, row_name = name\<rparr>"
  have "gt f \<noteq> 0" "manifest_type_supported gt (gt f)"
    using Cons.prems gtypes_ok_simps(2) [OF assms(1), of f] by (auto simp: r manifest_type_supported_def)
  then have "pka_manifest_append gt m name (gt f) = Returns (m\<lparr>pm_rows := pm_rows m @ [?row]\<rparr>, row_id ?row)"
    by (simp add: pka_manifest_append_def Let_def)
  then show ?case using Cons by (simp add: r)
qed simp

definition built_manifest :: "gtypes \<Rightarrow> timespec \<Rightarrow> (cstring \<times> g_fundamental) list \<Rightarrow> pka_manifest" where
  "built_manifest gt now rows =
     \<lparr>pm_ref = 1, pm_rows = map (\<lambda>(k, name, f). \<lparr>row_id = word_of_nat k + 1, row_type = gt f, row_name = name\<rparr>)
        (enumerate 0 rows), pm_source_id = 0, pm_ts = now, pm_resolution = RESOLUTION_USEC\<rparr>"

lemma manifest_of_rows_built:
  assumes "gtypes_ok gt" "\<forall>(name, f) \<in> set rows. f \<in> {G_TYPE_INT, G_TYPE_UINT, G_TYPE_STRING, G_TYPE_DOUBLE}" "0 \<le> n"
  shows "manifest_of_rows gt now n rows = Returns (built_manifest gt now rows)"
  using append_rows_all [OF assms(1,2)] assms(3)
  by (simp add: manifest_of_rows_def pka_manifest_sized_new_def built_manifest_def)

lemma built_manifest_rows [simp]:
  "length (pm_rows (built_manifest gt now rows)) = length rows"
  "k < length rows \<Longrightarrow> row_type (pm_rows (built_manifest gt now rows) ! k) = gt (snd (rows ! k))"
  "map row_name (pm_rows (built_manifest gt now rows)) = map fst rows"
  by (auto simp: built_manifest_def nth_enumerate_eq case_prod_beta intro!: nth_equalityI)

text \<open>
  The client gets these fields: the sample, once its source has given it its number, is encoded by the default encoder, and
  a client on any host that has the manifest decodes the bytes to them.
\<close>

definition client_gets :: "gtypes \<Rightarrow> pka_manifest \<Rightarrow> pka_sample \<Rightarrow> (guint \<times> g_value) list \<Rightarrow> bool" where
  "client_gets gt m s fvs \<longleftrightarrow>
     (\<forall>ord resolver src. resolver src = Some (client_manifest m) \<longrightarrow>
        (\<exists>data. pka_encoder_encode_samples None m [pka_sample_set_source_id s src] = Some data \<and>
           pk_sample_new_from_data ord gt resolver data =
             (Value (client_sample m (pka_sample_set_source_id s src) fvs), length data)))"

definition value_size :: "g_value \<Rightarrow> nat" where
  "value_size v = (case v of V_STRING s \<Rightarrow> length s | _ \<Rightarrow> 0)"

lemma fields_size:
  "length (concat (map field_bytes fvs)) \<le> 15 * length fvs + sum_list (map (value_size \<circ> snd) fvs)"
proof (induction fvs)
  case (Cons fv fvs)
  then show ?case using length_field_bytes [of fv] by (simp add: value_size_def)
qed simp

lemma client_gets_fields:
  assumes "gtypes_ok gt" "\<forall>fv \<in> set fvs. field_ok gt m fv" "s = foldl (append_value ord) (pka_sample_new now) fvs"
    and "15 * length fvs + sum_list (map (value_size \<circ> snd) fvs) < 2 ^ 31"
  shows "client_gets gt m s fvs"
  unfolding client_gets_def
proof (intro allI impI)
  fix ord' and resolver :: "gint \<Rightarrow> pk_manifest option" and src
  assume res: "resolver src = Some (client_manifest m)"
  let ?s = "pka_sample_set_source_id s src"
  have s: "?s = foldl (append_value ord) (pka_sample_set_source_id (pka_sample_new now) src) fvs"
    unfolding assms(3) foldl_append_value by (simp add: pka_sample_set_source_id_def)
  have "length (eb_ar (ps_buf ?s)) < 2 ^ 31"
    using fields_size [of fvs] assms(4) unfolding s foldl_append_value
    by (simp add: pka_sample_set_source_id_def pka_sample_new_def)
  then have "length (sample_bytes (pm_resolution m) (pm_ts m) ?s) < 2 ^ 32"
    unfolding sample_bytes_def
    using length_uint_field [of 1 "ps_source_id ?s"]
      length_uint64_field [of 2 "pka_resolution_apply (pm_resolution m) (timespec_subtract (ps_ts ?s) (pm_ts m))"]
      length_blob_field [of 3 "eb_ar (ps_buf ?s)"]
    by simp
  moreover have "resolver (pka_sample_get_source_id ?s) = Some (client_manifest m)"
    using res unfolding assms(3) foldl_append_value
    by (simp add: pka_sample_get_source_id_def pka_sample_set_source_id_def pka_sample_new_def)
  ultimately show "\<exists>data. pka_encoder_encode_samples None m [?s] = Some data \<and>
      pk_sample_new_from_data ord' gt resolver data = (Value (client_sample m ?s fvs), length data)"
    by (intro sample_over_the_wire [OF assms(1,2) s])
qed

text \<open>Numbered fields, from a number on.\<close>

definition numbered_fields :: "nat \<Rightarrow> g_value list \<Rightarrow> (guint \<times> g_value) list" where
  "numbered_fields k vs = map (\<lambda>(i, v). (word_of_nat i, v)) (enumerate k vs)"

lemma numbered_fields_simps [simp]:
  "numbered_fields k [] = []" "numbered_fields k (v # vs) = (word_of_nat k, v) # numbered_fields (k + 1) vs"
  by (simp_all add: numbered_fields_def)

lemma numbered_fields_sizes [simp]:
  "length (numbered_fields k vs) = length vs"
  "sum_list (map (value_size \<circ> snd) (numbered_fields k vs)) = sum_list (map value_size vs)"
  by (induction vs arbitrary: k) simp_all

lemma value_size_numbers [simp]:
  "value_size (V_INT i) = 0" "value_size (V_UINT u) = 0" "value_size (V_STRING s) = length s"
  by (simp_all add: value_size_def)

lemma value_size_all [simp]:
  "sum_list (map (value_size \<circ> V_INT) ns) = 0" "sum_list (map (value_size \<circ> V_UINT) us) = 0"
proof -
  show "sum_list (map (value_size \<circ> V_INT) ns) = 0" by (induction ns) simp_all
  show "sum_list (map (value_size \<circ> V_UINT) us) = 0" by (induction us) simp_all
qed

lemma fold_append_ints:
  "fold (\<lambda>i s. pka_sample_append_int s (word_of_nat (i + k)) (vs ! i)) [0..<length vs] s =
    foldl (append_value ord) s (numbered_fields k (map V_INT vs))"
proof (induction vs arbitrary: k s)
  case (Cons v vs)
  have "fold (\<lambda>i s. pka_sample_append_int s (word_of_nat (i + k)) ((v # vs) ! i)) [0..<length (v # vs)] s =
      fold (\<lambda>i s. pka_sample_append_int s (word_of_nat (i + (k + 1))) (vs ! i)) [0..<length vs]
        (pka_sample_append_int s (word_of_nat k) v)"
    by (simp add: upt_conv_Cons map_Suc_upt [symmetric] fold_map comp_def add.assoc del: upt_Suc)
  also have "\<dots> = foldl (append_value ord) (pka_sample_append_int s (word_of_nat k) v)
      (numbered_fields (k + 1) (map V_INT vs))"
    by (rule Cons.IH)
  finally show ?case by simp
qed simp

lemma numbered_field_ok:
  assumes "\<And>i. i < length vs \<Longrightarrow> gt (snd (rows ! (k + i - 1))) = gt (value_type (vs ! i)) \<and> value_ok (vs ! i)"
    and "0 < k" "k + length vs \<le> length rows + 1" "length rows < 2 ^ 29"
  shows "\<forall>fv \<in> set (numbered_fields k vs). field_ok gt (built_manifest gt now rows) fv"
proof
  fix fv assume "fv \<in> set (numbered_fields k vs)"
  then obtain a where a: "k \<le> a" "a < k + length vs" "fv = (word_of_nat a, vs ! (a - k))"
    by (auto simp: numbered_fields_def in_set_enumerate_eq)
  define i where "i = a - k"
  have i: "i < length vs" "fv = (word_of_nat (k + i), vs ! i)" using a by (simp_all add: i_def)
  have "unat (word_of_nat (k + i) :: guint) = k + i"
    using i(1) assms(3,4) by (intro unat_word_of_nat) simp
  then show "field_ok gt (built_manifest gt now rows) fv"
    using assms(1) [OF i(1)] assms(2-4) i by (simp add: field_ok_def del: of_nat_add)
qed

section \<open>Cpu\<close>

text \<open>A line of a processor: its number, and its counters. What is sampled of it.\<close>

definition stat_line :: "nat \<times> nat list \<Rightarrow> cstring" where
  "stat_line c = ascii ''cpu'' @ digits (fst c) @ spaced (snd c)"

definition cpu_numbers :: "nat \<times> nat list \<Rightarrow> gint list" where
  "cpu_numbers c = map word_of_nat (fst c # take 9 (snd c))"

lemma digits_bytes: "c \<in> set (digits n) \<Longrightarrow> c \<noteq> 0 \<and> c \<noteq> 10 \<and> c \<noteq> 32 \<and> c \<noteq> 58 \<and> c \<noteq> 124"
  using digits_are_digits [of n] by (auto simp: is_digit_def)

lemma columns_bytes: "c \<in> set (columns cs) \<Longrightarrow> c \<noteq> 0 \<and> c \<noteq> 10 \<and> c \<noteq> 58 \<and> c \<noteq> 124"
  by (induction cs) (auto dest: digits_bytes)

lemma parse_stat_line:
  assumes "9 \<le> length (snd c)" "fst c < 2 ^ 63" "\<forall>v \<in> set (snd c). v < 2 ^ 63"
  shows "parse_cpu_stat_line (stat_line c) = Some (cpu_numbers c)" "line_ok (stat_line c)"
proof -
  obtain d t where ds: "digits (fst c) = d # t" using digits_not_empty by (cases "digits (fst c)") auto
  then have "d \<noteq> 32" using digits_bytes [of d "fst c"] by simp
  then have "take 4 (stat_line c) \<noteq> ascii ''cpu ''"
    by (simp add: stat_line_def ds ascii_def)
  moreover have "scan_ints 10 (digits (fst c) @ spaced (snd c)) = cpu_numbers c"
  proof -
    have split: "spaced (snd c) = spaced (take 9 (snd c)) @ spaced (drop 9 (snd c))"
      by (simp flip: columns_simps(3) map_append)
    have nd: "not_digit_first (spaced (drop 9 (snd c)))"
      using columns_not_digit [of "[]"] by (simp add: not_digit_first_def)
    have "\<forall>v \<in> set (map snd (map (Pair (0 :: nat)) (take 9 (snd c)))). v < 2 ^ 63"
      using assms(3) by (auto dest: in_set_takeD)
    then have "scan_ints 10 (digits (fst c) @ spaced (take 9 (snd c)) @ spaced (drop 9 (snd c))) =
        word_of_nat (fst c) # map (word_of_nat \<circ> snd) (map (Pair (0 :: nat)) (take 9 (snd c)))"
      by (rule scan_numbers [OF nd assms(2)]) (use assms(1) in simp)
    then show ?thesis unfolding split by (simp add: cpu_numbers_def comp_def)
  qed
  ultimately show "parse_cpu_stat_line (stat_line c) = Some (cpu_numbers c)"
    using assms(1) by (simp add: parse_cpu_stat_line_def stat_line_def strip_prefix_append cpu_numbers_def Let_def)
  show "line_ok (stat_line c)"
    by (auto simp: line_ok_def stat_line_def ascii_def dest: digits_bytes columns_bytes)
qed

lemma map_filter_append: "List.map_filter f (xs @ ys) = List.map_filter f xs @ List.map_filter f ys"
  by (induction xs) (simp_all split: option.split)

lemma map_filter_parsed:
  assumes "\<forall>x \<in> set xs. f (g x) = Some (h x)"
  shows "List.map_filter f (map g xs) = map h xs"
  using assms by (induction xs) simp_all

lemma cpu_fields_numbered:
  "length vs = 10 \<Longrightarrow> cpu_fields vs s = foldl (append_value ord) s (numbered_fields 1 (map V_INT vs))"
  using fold_append_ints [of 1 vs s ord] by (simp add: cpu_fields_def)

lemma cpu_client_gets:
  assumes "gtypes_ok gt" "length vs = 10"
  shows "client_gets gt (built_manifest gt t cpu_rows) (cpu_fields vs (pka_sample_new now))
    (numbered_fields 1 (map V_INT vs))"
proof (rule client_gets_fields [OF assms(1)])
  have "\<And>i. i < 10 \<Longrightarrow> snd (cpu_rows ! i) = G_TYPE_INT"
    unfolding cpu_rows_def by (subst nth_map) simp_all
  then show "\<forall>fv \<in> set (numbered_fields 1 (map V_INT vs)). field_ok gt (built_manifest gt t cpu_rows) fv"
    using assms(2) by (intro numbered_field_ok) (simp_all add: cpu_rows_def)
  show "cpu_fields vs (pka_sample_new now) = foldl (append_value G_LITTLE_ENDIAN) (pka_sample_new now)
      (numbered_fields 1 (map V_INT vs))"
    by (rule cpu_fields_numbered [OF assms(2)])
  show "15 * length (numbered_fields 1 (map V_INT vs)) +
      sum_list (map (value_size \<circ> snd) (numbered_fields 1 (map V_INT vs))) < 2 ^ 31"
    using assms(2) by simp
qed

text \<open>One run of the source, the first one or a later one.\<close>

lemma cpu_run:
  assumes "gtypes_ok gt"
    and "rd (ascii ''/proc/stat'') 1023 = Some (text_of ((ascii ''cpu '' @ sums) # map stat_line cpus @ others))"
    and "line_ok sums" "\<forall>l \<in> set others. line_ok l \<and> strip_prefix (ascii ''cpu'') l = None"
    and "\<forall>c \<in> set cpus. fst c < 2 ^ 31 \<and> 9 \<le> length (snd c) \<and> (\<forall>v \<in> set (snd c). v < 2 ^ 31)"
    and "cd_manifest cpud = None \<and> m = built_manifest gt (now 0) cpu_rows \<and> ds = [Deliver_Manifest m] \<or>
      cd_manifest cpud = Some m \<and> m = built_manifest gt start cpu_rows \<and> ds = []"
  shows "\<exists>samples. cpu_sample gt rd now fileBuf cpud = Value (\<lparr>cd_manifest = Some m\<rparr>, ds @ map Deliver_Sample samples) \<and>
    list_all2 (\<lambda>s c. client_gets gt m s (numbered_fields 1 (map V_INT (cpu_numbers c)))) samples cpus"
proof -
  let ?ls = "(ascii ''cpu '' @ sums) # map stat_line cpus @ others"
  have cpus: "parse_cpu_stat_line (stat_line c) = Some (cpu_numbers c)" "line_ok (stat_line c)" if "c \<in> set cpus" for c
    using assms(5) that by (intro parse_stat_line; fastforce)+
  have "line_ok (ascii ''cpu '' @ sums)" using assms(3) by (simp add: line_ok_def ascii_def)
  then have "\<forall>l \<in> set ?ls. line_ok l" using cpus(2) assms(4) by (simp add: ball_Un)
  then have "cpu_lines (text_of ?ls @ 0 # junk) 0 = Value (List.map_filter parse_cpu_stat_line ?ls)" for junk
    using cpu_lines_text [of ?ls "[]" junk] by (simp only: append.left_neutral list.size)
  moreover have "parse_cpu_stat_line (ascii ''cpu '' @ sums) = None"
    by (simp add: parse_cpu_stat_line_def ascii_def)
  moreover have "List.map_filter parse_cpu_stat_line others = []"
    using assms(4) by (induction others) (simp_all add: parse_cpu_stat_line_def)
  ultimately have lines: "cpu_lines (text_of ?ls @ 0 # junk) 0 = Value (map cpu_numbers cpus)" for junk
    using map_filter_parsed [of cpus parse_cpu_stat_line stat_line cpu_numbers] cpus(1)
    by (simp add: map_filter_append)
  have "kept_manifest (cd_manifest cpud) (manifest_of_rows gt (now 0) 17 cpu_rows) = Value (m, ds)"
    using assms(6) manifest_of_rows_built [OF assms(1), of cpu_rows 17 "now 0"]
    by (auto simp: kept_manifest_def cpu_rows_def)
  then have "cpu_sample gt rd now fileBuf cpud =
      Value (\<lparr>cd_manifest = Some m\<rparr>, ds @ map Deliver_Sample
        (map (\<lambda>(k, vs). cpu_fields vs (pka_sample_new (now k))) (enumerate 1 (map cpu_numbers cpus))))"
    using assms(2) lines by (simp add: cpu_sample_def src_utils_read_file_def case_prod_beta comp_def)
  moreover have "list_all2 (\<lambda>s c. client_gets gt m s (numbered_fields 1 (map V_INT (cpu_numbers c))))
      (map (\<lambda>(k, vs). cpu_fields vs (pka_sample_new (now k))) (enumerate 1 (map cpu_numbers cpus))) cpus"
  proof (rule list_all2_all_nthI)
    fix k assume "k < length (map (\<lambda>(k, vs). cpu_fields vs (pka_sample_new (now k))) (enumerate 1 (map cpu_numbers cpus)))"
    then have k: "k < length cpus" by simp
    then have "9 \<le> length (snd (cpus ! k))" using assms(5) nth_mem [OF k] by blast
    then have "length (cpu_numbers (cpus ! k)) = 10" by (simp add: cpu_numbers_def min_absorb2)
    then show "client_gets gt m (map (\<lambda>(k, vs). cpu_fields vs (pka_sample_new (now k)))
        (enumerate 1 (map cpu_numbers cpus)) ! k) (numbered_fields 1 (map V_INT (cpu_numbers (cpus ! k))))"
      using cpu_client_gets [OF assms(1)] assms(6) k by (auto simp: nth_enumerate_eq)
  qed simp
  ultimately show ?thesis by blast
qed

text \<open>
  The source \<open>Cpu\<close> samples what the kernel prints. Where \<open>/proc/stat\<close> fits in the buffer, the first run delivers a
  manifest and one sample for every processor, in the order of the file and not for the line of the total; and a client
  decodes every sample to the number of the processor and its first nine counters, as the names of the rows say.
\<close>

theorem cpu_source_faithful:
  assumes "gtypes_ok gt"
    and "rd (ascii ''/proc/stat'') 1023 = Some (text_of ((ascii ''cpu '' @ sums) # map stat_line cpus @ others))"
    and "line_ok sums" "\<forall>l \<in> set others. line_ok l \<and> strip_prefix (ascii ''cpu'') l = None"
    and "\<forall>c \<in> set cpus. fst c < 2 ^ 31 \<and> 9 \<le> length (snd c) \<and> (\<forall>v \<in> set (snd c). v < 2 ^ 31)"
  shows "\<exists>m samples. cpu_sample gt rd now fileBuf (fst cpu_new) =
      Value (\<lparr>cd_manifest = Some m\<rparr>, Deliver_Manifest m # map Deliver_Sample samples) \<and>
    map row_name (pm_rows m) = map fst cpu_rows \<and>
    list_all2 (\<lambda>s c. client_gets gt m s (numbered_fields 1 (map V_INT (cpu_numbers c)))) samples cpus"
proof -
  let ?m = "built_manifest gt (now 0) cpu_rows"
  have "cd_manifest (fst cpu_new) = None" by (simp add: cpu_new_def)
  then show ?thesis
    using cpu_run [where rd = rd and now = now and cpud = "fst cpu_new" and m = ?m and ds = "[Deliver_Manifest ?m]", OF assms]
    by (intro exI [of _ ?m]) simp
qed

lemma cpu_source_faithful_witness:
  "\<exists>m samples. cpu_sample glib_gtypes (\<lambda>_ _. Some (text_of [ascii ''cpu  9 0 9'', ascii ''cpu0 4 0 5 90 1 0 0 0 0'',
        ascii ''cpu1 5 0 4 80 2 0 0 0 0 0'', ascii ''intr 33''])) (\<lambda>_. \<lparr>tv_sec = 1, tv_nsec = 0\<rparr>) [] (fst cpu_new) =
      Value (\<lparr>cd_manifest = Some m\<rparr>, Deliver_Manifest m # map Deliver_Sample samples) \<and>
    map row_name (pm_rows m) = map fst cpu_rows \<and>
    list_all2 (\<lambda>s c. client_gets glib_gtypes m s (numbered_fields 1 (map V_INT (cpu_numbers c)))) samples
      [(0, [4, 0, 5, 90, 1, 0, 0, 0, 0]), (1, [5, 0, 4, 80, 2, 0, 0, 0, 0, 0])]"
proof -
  have "stat_line (0, [4, 0, 5, 90, 1, 0, 0, 0, 0]) = ascii ''cpu0 4 0 5 90 1 0 0 0 0''"
    "stat_line (1, [5, 0, 4, 80, 2, 0, 0, 0, 0, 0]) = ascii ''cpu1 5 0 4 80 2 0 0 0 0 0''"
    by (simp_all add: stat_line_def ascii_def digits.simps)
  then show ?thesis
    using cpu_source_faithful [of glib_gtypes "\<lambda>_ _. Some (text_of [ascii ''cpu  9 0 9'', ascii ''cpu0 4 0 5 90 1 0 0 0 0'',
        ascii ''cpu1 5 0 4 80 2 0 0 0 0 0'', ascii ''intr 33''])" "ascii '' 9 0 9''" 
        "[(0, [4, 0, 5, 90, 1, 0, 0, 0, 0]), (1, [5, 0, 4, 80, 2, 0, 0, 0, 0, 0])]" "[ascii ''intr 33'']"]
    by (simp add: gtypes_ok_glib ascii_def line_ok_def)
qed

section \<open>Memory\<close>

lemma memory_client_gets:
  assumes "gtypes_ok gt"
  shows "client_gets gt (built_manifest gt t memory_rows) (memory_fields st (pka_sample_new now))
    (numbered_fields 1 (map V_UINT [me_size st, me_resident st, me_share st, me_text st, me_data st]))"
proof (rule client_gets_fields [OF assms])
  let ?vs = "[me_size st, me_resident st, me_share st, me_text st, me_data st]"
  have "\<And>i. i < 5 \<Longrightarrow> snd (memory_rows ! i) = G_TYPE_UINT"
    unfolding memory_rows_def by (subst nth_map) simp_all
  then have "\<And>i. i < length (map V_UINT ?vs) \<Longrightarrow>
      gt (snd (memory_rows ! (1 + i - 1))) = gt (value_type (map V_UINT ?vs ! i)) \<and> value_ok (map V_UINT ?vs ! i)"
    by (subst (1 2) nth_map) simp_all
  then show "\<forall>fv \<in> set (numbered_fields 1 (map V_UINT ?vs)). field_ok gt (built_manifest gt t memory_rows) fv"
    by (intro numbered_field_ok) (simp_all add: memory_rows_def)
  show "memory_fields st (pka_sample_new now) =
      foldl (append_value G_LITTLE_ENDIAN) (pka_sample_new now) (numbered_fields 1 (map V_UINT ?vs))"
    by (simp add: memory_fields_def)
  show "15 * length (numbered_fields 1 (map V_UINT ?vs)) +
      sum_list (map (value_size \<circ> snd) (numbered_fields 1 (map V_UINT ?vs))) < 2 ^ 31"
    by simp
qed

text \<open>
  The source \<open>Memory\<close> samples the process that its channel has spawned: after the spawn, the first run reads the file of
  that process, delivers a manifest and a sample, and a client decodes the sample to the sizes in the order of the rows;
  the size of the libraries, which no row names, is left out. The text has to leave a NUL in the 64 bytes on the stack.
\<close>

theorem memory_source_faithful:
  assumes "gtypes_ok gt" "si_pid info = int pid" "pid < 2 ^ 31"
    and "rd (ascii ''/proc/'' @ digits pid @ ascii ''/statm'') 64 =
      Some (digits vm @ spaced [resident, share, exe, lib, data, dt] @ [10])"
    and "0 \<in> set (drop (length (digits vm @ spaced [resident, share, exe, lib, data, dt] @ [10])) buffer)"
    and "\<forall>n \<in> {vm, resident, share, exe, lib, data, dt}. n < 2 ^ 32"
  shows "\<exists>st m s. memory_sample gt rd now buffer (memory_spawn info (fst memory_new)) =
      Value (st, [Deliver_Manifest m, Deliver_Sample s]) \<and>
    me_manifest st = Some m \<and> map row_name (pm_rows m) = map ascii [''size'', ''resident'', ''share'', ''text'', ''data''] \<and>
    client_gets gt m s (numbered_fields 1 (map (V_UINT \<circ> word_of_nat) [vm, resident, share, exe, data]))"
proof -
  let ?file = "digits vm @ spaced [resident, share, exe, lib, data, dt] @ [10]"
  let ?m = "built_manifest gt (now 0) memory_rows" and ?st = "memory_spawn info (fst memory_new)"
  let ?st' = "?st\<lparr>me_manifest := Some ?m, me_size := word_of_nat vm, me_resident := word_of_nat resident,
      me_share := word_of_nat share, me_text := word_of_nat exe, me_lib := word_of_nat lib,
      me_data := word_of_nat data, me_dt := word_of_nat dt\<rparr>"
  have path: "memory_path (me_pid ?st) = ascii ''/proc/'' @ digits pid @ ascii ''/statm''"
    using length_digits_le [of pid 9] assms(2,3)
    by (simp add: memory_path_def memory_spawn_def fmt_int_def sint_word_of_nat ascii_def)
  have nul: "0 \<notin> set ?file" using columns_bytes digits_bytes by auto
  have "cstr_at 0 (?file @ drop (length ?file) buffer) = Some (?file @ c_string_of (drop (length ?file) buffer))"
    using assms(5) nul by (simp add: cstr_at_def c_string_of_def takeWhile_append)
  moreover have "scan_ints 7 (?file @ r) = map word_of_nat [vm, resident, share, exe, lib, data, dt]" for r
  proof -
    have "scan_ints 7 (digits vm @ columns (map (Pair 0) [resident, share, exe, lib, data, dt]) @ 10 # r) =
        word_of_nat vm # map (word_of_nat \<circ> snd) (map (Pair (0 :: nat)) [resident, share, exe, lib, data, dt])"
      by (rule scan_numbers) (use assms(6) in \<open>simp_all add: not_digit_first_def is_digit_def\<close>)
    then show ?thesis by simp
  qed
  ultimately have read: "memory_read rd buffer (?st\<lparr>me_manifest := Some ?m\<rparr>) = Value (True, ?st')"
    using assms(4) path by (simp add: memory_read_def memory_spawn_def memory_new_def)
  have "manifest_of_rows gt (now 0) 5 memory_rows = Returns ?m"
    by (rule manifest_of_rows_built [OF assms(1)]) (auto simp: memory_rows_def)
  then have "memory_sample gt rd now buffer ?st =
      Value (?st', [Deliver_Manifest ?m, Deliver_Sample (memory_fields ?st' (pka_sample_new (now 1)))])"
    using read by (simp add: memory_sample_def kept_manifest_def memory_spawn_def memory_new_def)
  moreover have "map row_name (pm_rows ?m) = map ascii [''size'', ''resident'', ''share'', ''text'', ''data'']"
    by (simp add: memory_rows_def)
  ultimately show ?thesis
    using memory_client_gets [OF assms(1), of "now 0" ?st' "now 1"] by auto
qed

lemma memory_source_faithful_witness:
  "\<exists>st m s. memory_sample glib_gtypes (\<lambda>path n. if path = ascii ''/proc/321/statm''
        then Some (ascii ''900 300 200 40 0 80 0'' @ [10]) else None)
      (\<lambda>_. \<lparr>tv_sec = 1, tv_nsec = 0\<rparr>) (replicate 64 0)
      (memory_spawn \<lparr>si_pid = 321, si_target = None, si_args = None, si_env = None, si_working_dir = None,
        si_standard_input = 0, si_standard_output = 0, si_standard_error = 0\<rparr> (fst memory_new)) =
      Value (st, [Deliver_Manifest m, Deliver_Sample s]) \<and>
    me_manifest st = Some m \<and> map row_name (pm_rows m) = map ascii [''size'', ''resident'', ''share'', ''text'', ''data''] \<and>
    client_gets glib_gtypes m s (numbered_fields 1 (map (V_UINT \<circ> word_of_nat) [900, 300, 200, 40, 80]))"
  by (rule memory_source_faithful [where pid = 321 and vm = 900 and resident = 300 and share = 200 and exe = 40 and
        lib = 0 and data = 80 and dt = 0])
    (simp_all add: gtypes_ok_glib ascii_def digits.simps)

end
