(* ===== verification/Source_Mistyped.thy ===== *)
theory Source_Mistyped
  imports Source_Properties
begin

text \<open>
  The two sources whose samples do not have the types of their manifests, and what a client makes of them.
\<close>

section \<open>Integers of the other kind\<close>

text \<open>What a client reads of an unsigned integer that it takes for a signed one, and the other way round.\<close>

definition as_signed :: "guint \<Rightarrow> gint" where
  "as_signed u = (if even (uint u) then word_of_int (uint u div 2) else - word_of_int ((uint u + 1) div 2))"

definition as_unsigned :: "gint \<Rightarrow> guint" where
  "as_unsigned i = (if 0 \<le> sint i then 2 * i else - 2 * i - 1)"

lemma zigzag_as_unsigned: "zigzag 31 i = as_unsigned i"
proof (cases "0 \<le> sint i")
  case True
  have "sint (signed_drop_bit 31 i) = 0"
    using True sint_ge [of i] sint_lt [of i] by (simp add: sint_signed_drop_bit_eq drop_bit_eq_div)
  then have "signed_drop_bit 31 i = 0" by (metis signed_word_eqI sint_0)
  then show ?thesis using True by (simp add: zigzag_def as_unsigned_def push_bit_eq_mult)
next
  case False
  have "sint (signed_drop_bit 31 i) = - 1"
    using False sint_ge [of i] sint_lt [of i] by (simp add: sint_signed_drop_bit_eq drop_bit_eq_div)
  then have "signed_drop_bit 31 i = - 1" by (metis sint_n1 signed_word_eqI)
  then show ?thesis using False
    by (simp add: zigzag_def as_unsigned_def push_bit_eq_mult not_eq_complement)
qed

lemma append_int_uint: "pka_sample_append_int s k i = pka_sample_append_uint s k (as_unsigned i)"
  unfolding pka_sample_append_int_def pka_sample_append_uint_def eb_writes
  by (simp add: zigzag_as_unsigned EGG_BUFFER_INT_def EGG_BUFFER_UINT_def)

lemma as_unsigned_signed: "as_unsigned (as_signed u) = u"
proof (cases "even (uint u)")
  case True
  define n where "n = uint u div 2"
  have n: "uint u = 2 * n" "0 \<le> n" "n < 2 ^ 31" using True unsigned_less [where w = u and 'a = int] uint_ge_0 [of u] by (auto simp: n_def)
  then have "u = 2 * word_of_int n" by (metis of_int_mult of_int_numeral word_of_int_uint)
  moreover have "sint (word_of_int n :: gint) = n" using n(2,3) by (simp add: signed_of_int signed_take_bit_int_eq_self)
  ultimately show ?thesis using True n by (simp add: as_signed_def as_unsigned_def)
next
  case False
  define n where "n = (uint u + 1) div 2"
  have n: "uint u = 2 * n - 1" "0 < n" "n \<le> 2 ^ 31"
    using False unsigned_less [where w = u and 'a = int] uint_ge_0 [of u] by (auto simp: n_def elim!: oddE)
  then have "u = 2 * word_of_int n - 1"
    by (metis of_int_1 of_int_diff of_int_mult of_int_numeral word_of_int_uint)
  moreover have "sint (- word_of_int n :: gint) = - n"
    using n(2,3) unfolding of_int_minus [symmetric]
    by (simp add: signed_of_int signed_take_bit_int_eq_self del: of_int_minus)
  ultimately show ?thesis using False n by (simp add: as_signed_def as_unsigned_def)
qed

lemma append_uint_int: "pka_sample_append_uint s k u = pka_sample_append_int s k (as_signed u)"
  by (simp add: append_int_uint as_unsigned_signed)

lemma as_unsigned_nat: "n < 2 ^ 31 \<Longrightarrow> as_unsigned (word_of_nat n) = word_of_nat (2 * n)"
  by (simp add: as_unsigned_def sint_word_of_nat)

lemma as_signed_nat:
  "n < 2 ^ 31 \<Longrightarrow> as_signed (word_of_nat n) =
    (if even n then word_of_nat (n div 2) else - word_of_nat ((n + 1) div 2))"
proof -
  assume n: "n < 2 ^ 31"
  then have "uint (word_of_nat n :: guint) = int n" by (simp add: uint_nat unat_word_of_nat)
  moreover have "(int n + 1) div 2 = int ((n + 1) div 2)" "int n div 2 = int (n div 2)" by (simp_all add: zdiv_int)
  ultimately show ?thesis by (simp only: as_signed_def even_of_nat of_int_of_nat_eq)
qed

section \<open>Scheduler\<close>

text \<open>The fields of a sample of entries, as it was made and as a client that goes by the manifest reads it.\<close>

definition entry_of :: "sched_env \<Rightarrow> cstring \<times> cstring \<Rightarrow> sched_entry" where
  "entry_of e p = (fst p, if has_decimal (snd p) then SCHED_DOUBLE (ce_strtod e (snd p)) else SCHED_INT (atoi (snd p)))"

fun entry_row :: "sched_entry \<Rightarrow> cstring \<times> g_fundamental" where
  "entry_row (name, SCHED_INT i) = (name, G_TYPE_INT)"
| "entry_row (name, v) = (name, G_TYPE_DOUBLE)"

fun entry_value :: "sched_entry \<Rightarrow> g_value" where
  "entry_value (name, SCHED_INT i) = V_INT (as_signed i)"
| "entry_value (name, SCHED_DOUBLE d) = V_DOUBLE d"
| "entry_value (name, SCHED_UNKNOWN) = V_INT 0"

lemma sched_parse_entries:
  assumes "ce_contents e f = Some contents" "ce_match e contents \<noteq> []" "sc_filename sched = None"
    and "f = ascii ''/proc/'' @ fmt_int (sc_pid sched) @ ascii ''/sched''"
  shows "sched_parse e sched = (Some (map (entry_of e) (ce_match e contents)), sched\<lparr>sc_filename := Some f\<rparr>)"
  using assms by (simp add: sched_parse_def sched_read_def entry_of_def case_prod_beta)

lemma populate_manifest_rows:
  "SCHED_UNKNOWN \<notin> snd ` set es \<Longrightarrow> populate_manifest gt m es = append_rows gt (map entry_row es) m"
proof (induction es arbitrary: m)
  case (Cons a es)
  then show ?case by (cases a; cases "snd a") (auto split: c_result.split)
qed simp

lemma populate_sample_fields:
  "SCHED_UNKNOWN \<notin> snd ` set es \<Longrightarrow>
    populate_sample ord k es s = foldl (append_value ord) s (numbered_fields (k + 1) (map entry_value es))"
proof (induction es arbitrary: k s)
  case (Cons a es)
  then show ?case by (cases a; cases "snd a") (auto simp: append_uint_int)
qed simp

lemma entry_value_ok: "SCHED_UNKNOWN \<notin> snd ` set es \<Longrightarrow> i < length es \<Longrightarrow>
    gt (snd (entry_row (es ! i))) = gt (value_type (entry_value (es ! i))) \<and> value_ok (entry_value (es ! i))"
proof -
  assume es: "SCHED_UNKNOWN \<notin> snd ` set es" "i < length es"
  then have "es ! i \<in> set es" by simp
  then have "snd (es ! i) \<noteq> SCHED_UNKNOWN" using es(1) by force
  then show ?thesis by (cases "es ! i"; cases "snd (es ! i)") auto
qed

lemma sched_client_gets:
  assumes "gtypes_ok gt" "SCHED_UNKNOWN \<notin> snd ` set es" "length es < 2 ^ 26"
  shows "client_gets gt (built_manifest gt t (map entry_row es)) (populate_sample ord 0 es (pka_sample_new now))
    (numbered_fields 1 (map entry_value es))"
proof (rule client_gets_fields [OF assms(1)])
  show "\<forall>fv \<in> set (numbered_fields 1 (map entry_value es)). field_ok gt (built_manifest gt t (map entry_row es)) fv"
    using assms(2,3) by (intro numbered_field_ok) (simp_all add: entry_value_ok)
  show "populate_sample ord 0 es (pka_sample_new now) =
      foldl (append_value ord) (pka_sample_new now) (numbered_fields 1 (map entry_value es))"
    using populate_sample_fields [OF assms(2), of ord 0] by simp
  have "value_size (entry_value x) = 0" for x by (cases x rule: entry_value.cases) (simp_all add: value_size_def)
  then have "sum_list (map (value_size \<circ> entry_value) es) = 0" by (induction es) simp_all
  then have none: "sum_list (map value_size (map entry_value es)) = 0" by (simp only: map_map)
  show "15 * length (numbered_fields 1 (map entry_value es)) +
      sum_list (map (value_size \<circ> snd) (numbered_fields 1 (map entry_value es))) < 2 ^ 31"
    using assms(3) unfolding numbered_fields_sizes none length_map by simp
qed

text \<open>
  The counters of the source \<open>Scheduler\<close> reach the client wrong. The rows are signed and the fields are written
  unsigned, with the same tag: what the first run delivers is decoded with every even counter halved and every odd one
  negative; only the numbers with a decimal point arrive as they are.
\<close>

theorem sched_counters_halved:
  assumes "gtypes_ok gt" "si_pid info = int pid" "pid < 2 ^ 31"
    and "ce_contents e (ascii ''/proc/'' @ digits pid @ ascii ''/sched'') = Some contents"
    and "ce_match e contents = map (\<lambda>(name, n). (name, digits n)) counters" "counters \<noteq> []" "length counters < 2 ^ 26"
    and "\<forall>n \<in> snd ` set counters. n < 2 ^ 31"
  shows "\<exists>m s. sched_sample ord gt e now (sched_spawn info (fst sched_new)) =
      Value (\<lparr>sc_manifest = Some m, sc_filename = Some (ascii ''/proc/'' @ digits pid @ ascii ''/sched''),
        sc_pid = word_of_nat pid\<rparr>, [Deliver_Manifest m, Deliver_Sample s]) \<and>
    map row_name (pm_rows m) = map fst counters \<and>
    client_gets gt m s (numbered_fields 1 (map (\<lambda>(name, n). V_INT (if even n then word_of_nat (n div 2)
        else - word_of_nat ((n + 1) div 2))) counters))"
proof -
  let ?es = "map (entry_of e) (ce_match e contents)"
  let ?m = "built_manifest gt (now 0) (map entry_row ?es)"
  let ?s = "populate_sample ord 0 ?es (pka_sample_new (now 1))"
  have known: "SCHED_UNKNOWN \<notin> snd ` set ?es" by (auto simp: entry_of_def split: if_splits)
  have entry: "entry_of e (name, digits n) = (name, SCHED_INT (word_of_nat n))" if "n < 2 ^ 31" for name n
  proof -
    have "46 \<notin> set (digits n)" using digits_are_digits [of n] by (auto simp: is_digit_def)
    moreover have "scan_int (digits n) = Some (word_of_nat n)"
      using scan_number [of "[]" n 0] that by (simp add: scan_int_rest not_digit_first_def)
    ultimately show ?thesis by (simp add: entry_of_def has_decimal_def atoi_def)
  qed
  have "manifest_of_rows gt (now 0) 4 (map entry_row ?es) = Returns ?m"
    by (rule manifest_of_rows_built [OF assms(1)]) (auto simp: entry_of_def)
  then have "sched_sample ord gt e now (sched_spawn info (fst sched_new)) =
      Value (\<lparr>sc_manifest = Some ?m, sc_filename = Some (ascii ''/proc/'' @ digits pid @ ascii ''/sched''),
        sc_pid = word_of_nat pid\<rparr>, [Deliver_Manifest ?m, Deliver_Sample ?s])"
  proof -
    let ?f = "ascii ''/proc/'' @ digits pid @ ascii ''/sched''"
    have "?f = ascii ''/proc/'' @ fmt_int (sc_pid (sched_spawn info (fst sched_new))) @ ascii ''/sched''"
      using assms(2,3) by (simp add: sched_spawn_def fmt_int_def sint_word_of_nat)
    then have "sched_parse e (sched_spawn info (fst sched_new)) =
        (Some ?es, sched_spawn info (fst sched_new)\<lparr>sc_filename := Some ?f\<rparr>)"
      using assms(4-6) by (intro sched_parse_entries) (simp_all add: sched_spawn_def sched_new_def)
    moreover assume "manifest_of_rows gt (now 0) 4 (map entry_row ?es) = Returns ?m"
    ultimately show ?thesis
      using assms(2) unfolding manifest_of_rows_def populate_manifest_rows [OF known, symmetric]
      by (simp only: sched_sample_def kept_manifest_def pka_manifest_new_def prod.case option.case sched_spawn_def
          sched_new_def fst_conv sched.simps outcome.case c_result.case append.simps of_int_of_nat_eq)
  qed
  moreover have "client_gets gt ?m ?s (numbered_fields 1 (map entry_value ?es))"
    using assms(5,7) by (intro sched_client_gets [OF assms(1) known]) simp
  moreover have "map entry_value ?es = map (\<lambda>(name, n). V_INT (if even n then word_of_nat (n div 2)
        else - word_of_nat ((n + 1) div 2))) counters"
    using assms(5,8) entry as_signed_nat by (force simp: case_prod_beta)
  moreover have "map row_name (pm_rows ?m) = map fst counters"
    using assms(5,8) entry by (force simp: case_prod_beta)
  ultimately show ?thesis by auto
qed

lemma sched_counters_halved_witness:
  "\<exists>m s. sched_sample G_LITTLE_ENDIAN glib_gtypes
      \<lparr>ce_match = (\<lambda>_. [(ascii ''nr_switches'', ascii ''10''), (ascii ''prio'', ascii ''121'')]),
       ce_contents = (\<lambda>f. if f = ascii ''/proc/321/sched'' then Some [] else None), ce_strtod = (\<lambda>_. 0)\<rparr>
      (\<lambda>_. \<lparr>tv_sec = 1, tv_nsec = 0\<rparr>)
      (sched_spawn \<lparr>si_pid = 321, si_target = None, si_args = None, si_env = None, si_working_dir = None,
        si_standard_input = 0, si_standard_output = 0, si_standard_error = 0\<rparr> (fst sched_new)) =
      Value (\<lparr>sc_manifest = Some m, sc_filename = Some (ascii ''/proc/321/sched''), sc_pid = 321\<rparr>,
        [Deliver_Manifest m, Deliver_Sample s]) \<and>
    map row_name (pm_rows m) = [ascii ''nr_switches'', ascii ''prio''] \<and>
    client_gets glib_gtypes m s (numbered_fields 1 [V_INT 5, V_INT (- 61)])"
proof -
  let ?e = "\<lparr>ce_match = (\<lambda>_. [(ascii ''nr_switches'', ascii ''10''), (ascii ''prio'', ascii ''121'')]),
       ce_contents = (\<lambda>f. if f = ascii ''/proc/321/sched'' then Some [] else None), ce_strtod = (\<lambda>_. 0)\<rparr>"
  have "digits 321 = ascii ''321''" "digits 10 = ascii ''10''" "digits 121 = ascii ''121''"
    by (simp_all add: digits.simps ascii_def)
  then show ?thesis
    using sched_counters_halved [of glib_gtypes "\<lparr>si_pid = 321, si_target = None, si_args = None, si_env = None,
        si_working_dir = None, si_standard_input = 0, si_standard_output = 0, si_standard_error = 0\<rparr>" 321 ?e "[]"
        "[(ascii ''nr_switches'', 10), (ascii ''prio'', 121)]" G_LITTLE_ENDIAN "\<lambda>_. \<lparr>tv_sec = 1, tv_nsec = 0\<rparr>"]
    by (simp add: gtypes_ok_glib ascii_def)
qed

section \<open>Network devices\<close>

text \<open>A line of a device, with the name in six columns at least, and what is found in it.\<close>

definition device_line :: "cstring \<times> (nat \<times> nat) list \<Rightarrow> cstring" where
  "device_line d = replicate (6 - length (fst d)) 32 @ fst d @ 58 # columns (snd d)"

definition device_ok :: "cstring \<times> (nat \<times> nat) list \<Rightarrow> bool" where
  "device_ok d \<longleftrightarrow> fst d \<noteq> [] \<and> (\<forall>c \<in> set (fst d). g_ascii_isalnum c) \<and> length (snd d) = 16 \<and>
     (\<forall>n \<in> set (map snd (snd d)). n < 2 ^ 31)"

definition device_found :: "cstring \<times> (nat \<times> nat) list \<Rightarrow> (cstring \<times> gint list) list" where
  "device_found d = (if length (fst d) \<le> 6 then [(fst d, map (word_of_nat \<circ> snd) (snd d))] else [])"

lemma alnum_byte: "g_ascii_isalnum c \<Longrightarrow> c \<noteq> 0 \<and> c \<noteq> 10 \<and> c \<noteq> 32 \<and> c \<noteq> 58 \<and> c \<noteq> 124 \<and> \<not> is_space c"
  using alnum_not_space by (auto simp: g_ascii_isalnum_def word_le_nat_alt)

lemma netdev_header:
  assumes "0 \<notin> set h" "124 \<notin> set h"
  shows "netdev_line (pre @ h @ 124 # r) None (length pre) = Value (pre @ h @ 0 # r, Some (length h), 0, [])"
proof -
  have "takeWhile (\<lambda>c. c \<noteq> 0 \<and> c \<noteq> 124) (h @ 124 # r) = h" using assms by (auto simp: takeWhile_append)
  then have "src_utils_str_tok 124 (length pre) (pre @ h @ 124 # r) =
      Some (Some (length pre + length h + 1), pre @ h @ 0 # r)"
    by (simp add: src_utils_str_tok_def Let_def nth_append list_update_append)
  then show ?thesis using cstr_at_line [OF assms(1), of pre r] by (simp add: netdev_line_def)
qed

lemma netdev_no_colon:
  assumes "d < length l" "l ! d \<noteq> 58"
  shows "netdev_line (pre @ l) (Some d) (length pre) = Value (pre @ l, Some d, 0, [])"
  using assms by (simp add: netdev_line_def nth_append)

lemma find_byte_after:
  assumes "\<forall>c \<in> set l. \<not> P c" "P c"
  shows "find_byte P (length pre) (pre @ l @ c # r) = Some (length pre + length l)"
proof -
  have "takeWhile (\<lambda>c. \<not> P c) (l @ c # r) = l" using assms by (auto simp: takeWhile_append)
  then show ?thesis by (simp add: find_byte_def Let_def)
qed

lemma netdev_short_device:
  assumes "device_ok d" "length (fst d) \<le> 6"
  shows "netdev_line (pre @ device_line d @ 0 # post) (Some 6) (length pre) =
    Value (pre @ (replicate (6 - length (fst d)) 32 @ fst d) @ 0 # columns (snd d) @ 0 # post, Some 6, 1, device_found d)"
proof -
  obtain name cs where d: "d = (name, cs)" by (cases d)
  obtain c t where name: "name = c # t" using assms(1) d by (cases name) (auto simp: device_ok_def)
  obtain k n cs' where cs: "cs = (k, n) # cs'" using assms(1) d by (cases cs) (auto simp: device_ok_def)
  obtain b u where ds: "digits n = b # u" using digits_not_empty by (cases "digits n") auto
  let ?sp = "replicate (6 - length name) (32 :: u8)"
  let ?buf = "pre @ ?sp @ name @ 0 # columns cs @ 0 # post"
  have alnum: "\<forall>c \<in> set name. g_ascii_isalnum c" using assms(1) d by (simp add: device_ok_def)
  have six: "length (?sp @ name) = 6" using assms(2) d by simp
  have colon: "(pre @ device_line d @ 0 # post) ! (length pre + 6) = 58"
    "(pre @ device_line d @ 0 # post)[length pre + 6 := 0] = ?buf"
    using six by (simp_all add: device_line_def d nth_append list_update_append)
  have found: "find_byte g_ascii_isalnum (length pre) ?buf = Some (length pre + length ?sp)"
    using find_byte_after [of ?sp g_ascii_isalnum c pre "t @ 0 # columns cs @ 0 # post"] alnum
    by (simp add: name g_ascii_isalnum_def)
  have iface: "cstr_at (length pre + length ?sp) ?buf = Some name"
    using cstr_at_line [of name "pre @ ?sp" "columns cs @ 0 # post"] alnum alnum_byte by auto
  have whole: "takeWhile (\<lambda>c. \<not> is_space c) name = name" using alnum alnum_byte by auto
  have digit: "find_byte is_digit (length pre + 6 + 1) ?buf = Some (length pre + 6 + 1 + Suc k)"
    using find_byte_after [of "replicate (Suc k) 32" is_digit b "pre @ ?sp @ name @ [0]" "u @ columns cs' @ 0 # post"]
      digits_are_digits [of n] six
    by (simp add: cs ds is_digit_def)
  have rest: "cstr_at (length pre + 6 + 1 + Suc k) ?buf = Some (digits n @ columns cs')"
    using cstr_at_line [of "digits n @ columns cs'" "pre @ ?sp @ name @ 0 # replicate (Suc k) 32" post]
      columns_bytes digits_bytes six
    by (auto simp: cs)
  have "scan_ints 16 (digits n @ columns cs' @ []) = word_of_nat n # map (word_of_nat \<circ> snd) cs'"
    using assms(1) by (intro scan_numbers) (auto simp: d cs device_ok_def not_digit_first_def)
  moreover have "\<not> 64 \<le> length (takeWhile (\<lambda>c. \<not> is_space c) name)"
    unfolding whole using assms(2) d by simp
  moreover have "6 < length (device_line (name, cs))" using assms(2) by (simp add: device_line_def d)
  ultimately show ?thesis
    using colon found iface digit rest assms six whole [unfolded name]
    by (simp add: netdev_line_def Let_def d cs device_ok_def device_found_def name)
qed

text \<open>The rest of the text stays where it is.\<close>

lemma netdev_device:
  assumes "device_ok d"
  shows "\<exists>p n. netdev_line (pre @ device_line d @ 0 # post) (Some 6) (length pre) =
    Value (p @ post, Some 6, n, device_found d) \<and> length p = length (pre @ device_line d @ [0])"
proof (cases "length (fst d) \<le> 6")
  case True
  let ?p = "pre @ (replicate (6 - length (fst d)) 32 @ fst d) @ 0 # columns (snd d) @ [0]"
  have "netdev_line (pre @ device_line d @ 0 # post) (Some 6) (length pre) = Value (?p @ post, Some 6, 1, device_found d)"
    using netdev_short_device [OF assms True] by simp
  moreover have "length ?p = length (pre @ device_line d @ [0])" by (simp add: device_line_def)
  ultimately show ?thesis by blast
next
  case False
  then have "(device_line d @ 0 # post) ! 6 = fst d ! 6" "fst d ! 6 \<in> set (fst d)"
    by (simp_all add: device_line_def nth_append)
  then have "(device_line d @ 0 # post) ! 6 \<noteq> 58" using assms alnum_byte by (auto simp: device_ok_def)
  moreover have "6 < length (device_line d @ 0 # post)" using False by (simp add: device_line_def)
  ultimately have "netdev_line (pre @ device_line d @ 0 # post) (Some 6) (length pre) =
      Value ((pre @ device_line d @ [0]) @ post, Some 6, 0, device_found d)"
    using netdev_no_colon [of 6 "device_line d @ 0 # post" pre] False by (simp add: device_found_def)
  then show ?thesis by blast
qed

lemma device_line_ok: "device_ok d \<Longrightarrow> line_ok (device_line d)"
  using alnum_byte columns_bytes by (fastforce simp: line_ok_def device_line_def device_ok_def)

lemma netdev_lines_devices:
  assumes "\<forall>d \<in> set ds. device_ok d" "5 < length junk" "junk ! 5 \<noteq> 58"
  shows "\<exists>n. netdev_lines (pre @ text_of (map device_line ds) @ 0 # junk) (Some 6) (length pre) =
    Value (n, concat (map device_found ds))"
  using assms(1)
proof (induction ds arbitrary: pre)
  case Nil
  have "netdev_line (pre @ 0 # junk) (Some 6) (length pre) = Value (pre @ 0 # junk, Some 6, 0, [])"
    using assms(2,3) by (intro netdev_no_colon) simp_all
  then show ?case using str_tok_end [of 10 pre junk] by (subst netdev_lines.simps) simp
next
  case (Cons d ds)
  let ?post = "text_of (map device_line ds) @ 0 # junk"
  obtain p n where p: "netdev_line (pre @ device_line d @ 0 # ?post) (Some 6) (length pre) =
      Value (p @ ?post, Some 6, n, device_found d)" "length p = length (pre @ device_line d @ [0])"
    using netdev_device [of d pre ?post] Cons.prems by auto
  obtain n' where "netdev_lines (p @ ?post) (Some 6) (length p) = Value (n', concat (map device_found ds))"
    using Cons.IH [of p] Cons.prems by auto
  then show ?case
    using str_tok_line [OF device_line_ok, of d pre ?post] p Cons.prems by (subst netdev_lines.simps) simp
qed

lemma netdev_lines_text:
  assumes "\<forall>d \<in> set ds. device_ok d" "5 < length junk" "junk ! 5 \<noteq> 58" "line_ok h1" "line_ok h2"
  shows "\<exists>n. netdev_lines (text_of ((ascii ''Inter-|'' @ h1) # (ascii '' face |'' @ h2) # map device_line ds) @ 0 # junk)
    None 0 = Value (n, concat (map device_found ds))"
proof -
  let ?l1 = "ascii ''Inter-|'' @ h1" and ?l2 = "ascii '' face |'' @ h2" and ?post = "text_of (map device_line ds) @ 0 # junk"
  let ?p = "ascii ''Inter-'' @ 0 # h1 @ [0]"
  have ok: "line_ok ?l1" "line_ok ?l2" using assms(4,5) by (simp_all add: line_ok_def ascii_def)
  have "netdev_line (?l1 @ 0 # text_of [?l2] @ ?post) None 0 = Value (?p @ ?l2 @ 10 # ?post, Some 6, 0, [])"
    using netdev_header [of "ascii ''Inter-''" "[]" "h1 @ 0 # text_of [?l2] @ ?post"] by (simp add: ascii_def)
  moreover have "src_utils_str_tok 10 0 (?l1 @ 10 # text_of [?l2] @ ?post) =
      Some (Some (length ?p), ?l1 @ 0 # text_of [?l2] @ ?post)"
    using str_tok_line [OF ok(1), of "[]" "text_of [?l2] @ ?post"] by (simp add: ascii_def)
  moreover have "netdev_line (?p @ ?l2 @ 0 # ?post) (Some 6) (length ?p) = Value (?p @ ?l2 @ 0 # ?post, Some 6, 0, [])"
    by (rule netdev_no_colon) (simp_all add: ascii_def)
  moreover have "src_utils_str_tok 10 (length ?p) (?p @ ?l2 @ 10 # ?post) =
      Some (Some (length (?p @ ?l2 @ [0])), ?p @ ?l2 @ 0 # ?post)"
    using str_tok_line [OF ok(2), of ?p ?post] by simp
  moreover obtain n where "netdev_lines ((?p @ ?l2 @ [0]) @ ?post) (Some 6) (length (?p @ ?l2 @ [0])) =
      Value (n, concat (map device_found ds))"
    using netdev_lines_devices [OF assms(1-3), of "?p @ ?l2 @ [0]"] by blast
  ultimately show ?thesis
    by (subst netdev_lines.simps) (simp, subst netdev_lines.simps, simp)
qed

text \<open>The fields of a device: its name, and the numbers in the other representation.\<close>

lemma append_ints_uints:
  "foldl (append_value ord) s (numbered_fields k (map V_INT vs)) =
    foldl (append_value ord) s (numbered_fields k (map (V_UINT \<circ> as_unsigned) vs))"
  by (induction vs arbitrary: k s) (simp_all add: append_int_uint)

lemma netdev_client_gets:
  assumes "gtypes_ok gt" "cstring_ok name" "length name \<le> 6" "length vs = 16"
  shows "client_gets gt (built_manifest gt t netdev_rows) (netdev_fields name vs (pka_sample_new now))
    (numbered_fields 1 (V_STRING name # map (V_UINT \<circ> as_unsigned) vs))"
proof (rule client_gets_fields [OF assms(1)])
  let ?vs = "V_STRING name # map (V_UINT \<circ> as_unsigned) vs"
  have counters: "snd (netdev_rows ! Suc i) = G_TYPE_UINT" if "i < 16" for i
    unfolding netdev_rows_def nth_Cons_Suc using that by (subst nth_map) simp_all
  show "\<forall>fv \<in> set (numbered_fields 1 ?vs). field_ok gt (built_manifest gt t netdev_rows) fv"
  proof (rule numbered_field_ok)
    fix i assume "i < length ?vs"
    then show "gt (snd (netdev_rows ! (1 + i - 1))) = gt (value_type (?vs ! i)) \<and> value_ok (?vs ! i)"
      using counters assms(2,4) by (cases i) (simp_all add: netdev_rows_def)
  qed (simp_all add: netdev_rows_def assms(4))
  show "netdev_fields name vs (pka_sample_new now) =
      foldl (append_value G_LITTLE_ENDIAN) (pka_sample_new now) (numbered_fields 1 ?vs)"
    using fold_append_ints [of 2 vs "pka_sample_append_string (pka_sample_new now) 1 (Some name)" G_LITTLE_ENDIAN]
      append_ints_uints [of G_LITTLE_ENDIAN _ 2 vs] assms(4)
    by (simp add: netdev_fields_def numeral_2_eq_2)
  have "sum_list (map (value_size \<circ> (V_UINT \<circ> as_unsigned)) vs) = 0" by (induction vs) simp_all
  then have size: "sum_list (map value_size ?vs) = length name"
    by (simp only: list.map sum_list.Cons map_map value_size_numbers)
  show "15 * length (numbered_fields 1 ?vs) + sum_list (map (value_size \<circ> snd) (numbered_fields 1 ?vs)) < 2 ^ 31"
    using assms(3,4) unfolding numbered_fields_sizes size by simp
qed

lemma found_devices:
  "concat (map device_found ds) =
    map (\<lambda>d. (fst d, map (word_of_nat \<circ> snd) (snd d))) (filter (\<lambda>d. length (fst d) \<le> 6) ds)"
  by (induction ds) (simp_all add: device_found_def)

text \<open>
  The source \<open>NetDev\<close> doubles every counter and drops the devices with long names. The rows are unsigned and the fields
  are written signed, with the same tag: of a file that the kernel prints, with a line for each device, the first run
  delivers a manifest and one sample for every device with a name of at most six characters, in the order of the file; a
  client decodes the name as it is, and each of the sixteen counters twice as large.
\<close>

theorem netdev_counters_doubled:
  assumes "gtypes_ok gt" "\<forall>d \<in> set ds. device_ok d" "line_ok h1" "line_ok h2" "file =
      text_of ((ascii ''Inter-|'' @ h1) # (ascii '' face |'' @ h2) # map device_line ds)"
    and "rd (ascii ''/proc/net/dev'') 1023 = Some file"
    and "length file + 6 < length filebuf" "filebuf ! (length file + 6) \<noteq> 58"
  shows "\<exists>m samples. netdev_sample gt rd now filebuf (fst netdev_new) =
      Value (\<lparr>nd_manifest = Some m\<rparr>, Deliver_Manifest m # map Deliver_Sample samples) \<and>
    map row_name (pm_rows m) = map fst netdev_rows \<and>
    list_all2 (\<lambda>s (name, cs). client_gets gt m s (numbered_fields 1 (V_STRING name #
        map (\<lambda>(k, n). V_UINT (word_of_nat (2 * n))) cs))) samples (filter (\<lambda>d. length (fst d) \<le> 6) ds)"
proof -
  let ?m = "built_manifest gt (now 0) netdev_rows" and ?short = "filter (\<lambda>d. length (fst d) \<le> 6) ds"
  let ?junk = "drop (length file + 1) filebuf" and ?found = "concat (map device_found ds)"
  let ?samples = "map (\<lambda>(k, name, val). netdev_fields name val (pka_sample_new (now k))) (enumerate 1 ?found)"
  have "5 < length ?junk" "?junk ! 5 \<noteq> 58" using assms(7,8) by (simp_all add: add.commute)
  then obtain n where n: "netdev_lines (file @ 0 # ?junk) None 0 = Value (n, ?found)"
    unfolding assms(5) using netdev_lines_text [OF assms(2) _ _ assms(3,4)] by blast
  have "manifest_of_rows gt (now 0) 17 netdev_rows = Returns ?m"
    by (rule manifest_of_rows_built [OF assms(1)]) (auto simp: netdev_rows_def)
  then have "netdev_sample gt rd now filebuf (fst netdev_new) =
      Value (\<lparr>nd_manifest = Some ?m\<rparr>, Deliver_Manifest ?m # map Deliver_Sample ?samples)"
    using assms(6) n
    by (simp add: netdev_sample_def netdev_new_def kept_manifest_def netdev_read_def src_utils_read_file_def
        case_prod_beta comp_def)
  moreover have "list_all2 (\<lambda>s (name, cs). client_gets gt ?m s (numbered_fields 1 (V_STRING name #
        map (\<lambda>(k, n). V_UINT (word_of_nat (2 * n))) cs))) ?samples ?short"
  proof (rule list_all2_all_nthI)
    show "length ?samples = length ?short" by (simp add: found_devices)
    fix i assume "i < length ?samples"
    then have i: "i < length ?short" by (simp add: found_devices)
    obtain name cs where d: "?short ! i = (name, cs)" by (cases "?short ! i")
    then have "(name, cs) \<in> set ?short" using nth_mem [OF i] by simp
    then have ok: "device_ok (name, cs)" "length name \<le> 6" using assms(2) by auto
    then have name: "cstring_ok name" using alnum_byte by (auto simp: cstring_ok_def device_ok_def)
    have cs: "length (map (word_of_nat \<circ> snd) cs) = 16" using ok(1) by (simp add: device_ok_def)
    have "?samples ! i = netdev_fields name (map (word_of_nat \<circ> snd) cs) (pka_sample_new (now (1 + i)))"
      using i d by (simp add: found_devices nth_enumerate_eq)
    moreover have "map (V_UINT \<circ> as_unsigned) (map (word_of_nat \<circ> snd) cs) = map (\<lambda>(k, n). V_UINT (word_of_nat (2 * n))) cs"
      using ok(1) by (auto simp: device_ok_def as_unsigned_nat)
    ultimately have "client_gets gt ?m (?samples ! i) (numbered_fields 1 (V_STRING name #
        map (\<lambda>(k, n). V_UINT (word_of_nat (2 * n))) cs))"
      using netdev_client_gets [OF assms(1) name ok(2) cs, of "now 0" "now (1 + i)"] by (simp only:)
    then show "case ?short ! i of (name, cs) \<Rightarrow> client_gets gt ?m (?samples ! i) (numbered_fields 1 (V_STRING name #
        map (\<lambda>(k, n). V_UINT (word_of_nat (2 * n))) cs))"
      unfolding d by (simp only: prod.case)
  qed
  moreover have "map row_name (pm_rows ?m) = map fst netdev_rows" by simp
  ultimately show ?thesis by blast
qed

lemma netdev_counters_doubled_witness:
  "\<exists>m samples. netdev_sample glib_gtypes (\<lambda>_ _. Some (text_of [ascii ''Inter-|   Receive'', ascii '' face |bytes'',
        ascii ''    lo: 7 1 0 0 0 0 0 0 7 1 0 0 0 0 0 0'', ascii ''enp0s31: 9 1 0 0 0 0 0 0 9 1 0 0 0 0 0 0'']))
      (\<lambda>_. \<lparr>tv_sec = 1, tv_nsec = 0\<rparr>) (replicate 1024 0) (fst netdev_new) =
      Value (\<lparr>nd_manifest = Some m\<rparr>, Deliver_Manifest m # map Deliver_Sample samples) \<and>
    map row_name (pm_rows m) = map fst netdev_rows \<and>
    list_all2 (\<lambda>s u. client_gets glib_gtypes m s (numbered_fields 1 (V_STRING (ascii ''lo'') #
        map V_UINT [14, 2, 0, 0, 0, 0, 0, 0, 14, 2, 0, 0, 0, 0, 0, 0]))) samples [()]"
proof -
  let ?cs = "map (Pair 0) [7, 1, 0, 0, 0, 0, 0, 0, 7, 1, 0, 0, 0, 0, 0, 0 :: nat]"
  let ?cs' = "map (Pair 0) [9, 1, 0, 0, 0, 0, 0, 0, 9, 1, 0, 0, 0, 0, 0, 0 :: nat]"
  let ?ds = "[(ascii ''lo'', ?cs), (ascii ''enp0s31'', ?cs')]"
  let ?file = "text_of ((ascii ''Inter-|'' @ ascii ''   Receive'') # (ascii '' face |'' @ ascii ''bytes'') # map device_line ?ds)"
  have whole: "?file = text_of [ascii ''Inter-|   Receive'', ascii '' face |bytes'',
        ascii ''    lo: 7 1 0 0 0 0 0 0 7 1 0 0 0 0 0 0'', ascii ''enp0s31: 9 1 0 0 0 0 0 0 9 1 0 0 0 0 0 0'']"
    by (simp add: device_line_def ascii_def digits.simps eval_nat_numeral)
  have fits: "length ?file + 6 < 1024" unfolding whole by (simp add: ascii_def)
  then have after: "replicate 1024 (0 :: u8) ! (length ?file + 6) \<noteq> 58" by (subst nth_replicate) simp_all
  have devices: "\<forall>d \<in> set ?ds. device_ok d" by (simp add: device_ok_def ascii_def g_ascii_isalnum_def)
  have headers: "line_ok (ascii ''   Receive'')" "line_ok (ascii ''bytes'')" by (simp_all add: line_ok_def ascii_def)
  have short: "filter (\<lambda>d. length (fst d) \<le> 6) ?ds = [(ascii ''lo'', ?cs)]" by (simp add: ascii_def)
  show ?thesis
    using netdev_counters_doubled [OF gtypes_ok_glib devices headers refl, of "\<lambda>_ _. Some ?file" "replicate 1024 0"
        "\<lambda>_. \<lparr>tv_sec = 1, tv_nsec = 0\<rparr>"] fits after
    unfolding short whole [symmetric] by (simp add: list_all2_Cons2 del: columns_simps)
qed

end
