(* ===== verification/Ring_Buffers.thy ===== *)
theory Ring_Buffers
  imports Boxed
begin

text \<open>
  uber/g-ring.c and cut-n-paste/uber-buffer.c: the two circular buffers in which the graphs keep the last values of a
  line. The locale states what both promise: the values that were appended last, by their age.
\<close>

section \<open>The contract\<close>

locale recent_values =
  fixes push :: "'v \<Rightarrow> 'b \<Rightarrow> 'b"
    and recent :: "'b \<Rightarrow> nat \<Rightarrow> 'v"
    and room :: "'b \<Rightarrow> nat"
    and ok :: "'b \<Rightarrow> bool"
  assumes ok_push: "ok b \<Longrightarrow> ok (push v b)"
    and room_push: "ok b \<Longrightarrow> room (push v b) = room b"
    and recent_new: "ok b \<Longrightarrow> recent (push v b) 0 = v"
    and recent_old: "ok b \<Longrightarrow> Suc i < room b \<Longrightarrow> recent (push v b) (Suc i) = recent b i"
begin

lemma pushes_ok: "ok b \<Longrightarrow> ok (fold push vs b) \<and> room (fold push vs b) = room b"
  by (induction vs arbitrary: b) (simp_all add: ok_push room_push)

lemma pushes_shift: "ok b \<Longrightarrow> length vs + i < room b \<Longrightarrow> recent (fold push vs b) (length vs + i) = recent b i"
proof (induction vs arbitrary: b i)
  case (Cons v vs)
  then have "recent (fold push vs (push v b)) (length vs + Suc i) = recent (push v b) (Suc i)"
    by (intro Cons.IH) (simp_all add: ok_push room_push)
  then show ?case using Cons.prems by (simp add: recent_old)
qed simp

lemma pushes_recent: "ok b \<Longrightarrow> i < length vs \<Longrightarrow> i < room b \<Longrightarrow> recent (fold push vs b) i = rev vs ! i"
proof (induction vs arbitrary: b i)
  case (Cons v vs)
  show ?case
  proof (cases "i < length vs")
    case True
    then show ?thesis using Cons.IH [of "push v b" i] Cons.prems by (simp add: ok_push room_push nth_append)
  next
    case False
    then have "i = length vs" using Cons.prems by simp
    then show ?thesis
      using pushes_shift [of "push v b" vs 0] Cons.prems by (simp add: ok_push room_push recent_new nth_append)
  qed
qed simp

end

section \<open>GRing\<close>

text \<open>
  Elements are addressed by their number; \<open>gr_elt_size\<close> times the number of elements does not overflow. \<open>gr_destroy\<close>: a
  function to destroy elements was given.
\<close>

record 'a g_ring =
  gr_data :: "'a list"
  gr_len :: guint
  gr_pos :: guint
  gr_elt_size :: guint
  gr_looped :: bool
  gr_destroy :: bool
  gr_ref_count :: gint

text \<open>\<open>zero\<close>: an element of zero bytes.\<close>

definition g_ring_sized_new :: "'a \<Rightarrow> guint \<Rightarrow> guint \<Rightarrow> bool \<Rightarrow> 'a g_ring" where
  "g_ring_sized_new zero element_size reserved_size element_destroy =
     \<lparr>gr_data = replicate (unat reserved_size) zero, gr_len = reserved_size, gr_pos = 0, gr_elt_size = element_size,
      gr_looped = False, gr_destroy = element_destroy, gr_ref_count = 1\<rparr>"

text \<open>The body of the loop over the values, with the element that is destroyed. \<open>Fault\<close>: an access outside the data.\<close>

definition ring_put :: "gint \<Rightarrow> 'a \<Rightarrow> 'a g_ring \<Rightarrow> ('a g_ring \<times> 'a list) outcome" where
  "ring_put i v r =
     (let x = gr_pos r - i;
          x = (if 0 <=s x then x else gr_len r + x)
      in if unat x < length (gr_data r)
         then Value (r\<lparr>gr_data := (gr_data r)[unat x := v],
                gr_looped := gr_looped r \<or> gr_len r \<le> gr_pos r + 1,
                gr_pos := (gr_pos r + 1) mod gr_len r\<rparr>,
              if gr_destroy r \<and> gr_looped r then [gr_data r ! unat x] else [])
         else Fault)"

fun ring_puts :: "gint \<Rightarrow> 'a list \<Rightarrow> 'a g_ring \<Rightarrow> ('a g_ring \<times> 'a list) outcome" where
  "ring_puts i [] r = Value (r, [])"
| "ring_puts i (v # vs) r =
     (case ring_put i v r of
        Value (r, destroyed) \<Rightarrow>
          (case ring_puts (i + 1) vs r of
             Value (r, rest) \<Rightarrow> Value (r, destroyed @ rest) | Failed \<Rightarrow> Failed | Fault \<Rightarrow> Fault)
      | Failed \<Rightarrow> Failed
      | Fault \<Rightarrow> Fault)"

definition g_ring_append_vals :: "'a g_ring \<Rightarrow> 'a list \<Rightarrow> ('a g_ring \<times> 'a list) outcome" where
  "g_ring_append_vals r vs = ring_puts 0 vs r"

definition g_ring_get_index :: "'a g_ring \<Rightarrow> gint \<Rightarrow> 'a outcome" where
  "g_ring_get_index r i =
     (let x = (if 0 <=s gr_pos r - 1 - i then gr_pos r - 1 - i else gr_len r + (gr_pos r - 1 - i))
      in if unat x < length (gr_data r) then Value (gr_data r ! unat x) else Fault)"

text \<open>
  The two loops, with the number of the element before which they stand. The index of the second is compared as an
  unsigned number, so that it does not end at -1.
\<close>

definition visit :: "'a g_ring \<Rightarrow> nat \<Rightarrow> 'a list outcome \<Rightarrow> 'a list outcome" where
  "visit r i rest =
     (if i < length (gr_data r)
      then (case rest of Value xs \<Rightarrow> Value (gr_data r ! i # xs) | Failed \<Rightarrow> Failed | Fault \<Rightarrow> Fault)
      else Fault)"

fun ring_before :: "'a g_ring \<Rightarrow> nat \<Rightarrow> 'a list outcome \<Rightarrow> 'a list outcome" where
  "ring_before r 0 rest = rest"
| "ring_before r (Suc i) rest = visit r i (ring_before r i rest)"

fun ring_after :: "'a g_ring \<Rightarrow> nat \<Rightarrow> 'a list outcome" where
  "ring_after r 0 = (if gr_pos r \<le> - 1 then Fault else Value [])"
| "ring_after r (Suc i) = (if gr_pos r \<le> word_of_nat i then visit r i (ring_after r i) else Value [])"

definition g_ring_foreach :: "'a g_ring \<Rightarrow> 'a list outcome" where
  "g_ring_foreach r =
     ring_before r (if 0 <=s gr_pos r - 1 then unat (gr_pos r) else 0) (ring_after r (unat (gr_len r)))"

text \<open>Destroying frees the data; the structure and the elements are left.\<close>

definition g_ring_ref :: "'a g_ring \<Rightarrow> 'a g_ring option" where
  "g_ring_ref r = (if 0 <s gr_ref_count r then Some (r\<lparr>gr_ref_count := gr_ref_count r + 1\<rparr>) else None)"

definition g_ring_unref :: "'a g_ring \<Rightarrow> 'a g_ring unref_result" where
  "g_ring_unref r =
     (if 0 <s gr_ref_count r
      then if gr_ref_count r - 1 = 0 then Freed else Kept (r\<lparr>gr_ref_count := gr_ref_count r - 1\<rparr>)
      else Kept r)"

interpretation ring_count: refcounted gr_ref_count "\<lambda>c. gr_ref_count_update (\<lambda>_. c)" g_ring_ref g_ring_unref
  by unfold_locales (auto simp: g_ring_ref_def g_ring_unref_def count_up_def count_down_def count_dead_def)

subsection \<open>One value after the other\<close>

definition ring_ok :: "'a g_ring \<Rightarrow> bool" where
  "ring_ok r \<longleftrightarrow> length (gr_data r) = unat (gr_len r) \<and> gr_pos r < gr_len r \<and> unat (gr_len r) < 2 ^ 31"

text \<open>Where the value is that was put in before \<open>i\<close> others.\<close>

definition slot :: "nat \<Rightarrow> nat \<Rightarrow> nat \<Rightarrow> nat" where
  "slot len pos i = (if i < pos then pos - 1 - i else len + pos - 1 - i)"

definition ring_value :: "'a g_ring \<Rightarrow> nat \<Rightarrow> 'a" where
  "ring_value r i = gr_data r ! slot (unat (gr_len r)) (unat (gr_pos r)) i"

definition ring_push :: "'a \<Rightarrow> 'a g_ring \<Rightarrow> 'a g_ring" where
  "ring_push v r = (case g_ring_append_vals r [v] of Value (r', _) \<Rightarrow> r' | _ \<Rightarrow> r)"

text \<open>Values appended with a call each, and the elements that are destroyed, in their order.\<close>

fun ring_pushes :: "'a list \<Rightarrow> 'a g_ring \<Rightarrow> ('a g_ring \<times> 'a list) outcome" where
  "ring_pushes [] r = Value (r, [])"
| "ring_pushes (v # vs) r =
     (case g_ring_append_vals r [v] of
        Value (r, destroyed) \<Rightarrow>
          (case ring_pushes vs r of
             Value (r, rest) \<Rightarrow> Value (r, destroyed @ rest) | Failed \<Rightarrow> Failed | Fault \<Rightarrow> Fault)
      | Failed \<Rightarrow> Failed
      | Fault \<Rightarrow> Fault)"

lemma ring_ok_new: "0 < n \<Longrightarrow> unat n < 2 ^ 31 \<Longrightarrow> ring_ok (g_ring_sized_new zero element_size n d)"
  by (simp add: ring_ok_def g_ring_sized_new_def)

lemma small_signed: "unat (x :: gint) < 2 ^ 31 \<Longrightarrow> 0 <=s x"
  using sint_word_of_nat [of "unat x"] by (simp add: word_sle_eq)

lemma large_signed: "2 ^ 31 \<le> unat (x :: gint) \<Longrightarrow> \<not> 0 <=s x"
proof
  assume "2 ^ 31 \<le> unat x" "0 <=s x"
  then have "int (unat x) = sint x" by (intro int_unat_gint) (simp add: word_sle_eq)
  then have "unat x = nat (sint x)" by linarith
  moreover have "sint x < 2147483648" using sint_lt [of x] by simp
  then have "nat (sint x) < 2147483648" by linarith
  ultimately show False using \<open>2 ^ 31 \<le> unat x\<close> by simp
qed

text \<open>A difference of two places, and the place it stands for.\<close>

lemma place_back:
  fixes p i n :: gint
  assumes "unat p < unat n" "unat i \<le> unat n" "unat n < 2 ^ 31"
  shows "unat (if 0 <=s p - i then p - i else n + (p - i)) =
    (if unat i \<le> unat p then unat p - unat i else unat n + unat p - unat i)"
proof (cases "unat i \<le> unat p")
  case True
  then have "unat (p - i) = unat p - unat i" by (simp add: unat_sub word_le_nat_alt)
  with assms True show ?thesis by (simp add: small_signed)
next
  case False
  then have "unat (p - i) = 2 ^ 32 + unat p - unat i"
    by (simp add: unat_sub_if_size word_size word_le_nat_alt)
  moreover from this have "\<not> 0 <=s p - i" using assms by (intro large_signed) simp
  moreover have "unat (n + p) = unat n + unat p" using assms by (intro unat_plus_simple [THEN iffD1]) (simp add: no_olen_add_nat)
  then have "unat ((n + p) - i) = unat n + unat p - unat i"
    using False assms by (simp add: unat_sub_if_size word_size word_le_nat_alt)
  moreover have "n + (p - i) = (n + p) - i" by simp
  ultimately show ?thesis using False by (simp only: if_False)
qed

text \<open>A value is put where the oldest is.\<close>

definition put_at :: "nat \<Rightarrow> 'a \<Rightarrow> nat \<Rightarrow> 'a g_ring \<Rightarrow> 'a g_ring" where
  "put_at k v n r = r\<lparr>gr_data := (gr_data r)[k := v], gr_pos := word_of_nat ((k + n) mod unat (gr_len r)),
     gr_looped := gr_looped r \<or> unat (gr_len r) \<le> k + n\<rparr>"

lemma next_place:
  fixes p n :: guint
  assumes "unat p < unat n" "unat n < 2 ^ 31"
  shows "unat (p + 1) = unat p + 1" "(p + 1) mod n = word_of_nat ((unat p + 1) mod unat n)"
    "n \<le> p + 1 \<longleftrightarrow> unat n \<le> unat p + 1" "unat ((p + 1) mod n) = (unat p + 1) mod unat n"
proof -
  show p: "unat (p + 1) = unat p + 1" using assms by (simp add: unat_plus_if_size word_size)
  then show m: "unat ((p + 1) mod n) = (unat p + 1) mod unat n" by (simp add: unat_mod)
  show "(p + 1) mod n = word_of_nat ((unat p + 1) mod unat n)" unfolding m [symmetric] by simp
  show "n \<le> p + 1 \<longleftrightarrow> unat n \<le> unat p + 1" by (simp add: word_le_nat_alt p)
qed

text \<open>In the loop, the index takes back what the position has moved on: every value goes to the same place.\<close>

lemma back_in_place:
  fixes k i n :: nat
  assumes "k < n" "i \<le> n"
  shows "(if i \<le> (k + i) mod n then (k + i) mod n - i else n + (k + i) mod n - i) = k"
proof (cases "k + i < n")
  case False
  then have "(k + i) mod n = k + i - n" using assms by (simp add: mod_if)
  then have "\<not> i \<le> (k + i) mod n" "n + (k + i) mod n - i = k" using False assms by linarith+
  then show ?thesis by simp
qed simp

lemma ring_put_place:
  assumes "ring_ok r" "gr_pos r = word_of_nat ((k + unat i) mod unat (gr_len r))" "k < unat (gr_len r)"
    and "unat i \<le> unat (gr_len r)"
  shows "\<exists>d. ring_put i v r = Value (r\<lparr>gr_data := (gr_data r)[k := v],
    gr_pos := word_of_nat ((k + unat i + 1) mod unat (gr_len r)),
    gr_looped := gr_looped r \<or> unat (gr_len r) \<le> (k + unat i) mod unat (gr_len r) + 1\<rparr>, d)"
proof -
  let ?n = "unat (gr_len r)"
  have n: "length (gr_data r) = ?n" "?n < 2 ^ 31" using assms(1) by (simp_all add: ring_ok_def)
  have p: "unat (gr_pos r) = (k + unat i) mod ?n"
    unfolding assms(2) using n assms(3) by (intro unat_word_of_nat) (simp add: less_trans [OF mod_less_divisor])
  have "unat (if 0 <=s gr_pos r - i then gr_pos r - i else gr_len r + (gr_pos r - i)) = k"
  proof -
    have "unat (gr_pos r) < ?n" using p assms(3) by simp
    then have "unat (if 0 <=s gr_pos r - i then gr_pos r - i else gr_len r + (gr_pos r - i)) =
        (if unat i \<le> (k + unat i) mod ?n then (k + unat i) mod ?n - unat i else ?n + (k + unat i) mod ?n - unat i)"
      using place_back [of "gr_pos r" "gr_len r" i] assms(4) n p by simp
    also have "\<dots> = k" by (rule back_in_place [OF assms(3,4)])
    finally show ?thesis .
  qed
  then show ?thesis
    using next_place [of "gr_pos r" "gr_len r"] p n assms(3)
    by (simp add: ring_put_def Let_def mod_simps)
qed

lemma ring_push_eq:
  assumes "ring_ok r"
  shows "ring_push v r = r\<lparr>gr_data := (gr_data r)[unat (gr_pos r) := v],
    gr_pos := word_of_nat ((unat (gr_pos r) + 1) mod unat (gr_len r)),
    gr_looped := gr_looped r \<or> unat (gr_len r) \<le> unat (gr_pos r) + 1\<rparr>"
proof -
  have "unat (gr_pos r) < unat (gr_len r)" using assms by (simp add: ring_ok_def word_less_nat_alt)
  then show ?thesis
    using ring_put_place [OF assms, of "unat (gr_pos r)" 0 v]
    by (auto simp: ring_push_def g_ring_append_vals_def)
qed

lemma unat_place:
  assumes "ring_ok r"
  shows "unat (word_of_nat (k mod unat (gr_len r)) :: guint) = k mod unat (gr_len r)"
proof -
  have "0 < unat (gr_len r)" "unat (gr_len r) < 2 ^ 31" using assms by (auto simp: ring_ok_def word_less_nat_alt)
  then have "k mod unat (gr_len r) < 2 ^ 32" by (intro less_trans [OF mod_less_divisor]) simp_all
  then show ?thesis by (intro unat_word_of_nat) simp
qed

text \<open>The age of a value, and its place.\<close>

lemma slot_next:
  assumes "p < n"
  shows "slot n ((p + 1) mod n) 0 = p" "Suc i < n \<Longrightarrow> slot n ((p + 1) mod n) (Suc i) = slot n p i"
    "Suc i < n \<Longrightarrow> slot n p i \<noteq> p" "i < n \<Longrightarrow> slot n p i < n"
proof -
  have "p + 1 < n \<or> p + 1 = n" using assms by linarith
  then show "slot n ((p + 1) mod n) 0 = p" "Suc i < n \<Longrightarrow> slot n ((p + 1) mod n) (Suc i) = slot n p i"
    using assms by (auto simp: slot_def)
  show "Suc i < n \<Longrightarrow> slot n p i \<noteq> p" "i < n \<Longrightarrow> slot n p i < n"
    using assms by (auto simp: slot_def)
qed

interpretation ring: recent_values ring_push ring_value "\<lambda>r. unat (gr_len r)" ring_ok
proof unfold_locales
  fix r :: "'a g_ring" and v :: 'a and i
  assume r: "ring_ok r"
  then have p: "unat (gr_pos r) < unat (gr_len r)" and n: "length (gr_data r) = unat (gr_len r)"
    by (simp_all add: ring_ok_def word_less_nat_alt)
  show "unat (gr_len (ring_push v r)) = unat (gr_len r)" by (simp add: ring_push_eq [OF r])
  show "ring_ok (ring_push v r)"
    using r p unat_place [OF r] by (simp add: ring_push_eq [OF r] ring_ok_def word_less_nat_alt)
  show "ring_value (ring_push v r) 0 = v"
    using slot_next(1) [OF p] p n unat_place [OF r, of "unat (gr_pos r) + 1"]
    by (simp add: ring_push_eq [OF r] ring_value_def)
  show "Suc i < unat (gr_len r) \<Longrightarrow> ring_value (ring_push v r) (Suc i) = ring_value r i"
    using slot_next(2,3) [OF p, of i] unat_place [OF r, of "unat (gr_pos r) + 1"]
    by (simp add: ring_push_eq [OF r] ring_value_def)
qed

text \<open>What is looked up is the value of that age.\<close>

lemma get_index_value:
  assumes "ring_ok r" "i < unat (gr_len r)"
  shows "g_ring_get_index r (word_of_nat i) = Value (ring_value r i)"
proof -
  have p: "unat (gr_pos r) < unat (gr_len r)" and n: "length (gr_data r) = unat (gr_len r)" "unat (gr_len r) < 2 ^ 31"
    using assms(1) by (simp_all add: ring_ok_def word_less_nat_alt)
  have i: "unat (word_of_nat (Suc i) :: gint) = Suc i" using assms(2) n by (intro unat_word_of_nat) simp
  have "gr_pos r - 1 - word_of_nat i = gr_pos r - word_of_nat (Suc i)" by simp
  then have "unat (if 0 <=s gr_pos r - 1 - word_of_nat i then gr_pos r - 1 - word_of_nat i
      else gr_len r + (gr_pos r - 1 - word_of_nat i)) = slot (unat (gr_len r)) (unat (gr_pos r)) i"
    using place_back [OF p, of "word_of_nat (Suc i)"] i assms(2) n(2) by (simp only: slot_def) simp
  then show ?thesis
    unfolding g_ring_get_index_def Let_def ring_value_def using n slot_next(4) [OF p assms(2)] by (simp only: if_True)
qed

subsection \<open>All values, and several at once\<close>

lemma visit_ok: "i < length (gr_data r) \<Longrightarrow> visit r i (Value xs) = Value (gr_data r ! i # xs)"
  by (simp add: visit_def)

lemma ring_before_values:
  "k \<le> length (gr_data r) \<Longrightarrow> ring_before r k (Value xs) = Value (map ((!) (gr_data r)) (rev [0..<k]) @ xs)"
  by (induction k) (simp_all add: visit_ok)

lemma ring_before_Fault: "ring_before r k Fault = Fault"
  by (induction k) (simp_all add: visit_def)

lemma ring_after_values:
  assumes "ring_ok r" "k \<le> unat (gr_len r)" "unat (gr_pos r) \<le> k"
  shows "ring_after r k = (if unat (gr_pos r) = 0 then Fault
    else Value (map ((!) (gr_data r)) (rev [unat (gr_pos r)..<k])))"
  using assms(2,3)
proof (induction k)
  case 0
  then show ?case by (simp add: word_order.extremum)
next
  case (Suc k)
  have "unat (word_of_nat k :: guint) = k" using Suc.prems assms(1) by (intro unat_word_of_nat) (simp add: ring_ok_def)
  then have le: "gr_pos r \<le> word_of_nat k \<longleftrightarrow> unat (gr_pos r) \<le> k" by (simp add: word_le_nat_alt)
  show ?case
  proof (cases "unat (gr_pos r) \<le> k")
    case True
    then show ?thesis using Suc le assms(1) by (simp add: ring_ok_def visit_def)
  next
    case False
    then show ?thesis using Suc.prems le by simp
  qed
qed

lemma values_by_age:
  assumes "p \<le> n"
  shows "map (\<lambda>i. xs ! slot n p i) [0..<n] = map ((!) xs) (rev [0..<p]) @ map ((!) xs) (rev [p..<n])"
  using assms by (intro nth_equalityI) (auto simp: slot_def nth_append rev_nth add.commute)

lemma foreach_values:
  assumes "ring_ok r"
  shows "g_ring_foreach r =
    (if unat (gr_pos r) = 0 then Fault else Value (map (ring_value r) [0..<unat (gr_len r)]))"
proof (cases "unat (gr_pos r) = 0")
  case True
  then show ?thesis
    using ring_after_values [OF assms order.refl] ring_before_Fault by (simp add: g_ring_foreach_def)
next
  case False
  have p: "unat (gr_pos r) < unat (gr_len r)" and n: "length (gr_data r) = unat (gr_len r)" "unat (gr_len r) < 2 ^ 31"
    using assms by (simp_all add: ring_ok_def word_less_nat_alt)
  have "unat (gr_pos r - 1) = unat (gr_pos r) - 1" using False by (simp add: unat_sub word_le_nat_alt Suc_le_eq)
  then have "0 <=s gr_pos r - 1" using p n by (intro small_signed) simp
  then show ?thesis
    using ring_after_values [OF assms order.refl] ring_before_values [of "unat (gr_pos r)" r] False p n
      values_by_age [of "unat (gr_pos r)" "unat (gr_len r)" "gr_data r"]
    by (simp add: g_ring_foreach_def ring_value_def [abs_def])
qed

lemma ring_puts_place:
  assumes "ring_ok r" "gr_pos r = word_of_nat ((k + unat i) mod unat (gr_len r))" "k < unat (gr_len r)"
    and "unat i + length vs \<le> unat (gr_len r)"
  shows "\<exists>r' d. ring_puts i vs r = Value (r', d) \<and> ring_ok r' \<and> gr_len r' = gr_len r \<and>
    gr_pos r' = word_of_nat ((k + unat i + length vs) mod unat (gr_len r)) \<and>
    gr_data r' = (if vs = [] then gr_data r else (gr_data r)[k := last vs])"
  using assms
proof (induction vs arbitrary: i r)
  case (Cons v vs)
  let ?n = "unat (gr_len r)"
  have le: "unat i \<le> ?n" using Cons.prems(4) by simp
  from ring_put_place [OF Cons.prems(1-3) le, of v] obtain d where d: "ring_put i v r = Value (r\<lparr>gr_data := (gr_data r)[k := v],
    gr_pos := word_of_nat ((k + unat i + 1) mod ?n),
    gr_looped := gr_looped r \<or> ?n \<le> (k + unat i) mod ?n + 1\<rparr>, d)" (is "_ = Value (?r, d)") ..
  have i: "unat (i + 1) = unat i + 1"
    using Cons.prems(1,4) by (simp add: ring_ok_def unat_plus_if_size word_size)
  have "0 < ?n" using Cons.prems(3) by simp
  then have "ring_ok ?r"
    using Cons.prems(1) unat_place [OF Cons.prems(1), of "k + unat i + 1"] by (simp add: ring_ok_def word_less_nat_alt)
  moreover have "gr_pos ?r = word_of_nat ((k + unat (i + 1)) mod unat (gr_len ?r))" by (simp add: i add.assoc)
  moreover have "k < unat (gr_len ?r)" "unat (i + 1) + length vs \<le> unat (gr_len ?r)" using Cons.prems(3,4) by (simp_all add: i)
  ultimately obtain r2 d2 where r2: "ring_puts (i + 1) vs ?r = Value (r2, d2)" "ring_ok r2" "gr_len r2 = gr_len ?r"
    "gr_pos r2 = word_of_nat ((k + unat (i + 1) + length vs) mod unat (gr_len ?r))"
    "gr_data r2 = (if vs = [] then gr_data ?r else (gr_data ?r)[k := last vs])"
    using Cons.IH [of ?r "i + 1"] by blast
  have "ring_puts i (v # vs) r = Value (r2, d @ d2)" using d r2(1) by simp
  moreover have "gr_pos r2 = word_of_nat ((k + unat i + length (v # vs)) mod ?n)" using r2(4) by (simp add: i)
  moreover have "gr_data r2 = (gr_data r)[k := last (v # vs)]" using r2(5) by simp
  ultimately show ?case using r2(2,3) by simp
qed simp

lemma pushes_pos:
  "ring_ok r \<Longrightarrow> unat (gr_pos (fold ring_push vs r)) = (unat (gr_pos r) + length vs) mod unat (gr_len r)"
proof (induction vs arbitrary: r)
  case Nil
  then show ?case by (simp add: ring_ok_def word_less_nat_alt)
next
  case (Cons v vs)
  then show ?case
    using Cons.IH [of "ring_push v r"] ring.ok_push [of r v] ring.room_push [of r v] unat_place [of r "unat (gr_pos r) + 1"]
    by (simp add: ring_push_eq mod_simps)
qed

text \<open>What is destroyed when values are appended one by one: the oldest, once the ring is full.\<close>

lemma append_one:
  assumes "ring_ok r"
  shows "g_ring_append_vals r [v] = Value (ring_push v r,
    if gr_destroy r \<and> gr_looped r then [ring_value r (unat (gr_len r) - 1)] else [])"
proof -
  have p: "unat (gr_pos r) < unat (gr_len r)" and n: "length (gr_data r) = unat (gr_len r)" "unat (gr_len r) < 2 ^ 31"
    using assms by (simp_all add: ring_ok_def word_less_nat_alt)
  have "0 <=s gr_pos r" using p n(2) by (intro small_signed) simp
  moreover have "slot (unat (gr_len r)) (unat (gr_pos r)) (unat (gr_len r) - 1) = unat (gr_pos r)"
    using p by (simp add: slot_def)
  ultimately show ?thesis
    using p n(1) by (simp add: ring_push_def g_ring_append_vals_def ring_put_def Let_def ring_value_def)
qed

lemma pushes_append: "ring_ok r \<Longrightarrow> ring_pushes us r = Value (s, ds) \<Longrightarrow> ring_pushes (us @ [v]) r =
    (case g_ring_append_vals s [v] of
       Value (s, d) \<Rightarrow> Value (s, ds @ d) | Failed \<Rightarrow> Failed | Fault \<Rightarrow> Fault)"
proof (induction us arbitrary: r ds)
  case Nil
  then show ?case by (simp split: outcome.split prod.split)
next
  case (Cons u us)
  obtain d where d: "g_ring_append_vals r [u] = Value (ring_push u r, d)" using append_one [OF Cons.prems(1)] by simp
  then obtain rest where rest: "ring_pushes us (ring_push u r) = Value (s, rest)" "ds = d @ rest"
    using Cons.prems(2) by (auto split: outcome.splits)
  from Cons.IH [OF ring.ok_push [OF Cons.prems(1)] rest(1)] show ?case
    by (simp add: d rest(2) split: outcome.split prod.split)
qed

text \<open>A new ring after some values.\<close>

lemma pushed_state:
  fixes zero :: 'a and n element_size :: guint and destroy :: bool
  assumes "0 < unat n" "unat n < 2 ^ 31"
  defines "r \<equiv> \<lambda>vs. fold ring_push vs (g_ring_sized_new zero element_size n destroy)"
  shows "ring_ok (r vs)" "gr_len (r vs) = n" "gr_destroy (r vs) = destroy" "unat (gr_pos (r vs)) = length vs mod unat n"
    and "gr_looped (r vs) \<longleftrightarrow> unat n \<le> length vs"
    and "i < unat n \<Longrightarrow> ring_value (r vs) i = (if i < length vs then rev vs ! i else zero)"
proof -
  let ?new = "g_ring_sized_new zero element_size n destroy"
  have new: "ring_ok ?new" using assms by (intro ring_ok_new) (simp_all add: word_less_nat_alt)
  then have ok: "ring_ok (r us)" for us using ring.pushes_ok [of ?new us] by (simp add: r_def)
  show "ring_ok (r vs)" by (rule ok)
  have pos: "unat (gr_pos (r us)) = length us mod unat n" for us
    using pushes_pos [OF new, of us] by (simp add: g_ring_sized_new_def r_def)
  then show "unat (gr_pos (r vs)) = length vs mod unat n" .
  have "gr_len (r vs) = n \<and> gr_destroy (r vs) = destroy \<and> (gr_looped (r vs) \<longleftrightarrow> unat n \<le> length vs)"
  proof (induction vs rule: rev_induct)
    case Nil
    then show ?case using assms(1) by (simp add: r_def g_ring_sized_new_def)
  next
    case (snoc v vs)
    have "r (vs @ [v]) = ring_push v (r vs)" by (simp add: r_def)
    moreover have "unat n \<le> length vs \<or> unat n \<le> length vs mod unat n + 1 \<longleftrightarrow> unat n \<le> length vs + 1"
      by (cases "length vs < unat n") auto
    ultimately show ?case using snoc pos [of vs] by (simp add: ring_push_eq [OF ok])
  qed
  then show "gr_len (r vs) = n" "gr_destroy (r vs) = destroy" "gr_looped (r vs) \<longleftrightarrow> unat n \<le> length vs" by simp_all
  show "ring_value (r vs) i = (if i < length vs then rev vs ! i else zero)" if "i < unat n"
  proof (cases "i < length vs")
    case True
    then show ?thesis using ring.pushes_recent [OF new True] that by (simp add: g_ring_sized_new_def r_def)
  next
    case False
    have "ring_value ?new (i - length vs) = zero"
      using that by (simp add: ring_value_def g_ring_sized_new_def slot_def)
    then show ?thesis
      using ring.pushes_shift [OF new, of vs "i - length vs"] False that by (simp add: g_ring_sized_new_def r_def)
  qed
qed

lemma pushes_destroy:
  fixes n :: guint
  assumes "0 < unat n" "unat n < 2 ^ 31"
  shows "ring_pushes vs (g_ring_sized_new zero element_size n destroy) =
    Value (fold ring_push vs (g_ring_sized_new zero element_size n destroy),
      if destroy then take (length vs - unat n) vs else [])"
proof (induction vs rule: rev_induct)
  case (snoc v vs)
  let ?new = "g_ring_sized_new zero element_size n destroy"
  let ?r = "fold ring_push vs ?new"
  note state = pushed_state [where zero = zero and element_size = element_size and destroy = destroy, OF assms]
  have "ring_value ?r (unat n - 1) = vs ! (length vs - unat n)" if "unat n \<le> length vs"
  proof -
    have i: "unat n - 1 < unat n" "unat n - 1 < length vs" using that assms(1) by linarith+
    have "length vs - Suc (unat n - 1) = length vs - unat n" using assms(1) by linarith
    then show ?thesis using state(6) [where vs = vs, OF i(1)] i(2) by (simp add: rev_nth)
  qed
  moreover have "take (Suc (length vs) - unat n) vs = take (length vs - unat n) vs @ [vs ! (length vs - unat n)]"
    if "unat n \<le> length vs"
    using that assms(1) by (simp add: Suc_diff_le take_Suc_conv_app_nth)
  ultimately show ?case
    using pushes_append [OF state(1) [where vs = "[]", simplified] snoc, of v] append_one [OF state(1) [where vs = vs], where v = v] state(2,3,5) [where vs = vs] assms(1)
    by (auto simp: not_le)
qed simp

text \<open>
  C34: the ring keeps the values that were appended last. To a new ring whose length is positive and below $2^{31}$, values
  are appended with a call each: \<open>g_ring_get_index\<close> then gives the value of every age, and zero where there was none yet.
  The values that were overwritten, and no others, have been destroyed, each once and the oldest first, when a function
  for it was given. But \<open>g_ring_foreach\<close> reads outside the data whenever the number of values is a multiple of the length,
  as at the beginning.
\<close>

theorem ring_keeps_recent:
  fixes n :: guint
  assumes "0 < unat n" "unat n < 2 ^ 31"
  shows "\<exists>r. ring_pushes vs (g_ring_sized_new zero element_size n destroy) =
      Value (r, if destroy then take (length vs - unat n) vs else []) \<and>
    (\<forall>i < unat n. g_ring_get_index r (word_of_nat i) = Value (if i < length vs then rev vs ! i else zero)) \<and>
    g_ring_foreach r =
      (if length vs mod unat n = 0 then Fault
       else Value (map (\<lambda>i. if i < length vs then rev vs ! i else zero) [0..<unat n]))"
proof -
  let ?r = "fold ring_push vs (g_ring_sized_new zero element_size n destroy)"
  note state = pushed_state [where zero = zero and element_size = element_size and destroy = destroy and vs = vs, OF assms]
  have "g_ring_foreach ?r = (if length vs mod unat n = 0 then Fault else Value (map (ring_value ?r) [0..<unat n]))"
    using foreach_values [OF state(1)] state(2,4) by simp
  moreover have "map (ring_value ?r) [0..<unat n] = map (\<lambda>i. if i < length vs then rev vs ! i else zero) [0..<unat n]"
    using state(6) by simp
  moreover have "\<forall>i < unat n. g_ring_get_index ?r (word_of_nat i) = Value (if i < length vs then rev vs ! i else zero)"
    using get_index_value [OF state(1)] state(2,6) by simp
  ultimately show ?thesis by (intro exI [of _ ?r]) (simp only: pushes_destroy [OF assms] simp_thms)
qed

lemma ring_keeps_recent_witness:
  "\<exists>r. ring_pushes [2, 3, 4, 5, 6, 7 :: nat] (g_ring_sized_new 0 8 4 True) = Value (r, [2, 3]) \<and>
    g_ring_get_index r 0 = Value 7 \<and> g_ring_get_index r 3 = Value 4 \<and> g_ring_foreach r = Value [7, 6, 5, 4]"
proof -
  have four: "unat (4 :: guint) = 4" "[0..<4] = [0, 1, 2, 3 :: nat]" by (simp_all add: upt_rec)
  obtain r where r: "ring_pushes [2, 3, 4, 5, 6, 7 :: nat] (g_ring_sized_new 0 8 4 True) = Value (r, [2, 3])"
    "\<forall>i < 4. g_ring_get_index r (word_of_nat i) = Value (if i < 6 then rev [2, 3, 4, 5, 6, 7] ! i else 0)"
    "g_ring_foreach r = Value [7, 6, 5, 4]"
    using ring_keeps_recent [of 4 "[2, 3, 4, 5, 6, 7 :: nat]" 0 8 True] unfolding four by auto
  then show ?thesis using spec [OF r(2), of 0] spec [OF r(2), of 3] by auto
qed

text \<open>
  Values that are appended with one call go to one place: the last is kept, and it has the age of the first; the values
  after it are old ones.
\<close>

lemma ring_batch:
  assumes "ring_ok r" "vs \<noteq> []" "length vs \<le> unat (gr_len r)"
  shows "\<exists>r' d. g_ring_append_vals r vs = Value (r', d) \<and> gr_data r' = (gr_data r)[unat (gr_pos r) := last vs] \<and>
    gr_pos r' = word_of_nat ((unat (gr_pos r) + length vs) mod unat (gr_len r))"
proof -
  have "unat (gr_pos r) < unat (gr_len r)" using assms(1) by (simp add: ring_ok_def word_less_nat_alt)
  then show ?thesis
    using ring_puts_place [OF assms(1), of "unat (gr_pos r)" 0 vs] assms(2,3)
    by (auto simp: g_ring_append_vals_def)
qed

end
