(* ===== verification/Uber_Buffers.thy ===== *)
theory Uber_Buffers
  imports Ring_Buffers
begin

text \<open>
  cut-n-paste/uber-buffer.c: a circular buffer of doubles that can be resized. It keeps the contract of
  \<open>recent_values\<close> as long as its size stays as it is.
\<close>

section \<open>Operations\<close>

record uber_buffer =
  ub_buffer :: "gdouble_bits list"
  ub_len :: gint
  ub_pos :: gint
  ub_ref_count :: gint

definition minus_infinity :: gdouble_bits where
  "minus_infinity = 0xFFF0000000000000"

definition uber_buffer_clear_range :: "uber_buffer \<Rightarrow> gint \<Rightarrow> gint \<Rightarrow> uber_buffer outcome" where
  "uber_buffer_clear_range b begins ends =
     (if begins <s ends
      then if 0 <=s begins \<and> unat ends \<le> length (ub_buffer b)
           then Value (b\<lparr>ub_buffer := fold (\<lambda>i xs. xs[i := minus_infinity]) [unat begins..<unat ends] (ub_buffer b)\<rparr>)
           else Fault
      else Value b)"

text \<open>\<open>mem\<close>: what is in the memory that \<open>g_new\<close> gives.\<close>

definition uber_buffer_new :: "gdouble_bits list \<Rightarrow> uber_buffer outcome" where
  "uber_buffer_new mem =
     uber_buffer_clear_range \<lparr>ub_buffer = take 64 mem, ub_len = 64, ub_pos = 0, ub_ref_count = 1\<rparr> 0 64"

definition memmove :: "gint \<Rightarrow> gint \<Rightarrow> gint \<Rightarrow> uber_buffer \<Rightarrow> uber_buffer outcome" where
  "memmove dst src n b =
     (if unat src + unat n \<le> length (ub_buffer b) \<and> unat dst + unat n \<le> length (ub_buffer b)
      then Value (b\<lparr>ub_buffer := take (unat dst) (ub_buffer b) @ take (unat n) (drop (unat src) (ub_buffer b)) @
             drop (unat dst + unat n) (ub_buffer b)\<rparr>)
      else Fault)"

text \<open>\<open>mem\<close>: what is behind the old values after \<open>g_realloc_n\<close>.\<close>

definition buffer_realloc :: "gdouble_bits list \<Rightarrow> gint \<Rightarrow> uber_buffer \<Rightarrow> uber_buffer" where
  "buffer_realloc mem n b = b\<lparr>ub_buffer := take (unat n) (ub_buffer b @ mem)\<rparr>"

definition and_then :: "'a outcome \<Rightarrow> ('a \<Rightarrow> 'b outcome) \<Rightarrow> 'b outcome" where
  "and_then x f = (case x of Value v \<Rightarrow> f v | Failed \<Rightarrow> Failed | Fault \<Rightarrow> Fault)"

lemma and_then_simps [simp]: "and_then (Value v) f = f v" "and_then Fault f = Fault"
  by (simp_all add: and_then_def)

definition uber_buffer_set_size :: "gdouble_bits list \<Rightarrow> uber_buffer \<Rightarrow> gint \<Rightarrow> uber_buffer outcome" where
  "uber_buffer_set_size mem b n =
     (if \<not> 0 <s n then Value b
      else if n = ub_len b then Value b
      else if ub_len b <s n then
        and_then (uber_buffer_clear_range (buffer_realloc mem n b) (ub_len b) n) (\<lambda>b.
          let count = ub_len b - ub_pos b in
          and_then
            (if count \<noteq> 0 then
               and_then (memmove (n - count) (ub_pos b) count b) (\<lambda>b.
                 if ub_pos b <s n - count then uber_buffer_clear_range b 0 (n - count - ub_pos b) else Value b)
             else Value b)
            (\<lambda>b. Value (b\<lparr>ub_len := n\<rparr>)))
      else if ub_pos b <=s n then
        and_then (memmove (ub_pos b) n (ub_len b - n) b) (\<lambda>b. Value (buffer_realloc [] n b\<lparr>ub_len := n\<rparr>))
      else
        and_then (memmove 0 (ub_pos b - n) n b) (\<lambda>b. Value (buffer_realloc [] n b\<lparr>ub_pos := 0, ub_len := n\<rparr>)))"

definition uber_buffer_append :: "uber_buffer \<Rightarrow> gdouble_bits \<Rightarrow> uber_buffer outcome" where
  "uber_buffer_append b v =
     (if unat (ub_pos b) < length (ub_buffer b)
      then Value (b\<lparr>ub_buffer := (ub_buffer b)[unat (ub_pos b) := v],
             ub_pos := (if ub_len b <=s ub_pos b + 1 then 0 else ub_pos b + 1)\<rparr>)
      else Fault)"

definition uber_buffer_get_index :: "uber_buffer \<Rightarrow> gint \<Rightarrow> gdouble_bits outcome" where
  "uber_buffer_get_index b idx =
     (if idx <s ub_len b then
        (let k = (if idx <s ub_pos b then ub_pos b - idx - 1 else ub_len b - (idx - ub_pos b) - 1) in
           if unat k < length (ub_buffer b) then Value (ub_buffer b ! unat k) else Fault)
      else Value minus_infinity)"

text \<open>The values that the callback of \<open>uber_buffer_foreach\<close> gets, which ends the iteration when it returns TRUE.\<close>

fun each_of :: "(gdouble_bits \<Rightarrow> bool) \<Rightarrow> gdouble_bits list \<Rightarrow> nat list \<Rightarrow> gdouble_bits list \<times> bool" where
  "each_of f xs [] = ([], False)"
| "each_of f xs (i # is) =
     (if f (xs ! i) then ([xs ! i], True) else (let (ys, stopped) = each_of f xs is in (xs ! i # ys, stopped)))"

definition uber_buffer_foreach :: "uber_buffer \<Rightarrow> (gdouble_bits \<Rightarrow> bool) \<Rightarrow> gdouble_bits list" where
  "uber_buffer_foreach b f =
     (let (ys, stopped) = each_of f (ub_buffer b) (rev [0..<unat (ub_pos b)]) in
        if stopped then ys else ys @ fst (each_of f (ub_buffer b) (rev [unat (ub_pos b)..<unat (ub_len b)])))"

definition uber_buffer_ref :: "uber_buffer \<Rightarrow> uber_buffer option" where
  "uber_buffer_ref b = (if 0 <s ub_ref_count b then Some (b\<lparr>ub_ref_count := ub_ref_count b + 1\<rparr>) else None)"

definition uber_buffer_unref :: "uber_buffer \<Rightarrow> uber_buffer unref_result" where
  "uber_buffer_unref b =
     (if 0 <s ub_ref_count b
      then if ub_ref_count b - 1 = 0 then Freed else Kept (b\<lparr>ub_ref_count := ub_ref_count b - 1\<rparr>)
      else Kept b)"

interpretation buffer_count: refcounted ub_ref_count "\<lambda>c. ub_ref_count_update (\<lambda>_. c)" uber_buffer_ref uber_buffer_unref
  by unfold_locales (auto simp: uber_buffer_ref_def uber_buffer_unref_def count_up_def count_down_def count_dead_def)

section \<open>A buffer of one size\<close>

definition ub_ok :: "uber_buffer \<Rightarrow> bool" where
  "ub_ok b \<longleftrightarrow> length (ub_buffer b) = unat (ub_len b) \<and> unat (ub_pos b) < unat (ub_len b) \<and> unat (ub_len b) < 2 ^ 31"

definition ub_value :: "uber_buffer \<Rightarrow> nat \<Rightarrow> gdouble_bits" where
  "ub_value b i = ub_buffer b ! slot (unat (ub_len b)) (unat (ub_pos b)) i"

definition ub_push :: "gdouble_bits \<Rightarrow> uber_buffer \<Rightarrow> uber_buffer" where
  "ub_push v b = (case uber_buffer_append b v of Value b' \<Rightarrow> b' | _ \<Rightarrow> b)"

text \<open>Comparing and subtracting lengths.\<close>

lemma less_small: "unat a < 2 ^ 31 \<Longrightarrow> unat b < 2 ^ 31 \<Longrightarrow> a <s b \<longleftrightarrow> unat a < unat b" for a b :: gint
  using sint_word_of_nat [of "unat a"] sint_word_of_nat [of "unat b"] by (simp add: word_sless_alt flip: word_less_nat_alt word_less_def)

lemma le_small: "unat a < 2 ^ 31 \<Longrightarrow> unat b < 2 ^ 31 \<Longrightarrow> a <=s b \<longleftrightarrow> unat a \<le> unat b" for a b :: gint
  using sint_word_of_nat [of "unat a"] sint_word_of_nat [of "unat b"] by (simp add: word_sle_eq flip: word_le_nat_alt word_le_def)

lemma diff_small: "unat b \<le> unat a \<Longrightarrow> unat (a - b) = unat a - unat b" for a b :: gint
  by (simp add: unat_sub word_le_nat_alt)

lemma ub_push_eq:
  assumes "ub_ok b"
  shows "uber_buffer_append b v = Value (ub_push v b)"
    "ub_buffer (ub_push v b) = (ub_buffer b)[unat (ub_pos b) := v]" "ub_len (ub_push v b) = ub_len b"
    "unat (ub_pos (ub_push v b)) = (unat (ub_pos b) + 1) mod unat (ub_len b)"
proof -
  have p: "unat (ub_pos b) < unat (ub_len b)" "unat (ub_len b) < 2 ^ 31" using assms by (simp_all add: ub_ok_def)
  then have s: "unat (ub_pos b + 1) = unat (ub_pos b) + 1" by (simp add: unat_plus_if_size word_size)
  then have le: "ub_len b <=s ub_pos b + 1 \<longleftrightarrow> unat (ub_len b) \<le> unat (ub_pos b) + 1"
    using p le_small [of "ub_len b" "ub_pos b + 1"] by simp
  show "uber_buffer_append b v = Value (ub_push v b)"
    "ub_buffer (ub_push v b) = (ub_buffer b)[unat (ub_pos b) := v]" "ub_len (ub_push v b) = ub_len b"
    using assms by (simp_all add: ub_push_def uber_buffer_append_def ub_ok_def)
  show "unat (ub_pos (ub_push v b)) = (unat (ub_pos b) + 1) mod unat (ub_len b)"
    using assms p s le by (auto simp: ub_push_def uber_buffer_append_def ub_ok_def mod_if)
qed

interpretation buffer: recent_values ub_push ub_value "\<lambda>b. unat (ub_len b)" ub_ok
proof unfold_locales
  fix b v i
  assume b: "ub_ok b"
  then have p: "unat (ub_pos b) < unat (ub_len b)" by (simp add: ub_ok_def)
  show "unat (ub_len (ub_push v b)) = unat (ub_len b)" by (simp add: ub_push_eq [OF b])
  have "(unat (ub_pos b) + 1) mod unat (ub_len b) < unat (ub_len b)" using p by (intro mod_less_divisor) simp
  then show "ub_ok (ub_push v b)" using b ub_push_eq [OF b, of v] by (simp add: ub_ok_def)
  show "ub_value (ub_push v b) 0 = v"
    using slot_next(1) [OF p] b ub_push_eq [OF b, of v] by (simp add: ub_value_def ub_ok_def)
  show "Suc i < unat (ub_len b) \<Longrightarrow> ub_value (ub_push v b) (Suc i) = ub_value b i"
    using slot_next(2,3) [OF p, of i] ub_push_eq [OF b, of v] by (simp add: ub_value_def)
qed

lemma each_of_never: "each_of (\<lambda>_. False) xs is = (map ((!) xs) is, False)"
  by (induction "is") simp_all

text \<open>Looking up and iterating follow the contract.\<close>

lemma buffer_lookup:
  assumes "ub_ok b" "i < unat (ub_len b)"
  shows "uber_buffer_get_index b (word_of_nat i) = Value (ub_value b i)"
proof -
  have p: "unat (ub_pos b) < unat (ub_len b)" and n: "length (ub_buffer b) = unat (ub_len b)" "unat (ub_len b) < 2 ^ 31"
    using assms(1) by (simp_all add: ub_ok_def)
  have i: "unat (word_of_nat i :: gint) = i" using assms(2) n by (intro unat_word_of_nat) simp
  have less: "(word_of_nat i :: gint) <s ub_len b" "(word_of_nat i :: gint) <s ub_pos b \<longleftrightarrow> i < unat (ub_pos b)"
    using less_small [of "word_of_nat i" "ub_len b"] less_small [of "word_of_nat i" "ub_pos b"] i p n assms(2) by simp_all
  show ?thesis
  proof (cases "i < unat (ub_pos b)")
    case True
    then have "unat (ub_pos b - word_of_nat i - 1) = unat (ub_pos b) - i - 1"
      using diff_small [of "word_of_nat i" "ub_pos b"] diff_small [of 1 "ub_pos b - word_of_nat i"] i by simp
    then show ?thesis using True less p n by (simp add: uber_buffer_get_index_def ub_value_def slot_def)
  next
    case False
    then have d: "unat (word_of_nat i - ub_pos b) = i - unat (ub_pos b)"
      using diff_small [of "ub_pos b" "word_of_nat i"] i by simp
    then have "unat (ub_len b - (word_of_nat i - ub_pos b)) = unat (ub_len b) - (i - unat (ub_pos b))"
      using diff_small [of "word_of_nat i - ub_pos b" "ub_len b"] assms(2) by simp
    then have "unat (ub_len b - (word_of_nat i - ub_pos b) - 1) = slot (unat (ub_len b)) (unat (ub_pos b)) i"
      using diff_small [of 1 "ub_len b - (word_of_nat i - ub_pos b)"] assms(2) False p by (simp add: slot_def)
    then show ?thesis using False less n slot_next(4) [OF p assms(2)]
      by (simp add: uber_buffer_get_index_def ub_value_def)
  qed
qed

lemma buffer_foreach:
  "ub_ok b \<Longrightarrow> uber_buffer_foreach b (\<lambda>_. False) = map (ub_value b) [0..<unat (ub_len b)]"
  using values_by_age [of "unat (ub_pos b)" "unat (ub_len b)" "ub_buffer b"]
  by (simp add: uber_buffer_foreach_def each_of_never ub_ok_def ub_value_def [abs_def])

section \<open>Resizing\<close>

lemma clear_fold:
  "length (fold (\<lambda>i xs. xs[i := c]) [a..<b] xs) = length xs"
  "k < length xs \<Longrightarrow> fold (\<lambda>i xs. xs[i := c]) [a..<b] xs ! k = (if a \<le> k \<and> k < b then c else xs ! k)"
  by (induction b) (auto simp: nth_list_update less_Suc_eq)

lemma clear_small:
  assumes "unat a < 2 ^ 31" "unat e < 2 ^ 31" "unat e \<le> length (ub_buffer b)"
  shows "\<exists>xs. uber_buffer_clear_range b a e = Value (b\<lparr>ub_buffer := xs\<rparr>) \<and> length xs = length (ub_buffer b) \<and>
    (\<forall>k < length xs. xs ! k = (if unat a \<le> k \<and> k < unat e then minus_infinity else ub_buffer b ! k))"
proof (cases "unat a < unat e")
  case True
  then show ?thesis
    using assms less_small [of a e] small_signed [of a] by (auto simp: uber_buffer_clear_range_def clear_fold)
next
  case False
  then have "uber_buffer_clear_range b a e = Value (b\<lparr>ub_buffer := ub_buffer b\<rparr>)"
    using assms less_small [of a e] by (simp add: uber_buffer_clear_range_def)
  then show ?thesis using False by (intro exI [of _ "ub_buffer b"]) auto
qed

lemma buffer_cut:
  assumes "ub_ok b" "0 < unat n" "unat n < unat (ub_pos b)"
  shows "\<exists>b'. uber_buffer_set_size mem b n = Value b' \<and> ub_ok b' \<and> ub_len b' = n \<and>
    (\<forall>i < unat n. ub_value b' i = ub_value b i)"
proof -
  have p: "unat (ub_pos b) < unat (ub_len b)" and l: "length (ub_buffer b) = unat (ub_len b)" "unat (ub_len b) < 2 ^ 31"
    using assms(1) by (simp_all add: ub_ok_def)
  have c: "0 <s n" "n \<noteq> ub_len b" "\<not> ub_len b <s n" "\<not> ub_pos b <=s n" "unat (ub_pos b - n) = unat (ub_pos b) - unat n"
    using less_small [of 0 n] less_small [of "ub_len b" n] le_small [of "ub_pos b" n] diff_small [of n "ub_pos b"]
      assms(2,3) p l by auto
  let ?xs = "take (unat n) (drop (unat (ub_pos b) - unat n) (ub_buffer b))"
  let ?b = "b\<lparr>ub_buffer := ?xs, ub_pos := 0, ub_len := n\<rparr>"
  have "uber_buffer_set_size mem b n = Value ?b"
    using c p l assms(3) by (simp add: uber_buffer_set_size_def memmove_def buffer_realloc_def)
  moreover have "ub_ok ?b" using assms(2,3) p l by (simp add: ub_ok_def)
  moreover have "ub_value ?b i = ub_value b i" if "i < unat n" for i
    using that assms(3) p l by (simp add: ub_value_def slot_def)
  ultimately show ?thesis by (intro exI [of _ ?b]) simp
qed

lemma buffer_cut_at_position:
  assumes "ub_ok b" "0 < unat (ub_pos b)"
  shows "\<exists>b'. uber_buffer_set_size mem b (ub_pos b) = Value b' \<and> uber_buffer_append b' v = Fault"
proof -
  have p: "unat (ub_pos b) < unat (ub_len b)" and l: "length (ub_buffer b) = unat (ub_len b)" "unat (ub_len b) < 2 ^ 31"
    using assms(1) by (simp_all add: ub_ok_def)
  have c: "0 <s ub_pos b" "ub_pos b \<noteq> ub_len b" "\<not> ub_len b <s ub_pos b" "ub_pos b <=s ub_pos b"
    "unat (ub_len b - ub_pos b) = unat (ub_len b) - unat (ub_pos b)"
    using less_small [of 0 "ub_pos b"] less_small [of "ub_len b" "ub_pos b"] le_small [of "ub_pos b" "ub_pos b"]
      diff_small [of "ub_pos b" "ub_len b"] assms(2) p l by auto
  then show ?thesis
    using p l by (simp add: uber_buffer_set_size_def memmove_def buffer_realloc_def uber_buffer_append_def)
qed

lemma buffer_grow:
  assumes "ub_ok b" "unat (ub_len b) < unat n" "unat n < 2 ^ 31" "unat n \<le> unat (ub_len b) + length mem"
  shows "\<exists>b'. uber_buffer_set_size mem b n = Value b' \<and> ub_ok b' \<and> ub_len b' = n \<and>
    (\<forall>i < unat (ub_len b). ub_value b' i =
      (if i < unat (ub_pos b) \<and> unat (ub_pos b) - 1 - i < unat n - unat (ub_len b) then minus_infinity else ub_value b i))"
proof -
  let ?p = "unat (ub_pos b)" and ?l = "unat (ub_len b)" and ?n = "unat n"
  have p: "?p < ?l" and l: "length (ub_buffer b) = ?l" "?l < 2 ^ 31" using assms(1) by (simp_all add: ub_ok_def)
  let ?count = "ub_len b - ub_pos b"
  have count: "unat ?count = ?l - ?p" "unat (n - ?count) = ?n - (?l - ?p)" "unat (n - ?count - ub_pos b) = ?n - ?l"
    using diff_small [of "ub_pos b" "ub_len b"] diff_small [of ?count n] diff_small [of "ub_pos b" "n - ?count"] assms(2) p
    by simp_all
  have c: "0 <s n" "n \<noteq> ub_len b" "ub_len b <s n" "?count \<noteq> 0" "ub_pos b <s n - ?count"
    using less_small [of 0 n] less_small [of "ub_len b" n] less_small [of "ub_pos b" "n - ?count"] count assms(2,3) p l
    by auto
  let ?b0 = "buffer_realloc mem n b"
  have b0: "length (ub_buffer ?b0) = ?n" "\<forall>k < ?l. ub_buffer ?b0 ! k = ub_buffer b ! k"
    using assms(2,4) l by (simp_all add: buffer_realloc_def nth_append)
  obtain xs where xs: "uber_buffer_clear_range ?b0 (ub_len b) n = Value (?b0\<lparr>ub_buffer := xs\<rparr>)" "length xs = ?n"
    "\<forall>k < ?n. xs ! k = (if ?l \<le> k \<and> k < ?n then minus_infinity else ub_buffer ?b0 ! k)"
    using clear_small [of "ub_len b" n ?b0] b0(1) l assms(3) by auto
  let ?ys = "take (?n - (?l - ?p)) xs @ take (?l - ?p) (drop ?p xs) @ drop (?n - (?l - ?p) + (?l - ?p)) xs"
  let ?b2 = "?b0\<lparr>ub_buffer := ?ys\<rparr>"
  have move: "memmove (n - ?count) (ub_pos b) ?count (?b0\<lparr>ub_buffer := xs\<rparr>) = Value ?b2"
    using xs(2) count p assms(2) by (simp add: memmove_def)
  have ys: "length ?ys = ?n" using xs(2) p assms(2) by simp
  obtain zs where zs: "uber_buffer_clear_range ?b2 0 (n - ?count - ub_pos b) = Value (?b2\<lparr>ub_buffer := zs\<rparr>)" "length zs = ?n"
    "\<forall>k < ?n. zs ! k = (if k < ?n - ?l then minus_infinity else ?ys ! k)"
    using clear_small [of 0 "n - ?count - ub_pos b" ?b2] ys count(3) assms(3) by auto
  let ?b' = "b\<lparr>ub_buffer := zs, ub_len := n\<rparr>"
  have "uber_buffer_set_size mem b n = Value ?b'"
    using c xs(1) move zs(1) by (simp add: uber_buffer_set_size_def buffer_realloc_def)
  moreover have "ub_ok ?b'" using zs(2) p assms(2,3) by (simp add: ub_ok_def)
  moreover have "ub_value ?b' i = (if i < ?p \<and> ?p - 1 - i < ?n - ?l then minus_infinity else ub_value b i)" if "i < ?l" for i
  proof (cases "i < ?p")
    case True
    have k: "?p - 1 - i < ?n - (?l - ?p)" "?p - 1 - i < ?l" "\<not> ?l \<le> ?p - 1 - i" "?p - 1 - i < ?n"
      using True p assms(2) by linarith+
    then have "?ys ! (?p - 1 - i) = xs ! (?p - 1 - i)" using xs(2) by (subst nth_append) simp
    also have "\<dots> = ub_buffer b ! (?p - 1 - i)" using xs(3) b0(2) k by simp
    finally have "?ys ! (?p - 1 - i) = ub_buffer b ! (?p - 1 - i)" .
    then show ?thesis using True p assms(2) zs(3) by (simp add: ub_value_def slot_def)
  next
    case False
    have k: "\<not> ?n + ?p - 1 - i < ?n - (?l - ?p)" "?n + ?p - 1 - i - (?n - (?l - ?p)) < ?l - ?p"
      "?p + (?n + ?p - 1 - i - (?n - (?l - ?p))) = ?l + ?p - 1 - i"
      using False p assms(2) that by linarith+
    then have "?ys ! (?n + ?p - 1 - i) = drop ?p xs ! (?n + ?p - 1 - i - (?n - (?l - ?p)))"
      using xs(2) p assms(2) by (simp add: nth_append)
    also have "\<dots> = xs ! (?l + ?p - 1 - i)" using k(3) xs(2) p assms(2) by simp
    also have "\<dots> = ub_buffer b ! (?l + ?p - 1 - i)"
    proof -
      have "?l + ?p - 1 - i < ?l" "?l + ?p - 1 - i < ?n" using False p assms(2) that by linarith+
      then show ?thesis using xs(3) b0(2) by simp
    qed
    finally have ys: "?ys ! (?n + ?p - 1 - i) = ub_buffer b ! (?l + ?p - 1 - i)" .
    have "?n + ?p - 1 - i < ?n" "\<not> ?n + ?p - 1 - i < ?n - ?l" using False p assms(2) that by linarith+
    then have "zs ! (?n + ?p - 1 - i) = ub_buffer b ! (?l + ?p - 1 - i)" using zs(3) ys by simp
    then show ?thesis using False by (simp add: ub_value_def slot_def)
  qed
  ultimately show ?thesis by (intro exI [of _ ?b']) simp
qed

text \<open>
  What resizing does to the values that the buffer holds. A buffer that is cut to fewer values than its position keeps
  the newest; one that grows loses new ones: \<open>uber_buffer_set_size\<close> clears the beginning of the block instead of the
  gap. Cut to exactly its position, it is left with the position at its end, and the next value is written behind the
  block.
\<close>

theorem buffer_resized:
  assumes "ub_ok b" "0 < unat (ub_pos b)" "0 < unat m" "unat m < unat (ub_pos b)"
    and "unat (ub_len b) < unat n" "unat n < 2 ^ 31" "unat n \<le> unat (ub_len b) + length mem"
  shows "\<exists>cut grown at_pos. uber_buffer_set_size mem b m = Value cut \<and> uber_buffer_set_size mem b n = Value grown \<and>
    uber_buffer_set_size mem b (ub_pos b) = Value at_pos \<and>
    (\<forall>i < unat m. uber_buffer_get_index cut (word_of_nat i) = uber_buffer_get_index b (word_of_nat i)) \<and>
    (\<forall>i < unat (ub_len b). uber_buffer_get_index grown (word_of_nat i) =
      (if i < unat (ub_pos b) \<and> unat (ub_pos b) - 1 - i < unat n - unat (ub_len b) then Value minus_infinity
       else uber_buffer_get_index b (word_of_nat i))) \<and>
    uber_buffer_append at_pos v = Fault"
proof -
  have ok: "ub_ok b" and p: "unat (ub_pos b) < unat (ub_len b)" using assms(1) by (simp_all add: ub_ok_def)
  obtain cut where cut: "uber_buffer_set_size mem b m = Value cut" "ub_ok cut" "ub_len cut = m"
    "\<forall>i < unat m. ub_value cut i = ub_value b i"
    using buffer_cut [OF ok assms(3,4)] by blast
  obtain grown where grown: "uber_buffer_set_size mem b n = Value grown" "ub_ok grown" "ub_len grown = n"
    "\<forall>i < unat (ub_len b). ub_value grown i =
      (if i < unat (ub_pos b) \<and> unat (ub_pos b) - 1 - i < unat n - unat (ub_len b) then minus_infinity else ub_value b i)"
    using buffer_grow [OF ok assms(5-7)] by blast
  obtain at_pos where at_pos: "uber_buffer_set_size mem b (ub_pos b) = Value at_pos" "uber_buffer_append at_pos v = Fault"
    using buffer_cut_at_position [OF ok assms(2)] by blast
  have "\<forall>i < unat m. uber_buffer_get_index cut (word_of_nat i) = uber_buffer_get_index b (word_of_nat i)"
    using cut buffer_lookup [OF cut(2)] buffer_lookup [OF ok] assms(4) p by simp
  moreover have "\<forall>i < unat (ub_len b). uber_buffer_get_index grown (word_of_nat i) =
      (if i < unat (ub_pos b) \<and> unat (ub_pos b) - 1 - i < unat n - unat (ub_len b) then Value minus_infinity
       else uber_buffer_get_index b (word_of_nat i))"
    using grown buffer_lookup [OF grown(2)] buffer_lookup [OF ok] assms(5) by simp
  ultimately show ?thesis using cut(1) grown(1) at_pos by blast
qed

definition full_buffer :: uber_buffer where
  "full_buffer = \<lparr>ub_buffer = [1, 2, 3, 4], ub_len = 4, ub_pos = 2, ub_ref_count = 1\<rparr>"

lemma buffer_resized_witness:
  "\<exists>cut grown at_pos. uber_buffer_set_size [0, 0] full_buffer 1 = Value cut \<and>
    uber_buffer_set_size [0, 0] full_buffer 6 = Value grown \<and>
    uber_buffer_set_size [0, 0] full_buffer 2 = Value at_pos \<and>
    uber_buffer_get_index cut 0 = Value 2 \<and> uber_buffer_get_index full_buffer 0 = Value 2 \<and>
    uber_buffer_get_index grown 0 = Value minus_infinity \<and> uber_buffer_get_index grown 2 = Value 4 \<and>
    uber_buffer_append at_pos 5 = Fault"
proof -
  have looked: "uber_buffer_get_index full_buffer 0 = Value 2" "uber_buffer_get_index full_buffer 2 = Value 4"
    by (simp_all add: uber_buffer_get_index_def full_buffer_def word_sless_alt)
  have nats: "unat (1 :: gint) = 1" "unat (4 :: gint) = 4" "unat (6 :: gint) = 6" "unat (2 :: gint) = 2" by simp_all
  have all: "(\<forall>i < (1 :: nat). P i) = P 0" "(\<forall>i < (4 :: nat). P i) = (P 0 \<and> P 1 \<and> P 2 \<and> P 3)" for P
    by (auto simp: less_Suc_eq eval_nat_numeral)
  have "ub_ok full_buffer" "0 < unat (ub_pos full_buffer)" "0 < unat (1 :: gint)" "unat (1 :: gint) < unat (ub_pos full_buffer)"
    "unat (ub_len full_buffer) < unat (6 :: gint)" "unat (6 :: gint) < 2 ^ 31"
    "unat (6 :: gint) \<le> unat (ub_len full_buffer) + length [0, 0 :: gdouble_bits]" "ub_len full_buffer = 4" "ub_pos full_buffer = 2"
    by (simp_all add: ub_ok_def full_buffer_def)
  note sizes = this
  show ?thesis
    using buffer_resized [OF sizes(1-7), of 5] looked unfolding sizes(8,9) nats all by simp blast
qed

end
