(* ===== verification/Ppg_Model.thy ===== *)
theory Ppg_Model
  imports Pk_Sample Pk_Manifest Egg_Time
begin

text \<open>
  perfkit-profiler/ppg-model.c: the profiler's store of the manifests and samples of a source, with iterators over the
  samples and named, typed columns.
\<close>

section \<open>State\<close>

text \<open>A manifest is known by its address. The time of an iterator is kept exact; the code has the nearest double.\<close>

type_synonym model_manifest = "nat \<times> pk_manifest"

datatype model_type = PPG_MODEL_RAW | PPG_MODEL_COUNTER

text \<open>The functions that the program registers for a column: there is one, \<open>ppg_cpu_instrument_calc_cpu\<close>.\<close>

datatype value_func = Calc_Cpu

record mapping =
  mp_key :: gint
  mp_type :: model_type
  mp_name :: cstring
  mp_expected :: gtype
  mp_func :: "value_func option"

record ppg_model =
  md_stamp :: guint
  md_manifest :: "model_manifest option"
  md_sample_count :: guint
  md_manifests :: "model_manifest list"
  md_mappings :: "gint \<rightharpoonup> mapping"
  md_next_manifests :: "nat \<rightharpoonup> model_manifest"
  md_samples :: "pk_sample list"

record model_iter =
  it_stamp :: guint
  it_time :: timespec
  it_manifest :: model_manifest
  it_sample :: pk_sample
  it_index :: nat

text \<open>The type numbers, and the floating-point operations: \<open>-\<close> on both types, and \<open>x / y * 100.0\<close> of two integers.\<close>

record model_env =
  mo_gt :: gtypes
  mo_float_minus :: "gfloat_bits \<Rightarrow> gfloat_bits \<Rightarrow> gfloat_bits"
  mo_double_minus :: "gdouble_bits \<Rightarrow> gdouble_bits \<Rightarrow> gdouble_bits"
  mo_percent :: "gint \<Rightarrow> gint \<Rightarrow> gdouble_bits"

definition ppg_model_init :: "guint \<Rightarrow> ppg_model" where
  "ppg_model_init stamp =
     \<lparr>md_stamp = stamp, md_manifest = None, md_sample_count = 0, md_manifests = [], md_mappings = Map.empty,
      md_next_manifests = Map.empty, md_samples = []\<rparr>"

section \<open>Inserting\<close>

definition ppg_model_insert_manifest :: "ppg_model \<Rightarrow> model_manifest \<Rightarrow> ppg_model" where
  "ppg_model_insert_manifest md manifest =
     (let md = (case md_manifest md of
          None \<Rightarrow> md
        | Some current \<Rightarrow>
            if md_sample_count md \<noteq> 0
            then md\<lparr>md_next_manifests := (md_next_manifests md)(fst current \<mapsto> manifest)\<rparr> else md)
      in md\<lparr>md_manifest := Some manifest, md_sample_count := 0, md_manifests := md_manifests md @ [manifest]\<rparr>)"

text \<open>\<open>Failed\<close>: an assertion fails.\<close>

definition ppg_model_insert_sample :: "ppg_model \<Rightarrow> model_manifest \<Rightarrow> pk_sample \<Rightarrow> ppg_model outcome" where
  "ppg_model_insert_sample md manifest sample =
     (if map_option fst (md_manifest md) \<noteq> Some (fst manifest) then Failed
      else Value (md\<lparr>md_sample_count := md_sample_count md + 1, md_samples := md_samples md @ [sample]\<rparr>))"

definition ppg_model_add_mapping :: "ppg_model \<Rightarrow> gint \<Rightarrow> cstring \<Rightarrow> gtype \<Rightarrow> model_type \<Rightarrow> ppg_model" where
  "ppg_model_add_mapping md key field expected_type ty =
     md\<lparr>md_mappings := (md_mappings md)(key \<mapsto>
       \<lparr>mp_key = key, mp_type = ty, mp_name = field, mp_expected = expected_type, mp_func = None\<rparr>)\<rparr>"

definition ppg_model_add_mapping_func :: "ppg_model \<Rightarrow> gint \<Rightarrow> value_func \<Rightarrow> ppg_model" where
  "ppg_model_add_mapping_func md key func =
     md\<lparr>md_mappings := (md_mappings md)(key \<mapsto>
       \<lparr>mp_key = key, mp_type = PPG_MODEL_RAW, mp_name = [], mp_expected = 0, mp_func = Some func\<rparr>)\<rparr>"

section \<open>Iterating\<close>

text \<open>\<open>Fault\<close>: the first manifest is taken of an empty array.\<close>

definition ppg_model_make_relative :: "ppg_model \<Rightarrow> pk_sample \<Rightarrow> timespec outcome" where
  "ppg_model_make_relative md sample =
     (case md_manifests md of
        [] \<Rightarrow> Fault
      | m # _ \<Rightarrow> Value (timespec_subtract (pk_sample_get_timespec sample) (pk_manifest_get_timespec (snd m))))"

text \<open>None: there is no next sample, and the iterator stays as it is.\<close>

definition ppg_model_iter_next :: "ppg_model \<Rightarrow> model_iter \<Rightarrow> model_iter option outcome" where
  "ppg_model_iter_next md it =
     (if it_stamp it \<noteq> md_stamp md then Failed
      else
        (let idx = it_index it + 1 in
           if length (md_samples md) \<le> idx then Value None
           else
             (let sample = md_samples md ! idx in
                case ppg_model_make_relative md sample of
                  Value time \<Rightarrow>
                    (let it' = it\<lparr>it_index := idx, it_sample := sample, it_time := time\<rparr> in
                       case md_next_manifests md (fst (it_manifest it)) of
                         None \<Rightarrow> Value (Some it')
                       | Some next_manifest \<Rightarrow>
                           Value (Some
                             (if 0 \<le> timespec_compare (pk_sample_get_timespec sample)
                                  (pk_manifest_get_timespec (snd next_manifest))
                              then it'\<lparr>it_manifest := next_manifest\<rparr> else it')))
                | Failed \<Rightarrow> Failed
                | Fault \<Rightarrow> Fault)))"

definition ppg_model_get_iter_first :: "ppg_model \<Rightarrow> model_iter option outcome" where
  "ppg_model_get_iter_first md =
     (case (md_manifests md, md_samples md) of
        (m # _, s # _) \<Rightarrow>
          (case ppg_model_make_relative md s of
             Value time \<Rightarrow>
               Value (Some \<lparr>it_stamp = md_stamp md, it_time = time, it_manifest = m, it_sample = s, it_index = 0\<rparr>)
           | Failed \<Rightarrow> Failed
           | Fault \<Rightarrow> Fault)
      | _ \<Rightarrow> Value None)"

text \<open>Any other range than the whole gives no iterator. \<open>whole\<close>: both ends are 0.0.\<close>

definition ppg_model_get_iter_at :: "ppg_model \<Rightarrow> bool \<Rightarrow> model_iter option outcome" where
  "ppg_model_get_iter_at md whole = (if whole then ppg_model_get_iter_first md else Value None)"

section \<open>Values\<close>

text \<open>\<open>Failed\<close>: the types differ, or are none that can be subtracted.\<close>

fun g_value_subtract :: "model_env \<Rightarrow> g_value \<Rightarrow> g_value \<Rightarrow> g_value outcome" where
  "g_value_subtract e (V_INT x) (V_INT y) = Value (V_INT (x - y))"
| "g_value_subtract e (V_UINT x) (V_UINT y) = Value (V_UINT (x - y))"
| "g_value_subtract e (V_FLOAT x) (V_FLOAT y) = Value (V_FLOAT (mo_float_minus e x y))"
| "g_value_subtract e (V_DOUBLE x) (V_DOUBLE y) = Value (V_DOUBLE (mo_double_minus e x y))"
| "g_value_subtract e _ _ = Failed"

text \<open>A value of a type, as \<open>g_value_init\<close> leaves it; None: a type of which a sample has no values.\<close>

definition g_value_init :: "gtypes \<Rightarrow> gtype \<Rightarrow> g_value option" where
  "g_value_init gt ty =
     (if ty = gt G_TYPE_INT then Some (V_INT 0) else if ty = gt G_TYPE_UINT then Some (V_UINT 0)
      else if ty = gt G_TYPE_INT64 then Some (V_INT64 0) else if ty = gt G_TYPE_UINT64 then Some (V_UINT64 0)
      else if ty = gt G_TYPE_FLOAT then Some (V_FLOAT 0) else if ty = gt G_TYPE_DOUBLE then Some (V_DOUBLE 0)
      else None)"

text \<open>A column without a function. None: the value is left unset.\<close>

definition init_of_row :: "model_env \<Rightarrow> pk_manifest \<Rightarrow> gint \<Rightarrow> g_value option outcome" where
  "init_of_row e manifest row =
     (case pk_manifest_get_row_type (mo_gt e) manifest row of
        None \<Rightarrow> Fault | Some ty \<Rightarrow> Value (g_value_init (mo_gt e) ty))"

definition row_value :: "model_env \<Rightarrow> ppg_model \<Rightarrow> model_iter \<Rightarrow> mapping \<Rightarrow> g_value option outcome" where
  "row_value e md it mapping =
     (let manifest = snd (it_manifest it); row = pk_manifest_get_row_id manifest (mp_name mapping) in
        case (if mp_expected mapping \<noteq> 0
              then map_option (\<lambda>ty. ty = mp_expected mapping) (pk_manifest_get_row_type (mo_gt e) manifest row)
              else Some True) of
          None \<Rightarrow> Fault
        | Some False \<Rightarrow> Value None
        | Some True \<Rightarrow>
            if mp_type mapping = PPG_MODEL_COUNTER then
              if it_index it = 0 then Value (g_value_init (mo_gt e) (mp_expected mapping))
              else if length (md_samples md) \<le> it_index it - 1 then Fault
              else
                (case (pk_sample_get_value (md_samples md ! (it_index it - 1)) row,
                       pk_sample_get_value (it_sample it) row) of
                   (Some last_value, Some value) \<Rightarrow>
                     (case g_value_subtract e value last_value of
                        Value v \<Rightarrow> Value (Some v) | Failed \<Rightarrow> Failed | Fault \<Rightarrow> Fault)
                 | _ \<Rightarrow> init_of_row e manifest row)
            else
              (case pk_sample_get_value (it_sample it) row of
                 None \<Rightarrow> init_of_row e manifest row
               | Some value \<Rightarrow> Value (Some value)))"

text \<open>
  The columns that \<open>ppg_model_get\<close> is asked for, up to the first that is unknown; the values are read into variables of
  type int, which take the 32 bits of a value; a longer value does not fit. \<open>Fault\<close>: a variable that is used stays
  uninitialised, or something else is overwritten.
\<close>

fun lcopy_int :: "g_value \<Rightarrow> gint option" where
  "lcopy_int (V_INT i) = Some i"
| "lcopy_int (V_UINT u) = Some u"
| "lcopy_int (V_FLOAT f) = Some f"
| "lcopy_int _ = None"

fun get_ints :: "(gint \<Rightarrow> g_value option outcome option) \<Rightarrow> gint list \<Rightarrow> gint list outcome" where
  "get_ints value [] = Value []"
| "get_ints value (key # keys) =
     (case value key of
        Some (Value (Some v)) \<Rightarrow>
          (case lcopy_int v of
             None \<Rightarrow> Fault
           | Some i \<Rightarrow>
               (case get_ints value keys of Value is \<Rightarrow> Value (i # is) | Failed \<Rightarrow> Failed | Fault \<Rightarrow> Fault))
      | Some Failed \<Rightarrow> Failed
      | _ \<Rightarrow> Fault)"

text \<open>The columns of the instrument \<open>Cpu\<close>.\<close>

definition COLUMN_CPUNUM :: gint where "COLUMN_CPUNUM = 0"
definition COLUMN_USER :: gint where "COLUMN_USER = 1"
definition COLUMN_NICE :: gint where "COLUMN_NICE = 2"
definition COLUMN_SYSTEM :: gint where "COLUMN_SYSTEM = 3"
definition COLUMN_IDLE :: gint where "COLUMN_IDLE = 4"
definition COLUMN_COOKED :: gint where "COLUMN_COOKED = 5"

lemmas cpu_columns = COLUMN_CPUNUM_def COLUMN_USER_def COLUMN_NICE_def COLUMN_SYSTEM_def COLUMN_IDLE_def COLUMN_COOKED_def

definition ppg_cpu_instrument_calc_cpu ::
  "model_env \<Rightarrow> (gint \<Rightarrow> g_value option outcome option) \<Rightarrow> g_value option outcome" where
  "ppg_cpu_instrument_calc_cpu e value =
     (case get_ints value [COLUMN_USER, COLUMN_NICE, COLUMN_SYSTEM, COLUMN_IDLE] of
        Value [user, nice, system, idle] \<Rightarrow>
          Value (Some (V_DOUBLE (mo_percent e (user + nice + system) (user + nice + system + idle))))
      | Failed \<Rightarrow> Failed
      | _ \<Rightarrow> Fault)"

text \<open>A function may ask for other columns, and so on; \<open>depth\<close>: how deep the stack lets it.\<close>

fun mapping_get_value :: "nat \<Rightarrow> model_env \<Rightarrow> ppg_model \<Rightarrow> model_iter \<Rightarrow> mapping \<Rightarrow> g_value option outcome" where
  "mapping_get_value 0 e md it mapping = (if mp_func mapping = None then row_value e md it mapping else Fault)"
| "mapping_get_value (Suc depth) e md it mapping =
     (case mp_func mapping of
        None \<Rightarrow> row_value e md it mapping
      | Some Calc_Cpu \<Rightarrow>
          ppg_cpu_instrument_calc_cpu e
            (\<lambda>key. map_option (mapping_get_value depth e md it) (md_mappings md key)))"

definition ppg_model_get_value ::
  "nat \<Rightarrow> model_env \<Rightarrow> ppg_model \<Rightarrow> model_iter \<Rightarrow> gint \<Rightarrow> g_value option outcome" where
  "ppg_model_get_value depth e md it key =
     (if it_stamp it \<noteq> md_stamp md then Failed
      else (case md_mappings md key of None \<Rightarrow> Failed | Some mapping \<Rightarrow> mapping_get_value depth e md it mapping))"

section \<open>Drawing a line\<close>

text \<open>
  perfkit-profiler/ppg-line-visualizer.c: a line is drawn through the values of a column, of the first sample to the last;
  the points are the times and the values, before they are scaled. \<open>Failed\<close>: a value is not a number that can be drawn.
\<close>

lemma iter_next_index:
  assumes "ppg_model_iter_next md it = Value (Some it')"
  shows "it_index it' = it_index it + 1" "it_index it' < length (md_samples md)" "it_stamp it' = it_stamp it"
    "it_sample it' = md_samples md ! it_index it'"
  using assms by (auto simp: ppg_model_iter_next_def Let_def split: if_splits outcome.splits option.splits)

fun drawable :: "g_value \<Rightarrow> bool" where
  "drawable (V_DOUBLE d) = True"
| "drawable (V_INT i) = True"
| "drawable (V_UINT u) = True"
| "drawable _ = False"

function line_points ::
  "nat \<Rightarrow> model_env \<Rightarrow> ppg_model \<Rightarrow> gint \<Rightarrow> model_iter \<Rightarrow> (timespec \<times> g_value) list outcome" where
  "line_points depth e md key it =
     (case ppg_model_get_value depth e md it key of
        Value (Some v) \<Rightarrow>
          if \<not> drawable v then Failed
          else
            (case ppg_model_iter_next md it of
               Value None \<Rightarrow> Value [(it_time it, v)]
             | Value (Some it') \<Rightarrow>
                 (case line_points depth e md key it' of
                    Value ps \<Rightarrow> Value ((it_time it, v) # ps) | Failed \<Rightarrow> Failed | Fault \<Rightarrow> Fault)
             | Failed \<Rightarrow> Failed
             | Fault \<Rightarrow> Fault)
      | Value None \<Rightarrow> Failed
      | Failed \<Rightarrow> Failed
      | Fault \<Rightarrow> Fault)"
  by pat_completeness auto
termination
proof (relation "measure (\<lambda>(depth, e, md, key, it). length (md_samples md) - it_index it)", goal_cases)
  case (2 depth e md key it x v y it')
  then have "ppg_model_iter_next md it = Value (Some it')" by simp
  from iter_next_index(1,2) [OF this] show ?case by simp
qed simp

declare line_points.simps [simp del]

definition draw_line :: "nat \<Rightarrow> model_env \<Rightarrow> ppg_model \<Rightarrow> gint \<Rightarrow> (timespec \<times> g_value) list outcome" where
  "draw_line depth e md key =
     (case ppg_model_get_iter_first md of
        Value None \<Rightarrow> Value [] | Value (Some it) \<Rightarrow> line_points depth e md key it | Failed \<Rightarrow> Failed | Fault \<Rightarrow> Fault)"

end
