(* ===== verification/Ppg_Model_Properties.thy ===== *)
theory Ppg_Model_Properties
  imports Ppg_Model
begin

text \<open>
  What the iterators of the profiler's store see: every sample, with the manifest that it came with, unless a manifest came
  without a sample.
\<close>

section \<open>Feeding a model\<close>

text \<open>Manifests in the order in which they came, each with the samples that came before the next.\<close>

type_synonym feed = "(model_manifest \<times> pk_sample list) list"

definition insert_samples :: "model_manifest \<Rightarrow> pk_sample list \<Rightarrow> ppg_model \<Rightarrow> ppg_model outcome" where
  "insert_samples m ss md =
     foldl (\<lambda>r s. case r of Value md \<Rightarrow> ppg_model_insert_sample md m s | Failed \<Rightarrow> Failed | Fault \<Rightarrow> Fault) (Value md) ss"

fun feed_model :: "feed \<Rightarrow> ppg_model \<Rightarrow> ppg_model outcome" where
  "feed_model [] md = Value md"
| "feed_model ((m, ss) # f) md =
     (case insert_samples m ss (ppg_model_insert_manifest md m) of
        Value md \<Rightarrow> feed_model f md | Failed \<Rightarrow> Failed | Fault \<Rightarrow> Fault)"

lemma insert_samples_eq:
  assumes "md_manifest md = Some m" "unat (md_sample_count md) + length ss < 2 ^ 32"
  shows "insert_samples m ss md = Value (md\<lparr>md_sample_count := md_sample_count md + word_of_nat (length ss),
    md_samples := md_samples md @ ss\<rparr>)"
  using assms
proof (induction ss arbitrary: md)
  case (Cons s ss)
  let ?md = "md\<lparr>md_sample_count := md_sample_count md + 1, md_samples := md_samples md @ [s]\<rparr>"
  have "unat (md_sample_count md + 1) = unat (md_sample_count md) + 1"
    using Cons.prems(2) by (simp add: unat_plus_if_size word_size)
  then have "insert_samples m ss ?md = Value (?md\<lparr>md_sample_count := md_sample_count ?md + word_of_nat (length ss),
      md_samples := md_samples ?md @ ss\<rparr>)"
    using Cons.prems by (intro Cons.IH) simp_all
  moreover have "insert_samples m (s # ss) md = insert_samples m ss ?md"
    using Cons.prems(1) by (simp add: insert_samples_def ppg_model_insert_sample_def)
  ultimately show ?case by (simp add: ac_simps)
qed (simp add: insert_samples_def)

text \<open>
  What comes next after a manifest: the manifest that came when it had samples. \<open>cur\<close>: the current manifest, if there are
  samples of it.
\<close>

fun next_from :: "model_manifest option \<Rightarrow> feed \<Rightarrow> (nat \<rightharpoonup> model_manifest) \<Rightarrow> (nat \<rightharpoonup> model_manifest)" where
  "next_from cur [] nx = nx"
| "next_from cur ((m, ss) # f) nx =
     next_from (if ss = [] then None else Some m) f (case cur of None \<Rightarrow> nx | Some c \<Rightarrow> nx(fst c \<mapsto> m))"

definition flat :: "feed \<Rightarrow> (model_manifest \<times> pk_sample) list" where
  "flat f = concat (map (\<lambda>(m, ss). map (Pair m) ss) f)"

lemma flat_simps [simp]: "flat [] = []" "flat ((m, ss) # f) = map (Pair m) ss @ flat f"
  by (simp_all add: flat_def)

definition cur_of :: "ppg_model \<Rightarrow> model_manifest option" where
  "cur_of md = (if md_sample_count md \<noteq> 0 then md_manifest md else None)"

lemma feed_model_eq:
  assumes "\<forall>g \<in> set f. length (snd g) < 2 ^ 32"
  shows "\<exists>md'. feed_model f md = Value md' \<and> md_stamp md' = md_stamp md \<and> md_mappings md' = md_mappings md \<and>
    md_manifests md' = md_manifests md @ map fst f \<and> md_samples md' = md_samples md @ map snd (flat f) \<and>
    md_next_manifests md' = next_from (cur_of md) f (md_next_manifests md)"
  using assms
proof (induction f arbitrary: md)
  case (Cons g f)
  obtain m ss where g: "g = (m, ss)" by (cases g)
  let ?in = "ppg_model_insert_manifest md m"
  have ins: "md_manifest ?in = Some m" "md_sample_count ?in = 0" "md_stamp ?in = md_stamp md"
    "md_mappings ?in = md_mappings md" "md_manifests ?in = md_manifests md @ [m]" "md_samples ?in = md_samples md"
    "md_next_manifests ?in = (case cur_of md of None \<Rightarrow> md_next_manifests md | Some c \<Rightarrow> (md_next_manifests md)(fst c \<mapsto> m))"
    by (auto simp: ppg_model_insert_manifest_def Let_def cur_of_def split: option.split)
  let ?md = "?in\<lparr>md_sample_count := word_of_nat (length ss), md_samples := md_samples ?in @ ss\<rparr>"
  have len: "length ss < 2 ^ 32" using Cons.prems g by simp
  then have samples: "insert_samples m ss ?in = Value ?md"
    using insert_samples_eq [of ?in m ss] ins(1,2) by simp
  have "unat (word_of_nat (length ss) :: guint) = length ss" using len by (intro unat_word_of_nat) simp
  then have "word_of_nat (length ss) = (0 :: guint) \<longleftrightarrow> ss = []" by (metis length_0_conv unat_eq_zero)
  then have cur: "cur_of ?md = (if ss = [] then None else Some m)" using ins(1) by (simp add: cur_of_def)
  obtain md' where "feed_model f ?md = Value md'" "md_stamp md' = md_stamp ?md" "md_mappings md' = md_mappings ?md"
    "md_manifests md' = md_manifests ?md @ map fst f" "md_samples md' = md_samples ?md @ map snd (flat f)"
    "md_next_manifests md' = next_from (cur_of ?md) f (md_next_manifests ?md)"
    using Cons.IH [of ?md] Cons.prems by auto
  then show ?case using samples ins cur by (simp add: g comp_def)
qed simp

section \<open>The iterators\<close>

fun iter_at :: "ppg_model \<Rightarrow> nat \<Rightarrow> model_iter option outcome" where
  "iter_at md 0 = ppg_model_get_iter_first md"
| "iter_at md (Suc k) = (case iter_at md k of Value (Some it) \<Rightarrow> ppg_model_iter_next md it | r \<Rightarrow> r)"

definition before :: "pk_sample \<Rightarrow> model_manifest \<Rightarrow> bool" where
  "before s m \<longleftrightarrow> timespec_compare (pk_sample_get_timespec s) (pk_manifest_get_timespec (snd m)) < 0"

definition steps_well :: "(nat \<rightharpoonup> model_manifest) \<Rightarrow> model_manifest \<times> pk_sample \<Rightarrow> model_manifest \<times> pk_sample \<Rightarrow> bool" where
  "steps_well nx a b \<longleftrightarrow>
     (case nx (fst (fst a)) of
        None \<Rightarrow> fst b = fst a
      | Some n \<Rightarrow> fst b = (if before (snd b) n then fst a else n))"

lemma iter_next_steps:
  assumes "it_stamp it = md_stamp md" "md_manifests md \<noteq> []" "Suc (it_index it) < length (md_samples md)"
    and "steps_well (md_next_manifests md) (it_manifest it, s) (m, md_samples md ! Suc (it_index it))"
  shows "\<exists>it'. ppg_model_iter_next md it = Value (Some it') \<and> it_stamp it' = md_stamp md \<and> it_index it' = Suc (it_index it) \<and>
    it_manifest it' = m \<and> it_sample it' = md_samples md ! Suc (it_index it)"
  using assms
  by (auto simp: ppg_model_iter_next_def ppg_model_make_relative_def steps_well_def before_def Let_def not_less
      split: list.split option.splits if_splits)

text \<open>\<open>xs\<close>: the samples, with the manifests that the iterator shows.\<close>

lemma iterates:
  assumes "md_samples md = map snd xs" "xs \<noteq> []" "md_manifests md \<noteq> []" "fst (hd xs) = hd (md_manifests md)"
    and "successively (steps_well (md_next_manifests md)) xs" "k < length xs"
  shows "\<exists>it. iter_at md k = Value (Some it) \<and> it_stamp it = md_stamp md \<and> it_index it = k \<and>
    it_manifest it = fst (xs ! k) \<and> it_sample it = snd (xs ! k)"
  using assms(6)
proof (induction k)
  case 0
  obtain m ms where m: "md_manifests md = m # ms" using assms(3) by (cases "md_manifests md") auto
  obtain x xs' where x: "xs = x # xs'" using assms(2) by (cases xs) auto
  show ?case using assms(1,4) m x
    by (simp add: ppg_model_get_iter_first_def ppg_model_make_relative_def)
next
  case (Suc k)
  then obtain it where it: "iter_at md k = Value (Some it)" "it_stamp it = md_stamp md" "it_index it = k"
    "it_manifest it = fst (xs ! k)" "it_sample it = snd (xs ! k)" by auto
  have nth: "md_samples md ! Suc k = snd (xs ! Suc k)" using Suc.prems assms(1) by simp
  have "steps_well (md_next_manifests md) (xs ! k) (xs ! Suc k)"
    using assms(5) Suc.prems by (simp add: successively_conv_nth)
  then have "steps_well (md_next_manifests md) (it_manifest it, snd (xs ! k))
      (fst (xs ! Suc k), md_samples md ! Suc (it_index it))"
    using it nth by simp
  moreover have "Suc (it_index it) < length (md_samples md)" using Suc.prems assms(1) it(3) by simp
  ultimately show ?case using iter_next_steps [OF it(2) assms(3)] it(1,3) nth by fastforce
qed

lemma iterates_to_end:
  assumes "iter_at md k = Value (Some it)" "it_stamp it = md_stamp md" "length (md_samples md) = Suc (it_index it)"
  shows "iter_at md (Suc k) = Value None"
  using assms by (simp add: ppg_model_iter_next_def Let_def)

section \<open>Feeds in time\<close>

text \<open>The samples of a manifest are older than the next manifest, and those after it are not.\<close>

fun in_time :: "feed \<Rightarrow> bool" where
  "in_time ((m, ss) # (m', ss') # f) \<longleftrightarrow>
     (\<forall>s \<in> set ss. before s m') \<and> (\<forall>s \<in> set ss'. \<not> before s m') \<and> in_time ((m', ss') # f)"
| "in_time _ \<longleftrightarrow> True"

fun linked :: "(nat \<rightharpoonup> model_manifest) \<Rightarrow> feed \<Rightarrow> bool" where
  "linked nx [] \<longleftrightarrow> True"
| "linked nx [(m, ss)] \<longleftrightarrow> nx (fst m) = None"
| "linked nx ((m, ss) # (m', ss') # f) \<longleftrightarrow> nx (fst m) = Some m' \<and> linked nx ((m', ss') # f)"

lemma next_from_other:
  assumes "a \<notin> (fst \<circ> fst) ` set f" "\<And>c. cur = Some c \<Longrightarrow> fst c \<noteq> a"
  shows "next_from cur f nx a = nx a"
  using assms
proof (induction cur f nx rule: next_from.induct)
  case (2 cur m ss f nx)
  let ?nx = "case cur of None \<Rightarrow> nx | Some c \<Rightarrow> nx(fst c \<mapsto> m)"
  have "fst c \<noteq> a" if "(if ss = [] then None else Some m) = Some c" for c
    using 2 that by (auto split: if_splits)
  then have "next_from (if ss = [] then None else Some m) f ?nx a = ?nx a" using 2 by (intro "2.IH") auto
  moreover have "?nx a = nx a" using 2 by (cases cur) auto
  ultimately show ?case by simp
qed simp

lemma next_from_linked:
  assumes "distinct (map (fst \<circ> fst) f)" "\<forall>g \<in> set f. snd g \<noteq> []" "f \<noteq> []"
    and "\<And>c. cur = Some c \<Longrightarrow> fst c \<notin> (fst \<circ> fst) ` set f" "\<And>a. a \<in> (fst \<circ> fst) ` set f \<Longrightarrow> nx a = None"
  shows "linked (next_from cur f nx) f \<and> (\<forall>c. cur = Some c \<longrightarrow> next_from cur f nx (fst c) = Some (fst (hd f)))"
  using assms
proof (induction f arbitrary: cur nx)
  case (Cons g f)
  obtain m ss where g: "g = (m, ss)" by (cases g)
  let ?nx = "case cur of None \<Rightarrow> nx | Some c \<Rightarrow> nx(fst c \<mapsto> m)"
  have eq: "next_from cur (g # f) nx = next_from (Some m) f ?nx" using Cons.prems(2) by (simp add: g)
  have m: "fst m \<notin> (fst \<circ> fst) ` set f" using Cons.prems(1) by (simp add: g)
  have first: "next_from cur (g # f) nx (fst c) = Some m" if "cur = Some c" for c
    using Cons.prems(4) [OF that] that unfolding eq by (subst next_from_other) (auto simp: g)
  show ?case
  proof (cases f)
    case Nil
    have "?nx (fst m) = None" using Cons.prems(4,5) by (auto simp: g split: option.split)
    then show ?thesis using first Nil by (simp add: g)
  next
    case (Cons h f')
    have "?nx a = None" if "a \<in> (fst \<circ> fst) ` set f" for a
    proof (cases cur)
      case None
      then show ?thesis using Cons.prems(5) [of a] that by simp
    next
      case (Some c)
      then have "fst c \<noteq> a" using Cons.prems(4) [OF Some] that by auto
      then show ?thesis using Cons.prems(5) [of a] that Some by simp
    qed
    then have "linked (next_from (Some m) f ?nx) f \<and> next_from (Some m) f ?nx (fst m) = Some (fst (hd f))"
      using Cons.IH [of "Some m" ?nx] Cons.prems(1,2) m Cons by auto
    then show ?thesis using first Cons unfolding eq by (cases h) (simp add: g)
  qed
qed simp

lemma steps_in_group:
  assumes "\<And>n. nx (fst m) = Some n \<Longrightarrow> \<forall>s \<in> set ss. before s n"
  shows "successively (steps_well nx) (map (Pair m) ss)"
  using assms
  by (induction ss rule: induct_list012) (auto simp: steps_well_def split: option.split)

lemma steps_of_feed:
  assumes "linked nx f" "in_time f" "\<forall>g \<in> set f. snd g \<noteq> []"
  shows "successively (steps_well nx) (flat f)"
  using assms
proof (induction nx f rule: linked.induct)
  case (2 nx m ss)
  then show ?case by (auto intro: steps_in_group)
next
  case (3 nx m ss m' ss' f)
  then have rest: "successively (steps_well nx) (flat ((m', ss') # f))" by simp
  have "successively (steps_well nx) (map (Pair m) ss)" using 3 by (intro steps_in_group) simp
  moreover have "steps_well nx (last (map (Pair m) ss)) (hd (flat ((m', ss') # f)))"
    using 3 by (simp add: steps_well_def last_map hd_map)
  ultimately show ?case using rest by (simp add: successively_append_iff del: flat_simps(2)) (simp add: successively_append_iff)
qed simp

text \<open>
  C35: an iterator over the store of the profiler sees every sample, in the order in which they came, with the manifest that
  it came with, and then the end. The manifests must be in order with the samples in time, and each must have a sample.
\<close>

theorem model_iterates:
  assumes "f \<noteq> []" "distinct (map (fst \<circ> fst) f)" "\<forall>g \<in> set f. snd g \<noteq> [] \<and> length (snd g) < 2 ^ 32" "in_time f"
  shows "\<exists>md. feed_model f (ppg_model_init stamp) = Value md \<and>
    (\<forall>k < length (flat f). \<exists>it. iter_at md k = Value (Some it) \<and>
       it_manifest it = fst (flat f ! k) \<and> it_sample it = snd (flat f ! k)) \<and>
    iter_at md (length (flat f)) = Value None"
proof -
  obtain md where md: "feed_model f (ppg_model_init stamp) = Value md" "md_manifests md = map fst f"
    "md_samples md = map snd (flat f)" "md_next_manifests md = next_from None f Map.empty"
    using feed_model_eq [of f "ppg_model_init stamp"] assms(3) by (auto simp: ppg_model_init_def cur_of_def)
  obtain m ss f' where f: "f = (m, ss) # f'" "ss \<noteq> []" using assms(1,3) by (cases f) auto
  have "linked (md_next_manifests md) f"
    unfolding md(4) using next_from_linked [OF assms(2) _ assms(1), of None Map.empty] assms(3) by simp
  then have steps: "successively (steps_well (md_next_manifests md)) (flat f)"
    using assms(3,4) by (intro steps_of_feed) auto
  have some: "flat f \<noteq> []" "md_manifests md \<noteq> []" "fst (hd (flat f)) = hd (md_manifests md)"
    using f md(2) by (simp_all add: hd_map)
  note visit = iterates [OF md(3) some steps]
  obtain k where k: "length (flat f) = Suc k" using some(1) by (cases "length (flat f)") auto
  then obtain it where "iter_at md k = Value (Some it)" "it_stamp it = md_stamp md" "it_index it = k"
    using visit [of k] by auto
  then have "iter_at md (length (flat f)) = Value None"
    using iterates_to_end [of md k it] k md(3) by simp
  then show ?thesis using md(1) visit by blast
qed

definition example_manifest :: "nat \<Rightarrow> model_manifest" where
  "example_manifest t = (t, pk_manifest_new\<lparr>pk_ts := \<lparr>tv_sec = int t, tv_nsec = 0\<rparr>\<rparr>)"

definition example_sample_at :: "nat \<Rightarrow> pk_sample" where
  "example_sample_at t = pk_sample_new\<lparr>pks_ts := \<lparr>tv_sec = int t, tv_nsec = 0\<rparr>\<rparr>"

lemma fst_example [simp]: "fst (example_manifest t) = t"
  by (simp add: example_manifest_def)

lemma before_example: "before (example_sample_at s) (example_manifest m) \<longleftrightarrow> s < m"
  by (auto simp: before_def example_sample_at_def example_manifest_def pk_sample_get_timespec_def
      pk_manifest_get_timespec_def timespec_compare_def)

lemma model_iterates_witness:
  "\<exists>md. feed_model [(example_manifest 1, [example_sample_at 2, example_sample_at 3]), (example_manifest 4, [example_sample_at 5])]
      (ppg_model_init 7) = Value md \<and> iter_at md 3 = Value None \<and>
    (\<exists>it. iter_at md 2 = Value (Some it) \<and> it_manifest it = example_manifest 4 \<and> it_sample it = example_sample_at 5)"
proof -
  let ?f = "[(example_manifest 1, [example_sample_at 2, example_sample_at 3]), (example_manifest 4, [example_sample_at 5])]"
  have "distinct (map (fst \<circ> fst) ?f)" "in_time ?f" by (simp_all add: before_example)
  then obtain md where md: "feed_model ?f (ppg_model_init 7) = Value md"
    "\<forall>k < length (flat ?f). \<exists>it. iter_at md k = Value (Some it) \<and> it_manifest it = fst (flat ?f ! k) \<and>
      it_sample it = snd (flat ?f ! k)" "iter_at md (length (flat ?f)) = Value None"
    using model_iterates [of ?f 7] by auto
  then show ?thesis using spec [OF md(2), of 2] by (simp add: numeral_3_eq_3)
qed

text \<open>
  A manifest that comes without a sample stays in the way. The comment in \<open>ppg_model_iter_next\<close> says that such
  manifests are discarded: when the first manifest has no sample, every sample is shown with it, although all came with
  the second; and when a later one has none, the samples that came with the one after it are shown with the empty one.
\<close>

theorem model_keeps_empty_manifest:
  assumes "ss \<noteq> []" "length ss < 2 ^ 32" "fst m0 \<noteq> fst m1" "\<forall>s \<in> set ss. \<not> before s m1"
  shows "\<exists>md md'. feed_model [(m0, []), (m1, ss)] (ppg_model_init stamp) = Value md \<and>
    feed_model [(m0, [s0]), (m1, []), (m2, ss)] (ppg_model_init stamp) = Value md' \<and>
    (\<forall>k < length ss. \<exists>it. iter_at md k = Value (Some it) \<and> it_sample it = ss ! k \<and> it_manifest it = m0) \<and>
    (\<forall>k < length ss. \<exists>it. iter_at md' (Suc k) = Value (Some it) \<and> it_sample it = ss ! k \<and> it_manifest it = m1)"
proof -
  let ?f = "[(m0, []), (m1, ss)]" and ?f' = "[(m0, [s0]), (m1, []), (m2, ss)]"
  obtain md where md: "feed_model ?f (ppg_model_init stamp) = Value md" "md_manifests md = [m0, m1]" "md_samples md = ss"
    "md_next_manifests md = Map.empty"
    using feed_model_eq [of ?f "ppg_model_init stamp"] assms(2) by (auto simp: ppg_model_init_def cur_of_def comp_def)
  obtain md' where md': "feed_model ?f' (ppg_model_init stamp) = Value md'" "md_manifests md' = [m0, m1, m2]"
    "md_samples md' = s0 # ss" "md_next_manifests md' = [fst m0 \<mapsto> m1]"
    using feed_model_eq [of ?f' "ppg_model_init stamp"] assms(2) by (auto simp: ppg_model_init_def cur_of_def comp_def)
  have "successively (steps_well (md_next_manifests md)) (map (Pair m0) ss)"
    by (rule steps_in_group) (simp add: md(4))
  then have "\<exists>it. iter_at md k = Value (Some it) \<and> it_sample it = ss ! k \<and> it_manifest it = m0" if "k < length ss" for k
    using iterates [of md "map (Pair m0) ss" k] md(2,3) assms(1) that by (auto simp: comp_def hd_map)
  moreover have "successively (steps_well (md_next_manifests md')) ((m0, s0) # map (Pair m1) ss)"
  proof -
    have "successively (steps_well (md_next_manifests md')) (map (Pair m1) ss)"
      by (rule steps_in_group) (use assms(3) in \<open>simp add: md'(4)\<close>)
    moreover have "steps_well (md_next_manifests md') (m0, s0) (m1, hd ss)"
      using assms(1,4) by (simp add: md'(4) steps_well_def)
    ultimately show ?thesis using assms(1) by (cases ss) simp_all
  qed
  then have "\<exists>it. iter_at md' (Suc k) = Value (Some it) \<and> it_sample it = ss ! k \<and> it_manifest it = m1" if "k < length ss" for k
    using iterates [of md' "(m0, s0) # map (Pair m1) ss" "Suc k"] md'(2,3) that by (auto simp: comp_def)
  ultimately show ?thesis using md(1) md'(1) by blast
qed

lemma model_keeps_empty_manifest_witness:
  "\<exists>md md'. feed_model [(example_manifest 1, []), (example_manifest 2, [example_sample_at 3])] (ppg_model_init 7) = Value md \<and>
    feed_model [(example_manifest 1, [example_sample_at 1]), (example_manifest 2, []), (example_manifest 3, [example_sample_at 3])]
      (ppg_model_init 7) = Value md' \<and>
    (\<exists>it. iter_at md 0 = Value (Some it) \<and> it_sample it = example_sample_at 3 \<and> it_manifest it = example_manifest 1) \<and>
    (\<exists>it. iter_at md' 1 = Value (Some it) \<and> it_sample it = example_sample_at 3 \<and> it_manifest it = example_manifest 2)"
  using model_keeps_empty_manifest [of "[example_sample_at 3]" "example_manifest 1" "example_manifest 2" 7 "example_sample_at 1"
      "example_manifest 3"]
  by (simp add: before_example)

end
