(* ===== verification/Ppg_Session.thy ===== *)
theory Ppg_Session
  imports Library_Calls
begin

text \<open>
  perfkit-profiler/ppg-session.c, ppg-task.c, ppg-restart-task.c and ppg-edit-channel-task.c: the profiler's session,
  which steers one channel of the agent, and the tasks that restart the channel and set what it runs.
\<close>

section \<open>Timers\<close>

text \<open>
  The \<open>GTimer\<close> of GLib, as its documentation says; the clock is an argument. Starting or stopping one that does not exist is
  a warning.
\<close>

record g_timer =
  gt_start :: int
  gt_end :: int
  gt_active :: bool

definition g_timer_new :: "int \<Rightarrow> g_timer" where
  "g_timer_new now = \<lparr>gt_start = now, gt_end = 0, gt_active = True\<rparr>"

definition g_timer_start :: "int \<Rightarrow> g_timer option \<Rightarrow> g_timer option" where
  "g_timer_start now = map_option (\<lambda>t. t\<lparr>gt_active := True, gt_start := now\<rparr>)"

definition g_timer_stop :: "int \<Rightarrow> g_timer option \<Rightarrow> g_timer option" where
  "g_timer_stop now = map_option (\<lambda>t. t\<lparr>gt_active := False, gt_end := now\<rparr>)"

definition g_timer_elapsed :: "int \<Rightarrow> g_timer \<Rightarrow> int" where
  "g_timer_elapsed now t = (if gt_active t then now else gt_end t) - gt_start t"

section \<open>The session\<close>

datatype session_state = PPG_SESSION_STOPPED | PPG_SESSION_STARTED | PPG_SESSION_PAUSED

text \<open>The signals that are emitted: the name, and for an instrument its number.\<close>

datatype session_signal = READY | PAUSED | STARTED | STOPPED | UNPAUSED | INSTRUMENT_ADDED nat

text \<open>\<open>ss_position_handler\<close>: a timeout that tells of the position is installed.\<close>

record ppg_session =
  ss_conn :: "connection_class option"
  ss_channel :: gint
  ss_target :: "cstring option"
  ss_args :: "cstring list option"
  ss_env :: "cstring list option"
  ss_timer :: "g_timer option"
  ss_position_handler :: bool
  ss_state :: session_state
  ss_signals :: "session_signal list"

definition ppg_session_init :: ppg_session where
  "ppg_session_init =
     \<lparr>ss_conn = None, ss_channel = 0, ss_target = None, ss_args = None, ss_env = None, ss_timer = None,
      ss_position_handler = False, ss_state = PPG_SESSION_STOPPED, ss_signals = []\<rparr>"

definition emit_signal :: "session_signal \<Rightarrow> ppg_session \<Rightarrow> ppg_session" where
  "emit_signal x s = s\<lparr>ss_signals := ss_signals s @ [x]\<rparr>"

definition ppg_session_start_position_notifier :: "ppg_session \<Rightarrow> ppg_session" where
  "ppg_session_start_position_notifier s = s\<lparr>ss_position_handler := True\<rparr>"

definition ppg_session_stop_position_notifier :: "ppg_session \<Rightarrow> ppg_session" where
  "ppg_session_stop_position_notifier s =
     (if ss_position_handler s then s\<lparr>ss_position_handler := False\<rparr> else s)"

definition ppg_session_set_target :: "cstring option \<Rightarrow> ppg_session \<Rightarrow> ppg_session" where
  "ppg_session_set_target target s = s\<lparr>ss_target := target\<rparr>"

definition ppg_session_set_args :: "cstring list option \<Rightarrow> ppg_session \<Rightarrow> ppg_session" where
  "ppg_session_set_args args s = s\<lparr>ss_args := args\<rparr>"

definition ppg_session_set_env :: "cstring list option \<Rightarrow> ppg_session \<Rightarrow> ppg_session" where
  "ppg_session_set_env env s = s\<lparr>ss_env := env\<rparr>"

definition ppg_session_get_target :: "ppg_session \<Rightarrow> cstring option" where
  "ppg_session_get_target s = ss_target s"

definition ppg_session_get_position :: "int \<Rightarrow> ppg_session \<Rightarrow> int" where
  "ppg_session_get_position now s = (case ss_timer s of Some t \<Rightarrow> g_timer_elapsed now t | None \<Rightarrow> 0)"

definition ppg_session_get_state :: "ppg_session \<Rightarrow> session_state" where
  "ppg_session_get_state s = ss_state s"

definition ppg_session_add_instrument :: "nat \<Rightarrow> ppg_session \<Rightarrow> ppg_session" where
  "ppg_session_add_instrument instrument s = emit_signal (INSTRUMENT_ADDED instrument) s"

text \<open>The message of the error is logged; \<open>Fault\<close>: there is no error whose message could be.\<close>

definition ppg_session_report_error :: "'a finished \<Rightarrow> ppg_session \<Rightarrow> ppg_session outcome" where
  "ppg_session_report_error res s = (case res of Finish_Error _ \<Rightarrow> Value s | _ \<Rightarrow> Fault)"

text \<open>The callbacks of the requests, with the pending call that has its answer, and the time.\<close>

definition ppg_session_channel_stopped :: "int \<Rightarrow> pending_call \<Rightarrow> ppg_session \<Rightarrow> ppg_session outcome" where
  "ppg_session_channel_stopped now result s =
     (case pk_connection_channel_stop_finish (ss_conn s) result of
        Finish_True _ \<Rightarrow>
          Value (emit_signal STOPPED (ppg_session_stop_position_notifier
            (s\<lparr>ss_state := PPG_SESSION_STOPPED, ss_timer := g_timer_stop now (ss_timer s)\<rparr>)))
      | failed \<Rightarrow> ppg_session_report_error failed s)"

definition ppg_session_channel_started :: "int \<Rightarrow> pending_call \<Rightarrow> ppg_session \<Rightarrow> ppg_session outcome" where
  "ppg_session_channel_started now result s =
     (case pk_connection_channel_start_finish (ss_conn s) result of
        Finish_True _ \<Rightarrow>
          Value (emit_signal STARTED (ppg_session_start_position_notifier
            (s\<lparr>ss_state := PPG_SESSION_STARTED, ss_timer := Some (g_timer_new now)\<rparr>)))
      | failed \<Rightarrow> ppg_session_report_error failed s)"

definition ppg_session_channel_muted :: "int \<Rightarrow> pending_call \<Rightarrow> ppg_session \<Rightarrow> ppg_session outcome" where
  "ppg_session_channel_muted now result s =
     (case pk_connection_channel_mute_finish (ss_conn s) result of
        Finish_True _ \<Rightarrow>
          Value (emit_signal PAUSED (ppg_session_stop_position_notifier
            (s\<lparr>ss_state := PPG_SESSION_PAUSED, ss_timer := g_timer_stop now (ss_timer s)\<rparr>)))
      | failed \<Rightarrow> ppg_session_report_error failed s)"

definition ppg_session_channel_unmuted :: "int \<Rightarrow> pending_call \<Rightarrow> ppg_session \<Rightarrow> ppg_session outcome" where
  "ppg_session_channel_unmuted now result s =
     (case pk_connection_channel_unmute_finish (ss_conn s) result of
        Finish_True _ \<Rightarrow>
          Value (emit_signal UNPAUSED (ppg_session_start_position_notifier
            (s\<lparr>ss_state := PPG_SESSION_STARTED, ss_timer := g_timer_start now (ss_timer s)\<rparr>)))
      | failed \<Rightarrow> ppg_session_report_error failed s)"

text \<open>The number of the channel is written before the answer is looked at.\<close>

definition ppg_session_channel_added :: "pending_call \<Rightarrow> ppg_session \<Rightarrow> ppg_session outcome" where
  "ppg_session_channel_added result s =
     (case pk_connection_manager_add_channel_finish (ss_conn s) result of
        Finish_True channel \<Rightarrow> Value (emit_signal READY (s\<lparr>ss_channel := channel\<rparr>))
      | Finish_Error (Rpc e) \<Rightarrow> ppg_session_report_error (Finish_Error (Rpc e) :: gint finished) (s\<lparr>ss_channel := 0\<rparr>)
      | failed \<Rightarrow> ppg_session_report_error failed s)"

section \<open>Tasks\<close>

record ppg_task =
  tk_finished :: bool
  tk_error :: "connection_error option"

definition ppg_task_init :: ppg_task where
  "ppg_task_init = \<lparr>tk_finished = False, tk_error = None\<rparr>"

definition ppg_task_finish_with_error :: "connection_error option \<Rightarrow> 'a ppg_task_scheme \<Rightarrow> 'a ppg_task_scheme" where
  "ppg_task_finish_with_error err t = t\<lparr>tk_finished := True, tk_error := err\<rparr>"

definition ppg_task_finish :: "'a ppg_task_scheme \<Rightarrow> 'a ppg_task_scheme" where
  "ppg_task_finish t = t\<lparr>tk_finished := True\<rparr>"

definition ppg_task_is_error :: "'a ppg_task_scheme \<Rightarrow> bool" where
  "ppg_task_is_error t \<longleftrightarrow> tk_error t \<noteq> None"

definition ppg_task_get_error :: "'a ppg_task_scheme \<Rightarrow> connection_error option" where
  "ppg_task_get_error t = tk_error t"

text \<open>The task that sets what the channel runs.\<close>

record edit_task = ppg_task +
  ed_args :: "cstring list option"
  ed_env :: "cstring list option"
  ed_target :: "cstring option"
  ed_working_dir :: "cstring option"
  ed_target_done :: bool
  ed_args_done :: bool
  ed_env_done :: bool
  ed_dir_done :: bool

definition ppg_edit_channel_task_init :: edit_task where
  "ppg_edit_channel_task_init =
     \<lparr>tk_finished = False, tk_error = None, ed_args = None, ed_env = None, ed_target = None, ed_working_dir = None, ed_target_done = False,
      ed_args_done = False, ed_env_done = False, ed_dir_done = False\<rparr>"

definition ppg_edit_channel_task_set_target :: "cstring option \<Rightarrow> edit_task \<Rightarrow> edit_task" where
  "ppg_edit_channel_task_set_target target t = t\<lparr>ed_target := target\<rparr>"

definition ppg_edit_channel_task_set_working_dir :: "cstring option \<Rightarrow> edit_task \<Rightarrow> edit_task" where
  "ppg_edit_channel_task_set_working_dir working_dir t = t\<lparr>ed_working_dir := working_dir\<rparr>"

definition ppg_edit_channel_task_set_args :: "cstring list option \<Rightarrow> edit_task \<Rightarrow> edit_task" where
  "ppg_edit_channel_task_set_args args t = t\<lparr>ed_args := args\<rparr>"

definition ppg_edit_channel_task_set_env :: "cstring list option \<Rightarrow> edit_task \<Rightarrow> edit_task" where
  "ppg_edit_channel_task_set_env env t = t\<lparr>ed_env := env\<rparr>"

definition ppg_edit_channel_task_try_finish :: "edit_task \<Rightarrow> edit_task" where
  "ppg_edit_channel_task_try_finish t =
     (if ed_target_done t \<and> ed_args_done t \<and> ed_dir_done t \<and> ed_env_done t then ppg_task_finish t else t)"

definition finish_failed :: "'b finished \<Rightarrow> 'a ppg_task_scheme \<Rightarrow> 'a ppg_task_scheme" where
  "finish_failed res t =
     (case res of
        Finish_True _ \<Rightarrow> t
      | Finish_Error e \<Rightarrow> ppg_task_finish_with_error (Some e) t
      | Finish_Quiet \<Rightarrow> ppg_task_finish_with_error None t)"

definition ppg_edit_channel_task_target_set ::
  "connection_class option \<Rightarrow> pending_call \<Rightarrow> edit_task \<Rightarrow> edit_task" where
  "ppg_edit_channel_task_target_set conn result t =
     ppg_edit_channel_task_try_finish
       ((finish_failed (pk_connection_channel_set_target_finish conn result) t)\<lparr>ed_target_done := True\<rparr>)"

definition ppg_edit_channel_task_working_dir_set ::
  "connection_class option \<Rightarrow> pending_call \<Rightarrow> edit_task \<Rightarrow> edit_task" where
  "ppg_edit_channel_task_working_dir_set conn result t =
     ppg_edit_channel_task_try_finish
       ((finish_failed (pk_connection_channel_set_working_dir_finish conn result) t)\<lparr>ed_dir_done := True\<rparr>)"

definition ppg_edit_channel_task_args_set ::
  "connection_class option \<Rightarrow> pending_call \<Rightarrow> edit_task \<Rightarrow> edit_task" where
  "ppg_edit_channel_task_args_set conn result t =
     ppg_edit_channel_task_try_finish
       ((finish_failed (pk_connection_channel_set_args_finish conn result) t)\<lparr>ed_args_done := True\<rparr>)"

definition ppg_edit_channel_task_env_set ::
  "connection_class option \<Rightarrow> pending_call \<Rightarrow> edit_task \<Rightarrow> edit_task" where
  "ppg_edit_channel_task_env_set conn result t =
     ppg_edit_channel_task_try_finish
       ((finish_failed (pk_connection_channel_set_env_finish conn result) t)\<lparr>ed_env_done := True\<rparr>)"

section \<open>The main loop\<close>

text \<open>
  The callback that a request names, and what the main loop has to wait for: that the connection can be made, or the
  answer to a message. The agent has served the message when its answer, a pending call that is completed, has arrived;
  it serves the messages in their order, and the answers come in that order too.
\<close>

datatype profiler_callback =
    Channel_Added | Channel_Stopped | Channel_Started | Channel_Muted | Channel_Unmuted
  | Restart_Stopped | Restart_Started
  | Edit_Target_Set | Edit_Args_Set | Edit_Env_Set | Edit_Working_Dir_Set

datatype awaited = Connected | Answered profiler_callback dbus_message | Arrived profiler_callback pending_call

text \<open>The session with the client's connection, an edit task and a restart task.\<close>

record profiler =
  pf_session :: ppg_session
  pf_client :: "gint \<times> pk_connection"
  pf_awaited :: "awaited list"
  pf_edit :: edit_task
  pf_restart :: ppg_task

text \<open>\<open>Fault\<close>: the client dies while it sends. A message that the bus does not take is never answered.\<close>

definition send_request :: "dbus_link \<Rightarrow> profiler_callback \<Rightarrow> request \<Rightarrow> profiler \<Rightarrow> profiler outcome" where
  "send_request l callback r p =
     (case r of
        Requested m \<Rightarrow>
          Value (if lk_sends l then p\<lparr>pf_awaited := pf_awaited p @ [Answered callback m]\<rparr> else p)
      | Request_Crashed \<Rightarrow> Fault
      | Not_Requested \<Rightarrow> Value p)"

definition on_channel :: "(connection_class option \<Rightarrow> gint \<Rightarrow> profiler \<Rightarrow> profiler outcome) \<Rightarrow> profiler \<Rightarrow> profiler outcome" where
  "on_channel f p =
     (let s = pf_session p in
        if ss_conn s = None then Value p
        else if \<not> 0 <=s ss_channel s then Value p
        else f (ss_conn s) (ss_channel s) p)"

definition ppg_session_stop :: "dbus_link \<Rightarrow> profiler \<Rightarrow> profiler outcome" where
  "ppg_session_stop l =
     on_channel (\<lambda>conn channel. send_request l Channel_Stopped (pk_connection_channel_stop_async conn channel))"

definition ppg_session_start :: "dbus_link \<Rightarrow> profiler \<Rightarrow> profiler outcome" where
  "ppg_session_start l =
     on_channel (\<lambda>conn channel. send_request l Channel_Started (pk_connection_channel_start_async conn channel))"

definition ppg_session_pause :: "dbus_link \<Rightarrow> profiler \<Rightarrow> profiler outcome" where
  "ppg_session_pause l =
     on_channel (\<lambda>conn channel. send_request l Channel_Muted (pk_connection_channel_mute_async conn channel))"

definition ppg_session_unpause :: "dbus_link \<Rightarrow> profiler \<Rightarrow> profiler outcome" where
  "ppg_session_unpause l =
     on_channel (\<lambda>conn channel. send_request l Channel_Unmuted (pk_connection_channel_unmute_async conn channel))"

text \<open>\<open>class_of\<close>: the class of a type of connections that a plugin has registered.\<close>

definition ppg_session_set_uri ::
  "protocol_env \<Rightarrow> (gtype_id \<Rightarrow> connection_class) \<Rightarrow> cstring option \<Rightarrow>
     profiler \<times> (cstring \<rightharpoonup> 64 word) \<Rightarrow> profiler \<times> (cstring \<rightharpoonup> 64 word)" where
  "ppg_session_set_uri env class_of uri st =
     (case (st, uri) of
        ((p, types), Some uri) \<Rightarrow>
          if ss_conn (pf_session p) \<noteq> None then st
          else
            (case pk_connection_new_from_uri env uri types of
               (None, types) \<Rightarrow> (p, types)
             | (Some ty, types) \<Rightarrow>
                 (let p = p\<lparr>pf_session := (pf_session p)\<lparr>ss_conn := Some (class_of ty)\<rparr>\<rparr> in
                    (if pk_connection_connect_async (ss_conn (pf_session p)) = Absent then p
                     else p\<lparr>pf_awaited := pf_awaited p @ [Connected]\<rparr>, types)))
      | (_, None) \<Rightarrow> st)"

definition on_session :: "(ppg_session \<Rightarrow> ppg_session outcome) \<Rightarrow> profiler \<Rightarrow> profiler outcome" where
  "on_session f p =
     (case f (pf_session p) of Value s \<Rightarrow> Value (p\<lparr>pf_session := s\<rparr>) | Failed \<Rightarrow> Failed | Fault \<Rightarrow> Fault)"

definition ppg_session_connection_connected :: "dbus_link \<Rightarrow> connect_env \<Rightarrow> profiler \<Rightarrow> profiler outcome" where
  "ppg_session_connection_connected l env p =
     (case pk_connection_connect_finish (ss_conn (pf_session p)) env (fst (pf_client p)) (snd (pf_client p)) of
        (res, client) \<Rightarrow>
          (let p = p\<lparr>pf_client := client\<rparr> in
             case res of
               Finish_True _ \<Rightarrow>
                 send_request l Channel_Added (pk_connection_manager_add_channel_async (ss_conn (pf_session p))) p
             | failed \<Rightarrow> on_session (ppg_session_report_error failed) p))"

definition ppg_restart_task_run :: "dbus_link \<Rightarrow> profiler \<Rightarrow> profiler outcome" where
  "ppg_restart_task_run l p =
     (let s = pf_session p in
        send_request l Restart_Stopped (pk_connection_channel_stop_async (ss_conn s) (ss_channel s)) p)"

definition ppg_restart_task_channel_started :: "pending_call \<Rightarrow> profiler \<Rightarrow> profiler" where
  "ppg_restart_task_channel_started result p =
     (case pk_connection_channel_start_finish (ss_conn (pf_session p)) result of
        Finish_True _ \<Rightarrow> p\<lparr>pf_restart := ppg_task_finish (pf_restart p)\<rparr>
      | failed \<Rightarrow> p\<lparr>pf_restart := finish_failed failed (pf_restart p)\<rparr>)"

definition ppg_restart_task_channel_stopped :: "dbus_link \<Rightarrow> pending_call \<Rightarrow> profiler \<Rightarrow> profiler outcome" where
  "ppg_restart_task_channel_stopped l result p =
     (let s = pf_session p in
        case pk_connection_channel_stop_finish (ss_conn s) result of
          Finish_True _ \<Rightarrow> send_request l Restart_Started (pk_connection_channel_start_async (ss_conn s) (ss_channel s)) p
        | failed \<Rightarrow> Value (p\<lparr>pf_restart := finish_failed failed (pf_restart p)\<rparr>))"

text \<open>
  The requests of the edit task, in the order of the code; the fields of the session are set at once. For a working
  directory that is not given nothing is done.
\<close>

definition afterwards :: "(profiler \<Rightarrow> profiler outcome) \<Rightarrow> profiler outcome \<Rightarrow> profiler outcome" where
  "afterwards f r = (case r of Value p \<Rightarrow> f p | Failed \<Rightarrow> Failed | Fault \<Rightarrow> Fault)"

definition on_edit :: "(edit_task \<Rightarrow> edit_task) \<Rightarrow> profiler \<Rightarrow> profiler" where
  "on_edit f p = p\<lparr>pf_edit := f (pf_edit p)\<rparr>"

definition edit_args :: "dbus_link \<Rightarrow> profiler \<Rightarrow> profiler outcome" where
  "edit_args l p =
     (case ed_args (pf_edit p) of
        Some args \<Rightarrow>
          send_request l Edit_Args_Set
            (pk_connection_channel_set_args_async (ss_conn (pf_session p)) (ss_channel (pf_session p)) (Some args)) p
      | None \<Rightarrow> Value (on_edit (\<lambda>t. ppg_edit_channel_task_try_finish (t\<lparr>ed_args_done := True\<rparr>)) p))"

definition edit_env :: "dbus_link \<Rightarrow> profiler \<Rightarrow> profiler outcome" where
  "edit_env l p =
     (case ed_env (pf_edit p) of
        Some env \<Rightarrow>
          send_request l Edit_Env_Set
            (pk_connection_channel_set_env_async (ss_conn (pf_session p)) (ss_channel (pf_session p)) (Some env)) p
      | None \<Rightarrow> Value (on_edit (\<lambda>t. ppg_edit_channel_task_try_finish (t\<lparr>ed_env_done := True\<rparr>)) p))"

definition edit_working_dir :: "dbus_link \<Rightarrow> profiler \<Rightarrow> profiler outcome" where
  "edit_working_dir l p =
     (case ed_working_dir (pf_edit p) of
        Some dir \<Rightarrow>
          send_request l Edit_Working_Dir_Set
            (pk_connection_channel_set_working_dir_async (ss_conn (pf_session p)) (ss_channel (pf_session p)) (Some dir)) p
      | None \<Rightarrow> Value p)"

definition ppg_edit_channel_task_run :: "dbus_link \<Rightarrow> profiler \<Rightarrow> profiler outcome" where
  "ppg_edit_channel_task_run l p =
     (let conn = ss_conn (pf_session p); channel = ss_channel (pf_session p); t = pf_edit p in
        if conn = None \<or> channel <s 0 then Value (on_edit (ppg_task_finish_with_error None) p)
        else
          afterwards (\<lambda>p. Value (p\<lparr>pf_session := ppg_session_set_target (ed_target t)
              (ppg_session_set_env (ed_env t) (ppg_session_set_args (ed_args t) (pf_session p)))\<rparr>))
            (afterwards (edit_working_dir l) (afterwards (edit_env l) (afterwards (edit_args l)
              (send_request l Edit_Target_Set (pk_connection_channel_set_target_async conn channel (ed_target t)) p)))))"

text \<open>\<open>ppg_task_schedule\<close>, which runs a task at once: \<open>is_sync\<close>, with which it would not, is set nowhere.\<close>

definition ppg_task_schedule :: "(profiler \<Rightarrow> profiler outcome) option \<Rightarrow> profiler \<Rightarrow> profiler outcome" where
  "ppg_task_schedule run p = (case run of None \<Rightarrow> Value p | Some run \<Rightarrow> run p)"

fun run_callback ::
  "dbus_link \<Rightarrow> int \<Rightarrow> profiler_callback \<Rightarrow> pending_call \<Rightarrow> profiler \<Rightarrow> profiler outcome" where
  "run_callback l now Channel_Added result p = on_session (ppg_session_channel_added result) p"
| "run_callback l now Channel_Stopped result p = on_session (ppg_session_channel_stopped now result) p"
| "run_callback l now Channel_Started result p = on_session (ppg_session_channel_started now result) p"
| "run_callback l now Channel_Muted result p = on_session (ppg_session_channel_muted now result) p"
| "run_callback l now Channel_Unmuted result p = on_session (ppg_session_channel_unmuted now result) p"
| "run_callback l now Restart_Stopped result p = ppg_restart_task_channel_stopped l result p"
| "run_callback l now Restart_Started result p = Value (ppg_restart_task_channel_started result p)"
| "run_callback l now Edit_Target_Set result p =
     Value (on_edit (ppg_edit_channel_task_target_set (ss_conn (pf_session p)) result) p)"
| "run_callback l now Edit_Args_Set result p =
     Value (on_edit (ppg_edit_channel_task_args_set (ss_conn (pf_session p)) result) p)"
| "run_callback l now Edit_Env_Set result p =
     Value (on_edit (ppg_edit_channel_task_env_set (ss_conn (pf_session p)) result) p)"
| "run_callback l now Edit_Working_Dir_Set result p =
     Value (on_edit (ppg_edit_channel_task_working_dir_set (ss_conn (pf_session p)) result) p)"

type_synonym profiled = "profiler \<times> agent \<times> dbus_listener"

text \<open>
  The agent serves the oldest message that it has not served: the channel is changed, and the session has not heard of
  it yet.
\<close>

fun serve_oldest :: "dbus_link \<Rightarrow> awaited list \<Rightarrow> agent \<times> dbus_listener \<Rightarrow> awaited list \<times> agent \<times> dbus_listener" where
  "serve_oldest l [] st = ([], st)"
| "serve_oldest l (Answered callback m # rest) st =
     (case call l m id st of (result, st) \<Rightarrow> (Arrived callback result # rest, st))"
| "serve_oldest l (a # rest) st = (case serve_oldest l rest st of (rest, st) \<Rightarrow> (a # rest, st))"

definition agent_serves :: "dbus_link \<Rightarrow> profiled \<Rightarrow> profiled" where
  "agent_serves l x =
     (case x of (p, st) \<Rightarrow> case serve_oldest l (pf_awaited p) st of (awaited, st) \<Rightarrow> (p\<lparr>pf_awaited := awaited\<rparr>, st))"

text \<open>
  One turn of the client's main loop: the callback of the oldest request runs with its answer. When the answer has not
  arrived the loop waits until the agent has served the message.
\<close>

definition main_loop_turn :: "dbus_link \<Rightarrow> connect_env \<Rightarrow> int \<Rightarrow> profiled \<Rightarrow> profiled outcome" where
  "main_loop_turn l env now x =
     (case x of (p, st) \<Rightarrow>
        case pf_awaited p of
          [] \<Rightarrow> Value (p, st)
        | Connected # rest \<Rightarrow>
            (case ppg_session_connection_connected l env (p\<lparr>pf_awaited := rest\<rparr>) of
               Value p \<Rightarrow> Value (p, st) | Failed \<Rightarrow> Failed | Fault \<Rightarrow> Fault)
        | Answered callback m # rest \<Rightarrow>
            (case call l m (\<lambda>result. run_callback l now callback result (p\<lparr>pf_awaited := rest\<rparr>)) st of
               (Value p, st) \<Rightarrow> Value (p, st) | (Failed, _) \<Rightarrow> Failed | (Fault, _) \<Rightarrow> Fault)
        | Arrived callback result # rest \<Rightarrow>
            (case run_callback l now callback result (p\<lparr>pf_awaited := rest\<rparr>) of
               Value p \<Rightarrow> Value (p, st) | Failed \<Rightarrow> Failed | Fault \<Rightarrow> Fault))"

text \<open>
  What happens in a run of the profiler: the user's actions, messages that the agent serves, and turns of the client's
  main loop at a time. The end of a process, other clients of the channel and the task that restarts it are no actions.
\<close>

datatype profiler_action = Start | Stop | Pause | Unpause | Serve | Turn int

definition profiler_act :: "dbus_link \<Rightarrow> connect_env \<Rightarrow> profiler_action \<Rightarrow> profiled \<Rightarrow> profiled outcome" where
  "profiler_act l env a x =
     (let user = (\<lambda>f. case f (fst x) of Value p \<Rightarrow> Value (p, snd x) | Failed \<Rightarrow> Failed | Fault \<Rightarrow> Fault) in
        case a of
          Start \<Rightarrow> user (ppg_session_start l)
        | Stop \<Rightarrow> user (ppg_session_stop l)
        | Pause \<Rightarrow> user (ppg_session_pause l)
        | Unpause \<Rightarrow> user (ppg_session_unpause l)
        | Serve \<Rightarrow> Value (agent_serves l x)
        | Turn now \<Rightarrow> main_loop_turn l env now x)"

fun profiler_run :: "dbus_link \<Rightarrow> connect_env \<Rightarrow> profiler_action list \<Rightarrow> profiled \<Rightarrow> profiled outcome" where
  "profiler_run l env [] x = Value x"
| "profiler_run l env (a # as) x =
     (case profiler_act l env a x of Value x \<Rightarrow> profiler_run l env as x | Failed \<Rightarrow> Failed | Fault \<Rightarrow> Fault)"

end
