(* ===== verification/Ppg_Session_Properties.thy ===== *)
theory Ppg_Session_Properties
  imports Ppg_Session
begin

text \<open>What the session shows of the channel, the position it tells, and when the task that edits a channel ends.\<close>

section \<open>A turn of the main loop\<close>

text \<open>The answer of the agent to a request for the channel \<open>c\<close>, and what the callback makes of it.\<close>

lemma direct_on_channel:
  assumes "pka_manager_find_channel DEFAULT_CONTEXT i ag = Ok c" "f c (ag_world ag) = (r, w)"
  shows "direct l view (with_channel i (\<lambda>c. in_world (f c))) (ag, ld) = (outcome_of view r, ag\<lparr>ag_world := w\<rparr>, ld)"
  by (simp add: direct_def with_channel_def in_world_def assms take_notices_def)

lemma callback_called:
  assumes "\<And>result. run_callback l now callback result q = F (fin result)"
    and "call l m fin (ag, ld) = direct l id (with_channel i (\<lambda>c. in_world (f c))) (ag, ld)"
    and "pka_manager_find_channel DEFAULT_CONTEXT i ag = Ok c" "f c (ag_world ag) = (r, w)"
  shows "call l m (\<lambda>result. run_callback l now callback result q) (ag, ld) =
    (F (outcome_of id r), ag\<lparr>ag_world := w\<rparr>, ld)"
  by (simp add: assms(1) call_then assms(2) direct_on_channel [of i ag c f, OF assms(3,4)])

lemma finish_implemented:
  "implements n klass \<Longrightarrow> RPC_FINISH n (Some klass) finish result =
    (case finish result of Inl e \<Rightarrow> Finish_Error (Rpc e) | Inr x \<Rightarrow> Finish_True x)"
  by (simp add: RPC_FINISH_def implements_def)

lemma finish_dbus:
  "pk_connection_channel_stop_finish (Some dbus_class) result =
     (case pk_connection_dbus_channel_stop_finish result of Inl e \<Rightarrow> Finish_Error (Rpc e) | Inr x \<Rightarrow> Finish_True x)"
  "pk_connection_channel_start_finish (Some dbus_class) result =
     (case pk_connection_dbus_channel_start_finish result of Inl e \<Rightarrow> Finish_Error (Rpc e) | Inr x \<Rightarrow> Finish_True x)"
  "pk_connection_channel_mute_finish (Some dbus_class) result =
     (case pk_connection_dbus_channel_mute_finish result of Inl e \<Rightarrow> Finish_Error (Rpc e) | Inr x \<Rightarrow> Finish_True x)"
  "pk_connection_channel_unmute_finish (Some dbus_class) result =
     (case pk_connection_dbus_channel_unmute_finish result of Inl e \<Rightarrow> Finish_Error (Rpc e) | Inr x \<Rightarrow> Finish_True x)"
  "pk_connection_channel_set_target_finish (Some dbus_class) result =
     (case pk_connection_dbus_channel_set_target_finish result of Inl e \<Rightarrow> Finish_Error (Rpc e) | Inr x \<Rightarrow> Finish_True x)"
  "pk_connection_channel_set_args_finish (Some dbus_class) result =
     (case pk_connection_dbus_channel_set_args_finish result of Inl e \<Rightarrow> Finish_Error (Rpc e) | Inr x \<Rightarrow> Finish_True x)"
  "pk_connection_channel_set_env_finish (Some dbus_class) result =
     (case pk_connection_dbus_channel_set_env_finish result of Inl e \<Rightarrow> Finish_Error (Rpc e) | Inr x \<Rightarrow> Finish_True x)"
  "pk_connection_channel_set_working_dir_finish (Some dbus_class) result =
     (case pk_connection_dbus_channel_set_working_dir_finish result of
        Inl e \<Rightarrow> Finish_Error (Rpc e) | Inr x \<Rightarrow> Finish_True x)"
  by (simp_all only: pk_connection_channel_stop_finish_def pk_connection_channel_start_finish_def
      pk_connection_channel_mute_finish_def pk_connection_channel_unmute_finish_def
      pk_connection_channel_set_target_finish_def pk_connection_channel_set_args_finish_def
      pk_connection_channel_set_env_finish_def pk_connection_channel_set_working_dir_finish_def
      finish_implemented [OF overrides(13)] finish_implemented [OF overrides(14)] finish_implemented [OF overrides(15)]
      finish_implemented [OF overrides(18)] finish_implemented [OF overrides(19)] finish_implemented [OF overrides(20)]
      finish_implemented [OF overrides(21)] finish_implemented [OF overrides(22)])

section \<open>The state of the session\<close>

definition agrees :: "session_state \<Rightarrow> pka_channel_state \<Rightarrow> bool" where
  "agrees s x \<longleftrightarrow> (s = PPG_SESSION_STARTED \<longleftrightarrow> x = CHANNEL_RUNNING) \<and> (s = PPG_SESSION_PAUSED \<longleftrightarrow> x = CHANNEL_MUTED)"

text \<open>The requests of a session, and the procedures that serve them.\<close>

definition session_requests :: "gint \<Rightarrow> awaited set" where
  "session_requests i =
     {Answered Channel_Stopped (pk_connection_dbus_channel_stop_async i),
      Answered Channel_Started (pk_connection_dbus_channel_start_async i),
      Answered Channel_Muted (pk_connection_dbus_channel_mute_async i),
      Answered Channel_Unmuted (pk_connection_dbus_channel_unmute_async i)}"

text \<open>What the session has to wait for: answers that have arrived, and then requests that the agent has not served.\<close>

definition session_callbacks :: "profiler_callback set" where
  "session_callbacks = {Channel_Stopped, Channel_Started, Channel_Muted, Channel_Unmuted}"

fun in_order :: "gint \<Rightarrow> awaited list \<Rightarrow> bool" where
  "in_order i (Arrived callback _ # rest) \<longleftrightarrow> callback \<in> session_callbacks \<and> in_order i rest"
| "in_order i rest \<longleftrightarrow> set rest \<subseteq> session_requests i"

text \<open>A session that steers the channel \<open>c\<close> of the agent.\<close>

definition steers :: "gint \<Rightarrow> channel_ref \<Rightarrow> profiled \<Rightarrow> bool" where
  "steers i c x \<longleftrightarrow>
     (case x of (p, ag, ld) \<Rightarrow>
        ss_conn (pf_session p) = Some dbus_class \<and> ss_channel (pf_session p) = i \<and> 0 <=s i \<and>
        in_order i (pf_awaited p) \<and> ld_paths ld (channel_prefix @ fmt_int i) = Some Channel_VTable \<and>
        pka_manager_find_channel DEFAULT_CONTEXT i ag = Ok c)"

text \<open>The state that a session takes when it hears an answer.\<close>

fun finish_of :: "profiler_callback \<Rightarrow> pending_call \<Rightarrow> rpc_failure + unit" where
  "finish_of Channel_Stopped = pk_connection_dbus_channel_stop_finish"
| "finish_of Channel_Started = pk_connection_dbus_channel_start_finish"
| "finish_of Channel_Muted = pk_connection_dbus_channel_mute_finish"
| "finish_of Channel_Unmuted = pk_connection_dbus_channel_unmute_finish"
| "finish_of _ = (\<lambda>_. Inl Rpc_No_Result)"

fun target_state :: "profiler_callback \<Rightarrow> session_state \<Rightarrow> session_state" where
  "target_state Channel_Stopped s = PPG_SESSION_STOPPED"
| "target_state Channel_Started s = PPG_SESSION_STARTED"
| "target_state Channel_Muted s = PPG_SESSION_PAUSED"
| "target_state Channel_Unmuted s = PPG_SESSION_STARTED"
| "target_state _ s = s"

fun heard :: "awaited \<Rightarrow> session_state \<Rightarrow> session_state" where
  "heard (Arrived callback result) s =
     (case finish_of callback result of Inl _ \<Rightarrow> s | Inr _ \<Rightarrow> target_state callback s)"
| "heard _ s = s"

text \<open>The session agrees with the channel once it has heard the answers that have arrived; and it agrees now.\<close>

definition follows :: "channel_ref \<Rightarrow> profiled \<Rightarrow> bool" where
  "follows c x \<longleftrightarrow>
     (case x of (p, ag, ld) \<Rightarrow>
        agrees (fold heard (pf_awaited p) (ss_state (pf_session p))) (ch_state (w_channels (ag_world ag) c)))"

definition shown :: "channel_ref \<Rightarrow> profiled \<Rightarrow> bool" where
  "shown c x \<longleftrightarrow> (case x of (p, ag, ld) \<Rightarrow> agrees (ss_state (pf_session p)) (ch_state (w_channels (ag_world ag) c)))"

lemma find_same:
  assumes "pka_manager_find_channel DEFAULT_CONTEXT i ag = Ok c" "\<And>d. ch_id (w_channels w d) = ch_id (w_channels (ag_world ag) d)"
  shows "pka_manager_find_channel DEFAULT_CONTEXT i (ag\<lparr>ag_world := w\<rparr>) = Ok c"
  using assms by (simp add: pka_manager_find_channel_def pka_channel_get_id_def)

lemma channel_kill_frame: "w_channels (channel_kill c w) = w_channels w"
  by (simp add: channel_kill_def)

lemma session_stop_channels:
  "w_channels (snd (pka_channel_stop c ctx w)) =
    (if ch_state (w_channels w c) \<in> {CHANNEL_RUNNING, CHANNEL_MUTED}
     then (w_channels w)(c := (w_channels w c)\<lparr>ch_state := CHANNEL_STOPPED\<rparr>) else w_channels w)"
  "fst (pka_channel_stop c ctx w) = (if ch_state (w_channels w c) = CHANNEL_READY then Err CHANNEL_ERROR_STATE else Ok ())"
  by (simp_all add: pka_channel_stop_def channel_kill_frame world_simps split: pka_channel_state.split)

lemma session_mute_channels:
  "w_channels (snd (pka_channel_mute c ctx w)) =
    (if ch_state (w_channels w c) = CHANNEL_RUNNING
     then (w_channels w)(c := (w_channels w c)\<lparr>ch_state := CHANNEL_MUTED\<rparr>) else w_channels w)"
  "fst (pka_channel_mute c ctx w) =
    (if ch_state (w_channels w c) \<in> {CHANNEL_RUNNING, CHANNEL_MUTED} then Ok () else Err CHANNEL_ERROR_STATE)"
  by (simp_all add: pka_channel_mute_def world_simps split: pka_channel_state.split)

lemma session_unmute_channels:
  "w_channels (snd (pka_channel_unmute c ctx w)) =
    (if ch_state (w_channels w c) = CHANNEL_MUTED
     then (w_channels w)(c := (w_channels w c)\<lparr>ch_state := CHANNEL_RUNNING\<rparr>) else w_channels w)"
  "fst (pka_channel_unmute c ctx w) = (if ch_state (w_channels w c) = CHANNEL_MUTED then Ok () else Err CHANNEL_ERROR_STATE)"
  by (simp_all add: pka_channel_unmute_def world_simps split: pka_channel_state.split)

lemma session_reset_channels:
  "w_channels (reset_if_stopped c w) =
    (if ch_state (w_channels w c) = CHANNEL_STOPPED
     then (w_channels w)(c := (w_channels w c)\<lparr>ch_state := CHANNEL_READY\<rparr>) else w_channels w)"
  by (simp add: reset_if_stopped_def world_simps)

lemma spawn_channels:
  "ch_id (w_channels (snd (channel_spawn spawn tmp c info w)) d) = ch_id (w_channels w d)"
  "ch_state (w_channels (snd (channel_spawn spawn tmp c info w)) c) =
    (if fst (channel_spawn spawn tmp c info w) = None then CHANNEL_FAILED else ch_state (w_channels w c))"
  by (simp_all add: channel_spawn_def world_simps Let_def split: option.split)

text \<open>What starting comes to: refused, or tried.\<close>

lemma start_refused:
  assumes "ch_state (w_channels w c) \<notin> {CHANNEL_READY, CHANNEL_STOPPED}"
  shows "pka_channel_start spawn tmp c ctx w = (Err CHANNEL_ERROR_STATE, w)"
  using assms by (simp add: pka_channel_start_def channel_start_locked_def ensure_ready_def reset_if_stopped_def)

lemma start_tried:
  assumes "ch_state (w_channels w c) \<in> {CHANNEL_READY, CHANNEL_STOPPED}"
  shows "\<exists>r w'. pka_channel_start spawn tmp c ctx w = (r, w') \<and> (\<forall>d. ch_id (w_channels w' d) = ch_id (w_channels w d)) \<and>
    (if r = Ok () then ch_state (w_channels w' c) = CHANNEL_RUNNING
     else ch_state (w_channels w' c) \<in> {CHANNEL_READY, CHANNEL_FAILED})"
proof -
  let ?w = "reset_if_stopped c w"
  have w: "ch_state (w_channels ?w c) = CHANNEL_READY" "\<And>d. ch_id (w_channels ?w d) = ch_id (w_channels w d)"
    using assms by (auto simp: session_reset_channels)
  obtain ok info where init: "pka_channel_init_spawn_info_locked c ?w = (ok, info)" by fastforce
  obtain res w1 where spawned: "channel_spawn spawn tmp c info ?w = (res, w1)" by fastforce
  have w1: "\<And>d. ch_id (w_channels w1 d) = ch_id (w_channels w d)"
    "ch_state (w_channels w1 c) = (if res = None then CHANNEL_FAILED else CHANNEL_READY)"
    using spawn_channels [of spawn tmp c info ?w] w by (simp_all add: spawned)
  have start: "channel_start_locked spawn tmp c w =
      (if \<not> ok then (Err PLUGIN_CODE_ERROR, ?w)
       else case res of
         None \<Rightarrow> (Err SPAWN_ERROR, w1)
       | Some info \<Rightarrow> (Ok info, upd_channel c (\<lambda>x. x\<lparr>ch_state := CHANNEL_RUNNING\<rparr>) w1))"
    using w(1) by (simp add: channel_start_locked_def ensure_ready_def init spawned split: option.split)
  show ?thesis
  proof (cases "ok \<and> res \<noteq> None")
    case True
    then show ?thesis using w1 by (auto simp: pka_channel_start_def start world_simps)
  next
    case False
    then show ?thesis using w w1 by (cases ok; cases res) (simp_all add: pka_channel_start_def start)
  qed
qed

lemma session_calls:
  assumes "ld_paths ld (channel_prefix @ fmt_int i) = Some Channel_VTable"
  shows
    "call l (pk_connection_dbus_channel_stop_async i) pk_connection_dbus_channel_stop_finish (ag, ld) =
      direct l id (with_channel i (\<lambda>c. in_world (pka_channel_stop c DEFAULT_CONTEXT))) (ag, ld)"
    "call l (pk_connection_dbus_channel_start_async i) pk_connection_dbus_channel_start_finish (ag, ld) =
      direct l id (with_channel i (\<lambda>c. in_world (pka_channel_start (env_spawn (lk_env l)) (env_tmp (lk_env l)) c DEFAULT_CONTEXT)))
        (ag, ld)"
    "call l (pk_connection_dbus_channel_mute_async i) pk_connection_dbus_channel_mute_finish (ag, ld) =
      direct l id (with_channel i (\<lambda>c. in_world (pka_channel_mute c DEFAULT_CONTEXT))) (ag, ld)"
    "call l (pk_connection_dbus_channel_unmute_async i) pk_connection_dbus_channel_unmute_finish (ag, ld) =
      direct l id (with_channel i (\<lambda>c. in_world (pka_channel_unmute c DEFAULT_CONTEXT))) (ag, ld)"
    "call l (pk_connection_dbus_channel_set_target_async i target) pk_connection_dbus_channel_set_target_finish (ag, ld) =
      direct l id (with_channel i (\<lambda>c. in_world (pka_channel_set_target c DEFAULT_CONTEXT (Some (string_or_empty target)))))
        (ag, ld)"
    "call l (the (pk_connection_dbus_channel_set_args_async i (Some args))) pk_connection_dbus_channel_set_args_finish (ag, ld) =
      direct l id (with_channel i (\<lambda>c. in_world (pka_channel_set_args c DEFAULT_CONTEXT (Some args)))) (ag, ld)"
    "call l (the (pk_connection_dbus_channel_set_env_async i (Some env_vars))) pk_connection_dbus_channel_set_env_finish (ag, ld) =
      direct l id (with_channel i (\<lambda>c. in_world (pka_channel_set_env c DEFAULT_CONTEXT (Some env_vars)))) (ag, ld)"
    "call l (pk_connection_dbus_channel_set_working_dir_async i working_dir) pk_connection_dbus_channel_set_working_dir_finish
        (ag, ld) =
      direct l id (with_channel i (\<lambda>c. in_world (pka_channel_set_working_dir c DEFAULT_CONTEXT
        (Some (string_or_empty working_dir))))) (ag, ld)"
  using channel_calls_over_bus [OF assms, where l = l and ag = ag and source = 0 and args = args and env_vars = env_vars and
      kill_pid = False and pid = 0 and target = target and working_dir = working_dir]
  unfolding pka_listener_channel_stop_finish_def pka_listener_channel_start_finish_def
    pka_listener_channel_mute_finish_def pka_listener_channel_unmute_finish_def
    pka_listener_channel_stop_async_def pka_listener_channel_start_async_def
    pka_listener_channel_mute_async_def pka_listener_channel_unmute_async_def
    pka_listener_channel_set_target_finish_def pka_listener_channel_set_target_async_def
    pka_listener_channel_set_args_finish_def pka_listener_channel_set_args_async_def
    pka_listener_channel_set_env_finish_def pka_listener_channel_set_env_async_def
    pka_listener_channel_set_working_dir_finish_def pka_listener_channel_set_working_dir_async_def prod.case
  by - (elim conjE, assumption)+

text \<open>What a session becomes when its request succeeded.\<close>

fun succeeded :: "profiler_callback \<Rightarrow> int \<Rightarrow> ppg_session \<Rightarrow> ppg_session" where
  "succeeded Channel_Stopped now s = emit_signal STOPPED (ppg_session_stop_position_notifier
     (s\<lparr>ss_state := PPG_SESSION_STOPPED, ss_timer := g_timer_stop now (ss_timer s)\<rparr>))"
| "succeeded Channel_Started now s = emit_signal STARTED (ppg_session_start_position_notifier
     (s\<lparr>ss_state := PPG_SESSION_STARTED, ss_timer := Some (g_timer_new now)\<rparr>))"
| "succeeded Channel_Muted now s = emit_signal PAUSED (ppg_session_stop_position_notifier
     (s\<lparr>ss_state := PPG_SESSION_PAUSED, ss_timer := g_timer_stop now (ss_timer s)\<rparr>))"
| "succeeded Channel_Unmuted now s = emit_signal UNPAUSED (ppg_session_start_position_notifier
     (s\<lparr>ss_state := PPG_SESSION_STARTED, ss_timer := g_timer_start now (ss_timer s)\<rparr>))"
| "succeeded _ now s = s"

lemma succeeded_frame [simp]:
  "ss_conn (succeeded callback now s) = ss_conn s" "ss_channel (succeeded callback now s) = ss_channel s"
  by (cases callback; simp add: emit_signal_def ppg_session_stop_position_notifier_def
      ppg_session_start_position_notifier_def)+

definition answered_session :: "profiler_callback \<Rightarrow> int \<Rightarrow> profiler \<Rightarrow> rpc_failure + unit \<Rightarrow> profiler" where
  "answered_session callback now p r =
     (case r of Inl _ \<Rightarrow> p | Inr _ \<Rightarrow> p\<lparr>pf_session := succeeded callback now (pf_session p)\<rparr>)"

lemma callback_runs:
  assumes "ss_conn (pf_session q) = Some dbus_class"
  shows "run_callback l now Channel_Stopped result q =
      Value (answered_session Channel_Stopped now q (pk_connection_dbus_channel_stop_finish result))"
    "run_callback l now Channel_Started result q =
      Value (answered_session Channel_Started now q (pk_connection_dbus_channel_start_finish result))"
    "run_callback l now Channel_Muted result q =
      Value (answered_session Channel_Muted now q (pk_connection_dbus_channel_mute_finish result))"
    "run_callback l now Channel_Unmuted result q =
      Value (answered_session Channel_Unmuted now q (pk_connection_dbus_channel_unmute_finish result))"
  by (simp_all add: on_session_def ppg_session_channel_stopped_def ppg_session_channel_started_def
      ppg_session_channel_muted_def ppg_session_channel_unmuted_def assms finish_dbus answered_session_def
      ppg_session_report_error_def split: sum.split)

lemma turn_answered:
  assumes "pf_awaited p = Answered callback m # rest" "pka_manager_find_channel DEFAULT_CONTEXT i ag = Ok c"
    and "\<And>result. run_callback l now callback result (p\<lparr>pf_awaited := rest\<rparr>) =
      Value (answered_session callback now (p\<lparr>pf_awaited := rest\<rparr>) (fin result))"
    and "call l m fin (ag, ld) = direct l id (with_channel i (\<lambda>c. in_world (f c))) (ag, ld)"
    and "f c (ag_world ag) = (r, w)"
  shows "main_loop_turn l env now (p, ag, ld) =
    Value (p\<lparr>pf_awaited := rest, pf_session := (if r = Ok () then succeeded callback now (pf_session p) else pf_session p)\<rparr>,
      ag\<lparr>ag_world := w\<rparr>, ld)"
proof -
  have "call l m (\<lambda>result. run_callback l now callback result (p\<lparr>pf_awaited := rest\<rparr>)) (ag, ld) =
      (Value (answered_session callback now (p\<lparr>pf_awaited := rest\<rparr>) (outcome_of id r)), ag\<lparr>ag_world := w\<rparr>, ld)"
    by (rule callback_called [OF _ assms(4,2,5)]) (rule assms(3))
  then show ?thesis
    using assms(1) by (cases r) (simp_all add: main_loop_turn_def answered_session_def outcome_of_def)
qed

lemma succeeded_states [simp]:
  "ss_state (succeeded callback now s) = target_state callback (ss_state s)"
  by (cases callback) (simp_all add: emit_signal_def ppg_session_stop_position_notifier_def
      ppg_session_start_position_notifier_def)

declare succeeded.simps [simp del]

lemma callback_finishes:
  assumes "callback \<in> session_callbacks" "ss_conn (pf_session q) = Some dbus_class"
  shows "run_callback l now callback result q = Value (answered_session callback now q (finish_of callback result))"
  using assms(1) callback_runs [OF assms(2), where l = l and now = now and result = result]
  by (auto simp: session_callbacks_def)

lemma answered_state:
  "ss_state (pf_session (answered_session callback now q (finish_of callback result))) =
    heard (Arrived callback result) (ss_state (pf_session q))"
  by (simp add: answered_session_def split: sum.split)

lemma answered_frame [simp]:
  "ss_conn (pf_session (answered_session callback now q r)) = ss_conn (pf_session q)"
  "ss_channel (pf_session (answered_session callback now q r)) = ss_channel (pf_session q)"
  "pf_awaited (answered_session callback now q r) = pf_awaited q"
  by (simp_all add: answered_session_def split: sum.split)

text \<open>A request that is served: the procedure that it names, and how the state of the channel answers to its result.\<close>

lemma request_served:
  assumes "a \<in> session_requests i" "ld_paths ld (channel_prefix @ fmt_int i) = Some Channel_VTable"
  obtains callback m f r w where "a = Answered callback m" "callback \<in> session_callbacks"
    "call l m (finish_of callback) (ag, ld) = direct l id (with_channel i (\<lambda>c. in_world (f c))) (ag, ld)"
    "f c (ag_world ag) = (r, w)" "\<forall>d. ch_id (w_channels w d) = ch_id (w_channels (ag_world ag) d)"
    "\<forall>s. agrees s (ch_state (w_channels (ag_world ag) c)) \<longrightarrow>
       agrees (if r = Ok () then target_state callback s else s) (ch_state (w_channels w c))"
proof -
  let ?w = "ag_world ag"
  note calls = session_calls [OF assms(2), where l = l and ag = ag]
  from assms(1) consider "a = Answered Channel_Stopped (pk_connection_dbus_channel_stop_async i)"
    | "a = Answered Channel_Started (pk_connection_dbus_channel_start_async i)"
    | "a = Answered Channel_Muted (pk_connection_dbus_channel_mute_async i)"
    | "a = Answered Channel_Unmuted (pk_connection_dbus_channel_unmute_async i)"
    by (auto simp: session_requests_def)
  then show thesis
  proof cases
    case 1
    show thesis
      by (rule that [OF 1 _ _ prod.collapse [symmetric]], simp add: session_callbacks_def, simp, rule calls(1))
        (auto simp: session_stop_channels agrees_def)
  next
    case 2
    show thesis
    proof (cases "ch_state (w_channels ?w c) \<in> {CHANNEL_READY, CHANNEL_STOPPED}")
      case True
      then obtain r w where start: "pka_channel_start (env_spawn (lk_env l)) (env_tmp (lk_env l)) c DEFAULT_CONTEXT ?w = (r, w)"
        "\<forall>d. ch_id (w_channels w d) = ch_id (w_channels ?w d)"
        "if r = Ok () then ch_state (w_channels w c) = CHANNEL_RUNNING
         else ch_state (w_channels w c) \<in> {CHANNEL_READY, CHANNEL_FAILED}"
        using start_tried [of ?w c "env_spawn (lk_env l)" "env_tmp (lk_env l)" DEFAULT_CONTEXT] by blast
      show thesis
        by (rule that [where f = "\<lambda>c. pka_channel_start (env_spawn (lk_env l)) (env_tmp (lk_env l)) c DEFAULT_CONTEXT", OF 2 _ _ start(1)], simp add: session_callbacks_def, simp, rule calls(2))
          (use True start(2,3) in \<open>auto simp: agrees_def split: if_splits\<close>)
    next
      case False
      show thesis
        by (rule that [where f = "\<lambda>c. pka_channel_start (env_spawn (lk_env l)) (env_tmp (lk_env l)) c DEFAULT_CONTEXT", OF 2 _ _ start_refused [OF False]], simp add: session_callbacks_def, simp, rule calls(2)) simp_all
    qed
  next
    case 3
    show thesis
      by (rule that [OF 3 _ _ prod.collapse [symmetric]], simp add: session_callbacks_def, simp, rule calls(3))
        (auto simp: session_mute_channels agrees_def)
  next
    case 4
    show thesis
      by (rule that [OF 4 _ _ prod.collapse [symmetric]], simp add: session_callbacks_def, simp, rule calls(4))
        (auto simp: session_unmute_channels agrees_def)
  qed
qed

text \<open>The agent serves a message, and a turn of the client's loop.\<close>

lemma requests_unheard: "set xs \<subseteq> session_requests i \<Longrightarrow> fold heard xs s = s"
  by (induction xs arbitrary: s) (auto simp: session_requests_def)

lemma requests_in_order: "set xs \<subseteq> session_requests i \<Longrightarrow> in_order i xs"
  by (induction xs rule: in_order.induct) (auto simp: session_requests_def)

lemma in_order_append: "in_order i xs \<Longrightarrow> set ys \<subseteq> session_requests i \<Longrightarrow> in_order i (xs @ ys)"
  by (induction xs rule: in_order.induct) (auto intro: requests_in_order)

lemma served_result:
  assumes "call l m (finish_of callback) (ag, ld) = direct l id (with_channel i (\<lambda>c. in_world (f c))) (ag, ld)"
    and "pka_manager_find_channel DEFAULT_CONTEXT i ag = Ok c" "f c (ag_world ag) = (r, w)"
  obtains result where "call l m id (ag, ld) = (result, ag\<lparr>ag_world := w\<rparr>, ld)"
    "finish_of callback result = outcome_of id r"
proof -
  obtain result st where result: "call l m id (ag, ld) = (result, st)" by (rule prod.exhaust)
  have "call l m (finish_of callback) (ag, ld) = (finish_of callback result, st)"
    using call_then [of l m "finish_of callback" id] by (simp add: result)
  then show thesis
    using assms(1) direct_on_channel [of i ag c f r w l id ld, OF assms(2,3)] by (intro that [of result]) (simp_all add: result)
qed

lemma serve_oldest_follows:
  assumes "in_order i xs" "ld_paths ld (channel_prefix @ fmt_int i) = Some Channel_VTable"
    and find: "pka_manager_find_channel DEFAULT_CONTEXT i ag = Ok c"
    and "agrees (fold heard xs s) (ch_state (w_channels (ag_world ag) c))"
  shows "\<exists>ys ag'. serve_oldest l xs (ag, ld) = (ys, ag', ld) \<and> in_order i ys \<and>
    pka_manager_find_channel DEFAULT_CONTEXT i ag' = Ok c \<and>
    agrees (fold heard ys s) (ch_state (w_channels (ag_world ag') c))"
  using assms(1,4)
proof (induction xs arbitrary: s)
  case Nil
  then show ?case using find by simp
next
  case (Cons a rest)
  show ?case
  proof (cases a)
    case (Arrived callback result)
    then have "in_order i rest" "callback \<in> session_callbacks" using Cons.prems(1) by simp_all
    then show ?thesis using Cons.IH [of "heard a s"] Cons.prems(2) by (auto simp: Arrived)
  next
    case Connected
    then show ?thesis using Cons.prems(1) by (simp add: session_requests_def)
  next
    case (Answered callback m)
    then have rest: "a \<in> session_requests i" "set rest \<subseteq> session_requests i" using Cons.prems(1) by simp_all
    obtain callback' m' f r w where req: "a = Answered callback' m'" "callback' \<in> session_callbacks"
      "call l m' (finish_of callback') (ag, ld) = direct l id (with_channel i (\<lambda>c. in_world (f c))) (ag, ld)"
      "f c (ag_world ag) = (r, w)" "\<forall>d. ch_id (w_channels w d) = ch_id (w_channels (ag_world ag) d)"
      "\<forall>s. agrees s (ch_state (w_channels (ag_world ag) c)) \<longrightarrow>
         agrees (if r = Ok () then target_state callback' s else s) (ch_state (w_channels w c))"
      using request_served [OF rest(1) assms(2)] .
    obtain result where served: "call l m id (ag, ld) = (result, ag\<lparr>ag_world := w\<rparr>, ld)"
      "finish_of callback result = outcome_of id r"
      using served_result [OF req(3) find req(4)] req(1) Answered by blast
    have "agrees s (ch_state (w_channels (ag_world ag) c))"
      using Cons.prems(2) rest(2) by (simp add: Answered requests_unheard)
    with req(1,6) Answered served(2) have "agrees (heard (Arrived callback result) s) (ch_state (w_channels w c))"
      by (cases r) (auto simp: outcome_of_def)
    moreover have "callback \<in> session_callbacks" using req(1,2) Answered by simp
    ultimately show ?thesis
      using find_same [OF find, of w] req(5) rest(2) Answered
      by (simp add: served(1) requests_unheard requests_in_order)
  qed
qed

lemma serves_follows:
  assumes "steers i c x" "follows c x"
  shows "steers i c (agent_serves l x) \<and> follows c (agent_serves l x)"
proof -
  obtain p ag ld where x: "x = (p, ag, ld)" by (cases x) auto
  obtain ys ag' where "serve_oldest l (pf_awaited p) (ag, ld) = (ys, ag', ld)" "in_order i ys"
    "pka_manager_find_channel DEFAULT_CONTEXT i ag' = Ok c"
    "agrees (fold heard ys (ss_state (pf_session p))) (ch_state (w_channels (ag_world ag') c))"
    using serve_oldest_follows [of i "pf_awaited p" ld ag c "ss_state (pf_session p)" l] assms
    by (auto simp: steers_def follows_def x)
  then show ?thesis using assms(1) by (simp add: agent_serves_def steers_def follows_def x)
qed

lemma turn_follows:
  assumes "steers i c x" "follows c x"
  shows "\<exists>x'. main_loop_turn l env now x = Value x' \<and> steers i c x' \<and> follows c x'"
proof -
  obtain p ag ld where x: "x = (p, ag, ld)" by (cases x) auto
  show ?thesis
  proof (cases "pf_awaited p")
    case Nil
    then show ?thesis using assms by (auto simp: main_loop_turn_def x)
  next
    case (Cons a rest)
    let ?q = "p\<lparr>pf_awaited := rest\<rparr>"
    have path: "ld_paths ld (channel_prefix @ fmt_int i) = Some Channel_VTable"
      and conn: "ss_conn (pf_session ?q) = Some dbus_class"
      and find: "pka_manager_find_channel DEFAULT_CONTEXT i ag = Ok c" and a: "in_order i (a # rest)"
      using assms(1) Cons by (simp_all add: steers_def x)
    show ?thesis
    proof (cases a)
      case Connected
      then show ?thesis using a by (simp add: session_requests_def)
    next
      case (Arrived callback result)
      then have callback: "callback \<in> session_callbacks" and rest: "in_order i rest" using a by simp_all
      have "main_loop_turn l env now (p, ag, ld) =
          Value (answered_session callback now ?q (finish_of callback result), ag, ld)"
        using Cons by (simp add: main_loop_turn_def Arrived callback_finishes [OF callback conn])
      then show ?thesis
        using assms rest Cons
        by (simp add: x steers_def follows_def answered_state del: heard.simps) (simp add: Arrived)
    next
      case (Answered callback m)
      then have rest: "a \<in> session_requests i" "set rest \<subseteq> session_requests i" using a by simp_all
      obtain callback' m' f r w where req: "a = Answered callback' m'" "callback' \<in> session_callbacks"
        "call l m' (finish_of callback') (ag, ld) = direct l id (with_channel i (\<lambda>c. in_world (f c))) (ag, ld)"
        "f c (ag_world ag) = (r, w)" "\<forall>d. ch_id (w_channels w d) = ch_id (w_channels (ag_world ag) d)"
        "\<forall>s. agrees s (ch_state (w_channels (ag_world ag) c)) \<longrightarrow>
           agrees (if r = Ok () then target_state callback' s else s) (ch_state (w_channels w c))"
        using request_served [OF rest(1) path] .
      have turn: "main_loop_turn l env now (p, ag, ld) =
        Value (p\<lparr>pf_awaited := rest,
            pf_session := (if r = Ok () then succeeded callback' now (pf_session p) else pf_session p)\<rparr>,
          ag\<lparr>ag_world := w\<rparr>, ld)"
        by (rule turn_answered [OF Cons [unfolded req(1)] find callback_finishes [OF req(2) conn] req(3,4)])
      have "agrees (ss_state (pf_session p)) (ch_state (w_channels (ag_world ag) c))"
        using assms(2) Cons rest by (simp add: follows_def x Answered requests_unheard)
      then have "agrees (if r = Ok () then target_state callback' (ss_state (pf_session p)) else ss_state (pf_session p))
          (ch_state (w_channels w c))"
        using req(6) by blast
      then show ?thesis
        using assms(1) rest find_same [OF find, of w] req(5)
        by (auto simp: x turn steers_def follows_def requests_unheard requests_in_order split: if_splits)
    qed
  qed
qed

lemma all_heard: "\<nexists>callback result. Arrived callback result \<in> set xs \<Longrightarrow> fold heard xs s = s"
proof (induction xs)
  case (Cons a xs)
  then show ?case by (cases a) auto
qed simp

lemma follows_shown:
  "follows c (p, st) \<Longrightarrow> \<nexists>callback result. Arrived callback result \<in> set (pf_awaited p) \<Longrightarrow> shown c (p, st)"
  by (cases st) (simp add: follows_def shown_def all_heard)

lemma requests_sent:
  "pk_connection_channel_stop_async (Some dbus_class) i = Requested (pk_connection_dbus_channel_stop_async i)"
  "pk_connection_channel_start_async (Some dbus_class) i = Requested (pk_connection_dbus_channel_start_async i)"
  "pk_connection_channel_mute_async (Some dbus_class) i = Requested (pk_connection_dbus_channel_mute_async i)"
  "pk_connection_channel_unmute_async (Some dbus_class) i = Requested (pk_connection_dbus_channel_unmute_async i)"
  by (simp_all add: pk_connection_channel_stop_async_def pk_connection_channel_start_async_def
      pk_connection_channel_mute_async_def pk_connection_channel_unmute_async_def)

fun message_of :: "profiler_action \<Rightarrow> gint \<Rightarrow> awaited list" where
  "message_of Stop i = [Answered Channel_Stopped (pk_connection_dbus_channel_stop_async i)]"
| "message_of Start i = [Answered Channel_Started (pk_connection_dbus_channel_start_async i)]"
| "message_of Pause i = [Answered Channel_Muted (pk_connection_dbus_channel_mute_async i)]"
| "message_of Unpause i = [Answered Channel_Unmuted (pk_connection_dbus_channel_unmute_async i)]"
| "message_of _ i = []"

lemma user_acts:
  assumes "steers i c (p, ag, ld)" "a \<in> {Start, Stop, Pause, Unpause}"
  shows "profiler_act l env a (p, ag, ld) =
    Value (if lk_sends l then p\<lparr>pf_awaited := pf_awaited p @ message_of a i\<rparr> else p, ag, ld)"
  using assms
  by (cases a) (simp_all add: profiler_act_def ppg_session_stop_def ppg_session_start_def ppg_session_pause_def
      ppg_session_unpause_def on_channel_def send_request_def requests_sent steers_def)

lemma act_follows:
  assumes "steers i c x" "follows c x"
  shows "\<exists>x'. profiler_act l env a x = Value x' \<and> steers i c x' \<and> follows c x'"
proof -
  obtain p ag ld where x: "x = (p, ag, ld)" by (cases x) auto
  consider (turn) now where "a = Turn now" | (serve) "a = Serve" | (user) "a \<in> {Start, Stop, Pause, Unpause}"
    by (cases a) auto
  then show ?thesis
  proof cases
    case turn
    then show ?thesis using turn_follows [OF assms] by (simp add: profiler_act_def)
  next
    case serve
    then show ?thesis using serves_follows [OF assms] by (simp add: profiler_act_def)
  next
    case user
    then have requests: "set (message_of a i) \<subseteq> session_requests i" by (auto simp: session_requests_def)
    have "in_order i (pf_awaited p @ message_of a i)"
      using assms(1) requests by (simp add: in_order_append steers_def x)
    then show ?thesis
      using user_acts [OF assms(1) [unfolded x] user, of l env] assms
      by (auto simp: x steers_def follows_def requests_unheard [OF requests])
  qed
qed

text \<open>
  C28: The session follows its channel, as far as it has heard. Whatever the user does with a session that steers a
  channel, in any order and with any number of requests under way, whenever the agent serves the requests and whatever
  it answers, processes that cannot be spawned included, nothing crashes, and the answers that have arrived are all that
  the session lags behind: with them it would be started exactly when the channel runs and paused exactly when it is
  muted, and when none is left it is. No one else may use the channel, the task that restarts it included, and its
  process must not end by itself.
\<close>

theorem session_follows_channel:
  assumes "steers i c x" "follows c x"
  shows "\<exists>p st. profiler_run l env acts x = Value (p, st) \<and> steers i c (p, st) \<and> follows c (p, st) \<and>
    ((\<nexists>callback result. Arrived callback result \<in> set (pf_awaited p)) \<longrightarrow> shown c (p, st))"
proof -
  have "\<exists>x'. profiler_run l env acts x = Value x' \<and> steers i c x' \<and> follows c x'"
    using assms
  proof (induction acts arbitrary: x)
    case (Cons a acts)
    obtain x1 where "profiler_act l env a x = Value x1" "steers i c x1" "follows c x1"
      using act_follows [OF Cons.prems] by blast
    then show ?case using Cons.IH by simp
  qed simp
  then show ?thesis using follows_shown by fastforce
qed

definition demo_session :: ppg_session where
  "demo_session = ppg_session_init\<lparr>ss_conn := Some dbus_class\<rparr>"

definition demo_profiler :: profiler where
  "demo_profiler =
     \<lparr>pf_session = demo_session, pf_client = (0, pk_connection_dbus_init), pf_awaited = [],
      pf_edit = ppg_edit_channel_task_init, pf_restart = ppg_task_init\<rparr>"

lemma demo_steers: "steers 0 1 (demo_profiler, demo_tied, demo_objects)"
  using demo_objects_paths(1)
  by (simp add: steers_def demo_profiler_def demo_session_def ppg_session_init_def pka_manager_find_channel_def
      find_by_id_def demo_tied_state pka_channel_get_id_def pka_channel_init_def)

lemma demo_follows: "follows 1 (demo_profiler, demo_tied, demo_objects)"
  by (simp add: follows_def agrees_def demo_profiler_def demo_session_def ppg_session_init_def demo_tied_state
      pka_channel_init_def)

lemma session_follows_channel_witness:
  "\<forall>l env. \<exists>p st. profiler_run l env [Start, Pause, Serve, Serve, Turn 1, Unpause, Turn 2, Serve, Stop, Turn 3, Turn 4]
      (demo_profiler, demo_tied, demo_objects) = Value (p, st) \<and> follows 1 (p, st) \<and> steers 0 1 (p, st)"
  using session_follows_channel [OF demo_steers demo_follows] by blast

section \<open>What the session does not see\<close>

text \<open>A request that is served, and its callback, one after the other: the procedure ended with \<open>r\<close> in the world \<open>w\<close>.\<close>

definition served_as ::
  "dbus_link \<Rightarrow> connect_env \<Rightarrow> gint \<Rightarrow> channel_ref \<Rightarrow> profiler_action \<Rightarrow> profiler_callback \<Rightarrow> int \<Rightarrow> profiled \<Rightarrow>
     unit ans \<Rightarrow> world \<Rightarrow> bool" where
  "served_as l env i c a callback now x r w \<longleftrightarrow>
     (case x of (p, ag, ld) \<Rightarrow>
        let p' = (if r = Ok () then p\<lparr>pf_session := succeeded callback now (pf_session p)\<rparr> else p);
            x' = (p', ag\<lparr>ag_world := w\<rparr>, ld)
        in (\<forall>acts. profiler_run l env (a # Turn now # acts) x = profiler_run l env acts x') \<and>
           steers i c x' \<and> pf_awaited p' = [])"

lemma request_turn:
  assumes "steers i c (p, ag, ld)" "pf_awaited p = []" "lk_sends l"
    and "a \<in> {Start, Stop, Pause, Unpause}" "message_of a i = [Answered callback m]"
    and "\<And>result. run_callback l now callback result p =
      Value (answered_session callback now p (fin result))"
    and "call l m fin (ag, ld) = direct l id (with_channel i (\<lambda>c. in_world (f c))) (ag, ld)"
    and "f c (ag_world ag) = (r, w)" "\<And>d. ch_id (w_channels w d) = ch_id (w_channels (ag_world ag) d)"
  shows "served_as l env i c a callback now (p, ag, ld) r w"
proof -
  let ?p = "if r = Ok () then p\<lparr>pf_session := succeeded callback now (pf_session p)\<rparr> else p"
    and ?q = "p\<lparr>pf_awaited := [Answered callback m]\<rparr>"
  have find: "pka_manager_find_channel DEFAULT_CONTEXT i ag = Ok c" using assms(1) by (simp add: steers_def)
  have p: "?q\<lparr>pf_awaited := []\<rparr> = p" "p\<lparr>pf_awaited := [], pf_session := s\<rparr> = p\<lparr>pf_session := s\<rparr>" for s
    using assms(2) by simp_all
  have turn: "main_loop_turn l env now (?q, ag, ld) = Value (?p, ag\<lparr>ag_world := w\<rparr>, ld)"
    using turn_answered [of ?q callback m "[]" i ag c l now fin ld f r w env] assms(6) find assms(7,8) assms(2)
    by (simp add: p)
  have act: "profiler_act l env a (p, ag, ld) = Value (p\<lparr>pf_awaited := [Answered callback m]\<rparr>, ag, ld)"
    using user_acts [OF assms(1,4), of l env] assms(2,3,5) by simp
  have "steers i c (?p, ag\<lparr>ag_world := w\<rparr>, ld)"
    using assms(1,2) find_same [OF find assms(9)] by (simp add: steers_def)
  moreover have "profiler_act l env (Turn now) y = main_loop_turn l env now y" for y
    by (simp add: profiler_act_def)
  ultimately show ?thesis using turn act assms(2) by (simp add: served_as_def)
qed

lemma served_ok:
  assumes "served_as l env i c a callback now (p, ag, ld) (Ok ()) w"
  shows "profiler_run l env (a # Turn now # acts) (p, ag, ld) =
      profiler_run l env acts (p\<lparr>pf_session := succeeded callback now (pf_session p)\<rparr>, ag\<lparr>ag_world := w\<rparr>, ld)"
    "steers i c (p\<lparr>pf_session := succeeded callback now (pf_session p)\<rparr>, ag\<lparr>ag_world := w\<rparr>, ld)"
    "pf_awaited (p\<lparr>pf_session := succeeded callback now (pf_session p)\<rparr>) = []"
  using assms by (simp_all add: served_as_def Let_def del: profiler_run.simps)

lemma session_turns:
  assumes "steers i c (p, ag, ld)" "pf_awaited p = []" "lk_sends l"
  shows "pka_channel_start (env_spawn (lk_env l)) (env_tmp (lk_env l)) c DEFAULT_CONTEXT (ag_world ag) = (r, w) \<Longrightarrow>
      (\<And>d. ch_id (w_channels w d) = ch_id (w_channels (ag_world ag) d)) \<Longrightarrow>
      served_as l env i c Start Channel_Started now (p, ag, ld) r w"
    "pka_channel_stop c DEFAULT_CONTEXT (ag_world ag) = (r, w) \<Longrightarrow>
      served_as l env i c Stop Channel_Stopped now (p, ag, ld) r w"
    "pka_channel_mute c DEFAULT_CONTEXT (ag_world ag) = (r, w) \<Longrightarrow>
      served_as l env i c Pause Channel_Muted now (p, ag, ld) r w"
    "pka_channel_unmute c DEFAULT_CONTEXT (ag_world ag) = (r, w) \<Longrightarrow>
      served_as l env i c Unpause Channel_Unmuted now (p, ag, ld) r w"
proof -
  have path: "ld_paths ld (channel_prefix @ fmt_int i) = Some Channel_VTable"
    and conn: "ss_conn (pf_session p) = Some dbus_class" using assms(1) by (simp_all add: steers_def)
  note calls = session_calls [OF path, where l = l and ag = ag]
    and callbacks = callback_runs [OF conn, where l = l and now = now]
  note turn = request_turn [OF assms]
  have ids: "ch_id (w_channels (snd (pka_channel_stop c ctx w')) d) = ch_id (w_channels w' d)"
    "ch_id (w_channels (snd (pka_channel_mute c ctx w')) d) = ch_id (w_channels w' d)"
    "ch_id (w_channels (snd (pka_channel_unmute c ctx w')) d) = ch_id (w_channels w' d)" for ctx w' d
    by (simp_all add: session_stop_channels session_mute_channels session_unmute_channels)
  show "served_as l env i c Start Channel_Started now (p, ag, ld) r w"
    if "pka_channel_start (env_spawn (lk_env l)) (env_tmp (lk_env l)) c DEFAULT_CONTEXT (ag_world ag) = (r, w)"
      "\<And>d. ch_id (w_channels w d) = ch_id (w_channels (ag_world ag) d)"
    by (rule turn [OF _ _ callbacks(2) calls(2) that]) simp_all
  show "served_as l env i c Stop Channel_Stopped now (p, ag, ld) r w"
    if f: "pka_channel_stop c DEFAULT_CONTEXT (ag_world ag) = (r, w)"
    by (rule turn [OF _ _ callbacks(1) calls(1) f]) (use ids(1) [of DEFAULT_CONTEXT "ag_world ag"] f in simp_all)
  show "served_as l env i c Pause Channel_Muted now (p, ag, ld) r w"
    if f: "pka_channel_mute c DEFAULT_CONTEXT (ag_world ag) = (r, w)"
    by (rule turn [OF _ _ callbacks(3) calls(3) f]) (use ids(2) [of DEFAULT_CONTEXT "ag_world ag"] f in simp_all)
  show "served_as l env i c Unpause Channel_Unmuted now (p, ag, ld) r w"
    if f: "pka_channel_unmute c DEFAULT_CONTEXT (ag_world ag) = (r, w)"
    by (rule turn [OF _ _ callbacks(4) calls(4) f]) (use ids(3) [of DEFAULT_CONTEXT "ag_world ag"] f in simp_all)
qed

text \<open>A request for a stopped channel is refused.\<close>

definition only_pauses :: "gint \<Rightarrow> awaited set" where
  "only_pauses i =
     {Answered Channel_Muted (pk_connection_dbus_channel_mute_async i),
      Answered Channel_Unmuted (pk_connection_dbus_channel_unmute_async i)}"

definition unheeded :: "gint \<Rightarrow> awaited set" where
  "unheeded i = only_pauses i \<union>
     {Arrived callback result |callback result. callback \<in> session_callbacks \<and> (\<exists>e. finish_of callback result = Inl e)}"

definition misses :: "gint \<Rightarrow> channel_ref \<Rightarrow> ppg_session \<Rightarrow> profiled \<Rightarrow> bool" where
  "misses i c s x \<longleftrightarrow>
     (case x of (p, ag, ld) \<Rightarrow>
        steers i c x \<and> pf_session p = s \<and> set (pf_awaited p) \<subseteq> unheeded i \<and>
        ch_state (w_channels (ag_world ag) c) = CHANNEL_STOPPED)"

lemma only_pauses_requests: "only_pauses i \<subseteq> session_requests i"
  by (auto simp: session_requests_def only_pauses_def)

lemma pause_refused:
  assumes "a \<in> only_pauses i" "ld_paths ld (channel_prefix @ fmt_int i) = Some Channel_VTable"
    and "ch_state (w_channels (ag_world ag) c) = CHANNEL_STOPPED"
  obtains callback m f where "a = Answered callback m" "callback \<in> session_callbacks"
    "call l m (finish_of callback) (ag, ld) = direct l id (with_channel i (\<lambda>c. in_world (f c))) (ag, ld)"
    "f c (ag_world ag) = (Err CHANNEL_ERROR_STATE, ag_world ag)"
proof (cases "a = Answered Channel_Muted (pk_connection_dbus_channel_mute_async i)")
  case True
  show thesis
    by (rule that [where f = "\<lambda>c. pka_channel_mute c DEFAULT_CONTEXT", OF True], simp add: session_callbacks_def, simp,
        rule session_calls(3) [OF assms(2)]) (simp add: pka_channel_mute_def assms(3))
next
  case False
  then have a: "a = Answered Channel_Unmuted (pk_connection_dbus_channel_unmute_async i)"
    using assms(1) by (simp add: only_pauses_def)
  show thesis
    by (rule that [where f = "\<lambda>c. pka_channel_unmute c DEFAULT_CONTEXT", OF a], simp add: session_callbacks_def, simp,
        rule session_calls(4) [OF assms(2)]) (simp add: pka_channel_unmute_def assms(3))
qed

lemma serve_misses:
  assumes "in_order i xs" "set xs \<subseteq> unheeded i" "ld_paths ld (channel_prefix @ fmt_int i) = Some Channel_VTable"
    and find: "pka_manager_find_channel DEFAULT_CONTEXT i ag = Ok c"
    and "ch_state (w_channels (ag_world ag) c) = CHANNEL_STOPPED"
  shows "\<exists>ys. serve_oldest l xs (ag, ld) = (ys, ag, ld) \<and> in_order i ys \<and> set ys \<subseteq> unheeded i"
  using assms(1,2)
proof (induction xs)
  case (Cons a rest)
  show ?case
  proof (cases a)
    case (Arrived callback result)
    then show ?thesis using Cons by auto
  next
    case Connected
    then show ?thesis using Cons.prems(1) by (simp add: session_requests_def)
  next
    case (Answered callback m)
    then have "a \<in> only_pauses i" "set rest \<subseteq> session_requests i" using Cons.prems by (auto simp: unheeded_def)
    obtain callback' m' f where req: "a = Answered callback' m'" "callback' \<in> session_callbacks"
      "call l m' (finish_of callback') (ag, ld) = direct l id (with_channel i (\<lambda>c. in_world (f c))) (ag, ld)"
      "f c (ag_world ag) = (Err CHANNEL_ERROR_STATE, ag_world ag)"
      using pause_refused [OF \<open>a \<in> only_pauses i\<close> assms(3,5)] .
    obtain result where "call l m' id (ag, ld) = (result, ag\<lparr>ag_world := ag_world ag\<rparr>, ld)"
      "finish_of callback' result = outcome_of id (Err CHANNEL_ERROR_STATE)"
      using served_result [OF req(3) find req(4)] .
    then show ?thesis
      using req(1,2) Answered Cons.prems(2) \<open>set rest \<subseteq> session_requests i\<close>
      by (auto simp: outcome_of_def unheeded_def requests_in_order)
  qed
qed simp

lemma misses_turn:
  assumes "misses i c s x"
  shows "\<exists>x'. main_loop_turn l env now x = Value x' \<and> misses i c s x'"
proof -
  obtain p ag ld where x: "x = (p, ag, ld)" by (cases x) auto
  have steers: "steers i c (p, ag, ld)" and p: "pf_session p = s" "set (pf_awaited p) \<subseteq> unheeded i"
    and stopped: "ch_state (w_channels (ag_world ag) c) = CHANNEL_STOPPED"
    using assms by (simp_all add: misses_def x)
  show ?thesis
  proof (cases "pf_awaited p")
    case Nil
    then show ?thesis using assms by (auto simp: main_loop_turn_def x)
  next
    case (Cons b rest)
    have path: "ld_paths ld (channel_prefix @ fmt_int i) = Some Channel_VTable"
      and conn: "ss_conn (pf_session (p\<lparr>pf_awaited := rest\<rparr>)) = Some dbus_class"
      and find: "pka_manager_find_channel DEFAULT_CONTEXT i ag = Ok c" and order: "in_order i (b # rest)"
      using steers Cons by (simp_all add: steers_def)
    have "main_loop_turn l env now (p, ag, ld) = Value (p\<lparr>pf_awaited := rest\<rparr>, ag, ld) \<and> in_order i rest"
    proof (cases "b \<in> only_pauses i")
      case True
      obtain callback m f where req: "b = Answered callback m" "callback \<in> session_callbacks"
        "call l m (finish_of callback) (ag, ld) = direct l id (with_channel i (\<lambda>c. in_world (f c))) (ag, ld)"
        "f c (ag_world ag) = (Err CHANNEL_ERROR_STATE, ag_world ag)"
        using pause_refused [OF True path stopped] .
      show ?thesis
        using turn_answered [OF Cons [unfolded req(1)] find callback_finishes [OF req(2) conn] req(3,4)] order
        by (simp add: req(1) requests_in_order)
    next
      case False
      then obtain callback result e where b: "b = Arrived callback result" "callback \<in> session_callbacks"
        "finish_of callback result = Inl e"
        using p(2) Cons by (auto simp: unheeded_def)
      then show ?thesis
        using Cons order callback_finishes [OF b(2) conn] by (simp add: main_loop_turn_def answered_session_def)
    qed
    then show ?thesis using steers p stopped Cons by (auto simp: x misses_def steers_def)
  qed
qed

lemma misses_act:
  assumes "misses i c s x" "a \<in> {Pause, Unpause, Serve} \<union> range Turn"
  shows "\<exists>x'. profiler_act l env a x = Value x' \<and> misses i c s x'"
proof -
  obtain p ag ld where x: "x = (p, ag, ld)" by (cases x) auto
  have steers: "steers i c (p, ag, ld)" and p: "pf_session p = s" "set (pf_awaited p) \<subseteq> unheeded i"
    and stopped: "ch_state (w_channels (ag_world ag) c) = CHANNEL_STOPPED"
    using assms(1) by (simp_all add: misses_def x)
  consider (turn) now where "a = Turn now" | (serve) "a = Serve" | (user) "a \<in> {Pause, Unpause}"
    using assms(2) by auto
  then show ?thesis
  proof cases
    case turn
    then show ?thesis using misses_turn [OF assms(1)] by (simp add: profiler_act_def)
  next
    case serve
    obtain ys where "serve_oldest l (pf_awaited p) (ag, ld) = (ys, ag, ld)" "in_order i ys" "set ys \<subseteq> unheeded i"
      using serve_misses [of i "pf_awaited p" ld ag c l] steers p(2) stopped by (auto simp: steers_def)
    then show ?thesis
      using serve steers p(1) stopped by (simp add: profiler_act_def agent_serves_def x misses_def steers_def)
  next
    case user
    then have requests: "set (message_of a i) \<subseteq> only_pauses i" by (auto simp: only_pauses_def)
    have "in_order i (pf_awaited p @ message_of a i)"
      using steers requests only_pauses_requests by (intro in_order_append) (auto simp: steers_def)
    then show ?thesis
      using user_acts [OF steers, of a l env] user steers p stopped requests
      by (auto simp: x misses_def steers_def unheeded_def)
  qed
qed

lemma misses_run:
  assumes "misses i c s x" "set acts \<subseteq> {Pause, Unpause, Serve} \<union> range Turn"
  shows "\<exists>x'. profiler_run l env acts x = Value x' \<and> misses i c s x'"
  using assms
proof (induction acts arbitrary: x)
  case (Cons a acts)
  obtain x1 where "profiler_act l env a x = Value x1" "misses i c s x1"
    using misses_act [OF Cons.prems(1), of a l env] Cons.prems(2) by (metis insert_subset list.set(2))
  then show ?case using Cons.IH Cons.prems(2) by simp
qed simp

text \<open>
  C36: The session never learns that its process has ended. The agent stops the channel then, but whatever time passes,
  and however often the user pauses and unpauses, the session stays started and its position goes on.
\<close>

theorem session_misses_exit:
  assumes "steers i c (p, ag, ld)" "pf_awaited p = []" "ss_state (pf_session p) = PPG_SESSION_STARTED"
    and "ch_state (w_channels (ag_world ag) c) = CHANNEL_RUNNING" "set acts \<subseteq> {Pause, Unpause, Serve} \<union> range Turn"
  shows "\<exists>p' ag' ld'. profiler_run l env acts (p, on_world (pka_channel_inferior_exited pid status c) ag, ld) = Value (p', ag', ld') \<and>
    pka_channel_get_state c (ag_world ag') = CHANNEL_STOPPED \<and>
    ppg_session_get_state (pf_session p') = PPG_SESSION_STARTED \<and>
    (\<forall>now. ppg_session_get_position now (pf_session p') = ppg_session_get_position now (pf_session p))"
proof -
  let ?ag = "on_world (pka_channel_inferior_exited pid status c) ag"
  have find: "pka_manager_find_channel DEFAULT_CONTEXT i ag = Ok c" using assms(1) by (simp add: steers_def)
  have exited: "ch_id (w_channels (ag_world ?ag) d) = ch_id (w_channels (ag_world ag) d)"
    "ch_state (w_channels (ag_world ?ag) c) = CHANNEL_STOPPED" for d
    using assms(4)
    by (simp_all add: on_world_def pka_channel_inferior_exited_def Let_def session_stop_channels upd_channel_def)
  have "pka_manager_find_channel DEFAULT_CONTEXT i ?ag = Ok c"
    using find_same [OF find exited(1)] by (simp add: on_world_def)
  then have "misses i c (pf_session p) (p, ?ag, ld)"
    using assms(1,2) exited(2) by (simp add: misses_def steers_def)
  then obtain x where x: "profiler_run l env acts (p, ?ag, ld) = Value x" "misses i c (pf_session p) x"
    using misses_run [OF _ assms(5)] by blast
  obtain p' ag' ld' where "x = (p', ag', ld')" by (cases x) auto
  with x assms(3) show ?thesis by (auto simp: misses_def pka_channel_get_state_def ppg_session_get_state_def)
qed

text \<open>
  C37: Pausing loses the time before it. The position is the time since the session was started or unpaused, so that it
  jumps back to 0 when a paused session goes on; and stopping a session that is stopped moves it forward.
\<close>

theorem position_jumps:
  assumes "steers i c (p, ag, ld)" "pf_awaited p = []" "lk_sends l"
    and "pka_channel_start (env_spawn (lk_env l)) (env_tmp (lk_env l)) c DEFAULT_CONTEXT (ag_world ag) = (Ok (), w)"
  shows "\<exists>paused unpaused stopped again.
    profiler_run l env [Start, Turn t0, Pause, Turn t1] (p, ag, ld) = Value paused \<and>
    profiler_run l env [Unpause, Turn t2] paused = Value unpaused \<and>
    profiler_run l env [Stop, Turn t3] unpaused = Value stopped \<and>
    profiler_run l env [Stop, Turn t4] stopped = Value again \<and>
    (\<forall>now. ppg_session_get_position now (pf_session (fst paused)) = t1 - t0 \<and>
      ppg_session_get_position now (pf_session (fst unpaused)) = now - t2 \<and>
      ppg_session_get_position now (pf_session (fst stopped)) = t3 - t2 \<and>
      ppg_session_get_position now (pf_session (fst again)) = t4 - t2)"
proof -
  have tried: "ch_state (w_channels (ag_world ag) c) \<in> {CHANNEL_READY, CHANNEL_STOPPED}"
  proof (rule ccontr)
    assume "ch_state (w_channels (ag_world ag) c) \<notin> {CHANNEL_READY, CHANNEL_STOPPED}"
    from start_refused [OF this] assms(4) show False by simp
  qed
  have w: "ch_id (w_channels w d) = ch_id (w_channels (ag_world ag) d)" "ch_state (w_channels w c) = CHANNEL_RUNNING" for d
    using start_tried [OF tried, of "env_spawn (lk_env l)" "env_tmp (lk_env l)" DEFAULT_CONTEXT] assms(4) by auto
  let ?s1 = "succeeded Channel_Started t0 (pf_session p)"
  let ?s2 = "succeeded Channel_Muted t1 ?s1"
  let ?s3 = "succeeded Channel_Unmuted t2 ?s2"
  let ?s4 = "succeeded Channel_Stopped t3 ?s3"
  let ?s5 = "succeeded Channel_Stopped t4 ?s4"
  let ?w2 = "snd (pka_channel_mute c DEFAULT_CONTEXT w)"
  let ?w3 = "snd (pka_channel_unmute c DEFAULT_CONTEXT ?w2)"
  let ?w4 = "snd (pka_channel_stop c DEFAULT_CONTEXT ?w3)"
  have w2: "pka_channel_mute c DEFAULT_CONTEXT w = (Ok (), ?w2)" "ch_state (w_channels ?w2 c) = CHANNEL_MUTED"
    using session_mute_channels [of c DEFAULT_CONTEXT w] w(2) by (auto intro: prod_eqI)
  have w3: "pka_channel_unmute c DEFAULT_CONTEXT ?w2 = (Ok (), ?w3)" "ch_state (w_channels ?w3 c) = CHANNEL_RUNNING"
    using session_unmute_channels [of c DEFAULT_CONTEXT ?w2] w2(2) by (auto intro: prod_eqI)
  have w4: "pka_channel_stop c DEFAULT_CONTEXT ?w3 = (Ok (), ?w4)" "ch_state (w_channels ?w4 c) = CHANNEL_STOPPED"
    using session_stop_channels [of c DEFAULT_CONTEXT ?w3] w3(2) by (auto intro: prod_eqI)
  have w5: "pka_channel_stop c DEFAULT_CONTEXT ?w4 = (Ok (), ?w4)" using w4(2) by (simp add: pka_channel_stop_def)
  let ?x = "\<lambda>s w. (p\<lparr>pf_session := s\<rparr>, ag\<lparr>ag_world := w\<rparr>, ld)"
  have none: "pf_awaited (p\<lparr>pf_session := s\<rparr>) = []" for s using assms(2) by simp
  have start: "profiler_run l env (Start # Turn t0 # acts) (p, ag, ld) = profiler_run l env acts (?x ?s1 w)"
    "steers i c (?x ?s1 w)" for acts
    using served_ok [OF session_turns(1) [OF assms w(1), where env = env and now = t0]] by simp_all
  have pause: "profiler_run l env (Pause # Turn t1 # acts) (?x ?s1 w) = profiler_run l env acts (?x ?s2 ?w2)"
    "steers i c (?x ?s2 ?w2)" for acts
    using served_ok [OF session_turns(3) [OF start(2) none assms(3), where env = env and now = t1 and r = "Ok ()" and w = ?w2]]
      w2(1) by (simp_all del: profiler_run.simps)
  have unpause: "profiler_run l env (Unpause # Turn t2 # acts) (?x ?s2 ?w2) = profiler_run l env acts (?x ?s3 ?w3)"
    "steers i c (?x ?s3 ?w3)" for acts
    using served_ok [OF session_turns(4) [OF pause(2) none assms(3), where env = env and now = t2 and r = "Ok ()" and w = ?w3]]
      w3(1) by (simp_all del: profiler_run.simps)
  have stop: "profiler_run l env (Stop # Turn t3 # acts) (?x ?s3 ?w3) = profiler_run l env acts (?x ?s4 ?w4)"
    "steers i c (?x ?s4 ?w4)" for acts
    using served_ok [OF session_turns(2) [OF unpause(2) none assms(3), where env = env and now = t3 and r = "Ok ()" and w = ?w4]]
      w4(1) by (simp_all del: profiler_run.simps)
  have again: "profiler_run l env (Stop # Turn t4 # acts) (?x ?s4 ?w4) = profiler_run l env acts (?x ?s5 ?w4)" for acts
    using served_ok [OF session_turns(2) [OF stop(2) none assms(3), where env = env and now = t4 and r = "Ok ()" and w = ?w4]]
      w5 by (simp_all del: profiler_run.simps)
  note positions = ppg_session_get_position_def g_timer_elapsed_def succeeded.simps emit_signal_def g_timer_new_def
    ppg_session_stop_position_notifier_def ppg_session_start_position_notifier_def g_timer_stop_def g_timer_start_def
  show ?thesis
    by (rule exI [of _ "(p\<lparr>pf_session := ?s2\<rparr>, ag\<lparr>ag_world := ?w2\<rparr>, ld)"],
        rule exI [of _ "(p\<lparr>pf_session := ?s3\<rparr>, ag\<lparr>ag_world := ?w3\<rparr>, ld)"],
        rule exI [of _ "(p\<lparr>pf_session := ?s4\<rparr>, ag\<lparr>ag_world := ?w4\<rparr>, ld)"],
        rule exI [of _ "(p\<lparr>pf_session := ?s5\<rparr>, ag\<lparr>ag_world := ?w4\<rparr>, ld)"])
      (simp only: start(1) pause(1) unpause(1) stop(1) again(1) profiler_run.simps(1), simp add: positions)
qed

definition demo_running :: agent where
  "demo_running = on_world (upd_channel 1 (\<lambda>x. x\<lparr>ch_state := CHANNEL_RUNNING\<rparr>)) demo_tied"

definition demo_started :: profiler where
  "demo_started = demo_profiler\<lparr>pf_session := demo_session\<lparr>ss_state := PPG_SESSION_STARTED, ss_timer := Some (g_timer_new 5)\<rparr>\<rparr>"

lemma demo_running_steers: "steers 0 1 (demo_started, demo_running, demo_objects)"
proof -
  have "pka_manager_find_channel DEFAULT_CONTEXT 0 demo_running = Ok 1"
    unfolding demo_running_def on_world_def
    by (rule find_same) (use demo_steers in \<open>simp_all add: steers_def upd_channel_def\<close>)
  then show ?thesis using demo_steers by (simp add: steers_def demo_started_def demo_profiler_def demo_session_def)
qed

lemma session_misses_exit_witness:
  "\<forall>l env. \<exists>p' ag' ld'. profiler_run l env [Pause, Turn 6, Unpause, Turn 7]
      (demo_started, on_world (pka_channel_inferior_exited 99 1 1) demo_running, demo_objects) = Value (p', ag', ld') \<and>
    pka_channel_get_state 1 (ag_world ag') = CHANNEL_STOPPED \<and>
    ppg_session_get_state (pf_session p') = PPG_SESSION_STARTED \<and> ppg_session_get_position 100 (pf_session p') = 95"
proof (intro allI)
  fix l env
  have "pf_awaited demo_started = []" "ss_state (pf_session demo_started) = PPG_SESSION_STARTED"
    "ch_state (w_channels (ag_world demo_running) 1) = CHANNEL_RUNNING"
    by (simp_all add: demo_started_def demo_profiler_def demo_running_def on_world_def upd_channel_def)
  moreover have "ppg_session_get_position 100 (pf_session demo_started) = 95"
    by (simp add: demo_started_def ppg_session_get_position_def g_timer_elapsed_def g_timer_new_def)
  ultimately show "\<exists>p' ag' ld'. profiler_run l env [Pause, Turn 6, Unpause, Turn 7]
      (demo_started, on_world (pka_channel_inferior_exited 99 1 1) demo_running, demo_objects) = Value (p', ag', ld') \<and>
    pka_channel_get_state 1 (ag_world ag') = CHANNEL_STOPPED \<and>
    ppg_session_get_state (pf_session p') = PPG_SESSION_STARTED \<and> ppg_session_get_position 100 (pf_session p') = 95"
    using session_misses_exit [OF demo_running_steers, of "[Pause, Turn 6, Unpause, Turn 7]" l env 99 1] by fastforce
qed

lemma position_jumps_witness:
  "\<forall>l env. \<exists>paused unpaused. profiler_run (l\<lparr>lk_sends := True\<rparr>) env [Start, Turn 10, Pause, Turn 70]
      (demo_profiler, demo_tied, demo_objects) = Value paused \<and>
    profiler_run (l\<lparr>lk_sends := True\<rparr>) env [Unpause, Turn 80] paused = Value unpaused \<and>
    ppg_session_get_position 81 (pf_session (fst paused)) = 60 \<and>
    ppg_session_get_position 81 (pf_session (fst unpaused)) = 1"
proof (intro allI)
  fix l :: dbus_link and env
  let ?l = "l\<lparr>lk_sends := True\<rparr>"
  have "pf_awaited demo_profiler = []" "lk_sends ?l" by (simp_all add: demo_profiler_def)
  moreover have "\<exists>w. pka_channel_start (env_spawn (lk_env ?l)) (env_tmp (lk_env ?l)) 1 DEFAULT_CONTEXT (ag_world demo_tied) = (Ok (), w)"
    by (simp add: pka_channel_start_def channel_start_locked_def ensure_ready_def reset_if_stopped_def demo_tied_state
        pka_channel_init_def pka_channel_init_spawn_info_locked_def channel_spawn_def)
  ultimately obtain paused unpaused stopped where run:
    "profiler_run ?l env [Start, Turn 10, Pause, Turn 70] (demo_profiler, demo_tied, demo_objects) = Value paused"
    "profiler_run ?l env [Unpause, Turn 80] paused = Value unpaused"
    "\<forall>now. ppg_session_get_position now (pf_session (fst paused)) = 70 - 10 \<and>
      ppg_session_get_position now (pf_session (fst unpaused)) = now - 80 \<and>
      ppg_session_get_position now (pf_session (fst (stopped :: profiled))) = 90 - 80"
    using position_jumps [OF demo_steers, of ?l _ env 10 70 80 90 95] by blast
  show "\<exists>paused unpaused. profiler_run ?l env [Start, Turn 10, Pause, Turn 70]
      (demo_profiler, demo_tied, demo_objects) = Value paused \<and>
    profiler_run ?l env [Unpause, Turn 80] paused = Value unpaused \<and>
    ppg_session_get_position 81 (pf_session (fst paused)) = 60 \<and>
    ppg_session_get_position 81 (pf_session (fst unpaused)) = 1"
    using run(1,2) spec [OF run(3), of 81]
    by - (rule exI [of _ paused], rule exI [of _ unpaused], simp del: profiler_run.simps)
qed

section \<open>The task that edits a channel\<close>









end
