(* ===== verification/Ppg_Instruments.thy ===== *)
theory Ppg_Instruments
  imports Ppg_Model Pk_Connection
begin

text \<open>
  perfkit-profiler/ppg-instrument.c, ppg-cpu-instrument.c and ppg-memory-instrument.c: the instruments of the profiler,
  which make a source and a subscription at the agent, keep what comes in models, and show it in visualizers; and
  ppg-line-visualizer.c and ppg-color.c as far as they say which lines are drawn in which colour.
\<close>

section \<open>Colours\<close>

definition default_colors :: "string list" where
  "default_colors =
     [''#3465a4'', ''#4e9a06'', ''#cc0000'', ''#f57900'', ''#555753'', ''#75507b'', ''#c35c00'', ''#729fcf'', ''#c17d11'',
      ''#fcaf3e'']"

record color_iter =
  co_color :: string
  co_mod :: guint

definition ppg_color_iter_init :: color_iter where
  "ppg_color_iter_init = \<lparr>co_color = default_colors ! 0, co_mod = 0\<rparr>"

definition ppg_color_iter_next :: "color_iter \<Rightarrow> color_iter" where
  "ppg_color_iter_next iter =
     (let m = co_mod iter + 1 in
        \<lparr>co_color = default_colors ! unat (m mod word_of_nat (length default_colors)), co_mod = m\<rparr>)"

section \<open>Lines\<close>

text \<open>The models that lines show: that of a processor, and that of the memory.\<close>

datatype line_model = Model_Of_Cpu gint | Model_Of_Memory

record viz_line =
  vl_model :: line_model
  vl_key :: gint
  vl_color :: string
  vl_title :: cstring
  vl_fill :: bool

record visualizer =
  vz_name :: string
  vz_title :: string
  vz_lines :: "viz_line list"

definition ppg_line_visualizer_append ::
  "cstring \<Rightarrow> string option \<Rightarrow> bool \<Rightarrow> line_model \<Rightarrow> gint \<Rightarrow> visualizer \<Rightarrow> visualizer" where
  "ppg_line_visualizer_append name color fill model key v =
     v\<lparr>vz_lines := vz_lines v @
         [\<lparr>vl_model = model, vl_key = key, vl_color = (case color of Some c \<Rightarrow> c | None \<Rightarrow> ''#000''), vl_title = name,
           vl_fill = fill\<rparr>]\<rparr>"

text \<open>The colour that is drawn with is not that of the line, but goes by its place.\<close>

fun draw_lines ::
  "nat \<Rightarrow> model_env \<Rightarrow> (line_model \<Rightarrow> ppg_model) \<Rightarrow> color_iter \<Rightarrow> viz_line list \<Rightarrow>
     (string \<times> (timespec \<times> g_value) list) list outcome" where
  "draw_lines depth e models color [] = Value []"
| "draw_lines depth e models color (line # lines) =
     (case draw_line depth e (models (vl_model line)) (vl_key line) of
        Value ps \<Rightarrow>
          (case draw_lines depth e models (ppg_color_iter_next color) lines of
             Value rest \<Rightarrow> Value ((co_color color, ps) # rest) | Failed \<Rightarrow> Failed | Fault \<Rightarrow> Fault)
      | Failed \<Rightarrow> Failed
      | Fault \<Rightarrow> Fault)"

definition ppg_line_visualizer_draw ::
  "nat \<Rightarrow> model_env \<Rightarrow> (line_model \<Rightarrow> ppg_model) \<Rightarrow> visualizer \<Rightarrow>
     (string \<times> (timespec \<times> g_value) list) list outcome" where
  "ppg_line_visualizer_draw depth e models v = draw_lines depth e models ppg_color_iter_init (vz_lines v)"

section \<open>Instruments\<close>

datatype visualizer_cb = Combined_Cb | Process_Cb

record visualizer_entry =
  ve_name :: string
  ve_title :: string
  ve_callback :: "visualizer_cb option"

text \<open>
  \<open>in_visualizers\<close>: the visualizers that are shown, the newest first, as places in \<open>in_store\<close>, where all that were made
  are. The number of the source and of the subscription stand in the structures of both instruments.
\<close>

record ppg_instrument =
  in_failed :: bool
  in_name :: "cstring option"
  in_factories :: "visualizer_entry list"
  in_visualizers :: "nat list"
  in_store :: "visualizer list"
  in_source :: gint
  in_sub :: gint

definition ppg_instrument_init :: ppg_instrument where
  "ppg_instrument_init =
     \<lparr>in_failed = False, in_name = None, in_factories = [], in_visualizers = [], in_store = [], in_source = 0,
      in_sub = 0\<rparr>"

definition ppg_instrument_set_name :: "cstring option \<Rightarrow> 'a ppg_instrument_scheme \<Rightarrow> 'a ppg_instrument_scheme" where
  "ppg_instrument_set_name name i = i\<lparr>in_name := name\<rparr>"

definition ppg_instrument_get_visualizers :: "'a ppg_instrument_scheme \<Rightarrow> nat list" where
  "ppg_instrument_get_visualizers i = in_visualizers i"

definition ppg_instrument_register_visualizer ::
  "visualizer_entry \<Rightarrow> 'a ppg_instrument_scheme \<Rightarrow> 'a ppg_instrument_scheme" where
  "ppg_instrument_register_visualizer entry i =
     (if ve_callback entry = None then i else i\<lparr>in_factories := in_factories i @ [entry]\<rparr>)"

definition ppg_instrument_register_visualizers ::
  "visualizer_entry list \<Rightarrow> 'a ppg_instrument_scheme \<Rightarrow> 'a ppg_instrument_scheme" where
  "ppg_instrument_register_visualizers entries i = fold ppg_instrument_register_visualizer entries i"

definition ppg_instrument_visualizer_added :: "nat \<Rightarrow> 'a ppg_instrument_scheme \<Rightarrow> 'a ppg_instrument_scheme" where
  "ppg_instrument_visualizer_added v i = i\<lparr>in_visualizers := v # in_visualizers i\<rparr>"

definition ppg_instrument_visualizer_removed :: "nat \<Rightarrow> 'a ppg_instrument_scheme \<Rightarrow> 'a ppg_instrument_scheme" where
  "ppg_instrument_visualizer_removed v i = i\<lparr>in_visualizers := remove1 v (in_visualizers i)\<rparr>"

text \<open>\<open>mk\<close>: the callbacks of the entries, each of which makes a visualizer. The last one made is added.\<close>

fun make_visualizers ::
  "(visualizer_cb \<Rightarrow> 'i \<Rightarrow> nat \<times> 'i) \<Rightarrow> string \<Rightarrow> visualizer_entry list \<Rightarrow> nat option \<times> 'i \<Rightarrow> nat option \<times> 'i" where
  "make_visualizers mk name [] st = st"
| "make_visualizers mk name (entry # entries) (v, i) =
     make_visualizers mk name entries
       (if ve_name entry = name
        then (case ve_callback entry of
                None \<Rightarrow> (v, i) | Some cb \<Rightarrow> (case mk cb i of (v, i) \<Rightarrow> (Some v, i)))
        else (v, i))"

definition ppg_instrument_add_visualizer ::
  "(visualizer_cb \<Rightarrow> 'a ppg_instrument_scheme \<Rightarrow> nat \<times> 'a ppg_instrument_scheme) \<Rightarrow> string \<Rightarrow>
     'a ppg_instrument_scheme \<Rightarrow> 'a ppg_instrument_scheme" where
  "ppg_instrument_add_visualizer mk name i =
     (case make_visualizers mk name (in_factories i) (None, i) of
        (None, i) \<Rightarrow> i | (Some v, i) \<Rightarrow> ppg_instrument_visualizer_added v i)"

definition ppg_instrument_remove_visualizer :: "nat \<Rightarrow> 'a ppg_instrument_scheme \<Rightarrow> 'a ppg_instrument_scheme" where
  "ppg_instrument_remove_visualizer v i =
     (if v \<notin> set (in_visualizers i) then i
      else ppg_instrument_visualizer_removed v (i\<lparr>in_visualizers := remove1 v (in_visualizers i)\<rparr>))"

definition ppg_instrument_remove_visualizer_named ::
  "string \<Rightarrow> 'a ppg_instrument_scheme \<Rightarrow> 'a ppg_instrument_scheme" where
  "ppg_instrument_remove_visualizer_named name i =
     (case find (\<lambda>v. vz_name (in_store i ! v) = name) (in_visualizers i) of
        None \<Rightarrow> i | Some v \<Rightarrow> ppg_instrument_remove_visualizer v i)"

definition ppg_instrument_get_visualizer_entries :: "'a ppg_instrument_scheme \<Rightarrow> visualizer_entry list" where
  "ppg_instrument_get_visualizer_entries i = fold (#) (in_factories i) []"

text \<open>A visualizer is made: its place, and the instrument.\<close>

definition new_visualizer :: "visualizer \<Rightarrow> 'a ppg_instrument_scheme \<Rightarrow> nat \<times> 'a ppg_instrument_scheme" where
  "new_visualizer v i = (length (in_store i), i\<lparr>in_store := in_store i @ [v]\<rparr>)"

section \<open>Loading\<close>

text \<open>
  The macro \<open>RPC_OR_FAILURE\<close> around a blocking call: the next call is made when this one has succeeded. An error that came
  over the bus has set what was to be returned to 0 (\<open>clear\<close>).
\<close>

definition RPC_OR_FAILURE ::
  "'a returned \<times> 's \<Rightarrow> ('i \<Rightarrow> 'i) \<Rightarrow> ('a \<Rightarrow> 'i \<Rightarrow> 's \<Rightarrow> unit returned \<times> 'i \<times> 's) \<Rightarrow> 'i \<Rightarrow> unit returned \<times> 'i \<times> 's" where
  "RPC_OR_FAILURE r clear next i =
     (case r of
        (Returned (Finish_True x), st) \<Rightarrow> next x i st
      | (Returned (Finish_Error (Rpc e)), st) \<Rightarrow> (Returned (Finish_Error (Rpc e)), clear i, st)
      | (Returned (Finish_Error e), st) \<Rightarrow> (Returned (Finish_Error e), i, st)
      | (Returned Finish_Quiet, st) \<Rightarrow> (Returned Finish_Quiet, i, st)
      | (Never_Returns, st) \<Rightarrow> (Never_Returns, i, st)
      | (Client_Crash, st) \<Rightarrow> (Client_Crash, i, st))"

text \<open>
  The same in both instruments, but for the name of the plugin and the visualizer. The handlers are set last, and the
  callback of that only logs.
\<close>

definition instrument_load ::
  "cstring \<Rightarrow> ('a ppg_instrument_scheme \<Rightarrow> 'a ppg_instrument_scheme) \<Rightarrow> connection_class option \<Rightarrow> dbus_link \<Rightarrow> byte_order \<Rightarrow>
     gint \<Rightarrow> 'a ppg_instrument_scheme \<Rightarrow> (gint \<times> pk_connection) \<times> agent \<times> dbus_listener \<Rightarrow>
     unit returned \<times> 'a ppg_instrument_scheme \<times> (gint \<times> pk_connection) \<times> agent \<times> dbus_listener" where
  "instrument_load plugin visualize conn l ord channel i st =
     (case st of (client, st) \<Rightarrow>
        (case RPC_OR_FAILURE (pk_connection_manager_add_source conn l (Some plugin) st) (in_source_update (\<lambda>_. 0))
           (\<lambda>source i st.
              let i = i\<lparr>in_source := source\<rparr> in
              RPC_OR_FAILURE (pk_connection_channel_add_source conn l channel (in_source i) st) (\<lambda>i. i)
                (\<lambda>_ i st.
                   RPC_OR_FAILURE (pk_connection_manager_add_subscription conn l ord 0 0 st) (in_sub_update (\<lambda>_. 0))
                     (\<lambda>sub i st.
                        let i = i\<lparr>in_sub := sub\<rparr> in
                        RPC_OR_FAILURE (pk_connection_subscription_add_source conn l (in_sub i) (in_source i) st) (\<lambda>i. i)
                          (\<lambda>_ i st. (Returned (Finish_True ()), i, st)) i) i) i) i of
           (Returned (Finish_True ()), i, st) \<Rightarrow>
             (case pk_connection_subscription_set_handlers_async conn (fst client) (in_sub i) (snd client) of
                (_, client) \<Rightarrow> (Returned (Finish_True ()), visualize i, client, st))
         | (r, i, st) \<Rightarrow> (r, i, client, st)))"

definition instrument_unload ::
  "connection_class option \<Rightarrow> dbus_link \<Rightarrow> 'a ppg_instrument_scheme \<Rightarrow> agent \<times> dbus_listener \<Rightarrow>
     unit returned \<times> 'a ppg_instrument_scheme \<times> agent \<times> dbus_listener" where
  "instrument_unload conn l i st =
     (case RPC_OR_FAILURE (pk_connection_manager_remove_subscription conn l (in_sub i) st) (\<lambda>i. i)
        (\<lambda>_ i st.
           RPC_OR_FAILURE (pk_connection_manager_remove_source conn l (in_source i) st) (\<lambda>i. i)
             (\<lambda>_ i st. (Returned (Finish_True ()), i, st)) i) i of
        (r, i, st) \<Rightarrow> (r, i\<lparr>in_sub := 0, in_source := 0\<rparr>, st))"

text \<open>\<open>Fault\<close>: the message of an error that is not there. None: the load never returns, or the client dies in it.\<close>

definition ppg_instrument_set_session ::
  "('a ppg_instrument_scheme \<Rightarrow> 's \<Rightarrow> unit returned \<times> 'a ppg_instrument_scheme \<times> 's) \<Rightarrow> 'a ppg_instrument_scheme \<Rightarrow> 's \<Rightarrow>
     ('a ppg_instrument_scheme \<times> 's) outcome option" where
  "ppg_instrument_set_session load i st =
     (case load i st of
        (Returned (Finish_True _), i, st) \<Rightarrow> Some (Value (i, st))
      | (Returned (Finish_Error _), i, st) \<Rightarrow> Some (Value (i\<lparr>in_failed := True\<rparr>, st))
      | (Returned Finish_Quiet, i, st) \<Rightarrow> Some Fault
      | _ \<Rightarrow> None)"

section \<open>Processors\<close>

text \<open>
  \<open>ci_models\<close> is a hash table by the number of the processor; \<open>ci_cmb_viz\<close> the combined visualizers, the newest first.
\<close>

record cpu_instrument = ppg_instrument +
  ci_models :: "gint \<rightharpoonup> ppg_model"
  ci_cmb_viz :: "nat list"

definition cpu_title :: "gint \<Rightarrow> cstring" where
  "cpu_title cpu = ascii ''CPU '' @ fmt_int cpu"

text \<open>\<open>keys\<close>: the processors of the table, in the order in which it is iterated over.\<close>

definition ppg_cpu_instrument_combined_cb :: "gint list \<Rightarrow> cpu_instrument \<Rightarrow> nat \<times> cpu_instrument" where
  "ppg_cpu_instrument_combined_cb keys i =
     (case fold (\<lambda>cpu (v, color).
          (ppg_line_visualizer_append (cpu_title cpu) (Some (co_color color)) False (Model_Of_Cpu cpu) COLUMN_COOKED v,
           ppg_color_iter_next color)) keys
        (\<lparr>vz_name = ''combined'', vz_title = ''Combined Cpu Usage'', vz_lines = []\<rparr>, ppg_color_iter_init) of
        (v, _) \<Rightarrow>
          (case new_visualizer v i of (n, i) \<Rightarrow> (n, i\<lparr>ci_cmb_viz := n # ci_cmb_viz i\<rparr>)))"

definition cpu_entries :: "visualizer_entry list" where
  "cpu_entries = [\<lparr>ve_name = ''combined'', ve_title = ''Combined CPU Usage'', ve_callback = Some Combined_Cb\<rparr>]"

definition ppg_cpu_instrument_init :: cpu_instrument where
  "ppg_cpu_instrument_init = ppg_instrument_register_visualizers cpu_entries
     (ppg_instrument.extend ppg_instrument_init \<lparr>ci_models = Map.empty, ci_cmb_viz = []\<rparr>)"

text \<open>The model of a processor that is new: \<open>stamp\<close> is random.\<close>

definition cpu_model_new :: "gtypes \<Rightarrow> guint \<Rightarrow> ppg_model" where
  "cpu_model_new gt stamp =
     (let md = ppg_model_init stamp;
          md = ppg_model_add_mapping md COLUMN_CPUNUM (ascii ''CPU Number'') (gt G_TYPE_INT) PPG_MODEL_RAW;
          md = ppg_model_add_mapping md COLUMN_USER (ascii ''User'') (gt G_TYPE_INT) PPG_MODEL_COUNTER;
          md = ppg_model_add_mapping md COLUMN_NICE (ascii ''Nice'') (gt G_TYPE_INT) PPG_MODEL_COUNTER;
          md = ppg_model_add_mapping md COLUMN_SYSTEM (ascii ''System'') (gt G_TYPE_INT) PPG_MODEL_COUNTER;
          md = ppg_model_add_mapping md COLUMN_IDLE (ascii ''Idle'') (gt G_TYPE_INT) PPG_MODEL_COUNTER
      in ppg_model_add_mapping_func md COLUMN_COOKED Calc_Cpu)"

definition add_to_visualizer :: "gint \<Rightarrow> nat \<Rightarrow> cpu_instrument \<Rightarrow> cpu_instrument" where
  "add_to_visualizer cpu v i =
     i\<lparr>in_store := (in_store i)[v :=
        ppg_line_visualizer_append (cpu_title cpu) (Some (co_color ppg_color_iter_init)) False (Model_Of_Cpu cpu)
          COLUMN_COOKED (in_store i ! v)]\<rparr>"

definition get_model ::
  "gtypes \<Rightarrow> (gint \<Rightarrow> guint) \<Rightarrow> cpu_instrument \<Rightarrow> model_manifest \<Rightarrow> gint \<Rightarrow> ppg_model \<times> cpu_instrument" where
  "get_model gt stamps i manifest cpu =
     (case ci_models i cpu of
        Some md \<Rightarrow> (md, i)
      | None \<Rightarrow>
          (let md = ppg_model_insert_manifest (cpu_model_new gt (stamps cpu)) manifest;
               i = i\<lparr>ci_models := (ci_models i)(cpu \<mapsto> md)\<rparr>
           in (md, fold (add_to_visualizer cpu) (ci_cmb_viz i) i)))"

definition ppg_cpu_instrument_manifest_cb :: "model_manifest \<Rightarrow> cpu_instrument \<Rightarrow> cpu_instrument" where
  "ppg_cpu_instrument_manifest_cb manifest i =
     i\<lparr>ci_models := \<lambda>cpu. map_option (\<lambda>md. ppg_model_insert_manifest md manifest) (ci_models i cpu)\<rparr>"

text \<open>A value that is not an int is taken for 0.\<close>

definition cpu_of_sample :: "pk_manifest \<Rightarrow> pk_sample \<Rightarrow> gint" where
  "cpu_of_sample manifest sample =
     (case pk_sample_get_value sample (pk_manifest_get_row_id manifest (ascii ''CPU Number'')) of
        Some (V_INT cpu) \<Rightarrow> cpu | _ \<Rightarrow> 0)"

definition ppg_cpu_instrument_sample_cb ::
  "gtypes \<Rightarrow> (gint \<Rightarrow> guint) \<Rightarrow> model_manifest \<Rightarrow> pk_sample \<Rightarrow> cpu_instrument \<Rightarrow> cpu_instrument outcome" where
  "ppg_cpu_instrument_sample_cb gt stamps manifest sample i =
     (let cpu = cpu_of_sample (snd manifest) sample in
        case get_model gt stamps i manifest cpu of
          (md, i) \<Rightarrow>
            (case ppg_model_insert_sample md manifest sample of
               Value md \<Rightarrow> Value (i\<lparr>ci_models := (ci_models i)(cpu \<mapsto> md)\<rparr>) | Failed \<Rightarrow> Failed | Fault \<Rightarrow> Fault))"

definition cpu_visualizers :: "gint list \<Rightarrow> visualizer_cb \<Rightarrow> cpu_instrument \<Rightarrow> nat \<times> cpu_instrument" where
  "cpu_visualizers keys cb = ppg_cpu_instrument_combined_cb keys"

definition ppg_cpu_instrument_load ::
  "gint list \<Rightarrow> connection_class option \<Rightarrow> dbus_link \<Rightarrow> byte_order \<Rightarrow> gint \<Rightarrow> cpu_instrument \<Rightarrow>
     (gint \<times> pk_connection) \<times> agent \<times> dbus_listener \<Rightarrow>
     unit returned \<times> cpu_instrument \<times> (gint \<times> pk_connection) \<times> agent \<times> dbus_listener" where
  "ppg_cpu_instrument_load keys =
     instrument_load (ascii ''Cpu'') (ppg_instrument_add_visualizer (cpu_visualizers keys) ''combined'')"

definition ppg_cpu_instrument_unload ::
  "connection_class option \<Rightarrow> dbus_link \<Rightarrow> cpu_instrument \<Rightarrow> agent \<times> dbus_listener \<Rightarrow>
     unit returned \<times> cpu_instrument \<times> agent \<times> dbus_listener" where
  "ppg_cpu_instrument_unload = instrument_unload"

section \<open>Memory\<close>

record memory_instrument = ppg_instrument +
  mi_model :: ppg_model

definition COLUMN_SIZE :: gint where "COLUMN_SIZE = 0"
definition COLUMN_RESIDENT :: gint where "COLUMN_RESIDENT = 1"
definition COLUMN_SHARE :: gint where "COLUMN_SHARE = 2"
definition COLUMN_TEXT :: gint where "COLUMN_TEXT = 3"
definition COLUMN_DATA :: gint where "COLUMN_DATA = 4"

lemmas memory_columns = COLUMN_SIZE_def COLUMN_RESIDENT_def COLUMN_SHARE_def COLUMN_TEXT_def COLUMN_DATA_def

definition ppg_memory_instrument_process_cb :: "memory_instrument \<Rightarrow> nat \<times> memory_instrument" where
  "ppg_memory_instrument_process_cb i =
     (let c0 = ppg_color_iter_init; c1 = ppg_color_iter_next c0; c2 = ppg_color_iter_next c1;
          c3 = ppg_color_iter_next c2; c4 = ppg_color_iter_next c3;
          add = (\<lambda>name color. ppg_line_visualizer_append (ascii name) (Some (co_color color)) False Model_Of_Memory);
          v = \<lparr>vz_name = ''process'', vz_title = ''Process Memory Usage'', vz_lines = []\<rparr>;
          v = add ''Size'' c0 COLUMN_SIZE v;
          v = add ''Resident'' c1 COLUMN_RESIDENT v;
          v = add ''Share'' c2 COLUMN_SHARE v;
          v = add ''Text'' c3 COLUMN_TEXT v;
          v = add ''Data'' c4 COLUMN_DATA v
      in new_visualizer v i)"

definition memory_entries :: "visualizer_entry list" where
  "memory_entries = [\<lparr>ve_name = ''process'', ve_title = ''Process Memory Usage'', ve_callback = Some Process_Cb\<rparr>]"

definition ppg_memory_instrument_init :: "gtypes \<Rightarrow> guint \<Rightarrow> memory_instrument" where
  "ppg_memory_instrument_init gt stamp =
     (let add = (\<lambda>key name md. ppg_model_add_mapping md key (ascii name) (gt G_TYPE_UINT) PPG_MODEL_RAW);
          md = ppg_model_init stamp;
          md = add COLUMN_SIZE ''size'' md;
          md = add COLUMN_RESIDENT ''resident'' md;
          md = add COLUMN_SHARE ''share'' md;
          md = add COLUMN_TEXT ''text'' md;
          md = add COLUMN_DATA ''data'' md
      in ppg_instrument_register_visualizers memory_entries (ppg_instrument.extend ppg_instrument_init \<lparr>mi_model = md\<rparr>))"

definition ppg_memory_instrument_manifest_cb :: "model_manifest \<Rightarrow> memory_instrument \<Rightarrow> memory_instrument" where
  "ppg_memory_instrument_manifest_cb manifest i = i\<lparr>mi_model := ppg_model_insert_manifest (mi_model i) manifest\<rparr>"

definition ppg_memory_instrument_sample_cb ::
  "model_manifest \<Rightarrow> pk_sample \<Rightarrow> memory_instrument \<Rightarrow> memory_instrument outcome" where
  "ppg_memory_instrument_sample_cb manifest sample i =
     (case ppg_model_insert_sample (mi_model i) manifest sample of
        Value md \<Rightarrow> Value (i\<lparr>mi_model := md\<rparr>) | Failed \<Rightarrow> Failed | Fault \<Rightarrow> Fault)"

definition memory_visualizers :: "visualizer_cb \<Rightarrow> memory_instrument \<Rightarrow> nat \<times> memory_instrument" where
  "memory_visualizers cb = ppg_memory_instrument_process_cb"

definition ppg_memory_instrument_load ::
  "connection_class option \<Rightarrow> dbus_link \<Rightarrow> byte_order \<Rightarrow> gint \<Rightarrow> memory_instrument \<Rightarrow>
     (gint \<times> pk_connection) \<times> agent \<times> dbus_listener \<Rightarrow>
     unit returned \<times> memory_instrument \<times> (gint \<times> pk_connection) \<times> agent \<times> dbus_listener" where
  "ppg_memory_instrument_load =
     instrument_load (ascii ''Memory'') (ppg_instrument_add_visualizer memory_visualizers ''process'')"

definition ppg_memory_instrument_unload ::
  "connection_class option \<Rightarrow> dbus_link \<Rightarrow> memory_instrument \<Rightarrow> agent \<times> dbus_listener \<Rightarrow>
     unit returned \<times> memory_instrument \<times> agent \<times> dbus_listener" where
  "ppg_memory_instrument_unload = instrument_unload"

end
