(* ===== verification/Ppg_Instrument_Properties.thy ===== *)
theory Ppg_Instrument_Properties
  imports Ppg_Instruments Source_Properties
begin

text \<open>What the lines of the instruments show of the samples, and of what the kernel printed.\<close>

section \<open>The model of a processor\<close>

text \<open>The names of the rows that the columns of an instrument are looked up by, with their numbers.\<close>

definition cpu_columns_named :: "gtypes \<Rightarrow> pk_manifest \<Rightarrow> bool" where
  "cpu_columns_named gt man \<longleftrightarrow>
     (\<forall>(row, name) \<in> {(1, ''CPU Number''), (2, ''User''), (3, ''Nice''), (4, ''System''), (5, ''Idle'')}.
        pk_manifest_get_row_id man (ascii name) = row \<and> pk_manifest_get_row_type gt man row = Some (gt G_TYPE_INT))"

definition int_field :: "pk_sample \<Rightarrow> gint \<Rightarrow> gint" where
  "int_field s row = (case pk_sample_get_value s row of Some (V_INT i) \<Rightarrow> i | _ \<Rightarrow> 0)"

definition cpu_fields_sent :: "pk_sample \<Rightarrow> bool" where
  "cpu_fields_sent s \<longleftrightarrow> (\<forall>row \<in> {1, 2, 3, 4, 5}. pk_sample_get_value s row = Some (V_INT (int_field s row)))"

text \<open>What a processor has done: the time it was busy, and the time in all.\<close>

definition busy :: "pk_sample \<Rightarrow> gint" where
  "busy s = int_field s 2 + int_field s 3 + int_field s 4"

definition elapsed :: "pk_sample \<Rightarrow> gint" where
  "elapsed s = busy s + int_field s 5"

text \<open>The point of a line that stands for the sample \<open>j\<close> of a processor: what was done since the sample before.\<close>

definition load_point :: "model_env \<Rightarrow> model_manifest \<Rightarrow> pk_sample list \<Rightarrow> nat \<Rightarrow> timespec \<times> g_value" where
  "load_point e m ss j =
     (timespec_subtract (pk_sample_get_timespec (ss ! j)) (pk_manifest_get_timespec (snd m)),
      V_DOUBLE (if j = 0 then mo_percent e 0 0
        else mo_percent e (busy (ss ! j) - busy (ss ! (j - 1))) (elapsed (ss ! j) - elapsed (ss ! (j - 1)))))"

text \<open>The model that has got one manifest, and then samples.\<close>

definition cpu_model_of :: "gtypes \<Rightarrow> guint \<Rightarrow> model_manifest \<Rightarrow> pk_sample list \<Rightarrow> ppg_model" where
  "cpu_model_of gt stamp m ss =
     (cpu_model_new gt stamp)\<lparr>md_manifest := Some m, md_sample_count := word_of_nat (length ss), md_manifests := [m],
       md_samples := ss\<rparr>"

lemma cpu_model_new_simps [simp]:
  "md_manifest (cpu_model_new gt stamp) = None" "md_sample_count (cpu_model_new gt stamp) = 0"
  "md_manifests (cpu_model_new gt stamp) = []" "md_samples (cpu_model_new gt stamp) = []"
  "md_next_manifests (cpu_model_new gt stamp) = Map.empty" "md_stamp (cpu_model_new gt stamp) = stamp"
  by (simp_all add: cpu_model_new_def Let_def ppg_model_init_def ppg_model_add_mapping_def ppg_model_add_mapping_func_def)

lemma cpu_model_started: "ppg_model_insert_manifest (cpu_model_new gt stamp) m = cpu_model_of gt stamp m []"
  by (simp add: ppg_model_insert_manifest_def cpu_model_of_def)

lemma cpu_model_sampled:
  "ppg_model_insert_sample (cpu_model_of gt stamp m ss) m s = Value (cpu_model_of gt stamp m (ss @ [s]))"
  by (simp add: ppg_model_insert_sample_def cpu_model_of_def add.commute)

definition counter :: "gtypes \<Rightarrow> gint \<Rightarrow> string \<Rightarrow> mapping" where
  "counter gt key name =
     \<lparr>mp_key = key, mp_type = PPG_MODEL_COUNTER, mp_name = ascii name, mp_expected = gt G_TYPE_INT, mp_func = None\<rparr>"

lemma cpu_mappings:
  "md_mappings (cpu_model_of gt stamp m ss) COLUMN_USER = Some (counter gt COLUMN_USER ''User'')"
  "md_mappings (cpu_model_of gt stamp m ss) COLUMN_NICE = Some (counter gt COLUMN_NICE ''Nice'')"
  "md_mappings (cpu_model_of gt stamp m ss) COLUMN_SYSTEM = Some (counter gt COLUMN_SYSTEM ''System'')"
  "md_mappings (cpu_model_of gt stamp m ss) COLUMN_IDLE = Some (counter gt COLUMN_IDLE ''Idle'')"
  "md_mappings (cpu_model_of gt stamp m ss) COLUMN_COOKED =
     Some \<lparr>mp_key = COLUMN_COOKED, mp_type = PPG_MODEL_RAW, mp_name = [], mp_expected = 0, mp_func = Some Calc_Cpu\<rparr>"
  by (simp_all add: cpu_model_of_def cpu_model_new_def Let_def ppg_model_init_def ppg_model_add_mapping_def
      ppg_model_add_mapping_func_def counter_def cpu_columns)

section \<open>Values and points\<close>

definition iter_of :: "guint \<Rightarrow> model_manifest \<Rightarrow> pk_sample list \<Rightarrow> nat \<Rightarrow> model_iter" where
  "iter_of stamp m ss j =
     \<lparr>it_stamp = stamp,
      it_time = timespec_subtract (pk_sample_get_timespec (ss ! j)) (pk_manifest_get_timespec (snd m)),
      it_manifest = m, it_sample = ss ! j, it_index = j\<rparr>"

text \<open>A counter is 0 at first, and then the difference to the sample before.\<close>

lemma counter_value:
  assumes "cpu_columns_named (mo_gt e) (snd m)" "\<forall>s \<in> set ss. cpu_fields_sent s" "j < length ss"
    and "(row, name) \<in> {(2, ''User''), (3, ''Nice''), (4, ''System''), (5, ''Idle'')}"
  shows "row_value e (cpu_model_of (mo_gt e) stamp m ss) (iter_of stamp m ss j) (counter (mo_gt e) key name) =
    Value (Some (V_INT (if j = 0 then 0 else int_field (ss ! j) row - int_field (ss ! (j - 1)) row)))"
proof -
  have row: "pk_manifest_get_row_id (snd m) (ascii name) = row"
    "pk_manifest_get_row_type (mo_gt e) (snd m) row = Some (mo_gt e G_TYPE_INT)"
    using assms(1,4) by (auto simp: cpu_columns_named_def)
  have "pk_sample_get_value (ss ! k) row = Some (V_INT (int_field (ss ! k) row))" if "k \<le> j" for k
  proof -
    have "cpu_fields_sent (ss ! k)" using assms(2,3) that by simp
    then show ?thesis using assms(4) by (auto simp: cpu_fields_sent_def)
  qed
  then have sent: "pk_sample_get_value (ss ! j) row = Some (V_INT (int_field (ss ! j) row))"
    "pk_sample_get_value (ss ! (j - 1)) row = Some (V_INT (int_field (ss ! (j - 1)) row))" by simp_all
  moreover have "\<not> length ss \<le> j - 1" using assms(3) by linarith
  ultimately show ?thesis
    by (simp add: row_value_def counter_def row iter_of_def cpu_model_of_def g_value_init_def Let_def)
qed

lemma cooked_value:
  assumes "cpu_columns_named (mo_gt e) (snd m)" "\<forall>s \<in> set ss. cpu_fields_sent s" "j < length ss"
  shows "ppg_model_get_value 1 e (cpu_model_of (mo_gt e) stamp m ss) (iter_of stamp m ss j) COLUMN_COOKED =
    Value (Some (snd (load_point e m ss j)))"
proof -
  note read = counter_value [OF assms, where stamp = stamp]
  have "mapping_get_value 0 e md it (counter gt key name) = row_value e md it (counter gt key name)" for md it gt key name
    by (simp add: counter_def)
  then show ?thesis
    using read [where row = 2 and name = "''User''" and key = COLUMN_USER] read [where row = 3 and name = "''Nice''" and key = COLUMN_NICE] read [where row = 4 and name = "''System''" and key = COLUMN_SYSTEM]
      read [where row = 5 and name = "''Idle''" and key = COLUMN_IDLE]
    by (simp add: ppg_model_get_value_def cpu_mappings ppg_cpu_instrument_calc_cpu_def load_point_def busy_def elapsed_def
        algebra_simps) (simp add: iter_of_def cpu_model_of_def)
qed

lemma iter_next_of:
  "ppg_model_iter_next (cpu_model_of gt stamp m ss) (iter_of stamp m ss j) =
    Value (if Suc j < length ss then Some (iter_of stamp m ss (Suc j)) else None)"
  by (simp add: ppg_model_iter_next_def iter_of_def cpu_model_of_def Let_def ppg_model_make_relative_def)

lemma points_of:
  assumes "cpu_columns_named (mo_gt e) (snd m)" "\<forall>s \<in> set ss. cpu_fields_sent s" "j < length ss"
  shows "line_points 1 e (cpu_model_of (mo_gt e) stamp m ss) COLUMN_COOKED (iter_of stamp m ss j) =
    Value (map (load_point e m ss) [j..<length ss])"
  using assms(3)
proof (induction "length ss - j" arbitrary: j)
  case (Suc n)
  have point: "(it_time (iter_of stamp m ss j), snd (load_point e m ss j)) = load_point e m ss j"
    "drawable (snd (load_point e m ss j))"
    by (simp_all add: iter_of_def load_point_def)
  show ?case
  proof (cases "Suc j < length ss")
    case True
    then have "line_points 1 e (cpu_model_of (mo_gt e) stamp m ss) COLUMN_COOKED (iter_of stamp m ss (Suc j)) =
        Value (map (load_point e m ss) [Suc j..<length ss])"
      using Suc.hyps(1) [of "Suc j"] Suc.hyps(2) by simp
    then show ?thesis
      using True point by (subst line_points.simps)
        (simp add: cooked_value [OF assms(1,2) Suc.prems] iter_next_of upt_conv_Cons del: One_nat_def)
  next
    case False
    then have "[j..<length ss] = [j]" using Suc.prems by (simp add: upt_conv_Cons)
    then show ?thesis
      using False point by (subst line_points.simps) (simp add: cooked_value [OF assms(1,2) Suc.prems] iter_next_of del: One_nat_def)
  qed
qed simp

lemma line_of_cpu:
  assumes "cpu_columns_named (mo_gt e) (snd m)" "\<forall>s \<in> set ss. cpu_fields_sent s" "ss \<noteq> []"
  shows "draw_line 1 e (cpu_model_of (mo_gt e) stamp m ss) COLUMN_COOKED = Value (map (load_point e m ss) [0..<length ss])"
proof -
  have "ppg_model_get_iter_first (cpu_model_of (mo_gt e) stamp m ss) = Value (Some (iter_of stamp m ss 0))"
    using assms(3) by (cases ss) (simp_all add: ppg_model_get_iter_first_def cpu_model_of_def iter_of_def
        ppg_model_make_relative_def)
  then show ?thesis using points_of [OF assms(1,2), of 0] assms(3) by (simp add: draw_line_def)
qed

section \<open>The instrument\<close>

fun feed_samples ::
  "gtypes \<Rightarrow> (gint \<Rightarrow> guint) \<Rightarrow> model_manifest \<Rightarrow> pk_sample list \<Rightarrow> cpu_instrument \<Rightarrow> cpu_instrument outcome" where
  "feed_samples gt stamps m [] i = Value i"
| "feed_samples gt stamps m (s # ss) i =
     (case ppg_cpu_instrument_sample_cb gt stamps m s i of
        Value i \<Rightarrow> feed_samples gt stamps m ss i | Failed \<Rightarrow> Failed | Fault \<Rightarrow> Fault)"

text \<open>The processors in the order in which they came first, and the samples of one.\<close>

definition in_order :: "pk_sample list \<Rightarrow> gint list" where
  "in_order ss = rev (remdups (rev (map (\<lambda>s. int_field s 1) ss)))"

definition of_cpu :: "gint \<Rightarrow> pk_sample list \<Rightarrow> pk_sample list" where
  "of_cpu c ss = filter (\<lambda>s. int_field s 1 = c) ss"

lemma in_order_snoc:
  "in_order (ss @ [s]) =
    (if int_field s 1 \<in> (\<lambda>s. int_field s 1) ` set ss then in_order ss else in_order ss @ [int_field s 1])"
  by (simp add: in_order_def)

lemma set_in_order [simp]: "set (in_order ss) = (\<lambda>s. int_field s 1) ` set ss"
  by (simp add: in_order_def)

definition line_for :: "gint \<Rightarrow> viz_line" where
  "line_for c =
     \<lparr>vl_model = Model_Of_Cpu c, vl_key = COLUMN_COOKED, vl_color = co_color ppg_color_iter_init, vl_title = cpu_title c,
      vl_fill = False\<rparr>"

text \<open>The instrument after it has got a manifest and samples, with the visualizer that loading has made.\<close>

definition showing :: "gtypes \<Rightarrow> (gint \<Rightarrow> guint) \<Rightarrow> model_manifest \<Rightarrow> pk_sample list \<Rightarrow> cpu_instrument \<Rightarrow> bool" where
  "showing gt stamps m ss i \<longleftrightarrow>
     ci_models i = (\<lambda>c. if c \<in> set (in_order ss) then Some (cpu_model_of gt (stamps c) m (of_cpu c ss)) else None) \<and>
     ci_cmb_viz i = [0] \<and> (\<exists>v. in_store i = [v] \<and> vz_lines v = map line_for (in_order ss))"

lemma sample_shown:
  assumes "showing gt stamps m ss i" "cpu_columns_named gt (snd m)" "cpu_fields_sent s"
  shows "\<exists>i'. ppg_cpu_instrument_sample_cb gt stamps m s i = Value i' \<and> showing gt stamps m (ss @ [s]) i'"
proof -
  let ?c = "int_field s 1"
  have cpu: "cpu_of_sample (snd m) s = ?c"
    using assms(2,3) by (simp add: cpu_of_sample_def cpu_columns_named_def cpu_fields_sent_def)
  show ?thesis
  proof (cases "?c \<in> set (in_order ss)")
    case True
    then show ?thesis
      using assms(1)
      by (simp add: ppg_cpu_instrument_sample_cb_def cpu get_model_def showing_def cpu_model_sampled in_order_snoc of_cpu_def
          fun_eq_iff Let_def)
  next
    case False
    then have none: "filter (\<lambda>x. int_field x 1 = ?c) ss = []" by (auto simp: filter_empty_conv image_iff)
    have "ci_models i ?c = None" using False assms(1) by (simp add: showing_def)
    then show ?thesis
      using False assms(1)
      by (auto simp: none ppg_cpu_instrument_sample_cb_def cpu get_model_def showing_def cpu_model_started cpu_model_sampled
          in_order_snoc of_cpu_def fun_eq_iff Let_def add_to_visualizer_def ppg_line_visualizer_append_def line_for_def)
  qed
qed

lemma samples_shown:
  assumes "showing gt stamps m ss i" "cpu_columns_named gt (snd m)" "\<forall>s \<in> set ss'. cpu_fields_sent s"
  shows "\<exists>i'. feed_samples gt stamps m ss' i = Value i' \<and> showing gt stamps m (ss @ ss') i'"
  using assms(1,3)
proof (induction ss' arbitrary: ss i)
  case (Cons s ss')
  obtain i' where "ppg_cpu_instrument_sample_cb gt stamps m s i = Value i'" "showing gt stamps m (ss @ [s]) i'"
    using sample_shown [OF Cons.prems(1) assms(2)] Cons.prems(2) by auto
  then show ?case using Cons.IH [of "ss @ [s]" i'] Cons.prems(2) by simp
qed simp

section \<open>What is drawn\<close>

definition colour :: "nat \<Rightarrow> string" where
  "colour k = default_colors ! (k mod 10)"

definition color_at :: "nat \<Rightarrow> color_iter" where
  "color_at k = \<lparr>co_color = colour k, co_mod = word_of_nat k\<rparr>"

lemma color_at_next: "Suc k < 2 ^ 32 \<Longrightarrow> ppg_color_iter_next (color_at k) = color_at (Suc k)"
proof -
  assume k: "Suc k < 2 ^ 32"
  then have "unat (word_of_nat (Suc k) :: guint) = Suc k" by (simp add: unat_of_nat del: of_nat_Suc)
  then have "unat ((word_of_nat (Suc k) :: guint) mod 10) = Suc k mod 10" by (simp only: unat_mod) simp
  then show ?thesis by (simp add: ppg_color_iter_next_def color_at_def colour_def Let_def default_colors_def add.commute)
qed

lemma color_at_start: "ppg_color_iter_init = color_at 0"
  by (simp add: ppg_color_iter_init_def color_at_def colour_def)

lemma line_for_simps [simp]: "vl_model (line_for c) = Model_Of_Cpu c" "vl_key (line_for c) = COLUMN_COOKED"
  by (simp_all add: line_for_def)

lemma color_at_color [simp]: "co_color (color_at k) = colour k"
  by (simp add: color_at_def)

lemma lines_drawn:
  assumes "\<forall>c \<in> set cs. draw_line 1 e (models (Model_Of_Cpu c)) COLUMN_COOKED = Value (points c)" "k + length cs \<le> 2 ^ 32"
  shows "draw_lines 1 e models (color_at k) (map line_for cs) =
    Value (map (\<lambda>(k, c). (colour k, points c)) (enumerate k cs))"
  using assms
proof (induction cs arbitrary: k)
  case (Cons c cs)
  have "draw_lines 1 e models (ppg_color_iter_next (color_at k)) (map line_for cs) =
      Value (map (\<lambda>(k, c). (colour k, points c)) (enumerate (Suc k) cs))"
  proof (cases cs)
    case Nil
    then show ?thesis by simp
  next
    case (Cons a list)
    then show ?thesis using Cons.prems Cons.IH [of "Suc k"] by (simp add: color_at_next)
  qed
  then show ?case using Cons.prems(1) by (simp del: One_nat_def)
qed simp

lemma in_order_few: "length (in_order ss) \<le> 2 ^ 32"
proof -
  have "distinct (in_order ss)" by (simp add: in_order_def)
  then have "length (in_order ss) = card (set (in_order ss))" by (simp only: distinct_card)
  also have "\<dots> \<le> card (UNIV :: gint set)" by (rule card_mono) simp_all
  finally show ?thesis by (simp add: card_word)
qed

definition cpu_models :: "cpu_instrument \<Rightarrow> line_model \<Rightarrow> ppg_model" where
  "cpu_models i x = (case x of Model_Of_Cpu c \<Rightarrow> the (ci_models i c) | Model_Of_Memory \<Rightarrow> ppg_model_init 0)"

text \<open>The instrument as loading leaves it, with its visualizer.\<close>

definition cpu_shown :: cpu_instrument where
  "cpu_shown = ppg_instrument_add_visualizer (cpu_visualizers []) ''combined'' ppg_cpu_instrument_init"

lemma cpu_shown_showing: "showing gt stamps m [] (ppg_cpu_instrument_manifest_cb m cpu_shown)"
  by (simp add: showing_def cpu_shown_def ppg_cpu_instrument_manifest_cb_def ppg_instrument_add_visualizer_def
      ppg_cpu_instrument_init_def ppg_instrument_register_visualizers_def ppg_instrument_register_visualizer_def cpu_entries_def
      cpu_visualizers_def ppg_cpu_instrument_combined_cb_def new_visualizer_def ppg_instrument_visualizer_added_def
      ppg_instrument_init_def ppg_instrument.defs in_order_def)

text \<open>
  The instrument of the processors draws what they did. However the samples of the processors are mixed, there is a
  line for each processor, in the order in which they came first and in the colours of the palette in turn; and the
  points of a line are the samples of its processor, each with its time since the manifest and with the share, in per
  cent, of busy time in the time since the sample before. The first point has no time before it: its share is 0 / 0.
\<close>

lemma cpu_lines_drawn:
  assumes "cpu_columns_named (mo_gt e) (snd m)" "\<forall>s \<in> set ss. cpu_fields_sent s"
  shows "\<exists>i v. feed_samples (mo_gt e) stamps m ss (ppg_cpu_instrument_manifest_cb m cpu_shown) = Value i \<and> in_store i = [v] \<and>
    ppg_line_visualizer_draw 1 e (cpu_models i) v =
      Value (map (\<lambda>(k, c). (colour k, map (load_point e m (of_cpu c ss)) [0..<length (of_cpu c ss)]))
        (enumerate 0 (in_order ss)))"
proof -
  obtain i where i: "feed_samples (mo_gt e) stamps m ss (ppg_cpu_instrument_manifest_cb m cpu_shown) = Value i"
    "showing (mo_gt e) stamps m ss i"
    using samples_shown [OF cpu_shown_showing assms] by auto
  then obtain v where v: "in_store i = [v]" "vz_lines v = map line_for (in_order ss)" by (auto simp: showing_def)
  let ?points = "\<lambda>c. map (load_point e m (of_cpu c ss)) [0..<length (of_cpu c ss)]"
  have "draw_line 1 e (cpu_models i (Model_Of_Cpu c)) COLUMN_COOKED = Value (?points c)" if "c \<in> set (in_order ss)" for c
  proof -
    have "of_cpu c ss \<noteq> []" "\<forall>s \<in> set (of_cpu c ss). cpu_fields_sent s"
      using that assms(2) by (auto simp: of_cpu_def filter_empty_conv)
    then show ?thesis using line_of_cpu [OF assms(1)] i(2) that by (simp add: cpu_models_def showing_def)
  qed
  then show ?thesis
    using lines_drawn [of "in_order ss" e "cpu_models i" ?points 0] in_order_few [of ss] i(1) v
    by (auto simp: ppg_line_visualizer_draw_def color_at_start)
qed

section \<open>From the kernel to the line\<close>

text \<open>The runs of the source, each with the clock, the file system and what is on the stack.\<close>

fun cpu_source_runs ::
  "gtypes \<Rightarrow> (file_reads \<times> (nat \<Rightarrow> timespec) \<times> u8 list) list \<Rightarrow> cpu_data \<Rightarrow> delivery list outcome" where
  "cpu_source_runs gt [] cpud = Value []"
| "cpu_source_runs gt ((rd, now, fileBuf) # runs) cpud =
     (case cpu_sample gt rd now fileBuf cpud of
        Value (cpud, ds) \<Rightarrow>
          (case cpu_source_runs gt runs cpud of Value ds' \<Rightarrow> Value (ds @ ds') | Failed \<Rightarrow> Failed | Fault \<Rightarrow> Fault)
      | Failed \<Rightarrow> Failed
      | Fault \<Rightarrow> Fault)"

text \<open>
  What the kernel prints in a run: each processor's number and counters, between other lines. The plugin reads the first
  1023 bytes, and the text is no longer than that; the rest of a longer one is cut off, within a line or between two.
\<close>

definition kernel_prints :: "file_reads \<times> (nat \<Rightarrow> timespec) \<times> u8 list \<Rightarrow> (nat \<times> nat list) list \<Rightarrow> bool" where
  "kernel_prints run cpus \<longleftrightarrow>
     (\<exists>sums others txt.
        txt = text_of ((ascii ''cpu '' @ sums) # map stat_line cpus @ others) \<and> length txt \<le> 1023 \<and>
        fst run (ascii ''/proc/stat'') 1023 = Some (take 1023 txt) \<and>
        line_ok sums \<and> (\<forall>l \<in> set others. line_ok l \<and> strip_prefix (ascii ''cpu'') l = None) \<and>
        (\<forall>c \<in> set cpus. fst c < 2 ^ 31 \<and> 9 \<le> length (snd c) \<and> (\<forall>v \<in> set (snd c). v < 2 ^ 31)))"

lemma kernel_prints_text:
  assumes "kernel_prints (rd, now, buf) cpus"
  obtains sums others where
    "rd (ascii ''/proc/stat'') 1023 = Some (text_of ((ascii ''cpu '' @ sums) # map stat_line cpus @ others))"
    "line_ok sums" "\<forall>l \<in> set others. line_ok l \<and> strip_prefix (ascii ''cpu'') l = None"
    "\<forall>c \<in> set cpus. fst c < 2 ^ 31 \<and> 9 \<le> length (snd c) \<and> (\<forall>v \<in> set (snd c). v < 2 ^ 31)"
proof -
  obtain sums others stat where "stat = text_of ((ascii ''cpu '' @ sums) # map stat_line cpus @ others)" "length stat \<le> 1023"
    "rd (ascii ''/proc/stat'') 1023 = Some (take 1023 stat)" "line_ok sums"
    "\<forall>l \<in> set others. line_ok l \<and> strip_prefix (ascii ''cpu'') l = None"
    "\<forall>c \<in> set cpus. fst c < 2 ^ 31 \<and> 9 \<le> length (snd c) \<and> (\<forall>v \<in> set (snd c). v < 2 ^ 31)"
    using assms unfolding kernel_prints_def fst_conv by blast
  then show thesis by (intro that [of sums others]) (simp_all only: take_all)
qed

definition sent_fields :: "nat \<times> nat list \<Rightarrow> (guint \<times> g_value) list" where
  "sent_fields c = numbered_fields 1 (map V_INT (cpu_numbers c))"

lemma cpu_runs_later:
  assumes "gtypes_ok gt" "list_all2 kernel_prints runs readings" "m = built_manifest gt t cpu_rows"
  shows "\<exists>samples. cpu_source_runs gt runs \<lparr>cd_manifest = Some m\<rparr> = Value (map Deliver_Sample samples) \<and>
    list_all2 (\<lambda>s c. client_gets gt m s (sent_fields c)) samples (concat readings)"
  using assms(2)
proof (induction rule: list_all2_induct)
  case Nil
  then show ?case by simp
next
  case (Cons run runs cpus readings)
  obtain rd now buf where run: "run = (rd, now, buf)" by (cases run) auto
  obtain samples where later: "cpu_source_runs gt runs \<lparr>cd_manifest = Some m\<rparr> = Value (map Deliver_Sample samples)"
    "list_all2 (\<lambda>s c. client_gets gt m s (sent_fields c)) samples (concat readings)" using Cons.IH by blast
  obtain sums others where printed:
    "rd (ascii ''/proc/stat'') 1023 = Some (text_of ((ascii ''cpu '' @ sums) # map stat_line cpus @ others))"
    "line_ok sums" "\<forall>l \<in> set others. line_ok l \<and> strip_prefix (ascii ''cpu'') l = None"
    "\<forall>c \<in> set cpus. fst c < 2 ^ 31 \<and> 9 \<le> length (snd c) \<and> (\<forall>v \<in> set (snd c). v < 2 ^ 31)"
    using Cons.hyps(1) unfolding run by (rule kernel_prints_text)
  obtain here where "cpu_sample gt rd now buf \<lparr>cd_manifest = Some m\<rparr> = Value (\<lparr>cd_manifest = Some m\<rparr>, map Deliver_Sample here)"
    "list_all2 (\<lambda>s c. client_gets gt m s (sent_fields c)) here cpus"
    using cpu_run [where rd = rd and now = now and cpud = "\<lparr>cd_manifest = Some m\<rparr>" and m = m and ds = "[]" and start = t
        and fileBuf = buf, OF assms(1) printed] assms(3)
    by (auto simp: sent_fields_def)
  then show ?case using later
    by (intro exI [of _ "here @ samples"]) (simp add: run list_all2_appendI)
qed

lemma cpu_runs_first:
  assumes "gtypes_ok gt" "list_all2 kernel_prints runs readings" "readings \<noteq> []"
  shows "\<exists>t samples. cpu_source_runs gt runs (fst cpu_new) =
      Value (Deliver_Manifest (built_manifest gt t cpu_rows) # map Deliver_Sample samples) \<and>
    list_all2 (\<lambda>s c. client_gets gt (built_manifest gt t cpu_rows) s (sent_fields c)) samples (concat readings)"
proof -
  obtain rd now buf runs' cpus readings' where split: "runs = (rd, now, buf) # runs'" "readings = cpus # readings'"
    using assms(2,3) by (cases runs; cases readings) auto
  let ?m = "built_manifest gt (now 0) cpu_rows"
  obtain samples where later: "cpu_source_runs gt runs' \<lparr>cd_manifest = Some ?m\<rparr> = Value (map Deliver_Sample samples)"
    "list_all2 (\<lambda>s c. client_gets gt ?m s (sent_fields c)) samples (concat readings')"
    using cpu_runs_later [OF assms(1), of runs' readings' ?m "now 0"] assms(2) split by auto
  obtain sums others where printed:
    "rd (ascii ''/proc/stat'') 1023 = Some (text_of ((ascii ''cpu '' @ sums) # map stat_line cpus @ others))"
    "line_ok sums" "\<forall>l \<in> set others. line_ok l \<and> strip_prefix (ascii ''cpu'') l = None"
    "\<forall>c \<in> set cpus. fst c < 2 ^ 31 \<and> 9 \<le> length (snd c) \<and> (\<forall>v \<in> set (snd c). v < 2 ^ 31)"
    by (rule kernel_prints_text [of rd now buf cpus]) (use assms(2) in \<open>simp add: split\<close>)
  obtain here where "cpu_sample gt rd now buf (fst cpu_new) =
      Value (\<lparr>cd_manifest = Some ?m\<rparr>, [Deliver_Manifest ?m] @ map Deliver_Sample here)"
    "list_all2 (\<lambda>s c. client_gets gt ?m s (sent_fields c)) here cpus"
    using cpu_run [where rd = rd and now = now and cpud = "fst cpu_new" and m = ?m and ds = "[Deliver_Manifest ?m]"
        and fileBuf = buf, OF assms(1) printed]
    by (auto simp: sent_fields_def cpu_new_def)
  then show ?thesis using later
    by (intro exI [of _ "now 0"] exI [of _ "here @ samples"]) (simp add: split list_all2_appendI)
qed

text \<open>The client finds the columns in the manifest of the source, and the fields in the samples.\<close>

lemma client_columns: "cpu_columns_named gt (client_manifest (built_manifest gt t cpu_rows))"
  by (simp add: cpu_columns_named_def client_manifest_def built_manifest_def pk_manifest_get_row_id_def
      pk_manifest_get_row_type_def cpu_rows_def client_row_def ascii_def)

text \<open>The counters that the kernel counts a processor's busy time, and all its time, with.\<close>

definition kernel_ok :: "nat \<times> nat list \<Rightarrow> bool" where
  "kernel_ok c \<longleftrightarrow> fst c < 2 ^ 31 \<and> 9 \<le> length (snd c)"

definition kernel_busy :: "nat \<times> nat list \<Rightarrow> gint" where
  "kernel_busy c = word_of_nat (snd c ! 0 + snd c ! 1 + snd c ! 2)"

definition kernel_all :: "nat \<times> nat list \<Rightarrow> gint" where
  "kernel_all c = word_of_nat (snd c ! 0 + snd c ! 1 + snd c ! 2 + snd c ! 3)"

definition processors :: "(nat \<times> nat list) list \<Rightarrow> nat list" where
  "processors cs = rev (remdups (rev (map fst cs)))"

definition counters_of :: "nat \<Rightarrow> (nat \<times> nat list) list \<Rightarrow> (nat \<times> nat list) list" where
  "counters_of n cs = filter (\<lambda>c. fst c = n) cs"

definition share :: "model_env \<Rightarrow> (nat \<times> nat list) list \<Rightarrow> nat \<Rightarrow> g_value" where
  "share e cs j =
     V_DOUBLE (if j = 0 then mo_percent e 0 0
       else mo_percent e (kernel_busy (cs ! j) - kernel_busy (cs ! (j - 1))) (kernel_all (cs ! j) - kernel_all (cs ! (j - 1))))"

lemma sent_field_values:
  assumes "kernel_ok c" "pks_ar r = sent_fields c"
  shows "cpu_fields_sent r" "int_field r 1 = word_of_nat (fst c)" "busy r = kernel_busy c" "elapsed r = kernel_all c"
proof -
  have "Suc (Suc (Suc (Suc 0))) \<le> length (snd c)" using assms(1) by (simp add: kernel_ok_def)
  then obtain a b d f rest where c: "snd c = a # b # d # f # rest" unfolding Suc_le_length_iff by blast
  have sent: "pk_sample_get_value r 1 = Some (V_INT (word_of_nat (fst c)))" "pk_sample_get_value r 2 = Some (V_INT (word_of_nat a))"
    "pk_sample_get_value r 3 = Some (V_INT (word_of_nat b))" "pk_sample_get_value r 4 = Some (V_INT (word_of_nat d))"
    "pk_sample_get_value r 5 = Some (V_INT (word_of_nat f))"
    by (simp_all add: pk_sample_get_value_def assms(2) sent_fields_def cpu_numbers_def c)
  then have fields: "int_field r 1 = word_of_nat (fst c)" "int_field r 2 = word_of_nat a" "int_field r 3 = word_of_nat b"
    "int_field r 4 = word_of_nat d" "int_field r 5 = word_of_nat f"
    unfolding int_field_def by simp_all
  show "cpu_fields_sent r" unfolding cpu_fields_sent_def by (simp add: sent fields del: One_nat_def)
  show "int_field r 1 = word_of_nat (fst c)" by (rule fields)
  show "busy r = kernel_busy c" by (simp add: busy_def kernel_busy_def fields c del: One_nat_def)
  show "elapsed r = kernel_all c" by (simp add: elapsed_def kernel_all_def busy_def fields c del: One_nat_def)
qed

lemma remdups_map_inj: "inj_on f (set xs) \<Longrightarrow> remdups (map f xs) = map f (remdups xs)"
  by (induction xs) (auto simp: inj_on_def)

lemma word_of_cpu_inj: "inj_on (word_of_nat :: nat \<Rightarrow> gint) {..<2 ^ 31}"
proof (rule inj_onI)
  fix a b :: nat assume less: "a \<in> {..<2 ^ 31}" "b \<in> {..<2 ^ 31}" and same: "(word_of_nat a :: gint) = word_of_nat b"
  have "int a = int b" using sint_word_of_nat [of a] sint_word_of_nat [of b] less unfolding same by (simp only: lessThan_iff)
  then show "a = b" by simp
qed

abbreviation sends :: "(nat \<times> nat list) \<Rightarrow> pk_sample \<Rightarrow> bool" where
  "sends c r \<equiv> kernel_ok c \<and> pks_ar r = sent_fields c"

lemma cpus_in_order:
  assumes "list_all2 sends cs rs"
  shows "in_order rs = map word_of_nat (processors cs)" "set (processors cs) \<subseteq> {..<2 ^ 31}"
proof -
  have "map (\<lambda>s. int_field s 1) rs = map (word_of_nat \<circ> fst) cs" "set (map fst cs) \<subseteq> {..<2 ^ 31}"
    using assms by (induction rule: list_all2_induct) (auto simp: sent_field_values(2) kernel_ok_def)
  moreover from this(2) have "inj_on (word_of_nat :: nat \<Rightarrow> gint) (set (rev (map fst cs)))"
    using word_of_cpu_inj by (auto intro: inj_on_subset)
  moreover have "remdups (map (word_of_nat :: nat \<Rightarrow> gint) (rev (map fst cs))) = map word_of_nat (remdups (rev (map fst cs)))"
    by (rule remdups_map_inj) (rule calculation(3))
  ultimately show "in_order rs = map word_of_nat (processors cs)" "set (processors cs) \<subseteq> {..<2 ^ 31}"
    by (simp_all add: in_order_def processors_def rev_map)
qed

lemma samples_of_cpu:
  assumes "list_all2 sends cs rs" "n < 2 ^ 31"
  shows "list_all2 sends (counters_of n cs) (of_cpu (word_of_nat n) rs)"
  using assms(1)
proof (induction rule: list_all2_induct)
  case (Cons c cs r rs)
  have "(word_of_nat (fst c) :: gint) = word_of_nat n \<longleftrightarrow> fst c = n"
    using Cons.hyps(1) assms(2) inj_on_eq_iff [OF word_of_cpu_inj] by (simp add: kernel_ok_def)
  moreover have "int_field r 1 = word_of_nat (fst c)" using Cons.hyps(1) sent_field_values(2) by blast
  ultimately show ?case using Cons by (simp add: counters_of_def of_cpu_def)
qed (simp add: counters_of_def of_cpu_def)

lemma shares_of_cpu:
  assumes "list_all2 sends cs rs"
  shows "map (snd \<circ> load_point e m rs) [0..<length rs] = map (share e cs) [0..<length cs]"
proof -
  have "snd (load_point e m rs j) = share e cs j" if "j < length cs" for j
  proof -
    have "sends (cs ! k) (rs ! k)" if "k \<le> j" for k
      using list_all2_nthD [OF assms, of k] \<open>j < length cs\<close> that by simp
    then have "busy (rs ! k) = kernel_busy (cs ! k)" "elapsed (rs ! k) = kernel_all (cs ! k)" if "k \<le> j" for k
      using that sent_field_values(3,4) by blast+
    from this [of j] this [of "j - 1"] show ?thesis by (simp add: load_point_def share_def del: One_nat_def)
  qed
  then show ?thesis using list_all2_lengthD [OF assms] by simp
qed

text \<open>A sample as the client receives it: what it decodes of the bytes that the agent encodes.\<close>

definition received_as ::
  "byte_order \<Rightarrow> gtypes \<Rightarrow> (gint \<Rightarrow> pk_manifest option) \<Rightarrow> pka_manifest \<Rightarrow> gint \<Rightarrow> pka_sample \<Rightarrow> pk_sample \<Rightarrow> bool" where
  "received_as ord gt resolver m src s r \<longleftrightarrow>
     (\<exists>data. pka_encoder_encode_samples None m [pka_sample_set_source_id s src] = Some data \<and>
        pk_sample_new_from_data ord gt resolver data = (Value r, length data))"

lemma kernel_prints_ok: "list_all2 kernel_prints runs readings \<Longrightarrow> \<forall>c \<in> set (concat readings). kernel_ok c"
  by (induction rule: list_all2_induct) (auto simp: kernel_prints_def kernel_ok_def)

lemma client_receives:
  assumes "list_all2 (\<lambda>s c. client_gets gt m s (sent_fields c)) samples cs" "resolver src = Some (client_manifest m)"
    and "\<forall>c \<in> set cs. kernel_ok c"
  shows "\<exists>rs. list_all2 (received_as ord gt resolver m src) samples rs \<and> list_all2 sends cs rs"
  using assms(1,3)
proof (induction rule: list_all2_induct)
  case (Cons s samples c cs)
  let ?r = "client_sample m (pka_sample_set_source_id s src) (sent_fields c)"
  obtain rs where "list_all2 (received_as ord gt resolver m src) samples rs" "list_all2 sends cs rs"
    using Cons by auto
  moreover have "received_as ord gt resolver m src s ?r"
    using Cons.hyps(1) assms(2) by (simp add: client_gets_def received_as_def)
  moreover have "sends c ?r" using Cons.prems by (simp add: client_sample_def)
  ultimately show ?case by (intro exI [of _ "?r # rs"]) simp
qed simp

lemma lines_of_sent:
  assumes "list_all2 sends cs rs" "cpu_columns_named (mo_gt e) (snd m)"
  shows "\<exists>i v lines. feed_samples (mo_gt e) stamps m rs (ppg_cpu_instrument_manifest_cb m cpu_shown) = Value i \<and>
    in_store i = [v] \<and> ppg_line_visualizer_draw 1 e (cpu_models i) v = Value lines \<and>
    map (\<lambda>(c, points). (c, map snd points)) lines =
      map (\<lambda>(k, n). (colour k, map (share e (counters_of n cs)) [0..<length (counters_of n cs)])) (enumerate 0 (processors cs))"
proof -
  have "\<forall>r \<in> set rs. cpu_fields_sent r"
    using assms(1) by (induction rule: list_all2_induct) (auto intro: sent_field_values(1))
  note drawn = cpu_lines_drawn [OF assms(2) this, of stamps]
  have "map (snd \<circ> load_point e m (of_cpu (word_of_nat n) rs)) [0..<length (of_cpu (word_of_nat n) rs)] =
      map (share e (counters_of n cs)) [0..<length (counters_of n cs)]" if "n \<in> set (processors cs)" for n
  proof -
    have "n < 2 ^ 31" using cpus_in_order(2) [OF assms(1)] that by auto
    then show ?thesis by (rule shares_of_cpu [OF samples_of_cpu [OF assms(1)]])
  qed
  then have "map (\<lambda>(c, points). (c, map snd points)) (map (\<lambda>(k, c). (colour k,
        map (load_point e m (of_cpu c rs)) [0..<length (of_cpu c rs)])) (enumerate 0 (in_order rs))) =
      map (\<lambda>(k, n). (colour k, map (share e (counters_of n cs)) [0..<length (counters_of n cs)])) (enumerate 0 (processors cs))"
    by (auto simp: cpus_in_order(1) [OF assms(1)] enumerate_map_upt in_set_enumerate_eq map_nth intro!: nth_equalityI
        simp: nth_enumerate_eq)
  then show ?thesis using drawn by blast
qed

text \<open>
  C27: From the text that the kernel prints to the line that is drawn. Whatever the kernel prints of its processors, in
  however many runs of the source, as long as the text fits into the 1023 bytes that are read, has nine counters or more
  for each processor, and no number above the range of \<open>int\<close>, the bytes that the agent sends for the samples can be decoded by the client that has
  the manifest, on any host; and when the instrument gets the manifest and the decoded samples, it draws a line for each
  processor, in the order in which the kernel has printed them first and in the colours of the palette in turn. The
  values of a line are the shares of busy time in the time that passed between two runs; the first is 0 / 0.
\<close>

theorem cpu_share_end_to_end:
  assumes "gtypes_ok (mo_gt e)" "list_all2 kernel_prints runs readings" "readings \<noteq> []"
  shows "\<exists>m samples. cpu_source_runs (mo_gt e) runs (fst cpu_new) =
      Value (Deliver_Manifest m # map Deliver_Sample samples) \<and>
    (\<forall>ord resolver src stamps a. resolver src = Some (client_manifest m) \<longrightarrow>
      (\<exists>rs i v lines. list_all2 (received_as ord (mo_gt e) resolver m src) samples rs \<and>
        feed_samples (mo_gt e) stamps (a, client_manifest m) rs
          (ppg_cpu_instrument_manifest_cb (a, client_manifest m) cpu_shown) = Value i \<and>
        in_store i = [v] \<and> ppg_line_visualizer_draw 1 e (cpu_models i) v = Value lines \<and>
        map (\<lambda>(c, points). (c, map snd points)) lines =
          map (\<lambda>(k, n). let cs = counters_of n (concat readings) in (colour k, map (share e cs) [0..<length cs]))
            (enumerate 0 (processors (concat readings)))))"
proof -
  obtain t samples where runs: "cpu_source_runs (mo_gt e) runs (fst cpu_new) =
      Value (Deliver_Manifest (built_manifest (mo_gt e) t cpu_rows) # map Deliver_Sample samples)"
    "list_all2 (\<lambda>s c. client_gets (mo_gt e) (built_manifest (mo_gt e) t cpu_rows) s (sent_fields c)) samples (concat readings)"
    using cpu_runs_first [OF assms] by blast
  let ?m = "built_manifest (mo_gt e) t cpu_rows"
  show ?thesis unfolding Let_def
  proof (intro exI [of _ ?m] exI [of _ samples] conjI allI impI)
    fix ord and resolver :: "gint \<Rightarrow> pk_manifest option" and src stamps a
    assume "resolver src = Some (client_manifest ?m)"
    then obtain rs where "list_all2 (received_as ord (mo_gt e) resolver ?m src) samples rs" "list_all2 sends (concat readings) rs"
      using client_receives [OF runs(2) _ kernel_prints_ok [OF assms(2)]] by blast
    then show "\<exists>rs i v lines. list_all2 (received_as ord (mo_gt e) resolver ?m src) samples rs \<and>
        feed_samples (mo_gt e) stamps (a, client_manifest ?m) rs
          (ppg_cpu_instrument_manifest_cb (a, client_manifest ?m) cpu_shown) = Value i \<and>
        in_store i = [v] \<and> ppg_line_visualizer_draw 1 e (cpu_models i) v = Value lines \<and>
        map (\<lambda>(c, points). (c, map snd points)) lines =
          map (\<lambda>(k, n). (colour k, map (share e (counters_of n (concat readings))) [0..<length (counters_of n (concat readings))]))
            (enumerate 0 (processors (concat readings)))"
      using lines_of_sent [of "concat readings" rs e "(a, client_manifest ?m)" stamps] client_columns [of "mo_gt e" t] by auto
  qed (rule runs(1))
qed

definition example_readings :: "(nat \<times> nat list) list list" where
  "example_readings =
     [[(0, [4, 0, 5, 90, 1, 0, 0, 0, 0]), (1, [5, 0, 4, 80, 2, 0, 0, 0, 0, 0])],
      [(0, [10, 0, 9, 180, 1, 0, 0, 0, 0]), (1, [25, 0, 4, 160, 2, 0, 0, 0, 0, 0])]]"

definition example_stat :: "(nat \<times> nat list) list \<Rightarrow> u8 list" where
  "example_stat cpus = text_of ((ascii ''cpu '' @ ascii '' 9 0 9'') # map stat_line cpus @ [ascii ''intr 33''])"

definition example_runs :: "(file_reads \<times> (nat \<Rightarrow> timespec) \<times> u8 list) list" where
  "example_runs = map (\<lambda>cpus. (\<lambda>_ n. Some (take n (example_stat cpus)), \<lambda>_. \<lparr>tv_sec = 1, tv_nsec = 0\<rparr>, []))
     example_readings"

definition example_model_env :: model_env where
  "example_model_env = \<lparr>mo_gt = glib_gtypes, mo_float_minus = (\<lambda>x y. x - y), mo_double_minus = (\<lambda>x y. x - y),
     mo_percent = (\<lambda>x y. word_of_int (if y = 0 then 0 else 100 * sint x div sint y))\<rparr>"

lemma example_fits: "\<forall>cpus \<in> set example_readings. length (example_stat cpus) \<le> 1023"
  by (simp add: example_readings_def example_stat_def stat_line_def columns_def text_of_def ascii_def digits.simps)

lemma example_prints: "list_all2 kernel_prints example_runs example_readings"
proof -
  have "kernel_prints (\<lambda>_ n. Some (take n (example_stat cpus)), now, []) cpus" if "cpus \<in> set example_readings" for cpus now
    unfolding kernel_prints_def
    by (intro exI [of _ "ascii '' 9 0 9''"] exI [of _ "[ascii ''intr 33'']"] exI [of _ "example_stat cpus"] conjI)
      (use that example_fits in \<open>auto simp: example_stat_def example_readings_def line_ok_def ascii_def\<close>)
  then show ?thesis
    unfolding example_runs_def list_all2_conv_all_nth by auto
qed

lemma example_lines:
  "map (\<lambda>(k, n). let cs = counters_of n (concat example_readings) in (colour k, map (share example_model_env cs) [0..<length cs]))
    (enumerate 0 (processors (concat example_readings))) =
   [(colour 0, [V_DOUBLE 0, V_DOUBLE 10]), (colour 1, [V_DOUBLE 0, V_DOUBLE 20])]"
  by (simp add: example_readings_def processors_def counters_of_def share_def kernel_busy_def kernel_all_def
      example_model_env_def)

lemma cpu_share_end_to_end_witness:
  "\<exists>m samples. cpu_source_runs glib_gtypes example_runs (fst cpu_new) =
      Value (Deliver_Manifest m # map Deliver_Sample samples) \<and>
    (\<exists>rs i v lines. list_all2 (received_as G_LITTLE_ENDIAN glib_gtypes (\<lambda>_. Some (client_manifest m)) m 0) samples rs \<and>
      feed_samples glib_gtypes (\<lambda>_. 0) (0, client_manifest m) rs
        (ppg_cpu_instrument_manifest_cb (0, client_manifest m) cpu_shown) = Value i \<and>
      in_store i = [v] \<and> ppg_line_visualizer_draw 1 example_model_env (cpu_models i) v = Value lines \<and>
      map (\<lambda>(c, points). (c, map snd points)) lines =
        [(colour 0, [V_DOUBLE 0, V_DOUBLE 10]), (colour 1, [V_DOUBLE 0, V_DOUBLE 20])])"
proof -
  have e: "mo_gt example_model_env = glib_gtypes" by (simp add: example_model_env_def)
  have some: "example_readings \<noteq> []" by (simp add: example_readings_def)
  have ends: "\<exists>m samples. cpu_source_runs glib_gtypes example_runs (fst cpu_new) =
      Value (Deliver_Manifest m # map Deliver_Sample samples) \<and>
    (\<forall>ord resolver src stamps a. resolver src = Some (client_manifest m) \<longrightarrow>
      (\<exists>rs i v lines. list_all2 (received_as ord glib_gtypes resolver m src) samples rs \<and>
        feed_samples glib_gtypes stamps (a, client_manifest m) rs
          (ppg_cpu_instrument_manifest_cb (a, client_manifest m) cpu_shown) = Value i \<and>
        in_store i = [v] \<and> ppg_line_visualizer_draw 1 example_model_env (cpu_models i) v = Value lines \<and>
        map (\<lambda>(c, points). (c, map snd points)) lines =
          [(colour 0, [V_DOUBLE 0, V_DOUBLE 10]), (colour 1, [V_DOUBLE 0, V_DOUBLE 20])]))"
    by (rule cpu_share_end_to_end [of example_model_env, OF _ example_prints some,
        unfolded e example_lines, OF gtypes_ok_glib])
  show ?thesis
  proof (rule ends [THEN exE], erule exE, erule conjE)
    fix m samples
    assume runs: "cpu_source_runs glib_gtypes example_runs (fst cpu_new) = Value (Deliver_Manifest m # map Deliver_Sample samples)"
      and "\<forall>ord resolver src stamps a. resolver src = Some (client_manifest m) \<longrightarrow>
      (\<exists>rs i v lines. list_all2 (received_as ord glib_gtypes resolver m src) samples rs \<and>
        feed_samples glib_gtypes stamps (a, client_manifest m) rs
          (ppg_cpu_instrument_manifest_cb (a, client_manifest m) cpu_shown) = Value i \<and>
        in_store i = [v] \<and> ppg_line_visualizer_draw 1 example_model_env (cpu_models i) v = Value lines \<and>
        map (\<lambda>(c, points). (c, map snd points)) lines =
          [(colour 0, [V_DOUBLE 0, V_DOUBLE 10]), (colour 1, [V_DOUBLE 0, V_DOUBLE 20])])"
    note drawn = this(2) [rule_format, of "\<lambda>_. Some (client_manifest m)" 0]
    show ?thesis by (intro exI [of _ m] exI [of _ samples] conjI runs drawn refl)
  qed
qed

end
