(* ===== verification/Egg_Fmt.thy ===== *)
theory Egg_Fmt
  imports Perfkit_Shell
begin

text \<open>
  cut-n-paste/egg-fmt.c: the formatters that print rows of values as comma separated values, as a table, and as HTML.
\<close>

section \<open>Iterators\<close>

text \<open>The types of columns that are told apart, and their values; a string and a string array may be NULL.\<close>

datatype fmt_type = FMT_INT | FMT_UINT | FMT_LONG | FMT_ULONG | FMT_STRING | FMT_STRV | FMT_OTHER

datatype fmt_value =
    F_INT gint | F_UINT guint | F_LONG u64 | F_ULONG u64 | F_STRING "cstring option" | F_STRV "cstring list option"
  | F_OTHER

fun initial_value :: "fmt_type \<Rightarrow> fmt_value" where
  "initial_value FMT_INT = F_INT 0"
| "initial_value FMT_UINT = F_UINT 0"
| "initial_value FMT_LONG = F_LONG 0"
| "initial_value FMT_ULONG = F_ULONG 0"
| "initial_value FMT_STRING = F_STRING None"
| "initial_value FMT_STRV = F_STRV None"
| "initial_value FMT_OTHER = F_OTHER"

text \<open>\<open>g_value_unset\<close> and \<open>g_value_init\<close> with the type that the value had.\<close>

fun reset_value :: "fmt_value \<Rightarrow> fmt_value" where
  "reset_value (F_INT _) = F_INT 0"
| "reset_value (F_UINT _) = F_UINT 0"
| "reset_value (F_LONG _) = F_LONG 0"
| "reset_value (F_ULONG _) = F_ULONG 0"
| "reset_value (F_STRING _) = F_STRING None"
| "reset_value (F_STRV _) = F_STRV None"
| "reset_value F_OTHER = F_OTHER"

text \<open>
  \<open>fi_next\<close> stands for the calls of \<open>next\<close> that return TRUE, in their order: what each of them makes of the values.
\<close>

record egg_fmt_iter =
  fi_next :: "(fmt_value list \<Rightarrow> fmt_value list) list"
  fi_names :: "cstring list"
  fi_values :: "fmt_value list"

definition egg_fmt_iter_init ::
  "(fmt_value list \<Rightarrow> fmt_value list) list \<Rightarrow> (cstring \<times> fmt_type) list \<Rightarrow> egg_fmt_iter" where
  "egg_fmt_iter_init nexts columns =
     \<lparr>fi_next = nexts, fi_names = map fst columns, fi_values = map (initial_value \<circ> snd) columns\<rparr>"

text \<open>The rows as they are printed, each from the values that one call has left.\<close>

fun print_rows :: "(fmt_value \<Rightarrow> 'a) \<Rightarrow> (fmt_value list \<Rightarrow> fmt_value list) list \<Rightarrow> fmt_value list \<Rightarrow> 'a list list" where
  "print_rows print [] vs = []"
| "print_rows print (f # fs) vs = map print (f vs) # print_rows print fs (map reset_value (f vs))"

section \<open>Formatters\<close>

text \<open>What \<open>%s\<close> prints for NULL, and the escaping of markup.\<close>

record fmt_env =
  fe_null :: cstring
  fe_escape :: "cstring \<Rightarrow> cstring"

definition fmt_string :: "fmt_env \<Rightarrow> cstring option \<Rightarrow> cstring" where
  "fmt_string env s = (case s of Some s \<Rightarrow> s | None \<Rightarrow> fe_null env)"

definition fmt_long :: "u64 \<Rightarrow> cstring" where
  "fmt_long i = (if sint i < 0 then 45 # digits (nat (- sint i)) else digits (nat (sint i)))"

fun csv_value :: "fmt_env \<Rightarrow> fmt_value \<Rightarrow> cstring" where
  "csv_value env (F_INT i) = fmt_int i"
| "csv_value env (F_UINT u) = digits (unat u)"
| "csv_value env (F_STRING s) = fmt_string env s"
| "csv_value env _ = []"

fun csv_line :: "cstring list \<Rightarrow> cstring" where
  "csv_line [] = []"
| "csv_line [t] = t @ [10]"
| "csv_line (t # ts) = t @ ascii '','' @ csv_line ts"

definition egg_fmt_csv :: "fmt_env \<Rightarrow> egg_fmt_iter \<Rightarrow> cstring" where
  "egg_fmt_csv env it = concat (map csv_line (print_rows (csv_value env) (fi_next it) (fi_values it)))"

text \<open>None: the text stays NULL, because the type is none of those, or the array is NULL, which \<open>g_strjoinv\<close> refuses.\<close>

fun table_value :: "fmt_env \<Rightarrow> fmt_value \<Rightarrow> cstring option" where
  "table_value env (F_INT i) = Some (fmt_int i)"
| "table_value env (F_UINT u) = Some (digits (unat u))"
| "table_value env (F_STRING s) = Some (fmt_string env s)"
| "table_value env (F_STRV v) = map_option (g_strjoinv (ascii '' '')) v"
| "table_value env _ = None"

definition text_width :: "cstring option \<Rightarrow> nat" where
  "text_width s = (case s of Some s \<Rightarrow> length s | None \<Rightarrow> 0)"

definition row_widths :: "nat \<Rightarrow> cstring option list list \<Rightarrow> nat list" where
  "row_widths n rows = fold (\<lambda>strings ws. map2 (\<lambda>s w. max (text_width s) w) strings ws) rows (replicate n 0)"

definition table_rule :: "nat list \<Rightarrow> cstring" where
  "table_rule ws = concat (map (\<lambda>w. ascii ''+-'' @ replicate w 45 @ ascii ''-'') ws) @ ascii ''+'' @ [10]"

definition table_cell :: "nat \<Rightarrow> cstring option \<Rightarrow> cstring" where
  "table_cell w s =
     (case s of
        None \<Rightarrow> ascii ''| '' @ replicate w 32
      | Some s \<Rightarrow> ascii ''| '' @ s @ ascii '' '' @ replicate (w - length s) 32)"

definition table_line :: "nat list \<Rightarrow> cstring option list \<Rightarrow> cstring" where
  "table_line ws strings = concat (map2 table_cell ws strings) @ ascii ''|'' @ [10]"

definition egg_fmt_table :: "fmt_env \<Rightarrow> egg_fmt_iter \<Rightarrow> cstring" where
  "egg_fmt_table env it =
     (let rows = print_rows (table_value env) (fi_next it) (fi_values it);
          ws = map2 (\<lambda>w name. max w (length name)) (row_widths (length (fi_names it)) rows) (fi_names it)
      in table_rule ws @ table_line ws (map Some (fi_names it)) @ table_rule ws @ concat (map (table_line ws) rows) @
         table_rule ws)"

fun html_value :: "fmt_env \<Rightarrow> fmt_value \<Rightarrow> cstring" where
  "html_value env (F_INT i) = fmt_int i"
| "html_value env (F_UINT u) = digits (unat u)"
| "html_value env (F_LONG i) = fmt_long i"
| "html_value env (F_ULONG u) = digits (unat u)"
| "html_value env (F_STRING s) = fmt_string env s"
| "html_value env _ = []"

definition html_line :: "string \<Rightarrow> cstring" where
  "html_line s = ascii s @ [10]"

definition egg_fmt_html_table :: "fmt_env \<Rightarrow> egg_fmt_iter \<Rightarrow> cstring" where
  "egg_fmt_html_table env it =
     html_line ''<table>'' @ html_line ''  <thead>'' @ html_line ''    <tr>'' @
     concat (map (\<lambda>name. ascii ''      <th>'' @ fe_escape env name @ html_line ''</th>'') (fi_names it)) @
     html_line ''    </tr>'' @ html_line ''  </thead>'' @ html_line ''  <tbody>'' @
     concat (map (\<lambda>row. html_line ''    <tr>'' @
         concat (map (\<lambda>t. ascii ''      <td>'' @ t @ html_line ''</td>'') row) @ html_line ''    </tr>'')
       (print_rows (html_value env) (fi_next it) (fi_values it))) @
     html_line ''  </tbody>'' @ html_line ''</table>''"

section \<open>The layout of a table\<close>

text \<open>Rows of a table whose calls keep the number of columns.\<close>

definition keeps_columns :: "(fmt_value list \<Rightarrow> fmt_value list) list \<Rightarrow> bool" where
  "keeps_columns fs \<longleftrightarrow> (\<forall>f \<in> set fs. \<forall>vs. length (f vs) = length vs)"

lemma print_rows_shape:
  assumes "keeps_columns fs"
  shows "length (print_rows print fs vs) = length fs" "\<forall>row \<in> set (print_rows print fs vs). length row = length vs"
  using assms by (induction print fs vs rule: print_rows.induct) (simp_all add: keeps_columns_def)

abbreviation widen :: "cstring option list list \<Rightarrow> nat list \<Rightarrow> nat list" where
  "widen \<equiv> fold (\<lambda>strings ws. map2 (\<lambda>s w. max (text_width s) w) strings ws)"

lemma widened:
  assumes "length row = length ws"
  shows "length (map2 (\<lambda>s w. max (text_width s) w) row ws) = length ws"
    "i < length ws \<Longrightarrow> map2 (\<lambda>s w. max (text_width s) w) row ws ! i = max (text_width (row ! i)) (ws ! i)"
  using assms by simp_all

lemma row_widths_fold:
  assumes "\<forall>row \<in> set rows. length row = length ws"
  shows "length (widen rows ws) = length ws \<and> (\<forall>i < length ws. ws ! i \<le> widen rows ws ! i \<and>
    (\<forall>row \<in> set rows. text_width (row ! i) \<le> widen rows ws ! i) \<and>
    (widen rows ws ! i = ws ! i \<or> (\<exists>row \<in> set rows. widen rows ws ! i = text_width (row ! i))))"
  using assms
proof (induction rows arbitrary: ws)
  case (Cons row rows)
  then have len: "length row = length ws" by simp
  define ws' where "ws' = map2 (\<lambda>s w. max (text_width s) w) row ws"
  have ws': "length ws' = length ws" "\<And>i. i < length ws \<Longrightarrow> ws' ! i = max (text_width (row ! i)) (ws ! i)"
    using widened [OF len] by (simp_all add: ws'_def)
  have IH: "length (widen rows ws') = length ws' \<and> (\<forall>i < length ws'. ws' ! i \<le> widen rows ws' ! i \<and>
    (\<forall>row \<in> set rows. text_width (row ! i) \<le> widen rows ws' ! i) \<and>
    (widen rows ws' ! i = ws' ! i \<or> (\<exists>row \<in> set rows. widen rows ws' ! i = text_width (row ! i))))"
    by (rule Cons.IH) (use Cons.prems ws'(1) in simp)
  have "widen (row # rows) ws = widen rows ws'" by (simp add: ws'_def)
  then show ?case using IH ws' by (auto simp: max_def split: if_splits)
qed simp

text \<open>Where the text of a column begins in a line.\<close>

definition column_start :: "nat list \<Rightarrow> nat \<Rightarrow> nat" where
  "column_start ws i = sum_list (map (\<lambda>w. w + 3) (take i ws)) + 2"

definition line_width :: "nat list \<Rightarrow> nat" where
  "line_width ws = sum_list (map (\<lambda>w. w + 3) ws) + 1"

definition without_text :: "cstring option list \<Rightarrow> nat" where
  "without_text strings = length (filter (\<lambda>s. s = None) strings)"

definition fits :: "nat list \<Rightarrow> cstring option list \<Rightarrow> bool" where
  "fits ws strings \<longleftrightarrow> list_all2 (\<lambda>w s. text_width s \<le> w) ws strings"

lemma table_cell_width: "text_width s \<le> w \<Longrightarrow> length (table_cell w s) + (if s = None then 1 else 0) = w + 3"
  by (cases s) (simp_all add: table_cell_def text_width_def ascii_def)

lemma table_line_width:
  assumes "fits ws strings"
  shows "length (table_line ws strings) + without_text strings = line_width ws + 1"
  using assms unfolding fits_def
proof (induction rule: list_all2_induct)
  case (Cons w ws s strings)
  then show ?case using table_cell_width [OF Cons.hyps(1)]
    by (cases s) (simp_all add: table_line_def line_width_def without_text_def)
qed (simp add: table_line_def line_width_def without_text_def ascii_def)

lemma table_rule_width: "length (table_rule ws) = line_width ws + 1"
  by (induction ws) (simp_all add: table_rule_def line_width_def ascii_def)

lemma table_line_text:
  assumes "fits ws strings" "None \<notin> set strings" "i < length ws"
  shows "take (ws ! i) (drop (column_start ws i) (table_line ws strings)) =
    the (strings ! i) @ replicate (ws ! i - length (the (strings ! i))) 32"
  using assms unfolding fits_def
proof (induction arbitrary: i rule: list_all2_induct)
  case (Cons w ws s strings)
  then obtain t where s: "s = Some t" by (cases s) auto
  have fit: "length t \<le> w" using Cons.hyps(1) by (simp add: s text_width_def)
  show ?case
  proof (cases i)
    case 0
    have "drop 2 (table_line (w # ws) (s # strings)) = t @ 32 # replicate (w - length t) 32 @ table_line ws strings"
      by (simp add: s table_line_def table_cell_def [of w] ascii_def [of "''| ''"] ascii_def [of "'' ''"])
    also have "\<dots> = (t @ replicate (w - length t) 32) @ 32 # table_line ws strings"
      by (simp add: replicate_app_Cons_same)
    finally have "drop (column_start (w # ws) 0) (table_line (w # ws) (s # strings)) =
        (t @ replicate (w - length t) 32) @ 32 # table_line ws strings"
      by (simp add: s column_start_def numeral_2_eq_2)
    then show ?thesis using fit by (simp add: 0 s del: append_assoc)
  next
    case (Suc j)
    have "length (table_cell w s) = w + 3" using table_cell_width [OF Cons.hyps(1)] by (simp add: s)
    then have "drop (column_start (w # ws) i) (table_line (w # ws) (s # strings)) =
        drop (column_start ws j) (table_line ws strings)"
      by (simp add: Suc column_start_def table_line_def)
    then show ?thesis using Cons.IH [of j] Cons.prems by (simp add: Suc)
  qed
qed simp

lemma table_widths:
  assumes "\<forall>row \<in> set rows. length row = length names"
  defines "ws \<equiv> map2 (\<lambda>w name. max w (length name)) (row_widths (length names) rows) names"
  shows "length ws = length names" "\<forall>row \<in> insert (map Some names) (set rows). fits ws row"
    and "i < length names \<Longrightarrow> \<exists>row \<in> insert (map Some names) (set rows). ws ! i = text_width (row ! i)"
proof -
  have widths: "length (row_widths (length names) rows) = length names"
    "\<And>i row. i < length names \<Longrightarrow> row \<in> set rows \<Longrightarrow> text_width (row ! i) \<le> row_widths (length names) rows ! i"
    "\<And>i. i < length names \<Longrightarrow> row_widths (length names) rows ! i = 0 \<or>
      (\<exists>row \<in> set rows. row_widths (length names) rows ! i = text_width (row ! i))"
    using row_widths_fold [of rows "replicate (length names) 0", folded row_widths_def] assms(1) by auto
  note len = widths(1)
  then show n: "length ws = length names" by (simp add: ws_def)
  have at: "ws ! i = max (row_widths (length names) rows ! i) (length (names ! i))" if "i < length names" for i
    using that len by (simp add: ws_def)
  show "\<forall>row \<in> insert (map Some names) (set rows). fits ws row"
    using widths(2) assms(1) n at by (auto simp: fits_def list_all2_conv_all_nth text_width_def max.coboundedI1)
  assume i: "i < length names"
  show "\<exists>row \<in> insert (map Some names) (set rows). ws ! i = text_width (row ! i)"
    using widths(3) [OF i] assms(1) at [OF i] i by (fastforce simp: text_width_def max_def)
qed

text \<open>
  C39: A table is aligned, unless a value has no text. Every column is as wide as its widest text; all lines have the same
  width, but a line is one character narrower for each value without a text; and in a line that has all texts, each
  stands where the name of its column stands in the heading, with blanks after it. A value has no text when its type is
  not one that the formatter knows.
\<close>

theorem table_aligned:
  assumes "keeps_columns nexts" "rows = print_rows (table_value env) nexts (map (initial_value \<circ> snd) columns)"
  shows "\<exists>ws. egg_fmt_table env (egg_fmt_iter_init nexts columns) =
      table_rule ws @ table_line ws (map (Some \<circ> fst) columns) @ table_rule ws @ concat (map (table_line ws) rows) @ table_rule ws \<and>
    length rows = length nexts \<and> length ws = length columns \<and>
    length (table_rule ws) = line_width ws + 1 \<and>
    (\<forall>row \<in> insert (map (Some \<circ> fst) columns) (set rows).
      length (table_line ws row) + without_text row = line_width ws + 1 \<and>
      (None \<notin> set row \<longrightarrow> (\<forall>i < length columns. take (ws ! i) (drop (column_start ws i) (table_line ws row)) =
        the (row ! i) @ replicate (ws ! i - length (the (row ! i))) 32))) \<and>
    (\<forall>i < length columns. \<exists>row \<in> insert (map (Some \<circ> fst) columns) (set rows). ws ! i = text_width (row ! i))"
proof -
  let ?names = "map fst columns"
  let ?ws = "map2 (\<lambda>w name. max w (length name)) (row_widths (length ?names) rows) ?names"
  have shape: "length rows = length nexts" "\<forall>row \<in> set rows. length row = length ?names"
    using print_rows_shape [OF assms(1), of "table_value env" "map (initial_value \<circ> snd) columns"]
    by (simp_all add: assms(2))
  note widths = table_widths [OF shape(2)]
  have lines: "length (table_line ?ws row) + without_text row = line_width ?ws + 1"
    "None \<notin> set row \<Longrightarrow> i < length columns \<Longrightarrow> take (?ws ! i) (drop (column_start ?ws i) (table_line ?ws row)) =
      the (row ! i) @ replicate (?ws ! i - length (the (row ! i))) 32"
    if "row \<in> insert (map Some ?names) (set rows)" for row i
  proof -
    have fit: "fits ?ws row" using widths(2) that by blast
    show "length (table_line ?ws row) + without_text row = line_width ?ws + 1" by (rule table_line_width [OF fit])
    assume "None \<notin> set row" "i < length columns"
    then show "take (?ws ! i) (drop (column_start ?ws i) (table_line ?ws row)) =
      the (row ! i) @ replicate (?ws ! i - length (the (row ! i))) 32" using table_line_text [OF fit] widths(1) by simp
  qed
  have names: "map (Some \<circ> fst) columns = map Some ?names" by simp
  have printed: "egg_fmt_table env (egg_fmt_iter_init nexts columns) =
      table_rule ?ws @ table_line ?ws (map Some ?names) @ table_rule ?ws @ concat (map (table_line ?ws) rows) @ table_rule ?ws"
    by (simp add: egg_fmt_table_def egg_fmt_iter_init_def assms(2) Let_def)
  have len: "length ?ws = length columns" using widths(1) by (simp only: length_map)
  have tight: "\<exists>row \<in> insert (map Some ?names) (set rows). ?ws ! i = text_width (row ! i)" if "i < length columns" for i
    by (rule widths(3)) (simp add: that)
  show ?thesis unfolding names
    by (intro exI [of _ ?ws] conjI ballI allI impI lines shape(1) table_rule_width printed len tight)
qed

lemma table_aligned_witness:
  "\<exists>ws. egg_fmt_table \<lparr>fe_null = ascii ''(null)'', fe_escape = id\<rparr>
      (egg_fmt_iter_init [\<lambda>vs. vs, \<lambda>vs. vs] [(ascii ''ID'', FMT_INT), (ascii ''Size'', FMT_LONG)]) =
    table_rule ws @ table_line ws [Some (ascii ''ID''), Some (ascii ''Size'')] @ table_rule ws @
      concat (map (table_line ws) [[Some (ascii ''0''), None], [Some (ascii ''0''), None]]) @ table_rule ws \<and>
    length (table_rule ws) = 14 \<and> length (table_line ws [Some (ascii ''0''), None]) = 13"
proof -
  let ?columns = "[(ascii ''ID'', FMT_INT), (ascii ''Size'', FMT_LONG)]"
  let ?rows = "[[Some (ascii ''0''), None], [Some (ascii ''0''), None]]"
  have keeps: "keeps_columns [\<lambda>vs. vs, \<lambda>vs. vs]" by (simp add: keeps_columns_def)
  have rows: "?rows = print_rows (table_value \<lparr>fe_null = ascii ''(null)'', fe_escape = id\<rparr>) [\<lambda>vs. vs, \<lambda>vs. vs]
      (map (initial_value \<circ> snd) ?columns)"
    by (simp add: fmt_int_def digits.simps ascii_def)
  obtain ws where ws: "egg_fmt_table \<lparr>fe_null = ascii ''(null)'', fe_escape = id\<rparr> (egg_fmt_iter_init [\<lambda>vs. vs, \<lambda>vs. vs] ?columns) =
      table_rule ws @ table_line ws (map (Some \<circ> fst) ?columns) @ table_rule ws @ concat (map (table_line ws) ?rows) @ table_rule ws"
    "length ws = length ?columns" "length (table_rule ws) = line_width ws + 1"
    "\<forall>row \<in> insert (map (Some \<circ> fst) ?columns) (set ?rows). length (table_line ws row) + without_text row = line_width ws + 1"
    "\<forall>i < length ?columns. \<exists>row \<in> insert (map (Some \<circ> fst) ?columns) (set ?rows). ws ! i = text_width (row ! i)"
    "\<forall>row \<in> insert (map (Some \<circ> fst) ?columns) (set ?rows). None \<notin> set row \<longrightarrow>
      (\<forall>i < length ?columns. take (ws ! i) (drop (column_start ws i) (table_line ws row)) =
        the (row ! i) @ replicate (ws ! i - length (the (row ! i))) 32)"
    using table_aligned [OF keeps rows] by blast
  then obtain a b where ab: "ws = [a, b]" by (auto simp: length_Suc_conv)
  have "a \<in> {1, 2}" "b \<in> {0, 4}"
    using ws(5) [rule_format, of 0] ws(5) [rule_format, of 1] by (auto simp: ab text_width_def ascii_def)
  moreover have "length (take a (drop 2 (table_line ws (map (Some \<circ> fst) ?columns)))) \<le> a" by simp
  moreover have "take a (drop (column_start ws 0) (table_line ws (map (Some \<circ> fst) ?columns))) = ascii ''ID'' @ replicate (a - 2) 32"
    "take b (drop (column_start ws 1) (table_line ws (map (Some \<circ> fst) ?columns))) = ascii ''Size'' @ replicate (b - 4) 32"
    using ws(6) [rule_format, of "map (Some \<circ> fst) ?columns" 0] ws(6) [rule_format, of "map (Some \<circ> fst) ?columns" 1]
    by (simp_all add: ab ascii_def)
  ultimately have "a = 2" "b = 4" by (auto simp: ascii_def dest: arg_cong [of _ _ length])
  then show ?thesis using ws(1,3,4) by (intro exI [of _ ws]) (simp add: ab line_width_def without_text_def)
qed

end
