(* ===== verification/Agent_Process.thy ===== *)
theory Agent_Process
  imports Pka_Manager Data_Sources
begin

text \<open>
  perfkit-agent/main.c, pka-config.c and pka-log.c: the process of the agent, its configuration and its log.
\<close>

section \<open>Logging\<close>

text \<open>Where messages go: a file, or a file descriptor. A file that could not be opened leaves None in the array.\<close>

datatype log_channel = Log_File cstring | Log_Descriptor nat

datatype log_level =
    LEVEL_ERROR | LEVEL_CRITICAL | LEVEL_WARNING | LEVEL_MESSAGE | LEVEL_INFO | LEVEL_DEBUG | LEVEL_TRACE | LEVEL_OTHER

definition pka_log_level_str :: "log_level \<Rightarrow> cstring" where
  "pka_log_level_str level =
     ascii (case level of
        LEVEL_ERROR \<Rightarrow> ''ERROR'' | LEVEL_CRITICAL \<Rightarrow> ''CRITICAL'' | LEVEL_WARNING \<Rightarrow> ''WARNING''
      | LEVEL_MESSAGE \<Rightarrow> ''MESSAGE'' | LEVEL_INFO \<Rightarrow> ''INFO'' | LEVEL_DEBUG \<Rightarrow> ''DEBUG'' | LEVEL_TRACE \<Rightarrow> ''TRACE''
      | LEVEL_OTHER \<Rightarrow> ''UNKNOWN'')"

text \<open>\<open>lg_hostname\<close> has the 64 bytes of the array; \<open>lg_handler\<close>: \<open>pka_log_handler\<close> is the default handler of GLib.\<close>

record pka_log =
  lg_initialized :: bool
  lg_channels :: "log_channel option list"
  lg_hostname :: "u8 list"
  lg_handler :: bool
  lg_last_handler :: bool
  lg_written :: "(log_channel \<times> cstring) list"

text \<open>The static variables when the process starts.\<close>

definition log_static :: pka_log where
  "log_static =
     \<lparr>lg_initialized = False, lg_channels = [], lg_hostname = replicate 64 0, lg_handler = False, lg_last_handler = False,
      lg_written = []\<rparr>"

text \<open>
  \<open>Fault\<close>: the process does not get past the message. \<open>g_io_channel_write_chars\<close> logs that its channel is NULL; this
  happens inside the handler, which holds the lock that the handler takes, and GLib makes a message that is logged while
  another is handled fatal.
\<close>

definition pka_log_write_to_channel :: "cstring \<Rightarrow> log_channel option \<Rightarrow> pka_log \<Rightarrow> pka_log outcome" where
  "pka_log_write_to_channel message channel lg =
     (case channel of None \<Rightarrow> Fault | Some ch \<Rightarrow> Value (lg\<lparr>lg_written := lg_written lg @ [(ch, message)]\<rparr>))"

fun write_to_channels :: "cstring \<Rightarrow> log_channel option list \<Rightarrow> pka_log \<Rightarrow> pka_log outcome" where
  "write_to_channels message [] lg = Value lg"
| "write_to_channels message (channel # channels) lg =
     (case pka_log_write_to_channel message channel lg of
        Value lg \<Rightarrow> write_to_channels message channels lg | Failed \<Rightarrow> Failed | Fault \<Rightarrow> Fault)"

text \<open>The conversions \<open>%12s\<close>, \<open>%8s\<close> and \<open>%04ld\<close>.\<close>

definition padded :: "nat \<Rightarrow> u8 \<Rightarrow> cstring \<Rightarrow> cstring" where
  "padded n c s = replicate (n - length s) c @ s"

text \<open>
  \<open>ftime\<close> is what \<open>strftime\<close> makes of the time. \<open>Fault\<close>: the name of the host fills the array, so that \<open>%s\<close> reads on.
\<close>

definition pka_log_handler ::
  "cstring \<Rightarrow> nat \<Rightarrow> gint \<Rightarrow> cstring \<Rightarrow> log_level \<Rightarrow> cstring \<Rightarrow> pka_log \<Rightarrow> pka_log outcome" where
  "pka_log_handler ftime nsec thread log_domain level message lg =
     (if lg_channels lg = [] then Value lg
      else
        (case cstr_at 0 (lg_hostname lg) of
           None \<Rightarrow> Fault
         | Some hostname \<Rightarrow>
             (let buffer = ftime @ ascii ''.'' @ padded 4 48 (digits (nsec div 100000)) @ ascii ''  '' @ hostname @
                ascii '': '' @ padded 12 32 log_domain @ ascii ''['' @ fmt_int thread @ ascii '']: '' @
                padded 8 32 (pka_log_level_str level) @ ascii '': '' @ message @ [10]
              in write_to_channels buffer (lg_channels lg) lg)))"

text \<open>
  A message: its domain, its level and its text. The handler of GLib, which is there before \<open>pka_log_init\<close>, prints it
  elsewhere; one of the level ERROR ends the process. \<open>stamp\<close>: the time and the thread of each message that is written.
\<close>

type_synonym log_message = "cstring \<times> log_level \<times> cstring"
type_synonym log_stamp = "nat \<Rightarrow> cstring \<times> nat \<times> gint"

definition g_log :: "log_stamp \<Rightarrow> log_message \<Rightarrow> pka_log \<Rightarrow> pka_log outcome" where
  "g_log stamp msg lg =
     (case (msg, stamp (length (lg_written lg))) of
        ((log_domain, level, message), (ftime, nsec, thread)) \<Rightarrow>
          if level = LEVEL_ERROR then Fault
          else if lg_handler lg then pka_log_handler ftime nsec thread log_domain level message lg
          else Value lg)"

fun g_logs :: "log_stamp \<Rightarrow> log_message list \<Rightarrow> pka_log \<Rightarrow> pka_log outcome" where
  "g_logs stamp [] lg = Value lg"
| "g_logs stamp (msg # msgs) lg =
     (case g_log stamp msg lg of Value lg \<Rightarrow> g_logs stamp msgs lg | Failed \<Rightarrow> Failed | Fault \<Rightarrow> Fault)"

definition WARNING :: "string \<Rightarrow> cstring \<Rightarrow> log_message" where
  "WARNING d txt = (ascii d, LEVEL_WARNING, txt)"

definition INFO :: "string \<Rightarrow> cstring \<Rightarrow> log_message" where
  "INFO d txt = (ascii d, LEVEL_INFO, txt)"

definition DEBUG :: "string \<Rightarrow> cstring \<Rightarrow> log_message" where
  "DEBUG d txt = (ascii d, LEVEL_DEBUG, txt)"

text \<open>\<open>opens\<close>: whether a file can be opened for appending; \<open>nodename\<close>: the array that \<open>uname\<close> fills.\<close>

definition pka_log_init :: "(cstring \<Rightarrow> bool) \<Rightarrow> u8 list \<Rightarrow> bool \<Rightarrow> cstring option \<Rightarrow> pka_log \<Rightarrow> pka_log" where
  "pka_log_init opens nodename stdout filename lg =
     (if lg_initialized lg then lg
      else lg\<lparr>lg_initialized := True,
        lg_channels :=
          (case filename of Some f \<Rightarrow> [if opens f then Some (Log_File f) else None] | None \<Rightarrow> []) @
          (if stdout then [Some (Log_Descriptor 0)] else []),
        lg_hostname := take 64 nodename, lg_handler := True\<rparr>)"

definition pka_log_shutdown :: "pka_log \<Rightarrow> pka_log" where
  "pka_log_shutdown lg = (if lg_last_handler lg then lg\<lparr>lg_handler := False, lg_last_handler := False\<rparr> else lg)"

section \<open>Configuration\<close>

text \<open>
  The groups of a \<open>GKeyFile\<close> in their order, with the text of each key. What it loads from a file (with the text of the
  error when it does not), and what it makes of a text, are parameters.
\<close>

type_synonym key_file = "(cstring \<times> (cstring \<times> cstring) list) list"

definition key_text :: "key_file \<Rightarrow> cstring \<Rightarrow> cstring \<Rightarrow> cstring option" where
  "key_text kf grp key = (case map_of kf grp of None \<Rightarrow> None | Some keys \<Rightarrow> map_of keys key)"

record config_env =
  ce_load :: "cstring \<Rightarrow> key_file"
  ce_load_error :: "cstring \<Rightarrow> cstring option"
  ce_strloc :: cstring
  ce_string :: "cstring \<Rightarrow> cstring option"
  ce_integer :: "cstring \<Rightarrow> gint"
  ce_boolean :: "cstring \<Rightarrow> bool"

record pka_config =
  cf_initialized :: bool
  cf_config :: "key_file option"
  cf_filename :: "cstring option"

definition config_static :: pka_config where
  "config_static = \<lparr>cf_initialized = False, cf_config = None, cf_filename = None\<rparr>"

text \<open>The messages that are logged, in their order.\<close>

definition pka_config_dump :: "pka_config \<Rightarrow> log_message list" where
  "pka_config_dump cf =
     (case cf_config cf of
        None \<Rightarrow> []
      | Some kf \<Rightarrow>
          DEBUG ''Config'' (ascii ''--- HOST DEFAULTS '' @ the (cf_filename cf)) #
          concat (map (\<lambda>(grp, keys). map (\<lambda>(key, txt). DEBUG ''Config''
            (ascii ''  '' @ padded 32 32 (grp @ ascii ''.'' @ key) @ ascii '' = '' @ [34] @ txt @ [34])) keys) kf))"

definition pka_config_init :: "config_env \<Rightarrow> cstring \<Rightarrow> pka_config \<Rightarrow> pka_config \<times> log_message list" where
  "pka_config_init env filename cf =
     (if cf_initialized cf then (cf, [])
      else
        (let cf = \<lparr>cf_initialized = True, cf_config = Some (ce_load env filename), cf_filename = Some filename\<rparr>
         in (cf,
             (case ce_load_error env filename of
                None \<Rightarrow> []
              | Some txt \<Rightarrow> [WARNING ''Config'' (ce_strloc env @ ascii '': Could not load configuration: '' @ txt)]) @
             pka_config_dump cf)))"

definition pka_config_shutdown :: "pka_config \<Rightarrow> pka_config" where
  "pka_config_shutdown cf = cf\<lparr>cf_config := None\<rparr>"

definition pka_config_get_string ::
  "config_env \<Rightarrow> pka_config \<Rightarrow> cstring \<Rightarrow> cstring \<Rightarrow> cstring option \<Rightarrow> cstring option" where
  "pka_config_get_string env cf grp key dflt =
     (case cf_config cf of
        None \<Rightarrow> None
      | Some kf \<Rightarrow> (case key_text kf grp key of None \<Rightarrow> dflt | Some txt \<Rightarrow> ce_string env txt))"

definition pka_config_get_integer :: "config_env \<Rightarrow> pka_config \<Rightarrow> cstring \<Rightarrow> cstring \<Rightarrow> gint \<Rightarrow> gint" where
  "pka_config_get_integer env cf grp key dflt =
     (case cf_config cf of
        None \<Rightarrow> 0
      | Some kf \<Rightarrow> (case key_text kf grp key of None \<Rightarrow> dflt | Some txt \<Rightarrow> ce_integer env txt))"

definition pka_config_get_boolean :: "config_env \<Rightarrow> pka_config \<Rightarrow> cstring \<Rightarrow> cstring \<Rightarrow> bool \<Rightarrow> bool" where
  "pka_config_get_boolean env cf grp key dflt =
     (case cf_config cf of
        None \<Rightarrow> False
      | Some kf \<Rightarrow> (case key_text kf grp key of None \<Rightarrow> dflt | Some txt \<Rightarrow> ce_boolean env txt))"

section \<open>The process\<close>

text \<open>A string of the options: \<open>opt_config\<close> is a literal until \<open>GOption\<close> stores a copy of an argument in it.\<close>

datatype opt_string = Literal cstring | Allocated cstring | Null_String

fun opt_text :: "opt_string \<Rightarrow> cstring option" where
  "opt_text (Literal s) = Some s"
| "opt_text (Allocated s) = Some s"
| "opt_text Null_String = None"

record agent_options =
  opt_config :: opt_string
  opt_logfile :: opt_string
  opt_stdout :: bool

text \<open>\<open>sysconfdir\<close>: \<open>PACKAGE_SYSCONFDIR\<close>. The arguments of \<open>--conf\<close> and \<open>--log\<close>, and whether there is \<open>--stdout\<close>.\<close>

definition main_options :: "cstring \<Rightarrow> cstring option \<Rightarrow> cstring option \<Rightarrow> bool \<Rightarrow> agent_options" where
  "main_options sysconfdir conf log stdout =
     \<lparr>opt_config = (case conf of Some f \<Rightarrow> Allocated f | None \<Rightarrow> Literal (sysconfdir @ ascii ''/perfkit/agent.conf'')),
      opt_logfile = (case log of Some f \<Rightarrow> Allocated f | None \<Rightarrow> Null_String),
      opt_stdout = stdout\<rparr>"

text \<open>
  What the process finds: \<open>me_plugins_path\<close> is the variable \<open>PERFKIT_PLUGINS_PATH\<close>, \<open>me_read_dir\<close> the names in a directory
  or the text of an error, \<open>me_build\<close> is \<open>g_build_filename\<close>; the texts of the errors of plugins, with none for NULL.
\<close>

record main_env =
  me_config :: config_env
  me_opens :: "cstring \<Rightarrow> bool"
  me_nodename :: "u8 list"
  me_stamp :: log_stamp
  me_plugins_path :: "cstring option"
  me_lib_dir :: cstring
  me_read_dir :: "cstring \<Rightarrow> cstring + cstring list"
  me_build :: "cstring \<Rightarrow> cstring \<Rightarrow> cstring"
  me_module :: "cstring \<Rightarrow> pka_plugin_info option"
  me_create_error :: "pka_error \<Rightarrow> cstring"
  me_listens :: "nat \<Rightarrow> bool"
  me_listen_error :: "nat \<Rightarrow> cstring option"

text \<open>\<open>pka_manager_load_all_plugins\<close>: the directories, and the files in them that have the suffix of a module.\<close>

fun split_path :: "cstring \<Rightarrow> cstring list" where
  "split_path [] = [[]]"
| "split_path (c # cs) = (if c = 58 then [] # split_path cs else (c # hd (split_path cs)) # tl (split_path cs))"

definition plugin_dirs :: "main_env \<Rightarrow> cstring list" where
  "plugin_dirs env =
     (case me_plugins_path env of
        Some path \<Rightarrow> if path = [] then [] else split_path path | None \<Rightarrow> [me_lib_dir env])"

definition is_module :: "cstring \<Rightarrow> bool" where
  "is_module name \<longleftrightarrow> length name \<ge> 2 \<and> drop (length name - 2) name = ascii ''so''"

definition dir_files :: "main_env \<Rightarrow> cstring \<Rightarrow> cstring list" where
  "dir_files env dir =
     (case me_read_dir env dir of Inl _ \<Rightarrow> [] | Inr names \<Rightarrow> map (me_build env dir) (filter is_module names))"

definition plugin_files :: "main_env \<Rightarrow> cstring list" where
  "plugin_files env = concat (map (dir_files env) (plugin_dirs env))"

text \<open>The messages of loading the plugins, of creating the listeners, and of their starting.\<close>

definition load_messages :: "main_env \<Rightarrow> cstring \<Rightarrow> log_message list" where
  "load_messages env path =
     (case me_module env path of
        Some info \<Rightarrow>
          if list_all g_ascii_isalnum (pi_id info) then []
          else [WARNING ''Plugin'' (ascii ''Invalid plugin id: '' @ pi_id info),
                WARNING ''Plugin'' (ascii ''Not a plugin: '' @ path)]
      | None \<Rightarrow> [WARNING ''Plugin'' (ascii ''Not a plugin: '' @ path)])"

definition dir_messages :: "main_env \<Rightarrow> cstring \<Rightarrow> log_message list" where
  "dir_messages env dir =
     INFO ''Plugin'' (ascii ''Loading plugins from directory: '' @ dir) #
     (case me_read_dir env dir of
        Inl txt \<Rightarrow> [WARNING ''Manager'' txt]
      | Inr names \<Rightarrow> concat (map (\<lambda>name.
          if \<not> is_module name then [DEBUG ''Plugin'' (ascii ''Skipping non-plugin: '' @ name)]
          else INFO ''Manager'' (ascii ''Discovered plugin: '' @ name) # load_messages env (me_build env dir name)) names))"

definition create_messages ::
  "main_env \<Rightarrow> (cstring \<Rightarrow> cstring \<Rightarrow> bool \<Rightarrow> bool) \<Rightarrow> agent \<Rightarrow> plugin_ref \<Rightarrow> log_message list" where
  "create_messages env get_boolean ag p =
     (let plugin = ag_plugin_store ag p; txt = the (pka_plugin_get_id plugin)
      in if pka_plugin_get_plugin_type plugin \<noteq> PLUGIN_LISTENER then []
         else if pka_plugin_is_disabled get_boolean plugin
         then [INFO ''Listener'' (ascii ''Listener plugin is disabled: '' @ txt)]
         else (case fst (pka_plugin_create p ag) of
                 Ok _ \<Rightarrow> []
               | Err e \<Rightarrow> [WARNING ''Listener'' (ascii ''Error creating listener: '' @ txt @ ascii '': '' @ me_create_error env e)]
               | Quiet \<Rightarrow>
                   [WARNING ''Listener'' (ascii ''Error creating listener: '' @ txt @ ascii '': unknown error'')]))"

fun creation_messages ::
  "main_env \<Rightarrow> (cstring \<Rightarrow> cstring \<Rightarrow> bool \<Rightarrow> bool) \<Rightarrow> agent \<Rightarrow> plugin_ref list \<Rightarrow> log_message list" where
  "creation_messages env get_boolean ag [] = []"
| "creation_messages env get_boolean ag (p # ps) =
     create_messages env get_boolean ag p @ creation_messages env get_boolean (create_listener get_boolean ag p) ps"

definition listen_messages :: "main_env \<Rightarrow> nat \<Rightarrow> log_message list" where
  "listen_messages env l =
     (if me_listens env l then []
      else [WARNING ''Listener'' (ascii ''Error starting listener: '' @
        (case me_listen_error env l of Some txt \<Rightarrow> txt | None \<Rightarrow> ascii ''unknown error''))])"

definition manager_messages :: "main_env \<Rightarrow> (cstring \<Rightarrow> cstring \<Rightarrow> bool \<Rightarrow> bool) \<Rightarrow> agent \<Rightarrow> log_message list" where
  "manager_messages env get_boolean ag =
     (let ag = ag\<lparr>ag_channels := [], ag_encoders := [], ag_listeners := [], ag_plugins := [], ag_sources := [],
                  ag_subscriptions := []\<rparr>;
          ag = pka_manager_load_plugins (me_module env) (plugin_files env) ag
      in concat (map (dir_messages env) (plugin_dirs env)) @
         creation_messages env get_boolean ag (ag_plugins ag) @
         concat (map (listen_messages env) (ag_listeners (foldl (create_listener get_boolean) ag (ag_plugins ag)))) @
         [DEBUG ''Source'' (ascii ''Registering PkaSourceSimple source.'')])"

record agent_process =
  ap_log :: pka_log
  ap_config :: pka_config
  ap_agent :: agent

text \<open>The agent when its main loop begins; \<open>Fault\<close>: it does not come so far.\<close>

definition main_init :: "main_env \<Rightarrow> agent_options \<Rightarrow> agent \<Rightarrow> agent_process outcome" where
  "main_init env opts ag =
     (let lg = pka_log_init (me_opens env) (me_nodename env) (opt_stdout opts) (opt_text (opt_logfile opts)) log_static
      in case pka_config_init (me_config env) (the (opt_text (opt_config opts))) config_static of
           (cf, logged) \<Rightarrow>
             (let get_boolean = pka_config_get_boolean (me_config env) cf
              in case g_logs (me_stamp env) (logged @ manager_messages env get_boolean ag) lg of
                   Value lg \<Rightarrow>
                     Value \<lparr>ap_log = lg, ap_config = cf,
                       ap_agent = pka_manager_init (me_module env) (plugin_files env) get_boolean (me_listens env) ag\<rparr>
                 | _ \<Rightarrow> Fault))"

text \<open>\<open>g_free\<close> of a literal gives the allocator a pointer that is not its own: \<open>Fault\<close>.\<close>

definition free_opt :: "opt_string \<Rightarrow> unit outcome" where
  "free_opt s = (case s of Literal _ \<Rightarrow> Fault | _ \<Rightarrow> Value ())"

definition main_shutdown :: "agent_process \<Rightarrow> agent_process" where
  "main_shutdown ap =
     \<lparr>ap_log = pka_log_shutdown (ap_log ap), ap_config = pka_config_shutdown (ap_config ap),
      ap_agent = pka_manager_shutdown (ap_agent ap)\<rparr>"

text \<open>The warning of the handler of SIGINT.\<close>

definition sigint_message :: log_message where
  "sigint_message = ([], LEVEL_WARNING, ascii ''SIGINT caught; shutting down gracefully.'')"

text \<open>
  \<open>parsed\<close>: None when the arguments cannot be parsed. \<open>run\<close>: what the main loop does until it is quit, with the messages
  that are logged from its begin to the end of the process. The result is the exit status, with the state at the end;
  \<open>Fault\<close>: the process does not exit by itself.
\<close>

definition agent_main ::
  "main_env \<Rightarrow> agent_options option \<Rightarrow> (agent \<Rightarrow> agent \<times> log_message list) \<Rightarrow> agent \<Rightarrow>
     (nat \<times> agent_process option) outcome" where
  "agent_main env parsed run ag =
     (case parsed of
        None \<Rightarrow> Value (1, None)
      | Some opts \<Rightarrow>
          (case main_init env opts ag of
             Value ap \<Rightarrow>
               (case run (ap_agent ap) of
                  (ag, logged) \<Rightarrow>
                    (case g_logs (me_stamp env) logged (ap_log ap) of
                       Value lg \<Rightarrow>
                         (let ap = main_shutdown (ap\<lparr>ap_agent := ag, ap_log := lg\<rparr>)
                          in case (free_opt (opt_config opts), free_opt (opt_logfile opts)) of
                               (Value _, Value _) \<Rightarrow> Value (0, Some ap)
                             | _ \<Rightarrow> Fault)
                     | _ \<Rightarrow> Fault))
           | _ \<Rightarrow> Fault))"

section \<open>What the log can take\<close>

text \<open>No message that ends the process; nothing is written, or every channel is there and the name of the host ends in its array.\<close>

definition survived :: "log_message \<Rightarrow> bool" where
  "survived msg \<longleftrightarrow> fst (snd msg) \<noteq> LEVEL_ERROR"

lemma survived [simp]: "survived (WARNING d x)" "survived (INFO d x)" "survived (DEBUG d x)"
  by (simp_all add: survived_def WARNING_def INFO_def DEBUG_def)

definition log_works :: "pka_log \<Rightarrow> bool" where
  "log_works lg \<longleftrightarrow> lg_channels lg = [] \<or> None \<notin> set (lg_channels lg) \<and> 0 \<in> set (lg_hostname lg)"

lemma written:
  "None \<notin> set channels \<Longrightarrow> \<exists>out. write_to_channels message channels lg = Value (lg\<lparr>lg_written := out\<rparr>)"
proof (induction channels arbitrary: lg)
  case Nil
  have "lg = lg\<lparr>lg_written := lg_written lg\<rparr>" by simp
  then show ?case by (metis write_to_channels.simps(1))
next
  case (Cons channel channels)
  then obtain ch where "channel = Some ch" by (cases channel) auto
  moreover obtain out where "write_to_channels message channels (lg\<lparr>lg_written := lg_written lg @ [(ch, message)]\<rparr>) =
      Value (lg\<lparr>lg_written := lg_written lg @ [(ch, message)]\<rparr>\<lparr>lg_written := out\<rparr>)"
    using Cons.IH [of "lg\<lparr>lg_written := lg_written lg @ [(ch, message)]\<rparr>"] Cons.prems by auto
  ultimately show ?case by (intro exI [of _ out]) (simp add: pka_log_write_to_channel_def)
qed

lemma not_written: "None \<in> set channels \<Longrightarrow> write_to_channels message channels lg = Fault"
  by (induction channels arbitrary: lg) (auto simp: pka_log_write_to_channel_def split: option.split outcome.split)

lemma logs_work:
  assumes "log_works lg" "list_all survived msgs"
  shows "\<exists>out. g_logs stamp msgs lg = Value (lg\<lparr>lg_written := out\<rparr>)"
  using assms
proof (induction msgs arbitrary: lg)
  case Nil
  have "lg = lg\<lparr>lg_written := lg_written lg\<rparr>" by simp
  then show ?case by (metis g_logs.simps(1))
next
  case (Cons msg msgs)
  obtain d level body ftime nsec thread where msg: "msg = (d, level, body)" "stamp (length (lg_written lg)) = (ftime, nsec, thread)"
    by (metis prod_cases3)
  have "\<exists>out. g_log stamp msg lg = Value (lg\<lparr>lg_written := out\<rparr>)"
  proof (cases "lg_handler lg \<and> lg_channels lg \<noteq> []")
    case False
    have "lg = lg\<lparr>lg_written := lg_written lg\<rparr>" by simp
    then show ?thesis using False Cons.prems(2)
      by (intro exI [of _ "lg_written lg"]) (auto simp: g_log_def msg pka_log_handler_def survived_def)
  next
    case True
    then have "None \<notin> set (lg_channels lg)" "0 \<in> set (lg_hostname lg)" using Cons.prems(1) by (simp_all add: log_works_def)
    then show ?thesis using True Cons.prems(2) written [of "lg_channels lg" _ lg]
      by (simp add: g_log_def msg pka_log_handler_def cstr_at_def Let_def survived_def)
  qed
  then obtain out where out: "g_log stamp msg lg = Value (lg\<lparr>lg_written := out\<rparr>)" ..
  have "log_works (lg\<lparr>lg_written := out\<rparr>)" using Cons.prems(1) by (simp add: log_works_def)
  from Cons.IH [OF this] Cons.prems(2) show ?case by (simp add: out)
qed

lemma log_dies:
  assumes "\<not> log_works lg" "lg_handler lg" "msgs \<noteq> []"
  shows "g_logs stamp msgs lg = Fault"
  using assms not_written [of "lg_channels lg" _ lg]
  by (cases msgs) (auto simp: g_log_def pka_log_handler_def log_works_def cstr_at_def Let_def split: prod.split)

lemma logged_at_start:
  assumes "pka_config_init cenv filename config_static = (cf, logged)"
  shows "cf_config cf = Some (ce_load cenv filename)" "logged \<noteq> []"
    "list_all survived logged"
  using assms
  by (auto simp: pka_config_init_def config_static_def Let_def pka_config_dump_def list_all_iff split: option.splits)

lemma survived_concat: "(\<And>x. list_all survived (f x)) \<Longrightarrow> list_all survived (concat (map f xs))"
  by (induction xs) simp_all

lemma survived_loading: "list_all survived (load_messages env path)" "list_all survived (dir_messages env dir)"
proof -
  show load: "list_all survived (load_messages env path)" for path by (simp add: load_messages_def split: option.split)
  show "list_all survived (dir_messages env dir)"
    by (auto simp: dir_messages_def load intro!: survived_concat split: sum.split)
qed

lemma survived_creating: "list_all survived (creation_messages env get_boolean ag ps)"
  by (induction ps arbitrary: ag) (simp_all add: create_messages_def Let_def split: ans.split)

lemma no_error_logged: "list_all survived (manager_messages env get_boolean ag)"
  by (auto simp: manager_messages_def Let_def survived_creating survived_loading listen_messages_def intro!: survived_concat)

section \<open>Which listeners there are\<close>

text \<open>The plugins that load, and those that the configuration lets listen.\<close>

definition loads :: "main_env \<Rightarrow> cstring \<Rightarrow> pka_plugin_info option" where
  "loads env path = (case me_module env path of
     Some info \<Rightarrow> if list_all g_ascii_isalnum (pi_id info) then Some info else None | None \<Rightarrow> None)"

definition listener_on :: "main_env \<Rightarrow> key_file \<Rightarrow> pka_plugin_info \<Rightarrow> bool" where
  "listener_on env kf info \<longleftrightarrow>
     pi_plugin_type info = PLUGIN_LISTENER \<and>
     (\<exists>txt. key_text kf (map g_ascii_tolower (take 31 (ascii ''listener.'' @ pi_id info))) (ascii ''disabled'') = Some txt \<and>
        \<not> ce_boolean (me_config env) txt)"

lemma plugin_loaded:
  "load_plugin (me_module env) ag path =
    (case loads env path of
       None \<Rightarrow> ag
     | Some info \<Rightarrow> ag\<lparr>ag_plugin_store := (ag_plugin_store ag)(ag_fresh ag := \<lparr>pl_info = Some info\<rparr>),
         ag_plugins := ag_plugins ag @ [ag_fresh ag], ag_fresh := ag_fresh ag + 1\<rparr>)"
proof (cases "loads env path")
  case None
  then show ?thesis
    by (auto simp: load_plugin_def pka_plugin_load_from_file_def loads_def split: option.splits if_splits)
next
  case (Some info)
  then have "pka_plugin_load_from_file (me_module env) pka_plugin_new path = (Ok (), \<lparr>pl_info = Some info\<rparr>)"
    by (auto simp: pka_plugin_load_from_file_def loads_def pka_plugin_new_def split: option.splits if_splits)
  then show ?thesis by (simp only: load_plugin_def Some prod.case ans.case option.case unit.case)
qed

lemma plugins_loaded:
  assumes "list_all (\<lambda>p. p < ag_fresh ag) (ag_plugins ag)"
  shows "let ag' = pka_manager_load_plugins (me_module env) files ag in map (pl_info \<circ> ag_plugin_store ag') (ag_plugins ag') =
      map (pl_info \<circ> ag_plugin_store ag) (ag_plugins ag) @ map Some (List.map_filter (loads env) files) \<and>
    ag_listeners ag' = ag_listeners ag"
  using assms unfolding pka_manager_load_plugins_def Let_def
proof (induction files arbitrary: ag)
  case (Cons path files)
  show ?case
  proof (cases "loads env path")
    case None
    then show ?thesis using Cons by (simp add: plugin_loaded)
  next
    case (Some info)
    let ?ag = "load_plugin (me_module env) ag path"
    have "list_all (\<lambda>p. p < ag_fresh ?ag) (ag_plugins ?ag)"
      using Cons.prems by (auto simp: plugin_loaded Some list_all_iff)
    moreover have "map (pl_info \<circ> ag_plugin_store ?ag) (ag_plugins ?ag) =
        map (pl_info \<circ> ag_plugin_store ag) (ag_plugins ag) @ [Some info]"
      using Cons.prems by (auto simp: plugin_loaded Some list_all_iff)
    ultimately show ?thesis using Cons.IH [of ?ag] by (simp add: plugin_loaded Some)
  qed
qed simp

lemma listener_enabled:
  assumes "cf_config cf = Some kf" "pl_info p = Some info"
  shows "pka_plugin_get_plugin_type p = PLUGIN_LISTENER \<and> \<not> pka_plugin_is_disabled (pka_config_get_boolean (me_config env) cf) p
    \<longleftrightarrow> listener_on env kf info"
  using assms
  by (auto simp: pka_plugin_get_plugin_type_def pka_plugin_is_disabled_def listener_on_def plugin_group_def
      pka_config_get_boolean_def pka_plugin_get_id_def ascii_def split: option.splits)

abbreviation turn_on :: "main_env \<Rightarrow> pka_config \<Rightarrow> agent \<Rightarrow> plugin_ref \<Rightarrow> agent" where
  "turn_on env cf \<equiv> create_listener (pka_config_get_boolean (me_config env) cf)"

definition makes_listener :: "pka_plugin_info \<Rightarrow> bool" where
  "makes_listener info \<longleftrightarrow> (\<exists>factory. pi_factory info = Some factory \<and> (\<forall>n. factory n = Ok Listener_Object))"

lemma listener_created:
  assumes "cf_config cf = Some kf" "pl_info (ag_plugin_store ag p) = Some info" "listener_on env kf info \<Longrightarrow> makes_listener info"
  shows "length (ag_listeners (turn_on env cf ag p)) = length (ag_listeners ag) + (if listener_on env kf info then 1 else 0) \<and>
    ag_plugin_store (turn_on env cf ag p) = ag_plugin_store ag"
proof (cases "listener_on env kf info")
  case False
  then have off: "\<not> (pka_plugin_get_plugin_type (ag_plugin_store ag p) = PLUGIN_LISTENER \<and>
      \<not> pka_plugin_is_disabled (pka_config_get_boolean (me_config env) cf) (ag_plugin_store ag p))"
    using listener_enabled [where env = env, OF assms(1,2)] by simp
  show ?thesis using False unfolding create_listener_def Let_def if_not_P [OF off] by simp
next
  case True
  then obtain factory where "pi_factory info = Some factory" "\<forall>n. factory n = Ok Listener_Object"
    using assms(3) by (auto simp: makes_listener_def)
  moreover have "pi_plugin_type info = PLUGIN_LISTENER" using True by (simp add: listener_on_def)
  ultimately show ?thesis
    using listener_enabled [where env = env, OF assms(1,2)] assms(2) True
    by (simp add: create_listener_def Let_def pka_plugin_create_def)
qed

lemma listeners_created:
  assumes "cf_config cf = Some kf" "map (pl_info \<circ> ag_plugin_store ag) ps = map Some infos"
    and "\<forall>info \<in> set infos. listener_on env kf info \<longrightarrow> makes_listener info"
  shows "length (ag_listeners (foldl (turn_on env cf) ag ps)) = length (ag_listeners ag) + length (filter (listener_on env kf) infos)"
  using assms(2,3)
proof (induction ps arbitrary: ag infos)
  case (Cons p ps)
  then obtain info rest where infos: "infos = info # rest" "pl_info (ag_plugin_store ag p) = Some info"
    "map (pl_info \<circ> ag_plugin_store ag) ps = map Some rest" by (cases infos) (simp_all add: comp_def)
  have made: "length (ag_listeners (turn_on env cf ag p)) = length (ag_listeners ag) + (if listener_on env kf info then 1 else 0)"
    "ag_plugin_store (turn_on env cf ag p) = ag_plugin_store ag"
    using listener_created [OF assms(1) infos(2)] Cons.prems(2) infos(1) by simp_all
  have "map (pl_info \<circ> ag_plugin_store (turn_on env cf ag p)) ps = map Some rest" using infos(3) by (simp add: made(2))
  then have "length (ag_listeners (foldl (turn_on env cf) (turn_on env cf ag p) ps)) =
      length (ag_listeners (turn_on env cf ag p)) + length (filter (listener_on env kf) rest)"
    by (rule Cons.IH) (use Cons.prems(2) in \<open>simp add: infos(1)\<close>)
  then show ?case using made(1) by (simp add: infos(1))
qed simp

lemma announced: "ag_listeners (foldl (\<lambda>ag l. if listens l then announce_plugins l ag else ag) ag ls) = ag_listeners ag"
  by (induction ls arbitrary: ag) (simp_all add: announce_plugins_def)

lemma listeners_at_start:
  assumes "cf_config cf = Some kf" "infos = List.map_filter (loads env) (plugin_files env)"
    and "\<forall>info \<in> set infos. listener_on env kf info \<longrightarrow> makes_listener info"
  shows "length (ag_listeners (pka_manager_init (me_module env) (plugin_files env) (pka_config_get_boolean (me_config env) cf)
    (me_listens env) ag)) = length (filter (listener_on env kf) infos)"
proof -
  let ?ag = "pka_manager_load_plugins (me_module env) (plugin_files env) (ag\<lparr>ag_channels := [], ag_encoders := [],
    ag_listeners := [], ag_plugins := [], ag_sources := [], ag_subscriptions := []\<rparr>)"
  have "map (pl_info \<circ> ag_plugin_store ?ag) (ag_plugins ?ag) = map Some infos" "ag_listeners ?ag = []"
    using plugins_loaded [of "ag\<lparr>ag_channels := [], ag_encoders := [], ag_listeners := [], ag_plugins := [], ag_sources := [],
      ag_subscriptions := []\<rparr>" env "plugin_files env"] by (simp_all add: assms(2) Let_def)
  then show ?thesis
    using listeners_created [OF assms(1) _ assms(3)]
    by (simp add: pka_manager_init_def pka_manager_init_listeners_def Let_def announced)
qed

text \<open>The options under which the log can be written.\<close>

definition log_usable :: "main_env \<Rightarrow> cstring option \<Rightarrow> bool \<Rightarrow> bool" where
  "log_usable env log stdout \<longleftrightarrow>
     (log = None \<and> \<not> stdout) \<or> ((\<forall>f. log = Some f \<longrightarrow> me_opens env f) \<and> 0 \<in> set (take 64 (me_nodename env)))"

lemma log_at_start:
  "log_works (pka_log_init (me_opens env) (me_nodename env) stdout log log_static) \<longleftrightarrow> log_usable env log stdout"
  "lg_handler (pka_log_init (me_opens env) (me_nodename env) stdout log log_static)"
  by (cases log; cases stdout; simp add: pka_log_init_def log_static_def log_works_def log_usable_def)+

lemma agent_started:
  assumes "opts = main_options sysconfdir conf log stdout"
    and "pka_config_init (me_config env) (the (opt_text (opt_config opts))) config_static = (cf, logged)"
  shows "log_usable env log stdout \<Longrightarrow> \<exists>ap. main_init env opts ag = Value ap \<and> log_works (ap_log ap) \<and>
      ap_agent ap = pka_manager_init (me_module env) (plugin_files env) (pka_config_get_boolean (me_config env) cf) (me_listens env) ag"
    and "\<not> log_usable env log stdout \<Longrightarrow> main_init env opts ag = Fault"
proof -
  let ?lg = "pka_log_init (me_opens env) (me_nodename env) stdout log log_static"
    and ?get = "pka_config_get_boolean (me_config env) cf"
  let ?msgs = "logged @ manager_messages env ?get ag"
  have "opt_stdout opts = stdout" "opt_text (opt_logfile opts) = log"
    by (simp_all add: assms(1) main_options_def split: option.split)
  then have main: "main_init env opts ag = (case g_logs (me_stamp env) ?msgs ?lg of
      Value lg \<Rightarrow> Value \<lparr>ap_log = lg, ap_config = cf,
        ap_agent = pka_manager_init (me_module env) (plugin_files env) ?get (me_listens env) ag\<rparr>
    | _ \<Rightarrow> Fault)"
    by (simp add: main_init_def Let_def assms(2))
  note start = logged_at_start [OF assms(2)]
  show "main_init env opts ag = Fault" if "\<not> log_usable env log stdout"
  proof -
    have "g_logs (me_stamp env) ?msgs ?lg = Fault"
      using start(2) that by (intro log_dies) (simp_all add: log_at_start)
    then show ?thesis using main by simp
  qed
  assume "log_usable env log stdout"
  then have works: "log_works ?lg" by (simp add: log_at_start)
  have "list_all survived ?msgs" using start(3) no_error_logged by simp
  then obtain out where "g_logs (me_stamp env) ?msgs ?lg = Value (?lg\<lparr>lg_written := out\<rparr>)"
    using logs_work [OF works] by blast
  moreover have "log_works (?lg\<lparr>lg_written := out\<rparr>)" using works by (simp add: log_works_def)
  ultimately show "\<exists>ap. main_init env opts ag = Value ap \<and> log_works (ap_log ap) \<and>
      ap_agent ap = pka_manager_init (me_module env) (plugin_files env) ?get (me_listens env) ag"
    using main by simp
qed

text \<open>
  C40: The configuration and the log decide who can reach the agent, and how it ends. The agent comes to its main loop
  exactly when its log can be written, as far as it has one: the file of \<open>--log\<close> can be opened and the name of the host
  is shorter than 64 bytes. Then there are as many listeners as plugins that load, are for listeners, and have a group in
  the configuration that says in so many words that they are not disabled, when the factories of those make listeners:
  with no configuration file, or no such group, nothing listens. And it exits only when the file was named on the command
  line besides: otherwise it frees a literal and dies. (The main loop logs no message of the level ERROR, which would end the
  process.)
\<close>

theorem agent_configured:
  assumes "opts = main_options sysconfdir conf log stdout" "kf = ce_load (me_config env) (the (opt_text (opt_config opts)))"
    and "infos = List.map_filter (loads env) (plugin_files env)" "\<forall>info \<in> set infos. listener_on env kf info \<longrightarrow> makes_listener info"
    and "\<And>ag'. list_all survived (snd (run ag'))"
  shows "((\<exists>ap. main_init env opts ag = Value ap \<and>
        length (ag_listeners (ap_agent ap)) = length (filter (listener_on env kf) infos)) \<longleftrightarrow> log_usable env log stdout) \<and>
    (main_init env opts ag = Fault \<longleftrightarrow> \<not> log_usable env log stdout) \<and>
    ((\<exists>ap. agent_main env (Some opts) run ag = Value (0, Some ap) \<and>
        ag_channels (ap_agent ap) = [] \<and> cf_config (ap_config ap) = None) \<longleftrightarrow> conf \<noteq> None \<and> log_usable env log stdout) \<and>
    (agent_main env (Some opts) run ag = Fault \<longleftrightarrow> conf = None \<or> \<not> log_usable env log stdout)"
proof -
  obtain cf logged where init: "pka_config_init (me_config env) (the (opt_text (opt_config opts))) config_static = (cf, logged)"
    by fastforce
  note started = agent_started [where ag = ag, OF assms(1) init] and dump = logged_at_start [OF init]
  show ?thesis
  proof (cases "log_usable env log stdout")
    case False
    then show ?thesis using started(2) by (simp add: agent_main_def)
  next
    case True
    then obtain ap where ap: "main_init env opts ag = Value ap" "log_works (ap_log ap)"
      "ap_agent ap = pka_manager_init (me_module env) (plugin_files env) (pka_config_get_boolean (me_config env) cf) (me_listens env) ag"
      using started(1) by blast
    have listeners: "length (ag_listeners (ap_agent ap)) = length (filter (listener_on env kf) infos)"
      unfolding ap(3) by (rule listeners_at_start) (use dump(1) assms(2-4) in simp_all)
    obtain ag' logged' where run: "run (ap_agent ap) = (ag', logged')" by fastforce
    obtain out where out: "g_logs (me_stamp env) logged' (ap_log ap) = Value ((ap_log ap)\<lparr>lg_written := out\<rparr>)"
      using logs_work [OF ap(2), of logged' "me_stamp env"] assms(5) [of "ap_agent ap"] run by auto
    have frees: "free_opt (opt_config opts) = (if conf = None then Fault else Value ())" "free_opt (opt_logfile opts) = Value ()"
      by (simp_all add: assms(1) main_options_def free_opt_def split: option.split)
    have "agent_main env (Some opts) run ag =
        (if conf = None then Fault
         else Value (0, Some (main_shutdown (ap\<lparr>ap_agent := ag', ap_log := (ap_log ap)\<lparr>lg_written := out\<rparr>\<rparr>))))"
      by (simp add: agent_main_def ap(1) run out Let_def frees)
    then show ?thesis
      using True listeners ap(1)
      by (simp add: main_shutdown_def pka_config_shutdown_def pka_manager_shutdown_def Let_def on_world_def)
  qed
qed

text \<open>With the D-Bus listener and a source as plugins: the file turns the listener on. The log goes to the standard output.\<close>

definition example_info :: "pka_plugin_type \<Rightarrow> g_object \<Rightarrow> string \<Rightarrow> pka_plugin_info" where
  "example_info ty x name =
     \<lparr>pi_factory = Some (\<lambda>_. Ok x), pi_plugin_type = ty, pi_id = ascii name, pi_name = [], pi_version = [],
      pi_description = [], pi_copyright = []\<rparr>"

definition example_main_env :: main_env where
  "example_main_env =
     \<lparr>me_config = \<lparr>ce_load = (\<lambda>f. if f = ascii ''/etc/perfkit/agent.conf''
          then [(ascii ''listener.dbus'', [(ascii ''disabled'', ascii ''false'')])] else []),
        ce_load_error = (\<lambda>_. None), ce_strloc = [],
        ce_string = Some, ce_integer = (\<lambda>_. 0), ce_boolean = (\<lambda>txt. txt = ascii ''true'')\<rparr>,
      me_opens = (\<lambda>_. False), me_nodename = replicate 65 0, me_stamp = (\<lambda>_. ([], 0, 1)), me_plugins_path = None,
      me_lib_dir = [1], me_read_dir = (\<lambda>_. Inr [ascii ''dbus.so'', ascii ''memory.so'', ascii ''memory.la'']),
      me_build = (\<lambda>_ name. name),
      me_module = (\<lambda>path. if path = ascii ''dbus.so'' then Some (example_info PLUGIN_LISTENER Listener_Object ''DBus'')
        else Some (example_info PLUGIN_SOURCE (Source_Object None) ''Memory'')),
      me_create_error = (\<lambda>_. []), me_listens = (\<lambda>_. True), me_listen_error = (\<lambda>_. None)\<rparr>"

lemma agent_configured_witness:
  "\<forall>ag. (\<exists>ap. main_init example_main_env (main_options (ascii ''/etc'') None None True) ag = Value ap \<and>
      length (ag_listeners (ap_agent ap)) = 1) \<and>
    agent_main example_main_env (Some (main_options (ascii ''/etc'') None None True)) (\<lambda>ag. (ag, [sigint_message])) ag = Fault"
proof (intro allI)
  fix ag
  let ?opts = "main_options (ascii ''/etc'') None None True" and ?run = "\<lambda>ag :: agent. (ag, [sigint_message])"
  let ?kf = "ce_load (me_config example_main_env) (the (opt_text (opt_config ?opts)))"
  let ?infos = "List.map_filter (loads example_main_env) (plugin_files example_main_env)"
  have files: "plugin_files example_main_env = [ascii ''dbus.so'', ascii ''memory.so'']"
    by (simp add: plugin_files_def plugin_dirs_def dir_files_def example_main_env_def is_module_def ascii_def)
  have infos: "?infos = [example_info PLUGIN_LISTENER Listener_Object ''DBus'', example_info PLUGIN_SOURCE (Source_Object None) ''Memory'']"
    unfolding files by (simp add: loads_def example_main_env_def example_info_def ascii_def g_ascii_isalnum_def)
  have on: "listener_on example_main_env ?kf (example_info PLUGIN_LISTENER Listener_Object ''DBus'')"
    "\<not> listener_on example_main_env ?kf (example_info PLUGIN_SOURCE (Source_Object None) ''Memory'')"
    by (simp_all add: listener_on_def key_text_def example_main_env_def example_info_def main_options_def ascii_def
        g_ascii_tolower_def)
  have makes: "\<forall>info \<in> set ?infos. listener_on example_main_env ?kf info \<longrightarrow> makes_listener info"
    unfolding infos by (simp add: on makes_listener_def) (simp add: example_info_def)
  have usable: "log_usable example_main_env None True" by (simp add: log_usable_def example_main_env_def)
  have quiet: "list_all survived (snd (?run ag'))" for ag'
    by (simp add: sigint_message_def survived_def)
  from agent_configured [OF refl refl refl makes quiet, of ag] usable
  show "(\<exists>ap. main_init example_main_env ?opts ag = Value ap \<and> length (ag_listeners (ap_agent ap)) = 1) \<and>
      agent_main example_main_env (Some ?opts) ?run ag = Fault"
    by (simp add: infos on)
qed

end
