(* ===== verification/Spec2Isabelle.thy ===== *)
theory Spec2Isabelle
  imports Wire_Protocol Agent_Registry Sampler_Runs Shell_Delivery Pk_Objects Source_Mistyped
    Uber_Buffers Ppg_Model_Properties Ppg_Session_Properties Ppg_Instrument_Properties Egg_Fmt
    Agent_Process
begin

text \<open>
  Perfkit measures a running system. An agent (\<open>perfkit-agent\<close>) starts processes, runs data sources next to them,
  and hands what the sources produce to subscribers; client programs use the library \<open>perfkit\<close> to steer
  the agent and to receive manifests and samples. The two talk over D-Bus: remote procedure calls from
  client to agent, and a private connection on which the agent delivers. This development models that core:
  the wire format, the agent, the two ends of the bus, and the client's decoding.

  The parts and their theories, in the order of the imports:

  \<^item> \<open>Prelude\<close>: names of the machine types (a \<open>gint\<close> is a 32-bit word, a C string a list of bytes), the
    results of code that reads memory (\<open>outcome\<close>: a value, a failure that the code reports, or \<open>Fault\<close>, an access
    outside a block), state-passing readers, and the locale \<open>reader_safety\<close> of readers that do not fault.
    \<open>Boxed\<close>: the locale of reference-counted values that manifests, samples and buffers instantiate.

  \<^item> The wire format. \<open>Egg_Time\<close> (cut-n-paste/egg-time.h): \<open>timespec\<close> arithmetic. \<open>Egg_Buffer\<close>
    (cut-n-paste/egg-buffer.c): the buffer, one definition per function, blocks of memory explicit; \<open>Egg_Codec\<close>:
    its lemmas (round trips, width of varints, no read leaves the buffer). \<open>Wire_Types\<close>: GTypes (their numbers are a
    parameter), values, resolutions. \<open>Pka_Manifest\<close>, \<open>Pka_Sample\<close>, \<open>Pka_Encoder\<close> (perfkit-agent/pka-manifest.c,
    pka-sample.c, pka-encoder.c): the agent's side. \<open>Pk_Manifest\<close>, \<open>Pk_Sample\<close> (perfkit/pk-manifest.c,
    pk-sample.c): the client's decoders, their safety on arbitrary bytes, the types of what they accept. The type of a
    row is a number from the wire; one that the client does not know makes the decoder of samples fault
    (\<open>type_known\<close>).
    \<open>Wire_Protocol\<close>: what the agent encodes the client decodes.

  \<^item> The agent. \<open>Agent_World\<close>: contexts, spawn information, and the state of the run-time objects (\<open>world\<close>:
    channels, sources, subscriptions, the queue of the GLib main loop, the processes spawned and killed).
    \<open>Pka_Subscription\<close>, \<open>Pka_Source\<close>, \<open>Pka_Subscribe\<close>, \<open>Pka_Channel\<close>: the operations of
    perfkit-agent/pka-subscription.c, pka-source.c, pka-channel.c (the calls in both directions between subscriptions
    and sources are why the first three are not one theory each per file). \<open>Agent_Protocol\<close>: the step relation of the
    operations and its invariants; \<open>Agent_Properties\<close>, \<open>Subscriber_Properties\<close>: the life cycles of
    channels and sources, killing, delivery, reference counts. \<open>Pka_Manager\<close>, \<open>Pka_Registry\<close>,
    \<open>Pka_Listener\<close> (pka-plugin.c, pka-manager.c, pka-listener.c): plugins, the arrays of objects, and the remote
    procedures, each with the half that stores its arguments (\<open>async\<close>) and the half that runs (\<open>finish\<close>).
    \<open>Agent_Calls\<close>, \<open>Agent_Safety\<close>, \<open>Agent_Service\<close>: memory safety of any sequence of calls, and the call
    that breaks it; \<open>Agent_Registry\<close>: the arrays refine finite maps (locales \<open>registry\<close> and
    \<open>removable_registry\<close>, interpreted for channels, sources and subscriptions); \<open>Agent_Progress\<close>: what is queued
    is emitted, in order, and shutting down. \<open>Agent_Process\<close> (main.c, pka-config.c, pka-log.c): how the process
    begins and ends, its configuration, the messages that it logs until its main loop begins and what becomes of them,
    and which listeners it has.

  \<^item> The bus. \<open>DBus_Wire\<close>: messages, replies, object paths printed and scanned, the hash tables of handlers.
    \<open>Pka_Listener_DBus\<close> (perfkit-agent/listeners/pka-listener-dbus.c) and \<open>Pk_Connection_DBus\<close>
    (perfkit/connections/pk-connection-dbus.c): the two ends, one definition per message handler, callback and
    procedure. \<open>DBus_RPC\<close>: a call over the bus is the procedure itself. \<open>Client_Delivery\<close>: the client under any
    messages. \<open>End_To_End\<close>: from the encoder to the client's closures.

  \<^item> The client library. \<open>Pk_Connection_Sync\<close>: the blocking calls of perfkit/pk-connection.c as a step relation of
    the calling thread and the main loop, with its outcome (\<open>sync_outcome\<close>) as a function. \<open>Pk_Connection\<close>: the rest
    of that file, four functions for each remote procedure (blocking, \<open>_async\<close>, \<open>_finish\<close>, \<open>_cb\<close>), setting handlers,
    connecting, and the choice of a connection from an address. \<open>Library_Calls\<close>: a blocking call of the library is
    the procedure of the agent. \<open>Pk_Objects\<close> (pk-channel.c, pk-source.c, pk-encoder.c, pk-plugin.c,
    pk-subscription.c, pk-manager.c): the objects over the connection.

  \<^item> Sampling. \<open>Pka_Source_Simple\<close> (perfkit-agent/pka-source-simple.c): the sources that one thread samples when
    their time has come, and what the notices of a channel do to them. \<open>Sampler_Properties\<close>: what a turn of
    the thread does; \<open>Sampler_Runs\<close>: the rate of sampling in every run, and the two ways to lose it.

  \<^item> The shell. \<open>Egg_Line\<close> (cut-n-paste/egg-line.c): tables of commands, variables, lines and files of lines.
    \<open>Perfkit_Shell\<close> (tools/perfkit-shell.c): the commands, each with its callback, and the tables.
    \<open>Egg_Fmt\<close> (cut-n-paste/egg-fmt.c): its formatters of rows, and how a table is laid out.
    \<open>Shell_Properties\<close>: a command that is typed runs the procedure of the agent; \<open>Shell_Delivery\<close>: what is printed
    of the samples.

  \<^item> \<open>Data_Sources\<close>: the plugins that read \<open>/proc\<close> (processors, memory, network devices, scheduler), from the text of
    a file, with what is in the buffers before, to the manifests and samples that are delivered.
    \<open>Source_Properties\<close>: what a client decodes of processors and memory is what the kernel prints.
    \<open>Source_Mistyped\<close>: the other two have other types in their samples than in their manifests.

  \<^item> Showing values. \<open>Ring_Buffers\<close> (uber/g-ring.c) and \<open>Uber_Buffers\<close> (cut-n-paste/uber-buffer.c): the circular
    buffers behind the graphs, both interpretations of the locale \<open>recent_values\<close> (the newest value has age 0).
    \<open>Ppg_Model\<close>: the profiler's store of samples (perfkit-profiler/ppg-model.c), its iterators and columns, the
    columns of processors (ppg-cpu-instrument.c), and the points of a line (ppg-line-visualizer.c);
    \<open>Ppg_Model_Properties\<close>: what an iterator sees. \<open>Ppg_Instruments\<close> (ppg-instrument.c, ppg-cpu-instrument.c,
    ppg-memory-instrument.c, ppg-color.c): the instruments, which have the agent make a source and a subscription and
    keep what comes in stores; \<open>Ppg_Instrument_Properties\<close>: the lines of the processors, from what the kernel prints.

  \<^item> Steering from the profiler. \<open>Ppg_Session\<close> (perfkit-profiler/ppg-session.c, ppg-task.c, ppg-restart-task.c,
    ppg-edit-channel-task.c): the session, which starts, pauses and stops one channel, the tasks that restart a channel
    and set what it runs, and the main loop between the requests and the agent: that the agent serves a request and that
    the session hears the answer are two steps. \<open>Ppg_Session_Properties\<close>: how the session follows its channel
    and lags behind it, its position, and when the task ends.

  How the code is rendered. An object is an address in a store of records (\<open>source_ref\<close>,
  \<open>channel_ref\<close>, \<open>sub_ref\<close>); using a subscription after it was freed sets
  \<open>w_fault\<close>, and reading the key of a freed handler sets \<open>ht_fault\<close>. A connection is
  known to the library by its class, which says what methods are set. A function with a \<open>GError\<close>
  returns \<open>ans\<close>: \<open>Ok\<close>, \<open>Err\<close> with the error, or \<open>Quiet\<close>,
  FALSE with no error set. A lock is not modelled: each operation is one step, except where the code gives the
  lock up in between and that matters, where it is two (\<open>channel_start_locked\<close> and
  \<open>notify_sources\<close>, \<open>add_subscription_locked\<close> and
  \<open>add_subscription_deliver\<close>). A GLib timeout is an entry of \<open>w_queue\<close>. Integers keep
  their width, with two exceptions: times (\<open>tv_sec\<close>, \<open>tv_nsec\<close>,
  \<open>GTimeVal\<close>) and process identifiers are unbounded.

  What is a parameter: GType numbers (\<open>gtypes_ok\<close>), \<open>g_array_sort\<close>
  (\<open>permutes\<close>, \<open>sorts_by_id\<close>), \<open>g_spawn_async\<close>, the objects that a
  plugin's factory makes, the temporary directory and the clock, the conversions between times and ISO 8601
  strings, \<open>g_shell_parse_argv\<close>, \<open>g_ptr_array_sort\<close>, the format \<open>%f\<close>,
  whether the bus, a socket or a directory can be had, and the modules that the plugin loader finds. An answer
  that does not come is the error that the bus library makes up for it.

  The shell is a state with everything it touches: the line object, the agent and the listener at the other end
  of the bus, the connection object, what was printed. A callback of a command may wait for ever or die
  (\<open>callback_end\<close>). The sampler has the readings of the clock as a parameter, one per call of
  \<open>clock_gettime\<close>; its thread may wake at any time.

  Bounds and termination. A file of commands may load files, so that \<open>egg_line_execute_file\<close> has
  the depth of the stack as an argument, and \<open>Too_Deep\<close> as a result when it is used up. A column of
  the profiler's store may be computed from others: the depth of that is an argument too, and 1 is enough for
  the processors, whose one computed column asks for counters. All functions are total but one: the client's
  loop over the samples of a message is a \<open>partial_function\<close>, and
  \<open>delivery_terminates\<close> shows that it returns, for a client that sets the handlers of a subscription once. The decoders recurse on the bytes that are left.
  Buffers are shorter than \<open>2 ^ 32\<close> bytes (a D-Bus array has at most \<open>2 ^ 26\<close>);
  statements about reference counts bound the number of calls by \<open>2 ^ 31\<close>, and those about
  identifiers by \<open>2 ^ 32\<close>, where the counters of the code wrap around.

  What the properties show. Round trips: integers, strings, floats, tags, manifests and samples over the wire,
  and from encoder to closure over the bus, and what the kernel prints of the processors up to the lines that
  the profiler draws. Invariants: the profiler's session and its channel. Safety: decoders on arbitrary bytes,
  remote procedures in any order, killing only by the numbers of what was spawned. Life cycles: channels along their state graph,
  sources told of start and stop in alternation. Equivalence: a call of the client library and a direct one.
  Refinement: the registry and finite maps. Types: decoded values and manifests. Termination and progress: the
  client's loop, starting a channel, the return of a blocking call. And what the code gets wrong, as theorems:
  times of old samples, a process that is not started again, a kill of a reaped pid, subscriptions and handlers
  that are used after they were freed, procedures that ask for channel 0, blocking calls that deadlock or return
  early, objects that never have a connection, a session that misses the end of its process and loses its
  position, a task that never ends.

  Simplified: shutting down passes NULL as the context of \<open>pka_channel_stop\<close>, which only logs its number; the
  model passes the default context. The shell's blocking calls assume that no wait is woken too early
  (\<open>async_task_wait\<close>), while those of the library have that case. The messages that are logged after the main loop
  of the agent has begun are a parameter of \<open>agent_main\<close>, and leave no trace in the operations themselves.

  Not modelled: the main function of the shell; what GLib reads of options and configuration files; the sources of GTK
  events (gdkevent.c, which does nothing, and gdkevent-module.c, which prints a line for each event inside the traced
  program); the graphical client, which is a GTK program over the library, and of the profiler what lays out and
  draws (windows, rows, rulers, menus, dialogs); the graph widgets; the vendored gdatetime.c. Freeing of objects other
  than subscriptions and handlers, and class set-up, are left out in the modelled files. The bus library's checks of
  strings and running out of memory are left out.
\<close>

end
